(* ===== verification/Go_Lib.thy ===== *)
theory Go_Lib
  imports Main "HOL-Library.Sublist" "HOL-Library.List_Lexorder" "HOL-Library.Char_ord"
begin

text \<open>
  The prelude of the development: the part of the Go language and of its standard library that
  the modelled sources call.  A Go string is its byte sequence, so it is a HOL \<^typ>\<open>string\<close> with
  one \<^typ>\<open>char\<close> per byte; \<open>len\<close>, indexing, slicing and \<open>sort.Strings\<close> (bytewise lexicographic
  order) read the same on both sides.  The functions of the packages \<open>strings\<close>, \<open>path\<close> and
  \<open>strconv\<close> follow their documentation; white space is Unicode white space, recognised by its
  UTF-8 encoding.  A Go map is an association list with strictly increasing keys, the order in
  which the sources iterate.  The generic lemmas that the components share are collected here.
\<close>

named_theorems go_norm \<open>facts on normal forms of strings and paths\<close>
named_theorems go_map \<open>laws of lookup, update and removal on sorted association lists\<close>

section \<open>White space and trimming\<close>

text \<open>The UTF-8 encodings of the runes for which \<open>unicode.IsSpace\<close> holds.\<close>

definition space_encodings :: "string list" where
  "space_encodings =
     [[CHR 0x20], [CHR 0x09], [CHR 0x0A], [CHR 0x0B], [CHR 0x0C], [CHR 0x0D],
      [CHR 0xC2, CHR 0x85], [CHR 0xC2, CHR 0xA0],
      [CHR 0xE1, CHR 0x9A, CHR 0x80],
      [CHR 0xE2, CHR 0x80, CHR 0x80], [CHR 0xE2, CHR 0x80, CHR 0x81],
      [CHR 0xE2, CHR 0x80, CHR 0x82], [CHR 0xE2, CHR 0x80, CHR 0x83],
      [CHR 0xE2, CHR 0x80, CHR 0x84], [CHR 0xE2, CHR 0x80, CHR 0x85],
      [CHR 0xE2, CHR 0x80, CHR 0x86], [CHR 0xE2, CHR 0x80, CHR 0x87],
      [CHR 0xE2, CHR 0x80, CHR 0x88], [CHR 0xE2, CHR 0x80, CHR 0x89],
      [CHR 0xE2, CHR 0x80, CHR 0x8A], [CHR 0xE2, CHR 0x80, CHR 0xA8],
      [CHR 0xE2, CHR 0x80, CHR 0xA9], [CHR 0xE2, CHR 0x80, CHR 0xAF],
      [CHR 0xE2, CHR 0x81, CHR 0x9F], [CHR 0xE3, CHR 0x80, CHR 0x80]]"

definition leading_space :: "string \<Rightarrow> string option" where
  "leading_space s = find (\<lambda>w. prefix w s) space_encodings"

definition trailing_space :: "string \<Rightarrow> string option" where
  "trailing_space s = find (\<lambda>w. suffix w s) space_encodings"

lemma space_encodings_nonempty: "w \<in> set space_encodings \<Longrightarrow> w \<noteq> []"
  by (auto simp: space_encodings_def)

lemma leading_space_Some:
  "leading_space s = Some w \<Longrightarrow> prefix w s \<and> w \<in> set space_encodings"
  unfolding leading_space_def find_Some_iff by auto

lemma trailing_space_Some:
  "trailing_space s = Some w \<Longrightarrow> suffix w s \<and> w \<in> set space_encodings"
  unfolding trailing_space_def find_Some_iff by auto

lemma leading_space_None: "leading_space s = None \<longleftrightarrow> (\<forall>w\<in>set space_encodings. \<not> prefix w s)"
  by (auto simp: leading_space_def find_None_iff)

lemma trailing_space_None: "trailing_space s = None \<longleftrightarrow> (\<forall>w\<in>set space_encodings. \<not> suffix w s)"
  by (auto simp: trailing_space_def find_None_iff)

lemma leading_space_shrinks: "leading_space s = Some w \<Longrightarrow> length s - length w < length s"
proof -
  assume "leading_space s = Some w"
  then have "prefix w s" and "w \<noteq> []"
    using leading_space_Some space_encodings_nonempty by blast+
  then have "0 < length w" and "length w \<le> length s"
    by (auto dest: prefix_length_le)
  then show ?thesis by (simp del: length_greater_0_conv)
qed

lemma trailing_space_shrinks: "trailing_space s = Some w \<Longrightarrow> length s - length w < length s"
proof -
  assume "trailing_space s = Some w"
  then have "suffix w s" and "w \<noteq> []"
    using trailing_space_Some space_encodings_nonempty by blast+
  then have "0 < length w" and "length w \<le> length s"
    by (auto dest: suffix_length_le)
  then show ?thesis by (simp del: length_greater_0_conv)
qed

function trim_left_space :: "string \<Rightarrow> string" where
  "trim_left_space s =
     (case leading_space s of None \<Rightarrow> s | Some w \<Rightarrow> trim_left_space (drop (length w) s))"
  by pat_completeness auto
termination
  by (relation "measure length") (auto dest: leading_space_shrinks)

function trim_right_space :: "string \<Rightarrow> string" where
  "trim_right_space s =
     (case trailing_space s of None \<Rightarrow> s
      | Some w \<Rightarrow> trim_right_space (take (length s - length w) s))"
  by pat_completeness auto
termination
  by (relation "measure length") (auto dest: trailing_space_shrinks)

declare trim_left_space.simps [simp del] trim_right_space.simps [simp del]

text \<open>\<open>strings.TrimSpace\<close>.\<close>

definition trim_space :: "string \<Rightarrow> string" where
  "trim_space s = trim_right_space (trim_left_space s)"

lemma trim_left_space_id: "leading_space s = None \<Longrightarrow> trim_left_space s = s"
  by (subst trim_left_space.simps) simp

lemma trim_right_space_id: "trailing_space s = None \<Longrightarrow> trim_right_space s = s"
  by (subst trim_right_space.simps) simp

lemma leading_space_trim_left: "leading_space (trim_left_space s) = None"
  by (induction s rule: trim_left_space.induct)
    (subst trim_left_space.simps, auto split: option.splits)

lemma trailing_space_trim_right: "trailing_space (trim_right_space s) = None"
  by (induction s rule: trim_right_space.induct)
    (subst trim_right_space.simps, auto split: option.splits)

lemma prefix_trim_right: "prefix (trim_right_space s) s"
proof (induction s rule: trim_right_space.induct)
  case (1 s)
  show ?case
  proof (cases "trailing_space s")
    case None
    then show ?thesis by (simp add: trim_right_space_id)
  next
    case (Some w)
    then have "prefix (trim_right_space (take (length s - length w) s)) (take (length s - length w) s)"
      by (rule "1")
    then show ?thesis
      using Some by (subst trim_right_space.simps) (auto intro: prefix_order.order_trans take_is_prefix)
  qed
qed

lemma suffix_trim_left: "suffix (trim_left_space s) s"
proof (induction s rule: trim_left_space.induct)
  case (1 s)
  show ?case
  proof (cases "leading_space s")
    case None
    then show ?thesis by (simp add: trim_left_space_id)
  next
    case (Some w)
    then have "suffix (trim_left_space (drop (length w) s)) (drop (length w) s)"
      by (rule "1")
    then show ?thesis
      using Some by (subst trim_left_space.simps) (auto intro: suffix_order.order_trans suffix_drop)
  qed
qed

lemma leading_space_prefix: "leading_space s = None \<Longrightarrow> prefix t s \<Longrightarrow> leading_space t = None"
  by (auto simp: leading_space_None intro: prefix_order.order_trans)

lemma leading_space_trim_space [simp]: "leading_space (trim_space s) = None"
  unfolding trim_space_def
  by (rule leading_space_prefix[OF leading_space_trim_left prefix_trim_right])

lemma trailing_space_trim_space [simp]: "trailing_space (trim_space s) = None"
  by (simp add: trim_space_def trailing_space_trim_right)

lemma trim_space_id: "leading_space s = None \<Longrightarrow> trailing_space s = None \<Longrightarrow> trim_space s = s"
  by (simp add: trim_space_def trim_left_space_id trim_right_space_id)

lemma trim_space_idem [simp, go_norm]: "trim_space (trim_space s) = trim_space s"
  by (rule trim_space_id) simp_all

lemma trim_space_id_iff: "trim_space s = s \<longleftrightarrow> leading_space s = None \<and> trailing_space s = None"
  by (metis leading_space_trim_space trailing_space_trim_space trim_space_id)

lemma set_trim_space: "set (trim_space s) \<subseteq> set s"
proof -
  have "set (trim_right_space (trim_left_space s)) \<subseteq> set (trim_left_space s)"
    by (rule set_mono_prefix[OF prefix_trim_right])
  also have "\<dots> \<subseteq> set s"
    by (rule set_mono_suffix[OF suffix_trim_left])
  finally show ?thesis by (simp add: trim_space_def)
qed

lemma length_trim_space: "length (trim_space s) \<le> length s"
  unfolding trim_space_def
  by (meson order_trans prefix_length_le prefix_trim_right suffix_length_le suffix_trim_left)

lemma trim_space_Nil [simp]: "trim_space [] = []"
  using length_trim_space[of "[]"] by simp

text \<open>Bytes that no encoding of a white space rune starts or ends with.\<close>

definition visible_byte :: "char \<Rightarrow> bool" where
  "visible_byte c = (\<forall>w\<in>set space_encodings. hd w \<noteq> c \<and> last w \<noteq> c)"

lemma leading_space_visible: "visible_byte c \<Longrightarrow> leading_space (c # s) = None"
  by (auto simp: leading_space_None visible_byte_def prefix_Cons dest: space_encodings_nonempty)

lemma trailing_space_visible: "visible_byte c \<Longrightarrow> trailing_space (s @ [c]) = None"
proof -
  assume v: "visible_byte c"
  have False if "w \<in> set space_encodings" "suffix w (s @ [c])" for w
  proof -
    have "w \<noteq> []" using that space_encodings_nonempty by blast
    with that(2) have "last w = last (s @ [c])" by (metis last_appendR suffix_def)
    then have "last w = c" by simp
    with v that show False by (auto simp: visible_byte_def)
  qed
  then show ?thesis by (auto simp: trailing_space_None)
qed

lemma trim_space_visible:
  "visible_byte (hd s) \<Longrightarrow> visible_byte (last s) \<Longrightarrow> trim_space s = s"
proof (cases "s = []")
  case False
  assume v: "visible_byte (hd s)" "visible_byte (last s)"
  have "leading_space s = None"
    using leading_space_visible[OF v(1), of "tl s"] False by simp
  moreover have "trailing_space s = None"
    using trailing_space_visible[OF v(2), of "butlast s"] False by simp
  ultimately show ?thesis by (rule trim_space_id)
qed simp

text \<open>The bytes the sources use as delimiters are visible.\<close>

lemma visible_bytes [simp]:
  "visible_byte (CHR ''/'')" "visible_byte (CHR ''.'')" "visible_byte (CHR ''_'')"
  "visible_byte (CHR ''{'')" "visible_byte (CHR ''}'')" "visible_byte (CHR ''~'')"
  by (simp_all add: visible_byte_def space_encodings_def)

section \<open>Cutting and joining strings\<close>

text \<open>\<open>strings.TrimPrefix\<close>, \<open>strings.TrimSuffix\<close> and \<open>strings.Trim\<close> with a one-byte cutset.\<close>

definition trim_prefix :: "string \<Rightarrow> string \<Rightarrow> string" where
  "trim_prefix s p = (if prefix p s then drop (length p) s else s)"

definition trim_suffix :: "string \<Rightarrow> string \<Rightarrow> string" where
  "trim_suffix s p = (if suffix p s then take (length s - length p) s else s)"

definition trim_char :: "string \<Rightarrow> char \<Rightarrow> string" where
  "trim_char s c = rev (dropWhile (\<lambda>x. x = c) (rev (dropWhile (\<lambda>x. x = c) s)))"

text \<open>\<open>strings.Split\<close> with a one-byte separator and \<open>strings.Join\<close>.\<close>

fun split_on :: "char \<Rightarrow> string \<Rightarrow> string list" where
  "split_on c [] = [[]]"
| "split_on c (x # xs) =
     (if x = c then [] # split_on c xs
      else case split_on c xs of [] \<Rightarrow> [[x]] | y # ys \<Rightarrow> (x # y) # ys)"

fun join_with :: "string \<Rightarrow> string list \<Rightarrow> string" where
  "join_with sep [] = []"
| "join_with sep [x] = x"
| "join_with sep (x # y # ys) = x @ sep @ join_with sep (y # ys)"

lemma split_on_nonempty [simp]: "split_on c s \<noteq> []"
  by (induction s) (auto split: list.splits)

lemma split_on_no_sep [go_norm]: "c \<notin> set s \<Longrightarrow> split_on c s = [s]"
  by (induction s) auto

lemma split_on_segment: "x \<in> set (split_on c s) \<Longrightarrow> c \<notin> set x"
  by (induction s arbitrary: x) (auto split: list.splits if_splits)

lemma split_on_set: "x \<in> set (split_on c s) \<Longrightarrow> set x \<subseteq> set s"
proof (induction s arbitrary: x)
  case (Cons a s)
  then show ?case
    by (cases "split_on c s") (fastforce split: if_splits)+
qed simp

lemma split_on_append_sep: "c \<notin> set x \<Longrightarrow> split_on c (x @ c # s) = x # split_on c s"
  by (induction x) auto

lemma join_split [simp, go_norm]: "join_with [c] (split_on c s) = s"
proof (induction s)
  case (Cons x s)
  then show ?case
    by (cases "split_on c s"; cases "tl (split_on c s)") auto
qed simp

lemma split_join [go_norm]:
  "xs \<noteq> [] \<Longrightarrow> \<forall>x\<in>set xs. c \<notin> set x \<Longrightarrow> split_on c (join_with [c] xs) = xs"
  by (induction "[c]" xs rule: join_with.induct) (auto simp: split_on_no_sep split_on_append_sep)

lemma set_join_with: "set (join_with sep xs) \<subseteq> set sep \<union> \<Union> (set ` set xs)"
  by (induction sep xs rule: join_with.induct) auto

lemma join_with_Cons: "xs \<noteq> [] \<Longrightarrow> join_with sep (x # xs) = x @ sep @ join_with sep xs"
  by (cases xs) auto

lemma join_with_append:
  "xs \<noteq> [] \<Longrightarrow> ys \<noteq> [] \<Longrightarrow> join_with sep (xs @ ys) = join_with sep xs @ sep @ join_with sep ys"
  by (induction sep xs rule: join_with.induct) (auto simp: join_with_Cons)

lemma join_with_eq_Nil: "(\<forall>x\<in>set xs. x \<noteq> []) \<Longrightarrow> join_with sep xs = [] \<longleftrightarrow> xs = []"
  by (cases xs; cases "tl xs") auto

text \<open>\<open>strings.ReplaceAll\<close>: for an empty pattern Go inserts the replacement between the runes,
  which no modelled source asks for, so that case returns the string.\<close>

function replace_all :: "string \<Rightarrow> string \<Rightarrow> string \<Rightarrow> string" where
  "replace_all s old new =
     (if old = [] then s
      else if prefix old s then new @ replace_all (drop (length old) s) old new
      else case s of [] \<Rightarrow> [] | x # xs \<Rightarrow> x # replace_all xs old new)"
  by pat_completeness auto
termination
proof (relation "measure (\<lambda>(s, old, new). length s)", goal_cases)
  case (2 s old new)
  then have "0 < length old" and "length old \<le> length s"
    by (auto dest: prefix_length_le)
  then show ?case by (simp del: length_greater_0_conv)
qed auto

declare replace_all.simps [simp del]

lemma replace_all_Nil [simp]: "replace_all [] old new = []"
  by (subst replace_all.simps) auto

lemma replace_all_char:
  "replace_all s [c] new = concat (map (\<lambda>x. if x = c then new else [x]) s)"
proof (induction s)
  case (Cons x s)
  then show ?case by (subst replace_all.simps) auto
qed simp

text \<open>\<open>strings.Fields\<close>: the maximal runs without white space.\<close>

function fields_from :: "string \<Rightarrow> string \<Rightarrow> string list" where
  "fields_from cur s =
     (case leading_space s of
        Some w \<Rightarrow> (if cur = [] then fields_from [] (drop (length w) s)
                   else cur # fields_from [] (drop (length w) s))
      | None \<Rightarrow> (case s of [] \<Rightarrow> (if cur = [] then [] else [cur])
                  | x # xs \<Rightarrow> fields_from (cur @ [x]) xs))"
  by pat_completeness auto
termination
  by (relation "measure (\<lambda>(cur, s). length s)") (auto dest: leading_space_shrinks)

declare fields_from.simps [simp del]

definition string_fields :: "string \<Rightarrow> string list" where
  "string_fields s = fields_from [] s"

lemma prefix_snoc_iff:
  "prefix (p @ [c]) q \<longleftrightarrow> prefix p q \<and> length p < length q \<and> q ! length p = c"
proof
  assume "prefix (p @ [c]) q"
  then obtain t where "q = p @ c # t" by (auto simp: prefix_def)
  then show "prefix p q \<and> length p < length q \<and> q ! length p = c" by simp
next
  assume "prefix p q \<and> length p < length q \<and> q ! length p = c"
  then show "prefix (p @ [c]) q" using append_one_prefix by metis
qed

lemma prefix_iff_extend: "prefix xs ys \<longleftrightarrow> xs = ys \<or> (\<exists>zs. zs \<noteq> [] \<and> ys = xs @ zs)"
  by (auto simp: prefix_def)

section \<open>Decimal numbers\<close>

definition int64_max :: int where "int64_max = 9223372036854775807"
definition int64_min :: int where "int64_min = - 9223372036854775808"

text \<open>Arithmetic on \<open>int\<close> wraps around.\<close>

definition wrap64 :: "int \<Rightarrow> int" where
  "wrap64 i = (i - int64_min) mod 2 ^ 64 + int64_min"

definition in_int64 :: "int \<Rightarrow> bool" where
  "in_int64 i = (int64_min \<le> i \<and> i \<le> int64_max)"

definition is_digit_byte :: "char \<Rightarrow> bool" where
  "is_digit_byte c = (CHR ''0'' \<le> c \<and> c \<le> CHR ''9'')"

definition digit_value :: "char \<Rightarrow> nat" where
  "digit_value c = of_char c - 48"

definition digit_byte :: "nat \<Rightarrow> char" where
  "digit_byte n = char_of (48 + n)"

definition digits_value :: "string \<Rightarrow> nat" where
  "digits_value s = foldl (\<lambda>acc c. 10 * acc + digit_value c) 0 s"

text \<open>\<open>strconv.Itoa\<close> on non-negative and on arbitrary numbers.\<close>

fun nat_digits :: "nat \<Rightarrow> string" where
  "nat_digits n = (if n < 10 then [digit_byte n] else nat_digits (n div 10) @ [digit_byte (n mod 10)])"

declare nat_digits.simps [simp del]

definition itoa :: "int \<Rightarrow> string" where
  "itoa i = (if i < 0 then CHR ''-'' # nat_digits (nat (- i)) else nat_digits (nat i))"

text \<open>\<open>strconv.ParseInt(s, 10, 64)\<close> and \<open>strconv.Atoi\<close>; \<open>None\<close> is an error of either kind
  (bad syntax or out of range).\<close>

definition atoi_syntax :: "string \<Rightarrow> int option" where
  "atoi_syntax s =
     (case s of [] \<Rightarrow> None
      | c # cs \<Rightarrow>
          (let body = (if c = CHR ''+'' \<or> c = CHR ''-'' then cs else s)
           in if body = [] \<or> \<not> list_all is_digit_byte body then None
              else Some (if c = CHR ''-'' then - int (digits_value body)
                         else int (digits_value body))))"

definition atoi :: "string \<Rightarrow> int option" where
  "atoi s = (case atoi_syntax s of None \<Rightarrow> None | Some i \<Rightarrow> if in_int64 i then Some i else None)"

lemma is_digit_digit_byte: "n < 10 \<Longrightarrow> is_digit_byte (digit_byte n)"
  by (auto simp: is_digit_byte_def digit_byte_def less_eq_char_def)

lemma digit_value_digit_byte: "n < 10 \<Longrightarrow> digit_value (digit_byte n) = n"
  by (simp add: digit_value_def digit_byte_def)

lemma digits_value_snoc: "digits_value (s @ [c]) = 10 * digits_value s + digit_value c"
  by (simp add: digits_value_def)

lemma nat_digits_nonempty [simp]: "nat_digits n \<noteq> []"
  by (subst nat_digits.simps) simp

lemma list_all_nat_digits: "list_all is_digit_byte (nat_digits n)"
proof (induction n rule: nat_digits.induct)
  case (1 n)
  then show ?case
    by (cases "n < 10") (subst nat_digits.simps, simp add: is_digit_digit_byte)+
qed

lemma digits_value_nat_digits: "digits_value (nat_digits n) = n"
proof (induction n rule: nat_digits.induct)
  case (1 n)
  show ?case
  proof (cases "n < 10")
    case True
    then show ?thesis
      by (subst nat_digits.simps) (simp add: digits_value_def digit_value_digit_byte)
  next
    case False
    with 1 show ?thesis
      by (subst nat_digits.simps) (simp add: digits_value_snoc digit_value_digit_byte)
  qed
qed

lemma nat_digits_inject: "nat_digits m = nat_digits n \<longleftrightarrow> m = n"
  by (metis digits_value_nat_digits)

end
