(* ===== verification/Faults.thy ===== *)
theory Faults
  imports Go_Lib
begin

text \<open>
  Package \<open>faults\<close> (src/faults): typed errors, their categories and the exit codes of the
  command line, and the result type in which the components return them.

  A message is kept as its \<open>fmt\<close> format and the arguments: rendering it (\<open>%q\<close>, \<open>%d\<close>) is
  \<open>fmt\<close>'s work and changes no decision of the program.  An error value is a \<open>*TypedError\<close> or
  an error of another type (\<open>fmt.Errorf\<close>, the standard library's errors), each with the error it
  wraps, if any.  A run-time panic, which no caller turns back into a value, is an error of its
  own kind.
\<close>

type_synonym message = "string \<times> string list"

abbreviation msg :: "string \<Rightarrow> message" where "msg s \<equiv> (s, [])"

datatype error_category =
    ValidationError | NotFoundError | ConflictError | AuthError | TransportError | InternalError
  | OtherCategory string

datatype go_error =
    TypedError error_category message "go_error option"
  | PlainError message "go_error option"
  | Panic message

datatype 'a result = Err go_error | Ok 'a

section \<open>Constructors and queries\<close>

definition NewTypedError :: "error_category \<Rightarrow> message \<Rightarrow> go_error option \<Rightarrow> go_error" where
  "NewTypedError category m cause = TypedError category m cause"

definition NotFound :: "message \<Rightarrow> go_error option \<Rightarrow> go_error" where
  "NotFound m cause = NewTypedError NotFoundError m cause"

definition Invalid :: "message \<Rightarrow> go_error option \<Rightarrow> go_error" where
  "Invalid m cause = NewTypedError ValidationError m cause"

definition Conflict :: "message \<Rightarrow> go_error option \<Rightarrow> go_error" where
  "Conflict m cause = NewTypedError ConflictError m cause"

definition Auth :: "message \<Rightarrow> go_error option \<Rightarrow> go_error" where
  "Auth m cause = NewTypedError AuthError m cause"

definition Transport :: "message \<Rightarrow> go_error option \<Rightarrow> go_error" where
  "Transport m cause = NewTypedError TransportError m cause"

definition Internal :: "message \<Rightarrow> go_error option \<Rightarrow> go_error" where
  "Internal m cause = NewTypedError InternalError m cause"

fun Unwrap :: "go_error \<Rightarrow> go_error option" where
  "Unwrap (TypedError c m cause) = cause"
| "Unwrap (PlainError m cause) = cause"
| "Unwrap (Panic m) = None"

text \<open>\<open>errors.As(err, &typedErr)\<close>: the first typed error of the chain of wrapped errors.\<close>

fun find_typed :: "go_error \<Rightarrow> error_category option" where
  "find_typed (TypedError c m cause) = Some c"
| "find_typed (PlainError m cause) = (case cause of None \<Rightarrow> None | Some e \<Rightarrow> find_typed e)"
| "find_typed (Panic m) = None"

definition IsCategory :: "go_error option \<Rightarrow> error_category \<Rightarrow> bool" where
  "IsCategory err category =
     (case err of None \<Rightarrow> False
      | Some e \<Rightarrow> (case find_typed e of None \<Rightarrow> False | Some c \<Rightarrow> c = category))"

definition ExitCodeForError :: "go_error option \<Rightarrow> int" where
  "ExitCodeForError err =
     (case err of None \<Rightarrow> 0
      | Some e \<Rightarrow>
          (case find_typed e of None \<Rightarrow> 1
           | Some c \<Rightarrow>
               (case c of
                  ValidationError \<Rightarrow> 2
                | NotFoundError \<Rightarrow> 3
                | AuthError \<Rightarrow> 4
                | ConflictError \<Rightarrow> 5
                | TransportError \<Rightarrow> 6
                | _ \<Rightarrow> 1)))"

section \<open>Results\<close>

fun each_result :: "('a \<Rightarrow> 'b result) \<Rightarrow> 'a list \<Rightarrow> 'b list result" where
  "each_result f [] = Ok []"
| "each_result f (x # xs) =
     (case f x of Err e \<Rightarrow> Err e
      | Ok y \<Rightarrow> (case each_result f xs of Err e \<Rightarrow> Err e | Ok ys \<Rightarrow> Ok (y # ys)))"

fun is_ok :: "'a result \<Rightarrow> bool" where
  "is_ok (Ok x) = True"
| "is_ok (Err e) = False"

lemma is_ok_iff: "is_ok r \<longleftrightarrow> (\<exists>x. r = Ok x)"
  by (cases r) auto

lemma each_result_cong [fundef_cong]:
  "xs = ys \<Longrightarrow> (\<And>x. x \<in> set ys \<Longrightarrow> f x = g x) \<Longrightarrow> each_result f xs = each_result g ys"
proof (induction ys arbitrary: xs)
  case (Cons y ys)
  then show ?case by (auto split: result.splits)
qed simp

lemma each_result_Ok:
  "each_result f xs = Ok ys \<longleftrightarrow> list_all2 (\<lambda>x y. f x = Ok y) xs ys"
proof (induction xs arbitrary: ys)
  case (Cons x xs)
  then show ?case
    by (cases ys; cases "f x"; cases "each_result f xs") auto
qed auto

lemma each_result_total: "(\<And>x. x \<in> set xs \<Longrightarrow> f x = Ok (g x)) \<Longrightarrow> each_result f xs = Ok (map g xs)"
  by (induction xs) auto

lemma each_result_Err: "each_result f xs = Err e \<Longrightarrow> \<exists>x\<in>set xs. f x = Err e"
  by (induction xs) (auto split: result.splits)

text \<open>Every fault constructor yields the category the command line turns into an exit code.\<close>

lemma find_typed_constructors [simp]:
  "find_typed (Invalid m c) = Some ValidationError" "find_typed (NotFound m c) = Some NotFoundError"
  "find_typed (Conflict m c) = Some ConflictError" "find_typed (Auth m c) = Some AuthError"
  "find_typed (Transport m c) = Some TransportError" "find_typed (Internal m c) = Some InternalError"
  by (simp_all add: Invalid_def NotFound_def Conflict_def Auth_def Transport_def Internal_def NewTypedError_def)

end
