(* ===== verification/Go_Map.thy ===== *)
theory Go_Map
  imports Go_Lib
begin

text \<open>
  Go maps with ordered keys as association lists with strictly increasing keys: the canonical
  representation, so that equality of lists is equality of maps, and the order in which the
  sources iterate after sorting the keys.
\<close>

type_synonym ('k, 'v) gomap = "('k \<times> 'v) list"

definition sorted_map :: "('k::linorder, 'v) gomap \<Rightarrow> bool" where
  "sorted_map m = sorted_wrt (<) (map fst m)"

abbreviation map_get :: "('k, 'v) gomap \<Rightarrow> 'k \<Rightarrow> 'v option" where
  "map_get \<equiv> map_of"

abbreviation map_keys :: "('k, 'v) gomap \<Rightarrow> 'k list" where
  "map_keys m \<equiv> map fst m"

fun map_put :: "'k::linorder \<Rightarrow> 'v \<Rightarrow> ('k, 'v) gomap \<Rightarrow> ('k, 'v) gomap" where
  "map_put k v [] = [(k, v)]"
| "map_put k v ((k', v') # m) =
     (if k < k' then (k, v) # (k', v') # m
      else if k = k' then (k, v) # m
      else (k', v') # map_put k v m)"

definition map_del :: "'k \<Rightarrow> ('k, 'v) gomap \<Rightarrow> ('k, 'v) gomap" where
  "map_del k m = filter (\<lambda>p. fst p \<noteq> k) m"

lemma sorted_map_Nil [simp]: "sorted_map []"
  by (simp add: sorted_map_def)

lemma sorted_map_Cons: "sorted_map ((k, v) # m) \<longleftrightarrow> (\<forall>k'\<in>fst ` set m. k < k') \<and> sorted_map m"
  by (auto simp: sorted_map_def)

lemma sorted_map_tl: "sorted_map (p # m) \<Longrightarrow> sorted_map m"
  by (simp add: sorted_map_def)

lemma map_get_put [simp, go_map]: "map_get (map_put k v m) = (map_get m)(k \<mapsto> v)"
  by (induction m) (auto simp: fun_eq_iff)

lemma keys_put: "fst ` set (map_put k v m) = insert k (fst ` set m)"
proof (induction m)
  case (Cons p m)
  then show ?case by (cases p) (simp add: insert_commute)
qed simp

lemma sorted_map_put [simp, intro]: "sorted_map m \<Longrightarrow> sorted_map (map_put k v m)"
proof (induction m)
  case (Cons p m)
  obtain k' v' where p: "p = (k', v')" by fastforce
  from Cons.prems have gt: "\<forall>x\<in>fst ` set m. k' < x" and sm: "sorted_map m"
    by (auto simp: p sorted_map_Cons)
  show ?case
  proof (cases "k < k'")
    case True
    then show ?thesis using gt sm by (auto simp: p sorted_map_Cons)
  next
    case False
    then show ?thesis
      using gt sm Cons.IH[OF sm] by (cases "k = k'") (auto simp: p sorted_map_Cons keys_put)
  qed
qed (simp add: sorted_map_def)

lemma map_get_del [simp, go_map]: "map_get (map_del k m) = (map_get m)(k := None)"
  by (induction m) (auto simp: map_del_def fun_eq_iff)

lemma sorted_map_filter [simp, intro]: "sorted_map m \<Longrightarrow> sorted_map (filter P m)"
proof (induction m)
  case (Cons p m)
  then show ?case by (cases p) (auto simp: sorted_map_Cons)
qed simp

lemma sorted_map_del [simp, intro]: "sorted_map m \<Longrightarrow> sorted_map (map_del k m)"
  by (simp add: map_del_def)

lemma sorted_map_distinct: "sorted_map m \<Longrightarrow> distinct (map fst m)"
  by (simp add: sorted_map_def strict_sorted_iff)

lemma sorted_map_get: "sorted_map m \<Longrightarrow> map_get m k = Some v \<longleftrightarrow> (k, v) \<in> set m"
  by (simp add: sorted_map_distinct)

lemma sorted_map_get_head: "sorted_map ((k, v) # m) \<Longrightarrow> map_get m k = None"
  by (auto simp: sorted_map_Cons map_of_eq_None_iff)

lemma sorted_map_ext:
  assumes "sorted_map m" and "sorted_map n" and "map_get m = map_get n"
  shows "m = n"
proof -
  have d: "distinct (map fst m)" "distinct (map fst n)"
    using assms by (simp_all add: sorted_map_distinct)
  have "set m = set n"
    using assms(3) by (metis d graph_map_of_if_distinct_dom)
  moreover have "sorted (map fst m)" "sorted (map fst n)"
    using assms by (auto simp: sorted_map_def strict_sorted_iff)
  ultimately show ?thesis
    using d map_sorted_distinct_set_unique[of fst m n] by (simp add: distinct_map)
qed

lemma sorted_map_map [simp]: "sorted_map (map (\<lambda>(k, v). (k, f k v)) m) \<longleftrightarrow> sorted_map m"
  by (simp add: sorted_map_def comp_def case_prod_beta)

lemma map_get_map: "map_get (map (\<lambda>(k, v). (k, f k v)) m) k = map_option (f k) (map_get m k)"
  by (induction m) auto

text \<open>Inserting the entries of an ordered map one by one rebuilds it.\<close>

lemma map_put_snoc: "\<forall>k'\<in>fst ` set m. k' < k \<Longrightarrow> map_put k v m = m @ [(k, v)]"
  by (induction m) auto

lemma fold_map_put: "sorted_map (acc @ m) \<Longrightarrow> fold (\<lambda>(k, v). map_put k v) m acc = acc @ m"
proof (induction m arbitrary: acc)
  case (Cons p m)
  obtain k v where p: "p = (k, v)" by fastforce
  have "\<forall>k'\<in>fst ` set acc. k' < k"
    using Cons.prems by (auto simp: p sorted_map_def sorted_wrt_append)
  then have "map_put k v acc = acc @ [(k, v)]" by (rule map_put_snoc)
  then show ?case using Cons.IH[of "acc @ [(k, v)]"] Cons.prems by (simp add: p)
qed simp

text \<open>Keeping some of the entries, with new values.\<close>

definition map_select :: "('k \<Rightarrow> 'v \<Rightarrow> 'w option) \<Rightarrow> ('k, 'v) gomap \<Rightarrow> ('k, 'w) gomap" where
  "map_select f m = concat (map (\<lambda>(k, v). case f k v of None \<Rightarrow> [] | Some x \<Rightarrow> [(k, x)]) m)"

lemma map_select_Nil [simp]: "map_select f [] = []"
  by (simp add: map_select_def)

lemma map_select_Cons:
  "map_select f ((k, v) # m) = (case f k v of None \<Rightarrow> [] | Some x \<Rightarrow> [(k, x)]) @ map_select f m"
  by (simp add: map_select_def)

lemma map_select_keys: "fst ` set (map_select f m) \<subseteq> fst ` set m"
proof (induction m)
  case (Cons p m)
  then show ?case by (cases p) (auto simp: map_select_Cons split: option.splits)
qed simp

lemma sorted_map_select [simp]: "sorted_map m \<Longrightarrow> sorted_map (map_select f m)"
proof (induction m)
  case (Cons p m)
  obtain k v where p: "p = (k, v)" by fastforce
  have "\<forall>k'\<in>fst ` set (map_select f m). k < k'"
    using Cons.prems map_select_keys[of f m] unfolding p sorted_map_Cons by blast
  then show ?case
    using Cons by (auto simp: p map_select_Cons sorted_map_Cons split: option.splits)
qed simp

lemma map_get_select: "sorted_map m \<Longrightarrow> map_get (map_select f m) k = Option.bind (map_get m k) (f k)"
proof (induction m)
  case (Cons p m)
  obtain k' v where p: "p = (k', v)" by fastforce
  have "map_get m k' = None" using Cons.prems sorted_map_get_head p by metis
  then show ?case
    using Cons by (auto simp: p map_select_Cons sorted_map_Cons split: option.splits)
qed simp

text \<open>Entrywise relation of two ordered maps, by position and by key.\<close>

lemma sorted_map_rel:
  assumes "sorted_map a" and "sorted_map b"
  shows "list_all2 (\<lambda>p q. fst p = fst q \<and> R (snd p) (snd q)) a b \<longleftrightarrow>
         (\<forall>k. rel_option R (map_get a k) (map_get b k))"
proof
  assume "list_all2 (\<lambda>p q. fst p = fst q \<and> R (snd p) (snd q)) a b"
  then show "\<forall>k. rel_option R (map_get a k) (map_get b k)"
    by (induction rule: list_all2_induct) auto
next
  assume r: "\<forall>k. rel_option R (map_get a k) (map_get b k)"
  have "map_get a k = None \<longleftrightarrow> map_get b k = None" for k
    using r rel_option_None1 rel_option_None2 by metis
  then have "set (map fst a) = set (map fst b)"
    by (simp add: map_of_eq_None_iff set_eq_iff) 
  then have keys: "map fst a = map fst b"
    using assms sorted_distinct_set_unique[of "map fst a" "map fst b"]
    by (simp add: sorted_map_def strict_sorted_iff)
  then have len: "length a = length b" by (metis length_map)
  show "list_all2 (\<lambda>p q. fst p = fst q \<and> R (snd p) (snd q)) a b"
  proof (rule list_all2_all_nthI[OF len])
    fix i assume i: "i < length a"
    have k: "fst (a ! i) = fst (b ! i)" using keys i len by (metis nth_map)
    have "map_get a (fst (a ! i)) = Some (snd (a ! i))" "map_get b (fst (a ! i)) = Some (snd (b ! i))"
      using assms i len k sorted_map_get[of a] sorted_map_get[of b] by (metis nth_mem prod.collapse)+
    then have "R (snd (a ! i)) (snd (b ! i))" using r by (metis option.rel_inject(2))
    then show "fst (a ! i) = fst (b ! i) \<and> R (snd (a ! i)) (snd (b ! i))" using k by simp
  qed
qed

end
