(* ===== verification/Contracts.thy ===== *)
theory Contracts
  imports Faults Go_Map
begin

text \<open>
  Interfaces that several components share, as locales: a normaliser (a partial function onto
  normal forms) and a key-value store that may refuse a key.  Each provider interprets them on
  its own operations; the lemmas proved here once are then facts about the provider.
\<close>

section \<open>Normalisers\<close>

locale normalizer =
  fixes norm :: "'a \<Rightarrow> 'a result"
  assumes stable: "norm x = Ok y \<Longrightarrow> norm y = Ok y"
begin

lemma normal_form_iff: "(\<exists>x. norm x = Ok y) \<longleftrightarrow> norm y = Ok y"
  using stable by blast

lemma norm_again: "(case norm x of Err e \<Rightarrow> Err e | Ok y \<Rightarrow> norm y) = norm x"
  using stable by (cases "norm x") auto

lemma same_normal_form: "norm x = Ok y \<Longrightarrow> norm z = norm x \<longleftrightarrow> norm z = norm y"
  using stable by simp

end

section \<open>Key-value stores\<close>

text \<open>
  A store maps keys to values; writing returns the new state and the error, if any, and reading may
  change the state too (a cache) but not what later reads return.  \<open>key\<close> is the key under which the
  store files the value: two keys with the same \<open>key\<close> name the same entry.
  A client that writes several entries stops at the first error.
\<close>

type_synonym ('s, 'v) put_fn = "'s \<Rightarrow> string \<Rightarrow> 'v \<Rightarrow> 's \<times> go_error option"
type_synonym ('s, 'v) get_fn = "'s \<Rightarrow> string \<Rightarrow> 's \<times> 'v result"

fun store_candidates :: "('s, 'v) put_fn \<Rightarrow> (string \<times> 'v) list \<Rightarrow> 's \<Rightarrow> 's \<times> go_error option" where
  "store_candidates storeFn [] s = (s, None)"
| "store_candidates storeFn (kv # kvs) s =
     (case storeFn s (fst kv) (snd kv) of
        (s', Some e) \<Rightarrow> (s', Some e)
      | (s', None) \<Rightarrow> store_candidates storeFn kvs s')"

lemma store_candidates_Cons_ok:
  assumes "store_candidates f (kv # kvs) s = (s', None)"
  obtains s1 where "f s (fst kv) (snd kv) = (s1, None)" "store_candidates f kvs s1 = (s', None)"
  using assms by (auto split: prod.splits option.splits)

locale kv_store =
  fixes invar :: "'s \<Rightarrow> bool"
    and put :: "('s, 'v) put_fn"
    and get :: "('s, 'v) get_fn"
    and key :: "string \<Rightarrow> string result"
  assumes put_ok: "invar s \<Longrightarrow> put s k v = (s', None) \<Longrightarrow> is_ok (key k)"
    and put_invar: "invar s \<Longrightarrow> put s k v = (s', r) \<Longrightarrow> invar s'"
    and get_put_same: "invar s \<Longrightarrow> put s k v = (s', None) \<Longrightarrow> key k' = key k \<Longrightarrow> snd (get s' k') = Ok v"
    and get_put_other: "invar s \<Longrightarrow> put s k v = (s', None) \<Longrightarrow> key k' \<noteq> key k \<Longrightarrow>
          snd (get s k') = Ok u \<Longrightarrow> snd (get s' k') = Ok u"
    and get_invar: "invar s \<Longrightarrow> invar (fst (get s k))"
    and get_get: "invar s \<Longrightarrow> snd (get s k') = Ok u \<Longrightarrow> snd (get (fst (get s k)) k') = Ok u"
begin

lemma store_all_invar: "invar s \<Longrightarrow> store_candidates put kvs s = (s', r) \<Longrightarrow> invar s'"
proof (induction kvs arbitrary: s)
  case (Cons kv kvs)
  obtain s1 e where s1: "put s (fst kv) (snd kv) = (s1, e)" by fastforce
  then have "invar s1" using put_invar[OF Cons.prems(1)] by blast
  then show ?case using Cons.IH[of s1] Cons.prems(2) s1 by (cases e) auto
qed simp

lemma store_all_keys:
  "invar s \<Longrightarrow> store_candidates put kvs s = (s', None) \<Longrightarrow> (k, v) \<in> set kvs \<Longrightarrow> is_ok (key k)"
proof (induction kvs arbitrary: s)
  case (Cons kv kvs)
  from Cons.prems(2) obtain s1 where s1: "put s (fst kv) (snd kv) = (s1, None)" "store_candidates put kvs s1 = (s', None)"
    by (rule store_candidates_Cons_ok)
  show ?case
    using Cons.IH[OF put_invar[OF Cons.prems(1) s1(1)] s1(2)] put_ok[OF Cons.prems(1) s1(1)] Cons.prems(3) by auto
qed simp

lemma store_all_other:
  "invar s \<Longrightarrow> store_candidates put kvs s = (s', None) \<Longrightarrow> \<forall>kv\<in>set kvs. key (fst kv) \<noteq> key k' \<Longrightarrow>
   snd (get s k') = Ok u \<Longrightarrow> snd (get s' k') = Ok u"
proof (induction kvs arbitrary: s)
  case (Cons kv kvs)
  from Cons.prems(2) obtain s1 where s1: "put s (fst kv) (snd kv) = (s1, None)" "store_candidates put kvs s1 = (s', None)"
    by (rule store_candidates_Cons_ok)
  have "snd (get s1 k') = Ok u" using get_put_other[OF Cons.prems(1) s1(1) _ Cons.prems(4)] Cons.prems(3) by force
  then show ?case using Cons.IH[OF put_invar[OF Cons.prems(1) s1(1)] s1(2)] Cons.prems(3) by simp
qed simp

text \<open>After writing entries whose store keys are pairwise different, each of them can be read.\<close>

lemma store_all_get:
  assumes "invar s" and "store_candidates put kvs s = (s', None)" and "(k, v) \<in> set kvs"
    and "distinct (map (key \<circ> fst) kvs)"
  shows "snd (get s' k) = Ok v"
  using assms
proof (induction kvs arbitrary: s)
  case (Cons kv kvs)
  from Cons.prems(2) obtain s1 where s1: "put s (fst kv) (snd kv) = (s1, None)" "store_candidates put kvs s1 = (s', None)"
    by (rule store_candidates_Cons_ok)
  have i1: "invar s1" using put_invar[OF Cons.prems(1) s1(1)] .
  show ?case
  proof (cases "(k, v) = kv")
    case True
    have "snd (get s1 k) = Ok v" using get_put_same[OF Cons.prems(1) s1(1), of k] True by (metis fst_conv snd_conv)
    moreover have "\<forall>x\<in>set kvs. key (fst x) \<noteq> key k"
      using Cons.prems(4) True by (auto simp: image_iff)
    ultimately show ?thesis using store_all_other[OF i1 s1(2)] by blast
  next
    case False
    then show ?thesis using Cons.IH[OF i1 s1(2)] Cons.prems(3,4) by simp
  qed
qed simp

end

end
