(* ===== verification/Resource_Values.thy ===== *)
theory Resource_Values
  imports Complex_Main Contracts
begin

text \<open>
  Payload values (src/resource/types.go, src/resource/normalize.go and the copy and binary helpers
  of src/resource/jsonpointer.go and src/resource/payload_codec.go).

  \<open>resource.Value\<close> is Go's \<open>any\<close>; \<open>gval\<close> lists the dynamic types that the program distinguishes.
  \<open>VInt KInt64\<close>, \<open>VFloat\<close>, \<open>VSlice\<close> and \<open>VMap\<close> are \<open>int64\<close>, \<open>float64\<close>, \<open>[]any\<close> and
  \<open>map[string]any\<close>; the other numeric kinds, \<open>[]byte\<close>, \<open>*BinaryValue\<close>, \<open>json.Number\<close>, and maps
  and slices of other types (\<open>VReflMap\<close>, \<open>VReflSlice\<close>: the values that only reflection reads, the
  flag telling whether the keys have kind string) occur in values that are not yet normalised.
  A finite \<open>float64\<close> is the rational number it denotes, so that equality is Go's \<open>==\<close>.  A
  \<open>json.Number\<close> is its text and what its method \<open>Float64\<close> returns on it (\<open>None\<close>: an error), which is
  the standard library's decimal conversion.

  The lemmas show that \<open>Normalize\<close> is onto the normal forms, keeps them, and refuses exactly what
  \<open>int64\<close> and \<open>float64\<close> cannot hold.
\<close>

datatype float64 = NaN | Inf bool | Fin rat

fun finite_float :: "float64 \<Rightarrow> bool" where
  "finite_float (Fin q) = True"
| "finite_float x = False"

lemma finite_float_iff: "finite_float x \<longleftrightarrow> (\<exists>q. x = Fin q)"
  by (cases x) auto

datatype int_kind = KInt | KInt8 | KInt16 | KInt32 | KInt64

datatype uint_kind = KUint | KUint8 | KUint16 | KUint32 | KUint64

datatype gval =
    VNil
  | VBool bool
  | VString string
  | VBinary string
  | VBinaryPtr "string option"
  | VBytes string
  | VFloat32 float64
  | VFloat float64
  | VInt int_kind int
  | VUint uint_kind int
  | VNumber string "float64 option"
  | VSlice "gval list"
  | VMap "(string \<times> gval) list"
  | VReflMap bool "(string \<times> gval) list"
  | VReflSlice "gval list"
  | VOther string

type_synonym fields = "(string, gval) gomap"

record PayloadDescriptor =
  PayloadType :: string
  MediaType :: string
  Extension :: string

record Content =
  Value :: gval
  Descriptor :: PayloadDescriptor

record Resource =
  LogicalPath :: string
  CollectionPath :: string
  LocalAlias :: string
  RemoteID :: string
  ResolvedRemotePath :: string
  Payload :: gval
  PayloadDesc :: PayloadDescriptor

record DiffEntry =
  ResourcePath :: string
  Path :: string
  Operation :: string
  Local :: gval
  Remote :: gval

section \<open>Normalisation\<close>

definition normalizeFloat :: "float64 \<Rightarrow> float64 result" where
  "normalizeFloat x =
     (case x of Fin q \<Rightarrow> Ok x
      | _ \<Rightarrow> Err (Invalid (msg ''payload contains non-finite float'') None))"

definition normalizeUint :: "int \<Rightarrow> int result" where
  "normalizeUint n =
     (if n > int64_max then Err (Invalid (msg ''payload contains integer out of range'') None)
      else Ok n)"

definition normalizeJSONNumber :: "string \<Rightarrow> float64 option \<Rightarrow> gval result" where
  "normalizeJSONNumber text asFloat =
     (case atoi text of
        Some asInt \<Rightarrow> Ok (VInt KInt64 asInt)
      | None \<Rightarrow>
          (case atoi_syntax text of
             Some asBig \<Rightarrow>
               if in_int64 asBig then Ok (VInt KInt64 asBig)
               else Err (Invalid (msg ''payload contains integer out of range'') None)
           | None \<Rightarrow>
               (case asFloat of
                  None \<Rightarrow> Err (Invalid (msg ''payload contains invalid number'')
                                       (Some (PlainError (''strconv.ParseFloat'', [text]) None)))
                | Some f \<Rightarrow> (case normalizeFloat f of Err e \<Rightarrow> Err e | Ok g \<Rightarrow> Ok (VFloat g)))))"

fun normalizeValue :: "gval \<Rightarrow> gval result"
  and normalizeSlice :: "gval list \<Rightarrow> gval list result"
  and normalizeStringMap :: "(string \<times> gval) list \<Rightarrow> (string \<times> gval) list result" where
  "normalizeValue VNil = Ok VNil"
| "normalizeValue (VBool b) = Ok (VBool b)"
| "normalizeValue (VString s) = Ok (VString s)"
| "normalizeValue (VBinary b) = Ok (VBinary b)"
| "normalizeValue (VBinaryPtr p) = (case p of None \<Rightarrow> Ok VNil | Some b \<Rightarrow> Ok (VBinary b))"
| "normalizeValue (VBytes b) = Ok (VBinary b)"
| "normalizeValue (VFloat32 x) = (case normalizeFloat x of Err e \<Rightarrow> Err e | Ok y \<Rightarrow> Ok (VFloat y))"
| "normalizeValue (VFloat x) = (case normalizeFloat x of Err e \<Rightarrow> Err e | Ok y \<Rightarrow> Ok (VFloat y))"
| "normalizeValue (VInt k n) = Ok (VInt KInt64 n)"
| "normalizeValue (VUint k n) = (case normalizeUint n of Err e \<Rightarrow> Err e | Ok i \<Rightarrow> Ok (VInt KInt64 i))"
| "normalizeValue (VNumber text asFloat) = normalizeJSONNumber text asFloat"
| "normalizeValue (VSlice items) =
     (case normalizeSlice items of Err e \<Rightarrow> Err e | Ok ys \<Rightarrow> Ok (VSlice ys))"
| "normalizeValue (VMap m) =
     (case normalizeStringMap m of Err e \<Rightarrow> Err e | Ok n \<Rightarrow> Ok (VMap n))"
| "normalizeValue (VReflMap stringKeys m) =
     (if \<not> stringKeys then Err (Invalid (msg ''payload map keys must be strings'') None)
      else case normalizeStringMap m of Err e \<Rightarrow> Err e | Ok n \<Rightarrow> Ok (VMap n))"
| "normalizeValue (VReflSlice items) =
     (case normalizeSlice items of Err e \<Rightarrow> Err e | Ok ys \<Rightarrow> Ok (VSlice ys))"
| "normalizeValue (VOther ty) =
     Err (NewTypedError ValidationError (''unsupported payload type %T'', [ty]) None)"
| "normalizeSlice [] = Ok []"
| "normalizeSlice (x # xs) =
     (case normalizeValue x of Err e \<Rightarrow> Err e
      | Ok y \<Rightarrow> (case normalizeSlice xs of Err e \<Rightarrow> Err e | Ok ys \<Rightarrow> Ok (y # ys)))"
| "normalizeStringMap [] = Ok []"
| "normalizeStringMap (p # m) =
     (case normalizeValue (snd p) of Err e \<Rightarrow> Err e
      | Ok y \<Rightarrow> (case normalizeStringMap m of Err e \<Rightarrow> Err e | Ok n \<Rightarrow> Ok ((fst p, y) # n)))"

text \<open>The default case of \<open>normalizeValue\<close> on its own: what reflection makes of other maps and slices.\<close>

definition normalizeReflectValue :: "gval \<Rightarrow> gval result" where
  "normalizeReflectValue v =
     (case v of
        VReflMap stringKeys m \<Rightarrow>
          if \<not> stringKeys then Err (Invalid (msg ''payload map keys must be strings'') None)
          else (case normalizeStringMap m of Err e \<Rightarrow> Err e | Ok n \<Rightarrow> Ok (VMap n))
      | VReflSlice items \<Rightarrow>
          (case normalizeSlice items of Err e \<Rightarrow> Err e | Ok ys \<Rightarrow> Ok (VSlice ys))
      | VOther ty \<Rightarrow> Err (NewTypedError ValidationError (''unsupported payload type %T'', [ty]) None)
      | _ \<Rightarrow> normalizeValue v)"

lemma normalizeValue_reflect: "normalizeValue v = normalizeReflectValue v"
  by (cases v) (simp_all add: normalizeReflectValue_def)

definition Normalize :: "gval \<Rightarrow> gval result" where
  "Normalize v = (case normalizeValue v of Err e \<Rightarrow> Err e | Ok w \<Rightarrow> Ok w)"

section \<open>Copies and binary values\<close>

fun DeepCopyValue :: "gval \<Rightarrow> gval" where
  "DeepCopyValue (VMap m) = VMap (map (\<lambda>(key, item). (key, DeepCopyValue item)) m)"
| "DeepCopyValue (VSlice xs) = VSlice (map DeepCopyValue xs)"
| "DeepCopyValue v = v"

definition IsBinaryValue :: "gval \<Rightarrow> bool" where
  "IsBinaryValue v =
     (case v of VBinary b \<Rightarrow> True | VBinaryPtr p \<Rightarrow> p \<noteq> None | _ \<Rightarrow> False)"

definition CloneBinaryValue :: "string \<Rightarrow> string" where
  "CloneBinaryValue b = b"

definition BinaryBytes :: "gval \<Rightarrow> string option" where
  "BinaryBytes v =
     (case v of VBinary b \<Rightarrow> Some b | VBinaryPtr p \<Rightarrow> p | VBytes b \<Rightarrow> Some b | _ \<Rightarrow> None)"

section \<open>Normal forms\<close>

text \<open>The values of Go's types: every number fits its kind, map keys are in order.\<close>

fun int_kind_max :: "int_kind \<Rightarrow> int" where
  "int_kind_max KInt8 = 127"
| "int_kind_max KInt16 = 32767"
| "int_kind_max KInt32 = 2147483647"
| "int_kind_max KInt = int64_max"
| "int_kind_max KInt64 = int64_max"

fun uint_kind_max :: "uint_kind \<Rightarrow> int" where
  "uint_kind_max KUint8 = 255"
| "uint_kind_max KUint16 = 65535"
| "uint_kind_max KUint32 = 4294967295"
| "uint_kind_max KUint = 18446744073709551615"
| "uint_kind_max KUint64 = 18446744073709551615"

fun go_value :: "gval \<Rightarrow> bool" where
  "go_value (VInt k n) = (- int_kind_max k - 1 \<le> n \<and> n \<le> int_kind_max k)"
| "go_value (VUint k n) = (0 \<le> n \<and> n \<le> uint_kind_max k)"
| "go_value (VSlice xs) = list_all go_value xs"
| "go_value (VReflSlice xs) = list_all go_value xs"
| "go_value (VMap m) = (sorted_map m \<and> list_all (\<lambda>p. go_value (snd p)) m)"
| "go_value (VReflMap b m) = (sorted_map m \<and> list_all (\<lambda>p. go_value (snd p)) m)"
| "go_value v = True"

fun normal_value :: "gval \<Rightarrow> bool" where
  "normal_value VNil = True"
| "normal_value (VBool b) = True"
| "normal_value (VString s) = True"
| "normal_value (VBinary b) = True"
| "normal_value (VFloat x) = finite_float x"
| "normal_value (VInt k n) = (k = KInt64 \<and> in_int64 n)"
| "normal_value (VSlice xs) = list_all normal_value xs"
| "normal_value (VMap m) = (sorted_map m \<and> list_all (\<lambda>p. normal_value (snd p)) m)"
| "normal_value v = False"

lemma DeepCopyValue_id [simp]: "DeepCopyValue v = v"
  by (induction v rule: DeepCopyValue.induct) (auto intro!: map_idI)

lemma Normalize_eq: "Normalize v = normalizeValue v"
  by (simp add: Normalize_def split: result.splits)

lemma normalizeFloat_Ok: "normalizeFloat x = Ok y \<longleftrightarrow> y = x \<and> (\<exists>q. x = Fin q)"
  by (auto simp: normalizeFloat_def split: float64.splits)

lemma normalizeFloat_Fin [simp]: "normalizeFloat (Fin q) = Ok (Fin q)"
  by (simp add: normalizeFloat_def)

lemma normalizeFloat_Err: "normalizeFloat x = Err e \<Longrightarrow> find_typed e = Some ValidationError \<and> (\<forall>q. x \<noteq> Fin q)"
  by (auto simp: normalizeFloat_def split: float64.splits)

lemma normalizeJSONNumber_cases:
  assumes "normalizeJSONNumber t f = Ok w"
  shows "(\<exists>n. w = VInt KInt64 n \<and> in_int64 n) \<or> (\<exists>q. w = VFloat (Fin q))"
  using assms
  by (auto simp: normalizeJSONNumber_def normalizeFloat_Ok atoi_def
      split: option.splits if_splits result.splits)

lemma normalizeStringMap_keys: "normalizeStringMap m = Ok n \<Longrightarrow> map fst n = map fst m"
  by (induction m arbitrary: n) (auto split: result.splits)

lemma sorted_normalizeStringMap: "normalizeStringMap m = Ok n \<Longrightarrow> sorted_map n = sorted_map m"
  by (simp add: sorted_map_def normalizeStringMap_keys)

lemma normalize_normal_all:
  "normal_value v \<Longrightarrow> normalizeValue v = Ok v"
  "list_all normal_value xs \<Longrightarrow> normalizeSlice xs = Ok xs"
  "list_all (\<lambda>p. normal_value (snd p)) m \<Longrightarrow> normalizeStringMap m = Ok m"
  by (induction v and xs and m rule: normalizeValue_normalizeSlice_normalizeStringMap.induct)
    (auto simp: finite_float_iff)

lemma normalize_sound_all:
  "go_value v \<Longrightarrow> normalizeValue v = Ok w \<Longrightarrow> normal_value w"
  "list_all go_value xs \<Longrightarrow> normalizeSlice xs = Ok ys \<Longrightarrow> list_all normal_value ys"
  "list_all (\<lambda>p. go_value (snd p)) m \<Longrightarrow> normalizeStringMap m = Ok n \<Longrightarrow>
     list_all (\<lambda>p. normal_value (snd p)) n"
proof (induction v and xs and m arbitrary: w and ys and n
    rule: normalizeValue_normalizeSlice_normalizeStringMap.induct)
  case (9 k n)
  then show ?case by (cases k) (auto simp: in_int64_def int64_min_def int64_max_def)
next
  case (10 k n)
  then show ?case
    by (auto simp: normalizeUint_def in_int64_def int64_min_def int64_max_def split: if_splits result.splits)
next
  case (11 t asFloat)
  then show ?case using normalizeJSONNumber_cases by fastforce
qed (auto simp: normalizeFloat_Ok sorted_normalizeStringMap split: result.splits if_splits option.splits)

lemma normalize_stable_all:
  "normalizeValue v = Ok w \<Longrightarrow> normalizeValue w = Ok w"
  "normalizeSlice xs = Ok ys \<Longrightarrow> normalizeSlice ys = Ok ys"
  "normalizeStringMap m = Ok n \<Longrightarrow> normalizeStringMap n = Ok n"
proof (induction v and xs and m arbitrary: w and ys and n
    rule: normalizeValue_normalizeSlice_normalizeStringMap.induct)
  case (11 t asFloat)
  then show ?case using normalizeJSONNumber_cases by fastforce
qed (auto simp: normalizeFloat_Ok split: result.splits if_splits option.splits)

lemmas normalize_normal = normalize_normal_all(1)
lemmas normalize_sound = normalize_sound_all(1)

lemma Normalize_normal [simp, go_norm]: "normal_value v \<Longrightarrow> Normalize v = Ok v"
  by (simp add: Normalize_eq normalize_normal)

interpretation payload_value: normalizer Normalize
  by unfold_locales (simp add: Normalize_eq normalize_stable_all(1))

text \<open>What \<open>int64\<close> and \<open>float64\<close> can hold: the inputs that normalisation accepts.\<close>

fun representable :: "gval \<Rightarrow> bool" where
  "representable (VFloat32 x) = finite_float x"
| "representable (VFloat x) = finite_float x"
| "representable (VUint k n) = (n \<le> int64_max)"
| "representable (VNumber t f) =
     (case atoi_syntax t of Some i \<Rightarrow> in_int64 i
      | None \<Rightarrow> (case f of None \<Rightarrow> False | Some x \<Rightarrow> finite_float x))"
| "representable (VSlice xs) = list_all representable xs"
| "representable (VReflSlice xs) = list_all representable xs"
| "representable (VMap m) = list_all (\<lambda>p. representable (snd p)) m"
| "representable (VReflMap b m) = (b \<and> list_all (\<lambda>p. representable (snd p)) m)"
| "representable (VOther ty) = False"
| "representable v = True"

lemma normalizeJSONNumber_representable:
  "is_ok (normalizeJSONNumber t f) \<longleftrightarrow> representable (VNumber t f)"
  "normalizeJSONNumber t f = Err e \<Longrightarrow> find_typed e = Some ValidationError"
  by (auto simp: normalizeJSONNumber_def atoi_def normalizeFloat_def
      split: option.splits float64.splits if_splits)

lemma normalize_ok_all:
  "is_ok (normalizeValue v) \<longleftrightarrow> representable v"
  "is_ok (normalizeSlice xs) \<longleftrightarrow> list_all representable xs"
  "is_ok (normalizeStringMap m) \<longleftrightarrow> list_all (\<lambda>p. representable (snd p)) m"
proof (induction v and xs and m rule: normalizeValue_normalizeSlice_normalizeStringMap.induct)
  case (11 t asFloat)
  then show ?case using normalizeJSONNumber_representable(1) by simp
qed (auto simp: normalizeUint_def normalizeFloat_def split: result.splits float64.splits option.splits)

lemma normalize_error_all:
  "normalizeValue v = Err e \<Longrightarrow> find_typed e = Some ValidationError"
  "normalizeSlice xs = Err e \<Longrightarrow> find_typed e = Some ValidationError"
  "normalizeStringMap m = Err e \<Longrightarrow> find_typed e = Some ValidationError"
proof (induction v and xs and m arbitrary: e and e and e
    rule: normalizeValue_normalizeSlice_normalizeStringMap.induct)
  case (11 t asFloat)
  then show ?case using normalizeJSONNumber_representable(2) by simp
qed (auto simp: normalizeUint_def NewTypedError_def dest: normalizeFloat_Err
    split: result.splits option.splits if_splits)

text \<open>The values inside a container are smaller than it: the measure of the recursions over payloads.\<close>

lemma size_get: "map_get m k = Some v \<Longrightarrow> size v < size (VMap m)"
  by (induction m) (auto split: if_splits)

lemma normal_get: "normal_value (VMap m) \<Longrightarrow> map_get m k = Some v \<Longrightarrow> normal_value v"
  by (auto simp: list_all_iff dest!: map_of_SomeD)

lemma size_entry: "p \<in> set m \<Longrightarrow> size (snd p) < size (VMap m)"
  by (cases p) (auto simp: less_Suc_eq_le intro!: size_list_estimation')

lemma size_elem: "x \<in> set xs \<Longrightarrow> size x < size (VSlice xs)"
  by (auto simp: less_Suc_eq_le intro!: size_list_estimation')

lemma size_nth: "i < length xs \<Longrightarrow> size (xs ! i) < size (VSlice xs)"
  by (simp add: less_Suc_eq_le size_list_estimation'[OF nth_mem])

section \<open>Properties\<close>

text \<open>\<open>Normalize\<close> accepts a Go value exactly when every number in it fits \<open>int64\<close> or is a finite
  \<open>float64\<close>, every map has string keys and no other type occurs; the result is then in normal form
  and \<open>Normalize\<close> returns it unchanged.  Otherwise it fails with a validation error.\<close>

theorem Normalize_total:
  assumes "go_value v"
  shows "if representable v then \<exists>w. Normalize v = Ok w \<and> normal_value w \<and> Normalize w = Ok w
         else \<exists>e. Normalize v = Err e \<and> find_typed e = Some ValidationError"
proof (cases "Normalize v")
  case (Ok w)
  then show ?thesis
    using assms normalize_ok_all(1)[of v] normalize_sound[of v w]
    by (auto simp: Normalize_eq normalize_normal)
next
  case (Err e)
  then show ?thesis
    using normalize_ok_all(1)[of v] normalize_error_all(1)[of v e] by (auto simp: Normalize_eq)
qed

theorem Normalize_total_witness:
  "Normalize (VMap [(''a'', VUint KUint8 7), (''b'', VSlice [VNumber ''12'' None])]) =
     Ok (VMap [(''a'', VInt KInt64 7), (''b'', VSlice [VInt KInt64 12])])
   \<and> \<not> is_ok (Normalize (VSlice [VUint KUint64 9223372036854775808]))"
proof -
  let ?v = "VMap [(''a'', VUint KUint8 7), (''b'', VSlice [VNumber ''12'' None])]"
  let ?u = "VSlice [VUint KUint64 9223372036854775808]"
  have v: "go_value ?v" "representable ?v" by code_simp+
  have u: "go_value ?u" "\<not> representable ?u" by code_simp+
  obtain w where w: "Normalize ?v = Ok w" using Normalize_total[OF v(1)] v(2) by auto
  have "Normalize ?v = Ok (VMap [(''a'', VInt KInt64 7), (''b'', VSlice [VInt KInt64 12])])" by code_simp
  moreover have "\<not> is_ok (Normalize ?u)" using Normalize_total[OF u(1)] u(2) by (auto simp: is_ok_iff)
  ultimately show ?thesis by blast
qed

end
