(* ===== verification/Json_Pointer.thy ===== *)
theory Json_Pointer
  imports Resource_Values
begin

text \<open>
  JSON pointers (src/resource/jsonpointer.go): parsing and printing, and lookup, assignment and
  removal along the tokens of a pointer.  Go mutates maps and slices in place and returns the doc;
  the model returns the new doc.  A lookup returns \<open>None\<close> for \<open>(nil, false, nil)\<close>.

  \<open>makeslice\<close> panics when the requested length exceeds what the runtime can address (2 to the 48
  bytes, at 16 bytes per interface value, is 2 to the 44 elements); smaller requests are assumed to succeed.
\<close>

abbreviation tilde :: char where "tilde \<equiv> CHR ''~''"

definition EscapeJSONPointerToken :: "string \<Rightarrow> string" where
  "EscapeJSONPointerToken token = replace_all (replace_all token ''~'' ''~0'') ''/'' ''~1''"

fun unescape_loop :: "string \<Rightarrow> string result" where
  "unescape_loop [] = Ok []"
| "unescape_loop (c # cs) =
     (if c \<noteq> tilde
      then (case unescape_loop cs of Err e \<Rightarrow> Err e | Ok r \<Rightarrow> Ok (c # r))
      else case cs of
             [] \<Rightarrow> Err (Invalid (msg ''invalid JSON pointer escape'') None)
           | d # ds \<Rightarrow>
               if d = CHR ''0'' then (case unescape_loop ds of Err e \<Rightarrow> Err e | Ok r \<Rightarrow> Ok (tilde # r))
               else if d = CHR ''1'' then (case unescape_loop ds of Err e \<Rightarrow> Err e | Ok r \<Rightarrow> Ok (CHR ''/'' # r))
               else Err (Invalid (msg ''invalid JSON pointer escape'') None))"

definition unescapeJSONPointerToken :: "string \<Rightarrow> string result" where
  "unescapeJSONPointerToken token = (if tilde \<notin> set token then Ok token else unescape_loop token)"

definition ParseJSONPointer :: "string \<Rightarrow> string list result" where
  "ParseJSONPointer pointer =
     (let trimmed = trim_space pointer in
      if trimmed = [] then Ok []
      else if \<not> prefix ''/'' trimmed then Err (Invalid (''invalid JSON pointer %q'', [pointer]) None)
      else case each_result unescapeJSONPointerToken (split_on (CHR ''/'') (tl trimmed)) of
             Err e \<Rightarrow> Err (Invalid (''invalid JSON pointer %q'', [pointer]) (Some e))
           | Ok tokens \<Rightarrow> Ok tokens)"

fun JSONPointerFromTokens :: "string list \<Rightarrow> string" where
  "JSONPointerFromTokens [] = []"
| "JSONPointerFromTokens (token # tokens) =
     CHR ''/'' # EscapeJSONPointerToken token @ JSONPointerFromTokens tokens"

definition JSONPointerForObjectKey :: "string \<Rightarrow> string" where
  "JSONPointerForObjectKey k = JSONPointerFromTokens [k]"

definition parseJSONPointerArrayIndex :: "string \<Rightarrow> nat option" where
  "parseJSONPointerArrayIndex s =
     (if s = [] then None
      else if \<not> list_all is_digit_byte s then None
      else map_option nat (atoi s))"

section \<open>Lookup\<close>

fun lookup_tokens :: "gval \<Rightarrow> string list \<Rightarrow> gval option" where
  "lookup_tokens current [] = Some current"
| "lookup_tokens current (token # tokens) =
     (case current of
        VMap m \<Rightarrow> (case map_get m token of None \<Rightarrow> None | Some item \<Rightarrow> lookup_tokens item tokens)
      | VSlice items \<Rightarrow>
          (case parseJSONPointerArrayIndex token of
             None \<Rightarrow> None
           | Some index \<Rightarrow> if index \<ge> length items then None else lookup_tokens (items ! index) tokens)
      | _ \<Rightarrow> None)"

definition LookupJSONPointer :: "gval \<Rightarrow> string \<Rightarrow> gval option result" where
  "LookupJSONPointer v pointer =
     (case ParseJSONPointer pointer of Err e \<Rightarrow> Err e | Ok tokens \<Rightarrow> Ok (lookup_tokens v tokens))"

text \<open>\<open>jsonPointerScalarString\<close> gives the text and whether it counts as found.  The decimal text of
  a float (\<open>strconv.FormatFloat(x, 'f', -1, bits)\<close>, the shortest decimal that reads back) is the
  parameter \<open>fmt_float\<close>.  \<open>json.Number\<close> is the only payload type with a \<open>String\<close> method.\<close>

definition jsonPointerScalarString :: "(nat \<Rightarrow> float64 \<Rightarrow> string) \<Rightarrow> gval \<Rightarrow> string \<times> bool" where
  "jsonPointerScalarString fmt_float v =
     (case v of
        VString s \<Rightarrow> (s, s \<noteq> [])
      | VNumber s f \<Rightarrow> (trim_space s, trim_space s \<noteq> [])
      | VInt k n \<Rightarrow> (itoa n, True)
      | VUint k n \<Rightarrow> (itoa n, True)
      | VFloat32 x \<Rightarrow> (fmt_float 32 x, True)
      | VFloat x \<Rightarrow> (fmt_float 64 x, True)
      | VBool b \<Rightarrow> (if b then ''true'' else ''false'', True)
      | _ \<Rightarrow> ([], False))"

definition LookupJSONPointerString ::
  "(nat \<Rightarrow> float64 \<Rightarrow> string) \<Rightarrow> gval \<Rightarrow> string \<Rightarrow> (string \<times> bool) result" where
  "LookupJSONPointerString fmt_float v pointer =
     (case LookupJSONPointer v pointer of
        Err e \<Rightarrow> Err e
      | Ok None \<Rightarrow> Ok ([], False)
      | Ok (Some item) \<Rightarrow> Ok (jsonPointerScalarString fmt_float item))"

section \<open>Assignment and removal\<close>

definition max_slice_len :: int where "max_slice_len = 17592186044416"

fun setJSONPointerValue :: "gval \<Rightarrow> string list \<Rightarrow> gval \<Rightarrow> gval result" where
  "setJSONPointerValue doc [] v = Ok (DeepCopyValue v)"
| "setJSONPointerValue doc (head # tail) v =
     (case parseJSONPointerArrayIndex head of
        Some index \<Rightarrow>
          (case (case doc of
                   VNil \<Rightarrow>
                     if int index + 1 > max_slice_len
                     then Err (Panic (msg ''runtime error: makeslice: len out of range''))
                     else Ok (replicate (index + 1) VNil)
                 | VSlice items \<Rightarrow>
                     if length items \<le> index
                     then if int index + 1 > max_slice_len
                          then Err (Panic (msg ''runtime error: makeslice: len out of range''))
                          else Ok (items @ replicate (index + 1 - length items) VNil)
                     else Ok items
                 | _ \<Rightarrow> Err (Invalid (msg ''JSON pointer expects array segment'') None)) of
             Err e \<Rightarrow> Err e
           | Ok items \<Rightarrow>
               (case setJSONPointerValue (items ! index) tail v of
                  Err e \<Rightarrow> Err e
                | Ok next \<Rightarrow> Ok (VSlice (items[index := next]))))
      | None \<Rightarrow>
          (case (case doc of
                   VNil \<Rightarrow> Ok []
                 | VMap m \<Rightarrow> Ok m
                 | _ \<Rightarrow> Err (Invalid (msg ''JSON pointer expects object segment'') None)) of
             Err e \<Rightarrow> Err e
           | Ok entries \<Rightarrow>
               (case setJSONPointerValue (case map_get entries head of None \<Rightarrow> VNil | Some x \<Rightarrow> x) tail v of
                  Err e \<Rightarrow> Err e
                | Ok next \<Rightarrow> Ok (VMap (map_put head next entries)))))"

definition SetJSONPointerValue :: "gval \<Rightarrow> string \<Rightarrow> gval \<Rightarrow> gval result" where
  "SetJSONPointerValue doc pointer v =
     (case ParseJSONPointer pointer of Err e \<Rightarrow> Err e | Ok tokens \<Rightarrow> setJSONPointerValue doc tokens v)"

fun deleteJSONPointerValue :: "gval \<Rightarrow> string list \<Rightarrow> gval result" where
  "deleteJSONPointerValue doc [] = Ok VNil"
| "deleteJSONPointerValue doc (head # tail) =
     (case parseJSONPointerArrayIndex head of
        Some index \<Rightarrow>
          (case doc of
             VSlice items \<Rightarrow>
               if index \<ge> length items then Ok doc
               else if tail = [] then Ok (VSlice (take index items @ drop (index + 1) items))
               else (case deleteJSONPointerValue (items ! index) tail of
                       Err e \<Rightarrow> Err e
                     | Ok next \<Rightarrow> Ok (VSlice (items[index := next])))
           | _ \<Rightarrow> Ok doc)
      | None \<Rightarrow>
          (case doc of
             VMap entries \<Rightarrow>
               if tail = [] then Ok (VMap (map_del head entries))
               else (case map_get entries head of
                       None \<Rightarrow> Ok doc
                     | Some child \<Rightarrow>
                         (case deleteJSONPointerValue child tail of
                            Err e \<Rightarrow> Err e
                          | Ok next \<Rightarrow>
                              if next = VNil then Ok (VMap (map_del head entries))
                              else Ok (VMap (map_put head next entries))))
           | _ \<Rightarrow> Ok doc))"

definition DeleteJSONPointerValue :: "gval \<Rightarrow> string \<Rightarrow> gval result" where
  "DeleteJSONPointerValue doc pointer =
     (case ParseJSONPointer pointer of Err e \<Rightarrow> Err e | Ok tokens \<Rightarrow> deleteJSONPointerValue doc tokens)"

section \<open>Escaping\<close>

fun escape_byte :: "char \<Rightarrow> string" where
  "escape_byte c = (if c = tilde then ''~0'' else if c = CHR ''/'' then ''~1'' else [c])"

lemma escape_bytes: "EscapeJSONPointerToken t = concat (map escape_byte t)"
  by (induction t) (auto simp: EscapeJSONPointerToken_def replace_all_char)

lemma escape_no_slash: "CHR ''/'' \<notin> set (EscapeJSONPointerToken t)"
  by (auto simp: escape_bytes split: if_splits)

lemma escape_append: "EscapeJSONPointerToken (s @ t) = EscapeJSONPointerToken s @ EscapeJSONPointerToken t"
  by (simp add: escape_bytes)

lemma unescape_loop_escape: "unescape_loop (EscapeJSONPointerToken t) = Ok t"
  by (induction t) (auto simp: escape_bytes)

lemma unescape_escape [simp]: "unescapeJSONPointerToken (EscapeJSONPointerToken t) = Ok t"
proof (cases "tilde \<in> set (EscapeJSONPointerToken t)")
  case True
  then show ?thesis by (simp add: unescapeJSONPointerToken_def unescape_loop_escape)
next
  case False
  then have "EscapeJSONPointerToken t = t"
    by (induction t) (auto simp: escape_bytes split: if_splits)
  with False show ?thesis by (simp add: unescapeJSONPointerToken_def)
qed

lemma pointer_from_tokens_join:
  "ts \<noteq> [] \<Longrightarrow> JSONPointerFromTokens ts = CHR ''/'' # join_with ''/'' (map EscapeJSONPointerToken ts)"
proof (induction ts)
  case (Cons t ts)
  then show ?case by (cases ts) auto
qed simp

text \<open>Escaping leaves the white space at the end of a token as it is.\<close>

lemma suffix_escape:
  assumes "suffix w (EscapeJSONPointerToken t)" and "set w \<inter> {tilde, CHR ''/'', CHR ''0'', CHR ''1''} = {}"
  shows "suffix w t"
  using assms
proof (induction w arbitrary: t rule: rev_induct)
  case (snoc c w)
  then obtain t' d where t: "t = t' @ [d]" by (cases t rule: rev_cases) (auto simp: escape_bytes)
  then have "suffix (w @ [c]) (EscapeJSONPointerToken t' @ escape_byte d)"
    using snoc.prems(1) by (simp add: escape_bytes del: escape_byte.simps)
  then have "d = c" "suffix w (EscapeJSONPointerToken t')"
    using snoc.prems(2) by (auto simp: suffix_def split: if_splits)
  then show ?case using snoc.IH[of t'] snoc.prems(2) t by (auto simp: suffix_def)
qed simp

lemma space_encodings_bytes:
  "w \<in> set space_encodings \<Longrightarrow> set w \<inter> {tilde, CHR ''/'', CHR ''0'', CHR ''1''} = {}"
  by (auto simp: space_encodings_def)

lemma suffix_after_slash: "suffix w (p @ CHR ''/'' # e) \<Longrightarrow> CHR ''/'' \<notin> set w \<Longrightarrow> suffix w e"
  by (auto simp: suffix_def append_eq_append_conv2 Cons_eq_append_conv)

lemma trim_space_pointer:
  assumes "ts = [] \<or> trailing_space (last ts) = None"
  shows "trim_space (JSONPointerFromTokens ts) = JSONPointerFromTokens ts"
proof (cases "ts = []")
  case False
  let ?e = "EscapeJSONPointerToken (last ts)"
  have split: "JSONPointerFromTokens (us @ [u]) = JSONPointerFromTokens us @ CHR ''/'' # EscapeJSONPointerToken u"
    for us u by (induction us) auto
  have ptr: "JSONPointerFromTokens ts = JSONPointerFromTokens (butlast ts) @ CHR ''/'' # ?e"
    using split[of "butlast ts" "last ts"] False by simp
  have "\<not> suffix w (JSONPointerFromTokens ts)" if w: "w \<in> set space_encodings" for w
  proof
    assume "suffix w (JSONPointerFromTokens ts)"
    then have "suffix w ?e"
      using space_encodings_bytes[OF w] suffix_after_slash[of w _ ?e] by (metis ptr disjoint_insert(2))
    then have "suffix w (last ts)" using space_encodings_bytes[OF w] by (rule suffix_escape)
    then show False using assms False w by (auto simp: trailing_space_None)
  qed
  then have "trailing_space (JSONPointerFromTokens ts) = None" by (simp add: trailing_space_None)
  moreover have "leading_space (JSONPointerFromTokens ts) = None"
    using False by (cases ts) (simp_all add: leading_space_visible)
  ultimately show ?thesis by (rule trim_space_id[rotated])
qed simp

section \<open>Assignment and lookup\<close>

text \<open>Two tokens name the same slot when they are equal or are numerals of the same index.\<close>

definition same_slot :: "string \<Rightarrow> string \<Rightarrow> bool" where
  "same_slot a b = (a = b \<or> (parseJSONPointerArrayIndex a \<noteq> None \<and>
                             parseJSONPointerArrayIndex a = parseJSONPointerArrayIndex b))"

fun diverge :: "string list \<Rightarrow> string list \<Rightarrow> bool" where
  "diverge (a # as) (b # bs) = (if same_slot a b then diverge as bs else True)"
| "diverge as bs = False"

lemma same_slot_refl [simp]: "same_slot a a"
  by (simp add: same_slot_def)

text \<open>The value \<open>setJSONPointerValue\<close> works on below the first token, and the containers it builds.\<close>

lemma set_index_cases:
  assumes "setJSONPointerValue d (t # ts) v = Ok r" and "parseJSONPointerArrayIndex t = Some i"
  obtains items nx where "i < length items" "r = VSlice (items[i := nx])"
    "setJSONPointerValue (items ! i) ts v = Ok nx"
    "d = VNil \<or> (\<exists>old. d = VSlice old \<and> length old \<le> length items \<and> take (length old) items = old)"
proof (cases d)
  case VNil
  with assms obtain nx where
    "r = VSlice ((replicate (i + 1) VNil)[i := nx])" "setJSONPointerValue (replicate (i + 1) VNil ! i) ts v = Ok nx"
    by (auto split: result.splits if_splits)
  with VNil show ?thesis by (intro that[of "replicate (i + 1) VNil" nx]) auto
next
  case (VSlice old)
  let ?items = "if length old \<le> i then old @ replicate (i + 1 - length old) VNil else old"
  from VSlice assms obtain nx where
    "r = VSlice (?items[i := nx])" "setJSONPointerValue (?items ! i) ts v = Ok nx"
    by (cases "length old \<le> i") (auto split: result.splits if_splits)
  with VSlice show ?thesis by (intro that[of ?items nx]) auto
qed (use assms in simp_all)

lemma set_key_cases:
  assumes "setJSONPointerValue d (t # ts) v = Ok r" and "parseJSONPointerArrayIndex t = None"
  obtains m nx where "r = VMap (map_put t nx m)" "d = VNil \<and> m = [] \<or> d = VMap m"
    "setJSONPointerValue (case map_get m t of None \<Rightarrow> VNil | Some x \<Rightarrow> x) ts v = Ok nx"
  using assms by (fastforce split: gval.splits result.splits)

lemma set_then_lookup: "setJSONPointerValue d ts v = Ok r \<Longrightarrow> lookup_tokens r ts = Some v"
proof (induction ts arbitrary: d r)
  case (Cons t ts)
  show ?case
  proof (cases "parseJSONPointerArrayIndex t")
    case None
    then show ?thesis using Cons by (elim set_key_cases) auto
  next
    case (Some i)
    then show ?thesis using Cons by (elim set_index_cases) auto
  qed
qed simp

lemma set_frame:
  "setJSONPointerValue d ts v = Ok r \<Longrightarrow> diverge ts us \<Longrightarrow> lookup_tokens d us = Some x \<Longrightarrow>
   lookup_tokens r us = Some x"
proof (induction ts arbitrary: d r us)
  case (Cons t ts)
  obtain u us' where us: "us = u # us'" using Cons.prems(2) by (cases us) auto
  show ?case
  proof (cases "parseJSONPointerArrayIndex t")
    case None
    from Cons.prems(1) None obtain m nx where r: "r = VMap (map_put t nx m)"
      and d: "d = VNil \<and> m = [] \<or> d = VMap m"
      and n: "setJSONPointerValue (case map_get m t of None \<Rightarrow> VNil | Some x \<Rightarrow> x) ts v = Ok nx"
      by (rule set_key_cases)
    show ?thesis
    proof (cases "u = t")
      case True
      then show ?thesis using Cons.IH[OF n] Cons.prems(2,3) d
        by (auto simp: r us split: option.splits)
    next
      case False
      then show ?thesis using Cons.prems(3) d by (auto simp: r us split: option.splits)
    qed
  next
    case (Some i)
    from Cons.prems(1) Some obtain items nx where i: "i < length items"
      and r: "r = VSlice (items[i := nx])" and n: "setJSONPointerValue (items ! i) ts v = Ok nx"
      and d: "d = VNil \<or> (\<exists>old. d = VSlice old \<and> length old \<le> length items \<and> take (length old) items = old)"
      by (rule set_index_cases)
    from d Cons.prems(3) obtain old j where old: "d = VSlice old" "length old \<le> length items"
      "take (length old) items = old" and j: "parseJSONPointerArrayIndex u = Some j" "j < length old"
      "lookup_tokens (old ! j) us' = Some x"
      by (auto simp: us split: option.splits if_splits)
    have oj: "old ! j = items ! j" using old j(2) by (metis nth_take)
    show ?thesis
    proof (cases "i = j")
      case True
      then have "diverge ts us'" using Cons.prems(2) Some j(1) by (simp add: us same_slot_def)
      then show ?thesis using Cons.IH[OF n] True i j oj by (simp add: r us)
    next
      case False
      then show ?thesis using j old(2) oj by (simp add: r us)
    qed
  qed
qed simp

text \<open>Removal along object keys.\<close>

abbreviation object_token :: "string \<Rightarrow> bool" where
  "object_token t \<equiv> parseJSONPointerArrayIndex t = None"

lemma lookup_through_key:
  "lookup_tokens d (t # ts) =
     (case d of VMap m \<Rightarrow> Option.bind (map_get m t) (\<lambda>x. lookup_tokens x ts)
      | _ \<Rightarrow> None)" if "object_token t"
  using that by (cases d) (auto split: option.splits)

lemma delete_then_lookup:
  "ts \<noteq> [] \<Longrightarrow> list_all object_token ts \<Longrightarrow>
   \<exists>r. deleteJSONPointerValue d ts = Ok r \<and> lookup_tokens r ts = None"
proof (induction ts arbitrary: d)
  case (Cons t ts)
  show ?case
  proof (cases d)
    case (VMap m)
    show ?thesis
    proof (cases "ts = [] \<or> map_get m t = None")
      case True
      then show ?thesis using Cons.prems VMap by auto
    next
      case False
      then obtain c where c: "map_get m t = Some c" "ts \<noteq> []" by auto
      then obtain r where "deleteJSONPointerValue c ts = Ok r" "lookup_tokens r ts = None"
        using Cons.IH[of c] Cons.prems by auto
      then show ?thesis using c Cons.prems VMap by auto
    qed
  qed (use Cons.prems in auto)
qed simp

section \<open>Properties\<close>

text \<open>Parsing the pointer printed from a list of tokens gives the tokens back, for every list
  whose last token does not end in white space (the parser trims the whole pointer).\<close>

theorem ParseJSONPointer_roundtrip:
  assumes "ts = [] \<or> trailing_space (last ts) = None"
  shows "ParseJSONPointer (JSONPointerFromTokens ts) = Ok ts"
proof (cases "ts = []")
  case False
  have "split_on (CHR ''/'') (join_with ''/'' (map EscapeJSONPointerToken ts)) = map EscapeJSONPointerToken ts"
    using False by (intro split_join) (auto simp: escape_no_slash)
  moreover have "each_result unescapeJSONPointerToken (map EscapeJSONPointerToken ts) = Ok ts"
    by (auto simp: each_result_Ok list_all2_conv_all_nth)
  ultimately show ?thesis
    using False trim_space_pointer[OF assms] by (simp add: ParseJSONPointer_def pointer_from_tokens_join)
qed (simp add: ParseJSONPointer_def)

theorem ParseJSONPointer_roundtrip_witness:
  "JSONPointerFromTokens [''a/b'', ''~'', [], ''0''] = ''/a~1b/~0//0''
   \<and> ParseJSONPointer ''/a~1b/~0//0'' = Ok [''a/b'', ''~'', [], ''0'']"
proof -
  have "JSONPointerFromTokens [''a/b'', ''~'', [], ''0''] = ''/a~1b/~0//0''" by code_simp
  moreover have "trailing_space (last [''a/b'', ''~'', [], ''0'']) = None" by code_simp
  ultimately show ?thesis
    using ParseJSONPointer_roundtrip[of "[''a/b'', ''~'', [], ''0'']"] by simp
qed

text \<open>The condition on the last token is needed: the pointer for the object key "a " is read
  back as the key "a".\<close>

theorem JSONPointerForObjectKey_trimmed:
  "ParseJSONPointer (JSONPointerForObjectKey ''a '') = Ok [''a'']"
  by code_simp

text \<open>After a successful assignment the pointer's tokens look up the assigned value, and
  every value found before under tokens that diverge from them is still found there.\<close>

theorem setJSONPointerValue_lookup:
  assumes "setJSONPointerValue d ts v = Ok r"
  shows "lookup_tokens r ts = Some v
    \<and> (\<forall>us x. diverge ts us \<longrightarrow> lookup_tokens d us = Some x \<longrightarrow> lookup_tokens r us = Some x)"
  using set_then_lookup[OF assms] set_frame[OF assms] by blast

theorem setJSONPointerValue_lookup_witness:
  "lookup_tokens (VMap [(''a'', VSlice [VNil, VBool True]), (''b'', VString ''x'')]) [''b''] = Some (VString ''x'')
   \<and> lookup_tokens (VMap [(''a'', VSlice [VNil, VBool True]), (''b'', VString ''x'')]) [''a'', ''1''] = Some (VBool True)"
proof -
  have "setJSONPointerValue (VMap [(''b'', VString ''x'')]) [''a'', ''1''] (VBool True) =
          Ok (VMap [(''a'', VSlice [VNil, VBool True]), (''b'', VString ''x'')])" by code_simp
  moreover have "diverge [''a'', ''1''] [''b'']" by code_simp
  moreover have "lookup_tokens (VMap [(''b'', VString ''x'')]) [''b''] = Some (VString ''x'')" by code_simp
  ultimately show ?thesis using setJSONPointerValue_lookup by blast
qed

text \<open>Removal along object keys never fails and afterwards nothing is found there.\<close>

theorem deleteJSONPointerValue_removes:
  assumes "ts \<noteq> []" and "list_all (\<lambda>t. parseJSONPointerArrayIndex t = None) ts"
  shows "\<exists>r. deleteJSONPointerValue d ts = Ok r \<and> lookup_tokens r ts = None"
  using assms by (rule delete_then_lookup)

theorem deleteJSONPointerValue_removes_witness:
  "\<exists>r. deleteJSONPointerValue (VMap [(''a'', VMap [(''b'', VBool True)])]) [''a'', ''b''] = Ok r
       \<and> lookup_tokens r [''a'', ''b''] = None"
proof -
  have "list_all (\<lambda>t. parseJSONPointerArrayIndex t = None) [''a'', ''b'']" by code_simp
  then show ?thesis using deleteJSONPointerValue_removes[of "[''a'', ''b'']"] by simp
qed

text \<open>An object key that reads as an array index is found by a lookup, but removal leaves it
  in place and assignment refuses it.\<close>

theorem numeric_object_key:
  assumes "parseJSONPointerArrayIndex t = Some i" and "map_get m t = Some x"
  shows "lookup_tokens (VMap m) [t] = Some x \<and> deleteJSONPointerValue (VMap m) [t] = Ok (VMap m)
    \<and> \<not> is_ok (setJSONPointerValue (VMap m) [t] v)"
  using assms by simp

theorem numeric_object_key_witness:
  "deleteJSONPointerValue (VMap [(''42'', VBool True)]) [''42''] = Ok (VMap [(''42'', VBool True)])"
proof -
  have "parseJSONPointerArrayIndex ''42'' = Some 42" by code_simp
  then show ?thesis using numeric_object_key[of "''42''" 42 "[(''42'', VBool True)]" "VBool True"] by simp
qed

end
