(* ===== verification/Go_Unicode.thy ===== *)
theory Go_Unicode
  imports Go_Lib
begin

text \<open>
  Runes and letter case: the UTF-8 view of a Go string that \<open>for _, r := range s\<close>,
  \<open>strings.Builder.WriteRune\<close> and \<open>strings.ToLower\<close> give.

  Ranging over a string yields one rune per valid encoding and \<open>U+FFFD\<close> per byte that starts
  none, so \<open>runes s\<close> is the list of the byte sequences that writing those runes gives.  Lower case
  on a string of ASCII bytes is bytewise; on any other string it is the Unicode table of the
  standard library, a function \<open>ulower\<close> that the definitions take as an argument.  \<open>lower_laws\<close>
  states what the code relies on: lower-casing twice is lower-casing once, lower-casing a string
  without surrounding white space leaves none, and lower case is taken rune by rune, so that an
  ASCII byte at the front is lower-cased on its own.
\<close>

definition byte :: "char \<Rightarrow> nat" where "byte c = of_char c"

definition cont_byte :: "char \<Rightarrow> bool" where
  "cont_byte c = (0x80 \<le> byte c \<and> byte c \<le> 0xBF)"

definition ascii_byte :: "char \<Rightarrow> bool" where "ascii_byte c = (byte c < 0x80)"

text \<open>The length of the valid encoding at the front of a string, 0 if there is none.\<close>

definition utf8_len :: "string \<Rightarrow> nat" where
  "utf8_len s =
     (case s of [] \<Rightarrow> 0
      | a # s1 \<Rightarrow>
        if byte a < 0x80 then 1
        else (case s1 of [] \<Rightarrow> 0
          | b # s2 \<Rightarrow>
            if 0xC2 \<le> byte a \<and> byte a \<le> 0xDF then (if cont_byte b then 2 else 0)
            else (case s2 of [] \<Rightarrow> 0
              | c # s3 \<Rightarrow>
                if 0xE0 \<le> byte a \<and> byte a \<le> 0xEF
                then (if cont_byte b \<and> cont_byte c \<and> (byte a = 0xE0 \<longrightarrow> 0xA0 \<le> byte b)
                         \<and> (byte a = 0xED \<longrightarrow> byte b \<le> 0x9F) then 3 else 0)
                else (case s3 of [] \<Rightarrow> 0
                  | d # s4 \<Rightarrow>
                    if 0xF0 \<le> byte a \<and> byte a \<le> 0xF4 \<and> cont_byte b \<and> cont_byte c \<and> cont_byte d
                       \<and> (byte a = 0xF0 \<longrightarrow> 0x90 \<le> byte b) \<and> (byte a = 0xF4 \<longrightarrow> byte b \<le> 0x8F)
                    then 4 else 0))))"

definition rune_error :: string where "rune_error = [CHR 0xEF, CHR 0xBF, CHR 0xBD]"

function runes :: "string \<Rightarrow> string list" where
  "runes s =
     (case s of [] \<Rightarrow> []
      | c # cs \<Rightarrow> if utf8_len s = 0 then rune_error # runes cs
                  else take (utf8_len s) s # runes (drop (utf8_len s) s))"
  by pat_completeness auto
termination
  by (relation "measure length") auto

declare runes.simps [simp del]

definition valid_utf8 :: "string \<Rightarrow> bool" where
  "valid_utf8 s = (concat (runes s) = s)"

text \<open>\<open>WriteRune\<close> of a code point below \<open>0x10000\<close>; surrogates are written as \<open>U+FFFD\<close>.\<close>

definition encode_rune16 :: "nat \<Rightarrow> string" where
  "encode_rune16 n =
     (if n < 0x80 then [char_of n]
      else if n < 0x800 then [char_of (0xC0 + n div 64), char_of (0x80 + n mod 64)]
      else if 0xD800 \<le> n \<and> n \<le> 0xDFFF then rune_error
      else [char_of (0xE0 + n div 4096), char_of (0x80 + n div 64 mod 64), char_of (0x80 + n mod 64)])"

section \<open>Runes\<close>

lemma runes_Nil [simp]: "runes [] = []"
  by (subst runes.simps) simp

lemma utf8_len_ascii: "ascii_byte c \<Longrightarrow> utf8_len (c # s) = 1"
  by (simp add: utf8_len_def ascii_byte_def)

lemma runes_ascii: "ascii_byte c \<Longrightarrow> runes (c # s) = [c] # runes s"
  by (subst runes.simps) (simp add: utf8_len_ascii)

lemma utf8_len_le: "utf8_len s \<le> length s"
  by (auto simp: utf8_len_def split: list.splits)

text \<open>A rune of more than one byte has no ASCII byte, and a rune of one byte is ASCII.\<close>

lemma utf8_len_bytes:
  assumes "utf8_len s \<noteq> 0" and "\<not> ascii_byte (hd s)"
  shows "\<forall>c\<in>set (take (utf8_len s) s). \<not> ascii_byte c"
  using assms
  by (auto simp: utf8_len_def ascii_byte_def cont_byte_def split: list.splits if_splits)

lemma rune_error_bytes: "\<forall>c\<in>set rune_error. \<not> ascii_byte c"
  by (simp add: rune_error_def ascii_byte_def byte_def)

lemma runes_shape:
  "r \<in> set (runes s) \<Longrightarrow> (\<exists>c. r = [c] \<and> ascii_byte c \<and> c \<in> set s) \<or> (r \<noteq> [] \<and> (\<forall>c\<in>set r. \<not> ascii_byte c))"
proof (induction s arbitrary: r rule: runes.induct)
  case (1 s)
  show ?case
  proof (cases s)
    case Nil
    with 1 show ?thesis by simp
  next
    case (Cons c cs)
    show ?thesis
    proof (cases "ascii_byte c")
      case True
      then have "r = [c] \<or> r \<in> set (runes cs)" using 1(3) Cons by (auto simp: runes_ascii)
      moreover have "utf8_len s \<noteq> 0" "drop (utf8_len s) s = cs"
        using Cons True by (simp_all add: utf8_len_ascii)
      ultimately show ?thesis
      proof (elim disjE)
        assume "r \<in> set (runes cs)"
        with 1(2)[OF Cons, of r] \<open>utf8_len s \<noteq> 0\<close> \<open>drop (utf8_len s) s = cs\<close> show ?thesis
          unfolding Cons by (metis list.set_intros(2))
      qed (use True Cons in auto)
    next
      case False
      show ?thesis
      proof (cases "utf8_len s = 0")
        case True
        then have "r = rune_error \<or> r \<in> set (runes cs)"
          using 1(3) by (subst (asm) runes.simps) (simp add: Cons)
        then show ?thesis
          using 1(1)[OF Cons True, of r] rune_error_bytes Cons
          by (metis list.distinct(1) list.set_intros(2) rune_error_def)
      next
        case nz: False
        then have "r = take (utf8_len s) s \<or> r \<in> set (runes (drop (utf8_len s) s))"
          using 1(3) by (subst (asm) runes.simps) (simp add: Cons)
        then show ?thesis
        proof
          assume "r = take (utf8_len s) s"
          then show ?thesis using utf8_len_bytes[OF nz] False Cons nz by auto
        next
          assume "r \<in> set (runes (drop (utf8_len s) s))"
          then show ?thesis using 1(2)[OF Cons nz] in_set_dropD by fastforce
        qed
      qed
    qed
  qed
qed

section \<open>Letter case\<close>

definition lower_byte :: "char \<Rightarrow> char" where
  "lower_byte c = (if CHR ''A'' \<le> c \<and> c \<le> CHR ''Z'' then char_of (byte c + 32) else c)"

definition upper_byte :: "char \<Rightarrow> char" where
  "upper_byte c = (if CHR ''a'' \<le> c \<and> c \<le> CHR ''z'' then char_of (byte c - 32) else c)"

definition to_lower :: "(string \<Rightarrow> string) \<Rightarrow> string \<Rightarrow> string" where
  "to_lower ulower s = (if list_all ascii_byte s then map lower_byte s else ulower s)"

definition lower_laws :: "(string \<Rightarrow> string) \<Rightarrow> bool" where
  "lower_laws ulower =
     ((\<forall>s. to_lower ulower (to_lower ulower s) = to_lower ulower s)
      \<and> (\<forall>s. trim_space s = s \<longrightarrow> trim_space (to_lower ulower s) = to_lower ulower s)
      \<and> (\<forall>s. to_lower ulower s = [] \<longrightarrow> s = [])
      \<and> (\<forall>c s. ascii_byte c \<longrightarrow> to_lower ulower (c # s) = lower_byte c # to_lower ulower s))"

lemma lower_laws_idem: "lower_laws ul \<Longrightarrow> to_lower ul (to_lower ul s) = to_lower ul s"
  by (simp add: lower_laws_def)

lemma lower_laws_trim: "lower_laws ul \<Longrightarrow> trim_space (to_lower ul (trim_space s)) = to_lower ul (trim_space s)"
  by (simp add: lower_laws_def)

lemma lower_laws_Nil: "lower_laws ul \<Longrightarrow> to_lower ul s = [] \<longleftrightarrow> s = []"
  unfolding lower_laws_def by (metis list.pred_inject(1) list.simps(8) to_lower_def)

text \<open>Lower-casing and trimming: the normal form of the names the sources compare.\<close>

definition lower_trim :: "(string \<Rightarrow> string) \<Rightarrow> string \<Rightarrow> string" where
  "lower_trim ul s = to_lower ul (trim_space s)"

lemma lower_trim_idem [go_norm]: "lower_laws ul \<Longrightarrow> lower_trim ul (lower_trim ul s) = lower_trim ul s"
  by (simp add: lower_trim_def lower_laws_trim lower_laws_idem)

lemma byte_less: "byte c < 256"
  by (simp add: byte_def)

lemma byte_inject: "byte c = byte d \<longleftrightarrow> c = d"
  by (simp add: byte_def)

lemma byte_lower: "byte (lower_byte c) = (if 65 \<le> byte c \<and> byte c \<le> 90 then byte c + 32 else byte c)"
  by (simp add: lower_byte_def less_eq_char_def byte_def)

lemma lower_byte_idem [simp]: "lower_byte (lower_byte c) = lower_byte c"
  by (simp add: byte_inject[symmetric] byte_lower)

lemma ascii_lower_byte [simp]: "ascii_byte (lower_byte c) \<longleftrightarrow> ascii_byte c"
  by (simp add: ascii_byte_def byte_lower)

definition letter_byte :: "char \<Rightarrow> bool" where
  "letter_byte c = (65 \<le> byte c \<and> byte c \<le> 90 \<or> 97 \<le> byte c \<and> byte c \<le> 122)"

lemma lower_byte_other: "\<not> letter_byte d \<Longrightarrow> lower_byte c = d \<longleftrightarrow> c = d"
  by (auto simp: byte_inject[symmetric] byte_lower letter_byte_def split: if_splits)

lemma prefix_map_lower: "\<forall>d\<in>set w. \<not> letter_byte d \<Longrightarrow> prefix w (map lower_byte s) \<longleftrightarrow> prefix w s"
proof (induction w arbitrary: s)
  case (Cons d w)
  have eq: "d = lower_byte c \<longleftrightarrow> d = c" for c
    using lower_byte_other[of d c] Cons.prems by auto
  show ?case using Cons by (cases s) (simp_all add: eq)
qed simp

lemma suffix_map_lower: "\<forall>d\<in>set w. \<not> letter_byte d \<Longrightarrow> suffix w (map lower_byte s) \<longleftrightarrow> suffix w s"
  using prefix_map_lower[of "rev w" "rev s"] by (simp add: suffix_to_prefix rev_map)

lemma space_encodings_letters: "w \<in> set space_encodings \<Longrightarrow> \<forall>d\<in>set w. \<not> letter_byte d"
  by (auto simp: space_encodings_def letter_byte_def byte_def)

lemma trim_space_lower: "trim_space s = s \<Longrightarrow> trim_space (map lower_byte s) = map lower_byte s"
  by (simp add: trim_space_id_iff leading_space_None trailing_space_None prefix_map_lower
      suffix_map_lower space_encodings_letters)

lemma lower_laws_Cons: "lower_laws ul \<Longrightarrow> ascii_byte c \<Longrightarrow> to_lower ul (c # s) = lower_byte c # to_lower ul s"
  by (simp add: lower_laws_def)

text \<open>The laws hold of a table that changes no rune outside ASCII.\<close>

lemma lower_laws_example: "lower_laws (map lower_byte)"
  by (auto simp: lower_laws_def to_lower_def trim_space_lower)

text \<open>Names that lower-casing and trimming leave as they are, whatever the table.\<close>

definition plain_name :: "string \<Rightarrow> bool" where
  "plain_name s = (list_all ascii_byte s \<and> map lower_byte s = s \<and> trim_space s = s)"

lemma plain_name_simps [simp]:
  "plain_name s \<Longrightarrow> to_lower ul s = s" "plain_name s \<Longrightarrow> trim_space s = s"
  by (simp_all add: plain_name_def to_lower_def)

end
