(* ===== verification/Identity_Template.thy ===== *)
theory Identity_Template
  imports Json_Pointer Go_Unicode "HOL-Library.Code_Target_Nat"
begin

text \<open>
  Identity templates (src/metadata/identitytemplate/template.go): texts with expressions between \<open>{{\<close> and \<open>}}\<close> that
  give a resource its identifier or alias from the values its payload has at JSON pointers, through the helpers
  \<open>uppercase\<close>, \<open>lowercase\<close>, \<open>trim\<close>, \<open>substring\<close> and \<open>default\<close>.

  The Unicode tables and \<open>strconv.FormatFloat\<close> are the record \<open>identity_env\<close>.  An error is a plain error; the wrapped
  integers and the panic of a slice out of bounds are written out.  The cache of compiled templates is a map that
  \<open>Compile\<close> passes on.

  The theorems show that a rendered identity depends on nothing but the pointers that the template reports, what the
  shorthand of a bare JSON pointer renders, and two inputs on which the code goes wrong.
\<close>

record identity_env =
  id_lower :: "string \<Rightarrow> string"
  id_upper :: "string \<Rightarrow> string"
  id_float :: "nat \<Rightarrow> float64 \<Rightarrow> string"

definition to_upper :: "(string \<Rightarrow> string) \<Rightarrow> string \<Rightarrow> string" where
  "to_upper uupper s = (if list_all ascii_byte s then map upper_byte s else uupper s)"

section \<open>Data\<close>

datatype expressionNode = LiteralNode string | PointerNode string | HelperNode string "expressionNode list"

datatype templatePart = LiteralPart string | ExpressionPart string expressionNode

record Template =
  tmpl_raw :: string
  tmpl_parts :: "templatePart list"
  tmpl_pointers :: "string list"
  tmpl_simplePointer :: string

record token =
  tok_text :: string
  tok_quoted :: bool

section \<open>Tokens\<close>

definition blank_rune :: "string \<Rightarrow> bool" where
  "blank_rune r = (r \<in> {[CHR '' ''], [CHR 0x09], [CHR 0x0A], [CHR 0x0D]})"

definition quote_rune :: "string \<Rightarrow> bool" where
  "quote_rune r = (r \<in> {[CHR 0x22], [CHR 0x27]})"

text \<open>The state of the loop: the tokens so far, the text of the current one, the open quote, whether the current token
  is quoted, and whether the last rune was a backslash.\<close>

definition flush :: "token list \<Rightarrow> string \<Rightarrow> bool \<Rightarrow> token list \<times> string \<times> bool" where
  "flush tokens current quoted =
     (if current = [] then (tokens, current, quoted)
      else (tokens @ [\<lparr>tok_text = current, tok_quoted = quoted\<rparr>], [], False))"

fun tokenize_runes ::
  "string list \<Rightarrow> token list \<Rightarrow> string \<Rightarrow> string option \<Rightarrow> bool \<Rightarrow> bool \<Rightarrow> token list result" where
  "tokenize_runes [] tokens current quote quoted escaped =
     (if escaped \<or> quote \<noteq> None then Err (PlainError (msg ''identity template contains an unterminated quoted string'') None)
      else Ok (fst (flush tokens current quoted)))"
| "tokenize_runes (r # rs) tokens current quote quoted escaped =
     (case quote of
        Some q \<Rightarrow>
          if escaped then tokenize_runes rs tokens (current @ r) quote quoted False
          else if r = [CHR 0x5C] then tokenize_runes rs tokens current quote quoted True
          else if r = q then tokenize_runes rs tokens current None quoted escaped
          else tokenize_runes rs tokens (current @ r) quote quoted escaped
      | None \<Rightarrow>
          if quote_rune r then tokenize_runes rs tokens current (Some r) True escaped
          else if blank_rune r then
            (case flush tokens current quoted of
               (tokens', current', quoted') \<Rightarrow> tokenize_runes rs tokens' current' quote quoted' escaped)
          else tokenize_runes rs tokens (current @ r) quote quoted escaped)"

definition tokenize :: "string \<Rightarrow> token list result" where
  "tokenize raw = tokenize_runes (runes raw) [] [] None False False"

section \<open>Expressions\<close>

definition normalizeHelperName :: "string \<Rightarrow> string" where
  "normalizeHelperName name =
     (let n = trim_space name in
      if n \<in> {''uppercase'', ''to_uppercase''} then ''uppercase''
      else if n \<in> {''lowercase'', ''to_lowercase''} then ''lowercase''
      else n)"

definition isSupportedHelper :: "string \<Rightarrow> bool" where
  "isSupportedHelper name = (name \<in> {''uppercase'', ''lowercase'', ''trim'', ''substring'', ''default''})"

definition validateHelperArity :: "string \<Rightarrow> nat \<Rightarrow> go_error option" where
  "validateHelperArity name count =
     (if name \<in> {''uppercase'', ''lowercase'', ''trim''} \<and> count \<noteq> 1
      then Some (PlainError (''identity template helper %q expects exactly 1 argument'', [name]) None)
      else if name = ''substring'' \<and> count \<noteq> 2 \<and> count \<noteq> 3
      then Some (PlainError (''identity template helper %q expects 2 or 3 arguments'', [name]) None)
      else if name = ''default'' \<and> count < 2
      then Some (PlainError (''identity template helper %q expects at least 2 arguments'', [name]) None)
      else None)"

definition bare_pointer :: "string \<Rightarrow> bool" where
  "bare_pointer s =
     (case s of [] \<Rightarrow> False
      | c # cs \<Rightarrow> (letter_byte c \<or> c = CHR ''_'') \<and> list_all (\<lambda>d. letter_byte d \<or> is_digit_byte d \<or> d = CHR ''_'') cs)"

text \<open>The error of an invalid pointer comes with \<open>ok = false\<close>, and no caller looks at it then.\<close>

definition singleTokenPointer :: "token \<Rightarrow> string \<times> bool \<times> go_error option" where
  "singleTokenPointer item =
     (if tok_quoted item then ([], False, None)
      else
        let trimmed = trim_space (tok_text item) in
        if prefix ''/'' trimmed then
          (case ParseJSONPointer trimmed of Err e \<Rightarrow> ([], False, Some e) | Ok tokens \<Rightarrow> (trimmed, True, None))
        else if bare_pointer trimmed then (JSONPointerForObjectKey trimmed, True, None)
        else ([], False, None))"

fun parse_args :: "token list \<Rightarrow> expressionNode list result" where
  "parse_args [] = Ok []"
| "parse_args (item # items) =
     (case singleTokenPointer item of
        (pointer, True, Some e) \<Rightarrow> Err e
      | (pointer, True, None) \<Rightarrow> (case parse_args items of Err e \<Rightarrow> Err e | Ok args \<Rightarrow> Ok (PointerNode pointer # args))
      | (pointer, False, e) \<Rightarrow> (case parse_args items of Err e \<Rightarrow> Err e | Ok args \<Rightarrow> Ok (LiteralNode (tok_text item) # args)))"

definition parseExpression :: "string \<Rightarrow> expressionNode result" where
  "parseExpression raw =
     (case tokenize raw of
        Err e \<Rightarrow> Err e
      | Ok [] \<Rightarrow> Err (PlainError (msg ''identity template expression must not be empty'') None)
      | Ok [item] \<Rightarrow>
          (case singleTokenPointer item of
             (pointer, True, Some e) \<Rightarrow> Err e
           | (pointer, True, None) \<Rightarrow> Ok (PointerNode pointer)
           | (pointer, False, e) \<Rightarrow>
               if tok_quoted item then Ok (LiteralNode (tok_text item))
               else Err (PlainError (''identity template expression %q is not supported'', [raw]) None))
      | Ok (first # items) \<Rightarrow>
          (let name = normalizeHelperName (tok_text first) in
           if \<not> isSupportedHelper name
           then Err (PlainError (''identity template helper %q is not supported'', [tok_text first]) None)
           else case parse_args items of
                  Err e \<Rightarrow> Err e
                | Ok args \<Rightarrow>
                    (case validateHelperArity name (length args) of Some e \<Rightarrow> Err e | None \<Rightarrow> Ok (HelperNode name args))))"

section \<open>Compilation\<close>

definition PointerTemplate :: "string \<Rightarrow> string" where
  "PointerTemplate pointer = ''{{'' @ trim_space pointer @ ''}}''"

definition normalizePointerShorthand :: "string \<Rightarrow> string" where
  "normalizePointerShorthand raw =
     (let trimmed = trim_space raw in
      if trimmed = [] \<or> sublist ''{{'' trimmed then raw
      else case ParseJSONPointer trimmed of Ok tokens \<Rightarrow> PointerTemplate trimmed | Err e \<Rightarrow> raw)"

text \<open>\<open>orderedPointerCollector\<close>.\<close>

definition add_pointer :: "string \<Rightarrow> string list \<Rightarrow> string list" where
  "add_pointer pointer target =
     (let trimmed = trim_space pointer in
      if trimmed = [] \<or> trimmed \<in> set target then target else target @ [trimmed])"

fun node_pointers :: "expressionNode \<Rightarrow> string list" where
  "node_pointers (LiteralNode v) = []"
| "node_pointers (PointerNode p) = [p]"
| "node_pointers (HelperNode name args) = concat (map node_pointers args)"

fun part_pointers :: "templatePart \<Rightarrow> string list" where
  "part_pointers (LiteralPart t) = []"
| "part_pointers (ExpressionPart raw node) = node_pointers node"

text \<open>The text before and after the first occurrence of a separator.\<close>

fun cut_on :: "string \<Rightarrow> string \<Rightarrow> (string \<times> string) option" where
  "cut_on sep [] = (if sep = [] then Some ([], []) else None)"
| "cut_on sep (c # s) =
     (if prefix sep (c # s) then Some ([], drop (length sep) (c # s))
      else case cut_on sep s of None \<Rightarrow> None | Some (before, after) \<Rightarrow> Some (c # before, after))"

lemma cut_on_Some: "cut_on sep s = Some (before, after) \<Longrightarrow> s = before @ sep @ after"
  by (induction s arbitrary: before) (auto simp: prefix_def split: if_splits option.splits)

function compile_parts :: "string \<Rightarrow> templatePart list result" where
  "compile_parts source =
     (case cut_on ''{{'' source of
        None \<Rightarrow> Ok (if source \<noteq> [] then [LiteralPart source] else [])
      | Some (before, rest) \<Rightarrow>
          (case cut_on ''}}'' rest of
             None \<Rightarrow> Err (PlainError (msg ''identity template contains an unterminated expression'') None)
           | Some (inner, after) \<Rightarrow>
               (let rawExpression = trim_space inner in
                if rawExpression = [] then Err (PlainError (msg ''identity template contains an empty expression'') None)
                else case parseExpression rawExpression of
                       Err e \<Rightarrow> Err e
                     | Ok node \<Rightarrow>
                         (case compile_parts after of
                            Err e \<Rightarrow> Err e
                          | Ok parts \<Rightarrow>
                              Ok ((if before \<noteq> [] then [LiteralPart before] else []) @ ExpressionPart rawExpression node # parts)))))"
  by pat_completeness auto
termination
  by (relation "measure length") (auto dest!: cut_on_Some)

declare compile_parts.simps [simp del]

definition compile :: "string \<Rightarrow> Template result" where
  "compile raw =
     (case compile_parts (normalizePointerShorthand raw) of
        Err e \<Rightarrow> Err e
      | Ok parts \<Rightarrow>
          Ok \<lparr>tmpl_raw = raw, tmpl_parts = parts, tmpl_pointers = fold add_pointer (concat (map part_pointers parts)) [],
              tmpl_simplePointer = (case parts of [ExpressionPart r (PointerNode p)] \<Rightarrow> p | _ \<Rightarrow> [])\<rparr>)"

type_synonym template_cache = "string \<rightharpoonup> Template result"

definition Compile :: "template_cache \<Rightarrow> string \<Rightarrow> Template result \<times> template_cache" where
  "Compile cache raw =
     (case cache raw of
        Some entry \<Rightarrow> (entry, cache)
      | None \<Rightarrow> (let compiled = compile raw in (compiled, cache(raw \<mapsto> compiled))))"

section \<open>Rendering\<close>

definition scalarString :: "identity_env \<Rightarrow> gval \<Rightarrow> string option" where
  "scalarString env v =
     (case v of
        VString s \<Rightarrow> Some (trim_space s)
      | VNumber s f \<Rightarrow> Some (trim_space s)
      | VInt k n \<Rightarrow> Some (itoa n)
      | VUint k n \<Rightarrow> Some (itoa n)
      | VFloat32 x \<Rightarrow> Some (id_float env 32 x)
      | VFloat x \<Rightarrow> Some (id_float env 64 x)
      | VBool b \<Rightarrow> Some (if b then ''true'' else ''false'')
      | _ \<Rightarrow> None)"

text \<open>A value and whether it is missing.\<close>

type_synonym eval_result = "(string \<times> bool) result"

definition eval_pointer :: "identity_env \<Rightarrow> gval \<Rightarrow> string \<Rightarrow> eval_result" where
  "eval_pointer env payload pointer =
     (case LookupJSONPointer payload pointer of
        Err e \<Rightarrow> Err e
      | Ok found \<Rightarrow>
          (case found of
             None \<Rightarrow> Ok ([], True)
           | Some v \<Rightarrow>
               if v = VNil then Ok ([], True)
               else case scalarString env v of
                      None \<Rightarrow> Err (PlainError (''JSON pointer %q resolved to a non-scalar value'', [pointer]) None)
                    | Some text' \<Rightarrow> if trim_space text' = [] then Ok ([], True) else Ok (text', False)))"

definition evalRequiredStringArg :: "string \<Rightarrow> nat \<Rightarrow> eval_result \<Rightarrow> string result" where
  "evalRequiredStringArg helper index arg =
     (case arg of
        Err e \<Rightarrow> Err e
      | Ok (v, missing) \<Rightarrow>
          if missing \<or> trim_space v = []
          then Err (PlainError (''helper %q argument %d did not resolve to a value'', [helper, itoa (int index + 1)]) None)
          else Ok v)"

definition evalRequiredIntArg :: "string \<Rightarrow> nat \<Rightarrow> eval_result \<Rightarrow> int result" where
  "evalRequiredIntArg helper index arg =
     (case evalRequiredStringArg helper index arg of
        Err e \<Rightarrow> Err e
      | Ok v \<Rightarrow>
          (case atoi v of
             None \<Rightarrow> Err (PlainError (''helper %q argument %d must be an integer'', [helper, itoa (int index + 1)]) None)
           | Some parsed \<Rightarrow> Ok parsed))"

definition index_panic :: eval_result where
  "index_panic = Err (Panic (msg ''runtime error: index out of range''))"

definition slice_runes :: "string list \<Rightarrow> int \<Rightarrow> int \<Rightarrow> eval_result" where
  "slice_runes rs start stop =
     (if stop < start \<or> stop < 0 then Err (Panic (msg ''runtime error: slice bounds out of range''))
      else
        let rendered = concat (take (nat (stop - start)) (drop (nat start) rs)) in
        if trim_space rendered = [] then Ok ([], True) else Ok (rendered, False))"

text \<open>The branch \<open>substring\<close>, on the values of its two or three arguments.\<close>

definition eval_substring :: "string \<Rightarrow> eval_result \<Rightarrow> eval_result \<Rightarrow> eval_result option \<Rightarrow> eval_result" where
  "eval_substring name textArg startArg lengthArg =
     (case evalRequiredStringArg name 0 textArg of
        Err e \<Rightarrow> Err e
      | Ok v \<Rightarrow>
     (case evalRequiredIntArg name 1 startArg of
        Err e \<Rightarrow> Err e
      | Ok start \<Rightarrow>
          (let rs = runes v in
           if start < 0 \<or> start > int (length rs)
           then Err (PlainError (''helper %q start index %d is out of range'', [name, itoa start]) None)
           else case lengthArg of
                  None \<Rightarrow> slice_runes rs start (int (length rs))
                | Some arg \<Rightarrow>
                    (case evalRequiredIntArg name 2 arg of
                       Err e \<Rightarrow> Err e
                     | Ok len \<Rightarrow>
                         if len < 0 then Err (PlainError (''helper %q length %d must not be negative'', [name, itoa len]) None)
                         else
                           let stop = wrap64 (start + len) in
                           if stop > int (length rs)
                           then Err (PlainError (''helper %q range [%d:%d] is out of bounds'', [name, itoa start, itoa stop]) None)
                           else slice_runes rs start stop))))"

fun eval :: "identity_env \<Rightarrow> gval \<Rightarrow> expressionNode \<Rightarrow> eval_result"
  and eval_first :: "identity_env \<Rightarrow> gval \<Rightarrow> expressionNode list \<Rightarrow> eval_result" where
  "eval env payload (LiteralNode v) = Ok (v, trim_space v = [])"
| "eval env payload (PointerNode p) = eval_pointer env payload p"
| "eval env payload (HelperNode name args) =
     (if name = ''uppercase'' then
        (case args of
           [] \<Rightarrow> index_panic
         | a # others \<Rightarrow>
             (case evalRequiredStringArg name 0 (eval env payload a) of
                Err e \<Rightarrow> Err e
              | Ok v \<Rightarrow> Ok (to_upper (id_upper env) v, False)))
      else if name = ''lowercase'' then
        (case args of
           [] \<Rightarrow> index_panic
         | a # others \<Rightarrow>
             (case evalRequiredStringArg name 0 (eval env payload a) of
                Err e \<Rightarrow> Err e
              | Ok v \<Rightarrow> Ok (to_lower (id_lower env) v, False)))
      else if name = ''trim'' then
        (case args of
           [] \<Rightarrow> index_panic
         | a # others \<Rightarrow>
             (case evalRequiredStringArg name 0 (eval env payload a) of
                Err e \<Rightarrow> Err e
              | Ok v \<Rightarrow> if trim_space v = [] then Ok ([], True) else Ok (trim_space v, False)))
      else if name = ''substring'' then
        (case args of
           a # b # others \<Rightarrow>
             eval_substring name (eval env payload a) (eval env payload b)
               (case others of [c] \<Rightarrow> Some (eval env payload c) | _ \<Rightarrow> None)
         | _ \<Rightarrow> index_panic)
      else if name = ''default'' then eval_first env payload args
      else Err (PlainError (''identity template helper %q is not supported'', [name]) None))"
| "eval_first env payload [] = Ok ([], True)"
| "eval_first env payload (a # others) =
     (case eval env payload a of
        Err e \<Rightarrow> Err e
      | Ok (v, missing) \<Rightarrow> if missing \<or> trim_space v = [] then eval_first env payload others else Ok (v, False))"

fun render_part :: "identity_env \<Rightarrow> gval \<Rightarrow> templatePart \<Rightarrow> string result" where
  "render_part env payload (LiteralPart t) = Ok t"
| "render_part env payload (ExpressionPart raw node) =
     (case eval env payload node of
        Err (Panic m) \<Rightarrow> Err (Panic m)
      | Err e \<Rightarrow> Err (PlainError (''identity template expression %q failed: %w'', [raw]) (Some e))
      | Ok (v, missing) \<Rightarrow>
          if missing then Err (PlainError (''identity template expression %q did not resolve to a value'', [raw]) None) else Ok v)"

fun render_parts :: "identity_env \<Rightarrow> gval \<Rightarrow> templatePart list \<Rightarrow> string result" where
  "render_parts env payload [] = Ok []"
| "render_parts env payload (p # ps) =
     (case render_part env payload p of
        Err e \<Rightarrow> Err e
      | Ok r \<Rightarrow> (case render_parts env payload ps of Err e \<Rightarrow> Err e | Ok rest \<Rightarrow> Ok (r @ rest)))"

definition Template_Render :: "identity_env \<Rightarrow> Template \<Rightarrow> gval \<Rightarrow> string result" where
  "Template_Render env t payload = render_parts env payload (tmpl_parts t)"

definition SimplePointer :: "Template \<Rightarrow> string option" where
  "SimplePointer t = (if trim_space (tmpl_simplePointer t) = [] then None else Some (tmpl_simplePointer t))"

text \<open>The package functions, with the cache left out.\<close>

definition Render :: "identity_env \<Rightarrow> string \<Rightarrow> gval \<Rightarrow> string result" where
  "Render env raw payload = (case compile raw of Err e \<Rightarrow> Err e | Ok t \<Rightarrow> Template_Render env t payload)"

definition ExtractPointers :: "string \<Rightarrow> string list result" where
  "ExtractPointers raw = (case compile raw of Err e \<Rightarrow> Err e | Ok t \<Rightarrow> Ok (tmpl_pointers t))"

section \<open>What a rendered identity depends on\<close>

lemma eval_agree:
  "\<forall>p \<in> set (node_pointers n). LookupJSONPointer a p = LookupJSONPointer b p \<Longrightarrow> eval env a n = eval env b n"
proof (induction n)
  case (HelperNode name args)
  have eq: "eval env a x = eval env b x" if "x \<in> set args" for x
    using HelperNode.IH[OF that] HelperNode.prems that by simp
  then have "eval_first env a args = eval_first env b args"
    by (induction args) (simp_all split: result.split)
  with eq show ?case
    by (cases args; cases "tl args") (simp_all del: eval_first.simps split: list.split)
qed (simp_all add: eval_pointer_def)

lemma render_parts_agree:
  "\<forall>p \<in> set (concat (map part_pointers parts)). LookupJSONPointer a p = LookupJSONPointer b p
    \<Longrightarrow> render_parts env a parts = render_parts env b parts"
proof (induction parts)
  case (Cons part parts)
  have "render_part env a part = render_part env b part"
    using Cons.prems eval_agree[of _ a b env] by (cases part) simp_all
  then show ?case using Cons by (simp split: result.split)
qed simp

lemma add_pointer_set: "set (add_pointer p target) = set target \<union> (if trim_space p = [] then {} else {trim_space p})"
  by (auto simp: add_pointer_def Let_def)

lemma collected_pointers: "p \<in> set ps \<Longrightarrow> trim_space p = p \<Longrightarrow> p \<noteq> [] \<Longrightarrow> p \<in> set (fold add_pointer ps target)"
proof (induction ps arbitrary: target)
  case (Cons q ps)
  have keep: "x \<in> set target \<Longrightarrow> x \<in> set (fold add_pointer ps target)" for x target
    by (induction ps arbitrary: target) (auto simp: add_pointer_set)
  then show ?case using Cons by (auto simp: add_pointer_set)
qed simp

definition name_byte :: "char \<Rightarrow> bool" where
  "name_byte c \<longleftrightarrow> letter_byte c \<or> is_digit_byte c \<or> c = CHR ''_''"

lemma name_byte_visible: "name_byte c \<Longrightarrow> visible_byte c"
  by (auto simp: name_byte_def visible_byte_def letter_byte_def is_digit_byte_def space_encodings_def byte_def less_eq_char_def)

lemma bare_pointer_bytes: "bare_pointer s \<Longrightarrow> s \<noteq> [] \<and> list_all name_byte s"
  by (cases s) (auto simp: bare_pointer_def name_byte_def list_all_iff)

lemma escape_name: "list_all name_byte s \<Longrightarrow> concat (map escape_byte s) = s"
  by (induction s) (auto simp: name_byte_def letter_byte_def is_digit_byte_def byte_def less_eq_char_def)

lemma singleTokenPointer_trimmed: "singleTokenPointer item = (p, True, e) \<Longrightarrow> trim_space p = p \<and> p \<noteq> []"
proof -
  assume s: "singleTokenPointer item = (p, True, e)"
  let ?t = "trim_space (tok_text item)"
  consider "prefix ''/'' ?t" "p = ?t" | "bare_pointer ?t" "p = JSONPointerForObjectKey ?t"
    using s by (cases "tok_quoted item"; cases "prefix ''/'' ?t"; cases "ParseJSONPointer ?t"; cases "bare_pointer ?t")
      (simp_all add: singleTokenPointer_def Let_def del: prefix_code)
  then show ?thesis
  proof cases
    case 2
    note b = bare_pointer_bytes[OF 2(1)]
    have "concat (map escape_byte ?t) = ?t" using b by (intro escape_name) simp
    then have p: "p = CHR ''/'' # ?t" using 2(2) by (simp add: JSONPointerForObjectKey_def escape_bytes)
    have "visible_byte (last ?t)" using b name_byte_visible by (auto simp: list_all_iff)
    then show ?thesis using p b by (simp add: trim_space_visible)
  qed auto
qed

lemma parse_args_pointers: "parse_args items = Ok args \<Longrightarrow> p \<in> set (concat (map node_pointers args)) \<Longrightarrow> trim_space p = p \<and> p \<noteq> []"
proof (induction items arbitrary: args)
  case (Cons item items)
  obtain q ok e where s: "singleTokenPointer item = (q, ok, e)" by (cases "singleTokenPointer item")
  show ?case
  proof (cases "parse_args items")
    case (Ok rest)
    have "p = q \<and> ok \<or> p \<in> set (concat (map node_pointers rest))"
      using Cons.prems s Ok by (cases ok; cases e) auto
    then show ?thesis using Cons.IH[OF Ok] s singleTokenPointer_trimmed[of item q e] by auto
  qed (use Cons.prems s in \<open>cases ok; cases e; simp\<close>)
qed simp

lemma parseExpression_pointers: "parseExpression raw = Ok node \<Longrightarrow> p \<in> set (node_pointers node) \<Longrightarrow> trim_space p = p \<and> p \<noteq> []"
proof -
  assume r: "parseExpression raw = Ok node" and p: "p \<in> set (node_pointers node)"
  then obtain first items where t: "tokenize raw = Ok (first # items)"
    by (auto simp: parseExpression_def split: result.splits list.splits)
  obtain q ok e where s: "singleTokenPointer first = (q, ok, e)" by (cases "singleTokenPointer first")
  show ?thesis
  proof (cases items)
    case Nil
    then show ?thesis using r p t s singleTokenPointer_trimmed[of first q e]
      by (cases ok; cases e) (auto simp: parseExpression_def split: if_splits)
  next
    case (Cons i others)
    then obtain args where "parse_args items = Ok args" "node_pointers node = concat (map node_pointers args)"
      using r t by (auto simp: parseExpression_def Let_def split: result.splits option.splits if_splits)
    then show ?thesis using parse_args_pointers p by metis
  qed
qed

lemma compile_parts_pointers:
  "compile_parts source = Ok parts \<Longrightarrow> p \<in> set (concat (map part_pointers parts)) \<Longrightarrow> trim_space p = p \<and> p \<noteq> []"
proof (induction source arbitrary: parts rule: compile_parts.induct)
  case (1 source)
  show ?case
  proof (cases "cut_on ''{{'' source")
    case None
    then show ?thesis using "1.prems" by (subst (asm) compile_parts.simps) (auto split: if_splits)
  next
    case (Some br)
    obtain before rest where br: "br = (before, rest)" by fastforce
    obtain inner after node ps where c: "cut_on ''}}'' rest = Some (inner, after)" "trim_space inner \<noteq> []"
      "parseExpression (trim_space inner) = Ok node" "compile_parts after = Ok ps"
      "parts = (if before \<noteq> [] then [LiteralPart before] else []) @ ExpressionPart (trim_space inner) node # ps"
      using "1.prems"(1) Some br by (subst (asm) compile_parts.simps) (auto simp: Let_def split: option.splits result.splits if_splits)
    have "p \<in> set (node_pointers node) \<or> p \<in> set (concat (map part_pointers ps))" using "1.prems"(2) c(5) by (auto split: if_splits)
    then show ?thesis
      using parseExpression_pointers[OF c(3)] "1.IH"[OF Some br[symmetric] c(1) refl refl c(2,3,4)] by blast
  qed
qed

text \<open>The identity that a template renders depends on the payload only at the JSON pointers that
  \<open>ExtractPointers\<close> reports: two payloads with the same values there get the same identity, or the same error.\<close>

theorem rendered_identity_pointers:
  assumes "ExtractPointers raw = Ok ps" "\<forall>p \<in> set ps. LookupJSONPointer a p = LookupJSONPointer b p"
  shows "Render env raw a = Render env raw b"
proof -
  obtain t where t: "compile raw = Ok t" "ps = tmpl_pointers t" using assms(1) by (auto simp: ExtractPointers_def split: result.splits)
  have parts: "compile_parts (normalizePointerShorthand raw) = Ok (tmpl_parts t)"
    and pointers: "tmpl_pointers t = fold add_pointer (concat (map part_pointers (tmpl_parts t))) []"
    using t(1) by (auto simp: compile_def split: result.splits)
  have "\<forall>p \<in> set (concat (map part_pointers (tmpl_parts t))). LookupJSONPointer a p = LookupJSONPointer b p"
    using compile_parts_pointers[OF parts] collected_pointers assms(2) t(2) pointers by metis
  then show ?thesis using render_parts_agree t(1) by (simp add: Render_def Template_Render_def)
qed

definition ascii_identity :: identity_env where
  "ascii_identity = \<lparr>id_lower = id, id_upper = id, id_float = (\<lambda>bits x. [])\<rparr>"

theorem rendered_identity_pointers_witness:
  "Render ascii_identity ''{{uppercase /name}}-{{default alias id}}'' (VMap [(''id'', VString ''7''), (''name'', VString ''a''), (''x'', VNil)])
   = Render ascii_identity ''{{uppercase /name}}-{{default alias id}}'' (VMap [(''id'', VString ''7''), (''name'', VString ''a'')])"
proof -
  have e: "ExtractPointers ''{{uppercase /name}}-{{default alias id}}'' = Ok [''/name'', ''/alias'', ''/id'']" by code_simp
  have "\<forall>p \<in> set [''/name'', ''/alias'', ''/id'']. LookupJSONPointer (VMap [(''id'', VString ''7''), (''name'', VString ''a''), (''x'', VNil)]) p
      = LookupJSONPointer (VMap [(''id'', VString ''7''), (''name'', VString ''a'')]) p" by code_simp
  from rendered_identity_pointers[OF e this] show ?thesis .
qed

section \<open>The shorthand of a JSON pointer\<close>

definition shorthand_byte :: "char \<Rightarrow> bool" where
  "shorthand_byte c \<longleftrightarrow> c \<notin> {CHR '' '', CHR 0x09, CHR 0x0A, CHR 0x0D, CHR 0x22, CHR 0x27, CHR ''{'', CHR ''}''}"

lemma tokenize_plain:
  assumes "\<forall>r \<in> set rs. \<not> blank_rune r \<and> \<not> quote_rune r" "current @ concat rs \<noteq> []"
  shows "tokenize_runes rs tokens current None q False = Ok (tokens @ [\<lparr>tok_text = current @ concat rs, tok_quoted = q\<rparr>])"
  using assms by (induction rs arbitrary: current) (simp_all add: flush_def)

lemma shorthand_runes: "list_all shorthand_byte s \<Longrightarrow> r \<in> set (runes s) \<Longrightarrow> \<not> blank_rune r \<and> \<not> quote_rune r"
proof -
  assume s: "list_all shorthand_byte s" "r \<in> set (runes s)"
  have a: "ascii_byte (CHR '' '')" "ascii_byte (CHR 0x09)" "ascii_byte (CHR 0x0A)" "ascii_byte (CHR 0x0D)" "ascii_byte (CHR 0x22)" "ascii_byte (CHR 0x27)"
    by (simp_all add: ascii_byte_def byte_def)
  from runes_shape[OF s(2)] show ?thesis
  proof
    assume "\<exists>c. r = [c] \<and> ascii_byte c \<and> c \<in> set s"
    then show ?thesis using s(1) by (auto simp: list_all_iff shorthand_byte_def blank_rune_def quote_rune_def)
  next
    assume "r \<noteq> [] \<and> (\<forall>c\<in>set r. \<not> ascii_byte c)"
    then show ?thesis using a by (auto simp: blank_rune_def quote_rune_def)
  qed
qed

lemma cut_on_shorthand: "CHR ''}'' \<notin> set s \<Longrightarrow> cut_on ''}}'' (s @ ''}}'') = Some (s, [])"
  by (induction s) auto

lemma no_brace_sublist: "CHR ''{'' \<notin> set s \<Longrightarrow> \<not> sublist ''{{'' s"
  using set_mono_sublist[of "''{{''" s] by auto

lemma compile_shorthand:
  assumes "ParseJSONPointer p = Ok tokens" "p \<noteq> []" "trim_space p = p" "valid_utf8 p" "list_all shorthand_byte p"
  shows "compile p = Ok \<lparr>tmpl_raw = p, tmpl_parts = [ExpressionPart p (PointerNode p)], tmpl_pointers = [p], tmpl_simplePointer = p\<rparr>"
proof -
  have b: "CHR ''{'' \<notin> set p" "CHR ''}'' \<notin> set p" using assms(5) by (auto simp: list_all_iff shorthand_byte_def)
  have n: "normalizePointerShorthand p = ''{{'' @ p @ ''}}''"
    using assms(1-3) no_brace_sublist[OF b(1)] by (simp add: normalizePointerShorthand_def PointerTemplate_def Let_def)
  have "concat (runes p) = p" using assms(4) by (simp add: valid_utf8_def)
  then have t: "tokenize p = Ok [\<lparr>tok_text = p, tok_quoted = False\<rparr>]"
    using tokenize_plain[of "runes p" "[]" "[]" False] shorthand_runes[OF assms(5)] assms(2) by (simp add: tokenize_def)
  have "prefix ''/'' p" using assms(1-3) by (auto simp: ParseJSONPointer_def Let_def split: if_splits)
  then have e: "parseExpression p = Ok (PointerNode p)"
    using t assms(1,3) by (simp add: parseExpression_def singleTokenPointer_def Let_def)
  have c: "cut_on ''{{'' (''{{'' @ p @ ''}}'') = Some ([], p @ ''}}'')" by simp
  have "compile_parts ([] :: string) = Ok []" by (subst compile_parts.simps) simp
  then have "compile_parts (''{{'' @ p @ ''}}'') = Ok [ExpressionPart p (PointerNode p)]"
    using cut_on_shorthand[OF b(2)] e assms(2,3) by (subst compile_parts.simps) (simp only: c option.case prod.case Let_def, simp)
  then show ?thesis using n assms(2,3) by (simp add: compile_def add_pointer_def Let_def)
qed

text \<open>A bare JSON pointer is a template: it is its own simple pointer, and it renders exactly the payloads that
  have a scalar that is not blank there, to the text of that scalar.\<close>

theorem pointer_shorthand_renders:
  assumes "ParseJSONPointer p = Ok tokens" "p \<noteq> []" "trim_space p = p" "valid_utf8 p" "list_all shorthand_byte p"
  shows "ExtractPointers p = Ok [p] \<and> (\<exists>t. compile p = Ok t \<and> SimplePointer t = Some p)
    \<and> (Render env p v = Ok s \<longleftrightarrow> (\<exists>x. lookup_tokens v tokens = Some x \<and> x \<noteq> VNil \<and> scalarString env x = Some s \<and> trim_space s \<noteq> []))"
  using compile_shorthand[OF assms] assms(1-3)
  by (auto simp: ExtractPointers_def SimplePointer_def Render_def Template_Render_def eval_pointer_def LookupJSONPointer_def
      split: option.splits if_splits result.splits go_error.splits)

theorem pointer_shorthand_renders_witness:
  "Render ascii_identity ''/meta/id'' (VMap [(''meta'', VMap [(''id'', VInt KInt64 42)])]) = Ok ''42''"
proof -
  let ?v = "VMap [(''meta'', VMap [(''id'', VInt KInt64 42)])]"
  have p: "ParseJSONPointer ''/meta/id'' = Ok [''meta'', ''id'']" "trim_space ''/meta/id'' = ''/meta/id''" "valid_utf8 ''/meta/id''"
    "list_all shorthand_byte ''/meta/id''" by code_simp+
  have "lookup_tokens ?v [''meta'', ''id''] = Some (VInt KInt64 42)" "scalarString ascii_identity (VInt KInt64 42) = Some ''42''"
    "trim_space ''42'' \<noteq> []" by code_simp+
  then show ?thesis using pointer_shorthand_renders[OF p(1) _ p(2-4), of ascii_identity ?v "''42''"] by auto
qed

section \<open>Inputs on which the code goes wrong\<close>

text \<open>An empty quoted argument is lost and makes the argument after it a quoted one: the fallback \<open>name\<close> of
  \<open>{{default alias "" name}}\<close> renders as the text \<open>C37: name\<close>, not as the value of that attribute.\<close>

theorem empty_argument_quotes_next:
  "Render ascii_identity (''{{default alias '' @ [CHR 0x22, CHR 0x22] @ '' name}}'') (VMap [(''name'', VString ''acme'')]) = Ok ''name''
   \<and> Render ascii_identity ''{{default alias name}}'' (VMap [(''name'', VString ''acme'')]) = Ok ''acme''"
  by code_simp

text \<open>The end of a substring wraps around: a length near the largest \<open>int\<close> passes the check of the bounds and the
  slice panics.\<close>

theorem substring_overflow_panics:
  "Render ascii_identity ''{{substring name 1 9223372036854775807}}'' (VMap [(''name'', VString ''acme'')])
   = Err (Panic (msg ''runtime error: slice bounds out of range''))"
  by code_simp

text \<open>A JSON pointer with a space is valid but no template, since the shorthand reads it as two tokens.\<close>

lemma pointer_with_space_refused:
  "\<exists>e. ParseJSONPointer ''/display name'' = Ok [''display name''] \<and> compile ''/display name'' = Err e"
proof -
  have "ParseJSONPointer ''/display name'' = Ok [''display name'']" "(case compile ''/display name'' of Err e \<Rightarrow> True | Ok t \<Rightarrow> False)"
    by code_simp+
  then show ?thesis by (auto split: result.splits)
qed

section \<open>The cache\<close>

text \<open>Cached or not, \<open>Compile\<close> returns what \<open>compile\<close> does.\<close>

definition sound_cache :: "template_cache \<Rightarrow> bool" where
  "sound_cache cache \<longleftrightarrow> (\<forall>raw entry. cache raw = Some entry \<longrightarrow> entry = compile raw)"

lemma Compile_sound: "sound_cache cache \<Longrightarrow> fst (Compile cache raw) = compile raw \<and> sound_cache (snd (Compile cache raw))"
  by (auto simp: Compile_def sound_cache_def Let_def split: option.split)

end
