(* ===== verification/Payload_KV.thy ===== *)
theory Payload_KV
  imports Go_Unicode Resource_Values
begin

text \<open>
  The line-based payload codecs (src/resource/payload_codec_kv.go): INI and Java properties.

  Text is handled byte by byte where the code ranges over runes and only compares them with ASCII
  characters, because no byte of a longer encoding is ASCII; where the code writes the runes back
  it goes through \<open>runes\<close>.  The INI decoder's alias \<open>current\<close> is the name of the section in
  progress, \<open>None\<close> for the root object.  The decimal text of a \<open>float64\<close> is the parameter
  \<open>fmt_float\<close> (\<open>strconv.FormatFloat(x, 'f', -1, 64)\<close>).

  The lemmas show that the properties codec reads back what it writes for every key without inner
  white space, and that a key with an inner space is read back as another key.
\<close>

abbreviation bslash :: char where "bslash \<equiv> CHR 0x5C"
abbreviation tab :: char where "tab \<equiv> CHR 0x09"
abbreviation newline :: char where "newline \<equiv> CHR 0x0A"
abbreviation formfeed :: char where "formfeed \<equiv> CHR 0x0C"
abbreviation creturn :: char where "creturn \<equiv> CHR 0x0D"

section \<open>Lines and scalars\<close>

definition splitPayloadLines :: "string \<Rightarrow> string list" where
  "splitPayloadLines data =
     split_on newline (replace_all (replace_all data [creturn, newline] [newline]) [creturn] [newline])"

text \<open>\<open>fmt.Sprint\<close> of a \<open>BinaryValue\<close> prints the bytes in decimal.\<close>

definition stringifyStructuredTextScalar ::
  "(nat \<Rightarrow> float64 \<Rightarrow> string) \<Rightarrow> gval \<Rightarrow> string \<Rightarrow> string result" where
  "stringifyStructuredTextScalar fmt_float v payloadType =
     (case v of
        VNil \<Rightarrow> Ok []
      | VString s \<Rightarrow> Ok s
      | VBool b \<Rightarrow> Ok (if b then ''true'' else ''false'')
      | VInt k n \<Rightarrow> Ok (itoa n)
      | VFloat x \<Rightarrow> Ok (fmt_float 64 x)
      | VMap m \<Rightarrow> Err (Invalid (''failed to encode %s payload'', [payloadType])
                        (Some (PlainError (''%s payloads support only root objects and scalar values'', [payloadType]) None)))
      | VSlice xs \<Rightarrow> Err (Invalid (''failed to encode %s payload'', [payloadType])
                        (Some (PlainError (''%s payloads do not support arrays'', [payloadType]) None)))
      | VBinary b \<Rightarrow> Ok (''{['' @ join_with '' '' (map (\<lambda>c. itoa (int (byte c))) b) @ '']}'')
      | _ \<Rightarrow> Err (Panic (msg ''not a normalised value'')))"

section \<open>INI\<close>

definition parseINILine :: "string \<Rightarrow> (string \<times> string) result" where
  "parseINILine line =
     (let sep = (\<lambda>c. c = CHR ''='' \<or> c = CHR '':'') in
      if list_ex sep line
      then let key = trim_space (takeWhile (\<lambda>c. \<not> sep c) line) in
           if key = [] then Err (PlainError (msg ''missing key'') None)
           else Ok (key, trim_space (tl (dropWhile (\<lambda>c. \<not> sep c) line)))
      else case string_fields line of
             [] \<Rightarrow> Err (PlainError (msg ''missing key'') None)
           | key # fs \<Rightarrow>
               if length key = length (trim_space line) then Ok (key, [])
               else Ok (key, trim_space (drop (length key) line)))"

fun ini_lines :: "string list \<Rightarrow> fields \<Rightarrow> string option \<Rightarrow> fields result" where
  "ini_lines [] doc current = Ok doc"
| "ini_lines (rawLine # lines) doc current =
     (let trimmed = trim_space rawLine in
      if trimmed = [] \<or> prefix '';'' trimmed \<or> prefix ''#'' trimmed then ini_lines lines doc current
      else if prefix ''['' trimmed \<and> suffix '']'' trimmed
      then let sec = trim_space (butlast (tl trimmed)) in
                if sec = [] then Err (Invalid (msg ''invalid ini payload'') (Some (PlainError (msg ''empty section name'') None)))
                else (case map_get doc sec of
                        None \<Rightarrow> ini_lines lines (map_put sec (VMap []) doc) (Some sec)
                      | Some (VMap m) \<Rightarrow> ini_lines lines doc (Some sec)
                      | Some _ \<Rightarrow> Err (Invalid (msg ''invalid ini payload'')
                                    (Some (PlainError (''section %q conflicts with a scalar key'', [sec]) None))))
      else (case parseINILine trimmed of
              Err e \<Rightarrow> Err (Invalid (msg ''invalid ini payload'') (Some e))
            | Ok (key, val) \<Rightarrow>
                (case current of
                   None \<Rightarrow> ini_lines lines (map_put key (VString val) doc) current
                 | Some sec \<Rightarrow>
                     ini_lines lines
                       (map_put sec (VMap (map_put key (VString val)
                          (case map_get doc sec of Some (VMap m) \<Rightarrow> m | _ \<Rightarrow> []))) doc) current)))"

definition decodeINIPayload :: "string \<Rightarrow> fields result" where
  "decodeINIPayload data = ini_lines (splitPayloadLines data) [] None"

definition is_object :: "gval \<Rightarrow> bool" where
  "is_object v = (case v of VMap m \<Rightarrow> True | _ \<Rightarrow> False)"

definition ini_entry :: "(nat \<Rightarrow> float64 \<Rightarrow> string) \<Rightarrow> string \<times> gval \<Rightarrow> string result" where
  "ini_entry fmt_float kv =
     (case stringifyStructuredTextScalar fmt_float (snd kv) ''ini'' of
        Err e \<Rightarrow> Err e | Ok val \<Rightarrow> Ok (fst kv @ '' = '' @ val))"

fun ini_sections :: "(nat \<Rightarrow> float64 \<Rightarrow> string) \<Rightarrow> (string \<times> gval) list \<Rightarrow> string list \<Rightarrow> string list result" where
  "ini_sections fmt_float [] lines = Ok lines"
| "ini_sections fmt_float ((sec, v) # rest) lines =
     (let lines' = (if lines \<noteq> [] then lines @ [[]] else lines) @ [''['' @ sec @ '']''] in
      case each_result (ini_entry fmt_float) (case v of VMap m \<Rightarrow> m | _ \<Rightarrow> []) of
        Err e \<Rightarrow> Err e
      | Ok entries \<Rightarrow> ini_sections fmt_float rest (lines' @ entries))"

definition encodeINIPayload :: "(nat \<Rightarrow> float64 \<Rightarrow> string) \<Rightarrow> gval \<Rightarrow> string result" where
  "encodeINIPayload fmt_float v =
     (case v of
        VMap doc \<Rightarrow>
          (case each_result (ini_entry fmt_float) (filter (\<lambda>kv. \<not> is_object (snd kv)) doc) of
             Err e \<Rightarrow> Err e
           | Ok lines \<Rightarrow>
               (case ini_sections fmt_float (filter (\<lambda>kv. is_object (snd kv)) doc) lines of
                  Err e \<Rightarrow> Err e
                | Ok all \<Rightarrow> if all = [] then Ok [] else Ok (join_with [newline] all @ [newline])))
      | _ \<Rightarrow> Err (Invalid (msg ''failed to encode ini payload'')
                    (Some (PlainError (msg ''ini payload requires an object'') None))))"

section \<open>Properties\<close>

definition prop_blank :: "char \<Rightarrow> bool" where
  "prop_blank c = (c = CHR '' '' \<or> c = tab \<or> c = formfeed)"

definition hasTrailingUnescapedBackslash :: "string \<Rightarrow> bool" where
  "hasTrailingUnescapedBackslash s = odd (length (takeWhile (\<lambda>c. c = bslash) (rev s)))"

definition byte_order_mark :: string where "byte_order_mark = [CHR 0xEF, CHR 0xBB, CHR 0xBF]"

fun logical_lines :: "string list \<Rightarrow> string \<Rightarrow> string list" where
  "logical_lines [] current = (if current \<noteq> [] then [current] else [])"
| "logical_lines (line # lines) current =
     (let cur = (if current = [] then line else butlast current @ dropWhile prop_blank line) in
      if hasTrailingUnescapedBackslash cur then logical_lines lines cur
      else cur # logical_lines lines [])"

definition propertiesLogicalLines :: "string \<Rightarrow> string list" where
  "propertiesLogicalLines data =
     (case splitPayloadLines data of
        [] \<Rightarrow> []
      | line # lines \<Rightarrow> logical_lines (trim_prefix line byte_order_mark # lines) [])"

text \<open>The loop over the line up to its first unescaped separator: the key and the rest.\<close>

fun scan_separator :: "string \<Rightarrow> string \<times> string" where
  "scan_separator [] = ([], [])"
| "scan_separator (c # cs) =
     (if c = bslash
      then (case cs of [] \<Rightarrow> ([c], []) | d # ds \<Rightarrow> (case scan_separator ds of (k, r) \<Rightarrow> (c # d # k, r)))
      else if c = CHR ''='' \<or> c = CHR '':'' \<or> prop_blank c then ([], c # cs)
      else (case scan_separator cs of (k, r) \<Rightarrow> (c # k, r)))"

definition splitPropertiesKeyValue :: "string \<Rightarrow> string \<times> string" where
  "splitPropertiesKeyValue line =
     (case scan_separator line of
        (key, []) \<Rightarrow> (line, [])
      | (key, c # cs) \<Rightarrow>
          if prop_blank c
          then (key, dropWhile (\<lambda>d. prop_blank d \<or> d = CHR ''='' \<or> d = CHR '':'') (c # cs))
          else (key, dropWhile prop_blank cs))"

definition hex_value :: "char \<Rightarrow> nat option" where
  "hex_value c =
     (if 48 \<le> byte c \<and> byte c \<le> 57 then Some (byte c - 48)
      else if 97 \<le> byte c \<and> byte c \<le> 102 then Some (byte c - 87)
      else if 65 \<le> byte c \<and> byte c \<le> 70 then Some (byte c - 55)
      else None)"

fun hex_number :: "string \<Rightarrow> nat \<Rightarrow> nat option" where
  "hex_number [] acc = Some acc"
| "hex_number (c # cs) acc = (case hex_value c of None \<Rightarrow> None | Some d \<Rightarrow> hex_number cs (16 * acc + d))"

definition escape_target :: "char \<Rightarrow> char" where
  "escape_target d =
     (if d = CHR ''t'' then tab else if d = CHR ''n'' then newline else if d = CHR ''r'' then creturn
      else if d = CHR ''f'' then formfeed else d)"

function unescapePropertiesString :: "string \<Rightarrow> string result" where
  "unescapePropertiesString s =
     (case s of
        [] \<Rightarrow> Ok []
      | c # cs \<Rightarrow>
          if c \<noteq> bslash
          then (case unescapePropertiesString cs of Err e \<Rightarrow> Err e | Ok r \<Rightarrow> Ok (c # r))
          else (case cs of
                  [] \<Rightarrow> Ok [bslash]
                | d # ds \<Rightarrow>
                    if d = CHR ''u''
                    then if length ds < 4 then Err (PlainError (msg ''truncated unicode escape'') None)
                         else (case hex_number (take 4 ds) 0 of
                                 None \<Rightarrow> Err (PlainError (''invalid unicode escape %q'', [bslash # CHR ''u'' # take 4 ds]) None)
                               | Some codePoint \<Rightarrow>
                                   (case unescapePropertiesString (drop 4 ds) of
                                      Err e \<Rightarrow> Err e | Ok r \<Rightarrow> Ok (encode_rune16 codePoint @ r)))
                    else (case unescapePropertiesString ds of
                            Err e \<Rightarrow> Err e | Ok r \<Rightarrow> Ok (escape_target d # r))))"
  by pat_completeness auto
termination
  by (relation "measure length") auto

declare unescapePropertiesString.simps [simp del]

fun properties_entries :: "string list \<Rightarrow> fields \<Rightarrow> fields result" where
  "properties_entries [] values = Ok values"
| "properties_entries (rawLine # lines) values =
     (let trimmed = dropWhile prop_blank rawLine in
      if trimmed = [] \<or> prefix ''#'' trimmed \<or> prefix ''!'' trimmed then properties_entries lines values
      else (case splitPropertiesKeyValue trimmed of (keyRaw, valueRaw) \<Rightarrow>
        (case unescapePropertiesString keyRaw of
           Err e \<Rightarrow> Err (Invalid (msg ''invalid properties payload'') (Some e))
         | Ok key \<Rightarrow>
             (case unescapePropertiesString valueRaw of
                Err e \<Rightarrow> Err (Invalid (msg ''invalid properties payload'') (Some e))
              | Ok val \<Rightarrow> properties_entries lines (map_put key (VString val) values)))))"

definition decodePropertiesPayload :: "string \<Rightarrow> fields result" where
  "decodePropertiesPayload data = properties_entries (propertiesLogicalLines data) []"

definition key_rune :: "string \<Rightarrow> string" where
  "key_rune r = (if r \<in> {[bslash], ''='', '':'', ''#'', ''!''} then bslash # r else r)"

definition escapePropertiesKey :: "string \<Rightarrow> string" where
  "escapePropertiesKey s =
     (case runes s of
        [] \<Rightarrow> []
      | r # rs \<Rightarrow> (if r = '' '' then bslash # r else key_rune r) @ concat (map key_rune rs))"

definition value_rune :: "string \<Rightarrow> string" where
  "value_rune r =
     (if r = [bslash] then [bslash, bslash]
      else if r = [tab] then bslash # ''t'' else if r = [newline] then bslash # ''n''
      else if r = [creturn] then bslash # ''r'' else if r = [formfeed] then bslash # ''f'' else r)"

definition escapePropertiesValue :: "string \<Rightarrow> string" where
  "escapePropertiesValue s =
     (case runes s of
        [] \<Rightarrow> []
      | r # rs \<Rightarrow> (if r = '' '' then bslash # r else value_rune r) @ concat (map value_rune rs))"

definition properties_line :: "(nat \<Rightarrow> float64 \<Rightarrow> string) \<Rightarrow> string \<times> gval \<Rightarrow> string result" where
  "properties_line fmt_float kv =
     (case stringifyStructuredTextScalar fmt_float (snd kv) ''properties'' of
        Err e \<Rightarrow> Err e
      | Ok val \<Rightarrow> Ok (escapePropertiesKey (fst kv) @ ''='' @ escapePropertiesValue val))"

definition encodePropertiesPayload :: "(nat \<Rightarrow> float64 \<Rightarrow> string) \<Rightarrow> gval \<Rightarrow> string result" where
  "encodePropertiesPayload fmt_float v =
     (case v of
        VMap doc \<Rightarrow>
          (case each_result (properties_line fmt_float) doc of
             Err e \<Rightarrow> Err e
           | Ok lines \<Rightarrow> if lines = [] then Ok [] else Ok (join_with [newline] lines @ [newline]))
      | _ \<Rightarrow> Err (Invalid (msg ''failed to encode properties payload'')
                    (Some (PlainError (msg ''properties payload requires an object'') None))))"

section \<open>Escaped text\<close>

fun well_escaped :: "string \<Rightarrow> bool" where
  "well_escaped [] = True"
| "well_escaped (c # cs) =
     (if c = bslash then (case cs of [] \<Rightarrow> False | d # ds \<Rightarrow> well_escaped ds) else well_escaped cs)"

fun key_units :: "string \<Rightarrow> bool" where
  "key_units [] = True"
| "key_units (c # cs) =
     (if c = bslash then (case cs of [] \<Rightarrow> False | d # ds \<Rightarrow> key_units ds)
      else c \<noteq> CHR ''='' \<and> c \<noteq> CHR '':'' \<and> \<not> prop_blank c \<and> key_units cs)"

lemma well_escaped_snoc: "well_escaped (s @ [c]) \<longleftrightarrow> c \<noteq> bslash \<or> \<not> well_escaped s"
  by (induction s rule: well_escaped.induct) (auto split: list.splits)

lemma well_escaped_iff: "well_escaped s \<longleftrightarrow> \<not> hasTrailingUnescapedBackslash s"
  by (induction s rule: rev_induct) (auto simp: well_escaped_snoc hasTrailingUnescapedBackslash_def)

lemma well_escaped_append: "well_escaped s \<Longrightarrow> well_escaped t \<Longrightarrow> well_escaped (s @ t)"
  by (induction s rule: well_escaped.induct) (auto split: list.splits if_splits)

lemma key_units_append: "key_units s \<Longrightarrow> key_units t \<Longrightarrow> key_units (s @ t)"
  by (induction s rule: key_units.induct) (auto split: list.splits if_splits)

lemma key_units_well_escaped: "key_units s \<Longrightarrow> well_escaped s"
  by (induction s rule: key_units.induct) (auto split: list.splits if_splits)

lemma scan_key_units:
  "key_units e \<Longrightarrow> scan_separator (e @ CHR ''='' # s) = (e, CHR ''='' # s)"
  by (induction e rule: key_units.induct) (auto split: list.splits if_splits)

definition prepend :: "string \<Rightarrow> string result \<Rightarrow> string result" where
  "prepend p r = (case r of Err e \<Rightarrow> Err e | Ok t \<Rightarrow> Ok (p @ t))"

lemma prepend_Ok [simp]: "prepend p (Ok t) = Ok (p @ t)"
  by (simp add: prepend_def)

lemma unescape_Nil [simp]: "unescapePropertiesString [] = Ok []"
  by (subst unescapePropertiesString.simps) simp

lemma unescape_byte: "c \<noteq> bslash \<Longrightarrow> unescapePropertiesString (c # s) = prepend [c] (unescapePropertiesString s)"
  by (subst unescapePropertiesString.simps) (simp add: prepend_def split: result.splits)

lemma unescape_pair:
  "d \<noteq> CHR ''u'' \<Longrightarrow>
   unescapePropertiesString (bslash # d # s) = prepend [escape_target d] (unescapePropertiesString s)"
  by (subst unescapePropertiesString.simps) (simp add: prepend_def split: result.splits)

lemma unescape_plain:
  "bslash \<notin> set r \<Longrightarrow> unescapePropertiesString (r @ s) = prepend r (unescapePropertiesString s)"
proof (induction r)
  case Nil
  then show ?case by (cases "unescapePropertiesString s") (simp_all add: prepend_def)
next
  case (Cons c r)
  then show ?case by (simp add: unescape_byte prepend_def split: result.splits)
qed

text \<open>A rune as \<open>runes\<close> yields it: one ASCII byte, or bytes none of which is ASCII.\<close>

definition is_rune :: "string \<Rightarrow> bool" where
  "is_rune r = ((\<exists>c. r = [c] \<and> ascii_byte c) \<or> (r \<noteq> [] \<and> (\<forall>c\<in>set r. \<not> ascii_byte c)))"

lemma runes_are_runes: "list_all is_rune (runes s)"
  using runes_shape by (fastforce simp: list_all_iff is_rune_def)

lemma ascii_special [simp]:
  "ascii_byte bslash" "ascii_byte (CHR ''='')" "ascii_byte (CHR '':'')" "ascii_byte (CHR ''#'')"
  "ascii_byte (CHR ''!'')" "ascii_byte (CHR '' '')" "ascii_byte tab" "ascii_byte newline"
  "ascii_byte formfeed" "ascii_byte creturn"
  by (simp_all add: ascii_byte_def byte_def)

lemma unescape_value_rune:
  assumes "is_rune r"
  shows "unescapePropertiesString (value_rune r @ s) = prepend r (unescapePropertiesString s)"
  using assms unfolding is_rune_def
proof
  assume "\<exists>c. r = [c] \<and> ascii_byte c"
  then obtain c where "r = [c]" by blast
  then show ?thesis
    by (cases "c = bslash") (simp_all add: value_rune_def unescape_pair unescape_byte escape_target_def)
next
  assume w: "r \<noteq> [] \<and> (\<forall>c\<in>set r. \<not> ascii_byte c)"
  then have "value_rune r = r" by (cases r) (auto simp: value_rune_def)
  moreover have "bslash \<notin> set r" using w ascii_special(1) by blast
  ultimately show ?thesis by (simp add: unescape_plain)
qed

lemma unescape_key_rune:
  assumes "is_rune r"
  shows "unescapePropertiesString (key_rune r @ s) = prepend r (unescapePropertiesString s)"
  using assms unfolding is_rune_def
proof
  assume "\<exists>c. r = [c] \<and> ascii_byte c"
  then obtain c where "r = [c]" by blast
  then show ?thesis
    by (cases "c = bslash") (simp_all add: key_rune_def unescape_pair unescape_byte escape_target_def)
next
  assume w: "r \<noteq> [] \<and> (\<forall>c\<in>set r. \<not> ascii_byte c)"
  then have "key_rune r = r" by (cases r) (auto simp: key_rune_def)
  moreover have "bslash \<notin> set r" using w ascii_special(1) by blast
  ultimately show ?thesis by (simp add: unescape_plain)
qed

lemma unescape_space: "unescapePropertiesString (bslash # '' '' @ s) = prepend '' '' (unescapePropertiesString s)"
  by (simp add: unescape_pair escape_target_def)

lemma unescape_value_runes:
  "list_all is_rune rs \<Longrightarrow> unescapePropertiesString (concat (map value_rune rs)) = Ok (concat rs)"
  by (induction rs) (simp_all add: unescape_value_rune)

lemma unescape_key_runes:
  "list_all is_rune rs \<Longrightarrow> unescapePropertiesString (concat (map key_rune rs)) = Ok (concat rs)"
  by (induction rs) (simp_all add: unescape_key_rune)

lemma unescape_escape_value: "unescapePropertiesString (escapePropertiesValue s) = Ok (concat (runes s))"
proof (cases "runes s")
  case (Cons r rs)
  then have "is_rune r" "list_all is_rune rs" using runes_are_runes[of s] by simp_all
  then show ?thesis
    using unescape_space[of "concat (map value_rune rs)"]
    by (simp add: escapePropertiesValue_def Cons unescape_value_rune unescape_value_runes)
qed (simp add: escapePropertiesValue_def)

lemma unescape_escape_key: "unescapePropertiesString (escapePropertiesKey s) = Ok (concat (runes s))"
proof (cases "runes s")
  case (Cons r rs)
  then have "is_rune r" "list_all is_rune rs" using runes_are_runes[of s] by simp_all
  then show ?thesis
    using unescape_space[of "concat (map key_rune rs)"]
    by (simp add: escapePropertiesKey_def Cons unescape_key_rune unescape_key_runes)
qed (simp add: escapePropertiesKey_def)

section \<open>What the properties encoder writes\<close>

definition line_break :: "char \<Rightarrow> bool" where
  "line_break c = (c = newline \<or> c = creturn)"

text \<open>Keys the format can carry: no blank or line break except one leading space, and no byte
  order mark at the start.\<close>

definition plain_key :: "string \<Rightarrow> bool" where
  "plain_key k = (valid_utf8 k \<and> \<not> prefix byte_order_mark k
     \<and> (case runes k of [] \<Rightarrow> True | r # rs \<Rightarrow>
          (r = '' '' \<or> list_all (\<lambda>c. \<not> prop_blank c \<and> \<not> line_break c) r)
          \<and> list_all (list_all (\<lambda>c. \<not> prop_blank c \<and> \<not> line_break c)) rs))"

lemma prop_blank_ascii: "prop_blank c \<Longrightarrow> ascii_byte c"
  by (auto simp: prop_blank_def)

lemma wide_key_units: "\<forall>c\<in>set r. \<not> ascii_byte c \<Longrightarrow> key_units r"
proof (induction r)
  case (Cons c r)
  then have "c \<noteq> bslash" "c \<noteq> CHR ''=''" "c \<noteq> CHR '':''" "\<not> prop_blank c"
    using prop_blank_ascii by auto
  then show ?case using Cons by simp
qed simp

lemma key_rune_units:
  assumes "is_rune r" and "list_all (\<lambda>c. \<not> prop_blank c) r"
  shows "key_units (key_rune r)"
  using assms(1) unfolding is_rune_def
proof
  assume "\<exists>c. r = [c] \<and> ascii_byte c"
  then obtain c where "r = [c]" by blast
  then show ?thesis using assms(2) by (cases "c = bslash") (auto simp: key_rune_def)
next
  assume w: "r \<noteq> [] \<and> (\<forall>c\<in>set r. \<not> ascii_byte c)"
  then have "key_rune r = r" by (cases r) (auto simp: key_rune_def)
  then show ?thesis using w by (simp add: wide_key_units)
qed

lemma value_rune_well_escaped: "is_rune r \<Longrightarrow> well_escaped (value_rune r)"
proof -
  assume "is_rune r"
  then consider c where "r = [c]" | "\<forall>c\<in>set r. \<not> ascii_byte c" "r \<noteq> []" by (auto simp: is_rune_def)
  then show ?thesis
  proof cases
    case (1 c)
    then show ?thesis by (cases "c = bslash") (auto simp: value_rune_def)
  next
    case 2
    then have "value_rune r = r" by (cases r) (auto simp: value_rune_def)
    then show ?thesis using 2 wide_key_units key_units_well_escaped by metis
  qed
qed

lemma plain_key_units: "plain_key k \<Longrightarrow> key_units (escapePropertiesKey k)"
proof (cases "runes k")
  case (Cons r rs)
  assume k: "plain_key k"
  have ir: "is_rune r" and irs: "list_all is_rune rs" using runes_are_runes[of k] Cons by simp_all
  have brs: "list_all (list_all (\<lambda>c. \<not> prop_blank c)) rs"
    using k Cons by (auto simp: plain_key_def list_all_iff)
  have "key_units (concat (map key_rune rs))"
    using irs brs by (induction rs) (auto intro: key_units_append key_rune_units)
  moreover have "key_units (if r = '' '' then bslash # r else key_rune r)"
    using k Cons ir by (auto simp: plain_key_def list_all_iff intro!: key_rune_units)
  ultimately show ?thesis by (auto simp: escapePropertiesKey_def Cons intro: key_units_append)
qed (simp add: escapePropertiesKey_def)

lemma escaped_value_well_escaped: "well_escaped (escapePropertiesValue v)"
proof (cases "runes v")
  case (Cons r rs)
  have ir: "is_rune r" and irs: "list_all is_rune rs" using runes_are_runes[of v] Cons by simp_all
  have "well_escaped (concat (map value_rune rs))"
    using irs by (induction rs) (auto intro: well_escaped_append value_rune_well_escaped)
  moreover have "well_escaped (if r = '' '' then bslash # r else value_rune r)"
    using ir by (auto intro!: value_rune_well_escaped)
  ultimately show ?thesis by (auto simp: escapePropertiesValue_def Cons intro: well_escaped_append)
qed (simp add: escapePropertiesValue_def)

text \<open>No line break is written, and no blank at the start of a value.\<close>

lemma wide_no_break: "\<forall>c\<in>set r. \<not> ascii_byte c \<Longrightarrow> list_all (\<lambda>c. \<not> line_break c) r"
  by (auto simp: list_all_iff line_break_def)

lemma value_rune_no_break: "is_rune r \<Longrightarrow> list_all (\<lambda>c. \<not> line_break c) (value_rune r)"
proof -
  assume "is_rune r"
  then consider c where "r = [c]" | "\<forall>c\<in>set r. \<not> ascii_byte c" "r \<noteq> []" by (auto simp: is_rune_def)
  then show ?thesis
  proof cases
    case (1 c)
    then show ?thesis by (cases "c = bslash") (auto simp: value_rune_def line_break_def)
  next
    case 2
    then have "value_rune r = r" by (cases r) (auto simp: value_rune_def)
    then show ?thesis using 2 wide_no_break by simp
  qed
qed

lemma escaped_value_no_break: "list_all (\<lambda>c. \<not> line_break c) (escapePropertiesValue v)"
proof (cases "runes v")
  case (Cons r rs)
  have ir: "is_rune r" and irs: "list_all is_rune rs" using runes_are_runes[of v] Cons by simp_all
  have "list_all (\<lambda>c. \<not> line_break c) (concat (map value_rune rs))"
    using irs by (induction rs) (auto simp: value_rune_no_break)
  moreover have "list_all (\<lambda>c. \<not> line_break c) (if r = '' '' then bslash # r else value_rune r)"
    using value_rune_no_break[OF ir] by (auto simp: line_break_def)
  ultimately show ?thesis by (auto simp: escapePropertiesValue_def Cons)
qed (simp add: escapePropertiesValue_def)

lemma key_rune_no_break:
  "list_all (\<lambda>c. \<not> line_break c) r \<Longrightarrow> list_all (\<lambda>c. \<not> line_break c) (key_rune r)"
  by (auto simp: key_rune_def line_break_def)

lemma escaped_key_no_break: "plain_key k \<Longrightarrow> list_all (\<lambda>c. \<not> line_break c) (escapePropertiesKey k)"
proof (cases "runes k")
  case (Cons r rs)
  assume k: "plain_key k"
  have "list_all (list_all (\<lambda>c. \<not> line_break c)) rs"
    using k Cons by (auto simp: plain_key_def list_all_iff)
  then have "list_all (\<lambda>c. \<not> line_break c) (concat (map key_rune rs))"
    by (induction rs) (auto simp: key_rune_no_break)
  moreover have "list_all (\<lambda>c. \<not> line_break c) (if r = '' '' then bslash # r else key_rune r)"
    using k Cons by (auto simp: plain_key_def line_break_def list_all_iff key_rune_def)
  ultimately show ?thesis by (auto simp: escapePropertiesKey_def Cons)
qed (simp add: escapePropertiesKey_def)

lemma escaped_value_head: "dropWhile prop_blank (escapePropertiesValue v) = escapePropertiesValue v"
proof (cases "runes v")
  case (Cons r rs)
  have ir: "is_rune r" using runes_are_runes[of v] Cons by simp
  then consider c where "r = [c]" | "\<forall>c\<in>set r. \<not> ascii_byte c" "r \<noteq> []" by (auto simp: is_rune_def)
  then show ?thesis
  proof cases
    case (1 c)
    then show ?thesis
      by (cases "c = bslash") (auto simp: escapePropertiesValue_def Cons value_rune_def prop_blank_def)
  next
    case 2
    then obtain c r' where r: "r = c # r'" "\<not> ascii_byte c" by (cases r) auto
    then have "value_rune r = r" by (auto simp: value_rune_def)
    moreover have "\<not> prop_blank c" "r \<noteq> '' ''" using r prop_blank_ascii by auto
    ultimately show ?thesis by (auto simp: escapePropertiesValue_def Cons r)
  qed
qed (simp add: escapePropertiesValue_def)

section \<open>Reading the lines back\<close>

definition encoded_line :: "string \<times> string \<Rightarrow> string" where
  "encoded_line kv = escapePropertiesKey (fst kv) @ CHR ''='' # escapePropertiesValue (snd kv)"

lemma line_no_break: "plain_key k \<Longrightarrow> list_all (\<lambda>c. \<not> line_break c) (encoded_line (k, v))"
  by (simp add: encoded_line_def escaped_key_no_break escaped_value_no_break) (simp add: line_break_def)

lemma line_complete: "plain_key k \<Longrightarrow> \<not> hasTrailingUnescapedBackslash (encoded_line (k, v))"
  using well_escaped_append[of "escapePropertiesKey k" "CHR ''='' # escapePropertiesValue v"]
  by (simp add: well_escaped_iff[symmetric] encoded_line_def key_units_well_escaped plain_key_units
      escaped_value_well_escaped)

lemma line_split:
  "plain_key k \<Longrightarrow>
   splitPropertiesKeyValue (encoded_line (k, v)) = (escapePropertiesKey k, escapePropertiesValue v)"
  by (simp add: splitPropertiesKeyValue_def encoded_line_def scan_key_units plain_key_units
      escaped_value_head) (simp add: prop_blank_def)

text \<open>The first byte of an escaped key is no blank and starts no comment.\<close>

lemma key_rune_head:
  assumes "is_rune r" "r \<noteq> []"
  shows "key_rune r \<noteq> [] \<and> hd (key_rune r) \<noteq> CHR ''#'' \<and> hd (key_rune r) \<noteq> CHR ''!''"
proof (cases "key_rune r = r")
  case True
  have "r \<noteq> ''#''" "r \<noteq> ''!''" using True by (auto simp: key_rune_def)
  then have "hd r \<noteq> CHR ''#''" "hd r \<noteq> CHR ''!''"
    using assms ascii_special(4,5) unfolding is_rune_def by (metis hd_in_set list.sel(1))+
  then show ?thesis using True assms(2) by simp
next
  case False
  then have "key_rune r = bslash # r" by (simp add: key_rune_def split: if_splits)
  then show ?thesis by simp
qed

lemma line_head:
  assumes "plain_key k"
  obtains c s where "encoded_line (k, v) = c # s" "\<not> prop_blank c" "c \<noteq> CHR ''#''" "c \<noteq> CHR ''!''"
proof (cases "escapePropertiesKey k")
  case Nil
  then show ?thesis using that[of "CHR ''=''"] by (simp add: encoded_line_def prop_blank_def)
next
  case (Cons c s)
  have blank: "\<not> prop_blank c"
    using plain_key_units[OF assms] Cons by (auto simp: prop_blank_def split: if_splits)
  have "c \<noteq> CHR ''#'' \<and> c \<noteq> CHR ''!''"
  proof (cases "runes k")
    case Nil
    then show ?thesis using Cons by (simp add: escapePropertiesKey_def)
  next
    case rs: (Cons r rs)
    then have ir: "is_rune r" and nr: "r \<noteq> []" using runes_are_runes[of k] by (auto simp: is_rune_def)
    have "c = hd (if r = '' '' then bslash # r else key_rune r)"
      using Cons rs key_rune_head[OF ir nr]
      by (cases "key_rune r") (auto simp: escapePropertiesKey_def split: if_splits)
    then show ?thesis using key_rune_head[OF ir nr] by auto
  qed
  with blank show ?thesis using Cons that[of c] by (simp add: encoded_line_def)
qed

lemma prefix_wide_runes:
  "list_all is_rune rs \<Longrightarrow> \<forall>c\<in>set w. \<not> ascii_byte c \<Longrightarrow> prefix w (concat (map key_rune rs)) \<Longrightarrow> prefix w (concat rs)"
proof (induction rs arbitrary: w)
  case (Cons r rs)
  then consider c where "r = [c]" "ascii_byte c" | "\<forall>c\<in>set r. \<not> ascii_byte c" "r \<noteq> []" by (auto simp: is_rune_def)
  then show ?case
  proof cases
    case (1 c)
    then show ?thesis using Cons.prems(2,3) by (cases w) (auto simp: key_rune_def split: if_splits)
  next
    case 2
    then have "key_rune r = r" by (cases r) (auto simp: key_rune_def)
    then have "prefix w (r @ concat (map key_rune rs))" using Cons.prems(3) by simp
    then show ?thesis using Cons.IH Cons.prems(1,2) by (auto simp: prefix_append)
  qed
qed simp

lemma prefix_before: "prefix w (s @ c # t) \<Longrightarrow> c \<notin> set w \<Longrightarrow> prefix w s"
  by (auto simp: prefix_append prefix_Cons)

lemma line_no_mark:
  assumes "plain_key k"
  shows "trim_prefix (encoded_line (k, v)) byte_order_mark = encoded_line (k, v)"
proof -
  have wide: "\<forall>c\<in>set byte_order_mark. \<not> ascii_byte c"
    by (simp add: byte_order_mark_def ascii_byte_def byte_def)
  have "\<not> prefix byte_order_mark (encoded_line (k, v))"
  proof
    assume "prefix byte_order_mark (encoded_line (k, v))"
    then have "prefix byte_order_mark (escapePropertiesKey k)"
      using prefix_before[of byte_order_mark "escapePropertiesKey k" "CHR ''=''"]
      by (simp add: encoded_line_def) (simp add: byte_order_mark_def)
    then obtain r rs where rs: "runes k = r # rs" "r \<noteq> '' ''"
      using wide by (auto simp: escapePropertiesKey_def byte_order_mark_def split: list.splits if_splits)
    then have "prefix byte_order_mark (concat (map key_rune (r # rs)))"
      using \<open>prefix byte_order_mark (escapePropertiesKey k)\<close> by (simp add: escapePropertiesKey_def)
    then have "prefix byte_order_mark (concat (runes k))"
      using prefix_wide_runes[of "r # rs"] runes_are_runes[of k] rs wide by simp
    then show False using assms by (simp add: plain_key_def valid_utf8_def)
  qed
  then show ?thesis by (simp add: trim_prefix_def)
qed

lemma logical_lines_complete:
  "\<forall>l\<in>set ls. \<not> hasTrailingUnescapedBackslash l \<Longrightarrow> logical_lines ls [] = ls"
  by (induction ls) (simp_all add: Let_def)

lemma replace_all_absent: "c \<notin> set s \<Longrightarrow> replace_all s (c # old) new = s"
proof (induction s)
  case (Cons x s)
  then have "\<not> prefix (c # old) (x # s)" by auto
  then show ?case using Cons by (subst replace_all.simps) simp
qed simp

lemma split_lines:
  assumes "ls \<noteq> []" and "\<forall>l\<in>set ls. list_all (\<lambda>c. \<not> line_break c) l"
  shows "splitPayloadLines (join_with [newline] ls @ [newline]) = ls @ [[]]"
proof -
  let ?s = "join_with [newline] ls @ [newline]"
  have "creturn \<notin> set l" if "l \<in> set ls" for l
    using assms(2) that by (auto simp: list_all_iff line_break_def)
  then have "creturn \<notin> set ?s"
    using set_join_with[of "[newline]" ls] by auto
  then have "replace_all (replace_all ?s [creturn, newline] [newline]) [creturn] [newline] = ?s"
    by (simp add: replace_all_absent)
  moreover have "?s = join_with [newline] (ls @ [[]])" using assms(1) by (simp add: join_with_append)
  moreover have "split_on newline (join_with [newline] (ls @ [[]])) = ls @ [[]]"
    using assms by (intro split_join) (auto simp: list_all_iff line_break_def)
  ultimately show ?thesis unfolding splitPayloadLines_def by metis
qed

lemma read_entries:
  "\<forall>(k, v)\<in>set kvs. plain_key k \<and> valid_utf8 v \<Longrightarrow>
   properties_entries (map encoded_line kvs @ [[]]) acc =
     Ok (fold (\<lambda>(k, v). map_put k v) (map (\<lambda>(k, v). (k, VString v)) kvs) acc)"
proof (induction kvs arbitrary: acc)
  case (Cons kv kvs)
  obtain k v where kv: "kv = (k, v)" by fastforce
  then have k: "plain_key k" and v: "valid_utf8 v" using Cons.prems by auto
  obtain c s where cs: "encoded_line (k, v) = c # s" "\<not> prop_blank c" "c \<noteq> CHR ''#''" "c \<noteq> CHR ''!''"
    using line_head[OF k] by metis
  have "unescapePropertiesString (escapePropertiesKey k) = Ok k"
    using k by (simp add: unescape_escape_key plain_key_def valid_utf8_def)
  moreover have "unescapePropertiesString (escapePropertiesValue v) = Ok v"
    using v by (simp add: unescape_escape_value valid_utf8_def)
  ultimately show ?case
    using Cons cs line_split[OF k, of v] by (simp add: kv)
qed simp

lemma encode_strings:
  "each_result (properties_line f) (map (\<lambda>(k, v). (k, VString v)) kvs) = Ok (map encoded_line kvs)"
  by (induction kvs) (auto simp: properties_line_def stringifyStructuredTextScalar_def encoded_line_def)

section \<open>Theorems\<close>

text \<open>The properties codec reads back exactly the object it wrote, for every object of text
  values whose keys contain no blank or line break after the first byte and whose text is valid
  UTF-8.\<close>

theorem properties_roundtrip:
  assumes "sorted_map kvs" and "\<forall>(k, v)\<in>set kvs. plain_key k \<and> valid_utf8 v"
  shows "\<exists>data. encodePropertiesPayload f (VMap (map (\<lambda>(k, v). (k, VString v)) kvs)) = Ok data
    \<and> decodePropertiesPayload data = Ok (map (\<lambda>(k, v). (k, VString v)) kvs)"
proof (cases "kvs = []")
  case True
  have "decodePropertiesPayload [] = Ok []" by code_simp
  then show ?thesis using True by (simp add: encodePropertiesPayload_def)
next
  case False
  let ?data = "join_with [newline] (map encoded_line kvs) @ [newline]"
  obtain k v rest where kvs: "kvs = (k, v) # rest" using False by (cases kvs) auto
  have "splitPayloadLines ?data = map encoded_line kvs @ [[]]"
    using False assms(2) by (intro split_lines) (auto intro: line_no_break)
  moreover have "trim_prefix (encoded_line (k, v)) byte_order_mark = encoded_line (k, v)"
    using assms(2) kvs by (intro line_no_mark) auto
  moreover have "logical_lines (map encoded_line kvs @ [[]]) [] = map encoded_line kvs @ [[]]"
    using assms(2) line_complete
    by (intro logical_lines_complete) (auto simp: hasTrailingUnescapedBackslash_def)
  ultimately have "propertiesLogicalLines ?data = map encoded_line kvs @ [[]]"
    by (simp add: propertiesLogicalLines_def kvs)
  moreover have "sorted_map ([] @ map (\<lambda>(k, v). (k, VString v)) kvs)"
    using assms(1) sorted_map_map[of "\<lambda>k. VString" kvs] by simp
  ultimately have "decodePropertiesPayload ?data = Ok (map (\<lambda>(k, v). (k, VString v)) kvs)"
    using read_entries[OF assms(2), of "[]"] fold_map_put
    by (metis append_Nil decodePropertiesPayload_def)
  then show ?thesis using False by (simp add: encodePropertiesPayload_def encode_strings)
qed

theorem properties_roundtrip_witness:
  "\<exists>data. encodePropertiesPayload (\<lambda>_ _. []) (VMap [('' a=b'', VString ''x y''), (''p'', VString ([newline, bslash]))]) = Ok data
    \<and> decodePropertiesPayload data = Ok [('' a=b'', VString ''x y''), (''p'', VString ([newline, bslash]))]"
proof -
  have "sorted_map [('' a=b'', ''x y''), (''p'', [newline, bslash])]" by code_simp
  moreover have "plain_key '' a=b''" "plain_key ''p''" "valid_utf8 ''x y''" "valid_utf8 [newline, bslash]"
    by code_simp+
  ultimately show ?thesis
    using properties_roundtrip[of "[('' a=b'', ''x y''), (''p'', [newline, bslash])]" "\<lambda>_ _. []"] by simp
qed

text \<open>A key with an inner space is written without escaping it and read back as a shorter
  key, the rest of it becoming part of the value.\<close>

theorem properties_key_with_space:
  "encodePropertiesPayload f (VMap [(''a b'', VString ''c'')]) = Ok (''a b=c'' @ [newline])
   \<and> decodePropertiesPayload (''a b=c'' @ [newline]) = Ok [(''a'', VString ''b=c'')]"
proof
  have "escapePropertiesKey ''a b'' = ''a b''" "escapePropertiesValue ''c'' = ''c''" by code_simp+
  then show "encodePropertiesPayload f (VMap [(''a b'', VString ''c'')]) = Ok (''a b=c'' @ [newline])"
    by (simp add: encodePropertiesPayload_def properties_line_def stringifyStructuredTextScalar_def)
  show "decodePropertiesPayload (''a b=c'' @ [newline]) = Ok [(''a'', VString ''b=c'')]" by code_simp
qed

end
