(* ===== verification/Go_Path.thy ===== *)
theory Go_Path
  imports Go_Lib
begin

text \<open>
  The functions of Go's package \<open>path\<close> (slash-separated paths) that the sources call.
  \<open>path.Clean\<close> is given on the segments between the slashes: empty and \<open>.\<close> segments are
  dropped, \<open>..\<close> removes the segment before it, leading \<open>..\<close> are dropped from rooted paths and
  kept on the others, and the empty result is \<open>.\<close> (or \<open>/\<close> when rooted), which are the four
  rules of its documentation.
\<close>

fun clean_step :: "bool \<Rightarrow> string list \<Rightarrow> string \<Rightarrow> string list" where
  "clean_step rooted acc seg =
     (if seg = [] \<or> seg = ''.'' then acc
      else if seg = ''..'' then
        (case acc of [] \<Rightarrow> (if rooted then [] else [''..''])
         | t # ts \<Rightarrow> if t = ''..'' then ''..'' # acc else ts)
      else seg # acc)"

definition clean_segments :: "bool \<Rightarrow> string list \<Rightarrow> string list" where
  "clean_segments rooted segs = rev (foldl (clean_step rooted) [] segs)"

definition rooted_path :: "string list \<Rightarrow> string" where
  "rooted_path segs = CHR ''/'' # join_with ''/'' segs"

definition path_clean :: "string \<Rightarrow> string" where
  "path_clean s =
     (if s = [] then ''.''
      else let rooted = prefix ''/'' s;
               segs = clean_segments rooted (split_on (CHR ''/'') s)
           in if rooted then rooted_path segs
              else if segs = [] then ''.'' else join_with ''/'' segs)"

definition path_join :: "string \<Rightarrow> string \<Rightarrow> string" where
  "path_join a b =
     (if a = [] \<and> b = [] then []
      else path_clean (join_with ''/'' (filter (\<lambda>x. x \<noteq> []) [a, b])))"

text \<open>\<open>path.Base\<close>: trailing slashes are removed, then everything up to the last slash.\<close>

definition strip_trailing_slashes :: "string \<Rightarrow> string" where
  "strip_trailing_slashes s = rev (dropWhile (\<lambda>x. x = CHR ''/'') (rev s))"

definition path_base :: "string \<Rightarrow> string" where
  "path_base s =
     (if s = [] then ''.''
      else let base = last (split_on (CHR ''/'') (strip_trailing_slashes s))
           in if base = [] then ''/'' else base)"

text \<open>\<open>filepath.Ext\<close> and \<open>filepath.Dir\<close>.\<close>

definition path_ext :: "string \<Rightarrow> string" where
  "path_ext p =
     (let tail = rev (takeWhile (\<lambda>c. c \<noteq> CHR ''/'') (rev p)) in
      if CHR ''.'' \<in> set tail
      then CHR ''.'' # rev (takeWhile (\<lambda>c. c \<noteq> CHR ''.'') (rev tail)) else [])"

definition path_dir :: "string \<Rightarrow> string" where
  "path_dir s =
     (let segs = split_on (CHR ''/'') s in
      path_clean (if length segs \<le> 1 then [] else join_with ''/'' (butlast segs) @ ''/''))"

section \<open>Plain segments and rooted paths\<close>

definition plain_segment :: "string \<Rightarrow> bool" where
  "plain_segment s = (s \<noteq> [] \<and> s \<noteq> ''.'' \<and> s \<noteq> ''..'' \<and> CHR ''/'' \<notin> set s)"

lemma plain_segmentD:
  "plain_segment s \<Longrightarrow> s \<noteq> []" "plain_segment s \<Longrightarrow> s \<noteq> ''.''"
  "plain_segment s \<Longrightarrow> s \<noteq> ''..''" "plain_segment s \<Longrightarrow> CHR ''/'' \<notin> set s"
  by (auto simp: plain_segment_def)

lemma clean_step_plain [simp]: "plain_segment x \<Longrightarrow> clean_step r acc x = x # acc"
  by (auto simp: plain_segment_def)

lemma foldl_clean_step_plain:
  "list_all plain_segment segs \<Longrightarrow> foldl (clean_step r) acc segs = rev segs @ acc"
  by (induction segs arbitrary: acc) (simp_all del: clean_step.simps)

lemma clean_segments_plain [go_norm]: "list_all plain_segment segs \<Longrightarrow> clean_segments r segs = segs"
  by (simp add: clean_segments_def foldl_clean_step_plain)

lemma clean_segments_Nil [simp]: "clean_segments r [] = []"
  by (simp add: clean_segments_def)

lemma clean_segments_empty [simp]: "clean_segments r ([] # segs) = clean_segments r segs"
  by (simp add: clean_segments_def)

lemma clean_step_preserves_plain:
  "list_all plain_segment acc \<Longrightarrow> CHR ''/'' \<notin> set seg \<Longrightarrow> list_all plain_segment (clean_step True acc seg)"
  by (auto simp: plain_segment_def split: list.splits)

lemma clean_segments_rooted_plain:
  assumes "\<forall>x\<in>set segs. CHR ''/'' \<notin> set x"
  shows "list_all plain_segment (clean_segments True segs)"
proof -
  have "list_all plain_segment (foldl (clean_step True) acc segs)"
    if "list_all plain_segment acc" for acc
    using assms that
  proof (induction segs arbitrary: acc)
    case (Cons x xs)
    then show ?case
      using clean_step_preserves_plain[of acc x] by (simp del: clean_step.simps)
  qed simp
  from this[of "[]"] show ?thesis
    by (simp add: clean_segments_def list_all_iff)
qed

text \<open>Without \<open>..\<close> segments, cleaning only drops the empty and the \<open>.\<close> segments.\<close>

lemma clean_segments_no_dotdot:
  assumes "''..'' \<notin> set segs"
  shows "clean_segments r segs = filter (\<lambda>x. x \<noteq> [] \<and> x \<noteq> ''.'') segs"
proof -
  have "foldl (clean_step r) acc segs = rev (filter (\<lambda>x. x \<noteq> [] \<and> x \<noteq> ''.'') segs) @ acc" for acc
    using assms by (induction segs arbitrary: acc) auto
  then show ?thesis by (simp add: clean_segments_def)
qed

lemma plain_segments_no_slash:
  "list_all plain_segment segs \<Longrightarrow> \<forall>x\<in>set segs. CHR ''/'' \<notin> set x"
  by (auto simp: list_all_iff plain_segment_def)

lemma split_rooted_path:
  assumes "list_all plain_segment segs"
  shows "split_on (CHR ''/'') (rooted_path segs) = [] # (if segs = [] then [[]] else segs)"
  using assms plain_segments_no_slash[OF assms] by (auto simp: rooted_path_def split_join)

lemma path_clean_rooted: "prefix ''/'' s \<Longrightarrow>
    path_clean s = rooted_path (clean_segments True (split_on (CHR ''/'') s))"
  by (auto simp: path_clean_def Let_def)

lemma path_clean_rooted_plain:
  "prefix ''/'' s \<Longrightarrow> list_all plain_segment (clean_segments True (split_on (CHR ''/'') s))"
  by (rule clean_segments_rooted_plain) (auto dest: split_on_segment)

lemma path_clean_rooted_path [go_norm]:
  assumes "list_all plain_segment segs"
  shows "path_clean (rooted_path segs) = rooted_path segs"
proof -
  have "prefix ''/'' (rooted_path segs)" by (simp add: rooted_path_def)
  then have "path_clean (rooted_path segs) =
      rooted_path (clean_segments True (split_on (CHR ''/'') (rooted_path segs)))"
    by (rule path_clean_rooted)
  also have "\<dots> = rooted_path segs"
    using assms by (simp add: split_rooted_path clean_segments_plain)
  finally show ?thesis .
qed

lemma rooted_path_inject:
  assumes "list_all plain_segment xs" and "list_all plain_segment ys"
  shows "rooted_path xs = rooted_path ys \<longleftrightarrow> xs = ys"
proof
  assume "rooted_path xs = rooted_path ys"
  then have "split_on (CHR ''/'') (rooted_path xs) = split_on (CHR ''/'') (rooted_path ys)" by simp
  then show "xs = ys"
    using assms by (auto simp: split_rooted_path plain_segment_def split: if_splits)
qed simp

lemma rooted_path_root: "list_all plain_segment xs \<Longrightarrow> rooted_path xs = ''/'' \<longleftrightarrow> xs = []"
  using rooted_path_inject[of xs "[]"] by (simp add: rooted_path_def)

lemma prefix_rooted_path [simp]: "prefix ''/'' (rooted_path segs)"
  by (simp add: rooted_path_def)

lemma rooted_path_append:
  "xs \<noteq> [] \<Longrightarrow> ys \<noteq> [] \<Longrightarrow> rooted_path (xs @ ys) = rooted_path xs @ rooted_path ys"
  by (simp add: rooted_path_def join_with_append)

lemma hd_rooted_path [simp]: "hd (rooted_path segs) = CHR ''/''" "rooted_path segs \<noteq> []"
  by (simp_all add: rooted_path_def)

lemma trim_space_rooted_path: "trim_space (rooted_path segs) \<noteq> []"
proof
  assume "trim_space (rooted_path segs) = []"
  then have "trim_right_space (rooted_path segs) = []"
    by (simp add: trim_space_def trim_left_space_id rooted_path_def leading_space_visible)
  moreover have "trim_right_space (CHR ''/'' # s) \<noteq> []" for s
  proof (induction "CHR ''/'' # s" arbitrary: s rule: trim_right_space.induct)
    case 1
    show ?case
    proof (cases "trailing_space (CHR ''/'' # s)")
      case None
      then show ?thesis by (simp add: trim_right_space_id)
    next
      case (Some w)
      then have w: "suffix w (CHR ''/'' # s)" "w \<in> set space_encodings"
        using trailing_space_Some by blast+
      then have "length w < length (CHR ''/'' # s)"
        using visible_bytes(1) by (auto simp: suffix_Cons visible_byte_def dest: suffix_length_le)
      then obtain t where t: "take (length (CHR ''/'' # s) - length w) (CHR ''/'' # s) = CHR ''/'' # t"
        by (cases "length (CHR ''/'' # s) - length w") auto
      show ?thesis
        using Some 1[OF Some t] t by (subst trim_right_space.simps) simp
    qed
  qed
  ultimately show False by (simp add: rooted_path_def)
qed

end
