(* ===== verification/Payload_Types.thy ===== *)
theory Payload_Types
  imports Payload_KV Go_Path
begin

text \<open>
  Payload types, descriptors and codecs (src/resource/payload_codec.go and
  src/resource/payload_descriptor.go).

  \<open>strings.ToLower\<close> beyond ASCII is the parameter \<open>ulower\<close> of theory Go_Unicode.
  \<open>mime.ParseMediaType\<close> is modelled as the standard library has it, as far as the code uses it: the
  media type, or \<open>None\<close> for an error; parameters are only read to find malformed or conflicting
  ones.  The JSON encoder and decoder of the standard library and the YAML package are the fields
  of the record \<open>codecs\<close>; their error results carry the library's error.

  The lemmas show that normalising a descriptor is idempotent and yields a type, media type and
  extension that agree with each other.
\<close>

abbreviation PayloadTypeJSON :: string where "PayloadTypeJSON \<equiv> ''json''"
abbreviation PayloadTypeYAML :: string where "PayloadTypeYAML \<equiv> ''yaml''"
abbreviation PayloadTypeXML :: string where "PayloadTypeXML \<equiv> ''xml''"
abbreviation PayloadTypeHCL :: string where "PayloadTypeHCL \<equiv> ''hcl''"
abbreviation PayloadTypeINI :: string where "PayloadTypeINI \<equiv> ''ini''"
abbreviation PayloadTypeProperties :: string where "PayloadTypeProperties \<equiv> ''properties''"
abbreviation PayloadTypeText :: string where "PayloadTypeText \<equiv> ''text''"
abbreviation PayloadTypeOctetStream :: string where "PayloadTypeOctetStream \<equiv> ''octet-stream''"
abbreviation PayloadTypeBinary :: string where "PayloadTypeBinary \<equiv> ''binary''"

record PayloadCodec =
  CodecType :: string
  CodecExtension :: string
  CodecMediaType :: string
  Structured :: bool
  Text :: bool
  Binary :: bool

definition payloadCodecs :: "PayloadCodec list" where
  "payloadCodecs =
    [\<lparr>CodecType = PayloadTypeJSON, CodecExtension = ''.json'', CodecMediaType = ''application/json'', Structured = True, Text = False, Binary = False\<rparr>,
     \<lparr>CodecType = PayloadTypeYAML, CodecExtension = ''.yaml'', CodecMediaType = ''application/yaml'', Structured = True, Text = False, Binary = False\<rparr>,
     \<lparr>CodecType = PayloadTypeINI, CodecExtension = ''.ini'', CodecMediaType = ''application/ini'', Structured = True, Text = False, Binary = False\<rparr>,
     \<lparr>CodecType = PayloadTypeProperties, CodecExtension = ''.properties'', CodecMediaType = ''text/x-java-properties'', Structured = True, Text = False, Binary = False\<rparr>,
     \<lparr>CodecType = PayloadTypeXML, CodecExtension = ''.xml'', CodecMediaType = ''application/xml'', Structured = False, Text = True, Binary = False\<rparr>,
     \<lparr>CodecType = PayloadTypeHCL, CodecExtension = ''.hcl'', CodecMediaType = ''application/hcl'', Structured = False, Text = True, Binary = False\<rparr>,
     \<lparr>CodecType = PayloadTypeText, CodecExtension = ''.txt'', CodecMediaType = ''text/plain'', Structured = False, Text = True, Binary = False\<rparr>,
     \<lparr>CodecType = PayloadTypeOctetStream, CodecExtension = ''.bin'', CodecMediaType = ''application/octet-stream'', Structured = False, Text = False, Binary = True\<rparr>]"

fun buildPayloadCodecByType :: "PayloadCodec list \<Rightarrow> string \<Rightarrow> PayloadCodec option" where
  "buildPayloadCodecByType [] t = None"
| "buildPayloadCodecByType (codec # codecs) t =
     (case buildPayloadCodecByType codecs t of
        Some later \<Rightarrow> Some later
      | None \<Rightarrow> if CodecType codec = t then Some codec else None)"

definition payloadCodecByType :: "string \<Rightarrow> PayloadCodec option" where
  "payloadCodecByType = buildPayloadCodecByType payloadCodecs"

section \<open>Payload types\<close>

definition NormalizePayloadType :: "(string \<Rightarrow> string) \<Rightarrow> string \<Rightarrow> string" where
  "NormalizePayloadType ul v =
     (let normalized = to_lower ul (trim_space v) in
      if normalized = [] \<or> normalized = PayloadTypeJSON then PayloadTypeJSON
      else if normalized = PayloadTypeBinary then PayloadTypeOctetStream
      else normalized)"

definition ValidatePayloadType :: "(string \<Rightarrow> string) \<Rightarrow> string \<Rightarrow> string result" where
  "ValidatePayloadType ul v =
     (let normalized = NormalizePayloadType ul v in
      if payloadCodecByType normalized \<noteq> None then Ok normalized
      else Err (Invalid (''unsupported payload type %q'', [trim_space v]) None))"

definition SupportedPayloadTypes :: "string list" where
  "SupportedPayloadTypes = map CodecType payloadCodecs"

definition PayloadCodecForType :: "(string \<Rightarrow> string) \<Rightarrow> string \<Rightarrow> PayloadCodec result" where
  "PayloadCodecForType ul v =
     (case ValidatePayloadType ul v of
        Err e \<Rightarrow> Err e
      | Ok normalized \<Rightarrow> (case payloadCodecByType normalized of
                            Some codec \<Rightarrow> Ok codec
                          | None \<Rightarrow> Ok \<lparr>CodecType = [], CodecExtension = [], CodecMediaType = [],
                                        Structured = False, Text = False, Binary = False\<rparr>))"

definition PayloadMediaType :: "(string \<Rightarrow> string) \<Rightarrow> string \<Rightarrow> string result" where
  "PayloadMediaType ul v =
     (case PayloadCodecForType ul v of Err e \<Rightarrow> Err e | Ok codec \<Rightarrow> Ok (CodecMediaType codec))"

definition PayloadExtension :: "(string \<Rightarrow> string) \<Rightarrow> string \<Rightarrow> string result" where
  "PayloadExtension ul v =
     (case PayloadCodecForType ul v of Err e \<Rightarrow> Err e | Ok codec \<Rightarrow> Ok (CodecExtension codec))"

definition IsStructuredPayloadType :: "(string \<Rightarrow> string) \<Rightarrow> string \<Rightarrow> bool" where
  "IsStructuredPayloadType ul v =
     (case PayloadCodecForType ul v of Err e \<Rightarrow> False | Ok codec \<Rightarrow> Structured codec)"

definition IsTextPayloadType :: "(string \<Rightarrow> string) \<Rightarrow> string \<Rightarrow> bool" where
  "IsTextPayloadType ul v =
     (case PayloadCodecForType ul v of Err e \<Rightarrow> False | Ok codec \<Rightarrow> Text codec)"

definition IsBinaryPayloadType :: "(string \<Rightarrow> string) \<Rightarrow> string \<Rightarrow> bool" where
  "IsBinaryPayloadType ul v =
     (case PayloadCodecForType ul v of Err e \<Rightarrow> False | Ok codec \<Rightarrow> Binary codec)"

section \<open>Media types of the standard library\<close>

definition tspecials :: string where
  "tspecials = ''()<>@,;:'' @ [CHR 0x5C, CHR 0x22] @ ''/[]?=''"

definition token_char :: "char \<Rightarrow> bool" where
  "token_char c = (0x20 < byte c \<and> byte c < 0x7F \<and> c \<notin> set tspecials)"

definition consume_token :: "string \<Rightarrow> string \<times> string" where
  "consume_token v = (takeWhile token_char v, dropWhile token_char v)"

fun quoted_body :: "string \<Rightarrow> (string \<times> string) option" where
  "quoted_body [] = None"
| "quoted_body (r # v) =
     (if r = CHR 0x22 then Some ([], v)
      else if r = CHR 0x5C \<and> v \<noteq> [] \<and> hd v \<in> set tspecials
      then map_option (\<lambda>(b, rest). (hd v # b, rest)) (quoted_body (tl v))
      else if r = CHR 0x0D \<or> r = CHR 0x0A then None
      else map_option (\<lambda>(b, rest). (r # b, rest)) (quoted_body v))"

definition consume_value :: "string \<Rightarrow> string \<times> string" where
  "consume_value v =
     (if v = [] then ([], [])
      else if hd v \<noteq> CHR 0x22 then consume_token v
      else case quoted_body (tl v) of None \<Rightarrow> ([], v) | Some p \<Rightarrow> p)"

text \<open>A parameter and what follows it; \<open>None\<close> where Go returns an empty key and its input.\<close>

definition consume_media_param :: "string \<Rightarrow> (string \<times> string \<times> string) option" where
  "consume_media_param v =
     (let rest = trim_left_space v in
      if \<not> prefix '';'' rest then None
      else let (param, rest) = consume_token (trim_left_space (tl rest));
               param = map lower_byte param
           in if param = [] then None
              else let rest = trim_left_space rest in
                   if \<not> prefix ''='' rest then None
                   else let rest = trim_left_space (tl rest);
                            (val, rest2) = consume_value rest
                        in if val = [] \<and> rest2 = rest then None else Some (param, val, rest2))"

text \<open>The loop over the parameters, with the ones seen so far, never runs more often than the text
  has bytes, which is the fuel.  True if there is no error.\<close>

fun media_params_ok :: "nat \<Rightarrow> string \<Rightarrow> (string \<times> string) list \<Rightarrow> bool" where
  "media_params_ok 0 v seen = (v = [])"
| "media_params_ok (Suc n) v seen =
     (let v = trim_left_space v in
      if v = [] then True
      else case consume_media_param v of
             None \<Rightarrow> trim_space v = '';''
           | Some (key, val, rest) \<Rightarrow>
               (case map_of seen key of
                  Some old \<Rightarrow> old = val \<and> media_params_ok n rest seen
                | None \<Rightarrow> media_params_ok n rest ((key, val) # seen)))"

definition check_media_type :: "string \<Rightarrow> bool" where
  "check_media_type s =
     (let (typ, rest) = consume_token s in
      if typ = [] then False
      else if rest = [] then True
      else if \<not> prefix ''/'' rest then False
      else let (subtype, rest) = consume_token (tl rest) in subtype \<noteq> [] \<and> rest = [])"

definition parse_media_type :: "(string \<Rightarrow> string) \<Rightarrow> string \<Rightarrow> string option" where
  "parse_media_type ul v =
     (let base = takeWhile (\<lambda>c. c \<noteq> CHR '';'') v;
          mediatype = trim_space (to_lower ul base)
      in if \<not> check_media_type mediatype then None
         else let rest = drop (length base) v in
              if media_params_ok (length rest) rest [] then Some mediatype else None)"

section \<open>Descriptors\<close>

definition defaultOctetStreamMediaType :: string where
  "defaultOctetStreamMediaType = ''application/octet-stream''"

definition descriptor_of :: "string \<Rightarrow> string \<Rightarrow> string \<Rightarrow> PayloadDescriptor" where
  "descriptor_of payloadType mediaType extension =
     \<lparr>PayloadType = payloadType, MediaType = mediaType, Extension = extension\<rparr>"

definition DefaultOctetStreamDescriptor :: PayloadDescriptor where
  "DefaultOctetStreamDescriptor = descriptor_of PayloadTypeOctetStream defaultOctetStreamMediaType ''.bin''"

text \<open>Go drops the error of \<open>PayloadMediaType\<close> and \<open>PayloadExtension\<close>; the value is then empty.\<close>

definition value_or_empty :: "string result \<Rightarrow> string" where
  "value_or_empty r = (case r of Err e \<Rightarrow> [] | Ok s \<Rightarrow> s)"

definition canonicalDescriptor :: "(string \<Rightarrow> string) \<Rightarrow> string \<Rightarrow> PayloadDescriptor" where
  "canonicalDescriptor ul payloadType =
     (let normalized = NormalizePayloadType ul payloadType in
      descriptor_of normalized (value_or_empty (PayloadMediaType ul normalized))
        (value_or_empty (PayloadExtension ul normalized)))"

definition normalizeContentTypeOrShortname :: "(string \<Rightarrow> string) \<Rightarrow> string \<Rightarrow> string" where
  "normalizeContentTypeOrShortname ul v =
     (let trimmed = to_lower ul (trim_space v) in
      if trimmed = [] then []
      else case parse_media_type ul trimmed of
             Some parsed \<Rightarrow> to_lower ul (trim_space parsed)
           | None \<Rightarrow> trimmed)"

definition normalizePayloadExtension :: "(string \<Rightarrow> string) \<Rightarrow> string \<Rightarrow> string" where
  "normalizePayloadExtension ul v =
     (let trimmed = to_lower ul (trim_space v) in
      if trimmed = [] then [] else if \<not> prefix ''.'' trimmed then ''.'' @ trimmed else trimmed)"

text \<open>The cases of the two switches: short names, media types with their type and extension, and
  extensions with their type and media type.\<close>

definition shortname_cases :: "(string \<times> string) list" where
  "shortname_cases =
    [(''json'', PayloadTypeJSON),
     (''yaml'', PayloadTypeYAML),
     (''xml'', PayloadTypeXML),
     (''hcl'', PayloadTypeHCL),
     (''ini'', PayloadTypeINI),
     (''properties'', PayloadTypeProperties),
     (''text'', PayloadTypeText),
     (''txt'', PayloadTypeText),
     (''binary'', PayloadTypeOctetStream),
     (''octet-stream'', PayloadTypeOctetStream)]"

definition media_type_cases :: "(string \<times> string \<times> string) list" where
  "media_type_cases =
    [(''application/json'', PayloadTypeJSON, ''.json''),
     (''application/yaml'', PayloadTypeYAML, ''.yaml''),
     (''application/x-yaml'', PayloadTypeYAML, ''.yaml''),
     (''text/yaml'', PayloadTypeYAML, ''.yaml''),
     (''text/x-yaml'', PayloadTypeYAML, ''.yaml''),
     (''application/xml'', PayloadTypeXML, ''.xml''),
     (''text/xml'', PayloadTypeXML, ''.xml''),
     (''application/hcl'', PayloadTypeHCL, ''.hcl''),
     (''text/hcl'', PayloadTypeHCL, ''.hcl''),
     (''application/ini'', PayloadTypeINI, ''.ini''),
     (''text/ini'', PayloadTypeINI, ''.ini''),
     (''application/properties'', PayloadTypeProperties, ''.properties''),
     (''text/properties'', PayloadTypeProperties, ''.properties''),
     (''text/x-java-properties'', PayloadTypeProperties, ''.properties''),
     (''text/plain'', PayloadTypeText, ''.txt''),
     (''text/csv'', PayloadTypeText, ''.csv''),
     (''text/html'', PayloadTypeText, ''.html''),
     (''text/css'', PayloadTypeText, ''.css''),
     (''text/javascript'', PayloadTypeText, ''.js''),
     (''application/javascript'', PayloadTypeText, ''.js''),
     (''application/x-javascript'', PayloadTypeText, ''.js''),
     (defaultOctetStreamMediaType, PayloadTypeOctetStream, ''.bin'')]"

definition extension_cases :: "(string \<times> string \<times> string) list" where
  "extension_cases =
    [(''.json'', PayloadTypeJSON, ''application/json''),
     (''.yaml'', PayloadTypeYAML, ''application/yaml''),
     (''.yml'', PayloadTypeYAML, ''application/yaml''),
     (''.xml'', PayloadTypeXML, ''application/xml''),
     (''.hcl'', PayloadTypeHCL, ''application/hcl''),
     (''.ini'', PayloadTypeINI, ''application/ini''),
     (''.properties'', PayloadTypeProperties, ''text/x-java-properties''),
     (''.props'', PayloadTypeProperties, ''text/x-java-properties''),
     (''.txt'', PayloadTypeText, ''text/plain''),
     (''.text'', PayloadTypeText, ''text/plain''),
     (''.csv'', PayloadTypeText, ''text/csv''),
     (''.html'', PayloadTypeText, ''text/html''),
     (''.htm'', PayloadTypeText, ''text/html''),
     (''.css'', PayloadTypeText, ''text/css''),
     (''.js'', PayloadTypeText, ''text/javascript''),
     (''.bin'', PayloadTypeOctetStream, defaultOctetStreamMediaType)]"

definition PayloadDescriptorForContentType :: "(string \<Rightarrow> string) \<Rightarrow> string \<Rightarrow> PayloadDescriptor option" where
  "PayloadDescriptorForContentType ul v =
     (let normalized = normalizeContentTypeOrShortname ul v in
      if normalized = [] then None
      else case map_of shortname_cases normalized of
             Some payloadType \<Rightarrow> Some (canonicalDescriptor ul payloadType)
           | None \<Rightarrow>
               (case map_of media_type_cases normalized of
                  Some (payloadType, extension) \<Rightarrow> Some (descriptor_of payloadType normalized extension)
                | None \<Rightarrow>
                    if suffix ''+json'' normalized then Some (descriptor_of PayloadTypeJSON normalized ''.json'')
                    else if suffix ''+xml'' normalized then Some (descriptor_of PayloadTypeXML normalized ''.xml'')
                    else None))"

definition PayloadDescriptorForExtension :: "(string \<Rightarrow> string) \<Rightarrow> string \<Rightarrow> PayloadDescriptor option" where
  "PayloadDescriptorForExtension ul extension =
     (let normalized = normalizePayloadExtension ul extension in
      if normalized = [] then None
      else case map_of extension_cases normalized of
             Some (payloadType, mediaType) \<Rightarrow> Some (descriptor_of payloadType mediaType normalized)
           | None \<Rightarrow> None)"

definition PayloadDescriptorForFileName :: "(string \<Rightarrow> string) \<Rightarrow> string \<Rightarrow> PayloadDescriptor option" where
  "PayloadDescriptorForFileName ul name =
     (let trimmed = trim_space name in
      if trimmed = [] then None else PayloadDescriptorForExtension ul (path_ext trimmed))"

definition StructuredLookingPayload :: "string \<Rightarrow> bool" where
  "StructuredLookingPayload data =
     (case trim_space data of [] \<Rightarrow> False | c # cs \<Rightarrow> c = CHR ''{'' \<or> c = CHR ''['')"

definition PayloadTypeForExtension :: "(string \<Rightarrow> string) \<Rightarrow> string \<Rightarrow> string option" where
  "PayloadTypeForExtension ul extension = map_option PayloadType (PayloadDescriptorForExtension ul extension)"

definition PayloadTypeForMediaType :: "(string \<Rightarrow> string) \<Rightarrow> string \<Rightarrow> string option" where
  "PayloadTypeForMediaType ul v = map_option PayloadType (PayloadDescriptorForContentType ul v)"

definition IsPayloadDescriptorExplicit :: "PayloadDescriptor \<Rightarrow> bool" where
  "IsPayloadDescriptorExplicit d =
     (trim_space (PayloadType d) \<noteq> [] \<or> trim_space (MediaType d) \<noteq> [] \<or> trim_space (Extension d) \<noteq> [])"

definition resolveConsistentExtension :: "(string \<Rightarrow> string) \<Rightarrow> string \<Rightarrow> string \<Rightarrow> string" where
  "resolveConsistentExtension ul extension resolvedPayloadType =
     (case PayloadDescriptorForExtension ul extension of
        None \<Rightarrow> extension
      | Some extDescriptor \<Rightarrow>
          if PayloadType extDescriptor = resolvedPayloadType then extension
          else (case PayloadExtension ul resolvedPayloadType of Err e \<Rightarrow> extension | Ok canonical \<Rightarrow> canonical))"

definition NormalizePayloadDescriptor :: "(string \<Rightarrow> string) \<Rightarrow> PayloadDescriptor \<Rightarrow> PayloadDescriptor" where
  "NormalizePayloadDescriptor ul d =
     (let extension = normalizePayloadExtension ul (Extension d) in
      case (if trim_space (MediaType d) = [] \<and> trim_space (PayloadType d) = []
            then PayloadDescriptorForExtension ul extension else None) of
        Some descriptor \<Rightarrow> descriptor
      | None \<Rightarrow>
          (case PayloadDescriptorForContentType ul (MediaType d) of
             Some descriptor \<Rightarrow>
               if extension \<noteq> []
               then descriptor\<lparr>Extension := resolveConsistentExtension ul extension (PayloadType descriptor)\<rparr>
               else descriptor
           | None \<Rightarrow>
               if trim_space (PayloadType d) \<noteq> []
               then let payloadType = NormalizePayloadType ul (PayloadType d) in
                    descriptor_of payloadType (value_or_empty (PayloadMediaType ul payloadType))
                      (if extension \<noteq> [] then resolveConsistentExtension ul extension payloadType
                       else value_or_empty (PayloadExtension ul payloadType))
               else if extension \<noteq> []
               then descriptor_of PayloadTypeOctetStream defaultOctetStreamMediaType extension
               else DefaultOctetStreamDescriptor))"

section \<open>Encoding and decoding\<close>

record codecs =
  yaml_unmarshal :: "string \<Rightarrow> gval result"
  yaml_marshal :: "gval \<Rightarrow> string result"
  json_decode :: "string \<Rightarrow> gval result"
  json_marshal :: "gval \<Rightarrow> string result"
  json_marshal_indent :: "gval \<Rightarrow> string result"
  format_float :: "nat \<Rightarrow> float64 \<Rightarrow> string"
  unicode_lower :: "string \<Rightarrow> string"

definition invalid_cause :: "string \<Rightarrow> 'a result \<Rightarrow> 'a result" where
  "invalid_cause m r = (case r of Err e \<Rightarrow> Err (Invalid (msg m) (Some e)) | Ok x \<Rightarrow> Ok x)"

definition then_normalize :: "gval result \<Rightarrow> gval result" where
  "then_normalize r = (case r of Err e \<Rightarrow> Err e | Ok v \<Rightarrow> Normalize v)"

definition as_object :: "fields result \<Rightarrow> gval result" where
  "as_object r = (case r of Err e \<Rightarrow> Err e | Ok m \<Rightarrow> Ok (VMap m))"

definition decodeStructuredPayload :: "codecs \<Rightarrow> string \<Rightarrow> string \<Rightarrow> gval result" where
  "decodeStructuredPayload C data payloadType =
     (if payloadType = PayloadTypeYAML
      then then_normalize (invalid_cause ''invalid yaml payload'' (yaml_unmarshal C data))
      else if payloadType = PayloadTypeINI then then_normalize (as_object (decodeINIPayload data))
      else if payloadType = PayloadTypeProperties then then_normalize (as_object (decodePropertiesPayload data))
      else then_normalize (invalid_cause ''invalid json payload'' (json_decode C data)))"

definition encodeStructuredPayload :: "codecs \<Rightarrow> gval \<Rightarrow> string \<Rightarrow> bool \<Rightarrow> string result" where
  "encodeStructuredPayload C v payloadType pretty =
     (case Normalize v of
        Err e \<Rightarrow> Err e
      | Ok normalized \<Rightarrow>
          if payloadType = PayloadTypeYAML
          then invalid_cause ''failed to encode yaml payload'' (yaml_marshal C normalized)
          else if payloadType = PayloadTypeINI then encodeINIPayload (format_float C) normalized
          else if payloadType = PayloadTypeProperties then encodePropertiesPayload (format_float C) normalized
          else if pretty
          then invalid_cause ''failed to encode json payload'' (json_marshal_indent C normalized)
          else invalid_cause ''failed to encode json payload'' (json_marshal C normalized))"

definition encodeTextPayload :: "gval \<Rightarrow> string \<Rightarrow> string result" where
  "encodeTextPayload v payloadType =
     (case v of
        VString s \<Rightarrow> Ok s
      | VBytes b \<Rightarrow> Ok b
      | _ \<Rightarrow> Err (Invalid (''payload type %q requires string input'', [payloadType]) None))"

definition encodeBinaryPayload :: "gval \<Rightarrow> string result" where
  "encodeBinaryPayload v =
     (case BinaryBytes v of
        None \<Rightarrow> Err (Invalid (msg ''payload type octet-stream requires resource.BinaryValue input'') None)
      | Some b \<Rightarrow> Ok b)"

definition encodePayload :: "codecs \<Rightarrow> gval \<Rightarrow> string \<Rightarrow> bool \<Rightarrow> string result" where
  "encodePayload C v payloadType pretty =
     (case PayloadCodecForType (unicode_lower C) payloadType of
        Err e \<Rightarrow> Err e
      | Ok codec \<Rightarrow>
          if v = VNil then Ok []
          else if Structured codec then encodeStructuredPayload C v (CodecType codec) pretty
          else if Text codec then encodeTextPayload v (CodecType codec)
          else if Binary codec then encodeBinaryPayload v
          else Err (Invalid (''unsupported payload type %q'', [payloadType]) None))"

definition EncodePayload :: "codecs \<Rightarrow> gval \<Rightarrow> string \<Rightarrow> string result" where
  "EncodePayload C v payloadType = encodePayload C v payloadType False"

definition EncodePayloadPretty :: "codecs \<Rightarrow> gval \<Rightarrow> string \<Rightarrow> string result" where
  "EncodePayloadPretty C v payloadType = encodePayload C v payloadType True"

definition DecodePayload :: "codecs \<Rightarrow> string \<Rightarrow> string \<Rightarrow> gval result" where
  "DecodePayload C data payloadType =
     (case PayloadCodecForType (unicode_lower C) payloadType of
        Err e \<Rightarrow> Err e
      | Ok codec \<Rightarrow>
          if Structured codec then decodeStructuredPayload C data (CodecType codec)
          else if Text codec then Ok (VString data)
          else if Binary codec then Ok (VBinary data)
          else Err (Invalid (''unsupported payload type %q'', [payloadType]) None))"

definition EncodeContent :: "codecs \<Rightarrow> Content \<Rightarrow> string result" where
  "EncodeContent C content =
     (let descriptor = NormalizePayloadDescriptor (unicode_lower C) (Descriptor content)
      in EncodePayload C (Value content) (PayloadType descriptor))"

definition EncodeContentPretty :: "codecs \<Rightarrow> Content \<Rightarrow> string result" where
  "EncodeContentPretty C content =
     (let descriptor = NormalizePayloadDescriptor (unicode_lower C) (Descriptor content)
      in EncodePayloadPretty C (Value content) (PayloadType descriptor))"

definition DecodeContent :: "codecs \<Rightarrow> string \<Rightarrow> PayloadDescriptor \<Rightarrow> Content result" where
  "DecodeContent C data descriptor =
     (let resolved = NormalizePayloadDescriptor (unicode_lower C) descriptor in
      case DecodePayload C data (PayloadType resolved) of
        Err e \<Rightarrow> Err e
      | Ok v \<Rightarrow> Ok \<lparr>Value = v, Descriptor = resolved\<rparr>)"

section \<open>Media types are normalised once\<close>

lemma to_lower_Nil [simp]: "to_lower ul [] = []"
  by (simp add: to_lower_def)

lemma token_char_ascii: "token_char c \<Longrightarrow> ascii_byte c"
  by (simp add: token_char_def ascii_byte_def)

lemma tspecials_letters: "c \<in> set tspecials \<Longrightarrow> \<not> letter_byte c"
  by (auto simp: tspecials_def letter_byte_def byte_def)

lemma token_char_lower [simp]: "token_char (lower_byte c) \<longleftrightarrow> token_char c"
proof -
  have "lower_byte c \<in> set tspecials \<longleftrightarrow> c \<in> set tspecials"
    using lower_byte_other[of c c] lower_byte_other[of "lower_byte c" c] tspecials_letters[of c]
      tspecials_letters[of "lower_byte c"] by auto
  then show ?thesis by (auto simp: token_char_def byte_lower)
qed

lemma check_media_type_cases:
  "check_media_type s \<longleftrightarrow>
     (\<exists>t u. t \<noteq> [] \<and> list_all token_char t \<and>
        (s = t \<or> (s = t @ CHR ''/'' # u \<and> u \<noteq> [] \<and> list_all token_char u)))" (is "_ \<longleftrightarrow> ?rhs")
proof
  assume c: "check_media_type s"
  obtain t r where tr: "takeWhile token_char s = t" "dropWhile token_char s = r" by blast
  have s: "s = t @ r" using tr by (metis takeWhile_dropWhile_id)
  have t: "list_all token_char t" "t \<noteq> []"
    using c tr by (auto simp: check_media_type_def consume_token_def list_all_iff dest: set_takeWhileD)
  show ?rhs
  proof (cases "r = []")
    case True
    then show ?thesis using s t by auto
  next
    case False
    then obtain u where u: "r = CHR ''/'' # u" "takeWhile token_char u \<noteq> []" "dropWhile token_char u = []"
      using c t tr by (auto simp: check_media_type_def consume_token_def prefix_def split: if_splits)
    then have "list_all token_char u" by (simp add: list_all_iff)
    moreover have "u \<noteq> []" using u(2) by auto
    ultimately show ?thesis using s t u(1) by auto
  qed
next
  assume ?rhs
  then obtain t u where t: "t \<noteq> []" "list_all token_char t"
    and s: "s = t \<or> (s = t @ CHR ''/'' # u \<and> u \<noteq> [] \<and> list_all token_char u)" by blast
  have sl: "\<not> token_char (CHR ''/'')" by (simp add: token_char_def tspecials_def)
  have all: "takeWhile token_char x = x" "dropWhile token_char x = []" if "list_all token_char x" for x
    using that by (simp_all add: list_all_iff takeWhile_eq_all_conv)
  from s show "check_media_type s"
  proof
    assume "s = t"
    then show ?thesis
      using t(1) by (simp add: check_media_type_def consume_token_def all(1)[OF t(2)] all(2)[OF t(2)])
  next
    assume u: "s = t @ CHR ''/'' # u \<and> u \<noteq> [] \<and> list_all token_char u"
    then have a: "takeWhile token_char u = u" "dropWhile token_char u = []" using all by blast+
    have "takeWhile token_char s = t" "dropWhile token_char s = CHR ''/'' # u"
      using u t sl by (simp_all add: list_all_iff)
    then show ?thesis using u t(1) by (simp add: check_media_type_def consume_token_def a)
  qed
qed

lemma check_media_type_lower: "check_media_type s \<Longrightarrow> check_media_type (map lower_byte s)"
proof -
  assume "check_media_type s"
  then obtain t u where t: "t \<noteq> []" "list_all token_char t"
    and s: "s = t \<or> (s = t @ CHR ''/'' # u \<and> u \<noteq> [] \<and> list_all token_char u)"
    unfolding check_media_type_cases by blast
  have "lower_byte (CHR ''/'') = CHR ''/''" by code_simp
  then show ?thesis
    unfolding check_media_type_cases using t s
    by (intro exI[of _ "map lower_byte t"] exI[of _ "map lower_byte u"]) (auto simp: list_all_iff)
qed

lemma check_media_type_bytes:
  "check_media_type s \<Longrightarrow> c \<in> set s \<Longrightarrow> ascii_byte c \<and> c \<noteq> CHR '';''"
proof -
  have "\<not> token_char (CHR '';'')" by (simp add: token_char_def tspecials_def)
  then show "check_media_type s \<Longrightarrow> c \<in> set s \<Longrightarrow> ascii_byte c \<and> c \<noteq> CHR '';''"
    by (auto simp: check_media_type_cases list_all_iff token_char_ascii) (auto simp: ascii_byte_def byte_def)
qed

lemma parse_plain_media_type:
  assumes "check_media_type s" and "map lower_byte s = s" and "trim_space s = s"
  shows "parse_media_type ul s = Some s"
proof -
  have "takeWhile (\<lambda>c. c \<noteq> CHR '';'') s = s"
    using check_media_type_bytes[OF assms(1)] by (simp add: takeWhile_eq_all_conv)
  moreover have "list_all ascii_byte s"
    using check_media_type_bytes[OF assms(1)] by (simp add: list_all_iff)
  ultimately show ?thesis
    using assms by (simp only: parse_media_type_def to_lower_def Let_def) simp
qed

definition media_name :: "string \<Rightarrow> bool" where
  "media_name s = (plain_name s \<and> check_media_type s)"

lemma normalize_media_name: "media_name s \<Longrightarrow> normalizeContentTypeOrShortname ul s = s"
proof -
  assume m: "media_name s"
  then have "parse_media_type ul s = Some s"
    by (intro parse_plain_media_type) (auto simp: media_name_def plain_name_def)
  then show ?thesis using m by (simp add: normalizeContentTypeOrShortname_def media_name_def Let_def)
qed

lemma normalize_content_type_idem:
  assumes ul: "lower_laws ul"
  shows "normalizeContentTypeOrShortname ul (normalizeContentTypeOrShortname ul v)
       = normalizeContentTypeOrShortname ul v"
proof -
  let ?t = "to_lower ul (trim_space v)"
  have t: "to_lower ul (trim_space ?t) = ?t" using ul by (simp add: lower_laws_trim lower_laws_idem)
  show ?thesis
  proof (cases "parse_media_type ul ?t")
    case None
    then show ?thesis using t by (simp add: normalizeContentTypeOrShortname_def Let_def)
  next
    case (Some p)
    then have c: "check_media_type p" and p: "trim_space p = p"
      by (auto simp: parse_media_type_def Let_def split: if_splits)
    have a: "list_all ascii_byte p" using check_media_type_bytes[OF c] by (simp add: list_all_iff)
    have "media_name (map lower_byte p)"
      using a check_media_type_lower[OF c] trim_space_lower[OF p]
      by (simp add: media_name_def plain_name_def list_all_iff comp_def)
    then have m: "normalizeContentTypeOrShortname ul (map lower_byte p) = map lower_byte p"
      by (rule normalize_media_name)
    have "to_lower ul p = map lower_byte p" using a by (simp add: to_lower_def)
    then have "?t \<noteq> [] \<Longrightarrow> normalizeContentTypeOrShortname ul v = map lower_byte p"
      using Some p by (simp add: normalizeContentTypeOrShortname_def Let_def)
    moreover have "?t = [] \<Longrightarrow> normalizeContentTypeOrShortname ul v = []"
      by (simp add: normalizeContentTypeOrShortname_def Let_def)
    moreover have "normalizeContentTypeOrShortname ul [] = []"
      by (simp add: normalizeContentTypeOrShortname_def to_lower_def)
    ultimately show ?thesis using m by (cases "?t = []") simp_all
  qed
qed

lemma normalize_extension_idem:
  assumes ul: "lower_laws ul"
  shows "normalizePayloadExtension ul (normalizePayloadExtension ul v) = normalizePayloadExtension ul v"
proof -
  let ?t = "to_lower ul (trim_space v)"
  have t: "trim_space ?t = ?t" "to_lower ul ?t = ?t" using ul by (simp_all add: lower_laws_trim lower_laws_idem)
  have dot: "trim_space (CHR ''.'' # s) = CHR ''.'' # s" if "trim_space s = s" for s
  proof (cases "s = []")
    case False
    have "hd w \<noteq> CHR ''.''" if "w \<in> set space_encodings" for w
      using that visible_bytes(2) unfolding visible_byte_def by blast
    then have "trailing_space (CHR ''.'' # s) = None"
      using that unfolding trim_space_id_iff trailing_space_None suffix_Cons by (metis list.sel(1))
    then show ?thesis by (intro trim_space_id) (auto simp: leading_space_visible)
  qed (simp add: trim_space_visible)
  have "lower_byte (CHR ''.'') = CHR ''.''" "ascii_byte (CHR ''.'')" by code_simp+
  then have "to_lower ul (CHR ''.'' # ?t) = CHR ''.'' # ?t" using lower_laws_Cons[OF ul] t by simp
  then show ?thesis using t dot[of ?t] by (simp add: normalizePayloadExtension_def Let_def)
qed

section \<open>Descriptors agree with the codec table\<close>

lemma codec_table:
  "list_all (\<lambda>c. plain_name (CodecType c) \<and> CodecType c \<noteq> [] \<and> CodecType c \<noteq> PayloadTypeBinary
     \<and> payloadCodecByType (CodecType c) = Some c \<and> media_name (CodecMediaType c)
     \<and> plain_name (CodecExtension c) \<and> prefix ''.'' (CodecExtension c)) payloadCodecs"
  by code_simp

lemma codec_entry:
  assumes "c \<in> set payloadCodecs"
  shows "NormalizePayloadType ul (CodecType c) = CodecType c"
    and "PayloadCodecForType ul (CodecType c) = Ok c"
    and "normalizeContentTypeOrShortname ul (CodecMediaType c) = CodecMediaType c"
    and "normalizePayloadExtension ul (CodecExtension c) = CodecExtension c"
    and "CodecExtension c \<noteq> []"
proof -
  have c: "plain_name (CodecType c)" "CodecType c \<noteq> []" "CodecType c \<noteq> PayloadTypeBinary"
    "payloadCodecByType (CodecType c) = Some c" "media_name (CodecMediaType c)"
    "plain_name (CodecExtension c)" "prefix ''.'' (CodecExtension c)"
    using codec_table assms by (auto simp: list_all_iff)
  show n: "NormalizePayloadType ul (CodecType c) = CodecType c"
    using c by (simp add: NormalizePayloadType_def Let_def)
  show "PayloadCodecForType ul (CodecType c) = Ok c"
    using c n by (simp add: PayloadCodecForType_def ValidatePayloadType_def Let_def)
  show "normalizeContentTypeOrShortname ul (CodecMediaType c) = CodecMediaType c"
    using c by (simp add: normalize_media_name)
  show "CodecExtension c \<noteq> []" using c(7) by auto
  then show "normalizePayloadExtension ul (CodecExtension c) = CodecExtension c"
    using c by (simp add: normalizePayloadExtension_def Let_def)
qed

lemma codec_lookup:
  "PayloadCodecForType ul t = Ok c \<Longrightarrow> c \<in> set payloadCodecs \<and> CodecType c = NormalizePayloadType ul t"
proof -
  have "buildPayloadCodecByType cs s = Some c \<Longrightarrow> c \<in> set cs \<and> CodecType c = s" for cs s
    by (induction cs) (auto split: option.splits if_splits)
  then show "PayloadCodecForType ul t = Ok c \<Longrightarrow> c \<in> set payloadCodecs \<and> CodecType c = NormalizePayloadType ul t"
    by (auto simp: PayloadCodecForType_def ValidatePayloadType_def payloadCodecByType_def Let_def
        split: option.splits if_splits)
qed

lemma canonical_descriptor:
  "c \<in> set payloadCodecs \<Longrightarrow>
   canonicalDescriptor ul (CodecType c) = descriptor_of (CodecType c) (CodecMediaType c) (CodecExtension c)"
  by (simp add: canonicalDescriptor_def codec_entry PayloadMediaType_def PayloadExtension_def value_or_empty_def)

lemma descriptor_of_simps [simp]:
  "PayloadType (descriptor_of t m e) = t" "MediaType (descriptor_of t m e) = m"
  "Extension (descriptor_of t m e) = e"
  by (simp_all add: descriptor_of_def)

text \<open>Every row of the three tables names the type of a codec, and the tables agree with the codecs.\<close>

abbreviation codec_types :: "string list" where "codec_types \<equiv> map CodecType payloadCodecs"

lemma table_types:
  "list_all (\<lambda>r. snd r \<in> set codec_types) shortname_cases"
  "list_all (\<lambda>r. fst (snd r) \<in> set codec_types \<and> snd (snd r) \<noteq> []
     \<and> map_option fst (map_of extension_cases (snd (snd r))) = Some (fst (snd r))
     \<and> plain_name (snd (snd r)) \<and> prefix ''.'' (snd (snd r))) media_type_cases"
  "list_all (\<lambda>r. media_name (snd (snd r)) \<and> snd (snd r) \<noteq> [] \<and> map_of shortname_cases (snd (snd r)) = None
     \<and> map_option fst (map_of media_type_cases (snd (snd r))) = Some (fst (snd r))) extension_cases"
  by code_simp+

lemma codec_rows:
  "list_all (\<lambda>c. CodecMediaType c \<noteq> [] \<and> map_of shortname_cases (CodecMediaType c) = None
     \<and> map_of media_type_cases (CodecMediaType c) = Some (CodecType c, CodecExtension c)
     \<and> map_of extension_cases (CodecExtension c) = Some (CodecType c, CodecMediaType c)) payloadCodecs"
  by code_simp

lemma content_type_of_codec:
  "c \<in> set payloadCodecs \<Longrightarrow>
   PayloadDescriptorForContentType ul (CodecMediaType c) =
     Some (descriptor_of (CodecType c) (CodecMediaType c) (CodecExtension c))"
  using codec_rows by (auto simp: PayloadDescriptorForContentType_def Let_def codec_entry list_all_iff)

lemma extension_of_codec:
  "c \<in> set payloadCodecs \<Longrightarrow>
   PayloadDescriptorForExtension ul (CodecExtension c) =
     Some (descriptor_of (CodecType c) (CodecMediaType c) (CodecExtension c))"
  using codec_rows by (auto simp: PayloadDescriptorForExtension_def Let_def codec_entry list_all_iff)

lemma row_extension:
  assumes "plain_name e" "prefix ''.'' e" "map_option fst (map_of extension_cases e) = Some t"
  shows "normalizePayloadExtension ul e = e" "e \<noteq> []"
    "map_option PayloadType (PayloadDescriptorForExtension ul e) = Some t"
    "resolveConsistentExtension ul e t = e"
proof -
  show e: "e \<noteq> []" using assms(2) by auto
  then show n: "normalizePayloadExtension ul e = e"
    using assms by (simp add: normalizePayloadExtension_def Let_def)
  show "map_option PayloadType (PayloadDescriptorForExtension ul e) = Some t"
    using assms(3) n e by (auto simp: PayloadDescriptorForExtension_def Let_def)
  then show "resolveConsistentExtension ul e t = e"
    by (auto simp: resolveConsistentExtension_def split: option.splits)
qed

text \<open>A descriptor found for a content type is found again for its own media type, and its
  extension belongs to its type.\<close>

lemma content_type_fixed:
  assumes ul: "lower_laws ul" and x: "PayloadDescriptorForContentType ul v = Some x"
  shows "PayloadDescriptorForContentType ul (MediaType x) = Some x"
    and "PayloadType x \<in> set codec_types"
    and "normalizePayloadExtension ul (Extension x) = Extension x"
    and "Extension x \<noteq> []"
    and "resolveConsistentExtension ul (Extension x) (PayloadType x) = Extension x"
proof -
  let ?n = "normalizeContentTypeOrShortname ul v"
  have again: "PayloadDescriptorForContentType ul ?n = PayloadDescriptorForContentType ul v"
    by (simp add: PayloadDescriptorForContentType_def normalize_content_type_idem[OF ul])
  have suffixes: "plain_name ''.json'' \<and> prefix ''.'' ''.json'' \<and> map_option fst (map_of extension_cases ''.json'') = Some PayloadTypeJSON"
    "plain_name ''.xml'' \<and> prefix ''.'' ''.xml'' \<and> map_option fst (map_of extension_cases ''.xml'') = Some PayloadTypeXML"
    "PayloadTypeJSON \<in> set codec_types" "PayloadTypeXML \<in> set codec_types" by code_simp+
  consider (canonical) c where "c \<in> set payloadCodecs" "x = canonicalDescriptor ul (CodecType c)"
    | (row) "MediaType x = ?n" "PayloadType x \<in> set codec_types" "plain_name (Extension x)"
      "prefix ''.'' (Extension x)" "map_option fst (map_of extension_cases (Extension x)) = Some (PayloadType x)"
  proof (cases "map_of shortname_cases ?n")
    case (Some t)
    then have "t \<in> set codec_types" using table_types(1) by (auto simp: list_all_iff dest!: map_of_SomeD)
    then obtain c where "c \<in> set payloadCodecs" "t = CodecType c" by auto
    then show ?thesis
      using that(1)[of c] x Some by (simp add: PayloadDescriptorForContentType_def Let_def split: if_splits)
  next
    case None
    then consider t e where "map_of media_type_cases ?n = Some (t, e)" "x = descriptor_of t ?n e"
      | "x = descriptor_of PayloadTypeJSON ?n ''.json''" | "x = descriptor_of PayloadTypeXML ?n ''.xml''"
      using x by (auto simp: PayloadDescriptorForContentType_def Let_def split: if_splits option.splits)
    then show ?thesis
    proof cases
      case (1 t e)
      then have "(?n, t, e) \<in> set media_type_cases" by (simp add: map_of_SomeD)
      then show ?thesis using 1 that(2) table_types(2) by (auto simp: list_all_iff)
    qed (use that(2) suffixes in simp_all)
  qed
  then have "PayloadDescriptorForContentType ul (MediaType x) = Some x \<and> PayloadType x \<in> set codec_types
    \<and> normalizePayloadExtension ul (Extension x) = Extension x \<and> Extension x \<noteq> []
    \<and> resolveConsistentExtension ul (Extension x) (PayloadType x) = Extension x"
  proof cases
    case (canonical c)
    then show ?thesis
      by (simp add: canonical_descriptor content_type_of_codec codec_entry
          resolveConsistentExtension_def extension_of_codec)
  next
    case row
    then show ?thesis using x again row_extension[OF row(3-5)] by simp
  qed
  then show "PayloadDescriptorForContentType ul (MediaType x) = Some x"
    and "PayloadType x \<in> set codec_types"
    and "normalizePayloadExtension ul (Extension x) = Extension x"
    and "Extension x \<noteq> []"
    and "resolveConsistentExtension ul (Extension x) (PayloadType x) = Extension x"
    by blast+
qed

lemma resolve_fixed:
  assumes "normalizePayloadExtension ul e = e" "e \<noteq> []"
  shows "resolveConsistentExtension ul (resolveConsistentExtension ul e t) (NormalizePayloadType ul t)
           = resolveConsistentExtension ul e t \<or> NormalizePayloadType ul t \<noteq> t"
    and "normalizePayloadExtension ul (resolveConsistentExtension ul e t) = resolveConsistentExtension ul e t"
    and "resolveConsistentExtension ul e t \<noteq> []"
proof -
  have "PayloadExtension ul t = Ok x \<Longrightarrow> \<exists>c\<in>set payloadCodecs. x = CodecExtension c \<and> CodecType c = NormalizePayloadType ul t" for x
    by (auto simp: PayloadExtension_def dest!: codec_lookup split: result.splits)
  then have "resolveConsistentExtension ul e t = e \<or> (\<exists>c\<in>set payloadCodecs.
      resolveConsistentExtension ul e t = CodecExtension c \<and> CodecType c = NormalizePayloadType ul t)"
    by (cases "PayloadDescriptorForExtension ul e"; cases "PayloadExtension ul t")
      (auto simp: resolveConsistentExtension_def)
  then consider "resolveConsistentExtension ul e t = e"
    | c where "c \<in> set payloadCodecs" "resolveConsistentExtension ul e t = CodecExtension c"
      "CodecType c = NormalizePayloadType ul t"
    by blast
  then have "(resolveConsistentExtension ul (resolveConsistentExtension ul e t) (NormalizePayloadType ul t)
           = resolveConsistentExtension ul e t \<or> NormalizePayloadType ul t \<noteq> t)
    \<and> normalizePayloadExtension ul (resolveConsistentExtension ul e t) = resolveConsistentExtension ul e t
    \<and> resolveConsistentExtension ul e t \<noteq> []"
  proof cases
    case 1
    then show ?thesis using assms by auto
  next
    case (2 c)
    then have "PayloadDescriptorForExtension ul (CodecExtension c) =
        Some (descriptor_of (NormalizePayloadType ul t) (CodecMediaType c) (CodecExtension c))"
      using extension_of_codec[of c ul] by simp
    then have "resolveConsistentExtension ul (CodecExtension c) (NormalizePayloadType ul t) = CodecExtension c"
      by (simp add: resolveConsistentExtension_def)
    then show ?thesis using 2 by (simp add: codec_entry)
  qed
  then show "resolveConsistentExtension ul (resolveConsistentExtension ul e t) (NormalizePayloadType ul t)
           = resolveConsistentExtension ul e t \<or> NormalizePayloadType ul t \<noteq> t"
    and "normalizePayloadExtension ul (resolveConsistentExtension ul e t) = resolveConsistentExtension ul e t"
    and "resolveConsistentExtension ul e t \<noteq> []"
    by blast+
qed

lemma NormalizePayloadType_idem:
  assumes "lower_laws ul"
  shows "NormalizePayloadType ul (NormalizePayloadType ul v) = NormalizePayloadType ul v"
proof -
  have "plain_name PayloadTypeJSON" "plain_name PayloadTypeOctetStream" by code_simp+
  moreover have "to_lower ul (trim_space (to_lower ul (trim_space v))) = to_lower ul (trim_space v)"
    using assms by (simp add: lower_laws_trim lower_laws_idem)
  ultimately show ?thesis by (simp add: NormalizePayloadType_def Let_def)
qed

lemma extension_blank: "PayloadDescriptorForExtension ul [] = None"
  by (simp add: PayloadDescriptorForExtension_def normalizePayloadExtension_def)

lemma content_type_blank: "trim_space v = [] \<Longrightarrow> PayloadDescriptorForContentType ul v = None"
  by (simp add: PayloadDescriptorForContentType_def normalizeContentTypeOrShortname_def)

text \<open>The descriptors that normalisation leaves as they are: the media type is recognised and names
  the type and media type, and the extension belongs to the type or to none.\<close>

lemma descriptor_fixed:
  assumes x: "PayloadDescriptorForContentType ul (MediaType d) = Some x"
    and d: "PayloadType d = PayloadType x" "MediaType d = MediaType x"
    and e: "normalizePayloadExtension ul (Extension d) = Extension d" "Extension d \<noteq> []"
      "resolveConsistentExtension ul (Extension d) (PayloadType d) = Extension d"
  shows "NormalizePayloadDescriptor ul d = d"
proof -
  have "trim_space (MediaType d) \<noteq> []" using x content_type_blank by fastforce
  then have "NormalizePayloadDescriptor ul d = x\<lparr>Extension := Extension d\<rparr>"
    using assms by (simp add: NormalizePayloadDescriptor_def Let_def)
  then show ?thesis using d by simp
qed

lemma unsupported_fixed:
  assumes ul: "lower_laws ul" and t: "NormalizePayloadType ul t = t" "t \<noteq> []" "trim_space t = t"
    and err: "PayloadCodecForType ul t = Err f"
    and e: "normalizePayloadExtension ul e = e"
  shows "NormalizePayloadDescriptor ul (descriptor_of t [] e) = descriptor_of t [] e"
proof -
  have "resolveConsistentExtension ul e t = e"
    using err by (auto simp: resolveConsistentExtension_def PayloadExtension_def split: option.splits)
  then show ?thesis
    using t err e by (simp add: NormalizePayloadDescriptor_def Let_def content_type_blank
        PayloadMediaType_def PayloadExtension_def value_or_empty_def)
qed

lemma NormalizePayloadType_shape:
  assumes "lower_laws ul" "trim_space v \<noteq> []"
  shows "NormalizePayloadType ul v \<noteq> []" "trim_space (NormalizePayloadType ul v) = NormalizePayloadType ul v"
proof -
  have "plain_name PayloadTypeJSON" "plain_name PayloadTypeOctetStream" by code_simp+
  then show "NormalizePayloadType ul v \<noteq> []" "trim_space (NormalizePayloadType ul v) = NormalizePayloadType ul v"
    using assms by (simp_all add: NormalizePayloadType_def Let_def lower_laws_trim)
qed

lemma typed_descriptor_fixed:
  assumes ul: "lower_laws ul" and v: "trim_space v \<noteq> []" and e: "normalizePayloadExtension ul e = e"
  defines "t \<equiv> NormalizePayloadType ul v"
  defines "d \<equiv> descriptor_of t (value_or_empty (PayloadMediaType ul t))
     (if e \<noteq> [] then resolveConsistentExtension ul e t else value_or_empty (PayloadExtension ul t))"
  shows "NormalizePayloadDescriptor ul d = d"
proof -
  have t: "NormalizePayloadType ul t = t" unfolding t_def using ul by (rule NormalizePayloadType_idem)
  show ?thesis
  proof (cases "PayloadCodecForType ul t")
    case (Ok c)
    then have c: "c \<in> set payloadCodecs" "CodecType c = t" using codec_lookup t by fastforce+
    have m: "MediaType d = CodecMediaType c" using Ok by (simp add: d_def PayloadMediaType_def value_or_empty_def)
    have pt: "PayloadType d = t" by (simp add: d_def)
    have x: "Extension d = (if e \<noteq> [] then resolveConsistentExtension ul e t else CodecExtension c)"
      using Ok by (simp add: d_def PayloadExtension_def value_or_empty_def)
    have "resolveConsistentExtension ul (CodecExtension c) t = CodecExtension c"
      using extension_of_codec[OF c(1), of ul] c(2) by (simp add: resolveConsistentExtension_def)
    then show ?thesis
      using content_type_of_codec[OF c(1), of ul] c resolve_fixed[OF e, of t] t codec_entry(4)[OF c(1), of ul] codec_entry(5)[OF c(1)]
      by (intro descriptor_fixed) (auto simp: m x pt)
  next
    case (Err f)
    then have d: "d = descriptor_of t [] (if e \<noteq> [] then resolveConsistentExtension ul e t else [])"
      by (simp add: d_def PayloadMediaType_def PayloadExtension_def value_or_empty_def)
    have "normalizePayloadExtension ul (if e \<noteq> [] then resolveConsistentExtension ul e t else []) =
            (if e \<noteq> [] then resolveConsistentExtension ul e t else [])"
      using e resolve_fixed(2)[OF e, of t] by (cases "e = []") simp_all
    moreover have "t \<noteq> []" "trim_space t = t"
      unfolding t_def using ul v by (rule NormalizePayloadType_shape)+
    ultimately show ?thesis unfolding d using Err ul t by (intro unsupported_fixed) auto
  qed
qed

lemma octet_codec:
  obtains c where "c \<in> set payloadCodecs" "CodecType c = PayloadTypeOctetStream"
    "CodecMediaType c = defaultOctetStreamMediaType" "CodecExtension c = ''.bin''"
proof (rule that[of "last payloadCodecs"])
  show "last payloadCodecs \<in> set payloadCodecs" by code_simp
qed code_simp+

lemma octet_descriptor_fixed:
  assumes "normalizePayloadExtension ul e = e" "e \<noteq> []"
    "resolveConsistentExtension ul e PayloadTypeOctetStream = e"
  shows "NormalizePayloadDescriptor ul (descriptor_of PayloadTypeOctetStream defaultOctetStreamMediaType e)
       = descriptor_of PayloadTypeOctetStream defaultOctetStreamMediaType e"
proof -
  obtain c where c: "c \<in> set payloadCodecs" "CodecType c = PayloadTypeOctetStream"
    "CodecMediaType c = defaultOctetStreamMediaType" by (rule octet_codec)
  show ?thesis using assms content_type_of_codec[OF c(1), of ul] c by (intro descriptor_fixed) auto
qed

lemma octet_default_fixed: "NormalizePayloadDescriptor ul DefaultOctetStreamDescriptor = DefaultOctetStreamDescriptor"
proof -
  have b: "plain_name ''.bin''" "prefix ''.'' ''.bin''"
    "map_option fst (map_of extension_cases ''.bin'') = Some PayloadTypeOctetStream" by code_simp+
  show ?thesis
    unfolding DefaultOctetStreamDescriptor_def using row_extension(1,4)[OF b, of ul]
    by (intro octet_descriptor_fixed) auto
qed

lemma extension_descriptor_fixed:
  assumes y: "PayloadDescriptorForExtension ul e = Some y" and e: "normalizePayloadExtension ul e = e"
  shows "NormalizePayloadDescriptor ul y = y"
proof -
  obtain t m where tm: "map_of extension_cases e = Some (t, m)" and yd: "y = descriptor_of t m e" and ne: "e \<noteq> []"
    using y e by (auto simp: PayloadDescriptorForExtension_def Let_def split: if_splits option.splits)
  then have "(e, t, m) \<in> set extension_cases" by (simp add: map_of_SomeD)
  then have m: "media_name m" "m \<noteq> []" "map_of shortname_cases m = None"
    "map_option fst (map_of media_type_cases m) = Some t"
    using table_types(3) by (auto simp: list_all_iff)
  then obtain x where "map_of media_type_cases m = Some (t, x)" by auto
  then have "PayloadDescriptorForContentType ul m = Some (descriptor_of t m x)"
    using m by (simp add: PayloadDescriptorForContentType_def Let_def normalize_media_name)
  moreover have "resolveConsistentExtension ul e t = e"
    using y yd by (simp add: resolveConsistentExtension_def)
  ultimately show ?thesis unfolding yd using e ne by (intro descriptor_fixed) auto
qed

lemma media_descriptor_fixed:
  assumes ul: "lower_laws ul" and x: "PayloadDescriptorForContentType ul v = Some x"
    and e: "normalizePayloadExtension ul e = e"
  defines "d \<equiv> if e \<noteq> [] then x\<lparr>Extension := resolveConsistentExtension ul e (PayloadType x)\<rparr> else x"
  shows "NormalizePayloadDescriptor ul d = d"
proof -
  note f = content_type_fixed[OF ul x]
  obtain c where "c \<in> set payloadCodecs" "PayloadType x = CodecType c" using f(2) by auto
  then have "NormalizePayloadType ul (PayloadType x) = PayloadType x" by (simp add: codec_entry)
  then show ?thesis
    using f resolve_fixed[OF e, of "PayloadType x"] unfolding d_def
    by (cases "e = []") (auto intro!: descriptor_fixed)
qed

section \<open>Theorems\<close>

text \<open>Normalising a payload descriptor twice is normalising it once: the type, the media type
  and the extension it returns agree.  Excluded is a descriptor without payload type whose media
  type is given but not recognised and whose extension is a known one.\<close>

theorem NormalizePayloadDescriptor_idempotent:
  assumes "lower_laws ul"
    and "trim_space (PayloadType d) \<noteq> [] \<or> trim_space (MediaType d) = []
      \<or> PayloadDescriptorForContentType ul (MediaType d) \<noteq> None
      \<or> PayloadDescriptorForExtension ul (Extension d) = None"
  shows "NormalizePayloadDescriptor ul (NormalizePayloadDescriptor ul d) = NormalizePayloadDescriptor ul d"
proof -
  let ?e = "normalizePayloadExtension ul (Extension d)" and ?r = "NormalizePayloadDescriptor ul d"
  have e: "normalizePayloadExtension ul ?e = ?e" using assms(1) by (rule normalize_extension_idem)
  have known: "PayloadDescriptorForExtension ul ?e = PayloadDescriptorForExtension ul (Extension d)"
    by (simp add: PayloadDescriptorForExtension_def e)
  have none: "?e = [] \<Longrightarrow> PayloadDescriptorForExtension ul (Extension d) = None"
    by (simp add: PayloadDescriptorForExtension_def)
  consider (ext) y where "PayloadDescriptorForExtension ul ?e = Some y" "?r = y"
    | (media) x where "PayloadDescriptorForContentType ul (MediaType d) = Some x"
        "?r = (if ?e \<noteq> [] then x\<lparr>Extension := resolveConsistentExtension ul ?e (PayloadType x)\<rparr> else x)"
    | (typed) "trim_space (PayloadType d) \<noteq> []"
        "?r = (let t = NormalizePayloadType ul (PayloadType d) in
           descriptor_of t (value_or_empty (PayloadMediaType ul t))
             (if ?e \<noteq> [] then resolveConsistentExtension ul ?e t else value_or_empty (PayloadExtension ul t)))"
    | (unknown) "PayloadDescriptorForExtension ul ?e = None" "?e \<noteq> []"
        "?r = descriptor_of PayloadTypeOctetStream defaultOctetStreamMediaType ?e"
    | (default) "?r = DefaultOctetStreamDescriptor"
    using assms(2) none
    by (cases "PayloadDescriptorForExtension ul (Extension d)"; cases "PayloadDescriptorForContentType ul (MediaType d)";
        cases "trim_space (PayloadType d) = []"; cases "trim_space (MediaType d) = []"; cases "?e = []")
      (simp_all add: NormalizePayloadDescriptor_def Let_def known none content_type_blank extension_blank)
  then show ?thesis
  proof cases
    case (ext y)
    then show ?thesis using extension_descriptor_fixed[OF _ e] known by simp
  next
    case (media x)
    then show ?thesis using media_descriptor_fixed[OF assms(1) media(1) e] by simp
  next
    case typed
    then show ?thesis using typed_descriptor_fixed[OF assms(1) typed(1) e] by (simp add: Let_def)
  next
    case unknown
    then show ?thesis using octet_descriptor_fixed[of ul ?e] e by (simp add: resolveConsistentExtension_def)
  next
    case default
    then show ?thesis using octet_default_fixed[of ul] by simp
  qed
qed

theorem NormalizePayloadDescriptor_idempotent_witness:
  "NormalizePayloadDescriptor (map lower_byte) (descriptor_of [] ''Text/HTML; charset=utf-8'' ''htm'')
     = descriptor_of PayloadTypeText ''text/html'' ''.htm''
   \<and> NormalizePayloadDescriptor (map lower_byte) (descriptor_of PayloadTypeText ''text/html'' ''.htm'')
     = descriptor_of PayloadTypeText ''text/html'' ''.htm''"
proof -
  let ?d = "descriptor_of [] ''Text/HTML; charset=utf-8'' ''htm''"
  have n: "NormalizePayloadDescriptor (map lower_byte) ?d = descriptor_of PayloadTypeText ''text/html'' ''.htm''"
    by code_simp
  have "PayloadDescriptorForContentType (map lower_byte) (MediaType ?d) \<noteq> None" by code_simp
  then show ?thesis using NormalizePayloadDescriptor_idempotent[OF lower_laws_example, of ?d] n by simp
qed

text \<open>The excluded case: an unrecognised media type with the extension .json and no payload
  type gives an octet-stream descriptor that keeps the extension .json, and normalising that again
  gives another descriptor.\<close>

theorem descriptor_inconsistent_extension:
  "NormalizePayloadDescriptor ul (descriptor_of [] ''application/foo'' ''.json'')
     = descriptor_of PayloadTypeOctetStream ''application/octet-stream'' ''.json''
   \<and> NormalizePayloadDescriptor ul (descriptor_of PayloadTypeOctetStream ''application/octet-stream'' ''.json'')
     = descriptor_of PayloadTypeOctetStream ''application/octet-stream'' ''.bin''"
proof -
  have foo: "media_name ''application/foo''" "map_of shortname_cases ''application/foo'' = None"
    "map_of media_type_cases ''application/foo'' = None" "\<not> suffix ''+json'' ''application/foo''"
    "\<not> suffix ''+xml'' ''application/foo''" "trim_space ''application/foo'' = ''application/foo''" by code_simp+
  have none: "PayloadDescriptorForContentType ul ''application/foo'' = None"
    using foo by (simp add: PayloadDescriptorForContentType_def Let_def normalize_media_name)
  have js: "plain_name ''.json''" "prefix ''.'' ''.json''"
    "map_option fst (map_of extension_cases ''.json'') = Some PayloadTypeJSON" by code_simp+
  note j = row_extension(1)[OF js, of ul] row_extension(3)[OF js, of ul]
  obtain c where c: "c \<in> set payloadCodecs" "CodecType c = PayloadTypeOctetStream"
    "CodecMediaType c = defaultOctetStreamMediaType" "CodecExtension c = ''.bin''" by (rule octet_codec)
  have o: "PayloadDescriptorForContentType ul ''application/octet-stream'' =
      Some (descriptor_of PayloadTypeOctetStream ''application/octet-stream'' ''.bin'')"
    using content_type_of_codec[OF c(1), of ul] c by (simp add: defaultOctetStreamMediaType_def)
  have x: "PayloadExtension ul PayloadTypeOctetStream = Ok ''.bin''"
    using codec_entry(2)[OF c(1), of ul] c by (simp add: PayloadExtension_def)
  have r: "resolveConsistentExtension ul ''.json'' PayloadTypeOctetStream = ''.bin''"
    using j(2) x by (auto simp: resolveConsistentExtension_def)
  have "trim_space ''application/octet-stream'' = ''application/octet-stream''" by code_simp
  then show ?thesis
    using foo(6) none j(1) o r
    by (simp add: NormalizePayloadDescriptor_def Let_def defaultOctetStreamMediaType_def descriptor_of_def)
qed

text \<open>Text and binary payloads are read back as they were written: for every text type a
  string, and for every binary type the bytes.\<close>

theorem unstructured_payload_roundtrip:
  assumes "IsTextPayloadType (unicode_lower C) t \<and> v = VString s
         \<or> IsBinaryPayloadType (unicode_lower C) t \<and> v = VBinary s"
  shows "EncodePayload C v t = Ok s \<and> DecodePayload C s t = Ok v"
proof -
  obtain c where c: "PayloadCodecForType (unicode_lower C) t = Ok c"
    using assms by (auto simp: IsTextPayloadType_def IsBinaryPayloadType_def split: result.splits)
  have "list_all (\<lambda>c. (Text c \<longrightarrow> \<not> Structured c) \<and> (Binary c \<longrightarrow> \<not> Structured c \<and> \<not> Text c)) payloadCodecs"
    by code_simp
  then have "(Text c \<longrightarrow> \<not> Structured c) \<and> (Binary c \<longrightarrow> \<not> Structured c \<and> \<not> Text c)"
    using codec_lookup[OF c] by (auto simp: list_all_iff)
  then show ?thesis
    using assms c
    by (auto simp: EncodePayload_def encodePayload_def DecodePayload_def IsTextPayloadType_def
        IsBinaryPayloadType_def encodeTextPayload_def encodeBinaryPayload_def BinaryBytes_def)
qed

theorem unstructured_payload_roundtrip_witness:
  "\<exists>C. EncodePayload C (VBinary [CHR 0x00, CHR 0xFF]) '' Binary'' = Ok [CHR 0x00, CHR 0xFF]
     \<and> DecodePayload C [CHR 0x00, CHR 0xFF] '' Binary'' = Ok (VBinary [CHR 0x00, CHR 0xFF])"
proof -
  let ?C = "\<lparr>yaml_unmarshal = (\<lambda>_. Ok VNil), yaml_marshal = (\<lambda>_. Ok []), json_decode = (\<lambda>_. Ok VNil),
    json_marshal = (\<lambda>_. Ok []), json_marshal_indent = (\<lambda>_. Ok []), format_float = (\<lambda>_ _. []),
    unicode_lower = map lower_byte\<rparr>"
  have "IsBinaryPayloadType (unicode_lower ?C) '' Binary''" by code_simp
  then show ?thesis using unstructured_payload_roundtrip[of ?C "'' Binary''"] by blast
qed

end
