(* ===== verification/Defaults_Overlay.thy ===== *)
theory Defaults_Overlay
  imports Payload_Types
begin

text \<open>
  Resource defaults (src/resource/defaults_overlay.go): merging overrides over defaults, compacting
  a payload against defaults, and inferring common defaults from several payloads.

  \<open>reflect.DeepEqual\<close> on normalised values is equality: normalisation leaves no nil map, slice or
  byte slice that differs from an empty one.  The lemmas show that what the inference finds can be
  factored out of every payload it was inferred from and merged back without loss.
\<close>

definition defaultsOverlayPayloadTypes :: "string list" where
  "defaultsOverlayPayloadTypes = [PayloadTypeINI, PayloadTypeJSON, PayloadTypeProperties, PayloadTypeYAML]"

definition SupportedDefaultsOverlayPayloadTypes :: "string list" where
  "SupportedDefaultsOverlayPayloadTypes = sort defaultsOverlayPayloadTypes"

definition SupportsDefaultsOverlayPayloadType :: "(string \<Rightarrow> string) \<Rightarrow> string \<Rightarrow> bool" where
  "SupportsDefaultsOverlayPayloadType ul payloadType =
     list_ex (\<lambda>candidate. NormalizePayloadType ul payloadType = candidate) defaultsOverlayPayloadTypes"

section \<open>Merging, compacting and intersecting objects\<close>

function mergeObjectWithDefaults :: "fields \<Rightarrow> fields \<Rightarrow> fields" where
  "mergeObjectWithDefaults defaults [] = map (\<lambda>(key, v). (key, DeepCopyValue v)) defaults"
| "mergeObjectWithDefaults defaults ((key, overrideValue) # overrides) =
     map_put key
       (case map_get defaults key of
          Some (VMap defaultObject) \<Rightarrow>
            (case overrideValue of
               VMap overrideObject \<Rightarrow> VMap (mergeObjectWithDefaults defaultObject overrideObject)
             | _ \<Rightarrow> DeepCopyValue overrideValue)
        | _ \<Rightarrow> DeepCopyValue overrideValue)
       (mergeObjectWithDefaults defaults overrides)"
  by pat_completeness auto
termination
  by (relation "measure (\<lambda>(defaults, overrides). size (VMap overrides))") auto

function compactObjectAgainstDefaults :: "fields \<Rightarrow> fields \<Rightarrow> fields" where
  "compactObjectAgainstDefaults [] defaults = []"
| "compactObjectAgainstDefaults ((key, currentValue) # v) defaults =
     (case map_get defaults key of
        None \<Rightarrow> (key, DeepCopyValue currentValue) # compactObjectAgainstDefaults v defaults
      | Some defaultValue \<Rightarrow>
          (case (defaultValue, currentValue) of
             (VMap defaultObject, VMap valueObject) \<Rightarrow>
               (let nested = compactObjectAgainstDefaults valueObject defaultObject in
                if nested \<noteq> [] then (key, VMap nested) # compactObjectAgainstDefaults v defaults
                else compactObjectAgainstDefaults v defaults)
           | _ \<Rightarrow>
               if currentValue = defaultValue then compactObjectAgainstDefaults v defaults
               else (key, DeepCopyValue currentValue) # compactObjectAgainstDefaults v defaults))"
  by pat_completeness auto
termination
  by (relation "measure (\<lambda>(v, defaults). size (VMap v))") auto

function intersectObjectDefaults :: "fields \<Rightarrow> fields \<Rightarrow> fields" where
  "intersectObjectDefaults [] right = []"
| "intersectObjectDefaults ((key, leftValue) # left) right =
     (case map_get right key of
        None \<Rightarrow> intersectObjectDefaults left right
      | Some rightValue \<Rightarrow>
          (case (leftValue, rightValue) of
             (VMap leftObject, VMap rightObject) \<Rightarrow>
               (let nested = intersectObjectDefaults leftObject rightObject in
                if nested \<noteq> [] \<or> (leftObject = [] \<and> rightObject = [])
                then (key, VMap nested) # intersectObjectDefaults left right
                else intersectObjectDefaults left right)
           | _ \<Rightarrow>
               if leftValue = rightValue then (key, DeepCopyValue leftValue) # intersectObjectDefaults left right
               else intersectObjectDefaults left right))"
  by pat_completeness auto
termination
  by (relation "measure (\<lambda>(left, right). size (VMap left))") auto

section \<open>The operations\<close>

definition MergeWithDefaults :: "gval \<Rightarrow> gval \<Rightarrow> gval result" where
  "MergeWithDefaults defaults overrides =
     (if defaults = VNil then Normalize overrides
      else case Normalize defaults of
        Err e \<Rightarrow> Err e
      | Ok (VMap defaultObject) \<Rightarrow>
          if overrides = VNil then Normalize (DeepCopyValue (VMap defaultObject))
          else (case Normalize overrides of
                  Err e \<Rightarrow> Err e
                | Ok (VMap overrideObject) \<Rightarrow>
                    Normalize (VMap (mergeObjectWithDefaults defaultObject overrideObject))
                | Ok _ \<Rightarrow> Err (Invalid (msg ''resource payload overrides must be a structured object when resource defaults are present'') None))
      | Ok _ \<Rightarrow> Err (Invalid (msg ''resource defaults require a structured object payload'') None))"

definition CompactAgainstDefaults :: "gval \<Rightarrow> gval \<Rightarrow> gval result" where
  "CompactAgainstDefaults v defaults =
     (if defaults = VNil then Normalize v
      else case Normalize defaults of
        Err e \<Rightarrow> Err e
      | Ok (VMap defaultObject) \<Rightarrow>
          if v = VNil then Ok VNil
          else (case Normalize v of
                  Err e \<Rightarrow> Err e
                | Ok (VMap valueObject) \<Rightarrow>
                    (let compacted = compactObjectAgainstDefaults valueObject defaultObject in
                     if compacted = [] then Ok VNil else Normalize (VMap compacted))
                | Ok _ \<Rightarrow> Err (Invalid (msg ''effective payload must be a structured object when resource defaults are present'') None))
      | Ok _ \<Rightarrow> Err (Invalid (msg ''resource defaults require a structured object payload'') None))"

definition isJSONYAMLDefaultsOverlayType :: "(string \<Rightarrow> string) \<Rightarrow> string \<Rightarrow> bool" where
  "isJSONYAMLDefaultsOverlayType ul payloadType =
     (NormalizePayloadType ul payloadType \<in> {PayloadTypeJSON, PayloadTypeYAML})"

definition defaultsOverlayPayloadTypesCompatible :: "(string \<Rightarrow> string) \<Rightarrow> string \<Rightarrow> string \<Rightarrow> bool" where
  "defaultsOverlayPayloadTypesCompatible ul defaultsType overridesType =
     (let normalizedDefaults = NormalizePayloadType ul defaultsType;
          normalizedOverrides = NormalizePayloadType ul overridesType
      in normalizedDefaults = normalizedOverrides
         \<or> (isJSONYAMLDefaultsOverlayType ul normalizedDefaults \<and> isJSONYAMLDefaultsOverlayType ul normalizedOverrides))"

definition ValidateDefaultsSidecarDescriptor ::
  "(string \<Rightarrow> string) \<Rightarrow> PayloadDescriptor \<Rightarrow> PayloadDescriptor \<Rightarrow> unit result" where
  "ValidateDefaultsSidecarDescriptor ul defaults overrides =
     (let resolvedDefaults = NormalizePayloadDescriptor ul defaults in
      if \<not> SupportsDefaultsOverlayPayloadType ul (PayloadType resolvedDefaults)
      then Err (Invalid (''resource defaults require merge-capable payload type (json, yaml, ini, properties); got %q'', [PayloadType resolvedDefaults]) None)
      else if \<not> IsPayloadDescriptorExplicit overrides then Ok ()
      else let resolvedOverrides = NormalizePayloadDescriptor ul overrides in
           if \<not> defaultsOverlayPayloadTypesCompatible ul (PayloadType resolvedDefaults) (PayloadType resolvedOverrides)
           then Err (Invalid (''resource defaults payload type %q does not match resource payload type %q'', [PayloadType resolvedDefaults, PayloadType resolvedOverrides]) None)
           else Ok ())"

text \<open>The loop of \<open>InferDefaultsFromValues\<close>: the common object so far and the number of samples.\<close>

fun infer_loop :: "gval list \<Rightarrow> fields \<Rightarrow> nat \<Rightarrow> (fields \<times> nat) result" where
  "infer_loop [] common samples = Ok (common, samples)"
| "infer_loop (v # vs) common samples =
     (if v = VNil then infer_loop vs common samples
      else case Normalize v of
        Err e \<Rightarrow> Err e
      | Ok (VMap current) \<Rightarrow>
          if samples = 0 then infer_loop vs (map (\<lambda>(key, x). (key, DeepCopyValue x)) current) (samples + 1)
          else infer_loop vs (intersectObjectDefaults common current) (samples + 1)
      | Ok _ \<Rightarrow> Err (Invalid (msg ''defaults inference requires structured object payloads'') None))"

definition InferDefaultsFromValues :: "gval list \<Rightarrow> gval result" where
  "InferDefaultsFromValues vs =
     (if length vs < 2 then Normalize (VMap [])
      else case infer_loop vs [] 0 of
        Err e \<Rightarrow> Err e
      | Ok (common, samples) \<Rightarrow>
          if samples < 2 \<or> common = [] then Normalize (VMap []) else Normalize (VMap common))"

definition InferCreatedDefaults :: "gval list \<Rightarrow> gval list \<Rightarrow> gval result" where
  "InferCreatedDefaults inputs outputs =
     (case InferDefaultsFromValues outputs of
        Err e \<Rightarrow> Err e
      | Ok inferredOutputs \<Rightarrow>
          (case InferDefaultsFromValues inputs of
             Err e \<Rightarrow> Err e
           | Ok inferredInputs \<Rightarrow>
               (case CompactAgainstDefaults inferredOutputs inferredInputs of
                  Err e \<Rightarrow> Err e
                | Ok compacted \<Rightarrow> if compacted = VNil then Normalize (VMap []) else Normalize compacted)))"

definition ValidateDefaultsSidecarValue :: "gval \<Rightarrow> unit result" where
  "ValidateDefaultsSidecarValue defaults =
     (if defaults = VNil then Err (Invalid (msg ''resource defaults require a structured object payload'') None)
      else case Normalize defaults of
        Err e \<Rightarrow> Err e
      | Ok (VMap m) \<Rightarrow> Ok ()
      | Ok _ \<Rightarrow> Err (Invalid (msg ''resource defaults require a structured object payload'') None))"

section \<open>Lookups\<close>

definition merge_value :: "gval option \<Rightarrow> gval \<Rightarrow> gval" where
  "merge_value d v =
     (case (d, v) of (Some (VMap dm), VMap vm) \<Rightarrow> VMap (mergeObjectWithDefaults dm vm) | _ \<Rightarrow> v)"

definition compact_value :: "gval option \<Rightarrow> gval \<Rightarrow> gval option" where
  "compact_value d v =
     (case d of None \<Rightarrow> Some v
      | Some dv \<Rightarrow>
          (case (dv, v) of
             (VMap dm, VMap vm) \<Rightarrow>
               let n = compactObjectAgainstDefaults vm dm in if n = [] then None else Some (VMap n)
           | _ \<Rightarrow> if v = dv then None else Some v))"

definition intersect_value :: "gval \<Rightarrow> gval option \<Rightarrow> gval option" where
  "intersect_value v r =
     (case r of None \<Rightarrow> None
      | Some rv \<Rightarrow>
          (case (v, rv) of
             (VMap lm, VMap rm) \<Rightarrow>
               let n = intersectObjectDefaults lm rm in
               if n \<noteq> [] \<or> (lm = [] \<and> rm = []) then Some (VMap n) else None
           | _ \<Rightarrow> if v = rv then Some v else None))"

lemma copy_fields [simp]: "map (\<lambda>(key, v). (key, DeepCopyValue v)) m = m"
  by (simp add: case_prod_beta)

lemma merge_step:
  "mergeObjectWithDefaults d ((k, v) # ov) = map_put k (merge_value (map_get d k) v) (mergeObjectWithDefaults d ov)"
  by (auto simp: merge_value_def split: option.splits gval.splits)

lemma compact_select: "compactObjectAgainstDefaults v d = map_select (\<lambda>k. compact_value (map_get d k)) v"
  by (induction v)
    (auto simp: compact_value_def map_select_Cons Let_def split: option.splits gval.splits)

lemma intersect_select: "intersectObjectDefaults l r = map_select (\<lambda>k v. intersect_value v (map_get r k)) l"
  by (induction l)
    (auto simp: intersect_value_def map_select_Cons Let_def split: option.splits gval.splits)

declare mergeObjectWithDefaults.simps(2) [simp del] compactObjectAgainstDefaults.simps(2) [simp del]
  intersectObjectDefaults.simps(2) [simp del]

lemma merge_sorted [simp]: "sorted_map d \<Longrightarrow> sorted_map (mergeObjectWithDefaults d ov)"
  by (induction ov) (auto simp: merge_step)

lemma merge_get:
  "sorted_map ov \<Longrightarrow> map_get (mergeObjectWithDefaults d ov) k =
     (case map_get ov k of None \<Rightarrow> map_get d k | Some v \<Rightarrow> Some (merge_value (map_get d k) v))"
proof (induction ov)
  case (Cons p ov)
  then show ?case by (cases p) (auto simp: merge_step dest: sorted_map_tl)
qed simp

lemma compact_get:
  "sorted_map v \<Longrightarrow>
   map_get (compactObjectAgainstDefaults v d) k = Option.bind (map_get v k) (compact_value (map_get d k))"
  unfolding compact_select by (rule map_get_select)

lemma intersect_get:
  "sorted_map l \<Longrightarrow>
   map_get (intersectObjectDefaults l r) k = Option.bind (map_get l k) (\<lambda>v. intersect_value v (map_get r k))"
  unfolding intersect_select by (rule map_get_select)

lemma select_sorted [simp]:
  "sorted_map v \<Longrightarrow> sorted_map (compactObjectAgainstDefaults v d)"
  "sorted_map v \<Longrightarrow> sorted_map (intersectObjectDefaults v d)"
  unfolding compact_select intersect_select by (rule sorted_map_select, assumption)+

lemmas object_gets = merge_get compact_get intersect_get

section \<open>Lossless factoring\<close>

text \<open>\<open>covers d v\<close>: every key of the defaults is a key of the value, also in nested objects.\<close>

function covers :: "fields \<Rightarrow> fields \<Rightarrow> bool" where
  "covers [] v = True"
| "covers ((k, dv) # d) v =
     ((case map_get v k of
         None \<Rightarrow> False
       | Some vv \<Rightarrow> (case (dv, vv) of (VMap dm, VMap vm) \<Rightarrow> covers dm vm | _ \<Rightarrow> True)) \<and> covers d v)"
  by pat_completeness auto
termination
  by (relation "measure (\<lambda>(d, v). size (VMap d))") auto

definition covers_value :: "gval \<Rightarrow> gval \<Rightarrow> bool" where
  "covers_value dv vv = (case (dv, vv) of (VMap dm, VMap vm) \<Rightarrow> covers dm vm | _ \<Rightarrow> True)"

lemma covers_iff:
  "sorted_map d \<Longrightarrow>
   covers d v \<longleftrightarrow> (\<forall>k dv. map_get d k = Some dv \<longrightarrow> (\<exists>vv. map_get v k = Some vv \<and> covers_value dv vv))"
proof (induction d)
  case (Cons p d)
  obtain k dv where p: "p = (k, dv)" by fastforce
  have "map_get d k = None" using Cons.prems sorted_map_get_head p by metis
  then show ?case
    using Cons.IH[OF sorted_map_tl[OF Cons.prems]]
    by (auto simp: p covers_value_def split: option.splits)
qed simp

lemma merge_compact:
  "normal_value (VMap v) \<Longrightarrow> normal_value (VMap d) \<Longrightarrow> covers d v \<Longrightarrow>
   mergeObjectWithDefaults d (compactObjectAgainstDefaults v d) = v"
proof (induction "size (VMap v)" arbitrary: v d rule: less_induct)
  case less
  have sv: "sorted_map v" and sd: "sorted_map d" using less.prems by simp_all
  have cov: "map_get d k = Some dv \<Longrightarrow> \<exists>vv. map_get v k = Some vv \<and> covers_value dv vv" for k dv
    using less.prems(3) covers_iff[OF sd] by blast
  have nested: "mergeObjectWithDefaults dm (compactObjectAgainstDefaults vm dm) = vm"
    if "map_get v k = Some (VMap vm)" "map_get d k = Some (VMap dm)" for k vm dm
  proof (rule less.hyps)
    show "size (VMap vm) < size (VMap v)" using that(1) by (rule size_get)
    show "normal_value (VMap vm)" "normal_value (VMap dm)" using that less.prems normal_get by blast+
    show "covers dm vm" using cov[OF that(2)] that(1) by (auto simp: covers_value_def)
  qed
  have "map_get (mergeObjectWithDefaults d (compactObjectAgainstDefaults v d)) k = map_get v k" for k
  proof (cases "map_get v k")
    case None
    then have "map_get d k = None" using cov by (metis option.exhaust option.distinct(1))
    then show ?thesis using None sv by (simp add: object_gets)
  next
    case (Some vv)
    show ?thesis
    proof (cases "\<exists>dm vm. map_get d k = Some (VMap dm) \<and> vv = VMap vm")
      case True
      then obtain dm vm where o: "map_get d k = Some (VMap dm)" "vv = VMap vm" by blast
      then have n: "mergeObjectWithDefaults dm (compactObjectAgainstDefaults vm dm) = vm"
        using nested Some by blast
      show ?thesis
      proof (cases "compactObjectAgainstDefaults vm dm = []")
        case True
        then show ?thesis using n o Some sv by (simp add: object_gets compact_value_def)
      next
        case False
        then show ?thesis using n o Some sv by (simp add: object_gets compact_value_def merge_value_def)
      qed
    next
      case False
      then show ?thesis
        using Some sv by (cases "map_get d k"; cases "the (map_get d k)"; cases vv)
          (auto simp: object_gets compact_value_def merge_value_def)
    qed
  qed
  then show ?case using sv sd by (intro sorted_map_ext) (auto simp: fun_eq_iff)
qed

lemma covers_self: "normal_value (VMap m) \<Longrightarrow> covers m m"
proof (induction "size (VMap m)" arbitrary: m rule: less_induct)
  case less
  then have "covers_value v v" if "map_get m k = Some v" for k v
    using size_get[OF that] normal_get[OF less.prems that]
    by (cases v) (simp_all add: covers_value_def del: normal_value.simps gval.size)
  then show ?case using less.prems by (simp add: covers_iff)
qed

lemma intersect_entry:
  assumes "sorted_map l" "map_get (intersectObjectDefaults l r) k = Some dv"
  obtains lv rv where "map_get l k = Some lv" "map_get r k = Some rv" "intersect_value lv (Some rv) = Some dv"
proof (cases "map_get l k"; cases "map_get r k")
  fix lv rv assume "map_get l k = Some lv" "map_get r k = Some rv"
  then show thesis using assms that by (simp add: object_gets)
qed (use assms in \<open>simp_all add: object_gets intersect_value_def\<close>)

text \<open>Defaults that are common to two objects are covered by both.\<close>

lemma covers_intersect:
  "normal_value (VMap l) \<Longrightarrow> normal_value (VMap r) \<Longrightarrow> covers (intersectObjectDefaults l r) r"
  "normal_value (VMap l) \<Longrightarrow> covers l v \<Longrightarrow> covers (intersectObjectDefaults l r) v"
proof (induction "size (VMap l)" arbitrary: l r v rule: less_induct)
  case less
  { case 1
    then have sl: "sorted_map l" by simp
    have "\<exists>vv. map_get r k = Some vv \<and> covers_value dv vv"
      if e: "map_get (intersectObjectDefaults l r) k = Some dv" for k dv
    proof -
      obtain lv rv where lr: "map_get l k = Some lv" "map_get r k = Some rv" "intersect_value lv (Some rv) = Some dv"
        using intersect_entry[OF sl e] by metis
      have "covers_value dv rv"
      proof (cases "\<exists>lm rm. lv = VMap lm \<and> rv = VMap rm")
        case True
        then obtain lm rm where o: "lv = VMap lm" "rv = VMap rm" by blast
        then have "covers (intersectObjectDefaults lm rm) rm"
          using less(1)[of lm rm] size_get[OF lr(1)] normal_get[OF 1(1) lr(1)] normal_get[OF 1(2) lr(2)] by simp
        then show ?thesis using lr(3) o by (auto simp: intersect_value_def covers_value_def Let_def split: if_splits)
      next
        case False
        then show ?thesis using lr(3) by (cases lv; cases rv) (auto simp: intersect_value_def covers_value_def Let_def split: if_splits)
      qed
      then show ?thesis using lr by blast
    qed
    then show ?case using sl by (simp add: covers_iff)
  next
    case 2
    then have sl: "sorted_map l" by simp
    have "\<exists>vv. map_get v k = Some vv \<and> covers_value dv vv"
      if e: "map_get (intersectObjectDefaults l r) k = Some dv" for k dv
    proof -
      obtain lv rv where lr: "map_get l k = Some lv" "map_get r k = Some rv" "intersect_value lv (Some rv) = Some dv"
        using intersect_entry[OF sl e] by metis
      obtain vv where vv: "map_get v k = Some vv" "covers_value lv vv"
        using 2(2) lr(1) covers_iff[OF sl] by blast
      have "covers_value dv vv"
      proof (cases "\<exists>lm rm. lv = VMap lm \<and> rv = VMap rm")
        case True
        then obtain lm rm where o: "lv = VMap lm" "rv = VMap rm" by blast
        have "covers lm vm \<Longrightarrow> covers (intersectObjectDefaults lm rm) vm" for vm
          using less(2)[of lm vm rm] size_get[OF lr(1)] normal_get[OF 2(1) lr(1)] o by simp
        then show ?thesis using lr(3) o vv(2)
          by (cases vv) (auto simp: intersect_value_def covers_value_def Let_def split: if_splits)
      next
        case False
        then have "dv = lv" using lr(3) by (cases lv; cases rv) (auto simp: intersect_value_def split: if_splits)
        then show ?thesis using vv(2) by simp
      qed
      then show ?thesis using vv by blast
    qed
    then show ?case using sl by (simp add: covers_iff)
  }
qed

lemma normal_intersect: "normal_value (VMap l) \<Longrightarrow> normal_value (VMap (intersectObjectDefaults l r))"
proof (induction "size (VMap l)" arbitrary: l r rule: less_induct)
  case less
  then have sl: "sorted_map l" by simp
  have "normal_value dv" if e: "map_get (intersectObjectDefaults l r) k = Some dv" for k dv
  proof -
    obtain lv rv where lr: "map_get l k = Some lv" "map_get r k = Some rv" "intersect_value lv (Some rv) = Some dv"
      using intersect_entry[OF sl e] by metis
    have lv: "normal_value lv" "size lv < size (VMap l)" using normal_get[OF less.prems lr(1)] size_get[OF lr(1)] .
    show ?thesis
    proof (cases "\<exists>lm rm. lv = VMap lm \<and> rv = VMap rm")
      case True
      then show ?thesis using lr(3) lv less.hyps
        by (auto simp: intersect_value_def Let_def split: if_splits simp del: normal_value.simps gval.size)
    next
      case False
      then have "dv = lv" using lr(3) by (cases lv; cases rv) (auto simp: intersect_value_def split: if_splits)
      then show ?thesis using lv by simp
    qed
  qed
  moreover have "sorted_map (intersectObjectDefaults l r)" using sl by simp
  ultimately show ?case by (auto simp: list_all_iff sorted_map_get)
qed

lemma normal_compact: "normal_value (VMap v) \<Longrightarrow> normal_value (VMap (compactObjectAgainstDefaults v d))"
proof (induction "size (VMap v)" arbitrary: v d rule: less_induct)
  case less
  then have sv: "sorted_map v" by simp
  have "normal_value x" if e: "map_get (compactObjectAgainstDefaults v d) k = Some x" for k x
  proof -
    obtain u where u: "map_get v k = Some u" "compact_value (map_get d k) u = Some x"
      using e sv by (auto simp: object_gets bind_eq_Some_conv)
    have nu: "normal_value u" "size u < size (VMap v)" using normal_get[OF less.prems u(1)] size_get[OF u(1)] .
    show ?thesis
    proof (cases "\<exists>dm um. map_get d k = Some (VMap dm) \<and> u = VMap um")
      case True
      then show ?thesis using u(2) nu less.hyps
        by (auto simp: compact_value_def Let_def split: if_splits simp del: normal_value.simps gval.size)
    next
      case False
      then have "x = u" using u(2)
        by (cases "map_get d k"; cases "the (map_get d k)"; cases u) (auto simp: compact_value_def split: if_splits)
      then show ?thesis using nu by simp
    qed
  qed
  moreover have "sorted_map (compactObjectAgainstDefaults v d)" using sv by simp
  ultimately show ?case by (auto simp: list_all_iff sorted_map_get)
qed

lemma normal_merge:
  "normal_value (VMap v) \<Longrightarrow> normal_value (VMap d) \<Longrightarrow> normal_value (VMap (mergeObjectWithDefaults d v))"
proof (induction "size (VMap v)" arbitrary: v d rule: less_induct)
  case less
  then have sv: "sorted_map v" and sd: "sorted_map d" by simp_all
  have "normal_value x" if e: "map_get (mergeObjectWithDefaults d v) k = Some x" for k x
  proof (cases "map_get v k")
    case None
    then show ?thesis using e sv normal_get[OF less.prems(2)] by (simp add: object_gets)
  next
    case (Some u)
    then have x: "x = merge_value (map_get d k) u" using e sv by (simp add: object_gets)
    have nu: "normal_value u" "size u < size (VMap v)" using normal_get[OF less.prems(1) Some] size_get[OF Some] .
    show ?thesis
    proof (cases "\<exists>dm um. map_get d k = Some (VMap dm) \<and> u = VMap um")
      case True
      then show ?thesis using x nu less.hyps normal_get[OF less.prems(2)]
        by (auto simp: merge_value_def simp del: normal_value.simps gval.size)
    next
      case False
      then have "x = u" using x
        by (cases "map_get d k"; cases "the (map_get d k)"; cases u) (auto simp: merge_value_def)
      then show ?thesis using nu by simp
    qed
  qed
  moreover have "sorted_map (mergeObjectWithDefaults d v)" using sd by simp
  ultimately show ?case by (auto simp: list_all_iff sorted_map_get)
qed

lemma merge_self: "normal_value (VMap d) \<Longrightarrow> mergeObjectWithDefaults d d = d"
proof (induction "size (VMap d)" arbitrary: d rule: less_induct)
  case less
  then have sd: "sorted_map d" by simp
  have "merge_value (Some u) u = u" if "map_get d k = Some u" for k u
    using less.hyps size_get[OF that] normal_get[OF less.prems that]
    by (cases u) (simp_all add: merge_value_def del: normal_value.simps gval.size)
  then have "map_get (mergeObjectWithDefaults d d) = map_get d"
    using sd by (auto simp: fun_eq_iff object_gets split: option.splits)
  then show ?case using sd by (intro sorted_map_ext) auto
qed

lemma merge_merge:
  "normal_value (VMap v) \<Longrightarrow> normal_value (VMap d) \<Longrightarrow>
   mergeObjectWithDefaults d (mergeObjectWithDefaults d v) = mergeObjectWithDefaults d v"
proof (induction "size (VMap v)" arbitrary: v d rule: less_induct)
  case less
  then have sv: "sorted_map v" and sd: "sorted_map d" by simp_all
  have self: "merge_value (Some u) u = u" if "map_get d k = Some u" for k u
    using merge_self normal_get[OF less.prems(2) that] by (cases u) (simp_all add: merge_value_def del: normal_value.simps)
  have again: "merge_value (map_get d k) (merge_value (map_get d k) u) = merge_value (map_get d k) u"
    if "map_get v k = Some u" for k u
  proof (cases "\<exists>dm um. map_get d k = Some (VMap dm) \<and> u = VMap um")
    case True
    then show ?thesis
      using less.hyps size_get[OF that] normal_get[OF less.prems(1) that] normal_get[OF less.prems(2)]
      by (auto simp: merge_value_def simp del: normal_value.simps gval.size)
  next
    case False
    then show ?thesis
      by (cases "map_get d k"; cases "the (map_get d k)"; cases u) (auto simp: merge_value_def)
  qed
  have "map_get (mergeObjectWithDefaults d (mergeObjectWithDefaults d v)) k = map_get (mergeObjectWithDefaults d v) k" for k
    using sv sd self[of k] again[of k]
    by (cases "map_get v k"; cases "map_get d k") (auto simp: object_gets)
  then show ?case using sd by (intro sorted_map_ext) auto
qed

text \<open>The loop: a common object that covers the payloads seen so far covers all of them at the end.\<close>

definition is_sample :: "gval \<Rightarrow> fields \<Rightarrow> bool" where
  "is_sample v w = (v \<noteq> VNil \<and> Normalize v = Ok (VMap w))"

lemma infer_loop_covers:
  assumes "infer_loop vs common n = Ok (c, m)" and "\<forall>v\<in>set vs. go_value v"
    and "n = 0 \<or> normal_value (VMap common)"
  shows "(m = 0 \<or> normal_value (VMap c))
    \<and> (\<forall>v\<in>set vs. v \<noteq> VNil \<longrightarrow> (\<exists>w. is_sample v w \<and> normal_value (VMap w) \<and> covers c w))
    \<and> (n > 0 \<longrightarrow> m > 0 \<and> (\<forall>w. covers common w \<longrightarrow> covers c w))"
  using assms
proof (induction vs common n rule: infer_loop.induct)
  case (2 v vs common n)
  show ?case
  proof (cases "v = VNil")
    case True
    then show ?thesis using 2 by simp
  next
    case False
    then obtain cur where cur: "Normalize v = Ok (VMap cur)"
      using 2(4) by (auto split: result.splits gval.splits)
    then have oc: "normal_value (VMap cur)"
      using 2(5) normalize_sound by (auto simp: Normalize_eq simp del: normal_value.simps)
    let ?next = "if n = 0 then cur else intersectObjectDefaults common cur"
    have run: "infer_loop vs ?next (n + 1) = Ok (c, m)" using 2(4) False cur by (simp split: if_splits)
    have on: "normal_value (VMap ?next)" using 2(6) oc normal_intersect by (cases "n = 0") simp_all
    have ih: "(m = 0 \<or> normal_value (VMap c))
      \<and> (\<forall>v\<in>set vs. v \<noteq> VNil \<longrightarrow> (\<exists>w. is_sample v w \<and> normal_value (VMap w) \<and> covers c w))
      \<and> m > 0 \<and> (\<forall>w. covers ?next w \<longrightarrow> covers c w)"
    proof (cases "n = 0")
      case True
      then show ?thesis using 2(2)[OF False cur refl True] run on 2(5) by (auto simp del: normal_value.simps)
    next
      case n: False
      then show ?thesis using 2(3)[OF False cur refl n] run on 2(5) by (auto simp del: normal_value.simps)
    qed
    have "covers ?next cur"
      using covers_intersect(1)[OF _ oc, of common] 2(6) covers_self[OF oc] by (cases "n = 0") simp_all
    moreover have "covers ?next w" if "n > 0" "covers common w" for w
      using covers_intersect(2)[of common w cur] 2(6) that by simp
    ultimately show ?thesis using ih False cur oc by (auto simp: is_sample_def simp del: normal_value.simps)
  qed
qed (simp del: normal_value.simps)

section \<open>Theorems\<close>

text \<open>C25: Defaults inferred from several payloads lose nothing: each payload can be compacted
  against them, and merging the compacted payload over the defaults gives the normalised payload
  back.\<close>

theorem inferred_defaults_lossless:
  assumes "InferDefaultsFromValues vs = Ok d" and "2 \<le> length vs" and "\<forall>v\<in>set vs. go_value v"
    and "v \<in> set vs" and "v \<noteq> VNil"
  shows "\<exists>w c. Normalize v = Ok w \<and> CompactAgainstDefaults v d = Ok c \<and> MergeWithDefaults d c = Ok w"
proof -
  obtain common n where loop: "infer_loop vs [] 0 = Ok (common, n)"
    and d: "Normalize (VMap (if n < 2 then [] else common)) = Ok d"
    using assms(1,2) by (auto simp: InferDefaultsFromValues_def split: result.splits if_splits)
  let ?d = "if n < 2 then [] else common"
  from infer_loop_covers[OF loop assms(3)] assms(4,5)
  obtain w where w: "Normalize v = Ok (VMap w)" "normal_value (VMap w)" "covers common w"
    and oc: "n = 0 \<or> normal_value (VMap common)" by (auto simp: is_sample_def simp del: normal_value.simps)
  have "normal_value (VMap ?d)" using oc by (cases "n < 2") auto
  moreover have "covers ?d w" using w(3) by simp
  ultimately obtain D where od: "normal_value (VMap D)" and cov: "covers D w" and "Normalize (VMap D) = Ok d"
    using d by blast
  then have dn: "d = VMap D" by (simp del: normal_value.simps)
  let ?c = "compactObjectAgainstDefaults w D"
  have merge: "mergeObjectWithDefaults D ?c = w" using w(2) od cov by (rule merge_compact)
  have nc: "normal_value (VMap ?c)" using w(2) by (rule normal_compact)
  have N: "Normalize (VMap w) = Ok (VMap w)" "Normalize (VMap D) = Ok (VMap D)" "Normalize (VMap ?c) = Ok (VMap ?c)"
    using w(2) od nc by (simp_all del: normal_value.simps)
  have "CompactAgainstDefaults v d = Ok (if ?c = [] then VNil else VMap ?c)"
    using w(1) N assms(5) dn by (simp add: CompactAgainstDefaults_def)
  moreover have "MergeWithDefaults d (if ?c = [] then VNil else VMap ?c) = Ok (VMap w)"
    using N dn merge by (cases "?c = []") (simp_all add: MergeWithDefaults_def)
  ultimately show ?thesis using w(1) by blast
qed

theorem inferred_defaults_lossless_witness:
  "\<exists>d. InferDefaultsFromValues [VMap [(''a'', VBool True), (''b'', VMap [(''x'', VString ''1''), (''y'', VNil)])],
                              VMap [(''a'', VBool True), (''b'', VMap [(''x'', VString ''1'')])]] = Ok d
     \<and> (\<exists>w c. Normalize (VMap [(''a'', VBool True), (''b'', VMap [(''x'', VString ''1''), (''y'', VNil)])]) = Ok w
         \<and> CompactAgainstDefaults (VMap [(''a'', VBool True), (''b'', VMap [(''x'', VString ''1''), (''y'', VNil)])]) d = Ok c
         \<and> MergeWithDefaults d c = Ok w)"
proof -
  let ?u = "VMap [(''a'', VBool True), (''b'', VMap [(''x'', VString ''1''), (''y'', VNil)])]"
  let ?v = "VMap [(''a'', VBool True), (''b'', VMap [(''x'', VString ''1'')])]"
  have "InferDefaultsFromValues [?u, ?v] = Ok ?v" by code_simp
  moreover have "go_value ?u" "go_value ?v" by code_simp+
  ultimately show ?thesis using inferred_defaults_lossless[of "[?u, ?v]" ?v ?u] by auto
qed

text \<open>Merging the defaults over an already merged payload changes nothing.\<close>

theorem MergeWithDefaults_idempotent:
  assumes "MergeWithDefaults d v = Ok w" and "go_value d" and "go_value v"
  shows "MergeWithDefaults d w = Ok w"
proof (cases "d = VNil")
  case True
  then show ?thesis using assms(1) payload_value.stable by (simp add: MergeWithDefaults_def)
next
  case False
  then obtain dm where dm: "Normalize d = Ok (VMap dm)"
    using assms(1) by (auto simp: MergeWithDefaults_def split: result.splits gval.splits)
  have nd: "normal_value (VMap dm)" using dm assms(2) normalize_sound by (auto simp: Normalize_eq simp del: normal_value.simps)
  have "\<exists>wm. w = VMap wm \<and> normal_value w \<and> mergeObjectWithDefaults dm wm = wm"
  proof (cases "v = VNil")
    case True
    then have "w = VMap dm" using assms(1) False dm nd by (simp add: MergeWithDefaults_def del: normal_value.simps)
    then show ?thesis using merge_self[OF nd] nd by simp
  next
    case v: False
    then obtain om where om: "Normalize v = Ok (VMap om)"
      using assms(1) False dm by (auto simp: MergeWithDefaults_def split: result.splits gval.splits)
    have no: "normal_value (VMap om)" using om assms(3) normalize_sound by (auto simp: Normalize_eq simp del: normal_value.simps)
    have nm: "normal_value (VMap (mergeObjectWithDefaults dm om))" using no nd by (rule normal_merge)
    then have "w = VMap (mergeObjectWithDefaults dm om)"
      using assms(1) False v dm om by (simp add: MergeWithDefaults_def del: normal_value.simps)
    then show ?thesis using nm merge_merge[OF no nd] by simp
  qed
  then show ?thesis using False dm by (auto simp: MergeWithDefaults_def simp del: normal_value.simps)
qed

theorem MergeWithDefaults_idempotent_witness:
  "MergeWithDefaults (VMap [(''a'', VBool True), (''b'', VMap [(''x'', VNil)])])
     (VMap [(''a'', VBool True), (''b'', VMap [(''x'', VNil), (''y'', VInt KInt64 1)])]) =
   Ok (VMap [(''a'', VBool True), (''b'', VMap [(''x'', VNil), (''y'', VInt KInt64 1)])])"
proof -
  let ?d = "VMap [(''a'', VBool True), (''b'', VMap [(''x'', VNil)])]" and ?v = "VMap [(''b'', VMap [(''y'', VInt KInt64 1)])]"
  have "MergeWithDefaults ?d ?v = Ok (VMap [(''a'', VBool True), (''b'', VMap [(''x'', VNil), (''y'', VInt KInt64 1)])])"
    by code_simp
  moreover have "go_value ?d" "go_value ?v" by code_simp+
  ultimately show ?thesis using MergeWithDefaults_idempotent by blast
qed

end
