(* ===== verification/Resource_Diff.thy ===== *)
theory Resource_Diff
  imports Json_Pointer
begin

text \<open>
  Comparing a local with a remote payload (src/internal/orchestrator/diff.go, json_pointer.go, and
  the transform steps of src/metadata/payload_mutation.go).

  The comparison first applies the transform steps of the metadata (selecting and removing
  attributes by JSON pointer, jq expressions) to both payloads and then collects the differences.
  The jq engine is a third-party package: the parameter \<open>jq\<close> gives, for an expression, a parse or
  compile error or a function from the input to its results or an evaluation error.  An \<open>int64\<close> is
  compared with a \<open>float64\<close> after Go's conversion, which rounds to 53 significant bits, ties to
  even.

  The lemmas show that the collected entries are empty exactly for payloads that are equal up to
  that numeric conversion, and that the pointer and the values of every entry are those of the two
  payloads.
\<close>

section \<open>Transform steps\<close>

text \<open>A nil slice of pointers is \<open>None\<close>.\<close>

record TransformStep =
  SelectAttributes :: "string list option"
  ExcludeAttributes :: "string list option"
  JQExpression :: string

definition CloneTransformSteps :: "TransformStep list \<Rightarrow> TransformStep list" where
  "CloneTransformSteps steps =
     map (\<lambda>v. \<lparr>SelectAttributes = SelectAttributes v, ExcludeAttributes = ExcludeAttributes v,
                JQExpression = JQExpression v\<rparr>) steps"

definition transformStepType :: "TransformStep \<Rightarrow> string" where
  "transformStepType step =
     (let isSelect = SelectAttributes step \<noteq> None; isExclude = ExcludeAttributes step \<noteq> None;
          isJQ = trim_space (JQExpression step) \<noteq> [];
          selected = of_bool isSelect + of_bool isExclude + of_bool isJQ;
          kind = (if isJQ then ''jqExpression'' else if isExclude then ''excludeAttributes''
                  else if isSelect then ''selectAttributes'' else [])
      in if selected \<noteq> (1::nat) then [] else kind)"

definition combineTransformSteps ::
  "TransformStep list option \<Rightarrow> TransformStep list option \<Rightarrow> TransformStep list option" where
  "combineTransformSteps defaults operation =
     (if defaults = None \<and> operation = None then None
      else Some (CloneTransformSteps (case defaults of None \<Rightarrow> [] | Some d \<Rightarrow> d)
                 @ CloneTransformSteps (case operation of None \<Rightarrow> [] | Some s \<Rightarrow> s)))"

definition HasTransformJQ :: "TransformStep list \<Rightarrow> bool" where
  "HasTransformJQ steps = list_ex (\<lambda>v. transformStepType v = ''jqExpression'') steps"

fun normalize_pointers_loop :: "string list \<Rightarrow> string list \<Rightarrow> string list result" where
  "normalize_pointers_loop [] normalized = Ok (sort normalized)"
| "normalize_pointers_loop (rawPointer # pointers) normalized =
     (let pointer = trim_space rawPointer in
      if pointer \<in> set normalized then normalize_pointers_loop pointers normalized
      else case ParseJSONPointer pointer of
        Err e \<Rightarrow> Err e
      | Ok tokens \<Rightarrow> normalize_pointers_loop pointers (normalized @ [pointer]))"

definition normalizePointers :: "string list \<Rightarrow> string list result" where
  "normalizePointers pointers = (if pointers = [] then Ok [] else normalize_pointers_loop pointers [])"

fun filter_pointers_loop :: "gval \<Rightarrow> string list \<Rightarrow> gval \<Rightarrow> gval result" where
  "filter_pointers_loop v [] acc =
     Ok (if acc = VNil then (case v of VSlice xs \<Rightarrow> VSlice [] | VMap m \<Rightarrow> VMap [] | _ \<Rightarrow> VNil) else acc)"
| "filter_pointers_loop v (pointer # pointers) acc =
     (case LookupJSONPointer v pointer of
        Err e \<Rightarrow> Err e
      | Ok None \<Rightarrow> filter_pointers_loop v pointers acc
      | Ok (Some foundValue) \<Rightarrow>
          if pointer = [] then Ok (DeepCopyValue v)
          else (case SetJSONPointerValue acc pointer foundValue of
                  Err e \<Rightarrow> Err e
                | Ok acc' \<Rightarrow> filter_pointers_loop v pointers acc'))"

definition applyFilterPointers :: "gval \<Rightarrow> string list \<Rightarrow> gval result" where
  "applyFilterPointers v pointers =
     (case normalizePointers pointers of
        Err e \<Rightarrow> Err e
      | Ok normalizedPointers \<Rightarrow> filter_pointers_loop v normalizedPointers VNil)"

fun suppress_pointers_loop :: "string list \<Rightarrow> gval \<Rightarrow> gval result" where
  "suppress_pointers_loop [] working = Ok working"
| "suppress_pointers_loop (pointer # pointers) working =
     (if pointer = [] then Ok VNil
      else case DeleteJSONPointerValue working pointer of
        Err e \<Rightarrow> Err e
      | Ok working' \<Rightarrow> suppress_pointers_loop pointers working')"

definition applySuppressPointers :: "gval \<Rightarrow> string list \<Rightarrow> gval result" where
  "applySuppressPointers v pointers =
     (case normalizePointers pointers of
        Err e \<Rightarrow> Err e
      | Ok normalizedPointers \<Rightarrow> suppress_pointers_loop normalizedPointers (DeepCopyValue v))"

type_synonym jq_engine = "string \<Rightarrow> (gval \<Rightarrow> gval list result) result"

definition applyCompareJQ :: "jq_engine \<Rightarrow> gval \<Rightarrow> string \<Rightarrow> gval result" where
  "applyCompareJQ jq v expression =
     (let trimmedExpression = trim_space expression in
      if trimmedExpression = [] then Ok v
      else case jq trimmedExpression of
        Err e \<Rightarrow> Err (Invalid (msg ''invalid compare jq expression'') (Some e))
      | Ok run \<Rightarrow>
          (case run v of
             Err e \<Rightarrow> Err (Invalid (msg ''failed to evaluate compare jq expression'') (Some e))
           | Ok [] \<Rightarrow> Ok VNil
           | Ok [r] \<Rightarrow> Normalize r
           | Ok results \<Rightarrow> Normalize (VSlice results)))"

fun transform_loop :: "jq_engine \<Rightarrow> TransformStep list \<Rightarrow> gval \<Rightarrow> gval result" where
  "transform_loop jq [] current = Normalize current"
| "transform_loop jq (step # steps) current =
     (let kind = transformStepType step;
          r = (if kind = ''selectAttributes''
               then applyFilterPointers current (case SelectAttributes step of None \<Rightarrow> [] | Some p \<Rightarrow> p)
               else if kind = ''excludeAttributes''
               then applySuppressPointers current (case ExcludeAttributes step of None \<Rightarrow> [] | Some p \<Rightarrow> p)
               else if kind = ''jqExpression'' then applyCompareJQ jq current (JQExpression step)
               else Ok current)
      in case r of Err e \<Rightarrow> Err e | Ok next \<Rightarrow> transform_loop jq steps next)"

text \<open>\<open>OrderedTransformSteps\<close> returns a copy of the operation's steps.\<close>

definition applyCompareTransforms :: "jq_engine \<Rightarrow> gval \<Rightarrow> TransformStep list \<Rightarrow> gval result" where
  "applyCompareTransforms jq v transforms =
     (let steps = CloneTransformSteps transforms in
      if steps = [] then Normalize v
      else case Normalize v of Err e \<Rightarrow> Err e | Ok current \<Rightarrow> transform_loop jq steps current)"

section \<open>Collecting differences\<close>

text \<open>\<open>float64(i)\<close>: the excess of significant bits over 53 is rounded away, ties to even.\<close>

fun excess_bits :: "nat \<Rightarrow> nat" where
  "excess_bits n = (if n < 2 ^ 53 then 0 else Suc (excess_bits (n div 2)))"

declare excess_bits.simps [simp del]

definition round_nat53 :: "nat \<Rightarrow> nat" where
  "round_nat53 n =
     (let e = excess_bits n; q = n div 2 ^ e; r = n mod 2 ^ e; half = 2 ^ e div 2
      in if e = 0 then n
         else if r < half \<or> (r = half \<and> even q) then q * 2 ^ e else (q + 1) * 2 ^ e)"

definition float_of_int :: "int \<Rightarrow> float64" where
  "float_of_int i =
     Fin (if i < 0 then - of_nat (round_nat53 (nat (- i))) else of_nat (round_nat53 (nat i)))"

definition scalarsNumericallyEqual :: "gval \<Rightarrow> gval \<Rightarrow> bool" where
  "scalarsNumericallyEqual loc rem =
     (case (loc, rem) of
        (VInt KInt64 localInt, VFloat remoteFloat) \<Rightarrow> float_of_int localInt = remoteFloat
      | (VFloat localFloat, VInt KInt64 remoteInt) \<Rightarrow> float_of_int remoteInt = localFloat
      | _ \<Rightarrow> False)"

definition diff_entry :: "string \<Rightarrow> string \<Rightarrow> string \<Rightarrow> gval \<Rightarrow> gval \<Rightarrow> DiffEntry" where
  "diff_entry logicalPath pointer operation loc rem =
     \<lparr>ResourcePath = logicalPath, Path = pointer, Operation = operation, Local = loc, Remote = rem\<rparr>"

definition diff_keys :: "fields \<Rightarrow> fields \<Rightarrow> string list" where
  "diff_keys localObject remoteObject =
     sort (map_keys localObject @ filter (\<lambda>k. k \<notin> set (map_keys localObject)) (map_keys remoteObject))"

text \<open>Go appends to the shared list of entries in the order of the walk.\<close>

function collectDiffEntries :: "string \<Rightarrow> string \<Rightarrow> gval \<Rightarrow> gval \<Rightarrow> DiffEntry list" where
  "collectDiffEntries logicalPath pointer loc rem =
     (if loc = rem then []
      else if IsBinaryValue loc \<or> IsBinaryValue rem then [diff_entry logicalPath [] ''replace'' loc rem]
      else case (loc, rem) of
        (VMap localObject, VMap remoteObject) \<Rightarrow>
          concat (map (\<lambda>key.
            let nextPointer = pointer @ ''/'' @ EscapeJSONPointerToken key in
            case map_get localObject key of
              None \<Rightarrow> [diff_entry logicalPath nextPointer ''add'' VNil
                         (case map_get remoteObject key of None \<Rightarrow> VNil | Some x \<Rightarrow> x)]
            | Some localValue \<Rightarrow>
                (case map_get remoteObject key of
                   None \<Rightarrow> [diff_entry logicalPath nextPointer ''remove'' localValue VNil]
                 | Some remoteValue \<Rightarrow> collectDiffEntries logicalPath nextPointer localValue remoteValue))
            (diff_keys localObject remoteObject))
      | (VSlice localArray, VSlice remoteArray) \<Rightarrow>
          concat (map (\<lambda>idx.
            let nextPointer = pointer @ ''/'' @ itoa (int idx) in
            if idx \<ge> length localArray then [diff_entry logicalPath nextPointer ''add'' VNil (remoteArray ! idx)]
            else if idx \<ge> length remoteArray then [diff_entry logicalPath nextPointer ''remove'' (localArray ! idx) VNil]
            else collectDiffEntries logicalPath nextPointer (localArray ! idx) (remoteArray ! idx))
            [0..<max (length localArray) (length remoteArray)])
      | _ \<Rightarrow>
          if scalarsNumericallyEqual loc rem then []
          else [diff_entry logicalPath pointer ''replace'' loc rem])"
  by pat_completeness auto
termination
  by (relation "measure (\<lambda>(lp, p, loc, rem). size loc)") (use size_get size_nth in \<open>auto simp: not_le\<close>)

declare collectDiffEntries.simps [simp del]

definition buildDiffEntries :: "string \<Rightarrow> gval \<Rightarrow> gval \<Rightarrow> DiffEntry list" where
  "buildDiffEntries logicalPath loc rem = collectDiffEntries logicalPath [] loc rem"

section \<open>When there is no difference\<close>

text \<open>Equality up to the numeric comparison of integers with floats.\<close>

function value_equiv :: "gval \<Rightarrow> gval \<Rightarrow> bool" where
  "value_equiv l r =
     (case (l, r) of
        (VMap a, VMap b) \<Rightarrow> list_all2 (\<lambda>p q. fst p = fst q \<and> value_equiv (snd p) (snd q)) a b
      | (VSlice a, VSlice b) \<Rightarrow> list_all2 value_equiv a b
      | _ \<Rightarrow> l = r \<or> scalarsNumericallyEqual l r)"
  by pat_completeness auto
termination
  by (relation "measure (\<lambda>(l, r). size l)") (use size_entry size_elem in auto)

declare value_equiv.simps [simp del]

lemma value_equiv_map:
  "value_equiv (VMap a) (VMap b) = list_all2 (\<lambda>p q. fst p = fst q \<and> value_equiv (snd p) (snd q)) a b"
  by (subst value_equiv.simps) simp

lemma value_equiv_slice: "value_equiv (VSlice a) (VSlice b) = list_all2 value_equiv a b"
  by (subst value_equiv.simps) simp

lemma value_equiv_refl: "value_equiv v v"
proof (induction "size v" arbitrary: v rule: less_induct)
  case less
  show ?case
  proof (cases v)
    case (VMap m)
    have "value_equiv (snd p) (snd p)" if "p \<in> set m" for p
      using that by (intro less) (simp only: VMap size_entry)
    then show ?thesis by (simp add: VMap value_equiv_map list.rel_refl_strong)
  next
    case (VSlice xs)
    have "value_equiv x x" if "x \<in> set xs" for x
      using that by (intro less) (simp only: VSlice size_elem)
    then show ?thesis by (simp add: VSlice value_equiv_slice list.rel_refl_strong)
  qed (subst value_equiv.simps, simp)+
qed

lemma set_diff_keys: "set (diff_keys a b) = fst ` set a \<union> fst ` set b"
  by (auto simp: diff_keys_def)

text \<open>The three ways in which \<open>collectDiffEntries\<close> proceeds on different values without binary
  content.\<close>

lemma collect_same [simp]: "collectDiffEntries lp p v v = []"
  by (subst collectDiffEntries.simps) simp

lemma collect_map:
  "a \<noteq> b \<Longrightarrow> collectDiffEntries lp p (VMap a) (VMap b) =
     concat (map (\<lambda>key.
            case map_get a key of
              None \<Rightarrow> [diff_entry lp (p @ CHR ''/'' # EscapeJSONPointerToken key) ''add'' VNil
                         (case map_get b key of None \<Rightarrow> VNil | Some x \<Rightarrow> x)]
            | Some l \<Rightarrow>
                (case map_get b key of
                   None \<Rightarrow> [diff_entry lp (p @ CHR ''/'' # EscapeJSONPointerToken key) ''remove'' l VNil]
                 | Some r \<Rightarrow> collectDiffEntries lp (p @ CHR ''/'' # EscapeJSONPointerToken key) l r))
            (diff_keys a b))"
  by (subst collectDiffEntries.simps) (simp add: IsBinaryValue_def Let_def)

lemma collect_slice:
  "a \<noteq> b \<Longrightarrow> collectDiffEntries lp p (VSlice a) (VSlice b) =
     concat (map (\<lambda>idx.
            if idx \<ge> length a then [diff_entry lp (p @ CHR ''/'' # itoa (int idx)) ''add'' VNil (b ! idx)]
            else if idx \<ge> length b then [diff_entry lp (p @ CHR ''/'' # itoa (int idx)) ''remove'' (a ! idx) VNil]
            else collectDiffEntries lp (p @ CHR ''/'' # itoa (int idx)) (a ! idx) (b ! idx))
            [0..<max (length a) (length b)])"
  by (subst collectDiffEntries.simps) (simp add: IsBinaryValue_def Let_def)

definition container_pair :: "gval \<Rightarrow> gval \<Rightarrow> bool" where
  "container_pair l r = (case (l, r) of (VMap a, VMap b) \<Rightarrow> True | (VSlice a, VSlice b) \<Rightarrow> True | _ \<Rightarrow> False)"

lemma collect_leaf:
  "\<not> container_pair l r \<Longrightarrow> l \<noteq> r \<Longrightarrow> \<not> IsBinaryValue l \<Longrightarrow> \<not> IsBinaryValue r \<Longrightarrow>
   collectDiffEntries lp p l r = (if scalarsNumericallyEqual l r then [] else [diff_entry lp p ''replace'' l r])"
  by (subst collectDiffEntries.simps) (cases l; cases r; auto simp: container_pair_def)

lemma equiv_leaf: "\<not> container_pair l r \<Longrightarrow> value_equiv l r \<longleftrightarrow> l = r \<or> scalarsNumericallyEqual l r"
  by (subst value_equiv.simps) (cases l; cases r; simp add: container_pair_def)

lemma collect_binary:
  "l \<noteq> r \<Longrightarrow> IsBinaryValue l \<or> IsBinaryValue r \<Longrightarrow>
   collectDiffEntries lp p l r = [diff_entry lp [] ''replace'' l r] \<and> \<not> container_pair l r
   \<and> \<not> scalarsNumericallyEqual l r"
  by (subst collectDiffEntries.simps)
    (cases l; cases r; auto simp: container_pair_def IsBinaryValue_def scalarsNumericallyEqual_def split: int_kind.splits)

lemma collect_empty_map:
  assumes "sorted_map a" "sorted_map b" "a \<noteq> b"
  shows "collectDiffEntries lp p (VMap a) (VMap b) = [] \<longleftrightarrow>
    (\<forall>k. rel_option (\<lambda>l r. collectDiffEntries lp (p @ CHR ''/'' # EscapeJSONPointerToken k) l r = [])
           (map_get a k) (map_get b k))"
proof -
  have "k \<in> set (diff_keys a b) \<longleftrightarrow> \<not> (map_get a k = None \<and> map_get b k = None)" for k
    by (simp only: set_diff_keys map_of_eq_None_iff Un_iff) simp
  then have "(\<forall>k\<in>set (diff_keys a b). Q k) \<longleftrightarrow> (\<forall>k. map_get a k = None \<and> map_get b k = None \<or> Q k)" for Q
    by blast
  moreover have "map_get a k = None \<and> map_get b k = None \<or>
      (case map_get a k of
         None \<Rightarrow> [diff_entry lp (p @ CHR ''/'' # EscapeJSONPointerToken k) ''add'' VNil
                    (case map_get b k of None \<Rightarrow> VNil | Some x \<Rightarrow> x)]
       | Some l \<Rightarrow> (case map_get b k of
            None \<Rightarrow> [diff_entry lp (p @ CHR ''/'' # EscapeJSONPointerToken k) ''remove'' l VNil]
          | Some r \<Rightarrow> collectDiffEntries lp (p @ CHR ''/'' # EscapeJSONPointerToken k) l r)) = [] \<longleftrightarrow>
      rel_option (\<lambda>l r. collectDiffEntries lp (p @ CHR ''/'' # EscapeJSONPointerToken k) l r = [])
           (map_get a k) (map_get b k)" for k
    by (cases "map_get a k"; cases "map_get b k") simp_all
  ultimately show ?thesis
    unfolding collect_map[OF assms(3)] concat_eq_Nil_conv by simp
qed

lemma concat_upt_Nil: "concat (map f [0..<n]) = [] \<longleftrightarrow> (\<forall>i<n. f i = [])"
  by auto

lemma collect_empty_slice:
  assumes "a \<noteq> b"
  shows "collectDiffEntries lp p (VSlice a) (VSlice b) = [] \<longleftrightarrow>
    length a = length b \<and> (\<forall>i<length a. collectDiffEntries lp (p @ CHR ''/'' # itoa (int i)) (a ! i) (b ! i) = [])"
    (is "?lhs \<longleftrightarrow> ?rhs")
proof -
  have "?lhs \<longleftrightarrow> (\<forall>i<max (length a) (length b). i < length a \<and> i < length b
      \<and> collectDiffEntries lp (p @ CHR ''/'' # itoa (int i)) (a ! i) (b ! i) = [])"
    unfolding collect_slice[OF assms] concat_upt_Nil
    by (intro all_cong1 imp_cong refl) (auto simp: not_le)
  also have "\<dots> \<longleftrightarrow> ?rhs"
  proof
    assume h: "\<forall>i<max (length a) (length b). i < length a \<and> i < length b
      \<and> collectDiffEntries lp (p @ CHR ''/'' # itoa (int i)) (a ! i) (b ! i) = []"
    then have "\<not> length a < max (length a) (length b)" "\<not> length b < max (length a) (length b)" by blast+
    then have "length a = length b" by linarith
    with h show ?rhs by simp
  qed simp
  finally show ?thesis .
qed

text \<open>No entry is collected exactly for values equal up to the numeric comparison.\<close>

lemma collect_empty_iff:
  "normal_value l \<Longrightarrow> normal_value r \<Longrightarrow> collectDiffEntries lp p l r = [] \<longleftrightarrow> value_equiv l r"
proof (induction "size l" arbitrary: l r p rule: less_induct)
  case less
  show ?case
  proof (cases "l = r")
    case True
    then show ?thesis by (simp add: value_equiv_refl)
  next
    case ne: False
    consider (bin) "IsBinaryValue l \<or> IsBinaryValue r" | (maps) a b where "l = VMap a" "r = VMap b"
      | (slices) a b where "l = VSlice a" "r = VSlice b"
      | (leaf) "\<not> container_pair l r" "\<not> (IsBinaryValue l \<or> IsBinaryValue r)"
      by (cases l; cases r) (auto simp: container_pair_def)
    then show ?thesis
    proof cases
      case bin
      then show ?thesis using collect_binary[OF ne bin, of lp p] ne by (auto simp: equiv_leaf)
    next
      case (maps a b)
      have s: "sorted_map a" "sorted_map b" using less.prems maps by simp_all
      have ih: "collectDiffEntries lp q x y = [] \<longleftrightarrow> value_equiv x y"
        if "map_get a k = Some x" "map_get b k = Some y" for q k x y
        using less.hyps[of x y q] size_get[OF that(1)] normal_get[OF less.prems(1)[unfolded maps] that(1)]
          normal_get[OF less.prems(2)[unfolded maps] that(2)] by (simp add: maps)
      have "rel_option (\<lambda>x y. collectDiffEntries lp (p @ CHR ''/'' # EscapeJSONPointerToken k) x y = []) (map_get a k) (map_get b k)
        \<longleftrightarrow> rel_option value_equiv (map_get a k) (map_get b k)" for k
        using ih[of k] by (cases "map_get a k"; cases "map_get b k") simp_all
      then show ?thesis
        using ne s by (simp add: maps collect_empty_map value_equiv_map sorted_map_rel)
    next
      case (slices a b)
      have ih: "collectDiffEntries lp q (a ! i) (b ! i) = [] \<longleftrightarrow> value_equiv (a ! i) (b ! i)"
        if "i < length a" "i < length b" for q i
        using less.hyps[of "a ! i" "b ! i" q] less.prems size_nth[OF that(1)] that slices
        by (auto simp: list_all_length)
      then show ?thesis
        using ne by (auto simp: slices collect_empty_slice value_equiv_slice list_all2_conv_all_nth)
    next
      case leaf
      then show ?thesis using ne by (simp add: collect_leaf equiv_leaf)
    qed
  qed
qed

section \<open>What the entries say\<close>

lemma parse_index_itoa:
  assumes "int i \<le> int64_max"
  shows "parseJSONPointerArrayIndex (itoa (int i)) = Some i"
proof -
  let ?s = "nat_digits i"
  have d: "list_all is_digit_byte ?s" by (rule list_all_nat_digits)
  then obtain c cs where s: "?s = c # cs" "is_digit_byte c" by (cases ?s) auto
  have "c \<noteq> CHR ''+''" "c \<noteq> CHR ''-''" using s(2) by (auto simp: is_digit_byte_def)
  then have "atoi_syntax ?s = Some (int i)"
    using d s(1) digits_value_nat_digits[of i] by (simp add: atoi_syntax_def)
  then have "atoi ?s = Some (int i)" using assms by (simp add: atoi_def in_int64_def int64_min_def)
  then show ?thesis using d by (simp add: parseJSONPointerArrayIndex_def itoa_def)
qed

lemma escape_itoa: "EscapeJSONPointerToken (itoa (int i)) = itoa (int i)"
proof -
  have "list_all is_digit_byte s \<Longrightarrow> EscapeJSONPointerToken s = s" for s
    by (induction s) (auto simp: escape_bytes is_digit_byte_def)
  then show ?thesis using list_all_nat_digits by (simp add: itoa_def)
qed

lemma pointer_snoc:
  "JSONPointerFromTokens (ts @ [t]) = JSONPointerFromTokens ts @ CHR ''/'' # EscapeJSONPointerToken t"
  by (induction ts) auto

text \<open>Payloads without binary content whose arrays have an index of type \<open>int\<close> for every item.\<close>

fun comparable :: "gval \<Rightarrow> bool" where
  "comparable (VMap m) = list_all (\<lambda>p. comparable (snd p)) m"
| "comparable (VSlice xs) = (int (length xs) \<le> int64_max \<and> list_all comparable xs)"
| "comparable v = (\<not> IsBinaryValue v)"

text \<open>What an entry claims about the two payloads, at the tokens \<open>ts\<close> of its pointer.\<close>

definition entry_true :: "DiffEntry \<Rightarrow> string list \<Rightarrow> gval \<Rightarrow> gval \<Rightarrow> bool" where
  "entry_true e ts l r =
     (if Operation e = ''add''
      then Local e = VNil \<and> lookup_tokens l ts = None \<and> lookup_tokens r ts = Some (Remote e)
      else if Operation e = ''remove''
      then Remote e = VNil \<and> lookup_tokens l ts = Some (Local e) \<and> lookup_tokens r ts = None
      else Operation e = ''replace'' \<and> lookup_tokens l ts = Some (Local e) \<and> lookup_tokens r ts = Some (Remote e)
           \<and> \<not> value_equiv (Local e) (Remote e))"

lemma entry_true_below:
  assumes "entry_true e ts l r"
    and "\<And>us. lookup_tokens x (t # us) = lookup_tokens l us" and "\<And>us. lookup_tokens y (t # us) = lookup_tokens r us"
  shows "entry_true e (t # ts) x y"
  using assms by (simp add: entry_true_def del: lookup_tokens.simps)

lemma comparable_get: "comparable (VMap m) \<Longrightarrow> map_get m k = Some v \<Longrightarrow> comparable v"
  by (auto simp: list_all_iff dest!: map_of_SomeD)

lemma comparable_leaf: "comparable v \<Longrightarrow> \<not> IsBinaryValue v"
  by (cases v) (auto simp: IsBinaryValue_def)

lemma collect_entries:
  assumes "e \<in> set (collectDiffEntries lp (JSONPointerFromTokens ps) l r)"
    and "comparable l" and "comparable r"
  shows "\<exists>ts. ResourcePath e = lp \<and> Path e = JSONPointerFromTokens (ps @ ts) \<and> entry_true e ts l r"
  using assms
proof (induction "size l" arbitrary: l r ps rule: less_induct)
  case less
  have ne: "l \<noteq> r" using less.prems(1) by auto
  consider (maps) a b where "l = VMap a" "r = VMap b" | (slices) a b where "l = VSlice a" "r = VSlice b"
    | (leaf) "\<not> container_pair l r"
    by (cases l; cases r) (auto simp: container_pair_def)
  then show ?case
  proof cases
    case (maps a b)
    have "a \<noteq> b" using ne maps by simp
    from less.prems(1) obtain k where k: "k \<in> set (diff_keys a b)" and e: "e \<in> set (case map_get a k of
         None \<Rightarrow> [diff_entry lp (JSONPointerFromTokens (ps @ [k])) ''add'' VNil
                    (case map_get b k of None \<Rightarrow> VNil | Some x \<Rightarrow> x)]
       | Some l \<Rightarrow> (case map_get b k of
            None \<Rightarrow> [diff_entry lp (JSONPointerFromTokens (ps @ [k])) ''remove'' l VNil]
          | Some r \<Rightarrow> collectDiffEntries lp (JSONPointerFromTokens (ps @ [k])) l r))"
      unfolding maps collect_map[OF \<open>a \<noteq> b\<close>] pointer_snoc set_concat set_map by blast
    show ?thesis
    proof (cases "map_get a k")
      case None
      then obtain x where "map_get b k = Some x"
        using k by (metis set_diff_keys map_of_eq_None_iff UnE option.exhaust)
      then show ?thesis
        using e None by (intro exI[of _ "[k]"]) (simp add: maps diff_entry_def entry_true_def)
    next
      case (Some x)
      show ?thesis
      proof (cases "map_get b k")
        case None
        then show ?thesis
          using e Some by (intro exI[of _ "[k]"]) (simp add: maps diff_entry_def entry_true_def)
      next
        case y: (Some y)
        then obtain ts where "ResourcePath e = lp" "Path e = JSONPointerFromTokens ((ps @ [k]) @ ts)" "entry_true e ts x y"
          using less.hyps[of x "ps @ [k]" y] less.prems e Some size_get[OF Some] comparable_get[of a k x]
            comparable_get[of b k y] by (auto simp: maps simp del: comparable.simps)
        then show ?thesis
          using Some y by (intro exI[of _ "k # ts"]) (auto simp: maps intro: entry_true_below)
      qed
    qed
  next
    case (slices a b)
    have "a \<noteq> b" using ne slices by simp
    from less.prems(1) obtain i where i: "i \<in> set [0..<max (length a) (length b)]" and e: "e \<in> set
          (if i \<ge> length a then [diff_entry lp (JSONPointerFromTokens (ps @ [itoa (int i)])) ''add'' VNil (b ! i)]
            else if i \<ge> length b then [diff_entry lp (JSONPointerFromTokens (ps @ [itoa (int i)])) ''remove'' (a ! i) VNil]
            else collectDiffEntries lp (JSONPointerFromTokens (ps @ [itoa (int i)])) (a ! i) (b ! i))"
      unfolding slices collect_slice[OF \<open>a \<noteq> b\<close>] pointer_snoc escape_itoa set_concat set_map by blast
    have ix: "parseJSONPointerArrayIndex (itoa (int i)) = Some i"
      using i less.prems(2,3) by (intro parse_index_itoa) (auto simp: slices)
    show ?thesis
    proof (cases "i \<ge> length a \<or> i \<ge> length b")
      case True
      then show ?thesis
        using e i ix by (intro exI[of _ "[itoa (int i)]"]) (auto simp: slices diff_entry_def entry_true_def split: if_splits)
    next
      case False
      then obtain ts where "ResourcePath e = lp" "Path e = JSONPointerFromTokens ((ps @ [itoa (int i)]) @ ts)"
        "entry_true e ts (a ! i) (b ! i)"
        using less.hyps[of "a ! i" "ps @ [itoa (int i)]" "b ! i"] less.prems(2,3) e size_nth[of i a]
        by (auto simp: slices list_all_length)
      then show ?thesis
        using False ix by (intro exI[of _ "itoa (int i) # ts"]) (auto simp: slices intro: entry_true_below)
    qed
  next
    case leaf
    have "e = diff_entry lp (JSONPointerFromTokens ps) ''replace'' l r" "\<not> scalarsNumericallyEqual l r"
      using less.prems(1) collect_leaf[OF leaf ne] comparable_leaf less.prems(2,3) by (auto split: if_splits)
    then show ?thesis
      using leaf ne by (intro exI[of _ "[]"]) (simp add: diff_entry_def entry_true_def equiv_leaf)
  qed
qed

section \<open>Integers and floats\<close>

lemma float_of_int_exact: "\<bar>i\<bar> \<le> 2 ^ 53 \<Longrightarrow> float_of_int i = Fin (of_int i)"
proof -
  have small: "round_nat53 n = n" if "n \<le> 2 ^ 53" for n
  proof (cases "n < 2 ^ 53")
    case True
    then have "excess_bits n = 0" by (subst excess_bits.simps) simp
    then show ?thesis by (simp add: round_nat53_def)
  next
    case False
    with that have n: "n = 2 ^ 53" by simp
    have "excess_bits (2 ^ 52) = 0" by (subst excess_bits.simps) simp
    then have "excess_bits (2 ^ 53) = 1" by (subst excess_bits.simps) simp
    then show ?thesis by (simp add: n round_nat53_def)
  qed
  assume "\<bar>i\<bar> \<le> 2 ^ 53"
  then show ?thesis by (auto simp: float_of_int_def small)
qed

section \<open>Removing attributes\<close>

lemma delete_keeps_absent:
  "list_all object_token ts \<Longrightarrow> ts \<noteq> [] \<Longrightarrow> list_all object_token us \<Longrightarrow> us \<noteq> [] \<Longrightarrow>
   deleteJSONPointerValue d ts = Ok r \<Longrightarrow> lookup_tokens d us = None \<Longrightarrow> lookup_tokens r us = None"
proof (induction ts arbitrary: d r us)
  case (Cons t ts)
  obtain u us' where us: "us = u # us'" using Cons.prems(4) by (cases us) auto
  show ?case
  proof (cases d)
    case (VMap m)
    show ?thesis
    proof (cases "ts = [] \<or> map_get m t = None")
      case True
      then show ?thesis using Cons.prems VMap us by (auto split: if_splits)
    next
      case False
      then obtain c where c: "map_get m t = Some c" "ts \<noteq> []" by auto
      then obtain n where n: "deleteJSONPointerValue c ts = Ok n"
        using Cons.prems VMap by (auto split: result.splits)
      have "us' \<noteq> [] \<Longrightarrow> lookup_tokens c us' = None \<Longrightarrow> lookup_tokens n us' = None"
        using Cons.IH[OF _ c(2) _ _ n] Cons.prems(1,3) us by simp
      then show ?thesis using Cons.prems c n VMap us
        by (cases "us' = []"; cases "u = t") (auto split: if_splits)
    qed
  qed (use Cons.prems in \<open>auto split: option.splits\<close>)
qed simp

text \<open>The pointers of object members: those whose tokens are no array indexes.\<close>

definition object_pointer :: "string \<Rightarrow> bool" where
  "object_pointer p = (case ParseJSONPointer p of Err e \<Rightarrow> False
     | Ok ts \<Rightarrow> ts \<noteq> [] \<and> list_all (\<lambda>t. parseJSONPointerArrayIndex t = None) ts)"

lemma suppress_loop_removes:
  "list_all object_pointer ps \<Longrightarrow>
   \<exists>r. suppress_pointers_loop ps d = Ok r \<and> (\<forall>p\<in>set ps. LookupJSONPointer r p = Ok None)
     \<and> (\<forall>ts. list_all object_token ts \<longrightarrow> ts \<noteq> [] \<longrightarrow> lookup_tokens d ts = None \<longrightarrow> lookup_tokens r ts = None)"
proof (induction ps arbitrary: d)
  case (Cons p ps)
  then obtain ts where ts: "ParseJSONPointer p = Ok ts" "ts \<noteq> []" "list_all object_token ts"
    by (auto simp: object_pointer_def split: result.splits)
  have p: "p \<noteq> []" using ts by (auto simp: ParseJSONPointer_def)
  obtain d' where d': "deleteJSONPointerValue d ts = Ok d'" "lookup_tokens d' ts = None"
    using delete_then_lookup[OF ts(2,3)] by blast
  obtain r where r: "suppress_pointers_loop ps d' = Ok r" "\<forall>p\<in>set ps. LookupJSONPointer r p = Ok None"
    "\<forall>ts. list_all object_token ts \<longrightarrow> ts \<noteq> [] \<longrightarrow> lookup_tokens d' ts = None \<longrightarrow> lookup_tokens r ts = None"
    using Cons.IH[of d'] Cons.prems by auto
  have "lookup_tokens r ts = None" using r(3) d'(2) ts by blast
  moreover have "lookup_tokens r us = None"
    if "list_all object_token us" "us \<noteq> []" "lookup_tokens d us = None" for us
    using delete_keeps_absent[OF ts(3,2) that(1,2) d'(1) that(3)] r(3) that by blast
  ultimately show ?case
    using r(1,2) p ts(1) d'(1) by (simp add: DeleteJSONPointerValue_def LookupJSONPointer_def)
qed simp

lemma normalize_pointers_loop_total:
  "list_all (\<lambda>p. is_ok (ParseJSONPointer (trim_space p))) ps \<Longrightarrow>
   \<exists>ns. normalize_pointers_loop ps acc = Ok ns \<and> set ns = trim_space ` set ps \<union> set acc"
proof (induction ps arbitrary: acc)
  case (Cons p ps)
  then obtain ts where "ParseJSONPointer (trim_space p) = Ok ts" by (auto simp: is_ok_iff)
  then show ?case
    using Cons.IH[of acc] Cons.IH[of "acc @ [trim_space p]"] Cons.prems by (auto simp: Let_def)
qed simp

section \<open>Properties\<close>





text \<open>A difference between binary values nested in the payloads is reported at the empty path,
  as if the whole payload were replaced by them.\<close>

theorem nested_binary_difference:
  "buildDiffEntries ''/x'' (VMap [(''cert'', VBinary ''a'')]) (VMap [(''cert'', VBinary ''b'')]) =
     [diff_entry ''/x'' [] ''replace'' (VBinary ''a'') (VBinary ''b'')]"
  by code_simp

text \<open>Integers up to 2^53 in absolute value are compared with a float exactly; the integer
  2^53 + 1, which has no float representation, is reported equal to the float 2^53.\<close>

theorem integer_float_comparison:
  "(\<bar>i\<bar> \<le> 2 ^ 53 \<longrightarrow> (scalarsNumericallyEqual (VInt KInt64 i) (VFloat x) \<longleftrightarrow> x = Fin (of_int i)))
   \<and> buildDiffEntries lp (VInt KInt64 9007199254740993) (VFloat (Fin 9007199254740992)) = []"
proof
  show "\<bar>i\<bar> \<le> 2 ^ 53 \<longrightarrow> (scalarsNumericallyEqual (VInt KInt64 i) (VFloat x) \<longleftrightarrow> x = Fin (of_int i))"
    using float_of_int_exact[of i] by (auto simp: scalarsNumericallyEqual_def)
  have "excess_bits 4503599627370496 = 0" by (subst excess_bits.simps) simp
  then have "excess_bits 9007199254740993 = 1" by (subst excess_bits.simps) simp
  then have "round_nat53 9007199254740993 = 9007199254740992" by (simp add: round_nat53_def)
  then have "float_of_int 9007199254740993 = Fin 9007199254740992" by (simp add: float_of_int_def)
  then show "buildDiffEntries lp (VInt KInt64 9007199254740993) (VFloat (Fin 9007199254740992)) = []"
    by (simp add: buildDiffEntries_def collect_leaf container_pair_def IsBinaryValue_def scalarsNumericallyEqual_def)
qed

theorem integer_float_comparison_witness:
  "scalarsNumericallyEqual (VInt KInt64 (- 3)) (VFloat (Fin (- 3)))
   \<and> buildDiffEntries ''/n'' (VInt KInt64 9007199254740993) (VFloat (Fin 9007199254740992)) = []"
  using integer_float_comparison[of "- 3" "Fin (- 3)" "''/n''"] by simp

text \<open>After the excluded attributes are removed none of them is found any more, when they name
  members of objects.\<close>

theorem applySuppressPointers_removes:
  assumes "list_all (\<lambda>p. object_pointer (trim_space p)) ps"
  shows "\<exists>r. applySuppressPointers v ps = Ok r \<and> (\<forall>p\<in>set ps. LookupJSONPointer r (trim_space p) = Ok None)"
proof (cases "ps = []")
  case False
  have "object_pointer p \<Longrightarrow> is_ok (ParseJSONPointer p)" for p
    by (cases "ParseJSONPointer p") (simp_all add: object_pointer_def)
  then have "list_all (\<lambda>p. is_ok (ParseJSONPointer (trim_space p))) ps"
    using assms by (simp add: list_all_iff)
  then obtain ns where ns: "normalizePointers ps = Ok ns" "set ns = trim_space ` set ps"
    using normalize_pointers_loop_total[of ps "[]"] False by (auto simp: normalizePointers_def)
  have "list_all object_pointer ns" using assms ns(2) by (auto simp: list_all_iff)
  then obtain r where "suppress_pointers_loop ns v = Ok r" "\<forall>p\<in>set ns. LookupJSONPointer r p = Ok None"
    using suppress_loop_removes by blast
  then show ?thesis using ns by (simp add: applySuppressPointers_def)
qed (simp add: applySuppressPointers_def normalizePointers_def)

theorem applySuppressPointers_removes_witness:
  "\<exists>r. applySuppressPointers (VMap [(''a'', VMap [(''b'', VBool True)]), (''c'', VNil)]) ['' /a/b'', ''/d''] = Ok r
     \<and> (\<forall>p\<in>set ['' /a/b'', ''/d'']. LookupJSONPointer r (trim_space p) = Ok None)"
proof -
  have "list_all (\<lambda>p. object_pointer (trim_space p)) ['' /a/b'', ''/d'']" by code_simp
  then show ?thesis by (rule applySuppressPointers_removes)
qed

text \<open>Array items are removed one after the other by position, so excluding items 0 and 1 of
  an array of three removes items 0 and 2 and keeps item 1.\<close>

theorem applySuppressPointers_array_shift:
  "applySuppressPointers (VMap [(''a'', VSlice [VString ''x'', VString ''y'', VString ''z''])]) [''/a/0'', ''/a/1''] =
     Ok (VMap [(''a'', VSlice [VString ''y''])])"
  by code_simp

end
