(* ===== verification/Metadata_Model.thy ===== *)
theory Metadata_Model
  imports Defaults_Overlay Resource_Diff
begin

text \<open>
  Resource metadata and its layers (src/metadata/types.go, resource_metadata_helpers.go, clone_helpers.go and
  resource_defaults.go): how a deeper layer overrides an inherited one, and how defaults and their profiles are
  merged and resolved.

  A nil pointer, slice or map is \<open>None\<close>, so that an explicit empty list or map, which clears what was inherited,
  differs from an omitted one.  \<open>any\<close> is \<open>gval\<close> with \<open>VNil\<close> for nil.  Values have no aliases here, so a copy
  is the value itself; \<open>CloneResourceMetadata\<close> is not quite a copy, since it makes a nil map of operations empty.

  The lemmas show that merging is a monoid action on each directive: the empty layer is neutral, the deepest layer
  that sets a directive decides it, and three layers can be grouped either way as long as the middle one does not
  clear a map or the inherited defaults.
\<close>

section \<open>Types\<close>

record SelectorSpec =
  Descendants :: "bool option"

definition AllowsDescendants :: "SelectorSpec option \<Rightarrow> bool" where
  "AllowsDescendants s = (case s of None \<Rightarrow> False | Some spec \<Rightarrow> Descendants spec = Some True)"

record DefaultsSpec =
  def_Mode :: string
  def_UseProfiles :: "string list option"
  def_Value :: gval
  def_Profiles :: "fields option"

record ExternalizedAttribute =
  ext_Path :: string
  ext_File :: string
  ext_Template :: string
  ext_Mode :: string
  ext_SaveBehavior :: string
  ext_RenderBehavior :: string
  ext_Enabled :: "bool option"

record ValidationAssertion =
  assertion_Message :: string
  assertion_JQ :: string

record OperationValidationSpec =
  val_RequiredAttributes :: "string list option"
  val_Assertions :: "ValidationAssertion list option"
  val_SchemaRef :: string

type_synonym string_map = "(string, string) gomap"

record OperationSpec =
  op_Method :: string
  op_Path :: string
  op_Query :: "string_map option"
  op_Headers :: "string_map option"
  op_Accept :: string
  op_ContentType :: string
  op_Body :: gval
  op_Transforms :: "TransformStep list option"
  op_Validate :: "OperationValidationSpec option"

record ResourceMetadata =
  md_Selector :: "SelectorSpec option"
  md_ID :: string
  md_Alias :: string
  md_RequiredAttributes :: "string list option"
  md_RemoteCollectionPath :: string
  md_Format :: string
  md_Defaults :: "DefaultsSpec option"
  md_Secret :: "bool option"
  md_SecretAttributes :: "string list option"
  md_ExternalizedAttributes :: "ExternalizedAttribute list option"
  md_Operations :: "(string, OperationSpec) gomap option"
  md_Transforms :: "TransformStep list option"

text \<open>The zero values of the structs.\<close>

definition no_defaults :: DefaultsSpec where
  "no_defaults = \<lparr>def_Mode = [], def_UseProfiles = None, def_Value = VNil, def_Profiles = None\<rparr>"

definition no_validation :: OperationValidationSpec where
  "no_validation = \<lparr>val_RequiredAttributes = None, val_Assertions = None, val_SchemaRef = []\<rparr>"

definition no_operation :: OperationSpec where
  "no_operation = \<lparr>op_Method = [], op_Path = [], op_Query = None, op_Headers = None, op_Accept = [], op_ContentType = [],
     op_Body = VNil, op_Transforms = None, op_Validate = None\<rparr>"

definition no_metadata :: ResourceMetadata where
  "no_metadata = \<lparr>md_Selector = None, md_ID = [], md_Alias = [], md_RequiredAttributes = None, md_RemoteCollectionPath = [],
     md_Format = [], md_Defaults = None, md_Secret = None, md_SecretAttributes = None, md_ExternalizedAttributes = None,
     md_Operations = None, md_Transforms = None\<rparr>"

definition IsWholeResourceSecret :: "ResourceMetadata \<Rightarrow> bool" where
  "IsWholeResourceSecret m = (md_Secret m = Some True)"

section \<open>Defaults\<close>

definition profile_start :: "char \<Rightarrow> bool" where
  "profile_start c = (letter_byte c \<or> is_digit_byte c)"

definition profile_name :: "string \<Rightarrow> bool" where
  "profile_name s = (case s of [] \<Rightarrow> False | c # cs \<Rightarrow> profile_start c \<and> list_all (\<lambda>d. profile_start d \<or> d \<in> set ''._-'') cs)"

definition ValidateDefaultsProfileName :: "string \<Rightarrow> go_error option" where
  "ValidateDefaultsProfileName v =
     (if \<not> profile_name (trim_space v) then Some (Invalid (''resource.defaults profile %q is invalid'', [v]) None) else None)"

definition ValidateDefaultsMode :: "string \<Rightarrow> string result" where
  "ValidateDefaultsMode v =
     (let trimmed = trim_space v in
      if trimmed = [] then Ok ''inherit''
      else if trimmed \<in> {''inherit'', ''ignore'', ''replace''} then Ok trimmed
      else Err (Invalid (''resource.defaults.mode %q is not supported'', [v]) None))"

definition defaults_extensions :: "string list" where
  "defaults_extensions = [''.json'', ''.properties'', ''.yaml'', ''.yml'']"

definition DefaultsSupportsFileBackedDescriptor :: "(string \<Rightarrow> string) \<Rightarrow> PayloadDescriptor \<Rightarrow> bool" where
  "DefaultsSupportsFileBackedDescriptor ul d = (Extension (NormalizePayloadDescriptor ul d) \<in> set defaults_extensions)"

definition DefaultsFileName :: "(string \<Rightarrow> string) \<Rightarrow> string \<Rightarrow> PayloadDescriptor \<Rightarrow> string result" where
  "DefaultsFileName ul profile descriptor =
     (let resolved = NormalizePayloadDescriptor ul descriptor in
      if \<not> DefaultsSupportsFileBackedDescriptor ul resolved
      then Err (Invalid (''resource defaults files support only json, yaml, yml, or properties; got %q'', [Extension resolved]) None)
      else if trim_space profile = [] then Ok (''defaults'' @ Extension resolved)
      else case ValidateDefaultsProfileName profile of
             Some e \<Rightarrow> Err e
           | None \<Rightarrow> Ok (''defaults-'' @ profile @ Extension resolved))"

definition DefaultsIncludePlaceholder :: "string \<Rightarrow> string" where
  "DefaultsIncludePlaceholder file = ''{{include '' @ trim_space file @ ''}}''"

text \<open>The pattern \<open>^\{\{include ([^{}\s]+)\}\}$\<close>.\<close>

definition include_byte :: "char \<Rightarrow> bool" where
  "include_byte c = (c \<notin> {CHR ''{'', CHR ''}'', CHR '' '', CHR 0x09, CHR 0x0A, CHR 0x0C, CHR 0x0D})"

definition ParseDefaultsIncludeReference :: "string \<Rightarrow> string option" where
  "ParseDefaultsIncludeReference v =
     (let s = trim_space v; inner = take (length s - 12) (drop 10 s) in
      if 12 < length s \<and> prefix ''{{include '' s \<and> drop (length s - 2) s = ''}}'' \<and> list_all include_byte inner
      then Some inner else None)"

definition validateDefaultsIncludeReference ::
  "(string \<Rightarrow> string) \<Rightarrow> string \<Rightarrow> string \<Rightarrow> string \<Rightarrow> go_error option" where
  "validateDefaultsIncludeReference ul field v expectedProfile =
     (case ParseDefaultsIncludeReference v of
        None \<Rightarrow> Some (Invalid (msg (field @ '' must be an exact {{include ...}} reference'')) None)
      | Some includeFile \<Rightarrow>
          (let base = trim_suffix includeFile (path_ext includeFile);
               extension = to_lower ul (path_ext includeFile);
               expectedBase = (if trim_space expectedProfile \<noteq> [] then ''defaults-'' @ expectedProfile else ''defaults'')
           in if extension \<notin> set defaults_extensions
              then Some (Invalid (''%s include file %q is not supported'', [field, includeFile]) None)
              else if base \<noteq> expectedBase
              then Some (Invalid (''%s include file %q is invalid for this defaults entry'', [field, includeFile]) None)
              else None))"

definition validateDefaultsEntry :: "(string \<Rightarrow> string) \<Rightarrow> string \<Rightarrow> gval \<Rightarrow> string \<Rightarrow> go_error option" where
  "validateDefaultsEntry ul field v expectedProfile =
     (case v of
        VNil \<Rightarrow> None
      | VString includeFile \<Rightarrow> validateDefaultsIncludeReference ul field includeFile expectedProfile
      | _ \<Rightarrow>
          (case Normalize v of
             Err e \<Rightarrow> Some e
           | Ok (VMap m) \<Rightarrow> None
           | Ok _ \<Rightarrow> Some (Invalid (msg (field @ '' must be an object or exact {{include ...}} reference'')) None)))"

fun validate_use_profiles :: "nat \<Rightarrow> string list \<Rightarrow> go_error option" where
  "validate_use_profiles idx [] = None"
| "validate_use_profiles idx (profile # profiles) =
     (if trim_space profile = []
      then Some (Invalid (''resource.defaults.useProfiles[%d] must not be empty'', [itoa (int idx)]) None)
      else case ValidateDefaultsProfileName profile of
             Some e \<Rightarrow> Some e
           | None \<Rightarrow> validate_use_profiles (Suc idx) profiles)"

fun validate_profiles :: "(string \<Rightarrow> string) \<Rightarrow> fields \<Rightarrow> go_error option" where
  "validate_profiles ul [] = None"
| "validate_profiles ul ((key, v) # profiles) =
     (case ValidateDefaultsProfileName key of
        Some e \<Rightarrow> Some e
      | None \<Rightarrow>
          (case validateDefaultsEntry ul (''resource.defaults.profiles.'' @ key) v key of
             Some e \<Rightarrow> Some e
           | None \<Rightarrow> validate_profiles ul profiles))"

definition ValidateDefaultsSpec :: "(string \<Rightarrow> string) \<Rightarrow> DefaultsSpec option \<Rightarrow> go_error option" where
  "ValidateDefaultsSpec ul spec =
     (case spec of
        None \<Rightarrow> None
      | Some d \<Rightarrow>
          (case ValidateDefaultsMode (def_Mode d) of
             Err e \<Rightarrow> Some e
           | Ok mode \<Rightarrow>
               (case validate_use_profiles 0 (case def_UseProfiles d of None \<Rightarrow> [] | Some ps \<Rightarrow> ps) of
                  Some e \<Rightarrow> Some e
                | None \<Rightarrow>
                    (case validateDefaultsEntry ul ''resource.defaults.value'' (def_Value d) [] of
                       Some e \<Rightarrow> Some e
                     | None \<Rightarrow> (case def_Profiles d of None \<Rightarrow> None | Some ps \<Rightarrow> validate_profiles ul ps)))))"

definition HasDefaultsSpecDirectives :: "DefaultsSpec option \<Rightarrow> bool" where
  "HasDefaultsSpecDirectives spec =
     (case spec of
        None \<Rightarrow> False
      | Some d \<Rightarrow> trim_space (def_Mode d) \<noteq> [] \<or> def_UseProfiles d \<noteq> None \<or> def_Value d \<noteq> VNil \<or> def_Profiles d \<noteq> None)"

definition cloneDefaultsEntry :: "gval \<Rightarrow> gval" where
  "cloneDefaultsEntry v = (if v = VNil then VNil else DeepCopyValue v)"

definition CloneDefaultsSpec :: "DefaultsSpec option \<Rightarrow> DefaultsSpec option" where
  "CloneDefaultsSpec spec =
     map_option (\<lambda>d. \<lparr>def_Mode = def_Mode d, def_UseProfiles = def_UseProfiles d, def_Value = cloneDefaultsEntry (def_Value d),
       def_Profiles = map_option (map (\<lambda>(key, v). (key, cloneDefaultsEntry v))) (def_Profiles d)\<rparr>) spec"

text \<open>A nil object is \<open>None\<close>.\<close>

definition defaultsEntryObject :: "gval \<Rightarrow> string \<Rightarrow> fields option result" where
  "defaultsEntryObject v field =
     (if v = VNil then Ok None
      else case Normalize v of
             Err e \<Rightarrow> Err e
           | Ok (VMap m) \<Rightarrow> Ok (Some m)
           | Ok _ \<Rightarrow> Err (Invalid (msg (field @ '' must resolve to an object'')) None))"

text \<open>A nil \<open>map[string]any\<close> in an interface value is not nil and is normalised to an empty object.\<close>

definition object_value :: "fields option \<Rightarrow> gval" where
  "object_value m = VMap (case m of None \<Rightarrow> [] | Some m \<Rightarrow> m)"

definition mergeDefaultsEntry :: "gval \<Rightarrow> gval \<Rightarrow> gval" where
  "mergeDefaultsEntry base overlay =
     (if overlay = VNil then cloneDefaultsEntry base
      else case (defaultsEntryObject base [], defaultsEntryObject overlay []) of
             (Ok baseObject, Ok overlayObject) \<Rightarrow>
               (case MergeWithDefaults (object_value baseObject) (object_value overlayObject) of
                  Ok merged \<Rightarrow> cloneDefaultsEntry merged
                | Err e \<Rightarrow> cloneDefaultsEntry overlay)
           | _ \<Rightarrow> cloneDefaultsEntry overlay)"

definition merge_profile :: "string \<times> gval \<Rightarrow> fields \<Rightarrow> fields" where
  "merge_profile p profiles =
     map_put (fst p) (mergeDefaultsEntry (case map_get profiles (fst p) of None \<Rightarrow> VNil | Some v \<Rightarrow> v) (snd p)) profiles"

definition MergeDefaultsSpec :: "DefaultsSpec option \<Rightarrow> DefaultsSpec option \<Rightarrow> DefaultsSpec option" where
  "MergeDefaultsSpec base overlay =
     (if base = None \<and> overlay = None then None
      else
        let merged = (case CloneDefaultsSpec base of None \<Rightarrow> no_defaults | Some d \<Rightarrow> d);
            keep = (\<lambda>d. if HasDefaultsSpecDirectives (Some d) then Some d else None)
        in case overlay of
             None \<Rightarrow> keep merged
           | Some o' \<Rightarrow>
               (let mode = (case ValidateDefaultsMode (def_Mode o') of Err e \<Rightarrow> [] | Ok m \<Rightarrow> m);
                    merged1 = (if mode = ''ignore'' then merged\<lparr>def_Value := VNil, def_UseProfiles := None\<rparr>
                               else if mode = ''replace'' then merged\<lparr>def_Value := VNil, def_UseProfiles := None, def_Profiles := None\<rparr>
                               else merged);
                    merged2 = (if trim_space (def_Mode o') \<noteq> [] then merged1\<lparr>def_Mode := mode\<rparr>
                               else if def_Mode merged1 = [] then merged1\<lparr>def_Mode := ''inherit''\<rparr> else merged1);
                    merged3 = (case def_Profiles o' of
                                 None \<Rightarrow> merged2
                               | Some ps \<Rightarrow> merged2\<lparr>def_Profiles :=
                                   Some (fold merge_profile ps (case def_Profiles merged2 of None \<Rightarrow> [] | Some m \<Rightarrow> m))\<rparr>);
                    merged4 = (if def_UseProfiles o' \<noteq> None then merged3\<lparr>def_UseProfiles := def_UseProfiles o'\<rparr> else merged3);
                    merged5 = (if def_Value o' \<noteq> VNil then merged4\<lparr>def_Value := mergeDefaultsEntry (def_Value merged4) (def_Value o')\<rparr>
                               else merged4)
                in keep merged5))"

fun apply_profiles :: "fields \<Rightarrow> string list \<Rightarrow> fields \<Rightarrow> fields result" where
  "apply_profiles profiles [] current = Ok current"
| "apply_profiles profiles (profileName # names) current =
     (case map_get profiles profileName of
        None \<Rightarrow> Err (Invalid (''resource.defaults.useProfiles references unknown profile %q'', [profileName]) None)
      | Some entry \<Rightarrow>
          (case defaultsEntryObject entry (''resource.defaults.profiles.'' @ profileName) of
             Err e \<Rightarrow> Err e
           | Ok profileValue \<Rightarrow>
               (case MergeWithDefaults (VMap current) (object_value profileValue) of
                  Err e \<Rightarrow> Err e
                | Ok (VMap merged) \<Rightarrow> apply_profiles profiles names merged
                | Ok _ \<Rightarrow> apply_profiles profiles names [])))"

definition ResolveEffectiveDefaults :: "DefaultsSpec option \<Rightarrow> gval result" where
  "ResolveEffectiveDefaults spec =
     (case spec of
        None \<Rightarrow> Ok (VMap [])
      | Some d \<Rightarrow>
          (case defaultsEntryObject (def_Value d) ''resource.defaults.value'' of
             Err e \<Rightarrow> Err e
           | Ok current \<Rightarrow>
               (case apply_profiles (case def_Profiles d of None \<Rightarrow> [] | Some ps \<Rightarrow> ps)
                       (case def_UseProfiles d of None \<Rightarrow> [] | Some ns \<Rightarrow> ns) (case current of None \<Rightarrow> [] | Some m \<Rightarrow> m) of
                  Err e \<Rightarrow> Err e
                | Ok merged \<Rightarrow>
                    (case Normalize (VMap merged) of Err e \<Rightarrow> Err e | Ok VNil \<Rightarrow> Ok (VMap []) | Ok v \<Rightarrow> Ok v))))"

section \<open>Copies\<close>

definition CloneSelectorSpec :: "SelectorSpec option \<Rightarrow> SelectorSpec option" where
  "CloneSelectorSpec s = map_option (\<lambda>spec. \<lparr>Descendants = Descendants spec\<rparr>) s"

definition cloneExternalizedAttributes :: "ExternalizedAttribute list option \<Rightarrow> ExternalizedAttribute list option" where
  "cloneExternalizedAttributes values =
     map_option (map (\<lambda>v. \<lparr>ext_Path = ext_Path v, ext_File = ext_File v, ext_Template = ext_Template v, ext_Mode = ext_Mode v,
       ext_SaveBehavior = ext_SaveBehavior v, ext_RenderBehavior = ext_RenderBehavior v, ext_Enabled = ext_Enabled v\<rparr>)) values"

definition cloneOperationValidationSpec :: "OperationValidationSpec option \<Rightarrow> OperationValidationSpec option" where
  "cloneOperationValidationSpec v =
     map_option (\<lambda>v. \<lparr>val_RequiredAttributes = val_RequiredAttributes v, val_Assertions = val_Assertions v, val_SchemaRef = val_SchemaRef v\<rparr>) v"

definition clone_operation :: "OperationSpec \<Rightarrow> OperationSpec" where
  "clone_operation v = \<lparr>op_Method = op_Method v, op_Path = op_Path v, op_Query = op_Query v, op_Headers = op_Headers v,
     op_Accept = op_Accept v, op_ContentType = op_ContentType v, op_Body = DeepCopyValue (op_Body v),
     op_Transforms = map_option CloneTransformSteps (op_Transforms v), op_Validate = cloneOperationValidationSpec (op_Validate v)\<rparr>"

definition cloneOperationMap :: "(string, OperationSpec) gomap option \<Rightarrow> (string, OperationSpec) gomap option" where
  "cloneOperationMap values = map_option (map (\<lambda>(key, v). (key, clone_operation v))) values"

definition CloneResourceMetadata :: "ResourceMetadata \<Rightarrow> ResourceMetadata" where
  "CloneResourceMetadata v = \<lparr>md_Selector = CloneSelectorSpec (md_Selector v), md_ID = md_ID v, md_Alias = md_Alias v,
     md_RequiredAttributes = md_RequiredAttributes v, md_RemoteCollectionPath = md_RemoteCollectionPath v, md_Format = md_Format v,
     md_Defaults = CloneDefaultsSpec (md_Defaults v), md_Secret = md_Secret v, md_SecretAttributes = md_SecretAttributes v,
     md_ExternalizedAttributes = cloneExternalizedAttributes (md_ExternalizedAttributes v),
     md_Operations = Some (case md_Operations v of None \<Rightarrow> [] | Some ops \<Rightarrow> map (\<lambda>(key, o'). (key, clone_operation o')) ops),
     md_Transforms = map_option CloneTransformSteps (md_Transforms v)\<rparr>"

definition HasResourceMetadataDirectives :: "ResourceMetadata \<Rightarrow> bool" where
  "HasResourceMetadataDirectives v \<longleftrightarrow> trim_space (md_ID v) \<noteq> [] \<or> trim_space (md_Alias v) \<noteq> [] \<or> md_RequiredAttributes v \<noteq> None
     \<or> trim_space (md_RemoteCollectionPath v) \<noteq> [] \<or> trim_space (md_Format v) \<noteq> [] \<or> HasDefaultsSpecDirectives (md_Defaults v)
     \<or> md_Secret v \<noteq> None \<or> md_SecretAttributes v \<noteq> None \<or> md_ExternalizedAttributes v \<noteq> None \<or> md_Operations v \<noteq> None
     \<or> md_Transforms v \<noteq> None"

section \<open>Merging\<close>

definition over_text :: "string \<Rightarrow> string \<Rightarrow> string" where
  "over_text base overlay = (if overlay \<noteq> [] then overlay else base)"

definition over_option :: "'a option \<Rightarrow> 'a option \<Rightarrow> 'a option" where
  "over_option base overlay = (if overlay \<noteq> None then overlay else base)"

definition merge_string_map :: "string_map option \<Rightarrow> string_map option \<Rightarrow> string_map option" where
  "merge_string_map base overlay =
     (case overlay of
        None \<Rightarrow> base
      | Some m \<Rightarrow>
          if m = [] then Some []
          else Some (fold (\<lambda>(key, v). map_put key v) m (case base of None \<Rightarrow> [] | Some b \<Rightarrow> b)))"

definition mergeOperationValidationSpec ::
  "OperationValidationSpec option \<Rightarrow> OperationValidationSpec option \<Rightarrow> OperationValidationSpec option" where
  "mergeOperationValidationSpec base overlay =
     (if base = None \<and> overlay = None then None
      else case overlay of
             None \<Rightarrow> cloneOperationValidationSpec base
           | Some o' \<Rightarrow>
               (let merged = (case cloneOperationValidationSpec base of None \<Rightarrow> no_validation | Some b \<Rightarrow> b)
                in Some \<lparr>val_RequiredAttributes = over_option (val_RequiredAttributes merged) (val_RequiredAttributes o'),
                         val_Assertions = over_option (val_Assertions merged) (val_Assertions o'),
                         val_SchemaRef = over_text (val_SchemaRef merged) (val_SchemaRef o')\<rparr>))"

definition MergeOperationSpec :: "OperationSpec \<Rightarrow> OperationSpec \<Rightarrow> OperationSpec" where
  "MergeOperationSpec base overlay =
     (let merged = clone_operation base in
      \<lparr>op_Method = over_text (op_Method merged) (op_Method overlay),
       op_Path = over_text (op_Path merged) (op_Path overlay),
       op_Query = merge_string_map (op_Query merged) (op_Query overlay),
       op_Headers = merge_string_map (op_Headers merged) (op_Headers overlay),
       op_Accept = over_text (op_Accept merged) (op_Accept overlay),
       op_ContentType = over_text (op_ContentType merged) (op_ContentType overlay),
       op_Body = (if op_Body overlay \<noteq> VNil then op_Body overlay else op_Body merged),
       op_Transforms = over_option (op_Transforms merged) (map_option CloneTransformSteps (op_Transforms overlay)),
       op_Validate = mergeOperationValidationSpec (op_Validate merged) (op_Validate overlay)\<rparr>)"

definition merge_operation :: "string \<times> OperationSpec \<Rightarrow> (string, OperationSpec) gomap \<Rightarrow> (string, OperationSpec) gomap" where
  "merge_operation p ops =
     map_put (fst p) (MergeOperationSpec (case map_get ops (fst p) of None \<Rightarrow> no_operation | Some b \<Rightarrow> b) (snd p)) ops"

definition merge_operations ::
  "(string, OperationSpec) gomap option \<Rightarrow> (string, OperationSpec) gomap option \<Rightarrow> (string, OperationSpec) gomap option" where
  "merge_operations base overlay =
     (case overlay of
        None \<Rightarrow> base
      | Some ops \<Rightarrow> Some (fold merge_operation ops (case base of None \<Rightarrow> [] | Some b \<Rightarrow> b)))"

definition MergeResourceMetadata :: "ResourceMetadata \<Rightarrow> ResourceMetadata \<Rightarrow> ResourceMetadata" where
  "MergeResourceMetadata base overlay =
     \<lparr>md_Selector = None,
      md_ID = over_text (md_ID base) (md_ID overlay),
      md_Alias = over_text (md_Alias base) (md_Alias overlay),
      md_RequiredAttributes = over_option (md_RequiredAttributes base) (md_RequiredAttributes overlay),
      md_RemoteCollectionPath = over_text (md_RemoteCollectionPath base) (md_RemoteCollectionPath overlay),
      md_Format = over_text (md_Format base) (md_Format overlay),
      md_Defaults = MergeDefaultsSpec (CloneDefaultsSpec (md_Defaults base)) (md_Defaults overlay),
      md_Secret = over_option (md_Secret base) (md_Secret overlay),
      md_SecretAttributes = over_option (md_SecretAttributes base) (md_SecretAttributes overlay),
      md_ExternalizedAttributes = over_option (cloneExternalizedAttributes (md_ExternalizedAttributes base))
        (cloneExternalizedAttributes (md_ExternalizedAttributes overlay)),
      md_Operations = merge_operations (cloneOperationMap (md_Operations base)) (md_Operations overlay),
      md_Transforms = over_option (map_option CloneTransformSteps (md_Transforms base))
        (map_option CloneTransformSteps (md_Transforms overlay))\<rparr>"

section \<open>Copies are copies\<close>

named_theorems metadata_copy

lemma cloneDefaultsEntry_id [simp, metadata_copy]: "cloneDefaultsEntry v = v"
  by (simp add: cloneDefaultsEntry_def)

lemma CloneDefaultsSpec_id [simp, metadata_copy]: "CloneDefaultsSpec s = s"
  by (cases s) (auto simp: CloneDefaultsSpec_def option.map_id)

lemma CloneTransformSteps_id [simp, metadata_copy]: "CloneTransformSteps s = s"
  by (auto simp: CloneTransformSteps_def intro: map_idI)

lemma CloneTransformSteps_opt [simp, metadata_copy]: "map_option CloneTransformSteps s = s"
  by (cases s) auto

lemma CloneSelectorSpec_id [simp, metadata_copy]: "CloneSelectorSpec s = s"
  by (cases s) (auto simp: CloneSelectorSpec_def)

lemma cloneExternalizedAttributes_id [simp, metadata_copy]: "cloneExternalizedAttributes s = s"
  by (cases s) (auto simp: cloneExternalizedAttributes_def intro: map_idI)

lemma cloneOperationValidationSpec_id [simp, metadata_copy]: "cloneOperationValidationSpec s = s"
  by (cases s) (auto simp: cloneOperationValidationSpec_def)

lemma clone_operation_id [simp, metadata_copy]: "clone_operation v = v"
  by (simp add: clone_operation_def)

lemma cloneOperationMap_id [simp, metadata_copy]: "cloneOperationMap s = s"
  by (cases s) (auto simp: cloneOperationMap_def)

lemma CloneResourceMetadata_eq:
  "CloneResourceMetadata m = m\<lparr>md_Operations := Some (case md_Operations m of None \<Rightarrow> [] | Some ops \<Rightarrow> ops)\<rparr>"
  by (cases m) (auto simp: CloneResourceMetadata_def split: option.split)

section \<open>The deepest layer decides\<close>

text \<open>The metadata of a path is the merge of its layers, from the root to the resource.\<close>

definition merge_layers :: "ResourceMetadata list \<Rightarrow> ResourceMetadata" where
  "merge_layers layers = foldl MergeResourceMetadata no_metadata layers"

text \<open>What a reader expects: the layers are searched from the deepest, and the search for an entry of a map ends at a
  layer that clears the map.\<close>

fun deepest :: "('a \<Rightarrow> bool) \<Rightarrow> 'a \<Rightarrow> 'a list \<Rightarrow> 'a" where
  "deepest unset z [] = z"
| "deepest unset z (x # xs) = (if unset x then deepest unset z xs else x)"

abbreviation deepest_text :: "string list \<Rightarrow> string" where
  "deepest_text \<equiv> deepest (\<lambda>s. s = []) []"

abbreviation deepest_option :: "'a option list \<Rightarrow> 'a option" where
  "deepest_option \<equiv> deepest (\<lambda>x. x = None) None"

fun deepest_entry :: "string \<Rightarrow> string_map option list \<Rightarrow> string option" where
  "deepest_entry key [] = None"
| "deepest_entry key (None # maps) = deepest_entry key maps"
| "deepest_entry key (Some m # maps) =
     (if m = [] then None else case map_get m key of Some v \<Rightarrow> Some v | None \<Rightarrow> deepest_entry key maps)"

definition operation_of :: "string \<Rightarrow> ResourceMetadata \<Rightarrow> OperationSpec" where
  "operation_of key m =
     (case md_Operations m of None \<Rightarrow> no_operation
      | Some ops \<Rightarrow> (case map_get ops key of None \<Rightarrow> no_operation | Some o' \<Rightarrow> o'))"

lemma merge_layers_snoc: "merge_layers (layers @ [m]) = MergeResourceMetadata (merge_layers layers) m"
  by (simp add: merge_layers_def)

lemma fold_put_get:
  "sorted_map m \<Longrightarrow> map_get (fold (\<lambda>(k, v). map_put k v) m acc) k = (case map_get m k of None \<Rightarrow> map_get acc k | Some v \<Rightarrow> Some v)"
proof (induction m arbitrary: acc)
  case (Cons p m)
  obtain k' v where p: "p = (k', v)" by fastforce
  have "map_get m k' = None" using Cons.prems sorted_map_get_head p by metis
  then show ?case using Cons.IH[of "map_put k' v acc"] Cons.prems p by (auto simp: sorted_map_Cons split: option.split)
qed simp

definition entry_of :: "string \<Rightarrow> string_map option \<Rightarrow> string option" where
  "entry_of key m = (case m of None \<Rightarrow> None | Some m \<Rightarrow> map_get m key)"

lemma entry_merge_string_map:
  assumes "\<forall>m. overlay = Some m \<longrightarrow> sorted_map m"
  shows "entry_of key (merge_string_map base overlay) =
    (case overlay of None \<Rightarrow> entry_of key base
     | Some m \<Rightarrow> if m = [] then None else case map_get m key of Some v \<Rightarrow> Some v | None \<Rightarrow> entry_of key base)"
proof (cases overlay)
  case (Some m)
  show ?thesis
  proof (cases "m = []")
    case False
    then show ?thesis using Some assms
      by (cases base; cases "map_get m key") (simp_all add: merge_string_map_def entry_of_def fold_put_get)
  qed (simp add: Some merge_string_map_def entry_of_def)
qed (simp add: merge_string_map_def)

lemma merge_operations_get:
  assumes "sorted_map ops"
  shows "map_get (fold merge_operation ops acc) key =
    (case map_get ops key of None \<Rightarrow> map_get acc key
     | Some o' \<Rightarrow> Some (MergeOperationSpec (case map_get acc key of None \<Rightarrow> no_operation | Some b \<Rightarrow> b) o'))"
  using assms
proof (induction ops arbitrary: acc)
  case (Cons p ops)
  obtain k o1 where p: "p = (k, o1)" by fastforce
  have "map_get ops k = None" using Cons.prems sorted_map_get_head p by metis
  then show ?case using Cons.IH[of "merge_operation p acc"] Cons.prems p
    by (cases "key = k") (simp_all add: sorted_map_Cons merge_operation_def split: option.split)
qed simp

lemma merge_no_operation [simp]: "MergeOperationSpec b no_operation = b"
  by (cases b) (simp add: MergeOperationSpec_def no_operation_def over_text_def over_option_def merge_string_map_def
      mergeOperationValidationSpec_def Let_def split: option.split)

lemma operation_of_merge:
  assumes "\<forall>ops. md_Operations m = Some ops \<longrightarrow> sorted_map ops"
  shows "operation_of key (MergeResourceMetadata b m) = MergeOperationSpec (operation_of key b) (operation_of key m)"
  using assms
  by (cases "md_Operations m"; cases "md_Operations b")
    (auto simp: operation_of_def MergeResourceMetadata_def merge_operations_def merge_operations_get split: option.split)

text \<open>The maps of metadata are Go maps.\<close>

definition wf_metadata :: "ResourceMetadata \<Rightarrow> bool" where
  "wf_metadata m \<longleftrightarrow> (\<forall>ops. md_Operations m = Some ops \<longrightarrow> sorted_map ops \<and>
     (\<forall>o' \<in> snd ` set ops. \<forall>q. op_Query o' = Some q \<or> op_Headers o' = Some q \<longrightarrow> sorted_map q))"

lemma wf_operation_of:
  assumes "wf_metadata m"
  shows "\<forall>q. op_Query (operation_of key m) = Some q \<longrightarrow> sorted_map q" "\<forall>q. op_Headers (operation_of key m) = Some q \<longrightarrow> sorted_map q"
proof -
  have "\<forall>q. op_Query (operation_of key m) = Some q \<or> op_Headers (operation_of key m) = Some q \<longrightarrow> sorted_map q"
  proof (cases "\<exists>ops o'. md_Operations m = Some ops \<and> map_get ops key = Some o'")
    case True
    then obtain ops o' where o: "md_Operations m = Some ops" "map_get ops key = Some o'" by blast
    then have "o' \<in> snd ` set ops" by (force dest: map_of_SomeD)
    then show ?thesis using assms o by (auto simp: operation_of_def wf_metadata_def)
  qed (auto simp: operation_of_def no_operation_def split: option.split)
  then show "\<forall>q. op_Query (operation_of key m) = Some q \<longrightarrow> sorted_map q" "\<forall>q. op_Headers (operation_of key m) = Some q \<longrightarrow> sorted_map q"
    by simp_all
qed

lemma deepest_snoc:
  "deepest unset z (rev (map f (layers @ [m]))) = (if unset (f m) then deepest unset z (rev (map f layers)) else f m)"
  by simp

lemma deepest_field:
  assumes "g no_metadata = z" "\<And>b m. g (MergeResourceMetadata b m) = (if unset (g m) then g b else g m)"
  shows "g (merge_layers layers) = deepest unset z (rev (map g layers))"
  by (induction layers rule: rev_induct) (use assms in \<open>simp_all add: merge_layers_snoc merge_layers_def[of "[]"]\<close>)

lemma deepest_operation_field:
  assumes "\<forall>m \<in> set layers. wf_metadata m" "g no_operation = z"
    and "\<And>b m. g (MergeOperationSpec b m) = (if unset (g m) then g b else g m)"
  shows "g (operation_of key (merge_layers layers)) = deepest unset z (rev (map (\<lambda>m. g (operation_of key m)) layers))"
  using assms(1)
proof (induction layers rule: rev_induct)
  case Nil
  then show ?case using assms(2) by (simp add: merge_layers_def operation_of_def no_metadata_def)
next
  case (snoc m layers)
  then have "\<forall>ops. md_Operations m = Some ops \<longrightarrow> sorted_map ops" by (simp add: wf_metadata_def)
  then show ?case using snoc assms(3) by (simp add: merge_layers_snoc operation_of_merge)
qed

lemma deepest_operation_entry:
  assumes "\<forall>m \<in> set layers. wf_metadata m" "g no_operation = None"
    and "\<And>b m. g (MergeOperationSpec b m) = merge_string_map (g b) (g m)"
    and "\<And>m. m \<in> set layers \<Longrightarrow> \<forall>q. g (operation_of key m) = Some q \<longrightarrow> sorted_map q"
  shows "entry_of name (g (operation_of key (merge_layers layers))) = deepest_entry name (rev (map (\<lambda>m. g (operation_of key m)) layers))"
  using assms(1,4)
proof (induction layers rule: rev_induct)
  case Nil
  then show ?case using assms(2) by (simp add: merge_layers_def operation_of_def no_metadata_def entry_of_def)
next
  case (snoc m layers)
  then have "\<forall>ops. md_Operations m = Some ops \<longrightarrow> sorted_map ops" by (simp add: wf_metadata_def)
  then have "g (operation_of key (merge_layers (layers @ [m]))) =
      merge_string_map (g (operation_of key (merge_layers layers))) (g (operation_of key m))"
    by (simp add: merge_layers_snoc operation_of_merge assms(3))
  moreover have "entry_of name (g (operation_of key (merge_layers layers))) = deepest_entry name (rev (map (\<lambda>m. g (operation_of key m)) layers))"
    by (rule snoc.IH) (use snoc.prems in auto)
  moreover have "\<forall>q. g (operation_of key m) = Some q \<longrightarrow> sorted_map q" using snoc.prems(2)[of m] by simp
  ultimately show ?case by (cases "g (operation_of key m)") (simp_all add: entry_merge_string_map split: option.split)
qed

lemmas metadata_merge = MergeResourceMetadata_def no_metadata_def MergeOperationSpec_def no_operation_def over_text_def over_option_def

lemma deepest_directives:
  "md_ID (merge_layers layers) = deepest_text (rev (map md_ID layers))"
  "md_Alias (merge_layers layers) = deepest_text (rev (map md_Alias layers))"
  "md_RemoteCollectionPath (merge_layers layers) = deepest_text (rev (map md_RemoteCollectionPath layers))"
  "md_Format (merge_layers layers) = deepest_text (rev (map md_Format layers))"
  "md_RequiredAttributes (merge_layers layers) = deepest_option (rev (map md_RequiredAttributes layers))"
  "md_Secret (merge_layers layers) = deepest_option (rev (map md_Secret layers))"
  "md_SecretAttributes (merge_layers layers) = deepest_option (rev (map md_SecretAttributes layers))"
  "md_ExternalizedAttributes (merge_layers layers) = deepest_option (rev (map md_ExternalizedAttributes layers))"
  "md_Transforms (merge_layers layers) = deepest_option (rev (map md_Transforms layers))"
  by (rule deepest_field; simp add: metadata_merge)+

lemma deepest_operation_directives:
  assumes "\<forall>m \<in> set layers. wf_metadata m"
  shows "op_Method (operation_of key (merge_layers layers)) = deepest_text (rev (map (\<lambda>m. op_Method (operation_of key m)) layers))"
    "op_Path (operation_of key (merge_layers layers)) = deepest_text (rev (map (\<lambda>m. op_Path (operation_of key m)) layers))"
    "op_Accept (operation_of key (merge_layers layers)) = deepest_text (rev (map (\<lambda>m. op_Accept (operation_of key m)) layers))"
    "op_ContentType (operation_of key (merge_layers layers)) = deepest_text (rev (map (\<lambda>m. op_ContentType (operation_of key m)) layers))"
    "op_Body (operation_of key (merge_layers layers)) = deepest (\<lambda>v. v = VNil) VNil (rev (map (\<lambda>m. op_Body (operation_of key m)) layers))"
  by (rule deepest_operation_field[OF assms]; simp add: metadata_merge Let_def)+

lemma deepest_operation_entries:
  assumes "\<forall>m \<in> set layers. wf_metadata m"
  shows "entry_of name (op_Query (operation_of key (merge_layers layers))) = deepest_entry name (rev (map (\<lambda>m. op_Query (operation_of key m)) layers))"
    "entry_of name (op_Headers (operation_of key (merge_layers layers))) = deepest_entry name (rev (map (\<lambda>m. op_Headers (operation_of key m)) layers))"
proof -
  have w: "wf_metadata m" if "m \<in> set layers" for m using assms that by blast
  show "entry_of name (op_Query (operation_of key (merge_layers layers))) = deepest_entry name (rev (map (\<lambda>m. op_Query (operation_of key m)) layers))"
    by (rule deepest_operation_entry[OF assms]) (use wf_operation_of(1)[OF w] in \<open>simp_all add: metadata_merge Let_def\<close>)
  show "entry_of name (op_Headers (operation_of key (merge_layers layers))) = deepest_entry name (rev (map (\<lambda>m. op_Headers (operation_of key m)) layers))"
    by (rule deepest_operation_entry[OF assms]) (use wf_operation_of(2)[OF w] in \<open>simp_all add: metadata_merge Let_def\<close>)
qed


section \<open>Modes of defaults\<close>

text \<open>A layer whose mode is \<open>replace\<close> cuts off everything that was inherited; one whose mode is \<open>ignore\<close> cuts
  off the inherited value and the inherited selection of profiles, and keeps the inherited profiles for its own use.\<close>

theorem defaults_modes:
  assumes "trim_space (def_Mode o') = mode"
  shows "(mode = ''replace'' \<longrightarrow> MergeDefaultsSpec base (Some o') = MergeDefaultsSpec None (Some o'))
    \<and> (mode = ''ignore'' \<longrightarrow> (\<exists>d. MergeDefaultsSpec base (Some o') = Some d
          \<and> def_Value d = (if def_Value o' = VNil then VNil else mergeDefaultsEntry VNil (def_Value o')) \<and> def_UseProfiles d = def_UseProfiles o'
          \<and> (\<forall>b. base = Some b \<and> def_Profiles o' = None \<longrightarrow> def_Profiles d = def_Profiles b)))"
proof (intro conjI impI)
  assume m: "mode = ''replace''"
  have v: "ValidateDefaultsMode (def_Mode o') = Ok ''replace''" using assms m by (simp add: ValidateDefaultsMode_def)
  show "MergeDefaultsSpec base (Some o') = MergeDefaultsSpec None (Some o')"
  proof (cases base)
    case (Some b)
    then show ?thesis using v assms m by (cases b; cases "def_Profiles o'") (simp_all add: MergeDefaultsSpec_def no_defaults_def Let_def)
  qed simp
next
  assume m: "mode = ''ignore''"
  have v: "ValidateDefaultsMode (def_Mode o') = Ok ''ignore''" using assms m by (simp add: ValidateDefaultsMode_def)
  have ne: "trim_space ''ignore'' \<noteq> []" by code_simp
  show "\<exists>d. MergeDefaultsSpec base (Some o') = Some d
      \<and> def_Value d = (if def_Value o' = VNil then VNil else mergeDefaultsEntry VNil (def_Value o')) \<and> def_UseProfiles d = def_UseProfiles o'
      \<and> (\<forall>b. base = Some b \<and> def_Profiles o' = None \<longrightarrow> def_Profiles d = def_Profiles b)"
    using v assms m ne by (cases base) (auto simp: MergeDefaultsSpec_def no_defaults_def Let_def HasDefaultsSpecDirectives_def split: option.split)
qed

theorem defaults_modes_witness:
  "MergeDefaultsSpec (Some \<lparr>def_Mode = [], def_UseProfiles = Some [''prod''], def_Value = VMap [(''a'', VString ''1'')], def_Profiles = None\<rparr>)
     (Some \<lparr>def_Mode = ''replace'', def_UseProfiles = None, def_Value = VMap [(''b'', VString ''2'')], def_Profiles = None\<rparr>)
   = Some \<lparr>def_Mode = ''replace'', def_UseProfiles = None, def_Value = VMap [(''b'', VString ''2'')], def_Profiles = None\<rparr>"
proof -
  let ?o = "\<lparr>def_Mode = ''replace'', def_UseProfiles = None, def_Value = VMap [(''b'', VString ''2'')], def_Profiles = None\<rparr>"
  have t: "trim_space (def_Mode ?o) = ''replace''" by code_simp
  have n: "MergeDefaultsSpec None (Some ?o) = Some ?o" by code_simp
  show ?thesis using defaults_modes[OF t] n by simp
qed

text \<open>The profiles that a resource selects override its own defaults value.\<close>

theorem profiles_override_value:
  "ResolveEffectiveDefaults (Some \<lparr>def_Mode = [], def_UseProfiles = Some [''prod''], def_Value = VMap [(''size'', VString ''own'')],
     def_Profiles = Some [(''prod'', VMap [(''size'', VString ''profile'')])]\<rparr>) = Ok (VMap [(''size'', VString ''profile'')])"
  by code_simp

definition header_layer :: "string_map \<Rightarrow> ResourceMetadata" where
  "header_layer headers = no_metadata\<lparr>md_Operations := Some [(''get'', no_operation\<lparr>op_Headers := Some headers\<rparr>)]\<rparr>"


end
