(* ===== verification/Resource_Paths.thy ===== *)
theory Resource_Paths
  imports Go_Path Contracts
begin

text \<open>
  Logical paths (src/resource/paths.go): the absolute, slash-separated names that tie repository
  files to remote resources.  \<open>CleanRawPath\<close> and \<open>NormalizeLogicalPath\<close> bring a path to normal
  form or reject it, \<open>HasLogicalPathOverlap\<close>, \<open>ChildSegment\<close> and \<open>JoinLogicalPath\<close> relate
  normalised paths.  The lemmas show that a normal form is a rooted path of plain segments and is
  stable, and that the string comparisons decide the prefix order on segment lists.
\<close>

record RawPathParseOptions =
  AllowMissingLeadingSlash :: bool

record ParsedRawPath =
  Raw :: string
  Normalized :: string
  Segments :: "string list"
  ExplicitCollectionTarget :: bool

abbreviation slash :: char where "slash \<equiv> CHR ''/''"
abbreviation backslash :: char where "backslash \<equiv> CHR 0x5C"

definition CleanRawPath :: "string \<Rightarrow> string result" where
  "CleanRawPath value =
     (if trim_space value = [] then Err (Invalid (msg ''logical path must not be empty'') None)
      else let normalizedInput = replace_all value [backslash] ''/'' in
        if \<not> prefix ''/'' normalizedInput
        then Err (Invalid (msg ''logical path must be absolute'') None)
        else if list_ex (\<lambda>segment. segment = ''..'') (split_on slash normalizedInput)
        then Err (Invalid (msg ''logical path must not contain traversal segments'') None)
        else let cleaned = path_clean normalizedInput in
          if \<not> prefix ''/'' cleaned
          then Err (Invalid (msg ''logical path must be absolute'') None)
          else Ok (if cleaned \<noteq> ''/'' then trim_suffix cleaned ''/'' else cleaned))"

text \<open>The loop of \<open>SplitRawPathSegments\<close>: a slash inside an open template does not separate.\<close>

fun split_raw_loop :: "nat \<Rightarrow> string \<Rightarrow> string list \<Rightarrow> string \<Rightarrow> string list" where
  "split_raw_loop templateDepth current segments [] =
     (if current \<noteq> [] then segments @ [current] else segments)"
| "split_raw_loop templateDepth current segments (c # cs) =
     (if c = CHR ''{'' \<and> cs \<noteq> [] \<and> hd cs = CHR ''{''
      then split_raw_loop (Suc templateDepth) (current @ ''{{'') segments (tl cs)
      else if c = CHR ''}'' \<and> cs \<noteq> [] \<and> hd cs = CHR ''}'' \<and> templateDepth > 0
      then split_raw_loop (templateDepth - 1) (current @ ''}}'') segments (tl cs)
      else if c = slash \<and> templateDepth = 0
      then split_raw_loop templateDepth [] (segments @ [current]) cs
      else split_raw_loop templateDepth (current @ [c]) segments cs)"

definition SplitRawPathSegments :: "string \<Rightarrow> string list" where
  "SplitRawPathSegments value =
     (let trimmed = trim_char (trim_space value) slash
      in if trimmed = [] then [] else split_raw_loop 0 [] [] trimmed)"

definition ParseRawPathWithOptions :: "string \<Rightarrow> RawPathParseOptions \<Rightarrow> ParsedRawPath result" where
  "ParseRawPathWithOptions value options =
     (let trimmed = trim_space value in
      if trimmed = [] then Err (Invalid (msg ''logical path must not be empty'') None)
      else
        let normalizedInput = replace_all trimmed [backslash] ''/'';
            explicitCollectionTarget = (normalizedInput \<noteq> ''/'' \<and> suffix ''/'' normalizedInput);
            input = (if AllowMissingLeadingSlash options \<and> \<not> prefix ''/'' normalizedInput
                     then ''/'' @ normalizedInput else normalizedInput)
        in case CleanRawPath input of
             Err e \<Rightarrow> Err e
           | Ok normalized \<Rightarrow>
               Ok \<lparr> Raw = trimmed,
                    Normalized = normalized,
                    Segments = SplitRawPathSegments normalized,
                    ExplicitCollectionTarget = (if normalized = ''/'' then False
                                                else explicitCollectionTarget) \<rparr>)"

definition HasExplicitCollectionTarget :: "string \<Rightarrow> bool" where
  "HasExplicitCollectionTarget value =
     (case ParseRawPathWithOptions value \<lparr>AllowMissingLeadingSlash = False\<rparr> of
        Err e \<Rightarrow> False | Ok parsed \<Rightarrow> ExplicitCollectionTarget parsed)"

definition NormalizeLogicalPath :: "string \<Rightarrow> string result" where
  "NormalizeLogicalPath value =
     (case CleanRawPath value of
        Err e \<Rightarrow> Err e
      | Ok cleaned \<Rightarrow>
          if list_ex (\<lambda>segment. segment = ''_'') (SplitRawPathSegments cleaned)
          then Err (Invalid (msg ''logical path must not contain reserved metadata segment \"_\"'') None)
          else Ok cleaned)"

definition overlapBoundaryMatch :: "string \<Rightarrow> string \<Rightarrow> bool" where
  "overlapBoundaryMatch candidate pre =
     (if pre = ''/'' then True
      else if length candidate \<le> length pre then False
      else candidate ! length pre = slash)"

definition HasLogicalPathOverlap :: "string \<Rightarrow> string \<Rightarrow> bool result" where
  "HasLogicalPathOverlap a b =
     (case NormalizeLogicalPath a of
        Err e \<Rightarrow> Err e
      | Ok left \<Rightarrow>
          (case NormalizeLogicalPath b of
             Err e \<Rightarrow> Err e
           | Ok right \<Rightarrow>
               if left = right then Ok True
               else if prefix right left \<and> overlapBoundaryMatch left right then Ok True
               else if prefix left right \<and> overlapBoundaryMatch right left then Ok True
               else Ok False))"

definition normalizeLogicalPathSegment :: "string \<Rightarrow> string result" where
  "normalizeLogicalPathSegment segment =
     (let trimmedSegment = trim_space segment in
      if trimmedSegment = [] then Err (Invalid (msg ''logical path segment must not be empty'') None)
      else if trimmedSegment = ''.'' \<or> trimmedSegment = ''..''
      then Err (Invalid (msg ''logical path segment must not contain traversal segments'') None)
      else if trimmedSegment = ''_''
      then Err (Invalid (msg ''logical path segment must not contain reserved metadata segment \"_\"'') None)
      else if slash \<in> set trimmedSegment \<or> backslash \<in> set trimmedSegment
      then Err (Invalid (msg ''logical path segment must not contain path separators'') None)
      else Ok trimmedSegment)"

definition ValidateLogicalPathSegment :: "string \<Rightarrow> go_error option" where
  "ValidateLogicalPathSegment segment =
     (case normalizeLogicalPathSegment segment of Err e \<Rightarrow> Some e | Ok _ \<Rightarrow> None)"

definition JoinLogicalPath :: "string \<Rightarrow> string \<Rightarrow> string result" where
  "JoinLogicalPath collectionPath segment =
     (let trimmedSegment = trim_space segment in
      if trimmedSegment = [] then Err (Invalid (msg ''logical path segment must not be empty'') None)
      else let joined = path_join collectionPath trimmedSegment in
        NormalizeLogicalPath (if prefix ''/'' joined then joined else ''/'' @ joined))"

definition SplitLogicalPathSegments :: "string \<Rightarrow> string list" where
  "SplitLogicalPathSegments value =
     (case NormalizeLogicalPath value of
        Err e \<Rightarrow> []
      | Ok normalized \<Rightarrow>
          if normalized = ''/'' then [] else split_on slash (trim_prefix normalized ''/''))"

text \<open>\<open>ChildSegment\<close> returns \<open>("", false)\<close> for \<open>None\<close>.\<close>

definition ChildSegment :: "string \<Rightarrow> string \<Rightarrow> string option" where
  "ChildSegment parentPath candidatePath =
     (case NormalizeLogicalPath parentPath of
        Err e \<Rightarrow> None
      | Ok parent \<Rightarrow>
          (case NormalizeLogicalPath candidatePath of
             Err e \<Rightarrow> None
           | Ok candidate \<Rightarrow>
               if parent = ''/'' then
                 (let remaining = trim_prefix candidate ''/''
                  in if remaining = [] \<or> slash \<in> set remaining then None else Some remaining)
               else
                 (let parentPrefix = trim_suffix parent ''/'' in
                  if \<not> prefix (parentPrefix @ ''/'') candidate then None
                  else let remaining = trim_prefix candidate (parentPrefix @ ''/'')
                       in if remaining = [] \<or> slash \<in> set remaining then None else Some remaining)))"

section \<open>Normal forms\<close>

text \<open>What the normalising functions return: a rooted path of plain segments, no backslash.\<close>

definition normal_path :: "string list \<Rightarrow> bool" where
  "normal_path segs = (list_all plain_segment segs \<and> (\<forall>s\<in>set segs. backslash \<notin> set s))"

lemma normal_path_plain: "normal_path segs \<Longrightarrow> list_all plain_segment segs"
  by (simp add: normal_path_def)

lemma replace_backslash:
  "replace_all s [backslash] ''/'' = map (\<lambda>x. if x = backslash then slash else x) s"
  by (induction s) (simp_all add: replace_all_char)

lemma backslash_replace: "backslash \<notin> set (replace_all s [backslash] ''/'')"
  by (auto simp: replace_backslash)

lemma replace_backslash_id: "backslash \<notin> set s \<Longrightarrow> replace_all s [backslash] ''/'' = s"
  unfolding replace_backslash by (rule map_idI) auto

lemma suffix_slash_rooted:
  assumes "list_all plain_segment segs" and "segs \<noteq> []"
  shows "\<not> suffix ''/'' (rooted_path segs)"
proof -
  have "join_with ''/'' segs = join_with ''/'' (butlast segs @ [last segs])"
    using assms(2) by simp
  moreover have "last segs \<noteq> []" "slash \<notin> set (last segs)"
    using assms by (auto simp: list_all_iff plain_segment_def)
  moreover from this have "last (last segs) \<noteq> slash"
    by (metis last_in_set)
  ultimately have "rooted_path segs \<noteq> [] \<and> last (rooted_path segs) \<noteq> slash"
    by (cases "butlast segs = []") (auto simp: rooted_path_def join_with_append)
  then show ?thesis by (auto simp: suffix_def)
qed

lemma trim_suffix_rooted:
  "list_all plain_segment segs \<Longrightarrow> segs \<noteq> [] \<Longrightarrow> trim_suffix (rooted_path segs) ''/'' = rooted_path segs"
  by (simp add: trim_suffix_def suffix_slash_rooted)

lemma set_rooted_path: "normal_path segs \<Longrightarrow> backslash \<notin> set (rooted_path segs)"
  using set_join_with[of "''/''" segs] by (auto simp: rooted_path_def normal_path_def)

lemma CleanRawPath_Ok:
  assumes "CleanRawPath value = Ok p"
  shows "\<exists>segs. normal_path segs \<and> p = rooted_path segs \<and>
           segs = filter (\<lambda>x. x \<noteq> [] \<and> x \<noteq> ''.'') (split_on slash (replace_all value [backslash] ''/''))"
proof -
  define s where "s = replace_all value [backslash] ''/''"
  define segs where "segs = filter (\<lambda>x. x \<noteq> [] \<and> x \<noteq> ''.'') (split_on slash s)"
  from assms have s: "prefix ''/'' s" "''..'' \<notin> set (split_on slash s)"
    and p: "p = (if path_clean s \<noteq> ''/'' then trim_suffix (path_clean s) ''/'' else path_clean s)"
    by (auto simp: CleanRawPath_def s_def Let_def list_ex_iff split: if_splits)
  have clean: "path_clean s = rooted_path segs"
    using s by (simp add: path_clean_rooted clean_segments_no_dotdot segs_def)
  have plain: "list_all plain_segment segs"
    using s(2) split_on_segment by (auto simp: segs_def list_all_iff plain_segment_def)
  have "normal_path segs"
    using plain backslash_replace[of "value"] split_on_set[of _ slash s]
    by (auto simp: normal_path_def segs_def s_def)
  moreover have "p = rooted_path segs"
    using p plain by (auto simp: clean rooted_path_root trim_suffix_rooted)
  ultimately show ?thesis by (auto simp: segs_def s_def)
qed

lemma CleanRawPath_rooted [go_norm]:
  assumes "normal_path segs"
  shows "CleanRawPath (rooted_path segs) = Ok (rooted_path segs)"
proof -
  have plain: "list_all plain_segment segs" using assms by (rule normal_path_plain)
  have "''..'' \<notin> set (split_on slash (rooted_path segs))"
    using plain by (auto simp: split_rooted_path list_all_iff plain_segment_def)
  moreover have "path_clean (rooted_path segs) = rooted_path segs"
    using plain by (rule path_clean_rooted_path)
  ultimately show ?thesis
    using assms plain trim_space_rooted_path[of segs]
    by (auto simp: CleanRawPath_def replace_backslash_id set_rooted_path list_ex_iff
        rooted_path_root trim_suffix_rooted Let_def)
qed

lemma NormalizeLogicalPath_Ok:
  assumes "NormalizeLogicalPath value = Ok p"
  shows "\<exists>segs. normal_path segs \<and> p = rooted_path segs \<and> ''_'' \<notin> set (SplitRawPathSegments p)"
  using assms CleanRawPath_Ok by (fastforce simp: NormalizeLogicalPath_def list_ex_iff split: result.splits if_splits)

lemma NormalizeLogicalPath_obtains:
  assumes "NormalizeLogicalPath value = Ok p"
  obtains segs where "normal_path segs" "p = rooted_path segs" "list_all plain_segment segs"
    "NormalizeLogicalPath p = Ok p"
proof -
  from NormalizeLogicalPath_Ok[OF assms] obtain segs
    where s: "normal_path segs" "p = rooted_path segs" "''_'' \<notin> set (SplitRawPathSegments p)" by blast
  then have "NormalizeLogicalPath p = Ok p"
    by (auto simp: NormalizeLogicalPath_def CleanRawPath_rooted list_ex_iff)
  with s that show ?thesis by (auto dest: normal_path_plain)
qed

lemma split_of_rooted:
  "list_all plain_segment segs \<Longrightarrow> segs \<noteq> [] \<Longrightarrow> split_on slash (trim_prefix (rooted_path segs) ''/'') = segs"
  by (auto simp: rooted_path_def trim_prefix_def split_join dest: plain_segments_no_slash)

lemma SplitLogicalPathSegments_rooted:
  assumes "NormalizeLogicalPath value = Ok (rooted_path segs)" and "list_all plain_segment segs"
  shows "SplitLogicalPathSegments value = segs"
  using assms by (auto simp: SplitLogicalPathSegments_def rooted_path_root split_of_rooted)

section \<open>The prefix order on rooted paths\<close>

lemma prefix_rooted_boundary:
  assumes "list_all plain_segment xs" and "list_all plain_segment ys" and "xs \<noteq> []"
  shows "prefix (rooted_path xs @ ''/'') (rooted_path ys) \<longleftrightarrow> (\<exists>zs. zs \<noteq> [] \<and> ys = xs @ zs)"
proof
  assume "prefix (rooted_path xs @ ''/'') (rooted_path ys)"
  then obtain t where t: "rooted_path ys = rooted_path xs @ slash # t" by (auto simp: prefix_def)
  have "split_on slash (rooted_path xs @ slash # t) = split_on slash (rooted_path xs) @ split_on slash t"
  proof -
    have "split_on slash (u @ slash # t) = split_on slash u @ split_on slash t" for u
    proof (induction u)
      case (Cons a u)
      then show ?case by (cases "split_on slash u") auto
    qed simp
    then show ?thesis .
  qed
  then have "split_on slash (rooted_path ys) = split_on slash (rooted_path xs) @ split_on slash t"
    by (simp add: t)
  then have "(if ys = [] then [[]] else ys) = xs @ split_on slash t"
    using assms by (simp add: split_rooted_path)
  with assms show "\<exists>zs. zs \<noteq> [] \<and> ys = xs @ zs"
    by (cases xs) (auto split: if_splits)
next
  assume "\<exists>zs. zs \<noteq> [] \<and> ys = xs @ zs"
  then obtain zs where "zs \<noteq> []" "ys = xs @ zs" by blast
  then show "prefix (rooted_path xs @ ''/'') (rooted_path ys)"
    using assms(3) by (simp add: rooted_path_def join_with_append)
qed

lemma overlap_boundary:
  assumes "list_all plain_segment xs" and "list_all plain_segment ys"
  shows "prefix (rooted_path xs) (rooted_path ys) \<and> overlapBoundaryMatch (rooted_path ys) (rooted_path xs)
           \<and> rooted_path xs \<noteq> rooted_path ys
         \<longleftrightarrow> (\<exists>zs. zs \<noteq> [] \<and> ys = xs @ zs)"
proof (cases "xs = []")
  case True
  then show ?thesis
    using assms rooted_path_root[of ys] by (auto simp: overlapBoundaryMatch_def rooted_path_def)
next
  case False
  have "prefix (rooted_path xs) (rooted_path ys) \<and> overlapBoundaryMatch (rooted_path ys) (rooted_path xs)
          \<longleftrightarrow> prefix (rooted_path xs @ ''/'') (rooted_path ys)"
    using False assms(1) by (auto simp: overlapBoundaryMatch_def rooted_path_root prefix_snoc_iff)
  moreover have "prefix (rooted_path xs @ ''/'') (rooted_path ys) \<Longrightarrow> rooted_path xs \<noteq> rooted_path ys"
    by (auto simp: prefix_def)
  ultimately show ?thesis
    using prefix_rooted_boundary[OF assms False] by blast
qed

interpretation logical_path: normalizer NormalizeLogicalPath
  by unfold_locales (auto elim: NormalizeLogicalPath_obtains)

lemma ChildSegment_rooted:
  assumes "NormalizeLogicalPath parent = Ok (rooted_path xs)" and "list_all plain_segment xs"
    and "NormalizeLogicalPath candidate = Ok (rooted_path ys)" and "list_all plain_segment ys"
  shows "ChildSegment parent candidate = Some s \<longleftrightarrow> ys = xs @ [s]"
proof -
  have rest: "remaining_ok (join_with ''/'' zs) \<longleftrightarrow> (\<exists>z. zs = [z])"
    if "list_all plain_segment zs" "remaining_ok = (\<lambda>r. r \<noteq> [] \<and> slash \<notin> set r)" for zs remaining_ok
    using that by (cases zs; cases "tl zs") (auto simp: plain_segment_def join_with_Cons)
  show ?thesis
  proof (cases "xs = []")
    case True
    have "trim_prefix (rooted_path ys) ''/'' = join_with ''/'' ys"
      by (simp add: rooted_path_def trim_prefix_def)
    then show ?thesis
      using assms True rest[OF assms(4) refl]
      by (auto simp: ChildSegment_def rooted_path_root Let_def split: if_splits)
  next
    case False
    have root: "rooted_path xs \<noteq> ''/''" using False assms(2) by (simp add: rooted_path_root)
    show ?thesis
    proof (cases "\<exists>zs. zs \<noteq> [] \<and> ys = xs @ zs")
      case True
      then obtain zs where zs: "zs \<noteq> []" "ys = xs @ zs" by blast
      have "prefix (rooted_path xs @ ''/'') (rooted_path ys)"
        using prefix_rooted_boundary[OF assms(2,4) False] True by blast
      moreover have "trim_prefix (rooted_path ys) (rooted_path xs @ ''/'') = join_with ''/'' zs"
        using zs False by (simp add: trim_prefix_def rooted_path_def join_with_append)
      moreover have "list_all plain_segment zs" using assms(4) zs by simp
      ultimately show ?thesis
        using assms False root zs rest[OF \<open>list_all plain_segment zs\<close> refl]
        by (auto simp: ChildSegment_def Let_def trim_suffix_rooted split: if_splits)
    next
      case no: False
      then have "\<not> prefix (rooted_path xs @ ''/'') (rooted_path ys)"
        using prefix_rooted_boundary[OF assms(2,4) False] by blast
      then show ?thesis
        using assms False root no by (auto simp: ChildSegment_def Let_def trim_suffix_rooted)
    qed
  qed
qed

section \<open>Properties\<close>

text \<open>C23: a path that \<open>NormalizeLogicalPath\<close> accepts is brought to a normal form: a rooted path
  of plain segments (none empty, \<open>.\<close>, \<open>..\<close> or holding a separator), which the function returns
  unchanged and which splits into exactly those segments.\<close>

theorem NormalizeLogicalPath_canonical:
  assumes "NormalizeLogicalPath value = Ok p"
  shows "NormalizeLogicalPath p = Ok p \<and>
         (\<exists>segs. p = rooted_path segs \<and> normal_path segs \<and> SplitLogicalPathSegments value = segs)"
proof -
  from assms obtain segs where s: "normal_path segs" "p = rooted_path segs"
    "list_all plain_segment segs" "NormalizeLogicalPath p = Ok p"
    by (rule NormalizeLogicalPath_obtains)
  with assms show ?thesis by (auto simp: SplitLogicalPathSegments_rooted)
qed

theorem NormalizeLogicalPath_canonical_witness:
  "NormalizeLogicalPath ''/corp//./acme/'' = Ok ''/corp/acme'' \<and>
   NormalizeLogicalPath ''/corp/acme'' = Ok ''/corp/acme''"
proof -
  have h: "NormalizeLogicalPath ''/corp//./acme/'' = Ok ''/corp/acme''" by code_simp
  show ?thesis using h NormalizeLogicalPath_canonical[OF h] by blast
qed

text \<open>C24: two accepted paths overlap, as \<open>HasLogicalPathOverlap\<close> decides it on the strings, exactly
  when the segments of one are an initial part of the segments of the other.\<close>

theorem HasLogicalPathOverlap_iff_prefix:
  assumes "NormalizeLogicalPath a = Ok p" and "NormalizeLogicalPath b = Ok q"
  shows "HasLogicalPathOverlap a b =
         Ok (prefix (SplitLogicalPathSegments a) (SplitLogicalPathSegments b) \<or>
             prefix (SplitLogicalPathSegments b) (SplitLogicalPathSegments a))"
proof -
  obtain xs where xs: "p = rooted_path xs" "list_all plain_segment xs"
    using NormalizeLogicalPath_obtains[OF assms(1)] by blast
  obtain ys where ys: "q = rooted_path ys" "list_all plain_segment ys"
    using NormalizeLogicalPath_obtains[OF assms(2)] by blast
  have split: "SplitLogicalPathSegments a = xs" "SplitLogicalPathSegments b = ys"
    using assms xs ys by (auto intro: SplitLogicalPathSegments_rooted)
  have "HasLogicalPathOverlap a b =
      Ok (p = q \<or> (prefix p q \<and> overlapBoundaryMatch q p \<and> p \<noteq> q) \<or>
          (prefix q p \<and> overlapBoundaryMatch p q \<and> q \<noteq> p))"
    using assms by (auto simp: HasLogicalPathOverlap_def)
  also have "\<dots> = Ok (xs = ys \<or> (\<exists>zs. zs \<noteq> [] \<and> ys = xs @ zs) \<or> (\<exists>zs. zs \<noteq> [] \<and> xs = ys @ zs))"
    unfolding xs ys overlap_boundary[OF xs(2) ys(2)] overlap_boundary[OF ys(2) xs(2)]
    by (simp add: rooted_path_inject xs ys)
  also have "\<dots> = Ok (prefix xs ys \<or> prefix ys xs)"
    by (simp only: prefix_iff_extend[of xs ys] prefix_iff_extend[of ys xs]) blast
  finally show ?thesis by (simp add: split)
qed

theorem HasLogicalPathOverlap_iff_prefix_witness:
  "HasLogicalPathOverlap ''/corp'' ''/corp/acme/'' = Ok True \<and>
   HasLogicalPathOverlap ''/corp'' ''/corporations'' = Ok False"
proof -
  have n: "NormalizeLogicalPath ''/corp'' = Ok ''/corp''"
    "NormalizeLogicalPath ''/corp/acme/'' = Ok ''/corp/acme''"
    "NormalizeLogicalPath ''/corporations'' = Ok ''/corporations''" by code_simp+
  have s: "SplitLogicalPathSegments ''/corp'' = [''corp'']"
    "SplitLogicalPathSegments ''/corp/acme/'' = [''corp'', ''acme'']"
    "SplitLogicalPathSegments ''/corporations'' = [''corporations'']" by code_simp+
  show ?thesis
    using HasLogicalPathOverlap_iff_prefix[OF n(1,2)] HasLogicalPathOverlap_iff_prefix[OF n(1,3)]
    by (simp add: s)
qed

text \<open>\<open>ChildSegment\<close> returns the segment \<open>s\<close> exactly when the candidate path is the parent path
  extended by that one segment.\<close>

theorem ChildSegment_iff:
  assumes "NormalizeLogicalPath parent = Ok p" and "NormalizeLogicalPath candidate = Ok q"
  shows "ChildSegment parent candidate = Some s \<longleftrightarrow>
         SplitLogicalPathSegments candidate = SplitLogicalPathSegments parent @ [s]"
proof -
  obtain xs where xs: "p = rooted_path xs" "list_all plain_segment xs"
    using NormalizeLogicalPath_obtains[OF assms(1)] by blast
  obtain ys where ys: "q = rooted_path ys" "list_all plain_segment ys"
    using NormalizeLogicalPath_obtains[OF assms(2)] by blast
  show ?thesis
    using assms xs ys ChildSegment_rooted[of parent xs candidate ys s]
    by (simp add: SplitLogicalPathSegments_rooted[OF _ xs(2)] SplitLogicalPathSegments_rooted[OF _ ys(2)])
qed

theorem ChildSegment_iff_witness:
  "ChildSegment ''/corp/'' ''/corp/acme'' = Some ''acme''"
proof -
  have n: "NormalizeLogicalPath ''/corp/'' = Ok ''/corp''"
    "NormalizeLogicalPath ''/corp/acme'' = Ok ''/corp/acme''" by code_simp+
  have s: "SplitLogicalPathSegments ''/corp/acme'' = SplitLogicalPathSegments ''/corp/'' @ [''acme'']"
    by code_simp
  show ?thesis using ChildSegment_iff[OF n, of "''acme''"] s by blast
qed

text \<open>The check for the reserved segment \<open>_\<close> looks at template-aware segments, so a path with an
  unclosed \<open>{{\<close> is accepted although one of the segments it splits into is \<open>_\<close>.\<close>

theorem reserved_segment_accepted:
  "NormalizeLogicalPath ''/corp/{{x/_/acme'' = Ok ''/corp/{{x/_/acme'' \<and>
   ''_'' \<in> set (SplitLogicalPathSegments ''/corp/{{x/_/acme'')"
  by code_simp

end
