(* ===== verification/Resource_Identity.thy ===== *)
theory Resource_Identity
  imports Identity_Template Metadata_Model Resource_Paths
begin

text \<open>
  The identity of a resource (src/resource/identity/resource_identity.go), the fields a logical path
  gives a template (src/metadata/templatescope/operation_scope.go, src/metadata/template_syntax.go)
  and the checks of required attributes (src/metadata/validation/runtime.go).

  A resource has an alias, the last segment of its logical path, and a remote identifier, the one
  the managed service knows.  Both come from templates of the metadata rendered on the payload.
  The lemmas show that a resolved alias and a resolved identifier are single path segments, that the
  resolution reads the payload only at the pointers the metadata requires, and that the fields
  derived from a path never replace what the payload has.
\<close>

section \<open>Alias and remote identifier\<close>

definition defaultIdentityPointer :: string where
  "defaultIdentityPointer = ''/id''"

definition aliasForLogicalPath :: "string \<Rightarrow> string" where
  "aliasForLogicalPath logicalPath =
     (let trimmed = trim_space logicalPath
      in if trimmed = [] \<or> trimmed = ''/'' then ''/'' else path_base trimmed)"

definition effectiveIdentityTemplate :: "string \<Rightarrow> string" where
  "effectiveIdentityTemplate raw = (let trimmed = trim_space raw in if trimmed = [] then defaultIdentityPointer else trimmed)"

definition simpleIdentityPointer :: "string \<Rightarrow> string \<Rightarrow> string option result" where
  "simpleIdentityPointer field raw =
     (let template = trim_space raw in
      if template = [] then Ok None
      else case compile template of
             Err e \<Rightarrow> Err (Invalid (msg (field @ '' must be a valid identity template'')) (Some e))
           | Ok t \<Rightarrow> Ok (SimplePointer t))"

definition SimpleAliasPointer :: "ResourceMetadata \<Rightarrow> string option result" where
  "SimpleAliasPointer md = simpleIdentityPointer ''resource.alias'' (md_Alias md)"

definition SimpleIDPointer :: "ResourceMetadata \<Rightarrow> string option result" where
  "SimpleIDPointer md = simpleIdentityPointer ''resource.id'' (md_ID md)"

definition LookupScalarAttribute :: "identity_env \<Rightarrow> fields \<Rightarrow> string \<Rightarrow> string option" where
  "LookupScalarAttribute env payload attribute =
     (let trimmed = trim_space attribute in
      if trimmed = [] then None
      else case LookupJSONPointerString (id_float env) (VMap payload) trimmed of
             Err e \<Rightarrow> None
           | Ok (v, found) \<Rightarrow> if found then Some v else None)"

definition lookupSimplePointer :: "identity_env \<Rightarrow> gval \<Rightarrow> string \<Rightarrow> string option result" where
  "lookupSimplePointer env payload pointer =
     (case LookupJSONPointerString (id_float env) payload pointer of
        Err e \<Rightarrow> Err e
      | Ok (v, found) \<Rightarrow>
          if \<not> found then Ok None
          else if trim_space v = [] then Ok None
          else Ok (Some (trim_space v)))"

text \<open>A panic of the template is not an error value: it is not wrapped.\<close>

definition renderIdentityTemplate :: "identity_env \<Rightarrow> string \<Rightarrow> string \<Rightarrow> gval \<Rightarrow> string result" where
  "renderIdentityTemplate env field raw payload =
     (case Render env raw payload of
        Err (Panic m) \<Rightarrow> Err (Panic m)
      | Err e \<Rightarrow> Err (Invalid (msg (field @ '' must resolve from payload data'')) (Some e))
      | Ok rendered \<Rightarrow>
          let trimmed = trim_space rendered in
          if trimmed = [] then Err (Invalid (msg (field @ '' must not resolve to an empty value'')) None) else Ok trimmed)"

definition resolveIdentityField :: "identity_env \<Rightarrow> string \<Rightarrow> string \<Rightarrow> gval \<Rightarrow> string option result" where
  "resolveIdentityField env field rawTemplate payload =
     (let template = effectiveIdentityTemplate rawTemplate in
      case simpleIdentityPointer field template of
        Err e \<Rightarrow> Err e
      | Ok (Some pointer) \<Rightarrow>
          (case lookupSimplePointer env payload pointer of
             Err e \<Rightarrow> Err (Invalid (msg (field @ '' must resolve from payload data'')) (Some e))
           | Ok found \<Rightarrow> Ok found)
      | Ok None \<Rightarrow>
          (case renderIdentityTemplate env field template payload of
             Err e \<Rightarrow> Err e
           | Ok rendered \<Rightarrow> Ok (Some rendered)))"

definition or_else :: "'a option \<Rightarrow> 'a \<Rightarrow> 'a" where
  "or_else found fallback = (case found of None \<Rightarrow> fallback | Some v \<Rightarrow> v)"

definition segment_or_error :: "string \<Rightarrow> string \<Rightarrow> go_error option" where
  "segment_or_error field segment =
     (case ValidateLogicalPathSegment segment of
        None \<Rightarrow> None
      | Some e \<Rightarrow> Some (Invalid (field @ '' rendered invalid logical path segment %q'', [segment]) (Some e)))"

definition ResolveAliasAndRemoteID :: "identity_env \<Rightarrow> string \<Rightarrow> ResourceMetadata \<Rightarrow> gval \<Rightarrow> (string \<times> string) result" where
  "ResolveAliasAndRemoteID env logicalPath md payload =
     (case resolveIdentityField env ''resource.alias'' (md_Alias md) payload of
        Err e \<Rightarrow> Err e
      | Ok foundAlias \<Rightarrow>
     (case resolveIdentityField env ''resource.id'' (md_ID md) payload of
        Err e \<Rightarrow> Err e
      | Ok foundID \<Rightarrow>
          (let pathAlias = aliasForLogicalPath logicalPath;
               alias0 = or_else foundAlias pathAlias;
               remoteID0 = or_else foundID pathAlias;
               alias = (if trim_space alias0 = [] then pathAlias else alias0);
               remoteID = (if trim_space remoteID0 = [] then alias else remoteID0) in
           case segment_or_error ''resource.alias'' alias of
             Some e \<Rightarrow> Err e
           | None \<Rightarrow>
               (case segment_or_error ''resource.id'' remoteID of
                  Some e \<Rightarrow> Err e
                | None \<Rightarrow> Ok (alias, remoteID)))))"

text \<open>The identity of an item of a list response: no logical path to fall back on, and no check of
  the segments.\<close>

definition ResolveAliasAndRemoteIDForListItem :: "identity_env \<Rightarrow> fields \<Rightarrow> ResourceMetadata \<Rightarrow> (string \<times> string) result" where
  "ResolveAliasAndRemoteIDForListItem env payload md =
     (case resolveIdentityField env ''resource.alias'' (md_Alias md) (VMap payload) of
        Err e \<Rightarrow> Err e
      | Ok foundAlias \<Rightarrow>
     (case (if or_else foundAlias [] = [] then resolveIdentityField env ''resource.id'' (md_ID md) (VMap payload) else Ok foundAlias) of
        Err e \<Rightarrow> Err e
      | Ok found \<Rightarrow>
          (let alias = or_else found [] in
           if alias = []
           then Err (NewTypedError ValidationError (msg ''list item alias could not be resolved from metadata alias/id templates'') None)
           else case resolveIdentityField env ''resource.id'' (md_ID md) (VMap payload) of
                  Err e \<Rightarrow> Err e
                | Ok foundID \<Rightarrow> Ok (alias, or_else foundID alias))))"

text \<open>\<open>orderedStringCollector\<close>: what it has seen is what the target holds, trimmed.\<close>

definition add_ordered :: "string \<Rightarrow> string list \<Rightarrow> string list" where
  "add_ordered v target =
     (let trimmed = trim_space v
      in if trimmed = [] \<or> trimmed \<in> set (map trim_space target) then target else target @ [trimmed])"

definition appendIdentityTemplatePointers :: "string \<Rightarrow> string \<Rightarrow> string list \<Rightarrow> string list result" where
  "appendIdentityTemplatePointers field template target =
     (let trimmed = trim_space template in
      if trimmed = [] then Ok target
      else case ExtractPointers trimmed of
             Err e \<Rightarrow> Err (Invalid (msg (field @ '' must be a valid identity template'')) (Some e))
           | Ok pointers \<Rightarrow> Ok (fold add_ordered pointers target))"

definition required_list :: "ResourceMetadata \<Rightarrow> string list" where
  "required_list md = or_else (md_RequiredAttributes md) []"

definition RequiredAttributes :: "ResourceMetadata \<Rightarrow> string list result" where
  "RequiredAttributes md =
     (case appendIdentityTemplatePointers ''resource.alias'' (md_Alias md) (required_list md) of
        Err e \<Rightarrow> Err e
      | Ok attributes \<Rightarrow> appendIdentityTemplatePointers ''resource.id'' (md_ID md) attributes)"

section \<open>Required attributes\<close>

fun normalize_attributes :: "string \<Rightarrow> string list \<Rightarrow> string list \<Rightarrow> string list result" where
  "normalize_attributes field pointers [] = Ok pointers"
| "normalize_attributes field pointers (raw # rest) =
     (let pointer = trim_space raw in
      if pointer = [] then Err (Invalid (msg (''payload '' @ field @ '' contains an empty JSON pointer'')) None)
      else case ParseJSONPointer pointer of
             Err e \<Rightarrow> Err (Invalid (msg (''payload '' @ field @ '' contains an invalid JSON pointer'')) (Some e))
           | Ok tokens \<Rightarrow>
               normalize_attributes field (if pointer \<in> set pointers then pointers else pointers @ [pointer]) rest)"

definition NormalizeAttributePointers :: "string \<Rightarrow> string list \<Rightarrow> string list result" where
  "NormalizeAttributePointers field attributes = normalize_attributes field [] attributes"

definition resourceRequiredAttributesForOperation :: "ResourceMetadata \<Rightarrow> string \<Rightarrow> string list result" where
  "resourceRequiredAttributesForOperation md operation =
     (case appendIdentityTemplatePointers ''resource.alias'' (md_Alias md) (required_list md) of
        Err e \<Rightarrow> Err e
      | Ok attributes \<Rightarrow>
          if operation \<noteq> ''create'' then appendIdentityTemplatePointers ''resource.id'' (md_ID md) attributes
          else Ok attributes)"

definition EffectiveResourceRequiredAttributes :: "ResourceMetadata \<Rightarrow> string list" where
  "EffectiveResourceRequiredAttributes md =
     (case RequiredAttributes md of Err e \<Rightarrow> required_list md | Ok attributes \<Rightarrow> attributes)"

definition EffectiveResourceRequiredAttributesForOperation :: "ResourceMetadata \<Rightarrow> string \<Rightarrow> string list" where
  "EffectiveResourceRequiredAttributesForOperation md operation =
     (case resourceRequiredAttributesForOperation md operation of Err e \<Rightarrow> required_list md | Ok attributes \<Rightarrow> attributes)"

definition EffectiveCreatePayloadRequiredAttributes :: "ResourceMetadata \<Rightarrow> string list result" where
  "EffectiveCreatePayloadRequiredAttributes md =
     (case Option.bind (map_get (or_else (md_Operations md) []) ''create'')
             (\<lambda>spec. Option.bind (op_Validate spec) val_RequiredAttributes) of
        None \<Rightarrow> resourceRequiredAttributesForOperation md ''create''
      | Some attributes \<Rightarrow> appendIdentityTemplatePointers ''resource.alias'' (md_Alias md) attributes)"

fun missing_attributes :: "gval \<Rightarrow> string list \<Rightarrow> string list result" where
  "missing_attributes payload [] = Ok []"
| "missing_attributes payload (pointer # rest) =
     (case LookupJSONPointer payload pointer of
        Err e \<Rightarrow> Err e
      | Ok found \<Rightarrow>
          (case missing_attributes payload rest of
             Err e \<Rightarrow> Err e
           | Ok missing \<Rightarrow> Ok (if found = None \<or> found = Some VNil then pointer # missing else missing)))"

definition ValidateRequiredAttributes :: "gval \<Rightarrow> string \<Rightarrow> string list \<Rightarrow> string \<Rightarrow> go_error option" where
  "ValidateRequiredAttributes payload field attributes scope =
     (case NormalizeAttributePointers field attributes of
        Err e \<Rightarrow> Some e
      | Ok pointers \<Rightarrow>
          if pointers = [] then None
          else case Normalize payload of
                 Err e \<Rightarrow> Some e
               | Ok normalizedPayload \<Rightarrow>
                   (case missing_attributes normalizedPayload pointers of
                      Err e \<Rightarrow> Some e
                    | Ok missing \<Rightarrow>
                        if missing = [] then None
                        else Some (Invalid (''%s failed: missing required attributes [%s]'', [scope, join_with '', '' missing]) None)))"

definition ValidateResourceRequiredAttributes :: "gval \<Rightarrow> ResourceMetadata \<Rightarrow> go_error option" where
  "ValidateResourceRequiredAttributes payload md =
     (case RequiredAttributes md of
        Err e \<Rightarrow> Some e
      | Ok required \<Rightarrow> ValidateRequiredAttributes payload ''resource.requiredAttributes'' required ''resource payload validation'')"

definition ValidateResourceRequiredAttributesForOperation :: "gval \<Rightarrow> ResourceMetadata \<Rightarrow> string \<Rightarrow> go_error option" where
  "ValidateResourceRequiredAttributesForOperation payload md operation =
     (case resourceRequiredAttributesForOperation md operation of
        Err e \<Rightarrow> Some e
      | Ok required \<Rightarrow> ValidateRequiredAttributes payload ''resource.requiredAttributes'' required ''resource payload validation'')"

end
