(* ===== verification/Template_Scope.thy ===== *)
theory Template_Scope
  imports Resource_Identity
begin

text \<open>
  The fields a logical path gives the templates of the metadata: the placeholders of
  src/metadata/template_syntax.go, the derivation and the scopes of
  src/metadata/templatescope/operation_scope.go, and the derived payload fields of
  src/metadata/validation/runtime.go.

  \<open>strconv.Unquote\<close> and the matches of the regular expression for \<open>resource("...")\<close> are modelled
  on bytes.  Where the code ranges over a Go map and the order could matter (two keys that differ in
  surrounding space only), the model takes the keys in order.
\<close>

section \<open>Placeholders\<close>

definition name_start :: "char \<Rightarrow> bool" where
  "name_start c = (letter_byte c \<or> c = CHR ''_'')"

definition template_identifier :: "string \<Rightarrow> bool" where
  "template_identifier s = (s \<noteq> [] \<and> name_start (hd s) \<and> list_all (\<lambda>c. name_start c \<or> is_digit_byte c) s)"

definition reservedTemplateIdentifiers :: "string list" where
  "reservedTemplateIdentifiers =
     [''and'', ''block'', ''call'', ''define'', ''else'', ''end'', ''eq'', ''false'', ''ge'', ''gt'', ''html'', ''if'',
      ''index'', ''js'', ''json_pointer'', ''le'', ''len'', ''lt'', ''ne'', ''nil'', ''not'', ''or'', ''payload_extension'',
      ''payload_media_type'', ''payload_type'', ''print'', ''printf'', ''println'', ''range'', ''slice'', ''template'',
      ''true'', ''urlquery'', ''with'']"

definition templateExpressionPointer :: "string \<Rightarrow> string option" where
  "templateExpressionPointer expression =
     (let trimmed = trim_space expression in
      if trimmed = [] then None
      else if prefix ''.'' trimmed then
        (let key = trim_space (trim_prefix trimmed ''.'')
         in if template_identifier key then Some (JSONPointerForObjectKey key) else None)
      else if prefix ''/'' trimmed then (if is_ok (ParseJSONPointer trimmed) then Some trimmed else None)
      else if \<not> template_identifier trimmed then None
      else if trimmed \<in> set reservedTemplateIdentifiers then None
      else Some (JSONPointerForObjectKey trimmed))"

definition templatePlaceholderPointer :: "string \<Rightarrow> string option" where
  "templatePlaceholderPointer segment =
     (let trimmed = trim_space segment in
      if \<not> prefix ''{{'' trimmed \<or> \<not> suffix ''}}'' trimmed then None
      else templateExpressionPointer (trim_space (drop 2 (take (length trimmed - 2) trimmed))))"

definition TemplatePlaceholderKey :: "string \<Rightarrow> string option" where
  "TemplatePlaceholderKey segment =
     (case templatePlaceholderPointer segment of
        None \<Rightarrow> None
      | Some pointer \<Rightarrow> (case ParseJSONPointer pointer of Ok [token] \<Rightarrow> Some token | _ \<Rightarrow> None))"

definition IsTemplatePlaceholderSegment :: "string \<Rightarrow> bool" where
  "IsTemplatePlaceholderSegment segment = (templatePlaceholderPointer segment \<noteq> None)"

section \<open>Paths quoted in jq expressions\<close>

definition encode_rune :: "nat \<Rightarrow> string" where
  "encode_rune n =
     (if n < 0x10000 then encode_rune16 n
      else [char_of (0xF0 + n div 262144), char_of (0x80 + n div 4096 mod 64), char_of (0x80 + n div 64 mod 64), char_of (0x80 + n mod 64)])"

definition octal_value :: "char \<Rightarrow> nat option" where
  "octal_value c = (if CHR ''0'' \<le> c \<and> c \<le> CHR ''7'' then Some (digit_value c) else None)"

definition simple_escapes :: "(char \<times> nat) list" where
  "simple_escapes =
     [(CHR ''a'', 7), (CHR ''b'', 8), (CHR ''f'', 12), (CHR ''n'', 10), (CHR ''r'', 13), (CHR ''t'', 9), (CHR ''v'', 11),
      (CHR 0x5C, 0x5C), (CHR 0x22, 0x22)]"

text \<open>The hard case of \<open>strconv.UnquoteChar\<close>: the escape \<open>c\<close> followed by \<open>s\<close> gives the bytes written
  and the rest.\<close>

definition unquote_escape :: "char \<Rightarrow> string \<Rightarrow> (string \<times> string) option" where
  "unquote_escape c s =
     (case map_of simple_escapes c of
        Some n \<Rightarrow> Some ([char_of n], s)
      | None \<Rightarrow>
          if c = CHR ''x'' then
            (if length s < 2 then None
             else case hex_number (take 2 s) 0 of None \<Rightarrow> None | Some n \<Rightarrow> Some ([char_of n], drop 2 s))
          else if c = CHR ''u'' \<or> c = CHR ''U'' then
            (let n = (if c = CHR ''u'' then 4 else 8) in
             if length s < n then None
             else case hex_number (take n s) 0 of
                    None \<Rightarrow> None
                  | Some r \<Rightarrow> if r > 0x10FFFF \<or> (0xD800 \<le> r \<and> r \<le> 0xDFFF) then None else Some (encode_rune r, drop n s))
          else
            (case (octal_value c, s) of
               (Some a, d # e # rest) \<Rightarrow>
                 (case (octal_value d, octal_value e) of
                    (Some b, Some f) \<Rightarrow> if 64 * a + 8 * b + f > 255 then None else Some ([char_of (64 * a + 8 * b + f)], rest)
                  | _ \<Rightarrow> None)
             | _ \<Rightarrow> None))"

lemma unquote_escape_shrinks: "unquote_escape c s = Some (out, rest) \<Longrightarrow> length rest \<le> length s"
  by (auto simp: unquote_escape_def Let_def split: option.splits if_splits list.splits)

text \<open>\<open>strconv.Unquote\<close> of a text in double quotes, on what is between them.  A newline or an
  unescaped quote is refused, invalid UTF-8 becomes U+FFFD.\<close>

function unquote_text :: "string \<Rightarrow> string option" where
  "unquote_text s =
     (case s of
        [] \<Rightarrow> Some []
      | c # cs \<Rightarrow>
          if c = CHR 0x22 \<or> c = CHR 0x0A then None
          else if c = CHR 0x5C then
            (case cs of
               [] \<Rightarrow> None
             | d # ds \<Rightarrow>
                 (case unquote_escape d ds of
                    None \<Rightarrow> None
                  | Some (out, rest) \<Rightarrow> map_option (\<lambda>t. out @ t) (unquote_text rest)))
          else if ascii_byte c then map_option (\<lambda>t. c # t) (unquote_text cs)
          else if utf8_len s = 0 then map_option (\<lambda>t. rune_error @ t) (unquote_text cs)
          else map_option (\<lambda>t. take (utf8_len s) s @ t) (unquote_text (drop (utf8_len s) s)))"
  by pat_completeness auto
termination
  by (relation "measure length") (auto dest!: unquote_escape_shrinks)

definition regexp_space :: "char \<Rightarrow> bool" where
  "regexp_space c = (c \<in> set [CHR 0x09, CHR 0x0A, CHR 0x0C, CHR 0x0D, CHR '' ''])"

text \<open>The group of the expression: text without quote and backslash, or a backslash and one more
  character.\<close>

fun quoted_group :: "string \<Rightarrow> (string \<times> string) option" where
  "quoted_group [] = None"
| "quoted_group (c # cs) =
     (if c = CHR 0x22 then Some ([], cs)
      else if c = CHR 0x5C then
        (case cs of
           [] \<Rightarrow> None
         | d # ds \<Rightarrow>
             if d = CHR 0x0A then None
             else map_option (\<lambda>(body, rest). (c # d # body, rest)) (quoted_group ds))
      else map_option (\<lambda>(body, rest). (c # body, rest)) (quoted_group cs))"

definition match_resource_call :: "string \<Rightarrow> (string \<times> string) option" where
  "match_resource_call s =
     (if \<not> prefix ''resource('' s then None
      else case dropWhile regexp_space (drop 9 s) of
             [] \<Rightarrow> None
           | q # r \<Rightarrow>
               if q \<noteq> CHR 0x22 then None
               else case quoted_group r of
                      None \<Rightarrow> None
                    | Some (body, rest) \<Rightarrow>
                        (case dropWhile regexp_space rest of
                           [] \<Rightarrow> None
                         | p # after \<Rightarrow> if p = CHR '')'' then Some (body, after) else None))"

lemma quoted_group_shrinks: "quoted_group s = Some (body, rest) \<Longrightarrow> length rest < length s"
  by (induction s arbitrary: body rest rule: quoted_group.induct) (force split: if_splits list.splits)+

lemma match_resource_call_shrinks: "match_resource_call s = Some (body, rest) \<Longrightarrow> length rest < length s"
proof -
  assume a: "match_resource_call s = Some (body, rest)"
  have le: "length (dropWhile regexp_space xs) \<le> length xs" for xs
    by (rule length_dropWhile_le)
  from a obtain q r mid p where s: "dropWhile regexp_space (drop 9 s) = q # r" "quoted_group r = Some (body, mid)"
      "dropWhile regexp_space mid = p # rest"
    by (auto simp: match_resource_call_def split: if_splits list.splits option.splits)
  have "Suc (length r) \<le> length (drop 9 s)" "length mid < length r" "Suc (length rest) \<le> length mid"
    using le[of "drop 9 s"] le[of mid] s(1,3) quoted_group_shrinks[OF s(2)] by simp_all
  then show ?thesis by simp
qed

text \<open>\<open>FindAllStringSubmatch\<close>: the groups of the leftmost matches that do not overlap.\<close>

function resource_calls :: "string \<Rightarrow> string list" where
  "resource_calls s =
     (case s of
        [] \<Rightarrow> []
      | c # cs \<Rightarrow>
          (case match_resource_call s of
             None \<Rightarrow> resource_calls cs
           | Some (body, rest) \<Rightarrow> body # resource_calls rest))"
  by pat_completeness auto
termination
  by (relation "measure length") (auto dest!: match_resource_call_shrinks)

section \<open>Fields of a path\<close>

fun path_fields :: "string_map \<Rightarrow> string list \<Rightarrow> string list \<Rightarrow> string_map" where
  "path_fields found (templateSegment # ts) (logicalSegment # ls) =
     (case TemplatePlaceholderKey templateSegment of
        Some key \<Rightarrow>
          (case map_get found key of
             Some existing \<Rightarrow> if existing \<noteq> logicalSegment then [] else path_fields (map_put key logicalSegment found) ts ls
           | None \<Rightarrow> path_fields (map_put key logicalSegment found) ts ls)
      | None \<Rightarrow> if templateSegment \<noteq> logicalSegment then found else path_fields found ts ls)"
| "path_fields found _ _ = found"

text \<open>A nil map of the code is the empty map here: both have nothing to merge.\<close>

definition deriveTemplateFieldsFromPathTemplate :: "string \<Rightarrow> string \<Rightarrow> string_map" where
  "deriveTemplateFieldsFromPathTemplate pathTemplate logicalPath =
     (if \<not> sublist ''{{'' pathTemplate then []
      else path_fields [] (SplitRawPathSegments pathTemplate) (SplitRawPathSegments logicalPath))"

definition mergeTemplateFields :: "string_map \<Rightarrow> string_map \<Rightarrow> string_map" where
  "mergeTemplateFields destination source =
     fold (\<lambda>(k, v) d. if map_get d k \<noteq> None then d else map_put k v d) source destination"

definition deriveTemplateFieldsFromJQExpression :: "string \<Rightarrow> string \<Rightarrow> string_map" where
  "deriveTemplateFieldsFromJQExpression jqExpression logicalPath =
     (let trimmedExpression = trim_space jqExpression in
      if trimmedExpression = [] \<or> \<not> sublist ''{{'' trimmedExpression \<or> \<not> sublist ''resource('' trimmedExpression then []
      else
        fold (\<lambda>body derived.
                case unquote_text body of
                  None \<Rightarrow> derived
                | Some pathTemplate \<Rightarrow>
                    mergeTemplateFields derived (deriveTemplateFieldsFromPathTemplate (trim_space pathTemplate) logicalPath))
             (resource_calls trimmedExpression) [])"

definition deriveTemplateFieldsFromTransforms :: "TransformStep list option \<Rightarrow> string \<Rightarrow> string_map" where
  "deriveTemplateFieldsFromTransforms steps logicalPath =
     fold (\<lambda>step derived. mergeTemplateFields derived (deriveTemplateFieldsFromJQExpression (JQExpression step) logicalPath))
          (or_else steps []) []"

definition joinTemplatePaths :: "string \<Rightarrow> string \<Rightarrow> string" where
  "joinTemplatePaths collectionPath operationPath =
     (let base = (if trim_space collectionPath = [] then ''/'' else trim_space collectionPath);
          relative = trim_space operationPath in
      if relative = [] then base
      else let joined = path_join base relative in if prefix ''/'' joined then joined else ''/'' @ joined)"

definition collectionPathForLogicalPath :: "string \<Rightarrow> string" where
  "collectionPathForLogicalPath logicalPath =
     (let normalized = trim_space logicalPath in
      if normalized = [] \<or> normalized = ''/'' then ''/''
      else let parent = path_dir normalized in if parent = ''.'' \<or> parent = [] then ''/'' else parent)"

definition operation_fields :: "string \<Rightarrow> string \<Rightarrow> OperationSpec \<Rightarrow> string_map \<Rightarrow> string_map" where
  "operation_fields collectionTemplate logicalPath spec derived =
     (let derived' = mergeTemplateFields derived (deriveTemplateFieldsFromTransforms (op_Transforms spec) logicalPath);
          templatePath = trim_space (op_Path spec) in
      if templatePath = [] then derived'
      else mergeTemplateFields derived'
             (deriveTemplateFieldsFromPathTemplate
                (if prefix ''/'' templatePath then templatePath else joinTemplatePaths collectionTemplate templatePath) logicalPath))"

definition DerivePathTemplateFields :: "string \<Rightarrow> ResourceMetadata \<Rightarrow> string_map" where
  "DerivePathTemplateFields logicalPath md =
     (let collectionTemplate =
            (if trim_space (md_RemoteCollectionPath md) = [] then collectionPathForLogicalPath logicalPath
             else trim_space (md_RemoteCollectionPath md));
          operations = or_else (md_Operations md) [];
          derived = mergeTemplateFields [] (deriveTemplateFieldsFromPathTemplate collectionTemplate logicalPath);
          derived' = mergeTemplateFields derived (deriveTemplateFieldsFromTransforms (md_Transforms md) logicalPath) in
      fold (\<lambda>operationName found.
              case map_get operations operationName of
                None \<Rightarrow> found
              | Some spec \<Rightarrow> operation_fields collectionTemplate logicalPath spec found)
           (sort (map_keys operations)) derived')"

section \<open>Scopes\<close>

definition put_strings :: "(string \<times> string) list \<Rightarrow> fields \<Rightarrow> fields" where
  "put_strings entries scope = fold (\<lambda>(k, v). map_put k (VString v)) entries scope"

definition BuildOperationScope :: "string \<Rightarrow> string \<Rightarrow> string \<Rightarrow> string \<Rightarrow> gval \<Rightarrow> fields result" where
  "BuildOperationScope logicalPath collectionPath alias remoteID payload =
     (case Normalize payload of
        Err e \<Rightarrow> Err e
      | Ok normalizedPayload \<Rightarrow>
          (let scope = map_put ''value'' normalizedPayload (map_put ''payload'' normalizedPayload
                 (put_strings [(''logicalPath'', logicalPath), (''logicalCollectionPath'', collectionPath),
                    (''remoteCollectionPath'', collectionPath), (''alias'', alias), (''remoteID'', remoteID)] []));
               scope' = (if trim_space remoteID \<noteq> [] then map_put ''id'' (VString remoteID) scope else scope) in
           Ok (case normalizedPayload of
                 VMap payloadMap \<Rightarrow>
                   map_put ''value'' (VMap payloadMap) (map_put ''payload'' (VMap payloadMap)
                     (fold (\<lambda>(key, item). map_put key item) payloadMap scope'))
               | _ \<Rightarrow> scope')))"

definition looksPluralCollectionSegment :: "(string \<Rightarrow> string) \<Rightarrow> string \<Rightarrow> bool" where
  "looksPluralCollectionSegment ul segment =
     (let lower = to_lower ul (trim_space segment) in lower \<noteq> [] \<and> (suffix ''s'' lower \<or> suffix ''ies'' lower))"

definition singularizeCollectionToken :: "(string \<Rightarrow> string) \<Rightarrow> string \<Rightarrow> string" where
  "singularizeCollectionToken ul token =
     (let trimmed = trim_space token in
      if trimmed = [] then []
      else let separatorNormalized = replace_all (replace_all trimmed ''-'' ''_'') ''.'' ''_'';
               last' = trim_space (last (split_on (CHR ''_'') separatorNormalized)) in
        if last' = [] then []
        else let lower = to_lower ul last' in
          if suffix ''ies'' lower \<and> length last' > 3 then take (length last' - 3) last' @ ''y''
          else if suffix ''s'' lower \<and> length last' > 1 then take (length last' - 1) last'
          else last')"

fun collection_fields :: "(string \<Rightarrow> string) \<Rightarrow> string_map \<Rightarrow> string list \<Rightarrow> string_map" where
  "collection_fields ul derived (a # b # rest) =
     (let collectionSegment = trim_space a;
          key = singularizeCollectionToken ul collectionSegment; v = trim_space b in
      collection_fields ul
        (if \<not> looksPluralCollectionSegment ul collectionSegment \<or> key = [] \<or> v = [] \<or> map_get derived key \<noteq> None
         then derived else map_put key v derived) (b # rest))"
| "collection_fields ul derived _ = derived"

definition deriveFieldsFromLogicalCollectionPath :: "(string \<Rightarrow> string) \<Rightarrow> string \<Rightarrow> string_map" where
  "deriveFieldsFromLogicalCollectionPath ul collectionPath = collection_fields ul [] (SplitRawPathSegments collectionPath)"

text \<open>The scope and the payload map inside it, which the code updates together.\<close>

definition add_scope_field :: "string \<times> string \<Rightarrow> fields \<times> fields option \<Rightarrow> fields \<times> fields option" where
  "add_scope_field entry state =
     (case (entry, state) of
        ((key, v), (scope, payloadMap)) \<Rightarrow>
          (let trimmedKey = trim_space key; trimmedValue = trim_space v in
           if trimmedKey = [] \<or> trimmedValue = [] \<or> map_get scope trimmedKey \<noteq> None then state
           else (map_put trimmedKey (VString trimmedValue) scope,
                 map_option (map_put trimmedKey (VString trimmedValue)) payloadMap)))"

definition BuildResourceScopeWithOptions ::
  "(string \<Rightarrow> string) \<Rightarrow> Resource \<Rightarrow> ResourceMetadata \<Rightarrow> string \<Rightarrow> fields result" where
  "BuildResourceScopeWithOptions ul res md derivedOption =
     (let collectionPath = (if trim_space (CollectionPath res) = [] then collectionPathForLogicalPath (LogicalPath res) else CollectionPath res);
          derivedCollectionPath = (if trim_space derivedOption = [] then collectionPath else trim_space derivedOption) in
      case BuildOperationScope (LogicalPath res) collectionPath (LocalAlias res) (RemoteID res) (Payload res) of
        Err e \<Rightarrow> Err e
      | Ok scope \<Rightarrow>
          (let start = (scope, case map_get scope ''payload'' of Some (VMap m) \<Rightarrow> Some m | _ \<Rightarrow> None);
               state = fold add_scope_field (deriveFieldsFromLogicalCollectionPath ul derivedCollectionPath)
                         (fold add_scope_field (DerivePathTemplateFields (LogicalPath res) md) start) in
           Ok (case snd state of
                 None \<Rightarrow> fst state
               | Some m \<Rightarrow> map_put ''value'' (VMap m) (map_put ''payload'' (VMap m) (fst state)))))"

definition BuildResourceScope :: "(string \<Rightarrow> string) \<Rightarrow> Resource \<Rightarrow> ResourceMetadata \<Rightarrow> fields result" where
  "BuildResourceScope ul res md = BuildResourceScopeWithOptions ul res md []"

section \<open>Derived payload fields\<close>

definition trimmed_fields :: "string_map \<Rightarrow> string_map" where
  "trimmed_fields m =
     fold (\<lambda>(key, v) found.
             if trim_space key = [] \<or> trim_space v = [] then found
             else map_put (JSONPointerForObjectKey (trim_space key)) (trim_space v) found) m []"

definition put_absent :: "string \<Rightarrow> string \<Rightarrow> string_map \<Rightarrow> string_map" where
  "put_absent pointer v m = (if v = [] \<or> map_get m pointer \<noteq> None then m else map_put pointer v m)"

text \<open>The values of the derived fields are strings, so the map of \<open>any\<close> is a map of strings here.\<close>

definition DerivePathFields :: "Resource \<Rightarrow> ResourceMetadata \<Rightarrow> string_map" where
  "DerivePathFields res md =
     (let found = trimmed_fields (DerivePathTemplateFields (LogicalPath res) md);
          remoteID = trim_space (RemoteID res); localAlias = trim_space (LocalAlias res) in
      case (SimpleAliasPointer md, SimpleIDPointer md) of
        (Ok (Some aliasPointer), Ok (Some idPointer)) \<Rightarrow>
          if aliasPointer = idPointer
          then put_absent idPointer (if remoteID \<noteq> [] then remoteID else localAlias) found
          else put_absent idPointer remoteID (put_absent aliasPointer localAlias found)
      | (Ok (Some aliasPointer), _) \<Rightarrow> put_absent aliasPointer localAlias found
      | (_, Ok (Some idPointer)) \<Rightarrow> put_absent idPointer remoteID found
      | _ \<Rightarrow> found)"

definition merge_field :: "gval \<Rightarrow> string \<times> string \<Rightarrow> gval result" where
  "merge_field merged entry =
     (case entry of
        (pointer, v) \<Rightarrow>
          (case LookupJSONPointer merged pointer of
             Ok (Some item) \<Rightarrow> Ok merged
           | _ \<Rightarrow>
               (case SetJSONPointerValue merged pointer (VString v) of
                  Err (Panic m) \<Rightarrow> Err (Panic m)
                | Err e \<Rightarrow> Ok merged
                | Ok next' \<Rightarrow> Ok next')))"

fun merge_fields :: "gval \<Rightarrow> (string \<times> string) list \<Rightarrow> gval result" where
  "merge_fields merged [] = Ok merged"
| "merge_fields merged (entry # rest) =
     (case merge_field merged entry of Err e \<Rightarrow> Err e | Ok next' \<Rightarrow> merge_fields next' rest)"

text \<open>The only error is the panic of an array index that no slice can have.\<close>

definition MergePayloadFields :: "gval \<Rightarrow> string_map \<Rightarrow> gval result" where
  "MergePayloadFields payload derivedFields =
     (if derivedFields = [] then Ok payload
      else
        let baseObject = (case payload of VMap m \<Rightarrow> VMap m | VNil \<Rightarrow> VMap [] | v \<Rightarrow> VMap [(''payload'', v)]) in
        merge_fields (DeepCopyValue baseObject) (sort_key fst derivedFields))"

end
