(* ===== verification/Externalization.thy ===== *)
theory Externalization
  imports Metadata_Model
begin

text \<open>
  Attributes that are kept in files of their own (src/metadata/externalized_attributes.go and
  src/internal/resourceexternalization/service.go): on save the text of an attribute moves into a file beside the
  resource and a placeholder takes its place, on load the content of the file replaces the placeholder.

  Values are trees without sharing, so that the assignment into the copied payload is a function from the payload
  to the new one.  \<open>fmt.Sprintf(template, file)\<close> is the argument \<open>sprintf\<close>, the reader of artifacts a function from
  file names to results.  The main theorem shows that expanding what was extracted restores the payload.
\<close>

section \<open>Externalised attributes of metadata\<close>

record ResolvedExternalizedAttribute =
  rx_Path :: string
  rx_File :: string
  rx_Template :: string
  rx_Mode :: string
  rx_SaveBehavior :: string
  rx_RenderBehavior :: string

definition ext_error :: "string \<Rightarrow> nat \<Rightarrow> string list \<Rightarrow> go_error option \<Rightarrow> go_error" where
  "ext_error what idx args cause = Invalid (''resource.externalizedAttributes[%d]'' @ what, itoa (int idx) # args) cause"

definition normalizeExternalizedAttributePath :: "string \<Rightarrow> nat \<Rightarrow> string result" where
  "normalizeExternalizedAttributePath v idx =
     (let trimmed = trim_space v in
      if trimmed = [] then Err (ext_error ''.path must not be empty'' idx [] None)
      else case ParseJSONPointer trimmed of
             Err e \<Rightarrow> Err (ext_error ''.path must be a valid JSON pointer'' idx [] (Some e))
           | Ok tokens \<Rightarrow> Ok (JSONPointerFromTokens tokens))"

definition normalizeExternalizedAttributeFile :: "string \<Rightarrow> nat \<Rightarrow> string result" where
  "normalizeExternalizedAttributeFile v idx =
     (let trimmed = trim_space v in
      if trimmed = [] then Err (ext_error ''.file must not be empty'' idx [] None)
      else if prefix ''/'' trimmed then Err (ext_error ''.file must stay within the resource directory'' idx [] None)
      else let cleaned = path_clean trimmed in
        if cleaned = ''.'' \<or> cleaned = [] then Err (ext_error ''.file must not be empty'' idx [] None)
        else if ''..'' \<in> set (split_on (CHR ''/'') cleaned)
        then Err (ext_error ''.file must stay within the resource directory'' idx [] None)
        else Ok cleaned)"

definition or_default :: "string \<Rightarrow> string \<Rightarrow> string" where
  "or_default v d = (if trim_space v = [] then d else trim_space v)"

definition resolveExternalizedAttribute :: "ExternalizedAttribute \<Rightarrow> nat \<Rightarrow> ResolvedExternalizedAttribute result" where
  "resolveExternalizedAttribute item idx =
     (case normalizeExternalizedAttributePath (ext_Path item) idx of
        Err e \<Rightarrow> Err e
      | Ok pathValue \<Rightarrow>
     (case normalizeExternalizedAttributeFile (ext_File item) idx of
        Err e \<Rightarrow> Err e
      | Ok fileValue \<Rightarrow>
          if or_default (ext_Mode item) ''text'' \<noteq> ''text''
          then Err (ext_error ''.mode %q is not supported'' idx [ext_Mode item] None)
          else if or_default (ext_SaveBehavior item) ''externalize'' \<noteq> ''externalize''
          then Err (ext_error ''.saveBehavior %q is not supported'' idx [ext_SaveBehavior item] None)
          else if or_default (ext_RenderBehavior item) ''include'' \<noteq> ''include''
          then Err (ext_error ''.renderBehavior %q is not supported'' idx [ext_RenderBehavior item] None)
          else Ok \<lparr>rx_Path = pathValue, rx_File = fileValue, rx_Template = or_default (ext_Template item) ''{{include %s}}'',
                   rx_Mode = or_default (ext_Mode item) ''text'', rx_SaveBehavior = or_default (ext_SaveBehavior item) ''externalize'',
                   rx_RenderBehavior = or_default (ext_RenderBehavior item) ''include''\<rparr>))"

fun resolve_attributes ::
  "nat \<Rightarrow> ExternalizedAttribute list \<Rightarrow> (string \<times> nat) list \<Rightarrow> (string \<times> nat) list \<Rightarrow> ResolvedExternalizedAttribute list result" where
  "resolve_attributes idx [] pathIndexByKey fileIndexByKey = Ok []"
| "resolve_attributes idx (item # items) pathIndexByKey fileIndexByKey =
     (if ext_Enabled item = Some False then resolve_attributes (Suc idx) items pathIndexByKey fileIndexByKey
      else case resolveExternalizedAttribute item idx of
             Err e \<Rightarrow> Err e
           | Ok entry \<Rightarrow>
               (case map_of pathIndexByKey (rx_Path entry) of
                  Some previous \<Rightarrow> Err (ext_error ''.path duplicates resource.externalizedAttributes[%d].path'' idx [itoa (int previous)] None)
                | None \<Rightarrow>
                    (case map_of fileIndexByKey (rx_File entry) of
                       Some previous \<Rightarrow> Err (ext_error ''.file duplicates resource.externalizedAttributes[%d].file'' idx [itoa (int previous)] None)
                     | None \<Rightarrow>
                         (case resolve_attributes (Suc idx) items ((rx_Path entry, idx) # pathIndexByKey) ((rx_File entry, idx) # fileIndexByKey) of
                            Err e \<Rightarrow> Err e
                          | Ok resolved \<Rightarrow> Ok (entry # resolved)))))"

definition ResolveExternalizedAttributes :: "ResourceMetadata \<Rightarrow> ResolvedExternalizedAttribute list result" where
  "ResolveExternalizedAttributes m =
     (case md_ExternalizedAttributes m of None \<Rightarrow> Ok [] | Some items \<Rightarrow> resolve_attributes 0 items [] [])"

section \<open>Targets of a payload\<close>

record pathMatch =
  match_ConcretePath :: "string list"
  match_WildcardIndices :: "nat list"
  match_Value :: gval

record externalizedTarget =
  target_ConcretePath :: "string list"
  target_File :: string
  target_Placeholder :: string
  target_Value :: gval

definition parseArrayIndex :: "string \<Rightarrow> nat option" where
  "parseArrayIndex v = (if v = [] then None else case atoi v of None \<Rightarrow> None | Some i \<Rightarrow> if i < 0 then None else Some (nat i))"

fun collectPathMatches :: "gval \<Rightarrow> string list \<Rightarrow> string list \<Rightarrow> nat list \<Rightarrow> pathMatch list result"
  and collect_items :: "nat \<Rightarrow> gval list \<Rightarrow> string list \<Rightarrow> string list \<Rightarrow> nat list \<Rightarrow> pathMatch list result" where
  "collectPathMatches current [] concretePath wildcardIndices =
     Ok [\<lparr>match_ConcretePath = concretePath, match_WildcardIndices = wildcardIndices, match_Value = current\<rparr>]"
| "collectPathMatches current (segment # path) concretePath wildcardIndices =
     (case current of
        VMap m \<Rightarrow>
          (case map_get m segment of
             None \<Rightarrow> Ok []
           | Some child \<Rightarrow> collectPathMatches child path (concretePath @ [segment]) wildcardIndices)
      | VSlice xs \<Rightarrow>
          if segment = ''*'' then collect_items 0 xs path concretePath wildcardIndices
          else (case parseArrayIndex segment of
                  None \<Rightarrow> Err (Invalid (''externalized attribute path %s must use \"*\" or a numeric index before segment %q'',
                             [JSONPointerFromTokens concretePath, segment]) None)
                | Some index \<Rightarrow>
                    if index \<ge> length xs then Ok []
                    else collectPathMatches (xs ! index) path (concretePath @ [itoa (int index)]) wildcardIndices)
      | _ \<Rightarrow> Err (Invalid (''externalized attribute path %s crosses a non-traversable value before segment %q'',
                 [JSONPointerFromTokens concretePath, segment]) None))"
| "collect_items idx [] path concretePath wildcardIndices = Ok []"
| "collect_items idx (x # xs) path concretePath wildcardIndices =
     (case collectPathMatches x path (concretePath @ [itoa (int idx)]) (wildcardIndices @ [idx]) of
        Err e \<Rightarrow> Err e
      | Ok childMatches \<Rightarrow>
          (case collect_items (Suc idx) xs path concretePath wildcardIndices of
             Err e \<Rightarrow> Err e
           | Ok matches \<Rightarrow> Ok (childMatches @ matches)))"

definition resolvePathMatches :: "gval \<Rightarrow> string \<Rightarrow> pathMatch list result" where
  "resolvePathMatches v pointer =
     (case ParseJSONPointer pointer of
        Err e \<Rightarrow> Err e
      | Ok tokens \<Rightarrow> if tokens = [] then Ok [] else collectPathMatches v tokens [] [])"

definition resolveArtifactFile :: "string \<Rightarrow> nat list \<Rightarrow> string" where
  "resolveArtifactFile base wildcardIndices =
     (if wildcardIndices = [] then base
      else
        let dir = path_dir base; name = path_base base;
            ext = path_ext name; stem = trim_suffix name ext;
            named = (if stem = [] then (name, []) else (stem, ext));
            file = fst named @ concat (map (\<lambda>idx. ''-'' @ itoa (int idx)) wildcardIndices) @ snd named
        in if dir = ''.'' then file else path_join dir file)"

definition wrapPathError :: "string \<Rightarrow> string \<Rightarrow> go_error \<Rightarrow> go_error" where
  "wrapPathError path action e = Invalid (''%s at externalized attribute %s'', [action, path]) (Some e)"

fun add_matches ::
  "(string \<Rightarrow> string \<Rightarrow> string) \<Rightarrow> ResolvedExternalizedAttribute \<Rightarrow> pathMatch list \<Rightarrow> string list \<Rightarrow> string list
    \<Rightarrow> (externalizedTarget list \<times> string list \<times> string list) result" where
  "add_matches sprintf entry [] seenPaths seenFiles = Ok ([], seenPaths, seenFiles)"
| "add_matches sprintf entry (m # ms) seenPaths seenFiles =
     (let concreteKey = join_with [CHR 0x00] (match_ConcretePath m);
          file = resolveArtifactFile (rx_File entry) (match_WildcardIndices m)
      in if concreteKey \<in> set seenPaths
         then Err (Invalid (''externalized attribute %s resolves duplicate concrete path %s'',
                [rx_Path entry, JSONPointerFromTokens (match_ConcretePath m)]) None)
         else if file \<in> set seenFiles
         then Err (Invalid (''externalized attribute %s resolves duplicate artifact file %q'', [rx_Path entry, file]) None)
         else case add_matches sprintf entry ms (concreteKey # seenPaths) (file # seenFiles) of
                Err e \<Rightarrow> Err e
              | Ok (targets, paths, files) \<Rightarrow>
                  Ok (\<lparr>target_ConcretePath = match_ConcretePath m, target_File = file,
                       target_Placeholder = sprintf (rx_Template entry) file, target_Value = match_Value m\<rparr> # targets, paths, files))"

fun resolve_targets ::
  "(string \<Rightarrow> string \<Rightarrow> string) \<Rightarrow> gval \<Rightarrow> ResolvedExternalizedAttribute list \<Rightarrow> string list \<Rightarrow> string list \<Rightarrow> externalizedTarget list result" where
  "resolve_targets sprintf v [] seenPaths seenFiles = Ok []"
| "resolve_targets sprintf v (entry # entries) seenPaths seenFiles =
     (case resolvePathMatches v (rx_Path entry) of
        Err e \<Rightarrow> Err (wrapPathError (rx_Path entry) ''resolve externalized attribute'' e)
      | Ok matches \<Rightarrow>
          (case add_matches sprintf entry matches seenPaths seenFiles of
             Err e \<Rightarrow> Err e
           | Ok (targets, paths, files) \<Rightarrow>
               (case resolve_targets sprintf v entries paths files of
                  Err e \<Rightarrow> Err e
                | Ok rest \<Rightarrow> Ok (targets @ rest))))"

definition resolveExternalizedTargets ::
  "(string \<Rightarrow> string \<Rightarrow> string) \<Rightarrow> gval \<Rightarrow> ResolvedExternalizedAttribute list \<Rightarrow> externalizedTarget list result" where
  "resolveExternalizedTargets sprintf v entries = resolve_targets sprintf v entries [] []"

section \<open>Extraction and expansion\<close>

fun cloneValue :: "gval \<Rightarrow> gval" where
  "cloneValue (VMap m) = VMap (map (\<lambda>(key, child). (key, cloneValue child)) m)"
| "cloneValue (VSlice xs) = VSlice (map cloneValue xs)"
| "cloneValue v = v"

definition missing_path :: "string list \<Rightarrow> go_error" where
  "missing_path path = Invalid (''externalized attribute path %s is missing'', [JSONPointerFromTokens path]) None"

definition not_object :: "string list \<Rightarrow> go_error" where
  "not_object path = Invalid (''externalized attribute path %s crosses a non-object value'', [JSONPointerFromTokens path]) None"

text \<open>The first argument is the part of the path that was already followed.\<close>

fun assign_path :: "string list \<Rightarrow> gval \<Rightarrow> string list \<Rightarrow> gval \<Rightarrow> gval result" where
  "assign_path followed v [] replacement = Err (Invalid (msg ''externalized attribute path must not be empty'') None)"
| "assign_path followed v [lastSegment] replacement =
     (case v of
        VMap m \<Rightarrow> Ok (VMap (map_put lastSegment replacement m))
      | VSlice xs \<Rightarrow>
          (case parseArrayIndex lastSegment of
             Some index \<Rightarrow> if index < length xs then Ok (VSlice (xs[index := replacement])) else Err (missing_path (followed @ [lastSegment]))
           | None \<Rightarrow> Err (missing_path (followed @ [lastSegment])))
      | _ \<Rightarrow> Err (not_object followed))"
| "assign_path followed v (segment # s2 # path) replacement =
     (case v of
        VMap m \<Rightarrow>
          (case map_get m segment of
             None \<Rightarrow> Err (missing_path (followed @ [segment]))
           | Some child \<Rightarrow>
               (case assign_path (followed @ [segment]) child (s2 # path) replacement of
                  Err e \<Rightarrow> Err e
                | Ok child' \<Rightarrow> Ok (VMap (map_put segment child' m))))
      | VSlice xs \<Rightarrow>
          (case parseArrayIndex segment of
             None \<Rightarrow> Err (missing_path (followed @ [segment]))
           | Some index \<Rightarrow>
               if index \<ge> length xs then Err (missing_path (followed @ [segment]))
               else case assign_path (followed @ [segment]) (xs ! index) (s2 # path) replacement of
                      Err e \<Rightarrow> Err e
                    | Ok child' \<Rightarrow> Ok (VSlice (xs[index := child'])))
      | _ \<Rightarrow> Err (not_object (followed @ [segment])))"

definition assignPathValue :: "gval \<Rightarrow> string list \<Rightarrow> gval \<Rightarrow> gval result" where
  "assignPathValue v path replacement = assign_path [] v path replacement"

type_synonym artifact = "string \<times> string"

fun extract_targets :: "externalizedTarget list \<Rightarrow> gval \<Rightarrow> (gval \<times> artifact list) result" where
  "extract_targets [] cloned = Ok (cloned, [])"
| "extract_targets (t # ts) cloned =
     (case target_Value t of
        VString textValue \<Rightarrow>
          (case assignPathValue cloned (target_ConcretePath t) (VString (target_Placeholder t)) of
             Err e \<Rightarrow> Err (wrapPathError (JSONPointerFromTokens (target_ConcretePath t)) ''replace externalized attribute placeholder'' e)
           | Ok cloned' \<Rightarrow>
               (case extract_targets ts cloned' of
                  Err e \<Rightarrow> Err e
                | Ok (result, artifacts) \<Rightarrow> Ok (result, (target_File t, textValue) # artifacts)))
      | _ \<Rightarrow> Err (Invalid (''externalized attribute %s must be a string value'', [JSONPointerFromTokens (target_ConcretePath t)]) None))"

definition Extract ::
  "(string \<Rightarrow> string \<Rightarrow> string) \<Rightarrow> gval \<Rightarrow> ResolvedExternalizedAttribute list \<Rightarrow> (gval \<times> artifact list) result" where
  "Extract sprintf v entries =
     (case Normalize v of
        Err e \<Rightarrow> Err e
      | Ok normalized \<Rightarrow>
          if entries = [] then Ok (normalized, [])
          else
            let cloned = cloneValue normalized in
            case resolveExternalizedTargets sprintf cloned entries of
              Err e \<Rightarrow> Err e
            | Ok targets \<Rightarrow>
                (case extract_targets targets cloned of
                   Err e \<Rightarrow> Err e
                 | Ok (replaced, artifacts) \<Rightarrow>
                     (case Normalize replaced of Err e \<Rightarrow> Err e | Ok result \<Rightarrow> Ok (result, artifacts))))"

fun expand_targets :: "(string \<Rightarrow> string result) option \<Rightarrow> externalizedTarget list \<Rightarrow> gval \<Rightarrow> gval result" where
  "expand_targets reader [] cloned = Ok cloned"
| "expand_targets reader (t # ts) cloned =
     (if target_Value t \<noteq> VString (target_Placeholder t) then expand_targets reader ts cloned
      else case reader of
             None \<Rightarrow> Err (Invalid (''externalized attribute %s requires a configured repository artifact reader'',
                        [JSONPointerFromTokens (target_ConcretePath t)]) None)
           | Some read \<Rightarrow>
               (case read (target_File t) of
                  Err e \<Rightarrow>
                    if IsCategory (Some e) NotFoundError
                    then Err (Invalid (''externalized attribute %s references missing file %q'',
                           [JSONPointerFromTokens (target_ConcretePath t), target_File t]) (Some e))
                    else Err e
                | Ok content \<Rightarrow>
                    (case assignPathValue cloned (target_ConcretePath t) (VString content) of
                       Err e \<Rightarrow> Err (wrapPathError (JSONPointerFromTokens (target_ConcretePath t)) ''expand externalized attribute'' e)
                     | Ok cloned' \<Rightarrow> expand_targets reader ts cloned')))"

definition Expand ::
  "(string \<Rightarrow> string \<Rightarrow> string) \<Rightarrow> (string \<Rightarrow> string result) option \<Rightarrow> gval \<Rightarrow> ResolvedExternalizedAttribute list \<Rightarrow> gval result" where
  "Expand sprintf reader v entries =
     (case Normalize v of
        Err e \<Rightarrow> Err e
      | Ok normalized \<Rightarrow>
          if entries = [] then Ok normalized
          else
            let cloned = cloneValue normalized in
            case resolveExternalizedTargets sprintf cloned entries of
              Err e \<Rightarrow> Err e
            | Ok targets \<Rightarrow>
                (case expand_targets reader targets cloned of Err e \<Rightarrow> Err e | Ok expanded \<Rightarrow> Normalize expanded))"

section \<open>Positions in a payload\<close>

datatype step = Key string | Item nat

fun step_text :: "step \<Rightarrow> string" where
  "step_text (Key k) = k"
| "step_text (Item i) = itoa (int i)"

fun value_at :: "gval \<Rightarrow> step list \<Rightarrow> gval option" where
  "value_at v [] = Some v"
| "value_at (VMap m) (Key k # p) = (case map_get m k of None \<Rightarrow> None | Some c \<Rightarrow> value_at c p)"
| "value_at (VSlice xs) (Item i # p) = (if i < length xs then value_at (xs ! i) p else None)"
| "value_at v (s # p) = None"

text \<open>A payload with the texts left out.\<close>

fun shape :: "gval \<Rightarrow> gval" where
  "shape (VString s) = VString []"
| "shape (VMap m) = VMap (map (\<lambda>(k, c). (k, shape c)) m)"
| "shape (VSlice xs) = VSlice (map shape xs)"
| "shape v = v"

lemma cloneValue_id [simp]: "cloneValue v = v"
  by (induction v rule: cloneValue.induct) (auto intro!: map_idI)

lemma map_get_shape: "map_get (map (\<lambda>(k, c). (k, shape c)) m) k = map_option shape (map_get m k)"
  by (rule map_get_map)

lemma value_at_shape: "value_at (shape v) p = map_option shape (value_at v p)"
proof (induction v p rule: value_at.induct)
  case (2 m k p)
  then show ?case by (auto simp: map_get_shape split: option.split)
qed auto

lemma normal_shape: "normal_value (shape v) = normal_value v"
proof (induction v rule: shape.induct)
  case (2 m)
  have "list_all (\<lambda>p. normal_value (snd p)) (map (\<lambda>(k, c). (k, shape c)) m) = list_all (\<lambda>p. normal_value (snd p)) m"
    using 2 by (auto simp: list_all_iff)
  then show ?case by simp
qed (auto simp: list_all_iff)

definition scalar :: "gval \<Rightarrow> bool" where
  "scalar v = (case v of VString s \<Rightarrow> False | VMap m \<Rightarrow> False | VSlice xs \<Rightarrow> False | _ \<Rightarrow> True)"

lemma shape_scalar: "shape v = shape w \<Longrightarrow> scalar v \<Longrightarrow> v = w"
  by (cases v; cases w) (simp_all add: scalar_def)

text \<open>Two payloads of the same shape with the same texts are equal.\<close>

lemma same_texts:
  assumes "shape v = shape w" "\<And>p s. value_at v p = Some (VString s) \<Longrightarrow> value_at w p = Some (VString s)" "normal_value v"
  shows "v = w"
  using assms
proof (induction v arbitrary: w rule: shape.induct)
  case (1 s)
  then show ?case using "1.prems"(2)[of "[]" s] by simp
next
  case (2 m)
  obtain n where w: "w = VMap n" "map (\<lambda>(k, c). (k, shape c)) m = map (\<lambda>(k, c). (k, shape c)) n" using "2.prems"(1) by (cases w) auto
  have sm: "sorted_map m" using "2.prems"(3) by simp
  have keys: "map fst m = map fst n" using w(2) by (metis (no_types, lifting) case_prod_conv fst_conv list.map_comp map_eq_conv comp_apply surj_pair)
  then have sn: "sorted_map n" using sm by (simp add: sorted_map_def)
  have "map_get m k = map_get n k" for k
  proof (cases "map_get m k")
    case None
    then show ?thesis using keys by (metis map_of_eq_None_iff set_map)
  next
    case (Some c)
    then obtain d where d: "map_get n k = Some d" using keys by (metis map_of_eq_None_iff set_map option.exhaust)
    have "map_option shape (map_get m k) = map_option shape (map_get n k)" using w(2) map_get_shape by metis
    then have sh: "shape c = shape d" using Some d by simp
    have mem: "(k, c) \<in> set m" using Some by (rule map_of_SomeD)
    have "value_at d p = Some (VString s)" if "value_at c p = Some (VString s)" for p s
      using "2.prems"(2)[of "Key k # p" s] that Some d w(1) by simp
    moreover have "normal_value c" using "2.prems"(3) mem by (auto simp: list_all_iff)
    ultimately show ?thesis using "2.IH"[OF mem refl sh] Some d by simp
  qed
  then show ?case using sorted_map_ext[OF sm sn] w(1) by blast
next
  case (3 xs)
  obtain ys where w: "w = VSlice ys" "map shape xs = map shape ys" using "3.prems"(1) by (cases w) auto
  have len: "length xs = length ys" using w(2) by (metis length_map)
  have "xs ! i = ys ! i" if i: "i < length xs" for i
  proof (rule "3.IH")
    show "xs ! i \<in> set xs" using i by simp
    show "shape (xs ! i) = shape (ys ! i)" using w(2) i len by (metis nth_map)
    show "value_at (ys ! i) p = Some (VString s)" if "value_at (xs ! i) p = Some (VString s)" for p s
      using "3.prems"(2)[of "Item i # p" s] that i len w(1) by simp
    show "normal_value (xs ! i)" using "3.prems"(3) i by (simp add: list_all_length)
  qed
  then show ?case using w(1) len by (simp add: nth_equalityI)
qed (erule shape_scalar, simp add: scalar_def)+

section \<open>Replacing a text\<close>

fun put_at :: "gval \<Rightarrow> step list \<Rightarrow> gval \<Rightarrow> gval" where
  "put_at v [] r = r"
| "put_at (VMap m) (Key k # p) r = (case map_get m k of None \<Rightarrow> VMap m | Some c \<Rightarrow> VMap (map_put k (put_at c p r) m))"
| "put_at (VSlice xs) (Item i # p) r = (if i < length xs then VSlice (xs[i := put_at (xs ! i) p r]) else VSlice xs)"
| "put_at v (s # p) r = v"

text \<open>The index of an item can be printed and parsed.\<close>

definition readable :: "step list \<Rightarrow> bool" where
  "readable p \<longleftrightarrow> (\<forall>i. Item i \<in> set p \<longrightarrow> parseArrayIndex (itoa (int i)) = Some i)"

lemma parseArrayIndex_itoa: "parseArrayIndex (itoa (int i)) = Some j \<Longrightarrow> j = i"
proof -
  let ?s = "nat_digits i"
  have d: "list_all is_digit_byte ?s" by (rule list_all_nat_digits)
  then obtain c cs where s: "?s = c # cs" "is_digit_byte c" by (cases ?s) auto
  have "c \<noteq> CHR ''+''" "c \<noteq> CHR ''-''" using s(2) by (auto simp: is_digit_byte_def)
  then have a: "atoi_syntax ?s = Some (int i)"
    using d s(1) digits_value_nat_digits[of i] by (simp add: atoi_syntax_def)
  assume "parseArrayIndex (itoa (int i)) = Some j"
  then show ?thesis using a by (auto simp: parseArrayIndex_def atoi_def itoa_def split: if_splits option.splits)
qed

lemma readable_Cons [simp]:
  "readable []" "readable (Key k # p) \<longleftrightarrow> readable p"
  "readable (Item i # p) \<longleftrightarrow> parseArrayIndex (itoa (int i)) = Some i \<and> readable p"
  by (auto simp: readable_def)

lemma assign_path_iff:
  assumes "value_at v p = Some x" "p \<noteq> []"
  shows "assign_path followed v (map step_text p) r = Ok w \<longleftrightarrow> readable p \<and> w = put_at v p r"
  using assms
proof (induction v p arbitrary: followed w rule: value_at.induct)
  case (2 m k p)
  then obtain c where c: "map_get m k = Some c" "value_at c p = Some x" by (auto split: option.splits)
  show ?case
  proof (cases p)
    case Nil
    then show ?thesis using c by auto
  next
    case (Cons s p')
    have "assign_path (followed @ [k]) c (map step_text p) r = Ok u \<longleftrightarrow> readable p \<and> u = put_at c p r" for u
      using "2.IH"[OF c(1,2)] Cons by simp
    then have "readable p \<Longrightarrow> assign_path (followed @ [k]) c (map step_text p) r = Ok (put_at c p r)"
      "\<not> readable p \<Longrightarrow> \<exists>e. assign_path (followed @ [k]) c (map step_text p) r = Err e"
      by (simp, cases "assign_path (followed @ [k]) c (map step_text p) r") auto
    then show ?thesis using c Cons by (cases "readable p") auto
  qed
next
  case (3 xs i p)
  then have i: "i < length xs" "value_at (xs ! i) p = Some x" by (auto split: if_splits)
  show ?case
  proof (cases p)
    case Nil
    then show ?thesis using i parseArrayIndex_itoa[of i] by (auto split: option.split)
  next
    case (Cons s p')
    have ih: "assign_path (followed @ [itoa (int i)]) (xs ! i) (map step_text p) r = Ok u \<longleftrightarrow> readable p \<and> u = put_at (xs ! i) p r" for u
      using "3.IH"[OF i] Cons by simp
    show ?thesis
    proof (cases "parseArrayIndex (itoa (int i))")
      case None
      then show ?thesis using Cons by simp
    next
      case (Some j)
      then have "j = i" by (rule parseArrayIndex_itoa)
      have "readable p \<Longrightarrow> assign_path (followed @ [itoa (int i)]) (xs ! i) (map step_text p) r = Ok (put_at (xs ! i) p r)"
        "\<not> readable p \<Longrightarrow> \<exists>e. assign_path (followed @ [itoa (int i)]) (xs ! i) (map step_text p) r = Err e"
        using ih by (simp, cases "assign_path (followed @ [itoa (int i)]) (xs ! i) (map step_text p) r") auto
      then show ?thesis using Some i Cons \<open>j = i\<close> by (cases "readable p") auto
    qed
  qed
qed auto

lemma map_put_existing: "sorted_map m \<Longrightarrow> map_get m k \<noteq> None \<Longrightarrow> map_put k v m = map (\<lambda>(k', c). (k', if k' = k then v else c)) m"
proof (induction m)
  case (Cons p m)
  obtain k' c where p: "p = (k', c)" by fastforce
  have gt: "\<forall>x\<in>fst ` set m. k' < x" "sorted_map m" using Cons.prems(1) p by (auto simp: sorted_map_Cons)
  show ?case
  proof (cases "k = k'")
    case True
    have "\<forall>(k'', c')\<in>set m. k'' \<noteq> k'" using gt(1) by force
    then have "map (\<lambda>(k', c). (k', if k' = k then v else c)) m = m" using True by (intro map_idI) auto
    then show ?thesis using True p by simp
  next
    case False
    then have "k \<in> fst ` set m" using Cons.prems(2) p by (auto simp: map_of_eq_None_iff)
    then have "\<not> k < k'" using gt(1) by force
    then show ?thesis using Cons False gt(2) p by auto
  qed
qed simp

lemma put_at_text:
  assumes "normal_value v" "value_at v p = Some (VString u)"
  shows "shape (put_at v p (VString t)) = shape v \<and> normal_value (put_at v p (VString t))
    \<and> (\<forall>q s. value_at v q = Some (VString s) \<longrightarrow> value_at (put_at v p (VString t)) q = Some (VString (if q = p then t else s)))"
  using assms
proof (induction v p rule: value_at.induct)
  case (1 v)
  then show ?case by (auto elim: value_at.elims)
next
  case (2 m k p)
  then obtain c where c: "map_get m k = Some c" "value_at c p = Some (VString u)" by (auto split: option.splits)
  have sm: "sorted_map m" using "2.prems"(1) by simp
  have mem: "(k, c) \<in> set m" using c(1) by (rule map_of_SomeD)
  have "normal_value c" using "2.prems"(1) mem by (auto simp: list_all_iff)
  note ih = "2.IH"[OF c(1) this c(2)]
  let ?c = "put_at c p (VString t)"
  have put: "put_at (VMap m) (Key k # p) (VString t) = VMap (map_put k ?c m)" using c(1) by simp
  have sh: "shape (VMap (map_put k ?c m)) = shape (VMap m)"
  proof -
    have "shape ?c = shape c'" if "(k, c') \<in> set m" for c'
    proof -
      have "map_get m k = Some c'" using that sorted_map_get[OF sm] by blast
      then show ?thesis using c(1) ih by auto
    qed
    then show ?thesis using sm c(1) by (auto simp: map_put_existing)
  qed
  have "normal_value (VMap (map_put k ?c m))" using sh normal_shape "2.prems"(1) by metis
  moreover have "value_at (VMap (map_put k ?c m)) q = Some (VString (if q = Key k # p then t else s))"
    if at: "value_at (VMap m) q = Some (VString s)" for q s
  proof (cases q)
    case (Cons st q')
    then obtain k' c' where k: "st = Key k'" "map_get m k' = Some c'" "value_at c' q' = Some (VString s)"
      using at by (cases st) (auto split: option.splits)
    then show ?thesis using ih Cons c(1) by (cases "k' = k") auto
  qed (use at in simp)
  ultimately show ?case using sh put by simp
next
  case (3 xs i p)
  then have i: "i < length xs" "value_at (xs ! i) p = Some (VString u)" by (auto split: if_splits)
  have "normal_value (xs ! i)" using "3.prems"(1) i by (simp add: list_all_length)
  note ih = "3.IH"[OF i(1) this i(2)]
  let ?c = "put_at (xs ! i) p (VString t)"
  have sh: "shape (VSlice (xs[i := ?c])) = shape (VSlice xs)" using ih by (simp add: map_update) (metis i(1) list_update_id nth_map length_map)
  have "normal_value (VSlice (xs[i := ?c]))" using sh normal_shape "3.prems"(1) by metis
  moreover have "value_at (VSlice (xs[i := ?c])) q = Some (VString (if q = Item i # p then t else s))"
    if at: "value_at (VSlice xs) q = Some (VString s)" for q s
  proof (cases q)
    case (Cons st q')
    then obtain j where k: "st = Item j" "j < length xs" "value_at (xs ! j) q' = Some (VString s)"
      using at by (cases st) (auto split: if_splits)
    then show ?thesis using ih Cons i(1) by (cases "j = i") auto
  qed (use at in simp)
  ultimately show ?case using sh i(1) by simp
qed auto

text \<open>Replacing several texts, each at the path of its position.\<close>

fun assign_all :: "(string list \<times> string) list \<Rightarrow> gval \<Rightarrow> gval result" where
  "assign_all [] v = Ok v"
| "assign_all ((path, s) # ps) v =
     (case assignPathValue v path (VString s) of Err e \<Rightarrow> Err e | Ok v' \<Rightarrow> assign_all ps v')"

lemma step_text_inj:
  assumes "value_at v p = Some x" "value_at v q = Some y" "map step_text p = map step_text q"
  shows "p = q"
  using assms
proof (induction v p arbitrary: q rule: value_at.induct)
  case (2 m k p)
  then obtain st q' where q: "q = st # q'" by (cases q) auto
  show ?case using 2 q by (cases st) (auto split: option.splits)
next
  case (3 xs i p)
  then obtain st q' where q: "q = st # q'" by (cases q) auto
  have "itoa (int i) = itoa (int j) \<Longrightarrow> i = j" for j using digits_value_nat_digits by (metis itoa_def nat_int of_nat_less_0_iff)
  then show ?case using 3 q by (cases st) (auto split: if_splits)
qed auto

definition text_places :: "gval \<Rightarrow> string list list \<Rightarrow> bool" where
  "text_places v paths \<longleftrightarrow> (\<forall>path \<in> set paths. \<exists>p u. p \<noteq> [] \<and> path = map step_text p \<and> value_at v p = Some (VString u))"

lemma same_shape_text:
  assumes "shape v = shape w" "value_at v p = Some (VString u)"
  shows "\<exists>u'. value_at w p = Some (VString u')"
proof -
  have "map_option shape (value_at w p) = Some (VString [])" using assms value_at_shape[of v p] value_at_shape[of w p] by simp
  then obtain x where x: "value_at w p = Some x" "shape x = VString []" by auto
  then show ?thesis by (cases x) auto
qed

lemma text_places_shape: "shape v = shape w \<Longrightarrow> text_places v paths \<Longrightarrow> text_places w paths"
  unfolding text_places_def using same_shape_text by blast

lemma assign_all_texts:
  assumes "assign_all ps v = Ok w" "normal_value v" "text_places v (map fst ps)" "distinct (map fst ps)"
  shows "shape w = shape v \<and> normal_value w
    \<and> (\<forall>q s. value_at v q = Some (VString s) \<longrightarrow>
        value_at w q = Some (VString (case map_of ps (map step_text q) of None \<Rightarrow> s | Some t \<Rightarrow> t)))"
  using assms
proof (induction ps arbitrary: v)
  case (Cons x ps)
  obtain path t where x: "x = (path, t)" by force
  obtain p u where p: "p \<noteq> []" "path = map step_text p" "value_at v p = Some (VString u)"
    using Cons.prems(3) x by (auto simp: text_places_def)
  obtain v1 where v1: "assignPathValue v path (VString t) = Ok v1" "assign_all ps v1 = Ok w"
    using Cons.prems(1) x by (auto split: result.splits)
  have v1_eq: "v1 = put_at v p (VString t)" using v1(1) assign_path_iff[OF p(3,1)] p(2) by (simp add: assignPathValue_def)
  note pt = put_at_text[OF Cons.prems(2) p(3), of t, folded v1_eq]
  have "text_places v1 (map fst ps)"
    using text_places_shape[of v v1 "map fst ps"] pt Cons.prems(3) by (simp add: text_places_def)
  then have ih: "shape w = shape v1 \<and> normal_value w
      \<and> (\<forall>q s. value_at v1 q = Some (VString s) \<longrightarrow> value_at w q = Some (VString (case map_of ps (map step_text q) of None \<Rightarrow> s | Some t \<Rightarrow> t)))"
    using Cons.IH[OF v1(2)] pt Cons.prems(4) by simp
  have none: "map_of ps path = None" using Cons.prems(4) x by (simp add: map_of_eq_None_iff)
  have "value_at w q = Some (VString (case map_of (x # ps) (map step_text q) of None \<Rightarrow> s | Some t \<Rightarrow> t))"
    if at: "value_at v q = Some (VString s)" for q s
  proof -
    have v1q: "value_at v1 q = Some (VString (if q = p then t else s))" using pt at by blast
    have "map step_text q = path \<longleftrightarrow> q = p" using step_text_inj[OF at p(3)] p(2) by auto
    then show ?thesis using ih v1q none x by (cases "q = p") auto
  qed
  then show ?case using ih pt by auto
qed simp

lemma assign_all_ok:
  assumes "assign_all ps v = Ok w" "normal_value v" "text_places v (map fst ps)"
    and "map fst ps' = map fst ps" "shape v' = shape v" "normal_value v'"
  shows "\<exists>w'. assign_all ps' v' = Ok w'"
  using assms
proof (induction ps arbitrary: v v' ps')
  case (Cons x ps)
  obtain path t where x: "x = (path, t)" by force
  obtain t' rest where ps': "ps' = (path, t') # rest" "map fst rest = map fst ps"
    using Cons.prems(4) x by (cases ps') auto
  obtain p u where p: "p \<noteq> []" "path = map step_text p" "value_at v p = Some (VString u)"
    using Cons.prems(3) x by (auto simp: text_places_def)
  obtain u' where p': "value_at v' p = Some (VString u')" using same_shape_text[OF Cons.prems(5)[symmetric] p(3)] by blast
  obtain v1 where v1: "assignPathValue v path (VString t) = Ok v1" "assign_all ps v1 = Ok w"
    using Cons.prems(1) x by (auto split: result.splits)
  have r: "readable p" "v1 = put_at v p (VString t)" using v1(1) assign_path_iff[OF p(3,1)] p(2) by (simp_all add: assignPathValue_def)
  have v1': "assignPathValue v' path (VString t') = Ok (put_at v' p (VString t'))"
    using r(1) assign_path_iff[OF p' p(1)] p(2) by (simp add: assignPathValue_def)
  note pt = put_at_text[OF Cons.prems(2) p(3), of t] and pt' = put_at_text[OF Cons.prems(6) p', of t']
  have "text_places v1 (map fst ps)" using text_places_shape[of v v1 "map fst ps"] pt r(2) Cons.prems(3) by (simp add: text_places_def)
  then have "\<exists>w'. assign_all rest (put_at v' p (VString t')) = Ok w'"
    using Cons.IH[OF v1(2) _ _ ps'(2)] pt pt' r(2) Cons.prems(5) by simp
  then show ?case using ps'(1) v1' by simp
qed simp

section \<open>Targets and positions\<close>

lemma collect_positions:
  "collectPathMatches v path cp wi = Ok ms \<Longrightarrow> m \<in> set ms \<Longrightarrow>
    \<exists>p. length p = length path \<and> match_ConcretePath m = cp @ map step_text p \<and> value_at v p = Some (match_Value m)"
  "collect_items idx xs path cp wi = Ok ms \<Longrightarrow> m \<in> set ms \<Longrightarrow>
    \<exists>i p. i < length xs \<and> length p = length path \<and> match_ConcretePath m = cp @ itoa (int (idx + i)) # map step_text p
      \<and> value_at (xs ! i) p = Some (match_Value m)"
proof (induction v path cp wi and idx xs path cp wi arbitrary: ms m and ms m rule: collectPathMatches_collect_items.induct)
  case (2 current segment path cp wi)
  consider (obj) o' c where "current = VMap o'" "map_get o' segment = Some c" "collectPathMatches c path (cp @ [segment]) wi = Ok ms"
    | (star) xs where "current = VSlice xs" "segment = ''*''" "collect_items 0 xs path cp wi = Ok ms"
    | (item) xs i where "current = VSlice xs" "segment \<noteq> ''*''" "parseArrayIndex segment = Some i" "i < length xs"
        "collectPathMatches (xs ! i) path (cp @ [itoa (int i)]) wi = Ok ms"
    using "2.prems" by (auto split: gval.splits option.splits if_splits)
  then show ?case
  proof cases
    case obj
    then obtain p where "length p = length path" "match_ConcretePath m = (cp @ [segment]) @ map step_text p" "value_at c p = Some (match_Value m)"
      using "2.IH"(3)[OF obj(1,2,3) "2.prems"(2)] by blast
    then show ?thesis using obj by (intro exI[of _ "Key segment # p"]) simp
  next
    case star
    then obtain i p where "i < length xs" "length p = length path" "match_ConcretePath m = cp @ itoa (int i) # map step_text p"
      "value_at (xs ! i) p = Some (match_Value m)"
      using "2.IH"(1)[OF star(1,2,3) "2.prems"(2)] by auto
    then show ?thesis using star by (intro exI[of _ "Item i # p"]) simp
  next
    case item
    then obtain p where "length p = length path" "match_ConcretePath m = (cp @ [itoa (int i)]) @ map step_text p" "value_at (xs ! i) p = Some (match_Value m)"
      using "2.IH"(2)[OF item(1,2,3) _ item(5) "2.prems"(2)] by auto
    then show ?thesis using item by (intro exI[of _ "Item i # p"]) simp
  qed
next
  case (4 idx x xs path cp wi)
  obtain a b where ab: "collectPathMatches x path (cp @ [itoa (int idx)]) (wi @ [idx]) = Ok a" "collect_items (Suc idx) xs path cp wi = Ok b" "ms = a @ b"
    using "4.prems"(1) by (auto split: result.splits)
  show ?case
  proof (cases "m \<in> set a")
    case True
    from "4.IH"(1)[OF ab(1) this] obtain p where "length p = length path" "match_ConcretePath m = (cp @ [itoa (int idx)]) @ map step_text p"
      "value_at x p = Some (match_Value m)" by blast
    then show ?thesis by (intro exI[of _ 0] exI[of _ p]) simp
  next
    case False
    then have "m \<in> set b" using "4.prems"(2) ab(3) by simp
    from "4.IH"(2)[OF ab(1,2) this] obtain i p where "i < length xs" "length p = length path"
      "match_ConcretePath m = cp @ itoa (int (Suc idx + i)) # map step_text p" "value_at (xs ! i) p = Some (match_Value m)" by blast
    then show ?thesis by (intro exI[of _ "Suc i"] exI[of _ p]) simp
  qed
qed auto

text \<open>Which paths and files are found does not depend on the texts.\<close>

definition bare_match :: "pathMatch \<Rightarrow> pathMatch" where
  "bare_match m = m\<lparr>match_Value := shape (match_Value m)\<rparr>"

definition bare_target :: "externalizedTarget \<Rightarrow> externalizedTarget" where
  "bare_target t = t\<lparr>target_Value := shape (target_Value t)\<rparr>"

lemma collect_shape:
  "collectPathMatches (shape v) path cp wi = map_result (map bare_match) (collectPathMatches v path cp wi)"
  "collect_items idx (map shape xs) path cp wi = map_result (map bare_match) (collect_items idx xs path cp wi)"
proof (induction v path cp wi and idx xs path cp wi rule: collectPathMatches_collect_items.induct)
  case (2 current segment path cp wi)
  then show ?case by (cases current) (auto simp: map_get_shape split: option.split)
qed (auto simp: bare_match_def split: result.split)

lemma add_matches_shape:
  "add_matches sprintf entry (map bare_match ms) paths files =
     map_result (\<lambda>(ts, ps, fs). (map bare_target ts, ps, fs)) (add_matches sprintf entry ms paths files)"
  by (induction ms arbitrary: paths files) (auto simp: bare_match_def bare_target_def Let_def split: result.split)

lemma resolve_targets_shape:
  "resolve_targets sprintf (shape v) entries paths files = map_result (map bare_target) (resolve_targets sprintf v entries paths files)"
proof (induction entries arbitrary: paths files)
  case (Cons entry entries)
  have "resolvePathMatches (shape v) (rx_Path entry) = map_result (map bare_match) (resolvePathMatches v (rx_Path entry))"
    by (auto simp: resolvePathMatches_def collect_shape split: result.split)
  then show ?case using Cons by (auto simp: add_matches_shape split: result.split prod.split)
qed simp

abbreviation path_key :: "externalizedTarget \<Rightarrow> string" where
  "path_key t \<equiv> join_with [CHR 0x00] (target_ConcretePath t)"

text \<open>Targets that are new with respect to the paths and files seen before, and pairwise different.\<close>

definition fresh_targets :: "string list \<Rightarrow> string list \<Rightarrow> externalizedTarget list \<Rightarrow> bool" where
  "fresh_targets paths files ts \<longleftrightarrow> distinct (map path_key ts) \<and> distinct (map target_File ts)
     \<and> (\<forall>t \<in> set ts. path_key t \<notin> set paths \<and> target_File t \<notin> set files)"

lemma add_matches_targets:
  "add_matches sprintf entry ms paths files = Ok (ts, paths', files') \<Longrightarrow>
     map target_ConcretePath ts = map match_ConcretePath ms \<and> map target_Value ts = map match_Value ms
     \<and> set paths' = set (map path_key ts) \<union> set paths \<and> set files' = set (map target_File ts) \<union> set files \<and> fresh_targets paths files ts"
proof (induction ms arbitrary: paths files ts)
  case (Cons m ms)
  let ?k = "join_with [CHR 0x00] (match_ConcretePath m)" and ?f = "resolveArtifactFile (rx_File entry) (match_WildcardIndices m)"
  obtain ts' where ts': "add_matches sprintf entry ms (?k # paths) (?f # files) = Ok (ts', paths', files')" "?k \<notin> set paths" "?f \<notin> set files"
    "ts = \<lparr>target_ConcretePath = match_ConcretePath m, target_File = ?f, target_Placeholder = sprintf (rx_Template entry) ?f, target_Value = match_Value m\<rparr> # ts'"
    using Cons.prems by (auto simp: Let_def split: if_splits result.splits)
  from Cons.IH[OF ts'(1)] show ?case using ts'(2-4) by (auto simp: fresh_targets_def)
qed (auto simp: fresh_targets_def)

lemma fresh_targets_append:
  "fresh_targets paths files ts \<Longrightarrow> set paths' = set (map path_key ts) \<union> set paths \<Longrightarrow> set files' = set (map target_File ts) \<union> set files
    \<Longrightarrow> fresh_targets paths' files' us \<Longrightarrow> fresh_targets paths files (ts @ us)"
  by (auto simp: fresh_targets_def) (metis imageI)+

lemma resolve_targets_facts:
  "resolve_targets sprintf v entries paths files = Ok ts \<Longrightarrow> fresh_targets paths files ts
    \<and> (\<forall>t \<in> set ts. \<exists>p. p \<noteq> [] \<and> target_ConcretePath t = map step_text p \<and> value_at v p = Some (target_Value t))"
proof (induction entries arbitrary: paths files ts)
  case (Cons entry entries)
  obtain ms ts1 paths1 files1 ts2 where r: "resolvePathMatches v (rx_Path entry) = Ok ms"
    "add_matches sprintf entry ms paths files = Ok (ts1, paths1, files1)" "resolve_targets sprintf v entries paths1 files1 = Ok ts2" "ts = ts1 @ ts2"
    using Cons.prems by (auto split: result.splits)
  note a = add_matches_targets[OF r(2)] and ih = Cons.IH[OF r(3)]
  have "\<exists>p. p \<noteq> [] \<and> target_ConcretePath t = map step_text p \<and> value_at v p = Some (target_Value t)" if t: "t \<in> set ts1" for t
  proof -
    obtain i where i: "i < length ts1" "t = ts1 ! i" using t by (metis in_set_conv_nth)
    have len: "length ms = length ts1" using a by (metis length_map)
    have m: "target_ConcretePath t = match_ConcretePath (ms ! i)" "target_Value t = match_Value (ms ! i)"
      using a i len by (metis nth_map)+
    obtain tokens where tok: "tokens \<noteq> []" "collectPathMatches v tokens [] [] = Ok ms"
      using r(1) i len by (auto simp: resolvePathMatches_def split: result.splits if_splits)
    have "ms ! i \<in> set ms" using i len by simp
    from collect_positions(1)[OF tok(2) this] obtain p where "length p = length tokens"
      "match_ConcretePath (ms ! i) = [] @ map step_text p" "value_at v p = Some (match_Value (ms ! i))" by blast
    then show ?thesis using tok(1) m by (intro exI[of _ p]) auto
  qed
  moreover have "fresh_targets paths files (ts1 @ ts2)"
    by (rule fresh_targets_append[where paths' = paths1 and files' = files1]) (use a ih in simp_all)
  ultimately show ?case using ih unfolding r(4) set_append by blast
qed (simp add: fresh_targets_def)

section \<open>Expanding what was extracted\<close>

lemma extract_assign:
  assumes "extract_targets ts v = Ok (w, arts)"
  shows "assign_all (map (\<lambda>t. (target_ConcretePath t, target_Placeholder t)) ts) v = Ok w
     \<and> (\<forall>t \<in> set ts. \<exists>s. target_Value t = VString s \<and> (target_File t, s) \<in> set arts)
     \<and> map fst arts = map target_File ts"
  using assms
proof (induction ts arbitrary: v arts)
  case (Cons t ts)
  obtain s v1 arts1 where t: "target_Value t = VString s" "assignPathValue v (target_ConcretePath t) (VString (target_Placeholder t)) = Ok v1"
    "extract_targets ts v1 = Ok (w, arts1)" "arts = (target_File t, s) # arts1"
    using Cons.prems by (auto split: gval.splits result.splits)
  then show ?case using Cons.IH[OF t(3)] by auto
qed auto

lemma expand_assign:
  assumes "\<forall>t \<in> set ts. target_Value t = VString (target_Placeholder t) \<and> read (target_File t) = Ok (content t)"
  shows "expand_targets (Some read) ts v = Ok w \<longleftrightarrow> assign_all (map (\<lambda>t. (target_ConcretePath t, content t)) ts) v = Ok w"
  using assms by (induction ts arbitrary: v) (auto split: result.split)

lemma Normalize_go_value: "go_value v \<Longrightarrow> Normalize v = Ok w \<Longrightarrow> normal_value w"
  by (simp add: Normalize_eq normalize_sound)

lemma bare_fields:
  assumes "map bare_target us = map bare_target ts"
  shows "map target_ConcretePath us = map target_ConcretePath ts \<and> map target_File us = map target_File ts
    \<and> map target_Placeholder us = map target_Placeholder ts"
proof -
  have "target_ConcretePath t = target_ConcretePath (bare_target t)" "target_File t = target_File (bare_target t)"
    "target_Placeholder t = target_Placeholder (bare_target t)" for t by (simp_all add: bare_target_def)
  then have f: "target_ConcretePath = target_ConcretePath \<circ> bare_target" "target_File = target_File \<circ> bare_target"
    "target_Placeholder = target_Placeholder \<circ> bare_target" by (auto simp: fun_eq_iff)
  show ?thesis using assms by (metis f map_map)
qed

lemma same_targets:
  assumes "map target_ConcretePath us = map target_ConcretePath ts" "map target_File us = map target_File ts"
    "map target_Placeholder us = map target_Placeholder ts" "u \<in> set us"
  shows "\<exists>t \<in> set ts. target_ConcretePath t = target_ConcretePath u \<and> target_File t = target_File u \<and> target_Placeholder t = target_Placeholder u"
proof -
  obtain i where i: "i < length us" "u = us ! i" using assms(4) by (metis in_set_conv_nth)
  have len: "length ts = length us" using assms(1) by (metis length_map)
  show ?thesis using i len assms(1-3) by (intro bexI[of _ "ts ! i"]) (metis nth_map, simp)
qed

abbreviation hide_texts :: "externalizedTarget list \<Rightarrow> (string list \<times> string) list" where
  "hide_texts ts \<equiv> map (\<lambda>t. (target_ConcretePath t, target_Placeholder t)) ts"

text \<open>A payload \<open>n\<close> with targets \<open>ts\<close>, the payload \<open>w\<close> with the placeholders in place, and the targets \<open>us\<close> that are
  found there.\<close>

definition extracted :: "(string \<Rightarrow> string \<Rightarrow> string) \<Rightarrow> ResolvedExternalizedAttribute list \<Rightarrow> gval \<Rightarrow> externalizedTarget list
    \<Rightarrow> gval \<Rightarrow> artifact list \<Rightarrow> bool" where
  "extracted sprintf entries n ts w artifacts \<longleftrightarrow> normal_value n \<and> resolve_targets sprintf n entries [] [] = Ok ts
     \<and> extract_targets ts n = Ok (w, artifacts)"

lemma extracted_places:
  assumes "extracted sprintf entries n ts w artifacts"
  shows "text_places n (map target_ConcretePath ts)" "distinct (map target_ConcretePath ts)"
proof -
  have "resolve_targets sprintf n entries [] [] = Ok ts" "extract_targets ts n = Ok (w, artifacts)" using assms by (simp_all add: extracted_def)
  note facts = resolve_targets_facts[OF this(1)] and e = extract_assign[OF this(2)]
  show "text_places n (map target_ConcretePath ts)" using facts e unfolding text_places_def by auto metis
  show "distinct (map target_ConcretePath ts)" using facts by (auto simp: fresh_targets_def distinct_map inj_on_def)
qed

lemma extracted_hidden:
  assumes "extracted sprintf entries n ts w artifacts"
  shows "shape w = shape n" "normal_value w"
    "value_at n q = Some (VString s) \<Longrightarrow> value_at w q = Some (VString (case map_of (hide_texts ts) (map step_text q) of None \<Rightarrow> s | Some t \<Rightarrow> t))"
  using assign_all_texts[of "hide_texts ts" n w] extract_assign[of ts n w artifacts] extracted_places[OF assms] assms
  by (simp_all add: extracted_def comp_def)

lemma extracted_again:
  assumes "extracted sprintf entries n ts w artifacts"
  obtains us where "resolve_targets sprintf w entries [] [] = Ok us" "map bare_target us = map bare_target ts"
  using resolve_targets_shape[of sprintf n entries "[]" "[]"] resolve_targets_shape[of sprintf w entries "[]" "[]"]
    extracted_hidden(1)[OF assms] assms that
  by (cases "resolve_targets sprintf w entries [] []") (auto simp: extracted_def)

lemma extracted_target:
  assumes x: "extracted sprintf entries n ts w artifacts" and us: "resolve_targets sprintf w entries [] [] = Ok us"
    "map bare_target us = map bare_target ts" and u: "u \<in> set us"
  shows "\<exists>p s. target_ConcretePath u = map step_text p \<and> value_at n p = Some (VString s)
    \<and> target_Value u = VString (target_Placeholder u) \<and> (target_File u, s) \<in> set artifacts"
proof -
  have "extract_targets ts n = Ok (w, artifacts)" "resolve_targets sprintf n entries [] [] = Ok ts" using x by (simp_all add: extracted_def)
  note e = extract_assign[OF this(1)] and facts = resolve_targets_facts[OF this(2)]
  obtain t where t: "t \<in> set ts" "target_ConcretePath t = target_ConcretePath u" "target_File t = target_File u" "target_Placeholder t = target_Placeholder u"
    using same_targets[of us ts u] bare_fields[OF us(2)] u by blast
  obtain s where s: "target_Value t = VString s" "(target_File t, s) \<in> set artifacts" using e t(1) by blast
  obtain p where p: "target_ConcretePath t = map step_text p" "value_at n p = Some (VString s)" using facts t(1) s(1) by metis
  have "(target_ConcretePath t, target_Placeholder t) \<in> set (hide_texts ts)" using t(1) by auto
  moreover have "distinct (map fst (hide_texts ts))" using extracted_places(2)[OF x] by (simp add: comp_def)
  ultimately have "map_of (hide_texts ts) (map step_text p) = Some (target_Placeholder t)" using p(1) by (metis map_of_is_SomeI)
  then have wp: "value_at w p = Some (VString (target_Placeholder t))" using extracted_hidden(3)[OF x p(2)] by simp
  obtain q where q: "target_ConcretePath u = map step_text q" "value_at w q = Some (target_Value u)"
    using resolve_targets_facts[OF us(1)] u by blast
  have "q = p" using step_text_inj[OF q(2) wp] q(1) p(1) t(2) by simp
  then show ?thesis using p t q wp s(2) by auto
qed

lemma expand_extracted:
  assumes x: "extracted sprintf entries n ts w artifacts" and us: "resolve_targets sprintf w entries [] [] = Ok us"
    "map bare_target us = map bare_target ts" and read: "\<And>file content. (file, content) \<in> set artifacts \<Longrightarrow> read file = Ok content"
  shows "expand_targets (Some read) us w = Ok n"
proof -
  define content where "content u = (case read (target_File u) of Ok c \<Rightarrow> c | Err e \<Rightarrow> [])" for u :: externalizedTarget
  note target = extracted_target[OF x us] and hidden = extracted_hidden[OF x] and places = extracted_places[OF x]
  let ?show = "map (\<lambda>u. (target_ConcretePath u, content u)) us"
  have paths: "map fst ?show = map target_ConcretePath ts" using bare_fields[OF us(2)] by (simp add: comp_def)
  have n: "normal_value n" and e: "assign_all (hide_texts ts) n = Ok w"
    using x extract_assign[of ts n w artifacts] by (simp_all add: extracted_def)
  obtain y where y: "assign_all ?show w = Ok y"
    using assign_all_ok[OF e n _ _ hidden(1,2), of ?show] places(1) paths by (auto simp: comp_def)
  have shown: "shape y = shape w" "normal_value y"
    "value_at w q = Some (VString s) \<Longrightarrow> value_at y q = Some (VString (case map_of ?show (map step_text q) of None \<Rightarrow> s | Some t \<Rightarrow> t))" for q s
    using assign_all_texts[OF y hidden(2)] text_places_shape[of n w] hidden(1) places paths by simp_all
  have "n = y"
  proof (rule same_texts)
    fix q s assume at: "value_at n q = Some (VString s)"
    show "value_at y q = Some (VString s)"
    proof (cases "map_of ?show (map step_text q)")
      case None
      then have "map step_text q \<notin> set (map fst ?show)" by (simp only: map_of_eq_None_iff set_map not_False_eq_True)
      moreover have "map fst (hide_texts ts) = map fst ?show" using paths by (simp add: comp_def)
      ultimately have "map step_text q \<notin> set (map fst (hide_texts ts))" by metis
      then have "map_of (hide_texts ts) (map step_text q) = None" by (simp only: map_of_eq_None_iff set_map not_False_eq_True)
      then show ?thesis using None hidden(3)[OF at] shown(3) by simp
    next
      case (Some c)
      then obtain u where u: "u \<in> set us" "target_ConcretePath u = map step_text q" "c = content u" by (auto dest!: map_of_SomeD)
      obtain p s' where p: "target_ConcretePath u = map step_text p" "value_at n p = Some (VString s')" "(target_File u, s') \<in> set artifacts"
        using target[OF u(1)] by blast
      have "p = q" using step_text_inj[OF p(2) at] p(1) u(2) by simp
      then show ?thesis using Some u(3) p(2) at hidden(3)[OF at] shown(3) read[OF p(3)] by (simp add: content_def)
    qed
  qed (use shown hidden n in simp_all)
  then show ?thesis using expand_assign[of us read content w y] target y read by (fastforce simp: content_def)
qed

lemma Extract_files_distinct:
  assumes "Extract sprintf v entries = Ok (payload, artifacts)"
  shows "distinct (map fst artifacts)"
proof (cases "entries = []")
  case False
  then obtain n ts w where "resolve_targets sprintf n entries [] [] = Ok ts" "extract_targets ts n = Ok (w, artifacts)"
    using assms by (auto simp: Extract_def resolveExternalizedTargets_def Let_def split: result.splits)
  then show ?thesis using resolve_targets_facts extract_assign by (metis fresh_targets_def)
qed (use assms in \<open>auto simp: Extract_def split: result.splits\<close>)

text \<open>Expanding an extracted payload, with a reader that returns the extracted artifacts, restores the payload.\<close>

theorem Extract_Expand:
  assumes "Extract sprintf v entries = Ok (payload, artifacts)" "go_value v"
    and "\<And>file content. (file, content) \<in> set artifacts \<Longrightarrow> read file = Ok content"
  shows "Expand sprintf (Some read) payload entries = Normalize v"
proof -
  obtain n where n: "Normalize v = Ok n" using assms(1) by (auto simp: Extract_def split: result.splits)
  have nn: "normal_value n" by (rule Normalize_go_value[OF assms(2) n])
  show ?thesis
  proof (cases "entries = []")
    case True
    then show ?thesis using assms(1) n nn by (auto simp: Extract_def Expand_def)
  next
    case False
    then obtain ts w where x: "extracted sprintf entries n ts w artifacts" and w: "Normalize w = Ok payload"
      using assms(1) n nn by (auto simp: Extract_def extracted_def resolveExternalizedTargets_def Let_def split: result.splits)
    obtain us where us: "resolve_targets sprintf w entries [] [] = Ok us" "map bare_target us = map bare_target ts"
      by (rule extracted_again[OF x])
    have "payload = w" using extracted_hidden(2)[OF x] w by simp
    then show ?thesis using expand_extracted[OF x us assms(3)] n nn False us(1) extracted_hidden(2)[OF x]
      by (simp add: Expand_def resolveExternalizedTargets_def)
  qed
qed

end
