(* ===== verification/File_Tree.thy ===== *)
theory File_Tree
  imports Go_Path Go_Map Faults
begin

text \<open>
  Files and directories as the local repository uses them, and the helpers of
  src/internal/providers/fsutil/path_guard.go.

  A cleaned absolute path is its list of segments.  A tree maps paths to files with their content and to
  directories, with keys in order, so that the entries of a directory come sorted as \<open>os.ReadDir\<close> returns
  them; the root directory always exists.  The trees have no symbolic links; \<open>resolvePathWithSymlinks\<close> takes
  what \<open>os.Lstat\<close> and \<open>filepath.EvalSymlinks\<close> return as arguments.  Each system call may fail with an error
  given for its operation and path, and then leaves the tree as it was.

  The lemmas show what each call changes: nothing outside the directory it is called on.
\<close>

type_synonym file_path = "string list"

datatype node = FileNode string | DirNode

type_synonym file_tree = "(file_path, node) gomap"

datatype os_op = OpMkdir | OpCreate | OpWrite | OpClose | OpRename | OpRemove | OpReadFile | OpReadDir | OpStat

type_synonym os_faults = "os_op \<Rightarrow> file_path \<Rightarrow> go_error option"

datatype os_error = ErrNotExist | ErrNotEmpty | ErrOther go_error

fun os_cause :: "os_error \<Rightarrow> go_error" where
  "os_cause ErrNotExist = PlainError (msg ''no such file or directory'') None"
| "os_cause ErrNotEmpty = PlainError (msg ''directory not empty'') None"
| "os_cause (ErrOther e) = e"

section \<open>Trees\<close>

definition lookup_node :: "file_tree \<Rightarrow> file_path \<Rightarrow> node option" where
  "lookup_node t p = (if p = [] then Some DirNode else map_get t p)"

fun is_file :: "node option \<Rightarrow> bool" where
  "is_file (Some (FileNode d)) = True"
| "is_file _ = False"

definition missing_error :: "file_tree \<Rightarrow> file_path \<Rightarrow> os_error" where
  "missing_error t p =
     (if list_ex (\<lambda>k. is_file (lookup_node t (take k p))) [0..<length p]
      then ErrOther (PlainError (msg ''not a directory'') None) else ErrNotExist)"

definition dir_entries :: "file_tree \<Rightarrow> file_path \<Rightarrow> (string \<times> bool) list" where
  "dir_entries t p = map (\<lambda>(k, n). (last k, n = DirNode)) (filter (\<lambda>(k, n). k \<noteq> [] \<and> butlast k = p) t)"

section \<open>System calls\<close>

definition os_read_file :: "os_faults \<Rightarrow> file_tree \<Rightarrow> file_path \<Rightarrow> os_error + string" where
  "os_read_file faults t p =
     (case faults OpReadFile p of
        Some e \<Rightarrow> Inl (ErrOther e)
      | None \<Rightarrow>
          (case lookup_node t p of
             None \<Rightarrow> Inl (missing_error t p)
           | Some DirNode \<Rightarrow> Inl (ErrOther (PlainError (msg ''is a directory'') None))
           | Some (FileNode d) \<Rightarrow> Inr d))"

definition os_read_dir :: "os_faults \<Rightarrow> file_tree \<Rightarrow> file_path \<Rightarrow> os_error + (string \<times> bool) list" where
  "os_read_dir faults t p =
     (case faults OpReadDir p of
        Some e \<Rightarrow> Inl (ErrOther e)
      | None \<Rightarrow>
          (case lookup_node t p of
             None \<Rightarrow> Inl (missing_error t p)
           | Some DirNode \<Rightarrow> Inr (dir_entries t p)
           | Some (FileNode d) \<Rightarrow> Inl (ErrOther (PlainError (msg ''not a directory'') None))))"

definition os_stat :: "os_faults \<Rightarrow> file_tree \<Rightarrow> file_path \<Rightarrow> os_error + node" where
  "os_stat faults t p =
     (case faults OpStat p of
        Some e \<Rightarrow> Inl (ErrOther e)
      | None \<Rightarrow> (case lookup_node t p of None \<Rightarrow> Inl (missing_error t p) | Some n \<Rightarrow> Inr n))"

definition os_remove :: "os_faults \<Rightarrow> file_tree \<Rightarrow> file_path \<Rightarrow> os_error + file_tree" where
  "os_remove faults t p =
     (case faults OpRemove p of
        Some e \<Rightarrow> Inl (ErrOther e)
      | None \<Rightarrow>
          (case lookup_node t p of
             None \<Rightarrow> Inl (missing_error t p)
           | Some (FileNode d) \<Rightarrow> Inr (map_del p t)
           | Some DirNode \<Rightarrow>
               if dir_entries t p \<noteq> [] then Inl ErrNotEmpty
               else if p = [] then Inl (ErrOther (PlainError (msg ''device or resource busy'') None))
               else Inr (map_del p t)))"

definition add_dir :: "file_path \<Rightarrow> nat \<Rightarrow> file_tree \<Rightarrow> file_tree" where
  "add_dir p k t = (if lookup_node t (take k p) = None then map_put (take k p) DirNode t else t)"

definition os_mkdir_all :: "os_faults \<Rightarrow> file_tree \<Rightarrow> file_path \<Rightarrow> os_error + file_tree" where
  "os_mkdir_all faults t p =
     (case faults OpMkdir p of
        Some e \<Rightarrow> Inl (ErrOther e)
      | None \<Rightarrow>
          if list_ex (\<lambda>k. is_file (lookup_node t (take k p))) [0..<Suc (length p)]
          then Inl (ErrOther (PlainError (msg ''not a directory'') None))
          else Inr (fold (add_dir p) [0..<Suc (length p)] t))"

definition os_create :: "os_faults \<Rightarrow> file_tree \<Rightarrow> file_path \<Rightarrow> os_error + file_tree" where
  "os_create faults t p =
     (case faults OpCreate p of
        Some e \<Rightarrow> Inl (ErrOther e)
      | None \<Rightarrow>
          if lookup_node t (butlast p) \<noteq> Some DirNode then Inl (missing_error t p)
          else if lookup_node t p \<noteq> None then Inl (ErrOther (PlainError (msg ''file exists'') None))
          else Inr (map_put p (FileNode []) t))"

definition os_write :: "os_faults \<Rightarrow> file_tree \<Rightarrow> file_path \<Rightarrow> string \<Rightarrow> os_error + file_tree" where
  "os_write faults t p data =
     (case faults OpWrite p of Some e \<Rightarrow> Inl (ErrOther e) | None \<Rightarrow> Inr (map_put p (FileNode data) t))"

definition os_rename :: "os_faults \<Rightarrow> file_tree \<Rightarrow> file_path \<Rightarrow> file_path \<Rightarrow> os_error + file_tree" where
  "os_rename faults t old new =
     (case faults OpRename new of
        Some e \<Rightarrow> Inl (ErrOther e)
      | None \<Rightarrow>
          if lookup_node t new = Some DirNode then Inl (ErrOther (PlainError (msg ''is a directory'') None))
          else case map_get t old of
                 None \<Rightarrow> Inl (missing_error t old)
               | Some n \<Rightarrow> Inr (map_put new n (map_del old t)))"

section \<open>Path guard\<close>

datatype lstat_result = LstatNotExist | LstatError go_error | LstatSymlink | LstatOther

fun resolve_parts ::
  "(file_path \<Rightarrow> lstat_result) \<Rightarrow> (file_path \<Rightarrow> file_path result) \<Rightarrow> file_path \<Rightarrow> string list \<Rightarrow> file_path result" where
  "resolve_parts lstat eval_links current [] = Ok current"
| "resolve_parts lstat eval_links current (part # parts) =
     (let nxt = clean_segments True (current @ [part]) in
      case lstat nxt of
        LstatNotExist \<Rightarrow> Ok (clean_segments True (nxt @ parts))
      | LstatError e \<Rightarrow> Err e
      | LstatSymlink \<Rightarrow>
          (case eval_links nxt of
             Err e \<Rightarrow> Err e
           | Ok resolvedLink \<Rightarrow> resolve_parts lstat eval_links resolvedLink parts)
      | LstatOther \<Rightarrow> resolve_parts lstat eval_links nxt parts)"

definition resolvePathWithSymlinks ::
  "(file_path \<Rightarrow> lstat_result) \<Rightarrow> (file_path \<Rightarrow> file_path result) \<Rightarrow> file_path \<Rightarrow> file_path result" where
  "resolvePathWithSymlinks lstat eval_links path = resolve_parts lstat eval_links [] (clean_segments True path)"

text \<open>\<open>filepath.Rel\<close> of two absolute paths starts with \<open>..\<close> unless the first is an initial part of the second.\<close>

definition isPathUnderRootLexical :: "file_path \<Rightarrow> file_path \<Rightarrow> bool" where
  "isPathUnderRootLexical root candidate = prefix (clean_segments True root) (clean_segments True candidate)"

definition IsPathUnderRoot ::
  "(file_path \<Rightarrow> lstat_result) \<Rightarrow> (file_path \<Rightarrow> file_path result) \<Rightarrow> file_path \<Rightarrow> file_path \<Rightarrow> bool" where
  "IsPathUnderRoot lstat eval_links root candidate =
     (case resolvePathWithSymlinks lstat eval_links root of
        Err e \<Rightarrow> False
      | Ok rootResolved \<Rightarrow>
          (case resolvePathWithSymlinks lstat eval_links candidate of
             Err e \<Rightarrow> False
           | Ok candidateResolved \<Rightarrow> isPathUnderRootLexical rootResolved candidateResolved))"

function CleanupEmptyParents :: "os_faults \<Rightarrow> file_tree \<Rightarrow> file_path \<Rightarrow> file_path \<Rightarrow> go_error option \<times> file_tree" where
  "CleanupEmptyParents faults t current root =
     (if current = root then (None, t)
      else if current = [] then (None, t)
      else case os_remove faults t current of
             Inl ErrNotExist \<Rightarrow> (None, t)
           | Inl ErrNotEmpty \<Rightarrow> (None, t)
           | Inl (ErrOther e) \<Rightarrow> (Some e, t)
           | Inr t' \<Rightarrow> CleanupEmptyParents faults t' (butlast current) root)"
  by pat_completeness auto
termination
  by (relation "measure (\<lambda>(f, t, current, root). length current)") auto

declare CleanupEmptyParents.simps [simp del]

section \<open>Well-formed trees\<close>

text \<open>Keys are in order and every entry lies in a directory.\<close>

definition wf_tree :: "file_tree \<Rightarrow> bool" where
  "wf_tree t \<longleftrightarrow> sorted_map t
     \<and> (\<forall>p n. map_get t p = Some n \<longrightarrow> p \<noteq> [] \<and> lookup_node t (butlast p) = Some DirNode)"

lemma wf_tree_check:
  assumes "sorted_map t" "list_all (\<lambda>(p, n). p \<noteq> [] \<and> lookup_node t (butlast p) = Some DirNode) t"
  shows "wf_tree t"
  using assms unfolding wf_tree_def by (auto simp: list_all_iff dest!: map_of_SomeD)

lemma dir_entries_iff:
  assumes "sorted_map t"
  shows "(name, isdir) \<in> set (dir_entries t p) \<longleftrightarrow> (\<exists>n. map_get t (p @ [name]) = Some n \<and> isdir = (n = DirNode))"
proof
  assume "(name, isdir) \<in> set (dir_entries t p)"
  then obtain k n where k: "(k, n) \<in> set t" "k \<noteq> []" "butlast k = p" "name = last k" "isdir = (n = DirNode)"
    by (auto simp: dir_entries_def)
  then have "k = p @ [name]" by (metis append_butlast_last_id)
  then show "\<exists>n. map_get t (p @ [name]) = Some n \<and> isdir = (n = DirNode)" using k assms by (auto simp: sorted_map_get)
next
  assume "\<exists>n. map_get t (p @ [name]) = Some n \<and> isdir = (n = DirNode)"
  then obtain n where n: "(p @ [name], n) \<in> set t" "isdir = (n = DirNode)" using assms by (auto simp: sorted_map_get)
  then have "(\<lambda>(k, n). (last k, n = DirNode)) (p @ [name], n) \<in> set (dir_entries t p)"
    unfolding dir_entries_def set_map by (intro imageI) simp
  then show "(name, isdir) \<in> set (dir_entries t p)" using n(2) by simp
qed

lemma wf_tree_parent:
  "wf_tree t \<Longrightarrow> lookup_node t (p @ [x]) \<noteq> None \<Longrightarrow> lookup_node t p = Some DirNode"
  by (auto simp: wf_tree_def lookup_node_def)

lemma wf_tree_prefix:
  assumes "wf_tree t" "lookup_node t p = Some n" "strict_prefix q p"
  shows "lookup_node t q = Some DirNode"
  using assms(2,3)
proof (induction p arbitrary: n rule: rev_induct)
  case (snoc x p)
  have "lookup_node t p = Some DirNode" using wf_tree_parent[OF assms(1), of p x] snoc.prems(1) by simp
  moreover have "q = p \<or> strict_prefix q p" using snoc.prems(2) by (metis prefix_snoc strict_prefix_def)
  ultimately show ?case using snoc.IH by blast
qed simp

section \<open>Files of a tree\<close>

definition files_of :: "file_tree \<Rightarrow> file_path \<Rightarrow> string option" where
  "files_of t p = (case lookup_node t p of Some (FileNode d) \<Rightarrow> Some d | _ \<Rightarrow> None)"

lemma files_of_None_dir: "lookup_node t p = Some DirNode \<Longrightarrow> files_of t p = None"
  by (simp add: files_of_def)

lemma is_file_iff: "is_file (lookup_node t p) \<longleftrightarrow> files_of t p \<noteq> None"
  by (cases "lookup_node t p" rule: is_file.cases) (auto simp: files_of_def)

lemma lookup_put: "p \<noteq> [] \<Longrightarrow> lookup_node (map_put p n t) = (lookup_node t)(p \<mapsto> n)"
  by (auto simp: lookup_node_def)

lemma lookup_del: "p \<noteq> [] \<Longrightarrow> lookup_node (map_del p t) = (lookup_node t)(p := None)"
  by (auto simp: lookup_node_def)

lemma wf_tree_sorted: "wf_tree t \<Longrightarrow> sorted_map t"
  by (simp add: wf_tree_def)

lemma wf_tree_iff:
  "wf_tree t \<longleftrightarrow> sorted_map t \<and> map_get t [] = None \<and> (\<forall>p x. lookup_node t (p @ [x]) \<noteq> None \<longrightarrow> lookup_node t p = Some DirNode)"
proof
  assume "sorted_map t \<and> map_get t [] = None \<and> (\<forall>p x. lookup_node t (p @ [x]) \<noteq> None \<longrightarrow> lookup_node t p = Some DirNode)"
  moreover have "map_get t p = Some n \<Longrightarrow> p \<noteq> [] \<Longrightarrow> lookup_node t (butlast p @ [last p]) = Some n" for p n
    by (simp add: lookup_node_def)
  ultimately show "wf_tree t" unfolding wf_tree_def by (metis option.distinct(1))
qed (auto simp: wf_tree_def lookup_node_def)

lemma wf_tree_put:
  assumes "wf_tree t" "p \<noteq> []" "lookup_node t (butlast p) = Some DirNode" "lookup_node t p = Some DirNode \<longrightarrow> n = DirNode"
  shows "wf_tree (map_put p n t)"
proof -
  have "lookup_node (map_put p n t) q = Some DirNode" if "lookup_node (map_put p n t) (q @ [x]) \<noteq> None" for q x
  proof (cases "q @ [x] = p")
    case True
    then have "butlast p = q" by auto
    then show ?thesis using assms True by (auto simp: lookup_put)
  next
    case False
    then have "lookup_node t (q @ [x]) \<noteq> None" using that assms(2) by (auto simp: lookup_put)
    then have "lookup_node t q = Some DirNode" using assms(1) by (auto simp: wf_tree_iff)
    then show ?thesis using assms(2,4) by (auto simp: lookup_put)
  qed
  then show ?thesis using assms(1,2) by (auto simp: wf_tree_iff)
qed

lemma wf_tree_del:
  assumes "wf_tree t" "p \<noteq> []" "dir_entries t p = [] \<or> lookup_node t p \<noteq> Some DirNode"
  shows "wf_tree (map_del p t)"
proof -
  have "lookup_node (map_del p t) q = Some DirNode" if "lookup_node (map_del p t) (q @ [x]) \<noteq> None" for q x
  proof -
    have t: "lookup_node t (q @ [x]) \<noteq> None" using that assms(2) by (auto simp: lookup_del split: if_splits)
    then have q: "lookup_node t q = Some DirNode" using assms(1) by (auto simp: wf_tree_iff)
    have "q \<noteq> p"
    proof
      assume "q = p"
      then obtain n where "map_get t (p @ [x]) = Some n" using t by (auto simp: lookup_node_def)
      then have "(x, n = DirNode) \<in> set (dir_entries t p)"
        using dir_entries_iff[OF wf_tree_sorted[OF assms(1)]] by blast
      then show False using assms(3) q \<open>q = p\<close> by auto
    qed
    then show ?thesis using q assms(2) by (auto simp: lookup_del)
  qed
  then show ?thesis using assms(1,2) by (auto simp: wf_tree_iff)
qed

section \<open>What system calls change\<close>

lemma os_remove_Inr:
  assumes "os_remove faults t p = Inr t'" "wf_tree t"
  shows "wf_tree t'" "files_of t' = (files_of t)(p := None)"
proof -
  have t': "t' = map_del p t" "p \<noteq> []" "dir_entries t p = [] \<or> lookup_node t p \<noteq> Some DirNode"
    using assms(1) by (auto simp: os_remove_def lookup_node_def split: option.splits node.splits if_splits)
  show "wf_tree t'" using wf_tree_del[OF assms(2) t'(2,3)] t'(1) by simp
  show "files_of t' = (files_of t)(p := None)" using t' by (auto simp: files_of_def lookup_del)
qed

lemma add_dir_spec:
  assumes "wf_tree t" "k \<le> length p" "0 < k \<longrightarrow> lookup_node t (take (k - 1) p) = Some DirNode" "files_of t (take k p) = None"
  shows "wf_tree (add_dir p k t) \<and> files_of (add_dir p k t) = files_of t \<and> lookup_node (add_dir p k t) (take k p) = Some DirNode"
proof (cases "lookup_node t (take k p)")
  case None
  then have k: "0 < k" "take k p \<noteq> []" by (auto simp: lookup_node_def split: if_splits)
  have "butlast (take k p) = take (k - 1) p" using assms(2) by (simp add: butlast_take)
  then show ?thesis using wf_tree_put[OF assms(1) k(2), of DirNode] None assms(3,4) k
    by (auto simp: add_dir_def lookup_put files_of_def)
next
  case (Some n)
  then show ?thesis using assms by (cases n) (auto simp: add_dir_def files_of_def)
qed

lemma add_dirs_spec:
  assumes "wf_tree t" "\<forall>k \<le> length p. files_of t (take k p) = None" "j \<le> length p"
  shows "wf_tree (fold (add_dir p) [0..<Suc j] t) \<and> files_of (fold (add_dir p) [0..<Suc j] t) = files_of t
    \<and> lookup_node (fold (add_dir p) [0..<Suc j] t) (take j p) = Some DirNode"
  using assms(3)
proof (induction j)
  case 0
  then show ?case using assms by (simp add: add_dir_def lookup_node_def)
next
  case (Suc j)
  let ?t = "fold (add_dir p) [0..<Suc j] t"
  have ih: "wf_tree ?t" "files_of ?t = files_of t" "lookup_node ?t (take j p) = Some DirNode" using Suc by auto
  have "fold (add_dir p) [0..<Suc (Suc j)] t = add_dir p (Suc j) ?t" by simp
  then show ?case using add_dir_spec[of ?t "Suc j" p] ih Suc.prems assms(2) by simp
qed

lemma os_mkdir_all_Inr:
  assumes "os_mkdir_all faults t p = Inr t'" "wf_tree t"
  shows "wf_tree t'" "files_of t' = files_of t" "lookup_node t' p = Some DirNode" "\<forall>k \<le> length p. files_of t (take k p) = None"
proof -
  have none: "\<forall>k \<le> length p. files_of t (take k p) = None" and t': "t' = fold (add_dir p) [0..<Suc (length p)] t"
    using assms(1) by (auto simp: os_mkdir_all_def list_ex_iff is_file_iff simp del: upt_Suc split: option.splits if_splits)
  show "wf_tree t'" "files_of t' = files_of t" "lookup_node t' p = Some DirNode"
    using add_dirs_spec[OF assms(2) none order_refl] t' by simp_all
  show "\<forall>k \<le> length p. files_of t (take k p) = None" by (rule none)
qed

lemma os_create_Inr:
  assumes "os_create faults t p = Inr t'" "wf_tree t" "p \<noteq> []"
  shows "wf_tree t'" "files_of t' = (files_of t)(p \<mapsto> [])" "files_of t p = None" "lookup_node t' (butlast p) = Some DirNode"
proof -
  have c: "t' = map_put p (FileNode []) t" "lookup_node t (butlast p) = Some DirNode" "lookup_node t p = None"
    using assms(1) by (auto simp: os_create_def split: option.splits if_splits)
  show "wf_tree t'" using wf_tree_put[OF assms(2,3)] c by simp
  show "files_of t' = (files_of t)(p \<mapsto> [])" "files_of t p = None" "lookup_node t' (butlast p) = Some DirNode"
    using c assms(3) by (auto simp: files_of_def lookup_put)
qed

lemma os_write_Inr:
  assumes "os_write faults t p data = Inr t'" "wf_tree t" "p \<noteq> []" "files_of t p = Some old"
  shows "wf_tree t'" "files_of t' = (files_of t)(p \<mapsto> data)" "lookup_node t' (butlast p) = lookup_node t (butlast p)"
proof -
  have w: "t' = map_put p (FileNode data) t" using assms(1) by (auto simp: os_write_def split: option.splits)
  have n: "lookup_node t p = Some (FileNode old)" using assms(4) by (auto simp: files_of_def split: option.splits node.splits)
  then have d: "lookup_node t (butlast p) = Some DirNode" using wf_tree_parent[OF assms(2), of "butlast p" "last p"] assms(3) by simp
  show "wf_tree t'" using wf_tree_put[OF assms(2,3) d] n w by simp
  have "butlast p \<noteq> p" using assms(3) by (metis length_butlast diff_less length_greater_0_conv less_irrefl zero_less_one)
  then show "files_of t' = (files_of t)(p \<mapsto> data)" "lookup_node t' (butlast p) = lookup_node t (butlast p)"
    using w assms(3) by (auto simp: files_of_def lookup_put)
qed

lemma os_rename_Inr:
  assumes "os_rename faults t old new = Inr t'" "wf_tree t" "files_of t old = Some d" "new \<noteq> []"
    and "lookup_node t (butlast new) = Some DirNode" "old \<noteq> butlast new" "old \<noteq> new"
  shows "wf_tree t'" "files_of t' = (files_of t)(old := None, new \<mapsto> d)"
proof -
  have o: "lookup_node t old = Some (FileNode d)" using assms(3) by (auto simp: files_of_def split: option.splits node.splits)
  then have o': "map_get t old = Some (FileNode d)" "old \<noteq> []" by (auto simp: lookup_node_def split: if_splits)
  have r: "t' = map_put new (FileNode d) (map_del old t)" "lookup_node t new \<noteq> Some DirNode"
    using assms(1) o' by (auto simp: os_rename_def split: option.splits if_splits)
  have del: "wf_tree (map_del old t)" using wf_tree_del[OF assms(2) o'(2)] o by simp
  show "wf_tree t'" unfolding r(1)
    by (rule wf_tree_put[OF del assms(4)]) (use assms(5,6) o'(2) r(2) in \<open>auto simp: lookup_del split: if_splits\<close>)
  show "files_of t' = (files_of t)(old := None, new \<mapsto> d)"
    using r(1) assms(4) o'(2) by (auto simp: files_of_def lookup_put lookup_del fun_eq_iff)
qed

lemma CleanupEmptyParents_files:
  assumes "wf_tree t" "files_of t current = None"
  shows "wf_tree (snd (CleanupEmptyParents faults t current root)) \<and> files_of (snd (CleanupEmptyParents faults t current root)) = files_of t"
  using assms
proof (induction faults t current root rule: CleanupEmptyParents.induct)
  case (1 faults t current root)
  show ?case
  proof (cases "current = root \<or> current = []")
    case True
    then show ?thesis using 1 by (subst (1 2) CleanupEmptyParents.simps) auto
  next
    case go: False
    show ?thesis
    proof (cases "os_remove faults t current")
      case (Inl e)
      then show ?thesis using 1 go by (subst (1 2) CleanupEmptyParents.simps) (auto split: os_error.split)
    next
      case (Inr t')
      note r = os_remove_Inr[OF Inr "1.prems"(1)]
      have f: "files_of t' = files_of t" using r(2) "1.prems"(2) by (auto simp: fun_eq_iff)
      have "lookup_node t current = Some DirNode"
        using Inr "1.prems"(2) go by (auto simp: os_remove_def files_of_def split: option.splits node.splits if_splits)
      then have "lookup_node t (butlast current) = Some DirNode"
        using wf_tree_parent[OF "1.prems"(1), of "butlast current" "last current"] go by simp
      then have "files_of t' (butlast current) = None" by (simp add: f files_of_None_dir)
      then show ?thesis using "1.IH"[OF _ _ Inr r(1)] go Inr f by (subst (1 2) CleanupEmptyParents.simps) auto
    qed
  qed
qed

end
