(* ===== verification/Local_Repository.thy ===== *)
theory Local_Repository
  imports File_Tree Payload_Types Resource_Paths
begin

text \<open>
  The local resource repository (src/internal/providers/repository/fsstore): each resource is a directory
  below the base directory, named by its logical path, with its payload in the file \<open>resource.\<close>\<^emph>\<open>ext\<close>.

  The base directory is an absolute path; the payload codecs, the faults of system calls and the random part
  of temporary file names are parameters.  \<open>filepath.WalkDir\<close> reads a directory after it called its function on
  it, so it sees what the function changed; its recursion has the length of the longest path as fuel.  The
  \<open>Shared\<close> flag of payload files is never set by this package and left out.

  The theorems show that a saved resource is read back, that an operation leaves every file outside the
  directory of its resource alone, whatever system calls fail, and that a recursive removal stops after the
  first resource whose directory it removed.
\<close>

section \<open>Environment\<close>

record repo_env =
  repo_codecs :: codecs
  repo_faults :: os_faults
  temp_random :: "file_tree \<Rightarrow> file_path \<Rightarrow> string"
  baseDir :: file_path

definition lstat_of :: "os_faults \<Rightarrow> file_tree \<Rightarrow> file_path \<Rightarrow> lstat_result" where
  "lstat_of faults t p =
     (case os_stat faults t p of
        Inl ErrNotExist \<Rightarrow> LstatNotExist
      | Inl e \<Rightarrow> LstatError (os_cause e)
      | Inr n \<Rightarrow> LstatOther)"

definition under_base :: "repo_env \<Rightarrow> file_tree \<Rightarrow> file_path \<Rightarrow> bool" where
  "under_base env t p = IsPathUnderRoot (lstat_of (repo_faults env) t) Ok (baseDir env) p"

definition escapes_error :: go_error where
  "escapes_error = Invalid (msg ''logical path escapes repository base directory'') None"

section \<open>Paths\<close>

definition join_relative :: "file_path \<Rightarrow> string \<Rightarrow> file_path" where
  "join_relative dir relative = clean_segments True (dir @ split_on (CHR ''/'') relative)"

definition canonicalPayloadFilePath :: "repo_env \<Rightarrow> file_tree \<Rightarrow> string \<Rightarrow> string \<Rightarrow> file_path result" where
  "canonicalPayloadFilePath env t logicalPath payloadType =
     (let trimmed = trim_space payloadType;
          extension = (if trimmed = [] then Extension DefaultOctetStreamDescriptor else trimmed);
          extension = (if \<not> prefix ''.'' extension then ''.'' @ extension else extension);
          relative = trim_prefix logicalPath ''/'';
          filePath = join_relative (join_relative (baseDir env) relative) (''resource'' @ extension)
      in if \<not> under_base env t filePath then Err escapes_error else Ok filePath)"

definition collectionDirPath :: "repo_env \<Rightarrow> file_tree \<Rightarrow> string \<Rightarrow> file_path result" where
  "collectionDirPath env t logicalPath =
     (if logicalPath = ''/'' then Ok (baseDir env)
      else let dirPath = join_relative (baseDir env) (trim_prefix logicalPath ''/'')
           in if \<not> under_base env t dirPath then Err escapes_error else Ok dirPath)"

definition normalizeArtifactRelativePath :: "string \<Rightarrow> string result" where
  "normalizeArtifactRelativePath file =
     (let trimmed = trim_space file in
      if trimmed = [] then Err (Invalid (msg ''resource artifact file must not be empty'') None)
      else if prefix ''/'' trimmed
      then Err (Invalid (msg ''resource artifact file must stay within the resource directory'') None)
      else let cleaned = path_clean trimmed in
        if cleaned = ''.'' \<or> cleaned = [] then Err (Invalid (msg ''resource artifact file must not be empty'') None)
        else if ''..'' \<in> set (split_on (CHR ''/'') cleaned)
        then Err (Invalid (msg ''resource artifact file must stay within the resource directory'') None)
        else Ok cleaned)"

definition resourceArtifactFilePath :: "repo_env \<Rightarrow> file_tree \<Rightarrow> string \<Rightarrow> string \<Rightarrow> file_path result" where
  "resourceArtifactFilePath env t logicalPath file =
     (case collectionDirPath env t logicalPath of
        Err e \<Rightarrow> Err e
      | Ok resourceDir \<Rightarrow>
          (case normalizeArtifactRelativePath file of
             Err e \<Rightarrow> Err e
           | Ok relativeFile \<Rightarrow>
               (let targetPath = join_relative resourceDir relativeFile
                in if \<not> under_base env t targetPath then Err escapes_error else Ok targetPath)))"

section \<open>Payload files\<close>

record payloadFileInfo =
  info_Path :: file_path
  info_Name :: string
  info_Descriptor :: PayloadDescriptor

definition payloadFileInfoFromCandidates ::
  "repo_env \<Rightarrow> string \<Rightarrow> file_path \<Rightarrow> string list \<Rightarrow> payloadFileInfo option result" where
  "payloadFileInfoFromCandidates env logicalPath dirPath candidates =
     (case sort candidates of
        [] \<Rightarrow> Ok None
      | [name] \<Rightarrow>
          Ok (Some \<lparr>info_Path = dirPath @ [name], info_Name = name,
            info_Descriptor = NormalizePayloadDescriptor (unicode_lower (repo_codecs env)) (descriptor_of [] [] (path_ext name))\<rparr>)
      | names \<Rightarrow> Err (Conflict (''resource %q has multiple %s files: %s'', [logicalPath, ''payload'', join_with '', '' names]) None))"

definition resource_candidates :: "(string \<times> bool) list \<Rightarrow> string list" where
  "resource_candidates entries = map fst (filter (\<lambda>(name, isdir). \<not> isdir \<and> prefix ''resource.'' name) entries)"

definition payloadFilesInfoFromDir :: "repo_env \<Rightarrow> file_tree \<Rightarrow> string \<Rightarrow> file_path \<Rightarrow> payloadFileInfo option result" where
  "payloadFilesInfoFromDir env t logicalPath dirPath =
     (case os_read_dir (repo_faults env) t dirPath of
        Inl ErrNotExist \<Rightarrow> Ok None
      | Inl e \<Rightarrow> Err (Internal (msg ''failed to inspect resource directory'') (Some (os_cause e)))
      | Inr entries \<Rightarrow> payloadFileInfoFromCandidates env logicalPath dirPath (resource_candidates entries))"

definition discoverPayloadFiles :: "repo_env \<Rightarrow> file_tree \<Rightarrow> string \<Rightarrow> payloadFileInfo option result" where
  "discoverPayloadFiles env t logicalPath =
     (case collectionDirPath env t logicalPath of
        Err e \<Rightarrow> Err e
      | Ok resourceDir \<Rightarrow> payloadFilesInfoFromDir env t logicalPath resourceDir)"

definition desiredPayloadDescriptor :: "repo_env \<Rightarrow> Content \<Rightarrow> payloadFileInfo option \<Rightarrow> PayloadDescriptor" where
  "desiredPayloadDescriptor env content existing =
     (if IsPayloadDescriptorExplicit (Descriptor content)
      then NormalizePayloadDescriptor (unicode_lower (repo_codecs env)) (Descriptor content)
      else case existing of
             Some info \<Rightarrow> info_Descriptor info
           | None \<Rightarrow>
               if IsBinaryValue (Value content) then DefaultOctetStreamDescriptor
               else NormalizePayloadDescriptor (unicode_lower (repo_codecs env)) (descriptor_of ''json'' [] []))"

definition resolvePayloadTarget ::
  "repo_env \<Rightarrow> file_tree \<Rightarrow> string \<Rightarrow> Content \<Rightarrow> (payloadFileInfo \<times> payloadFileInfo option) result" where
  "resolvePayloadTarget env t logicalPath content =
     (case discoverPayloadFiles env t logicalPath of
        Err e \<Rightarrow> Err e
      | Ok files \<Rightarrow>
          (let desired = desiredPayloadDescriptor env content files in
           case canonicalPayloadFilePath env t logicalPath (Extension desired) of
             Err e \<Rightarrow> Err e
           | Ok canonicalPath \<Rightarrow>
               Ok (\<lparr>info_Path = canonicalPath, info_Name = ''resource'' @ Extension desired, info_Descriptor = desired\<rparr>, files)))"

definition readPayloadFile :: "repo_env \<Rightarrow> file_tree \<Rightarrow> payloadFileInfo \<Rightarrow> Content result" where
  "readPayloadFile env t info =
     (case os_read_file (repo_faults env) t (info_Path info) of
        Inl ErrNotExist \<Rightarrow> Err (NotFound (''resource payload %q not found'', [rooted_path (info_Path info)]) None)
      | Inl e \<Rightarrow> Err (Internal (msg ''failed to read resource payload'') (Some (os_cause e)))
      | Inr data \<Rightarrow> DecodeContent (repo_codecs env) data (info_Descriptor info))"

definition removePayloadFile :: "repo_env \<Rightarrow> payloadFileInfo option \<Rightarrow> file_tree \<Rightarrow> go_error option \<times> file_tree" where
  "removePayloadFile env file t =
     (case file of
        None \<Rightarrow> (None, t)
      | Some info \<Rightarrow>
          (let cleanup = (\<lambda>t. (None, snd (CleanupEmptyParents (repo_faults env) t (butlast (info_Path info)) (baseDir env)))) in
           case os_remove (repo_faults env) t (info_Path info) of
             Inr t' \<Rightarrow> cleanup t'
           | Inl ErrNotExist \<Rightarrow> cleanup t
           | Inl e \<Rightarrow> (Some (Internal (msg ''failed to remove resource payload'') (Some (os_cause e))), t)))"

definition discard :: "repo_env \<Rightarrow> file_path \<Rightarrow> file_tree \<Rightarrow> file_tree" where
  "discard env p t = (case os_remove (repo_faults env) t p of Inl e \<Rightarrow> t | Inr t' \<Rightarrow> t')"

definition writeFileAtomically ::
  "repo_env \<Rightarrow> file_path \<Rightarrow> string \<Rightarrow> string \<Rightarrow> string \<Rightarrow> file_tree \<Rightarrow> go_error option \<times> file_tree" where
  "writeFileAtomically env targetPath data tempPattern kind t =
     (let dir = butlast targetPath; fail = (\<lambda>what e t. (Some (Internal (what, [kind]) (Some (os_cause e))), t)) in
      case os_mkdir_all (repo_faults env) t dir of
        Inl e \<Rightarrow> fail ''failed to create %s directory'' e t
      | Inr t1 \<Rightarrow>
          (let tempPath = dir @ [tempPattern @ temp_random env t1 dir] in
           case os_create (repo_faults env) t1 tempPath of
             Inl e \<Rightarrow> fail ''failed to create temporary %s file'' e t1
           | Inr t2 \<Rightarrow>
           (case os_write (repo_faults env) t2 tempPath data of
             Inl e \<Rightarrow> fail ''failed to write temporary %s'' e (discard env tempPath t2)
           | Inr t3 \<Rightarrow>
           (case repo_faults env OpClose tempPath of
             Some e \<Rightarrow> fail ''failed to finalize temporary %s'' (ErrOther e) (discard env tempPath t3)
           | None \<Rightarrow>
           (case os_rename (repo_faults env) t3 tempPath targetPath of
             Inl e \<Rightarrow> fail ''failed to replace %s file'' e (discard env tempPath t3)
           | Inr t4 \<Rightarrow> (None, t4))))))"

section \<open>Operations\<close>

definition resource_path :: "string \<Rightarrow> string result" where
  "resource_path logicalPath =
     (case NormalizeLogicalPath logicalPath of
        Err e \<Rightarrow> Err e
      | Ok normalizedPath \<Rightarrow>
          if normalizedPath = ''/'' then Err (Invalid (msg ''logical path must target a resource, not root'') None)
          else Ok normalizedPath)"

text \<open>The end of \<open>Save\<close> and \<open>SaveResourceWithArtifacts\<close>: the payload file replaces the existing one.\<close>

definition write_payload ::
  "repo_env \<Rightarrow> payloadFileInfo \<Rightarrow> payloadFileInfo option \<Rightarrow> Content \<Rightarrow> file_tree \<Rightarrow> go_error option \<times> file_tree" where
  "write_payload env targetInfo existing content t =
     (if Value content = VNil then removePayloadFile env existing t
      else case EncodeContentPretty (repo_codecs env) content of
             Err e \<Rightarrow> (Some (Internal (msg ''failed to encode payload'') (Some e)), t)
           | Ok encoded \<Rightarrow>
               (case writeFileAtomically env (info_Path targetInfo) encoded ''.declarest-tmp-'' ''resource'' t of
                  (Some e, t') \<Rightarrow> (Some e, t')
                | (None, t') \<Rightarrow>
                    (case existing of
                       None \<Rightarrow> (None, t')
                     | Some info \<Rightarrow>
                         if info_Path info \<noteq> info_Path targetInfo then removePayloadFile env existing t' else (None, t'))))"

definition Repository_Save :: "repo_env \<Rightarrow> string \<Rightarrow> Content \<Rightarrow> file_tree \<Rightarrow> go_error option \<times> file_tree" where
  "Repository_Save env logicalPath content t =
     (case resource_path logicalPath of
        Err e \<Rightarrow> (Some e, t)
      | Ok normalizedPath \<Rightarrow>
          (case resolvePayloadTarget env t normalizedPath content of
             Err e \<Rightarrow> (Some e, t)
           | Ok (targetInfo, existing) \<Rightarrow>
               (case Normalize (Value content) of
                  Err e \<Rightarrow> (Some e, t)
                | Ok normalizedValue \<Rightarrow>
                    write_payload env targetInfo existing \<lparr>Value = normalizedValue, Descriptor = info_Descriptor targetInfo\<rparr> t)))"

definition validateReservedSidecarArtifactName :: "(string \<Rightarrow> string) \<Rightarrow> string \<Rightarrow> go_error option" where
  "validateReservedSidecarArtifactName ul file =
     (let base = to_lower ul (trim_space (path_base file)) in
      if prefix ''resource.'' base
      then Some (Invalid (msg ''resource artifacts cannot use the reserved prefix \"resource.\"'') None)
      else if prefix ''defaults'' base
      then Some (Invalid (msg ''resource artifacts cannot use the reserved prefix \"defaults\"'') None)
      else None)"

fun save_artifacts ::
  "repo_env \<Rightarrow> string \<Rightarrow> file_path \<Rightarrow> (string \<times> string) list \<Rightarrow> file_tree \<Rightarrow> go_error option \<times> file_tree" where
  "save_artifacts env normalizedPath payloadPath [] t = (None, t)"
| "save_artifacts env normalizedPath payloadPath ((file, data) # artifacts) t =
     (case validateReservedSidecarArtifactName (unicode_lower (repo_codecs env)) file of
        Some e \<Rightarrow> (Some e, t)
      | None \<Rightarrow>
          (case resourceArtifactFilePath env t normalizedPath file of
             Err e \<Rightarrow> (Some e, t)
           | Ok artifactPath \<Rightarrow>
               if artifactPath = payloadPath
               then (Some (Invalid (''resource artifact %q conflicts with the canonical resource payload file'', [file]) None), t)
               else case writeFileAtomically env artifactPath data ''.declarest-artifact-'' ''resource artifact'' t of
                      (Some e, t') \<Rightarrow> (Some e, t')
                    | (None, t') \<Rightarrow> save_artifacts env normalizedPath payloadPath artifacts t'))"

definition SaveResourceWithArtifacts ::
  "repo_env \<Rightarrow> string \<Rightarrow> Content \<Rightarrow> (string \<times> string) list \<Rightarrow> file_tree \<Rightarrow> go_error option \<times> file_tree" where
  "SaveResourceWithArtifacts env logicalPath content artifacts t =
     (case resource_path logicalPath of
        Err e \<Rightarrow> (Some e, t)
      | Ok normalizedPath \<Rightarrow>
          (case resolvePayloadTarget env t normalizedPath content of
             Err e \<Rightarrow> (Some e, t)
           | Ok (targetInfo, existing) \<Rightarrow>
               (case Normalize (Value content) of
                  Err e \<Rightarrow> (Some e, t)
                | Ok normalizedValue \<Rightarrow>
                    (case save_artifacts env normalizedPath (info_Path targetInfo) artifacts t of
                       (Some e, t') \<Rightarrow> (Some e, t')
                     | (None, t') \<Rightarrow>
                         write_payload env targetInfo existing \<lparr>Value = normalizedValue, Descriptor = info_Descriptor targetInfo\<rparr> t'))))"

definition Repository_Get :: "repo_env \<Rightarrow> file_tree \<Rightarrow> string \<Rightarrow> Content result" where
  "Repository_Get env t logicalPath =
     (case resource_path logicalPath of
        Err e \<Rightarrow> Err e
      | Ok normalizedPath \<Rightarrow>
          (case discoverPayloadFiles env t normalizedPath of
             Err e \<Rightarrow> Err e
           | Ok None \<Rightarrow> Err (NotFound (''resource %q not found'', [normalizedPath]) None)
           | Ok (Some info) \<Rightarrow>
               (case readPayloadFile env t info of
                  Err e \<Rightarrow> Err e
                | Ok content \<Rightarrow> Ok \<lparr>Value = Value content, Descriptor = info_Descriptor info\<rparr>)))"

definition ReadResourceArtifact :: "repo_env \<Rightarrow> file_tree \<Rightarrow> string \<Rightarrow> string \<Rightarrow> string result" where
  "ReadResourceArtifact env t logicalPath file =
     (case resource_path logicalPath of
        Err e \<Rightarrow> Err e
      | Ok normalizedPath \<Rightarrow>
          (case resourceArtifactFilePath env t normalizedPath file of
             Err e \<Rightarrow> Err e
           | Ok targetPath \<Rightarrow>
               (case os_read_file (repo_faults env) t targetPath of
                  Inl ErrNotExist \<Rightarrow> Err (NotFound (''resource artifact %q not found for %q'', [file, normalizedPath]) None)
                | Inl e \<Rightarrow> Err (Internal (msg ''failed to read resource artifact'') (Some (os_cause e)))
                | Inr data \<Rightarrow> Ok data)))"

section \<open>Walking a directory\<close>

datatype walk_control = WalkOn | SkipDir | WalkFail go_error bool

text \<open>The flag of a failure says whether it wraps \<open>os.ErrNotExist\<close>.  The function is called with the tree, the path,
  whether it is a directory, and the error of reading the directory.\<close>

fun walk_error :: "os_error \<Rightarrow> walk_control" where
  "walk_error ErrNotExist = WalkFail (os_cause ErrNotExist) True"
| "walk_error e = WalkFail (os_cause e) False"

type_synonym 's walk_fn = "file_path \<Rightarrow> bool \<Rightarrow> os_error option \<Rightarrow> file_tree \<times> 's \<Rightarrow> walk_control \<times> file_tree \<times> 's"

definition end_dir :: "walk_control \<Rightarrow> bool \<Rightarrow> walk_control" where
  "end_dir c isdir = (if c = SkipDir \<and> isdir then WalkOn else c)"

fun walk_dir :: "os_faults \<Rightarrow> 's walk_fn \<Rightarrow> nat \<Rightarrow> file_path \<Rightarrow> bool \<Rightarrow> file_tree \<times> 's \<Rightarrow> walk_control \<times> file_tree \<times> 's"
  and walk_entries :: "os_faults \<Rightarrow> 's walk_fn \<Rightarrow> nat \<Rightarrow> file_path \<Rightarrow> (string \<times> bool) list \<Rightarrow> file_tree \<times> 's \<Rightarrow> walk_control \<times> file_tree \<times> 's" where
  "walk_dir faults fn 0 p isdir s = (WalkOn, s)"
| "walk_dir faults fn (Suc fuel) p isdir s =
     (case fn p isdir None s of
        (c, s1) \<Rightarrow>
          if c \<noteq> WalkOn \<or> \<not> isdir then (end_dir c isdir, s1)
          else case os_read_dir faults (fst s1) p of
                 Inl e \<Rightarrow> (case fn p isdir (Some e) s1 of (c', s2) \<Rightarrow> (end_dir c' isdir, s2))
               | Inr entries \<Rightarrow> walk_entries faults fn fuel p entries s1)"
| "walk_entries faults fn fuel p [] s = (WalkOn, s)"
| "walk_entries faults fn fuel p ((name, isdir) # entries) s =
     (case walk_dir faults fn fuel (p @ [name]) isdir s of
        (WalkOn, s1) \<Rightarrow> walk_entries faults fn fuel p entries s1
      | (SkipDir, s1) \<Rightarrow> (WalkOn, s1)
      | (WalkFail e b, s1) \<Rightarrow> (WalkFail e b, s1))"

definition tree_depth :: "file_tree \<Rightarrow> nat" where
  "tree_depth t = foldr (\<lambda>(k, n) m. max (length k) m) t 0"

definition WalkDir :: "os_faults \<Rightarrow> 's walk_fn \<Rightarrow> file_path \<Rightarrow> file_tree \<times> 's \<Rightarrow> walk_control \<times> file_tree \<times> 's" where
  "WalkDir faults fn start s =
     (case os_stat faults (fst s) start of
        Inl e \<Rightarrow> (case fn start False (Some e) s of (c, s1) \<Rightarrow> (if c = SkipDir then WalkOn else c, s1))
      | Inr n \<Rightarrow>
          (case walk_dir faults fn (Suc (tree_depth (fst s))) start (n = DirNode) s of
             (c, s1) \<Rightarrow> (if c = SkipDir then WalkOn else c, s1)))"

section \<open>Removal\<close>

definition logical_of :: "repo_env \<Rightarrow> file_path \<Rightarrow> string" where
  "logical_of env p = ''/'' @ join_with ''/'' (drop (length (baseDir env)) p)"

definition delete_visit :: "repo_env \<Rightarrow> unit walk_fn" where
  "delete_visit env p isdir err s =
     (case err of
        Some e \<Rightarrow> (walk_error e, s)
      | None \<Rightarrow>
          if \<not> isdir then (WalkOn, s)
          else if p \<noteq> [] \<and> last p = ''_'' then (SkipDir, s)
          else case discoverPayloadFiles env (fst s) (logical_of env p) of
                 Err e \<Rightarrow> (WalkFail e False, s)
               | Ok None \<Rightarrow> (WalkOn, s)
               | Ok (Some info) \<Rightarrow>
                   (case removePayloadFile env (Some info) (fst s) of
                      (Some e, t') \<Rightarrow> (WalkFail e False, (t', ()))
                    | (None, t') \<Rightarrow> (WalkOn, (t', ()))))"

definition deleteCollectionRecursive :: "repo_env \<Rightarrow> file_path \<Rightarrow> file_tree \<Rightarrow> go_error option \<times> file_tree" where
  "deleteCollectionRecursive env collectionPath t =
     (case WalkDir (repo_faults env) (delete_visit env) collectionPath (t, ()) of
        (WalkFail e True, s) \<Rightarrow> (None, fst s)
      | (WalkFail e False, s) \<Rightarrow> (Some (Internal (msg ''failed to recursively delete collection resources'') (Some e)), fst s)
      | (c, s) \<Rightarrow> (None, fst s))"

fun delete_children :: "repo_env \<Rightarrow> file_path \<Rightarrow> (string \<times> bool) list \<Rightarrow> file_tree \<Rightarrow> go_error option \<times> file_tree" where
  "delete_children env collectionPath [] t = (None, t)"
| "delete_children env collectionPath ((name, isdir) # entries) t =
     (if \<not> isdir \<or> name = ''_'' then delete_children env collectionPath entries t
      else case discoverPayloadFiles env t (logical_of env (collectionPath @ [name])) of
             Err e \<Rightarrow> (Some e, t)
           | Ok None \<Rightarrow> delete_children env collectionPath entries t
           | Ok (Some info) \<Rightarrow>
               (case removePayloadFile env (Some info) t of
                  (Some e, t') \<Rightarrow> (Some e, t')
                | (None, t') \<Rightarrow> delete_children env collectionPath entries t'))"

definition deleteCollectionDirect :: "repo_env \<Rightarrow> file_path \<Rightarrow> file_tree \<Rightarrow> go_error option \<times> file_tree" where
  "deleteCollectionDirect env collectionPath t =
     (case os_read_dir (repo_faults env) t collectionPath of
        Inl ErrNotExist \<Rightarrow> (None, t)
      | Inl e \<Rightarrow> (Some (Internal (msg ''failed to list collection for delete'') (Some (os_cause e))), t)
      | Inr entries \<Rightarrow> delete_children env collectionPath entries t)"

definition Repository_Delete :: "repo_env \<Rightarrow> string \<Rightarrow> bool \<Rightarrow> file_tree \<Rightarrow> go_error option \<times> file_tree" where
  "Repository_Delete env logicalPath recursive t =
     (case NormalizeLogicalPath logicalPath of
        Err e \<Rightarrow> (Some e, t)
      | Ok normalizedPath \<Rightarrow>
          (case discoverPayloadFiles env t normalizedPath of
             Err e \<Rightarrow> (Some e, t)
           | Ok (Some info) \<Rightarrow> removePayloadFile env (Some info) t
           | Ok None \<Rightarrow>
               (case collectionDirPath env t normalizedPath of
                  Err e \<Rightarrow> (Some e, t)
                | Ok collectionPath \<Rightarrow>
                    if recursive then deleteCollectionRecursive env collectionPath t
                    else deleteCollectionDirect env collectionPath t)))"

section \<open>Listing\<close>

definition buildListedResource :: "string \<Rightarrow> payloadFileInfo \<Rightarrow> Resource" where
  "buildListedResource logicalPath info =
     (let parent = path_dir logicalPath;
          collection = (if parent = ''.'' \<or> parent = [] then ''/'' else parent)
      in \<lparr>LogicalPath = logicalPath, CollectionPath = collection, LocalAlias = path_base logicalPath, RemoteID = [],
          ResolvedRemotePath = [], Payload = VNil, PayloadDesc = info_Descriptor info\<rparr>)"

definition hasReservedSegment :: "string list \<Rightarrow> bool" where
  "hasReservedSegment segments = (''_'' \<in> set segments)"

definition list_visit :: "repo_env \<Rightarrow> string \<Rightarrow> file_path \<Rightarrow> (string, Resource) gomap walk_fn" where
  "list_visit env baseLogicalPath collectionPath p isdir err s =
     (case err of
        Some e \<Rightarrow> (walk_error e, s)
      | None \<Rightarrow>
          if \<not> isdir then (WalkOn, s)
          else if p \<noteq> [] \<and> last p = ''_'' then (SkipDir, s)
          else
            let relPath = drop (length collectionPath) p in
            if hasReservedSegment relPath then (WalkOn, s)
            else
              let joined = (if relPath = [] then baseLogicalPath else path_join baseLogicalPath (join_with ''/'' relPath));
                  logicalPath = (if \<not> prefix ''/'' joined then ''/'' @ joined else joined)
              in case discoverPayloadFiles env (fst s) logicalPath of
                   Err e \<Rightarrow> (WalkFail e False, s)
                 | Ok None \<Rightarrow> (WalkOn, s)
                 | Ok (Some info) \<Rightarrow> (WalkOn, (fst s, map_put logicalPath (buildListedResource logicalPath info) (snd s))))"

definition listRecursive :: "repo_env \<Rightarrow> file_tree \<Rightarrow> string \<Rightarrow> file_path \<Rightarrow> Resource list result" where
  "listRecursive env t baseLogicalPath collectionPath =
     (case WalkDir (repo_faults env) (list_visit env baseLogicalPath collectionPath) collectionPath (t, []) of
        (WalkFail e True, s) \<Rightarrow> Ok []
      | (WalkFail e False, s) \<Rightarrow> Err (Internal (msg ''failed to walk collection'') (Some e))
      | (c, s) \<Rightarrow> Ok (map snd (snd s)))"

fun list_children :: "repo_env \<Rightarrow> file_tree \<Rightarrow> string \<Rightarrow> (string \<times> bool) list \<Rightarrow> (string, Resource) gomap \<Rightarrow> (string, Resource) gomap result" where
  "list_children env t baseLogicalPath [] items = Ok items"
| "list_children env t baseLogicalPath ((name, isdir) # entries) items =
     (if \<not> isdir \<or> name = ''_'' then list_children env t baseLogicalPath entries items
      else
        let joined = path_join baseLogicalPath name;
            logicalPath = (if \<not> prefix ''/'' joined then ''/'' @ joined else joined)
        in case discoverPayloadFiles env t logicalPath of
             Err e \<Rightarrow> Err e
           | Ok None \<Rightarrow> list_children env t baseLogicalPath entries items
           | Ok (Some info) \<Rightarrow>
               list_children env t baseLogicalPath entries (map_put logicalPath (buildListedResource logicalPath info) items))"

definition listDirect :: "repo_env \<Rightarrow> file_tree \<Rightarrow> string \<Rightarrow> file_path \<Rightarrow> Resource list result" where
  "listDirect env t baseLogicalPath collectionPath =
     (case os_read_dir (repo_faults env) t collectionPath of
        Inl ErrNotExist \<Rightarrow> Ok []
      | Inl e \<Rightarrow> Err (Internal (msg ''failed to list collection'') (Some (os_cause e)))
      | Inr entries \<Rightarrow>
          (case list_children env t baseLogicalPath entries [] of Err e \<Rightarrow> Err e | Ok items \<Rightarrow> Ok (map snd items)))"

definition Repository_List :: "repo_env \<Rightarrow> file_tree \<Rightarrow> string \<Rightarrow> bool \<Rightarrow> Resource list result" where
  "Repository_List env t logicalPath recursive =
     (case NormalizeLogicalPath logicalPath of
        Err e \<Rightarrow> Err e
      | Ok normalizedPath \<Rightarrow>
          (case discoverPayloadFiles env t normalizedPath of
             Err e \<Rightarrow> Err e
           | Ok (Some primary) \<Rightarrow> Ok [buildListedResource normalizedPath primary]
           | Ok None \<Rightarrow>
               (case collectionDirPath env t normalizedPath of
                  Err e \<Rightarrow> Err e
                | Ok collectionPath \<Rightarrow>
                    if recursive then listRecursive env t normalizedPath collectionPath
                    else listDirect env t normalizedPath collectionPath)))"

definition Repository_Exists :: "repo_env \<Rightarrow> file_tree \<Rightarrow> string \<Rightarrow> bool result" where
  "Repository_Exists env t logicalPath =
     (case NormalizeLogicalPath logicalPath of
        Err e \<Rightarrow> Err e
      | Ok normalizedPath \<Rightarrow>
          (case discoverPayloadFiles env t normalizedPath of
             Err e \<Rightarrow> Err e
           | Ok (Some primary) \<Rightarrow> Ok True
           | Ok None \<Rightarrow>
               (case collectionDirPath env t normalizedPath of
                  Err e \<Rightarrow> Err e
                | Ok collectionPath \<Rightarrow>
                    (case os_stat (repo_faults env) t collectionPath of
                       Inr n \<Rightarrow> Ok True
                     | Inl ErrNotExist \<Rightarrow> Ok False
                     | Inl e \<Rightarrow> Err (Internal (msg ''failed to check collection path'') (Some (os_cause e)))))))"

section \<open>The repository as a whole\<close>

definition Repository_Init :: "repo_env \<Rightarrow> file_tree \<Rightarrow> go_error option \<times> file_tree" where
  "Repository_Init env t =
     (case os_mkdir_all (repo_faults env) t (baseDir env) of
        Inl e \<Rightarrow> (Some (Internal (msg ''failed to initialize repository directory'') (Some (os_cause e))), t)
      | Inr t' \<Rightarrow> (None, t'))"

definition Repository_Check :: "repo_env \<Rightarrow> file_tree \<Rightarrow> go_error option" where
  "Repository_Check env t =
     (case os_stat (repo_faults env) t (baseDir env) of
        Inl ErrNotExist \<Rightarrow> Some (NotFound (msg ''repository base directory does not exist'') None)
      | Inl e \<Rightarrow> Some (Internal (msg ''failed to inspect repository base directory'') (Some (os_cause e)))
      | Inr (FileNode d) \<Rightarrow> Some (Invalid (msg ''repository base directory is not a directory'') None)
      | Inr DirNode \<Rightarrow> None)"

definition tree_visit :: "file_path \<Rightarrow> string list walk_fn" where
  "tree_visit base p isdir err s =
     (case err of
        Some e \<Rightarrow> (walk_error e, s)
      | None \<Rightarrow>
          if \<not> isdir \<or> p = base then (WalkOn, s)
          else if last p = ''_'' \<or> prefix ''.'' (last p) then (SkipDir, s)
          else (WalkOn, (fst s, snd s @ [join_with ''/'' (drop (length base) p)])))"

definition Repository_Tree :: "repo_env \<Rightarrow> file_tree \<Rightarrow> string list result" where
  "Repository_Tree env t =
     (case Repository_Check env t of
        Some e \<Rightarrow> Err e
      | None \<Rightarrow>
          (case WalkDir (repo_faults env) (tree_visit (baseDir env)) (baseDir env) (t, []) of
             (WalkFail e b, s) \<Rightarrow> Err (Internal (msg ''failed to walk repository directory tree'') (Some e))
           | (c, s) \<Rightarrow> Ok (sort (snd s))))"

section \<open>Paths below the base directory\<close>

definition no_faults :: os_faults where
  "no_faults = (\<lambda>op p. None)"

text \<open>The environment in which the base directory is a cleaned path.\<close>

definition plain_env :: "repo_env \<Rightarrow> bool" where
  "plain_env env \<longleftrightarrow> list_all plain_segment (baseDir env)"

lemma resolve_parts_no_links:
  assumes "list_all plain_segment (current @ parts)" "resolve_parts (lstat_of faults t) Ok current parts = Ok q"
  shows "q = current @ parts"
  using assms
proof (induction parts arbitrary: current)
  case (Cons part parts)
  have c: "clean_segments True (current @ [part]) = current @ [part]" "clean_segments True (current @ part # parts) = current @ part # parts"
    using Cons.prems(1) by (simp_all add: clean_segments_plain)
  show ?case
  proof (cases "lstat_of faults t (current @ [part])")
    case LstatOther
    then show ?thesis using Cons.prems Cons.IH[of "current @ [part]"] c by simp
  next
    case LstatSymlink
    then show ?thesis by (auto simp: lstat_of_def split: sum.splits os_error.splits)
  qed (use Cons.prems c in \<open>simp_all\<close>)
qed simp

lemma resolved_no_links:
  "list_all plain_segment p \<Longrightarrow> resolvePathWithSymlinks (lstat_of faults t) Ok p = Ok q \<Longrightarrow> q = p"
  using resolve_parts_no_links[of "[]" p] by (simp add: resolvePathWithSymlinks_def clean_segments_plain)

lemma under_base_prefix:
  assumes "plain_env env" "list_all plain_segment p" "under_base env t p"
  shows "prefix (baseDir env) p"
proof -
  have b: "list_all plain_segment (baseDir env)" using assms(1) by (simp add: plain_env_def)
  obtain x y where r: "resolvePathWithSymlinks (lstat_of (repo_faults env) t) Ok (baseDir env) = Ok x"
    "resolvePathWithSymlinks (lstat_of (repo_faults env) t) Ok p = Ok y" "isPathUnderRootLexical x y"
    using assms(3) by (auto simp: under_base_def IsPathUnderRoot_def split: result.splits)
  have "x = baseDir env" "y = p" using resolved_no_links[OF b r(1)] resolved_no_links[OF assms(2) r(2)] by simp_all
  then show ?thesis using r(3) b assms(2) by (simp add: isPathUnderRootLexical_def clean_segments_plain)
qed

text \<open>No file stands where a directory of the path should be.\<close>

definition clear_path :: "file_tree \<Rightarrow> file_path \<Rightarrow> bool" where
  "clear_path t p \<longleftrightarrow> (\<forall>q. strict_prefix q p \<longrightarrow> files_of t q = None)"

lemma clear_path_prefix: "clear_path t p \<Longrightarrow> prefix q p \<Longrightarrow> clear_path t q"
  unfolding clear_path_def by (meson prefix_order.less_le_trans)

lemma missing_error_clear: "clear_path t p \<Longrightarrow> missing_error t p = ErrNotExist"
proof -
  assume c: "clear_path t p"
  have "files_of t (take k p) = None" if "k < length p" for k
    using c that take_is_prefix[of k p] by (auto simp: clear_path_def strict_prefix_def take_all_iff)
  then show ?thesis by (auto simp: missing_error_def list_ex_iff is_file_iff)
qed

lemma lstat_of_clear:
  "clear_path t p \<Longrightarrow> lstat_of no_faults t p = (if lookup_node t p = None then LstatNotExist else LstatOther)"
  by (auto simp: lstat_of_def os_stat_def no_faults_def missing_error_clear split: option.splits)

lemma resolve_parts_no_faults:
  assumes "list_all plain_segment (current @ parts)" "clear_path t (current @ parts)"
  shows "resolve_parts (lstat_of no_faults t) Ok current parts = Ok (current @ parts)"
  using assms
proof (induction parts arbitrary: current)
  case (Cons part parts)
  have c: "clean_segments True (current @ [part]) = current @ [part]" "clean_segments True (current @ part # parts) = current @ part # parts"
    using Cons.prems(1) by (simp_all add: clean_segments_plain)
  have "clear_path t (current @ [part])" using clear_path_prefix[OF Cons.prems(2)] by simp
  then show ?case using Cons.IH[of "current @ [part]"] Cons.prems c by (simp add: lstat_of_clear Let_def)
qed simp

lemma under_base_no_faults:
  assumes "plain_env env" "repo_faults env = no_faults" "list_all plain_segment p" "clear_path t p" "prefix (baseDir env) p"
  shows "under_base env t p"
  using assms resolve_parts_no_faults[of "[]" p t] resolve_parts_no_faults[of "[]" "baseDir env" t] clear_path_prefix[OF assms(4,5)]
  by (simp add: under_base_def IsPathUnderRoot_def resolvePathWithSymlinks_def isPathUnderRootLexical_def plain_env_def clean_segments_plain)

lemma below_file:
  assumes "wf_tree t" "files_of t current \<noteq> None"
  shows "\<exists>e. lstat_of no_faults t (current @ [part]) = LstatError e"
proof -
  have "lookup_node t current \<noteq> Some DirNode" using assms(2) by (auto simp: files_of_None_dir)
  then have "lookup_node t (current @ [part]) = None" using wf_tree_parent[OF assms(1), of current part] by blast
  moreover have "list_ex (\<lambda>k. is_file (lookup_node t (take k (current @ [part])))) [0..<length (current @ [part])]"
    using assms(2) by (auto simp: list_ex_iff is_file_iff intro!: bexI[of _ "length current"])
  ultimately show ?thesis by (simp add: lstat_of_def os_stat_def no_faults_def missing_error_def)
qed

lemma below_missing:
  assumes "wf_tree t" "lookup_node t p = None" "prefix p q"
  shows "files_of t q = None"
  using assms wf_tree_prefix[OF assms(1), of q] by (cases "p = q") (auto simp: files_of_def strict_prefix_def split: option.split)

lemma resolve_parts_clear:
  assumes "wf_tree t"
  shows "resolve_parts (lstat_of no_faults t) Ok current parts = Ok q \<Longrightarrow> list_all plain_segment (current @ parts)
    \<Longrightarrow> clear_path t current \<Longrightarrow> clear_path t (current @ parts)"
proof (induction parts arbitrary: current)
  case (Cons part parts)
  have c: "clean_segments True (current @ [part]) = current @ [part]" using Cons.prems(2) by (simp add: clean_segments_plain)
  have "files_of t current = None"
  proof (rule ccontr)
    assume "files_of t current \<noteq> None"
    then obtain e where "lstat_of no_faults t (current @ [part]) = LstatError e" using below_file[OF assms] by blast
    then show False using Cons.prems(1) c by (simp add: Let_def)
  qed
  then have cl: "clear_path t (current @ [part])" using Cons.prems(3) by (auto simp: clear_path_def strict_prefix_def)
  show ?case
  proof (cases "lookup_node t (current @ [part])")
    case None
    show ?thesis unfolding clear_path_def
    proof (intro allI impI)
      fix r assume r: "strict_prefix r (current @ part # parts)"
      then have "prefix r ((current @ [part]) @ parts)" by (simp add: strict_prefix_def)
      then consider "prefix r (current @ [part])" | "prefix (current @ [part]) r" by (metis prefix_append prefixI prefix_same_cases)
      then show "files_of t r = None"
        using cl below_missing[OF assms None] by cases (auto simp: clear_path_def strict_prefix_def)
    qed
  next
    case (Some n)
    then show ?thesis using Cons.IH[of "current @ [part]"] Cons.prems c cl by (simp add: lstat_of_clear Let_def)
  qed
qed simp

lemma under_base_iff:
  assumes "wf_tree t" "plain_env env" "repo_faults env = no_faults" "list_all plain_segment p" "prefix (baseDir env) p"
  shows "under_base env t p \<longleftrightarrow> clear_path t p"
proof
  assume "under_base env t p"
  then obtain q where "resolvePathWithSymlinks (lstat_of no_faults t) Ok p = Ok q"
    using assms(3) by (auto simp: under_base_def IsPathUnderRoot_def split: result.splits)
  then show "clear_path t p" using resolve_parts_clear[OF assms(1), of "[]" p] assms(4)
    by (simp add: resolvePathWithSymlinks_def clean_segments_plain clear_path_def)
qed (use under_base_no_faults[OF assms(2-4) _ assms(5)] in blast)

section \<open>Files that an operation changes\<close>

lemma discard_files:
  assumes "wf_tree t"
  shows "wf_tree (discard env p t) \<and> (files_of (discard env p t) = files_of t \<or> files_of (discard env p t) = (files_of t)(p := None))"
  using assms os_remove_Inr[of "repo_faults env" t p] by (auto simp: discard_def split: sum.split)

text \<open>A temporary file is at most left behind; the target is written in one step.\<close>

lemma writeFileAtomically_files:
  assumes w: "writeFileAtomically env (dir @ [name]) data pattern kind t = (r, t')" and wf: "wf_tree t" and pat: "\<not> prefix pattern name"
  shows "wf_tree t'"
    and "r = None \<Longrightarrow> files_of t' = (files_of t)(dir @ [name] \<mapsto> data)"
    and "r = None \<Longrightarrow> \<forall>k \<le> length dir. files_of t (take k dir) = None"
    and "r \<noteq> None \<Longrightarrow> \<exists>temp d. prefix pattern temp \<and> (files_of t' = files_of t \<or> files_of t' = (files_of t)(dir @ [temp] \<mapsto> d))"
proof -
  let ?temp = "\<lambda>t. dir @ [pattern @ temp_random env t dir]"
  have ne: "?temp u \<noteq> dir @ [name]" "?temp u \<noteq> dir" for u using pat by auto
  have "wf_tree t' \<and> (r = None \<longrightarrow> files_of t' = (files_of t)(dir @ [name] \<mapsto> data) \<and> (\<forall>k \<le> length dir. files_of t (take k dir) = None))
    \<and> (r \<noteq> None \<longrightarrow> (\<exists>temp d. prefix pattern temp \<and> (files_of t' = files_of t \<or> files_of t' = (files_of t)(dir @ [temp] \<mapsto> d))))"
  proof (cases "os_mkdir_all (repo_faults env) t dir")
    case (Inl e)
    then show ?thesis using w wf by (auto simp: writeFileAtomically_def Let_def)
  next
    case mk: (Inr t1)
    note m = os_mkdir_all_Inr[OF mk wf]
    let ?p = "?temp t1"
    show ?thesis
    proof (cases "os_create (repo_faults env) t1 ?p")
      case (Inl e)
      then show ?thesis using w m mk by (auto simp: writeFileAtomically_def Let_def)
    next
      case cr: (Inr t2)
      note c = os_create_Inr[OF cr m(1)]
      have temp: "prefix pattern (pattern @ temp_random env t1 dir)" by simp
      have left: "\<exists>temp d. prefix pattern temp \<and> (files_of (discard env ?p u) = files_of t \<or> files_of (discard env ?p u) = (files_of t)(dir @ [temp] \<mapsto> d))"
        if "wf_tree u" "files_of u = (files_of t)(?p \<mapsto> d')" for u d'
      proof -
        have none: "files_of t ?p = None" using c(3) m(2) by simp
        from discard_files[OF that(1), of env ?p]
        have "files_of (discard env ?p u) = (files_of t)(?p \<mapsto> d') \<or> files_of (discard env ?p u) = files_of t"
          using that(2) none by (metis fun_upd_triv fun_upd_upd)
        then show ?thesis using temp by blast
      qed
      show ?thesis
      proof (cases "os_write (repo_faults env) t2 ?p data")
        case (Inl e)
        then show ?thesis using w mk cr c(1,2) m(2) left[of t2 "[]"] discard_files[of t2 env ?p] by (auto simp: writeFileAtomically_def Let_def)
      next
        case wr: (Inr t3)
        note x = os_write_Inr[OF wr c(1)]
        have x3: "wf_tree t3" "files_of t3 = (files_of t)(?p \<mapsto> data)" "lookup_node t3 dir = Some DirNode"
          using x[of "[]"] c m(2) by simp_all
        show ?thesis
        proof (cases "repo_faults env OpClose ?p")
          case (Some e)
          then show ?thesis using w mk cr wr x3 left[of t3 data] discard_files[of t3 env ?p] by (auto simp: writeFileAtomically_def Let_def)
        next
          case cl: None
          show ?thesis
          proof (cases "os_rename (repo_faults env) t3 ?p (dir @ [name])")
            case (Inl e)
            then show ?thesis using w mk cr wr cl x3 left[of t3 data] discard_files[of t3 env ?p] by (auto simp: writeFileAtomically_def Let_def)
          next
            case rn: (Inr t4)
            have t4: "wf_tree t4" "files_of t4 = (files_of t3)(?p := None, dir @ [name] \<mapsto> data)"
              using os_rename_Inr[OF rn x3(1)] x3 ne by simp_all
            have "files_of t ?p = None" using c(3) m(2) by simp
            then have "(files_of t)(?p := None) = files_of t" by (metis fun_upd_triv)
            then have "files_of t4 = (files_of t)(dir @ [name] \<mapsto> data)" using t4(2) x3(2) by simp
            then show ?thesis using w mk cr wr cl rn t4(1) m(4) by (auto simp: writeFileAtomically_def Let_def)
          qed
        qed
      qed
    qed
  qed
  then show "wf_tree t'" "r = None \<Longrightarrow> files_of t' = (files_of t)(dir @ [name] \<mapsto> data)"
    "r = None \<Longrightarrow> \<forall>k \<le> length dir. files_of t (take k dir) = None"
    "r \<noteq> None \<Longrightarrow> \<exists>temp d. prefix pattern temp \<and> (files_of t' = files_of t \<or> files_of t' = (files_of t)(dir @ [temp] \<mapsto> d))"
    by blast+
qed

lemma removePayloadFile_files:
  assumes r: "removePayloadFile env (Some info) t = (r, t')" and wf: "wf_tree t" and p: "info_Path info = dir @ [name]"
  shows "wf_tree t'" and "r = None \<Longrightarrow> files_of t' = (files_of t)(dir @ [name] := None)"
    and "files_of t' = files_of t \<or> files_of t' = (files_of t)(dir @ [name] := None)"
proof -
  have cleaned: "wf_tree (snd (CleanupEmptyParents (repo_faults env) u dir (baseDir env)))
      \<and> files_of (snd (CleanupEmptyParents (repo_faults env) u dir (baseDir env))) = files_of u"
    if "wf_tree u" "files_of u dir = None" for u using CleanupEmptyParents_files[OF that] by simp
  have "wf_tree t' \<and> (r = None \<longrightarrow> files_of t' = (files_of t)(dir @ [name] := None))
    \<and> (files_of t' = files_of t \<or> files_of t' = (files_of t)(dir @ [name] := None))"
  proof (cases "os_remove (repo_faults env) t (dir @ [name])")
    case (Inl e)
    show ?thesis
    proof (cases "e = ErrNotExist")
      case True
      then have l: "lookup_node t (dir @ [name]) = None" "missing_error t (dir @ [name]) = ErrNotExist"
        using Inl by (auto simp: os_remove_def split: option.splits node.splits if_splits)
      then have "files_of t (take (length dir) (dir @ [name])) = None"
        by (auto simp: missing_error_def list_ex_iff is_file_iff simp del: take_append split: if_splits)
      then have "files_of t dir = None" "files_of t (dir @ [name]) = None" using l(1) by (simp_all add: files_of_def)
      then show ?thesis using r p Inl True cleaned[OF wf] by (auto simp: removePayloadFile_def Let_def)
    next
      case False
      then show ?thesis using r p Inl wf by (cases e) (auto simp: removePayloadFile_def Let_def)
    qed
  next
    case (Inr t1)
    note f = os_remove_Inr[OF Inr wf]
    have "lookup_node t (dir @ [name]) \<noteq> None" using Inr by (auto simp: os_remove_def split: option.splits)
    then have "files_of t1 dir = None" using f(2) wf_tree_parent[OF wf] files_of_None_dir by fastforce
    then show ?thesis using r p Inr cleaned[OF f(1)] f(2) by (auto simp: removePayloadFile_def Let_def)
  qed
  then show "wf_tree t'" "r = None \<Longrightarrow> files_of t' = (files_of t)(dir @ [name] := None)"
    "files_of t' = files_of t \<or> files_of t' = (files_of t)(dir @ [name] := None)" by blast+
qed

section \<open>Payload files of a resource\<close>

abbreviation resource_dir :: "repo_env \<Rightarrow> string list \<Rightarrow> file_path" where
  "resource_dir env segs \<equiv> baseDir env @ segs"

lemma join_relative_base:
  assumes "plain_env env" "list_all plain_segment segs" "segs \<noteq> []"
  shows "join_relative (baseDir env) (trim_prefix (rooted_path segs) ''/'') = resource_dir env segs"
proof -
  have "trim_prefix (rooted_path segs) ''/'' = join_with ''/'' segs" by (simp add: rooted_path_def trim_prefix_def)
  moreover have "split_on (CHR ''/'') (join_with ''/'' segs) = segs"
    using assms(2,3) by (intro split_join) (auto simp: list_all_iff plain_segment_def)
  ultimately show ?thesis using assms by (simp add: join_relative_def plain_env_def clean_segments_plain)
qed

lemma collectionDirPath_Ok:
  assumes "plain_env env" "list_all plain_segment segs" "collectionDirPath env t (rooted_path segs) = Ok d"
  shows "d = resource_dir env segs"
proof (cases "segs = []")
  case False
  then have "rooted_path segs \<noteq> ''/''" using assms(2) by (cases segs; cases "tl segs") (auto simp: rooted_path_def plain_segment_def)
  then show ?thesis using assms join_relative_base[OF assms(1,2) False] by (auto simp: collectionDirPath_def Let_def split: if_splits)
qed (use assms in \<open>simp add: collectionDirPath_def rooted_path_def\<close>)

lemma discoverPayloadFiles_Some:
  assumes "wf_tree t" "plain_env env" "list_all plain_segment segs" "discoverPayloadFiles env t (rooted_path segs) = Ok (Some info)"
  shows "info_Path info = resource_dir env segs @ [info_Name info] \<and> prefix ''resource.'' (info_Name info)
    \<and> files_of t (info_Path info) \<noteq> None"
proof -
  let ?d = "resource_dir env segs"
  obtain entries where e: "os_read_dir (repo_faults env) t ?d = Inr entries"
    "payloadFileInfoFromCandidates env (rooted_path segs) ?d (resource_candidates entries) = Ok (Some info)"
    using assms(4) collectionDirPath_Ok[OF assms(2,3)]
    by (auto simp: discoverPayloadFiles_def payloadFilesInfoFromDir_def split: result.splits sum.splits os_error.splits)
  have en: "entries = dir_entries t ?d" using e(1) by (auto simp: os_read_dir_def split: option.splits node.splits)
  have "sort (resource_candidates entries) = [info_Name info]" "info_Path info = ?d @ [info_Name info]"
    using e(2) by (auto simp: payloadFileInfoFromCandidates_def split: list.splits)
  moreover from this(1) have "info_Name info \<in> set (resource_candidates entries)" by (metis list.set_intros(1) set_sort)
  ultimately show ?thesis using dir_entries_iff[OF wf_tree_sorted[OF assms(1)], of _ _ ?d] en
    by (auto simp: resource_candidates_def files_of_def lookup_node_def split: node.splits)
qed

text \<open>The name of the payload file for an extension.\<close>

definition payload_name :: "string \<Rightarrow> string" where
  "payload_name extension =
     (let e = (if trim_space extension = [] then Extension DefaultOctetStreamDescriptor else trim_space extension)
      in ''resource'' @ (if \<not> prefix ''.'' e then ''.'' @ e else e))"

lemma payload_name_plain:
  assumes "CHR ''/'' \<notin> set extension"
  shows "plain_segment (payload_name extension)" "prefix ''resource.'' (payload_name extension)"
proof -
  have "CHR ''/'' \<notin> set (trim_space extension)" using assms set_trim_space by blast
  then show "plain_segment (payload_name extension)"
    by (auto simp: payload_name_def plain_segment_def DefaultOctetStreamDescriptor_def descriptor_of_def Let_def)
  show "prefix ''resource.'' (payload_name extension)"
    by (auto simp: payload_name_def Let_def prefix_def)
qed

lemma split_no_slash: "CHR ''/'' \<notin> set s \<Longrightarrow> split_on (CHR ''/'') s = [s]"
  using split_join[of "[s]" "CHR ''/''"] by simp

lemma canonicalPayloadFilePath_Ok:
  assumes "plain_env env" "list_all plain_segment segs" "segs \<noteq> []" "CHR ''/'' \<notin> set extension"
    and "canonicalPayloadFilePath env t (rooted_path segs) extension = Ok p"
  shows "p = resource_dir env segs @ [payload_name extension]"
proof -
  have n: "plain_segment (payload_name extension)" using payload_name_plain[OF assms(4)] by simp
  have "p = join_relative (resource_dir env segs) (payload_name extension)"
    using assms(5) join_relative_base[OF assms(1-3)]
    by (auto simp: canonicalPayloadFilePath_def payload_name_def Let_def split: if_splits)
  moreover have "split_on (CHR ''/'') (payload_name extension) = [payload_name extension]"
    using n by (intro split_no_slash) (simp add: plain_segment_def)
  ultimately show ?thesis using n assms(1,2) by (simp add: join_relative_def clean_segments_plain plain_env_def)
qed

lemma resolvePayloadTarget_Ok:
  assumes "plain_env env" "list_all plain_segment segs" "segs \<noteq> []"
    and "\<And>files. CHR ''/'' \<notin> set (Extension (desiredPayloadDescriptor env content files))"
    and "resolvePayloadTarget env t (rooted_path segs) content = Ok (target, existing)"
  shows "discoverPayloadFiles env t (rooted_path segs) = Ok existing"
    "info_Descriptor target = desiredPayloadDescriptor env content existing"
    "info_Path target = resource_dir env segs @ [payload_name (Extension (info_Descriptor target))]"
  using assms(5) canonicalPayloadFilePath_Ok[OF assms(1-3) assms(4)]
  by (auto simp: resolvePayloadTarget_def Let_def split: result.splits)

lemma resource_path_Ok:
  assumes "resource_path lp = Ok p"
  obtains segs where "p = rooted_path segs" "list_all plain_segment segs" "segs \<noteq> []" "resource_path p = Ok p"
proof -
  from assms have n: "NormalizeLogicalPath lp = Ok p" "p \<noteq> ''/''" by (auto simp: resource_path_def split: result.splits if_splits)
  from n(1) obtain segs where s: "p = rooted_path segs" "list_all plain_segment segs" "NormalizeLogicalPath p = Ok p"
    by (rule NormalizeLogicalPath_obtains)
  have "segs \<noteq> []" using s(1) n(2) by (auto simp: rooted_path_def)
  moreover have "resource_path p = Ok p" using s(3) n(2) by (simp add: resource_path_def)
  ultimately show ?thesis using that s(1,2) by blast
qed

text \<open>The changes that saving a resource may make.\<close>

definition own_change :: "repo_env \<Rightarrow> string list \<Rightarrow> file_tree \<Rightarrow> file_tree \<Rightarrow> bool" where
  "own_change env segs t t' \<longleftrightarrow> (\<forall>q. files_of t' q \<noteq> files_of t q \<longrightarrow>
     (\<exists>name. q = resource_dir env segs @ [name] \<and> (prefix ''resource.'' name \<or> prefix ''.declarest-tmp-'' name)))"

lemma own_change_intros:
  "files_of t' = files_of t \<Longrightarrow> own_change env segs t t'"
  "files_of t' = (files_of t)(resource_dir env segs @ [name] := x) \<Longrightarrow> prefix ''resource.'' name \<Longrightarrow> own_change env segs t t'"
  "files_of t' = (files_of t)(resource_dir env segs @ [name] := x) \<Longrightarrow> prefix ''.declarest-tmp-'' name \<Longrightarrow> own_change env segs t t'"
  by (auto simp: own_change_def)

lemma own_change_trans: "own_change env segs t u \<Longrightarrow> own_change env segs u v \<Longrightarrow> own_change env segs t v"
  by (auto simp: own_change_def) metis

lemma removePayloadFile_own:
  assumes "removePayloadFile env existing t = (r, t')" "wf_tree t"
    and "\<And>info. existing = Some info \<Longrightarrow> info_Path info = resource_dir env segs @ [info_Name info] \<and> prefix ''resource.'' (info_Name info)"
  shows "wf_tree t' \<and> own_change env segs t t'"
proof (cases existing)
  case (Some info)
  note f = removePayloadFile_files[of env info t r t' "resource_dir env segs" "info_Name info"]
  show ?thesis using f assms Some by (auto intro: own_change_intros)
qed (use assms in \<open>auto simp: removePayloadFile_def intro: own_change_intros\<close>)

lemma write_payload_own:
  assumes w: "write_payload env target existing content t = (r, t')" and wf: "wf_tree t"
    and target: "info_Path target = resource_dir env segs @ [name]" "prefix ''resource.'' name"
    and ex: "\<And>info. existing = Some info \<Longrightarrow> info_Path info = resource_dir env segs @ [info_Name info] \<and> prefix ''resource.'' (info_Name info)"
  shows "wf_tree t' \<and> own_change env segs t t'"
proof (cases "Value content = VNil")
  case True
  then show ?thesis using w removePayloadFile_own[OF _ wf ex] by (simp add: write_payload_def)
next
  case nn: False
  show ?thesis
  proof (cases "EncodeContentPretty (repo_codecs env) content")
    case (Err e)
    then show ?thesis using w nn wf by (auto simp: write_payload_def intro: own_change_intros)
  next
    case (Ok encoded)
    obtain a u where u: "writeFileAtomically env (info_Path target) encoded ''.declarest-tmp-'' ''resource'' t = (a, u)" by fastforce
    have pat: "\<not> prefix ''.declarest-tmp-'' name" using target(2) by (auto simp: prefix_def)
    note wr = writeFileAtomically_files[OF u[unfolded target(1)] wf pat]
    have own: "own_change env segs t u"
      by (cases "a = None") (use wr(2,4) target(2) in \<open>auto intro: own_change_intros\<close>)
    show ?thesis
    proof (cases "a = None \<and> (\<exists>info. existing = Some info \<and> info_Path info \<noteq> info_Path target)")
      case True
      then obtain info where info: "a = None" "existing = Some info" "info_Path info \<noteq> info_Path target" by blast
      have rm: "removePayloadFile env existing u = (r, t')" using w nn Ok u info by (simp add: write_payload_def)
      have "wf_tree t' \<and> own_change env segs u t'" by (rule removePayloadFile_own[OF rm wr(1) ex])
      then show ?thesis using own_change_trans[OF own] by simp
    next
      case False
      then have "t' = u" using w nn Ok u by (cases a; cases existing) (simp_all add: write_payload_def)
      then show ?thesis using wr(1) own by simp
    qed
  qed
qed

section \<open>Saving\<close>

text \<open>C32: whatever system calls fail, saving a resource changes no file but payload files and temporary files in
  the directory of the resource itself, provided that its extension has no slash.\<close>

theorem Save_touches_own_payload:
  assumes "Repository_Save env lp content t = (r, t')" "resource_path lp = Ok (rooted_path segs)"
    and "wf_tree t" "plain_env env" "list_all plain_segment segs"
    and "\<And>files. CHR ''/'' \<notin> set (Extension (desiredPayloadDescriptor env content files))"
  shows "wf_tree t' \<and> (\<forall>q. files_of t' q \<noteq> files_of t q \<longrightarrow>
     (\<exists>name. q = resource_dir env segs @ [name] \<and> (prefix ''resource.'' name \<or> prefix ''.declarest-tmp-'' name)))"
proof -
  have segs: "segs \<noteq> []" using assms(2) by (auto simp: resource_path_def rooted_path_def split: result.splits if_splits)
  show ?thesis
  proof (cases "resolvePayloadTarget env t (rooted_path segs) content")
    case (Err e)
    then show ?thesis using assms(1-3) by (simp add: Repository_Save_def)
  next
    case (Ok x)
    then obtain target existing where x: "resolvePayloadTarget env t (rooted_path segs) content = Ok (target, existing)" by (cases x) simp
    note t = resolvePayloadTarget_Ok[OF assms(4,5) segs assms(6) x]
    have ex: "existing = Some info \<Longrightarrow> info_Path info = resource_dir env segs @ [info_Name info] \<and> prefix ''resource.'' (info_Name info)" for info
      using discoverPayloadFiles_Some[OF assms(3,4,5)] t(1) by blast
    have name: "prefix ''resource.'' (payload_name (Extension (info_Descriptor target)))"
      using payload_name_plain(2) assms(6) t(2) by simp
    show ?thesis
    proof (cases "Normalize (Value content)")
      case (Err e)
      then show ?thesis using assms(1-3) x by (simp add: Repository_Save_def)
    next
      case (Ok v)
      then have "write_payload env target existing \<lparr>Value = v, Descriptor = info_Descriptor target\<rparr> t = (r, t')"
        using assms(1,2) x by (simp add: Repository_Save_def)
      from write_payload_own[OF this assms(3) t(3) name ex] show ?thesis by (simp add: own_change_def)
    qed
  qed
qed

section \<open>Reading back\<close>

text \<open>The payload files in a directory, in order.\<close>

definition payload_names :: "(file_path \<Rightarrow> string option) \<Rightarrow> file_path \<Rightarrow> string list" where
  "payload_names files d = sorted_list_of_set {n. prefix ''resource.'' n \<and> files (d @ [n]) \<noteq> None}"

lemma payload_names_sorted:
  assumes "wf_tree t"
  shows "sort (resource_candidates (dir_entries t d)) = payload_names (files_of t) d"
proof -
  have s: "sorted_map t" using assms by (simp add: wf_tree_def)
  have mem: "n \<in> set (resource_candidates (dir_entries t d)) \<longleftrightarrow> prefix ''resource.'' n \<and> (n, False) \<in> set (dir_entries t d)" for n
    by (force simp: resource_candidates_def)
  have "(n, False) \<in> set (dir_entries t d) \<longleftrightarrow> files_of t (d @ [n]) \<noteq> None" for n
    unfolding dir_entries_iff[OF s] by (cases "map_get t (d @ [n])") (auto simp: files_of_def lookup_node_def split: node.splits)
  then have "set (resource_candidates (dir_entries t d)) = {n. prefix ''resource.'' n \<and> files_of t (d @ [n]) \<noteq> None}"
    using mem by blast
  moreover have "distinct (resource_candidates (dir_entries t d))"
  proof -
    have "inj_on last {k :: file_path. k \<noteq> [] \<and> butlast k = d}" by (rule inj_onI) (metis (mono_tags) append_butlast_last_id mem_Collect_eq)
    then have "distinct (map last (filter (\<lambda>k. k \<noteq> [] \<and> butlast k = d) (map fst t)))"
      using sorted_map_distinct[OF s] by (subst distinct_map) (auto intro: inj_on_subset)
    moreover have "map fst (dir_entries t d) = map last (filter (\<lambda>k. k \<noteq> [] \<and> butlast k = d) (map fst t))"
      by (induction t) (auto simp: dir_entries_def)
    ultimately show ?thesis by (simp add: resource_candidates_def distinct_map_filter)
  qed
  ultimately show ?thesis unfolding payload_names_def by (metis sorted_list_of_set_sort_remdups distinct_remdups_id)
qed

lemma discoverPayloadFiles_clear:
  assumes "wf_tree t" "plain_env env" "repo_faults env = no_faults" "list_all plain_segment segs" "segs \<noteq> []"
    and "clear_path t (resource_dir env segs)" "files_of t (resource_dir env segs) = None"
  shows "discoverPayloadFiles env t (rooted_path segs) =
     payloadFileInfoFromCandidates env (rooted_path segs) (resource_dir env segs) (payload_names (files_of t) (resource_dir env segs))"
proof -
  let ?d = "resource_dir env segs"
  have r: "rooted_path segs \<noteq> ''/''" using assms(4,5) by (cases segs; cases "tl segs") (auto simp: rooted_path_def plain_segment_def)
  have "under_base env t ?d" using under_base_iff[OF assms(1-3), of ?d] assms(2,4,6) by (simp add: plain_env_def)
  then have c: "collectionDirPath env t (rooted_path segs) = Ok ?d"
    using join_relative_base[OF assms(2,4,5)] r by (simp add: collectionDirPath_def Let_def)
  show ?thesis
  proof (cases "lookup_node t ?d")
    case None
    then have "{n. prefix ''resource.'' n \<and> files_of t (?d @ [n]) \<noteq> None} = {}" using below_missing[OF assms(1) None] by auto
    then have "payload_names (files_of t) ?d = []" unfolding payload_names_def by (simp only: sorted_list_of_set_empty)
    then show ?thesis using c None assms(3,6)
      by (simp add: discoverPayloadFiles_def payloadFilesInfoFromDir_def os_read_dir_def no_faults_def missing_error_clear
          payloadFileInfoFromCandidates_def)
  next
    case (Some n)
    have "sorted (payload_names (files_of t) ?d)" by (simp add: payload_names_def)
    moreover have "n = DirNode" using assms(7) Some by (cases n) (auto simp: files_of_def)
    ultimately show ?thesis using c Some assms(3) payload_names_sorted[OF assms(1), of ?d]
      by (simp add: discoverPayloadFiles_def payloadFilesInfoFromDir_def os_read_dir_def no_faults_def
          payloadFileInfoFromCandidates_def sorted_sort_id)
  qed
qed

text \<open>A single payload file: its name determines the descriptor it is read with.\<close>

definition read_descriptor :: "repo_env \<Rightarrow> string \<Rightarrow> PayloadDescriptor" where
  "read_descriptor env name = NormalizePayloadDescriptor (unicode_lower (repo_codecs env)) (descriptor_of [] [] (path_ext name))"

lemma Get_single:
  assumes "wf_tree t" "plain_env env" "repo_faults env = no_faults" "list_all plain_segment segs" "segs \<noteq> []"
    and "clear_path t (resource_dir env segs)" "files_of t (resource_dir env segs) = None"
    and "resource_path lp = Ok (rooted_path segs)"
    and "payload_names (files_of t) (resource_dir env segs) = [name]" "files_of t (resource_dir env segs @ [name]) = Some data"
  shows "Repository_Get env t lp = (case DecodeContent (repo_codecs env) data (read_descriptor env name) of
     Err e \<Rightarrow> Err e | Ok content \<Rightarrow> Ok \<lparr>Value = Value content, Descriptor = read_descriptor env name\<rparr>)"
proof -
  have "lookup_node t (resource_dir env segs @ [name]) = Some (FileNode data)"
    using assms(10) by (auto simp: files_of_def split: option.splits node.splits)
  then show ?thesis using assms(3,8,9) discoverPayloadFiles_clear[OF assms(1-7)]
    by (simp add: Repository_Get_def payloadFileInfoFromCandidates_def readPayloadFile_def os_read_file_def no_faults_def read_descriptor_def split: result.split)
qed

lemma single_payload_name:
  assumes "prefix ''resource.'' name" "files (d @ [name]) \<noteq> None"
    and "\<And>n. n \<noteq> name \<Longrightarrow> prefix ''resource.'' n \<Longrightarrow> files (d @ [n]) = None"
  shows "payload_names files d = [name]"
proof -
  have "{n. prefix ''resource.'' n \<and> files (d @ [n]) \<noteq> None} = {name}"
  proof (rule set_eqI)
    fix n show "n \<in> {n. prefix ''resource.'' n \<and> files (d @ [n]) \<noteq> None} \<longleftrightarrow> n \<in> {name}"
      using assms(1,2) assms(3)[of n] by (cases "n = name") auto
  qed
  moreover have "sorted_list_of_set {name} = [name]" by simp
  ultimately show ?thesis unfolding payload_names_def by metis
qed

lemma finite_payload_names: "wf_tree t \<Longrightarrow> finite {n. prefix ''resource.'' n \<and> files_of t (d @ [n]) \<noteq> None}"
proof -
  have "{n. prefix ''resource.'' n \<and> files_of t (d @ [n]) \<noteq> None} \<subseteq> last ` fst ` set t"
    by (force simp: files_of_def lookup_node_def image_iff dest: map_of_SomeD split: option.splits)
  then show ?thesis by (rule finite_subset) simp
qed

lemma known_payload_names:
  assumes "wf_tree t" "plain_env env" "repo_faults env = no_faults" "list_all plain_segment segs" "segs \<noteq> []"
    and "clear_path t (resource_dir env segs)" "files_of t (resource_dir env segs) = None"
    and "discoverPayloadFiles env t (rooted_path segs) = Ok existing" "prefix ''resource.'' n" "files_of t (resource_dir env segs @ [n]) \<noteq> None"
  shows "\<exists>info. existing = Some info \<and> info_Path info = resource_dir env segs @ [n]"
proof -
  have "n \<in> set (payload_names (files_of t) (resource_dir env segs))"
    unfolding payload_names_def set_sorted_list_of_set[OF finite_payload_names[OF assms(1)]] using assms(9,10) by blast
  moreover have "sort (payload_names (files_of t) (resource_dir env segs)) = payload_names (files_of t) (resource_dir env segs)"
    by (rule sort_key_id_if_sorted) (simp add: payload_names_def)
  ultimately show ?thesis using assms(8) discoverPayloadFiles_clear[OF assms(1-7)]
    by (auto simp: payloadFileInfoFromCandidates_def split: list.splits)
qed

lemma write_payload_saved:
  assumes w: "write_payload env target existing content t = (None, t')" and wf: "wf_tree t" and nn: "Value content \<noteq> VNil"
    and target: "info_Path target = d @ [name]" "prefix ''resource.'' name"
    and ex: "\<And>info. existing = Some info \<Longrightarrow> info_Path info = d @ [info_Name info]"
    and known: "\<And>n. prefix ''resource.'' n \<Longrightarrow> files_of t (d @ [n]) \<noteq> None \<Longrightarrow> \<exists>info. existing = Some info \<and> info_Path info = d @ [n]"
  shows "wf_tree t'" "\<forall>k \<le> length d. files_of t' (take k d) = None" "payload_names (files_of t') d = [name]"
    "EncodeContentPretty (repo_codecs env) content = Ok data \<Longrightarrow> files_of t' (d @ [name]) = Some data"
    "\<exists>data. EncodeContentPretty (repo_codecs env) content = Ok data"
proof -
  obtain encoded u where e: "EncodeContentPretty (repo_codecs env) content = Ok encoded"
    and u: "writeFileAtomically env (d @ [name]) encoded ''.declarest-tmp-'' ''resource'' t = (None, u)"
    using w nn target(1) by (auto simp: write_payload_def split: result.splits prod.splits option.splits)
  have pat: "\<not> prefix ''.declarest-tmp-'' name" using target(2) by (auto simp: prefix_def)
  note wr = writeFileAtomically_files[OF u wf pat]
  have short: "take k d \<noteq> d @ [n]" for k n by (metis length_append_singleton length_take min.cobounded1 not_less_eq_eq nle_le)
  have "wf_tree t' \<and> files_of t' (d @ [name]) = Some encoded \<and> (\<forall>k \<le> length d. files_of t' (take k d) = None)
    \<and> (\<forall>n. n \<noteq> name \<longrightarrow> prefix ''resource.'' n \<longrightarrow> files_of t' (d @ [n]) = None)"
  proof (cases "\<exists>info. existing = Some info \<and> info_Path info \<noteq> d @ [name]")
    case True
    then obtain info where info: "existing = Some info" "info_Path info = d @ [info_Name info]" "info_Name info \<noteq> name" using ex by auto
    have rm: "removePayloadFile env (Some info) u = (None, t')" using w nn e u target(1) info by (simp add: write_payload_def)
    note f = removePayloadFile_files[OF rm wr(1) info(2)]
    have "files_of t (d @ [n]) = None" if "prefix ''resource.'' n" "n \<noteq> info_Name info" for n using known[OF that(1)] info that(2) by (cases "files_of t (d @ [n])") auto
    then show ?thesis using f(1) f(2) wr(2,3) info(3) short by auto
  next
    case False
    then have "t' = u" using w nn e u target(1) by (cases existing) (auto simp: write_payload_def)
    moreover have "files_of t (d @ [n]) = None" if "prefix ''resource.'' n" "n \<noteq> name" for n using known[OF that(1)] False that(2) by (cases "files_of t (d @ [n])") auto
    ultimately show ?thesis using wr short by auto
  qed
  then show "wf_tree t'" "\<forall>k \<le> length d. files_of t' (take k d) = None" "payload_names (files_of t') d = [name]"
    "EncodeContentPretty (repo_codecs env) content = Ok data \<Longrightarrow> files_of t' (d @ [name]) = Some data"
    "\<exists>data. EncodeContentPretty (repo_codecs env) content = Ok data"
    using single_payload_name[OF target(2), of "files_of t'" d] e by auto
qed

lemma clear_path_take: "clear_path t p \<longleftrightarrow> (\<forall>k < length p. files_of t (take k p) = None)"
proof
  assume "\<forall>k < length p. files_of t (take k p) = None"
  then show "clear_path t p" unfolding clear_path_def
    by (metis prefix_length_less prefix_def append_eq_conv_conj strict_prefix_def)
qed (auto simp: clear_path_def strict_prefix_def take_is_prefix)

lemma discoverPayloadFiles_Ok_clear:
  assumes "wf_tree t" "plain_env env" "repo_faults env = no_faults" "list_all plain_segment segs" "segs \<noteq> []"
    and "discoverPayloadFiles env t (rooted_path segs) = Ok existing"
  shows "clear_path t (resource_dir env segs)" "files_of t (resource_dir env segs) = None"
proof -
  let ?d = "resource_dir env segs"
  have r: "rooted_path segs \<noteq> ''/''" using assms(4,5) by (cases segs; cases "tl segs") (auto simp: rooted_path_def plain_segment_def)
  have u: "under_base env t ?d" and p: "payloadFilesInfoFromDir env t (rooted_path segs) ?d = Ok existing"
    using assms(6) r join_relative_base[OF assms(2,4,5)] by (auto simp: discoverPayloadFiles_def collectionDirPath_def Let_def split: if_splits)
  show "clear_path t ?d" using u under_base_iff[OF assms(1-3), of ?d] assms(2,4) by (simp add: plain_env_def)
  show "files_of t ?d = None"
    using p assms(3) by (auto simp: payloadFilesInfoFromDir_def os_read_dir_def no_faults_def files_of_def split: option.split node.split)
qed

text \<open>C31: a save without system faults that succeeds stores the encoding of the value, in the one payload file of
  the resource, and reading the resource then decodes exactly that encoding, whatever payload files were there before.\<close>

theorem Save_Get:
  assumes "Repository_Save env lp content t = (None, t')" "resource_path lp = Ok (rooted_path segs)"
    and "wf_tree t" "plain_env env" "list_all plain_segment segs" "repo_faults env = no_faults"
    and "\<And>files. CHR ''/'' \<notin> set (Extension (desiredPayloadDescriptor env content files))"
    and "Normalize (Value content) = Ok v" "v \<noteq> VNil"
  shows "\<exists>desired data. (\<exists>files. desired = desiredPayloadDescriptor env content files)
    \<and> EncodeContentPretty (repo_codecs env) \<lparr>Value = v, Descriptor = desired\<rparr> = Ok data
    \<and> Repository_Get env t' lp =
        (case DecodeContent (repo_codecs env) data (read_descriptor env (payload_name (Extension desired))) of
           Err e \<Rightarrow> Err e
         | Ok c \<Rightarrow> Ok \<lparr>Value = Value c, Descriptor = read_descriptor env (payload_name (Extension desired))\<rparr>)"
proof -
  let ?d = "resource_dir env segs"
  have segs: "segs \<noteq> []" using assms(2) by (auto simp: resource_path_def rooted_path_def split: result.splits if_splits)
  obtain target existing where x: "resolvePayloadTarget env t (rooted_path segs) content = Ok (target, existing)"
    and w: "write_payload env target existing \<lparr>Value = v, Descriptor = info_Descriptor target\<rparr> t = (None, t')"
    using assms(1,2,8) by (auto simp: Repository_Save_def split: result.splits)
  note r = resolvePayloadTarget_Ok[OF assms(4,5) segs assms(7) x]
  let ?name = "payload_name (Extension (info_Descriptor target))"
  have name: "prefix ''resource.'' ?name" using payload_name_plain(2) assms(7) r(2) by simp
  have ex: "info_Path info = ?d @ [info_Name info]" if "existing = Some info" for info
    using discoverPayloadFiles_Some[OF assms(3,4,5)] r(1) that by blast
  note c = discoverPayloadFiles_Ok_clear[OF assms(3,4,6,5) segs r(1)]
  have nn: "Value \<lparr>Value = v, Descriptor = info_Descriptor target\<rparr> \<noteq> VNil" using assms(9) by simp
  have saved: "wf_tree t'" "\<forall>k \<le> length ?d. files_of t' (take k ?d) = None" "payload_names (files_of t') ?d = [?name]"
    "EncodeContentPretty (repo_codecs env) \<lparr>Value = v, Descriptor = info_Descriptor target\<rparr> = Ok data \<Longrightarrow> files_of t' (?d @ [?name]) = Some data"
    "\<exists>data. EncodeContentPretty (repo_codecs env) \<lparr>Value = v, Descriptor = info_Descriptor target\<rparr> = Ok data" for data
    using write_payload_saved[OF w assms(3) nn r(3) name ex known_payload_names[OF assms(3,4,6,5) segs c r(1)]] by blast+
  obtain data where e: "EncodeContentPretty (repo_codecs env) \<lparr>Value = v, Descriptor = info_Descriptor target\<rparr> = Ok data" using saved(5) by blast
  have c': "clear_path t' ?d" "files_of t' ?d = None" using saved(2) by (auto simp: clear_path_take)
  note get = Get_single[OF saved(1) assms(4,6,5) segs c' assms(2) saved(3) saved(4)[OF e]]
  show ?thesis using get e r(2) by blast
qed

section \<open>Examples\<close>

definition example_env :: repo_env where
  "example_env = \<lparr>repo_codecs = \<lparr>yaml_unmarshal = (\<lambda>s. Ok VNil), yaml_marshal = (\<lambda>v. Ok []), json_decode = (\<lambda>s. Ok VNil),
       json_marshal = (\<lambda>v. Ok []), json_marshal_indent = (\<lambda>v. Ok []), format_float = (\<lambda>n x. []), unicode_lower = map lower_byte\<rparr>,
     repo_faults = no_faults, temp_random = (\<lambda>t d. ''1''), baseDir = [''repo'']\<rparr>"

definition example_tree :: file_tree where
  "example_tree = [([''repo''], DirNode), ([''repo'', ''c''], DirNode), ([''repo'', ''c'', ''a''], DirNode),
     ([''repo'', ''c'', ''a'', ''resource.txt''], FileNode ''one''), ([''repo'', ''c'', ''b''], DirNode),
     ([''repo'', ''c'', ''b'', ''resource.txt''], FileNode ''two'')]"

lemma wf_example_tree: "wf_tree example_tree"
  by (rule wf_tree_check) code_simp+

lemma plain_example_env: "plain_env example_env"
  by code_simp

definition example_content :: Content where
  "example_content = \<lparr>Value = VString ''three'', Descriptor = descriptor_of ''text'' [] []\<rparr>"

lemma example_desired: "desiredPayloadDescriptor example_env example_content files = descriptor_of ''text'' ''text/plain'' ''.txt''"
proof -
  have "IsPayloadDescriptorExplicit (Descriptor example_content)" 
    "NormalizePayloadDescriptor (unicode_lower (repo_codecs example_env)) (Descriptor example_content) = descriptor_of ''text'' ''text/plain'' ''.txt''"
    by code_simp+
  then show ?thesis by (simp add: desiredPayloadDescriptor_def)
qed

definition example_saved :: file_tree where
  "example_saved = [([''repo''], DirNode), ([''repo'', ''c''], DirNode), ([''repo'', ''c'', ''a''], DirNode),
     ([''repo'', ''c'', ''a'', ''resource.txt''], FileNode ''three''), ([''repo'', ''c'', ''b''], DirNode),
     ([''repo'', ''c'', ''b'', ''resource.txt''], FileNode ''two'')]"

lemma example_save: "Repository_Save example_env ''/c/a'' example_content example_tree = (None, example_saved)"
  by code_simp

lemma example_path: "resource_path ''/c/a'' = Ok (rooted_path [''c'', ''a''])" "list_all plain_segment [''c'', ''a'']"
  by code_simp+

theorem Save_touches_own_payload_witness:
  "wf_tree example_saved \<and> files_of example_saved [''repo'', ''c'', ''b'', ''resource.txt''] = Some ''two''"
proof -
  have b: "resource_dir example_env [''c'', ''a''] = [''repo'', ''c'', ''a'']" by (simp add: example_env_def)
  have slash: "CHR ''/'' \<notin> set (Extension (desiredPayloadDescriptor example_env example_content files))" for files
    by (simp add: example_desired descriptor_of_def)
  note touched = Save_touches_own_payload[OF example_save example_path(1) wf_example_tree plain_example_env example_path(2) slash, unfolded b]
  have "files_of example_saved [''repo'', ''c'', ''b'', ''resource.txt''] = files_of example_tree [''repo'', ''c'', ''b'', ''resource.txt'']"
  proof (rule ccontr)
    assume "files_of example_saved [''repo'', ''c'', ''b'', ''resource.txt''] \<noteq> files_of example_tree [''repo'', ''c'', ''b'', ''resource.txt'']"
    then obtain name where "[''repo'', ''c'', ''b'', ''resource.txt''] = [''repo'', ''c'', ''a''] @ [name]" using touched by blast
    then show False by simp
  qed
  moreover have "files_of example_tree [''repo'', ''c'', ''b'', ''resource.txt''] = Some ''two''" by code_simp
  ultimately show ?thesis using touched by simp
qed

theorem Save_Get_witness:
  "\<exists>content. Repository_Get example_env example_saved ''/c/a'' = Ok content \<and> Value content = VString ''three''"
proof -
  have v: "Normalize (Value example_content) = Ok (VString ''three'')" "VString ''three'' \<noteq> VNil" by code_simp+
  have e: "EncodeContentPretty (repo_codecs example_env) \<lparr>Value = VString ''three'', Descriptor = descriptor_of ''text'' ''text/plain'' ''.txt''\<rparr> = Ok ''three''"
    by code_simp
  have d: "DecodeContent (repo_codecs example_env) ''three'' (read_descriptor example_env (payload_name ''.txt'')) =
      Ok \<lparr>Value = VString ''three'', Descriptor = descriptor_of ''text'' ''text/plain'' ''.txt''\<rparr>" by code_simp
  have f: "repo_faults example_env = no_faults" by (simp add: example_env_def)
  have s: "CHR ''/'' \<notin> set (Extension (desiredPayloadDescriptor example_env example_content files))" for files
    by (simp add: example_desired descriptor_of_def)
  have x: "Extension (descriptor_of ''text'' ''text/plain'' ''.txt'') = ''.txt''" by (simp add: descriptor_of_def)
  show ?thesis
    using Save_Get[OF example_save example_path(1) wf_example_tree plain_example_env example_path(2) f s v]
    by (auto simp: example_desired e d x)
qed

end
