(* ===== verification/Go_Glob.thy ===== *)
theory Go_Glob
  imports Go_Unicode "HOL-Library.Sublist"
begin

text \<open>
  \<open>path.Match\<close> of Go's standard library, which the metadata store uses on the names of its directories: \<open>*\<close> stands
  for any bytes but slashes, \<open>?\<close> for one rune that is no slash, \<open>[...]\<close> for a rune of a class, and a backslash quotes
  the next byte.  \<open>None\<close> is \<open>ErrBadPattern\<close>.  The lemmas at the end fix the meaning
  of patterns without special bytes, alone and before a star.
\<close>

definition rune_value :: "string \<Rightarrow> nat" where
  "rune_value s =
     (case s of
        [a] \<Rightarrow> byte a
      | [a, b] \<Rightarrow> (byte a - 0xC0) * 64 + (byte b - 0x80)
      | [a, b, c] \<Rightarrow> (byte a - 0xE0) * 4096 + (byte b - 0x80) * 64 + (byte c - 0x80)
      | [a, b, c, d] \<Rightarrow> (byte a - 0xF0) * 262144 + (byte b - 0x80) * 4096 + (byte c - 0x80) * 64 + (byte d - 0x80)
      | _ \<Rightarrow> 0)"

definition DecodeRuneInString :: "string \<Rightarrow> nat \<times> nat" where
  "DecodeRuneInString s =
     (if s = [] then (0xFFFD, 0) else if utf8_len s = 0 then (0xFFFD, 1) else (rune_value (take (utf8_len s) s), utf8_len s))"

definition getEsc :: "string \<Rightarrow> (nat \<times> string) option" where
  "getEsc chunk =
     (if chunk = [] \<or> hd chunk = CHR ''-'' \<or> hd chunk = CHR '']'' then None
      else
        let c = (if hd chunk = CHR 0x5C then tl chunk else chunk) in
        if c = [] then None
        else
          let rn = DecodeRuneInString c; nchunk = drop (snd rn) c in
          if fst rn = 0xFFFD \<and> snd rn = 1 then None else if nchunk = [] then None else Some (fst rn, nchunk))"

lemma utf8_len_pos: "utf8_len s \<noteq> 0 \<Longrightarrow> 0 < utf8_len s"
  by simp

lemma getEsc_shorter: "getEsc chunk = Some (r, rest) \<Longrightarrow> length rest < length chunk"
proof -
  assume g: "getEsc chunk = Some (r, rest)"
  then obtain c where c: "c \<noteq> []" "length c \<le> length chunk" "rest = drop (snd (DecodeRuneInString c)) c"
    by (auto simp: getEsc_def Let_def split: if_splits)
  then have "0 < snd (DecodeRuneInString c)" by (auto simp: DecodeRuneInString_def)
  then show ?thesis using c by (cases c) auto
qed

text \<open>The second bound of a range, if there is one.\<close>

definition range_end :: "nat \<Rightarrow> string \<Rightarrow> (nat \<times> string) option" where
  "range_end lo chunk = (if chunk \<noteq> [] \<and> hd chunk = CHR ''-'' then getEsc (tl chunk) else Some (lo, chunk))"

lemma range_end_shorter: "range_end lo chunk = Some (hi, rest) \<Longrightarrow> length rest \<le> length chunk"
  using getEsc_shorter[of "tl chunk" hi rest] by (auto simp: range_end_def split: if_splits)

function match_ranges :: "nat \<Rightarrow> string \<Rightarrow> nat \<Rightarrow> bool \<Rightarrow> (bool \<times> string) option" where
  "match_ranges r chunk nrange matched =
     (if chunk \<noteq> [] \<and> hd chunk = CHR '']'' \<and> 0 < nrange then Some (matched, tl chunk)
      else case getEsc chunk of
             None \<Rightarrow> None
           | Some (lo, chunk1) \<Rightarrow>
               (case range_end lo chunk1 of
                  None \<Rightarrow> None
                | Some (hi, chunk2) \<Rightarrow> match_ranges r chunk2 (Suc nrange) (matched \<or> (lo \<le> r \<and> r \<le> hi))))"
  by pat_completeness auto
termination
  by (relation "measure (\<lambda>(r, chunk, n, m). length chunk)") (auto dest!: getEsc_shorter range_end_shorter)

declare match_ranges.simps [simp del]

lemma match_ranges_shorter: "match_ranges r chunk n m = Some (m', rest) \<Longrightarrow> length rest \<le> length chunk"
proof (induction r chunk n m rule: match_ranges.induct)
  case (1 r chunk n m)
  show ?case
  proof (cases "chunk \<noteq> [] \<and> hd chunk = CHR '']'' \<and> 0 < n")
    case True
    then show ?thesis using "1.prems" by (subst (asm) match_ranges.simps) auto
  next
    case False
    then obtain lo c1 hi c2 where c: "getEsc chunk = Some (lo, c1)" "range_end lo c1 = Some (hi, c2)"
      "match_ranges r c2 (Suc n) (m \<or> (lo \<le> r \<and> r \<le> hi)) = Some (m', rest)"
      using "1.prems" by (subst (asm) match_ranges.simps) (auto split: option.splits if_splits)
    from "1.IH"[OF False c(1) refl c(2) refl c(3)] show ?thesis using getEsc_shorter[OF c(1)] range_end_shorter[OF c(2)] by simp
  qed
qed

definition class_body :: "string \<Rightarrow> bool \<times> string" where
  "class_body chunk = (if chunk \<noteq> [] \<and> hd chunk = CHR ''^'' then (True, tl chunk) else (False, chunk))"

text \<open>The result is the rest of the name, or nothing if it does not match.\<close>

function matchChunk :: "string \<Rightarrow> string \<Rightarrow> bool \<Rightarrow> string option option" where
  "matchChunk [] s failed = Some (if failed then None else Some s)"
| "matchChunk (c # chunk) s failed0 =
     (let failed = (failed0 \<or> s = []); rn = DecodeRuneInString s in
      if c = CHR ''['' then
        (let body = class_body chunk in
         case match_ranges (if failed then 0 else fst rn) (snd body) 0 False of
           None \<Rightarrow> None
         | Some (matched, rest) \<Rightarrow> matchChunk rest (if failed then s else drop (snd rn) s) (failed \<or> matched = fst body))
      else if c = CHR ''?'' then
        matchChunk chunk (if failed then s else drop (snd rn) s) (failed \<or> hd s = CHR ''/'')
      else if c = CHR 0x5C then
        (case chunk of
           [] \<Rightarrow> None
         | d # rest \<Rightarrow> matchChunk rest (if failed then s else tl s) (failed \<or> d \<noteq> hd s))
      else matchChunk chunk (if failed then s else tl s) (failed \<or> c \<noteq> hd s))"
  by pat_completeness auto
termination
proof (relation "measure (\<lambda>(chunk, s, f). length chunk)")
  fix c :: char and chunk s :: string and failed0 failed :: bool and rn :: "nat \<times> nat" and body x2 :: "bool \<times> string" and x y
  assume "body = class_body chunk" "match_ranges (if failed then 0 else fst rn) (snd body) 0 False = Some x2" "(x, y) = x2"
  then have "length y \<le> length (snd body)" using match_ranges_shorter by metis
  then show "((y, if failed then s else drop (snd rn) s, failed \<or> x = fst body), c # chunk, s, failed0) \<in> measure (\<lambda>(chunk, s, f). length chunk)"
    using \<open>body = class_body chunk\<close> by (auto simp: class_body_def split: if_splits)
qed auto

text \<open>Where the next star outside a class is.\<close>

fun scan_len :: "string \<Rightarrow> bool \<Rightarrow> nat" where
  "scan_len [] inrange = 0"
| "scan_len (c # cs) inrange =
     (if c = CHR 0x5C then (case cs of [] \<Rightarrow> 1 | d # ds \<Rightarrow> 2 + scan_len ds inrange)
      else if c = CHR ''['' then Suc (scan_len cs True)
      else if c = CHR '']'' then Suc (scan_len cs False)
      else if c = CHR ''*'' \<and> \<not> inrange then 0
      else Suc (scan_len cs inrange))"

definition scanChunk :: "string \<Rightarrow> bool \<times> string \<times> string" where
  "scanChunk pattern =
     (let p = dropWhile (\<lambda>c. c = CHR ''*'') pattern; i = scan_len p False
      in (p \<noteq> pattern, take i p, drop i p))"

lemma scanChunk_shorter: "pattern \<noteq> [] \<Longrightarrow> (star, chunk, rest) = scanChunk pattern \<Longrightarrow> length rest < length pattern"
proof -
  assume ne: "pattern \<noteq> []" and s: "(star, chunk, rest) = scanChunk pattern"
  let ?p = "dropWhile (\<lambda>c. c = CHR ''*'') pattern"
  have rest: "rest = drop (scan_len ?p False) ?p" using s by (simp add: scanChunk_def Let_def)
  show ?thesis
  proof (cases "?p = pattern")
    case True
    have "hd pattern \<noteq> CHR ''*''" using hd_dropWhile[of "\<lambda>c. c = CHR ''*''" pattern] True ne by simp
    then have "0 < scan_len pattern False" using ne by (cases pattern) (auto split: list.split)
    then show ?thesis using rest True ne by simp
  next
    case False
    then have "length ?p < length pattern" by (metis length_dropWhile_le le_neq_implies_less dropWhile_eq_drop drop_0 append_Nil takeWhile_dropWhile_id length_append add_0 self_append_conv2 length_0_conv add_right_cancel)
    then show ?thesis using rest by simp
  qed
qed

fun star_try :: "string \<Rightarrow> string \<Rightarrow> string \<Rightarrow> string option option" where
  "star_try chunk rest [] = Some None"
| "star_try chunk rest (c # name) =
     (if c = CHR ''/'' then Some None
      else case matchChunk chunk name False of
             None \<Rightarrow> None
           | Some None \<Rightarrow> star_try chunk rest name
           | Some (Some t) \<Rightarrow> if rest = [] \<and> t \<noteq> [] then star_try chunk rest name else Some (Some t))"

function pattern_valid :: "string \<Rightarrow> bool" where
  "pattern_valid pattern =
     (if pattern = [] then True
      else case scanChunk pattern of
             (star, chunk, rest) \<Rightarrow> (case matchChunk chunk [] False of None \<Rightarrow> False | Some r \<Rightarrow> pattern_valid rest))"
  by pat_completeness auto
termination
  by (relation "measure length") (auto dest: scanChunk_shorter)

declare pattern_valid.simps [simp del]

function path_match :: "string \<Rightarrow> string \<Rightarrow> bool option" where
  "path_match pattern name =
     (if pattern = [] then Some (name = [])
      else case scanChunk pattern of
             (star, chunk, rest) \<Rightarrow>
               if star \<and> chunk = [] then Some (CHR ''/'' \<notin> set name)
               else
                 (let give_up = (if pattern_valid rest then Some False else None);
                      skip = (if star then star_try chunk rest name else Some None) in
                  case matchChunk chunk name False of
                    None \<Rightarrow> None
                  | Some m \<Rightarrow>
                      (case m of
                         Some t \<Rightarrow>
                           if t = [] \<or> rest \<noteq> [] then path_match rest t
                           else (case skip of None \<Rightarrow> None | Some None \<Rightarrow> give_up | Some (Some t') \<Rightarrow> path_match rest t')
                       | None \<Rightarrow> (case skip of None \<Rightarrow> None | Some None \<Rightarrow> give_up | Some (Some t') \<Rightarrow> path_match rest t'))))"
  by pat_completeness auto
termination
  by (relation "measure (\<lambda>(pattern, name). length pattern)") (auto dest: scanChunk_shorter)

declare path_match.simps [simp del]

text \<open>A pattern without special bytes matches itself only; with a star after it, what extends it within a segment.\<close>

definition literal_byte :: "char \<Rightarrow> bool" where
  "literal_byte c \<longleftrightarrow> c \<notin> {CHR ''['', CHR '']'', CHR ''?'', CHR ''*'', CHR 0x5C}"

lemma matchChunk_failed: "list_all literal_byte p \<Longrightarrow> matchChunk p s True = Some None"
  by (induction p) (auto simp: literal_byte_def Let_def)

lemma matchChunk_literal:
  "list_all literal_byte p \<Longrightarrow> matchChunk p s False = Some (if prefix p s then Some (drop (length p) s) else None)"
proof (induction p arbitrary: s)
  case (Cons c p)
  then have c: "literal_byte c" and p: "list_all literal_byte p" by auto
  show ?case
  proof (cases s)
    case Nil
    then show ?thesis using c matchChunk_failed[OF p] by (simp add: literal_byte_def Let_def)
  next
    case (Cons x t)
    then show ?thesis
      using c matchChunk_failed[OF p] Cons.IH[OF p, of t] by (cases "c = x") (auto simp: literal_byte_def Let_def)
  qed
qed simp

lemma scan_len_literal: "list_all literal_byte p \<Longrightarrow> scan_len (p @ r) False = length p + scan_len r False"
  by (induction p) (auto simp: literal_byte_def split: list.splits)

lemma scanChunk_literal:
  assumes "list_all literal_byte p" "p \<noteq> []" "r = [] \<or> hd r = CHR ''*''"
  shows "scanChunk (p @ r) = (False, p, r)"
proof -
  have "hd p \<noteq> CHR ''*''" using assms(1,2) by (cases p) (auto simp: literal_byte_def)
  then have "dropWhile (\<lambda>c. c = CHR ''*'') (p @ r) = p @ r" using assms(2) by (cases p) auto
  moreover have "scan_len r False = 0" using assms(3) by (cases r) auto
  ultimately show ?thesis using scan_len_literal[OF assms(1), of r] by (simp add: scanChunk_def)
qed

lemma path_match_literal:
  assumes "list_all literal_byte p"
  shows "path_match p name = Some (p = name)"
proof (cases "p = []")
  case False
  have s: "scanChunk p = (False, p, [])" using scanChunk_literal[OF assms False, of "[]"] by simp
  show ?thesis
  proof (cases "prefix p name")
    case True
    then obtain t where "name = p @ t" by (auto elim: prefixE)
    then show ?thesis using False
      by (subst path_match.simps) (auto simp: s matchChunk_literal[OF assms] pattern_valid.simps path_match.simps[of "[]"])
  next
    case nm: False
    then show ?thesis using False
      by (subst path_match.simps) (auto simp: s matchChunk_literal[OF assms] pattern_valid.simps)
  qed
qed (auto simp: path_match.simps[of "[]"])

lemma path_match_star: "path_match ''*'' name = Some (CHR ''/'' \<notin> set name)"
  by (subst path_match.simps) (simp add: scanChunk_def)

lemma path_match_literal_star:
  assumes p: "list_all literal_byte p" "p \<noteq> []"
  shows "path_match (p @ ''*'') name = Some (\<exists>t. name = p @ t \<and> CHR ''/'' \<notin> set t)"
proof (cases "prefix p name")
  case True
  then obtain t where "name = p @ t" by (auto elim: prefixE)
  then show ?thesis using p
    by (subst path_match.simps) (auto simp: scanChunk_literal[OF p, of "''*''"] matchChunk_literal[OF p(1)] path_match_star)
next
  case False
  have "pattern_valid ''*''" by (simp add: pattern_valid.simps scanChunk_def)
  then show ?thesis using p False
    by (subst path_match.simps) (auto simp: scanChunk_literal[OF p, of "''*''"] matchChunk_literal[OF p(1)])
qed

end
