(* ===== verification/Metadata_Store.thy ===== *)
theory Metadata_Store
  imports Externalization Local_Repository Go_Glob Identity_Template
begin

text \<open>
  The metadata service on files (src/internal/providers/metadata/fs, src/metadata/path_descriptor.go,
  src/metadata/resource_format.go): one metadata document per selector, in \<open>_/metadata.yaml\<close> below the directory of a
  collection or in \<open>metadata.yaml\<close> in the directory of a resource, with the defaults it includes beside it.

  The tree of files, the faults of system calls and the temporary names are those of the local repository; the base
  directory is an absolute cleaned path, so that the test for an empty one is left out.  Reading and writing a document
  as JSON or YAML, and parsing the Go templates of an operation, are functions of the environment.

  The theorems show that a stored document is read back, that a removed one is gone, and that storing or removing it
  touches no other file, whatever system calls fail.
\<close>

section \<open>Path descriptors\<close>

record PathDescriptor =
  pd_Selector :: string
  pd_Segments :: "string list"
  pd_Collection :: bool
  pd_SelectorMode :: bool

definition hasWildcardPattern :: "string \<Rightarrow> bool" where
  "hasWildcardPattern segment = list_ex (\<lambda>c. c \<in> {CHR ''*'', CHR ''?'', CHR ''[''}) segment"

definition joinPathSegments :: "string list \<Rightarrow> string" where
  "joinPathSegments segments = (if segments = [] then [] else join_with ''/'' segments)"

definition selector_text :: "ParsedRawPath \<Rightarrow> string list \<Rightarrow> bool \<Rightarrow> string" where
  "selector_text parsedPath segments collection =
     (if segments = [] then ''/''
      else if length segments \<noteq> length (Segments parsedPath) \<or> collection then ''/'' @ joinPathSegments segments
      else Normalized parsedPath)"

definition make_descriptor :: "string \<Rightarrow> bool \<Rightarrow> PathDescriptor result" where
  "make_descriptor selector collection =
     (if \<not> prefix ''/'' selector then Err (NewTypedError ValidationError (msg ''logical path must be absolute'') None)
      else
        let final = (if selector \<noteq> ''/'' then trim_suffix selector ''/'' else selector)
        in Ok \<lparr>pd_Selector = final, pd_Segments = SplitRawPathSegments final, pd_Collection = collection, pd_SelectorMode = collection\<rparr>)"

definition ParsePathDescriptor :: "string \<Rightarrow> PathDescriptor result" where
  "ParsePathDescriptor logicalPath =
     (case ParseRawPathWithOptions logicalPath \<lparr>AllowMissingLeadingSlash = False\<rparr> of
        Err e \<Rightarrow> Err e
      | Ok parsedPath \<Rightarrow>
          if list_ex (\<lambda>segment. hasWildcardPattern segment \<and> path_match segment ''sample'' = None) (Segments parsedPath)
          then Err (NewTypedError ValidationError (msg ''logical path contains invalid wildcard expression'')
                 (Some (PlainError (msg ''syntax error in pattern'') None)))
          else
            let collectionTarget = (Normalized parsedPath = ''/'' \<or> ExplicitCollectionTarget parsedPath);
                reserved = (Segments parsedPath \<noteq> [] \<and> last (Segments parsedPath) = ''_'');
                segments = (if reserved then butlast (Segments parsedPath) else Segments parsedPath);
                pattern = list_ex (\<lambda>segment. segment = ''_'' \<or> hasWildcardPattern segment) segments;
                collection = (collectionTarget \<or> reserved \<or> pattern)
            in make_descriptor (path_clean (selector_text parsedPath segments collection)) collection)"

section \<open>Resource formats\<close>

definition NormalizeResourceFormat :: "(string \<Rightarrow> string) \<Rightarrow> string \<Rightarrow> string" where
  "NormalizeResourceFormat ul v =
     (let trimmed = to_lower ul (trim_space v) in
      if trimmed = [] then [] else if trimmed = ''any'' then ''any'' else NormalizePayloadType ul trimmed)"

definition ValidateResourceFormat :: "(string \<Rightarrow> string) \<Rightarrow> string \<Rightarrow> string result" where
  "ValidateResourceFormat ul v =
     (let normalized = NormalizeResourceFormat ul v in
      if normalized = [] then Ok [] else if normalized = ''any'' then Ok normalized else ValidatePayloadType ul normalized)"

definition ResourceFormatAllowsMixedItems :: "(string \<Rightarrow> string) \<Rightarrow> string \<Rightarrow> bool" where
  "ResourceFormatAllowsMixedItems ul v = (NormalizeResourceFormat ul v = ''any'')"

section \<open>Environment\<close>

datatype metadataPathKind = metadataPathResource | metadataPathCollection

record metadata_env =
  store :: repo_env
  decode_document :: "bool \<Rightarrow> string \<Rightarrow> ResourceMetadata result"
  encode_document :: "bool \<Rightarrow> ResourceMetadata \<Rightarrow> string result"
  check_templates :: "string \<Rightarrow> OperationSpec \<Rightarrow> go_error option"

abbreviation env_lower :: "metadata_env \<Rightarrow> string \<Rightarrow> string" where
  "env_lower env \<equiv> unicode_lower (repo_codecs (store env))"

abbreviation env_faults :: "metadata_env \<Rightarrow> os_faults" where
  "env_faults env \<equiv> repo_faults (store env)"

section \<open>Validation\<close>

fun first_error :: "go_error option list \<Rightarrow> go_error option" where
  "first_error [] = None"
| "first_error (None # es) = first_error es"
| "first_error (Some e # es) = Some e"

definition validateSelectorSpec :: "metadataPathKind \<Rightarrow> SelectorSpec option \<Rightarrow> go_error option" where
  "validateSelectorSpec kind spec =
     (case spec of
        None \<Rightarrow> None
      | Some s \<Rightarrow>
          if Descendants s = None \<or> kind = metadataPathCollection then None
          else Some (Invalid (msg ''selector.descendants is only supported on collection metadata'') None))"

definition validateIdentityTemplate :: "string \<Rightarrow> string \<Rightarrow> go_error option" where
  "validateIdentityTemplate field v =
     (if trim_space v = [] then None
      else case compile (trim_space v) of
             Err e \<Rightarrow> Some (Invalid (msg (field @ '' must be a valid identity template or JSON pointer shorthand'')) (Some e))
           | Ok t \<Rightarrow> None)"

fun attribute_pointers :: "string \<Rightarrow> nat \<Rightarrow> string list \<Rightarrow> go_error option" where
  "attribute_pointers field idx [] = None"
| "attribute_pointers field idx (v # vs) =
     (if trim_space v = [] then Some (Invalid (''%s[%d] must not be empty'', [field, itoa (int idx)]) None)
      else case ParseJSONPointer (trim_space v) of
             Err e \<Rightarrow> Some (Invalid (''%s[%d] must be a valid JSON pointer'', [field, itoa (int idx)]) (Some e))
           | Ok tokens \<Rightarrow> attribute_pointers field (Suc idx) vs)"

definition validateAttributePointers :: "string \<Rightarrow> string list option \<Rightarrow> go_error option" where
  "validateAttributePointers field values = attribute_pointers field 0 (case values of None \<Rightarrow> [] | Some vs \<Rightarrow> vs)"

definition opt_length :: "'a list option \<Rightarrow> nat" where
  "opt_length xs = (case xs of None \<Rightarrow> 0 | Some ys \<Rightarrow> length ys)"

definition needs_structured :: "string \<Rightarrow> string \<Rightarrow> go_error" where
  "needs_structured field payloadType =
     Invalid (field @ '' requires structured payload type (%s); got %q'', [''json, yaml, ini, properties'', payloadType]) None"

definition validateStructuredOnlyMetadataFields :: "(string \<Rightarrow> string) \<Rightarrow> string \<Rightarrow> ResourceMetadata \<Rightarrow> go_error option" where
  "validateStructuredOnlyMetadataFields ul payloadType m =
     (if trim_space payloadType = [] \<or> IsStructuredPayloadType ul payloadType then None
      else if trim_space (md_ID m) \<noteq> [] then Some (needs_structured ''resource.id'' payloadType)
      else if trim_space (md_Alias m) \<noteq> [] then Some (needs_structured ''resource.alias'' payloadType)
      else if opt_length (md_SecretAttributes m) > 0
      then Some (Invalid (''resource.secretAttributes requires structured payload type (%s); got %q; use resource.secret: true for whole-resource secrets'',
             [''json, yaml, ini, properties'', payloadType]) None)
      else if opt_length (md_RequiredAttributes m) > 0 then Some (needs_structured ''resource.requiredAttributes'' payloadType)
      else if opt_length (md_ExternalizedAttributes m) > 0 then Some (needs_structured ''resource.externalizedAttributes'' payloadType)
      else if HasDefaultsSpecDirectives (md_Defaults m) then Some (needs_structured ''resource.defaults'' payloadType)
      else None)"

fun validate_transforms :: "string \<Rightarrow> nat \<Rightarrow> TransformStep list \<Rightarrow> go_error option" where
  "validate_transforms scope idx [] = None"
| "validate_transforms scope idx (step # steps) =
     (let stepType = transformStepType step; place = scope @ '' transforms['' @ itoa (int idx) @ '']'';
          err = (if stepType = [] then Some (Invalid
                   (''%s transforms[%d] must define exactly one of selectAttributes, excludeAttributes, or jqExpression'', [scope, itoa (int idx)]) None)
                 else if stepType = ''selectAttributes'' then validateAttributePointers (place @ ''.selectAttributes'') (SelectAttributes step)
                 else if stepType = ''excludeAttributes'' then validateAttributePointers (place @ ''.excludeAttributes'') (ExcludeAttributes step)
                 else None)
      in case err of Some e \<Rightarrow> Some e | None \<Rightarrow> validate_transforms scope (Suc idx) steps)"

definition validateStructuredPayloadDirectives ::
  "(string \<Rightarrow> string) \<Rightarrow> string \<Rightarrow> string \<Rightarrow> TransformStep list option \<Rightarrow> OperationValidationSpec option \<Rightarrow> go_error option" where
  "validateStructuredPayloadDirectives ul scope payloadType mutations validate =
     (case validate_transforms scope 0 (case mutations of None \<Rightarrow> [] | Some ms \<Rightarrow> ms) of
        Some e \<Rightarrow> Some e
      | None \<Rightarrow>
          if trim_space payloadType = [] \<or> IsStructuredPayloadType ul payloadType then None
          else if opt_length mutations = 0 \<and> validate = None then None
          else Some (Invalid (''%s uses structured payload directives with non-structured payload type %q'', [scope, payloadType]) None))"

fun empty_entry :: "string \<Rightarrow> string \<Rightarrow> nat \<Rightarrow> string list \<Rightarrow> go_error option" where
  "empty_entry operation field idx [] = None"
| "empty_entry operation field idx (v # vs) =
     (if trim_space v = [] then Some (Invalid (''operation %q validate.'' @ field, [operation, itoa (int idx)]) None)
      else empty_entry operation field (Suc idx) vs)"

definition validateOperationValidationSpec :: "string \<Rightarrow> OperationValidationSpec option \<Rightarrow> go_error option" where
  "validateOperationValidationSpec operation spec =
     (case spec of
        None \<Rightarrow> None
      | Some v \<Rightarrow>
          first_error
            [empty_entry operation ''requiredAttributes[%d] must not be empty'' 0 (case val_RequiredAttributes v of None \<Rightarrow> [] | Some rs \<Rightarrow> rs),
             validateAttributePointers (''operation \"'' @ operation @ ''\" validate.requiredAttributes'') (val_RequiredAttributes v),
             empty_entry operation ''assertions[%d].jq must not be empty'' 0 (map assertion_JQ (case val_Assertions v of None \<Rightarrow> [] | Some as \<Rightarrow> as)),
             (let schemaRef = trim_space (val_SchemaRef v) in
              if schemaRef = [] \<or> schemaRef = ''openapi:request-body'' \<or> prefix ''openapi:#/'' schemaRef then None
              else Some (Invalid (''operation %q validate.schemaRef %q is not supported (expected openapi:request-body or openapi:#/...)'',
                     [operation, schemaRef]) None))])"

definition Operation_IsValid :: "string \<Rightarrow> bool" where
  "Operation_IsValid op = (op \<in> {''get'', ''create'', ''update'', ''delete'', ''list'', ''compare''})"

fun validate_operations :: "metadata_env \<Rightarrow> string \<Rightarrow> (string, OperationSpec) gomap \<Rightarrow> go_error option" where
  "validate_operations env payloadType [] = None"
| "validate_operations env payloadType ((key, operationSpec) # ops) =
     (let scope = ''operation \"'' @ key @ ''\"'' in
      if \<not> Operation_IsValid key then Some (Invalid (''unsupported metadata operation %q'', [key]) None)
      else case first_error
             [validateStructuredPayloadDirectives (env_lower env) scope payloadType (op_Transforms operationSpec) (op_Validate operationSpec),
              validateOperationValidationSpec key (op_Validate operationSpec),
              check_templates env scope operationSpec] of
             Some e \<Rightarrow> Some e
           | None \<Rightarrow> validate_operations env payloadType ops)"

definition validateResourceMetadata :: "metadata_env \<Rightarrow> metadataPathKind \<Rightarrow> ResourceMetadata \<Rightarrow> go_error option" where
  "validateResourceMetadata env kind m =
     (let ul = env_lower env;
          format = (if trim_space (md_Format m) = [] then Ok []
                    else case ValidateResourceFormat ul (md_Format m) of
                           Err e \<Rightarrow> Err e
                         | Ok payloadType \<Rightarrow> Ok (if ResourceFormatAllowsMixedItems ul payloadType then [] else payloadType))
      in case format of
           Err e \<Rightarrow> Some e
         | Ok resolvedPayloadType \<Rightarrow>
             first_error
               [ValidateDefaultsSpec ul (md_Defaults m),
                validateSelectorSpec kind (md_Selector m),
                (case ResolveExternalizedAttributes m of Err e \<Rightarrow> Some e | Ok _ \<Rightarrow> None),
                validateIdentityTemplate ''resource.id'' (md_ID m),
                validateIdentityTemplate ''resource.alias'' (md_Alias m),
                validateAttributePointers ''resource.requiredAttributes'' (md_RequiredAttributes m),
                validateAttributePointers ''resource.secretAttributes'' (md_SecretAttributes m),
                validateStructuredOnlyMetadataFields ul resolvedPayloadType m,
                (if IsWholeResourceSecret m \<and> opt_length (md_SecretAttributes m) > 0
                 then Some (Invalid (msg ''resource.secret: true and resource.secretAttributes are mutually exclusive'') None) else None),
                validateStructuredPayloadDirectives ul ''metadata defaults'' resolvedPayloadType (md_Transforms m) None,
                validate_operations env resolvedPayloadType (case md_Operations m of None \<Rightarrow> [] | Some ops \<Rightarrow> ops)])"

section \<open>Files of a selector\<close>

definition under_root :: "metadata_env \<Rightarrow> file_tree \<Rightarrow> file_path \<Rightarrow> bool" where
  "under_root env t p = under_base (store env) t p"

definition escapes_metadata :: go_error where
  "escapes_metadata = Invalid (msg ''metadata path escapes metadata base directory'') None"

definition root_target :: go_error where
  "root_target = Invalid (msg ''resource metadata path must not target root'') None"

definition relative_segments :: "string \<Rightarrow> string list" where
  "relative_segments selector =
     (let relativeSelector = trim_prefix selector ''/'' in if relativeSelector = [] then [] else split_on (CHR ''/'') relativeSelector)"

definition metadataFilePathForExtension ::
  "metadata_env \<Rightarrow> file_tree \<Rightarrow> string \<Rightarrow> metadataPathKind \<Rightarrow> string \<Rightarrow> file_path result" where
  "metadataFilePathForExtension env t selector kind extension =
     (let fileName = ''metadata'' @ extension; relative = relative_segments selector; dir = baseDir (store env) in
      if kind = metadataPathResource \<and> relative = [] then Err root_target
      else
        let targetPath = clean_segments True
              (case kind of metadataPathCollection \<Rightarrow> dir @ relative @ [''_'', fileName] | metadataPathResource \<Rightarrow> dir @ relative @ [fileName])
        in if \<not> under_root env t targetPath then Err escapes_metadata else Ok targetPath)"

record metadataFileCandidate =
  cand_path :: file_path
  cand_yaml :: bool

definition metadataFilePreferenceOrder :: "(string \<times> bool) list" where
  "metadataFilePreferenceOrder = [(''.yaml'', True), (''.json'', False)]"

fun file_candidates ::
  "metadata_env \<Rightarrow> file_tree \<Rightarrow> string \<Rightarrow> metadataPathKind \<Rightarrow> (string \<times> bool) list \<Rightarrow> metadataFileCandidate list result" where
  "file_candidates env t selector kind [] = Ok []"
| "file_candidates env t selector kind ((extension, yaml) # order) =
     (case metadataFilePathForExtension env t selector kind extension of
        Err e \<Rightarrow> Err e
      | Ok targetPath \<Rightarrow>
          (case file_candidates env t selector kind order of
             Err e \<Rightarrow> Err e
           | Ok candidates \<Rightarrow> Ok (\<lparr>cand_path = targetPath, cand_yaml = yaml\<rparr> # candidates)))"

definition metadataFileCandidates ::
  "metadata_env \<Rightarrow> file_tree \<Rightarrow> string \<Rightarrow> metadataPathKind \<Rightarrow> metadataFileCandidate list result" where
  "metadataFileCandidates env t selector kind = file_candidates env t selector kind metadataFilePreferenceOrder"

definition metadataFilePath :: "metadata_env \<Rightarrow> file_tree \<Rightarrow> string \<Rightarrow> metadataPathKind \<Rightarrow> file_path result" where
  "metadataFilePath env t selector kind =
     (case metadataFileCandidates env t selector kind of Err e \<Rightarrow> Err e | Ok candidates \<Rightarrow> Ok (cand_path (hd candidates)))"

definition selectorDirPath :: "metadata_env \<Rightarrow> file_tree \<Rightarrow> string \<Rightarrow> file_path result" where
  "selectorDirPath env t selector =
     (let relative = relative_segments selector;
          targetPath = (if relative = [] then baseDir (store env) else clean_segments True (baseDir (store env) @ relative))
      in if \<not> under_root env t targetPath then Err escapes_metadata else Ok targetPath)"

definition metadataSelectorDirPath :: "metadata_env \<Rightarrow> file_tree \<Rightarrow> string \<Rightarrow> metadataPathKind \<Rightarrow> file_path result" where
  "metadataSelectorDirPath env t selector kind =
     (if kind = metadataPathResource \<and> selector = ''/'' then Err root_target
      else
        let dir = baseDir (store env);
            targetPath = clean_segments True
              (case kind of
                 metadataPathCollection \<Rightarrow> if selector = ''/'' then dir @ [''_''] else dir @ split_on (CHR ''/'') (trim_prefix selector ''/'') @ [''_'']
               | metadataPathResource \<Rightarrow> dir @ split_on (CHR ''/'') (trim_prefix selector ''/''))
        in if \<not> under_root env t targetPath then Err escapes_metadata else Ok targetPath)"

definition parseMetadataPath :: "string \<Rightarrow> (string \<times> metadataPathKind) result" where
  "parseMetadataPath logicalPath =
     (case ParsePathDescriptor logicalPath of
        Err e \<Rightarrow> Err e
      | Ok d \<Rightarrow>
          (let kind = (if pd_Collection d then metadataPathCollection else metadataPathResource)
           in if kind = metadataPathResource \<and> pd_Selector d = ''/'' then Err root_target else Ok (pd_Selector d, kind)))"

section \<open>Reading and writing a document\<close>

definition ensureTrailingNewline :: "string \<Rightarrow> string" where
  "ensureTrailingNewline data = (if data = [] \<or> last data = CHR 0x0A then data else data @ [CHR 0x0A])"

definition metadataPathUsesYAML :: "metadata_env \<Rightarrow> file_path \<Rightarrow> bool result" where
  "metadataPathUsesYAML env targetPath =
     (let extension = lower_trim (env_lower env) (path_ext (last targetPath)) in
      if extension = ''.yaml'' then Ok True
      else if extension = ''.json'' then Ok False
      else Err (Internal (msg ''unsupported metadata file extension'') None))"

definition decodeMetadata :: "metadata_env \<Rightarrow> string \<Rightarrow> bool \<Rightarrow> metadataPathKind \<Rightarrow> ResourceMetadata result" where
  "decodeMetadata env data yaml kind =
     (case decode_document env yaml data of
        Err e \<Rightarrow> Err (Invalid (msg (if yaml then ''invalid yaml metadata'' else ''invalid json metadata'')) (Some e))
      | Ok decoded \<Rightarrow> (case validateResourceMetadata env kind decoded of Some e \<Rightarrow> Err e | None \<Rightarrow> Ok decoded))"

definition encodeMetadata :: "metadata_env \<Rightarrow> ResourceMetadata \<Rightarrow> bool \<Rightarrow> metadataPathKind \<Rightarrow> string result" where
  "encodeMetadata env m yaml kind =
     (case validateResourceMetadata env kind m of
        Some e \<Rightarrow> Err e
      | None \<Rightarrow>
          (case encode_document env yaml m of
             Err e \<Rightarrow> Err (Internal (msg (if yaml then ''failed to encode yaml metadata'' else ''failed to encode json metadata'')) (Some e))
           | Ok encoded \<Rightarrow> Ok (ensureTrailingNewline encoded)))"

definition readMetadataFile :: "metadata_env \<Rightarrow> file_tree \<Rightarrow> file_path \<Rightarrow> bool \<Rightarrow> metadataPathKind \<Rightarrow> os_error + ResourceMetadata" where
  "readMetadataFile env t targetPath yaml kind =
     (case os_read_file (env_faults env) t targetPath of
        Inl e \<Rightarrow> Inl e
      | Inr data \<Rightarrow> (case decodeMetadata env data yaml kind of Err e \<Rightarrow> Inl (ErrOther e) | Ok item \<Rightarrow> Inr item))"

fun read_candidates :: "metadata_env \<Rightarrow> file_tree \<Rightarrow> metadataPathKind \<Rightarrow> metadataFileCandidate list \<Rightarrow> ResourceMetadata option result" where
  "read_candidates env t kind [] = Ok None"
| "read_candidates env t kind (candidate # candidates) =
     (case readMetadataFile env t (cand_path candidate) (cand_yaml candidate) kind of
        Inl ErrNotExist \<Rightarrow> read_candidates env t kind candidates
      | Inl e \<Rightarrow> Err (os_cause e)
      | Inr item \<Rightarrow> Ok (Some item))"

definition tryReadMetadata :: "metadata_env \<Rightarrow> file_tree \<Rightarrow> string \<Rightarrow> metadataPathKind \<Rightarrow> ResourceMetadata option result" where
  "tryReadMetadata env t selector kind =
     (case metadataFileCandidates env t selector kind of Err e \<Rightarrow> Err e | Ok candidates \<Rightarrow> read_candidates env t kind candidates)"

text \<open>A file is written to a temporary name beside it and renamed; the list has the texts of the five errors.\<close>

definition replace_file ::
  "metadata_env \<Rightarrow> string list \<Rightarrow> file_path \<Rightarrow> string \<Rightarrow> string \<Rightarrow> file_tree \<Rightarrow> go_error option \<times> file_tree" where
  "replace_file env errors targetPath data tempPattern t =
     (let dir = butlast targetPath; faults = env_faults env;
          fail = (\<lambda>i e t. (Some (Internal (msg (errors ! i)) (Some (os_cause e))), t)) in
      case os_mkdir_all faults t dir of
        Inl e \<Rightarrow> fail 0 e t
      | Inr t1 \<Rightarrow>
          (let tempPath = dir @ [tempPattern @ temp_random (store env) t1 dir] in
           case os_create faults t1 tempPath of
             Inl e \<Rightarrow> fail 1 e t1
           | Inr t2 \<Rightarrow>
           (case os_write faults t2 tempPath data of
             Inl e \<Rightarrow> fail 2 e (discard (store env) tempPath t2)
           | Inr t3 \<Rightarrow>
           (case faults OpClose tempPath of
             Some e \<Rightarrow> fail 3 (ErrOther e) (discard (store env) tempPath t3)
           | None \<Rightarrow>
           (case os_rename faults t3 tempPath targetPath of
             Inl e \<Rightarrow> fail 4 e (discard (store env) tempPath t3)
           | Inr t4 \<Rightarrow> (None, t4))))))"

definition metadata_file_errors :: "string list" where
  "metadata_file_errors =
     [''failed to create metadata directory'', ''failed to create temporary metadata file'', ''failed to write temporary metadata file'',
      ''failed to close temporary metadata file'', ''failed to replace metadata file'']"

definition other_extension :: "string \<Rightarrow> string option" where
  "other_extension name =
     (if suffix ''.yaml'' name then Some (trim_suffix name ''.yaml'' @ ''.json'')
      else if suffix ''.json'' name then Some (trim_suffix name ''.json'' @ ''.yaml'')
      else None)"

definition writeMetadataFile ::
  "metadata_env \<Rightarrow> file_path \<Rightarrow> metadataPathKind \<Rightarrow> ResourceMetadata \<Rightarrow> file_tree \<Rightarrow> go_error option \<times> file_tree" where
  "writeMetadataFile env targetPath kind m t =
     (case metadataPathUsesYAML env targetPath of
        Err e \<Rightarrow> (Some e, t)
      | Ok yaml \<Rightarrow>
     (case encodeMetadata env m yaml kind of
        Err e \<Rightarrow> (Some e, t)
      | Ok encoded \<Rightarrow>
          (case replace_file env metadata_file_errors targetPath encoded ''.declarest-meta-'' t of
             (Some e, t1) \<Rightarrow> (Some e, t1)
           | (None, t1) \<Rightarrow>
               (None, case other_extension (last targetPath) of
                        None \<Rightarrow> t1
                      | Some name \<Rightarrow> discard (store env) (butlast targetPath @ [name]) t1))))"

definition Metadata_Get :: "metadata_env \<Rightarrow> file_tree \<Rightarrow> string \<Rightarrow> ResourceMetadata result" where
  "Metadata_Get env t logicalPath =
     (case parseMetadataPath logicalPath of
        Err e \<Rightarrow> Err e
      | Ok (selector, kind) \<Rightarrow>
     (case metadataFilePath env t selector kind of
        Err e \<Rightarrow> Err e
      | Ok targetPath \<Rightarrow>
     (case tryReadMetadata env t selector kind of
        Err e \<Rightarrow> Err e
      | Ok None \<Rightarrow> Err (NotFound (''metadata %q not found'', [logicalPath]) None)
      | Ok (Some m) \<Rightarrow> Ok m)))"

definition Metadata_Set :: "metadata_env \<Rightarrow> string \<Rightarrow> ResourceMetadata \<Rightarrow> file_tree \<Rightarrow> go_error option \<times> file_tree" where
  "Metadata_Set env logicalPath m t =
     (case parseMetadataPath logicalPath of
        Err e \<Rightarrow> (Some e, t)
      | Ok (selector, kind) \<Rightarrow>
     (case validateResourceMetadata env kind m of
        Some e \<Rightarrow> (Some e, t)
      | None \<Rightarrow>
     (case metadataFilePath env t selector kind of
        Err e \<Rightarrow> (Some e, t)
      | Ok targetPath \<Rightarrow> writeMetadataFile env targetPath kind m t)))"

fun remove_candidates :: "metadata_env \<Rightarrow> metadataFileCandidate list \<Rightarrow> bool \<Rightarrow> file_tree \<Rightarrow> bool result \<times> file_tree" where
  "remove_candidates env [] removedAny t = (Ok removedAny, t)"
| "remove_candidates env (candidate # candidates) removedAny t =
     (case os_remove (env_faults env) t (cand_path candidate) of
        Inl ErrNotExist \<Rightarrow> remove_candidates env candidates removedAny t
      | Inl e \<Rightarrow> (Err (Internal (msg ''failed to remove metadata file'') (Some (os_cause e))), t)
      | Inr t1 \<Rightarrow> remove_candidates env candidates True t1)"

definition Metadata_Unset :: "metadata_env \<Rightarrow> string \<Rightarrow> file_tree \<Rightarrow> go_error option \<times> file_tree" where
  "Metadata_Unset env logicalPath t =
     (case parseMetadataPath logicalPath of
        Err e \<Rightarrow> (Some e, t)
      | Ok (selector, kind) \<Rightarrow>
     (case metadataFilePath env t selector kind of
        Err e \<Rightarrow> (Some e, t)
      | Ok targetPath \<Rightarrow>
     (case metadataFileCandidates env t selector kind of
        Err e \<Rightarrow> (Some e, t)
      | Ok candidates \<Rightarrow>
          (case remove_candidates env candidates False t of
             (Err e, t1) \<Rightarrow> (Some e, t1)
           | (Ok False, t1) \<Rightarrow> (None, t1)
           | (Ok True, t1) \<Rightarrow> (None, snd (CleanupEmptyParents (env_faults env) t1 (butlast targetPath) (baseDir (store env))))))))"

section \<open>Defaults beside a document\<close>

definition no_descriptor_error :: "string \<Rightarrow> go_error" where
  "no_descriptor_error file = Invalid (''resource defaults artifact %q is not supported'', [file]) None"

definition check_artifact_name :: "(string \<Rightarrow> string) \<Rightarrow> string \<Rightarrow> go_error option" where
  "check_artifact_name ul trimmedFile =
     (let includeRef = VString (DefaultsIncludePlaceholder trimmedFile) in
      if prefix ''defaults-'' trimmedFile then
        let profile = trim_prefix (trim_suffix trimmedFile (path_ext trimmedFile)) ''defaults-'' in
        first_error [ValidateDefaultsProfileName profile, ValidateDefaultsSpec ul (Some (no_defaults\<lparr>def_Profiles := Some [(profile, includeRef)]\<rparr>))]
      else ValidateDefaultsSpec ul (Some (no_defaults\<lparr>def_Value := includeRef\<rparr>)))"

definition defaultsArtifactPath ::
  "metadata_env \<Rightarrow> file_tree \<Rightarrow> string \<Rightarrow> string \<Rightarrow> (file_path \<times> PayloadDescriptor) result" where
  "defaultsArtifactPath env t logicalPath file =
     (case parseMetadataPath logicalPath of
        Err e \<Rightarrow> Err e
      | Ok (selector, kind) \<Rightarrow>
     (case metadataSelectorDirPath env t selector kind of
        Err e \<Rightarrow> Err e
      | Ok dirPath \<Rightarrow>
          (let trimmedFile = trim_space file in
           if trimmedFile = [] \<or> path_base trimmedFile \<noteq> trimmedFile
           then Err (Invalid (msg ''resource defaults artifact file name is invalid'') None)
           else case check_artifact_name (env_lower env) trimmedFile of
                  Some e \<Rightarrow> Err e
                | None \<Rightarrow>
                    (case PayloadDescriptorForFileName (env_lower env) trimmedFile of
                       None \<Rightarrow> Err (no_descriptor_error trimmedFile)
                     | Some descriptor \<Rightarrow>
                         if \<not> DefaultsSupportsFileBackedDescriptor (env_lower env) descriptor then Err (no_descriptor_error trimmedFile)
                         else
                           let targetPath = clean_segments True (dirPath @ [trimmedFile])
                           in if \<not> under_root env t targetPath
                              then Err (Invalid (msg ''defaults artifact path escapes metadata base directory'') None)
                              else Ok (targetPath, descriptor)))))"

definition ReadDefaultsArtifact :: "metadata_env \<Rightarrow> file_tree \<Rightarrow> string \<Rightarrow> string \<Rightarrow> Content result" where
  "ReadDefaultsArtifact env t logicalPath file =
     (case defaultsArtifactPath env t logicalPath file of
        Err e \<Rightarrow> Err e
      | Ok (targetPath, descriptor) \<Rightarrow>
          (case os_read_file (env_faults env) t targetPath of
             Inl ErrNotExist \<Rightarrow> Err (NotFound (''resource defaults artifact %q not found'', [file]) None)
           | Inl e \<Rightarrow> Err (Internal (msg ''failed to read resource defaults artifact'') (Some (os_cause e)))
           | Inr data \<Rightarrow>
               (case DecodeContent (repo_codecs (store env)) data descriptor of
                  Err e \<Rightarrow> Err e
                | Ok decoded \<Rightarrow> (case ValidateDefaultsSidecarValue (Value decoded) of Err e \<Rightarrow> Err e | Ok u \<Rightarrow> Ok decoded))))"

definition defaults_file_errors :: "string list" where
  "defaults_file_errors =
     [''failed to create defaults artifact directory'', ''failed to create temporary defaults artifact'',
      ''failed to write temporary defaults artifact'', ''failed to close temporary defaults artifact'',
      ''failed to replace defaults artifact'']"

definition other_artifacts :: "file_path \<Rightarrow> file_path list" where
  "other_artifacts targetPath =
     (let name = last targetPath; baseName = trim_suffix name (path_ext name)
      in filter (\<lambda>candidate. candidate \<noteq> targetPath) (map (\<lambda>extension. butlast targetPath @ [baseName @ extension]) defaults_extensions))"

definition WriteDefaultsArtifact :: "metadata_env \<Rightarrow> string \<Rightarrow> string \<Rightarrow> Content \<Rightarrow> file_tree \<Rightarrow> go_error option \<times> file_tree" where
  "WriteDefaultsArtifact env logicalPath file content t =
     (case defaultsArtifactPath env t logicalPath file of
        Err e \<Rightarrow> (Some e, t)
      | Ok (targetPath, descriptor) \<Rightarrow>
     (case Normalize (Value content) of
        Err e \<Rightarrow> (Some e, t)
      | Ok normalizedValue \<Rightarrow>
     (case ValidateDefaultsSidecarValue normalizedValue of
        Err e \<Rightarrow> (Some e, t)
      | Ok u \<Rightarrow>
     (case EncodeContentPretty (repo_codecs (store env)) \<lparr>Value = normalizedValue, Descriptor = descriptor\<rparr> of
        Err e \<Rightarrow> (Some (Internal (msg ''failed to encode resource defaults artifact'') (Some e)), t)
      | Ok encoded \<Rightarrow>
          (case replace_file env defaults_file_errors targetPath encoded ''.declarest-defaults-'' t of
             (Some e, t1) \<Rightarrow> (Some e, t1)
           | (None, t1) \<Rightarrow> (None, fold (discard (store env)) (other_artifacts targetPath) t1))))))"

definition DeleteDefaultsArtifact :: "metadata_env \<Rightarrow> string \<Rightarrow> string \<Rightarrow> file_tree \<Rightarrow> go_error option \<times> file_tree" where
  "DeleteDefaultsArtifact env logicalPath file t =
     (case defaultsArtifactPath env t logicalPath file of
        Err e \<Rightarrow> (Some e, t)
      | Ok (targetPath, descriptor) \<Rightarrow>
          (let cleanup = (\<lambda>t. (None, snd (CleanupEmptyParents (env_faults env) t (butlast targetPath) (baseDir (store env))))) in
           case os_remove (env_faults env) t targetPath of
             Inl ErrNotExist \<Rightarrow> cleanup t
           | Inl e \<Rightarrow> (Some (Internal (msg ''failed to delete resource defaults artifact'') (Some (os_cause e))), t)
           | Inr t1 \<Rightarrow> cleanup t1))"

definition metadataPathForSelector :: "string \<Rightarrow> metadataPathKind \<Rightarrow> string" where
  "metadataPathForSelector selector kind =
     (if kind = metadataPathCollection then (if selector = ''/'' then ''/_'' else selector @ ''/_'') else selector)"

definition resolveDefaultsEntry :: "metadata_env \<Rightarrow> file_tree \<Rightarrow> string \<Rightarrow> metadataPathKind \<Rightarrow> string \<Rightarrow> gval \<Rightarrow> gval result" where
  "resolveDefaultsEntry env t selector kind field v =
     (case v of
        VNil \<Rightarrow> Ok VNil
      | VString includeFile \<Rightarrow>
          (case ParseDefaultsIncludeReference includeFile of
             None \<Rightarrow> Err (Invalid (msg (field @ '' must be an exact {{include ...}} reference'')) None)
           | Some resolvedFile \<Rightarrow>
               (case ReadDefaultsArtifact env t (metadataPathForSelector selector kind) resolvedFile of
                  Err e \<Rightarrow> Err (Invalid (''%s failed to resolve include %q'', [field, includeFile]) (Some e))
                | Ok content \<Rightarrow> Ok (Value content)))
      | _ \<Rightarrow>
          (case Normalize v of
             Err e \<Rightarrow> Err e
           | Ok (VMap m) \<Rightarrow> Ok (VMap m)
           | Ok _ \<Rightarrow> Err (Invalid (msg (field @ '' must resolve to an object'')) None)))"

fun resolve_profiles :: "metadata_env \<Rightarrow> file_tree \<Rightarrow> string \<Rightarrow> metadataPathKind \<Rightarrow> fields \<Rightarrow> fields result" where
  "resolve_profiles env t selector kind [] = Ok []"
| "resolve_profiles env t selector kind ((key, v) # profiles) =
     (case resolveDefaultsEntry env t selector kind (''resource.defaults.profiles.'' @ key) v of
        Err e \<Rightarrow> Err e
      | Ok v' \<Rightarrow>
          (case resolve_profiles env t selector kind profiles of Err e \<Rightarrow> Err e | Ok ps \<Rightarrow> Ok ((key, v') # ps)))"

definition resolveMetadataDefaults ::
  "metadata_env \<Rightarrow> file_tree \<Rightarrow> string \<Rightarrow> metadataPathKind \<Rightarrow> ResourceMetadata \<Rightarrow> ResourceMetadata result" where
  "resolveMetadataDefaults env t selector kind item =
     (case md_Defaults item of
        None \<Rightarrow> Ok item
      | Some d \<Rightarrow>
          (let resolved = CloneResourceMetadata item in
           case resolveDefaultsEntry env t selector kind ''resource.defaults.value'' (def_Value d) of
             Err e \<Rightarrow> Err e
           | Ok v \<Rightarrow>
               (case def_Profiles d of
                  None \<Rightarrow> Ok (resolved\<lparr>md_Defaults := Some (d\<lparr>def_Value := v\<rparr>)\<rparr>)
                | Some profiles \<Rightarrow>
                    (case resolve_profiles env t selector kind profiles of
                       Err e \<Rightarrow> Err e
                     | Ok ps \<Rightarrow> Ok (resolved\<lparr>md_Defaults := Some (d\<lparr>def_Value := v, def_Profiles := Some ps\<rparr>)\<rparr>)))))"

section \<open>Where a document is\<close>

lemma ParsePathDescriptor_selector:
  assumes "ParsePathDescriptor lp = Ok d"
  shows "\<exists>segs. list_all plain_segment segs \<and> pd_Selector d = rooted_path segs"
proof -
  obtain parsed where p: "ParseRawPathWithOptions lp \<lparr>AllowMissingLeadingSlash = False\<rparr> = Ok parsed"
    using assms by (cases "ParseRawPathWithOptions lp \<lparr>AllowMissingLeadingSlash = False\<rparr>") (simp_all add: ParsePathDescriptor_def)
  have "\<exists>segs coll. make_descriptor (path_clean (selector_text parsed segs coll)) coll = Ok d"
    using assms p unfolding ParsePathDescriptor_def Let_def by (simp only: result.case split: if_split_asm) blast+
  then obtain segs0 coll s where d0: "make_descriptor (path_clean s) coll = Ok d" and s0: "s = selector_text parsed segs0 coll" by blast
  have s: "s = ''/'' \<or> (\<exists>x. s = ''/'' @ x) \<or> s = Normalized parsed" by (simp add: s0 selector_text_def)
  have d: "pd_Selector d = (if path_clean s \<noteq> ''/'' then trim_suffix (path_clean s) ''/'' else path_clean s)"
    using d0 by (auto simp: make_descriptor_def Let_def split: if_splits)
  obtain input where "CleanRawPath input = Ok (Normalized parsed)"
    using p by (auto simp: ParseRawPathWithOptions_def Let_def split: result.splits if_splits)
  then obtain segs where "Normalized parsed = rooted_path segs" using CleanRawPath_Ok by blast
  then have pre: "prefix ''/'' s" using s by (auto simp: rooted_path_def)
  let ?segs = "clean_segments True (split_on (CHR ''/'') s)"
  have "path_clean s = rooted_path ?segs" "list_all plain_segment ?segs"
    using path_clean_rooted[OF pre] path_clean_rooted_plain[OF pre] by simp_all
  then show ?thesis using d by (intro exI[of _ ?segs]) (auto simp: rooted_path_root trim_suffix_rooted split: if_splits)
qed

lemma parseMetadataPath_Ok:
  assumes "parseMetadataPath lp = Ok (selector, kind)"
  shows "\<exists>segs. list_all plain_segment segs \<and> selector = rooted_path segs \<and> (kind = metadataPathResource \<longrightarrow> segs \<noteq> [])"
proof -
  obtain d where d: "ParsePathDescriptor lp = Ok d" "selector = pd_Selector d" "kind = metadataPathResource \<longrightarrow> selector \<noteq> ''/''"
    using assms by (auto simp: parseMetadataPath_def Let_def split: result.splits if_splits)
  then show ?thesis using ParsePathDescriptor_selector[OF d(1)] by (auto simp: rooted_path_def)
qed

definition metadata_dir :: "metadata_env \<Rightarrow> string list \<Rightarrow> metadataPathKind \<Rightarrow> file_path" where
  "metadata_dir env segs kind = baseDir (store env) @ segs @ (case kind of metadataPathCollection \<Rightarrow> [''_''] | metadataPathResource \<Rightarrow> [])"

definition plain_store :: "metadata_env \<Rightarrow> bool" where
  "plain_store env = plain_env (store env)"

lemma relative_segments_rooted: "list_all plain_segment segs \<Longrightarrow> relative_segments (rooted_path segs) = segs"
proof (cases "segs = []")
  case False
  assume p: "list_all plain_segment segs"
  have t: "trim_prefix (rooted_path segs) ''/'' = join_with ''/'' segs" by (simp add: rooted_path_def trim_prefix_def)
  have "split_on (CHR ''/'') (join_with ''/'' segs) = segs"
    using p False by (intro split_join) (auto simp: list_all_iff plain_segment_def)
  moreover have "join_with ''/'' segs \<noteq> []"
    using p False join_with_eq_Nil[of segs "''/''"] by (simp add: list_all_iff plain_segment_def)
  ultimately show ?thesis using t by (simp add: relative_segments_def)
qed (simp add: relative_segments_def rooted_path_def trim_prefix_def)

lemma metadata_dir_plain:
  assumes "plain_store env" "list_all plain_segment segs" "plain_segment name"
  shows "list_all plain_segment (metadata_dir env segs kind @ [name])"
proof -
  have "plain_segment ''_''" by code_simp
  then show ?thesis using assms by (cases kind) (simp_all add: metadata_dir_def plain_store_def plain_env_def)
qed

lemma metadata_names [simp]: "plain_segment ''metadata.yaml''" "plain_segment ''metadata.json''"
  by code_simp+

lemma metadataFilePathForExtension_eq:
  assumes "plain_store env" "list_all plain_segment segs" "kind = metadataPathResource \<longrightarrow> segs \<noteq> []" "plain_segment (''metadata'' @ ext)"
  shows "metadataFilePathForExtension env t (rooted_path segs) kind ext =
    (let p = metadata_dir env segs kind @ [''metadata'' @ ext] in if under_root env t p then Ok p else Err escapes_metadata)"
proof -
  have "clean_segments True (metadata_dir env segs kind @ [''metadata'' @ ext]) = metadata_dir env segs kind @ [''metadata'' @ ext]"
    using metadata_dir_plain[OF assms(1,2,4)] by (rule clean_segments_plain)
  then show ?thesis using assms by (cases kind) (simp_all add: metadataFilePathForExtension_def relative_segments_rooted metadata_dir_def Let_def)
qed

abbreviation yaml_file :: "metadata_env \<Rightarrow> string list \<Rightarrow> metadataPathKind \<Rightarrow> file_path" where
  "yaml_file env segs kind \<equiv> metadata_dir env segs kind @ [''metadata.yaml'']"

abbreviation json_file :: "metadata_env \<Rightarrow> string list \<Rightarrow> metadataPathKind \<Rightarrow> file_path" where
  "json_file env segs kind \<equiv> metadata_dir env segs kind @ [''metadata.json'']"

lemma metadataFileCandidates_eq:
  assumes "plain_store env" "list_all plain_segment segs" "kind = metadataPathResource \<longrightarrow> segs \<noteq> []"
  shows "metadataFileCandidates env t (rooted_path segs) kind =
    (if under_root env t (yaml_file env segs kind) \<and> under_root env t (json_file env segs kind)
     then Ok [\<lparr>cand_path = yaml_file env segs kind, cand_yaml = True\<rparr>, \<lparr>cand_path = json_file env segs kind, cand_yaml = False\<rparr>]
     else Err escapes_metadata)"
  using metadataFilePathForExtension_eq[OF assms, of "''.yaml''"] metadataFilePathForExtension_eq[OF assms, of "''.json''"]
  by (simp add: metadataFileCandidates_def metadataFilePreferenceOrder_def Let_def)

lemma metadataFilePath_eq:
  assumes "plain_store env" "list_all plain_segment segs" "kind = metadataPathResource \<longrightarrow> segs \<noteq> []"
  shows "metadataFilePath env t (rooted_path segs) kind =
    (if under_root env t (yaml_file env segs kind) \<and> under_root env t (json_file env segs kind)
     then Ok (yaml_file env segs kind) else Err escapes_metadata)"
  by (simp add: metadataFilePath_def metadataFileCandidates_eq[OF assms])

section \<open>What an operation changes\<close>

lemma replace_file_atomic:
  "snd (replace_file env errors p d pattern t) = snd (writeFileAtomically (store env) p d pattern kind t)
   \<and> (fst (replace_file env errors p d pattern t) = None \<longleftrightarrow> fst (writeFileAtomically (store env) p d pattern kind t) = None)"
  by (auto simp: replace_file_def writeFileAtomically_def Let_def split: sum.split option.split)

lemma replace_file_files:
  assumes w: "replace_file env errors (dir @ [name]) d pattern t = (r, t')" and wf: "wf_tree t" and pat: "\<not> prefix pattern name"
  shows "wf_tree t'"
    and "r = None \<Longrightarrow> files_of t' = (files_of t)(dir @ [name] \<mapsto> d)"
    and "r \<noteq> None \<Longrightarrow> \<exists>temp x. prefix pattern temp \<and> (files_of t' = files_of t \<or> files_of t' = (files_of t)(dir @ [temp] \<mapsto> x))"
proof -
  obtain r' where a: "writeFileAtomically (store env) (dir @ [name]) d pattern [] t = (r', t')" and r: "r = None \<longleftrightarrow> r' = None"
    using replace_file_atomic[of env errors "dir @ [name]" d pattern t "[]"] w
    by (cases "writeFileAtomically (store env) (dir @ [name]) d pattern [] t") auto
  note f = writeFileAtomically_files[OF a wf pat]
  show "wf_tree t'" by (rule f(1))
  show "r = None \<Longrightarrow> files_of t' = (files_of t)(dir @ [name] \<mapsto> d)" using f(2) r by blast
  show "r \<noteq> None \<Longrightarrow> \<exists>temp x. prefix pattern temp \<and> (files_of t' = files_of t \<or> files_of t' = (files_of t)(dir @ [temp] \<mapsto> x))"
    using f(4) r by blast
qed

lemma yaml_names:
  "metadataPathUsesYAML env (dir @ [''metadata.yaml'']) = Ok True" "other_extension ''metadata.yaml'' = Some ''metadata.json''"
proof -
  have p: "path_ext ''metadata.yaml'' = ''.yaml''" "trim_space ''.yaml'' = ''.yaml''" "list_all ascii_byte ''.yaml''" "map lower_byte ''.yaml'' = ''.yaml''"
    by code_simp+
  then show "metadataPathUsesYAML env (dir @ [''metadata.yaml'']) = Ok True"
    by (simp add: metadataPathUsesYAML_def lower_trim_def to_lower_def Let_def)
  show "other_extension ''metadata.yaml'' = Some ''metadata.json''" by code_simp
qed

text \<open>A successful \<open>Set\<close> leaves one document, in YAML.\<close>

lemma Metadata_Set_files:
  assumes "Metadata_Set env lp m t = (None, t')" "parseMetadataPath lp = Ok (rooted_path segs, kind)"
    and wf: "wf_tree t" and pl: "plain_store env" "list_all plain_segment segs" "kind = metadataPathResource \<longrightarrow> segs \<noteq> []"
  shows "wf_tree t' \<and> validateResourceMetadata env kind m = None \<and> under_root env t (yaml_file env segs kind)
    \<and> under_root env t (json_file env segs kind)
    \<and> (\<exists>d. encode_document env True m = Ok d
         \<and> (files_of t' = (files_of t)(yaml_file env segs kind \<mapsto> ensureTrailingNewline d)
            \<or> files_of t' = (files_of t)(yaml_file env segs kind \<mapsto> ensureTrailingNewline d, json_file env segs kind := None)))"
proof -
  have v: "validateResourceMetadata env kind m = None" and u: "under_root env t (yaml_file env segs kind)" "under_root env t (json_file env segs kind)"
    and w: "writeMetadataFile env (yaml_file env segs kind) kind m t = (None, t')"
    using assms(1,2) by (auto simp: Metadata_Set_def metadataFilePath_eq[OF pl] split: option.splits if_splits)
  obtain d t1 where d: "encode_document env True m = Ok d"
    and r: "replace_file env metadata_file_errors (yaml_file env segs kind) (ensureTrailingNewline d) ''.declarest-meta-'' t = (None, t1)"
    and t': "t' = discard (store env) (json_file env segs kind) t1"
    using w v by (auto simp: writeMetadataFile_def yaml_names encodeMetadata_def split: result.splits prod.splits option.splits)
  note f = replace_file_files[OF r wf]
  have t1: "wf_tree t1" "files_of t1 = (files_of t)(yaml_file env segs kind \<mapsto> ensureTrailingNewline d)" using f(1,2) by simp_all
  then show ?thesis using discard_files[OF t1(1), of "store env" "json_file env segs kind"] t' v u d by auto
qed

lemma remove_candidates_files:
  assumes "remove_candidates env cs removed t = (r, t')" "wf_tree t"
  shows "wf_tree t'" "\<exists>P \<subseteq> set (map cand_path cs). files_of t' = files_of t |` (- P)"
proof -
  have "wf_tree t' \<and> (\<exists>P \<subseteq> set (map cand_path cs). files_of t' = files_of t |` (- P))"
    using assms
  proof (induction cs arbitrary: removed t)
    case (Cons c cs)
    show ?case
    proof (cases "os_remove (env_faults env) t (cand_path c)")
      case (Inl e)
      show ?thesis
      proof (cases "e = ErrNotExist")
        case True
        then have "remove_candidates env cs removed t = (r, t')" using Cons.prems(1) Inl by simp
        from Cons.IH[OF this Cons.prems(2)] obtain P where "wf_tree t'" "P \<subseteq> set (map cand_path cs)" "files_of t' = files_of t |` (- P)" by blast
        moreover from this(2) have "P \<subseteq> set (map cand_path (c # cs))" by auto
        ultimately show ?thesis by blast
      next
        case False
        then have "t' = t" using Cons.prems(1) Inl by (cases e) auto
        then show ?thesis using Cons.prems(2) by (auto intro!: exI[of _ "{}"])
      qed
    next
      case (Inr t1)
      note f = os_remove_Inr[OF Inr Cons.prems(2)]
      have ih: "remove_candidates env cs True t1 = (r, t')" using Cons.prems(1) Inr by simp
      from Cons.IH[OF ih f(1)] obtain P where P: "wf_tree t'" "P \<subseteq> set (map cand_path cs)" "files_of t' = files_of t1 |` (- P)" by blast
      have "files_of t' = files_of t |` (- insert (cand_path c) P)"
        unfolding P(3) f(2) by (auto simp: restrict_map_def fun_eq_iff)
      moreover have "insert (cand_path c) P \<subseteq> set (map cand_path (c # cs))" using P(2) by auto
      ultimately show ?thesis using P(1) by blast
    qed
  qed (auto intro!: exI[of _ "{}"])
  then show "wf_tree t'" "\<exists>P \<subseteq> set (map cand_path cs). files_of t' = files_of t |` (- P)" by blast+
qed

lemma os_remove_lookup: "os_remove faults t p = Inr t' \<Longrightarrow> lookup_node t' = (lookup_node t)(p := None)"
  by (auto simp: os_remove_def lookup_node_def split: option.splits node.splits if_splits)

lemma remove_candidates_missing:
  "remove_candidates env cs removed t = (r, t') \<Longrightarrow> lookup_node t q = None \<Longrightarrow> lookup_node t' q = None"
proof (induction cs arbitrary: removed t)
  case (Cons c cs)
  show ?case
  proof (cases "os_remove (env_faults env) t (cand_path c)")
    case (Inl e)
    then show ?thesis using Cons.IH[of removed t] Cons.prems by (cases e) auto
  next
    case (Inr t1)
    then show ?thesis using Cons.IH[of True t1] Cons.prems os_remove_lookup[OF Inr] by simp
  qed
qed simp

lemma CleanupEmptyParents_missing:
  "lookup_node t q = None \<Longrightarrow> lookup_node (snd (CleanupEmptyParents faults t current stop)) q = None"
proof (induction faults t current stop rule: CleanupEmptyParents.induct)
  case (1 faults t current stop)
  show ?case
  proof (cases "os_remove faults t current")
    case (Inl e)
    then show ?thesis using 1 by (subst CleanupEmptyParents.simps) (auto split: os_error.split)
  next
    case (Inr t')
    then show ?thesis using "1.IH"[OF _ _ Inr] "1.prems" os_remove_lookup[OF Inr] by (subst CleanupEmptyParents.simps) auto
  qed
qed

lemma remove_candidates_gone:
  assumes "remove_candidates env cs removed t = (Ok b, t')" "c \<in> set cs"
  shows "lookup_node t' (cand_path c) = None"
  using assms
proof (induction cs arbitrary: removed t)
  case (Cons d cs)
  show ?case
  proof (cases "os_remove (env_faults env) t (cand_path d)")
    case (Inl e)
    then have e: "e = ErrNotExist" "remove_candidates env cs removed t = (Ok b, t')" using Cons.prems(1) by (cases e; auto)+
    then have "lookup_node t (cand_path d) = None"
      using Inl by (auto simp: os_remove_def split: option.splits node.splits if_splits)
    then show ?thesis using Cons.IH[OF e(2)] remove_candidates_missing[OF e(2)] Cons.prems(2) by auto
  next
    case (Inr t1)
    have ih: "remove_candidates env cs True t1 = (Ok b, t')" using Cons.prems(1) Inr by simp
    show ?thesis using Cons.IH[OF ih] remove_candidates_missing[OF ih] os_remove_lookup[OF Inr] Cons.prems(2) by auto
  qed
qed simp

lemma remove_candidates_any:
  assumes "remove_candidates env cs removed t = (Ok True, t')" "wf_tree t"
  shows "removed \<or> (\<exists>c \<in> set cs. lookup_node t (cand_path c) \<noteq> None)"
  using assms
proof (induction cs arbitrary: removed t)
  case (Cons c cs)
  show ?case
  proof (cases "os_remove (env_faults env) t (cand_path c)")
    case (Inl e)
    then have "remove_candidates env cs removed t = (Ok True, t')" using Cons.prems(1) by (cases e) auto
    then show ?thesis using Cons.IH Cons.prems(2) by auto
  next
    case (Inr t1)
    then have "lookup_node t (cand_path c) \<noteq> None" by (auto simp: os_remove_def split: option.splits)
    then show ?thesis by auto
  qed
qed simp

lemma Metadata_Unset_files:
  assumes "Metadata_Unset env lp t = (r, t')" "parseMetadataPath lp = Ok (rooted_path segs, kind)"
    and wf: "wf_tree t" and pl: "plain_store env" "list_all plain_segment segs" "kind = metadataPathResource \<longrightarrow> segs \<noteq> []"
  shows "wf_tree t'" "\<exists>P \<subseteq> {yaml_file env segs kind, json_file env segs kind}. files_of t' = files_of t |` (- P)"
    and "r = None \<Longrightarrow> lookup_node t' (yaml_file env segs kind) = None \<and> lookup_node t' (json_file env segs kind) = None
           \<and> under_root env t (yaml_file env segs kind) \<and> under_root env t (json_file env segs kind)"
proof -
  let ?cs = "[\<lparr>cand_path = yaml_file env segs kind, cand_yaml = True\<rparr>, \<lparr>cand_path = json_file env segs kind, cand_yaml = False\<rparr>]"
  have "wf_tree t' \<and> (\<exists>P \<subseteq> {yaml_file env segs kind, json_file env segs kind}. files_of t' = files_of t |` (- P))
    \<and> (r = None \<longrightarrow> lookup_node t' (yaml_file env segs kind) = None \<and> lookup_node t' (json_file env segs kind) = None
           \<and> under_root env t (yaml_file env segs kind) \<and> under_root env t (json_file env segs kind))"
  proof (cases "under_root env t (yaml_file env segs kind) \<and> under_root env t (json_file env segs kind)")
    case False
    then show ?thesis using assms by (auto simp: Metadata_Unset_def metadataFilePath_eq[OF pl] intro!: exI[of _ "{}"])
  next
    case u: True
    obtain r1 t1 where rm: "remove_candidates env ?cs False t = (r1, t1)" by fastforce
    note f = remove_candidates_files[OF rm wf]
    have gone: "lookup_node t1 (yaml_file env segs kind) = None \<and> lookup_node t1 (json_file env segs kind) = None" if "r1 = Ok b" for b
      using remove_candidates_gone[OF rm[unfolded that], of "?cs ! 0"] remove_candidates_gone[OF rm[unfolded that], of "?cs ! 1"] by simp
    have res: "(r, t') = (case (r1, t1) of (Err e, t1) \<Rightarrow> (Some e, t1) | (Ok False, t1) \<Rightarrow> (None, t1)
        | (Ok True, t1) \<Rightarrow> (None, snd (CleanupEmptyParents (env_faults env) t1 (metadata_dir env segs kind) (baseDir (store env)))))"
      using assms(1,2) u rm
      by (cases r1) (auto simp: Metadata_Unset_def metadataFilePath_eq[OF pl] metadataFileCandidates_eq[OF pl] simp del: remove_candidates.simps split: bool.splits)
    have t': "wf_tree t' \<and> files_of t' = files_of t1 \<and> (\<forall>q. lookup_node t1 q = None \<longrightarrow> lookup_node t' q = None)"
    proof (cases "r1 = Ok True")
      case True
      then have "\<exists>c \<in> set ?cs. lookup_node t (cand_path c) \<noteq> None" using remove_candidates_any rm wf by blast
      then have "lookup_node t (metadata_dir env segs kind) = Some DirNode" using wf_tree_parent[OF wf] by auto
      then have "files_of t1 (metadata_dir env segs kind) = None"
        using f(2) by (auto simp: files_of_None_dir restrict_map_def)
      then show ?thesis using CleanupEmptyParents_files[OF f(1)] CleanupEmptyParents_missing res True by simp
    next
      case False
      then have "t' = t1" using res by (cases r1) (auto split: bool.splits)
      then show ?thesis using f(1) by simp
    qed
    have "r = None \<Longrightarrow> \<exists>b. r1 = Ok b" using res by (cases r1) auto
    then show ?thesis using t' gone f(2) u by auto
  qed
  then show "wf_tree t'" "\<exists>P \<subseteq> {yaml_file env segs kind, json_file env segs kind}. files_of t' = files_of t |` (- P)"
    "r = None \<Longrightarrow> lookup_node t' (yaml_file env segs kind) = None \<and> lookup_node t' (json_file env segs kind) = None
           \<and> under_root env t (yaml_file env segs kind) \<and> under_root env t (json_file env segs kind)" by blast+
qed

section \<open>A stored document is read back\<close>

lemma clear_path_files:
  assumes "clear_path t p" "\<forall>q. files_of t' q \<noteq> files_of t q \<longrightarrow> length q \<ge> length p"
  shows "clear_path t' p"
  using assms unfolding clear_path_def by (metis leD prefix_length_less)

lemma clear_path_snoc: "clear_path t (d @ [a]) \<longleftrightarrow> (\<forall>q. prefix q d \<longrightarrow> files_of t q = None)"
proof -
  have "strict_prefix q (d @ [a]) \<longleftrightarrow> prefix q d" for q
    using prefix_length_le[of q d] by (auto simp: strict_prefix_def prefix_snoc)
  then show ?thesis by (simp add: clear_path_def)
qed

lemma clear_path_sibling: "clear_path t (d @ [a]) \<Longrightarrow> clear_path t (d @ [b])"
  by (simp add: clear_path_snoc)

lemma under_root_iff:
  assumes "wf_tree t" "plain_store env" "env_faults env = no_faults" "list_all plain_segment segs" "plain_segment name"
  shows "under_root env t (metadata_dir env segs kind @ [name]) \<longleftrightarrow> clear_path t (metadata_dir env segs kind @ [name])"
  unfolding under_root_def
  by (rule under_base_iff[OF assms(1) assms(2)[unfolded plain_store_def] assms(3) metadata_dir_plain[OF assms(2,4,5)]]) (simp add: metadata_dir_def)

lemma tryRead_yaml:
  assumes "wf_tree t" "plain_store env" "env_faults env = no_faults" "list_all plain_segment segs" "kind = metadataPathResource \<longrightarrow> segs \<noteq> []"
    and "clear_path t (yaml_file env segs kind)" "files_of t (yaml_file env segs kind) = Some data" "decodeMetadata env data True kind = Ok m"
  shows "metadataFilePath env t (rooted_path segs) kind = Ok (yaml_file env segs kind)"
    "tryReadMetadata env t (rooted_path segs) kind = Ok (Some m)"
proof -
  have u: "under_root env t (yaml_file env segs kind)" "under_root env t (json_file env segs kind)"
    using under_root_iff[OF assms(1-4)] assms(6) clear_path_sibling[OF assms(6)] by simp_all
  then show "metadataFilePath env t (rooted_path segs) kind = Ok (yaml_file env segs kind)"
    by (simp add: metadataFilePath_eq[OF assms(2,4,5)])
  have "lookup_node t (yaml_file env segs kind) = Some (FileNode data)"
    using assms(7) by (auto simp: files_of_def split: option.splits node.splits)
  then have "os_read_file no_faults t (yaml_file env segs kind) = Inr data" by (simp add: os_read_file_def no_faults_def)
  then show "tryReadMetadata env t (rooted_path segs) kind = Ok (Some m)"
    using u assms(3,8) by (simp add: tryReadMetadata_def metadataFileCandidates_eq[OF assms(2,4,5)] readMetadataFile_def)
qed

text \<open>A metadata document that was stored is read back, if its YAML text is decoded to the document again, whatever
  document in YAML or JSON was there before.\<close>

theorem Metadata_Set_Get:
  assumes "Metadata_Set env lp m t = (None, t')" "wf_tree t" "plain_store env" "env_faults env = no_faults"
    and "\<And>data. encode_document env True m = Ok data \<Longrightarrow> decode_document env True (ensureTrailingNewline data) = Ok m"
  shows "Metadata_Get env t' lp = Ok m"
proof -
  obtain selector kind where lp: "parseMetadataPath lp = Ok (selector, kind)"
    using assms(1) by (auto simp: Metadata_Set_def split: result.splits)
  then obtain segs where segs: "list_all plain_segment segs" "selector = rooted_path segs" "kind = metadataPathResource \<longrightarrow> segs \<noteq> []"
    using parseMetadataPath_Ok by blast
  let ?y = "yaml_file env segs kind" and ?j = "json_file env segs kind"
  obtain d where f: "wf_tree t'" "validateResourceMetadata env kind m = None" "under_root env t ?y" "encode_document env True m = Ok d"
    "files_of t' = (files_of t)(?y \<mapsto> ensureTrailingNewline d) \<or> files_of t' = (files_of t)(?y \<mapsto> ensureTrailingNewline d, ?j := None)"
    using Metadata_Set_files[OF assms(1) lp[unfolded segs(2)] assms(2,3) segs(1,3)] by blast
  have y: "files_of t' ?y = Some (ensureTrailingNewline d)" using f(5) by auto
  have "\<forall>q. files_of t' q \<noteq> files_of t q \<longrightarrow> length q \<ge> length ?y" using f(5) by (auto split: if_splits)
  then have c: "clear_path t' ?y"
    using clear_path_files under_root_iff[OF assms(2-4) segs(1), of "''metadata.yaml''" kind] f(3) by simp
  have "decodeMetadata env (ensureTrailingNewline d) True kind = Ok m" using assms(5)[OF f(4)] f(2) by (simp add: decodeMetadata_def)
  from tryRead_yaml[OF f(1) assms(3,4) segs(1,3) c y this] show ?thesis
    using lp segs(2) by (simp add: Metadata_Get_def)
qed

text \<open>After a document was removed successfully there is none to read.\<close>

theorem Metadata_Unset_Get:
  assumes "Metadata_Unset env lp t = (None, t')" "wf_tree t" "plain_store env" "env_faults env = no_faults"
  shows "Metadata_Get env t' lp = Err (NotFound (''metadata %q not found'', [lp]) None)"
proof -
  obtain selector kind where lp: "parseMetadataPath lp = Ok (selector, kind)"
    using assms(1) by (auto simp: Metadata_Unset_def split: result.splits)
  then obtain segs where segs: "list_all plain_segment segs" "selector = rooted_path segs" "kind = metadataPathResource \<longrightarrow> segs \<noteq> []"
    using parseMetadataPath_Ok by blast
  let ?y = "yaml_file env segs kind" and ?j = "json_file env segs kind"
  note u = Metadata_Unset_files[OF assms(1) lp[unfolded segs(2)] assms(2,3) segs(1,3)]
  have none: "lookup_node t' ?y = None" "lookup_node t' ?j = None" and r: "under_root env t ?y" "under_root env t ?j" using u(3) by simp_all
  have fewer: "clear_path t p \<Longrightarrow> clear_path t' p" for p using u(2) by (auto simp: clear_path_def restrict_map_def)
  have c: "clear_path t' ?y" "clear_path t' ?j"
    using r under_root_iff[OF assms(2-4) segs(1)] fewer by simp_all
  then have "under_root env t' ?y" "under_root env t' ?j" using under_root_iff[OF u(1) assms(3,4) segs(1)] by simp_all
  moreover have "os_read_file no_faults t' p = Inl ErrNotExist" if "lookup_node t' p = None" "clear_path t' p" for p
    using that missing_error_clear by (simp add: os_read_file_def no_faults_def)
  ultimately show ?thesis using lp segs none c assms(4)
    by (simp add: Metadata_Get_def metadataFilePath_eq[OF assms(3) segs(1,3)] metadataFileCandidates_eq[OF assms(3) segs(1,3)]
        tryReadMetadata_def readMetadataFile_def)
qed

text \<open>Whatever system calls fail, storing or removing a document changes no file but the documents of its selector and
  temporary files beside them.\<close>

theorem metadata_touches_own_files:
  assumes "Metadata_Set env lp m t = (r, t') \<or> Metadata_Unset env lp t = (r, t')" "parseMetadataPath lp = Ok (rooted_path segs, kind)"
    and "wf_tree t" "plain_store env" "list_all plain_segment segs"
  shows "wf_tree t' \<and> (\<forall>q. files_of t' q \<noteq> files_of t q \<longrightarrow>
     (\<exists>name. q = metadata_dir env segs kind @ [name] \<and> (name \<in> {''metadata.yaml'', ''metadata.json''} \<or> prefix ''.declarest-meta-'' name)))"
proof -
  have ne: "kind = metadataPathResource \<longrightarrow> segs \<noteq> []"
    using assms(2) by (auto simp: parseMetadataPath_def rooted_path_def Let_def split: result.splits if_splits)
  let ?y = "yaml_file env segs kind" and ?j = "json_file env segs kind"
  from assms(1) show ?thesis
  proof
    assume "Metadata_Unset env lp t = (r, t')"
    note u = Metadata_Unset_files[OF this assms(2-5) ne]
    then obtain P where "P \<subseteq> {?y, ?j}" "files_of t' = files_of t |` (- P)" by blast
    then show ?thesis using u(1) by (auto simp: restrict_map_def)
  next
    assume s: "Metadata_Set env lp m t = (r, t')"
    show ?thesis
    proof (cases "r = None")
      case True
      from Metadata_Set_files[OF s[unfolded True] assms(2-5) ne] show ?thesis by (auto split: if_splits)
    next
      case False
      have "t' = t \<or> (\<exists>d e. replace_file env metadata_file_errors ?y d ''.declarest-meta-'' t = (Some e, t'))"
        using s False assms(2) by (auto simp: Metadata_Set_def metadataFilePath_eq[OF assms(4,5) ne] writeMetadataFile_def
            split: option.splits if_splits result.splits prod.splits)
      then show ?thesis
      proof
        assume "\<exists>d e. replace_file env metadata_file_errors ?y d ''.declarest-meta-'' t = (Some e, t')"
        then obtain d e where w: "replace_file env metadata_file_errors ?y d ''.declarest-meta-'' t = (Some e, t')" by blast
        note f = replace_file_files[OF w assms(3)]
        have "wf_tree t'" using f(1) by simp
        moreover obtain temp x where "prefix ''.declarest-meta-'' temp"
          "files_of t' = files_of t \<or> files_of t' = (files_of t)(metadata_dir env segs kind @ [temp] \<mapsto> x)" using f(3) by fastforce
        ultimately show ?thesis by (auto split: if_splits)
      qed (use assms(3) in simp)
    qed
  qed
qed

section \<open>An example\<close>

definition example_metadata :: metadata_env where
  "example_metadata = \<lparr>store = example_env, decode_document = (\<lambda>yaml data. Ok (no_metadata\<lparr>md_ID := takeWhile (\<lambda>c. c \<noteq> CHR 0x0A) data\<rparr>)),
     encode_document = (\<lambda>yaml m. Ok (md_ID m)), check_templates = (\<lambda>scope operation. None)\<rparr>"

definition example_document :: ResourceMetadata where
  "example_document = no_metadata\<lparr>md_ID := ''/id''\<rparr>"

definition example_documents :: file_tree where
  "example_documents = [([''repo''], DirNode), ([''repo'', ''c''], DirNode), ([''repo'', ''c'', ''_''], DirNode),
     ([''repo'', ''c'', ''_'', ''metadata.yaml''], FileNode (''/id'' @ [CHR 0x0A])), ([''repo'', ''c'', ''a''], DirNode),
     ([''repo'', ''c'', ''a'', ''resource.txt''], FileNode ''one''), ([''repo'', ''c'', ''b''], DirNode),
     ([''repo'', ''c'', ''b'', ''resource.txt''], FileNode ''two'')]"

lemma example_metadata_plain: "plain_store example_metadata" "env_faults example_metadata = no_faults"
  using plain_example_env by (simp_all add: plain_store_def example_metadata_def example_env_def)

lemma example_set: "Metadata_Set example_metadata ''/c/_'' example_document example_tree = (None, example_documents)"
  by code_simp

lemma wf_example_documents: "wf_tree example_documents"
  by (rule wf_tree_check) code_simp+

theorem Metadata_Set_Get_witness:
  "Metadata_Get example_metadata example_documents ''/c/_'' = Ok example_document"
proof -
  have "decode_document example_metadata True (ensureTrailingNewline data) = Ok example_document"
    if "encode_document example_metadata True example_document = Ok data" for data
    using that by (auto simp: example_metadata_def example_document_def no_metadata_def ensureTrailingNewline_def)
  from Metadata_Set_Get[OF example_set wf_example_tree example_metadata_plain this] show ?thesis .
qed

theorem Metadata_Unset_Get_witness:
  "Metadata_Get example_metadata (snd (Metadata_Unset example_metadata ''/c/_'' example_documents)) ''/c/_''
   = Err (NotFound (''metadata %q not found'', [''/c/_'']) None)"
proof -
  have "fst (Metadata_Unset example_metadata ''/c/_'' example_documents) = None" by code_simp
  then have u: "Metadata_Unset example_metadata ''/c/_'' example_documents = (None, snd (Metadata_Unset example_metadata ''/c/_'' example_documents))"
    by (metis prod.collapse)
  from Metadata_Unset_Get[OF u wf_example_documents example_metadata_plain] show ?thesis .
qed

theorem metadata_touches_own_files_witness:
  "files_of example_documents [''repo'', ''c'', ''a'', ''resource.txt''] = files_of example_tree [''repo'', ''c'', ''a'', ''resource.txt'']"
proof (rule ccontr)
  assume ne: "files_of example_documents [''repo'', ''c'', ''a'', ''resource.txt''] \<noteq> files_of example_tree [''repo'', ''c'', ''a'', ''resource.txt'']"
  have p: "parseMetadataPath ''/c/_'' = Ok (rooted_path [''c''], metadataPathCollection)" "list_all plain_segment [''c'']" by code_simp+
  have d: "metadata_dir example_metadata [''c''] metadataPathCollection = [''repo'', ''c'', ''_'']" by code_simp
  obtain name where "[''repo'', ''c'', ''a'', ''resource.txt''] = [''repo'', ''c'', ''_''] @ [name]"
    using metadata_touches_own_files[OF disjI1[OF example_set] p(1) wf_example_tree example_metadata_plain(1) p(2), unfolded d] ne by blast
  then show False by simp
qed

end
