(* ===== verification/Operation_Spec.thy ===== *)
theory Operation_Spec
  imports Template_Scope Metadata_Store
begin

text \<open>
  Operation specifications with their templates rendered: src/metadata/operation_spec.go, the
  template helpers of src/metadata/resource_format.go, the rewriting of
  src/metadata/template_syntax.go and src/metadata/render/render.go.

  Parsing and executing a \<open>text/template\<close> is a parameter, with the functions the templates may call
  passed to it, and so is \<open>strconv.Quote\<close>.  The lemmas show that the path of a resolved operation is
  absolute, and free of empty, \<open>.\<close> and \<open>..\<close> segments where it was written as absolute or relative to the
  collection, whatever the templates give; a path written without a leading slash or dot can keep
  a \<open>..\<close> segment.
\<close>

section \<open>Resource formats\<close>

definition ValidateConcreteResourceFormat :: "(string \<Rightarrow> string) \<Rightarrow> string \<Rightarrow> string result" where
  "ValidateConcreteResourceFormat ul v =
     (case ValidateResourceFormat ul v of
        Err e \<Rightarrow> Err e
      | Ok format \<Rightarrow> if format = ''any'' then Err (Invalid (msg ''resource format must be concrete'') None) else Ok format)"

definition ResourceFormatMediaType :: "(string \<Rightarrow> string) \<Rightarrow> string \<Rightarrow> string result" where
  "ResourceFormatMediaType ul v =
     (case ValidateConcreteResourceFormat ul v of
        Err e \<Rightarrow> Err e
      | Ok format \<Rightarrow> if format = [] then Ok [] else PayloadMediaType ul format)"

definition ResourceFormatExtension :: "(string \<Rightarrow> string) \<Rightarrow> string \<Rightarrow> string result" where
  "ResourceFormatExtension ul v =
     (case ValidateConcreteResourceFormat ul v of
        Err e \<Rightarrow> Err e
      | Ok format \<Rightarrow> if format = [] then Ok [] else PayloadExtension ul format)"

definition EffectivePayloadType :: "(string \<Rightarrow> string) \<Rightarrow> ResourceMetadata \<Rightarrow> string \<Rightarrow> string result" where
  "EffectivePayloadType ul md fallback =
     (let format = NormalizeResourceFormat ul (md_Format md) in
      if format \<noteq> [] \<and> format \<noteq> ''any'' then ValidateConcreteResourceFormat ul format else ValidatePayloadType ul fallback)"

definition descriptor_of_type :: "(string \<Rightarrow> string) \<Rightarrow> string \<Rightarrow> PayloadDescriptor" where
  "descriptor_of_type ul payloadType = NormalizePayloadDescriptor ul (descriptor_of payloadType [] [])"

text \<open>Payload values never hold a \<open>resource.Content\<close>, so \<open>explicitDescriptorFromPayloadValue\<close> is the
  empty descriptor and \<open>unwrapPayloadContentValue\<close> the value.\<close>

definition InferPayloadDescriptor :: "(string \<Rightarrow> string) \<Rightarrow> gval \<Rightarrow> PayloadDescriptor" where
  "InferPayloadDescriptor ul v =
     (case v of
        VNil \<Rightarrow> descriptor_of_type ul ''json''
      | VBinary b \<Rightarrow> DefaultOctetStreamDescriptor
      | VBinaryPtr (Some b) \<Rightarrow> DefaultOctetStreamDescriptor
      | VString s \<Rightarrow> descriptor_of_type ul ''text''
      | _ \<Rightarrow>
          (case Normalize v of
             Ok (VString s) \<Rightarrow> descriptor_of_type ul ''text''
           | Ok (VBinary b) \<Rightarrow> DefaultOctetStreamDescriptor
           | _ \<Rightarrow> descriptor_of_type ul ''json''))"

definition ResolveTemplatePayloadDescriptor ::
  "(string \<Rightarrow> string) \<Rightarrow> ResourceMetadata \<Rightarrow> gval \<Rightarrow> PayloadDescriptor \<Rightarrow> PayloadDescriptor" where
  "ResolveTemplatePayloadDescriptor ul md payload descriptor =
     (let format = NormalizeResourceFormat ul (md_Format md);
          active = (if IsPayloadDescriptorExplicit descriptor then descriptor
                    else if format \<noteq> [] \<and> format \<noteq> ''any'' then descriptor_of format [] []
                    else InferPayloadDescriptor ul payload) in
      NormalizePayloadDescriptor ul active)"

definition ApplyPayloadTemplateScope ::
  "(string \<Rightarrow> string) \<Rightarrow> ResourceMetadata \<Rightarrow> gval \<Rightarrow> PayloadDescriptor \<Rightarrow> fields \<Rightarrow> fields" where
  "ApplyPayloadTemplateScope ul md payload descriptor scope =
     (let active = ResolveTemplatePayloadDescriptor ul md payload descriptor;
          scope' = put_strings [(''payloadType'', PayloadType active), (''payloadMediaType'', MediaType active),
                                (''payloadExtension'', Extension active)] scope in
      if map_get scope' ''contentType'' = None \<and> trim_space (MediaType active) \<noteq> []
         \<and> (case map_get scope' ''payload'' of Some (VMap m) \<Rightarrow> False | _ \<Rightarrow> True)
      then map_put ''contentType'' (VString (MediaType active)) scope' else scope')"

section \<open>Template functions\<close>

definition scope_string :: "fields \<Rightarrow> string \<Rightarrow> string" where
  "scope_string scope key = (case map_get scope key of Some (VString s) \<Rightarrow> s | _ \<Rightarrow> [])"

definition templateScalarString :: "(nat \<Rightarrow> float64 \<Rightarrow> string) \<Rightarrow> gval \<Rightarrow> string option" where
  "templateScalarString fmt_float v =
     (case v of
        VString s \<Rightarrow> Some s
      | VNumber s f \<Rightarrow> Some s
      | VInt k n \<Rightarrow> Some (itoa n)
      | VUint k n \<Rightarrow> Some (itoa n)
      | VFloat32 x \<Rightarrow> Some (fmt_float 32 x)
      | VFloat x \<Rightarrow> Some (fmt_float 64 x)
      | VBool b \<Rightarrow> Some (if b then ''true'' else ''false'')
      | _ \<Rightarrow> None)"

definition resolveJSONPointer :: "(nat \<Rightarrow> float64 \<Rightarrow> string) \<Rightarrow> fields \<Rightarrow> string \<Rightarrow> string result" where
  "resolveJSONPointer fmt_float scope pointer =
     (let trimmed = trim_space pointer in
      if trimmed = [] then Err (PlainError (msg ''json_pointer template function expects a JSON pointer argument'') None)
      else case LookupJSONPointer (VMap scope) trimmed of
             Err e \<Rightarrow> Err e
           | Ok found \<Rightarrow>
               (case found of
                  None \<Rightarrow> Err (PlainError (''JSON pointer %q did not resolve to a value'', [trimmed]) None)
                | Some v \<Rightarrow>
                    if v = VNil then Err (PlainError (''JSON pointer %q did not resolve to a value'', [trimmed]) None)
                    else case templateScalarString fmt_float v of
                           None \<Rightarrow> Err (PlainError (''JSON pointer %q resolved to a non-scalar value'', [trimmed]) None)
                         | Some rendered \<Rightarrow> Ok rendered))"

definition resolveScopePayloadType :: "(string \<Rightarrow> string) \<Rightarrow> fields \<Rightarrow> gval \<Rightarrow> string result" where
  "resolveScopePayloadType ul scope arg =
     (if \<not> (case arg of VNil \<Rightarrow> True | VMap m \<Rightarrow> True | _ \<Rightarrow> False)
      then Err (NewTypedError ValidationError (msg ''payload_type template function expects root scope argument (.)'') None)
      else
        let direct = scope_string scope ''payloadType'';
            byMedia = (if trim_space direct \<noteq> [] then direct
                       else case PayloadDescriptorForContentType ul (scope_string scope ''payloadMediaType'') of
                              Some d \<Rightarrow> PayloadType d | None \<Rightarrow> direct);
            byExtension = (if trim_space byMedia \<noteq> [] then byMedia
                           else case PayloadDescriptorForExtension ul (scope_string scope ''payloadExtension'') of
                                  Some d \<Rightarrow> PayloadType d | None \<Rightarrow> byMedia) in
        ValidateConcreteResourceFormat ul byExtension)"

definition scope_text_or :: "fields \<Rightarrow> string \<Rightarrow> string result \<Rightarrow> (string \<Rightarrow> string result) \<Rightarrow> string result" where
  "scope_text_or scope key payloadType derive =
     (let text' = trim_space (scope_string scope key) in
      if text' \<noteq> [] then Ok text' else case payloadType of Err e \<Rightarrow> Err e | Ok t \<Rightarrow> derive t)"

record template_funcs =
  fn_json_pointer :: "string \<Rightarrow> string result"
  fn_payload_type :: "gval \<Rightarrow> string result"
  fn_payload_media_type :: "gval \<Rightarrow> string result"
  fn_payload_extension :: "gval \<Rightarrow> string result"

definition TemplateFuncMap :: "(string \<Rightarrow> string) \<Rightarrow> (nat \<Rightarrow> float64 \<Rightarrow> string) \<Rightarrow> fields \<Rightarrow> template_funcs" where
  "TemplateFuncMap ul fmt_float scope =
     \<lparr>fn_json_pointer = resolveJSONPointer fmt_float scope,
      fn_payload_type = resolveScopePayloadType ul scope,
      fn_payload_media_type = (\<lambda>arg. scope_text_or scope ''payloadMediaType'' (resolveScopePayloadType ul scope arg) (ResourceFormatMediaType ul)),
      fn_payload_extension = (\<lambda>arg. scope_text_or scope ''payloadExtension'' (resolveScopePayloadType ul scope arg) (ResourceFormatExtension ul))\<rparr>"

section \<open>Rendering\<close>

text \<open>\<open>te_parse\<close> is the error of \<open>Parse\<close>, if any; \<open>te_execute\<close> gives the text \<open>Execute\<close> writes.\<close>

record template_engine =
  te_quote :: "string \<Rightarrow> string"
  te_parse :: "string \<Rightarrow> go_error option"
  te_execute :: "template_funcs \<Rightarrow> string \<Rightarrow> fields \<Rightarrow> string result"
  te_lower :: "string \<Rightarrow> string"
  te_float :: "nat \<Rightarrow> float64 \<Rightarrow> string"

function rewrite_actions :: "(string \<Rightarrow> string) \<Rightarrow> string \<Rightarrow> string" where
  "rewrite_actions quote raw =
     (case cut_on ''{{'' raw of
        None \<Rightarrow> raw
      | Some (before, rest) \<Rightarrow>
          (case cut_on ''}}'' rest of
             None \<Rightarrow> raw
           | Some (inner, after) \<Rightarrow>
               before
               @ (case templateExpressionPointer (trim_space inner) of
                    Some pointer \<Rightarrow> ''{{json_pointer '' @ quote pointer @ ''}}''
                  | None \<Rightarrow> ''{{'' @ inner @ ''}}'')
               @ rewrite_actions quote after))"
  by pat_completeness auto
termination
  by (relation "measure (length \<circ> snd)") (auto dest!: cut_on_Some)

declare rewrite_actions.simps [simp del]

definition rewriteMetadataTemplateSyntax :: "(string \<Rightarrow> string) \<Rightarrow> string \<Rightarrow> string" where
  "rewriteMetadataTemplateSyntax quote raw = (if \<not> sublist ''{{'' raw then raw else rewrite_actions quote raw)"

definition renderTemplateString :: "template_engine \<Rightarrow> string \<Rightarrow> string \<Rightarrow> fields \<Rightarrow> string result" where
  "renderTemplateString te field raw scope =
     (if \<not> sublist ''{{'' raw then Ok raw
      else
        let rewritten = rewriteMetadataTemplateSyntax (te_quote te) raw in
        case te_parse te rewritten of
          Some e \<Rightarrow> Err (NewTypedError ValidationError (''invalid metadata template for %s'', [field]) (Some e))
        | None \<Rightarrow>
            (case te_execute te (TemplateFuncMap (te_lower te) (te_float te) scope) rewritten scope of
               Err e \<Rightarrow> Err (NewTypedError ValidationError (''failed to render metadata template for %s'', [field]) (Some e))
             | Ok out \<Rightarrow> Ok out))"

definition RenderTemplateString :: "template_engine \<Rightarrow> string \<Rightarrow> string \<Rightarrow> fields \<Rightarrow> string result" where
  "RenderTemplateString te field raw scope = renderTemplateString te field raw scope"

text \<open>The entries of a query or header map in the order of the keys.\<close>

fun render_entries :: "template_engine \<Rightarrow> string \<Rightarrow> fields \<Rightarrow> string_map \<Rightarrow> string list \<Rightarrow> string_map result" where
  "render_entries te label scope m [] = Ok m"
| "render_entries te label scope m (key # keys) =
     (case renderTemplateString te (label @ key) (or_else (map_get m key) []) scope of
        Err e \<Rightarrow> Err e
      | Ok v \<Rightarrow> render_entries te label scope (map_put key v m) keys)"

definition render_map :: "template_engine \<Rightarrow> string \<Rightarrow> fields \<Rightarrow> string_map option \<Rightarrow> string_map option result" where
  "render_map te label scope m =
     (case m of
        None \<Rightarrow> Ok None
      | Some entries \<Rightarrow>
          (case render_entries te label scope entries (sort (map_keys entries)) of Err e \<Rightarrow> Err e | Ok rendered \<Rightarrow> Ok (Some rendered)))"

fun render_steps :: "template_engine \<Rightarrow> fields \<Rightarrow> nat \<Rightarrow> TransformStep list \<Rightarrow> TransformStep list result" where
  "render_steps te scope idx [] = Ok []"
| "render_steps te scope idx (step # steps) =
     (case (if trim_space (JQExpression step) = [] then Ok (JQExpression step)
            else renderTemplateString te (''transforms['' @ itoa (int idx) @ ''].jqExpression'') (JQExpression step) scope) of
        Err e \<Rightarrow> Err e
      | Ok expression \<Rightarrow>
          (case render_steps te scope (Suc idx) steps of
             Err e \<Rightarrow> Err e
           | Ok rest \<Rightarrow> Ok (step\<lparr>JQExpression := expression\<rparr> # rest)))"

definition renderOperationSpecTemplates :: "template_engine \<Rightarrow> OperationSpec \<Rightarrow> fields \<Rightarrow> OperationSpec result" where
  "renderOperationSpecTemplates te spec scope =
     (case renderTemplateString te ''method'' (op_Method spec) scope of
        Err e \<Rightarrow> Err e
      | Ok method \<Rightarrow>
     (case renderTemplateString te ''path'' (op_Path spec) scope of
        Err e \<Rightarrow> Err e
      | Ok opPath \<Rightarrow>
     (case renderTemplateString te ''accept'' (op_Accept spec) scope of
        Err e \<Rightarrow> Err e
      | Ok accept \<Rightarrow>
     (case renderTemplateString te ''contentType'' (op_ContentType spec) scope of
        Err e \<Rightarrow> Err e
      | Ok contentType \<Rightarrow>
     (case render_map te ''query.'' scope (op_Query spec) of
        Err e \<Rightarrow> Err e
      | Ok query \<Rightarrow>
     (case render_map te ''headers.'' scope (op_Headers spec) of
        Err e \<Rightarrow> Err e
      | Ok headers \<Rightarrow>
     (case render_steps te scope 0 (or_else (op_Transforms spec) []) of
        Err e \<Rightarrow> Err e
      | Ok steps \<Rightarrow>
          Ok \<lparr>op_Method = method, op_Path = opPath, op_Query = query, op_Headers = headers, op_Accept = accept,
              op_ContentType = contentType, op_Body = DeepCopyValue (op_Body spec),
              op_Transforms = map_option (\<lambda>_. steps) (op_Transforms spec),
              op_Validate = cloneOperationValidationSpec (op_Validate spec)\<rparr>)))))))"

section \<open>Paths\<close>

definition normalizeRenderedOperationPath :: "string \<Rightarrow> string" where
  "normalizeRenderedOperationPath rawPath =
     (let trimmed = trim_space rawPath in
      if trimmed = [] then []
      else let normalized = path_clean trimmed in if prefix ''/'' normalized then normalized else ''/'' @ normalized)"

definition NormalizeRenderedOperationPath :: "string \<Rightarrow> string" where
  "NormalizeRenderedOperationPath rawPath = normalizeRenderedOperationPath rawPath"

definition resolveEffectiveRemoteCollectionPath :: "template_engine \<Rightarrow> string \<Rightarrow> fields \<Rightarrow> string result" where
  "resolveEffectiveRemoteCollectionPath te rawCollectionPath scope =
     (let candidate = (if trim_space rawCollectionPath = [] then trim_space (scope_string scope ''remoteCollectionPath'')
                       else trim_space rawCollectionPath) in
      if candidate = [] then Ok []
      else case renderTemplateString te ''remoteCollectionPath'' candidate scope of
             Err e \<Rightarrow> Err e
           | Ok rendered \<Rightarrow> Ok (normalizeRenderedOperationPath rendered))"

definition resolveRenderedOperationPath :: "string \<Rightarrow> string \<Rightarrow> string result" where
  "resolveRenderedOperationPath rawPath collectionPath =
     (let trimmedPath = trim_space rawPath in
      if trimmedPath = [] then Ok []
      else if prefix ''/'' trimmedPath then Ok (normalizeRenderedOperationPath trimmedPath)
      else if \<not> prefix ''.'' trimmedPath then Ok (normalizeRenderedOperationPath trimmedPath)
      else let normalizedCollectionPath = trim_space collectionPath in
        if normalizedCollectionPath = []
        then Err (NewTypedError ValidationError (msg ''relative metadata path requires remote collection path context'') None)
        else let joined = path_join normalizedCollectionPath trimmedPath in
          Ok (normalizeRenderedOperationPath (if prefix ''/'' joined then joined else ''/'' @ joined)))"

definition operation_names :: "string list" where
  "operation_names = [''get'', ''create'', ''update'', ''delete'', ''list'', ''compare'']"

definition defaultOperationPathTemplate :: "string \<Rightarrow> string" where
  "defaultOperationPathTemplate operation = (if operation = ''create'' \<or> operation = ''list'' then ''.'' else ''./{{/id}}'')"

definition spec_of_operation :: "ResourceMetadata \<Rightarrow> string \<Rightarrow> OperationSpec" where
  "spec_of_operation md operation =
     (let spec = (case map_get (or_else (md_Operations md) []) operation of
                    None \<Rightarrow> no_operation
                  | Some operationSpec \<Rightarrow> MergeOperationSpec no_operation operationSpec);
          spec' = spec\<lparr>op_Transforms := combineTransformSteps (md_Transforms md) (op_Transforms spec)\<rparr> in
      if trim_space (op_Path spec') = [] then spec'\<lparr>op_Path := defaultOperationPathTemplate operation\<rparr> else spec')"

definition ResolveOperationSpecWithScope ::
  "template_engine \<Rightarrow> ResourceMetadata \<Rightarrow> string \<Rightarrow> fields \<Rightarrow> OperationSpec result" where
  "ResolveOperationSpecWithScope te md operation scope =
     (if operation \<notin> set operation_names
      then Err (NewTypedError ValidationError (''unsupported metadata operation %q'', [operation]) None)
      else case resolveEffectiveRemoteCollectionPath te (md_RemoteCollectionPath md) scope of
             Err e \<Rightarrow> Err e
           | Ok collectionPath \<Rightarrow>
               (case renderOperationSpecTemplates te (spec_of_operation md operation)
                       (map_put ''remoteCollectionPath'' (VString collectionPath) scope) of
                  Err e \<Rightarrow> Err e
                | Ok rendered \<Rightarrow>
                    (case resolveRenderedOperationPath (op_Path rendered) collectionPath of
                       Err e \<Rightarrow> Err e
                     | Ok resolvedPath \<Rightarrow>
                         if trim_space resolvedPath = []
                         then Err (NewTypedError ValidationError (''metadata operation %q path is required'', [operation]) None)
                         else Ok (rendered\<lparr>op_Path := resolvedPath\<rparr>))))"

definition buildTemplateScopeFromValue :: "gval \<Rightarrow> fields" where
  "buildTemplateScopeFromValue v =
     map_put ''value'' v
       (case v of
          VMap payload \<Rightarrow> map_put ''payload'' (VMap payload) (fold (\<lambda>(key, item). map_put key item) payload [])
        | _ \<Rightarrow> [(''payload'', v)])"

definition ResolveOperationSpec :: "template_engine \<Rightarrow> ResourceMetadata \<Rightarrow> string \<Rightarrow> gval \<Rightarrow> OperationSpec result" where
  "ResolveOperationSpec te md operation v = ResolveOperationSpecWithScope te md operation (buildTemplateScopeFromValue v)"

section \<open>Metadata with its templates rendered\<close>

definition defaultCollectionPath :: "string \<Rightarrow> string" where
  "defaultCollectionPath logicalPath =
     (let trimmed = trim_space logicalPath in
      if trimmed = [] \<or> trimmed = ''/'' then ''/''
      else let parent = path_dir trimmed in if parent = ''.'' \<or> parent = [] then ''/'' else parent)"

definition resolveCollectionPath :: "template_engine \<Rightarrow> string \<Rightarrow> fields \<Rightarrow> string result" where
  "resolveCollectionPath te rawCollectionPath scope =
     (let candidate = (if trim_space rawCollectionPath = [] then scope_string scope ''remoteCollectionPath'' else trim_space rawCollectionPath) in
      if candidate = [] then Ok []
      else case RenderTemplateString te ''remoteCollectionPath'' candidate scope of
             Err e \<Rightarrow> Err e
           | Ok rendered \<Rightarrow> Ok (NormalizeRenderedOperationPath rendered))"

fun render_operations ::
  "template_engine \<Rightarrow> ResourceMetadata \<Rightarrow> fields \<Rightarrow> string list \<Rightarrow> (string, OperationSpec) gomap result" where
  "render_operations te md scope [] = Ok []"
| "render_operations te md scope (key # keys) =
     (case ResolveOperationSpecWithScope te md key scope of
        Err e \<Rightarrow> Err e
      | Ok spec \<Rightarrow>
          (case render_operations te md scope keys of Err e \<Rightarrow> Err e | Ok rest \<Rightarrow> Ok (map_put key spec rest)))"

definition RenderResourceMetadataWithDescriptor ::
  "identity_env \<Rightarrow> template_engine \<Rightarrow> string \<Rightarrow> ResourceMetadata \<Rightarrow> gval \<Rightarrow> PayloadDescriptor \<Rightarrow> ResourceMetadata result" where
  "RenderResourceMetadataWithDescriptor env te logicalPath md payload descriptor =
     (case NormalizeLogicalPath logicalPath of
        Err e \<Rightarrow> Err e
      | Ok normalizedPath \<Rightarrow>
     (case Normalize payload of
        Err e \<Rightarrow> Err e
      | Ok normalizedPayload \<Rightarrow>
     (case ResolveAliasAndRemoteID env normalizedPath md normalizedPayload of
        Err e \<Rightarrow> Err e
      | Ok (alias, remoteID) \<Rightarrow>
     (case BuildResourceScope (te_lower te)
             \<lparr>LogicalPath = normalizedPath, CollectionPath = defaultCollectionPath normalizedPath, LocalAlias = alias,
              RemoteID = remoteID, ResolvedRemotePath = [], Payload = normalizedPayload, PayloadDesc = descriptor\<rparr> md of
        Err e \<Rightarrow> Err e
      | Ok scope0 \<Rightarrow>
          (let scope = ApplyPayloadTemplateScope (te_lower te) md normalizedPayload descriptor scope0 in
           case resolveCollectionPath te (md_RemoteCollectionPath md) scope of
             Err e \<Rightarrow> Err e
           | Ok resolvedCollectionPath \<Rightarrow>
               (case render_operations te md (map_put ''remoteCollectionPath'' (VString resolvedCollectionPath) scope)
                       (sort (map_keys (or_else (md_Operations md) []))) of
                  Err e \<Rightarrow> Err e
                | Ok operations \<Rightarrow> Ok (md\<lparr>md_RemoteCollectionPath := resolvedCollectionPath, md_Operations := Some operations\<rparr>)))))))"

section \<open>Where a resolved operation points\<close>

definition clean_path :: "string \<Rightarrow> bool" where
  "clean_path p = (prefix ''/'' p \<and> path_clean p = p)"

lemma trim_space_slash: "prefix ''/'' s \<Longrightarrow> prefix ''/'' (trim_space s)"
proof -
  assume "prefix ''/'' s"
  then obtain t where t: "s = rooted_path [t]" by (auto simp: prefix_def rooted_path_def)
  then have "trim_space s = trim_right_space s" by (simp add: trim_space_def trim_left_space_id rooted_path_def leading_space_visible)
  then have "prefix (trim_space s) s" "trim_space s \<noteq> []" using prefix_trim_right[of s] trim_space_rooted_path[of "[t]"] t by auto
  then show ?thesis unfolding t by (cases "trim_space (rooted_path [t])") (auto simp: rooted_path_def)
qed

lemma path_clean_clean: "prefix ''/'' s \<Longrightarrow> clean_path (path_clean s)"
  using path_clean_rooted[of s] path_clean_rooted_path[OF path_clean_rooted_plain[of s]] by (simp add: clean_path_def)

lemma normalize_rooted_clean: "prefix ''/'' s \<Longrightarrow> clean_path (normalizeRenderedOperationPath s)"
  using trim_space_slash[of s] path_clean_clean[of "trim_space s"] unfolding normalizeRenderedOperationPath_def Let_def
  by (auto simp: clean_path_def)

lemma normalize_absolute: "normalizeRenderedOperationPath s = [] \<or> prefix ''/'' (normalizeRenderedOperationPath s)"
  by (simp add: normalizeRenderedOperationPath_def Let_def)

lemma resolveRendered_absolute:
  assumes "resolveRenderedOperationPath rawPath collectionPath = Ok p" "p \<noteq> []"
  shows "prefix ''/'' p"
    and "prefix ''/'' (trim_space rawPath) \<or> prefix ''.'' (trim_space rawPath) \<Longrightarrow> clean_path p"
proof -
  show "prefix ''/'' p"
    using assms normalize_absolute unfolding resolveRenderedOperationPath_def Let_def
    by (metis append_Cons append_Nil result.distinct(1) result.inject(2))
  show "clean_path p" if "prefix ''/'' (trim_space rawPath) \<or> prefix ''.'' (trim_space rawPath)"
    using assms that unfolding resolveRenderedOperationPath_def Let_def
    by (auto split: if_splits intro: normalize_rooted_clean)
qed

text \<open>C35: the path of a resolved operation is absolute; and where the path was written, or rendered to be,
  absolute or relative to the collection, it is clean: it has no empty, \<open>.\<close> or \<open>..\<close> segment that a server
  would resolve differently, whatever the templates gave.\<close>

theorem operation_path_clean:
  assumes "ResolveOperationSpecWithScope te md operation scope = Ok spec"
  shows "prefix ''/'' (op_Path spec) \<and> (\<exists>collectionPath rendered.
      resolveEffectiveRemoteCollectionPath te (md_RemoteCollectionPath md) scope = Ok collectionPath
    \<and> renderTemplateString te ''path'' (op_Path (spec_of_operation md operation))
        (map_put ''remoteCollectionPath'' (VString collectionPath) scope) = Ok rendered
    \<and> (prefix ''/'' (trim_space rendered) \<or> prefix ''.'' (trim_space rendered) \<longrightarrow> clean_path (op_Path spec)))"
proof -
  from assms obtain collectionPath rendered p where
    c: "resolveEffectiveRemoteCollectionPath te (md_RemoteCollectionPath md) scope = Ok collectionPath"
    and r: "renderOperationSpecTemplates te (spec_of_operation md operation) (map_put ''remoteCollectionPath'' (VString collectionPath) scope) = Ok rendered"
    and p: "resolveRenderedOperationPath (op_Path rendered) collectionPath = Ok p" "trim_space p \<noteq> []" "spec = rendered\<lparr>op_Path := p\<rparr>"
    by (auto simp: ResolveOperationSpecWithScope_def split: if_splits result.splits)
  have "p \<noteq> []" using p(2) by auto
  moreover have "renderTemplateString te ''path'' (op_Path (spec_of_operation md operation)) (map_put ''remoteCollectionPath'' (VString collectionPath) scope)
      = Ok (op_Path rendered)"
    using r by (auto simp: renderOperationSpecTemplates_def split: result.splits)
  ultimately show ?thesis using c resolveRendered_absolute[OF p(1)] p(3) by auto
qed

definition plain_engine :: template_engine where
  "plain_engine = \<lparr>te_quote = (\<lambda>s. s), te_parse = (\<lambda>s. None), te_execute = (\<lambda>funcs text' scope. Ok ''../7''), te_lower = (\<lambda>s. s), te_float = (\<lambda>bits x. [])\<rparr>"

theorem operation_path_clean_witness:
  "map_result op_Path (ResolveOperationSpecWithScope plain_engine (no_metadata\<lparr>md_RemoteCollectionPath := ''/c//d/''\<rparr>) ''get'' []) = Ok ''/c/7''
    \<and> clean_path ''/c/7''"
proof -
  let ?md = "no_metadata\<lparr>md_RemoteCollectionPath := ''/c//d/''\<rparr>"
  have m: "map_result op_Path (ResolveOperationSpecWithScope plain_engine ?md ''get'' []) = Ok ''/c/7''" by code_simp
  then obtain spec where s: "ResolveOperationSpecWithScope plain_engine ?md ''get'' [] = Ok spec" "op_Path spec = ''/c/7''"
    by (cases "ResolveOperationSpecWithScope plain_engine ?md ''get'' []") auto
  have "renderTemplateString plain_engine ''path'' (op_Path (spec_of_operation ?md ''get'')) scope = Ok ''../7''" for scope
  proof -
    have "op_Path (spec_of_operation ?md ''get'') = ''./{{/id}}''" "sublist ''{{'' ''./{{/id}}''" by code_simp+
    then show ?thesis by (simp add: renderTemplateString_def plain_engine_def)
  qed
  moreover have "prefix ''.'' (trim_space ''../7'')" by code_simp
  ultimately have "clean_path (op_Path spec)" using operation_path_clean[OF s(1)] by auto
  then show ?thesis using m s(2) by simp
qed

text \<open>Without a leading slash or dot the path is cleaned before the slash is put in front of it, and a \<open>..\<close>
  that nothing precedes stays.\<close>

lemma bare_path_keeps_parent: "resolveRenderedOperationPath ''items/../../admin'' ''/c'' = Ok ''/../admin''"
  by code_simp

end
