(* ===== verification/Secret_Placeholders.thy ===== *)
theory Secret_Placeholders
  imports Resource_Diff Payload_Types
begin

text \<open>
  Secret keys and placeholders (src/secrets/normalize.go, src/secrets/secret_placeholders.go).

  A placeholder is a string of the form \<open>{{secret .}}\<close>, which names the secret of the attribute it
  stands at, or \<open>{{secret "key"}}\<close>.  Attributes are named by JSON pointers of trimmed object keys and
  array indexes.  The record \<open>text_lib\<close> holds what the code takes from the standard library's
  Unicode tables and from \<open>strconv.Quote\<close> and \<open>strconv.Unquote\<close>; ASCII letters and digits are
  decided by the model itself.

  Traversals stop at 256 levels with a validation error.
\<close>

record text_lib =
  table_letter :: "string \<Rightarrow> bool"
  table_digit :: "string \<Rightarrow> bool"
  table_upper :: "string \<Rightarrow> bool"
  table_lower :: "string \<Rightarrow> bool"
  table_to_lower :: "string \<Rightarrow> string"
  quote :: "string \<Rightarrow> string"
  unquote :: "string \<Rightarrow> string result"

section \<open>Keys\<close>

definition NormalizeKey :: "string \<Rightarrow> string result" where
  "NormalizeKey key =
     (let trimmed = trim_char (trim_space key) (CHR ''/'') in
      if trimmed = [] then Err (Invalid (msg ''secret key must not be empty'') None)
      else let parts = split_on (CHR ''/'') trimmed in
        if list_ex (\<lambda>part. part = [] \<or> part = ''.'' \<or> part = ''..'') parts
        then Err (Invalid (msg ''secret key contains invalid path segment'') None)
        else Ok (join_with ''/'' parts))"

definition joinAttributePath :: "string \<Rightarrow> string \<Rightarrow> string" where
  "joinAttributePath pre key =
     (let trimmedKey = trim_space key in
      if trimmedKey = [] then []
      else let escapedKey = EscapeJSONPointerToken trimmedKey in
        if trim_space pre = [] then ''/'' @ escapedKey else pre @ ''/'' @ escapedKey)"

section \<open>Placeholders\<close>

definition maxPayloadDepth :: nat where "maxPayloadDepth = 256"

definition depth_error :: go_error where
  "depth_error = Invalid (msg ''secret payload exceeds maximum nesting depth'') None"

datatype placeholder = NoPlaceholder | CurrentScope | ExplicitKey string

text \<open>\<open>unicode.IsSpace(rune(b))\<close> of one byte reads it as a Latin-1 code point.\<close>

definition latin1_space :: "char \<Rightarrow> bool" where
  "latin1_space c = (byte c \<in> {0x09, 0x0A, 0x0B, 0x0C, 0x0D, 0x20, 0x85, 0xA0})"

definition parseSecretPlaceholder :: "text_lib \<Rightarrow> string \<Rightarrow> placeholder result" where
  "parseSecretPlaceholder L v =
     (let trimmed = trim_space v in
      if \<not> prefix ''{{'' trimmed \<or> \<not> suffix ''}}'' trimmed then Ok NoPlaceholder
      else let inner = trim_space (trim_suffix (trim_prefix trimmed ''{{'') ''}}'') in
        if \<not> prefix ''secret'' inner then Ok NoPlaceholder
        else if length inner > 6 \<and> \<not> latin1_space (inner ! 6) then Ok NoPlaceholder
        else let argument = trim_space (trim_prefix inner ''secret'') in
          if argument = [] then Err (Invalid (msg ''secret placeholder argument is required'') None)
          else if argument = ''.'' then Ok CurrentScope
          else if hd argument = CHR 0x22
          then (case unquote L argument of
                  Err e \<Rightarrow> Err (Invalid (msg ''secret placeholder key is invalid'') (Some e))
                | Ok parsed \<Rightarrow>
                    (let parsed = trim_space parsed in
                     if parsed = [] then Err (Invalid (msg ''secret placeholder key must not be empty'') None)
                     else Ok (ExplicitKey parsed)))
          else if list_ex (\<lambda>c. c \<in> {CHR '' '', CHR 0x09, CHR 0x0D, CHR 0x0A}) argument
          then Err (Invalid (msg ''secret placeholder key with spaces must be quoted'') None)
          else Ok (ExplicitKey argument))"

definition resolvePlaceholderAttribute :: "placeholder \<Rightarrow> string \<Rightarrow> string result" where
  "resolvePlaceholderAttribute p currentPath =
     (case p of
        CurrentScope \<Rightarrow>
          (let resolved = trim_space currentPath in
           if resolved = []
           then Err (Invalid (msg ''secret placeholder {{secret .}} requires map field scope'') None)
           else Ok resolved)
      | _ \<Rightarrow>
          (let resolved = trim_space (case p of ExplicitKey key \<Rightarrow> key | _ \<Rightarrow> []) in
           if resolved = [] then Err (Invalid (msg ''secret placeholder key must not be empty'') None)
           else if prefix ''/'' resolved
           then Err (Invalid (msg ''secret placeholder key must be relative to the resource path'') None)
           else Ok resolved))"

definition resolvePlaceholderStoreKey :: "placeholder \<Rightarrow> string \<Rightarrow> string \<Rightarrow> string result" where
  "resolvePlaceholderStoreKey p currentPath resourcePath =
     (case resolvePlaceholderAttribute p currentPath of
        Err e \<Rightarrow> Err e
      | Ok resolvedAttribute \<Rightarrow>
          if trim_space resourcePath = [] then Ok resolvedAttribute
          else Ok (trim_space resourcePath @ '':'' @ resolvedAttribute))"

definition currentScopeSecretPlaceholder :: string where
  "currentScopeSecretPlaceholder = ''{{secret .}}''"

definition explicitSecretPlaceholder :: "text_lib \<Rightarrow> string \<Rightarrow> string" where
  "explicitSecretPlaceholder L key = ''{{secret '' @ quote L key @ ''}}''"

fun normalizePlaceholdersValue :: "text_lib \<Rightarrow> gval \<Rightarrow> string \<Rightarrow> nat \<Rightarrow> gval result"
  and placeholders_entries :: "text_lib \<Rightarrow> (string \<times> gval) list \<Rightarrow> string \<Rightarrow> nat \<Rightarrow> (string \<times> gval) list result"
  and placeholders_items :: "text_lib \<Rightarrow> gval list \<Rightarrow> nat \<Rightarrow> string \<Rightarrow> nat \<Rightarrow> gval list result" where
  "normalizePlaceholdersValue L v currentPath depth =
     (if depth > maxPayloadDepth then Err depth_error
      else case v of
        VMap m \<Rightarrow>
          (case placeholders_entries L m currentPath (depth + 1) of Err e \<Rightarrow> Err e | Ok r \<Rightarrow> Ok (VMap r))
      | VSlice xs \<Rightarrow>
          (case placeholders_items L xs 0 currentPath (depth + 1) of Err e \<Rightarrow> Err e | Ok r \<Rightarrow> Ok (VSlice r))
      | VString s \<Rightarrow>
          (case parseSecretPlaceholder L s of
             Err e \<Rightarrow> Err e
           | Ok NoPlaceholder \<Rightarrow> Ok (VString s)
           | Ok p \<Rightarrow>
               (case resolvePlaceholderAttribute p currentPath of
                  Err e \<Rightarrow> Err e
                | Ok resolvedKey \<Rightarrow>
                    Ok (VString (if resolvedKey = currentPath then currentScopeSecretPlaceholder
                                 else explicitSecretPlaceholder L resolvedKey))))
      | _ \<Rightarrow> Ok v)"
| "placeholders_entries L [] currentPath depth = Ok []"
| "placeholders_entries L (p # m) currentPath depth =
     (case normalizePlaceholdersValue L (snd p) (joinAttributePath currentPath (fst p)) depth of
        Err e \<Rightarrow> Err e
      | Ok child \<Rightarrow>
          (case placeholders_entries L m currentPath depth of Err e \<Rightarrow> Err e | Ok r \<Rightarrow> Ok ((fst p, child) # r)))"
| "placeholders_items L [] idx currentPath depth = Ok []"
| "placeholders_items L (x # xs) idx currentPath depth =
     (case normalizePlaceholdersValue L x (joinAttributePath currentPath (itoa (int idx))) depth of
        Err e \<Rightarrow> Err e
      | Ok child \<Rightarrow>
          (case placeholders_items L xs (idx + 1) currentPath depth of Err e \<Rightarrow> Err e | Ok r \<Rightarrow> Ok (child # r)))"

declare normalizePlaceholdersValue.simps [simp del]

definition NormalizePlaceholders :: "text_lib \<Rightarrow> gval \<Rightarrow> gval result" where
  "NormalizePlaceholders L v =
     (case Normalize v of Err e \<Rightarrow> Err e | Ok normalized \<Rightarrow> normalizePlaceholdersValue L normalized [] 0)"

end
