(* ===== verification/Secret_Masking.thy ===== *)
theory Secret_Masking
  imports Secret_Placeholders Resource_Paths
begin

text \<open>
  Finding, masking and resolving secrets (src/secrets/secret_detection.go, secret_masking.go,
  secret_resolution.go and whole_resource_secret.go).

  The functions that store and read a secret may change a store, so masking and resolving pass the
  store's state through.  Go's nil functions, which the code
  refuses, have no counterpart.  The base64 codec is a pair of parameters.

  The lemmas show that masking leaves no detectable secret in a payload and that resolving a masked
  payload from the store it was masked into gives the payload back.
\<close>

section \<open>Likely secrets\<close>

definition rune_test :: "(char \<Rightarrow> bool) \<Rightarrow> (string \<Rightarrow> bool) \<Rightarrow> string \<Rightarrow> bool" where
  "rune_test ascii table r = (case r of [c] \<Rightarrow> if ascii_byte c then ascii c else table r | _ \<Rightarrow> table r)"

definition is_upper :: "text_lib \<Rightarrow> string \<Rightarrow> bool" where
  "is_upper L = rune_test (\<lambda>c. 65 \<le> byte c \<and> byte c \<le> 90) (table_upper L)"

definition is_lower :: "text_lib \<Rightarrow> string \<Rightarrow> bool" where
  "is_lower L = rune_test (\<lambda>c. 97 \<le> byte c \<and> byte c \<le> 122) (table_lower L)"

definition is_letter :: "text_lib \<Rightarrow> string \<Rightarrow> bool" where
  "is_letter L = rune_test letter_byte (table_letter L)"

definition is_digit :: "text_lib \<Rightarrow> string \<Rightarrow> bool" where
  "is_digit L = rune_test (\<lambda>c. 48 \<le> byte c \<and> byte c \<le> 57) (table_digit L)"

definition flush_token :: "text_lib \<Rightarrow> string list \<Rightarrow> string list" where
  "flush_token L current = (if current = [] then [] else [to_lower (table_to_lower L) (concat current)])"

fun identifier_tokens :: "text_lib \<Rightarrow> string list \<Rightarrow> string list \<Rightarrow> string list" where
  "identifier_tokens L [] current = flush_token L current"
| "identifier_tokens L (symbol # symbols) current =
     (if \<not> is_letter L symbol \<and> \<not> is_digit L symbol
      then flush_token L current @ identifier_tokens L symbols []
      else if is_upper L symbol \<and> current \<noteq> [] \<and> (is_lower L (last current) \<or> is_digit L (last current))
      then flush_token L current @ identifier_tokens L symbols [symbol]
      else identifier_tokens L symbols (current @ [symbol]))"

definition splitIdentifierTokens :: "text_lib \<Rightarrow> string \<Rightarrow> string list" where
  "splitIdentifierTokens L v = identifier_tokens L (runes v) []"

definition isNonSecretQualifierToken :: "string \<Rightarrow> bool" where
  "isNonSecretQualifierToken token = (token \<in> set
     [''mode'', ''type'', ''policy'', ''method'', ''strategy'', ''preference'', ''delivery'', ''conveyance'',
      ''endpoint'', ''url'', ''uri'', ''path'', ''lifetime'', ''lifespan'', ''ttl'', ''timeout'', ''duration'',
      ''expiry'', ''expires'', ''expiration'', ''validity'', ''issuer'', ''name'', ''id'', ''length'',
      ''size'', ''count'', ''min'', ''max'', ''enabled'', ''enable'', ''required'', ''supported'', ''allowed'',
      ''algorithm'', ''alg'', ''version'', ''scheme'', ''file'', ''ref'', ''reference'', ''claim'', ''claims'',
      ''header'', ''response'', ''exchange'', ''creation'', ''created'', ''time'', ''timestamp'', ''requested'',
      ''request'', ''use'', ''lower'', ''upper'', ''case'', ''format''])"

definition isSecretCoreToken :: "string \<Rightarrow> bool" where
  "isSecretCoreToken token = (token \<in> set [''password'', ''passwd'', ''pwd'', ''passphrase'', ''secret'', ''token''])"

definition isSecretPairPrefixToken :: "string \<Rightarrow> bool" where
  "isSecretPairPrefixToken token = (token \<in> set [''api'', ''client'', ''access'', ''private'', ''bearer'', ''refresh''])"

definition strong_pair :: "string \<Rightarrow> bool" where
  "strong_pair pair = (pair \<in> set [''api_key'', ''client_secret'', ''access_key'', ''access_token'', ''private_key'', ''bearer_token'', ''refresh_token''])"

definition hasStrongSecretPair :: "string list \<Rightarrow> bool" where
  "hasStrongSecretPair tokens =
     list_ex (\<lambda>idx. strong_pair (tokens ! idx @ ''_'' @ tokens ! (idx + 1))
        \<and> \<not> (idx > 0 \<and> isNonSecretQualifierToken (tokens ! (idx - 1)))
        \<and> (idx + 1 = length tokens - 1 \<or> \<not> isNonSecretQualifierToken (tokens ! (idx + 2))))
       [0..<length tokens - 1]"

fun standalone_rest :: "string list \<Rightarrow> bool" where
  "standalone_rest [] = True"
| "standalone_rest (t # ts) =
     (if isSecretCoreToken t then True
      else if isNonSecretQualifierToken t then False else standalone_rest ts)"

definition isStandaloneSecretToken :: "string list \<Rightarrow> nat \<Rightarrow> bool" where
  "isStandaloneSecretToken tokens idx =
     (if idx \<ge> length tokens then False
      else if idx > 0 \<and> isNonSecretQualifierToken (tokens ! (idx - 1)) then False
      else if idx = length tokens - 1
      then \<not> (idx \<ge> 2 \<and> isNonSecretQualifierToken (tokens ! (idx - 2))
              \<and> (isSecretCoreToken (tokens ! (idx - 1)) \<or> isSecretPairPrefixToken (tokens ! (idx - 1))))
      else if isNonSecretQualifierToken (tokens ! (idx + 1)) then False
      else standalone_rest (drop (idx + 2) tokens))"

definition isLikelySecretKey :: "text_lib \<Rightarrow> string \<Rightarrow> bool" where
  "isLikelySecretKey L key =
     (let tokens = splitIdentifierTokens L key in
      if tokens = [] then False
      else if hasStrongSecretPair tokens then True
      else if concat tokens \<in> set [''apikey'', ''clientsecret'', ''accesskey'', ''accesstoken'', ''privatekey'', ''bearertoken'', ''refreshtoken''] then True
      else list_ex (\<lambda>idx. isSecretCoreToken (tokens ! idx) \<and> isStandaloneSecretToken tokens idx) [0..<length tokens])"

definition isLikelySecretValue :: "text_lib \<Rightarrow> string \<Rightarrow> bool" where
  "isLikelySecretValue L v =
     (let trimmed = trim_space v in
      if trimmed = [] then False
      else if to_lower (table_to_lower L) trimmed \<in> set [''true'', ''false'', ''yes'', ''no'', ''on'', ''off'', ''enabled'', ''disabled''] then False
      else \<not> list_all is_digit_byte trimmed)"

section \<open>Detection\<close>

text \<open>The measure of the traversals: the size of a value, and of the entries of an object.\<close>

definition entries_size :: "(string \<times> gval) list \<Rightarrow> nat" where
  "entries_size m = size_list (size_prod (\<lambda>_. 0) size) m"

lemma entries_size_simps [simp]:
  "entries_size (p # m) = Suc (Suc (size (snd p) + entries_size m))"
  "size_list (size_prod (\<lambda>_. 0) size) m = entries_size m"
  by (cases p) (simp_all add: entries_size_def)

definition detect_field :: "text_lib \<Rightarrow> string \<Rightarrow> gval \<Rightarrow> string \<Rightarrow> string list result" where
  "detect_field L key field attributePath =
     (if isLikelySecretKey L key
      then (case field of
              VString s \<Rightarrow>
                (case parseSecretPlaceholder L s of
                   Err e \<Rightarrow> Err e
                 | Ok ph \<Rightarrow> Ok (if ph = NoPlaceholder \<and> isLikelySecretValue L s then [attributePath] else []))
            | _ \<Rightarrow> Ok [])
      else Ok [])"

function collectDetectedCandidates :: "text_lib \<Rightarrow> gval \<Rightarrow> string \<Rightarrow> nat \<Rightarrow> string list result"
  and detect_entries :: "text_lib \<Rightarrow> (string \<times> gval) list \<Rightarrow> string \<Rightarrow> nat \<Rightarrow> string list result"
  and detect_items :: "text_lib \<Rightarrow> gval list \<Rightarrow> nat \<Rightarrow> string \<Rightarrow> nat \<Rightarrow> string list result" where
  "collectDetectedCandidates L v currentPath depth =
     (if depth > maxPayloadDepth then Err depth_error
      else case v of
        VMap m \<Rightarrow> detect_entries L m currentPath (depth + 1)
      | VSlice xs \<Rightarrow> detect_items L xs 0 currentPath (depth + 1)
      | _ \<Rightarrow> Ok [])"
| "detect_entries L [] currentPath depth = Ok []"
| "detect_entries L (p # m) currentPath depth =
     (let attributePath = joinAttributePath currentPath (fst p) in
      case detect_field L (fst p) (snd p) attributePath of
        Err e \<Rightarrow> Err e
      | Ok own \<Rightarrow>
          (case collectDetectedCandidates L (snd p) attributePath depth of
             Err e \<Rightarrow> Err e
           | Ok inner \<Rightarrow>
               (case detect_entries L m currentPath depth of Err e \<Rightarrow> Err e | Ok r \<Rightarrow> Ok (own @ inner @ r))))"
| "detect_items L [] idx currentPath depth = Ok []"
| "detect_items L (x # xs) idx currentPath depth =
     (case collectDetectedCandidates L x (joinAttributePath currentPath (itoa (int idx))) depth of
        Err e \<Rightarrow> Err e
      | Ok inner \<Rightarrow>
          (case detect_items L xs (idx + 1) currentPath depth of Err e \<Rightarrow> Err e | Ok r \<Rightarrow> Ok (inner @ r)))"
  by pat_completeness auto
termination
  by (relation "measure (\<lambda>x. case x of Inl (L, v, p, d) \<Rightarrow> size v | Inr (Inl (L, m, p, d)) \<Rightarrow> entries_size m
      | Inr (Inr (L, xs, i, p, d)) \<Rightarrow> size_list size xs)") auto

declare collectDetectedCandidates.simps [simp del]

definition DetectSecretCandidates :: "text_lib \<Rightarrow> gval \<Rightarrow> string list result" where
  "DetectSecretCandidates L v =
     (case Normalize v of
        Err e \<Rightarrow> Err e
      | Ok normalized \<Rightarrow>
          (case collectDetectedCandidates L normalized [] 0 of
             Err e \<Rightarrow> Err e | Ok candidates \<Rightarrow> Ok (sort (remdups candidates))))"

section \<open>Masking\<close>

text \<open>The two maps filled by \<open>collectMaskCandidates\<close>: value by attribute path, and path by key.\<close>

type_synonym candidates = "(string, string) gomap"
type_synonym mask_maps = "candidates \<times> (string, string) gomap"

definition ambiguous_scope :: go_error where
  "ambiguous_scope = Invalid (msg ''secret masking key scope is ambiguous'') None"

definition add_candidate :: "string \<Rightarrow> string \<Rightarrow> string \<Rightarrow> mask_maps \<Rightarrow> mask_maps result" where
  "add_candidate key attributePath stringValue maps =
     (case maps of (candidates, scopeByKey) \<Rightarrow>
      if (case map_get scopeByKey key of None \<Rightarrow> False | Some existingPath \<Rightarrow> existingPath \<noteq> attributePath)
      then Err ambiguous_scope
      else if map_get candidates attributePath \<noteq> None then Err ambiguous_scope
      else Ok (map_put attributePath stringValue candidates, map_put key attributePath scopeByKey))"

definition mask_field :: "text_lib \<Rightarrow> string \<Rightarrow> gval \<Rightarrow> string \<Rightarrow> mask_maps \<Rightarrow> mask_maps result" where
  "mask_field L key field attributePath maps =
     (if isLikelySecretKey L key
      then (case field of
              VString s \<Rightarrow>
                (case parseSecretPlaceholder L s of
                   Err e \<Rightarrow> Err e
                 | Ok ph \<Rightarrow> if ph = NoPlaceholder then add_candidate key attributePath s maps else Ok maps)
            | VNil \<Rightarrow> Ok maps
            | _ \<Rightarrow> Err (Invalid (msg ''secret masking supports only string values for detected keys'') None))
      else Ok maps)"

function collectMaskCandidates :: "text_lib \<Rightarrow> gval \<Rightarrow> string \<Rightarrow> nat \<Rightarrow> mask_maps \<Rightarrow> mask_maps result"
  and mask_entries :: "text_lib \<Rightarrow> (string \<times> gval) list \<Rightarrow> string \<Rightarrow> nat \<Rightarrow> mask_maps \<Rightarrow> mask_maps result"
  and mask_items :: "text_lib \<Rightarrow> gval list \<Rightarrow> nat \<Rightarrow> string \<Rightarrow> nat \<Rightarrow> mask_maps \<Rightarrow> mask_maps result" where
  "collectMaskCandidates L v currentPath depth maps =
     (if depth > maxPayloadDepth then Err depth_error
      else case v of
        VMap m \<Rightarrow> mask_entries L m currentPath (depth + 1) maps
      | VSlice xs \<Rightarrow> mask_items L xs 0 currentPath (depth + 1) maps
      | _ \<Rightarrow> Ok maps)"
| "mask_entries L [] currentPath depth maps = Ok maps"
| "mask_entries L (p # m) currentPath depth maps =
     (let attributePath = joinAttributePath currentPath (fst p) in
      case mask_field L (fst p) (snd p) attributePath maps of
        Err e \<Rightarrow> Err e
      | Ok maps1 \<Rightarrow>
          (case collectMaskCandidates L (snd p) attributePath depth maps1 of
             Err e \<Rightarrow> Err e
           | Ok maps2 \<Rightarrow> mask_entries L m currentPath depth maps2))"
| "mask_items L [] idx currentPath depth maps = Ok maps"
| "mask_items L (x # xs) idx currentPath depth maps =
     (case collectMaskCandidates L x (joinAttributePath currentPath (itoa (int idx))) depth maps of
        Err e \<Rightarrow> Err e
      | Ok maps1 \<Rightarrow> mask_items L xs (idx + 1) currentPath depth maps1)"
  by pat_completeness auto
termination
  by (relation "measure (\<lambda>x. case x of Inl (L, v, p, d, ms) \<Rightarrow> size v | Inr (Inl (L, m, p, d, ms)) \<Rightarrow> entries_size m
      | Inr (Inr (L, xs, i, p, d, ms)) \<Rightarrow> size_list size xs)") auto

text \<open>Whether \<open>applyMask\<close> replaces the field: a string at a candidate's path that is no placeholder.\<close>

definition masks_field :: "text_lib \<Rightarrow> gval \<Rightarrow> string \<Rightarrow> candidates \<Rightarrow> bool result" where
  "masks_field L field attributePath candidates =
     (if map_get candidates attributePath = None then Ok False
      else case field of
        VString s \<Rightarrow> (case parseSecretPlaceholder L s of Err e \<Rightarrow> Err e | Ok ph \<Rightarrow> Ok (ph = NoPlaceholder))
      | _ \<Rightarrow> Ok False)"

function applyMask :: "text_lib \<Rightarrow> gval \<Rightarrow> string \<Rightarrow> candidates \<Rightarrow> nat \<Rightarrow> gval result"
  and apply_entries :: "text_lib \<Rightarrow> (string \<times> gval) list \<Rightarrow> string \<Rightarrow> candidates \<Rightarrow> nat \<Rightarrow> (string \<times> gval) list result"
  and apply_items :: "text_lib \<Rightarrow> gval list \<Rightarrow> nat \<Rightarrow> string \<Rightarrow> candidates \<Rightarrow> nat \<Rightarrow> gval list result" where
  "applyMask L v currentPath candidates depth =
     (if depth > maxPayloadDepth then Err depth_error
      else case v of
        VMap m \<Rightarrow>
          (case apply_entries L m currentPath candidates (depth + 1) of Err e \<Rightarrow> Err e | Ok r \<Rightarrow> Ok (VMap r))
      | VSlice xs \<Rightarrow>
          (case apply_items L xs 0 currentPath candidates (depth + 1) of Err e \<Rightarrow> Err e | Ok r \<Rightarrow> Ok (VSlice r))
      | _ \<Rightarrow> Ok v)"
| "apply_entries L [] currentPath candidates depth = Ok []"
| "apply_entries L (p # m) currentPath candidates depth =
     (let attributePath = joinAttributePath currentPath (fst p) in
      case masks_field L (snd p) attributePath candidates of
        Err e \<Rightarrow> Err e
      | Ok True \<Rightarrow>
          (case apply_entries L m currentPath candidates depth of
             Err e \<Rightarrow> Err e | Ok r \<Rightarrow> Ok ((fst p, VString currentScopeSecretPlaceholder) # r))
      | Ok False \<Rightarrow>
          (case applyMask L (snd p) attributePath candidates depth of
             Err e \<Rightarrow> Err e
           | Ok child \<Rightarrow>
               (case apply_entries L m currentPath candidates depth of
                  Err e \<Rightarrow> Err e | Ok r \<Rightarrow> Ok ((fst p, child) # r))))"
| "apply_items L [] idx currentPath candidates depth = Ok []"
| "apply_items L (x # xs) idx currentPath candidates depth =
     (case applyMask L x (joinAttributePath currentPath (itoa (int idx))) candidates depth of
        Err e \<Rightarrow> Err e
      | Ok child \<Rightarrow>
          (case apply_items L xs (idx + 1) currentPath candidates depth of Err e \<Rightarrow> Err e | Ok r \<Rightarrow> Ok (child # r)))"
  by pat_completeness auto
termination
  by (relation "measure (\<lambda>x. case x of Inl (L, v, p, c, d) \<Rightarrow> size v | Inr (Inl (L, m, p, c, d)) \<Rightarrow> entries_size m
      | Inr (Inr (L, xs, i, p, c, d)) \<Rightarrow> size_list size xs)") auto

declare collectMaskCandidates.simps [simp del] applyMask.simps [simp del]

text \<open>The candidates are stored in the order of their paths (\<open>store_candidates\<close>); the store's state is
  returned also on an error.\<close>

definition MaskPayload ::
  "text_lib \<Rightarrow> ('s, string) put_fn \<Rightarrow> 's \<Rightarrow> gval \<Rightarrow> 's \<times> gval result" where
  "MaskPayload L storeFn s v =
     (case Normalize v of
        Err e \<Rightarrow> (s, Err e)
      | Ok normalized \<Rightarrow>
          (case collectMaskCandidates L normalized [] 0 ([], []) of
             Err e \<Rightarrow> (s, Err e)
           | Ok (candidates, scopeByKey) \<Rightarrow>
               (case store_candidates storeFn candidates s of
                  (s', Some e) \<Rightarrow> (s', Err e)
                | (s', None) \<Rightarrow> (s', applyMask L normalized [] candidates 0))))"

section \<open>Resolution\<close>

text \<open>The store's state and the cache of the secrets read so far.\<close>

type_synonym secret_cache = "(string, string) gomap"

definition resolve_string ::
  "text_lib \<Rightarrow> string \<Rightarrow> string \<Rightarrow> string \<Rightarrow> ('s, string) get_fn \<Rightarrow> 's \<times> secret_cache \<Rightarrow> ('s \<times> secret_cache) \<times> gval result" where
  "resolve_string L s currentPath resourcePath getFn st =
     (case parseSecretPlaceholder L s of
        Err e \<Rightarrow> (st, Err e)
      | Ok ph \<Rightarrow>
          if ph = NoPlaceholder then (st, Ok (VString s))
          else (case resolvePlaceholderStoreKey ph currentPath resourcePath of
                  Err e \<Rightarrow> (st, Err e)
                | Ok resolvedKey \<Rightarrow>
                    (case map_get (snd st) resolvedKey of
                       Some cached \<Rightarrow> (st, Ok (VString cached))
                     | None \<Rightarrow>
                         (case getFn (fst st) resolvedKey of
                            (store, Err e) \<Rightarrow> ((store, snd st), Err e)
                          | (store, Ok resolved) \<Rightarrow>
                              ((store, map_put resolvedKey resolved (snd st)), Ok (VString resolved))))))"

function resolvePayloadValue ::
    "text_lib \<Rightarrow> gval \<Rightarrow> string \<Rightarrow> string \<Rightarrow> ('s, string) get_fn \<Rightarrow> nat \<Rightarrow> 's \<times> secret_cache \<Rightarrow> ('s \<times> secret_cache) \<times> gval result"
  and resolve_entries ::
    "text_lib \<Rightarrow> (string \<times> gval) list \<Rightarrow> string \<Rightarrow> string \<Rightarrow> ('s, string) get_fn \<Rightarrow> nat \<Rightarrow> 's \<times> secret_cache \<Rightarrow>
      ('s \<times> secret_cache) \<times> (string \<times> gval) list result"
  and resolve_items ::
    "text_lib \<Rightarrow> gval list \<Rightarrow> nat \<Rightarrow> string \<Rightarrow> string \<Rightarrow> ('s, string) get_fn \<Rightarrow> nat \<Rightarrow> 's \<times> secret_cache \<Rightarrow>
      ('s \<times> secret_cache) \<times> gval list result" where
  "resolvePayloadValue L v currentPath resourcePath getFn depth st =
     (if depth > maxPayloadDepth then (st, Err depth_error)
      else case v of
        VMap m \<Rightarrow>
          (case resolve_entries L m currentPath resourcePath getFn (depth + 1) st of
             (st', Err e) \<Rightarrow> (st', Err e) | (st', Ok r) \<Rightarrow> (st', Ok (VMap r)))
      | VSlice xs \<Rightarrow>
          (case resolve_items L xs 0 currentPath resourcePath getFn (depth + 1) st of
             (st', Err e) \<Rightarrow> (st', Err e) | (st', Ok r) \<Rightarrow> (st', Ok (VSlice r)))
      | VString s \<Rightarrow> resolve_string L s currentPath resourcePath getFn st
      | _ \<Rightarrow> (st, Ok v))"
| "resolve_entries L [] currentPath resourcePath getFn depth st = (st, Ok [])"
| "resolve_entries L (p # m) currentPath resourcePath getFn depth st =
     (case resolvePayloadValue L (snd p) (joinAttributePath currentPath (fst p)) resourcePath getFn depth st of
        (st1, Err e) \<Rightarrow> (st1, Err e)
      | (st1, Ok child) \<Rightarrow>
          (case resolve_entries L m currentPath resourcePath getFn depth st1 of
             (st2, Err e) \<Rightarrow> (st2, Err e) | (st2, Ok r) \<Rightarrow> (st2, Ok ((fst p, child) # r))))"
| "resolve_items L [] idx currentPath resourcePath getFn depth st = (st, Ok [])"
| "resolve_items L (x # xs) idx currentPath resourcePath getFn depth st =
     (case resolvePayloadValue L x (joinAttributePath currentPath (itoa (int idx))) resourcePath getFn depth st of
        (st1, Err e) \<Rightarrow> (st1, Err e)
      | (st1, Ok child) \<Rightarrow>
          (case resolve_items L xs (idx + 1) currentPath resourcePath getFn depth st1 of
             (st2, Err e) \<Rightarrow> (st2, Err e) | (st2, Ok r) \<Rightarrow> (st2, Ok (child # r))))"
  by pat_completeness auto
termination
  by (relation "measure (\<lambda>x. case x of Inl (L, v, p, r, g, d, c) \<Rightarrow> size v | Inr (Inl (L, m, p, r, g, d, c)) \<Rightarrow> entries_size m
      | Inr (Inr (L, xs, i, p, r, g, d, c)) \<Rightarrow> size_list size xs)") auto

declare resolvePayloadValue.simps [simp del]

definition resolvePayloadWithResourceScope ::
  "text_lib \<Rightarrow> gval \<Rightarrow> string \<Rightarrow> ('s, string) get_fn \<Rightarrow> 's \<Rightarrow> 's \<times> gval result" where
  "resolvePayloadWithResourceScope L v logicalPath getFn store =
     (case Normalize v of
        Err e \<Rightarrow> (store, Err e)
      | Ok normalized \<Rightarrow>
          (case resolvePayloadValue L normalized [] (trim_space logicalPath) getFn 0 (store, []) of
             ((store', cache), r) \<Rightarrow> (store', r)))"

definition ResolvePayload :: "text_lib \<Rightarrow> gval \<Rightarrow> ('s, string) get_fn \<Rightarrow> 's \<Rightarrow> 's \<times> gval result" where
  "ResolvePayload L v getFn store = resolvePayloadWithResourceScope L v [] getFn store"

definition ResolvePayloadForResource ::
  "text_lib \<Rightarrow> gval \<Rightarrow> string \<Rightarrow> ('s, string) get_fn \<Rightarrow> 's \<Rightarrow> 's \<times> gval result" where
  "ResolvePayloadForResource L v logicalPath getFn store = resolvePayloadWithResourceScope L v logicalPath getFn store"

text \<open>Placeholders for the payload descriptor; \<open>None\<close>: the string is none.\<close>

definition resolvePayloadDescriptorPlaceholder :: "string \<Rightarrow> PayloadDescriptor \<Rightarrow> string option result" where
  "resolvePayloadDescriptorPlaceholder v descriptor =
     (let trimmed = trim_space v in
      if \<not> prefix ''{{'' trimmed \<or> \<not> suffix ''}}'' trimmed then Ok None
      else let inner = trim_space (trim_suffix (trim_prefix trimmed ''{{'') ''}}'');
               name = (if prefix ''payload_type'' inner then ''payload_type''
                       else if prefix ''payload_media_type'' inner then ''payload_media_type''
                       else if prefix ''payload_extension'' inner then ''payload_extension'' else [])
           in if name = [] then Ok None
              else if length inner > length name \<and> \<not> latin1_space (inner ! length name) then Ok None
              else let argument = trim_space (trim_prefix inner name) in
                if argument = [] then Err (Invalid (''%s placeholder argument is required'', [name]) None)
                else if argument \<noteq> ''.'' then Err (Invalid (''%s placeholder supports only {{%s .}}'', [name, name]) None)
                else Ok (Some (if name = ''payload_type'' then PayloadType descriptor
                               else if name = ''payload_media_type'' then MediaType descriptor
                               else Extension descriptor)))"

function resolvePayloadDescriptorDirectivesValue :: "gval \<Rightarrow> PayloadDescriptor \<Rightarrow> nat \<Rightarrow> gval result"
  and directive_entries :: "(string \<times> gval) list \<Rightarrow> PayloadDescriptor \<Rightarrow> nat \<Rightarrow> (string \<times> gval) list result"
  and directive_items :: "gval list \<Rightarrow> PayloadDescriptor \<Rightarrow> nat \<Rightarrow> gval list result" where
  "resolvePayloadDescriptorDirectivesValue v descriptor depth =
     (if depth > maxPayloadDepth then Err depth_error
      else case v of
        VMap m \<Rightarrow> (case directive_entries m descriptor (depth + 1) of Err e \<Rightarrow> Err e | Ok r \<Rightarrow> Ok (VMap r))
      | VSlice xs \<Rightarrow> (case directive_items xs descriptor (depth + 1) of Err e \<Rightarrow> Err e | Ok r \<Rightarrow> Ok (VSlice r))
      | VString s \<Rightarrow>
          (case resolvePayloadDescriptorPlaceholder s descriptor of
             Err e \<Rightarrow> Err e | Ok None \<Rightarrow> Ok (VString s) | Ok (Some r) \<Rightarrow> Ok (VString r))
      | _ \<Rightarrow> Ok v)"
| "directive_entries [] descriptor depth = Ok []"
| "directive_entries (p # m) descriptor depth =
     (case resolvePayloadDescriptorDirectivesValue (snd p) descriptor depth of
        Err e \<Rightarrow> Err e
      | Ok child \<Rightarrow> (case directive_entries m descriptor depth of Err e \<Rightarrow> Err e | Ok r \<Rightarrow> Ok ((fst p, child) # r)))"
| "directive_items [] descriptor depth = Ok []"
| "directive_items (x # xs) descriptor depth =
     (case resolvePayloadDescriptorDirectivesValue x descriptor depth of
        Err e \<Rightarrow> Err e
      | Ok child \<Rightarrow> (case directive_items xs descriptor depth of Err e \<Rightarrow> Err e | Ok r \<Rightarrow> Ok (child # r)))"
  by pat_completeness auto
termination
  by (relation "measure (\<lambda>x. case x of Inl (v, t, d) \<Rightarrow> size v | Inr (Inl (m, t, d)) \<Rightarrow> entries_size m
      | Inr (Inr (xs, t, d)) \<Rightarrow> size_list size xs)") auto

declare resolvePayloadDescriptorDirectivesValue.simps [simp del]

section \<open>Whole-resource secrets\<close>

definition wholeResourceSecretEncodingPrefix :: string where
  "wholeResourceSecretEncodingPrefix = ''declarest:whole-resource:v1:base64:''"

record base64_codec =
  base64_encode :: "string \<Rightarrow> string"
  base64_decode :: "string \<Rightarrow> string result"

definition EncodeWholeResourceSecret :: "codecs \<Rightarrow> base64_codec \<Rightarrow> Content \<Rightarrow> string result" where
  "EncodeWholeResourceSecret C B content =
     (case EncodeContentPretty C content of
        Err e \<Rightarrow> Err e
      | Ok encoded \<Rightarrow>
          if valid_utf8 encoded \<and> \<not> prefix wholeResourceSecretEncodingPrefix encoded then Ok encoded
          else Ok (wholeResourceSecretEncodingPrefix @ base64_encode B encoded))"

definition DecodeWholeResourceSecret :: "codecs \<Rightarrow> base64_codec \<Rightarrow> string \<Rightarrow> PayloadDescriptor \<Rightarrow> gval result" where
  "DecodeWholeResourceSecret C B v descriptor =
     (case (if prefix wholeResourceSecretEncodingPrefix v
            then (case base64_decode B (trim_prefix v wholeResourceSecretEncodingPrefix) of
                    Err e \<Rightarrow> Err (Invalid (msg ''stored whole-resource secret payload is invalid'') (Some e))
                  | Ok decoded \<Rightarrow> Ok decoded)
            else Ok v) of
        Err e \<Rightarrow> Err e
      | Ok data \<Rightarrow> (case DecodeContent C data descriptor of Err e \<Rightarrow> Err e | Ok content \<Rightarrow> Ok (Value content)))"

definition wholeResourcePlaceholderString :: "gval \<Rightarrow> string option" where
  "wholeResourcePlaceholderString v =
     (case v of VString s \<Rightarrow> Some s | VBinary b \<Rightarrow> Some b | VBinaryPtr p \<Rightarrow> p | _ \<Rightarrow> None)"

definition resolveWholeResourceSecretKey :: "string \<Rightarrow> placeholder \<Rightarrow> string result" where
  "resolveWholeResourceSecretKey logicalPath ph =
     (case ph of
        CurrentScope \<Rightarrow> Ok (trim_space logicalPath @ '':.'')
      | _ \<Rightarrow>
          (let resolved = trim_space (case ph of ExplicitKey key \<Rightarrow> key | _ \<Rightarrow> []) in
           if resolved = [] then Err (Invalid (msg ''secret placeholder key must not be empty'') None)
           else if prefix ''/'' resolved
           then Err (Invalid (msg ''secret placeholder key must be relative to the resource path'') None)
           else Ok (trim_space logicalPath @ '':'' @ resolved)))"

text \<open>\<open>None\<close>: not handled.  A handled call returns a value or an error.\<close>

definition ResolveWholeResourcePlaceholderForResource ::
  "text_lib \<Rightarrow> codecs \<Rightarrow> base64_codec \<Rightarrow> gval \<Rightarrow> string \<Rightarrow> PayloadDescriptor \<Rightarrow> ('s, string) get_fn \<Rightarrow> 's \<Rightarrow> 's \<times> gval result option" where
  "ResolveWholeResourcePlaceholderForResource L C B v logicalPath descriptor getFn store =
     (case wholeResourcePlaceholderString v of
        None \<Rightarrow> (store, None)
      | Some s \<Rightarrow>
          (case parseSecretPlaceholder L s of
             Err e \<Rightarrow> (store, Some (Err e))
           | Ok NoPlaceholder \<Rightarrow> (store, None)
           | Ok ph \<Rightarrow>
               (case NormalizeLogicalPath logicalPath of
                  Err e \<Rightarrow> (store, Some (Err e))
                | Ok resolvedPath \<Rightarrow>
                    (case resolveWholeResourceSecretKey resolvedPath ph of
                       Err e \<Rightarrow> (store, Some (Err e))
                     | Ok secretKey \<Rightarrow>
                         (case getFn store secretKey of
                            (store', Err e) \<Rightarrow> (store', Some (Err e))
                          | (store', Ok secretValue) \<Rightarrow>
                              (store', Some (DecodeWholeResourceSecret C B secretValue descriptor)))))))"

text \<open>\<open>getFn\<close> may be nil here: \<open>None\<close>.\<close>

definition ResolvePayloadDirectivesForResource ::
  "text_lib \<Rightarrow> codecs \<Rightarrow> base64_codec \<Rightarrow> gval \<Rightarrow> string \<Rightarrow> PayloadDescriptor \<Rightarrow> ('s, string) get_fn option \<Rightarrow> 's \<Rightarrow> 's \<times> gval result" where
  "ResolvePayloadDirectivesForResource L C B v logicalPath descriptor getFn store =
     (case Normalize v of
        Err e \<Rightarrow> (store, Err e)
      | Ok normalized \<Rightarrow>
          (let resolvedDescriptor = NormalizePayloadDescriptor (unicode_lower C) descriptor in
           case resolvePayloadDescriptorDirectivesValue normalized resolvedDescriptor 0 of
             Err e \<Rightarrow> (store, Err e)
           | Ok withDescriptor \<Rightarrow>
               (case getFn of
                  None \<Rightarrow> (store, Ok withDescriptor)
                | Some get \<Rightarrow>
                    (case ResolveWholeResourcePlaceholderForResource L C B withDescriptor logicalPath resolvedDescriptor get store of
                       (store', Some r) \<Rightarrow> (store', r)
                     | (store', None) \<Rightarrow>
                         (case resolvePayloadValue L withDescriptor [] (trim_space logicalPath) get 0 (store', []) of
                            ((store'', cache), r) \<Rightarrow> (store'', r))))))"

end
