(* ===== verification/Orchestrator_Base.thy ===== *)
theory Orchestrator_Base
  imports Operation_Spec Externalization Secret_Masking "HOL-Library.State_Monad"
begin

text \<open>
  The orchestrator's services and the description of a resource it works with
  (src/internal/orchestrator/orchestrator.go, deps.go, defaults.go, externalized.go,
  resource_info.go, local.go, path_resolution.go, content_helpers.go).

  The repository, the metadata service, the managed-service client and the secret provider are
  interface values of the code: records of functions on a world \<open>'w\<close>, which holds the files and the
  remote service.  What only reads files is a function of the world; what calls the service or writes
  is a \<open>('w, 'a) state\<close> of the library's state monad, with the result or error of the Go call as its
  value.  A nil interface is \<open>None\<close>.  The context of a call is the record of parameters: the HTTP
  method overrides it carries, and the resolver that \<open>withListJQResourceResolver\<close> puts there.
\<close>

section \<open>Calls\<close>

abbreviation ret :: "'a \<Rightarrow> ('w, 'a) state" where "ret \<equiv> State_Monad.return"

definition reads :: "('w \<Rightarrow> 'a) \<Rightarrow> ('w, 'a) state" where
  "reads f = State (\<lambda>w. (f w, w))"

text \<open>\<open>v, err := m; if err != nil { return ..., err }\<close>, and the same for a call that only returns an error.\<close>

definition and_then :: "('w, 'a result) state \<Rightarrow> ('a \<Rightarrow> ('w, 'b result) state) \<Rightarrow> ('w, 'b result) state" where
  "and_then m f = do { r \<leftarrow> m; case r of Err e \<Rightarrow> ret (Err e) | Ok v \<Rightarrow> f v }"

definition is_panic :: "go_error \<Rightarrow> bool" where
  "is_panic e = (case e of Panic m \<Rightarrow> True | _ \<Rightarrow> False)"

text \<open>\<open>(value, handled, err)\<close>: a call that may not be responsible for the request.\<close>

datatype 'a handled = Unhandled "go_error option" | Handled "'a result"

section \<open>Interfaces\<close>

record ResourceOperationSpecInput =
  in_LogicalPath :: string
  in_CollectionPath :: string
  in_LocalAlias :: string
  in_RemoteID :: string
  in_PayloadDescriptor :: PayloadDescriptor
  in_Metadata :: ResourceMetadata
  in_Payload :: gval

record RequestSpec =
  req_Method :: string
  req_Path :: string
  req_Query :: "string_map option"
  req_Headers :: "string_map option"
  req_Accept :: string
  req_ContentType :: string
  req_Body :: Content

text \<open>What \<open>WithRequestOperationValidation\<close> leaves in the context of a request.\<close>

type_synonym request_validation = "(string \<times> ResourceOperationSpecInput \<times> OperationValidationSpec) option"

type_synonym 'w resolver = "string \<Rightarrow> ('w, gval result) state"

record 'w artifact_store =
  art_Read :: "'w \<Rightarrow> string \<Rightarrow> string \<Rightarrow> string result"
  art_Save :: "string \<Rightarrow> Content \<Rightarrow> artifact list \<Rightarrow> ('w, go_error option) state"

record 'w repository =
  repo_Get :: "'w \<Rightarrow> string \<Rightarrow> Content result"
  repo_Exists :: "'w \<Rightarrow> string \<Rightarrow> bool result"
  repo_List :: "'w \<Rightarrow> string \<Rightarrow> bool \<Rightarrow> Resource list result"
  repo_Save :: "string \<Rightarrow> Content \<Rightarrow> ('w, go_error option) state"
  repo_artifacts :: "'w artifact_store option"

record 'w metadata_service =
  meta_Resolve :: "'w \<Rightarrow> string \<Rightarrow> ResourceMetadata result"
  meta_Render :: "('w \<Rightarrow> ResourceOperationSpecInput \<Rightarrow> string \<Rightarrow> OperationSpec result) option"

record 'w server =
  srv_Get :: "Resource \<Rightarrow> ResourceMetadata \<Rightarrow> ('w, Content result) state"
  srv_Create :: "Resource \<Rightarrow> ResourceMetadata \<Rightarrow> ('w, Content result) state"
  srv_Update :: "Resource \<Rightarrow> ResourceMetadata \<Rightarrow> ('w, Content result) state"
  srv_Delete :: "Resource \<Rightarrow> ResourceMetadata \<Rightarrow> ('w, go_error option) state"
  srv_List :: "'w resolver \<Rightarrow> string \<Rightarrow> ResourceMetadata \<Rightarrow> ('w, Resource list result) state"
  srv_Request :: "request_validation \<Rightarrow> RequestSpec \<Rightarrow> ('w, Content result) state"
  srv_OpenAPI :: "('w, Content result) state"

text \<open>The library functions the code calls and, from src/metadata, the OpenAPI inference.\<close>

record orchestrator_env =
  env_codecs :: codecs
  env_base64 :: base64_codec
  env_text :: text_lib
  env_identity :: identity_env
  env_templates :: template_engine
  env_jq :: jq_engine
  env_sprintf :: "string \<Rightarrow> string \<Rightarrow> string"
  env_has_openapi_path :: "string \<Rightarrow> gval \<Rightarrow> bool result"
  env_infer_openapi :: "string \<Rightarrow> gval \<Rightarrow> ResourceMetadata result"
  env_overrides :: string_map
  env_rounds :: nat

record 'w Orchestrator =
  orc_repository :: "'w repository option"
  orc_metadata :: "'w metadata_service option"
  orc_server :: "'w server option"
  orc_secrets :: "('w, string) get_fn option"
  orc_env :: orchestrator_env
  orc_resolver :: "'w resolver"

abbreviation orc_lower :: "'w Orchestrator \<Rightarrow> string \<Rightarrow> string" where
  "orc_lower r \<equiv> unicode_lower (env_codecs (orc_env r))"

abbreviation orc_identity :: "'w Orchestrator \<Rightarrow> identity_env" where
  "orc_identity r \<equiv> env_identity (orc_env r)"

definition empty_descriptor :: PayloadDescriptor where
  "empty_descriptor = descriptor_of [] [] []"

definition empty_content :: Content where
  "empty_content = \<lparr>Value = VNil, Descriptor = empty_descriptor\<rparr>"

definition requireRepository :: "'w Orchestrator \<Rightarrow> 'w repository result" where
  "requireRepository r =
     (case orc_repository r of None \<Rightarrow> Err (Invalid (msg ''repository store is not configured'') None) | Some m \<Rightarrow> Ok m)"

definition requireServer :: "'w Orchestrator \<Rightarrow> 'w server result" where
  "requireServer r =
     (case orc_server r of None \<Rightarrow> Err (Invalid (msg ''managed service is not configured'') None) | Some s \<Rightarrow> Ok s)"

definition resolveMetadataForPath :: "'w Orchestrator \<Rightarrow> 'w \<Rightarrow> string \<Rightarrow> bool \<Rightarrow> ResourceMetadata result" where
  "resolveMetadataForPath r w normalizedPath allowMissing =
     (case orc_metadata r of
        None \<Rightarrow> if allowMissing then Ok no_metadata else Err (Invalid (msg ''metadata service is not configured'') None)
      | Some m \<Rightarrow>
          (case meta_Resolve m w normalizedPath of
             Err e \<Rightarrow> if allowMissing \<and> IsCategory (Some e) NotFoundError then Ok no_metadata else Err e
           | Ok md \<Rightarrow> Ok md))"

definition collectionPathFor :: "string \<Rightarrow> string" where
  "collectionPathFor normalizedPath =
     (if normalizedPath = ''/'' then ''/''
      else let collectionPath = path_dir normalizedPath in
        if collectionPath = ''.'' \<or> collectionPath = [] then ''/'' else collectionPath)"

definition contentFromResource :: "Resource \<Rightarrow> Content" where
  "contentFromResource res = \<lparr>Value = Payload res, Descriptor = PayloadDesc res\<rparr>"

definition requestBodyPresent :: "Content \<Rightarrow> bool" where
  "requestBodyPresent body = (Value body \<noteq> VNil)"

text \<open>The concrete format of the metadata, if it names one.\<close>

definition concrete_format :: "(string \<Rightarrow> string) \<Rightarrow> ResourceMetadata \<Rightarrow> string option" where
  "concrete_format ul md =
     (let format = NormalizeResourceFormat ul (md_Format md)
      in if format \<noteq> [] \<and> \<not> ResourceFormatAllowsMixedItems ul format then Some format else None)"

definition applyDefaultFormat :: "'w Orchestrator \<Rightarrow> Content \<Rightarrow> ResourceMetadata \<Rightarrow> Content" where
  "applyDefaultFormat r content md =
     (if IsPayloadDescriptorExplicit (Descriptor content) then content
      else case concrete_format (orc_lower r) md of
             None \<Rightarrow> content
           | Some format \<Rightarrow> content\<lparr>Descriptor := descriptor_of_type (orc_lower r) format\<rparr>)"

section \<open>Defaults\<close>

definition effectiveMetadataDefaults ::
  "(string \<Rightarrow> string) \<Rightarrow> ResourceMetadata \<Rightarrow> PayloadDescriptor \<Rightarrow> Content option result" where
  "effectiveMetadataDefaults ul md fallback =
     (if \<not> HasDefaultsSpecDirectives (md_Defaults md) then Ok None
      else case ResolveEffectiveDefaults (md_Defaults md) of
             Err e \<Rightarrow> Err e
           | Ok v \<Rightarrow>
               (let byFormat = (if IsPayloadDescriptorExplicit fallback then fallback
                                else case concrete_format ul md of None \<Rightarrow> fallback | Some format \<Rightarrow> descriptor_of_type ul format);
                    descriptor = (if IsPayloadDescriptorExplicit byFormat then byFormat else descriptor_of_type ul ''json'') in
                Ok (Some \<lparr>Value = v, Descriptor = descriptor\<rparr>)))"

definition mergeContentWithMetadataDefaults :: "(string \<Rightarrow> string) \<Rightarrow> Content \<Rightarrow> ResourceMetadata \<Rightarrow> Content result" where
  "mergeContentWithMetadataDefaults ul content md =
     (case effectiveMetadataDefaults ul md (Descriptor content) of
        Err e \<Rightarrow> Err e
      | Ok None \<Rightarrow> Ok content
      | Ok (Some defaultsContent) \<Rightarrow>
          (case MergeWithDefaults (Value defaultsContent) (Value content) of
             Err e \<Rightarrow> Err e
           | Ok mergedValue \<Rightarrow> Ok \<lparr>Value = mergedValue, Descriptor = Descriptor content\<rparr>))"

definition compactContentWithMetadataDefaults ::
  "(string \<Rightarrow> string) \<Rightarrow> Content \<Rightarrow> ResourceMetadata \<Rightarrow> bool \<Rightarrow> Content result" where
  "compactContentWithMetadataDefaults ul content md preservePresence =
     (case effectiveMetadataDefaults ul md (Descriptor content) of
        Err e \<Rightarrow> Err e
      | Ok None \<Rightarrow> Ok content
      | Ok (Some defaultsContent) \<Rightarrow>
          (case CompactAgainstDefaults (Value content) (Value defaultsContent) of
             Err e \<Rightarrow> Err e
           | Ok compactedValue \<Rightarrow>
               Ok \<lparr>Value = (if compactedValue = VNil \<and> preservePresence then VMap [] else compactedValue),
                   Descriptor = Descriptor content\<rparr>))"

section \<open>Externalised attributes\<close>

definition saveLocalResource :: "'w Orchestrator \<Rightarrow> 'w repository \<Rightarrow> string \<Rightarrow> Content \<Rightarrow> ('w, go_error option) state" where
  "saveLocalResource r manager logicalPath content0 =
     (case NormalizeLogicalPath logicalPath of
        Err e \<Rightarrow> ret (Some e)
      | Ok normalizedPath \<Rightarrow> do {
          resolved \<leftarrow> reads (\<lambda>w. resolveMetadataForPath r w normalizedPath True);
          case resolved of
            Err e \<Rightarrow> ret (Some e)
          | Ok md \<Rightarrow>
              (let content = applyDefaultFormat r content0 md in
               case ResolveExternalizedAttributes md of
                 Err e \<Rightarrow> ret (Some e)
               | Ok [] \<Rightarrow>
                   (case compactContentWithMetadataDefaults (orc_lower r) content md True of
                      Err e \<Rightarrow> ret (Some e)
                    | Ok compacted \<Rightarrow> repo_Save manager normalizedPath compacted)
               | Ok entries \<Rightarrow>
                   (case repo_artifacts manager of
                      None \<Rightarrow> ret (Some (NewTypedError InternalError (msg ''repository store does not support resource artifacts'') None))
                    | Some artifactStore \<Rightarrow>
                        (case Extract (env_sprintf (orc_env r)) (Value content) entries of
                           Err e \<Rightarrow> ret (Some e)
                         | Ok (payload, artifacts) \<Rightarrow>
                             (case compactContentWithMetadataDefaults (orc_lower r)
                                     \<lparr>Value = payload, Descriptor = Descriptor content\<rparr> md True of
                                Err e \<Rightarrow> ret (Some e)
                              | Ok compacted \<Rightarrow> art_Save artifactStore normalizedPath compacted artifacts)))) })"

definition expandExternalizedPayload :: "'w Orchestrator \<Rightarrow> 'w \<Rightarrow> string \<Rightarrow> ResourceMetadata \<Rightarrow> Content \<Rightarrow> Content result" where
  "expandExternalizedPayload r w logicalPath md content =
     (case ResolveExternalizedAttributes md of
        Err e \<Rightarrow> Err e
      | Ok [] \<Rightarrow>
          (case Normalize (Value content) of
             Err e \<Rightarrow> Err e
           | Ok normalizedValue \<Rightarrow> Ok \<lparr>Value = normalizedValue, Descriptor = Descriptor content\<rparr>)
      | Ok entries \<Rightarrow>
          (let artifactStore = Option.bind (orc_repository r) repo_artifacts in
           case Expand (env_sprintf (orc_env r)) (map_option (\<lambda>store. art_Read store w logicalPath) artifactStore) (Value content) entries of
             Err e \<Rightarrow> Err e
           | Ok expanded \<Rightarrow> Ok \<lparr>Value = expanded, Descriptor = Descriptor content\<rparr>))"

section \<open>Identity\<close>

definition logicalPathAlias :: "string \<Rightarrow> string" where
  "logicalPathAlias logicalPath = (if trim_space logicalPath = ''/'' then ''/'' else path_base logicalPath)"

definition resolveResourceIdentity :: "'w Orchestrator \<Rightarrow> string \<Rightarrow> ResourceMetadata \<Rightarrow> gval \<Rightarrow> (string \<times> string) result" where
  "resolveResourceIdentity r logicalPath md v =
     (case ResolveAliasAndRemoteID (orc_identity r) logicalPath md v of
        Err e \<Rightarrow> Err e
      | Ok (alias0, remoteID0) \<Rightarrow>
          (let alias = (if trim_space alias0 = [] then logicalPathAlias logicalPath else trim_space alias0);
               remoteID = (if trim_space remoteID0 = [] then alias else trim_space remoteID0) in
           Ok (alias, remoteID)))"

text \<open>Every error means that there is no identifier; only a panic is passed on.\<close>

definition resolvedRemoteIDFromPayload :: "'w Orchestrator \<Rightarrow> ResourceMetadata \<Rightarrow> gval \<Rightarrow> string option result" where
  "resolvedRemoteIDFromPayload r md v =
     (if trim_space (md_ID md) = [] then Ok None
      else case ResolveAliasAndRemoteID (orc_identity r) ''/'' md v of
             Err e \<Rightarrow> if is_panic e then Err e else Ok None
           | Ok (alias, remoteID) \<Rightarrow> Ok (if trim_space remoteID = [] then None else Some (trim_space remoteID)))"

definition identityAttributeCandidates :: "string list" where
  "identityAttributeCandidates =
     fold add_ordered (map JSONPointerForObjectKey [''id'', ''clientId'', ''name'', ''alias'', ''key'', ''uuid'', ''uid'']) []"

definition listedResourceAlias :: "Resource \<Rightarrow> string" where
  "listedResourceAlias item =
     (let alias = trim_space (LocalAlias item)
      in if alias \<noteq> [] \<and> alias \<noteq> ''/'' then alias else logicalPathAlias (LogicalPath item))"

definition requestedFallbackSegment :: "Resource \<Rightarrow> string" where
  "requestedFallbackSegment requestedInfo =
     (let requestedSegment = trim_space (RemoteID requestedInfo)
      in if requestedSegment = [] then logicalPathAlias (LogicalPath requestedInfo) else requestedSegment)"

text \<open>The attribute's text, trimmed, if there is one.\<close>

definition attribute_text :: "identity_env \<Rightarrow> fields \<Rightarrow> string \<Rightarrow> string option" where
  "attribute_text env payload attribute =
     (case LookupScalarAttribute env payload attribute of
        None \<Rightarrow> None
      | Some v \<Rightarrow> if trim_space v = [] then None else Some (trim_space v))"

definition matchesFallbackIdentity :: "identity_env \<Rightarrow> Resource \<Rightarrow> string \<Rightarrow> string \<Rightarrow> gval \<Rightarrow> bool" where
  "matchesFallbackIdentity env requestedInfo candidateAlias candidateRemoteID candidatePayload =
     (let requestedSegment = requestedFallbackSegment requestedInfo in
      if requestedSegment = [] then False
      else if trim_space candidateRemoteID = requestedSegment \<or> trim_space candidateAlias = requestedSegment then True
      else case candidatePayload of
             VMap payloadMap \<Rightarrow>
               list_ex (\<lambda>attribute. attribute_text env payloadMap attribute = Some requestedSegment) identityAttributeCandidates
           | _ \<Rightarrow> False)"

definition matchesFallbackCandidate :: "identity_env \<Rightarrow> Resource \<Rightarrow> Resource \<Rightarrow> bool" where
  "matchesFallbackCandidate env requestedInfo candidate =
     matchesFallbackIdentity env requestedInfo (LocalAlias candidate) (RemoteID candidate) (Payload candidate)"

definition matchesResolvedIdentityCandidate :: "Resource \<Rightarrow> Resource \<Rightarrow> bool" where
  "matchesResolvedIdentityCandidate resolvedResource candidate =
     (LocalAlias candidate = LocalAlias resolvedResource
      \<or> trim_space (RemoteID resolvedResource) \<noteq> [] \<and> RemoteID candidate = RemoteID resolvedResource)"

definition fallbackSegmentValue :: "identity_env \<Rightarrow> Resource \<Rightarrow> string" where
  "fallbackSegmentValue env candidate =
     (if trim_space (RemoteID candidate) \<noteq> [] then trim_space (RemoteID candidate)
      else case (case Payload candidate of
                   VMap payload \<Rightarrow> List.map_filter (attribute_text env payload) identityAttributeCandidates
                 | _ \<Rightarrow> []) of
             v # rest \<Rightarrow> v
           | [] \<Rightarrow> trim_space (LocalAlias candidate))"

definition remoteReadResourceFromFallbackCandidate :: "identity_env \<Rightarrow> Resource \<Rightarrow> Resource \<Rightarrow> Resource" where
  "remoteReadResourceFromFallbackCandidate env requested candidate =
     (let alias = trim_space (LocalAlias candidate); remoteID = trim_space (RemoteID candidate) in
      requested\<lparr>LocalAlias := (if alias = [] then logicalPathAlias (LogicalPath requested) else alias),
                RemoteID := (if remoteID = [] then fallbackSegmentValue env candidate else remoteID),
                Payload := (if Payload candidate \<noteq> VNil then DeepCopyValue (Payload candidate) else Payload requested),
                PayloadDesc := (if IsPayloadDescriptorExplicit (PayloadDesc candidate) then PayloadDesc candidate
                                else PayloadDesc requested)\<rparr>)"

definition ambiguous_error :: "string \<Rightarrow> string \<Rightarrow> go_error" where
  "ambiguous_error place logicalPath = NewTypedError ConflictError (place @ '' fallback for %q is ambiguous'', [logicalPath]) None"

definition remoteFallbackCandidates :: "identity_env \<Rightarrow> Resource \<Rightarrow> Resource list \<Rightarrow> Resource list result" where
  "remoteFallbackCandidates env requested candidates =
     (let matched = filter (matchesFallbackCandidate env requested) candidates
      in if length matched \<le> 1 then Ok matched else Err (ambiguous_error ''remote'' (LogicalPath requested)))"

definition canUseRemoteCollectionCandidateFallback :: "go_error \<Rightarrow> bool" where
  "canUseRemoteCollectionCandidateFallback e = (IsCategory (Some e) NotFoundError \<or> IsCategory (Some e) ValidationError)"

section \<open>Describing a resource\<close>

definition buildResourceInfo :: "'w Orchestrator \<Rightarrow> 'w \<Rightarrow> string \<Rightarrow> Content \<Rightarrow> (Resource \<times> ResourceMetadata) result" where
  "buildResourceInfo r w logicalPath content =
     (case NormalizeLogicalPath logicalPath of
        Err e \<Rightarrow> Err e
      | Ok normalizedPath \<Rightarrow>
     (case resolveMetadataForPath r w normalizedPath True of
        Err e \<Rightarrow> Err e
      | Ok md \<Rightarrow>
     (case expandExternalizedPayload r w normalizedPath md content of
        Err e \<Rightarrow> Err e
      | Ok expandedContent \<Rightarrow>
     (case Normalize (Value expandedContent) of
        Err e \<Rightarrow> Err e
      | Ok normalizedPayload \<Rightarrow>
     (case ResolveAliasAndRemoteID (orc_identity r) normalizedPath md normalizedPayload of
        Err e \<Rightarrow> Err e
      | Ok (localAlias, remoteID) \<Rightarrow>
          Ok (\<lparr>LogicalPath = normalizedPath, CollectionPath = collectionPathFor normalizedPath, LocalAlias = localAlias,
               RemoteID = remoteID, ResolvedRemotePath = [], Payload = normalizedPayload,
               PayloadDesc = Descriptor expandedContent\<rparr>, md))))))"

definition put_derived :: "string \<times> string \<Rightarrow> fields \<Rightarrow> fields" where
  "put_derived entry payload =
     (case entry of
        (key, v) \<Rightarrow>
          if trim_space key = [] \<or> trim_space v = [] \<or> map_get payload key \<noteq> None then payload else map_put key (VString v) payload)"

definition buildResourceInfoForRemoteRead :: "'w Orchestrator \<Rightarrow> 'w \<Rightarrow> string \<Rightarrow> (Resource \<times> ResourceMetadata) result" where
  "buildResourceInfoForRemoteRead r w logicalPath =
     (case NormalizeLogicalPath logicalPath of
        Err e \<Rightarrow> Err e
      | Ok normalizedPath \<Rightarrow>
     (case resolveMetadataForPath r w normalizedPath True of
        Err e \<Rightarrow> Err e
      | Ok md \<Rightarrow>
          (let localAlias = (if normalizedPath = ''/'' then ''/'' else path_base normalizedPath);
               base = \<lparr>LogicalPath = normalizedPath, CollectionPath = collectionPathFor normalizedPath, LocalAlias = localAlias,
                       RemoteID = localAlias, ResolvedRemotePath = [], Payload = VNil, PayloadDesc = empty_descriptor\<rparr> in
           case MergePayloadFields (VMap []) (DerivePathFields base md) of
             Err e \<Rightarrow> Err e
           | Ok (VMap merged) \<Rightarrow>
               (case Normalize (VMap (fold put_derived (DerivePathTemplateFields normalizedPath md) merged)) of
                  Err e \<Rightarrow> Err e
                | Ok normalizedPayload \<Rightarrow>
                    Ok (base\<lparr>Payload := normalizedPayload,
                             PayloadDesc := (case concrete_format (orc_lower r) md of
                                               None \<Rightarrow> empty_descriptor
                                             | Some format \<Rightarrow> descriptor_of_type (orc_lower r) format)\<rparr>, md))
           | Ok _ \<Rightarrow> Err (Invalid (msg ''failed to merge payload fields into map for remote read'') None))))"

section \<open>Local reads\<close>

definition hydrateLocalFallbackCandidate ::
  "'w Orchestrator \<Rightarrow> 'w repository \<Rightarrow> 'w \<Rightarrow> ResourceMetadata \<Rightarrow> Resource \<Rightarrow> Resource result" where
  "hydrateLocalFallbackCandidate r manager w md candidate =
     (case repo_Get manager w (LogicalPath candidate) of
        Err e \<Rightarrow> Err e
      | Ok stored \<Rightarrow>
     (case mergeContentWithMetadataDefaults (orc_lower r) stored md of
        Err e \<Rightarrow> Err e
      | Ok merged \<Rightarrow>
     (case expandExternalizedPayload r w (LogicalPath candidate) md merged of
        Err e \<Rightarrow> Err e
      | Ok expanded \<Rightarrow>
     (case Normalize (Value expanded) of
        Err e \<Rightarrow> Err e
      | Ok candidatePayload \<Rightarrow>
     (case resolveResourceIdentity r (LogicalPath candidate) md candidatePayload of
        Err e \<Rightarrow> Err e
      | Ok (candidateAlias, resolvedRemoteID) \<Rightarrow>
          Ok \<lparr>LogicalPath = LogicalPath candidate, CollectionPath = collectionPathFor (LogicalPath candidate),
              LocalAlias = candidateAlias, RemoteID = resolvedRemoteID, ResolvedRemotePath = [], Payload = candidatePayload,
              PayloadDesc = Descriptor expanded\<rparr>)))))"

definition local_matches :: "'w Orchestrator \<Rightarrow> Resource \<Rightarrow> Resource list \<Rightarrow> Resource list" where
  "local_matches r requestedInfo hydrated =
     filter (\<lambda>h. matchesFallbackIdentity (orc_identity r) requestedInfo (LocalAlias h) (RemoteID h) (Payload h)) hydrated"

definition local_fallback ::
  "'w Orchestrator \<Rightarrow> 'w repository \<Rightarrow> 'w \<Rightarrow> go_error \<Rightarrow> Resource \<Rightarrow> ResourceMetadata \<Rightarrow> Resource list \<Rightarrow> Resource result" where
  "local_fallback r manager w miss requestedInfo requestedMd candidates =
     (let requestedSegment = requestedFallbackSegment requestedInfo;
          aliasMatches = (if requestedSegment = [] then []
                          else filter (\<lambda>c. listedResourceAlias c = requestedSegment) candidates) in
      case aliasMatches of
        [one] \<Rightarrow> hydrateLocalFallbackCandidate r manager w requestedMd one
      | _ \<Rightarrow>
          (case each_result (hydrateLocalFallbackCandidate r manager w requestedMd) candidates of
             Err e \<Rightarrow> Err e
           | Ok hydrated \<Rightarrow>
               (case local_matches r requestedInfo hydrated of
                  [] \<Rightarrow> Err miss
                | [one] \<Rightarrow> Ok one
                | _ \<Rightarrow> Err (ambiguous_error ''local'' (LogicalPath requestedInfo)))))"

definition resolveLocalResourceForRead :: "'w Orchestrator \<Rightarrow> 'w \<Rightarrow> string \<Rightarrow> Resource result" where
  "resolveLocalResourceForRead r w logicalPath =
     (case requireRepository r of
        Err e \<Rightarrow> Err e
      | Ok manager \<Rightarrow>
     (case NormalizeLogicalPath logicalPath of
        Err e \<Rightarrow> Err e
      | Ok normalizedPath \<Rightarrow>
     (case repo_Get manager w normalizedPath of
        Ok stored \<Rightarrow>
          (case resolveMetadataForPath r w normalizedPath True of
             Err e \<Rightarrow> Err e
           | Ok md \<Rightarrow>
               (case mergeContentWithMetadataDefaults (orc_lower r) stored md of
                  Err e \<Rightarrow> Err e
                | Ok content \<Rightarrow>
                    (case Normalize (Value content) of
                       Err e \<Rightarrow> Err e
                     | Ok normalizedValue \<Rightarrow>
                         Ok \<lparr>LogicalPath = normalizedPath, CollectionPath = collectionPathFor normalizedPath,
                             LocalAlias = logicalPathAlias normalizedPath, RemoteID = logicalPathAlias normalizedPath,
                             ResolvedRemotePath = [], Payload = normalizedValue, PayloadDesc = Descriptor content\<rparr>)))
      | Err e \<Rightarrow>
          if \<not> IsCategory (Some e) NotFoundError then Err e
          else case buildResourceInfoForRemoteRead r w normalizedPath of
                 Err infoErr \<Rightarrow> Err infoErr
               | Ok (requestedInfo, requestedMd) \<Rightarrow>
                   if trim_space (md_ID requestedMd) = [] \<and> trim_space (md_Alias requestedMd) = [] then Err e
                   else case repo_List manager w (CollectionPath requestedInfo) False of
                          Err listErr \<Rightarrow> Err listErr
                        | Ok candidates \<Rightarrow> local_fallback r manager w e requestedInfo requestedMd candidates)))"

definition ResolveLocalResource :: "'w Orchestrator \<Rightarrow> 'w \<Rightarrow> string \<Rightarrow> Resource result" where
  "ResolveLocalResource r w logicalPath = resolveLocalResourceForRead r w logicalPath"

definition GetLocal :: "'w Orchestrator \<Rightarrow> 'w \<Rightarrow> string \<Rightarrow> Content result" where
  "GetLocal r w logicalPath =
     (case resolveLocalResourceForRead r w logicalPath of Err e \<Rightarrow> Err e | Ok res \<Rightarrow> Ok (contentFromResource res))"

definition hydrate_listed :: "'w Orchestrator \<Rightarrow> 'w repository \<Rightarrow> 'w \<Rightarrow> Resource \<Rightarrow> Resource result" where
  "hydrate_listed r manager w item =
     (if Payload item \<noteq> VNil then Ok item
      else case repo_Get manager w (LogicalPath item) of
             Err e \<Rightarrow> Err e
           | Ok stored \<Rightarrow>
               (case resolveMetadataForPath r w (LogicalPath item) True of
                  Err e \<Rightarrow> Err e
                | Ok md \<Rightarrow>
                    (case mergeContentWithMetadataDefaults (orc_lower r) stored md of
                       Err e \<Rightarrow> Err e
                     | Ok content \<Rightarrow> Ok (item\<lparr>Payload := Value content, PayloadDesc := Descriptor content\<rparr>))))"

definition ListLocal :: "'w Orchestrator \<Rightarrow> 'w \<Rightarrow> string \<Rightarrow> bool \<Rightarrow> Resource list result" where
  "ListLocal r w logicalPath recursive =
     (case requireRepository r of
        Err e \<Rightarrow> Err e
      | Ok manager \<Rightarrow>
          (case repo_List manager w logicalPath recursive of
             Err e \<Rightarrow> Err e
           | Ok items \<Rightarrow> each_result (hydrate_listed r manager w) items))"

definition Save :: "'w Orchestrator \<Rightarrow> string \<Rightarrow> Content \<Rightarrow> ('w, go_error option) state" where
  "Save r logicalPath content =
     (case requireRepository r of Err e \<Rightarrow> ret (Some e) | Ok manager \<Rightarrow> saveLocalResource r manager logicalPath content)"

end
