(* ===== verification/Orchestrator_Remote.thy ===== *)
theory Orchestrator_Remote
  imports Orchestrator_Base
begin

text \<open>
  The orchestrator's commands on the managed service: reading with its fallbacks (remote_read.go,
  remote_fallback.go, remote_collection.go, path_resolution.go), the mutations (remote_mutation.go)
  and the commands of commands.go, under src/internal/orchestrator.

  The queue of \<open>fetchRemoteMetadataPathFallbackValue\<close> may grow with every answer of the service: the
  loop has the fuel \<open>env_rounds\<close>, and the error it returns without fuel is one no code returns.
\<close>

section \<open>Operation specifications\<close>

definition OperationHTTPMethodOverride :: "'w Orchestrator \<Rightarrow> string \<Rightarrow> string option" where
  "OperationHTTPMethodOverride r operation =
     (if operation \<notin> set operation_names then None
      else let v = to_upper (id_upper (orc_identity r)) (trim_space (or_else (map_get (env_overrides (orc_env r)) operation) []))
           in if v = [] then None else Some v)"

definition spec_input :: "Resource \<Rightarrow> ResourceMetadata \<Rightarrow> gval \<Rightarrow> ResourceOperationSpecInput" where
  "spec_input res md v =
     \<lparr>in_LogicalPath = LogicalPath res, in_CollectionPath = CollectionPath res, in_LocalAlias = LocalAlias res,
      in_RemoteID = RemoteID res, in_PayloadDescriptor = PayloadDesc res, in_Metadata = md, in_Payload = v\<rparr>"

definition renderOperationSpec ::
  "'w Orchestrator \<Rightarrow> 'w \<Rightarrow> Resource \<Rightarrow> ResourceMetadata \<Rightarrow> string \<Rightarrow> gval \<Rightarrow> OperationSpec result" where
  "renderOperationSpec r w resolvedResource md operation v =
     (let metadataCopy = CloneResourceMetadata md;
          te = env_templates (orc_env r);
          templateResource = resolvedResource\<lparr>Payload := v\<rparr>;
          rendered =
            (case Option.bind (orc_metadata r) meta_Render of
               Some render \<Rightarrow> render w (spec_input templateResource metadataCopy v) operation
             | None \<Rightarrow>
                 (case BuildResourceScope (te_lower te) templateResource metadataCopy of
                    Err e \<Rightarrow> Err e
                  | Ok scope \<Rightarrow>
                      ResolveOperationSpecWithScope te metadataCopy operation
                        (ApplyPayloadTemplateScope (te_lower te) metadataCopy v (PayloadDesc templateResource) scope))) in
      case rendered of
        Err e \<Rightarrow> Err e
      | Ok spec \<Rightarrow>
          (case OperationHTTPMethodOverride r operation of
             None \<Rightarrow> Ok spec
           | Some overrideMethod \<Rightarrow> Ok (spec\<lparr>op_Method := overrideMethod\<rparr>)))"

section \<open>Lists\<close>

text \<open>A \<open>ListPayloadShapeError\<close> is the wrapper with this mark.\<close>

definition shape_mark :: message where
  "shape_mark = msg ''managedservice.ListPayloadShapeError''"

definition NewListPayloadShapeError :: "message \<Rightarrow> go_error option \<Rightarrow> go_error" where
  "NewListPayloadShapeError m cause = PlainError shape_mark (Some (Invalid m cause))"

fun IsListPayloadShapeError :: "go_error \<Rightarrow> bool" where
  "IsListPayloadShapeError (TypedError c m cause) = (case cause of None \<Rightarrow> False | Some e \<Rightarrow> IsListPayloadShapeError e)"
| "IsListPayloadShapeError (PlainError m cause) =
     (m = shape_mark \<or> (case cause of None \<Rightarrow> False | Some e \<Rightarrow> IsListPayloadShapeError e))"
| "IsListPayloadShapeError (Panic m) = False"

definition isFallbackListPayloadShapeError :: "go_error \<Rightarrow> bool" where
  "isFallbackListPayloadShapeError e = IsListPayloadShapeError e"

definition listRemoteResources ::
  "'w Orchestrator \<Rightarrow> 'w server \<Rightarrow> string \<Rightarrow> ResourceMetadata \<Rightarrow> ('w, Resource list result) state" where
  "listRemoteResources r s collectionPath md = srv_List s (orc_resolver r) collectionPath md"

section \<open>Ambiguity\<close>

definition shouldCheckRemoteIdentityAmbiguity :: "Resource \<Rightarrow> ResourceMetadata \<Rightarrow> bool" where
  "shouldCheckRemoteIdentityAmbiguity res md =
     (trim_space (md_ID md) \<noteq> [] \<and> trim_space (md_Alias md) \<noteq> [] \<and> trim_space (LocalAlias res) \<noteq> []
      \<and> trim_space (RemoteID res) \<noteq> [] \<and> trim_space (LocalAlias res) \<noteq> trim_space (RemoteID res))"

definition detectRemoteIdentityAmbiguityAfterDirectGet ::
  "'w Orchestrator \<Rightarrow> 'w server \<Rightarrow> Resource \<Rightarrow> ResourceMetadata \<Rightarrow> ('w, go_error option) state" where
  "detectRemoteIdentityAmbiguityAfterDirectGet r s res md =
     (if \<not> shouldCheckRemoteIdentityAmbiguity res md then ret None
      else do {
        listed \<leftarrow> listRemoteResources r s (CollectionPath res) md;
        ret (case listed of
               Err e \<Rightarrow> if IsCategory (Some e) ConflictError then Some e else None
             | Ok candidates \<Rightarrow>
                 if length (filter (matchesResolvedIdentityCandidate res) candidates) > 1
                 then Some (ambiguous_error ''remote'' (LogicalPath res)) else None) })"

definition resolveRemoteCollectionCandidate ::
  "'w Orchestrator \<Rightarrow> 'w server \<Rightarrow> Resource \<Rightarrow> ResourceMetadata \<Rightarrow> ('w, Resource handled) state" where
  "resolveRemoteCollectionCandidate r s requested md = do {
     listed \<leftarrow> listRemoteResources r s (CollectionPath requested) md;
     ret (case listed of
            Err e \<Rightarrow> Unhandled (Some e)
          | Ok candidates \<Rightarrow>
              (case remoteFallbackCandidates (orc_identity r) requested candidates of
                 Err e \<Rightarrow> Handled (Err e)
               | Ok [] \<Rightarrow> Unhandled None
               | Ok (c # cs) \<Rightarrow> Handled (Ok c))) }"

definition fetchRemoteValueForCandidate ::
  "'w Orchestrator \<Rightarrow> 'w server \<Rightarrow> Resource \<Rightarrow> ResourceMetadata \<Rightarrow> Resource \<Rightarrow> ('w, Content result) state" where
  "fetchRemoteValueForCandidate r s requested md candidate =
     (let resolvedCandidate = remoteReadResourceFromFallbackCandidate (orc_identity r) requested candidate in
      do {
        got \<leftarrow> srv_Get s resolvedCandidate md;
        case got of
          Ok v \<Rightarrow> do {
            ambiguity \<leftarrow> detectRemoteIdentityAmbiguityAfterDirectGet r s resolvedCandidate md;
            ret (case ambiguity of Some e \<Rightarrow> Err e | None \<Rightarrow> Ok v) }
        | Err e \<Rightarrow>
            ret (if IsCategory (Some e) NotFoundError \<or> IsCategory (Some e) ValidationError
                 then Ok (contentFromResource candidate) else Err e) })"

definition fetchRemoteValueFromCollectionCandidate ::
  "'w Orchestrator \<Rightarrow> 'w server \<Rightarrow> Resource \<Rightarrow> ResourceMetadata \<Rightarrow> ('w, Content handled) state" where
  "fetchRemoteValueFromCollectionCandidate r s requested md = do {
     found \<leftarrow> resolveRemoteCollectionCandidate r s requested md;
     case found of
       Unhandled e \<Rightarrow> ret (Unhandled e)
     | Handled (Err e) \<Rightarrow> ret (Handled (Err e))
     | Handled (Ok candidate) \<Rightarrow> do {
         v \<leftarrow> fetchRemoteValueForCandidate r s requested md candidate;
         ret (Handled v) } }"

section \<open>Fallback over the segments of a path\<close>

definition replaceLogicalPathSegment :: "string list \<Rightarrow> nat \<Rightarrow> string \<Rightarrow> string option result" where
  "replaceLogicalPathSegment segments segmentIndex replacement =
     (let trimmedReplacement = trim_space replacement in
      if trimmedReplacement = [] \<or> trimmedReplacement = segments ! segmentIndex then Ok None
      else case NormalizeLogicalPath (''/'' @ join_with ''/'' (segments[segmentIndex := trimmedReplacement])) of
             Err e \<Rightarrow> Err e
           | Ok nextPath \<Rightarrow> Ok (Some nextPath))"

definition hasRemoteFallbackIdentityMetadata :: "ResourceMetadata \<Rightarrow> bool" where
  "hasRemoteFallbackIdentityMetadata md = (trim_space (md_ID md) \<noteq> [] \<or> trim_space (md_Alias md) \<noteq> [])"

definition singletonFallbackWithinSelectorDepth :: "string \<Rightarrow> ResourceMetadata \<Rightarrow> bool" where
  "singletonFallbackWithinSelectorDepth logicalPath md =
     (let trimmedTemplate = trim_space (md_RemoteCollectionPath md);
          templateDepth = length (SplitRawPathSegments trimmedTemplate);
          logicalDepth = length (SplitRawPathSegments logicalPath) in
      trimmedTemplate = [] \<or> templateDepth = 0 \<or> logicalDepth = 0 \<or> logicalDepth \<le> templateDepth)"

definition allowsSingletonListIdentityFallback :: "string \<Rightarrow> ResourceMetadata \<Rightarrow> Resource list \<Rightarrow> bool" where
  "allowsSingletonListIdentityFallback logicalPath md candidates =
     (length candidates = 1 \<and> singletonFallbackWithinSelectorDepth logicalPath md
      \<and> (HasTransformJQ (or_else (md_Transforms md) [])
         \<or> (case map_get (or_else (md_Operations md) []) ''list'' of
              None \<Rightarrow> False
            | Some listSpec \<Rightarrow> HasTransformJQ (or_else (op_Transforms listSpec) []))))"

text \<open>What a segment whose collection was listed gives: go on with the segment before, a path, or an
  error.\<close>

definition segment_replacement ::
  "identity_env \<Rightarrow> string \<Rightarrow> string list \<Rightarrow> nat \<Rightarrow> Resource \<Rightarrow> ResourceMetadata \<Rightarrow> string \<Rightarrow> Resource list \<Rightarrow> string option result" where
  "segment_replacement env logicalPath segments segmentIndex segmentInfo segmentMd segmentPath candidates =
     (case filter (matchesFallbackCandidate env segmentInfo) candidates of
        [] \<Rightarrow>
          if allowsSingletonListIdentityFallback segmentPath segmentMd candidates
          then replaceLogicalPathSegment segments segmentIndex (fallbackSegmentValue env (hd candidates))
          else Ok None
      | [one] \<Rightarrow> replaceLogicalPathSegment segments segmentIndex (fallbackSegmentValue env one)
      | _ \<Rightarrow> Err (ambiguous_error ''remote'' logicalPath))"

fun next_paths_from ::
  "'w Orchestrator \<Rightarrow> 'w server \<Rightarrow> string \<Rightarrow> string list \<Rightarrow> nat list \<Rightarrow> ('w, string list result) state" where
  "next_paths_from r s logicalPath segments [] = ret (Ok [])"
| "next_paths_from r s logicalPath segments (segmentIndex # indices) =
     (let segmentPath = ''/'' @ join_with ''/'' (take (Suc segmentIndex) segments) in
      do {
        info \<leftarrow> reads (\<lambda>w. buildResourceInfoForRemoteRead r w segmentPath);
        case info of
          Err e \<Rightarrow> ret (Err e)
        | Ok (segmentInfo, segmentMd) \<Rightarrow>
            if \<not> hasRemoteFallbackIdentityMetadata segmentMd then next_paths_from r s logicalPath segments indices
            else do {
              listed \<leftarrow> listRemoteResources r s (CollectionPath segmentInfo) segmentMd;
              case listed of
                Err e \<Rightarrow>
                  if IsCategory (Some e) ConflictError then ret (Err e) else next_paths_from r s logicalPath segments indices
              | Ok candidates \<Rightarrow>
                  (case segment_replacement (orc_identity r) logicalPath segments segmentIndex segmentInfo segmentMd segmentPath candidates of
                     Err e \<Rightarrow> ret (Err e)
                   | Ok (Some nextPath) \<Rightarrow> ret (Ok [nextPath])
                   | Ok None \<Rightarrow> next_paths_from r s logicalPath segments indices) } })"

definition resolveNextRemoteMetadataFallbackPaths ::
  "'w Orchestrator \<Rightarrow> 'w server \<Rightarrow> string \<Rightarrow> ('w, string list result) state" where
  "resolveNextRemoteMetadataFallbackPaths r s logicalPath =
     (let segments = SplitRawPathSegments logicalPath
      in next_paths_from r s logicalPath segments (rev [0..<length segments]))"

datatype probe = Found "Content result" | Skip | Expand_From

definition probe_path :: "'w Orchestrator \<Rightarrow> 'w server \<Rightarrow> string \<Rightarrow> ('w, probe) state" where
  "probe_path r s currentPath = do {
     info \<leftarrow> reads (\<lambda>w. buildResourceInfoForRemoteRead r w currentPath);
     case info of
       Err e \<Rightarrow> ret (if IsCategory (Some e) ConflictError \<or> is_panic e then Found (Err e) else Skip)
     | Ok (currentInfo, currentMd) \<Rightarrow> do {
         got \<leftarrow> srv_Get s currentInfo currentMd;
         ret (case got of
                Ok v \<Rightarrow> Found (Ok v)
              | Err e \<Rightarrow> if IsCategory (Some e) ConflictError then Found (Err e) else Expand_From) } }"

definition enqueue_new :: "string list \<Rightarrow> string list \<times> string list \<Rightarrow> string list \<times> string list" where
  "enqueue_new nextPaths state =
     fold (\<lambda>p (visited, queue). if p \<in> set visited then (visited, queue) else (p # visited, queue @ [p])) nextPaths state"

text \<open>The search, cut off after a number of rounds: then it has no result.\<close>

fun fallback_loop ::
  "nat \<Rightarrow> 'w Orchestrator \<Rightarrow> 'w server \<Rightarrow> string \<Rightarrow> string list \<Rightarrow> string list \<Rightarrow> ('w, Content handled option) state" where
  "fallback_loop rounds r s start visited [] = ret (Some (Unhandled None))"
| "fallback_loop 0 r s start visited (currentPath # queue) = ret None"
| "fallback_loop (Suc rounds) r s start visited (currentPath # queue) = do {
     probed \<leftarrow> (if currentPath \<noteq> start then probe_path r s currentPath else ret Expand_From);
     case probed of
       Found res \<Rightarrow> ret (Some (Handled res))
     | Skip \<Rightarrow> fallback_loop rounds r s start visited queue
     | Expand_From \<Rightarrow> do {
         nextPaths \<leftarrow> resolveNextRemoteMetadataFallbackPaths r s currentPath;
         case nextPaths of
           Err e \<Rightarrow> ret (Some (Handled (Err e)))
         | Ok paths \<Rightarrow>
             (case enqueue_new paths (visited, queue) of
                (visited', queue') \<Rightarrow> fallback_loop rounds r s start visited' queue') } }"

definition out_of_rounds :: go_error where
  "out_of_rounds = Panic (msg ''fallback: out of rounds'')"

definition fetchRemoteMetadataPathFallbackValue ::
  "'w Orchestrator \<Rightarrow> 'w server \<Rightarrow> Resource \<Rightarrow> ('w, Content handled) state" where
  "fetchRemoteMetadataPathFallbackValue r s res = do {
     found \<leftarrow> fallback_loop (env_rounds (orc_env r)) r s (LogicalPath res) [LogicalPath res] [LogicalPath res];
     ret (case found of None \<Rightarrow> Handled (Err out_of_rounds) | Some h \<Rightarrow> h) }"

section \<open>Paths that name a collection\<close>

definition collectionHintFromRepository :: "'w Orchestrator \<Rightarrow> 'w \<Rightarrow> string \<Rightarrow> bool" where
  "collectionHintFromRepository r w logicalPath =
     (case orc_repository r of
        None \<Rightarrow> False
      | Some manager \<Rightarrow>
          repo_Exists manager w logicalPath = Ok True
          \<and> (case repo_Get manager w logicalPath of Ok v \<Rightarrow> False | Err e \<Rightarrow> IsCategory (Some e) NotFoundError))"

definition renderedOperationPath ::
  "'w Orchestrator \<Rightarrow> 'w \<Rightarrow> Resource \<Rightarrow> ResourceMetadata \<Rightarrow> string \<Rightarrow> string option" where
  "renderedOperationPath r w res md operation =
     (case renderOperationSpec r w res md operation (Payload res) of
        Err e \<Rightarrow> None
      | Ok spec \<Rightarrow> (case NormalizeLogicalPath (op_Path spec) of Err e \<Rightarrow> None | Ok normalizedPath \<Rightarrow> Some normalizedPath))"

definition listOperationTargetsLogicalPath :: "'w Orchestrator \<Rightarrow> 'w \<Rightarrow> Resource \<Rightarrow> ResourceMetadata \<Rightarrow> bool" where
  "listOperationTargetsLogicalPath r w res md = (renderedOperationPath r w res md ''list'' = Some (LogicalPath res))"

definition isCollectionItemPath :: "string \<Rightarrow> string \<Rightarrow> bool" where
  "isCollectionItemPath collectionPath resourcePath =
     (if collectionPath = ''/'' then resourcePath \<noteq> ''/'' \<and> slash \<notin> set (trim_char resourcePath slash)
      else prefix (trim_suffix collectionPath ''/'' @ ''/'') resourcePath)"

definition buildCollectionHintPayload :: "gval \<Rightarrow> string \<Rightarrow> ResourceMetadata \<Rightarrow> gval" where
  "buildCollectionHintPayload basePayload logicalPath inferred =
     (let scope = (case basePayload of VMap payload \<Rightarrow> payload | _ \<Rightarrow> []);
          scope' = fold put_derived (DerivePathTemplateFields logicalPath inferred) scope in
      if scope' = [] then basePayload else VMap scope')"

definition openAPIInferenceHintsCollection :: "'w Orchestrator \<Rightarrow> 'w \<Rightarrow> Resource \<Rightarrow> string \<Rightarrow> gval \<Rightarrow> bool" where
  "openAPIInferenceHintsCollection r w res logicalPath openAPISpec =
     (case env_infer_openapi (orc_env r) logicalPath openAPISpec of
        Err e \<Rightarrow> False
      | Ok inferred \<Rightarrow>
          (let hintInfo = res\<lparr>Payload := buildCollectionHintPayload (Payload res) (LogicalPath res) inferred\<rparr> in
           listOperationTargetsLogicalPath r w hintInfo inferred
           \<and> (renderedOperationPath r w hintInfo inferred ''create'' = Some (LogicalPath hintInfo)
              \<or> (case renderedOperationPath r w hintInfo inferred ''get'' of
                   None \<Rightarrow> False
                 | Some getPath \<Rightarrow> isCollectionItemPath (LogicalPath hintInfo) getPath))))"

fun matchesOpenAPIPathSegments :: "string list \<Rightarrow> string list \<Rightarrow> bool" where
  "matchesOpenAPIPathSegments [] [] = True"
| "matchesOpenAPIPathSegments (c # candidate) (t # target) =
     (let candidateSegment = trim_space c; targetSegment = trim_space t in
      (candidateSegment = targetSegment
       \<or> prefix ''{'' candidateSegment \<and> suffix ''}'' candidateSegment \<and> targetSegment \<noteq> [])
      \<and> matchesOpenAPIPathSegments candidate target)"
| "matchesOpenAPIPathSegments _ _ = False"

text \<open>The methods of the first path item that matches.  The code takes the items in the order of a Go
  map; the model takes the paths in order.\<close>

definition openAPIExactPathLooksLikeResource :: "(string \<Rightarrow> string) \<Rightarrow> gval \<Rightarrow> string \<Rightarrow> bool" where
  "openAPIExactPathLooksLikeResource ul openAPISpec logicalPath =
     (case openAPISpec of
        VMap root' \<Rightarrow>
          (case map_get root' ''paths'' of
             Some (VMap paths) \<Rightarrow>
               (let targetSegments = SplitRawPathSegments logicalPath in
                targetSegments \<noteq> []
                \<and> (case filter (\<lambda>(rawPath, item). matchesOpenAPIPathSegments (SplitRawPathSegments rawPath) targetSegments) paths of
                     (rawPath, VMap pathItem) # rest \<Rightarrow>
                       (let methods = map (\<lambda>(method, spec). lower_trim ul method) pathItem in
                        ''get'' \<in> set methods \<and> (''put'' \<in> set methods \<or> ''patch'' \<in> set methods \<or> ''delete'' \<in> set methods)
                        \<and> ''post'' \<notin> set methods)
                   | _ \<Rightarrow> False))
           | _ \<Rightarrow> False)
      | _ \<Rightarrow> False)"

definition collectionHintFromOpenAPI :: "'w Orchestrator \<Rightarrow> 'w server \<Rightarrow> Resource \<Rightarrow> ('w, bool) state" where
  "collectionHintFromOpenAPI r s res = do {
     spec \<leftarrow> srv_OpenAPI s;
     reads (\<lambda>w.
       case spec of
         Err e \<Rightarrow> False
       | Ok openAPISpec \<Rightarrow>
           env_has_openapi_path (orc_env r) (LogicalPath res) (Value openAPISpec) = Ok True
           \<and> (openAPIInferenceHintsCollection r w res (LogicalPath res) (Value openAPISpec)
              \<or> \<not> openAPIExactPathLooksLikeResource (orc_lower r) (Value openAPISpec) (LogicalPath res)
                \<and> LogicalPath res \<noteq> ''/''
                \<and> openAPIInferenceHintsCollection r w res (trim_suffix (LogicalPath res) ''/'' @ ''/'') (Value openAPISpec))) }"

definition shouldTreatRemotePathAsCollection :: "'w Orchestrator \<Rightarrow> 'w server \<Rightarrow> Resource \<Rightarrow> ('w, bool) state" where
  "shouldTreatRemotePathAsCollection r s res = do {
     hint \<leftarrow> reads (\<lambda>w. collectionHintFromRepository r w (LogicalPath res));
     if hint then ret True else collectionHintFromOpenAPI r s res }"

text \<open>An error other than a panic means that the parent is not known to be missing.\<close>

definition isMissingParentForCollectionNotFound :: "'w Orchestrator \<Rightarrow> 'w server \<Rightarrow> Resource \<Rightarrow> ('w, bool result) state" where
  "isMissingParentForCollectionNotFound r s res =
     (let parentPath = path_dir (trim_suffix (LogicalPath res) ''/'') in
      if parentPath = ''.'' \<or> parentPath = [] \<or> parentPath = ''/'' then ret (Ok False)
      else do {
        info \<leftarrow> reads (\<lambda>w. buildResourceInfoForRemoteRead r w parentPath);
        case info of
          Err e \<Rightarrow> ret (if is_panic e then Err e else Ok False)
        | Ok (parentInfo, parentMd) \<Rightarrow> do {
            got \<leftarrow> srv_Get s parentInfo parentMd;
            ret (Ok (case got of Err e \<Rightarrow> IsCategory (Some e) NotFoundError | Ok v \<Rightarrow> False)) } })"

text \<open>\<open>sort.Slice\<close> is not stable; the model keeps the order of resources with the same path.\<close>

definition listPayloadFromResources :: "Resource list \<Rightarrow> gval" where
  "listPayloadFromResources items = VSlice (map Payload (sort_key LogicalPath items))"

definition fetchRemoteCollectionValue ::
  "'w Orchestrator \<Rightarrow> 'w server \<Rightarrow> Resource \<Rightarrow> ResourceMetadata \<Rightarrow> ('w, Content handled) state" where
  "fetchRemoteCollectionValue r s res md = do {
     collection \<leftarrow> shouldTreatRemotePathAsCollection r s res;
     if \<not> collection then ret (Unhandled None)
     else do {
       listed \<leftarrow> listRemoteResources r s (LogicalPath res) md;
       case listed of
         Err e \<Rightarrow>
           if IsCategory (Some e) NotFoundError then do {
             missing \<leftarrow> isMissingParentForCollectionNotFound r s res;
             ret (Handled (case missing of
                             Err p \<Rightarrow> Err p
                           | Ok True \<Rightarrow> Err e
                           | Ok False \<Rightarrow> Ok \<lparr>Value = VSlice [], Descriptor = PayloadDesc res\<rparr>)) }
           else if isFallbackListPayloadShapeError e then ret (Unhandled None)
           else ret (Handled (Err e))
       | Ok items \<Rightarrow>
           ret (Handled (Ok \<lparr>Value = listPayloadFromResources items,
                            Descriptor = (if items \<noteq> [] \<and> IsPayloadDescriptorExplicit (PayloadDesc (hd items))
                                          then PayloadDesc (hd items) else PayloadDesc res)\<rparr>)) } }"

section \<open>Reading\<close>

text \<open>The last fallback: the resource as an item of its collection.\<close>

definition fetch_from_collection ::
  "'w Orchestrator \<Rightarrow> 'w server \<Rightarrow> Resource \<Rightarrow> ResourceMetadata \<Rightarrow> go_error \<Rightarrow> ('w, Content result) state" where
  "fetch_from_collection r s res md miss = do {
     listed \<leftarrow> listRemoteResources r s (CollectionPath res) md;
     case listed of
       Err listErr \<Rightarrow>
         ret (if IsCategory (Some listErr) NotFoundError \<or> isFallbackListPayloadShapeError listErr then Err miss else Err listErr)
     | Ok candidates \<Rightarrow>
         (case remoteFallbackCandidates (orc_identity r) res candidates of
            Err e \<Rightarrow> ret (Err e)
          | Ok [one] \<Rightarrow> fetchRemoteValueForCandidate r s res md one
          | Ok _ \<Rightarrow>
              ret (if allowsSingletonListIdentityFallback (LogicalPath res) md candidates
                   then Ok (contentFromResource (hd candidates)) else Err miss)) }"

definition fetchRemoteValue :: "'w Orchestrator \<Rightarrow> Resource \<Rightarrow> ResourceMetadata \<Rightarrow> ('w, Content result) state" where
  "fetchRemoteValue r res md =
     (case requireServer r of
        Err e \<Rightarrow> ret (Err e)
      | Ok s \<Rightarrow> do {
          got \<leftarrow> srv_Get s res md;
          case got of
            Ok remoteValue \<Rightarrow> do {
              ambiguity \<leftarrow> detectRemoteIdentityAmbiguityAfterDirectGet r s res md;
              ret (case ambiguity of Some e \<Rightarrow> Err e | None \<Rightarrow> Ok remoteValue) }
          | Err e \<Rightarrow>
              if \<not> canUseRemoteCollectionCandidateFallback e then ret (Err e)
              else if IsCategory (Some e) ValidationError then do {
                candidate \<leftarrow> fetchRemoteValueFromCollectionCandidate r s res md;
                ret (case candidate of Handled v \<Rightarrow> v | Unhandled _ \<Rightarrow> Err e) }
              else do {
                byMetadata \<leftarrow> fetchRemoteMetadataPathFallbackValue r s res;
                case byMetadata of
                  Handled v \<Rightarrow> ret v
                | Unhandled _ \<Rightarrow> do {
                    collection \<leftarrow> fetchRemoteCollectionValue r s res md;
                    case collection of
                      Handled v \<Rightarrow> ret v
                    | Unhandled _ \<Rightarrow> fetch_from_collection r s res md e } } })"

definition GetRemote :: "'w Orchestrator \<Rightarrow> string \<Rightarrow> ('w, Content result) state" where
  "GetRemote r logicalPath =
     and_then (reads (\<lambda>w. buildResourceInfoForRemoteRead r w logicalPath)) (\<lambda>(res, md). fetchRemoteValue r res md)"

definition resolveListJQResource :: "'w Orchestrator \<Rightarrow> string \<Rightarrow> ('w, gval result) state" where
  "resolveListJQResource r logicalPath = and_then (GetRemote r logicalPath) (\<lambda>content. ret (Ok (Value content)))"

text \<open>The orchestrator whose lists may call it back, to a depth: \<open>withListJQResourceResolver\<close>.\<close>

fun linked :: "nat \<Rightarrow> 'w Orchestrator \<Rightarrow> 'w Orchestrator" where
  "linked 0 r = r"
| "linked (Suc depth) r = r\<lparr>orc_resolver := resolveListJQResource (linked depth r)\<rparr>"

definition ListRemote :: "'w Orchestrator \<Rightarrow> string \<Rightarrow> bool \<Rightarrow> ('w, Resource list result) state" where
  "ListRemote r logicalPath recursive =
     (case NormalizeLogicalPath logicalPath of
        Err e \<Rightarrow> ret (Err e)
      | Ok normalizedPath \<Rightarrow>
     (case requireServer r of
        Err e \<Rightarrow> ret (Err e)
      | Ok s \<Rightarrow>
          and_then (reads (\<lambda>w. resolveMetadataForPath r w normalizedPath True)) (\<lambda>md.
          and_then (listRemoteResources r s normalizedPath md) (\<lambda>items.
            let sorted' = sort_key LogicalPath items in
            ret (Ok (if recursive then sorted'
                     else filter (\<lambda>item. ChildSegment normalizedPath (LogicalPath item) \<noteq> None) sorted'))))))"

section \<open>Mutations\<close>

definition resolvePayloadForRemote :: "'w Orchestrator \<Rightarrow> string \<Rightarrow> Content \<Rightarrow> ('w, Content result) state" where
  "resolvePayloadForRemote r logicalPath content =
     (if Value content = VNil then ret (Ok content)
      else case NormalizeLogicalPath logicalPath of
             Err e \<Rightarrow> ret (Err e)
           | Ok normalizedPath \<Rightarrow>
               and_then
                 (State (\<lambda>w. prod.swap (ResolvePayloadDirectivesForResource (env_text (orc_env r)) (env_codecs (orc_env r))
                                 (env_base64 (orc_env r)) (Value content) normalizedPath (Descriptor content) (orc_secrets r) w)))
                 (\<lambda>resolved. ret (Ok \<lparr>Value = resolved, Descriptor = Descriptor content\<rparr>)))"

definition mutated_resource :: "Resource \<Rightarrow> Content \<Rightarrow> Resource result" where
  "mutated_resource res remotePayload =
     (let answered = Value remotePayload \<noteq> VNil in
      case Normalize (if answered then Value remotePayload else Payload res) of
        Err e \<Rightarrow> Err e
      | Ok normalizedPayload \<Rightarrow>
          Ok (res\<lparr>Payload := normalizedPayload, PayloadDesc := (if answered then Descriptor remotePayload else PayloadDesc res)\<rparr>))"

definition executeRemoteMutation ::
  "'w Orchestrator \<Rightarrow> Resource \<Rightarrow> ResourceMetadata \<Rightarrow> string \<Rightarrow> ('w, Resource result) state" where
  "executeRemoteMutation r res md operation =
     (case requireServer r of
        Err e \<Rightarrow> ret (Err e)
      | Ok s \<Rightarrow>
          if operation = ''create'' then and_then (srv_Create s res md) (\<lambda>remotePayload. ret (mutated_resource res remotePayload))
          else if operation = ''update'' then and_then (srv_Update s res md) (\<lambda>remotePayload. ret (mutated_resource res remotePayload))
          else ret (Err (NewTypedError ValidationError (''unsupported remote mutation operation %q'', [operation]) None)))"

definition prepareResourceForRemote ::
  "'w Orchestrator \<Rightarrow> string \<Rightarrow> Content \<Rightarrow> ('w, (Resource \<times> ResourceMetadata) result) state" where
  "prepareResourceForRemote r logicalPath content =
     and_then (reads (\<lambda>w. buildResourceInfo r w logicalPath content)) (\<lambda>(res, md).
     and_then (resolvePayloadForRemote r (LogicalPath res) (contentFromResource res)) (\<lambda>resolved.
       ret (Ok (res\<lparr>Payload := Value resolved, PayloadDesc := Descriptor resolved\<rparr>, md))))"

definition Create :: "'w Orchestrator \<Rightarrow> string \<Rightarrow> Content \<Rightarrow> ('w, Resource result) state" where
  "Create r logicalPath content =
     and_then (prepareResourceForRemote r logicalPath content) (\<lambda>(res, md). executeRemoteMutation r res md ''create'')"

definition Update :: "'w Orchestrator \<Rightarrow> string \<Rightarrow> Content \<Rightarrow> ('w, Resource result) state" where
  "Update r logicalPath content =
     and_then (prepareResourceForRemote r logicalPath content) (\<lambda>(res, md). executeRemoteMutation r res md ''update'')"

section \<open>Comparing\<close>

definition put_text :: "string \<Rightarrow> string \<Rightarrow> fields \<Rightarrow> fields" where
  "put_text key v m = (if trim_space v = [] then m else map_put key (VString (trim_space v)) m)"

definition compareInputForWholeResourceOpaquePayload ::
  "(string \<Rightarrow> string) \<Rightarrow> Resource \<Rightarrow> ResourceMetadata \<Rightarrow> PayloadDescriptor \<Rightarrow> gval" where
  "compareInputForWholeResourceOpaquePayload ul res md descriptor =
     (let resolved = NormalizePayloadDescriptor ul
            (if IsPayloadDescriptorExplicit descriptor then descriptor
             else case concrete_format ul md of None \<Rightarrow> descriptor | Some format \<Rightarrow> descriptor_of format [] []) in
      VMap (put_text ''payloadExtension'' (Extension resolved)
             (put_text ''contentType'' (MediaType resolved)
               (put_text ''payloadType'' (PayloadType resolved)
                 (put_text ''name'' (LocalAlias res) (put_text ''alias'' (LocalAlias res) (put_text ''id'' (RemoteID res) [])))))))"

definition isStructuredCompareValue :: "gval \<Rightarrow> bool" where
  "isStructuredCompareValue v = (case v of VMap m \<Rightarrow> True | VSlice items \<Rightarrow> True | _ \<Rightarrow> False)"

definition pair_result :: "'a result \<Rightarrow> 'b result \<Rightarrow> ('a \<times> 'b) result" where
  "pair_result a b = (case a of Err e \<Rightarrow> Err e | Ok x \<Rightarrow> (case b of Err e \<Rightarrow> Err e | Ok y \<Rightarrow> Ok (x, y)))"

definition compare_payload_type :: "(string \<Rightarrow> string) \<Rightarrow> Resource \<Rightarrow> ResourceMetadata \<Rightarrow> Content \<Rightarrow> string" where
  "compare_payload_type ul res md localContent =
     (if trim_space (PayloadType (Descriptor localContent)) \<noteq> [] then trim_space (PayloadType (Descriptor localContent))
      else if trim_space (PayloadType (PayloadDesc res)) \<noteq> [] then trim_space (PayloadType (PayloadDesc res))
      else case concrete_format ul md of Some format \<Rightarrow> format | None \<Rightarrow> ''json'')"

definition resolveComparedPayloads ::
  "'w Orchestrator \<Rightarrow> 'w \<Rightarrow> Resource \<Rightarrow> ResourceMetadata \<Rightarrow> Content \<Rightarrow> Content \<Rightarrow> (gval \<times> gval) result" where
  "resolveComparedPayloads r w res md localContent remoteContent =
     (case renderOperationSpec r w res md ''compare'' (Value localContent) of
        Err e \<Rightarrow> Err e
      | Ok compareSpec \<Rightarrow>
     (case ValidateConcreteResourceFormat (orc_lower r) (compare_payload_type (orc_lower r) res md localContent) of
        Err e \<Rightarrow> Err e
      | Ok payloadType \<Rightarrow>
          (let steps = or_else (op_Transforms compareSpec) [];
               transform = (\<lambda>v. applyCompareTransforms (env_jq (orc_env r)) v steps);
               opaque = compareInputForWholeResourceOpaquePayload (orc_lower r) res md in
           if IsStructuredPayloadType (orc_lower r) payloadType
           then pair_result (transform (Value localContent)) (transform (Value remoteContent))
           else if steps = [] then pair_result (Normalize (Value localContent)) (Normalize (Value remoteContent))
           else if \<not> IsWholeResourceSecret md
           then Err (Invalid (''compare transforms require structured payloads, got %q'', [payloadType]) None)
           else case transform (opaque (Descriptor localContent)) of
                  Err e \<Rightarrow> Err e
                | Ok localTransformed \<Rightarrow>
                    if Value remoteContent = VNil then Ok (localTransformed, VNil)
                    else case transform (if isStructuredCompareValue (Value remoteContent) then Value remoteContent
                                         else opaque (Descriptor remoteContent)) of
                           Err e \<Rightarrow> Err e
                         | Ok remoteTransformed \<Rightarrow> Ok (localTransformed, remoteTransformed))))"

section \<open>Applying\<close>

record ApplyConflictCheck =
  apply_LogicalPath :: string
  apply_CollectionPath :: string
  apply_RemoteID :: string

record 'w ApplyPolicy =
  policy_Force :: bool
  policy_Conflict :: "(ApplyConflictCheck \<Rightarrow> ('w, bool) state) option"

definition conflict_check :: "Resource \<Rightarrow> ApplyConflictCheck" where
  "conflict_check res =
     \<lparr>apply_LogicalPath = LogicalPath res, apply_CollectionPath = CollectionPath res, apply_RemoteID = RemoteID res\<rparr>"

definition create_or_update :: "'w Orchestrator \<Rightarrow> Resource \<Rightarrow> ResourceMetadata \<Rightarrow> ('w, Resource result) state" where
  "create_or_update r res md = do {
     item \<leftarrow> executeRemoteMutation r res md ''create'';
     case item of
       Ok created \<Rightarrow> ret (Ok created)
     | Err e \<Rightarrow> if IsCategory (Some e) ConflictError then executeRemoteMutation r res md ''update'' else ret (Err e) }"

text \<open>The remote resource exists: update it if it differs.\<close>

definition update_if_changed ::
  "'w Orchestrator \<Rightarrow> bool \<Rightarrow> Resource \<Rightarrow> ResourceMetadata \<Rightarrow> Content \<Rightarrow> ('w, Resource result) state" where
  "update_if_changed r force res md remoteValue =
     and_then (reads (\<lambda>w. resolveComparedPayloads r w res md (contentFromResource res) remoteValue))
       (\<lambda>(localForCompare, remoteForCompare).
         case resolvedRemoteIDFromPayload r md (Value remoteValue) of
           Err e \<Rightarrow> ret (Err e)
         | Ok found \<Rightarrow>
             (let res' = (case found of None \<Rightarrow> res | Some remoteID \<Rightarrow> res\<lparr>RemoteID := remoteID\<rparr>) in
              if localForCompare = remoteForCompare \<and> \<not> force
              then ret (case Normalize (Value remoteValue) of
                          Err e \<Rightarrow> Err e
                        | Ok normalizedRemote \<Rightarrow> Ok (res'\<lparr>Payload := normalizedRemote, PayloadDesc := Descriptor remoteValue\<rparr>))
              else executeRemoteMutation r res' md ''update''))"

definition apply_to_remote ::
  "'w Orchestrator \<Rightarrow> bool \<Rightarrow> Resource \<Rightarrow> ResourceMetadata \<Rightarrow> ('w, Resource result) state" where
  "apply_to_remote r force res md = do {
     remote \<leftarrow> fetchRemoteValue r res md;
     case remote of
       Err e \<Rightarrow> if \<not> IsCategory (Some e) NotFoundError then ret (Err e) else create_or_update r res md
     | Ok remoteValue \<Rightarrow> update_if_changed r force res md remoteValue }"

definition applyDesiredState ::
  "'w Orchestrator \<Rightarrow> string \<Rightarrow> Content \<Rightarrow> 'w ApplyPolicy \<Rightarrow> ('w, Resource result) state" where
  "applyDesiredState r logicalPath content policy =
     and_then (prepareResourceForRemote r logicalPath content) (\<lambda>(res, md). do {
       skip \<leftarrow> (case policy_Conflict policy of None \<Rightarrow> ret False | Some check \<Rightarrow> check (conflict_check res));
       if skip then ret (Ok res) else apply_to_remote r (policy_Force policy) res md })"

definition Apply :: "'w Orchestrator \<Rightarrow> string \<Rightarrow> 'w ApplyPolicy \<Rightarrow> ('w, Resource result) state" where
  "Apply r logicalPath policy =
     and_then (reads (\<lambda>w. resolveLocalResourceForRead r w logicalPath))
       (\<lambda>res. applyDesiredState r (LogicalPath res) (contentFromResource res) policy)"

definition ApplyWithContent :: "'w Orchestrator \<Rightarrow> string \<Rightarrow> Content \<Rightarrow> 'w ApplyPolicy \<Rightarrow> ('w, Resource result) state" where
  "ApplyWithContent r logicalPath content policy = applyDesiredState r logicalPath content policy"

section \<open>Deleting\<close>

text \<open>The second delete, of the resource a fetch found, after the first one was answered with
  not found.\<close>

definition delete_fetched :: "'w Orchestrator \<Rightarrow> 'w server \<Rightarrow> Resource \<Rightarrow> ResourceMetadata \<Rightarrow> ('w, go_error option) state" where
  "delete_fetched r s res md = do {
     remote \<leftarrow> fetchRemoteValue r res md;
     case remote of
       Err e \<Rightarrow> ret (Some e)
     | Ok remoteValue \<Rightarrow>
         (case Normalize (Value remoteValue) of
            Err e \<Rightarrow> ret (Some e)
          | Ok normalizedPayload \<Rightarrow>
              (case resolveResourceIdentity r (LogicalPath res) md normalizedPayload of
                 Err e \<Rightarrow> ret (Some e)
               | Ok (localAlias, remoteID) \<Rightarrow>
                   srv_Delete s (res\<lparr>Payload := normalizedPayload, PayloadDesc := Descriptor remoteValue,
                                     LocalAlias := localAlias, RemoteID := remoteID\<rparr>) md)) }"

definition after_delete ::
  "'w Orchestrator \<Rightarrow> 'w server \<Rightarrow> Resource \<Rightarrow> ResourceMetadata \<Rightarrow> go_error \<Rightarrow> ('w, go_error option) state" where
  "after_delete r s res md e = (if \<not> IsCategory (Some e) NotFoundError then ret (Some e) else delete_fetched r s res md)"

text \<open>After a refusal as invalid: the item of the collection that has the identity.\<close>

definition delete_candidate ::
  "'w Orchestrator \<Rightarrow> 'w server \<Rightarrow> Resource \<Rightarrow> ResourceMetadata \<Rightarrow> go_error \<Rightarrow> ('w, go_error option) state" where
  "delete_candidate r s res md e = do {
     found \<leftarrow> resolveRemoteCollectionCandidate r s res md;
     case found of
       Unhandled (Some candidateErr) \<Rightarrow> ret (Some candidateErr)
     | Handled (Err candidateErr) \<Rightarrow> ret (Some candidateErr)
     | Unhandled None \<Rightarrow> after_delete r s res md e
     | Handled (Ok candidate) \<Rightarrow>
         (let res' = remoteReadResourceFromFallbackCandidate (orc_identity r) res candidate in
          do {
            again \<leftarrow> srv_Delete s res' md;
            case again of None \<Rightarrow> ret None | Some e' \<Rightarrow> after_delete r s res' md e' }) }"

definition Delete :: "'w Orchestrator \<Rightarrow> string \<Rightarrow> ('w, go_error option) state" where
  "Delete r logicalPath =
     (case requireServer r of
        Err e \<Rightarrow> ret (Some e)
      | Ok s \<Rightarrow> do {
          info \<leftarrow> reads (\<lambda>w. buildResourceInfoForRemoteRead r w logicalPath);
          case info of
            Err e \<Rightarrow> ret (Some e)
          | Ok (res, md) \<Rightarrow> do {
              deleted \<leftarrow> srv_Delete s res md;
              case deleted of
                None \<Rightarrow> ret None
              | Some e \<Rightarrow>
                  if IsCategory (Some e) ValidationError then delete_candidate r s res md e else after_delete r s res md e } })"

section \<open>Differences and templates\<close>

record DiffDocument =
  doc_ResourcePath :: string
  doc_Local :: Content
  doc_Remote :: Content
  doc_Entries :: "DiffEntry list"

text \<open>The order of \<open>sort.Slice\<close>: by resource path, then pointer, then operation.\<close>

definition sort_entries :: "DiffEntry list \<Rightarrow> DiffEntry list" where
  "sort_entries entries = sort_key ResourcePath (sort_key Path (sort_key Operation entries))"

definition diff_document :: "'w Orchestrator \<Rightarrow> 'w \<Rightarrow> Resource \<Rightarrow> ResourceMetadata \<Rightarrow> Content \<Rightarrow> Content \<Rightarrow> DiffDocument result" where
  "diff_document r w res md localForCompare remoteValue =
     (case resolveComparedPayloads r w res md localForCompare remoteValue of
        Err e \<Rightarrow> Err e
      | Ok (localTransformed, remoteTransformed) \<Rightarrow>
          Ok \<lparr>doc_ResourcePath = LogicalPath res,
              doc_Local = \<lparr>Value = localTransformed, Descriptor = Descriptor localForCompare\<rparr>,
              doc_Remote = \<lparr>Value = remoteTransformed, Descriptor = Descriptor remoteValue\<rparr>,
              doc_Entries = sort_entries (buildDiffEntries (LogicalPath res) localTransformed remoteTransformed)\<rparr>)"

definition DiffDocument_of :: "'w Orchestrator \<Rightarrow> string \<Rightarrow> ('w, DiffDocument result) state" where
  "DiffDocument_of r logicalPath =
     and_then (reads (\<lambda>w. resolveLocalResourceForRead r w logicalPath)) (\<lambda>localResource.
     and_then (reads (\<lambda>w. buildResourceInfo r w (LogicalPath localResource) (contentFromResource localResource))) (\<lambda>(res0, md).
     and_then (resolvePayloadForRemote r (LogicalPath res0) (contentFromResource res0)) (\<lambda>localForCompare.
       let res = res0\<lparr>Payload := Value localForCompare, PayloadDesc := Descriptor localForCompare\<rparr> in
       do {
         remote \<leftarrow> fetchRemoteValue r res md;
         case remote of
           Ok remoteValue \<Rightarrow> reads (\<lambda>w. diff_document r w res md localForCompare remoteValue)
         | Err e \<Rightarrow>
             if IsCategory (Some e) NotFoundError
             then reads (\<lambda>w. diff_document r w res md localForCompare empty_content)
             else ret (Err e) })))"

definition Diff :: "'w Orchestrator \<Rightarrow> string \<Rightarrow> ('w, DiffEntry list result) state" where
  "Diff r logicalPath = and_then (DiffDocument_of r logicalPath) (\<lambda>document. ret (Ok (doc_Entries document)))"

definition Template_Of :: "'w Orchestrator \<Rightarrow> 'w \<Rightarrow> string \<Rightarrow> Content \<Rightarrow> Content result" where
  "Template_Of r w logicalPath content =
     (case buildResourceInfo r w logicalPath content of
        Err e \<Rightarrow> Err e
      | Ok (res, md) \<Rightarrow>
     (case renderOperationSpec r w res md ''update'' (Payload res) of
        Err e \<Rightarrow> Err e
      | Ok spec \<Rightarrow>
          if op_Body spec \<noteq> VNil then
            (case Normalize (op_Body spec) of
               Err e \<Rightarrow> Err e
             | Ok normalizedBody \<Rightarrow> Ok \<lparr>Value = normalizedBody, Descriptor = PayloadDesc res\<rparr>)
          else
            (case snd (ResolvePayloadDirectivesForResource (env_text (orc_env r)) (env_codecs (orc_env r)) (env_base64 (orc_env r))
                         (Payload res) (LogicalPath res) (PayloadDesc res) None w) of
               Err e \<Rightarrow> Err e
             | Ok resolvedPayload \<Rightarrow>
                 (case Normalize resolvedPayload of
                    Err e \<Rightarrow> Err e
                  | Ok normalizedPayload \<Rightarrow> Ok \<lparr>Value = normalizedPayload, Descriptor = PayloadDesc res\<rparr>))))"

end
