(* ===== verification/Orchestrator_Request.thy ===== *)
theory Orchestrator_Request
  imports Orchestrator_Remote
begin

text \<open>
  Raw requests through the metadata: src/internal/orchestrator/request.go, with
  src/managedservice/paths.go and src/metadata/request_validation_context.go.
\<close>

definition NormalizeRequestPath :: "string \<Rightarrow> string" where
  "NormalizeRequestPath v =
     (let trimmed = trim_space v in
      if trimmed = [] then []
      else let rooted = (if prefix ''/'' trimmed then trimmed else ''/'' @ trimmed)
           in if rooted \<noteq> ''/'' then trim_suffix rooted ''/'' else rooted)"

definition upper_trim :: "'w Orchestrator \<Rightarrow> string \<Rightarrow> string" where
  "upper_trim r method = to_upper (id_upper (orc_identity r)) (trim_space method)"

definition requestMetadataOperation :: "string \<Rightarrow> string option" where
  "requestMetadataOperation method =
     (if method = ''GET'' then Some ''get''
      else if method = ''POST'' then Some ''create''
      else if method = ''PUT'' \<or> method = ''PATCH'' then Some ''update''
      else if method = ''DELETE'' then Some ''delete''
      else None)"

definition requestOperationAllowsCollectionCandidateFallback :: "string \<Rightarrow> bool" where
  "requestOperationAllowsCollectionCandidateFallback operation = (operation = ''get'' \<or> operation = ''delete'')"

definition shouldResolveRequestGetAsList :: "Resource \<Rightarrow> ResourceMetadata \<Rightarrow> bool" where
  "shouldResolveRequestGetAsList res md =
     (let templateDepth = length (SplitRawPathSegments (md_RemoteCollectionPath md));
          logicalDepth = length (SplitRawPathSegments (LogicalPath res)) in
      trim_space (md_RemoteCollectionPath md) \<noteq> []
      \<and> (case map_get (or_else (md_Operations md) []) ''get'' of
           None \<Rightarrow> True | Some getSpec \<Rightarrow> trim_space (op_Path getSpec) = [])
      \<and> templateDepth \<noteq> 0 \<and> logicalDepth \<noteq> 0 \<and> logicalDepth \<le> templateDepth)"

definition sameNormalizedRequestPath :: "string \<Rightarrow> string \<Rightarrow> bool" where
  "sameNormalizedRequestPath first second =
     (case (NormalizeLogicalPath first, NormalizeLogicalPath second) of
        (Ok a, Ok b) \<Rightarrow> a = b
      | _ \<Rightarrow> NormalizeRequestPath first = NormalizeRequestPath second)"

definition requestBodyContent :: "(string \<Rightarrow> string) \<Rightarrow> gval \<Rightarrow> string \<Rightarrow> Content" where
  "requestBodyContent ul v contentType =
     (if v = VNil then empty_content
      else \<lparr>Value = v,
            Descriptor = (if trim_space contentType \<noteq> [] then NormalizePayloadDescriptor ul (descriptor_of [] contentType [])
                          else empty_descriptor)\<rparr>)"

definition overlay :: "string_map option \<Rightarrow> string_map option \<Rightarrow> string_map option" where
  "overlay base resolved =
     (case base of
        None \<Rightarrow> resolved
      | Some entries \<Rightarrow>
          if entries = [] then resolved else Some (fold (\<lambda>(k, v). map_put k v) entries (or_else resolved [])))"

definition requestSpecFromOperationSpec :: "'w Orchestrator \<Rightarrow> RequestSpec \<Rightarrow> OperationSpec \<Rightarrow> RequestSpec" where
  "requestSpecFromOperationSpec r base spec =
     (let method = upper_trim r (op_Method spec);
          body = requestBodyContent (orc_lower r) (op_Body spec) (op_ContentType spec) in
      \<lparr>req_Method = (if method = [] then upper_trim r (req_Method base) else method),
       req_Path = op_Path spec,
       req_Query = overlay (req_Query base) (op_Query spec),
       req_Headers = overlay (req_Headers base) (op_Headers spec),
       req_Accept = (if trim_space (req_Accept base) \<noteq> [] then req_Accept base else op_Accept spec),
       req_ContentType = (if trim_space (req_ContentType base) \<noteq> [] then req_ContentType base else op_ContentType spec),
       req_Body = (if requestBodyPresent (req_Body base) \<and> \<not> requestBodyPresent body then req_Body base else body)\<rparr>)"

definition cloneRequestSpec :: "RequestSpec \<Rightarrow> RequestSpec" where
  "cloneRequestSpec v =
     \<lparr>req_Method = req_Method v, req_Path = req_Path v, req_Query = req_Query v, req_Headers = req_Headers v,
      req_Accept = req_Accept v, req_ContentType = req_ContentType v, req_Body = req_Body v\<rparr>"

definition WithRequestOperationValidation ::
  "string \<Rightarrow> ResourceOperationSpecInput \<Rightarrow> OperationValidationSpec option \<Rightarrow> request_validation" where
  "WithRequestOperationValidation operation input validate =
     (if operation \<notin> set operation_names then None
      else map_option (\<lambda>v. (operation, input\<lparr>in_PayloadDescriptor := empty_descriptor, in_Metadata := CloneResourceMetadata (in_Metadata input)\<rparr>, v))
             (cloneOperationValidationSpec validate))"

text \<open>The specification of an operation; if rendering refuses the resource as requested, of the item of
  the collection it names.\<close>

definition render_for_request ::
  "'w Orchestrator \<Rightarrow> Resource \<Rightarrow> ResourceMetadata \<Rightarrow> string \<Rightarrow> ('w, (Resource \<times> OperationSpec) result) state" where
  "render_for_request r res md operation = do {
     rendered \<leftarrow> reads (\<lambda>w. renderOperationSpec r w res md operation (Payload res));
     case rendered of
       Ok spec \<Rightarrow> ret (Ok (res, spec))
     | Err e \<Rightarrow>
         if \<not> (IsCategory (Some e) ValidationError \<and> requestOperationAllowsCollectionCandidateFallback operation) then ret (Err e)
         else case requireServer r of
                Err serverErr \<Rightarrow> ret (Err serverErr)
              | Ok s \<Rightarrow> do {
                  found \<leftarrow> resolveRemoteCollectionCandidate r s res md;
                  case found of
                    Unhandled (Some candidateErr) \<Rightarrow> ret (Err candidateErr)
                  | Handled (Err candidateErr) \<Rightarrow> ret (Err candidateErr)
                  | Unhandled None \<Rightarrow> ret (Err e)
                  | Handled (Ok candidate) \<Rightarrow>
                      (let res' = remoteReadResourceFromFallbackCandidate (orc_identity r) res candidate in
                       and_then (reads (\<lambda>w. renderOperationSpec r w res' md operation (Payload res')))
                         (\<lambda>spec. ret (Ok (res', spec)))) } }"

definition request_resource :: "RequestSpec \<Rightarrow> string \<Rightarrow> Resource \<Rightarrow> Resource result" where
  "request_resource requestSpec operation res =
     (let res' = (if operation = ''create'' \<or> operation = ''list'' then res\<lparr>CollectionPath := LogicalPath res\<rparr> else res) in
      if \<not> requestBodyPresent (req_Body requestSpec) then Ok res'
      else case Normalize (Value (req_Body requestSpec)) of
             Err e \<Rightarrow> Err e
           | Ok normalizedBody \<Rightarrow> Ok (res'\<lparr>Payload := normalizedBody, PayloadDesc := Descriptor (req_Body requestSpec)\<rparr>))"

definition resolveRequestSpec ::
  "'w Orchestrator \<Rightarrow> RequestSpec \<Rightarrow> ('w, (RequestSpec \<times> request_validation) result) state" where
  "resolveRequestSpec r requestSpec =
     (let normalizedMethod = upper_trim r (req_Method requestSpec) in
      case requestMetadataOperation normalizedMethod of
        None \<Rightarrow> ret (Ok ((cloneRequestSpec requestSpec)\<lparr>req_Method := normalizedMethod,
                            req_Path := NormalizeRequestPath (req_Path requestSpec)\<rparr>, None))
      | Some operation0 \<Rightarrow>
          and_then (reads (\<lambda>w. buildResourceInfoForRemoteRead r w (req_Path requestSpec))) (\<lambda>(res, md).
            let operation = (if normalizedMethod = ''GET'' \<and> shouldResolveRequestGetAsList res md then ''list'' else operation0) in
            and_then (ret (request_resource requestSpec operation res)) (\<lambda>res'.
            and_then (render_for_request r res' md operation) (\<lambda>(res'', spec).
              ret (Ok (requestSpecFromOperationSpec r requestSpec spec,
                       WithRequestOperationValidation operation (spec_input res'' md (Payload res'')) (op_Validate spec)))))))"

definition retryRequestResolvedMutationWithLiteralPath ::
  "'w Orchestrator \<Rightarrow> 'w server \<Rightarrow> request_validation \<Rightarrow> RequestSpec \<Rightarrow> RequestSpec \<Rightarrow> go_error \<Rightarrow> ('w, Content handled) state" where
  "retryRequestResolvedMutationWithLiteralPath r s validation original resolved requestErr =
     (let normalizedMethod = upper_trim r (req_Method original) in
      if normalizedMethod \<noteq> ''PUT'' \<and> normalizedMethod \<noteq> ''PATCH'' then ret (Unhandled None)
      else if \<not> IsCategory (Some requestErr) NotFoundError then ret (Unhandled None)
      else if sameNormalizedRequestPath (req_Path original) (req_Path resolved) then ret (Unhandled None)
      else do {
        v \<leftarrow> srv_Request s validation ((cloneRequestSpec resolved)\<lparr>req_Path := req_Path original\<rparr>);
        ret (Handled v) })"

definition retryRequestNotFoundWithMetadata ::
  "'w Orchestrator \<Rightarrow> 'w server \<Rightarrow> request_validation \<Rightarrow> RequestSpec \<Rightarrow> ('w, Content handled) state" where
  "retryRequestNotFoundWithMetadata r s validation requestSpec =
     (let normalizedMethod = upper_trim r (req_Method requestSpec) in
      if normalizedMethod = ''GET'' then do { v \<leftarrow> GetRemote r (req_Path requestSpec); ret (Handled v) }
      else if normalizedMethod = ''DELETE'' then do {
        v \<leftarrow> and_then (reads (\<lambda>w. buildResourceInfoForRemoteRead r w (req_Path requestSpec))) (\<lambda>(res, md).
             and_then (fetchRemoteValue r res md) (\<lambda>remoteValue.
             and_then (ret (Normalize (Value remoteValue))) (\<lambda>normalizedPayload.
             and_then (ret (resolveResourceIdentity r (LogicalPath res) md normalizedPayload)) (\<lambda>(localAlias, remoteID).
               let res' = res\<lparr>Payload := normalizedPayload, PayloadDesc := Descriptor remoteValue,
                              LocalAlias := localAlias, RemoteID := remoteID\<rparr> in
               and_then (reads (\<lambda>w. renderOperationSpec r w res' md ''delete'' (Payload res'))) (\<lambda>spec.
                 srv_Request s validation (requestSpecFromOperationSpec r requestSpec spec))))));
        ret (Handled v) }
      else ret (Unhandled None))"

definition Request :: "'w Orchestrator \<Rightarrow> RequestSpec \<Rightarrow> ('w, Content result) state" where
  "Request r requestSpec =
     (case requireServer r of
        Err e \<Rightarrow> ret (Err e)
      | Ok s \<Rightarrow>
          and_then (resolveRequestSpec r requestSpec) (\<lambda>(resolvedRequest, validation). do {
            answer \<leftarrow> srv_Request s validation resolvedRequest;
            case answer of
              Ok v \<Rightarrow> ret (Ok v)
            | Err e \<Rightarrow> do {
                literal \<leftarrow> retryRequestResolvedMutationWithLiteralPath r s validation requestSpec resolvedRequest e;
                case literal of
                  Handled v \<Rightarrow> ret v
                | Unhandled _ \<Rightarrow>
                    if \<not> IsCategory (Some e) NotFoundError then ret (Err e)
                    else do {
                      byMetadata \<leftarrow> retryRequestNotFoundWithMetadata r s validation requestSpec;
                      ret (case byMetadata of Handled v \<Rightarrow> v | Unhandled _ \<Rightarrow> Err e) } } }))"

definition GetOpenAPISpec :: "'w Orchestrator \<Rightarrow> ('w, Content result) state" where
  "GetOpenAPISpec r = (case requireServer r of Err e \<Rightarrow> ret (Err e) | Ok s \<Rightarrow> srv_OpenAPI s)"

end
