(* ===== verification/Openapi_Schema.thy ===== *)
theory Openapi_Schema
  imports Orchestrator_Request
begin

text \<open>
  OpenAPI documents in the managed service client: openapi_helpers.go, schema_introspection.go,
  schema_resolution.go and schema_validation.go of src/internal/providers/managedservice/http.

  A document is the object that \<open>encoding/json\<close> or the YAML library gives, after \<open>normalizeDynamicValue\<close>:
  it has no \<open>map[any]any\<close> left, so \<open>asStringAnyMap\<close> has the one case.  A set of names is a list here, and a loop over
  a Go map visits the keys in order: in the source the order is arbitrary, which decides at most which of several errors
  is reported.
\<close>

section \<open>Reading documents\<close>

definition doc_field :: "fields \<Rightarrow> string \<Rightarrow> gval" where
  "doc_field m key = or_else (map_get m key) VNil"

definition asStringAnyMap :: "gval \<Rightarrow> fields option" where
  "asStringAnyMap v = (case v of VMap m \<Rightarrow> Some m | _ \<Rightarrow> None)"

definition schemaSlice :: "gval \<Rightarrow> gval list option" where
  "schemaSlice v = (case v of VSlice xs \<Rightarrow> Some xs | _ \<Rightarrow> None)"

text \<open>The keys of a map that only reflection reads are their printed texts.\<close>

fun normalizeDynamicValue :: "gval \<Rightarrow> gval"
  and normalize_dynamic_entries :: "(string \<times> gval) list \<Rightarrow> fields"
  and normalize_dynamic_items :: "gval list \<Rightarrow> gval list" where
  "normalizeDynamicValue (VMap m) = VMap (normalize_dynamic_entries m)"
| "normalizeDynamicValue (VReflMap stringKeys m) = VMap (normalize_dynamic_entries m)"
| "normalizeDynamicValue (VSlice xs) = VSlice (normalize_dynamic_items xs)"
| "normalizeDynamicValue v = v"
| "normalize_dynamic_entries [] = []"
| "normalize_dynamic_entries ((key, item) # m) = map_put key (normalizeDynamicValue item) (normalize_dynamic_entries m)"
| "normalize_dynamic_items [] = []"
| "normalize_dynamic_items (x # xs) = normalizeDynamicValue x # normalize_dynamic_items xs"

definition dynamic_object :: "gval \<Rightarrow> fields option" where
  "dynamic_object v = asStringAnyMap (normalizeDynamicValue v)"

section \<open>Paths and methods\<close>

definition split_path_segments :: "string \<Rightarrow> string list" where
  "split_path_segments v =
     (let trimmed = trim_char (trim_space v) slash in if trimmed = [] then [] else split_on slash trimmed)"

definition isOpenAPIPathVariable :: "string \<Rightarrow> bool" where
  "isOpenAPIPathVariable segment = (prefix ''{'' segment \<and> suffix ''}'' segment \<and> length segment > 2)"

fun match_segments :: "string list \<Rightarrow> string list \<Rightarrow> nat option" where
  "match_segments (t # ts) (q # qs) =
     (if isOpenAPIPathVariable t then map_option Suc (match_segments ts qs)
      else if t = q then match_segments ts qs else None)"
| "match_segments [] [] = Some 0"
| "match_segments _ _ = None"

definition openAPIPathMatches :: "string \<Rightarrow> string \<Rightarrow> nat option" where
  "openAPIPathMatches templatePath requestPath =
     (let template = NormalizeRequestPath templatePath; request = NormalizeRequestPath requestPath in
      if template = request then Some 0
      else match_segments (split_path_segments template) (split_path_segments request))"

definition path_candidates :: "fields \<Rightarrow> string \<Rightarrow> (nat \<times> string \<times> fields) list" where
  "path_candidates paths request =
     List.map_filter (\<lambda>(key, v).
       case (dynamic_object v, openAPIPathMatches key request) of
         (Some pathItem, Some vars) \<Rightarrow> Some (vars, key, pathItem)
       | _ \<Rightarrow> None) paths"

definition findOpenAPIPathItem :: "fields \<Rightarrow> string \<Rightarrow> (string \<times> fields) option" where
  "findOpenAPIPathItem document requestPath =
     (case map_get document ''paths'' of
        None \<Rightarrow> None
      | Some pathsValue \<Rightarrow>
     (case dynamic_object pathsValue of
        None \<Rightarrow> None
      | Some paths \<Rightarrow>
          (let request = NormalizeRequestPath requestPath in
           if request = [] then None
           else case Option.bind (map_get paths request) dynamic_object of
                  Some pathItem \<Rightarrow> Some (request, pathItem)
                | None \<Rightarrow>
                    (case sort_key fst (sort_key (fst \<circ> snd) (path_candidates paths request)) of
                       [] \<Rightarrow> None
                     | best # _ \<Rightarrow> Some (snd best)))))"

definition NormalizeHTTPMethod :: "(string \<Rightarrow> string) \<Rightarrow> string \<Rightarrow> string" where
  "NormalizeHTTPMethod ul method = to_lower ul (trim_space method)"

definition openAPIPathMethod :: "(string \<Rightarrow> string) \<Rightarrow> fields \<Rightarrow> string \<Rightarrow> fields option" where
  "openAPIPathMethod ul pathItem method = Option.bind (map_get pathItem (NormalizeHTTPMethod ul method)) dynamic_object"

definition preferredMethodsForOperation :: "string \<Rightarrow> string list" where
  "preferredMethodsForOperation operation =
     (if operation = ''create'' then [''post'', ''put'']
      else if operation = ''update'' then [''put'', ''patch'', ''post'']
      else if operation = ''delete'' then [''delete'']
      else if operation \<in> {''list'', ''get'', ''compare''} then [''get'']
      else [''get'', ''post'', ''put'', ''patch'', ''delete''])"

definition inferMethodFromPathItem :: "(string \<Rightarrow> string) \<Rightarrow> fields \<Rightarrow> string \<Rightarrow> string" where
  "inferMethodFromPathItem ul pathItem operation =
     (case find (\<lambda>method. openAPIPathMethod ul pathItem method \<noteq> None) (preferredMethodsForOperation operation) of
        None \<Rightarrow> [] | Some method \<Rightarrow> to_upper (\<lambda>s. s) method)"

definition first_content_type :: "gval \<Rightarrow> string" where
  "first_content_type v =
     (case dynamic_object v of
        None \<Rightarrow> []
      | Some content \<Rightarrow> (case sort (map_keys content) of [] \<Rightarrow> [] | key # _ \<Rightarrow> key))"

definition contentTypeFromResponseEntry :: "gval \<Rightarrow> string" where
  "contentTypeFromResponseEntry entry =
     (case dynamic_object entry of None \<Rightarrow> [] | Some response \<Rightarrow> first_content_type (doc_field response ''content''))"

definition inferAcceptContentType :: "fields \<Rightarrow> string" where
  "inferAcceptContentType operation =
     (case dynamic_object (doc_field operation ''responses'') of
        None \<Rightarrow> []
      | Some responses \<Rightarrow>
          (case filter (\<lambda>c. c \<noteq> []) (map (\<lambda>status. contentTypeFromResponseEntry (doc_field responses status))
                  ([''200'', ''201'', ''202'', ''default''] @ sort (map_keys responses))) of
             [] \<Rightarrow> [] | c # _ \<Rightarrow> c))"

definition inferRequestContentType :: "fields \<Rightarrow> string" where
  "inferRequestContentType operation = contentTypeFromResponseEntry (doc_field operation ''requestBody'')"

section \<open>Schemas\<close>

definition maxSchemaDepth :: nat where
  "maxSchemaDepth = 96"

definition collect_names :: "(string \<Rightarrow> string) \<Rightarrow> gval list \<Rightarrow> string list" where
  "collect_names f raws =
     fold (\<lambda>raw names.
             case raw of
               VString name \<Rightarrow> (let trimmed = f (trim_space name) in
                 if trimmed = [] \<or> trimmed \<in> set names then names else names @ [trimmed])
             | _ \<Rightarrow> names) raws []"

definition requiredPropertyNames :: "gval \<Rightarrow> string list" where
  "requiredPropertyNames v = (case schemaSlice v of None \<Rightarrow> [] | Some raws \<Rightarrow> collect_names (\<lambda>s. s) raws)"

definition schemaTypeNames :: "(string \<Rightarrow> string) \<Rightarrow> gval \<Rightarrow> string list" where
  "schemaTypeNames ul v =
     (case v of
        VString single \<Rightarrow> (let trimmed = to_lower ul (trim_space single) in if trimmed = [] then [] else [trimmed])
      | VSlice raws \<Rightarrow> collect_names (to_lower ul) raws
      | _ \<Rightarrow> [])"

definition schemaTypeContains :: "(string \<Rightarrow> string) \<Rightarrow> gval \<Rightarrow> string \<Rightarrow> bool" where
  "schemaTypeContains ul v expected =
     (let normalized = to_lower ul (trim_space expected) in normalized \<noteq> [] \<and> normalized \<in> set (schemaTypeNames ul v))"

fun integral :: "float64 \<Rightarrow> bool" where
  "integral (Fin q) = (of_int \<lfloor>q\<rfloor> = q)"
| "integral (Inf b) = True"
| "integral NaN = False"

definition is_number :: "gval \<Rightarrow> bool" where
  "is_number v = (case v of VInt k n \<Rightarrow> True | VUint k n \<Rightarrow> True | VFloat x \<Rightarrow> True | VFloat32 x \<Rightarrow> True | _ \<Rightarrow> False)"

definition is_integer :: "gval \<Rightarrow> bool" where
  "is_integer v =
     (case v of VInt k n \<Rightarrow> True | VUint k n \<Rightarrow> True | VFloat x \<Rightarrow> integral x | VFloat32 x \<Rightarrow> integral x | _ \<Rightarrow> False)"

definition valueMatchesSchemaType :: "(string \<Rightarrow> string) \<Rightarrow> gval \<Rightarrow> string \<Rightarrow> bool" where
  "valueMatchesSchemaType ul v schemaType =
     (let ty = to_lower ul (trim_space schemaType) in
      if ty = ''null'' then v = VNil
      else if ty = ''boolean'' then (case v of VBool b \<Rightarrow> True | _ \<Rightarrow> False)
      else if ty = ''string'' then (case v of VString s \<Rightarrow> True | _ \<Rightarrow> False)
      else if ty = ''object'' then (case v of VMap m \<Rightarrow> True | _ \<Rightarrow> False)
      else if ty = ''array'' then (case v of VSlice xs \<Rightarrow> True | _ \<Rightarrow> False)
      else if ty = ''integer'' then is_integer v
      else if ty = ''number'' then is_number v
      else False)"

text \<open>Payloads are normalised, so that the last cases are those of a binary value.\<close>

fun describeValueType :: "gval \<Rightarrow> string" where
  "describeValueType VNil = ''null''"
| "describeValueType (VMap m) = ''object''"
| "describeValueType (VSlice xs) = ''array''"
| "describeValueType (VString s) = ''string''"
| "describeValueType (VBool b) = ''boolean''"
| "describeValueType (VInt k n) = ''integer''"
| "describeValueType (VUint k n) = ''integer''"
| "describeValueType (VFloat x) = ''number''"
| "describeValueType (VFloat32 x) = ''number''"
| "describeValueType (VOther ty) = ty"
| "describeValueType v = ''resource.BinaryValue''"

definition dotPath :: "string \<Rightarrow> string \<Rightarrow> string" where
  "dotPath base name =
     (let trimmedField = trim_space name in
      if trimmedField = [] then base
      else if base = [] \<or> base = ''$'' then ''$.'' @ trimmedField
      else base @ ''.'' @ trimmedField)"

section \<open>References\<close>

fun walk_object :: "gval \<Rightarrow> string list \<Rightarrow> gval option" where
  "walk_object current [] = Some current"
| "walk_object current (raw # raws) =
     (case asStringAnyMap current of
        None \<Rightarrow> None
      | Some m \<Rightarrow>
          (case map_get m (replace_all (replace_all raw ''~1'' ''/'') ''~0'' ''~'') of
             None \<Rightarrow> None
           | Some v \<Rightarrow> walk_object v raws))"

definition resolveOpenAPIJSONPointer :: "fields \<Rightarrow> string \<Rightarrow> gval option" where
  "resolveOpenAPIJSONPointer document ref =
     (let trimmedRef = trim_space ref in
      if \<not> prefix ''#/'' trimmedRef then None
      else let pointer = drop 2 trimmedRef in
        if trim_space pointer = [] then Some (VMap document)
        else walk_object (VMap document) (split_on slash pointer))"

text \<open>What a \<open>$ref\<close> says: nothing, an unusable reference, or its trimmed text.\<close>

datatype reference = No_Ref | Bad_Ref | Ref string

definition reference_of :: "fields \<Rightarrow> reference" where
  "reference_of m =
     (case map_get m ''$ref'' of
        None \<Rightarrow> No_Ref
      | Some (VString ref) \<Rightarrow> if trim_space ref = [] then Bad_Ref else Ref (trim_space ref)
      | Some _ \<Rightarrow> Bad_Ref)"

function resolveOpenAPIValueRef :: "fields \<Rightarrow> gval \<Rightarrow> string list \<Rightarrow> nat \<Rightarrow> gval option" where
  "resolveOpenAPIValueRef document v visited depth =
     (if depth > maxSchemaDepth then None
      else case asStringAnyMap v of
             None \<Rightarrow> Some v
           | Some m \<Rightarrow>
               (case reference_of m of
                  No_Ref \<Rightarrow> Some v
                | Bad_Ref \<Rightarrow> None
                | Ref ref \<Rightarrow>
                    if ref \<in> set visited then None
                    else case resolveOpenAPIJSONPointer document ref of
                           None \<Rightarrow> None
                         | Some resolved \<Rightarrow> resolveOpenAPIValueRef document resolved (ref # visited) (Suc depth)))"
  by pat_completeness auto
termination by (relation "measure (\<lambda>(d, v, vs, depth). Suc maxSchemaDepth - depth)") auto

function resolveSchemaValue :: "fields \<Rightarrow> gval \<Rightarrow> string list \<Rightarrow> nat \<Rightarrow> fields result" where
  "resolveSchemaValue document schema visitedRefs depth =
     (if depth > maxSchemaDepth then Err (PlainError (msg ''schema reference depth exceeded'') None)
      else case asStringAnyMap schema of
             None \<Rightarrow> Ok []
           | Some schemaMap \<Rightarrow>
               (case reference_of schemaMap of
                  No_Ref \<Rightarrow> Ok schemaMap
                | Bad_Ref \<Rightarrow> Err (PlainError (msg ''schema $ref must be a non-empty string'') None)
                | Ref ref \<Rightarrow>
                    if ref \<in> set visitedRefs then Err (PlainError (''schema reference cycle detected for %q'', [ref]) None)
                    else case resolveOpenAPIJSONPointer document ref of
                           None \<Rightarrow> Err (PlainError (''schema reference %q was not found'', [ref]) None)
                         | Some resolved \<Rightarrow> resolveSchemaValue document resolved (ref # visitedRefs) (Suc depth)))"
  by pat_completeness auto
termination by (relation "measure (\<lambda>(d, v, vs, depth). Suc maxSchemaDepth - depth)") auto

declare resolveOpenAPIValueRef.simps [simp del] resolveSchemaValue.simps [simp del]

function topLevelSchemaObjectFieldNames :: "gval \<Rightarrow> fields \<Rightarrow> string list \<Rightarrow> nat \<Rightarrow> string list" where
  "topLevelSchemaObjectFieldNames schema document visitedRefs depth =
     (if depth > maxSchemaDepth then []
      else case resolveSchemaValue document schema visitedRefs depth of
             Err e \<Rightarrow> []
           | Ok resolved \<Rightarrow>
               requiredPropertyNames (doc_field resolved ''required'')
               @ (case asStringAnyMap (doc_field resolved ''properties'') of
                    None \<Rightarrow> []
                  | Some properties \<Rightarrow> filter (\<lambda>name. name \<noteq> []) (map trim_space (map_keys properties)))
               @ (case schemaSlice (doc_field resolved ''allOf'') of
                    None \<Rightarrow> []
                  | Some items \<Rightarrow> concat (map (\<lambda>item. topLevelSchemaObjectFieldNames item document [] (Suc depth)) items)))"
  by pat_completeness auto
termination by (relation "measure (\<lambda>(s, d, vs, depth). Suc maxSchemaDepth - depth)") auto

declare topLevelSchemaObjectFieldNames.simps [simp del]

section \<open>Validation\<close>

text \<open>\<open>Some e\<close> is the error of the first item that has one.\<close>

fun first_failure :: "(nat \<Rightarrow> 'a \<Rightarrow> go_error option) \<Rightarrow> nat \<Rightarrow> 'a list \<Rightarrow> go_error option" where
  "first_failure f idx [] = None"
| "first_failure f idx (x # xs) = (case f idx x of Some e \<Rightarrow> Some e | None \<Rightarrow> first_failure f (Suc idx) xs)"

fun first_of :: "go_error option list \<Rightarrow> go_error option" where
  "first_of [] = None"
| "first_of (x # xs) = (case x of Some e \<Rightarrow> Some e | None \<Rightarrow> first_of xs)"

definition schema_error :: "string \<Rightarrow> string list \<Rightarrow> go_error" where
  "schema_error f args = PlainError (f, args) None"

definition nullableSchema :: "fields \<Rightarrow> bool" where
  "nullableSchema schema = (map_get schema ''nullable'' = Some (VBool True))"

definition list_at :: "fields \<Rightarrow> string \<Rightarrow> gval list" where
  "list_at schema key = or_else (schemaSlice (doc_field schema key)) []"

definition indexed_location :: "string \<Rightarrow> string \<Rightarrow> nat \<Rightarrow> string" where
  "indexed_location location label idx = location @ label @ ''['' @ itoa (int idx) @ '']''"

text \<open>The recursive calls of the combiners, objects and arrays validate one level deeper with no visited reference:
  \<open>check v schema location known\<close>.\<close>

type_synonym schema_check = "gval \<Rightarrow> gval \<Rightarrow> string \<Rightarrow> string list \<Rightarrow> go_error option"

definition union_fields :: "fields \<Rightarrow> fields \<Rightarrow> string list \<Rightarrow> nat \<Rightarrow> string list" where
  "union_fields schema document extra depth =
     extra @ (case asStringAnyMap (doc_field schema ''properties'') of None \<Rightarrow> [] | Some properties \<Rightarrow> map_keys properties)
     @ requiredPropertyNames (doc_field schema ''required'')
     @ concat (map (\<lambda>item. topLevelSchemaObjectFieldNames item document [] (Suc depth)) (list_at schema ''allOf''))"

definition validate_any_of :: "schema_check \<Rightarrow> gval \<Rightarrow> string \<Rightarrow> gval list \<Rightarrow> go_error option" where
  "validate_any_of check v location anyOf =
     (let outcomes = map (\<lambda>(idx, item). check v item (indexed_location location '' anyOf'' idx) []) (enumerate 0 anyOf) in
      if anyOf = [] \<or> None \<in> set outcomes then None else hd outcomes)"

definition validate_one_of :: "schema_check \<Rightarrow> gval \<Rightarrow> string \<Rightarrow> gval list \<Rightarrow> go_error option" where
  "validate_one_of check v location oneOf =
     (let matches = length (filter (\<lambda>(idx, item). check v item (indexed_location location '' oneOf'' idx) [] = None) (enumerate 0 oneOf)) in
      if oneOf = [] \<or> matches = 1 then None
      else Some (schema_error ''%s expected exactly one oneOf schema match, got %d'' [location, itoa (int matches)]))"

definition validateSchemaCombiners ::
  "schema_check \<Rightarrow> gval \<Rightarrow> fields \<Rightarrow> fields \<Rightarrow> string \<Rightarrow> string list \<Rightarrow> nat \<Rightarrow> go_error option" where
  "validateSchemaCombiners check v schema document location extra depth =
     first_of
       [first_failure (\<lambda>idx item. check v item (indexed_location location '' allOf'' idx) (union_fields schema document extra depth))
          0 (list_at schema ''allOf''),
        validate_any_of check v location (list_at schema ''anyOf''),
        validate_one_of check v location (list_at schema ''oneOf'')]"

text \<open>\<open>reflect.DeepEqual\<close> with a normalised payload, which has no NaN, is equality.\<close>

definition validateSchemaEnum :: "gval \<Rightarrow> fields \<Rightarrow> string \<Rightarrow> go_error option" where
  "validateSchemaEnum v schema location =
     (let enumValues = list_at schema ''enum'' in
      if enumValues = [] \<or> v \<in> set enumValues then None
      else Some (schema_error ''%s value is not allowed by enum'' [location]))"

definition validateSchemaType :: "(string \<Rightarrow> string) \<Rightarrow> gval \<Rightarrow> fields \<Rightarrow> string \<Rightarrow> go_error option" where
  "validateSchemaType ul v schema location =
     (let types = schemaTypeNames ul (doc_field schema ''type'') in
      if types = [] \<or> list_ex (valueMatchesSchemaType ul v) types then None
      else Some (schema_error ''%s expected type [%s], got %s'' [location, join_with '', '' types, describeValueType v]))"

definition own_all_of_fields :: "fields \<Rightarrow> fields \<Rightarrow> nat \<Rightarrow> string list" where
  "own_all_of_fields schema document depth =
     concat (map (\<lambda>item. topLevelSchemaObjectFieldNames item document [] (Suc depth)) (list_at schema ''allOf''))"

definition validate_additional ::
  "schema_check \<Rightarrow> (string \<Rightarrow> bool) \<Rightarrow> gval option \<Rightarrow> string \<Rightarrow> fields \<Rightarrow> go_error option" where
  "validate_additional check known additional location object =
     (case additional of
        None \<Rightarrow> None
      | Some (VBool allowed) \<Rightarrow>
          if allowed then None
          else first_failure (\<lambda>idx (key, v). if known key then None
                 else Some (schema_error ''%s property %q is not allowed'' [location, key])) 0 object
      | Some additionalSchema \<Rightarrow>
          first_failure (\<lambda>idx (key, v). if known key then None else check v additionalSchema (dotPath location key) []) 0 object)"

definition validateSchemaObject ::
  "(string \<Rightarrow> string) \<Rightarrow> schema_check \<Rightarrow> gval \<Rightarrow> fields \<Rightarrow> fields \<Rightarrow> string \<Rightarrow> string list \<Rightarrow> nat \<Rightarrow> go_error option" where
  "validateSchemaObject ul check v schema document location extra depth =
     (let properties = asStringAnyMap (doc_field schema ''properties'');
          required = requiredPropertyNames (doc_field schema ''required'');
          additional = map_get schema ''additionalProperties'' in
      if properties = None \<and> required = [] \<and> additional = None \<and> \<not> schemaTypeContains ul (doc_field schema ''type'') ''object'' then None
      else case v of
             VMap object \<Rightarrow>
               first_of
                 [first_failure (\<lambda>idx name. if map_get object name = None
                      then Some (schema_error ''%s missing required property %q'' [location, name]) else None) 0 required,
                  first_failure (\<lambda>idx (name, propertySchema).
                      case map_get object name of
                        None \<Rightarrow> None
                      | Some item \<Rightarrow> check item propertySchema (dotPath location name) []) 0 (or_else properties []),
                  validate_additional check
                    (\<lambda>key. map_get (or_else properties []) key \<noteq> None \<or> key \<in> set extra \<or> key \<in> set (own_all_of_fields schema document depth))
                    additional location object]
           | _ \<Rightarrow> Some (schema_error ''%s expected object, got %s'' [location, describeValueType v]))"

definition validateSchemaArray ::
  "(string \<Rightarrow> string) \<Rightarrow> schema_check \<Rightarrow> gval \<Rightarrow> fields \<Rightarrow> string \<Rightarrow> go_error option" where
  "validateSchemaArray ul check v schema location =
     (let items = map_get schema ''items'' in
      if items = None \<and> \<not> schemaTypeContains ul (doc_field schema ''type'') ''array'' then None
      else case v of
             VSlice xs \<Rightarrow>
               (case items of
                  None \<Rightarrow> None
                | Some (VSlice tupleItems) \<Rightarrow>
                    first_failure (\<lambda>idx (x, item). check x item (indexed_location location [] idx) []) 0 (zip xs tupleItems)
                | Some itemSchema \<Rightarrow> first_failure (\<lambda>idx x. check x itemSchema (indexed_location location [] idx) []) 0 xs)
           | _ \<Rightarrow> Some (schema_error ''%s expected array, got %s'' [location, describeValueType v]))"

function validateValueAgainstOpenAPISchema ::
  "(string \<Rightarrow> string) \<Rightarrow> gval \<Rightarrow> gval \<Rightarrow> fields \<Rightarrow> string \<Rightarrow> string list \<Rightarrow> string list \<Rightarrow> nat \<Rightarrow> go_error option" where
  "validateValueAgainstOpenAPISchema ul v schema document location visitedRefs extra depth =
     (if depth > maxSchemaDepth then Some (schema_error ''%s schema nesting exceeds supported depth'' [location])
      else case resolveSchemaValue document schema visitedRefs depth of
             Err e \<Rightarrow> Some (PlainError (''%s %w'', [location]) (Some e))
           | Ok resolved \<Rightarrow>
               if resolved = [] then None
               else if nullableSchema resolved \<and> v = VNil then None
               else
                 let check = (\<lambda>v' schema' location' extra'.
                       validateValueAgainstOpenAPISchema ul v' schema' document location' [] extra' (Suc depth)) in
                 first_of
                   [validateSchemaCombiners check v resolved document location extra depth,
                    validateSchemaEnum v resolved location,
                    validateSchemaType ul v resolved location,
                    validateSchemaObject ul check v resolved document location extra depth,
                    validateSchemaArray ul check v resolved location])"
  by pat_completeness auto
termination by (relation "measure (\<lambda>(ul, v, s, d, l, vs, ex, depth). Suc maxSchemaDepth - depth)") auto

declare validateValueAgainstOpenAPISchema.simps [simp del]

section \<open>The schema of a request\<close>

definition openAPIMediaTypePriority :: "(string \<Rightarrow> string) \<Rightarrow> string \<Rightarrow> nat" where
  "openAPIMediaTypePriority ul v =
     (let normalized = to_lower ul (trim_space v) in
      if normalized = ''application/json'' then 0
      else if prefix ''application/'' normalized \<and> suffix ''+json'' normalized then 1
      else 2)"

definition openAPIRequestBodySchemaForValidation :: "(string \<Rightarrow> string) \<Rightarrow> fields \<Rightarrow> fields \<Rightarrow> gval option" where
  "openAPIRequestBodySchemaForValidation ul document operation =
     (case Option.bind (map_get operation ''requestBody'') (\<lambda>v. resolveOpenAPIValueRef document v [] 0) of
        None \<Rightarrow> None
      | Some resolvedRequestBody \<Rightarrow>
     (case Option.bind (asStringAnyMap resolvedRequestBody) (\<lambda>requestBody. Option.bind (map_get requestBody ''content'') asStringAnyMap) of
        None \<Rightarrow> None
      | Some content \<Rightarrow>
          (case List.map_filter (\<lambda>mediaType. Option.bind (Option.bind (map_get content mediaType) asStringAnyMap) (\<lambda>m. map_get m ''schema''))
                  (sort_key (openAPIMediaTypePriority ul) (sort (map_keys content))) of
             [] \<Rightarrow> None
           | schema # _ \<Rightarrow> Some schema)))"

definition schema_for_validation :: "(string \<Rightarrow> string) \<Rightarrow> (string \<Rightarrow> string) \<Rightarrow> fields \<Rightarrow> string \<Rightarrow> string \<Rightarrow> string \<Rightarrow> gval result" where
  "schema_for_validation ul uu document requestPath requestMethod schemaRef =
     (if schemaRef = ''openapi:request-body''
      then case findOpenAPIPathItem document requestPath of
             None \<Rightarrow> Err (Invalid (''OpenAPI path %q was not found for validate.schemaRef'', [requestPath]) None)
           | Some (_, pathItem) \<Rightarrow>
               (let method = to_upper uu (trim_space requestMethod) in
                if method = [] then Err (Invalid (msg ''request method is required for OpenAPI request-body validation'') None)
                else case openAPIPathMethod ul pathItem method of
                       None \<Rightarrow> Err (Invalid (''OpenAPI path %q does not support method %s for validate.schemaRef'', [requestPath, method]) None)
                     | Some operationItem \<Rightarrow>
                         (case openAPIRequestBodySchemaForValidation ul document operationItem of
                            None \<Rightarrow> Err (Invalid (''OpenAPI request body schema was not found for %s %q'', [method, requestPath]) None)
                          | Some schema \<Rightarrow> Ok schema))
      else if prefix ''openapi:#/'' schemaRef
      then case resolveOpenAPIJSONPointer document (drop 8 schemaRef) of
             None \<Rightarrow> Err (Invalid (''OpenAPI schema reference %q could not be resolved'', [schemaRef]) None)
           | Some resolved \<Rightarrow> Ok resolved
      else Err (Invalid (''validate.schemaRef %q is not supported'', [schemaRef]) None))"

definition augmentSchemaValidationPayload :: "gval \<Rightarrow> string_map \<Rightarrow> gval \<Rightarrow> fields \<Rightarrow> gval result" where
  "augmentSchemaValidationPayload payload derivedFields schema document =
     (case payload of
        VMap object \<Rightarrow>
          (let allowed = map JSONPointerForObjectKey (topLevelSchemaObjectFieldNames schema document [] 0) in
           if allowed = [] then Ok payload
           else merge_fields (DeepCopyValue payload) (filter (\<lambda>entry. fst entry \<in> set allowed) (sort_key fst derivedFields)))
      | _ \<Rightarrow> Ok payload)"

section \<open>What an accepted value satisfies\<close>

lemma first_of_None: "first_of xs = None \<longleftrightarrow> (\<forall>x\<in>set xs. x = None)"
  by (induction xs) (auto split: option.splits)

lemma first_failure_None: "first_failure f idx xs = None \<longleftrightarrow> (\<forall>i < length xs. f (idx + i) (xs ! i) = None)"
proof (induction xs arbitrary: idx)
  case (Cons x xs)
  have "(\<forall>i < length (x # xs). f (idx + i) ((x # xs) ! i) = None) \<longleftrightarrow> f idx x = None \<and> (\<forall>i < length xs. f (Suc idx + i) (xs ! i) = None)"
    by (auto simp: less_Suc_eq_0_disj)
  then show ?case using Cons.IH[of "Suc idx"] by (auto split: option.splits)
qed simp

lemma first_failure_item: "first_failure f idx xs = None \<Longrightarrow> x \<in> set xs \<Longrightarrow> \<exists>i. f i x = None"
  by (auto simp: first_failure_None in_set_conv_nth)

text \<open>A value that is accepted passes every check of the schema.\<close>

lemma accepted_checks:
  assumes "validateValueAgainstOpenAPISchema ul v schema document location visited extra depth = None"
    and "resolveSchemaValue document schema visited depth = Ok resolved" "resolved \<noteq> []" "v \<noteq> VNil \<or> \<not> nullableSchema resolved"
  defines "check \<equiv> \<lambda>v' schema' location' extra'. validateValueAgainstOpenAPISchema ul v' schema' document location' [] extra' (Suc depth)"
  shows "validateSchemaCombiners check v resolved document location extra depth = None" "validateSchemaEnum v resolved location = None"
    "validateSchemaType ul v resolved location = None" "validateSchemaObject ul check v resolved document location extra depth = None"
    "validateSchemaArray ul check v resolved location = None"
  using assms(1-4) unfolding check_def
  by (subst (asm) validateValueAgainstOpenAPISchema.simps; auto simp: Let_def split: if_splits option.splits)+

text \<open>An accepted object has every required property, and no property that the schema excludes.\<close>

lemma accepted_object:
  assumes "validateValueAgainstOpenAPISchema ul v schema document location visited extra depth = None"
    and "resolveSchemaValue document schema visited depth = Ok resolved" "v \<noteq> VNil \<or> \<not> nullableSchema resolved"
    and "map_get resolved ''additionalProperties'' = Some (VBool False)"
  shows "\<exists>object. v = VMap object \<and> (\<forall>name\<in>set (requiredPropertyNames (doc_field resolved ''required'')). map_get object name \<noteq> None)
    \<and> (\<forall>(key, item)\<in>set object. map_get (or_else (asStringAnyMap (doc_field resolved ''properties'')) []) key \<noteq> None \<or> key \<in> set extra
          \<or> key \<in> set (own_all_of_fields resolved document depth))"
proof -
  have "resolved \<noteq> []" using assms(4) by auto
  note o = accepted_checks(4)[OF assms(1,2) this assms(3)]
  then obtain object where v: "v = VMap object" using assms(4) by (auto simp: validateSchemaObject_def Let_def split: gval.splits if_splits)
  have "\<forall>name\<in>set (requiredPropertyNames (doc_field resolved ''required'')). map_get object name \<noteq> None"
    using o assms(4) unfolding v validateSchemaObject_def Let_def
    by (auto simp: first_of_None simp del: first_of.simps dest!: first_failure_item split: if_splits)
  moreover have "known \<noteq> None \<or> key \<in> set extra \<or> key \<in> set (own_all_of_fields resolved document depth)"
    if "(key, item) \<in> set object" "known = map_get (or_else (asStringAnyMap (doc_field resolved ''properties'')) []) key" for key item known
    using o assms(4) that unfolding v validateSchemaObject_def Let_def
    by (auto simp: first_of_None validate_additional_def simp del: first_of.simps dest!: first_failure_item split: if_splits)
  ultimately show ?thesis using v by blast
qed

text \<open>C38: a schema that lists the integers it allows refuses every integer: the document is read with \<open>float64\<close> or \<open>int\<close>
  numbers, a payload has \<open>int64\<close> ones, and \<open>reflect.DeepEqual\<close> compares the types too.\<close>

theorem integer_enum_refused:
  assumes "resolveSchemaValue document schema visited depth = Ok resolved" "map_get resolved ''enum'' = Some (VSlice allowed)" "allowed \<noteq> []"
    and "\<forall>x\<in>set allowed. \<forall>n. x \<noteq> VInt KInt64 n"
  shows "validateValueAgainstOpenAPISchema ul (VInt KInt64 k) schema document location visited extra depth \<noteq> None"
proof
  assume a: "validateValueAgainstOpenAPISchema ul (VInt KInt64 k) schema document location visited extra depth = None"
  have "resolved \<noteq> []" using assms(2) by auto
  from accepted_checks(2)[OF a assms(1) this] assms(2-4) show False
    by (auto simp: validateSchemaEnum_def list_at_def doc_field_def schemaSlice_def or_else_def split: if_splits)
qed

theorem integer_enum_refused_witness:
  "validateValueAgainstOpenAPISchema (\<lambda>s. s) (VInt KInt64 1)
     (VMap [(''enum'', VSlice [VFloat (Fin 1), VFloat (Fin 2)]), (''type'', VString ''integer'')]) [] ''$'' [] [] 0 \<noteq> None"
proof (rule integer_enum_refused)
  show "resolveSchemaValue [] (VMap [(''enum'', VSlice [VFloat (Fin 1), VFloat (Fin 2)]), (''type'', VString ''integer'')]) [] 0
      = Ok [(''enum'', VSlice [VFloat (Fin 1), VFloat (Fin 2)]), (''type'', VString ''integer'')]"
    by code_simp
qed auto

end
