(* ===== verification/Throttle.thy ===== *)
theory Throttle
  imports Faults Go_Map Complex_Main
begin

text \<open>
  The throttle in front of a managed service (src/internal/providers/managedservice/http/request_throttle.go
  and \<open>executeWithThrottle\<close> of debug.go).

  A gate has a semaphore for requests in flight, a bounded waiting room in front of it and a rate limiter, each
  of which may be absent.  The first part models the construction of gates and the registry in which gates of
  one scope are shared; a gate is a reference into the list of gates built.  A rate is the rational number that
  a finite \<open>float64\<close> denotes, and its print with \<open>%f\<close> is a parameter.

  The second part models requests that pass a gate concurrently: a request is in one of the phases between two
  operations on channels, and each step of the relation is one operation of one request.  A receive from a
  channel is possible only if the channel holds an element.  The context of a waiting request may be cancelled
  and the limiter may refuse at any time.

  The theorems show that the channels count the requests that hold them, so that no more requests are in
  flight than configured and no slot is lost on any path, and that requests cannot block each other for ever:
  while a request is not answered some step is possible, and every run is finite.
\<close>

section \<open>Gates\<close>

record HTTPRequestThrottling =
  MaxConcurrentRequests :: int
  QueueSize :: int
  RequestsPerSecond :: rat
  Burst :: int
  ScopeKey :: string

record requestThrottleGate =
  gate_inFlight :: "nat option"
  gate_queue :: "nat option"
  gate_limiter :: "(rat \<times> int) option"

record throttle_registry =
  gates :: "requestThrottleGate list"
  sharedRequestThrottles :: "(string, nat) gomap"

definition requestThrottleKey :: "(rat \<Rightarrow> string) \<Rightarrow> HTTPRequestThrottling \<Rightarrow> string" where
  "requestThrottleKey print_f cfg =
     (if ScopeKey cfg = [] then []
      else ScopeKey cfg @ ''|max='' @ itoa (MaxConcurrentRequests cfg) @ ''|queue='' @ itoa (QueueSize cfg)
           @ ''|rps='' @ print_f (RequestsPerSecond cfg) @ ''|burst='' @ itoa (Burst cfg))"

definition newRequestThrottleGate :: "HTTPRequestThrottling \<Rightarrow> requestThrottleGate" where
  "newRequestThrottleGate cfg =
     \<lparr>gate_inFlight = (if MaxConcurrentRequests cfg > 0 then Some (nat (MaxConcurrentRequests cfg)) else None),
      gate_queue = (if QueueSize cfg > 0 then Some (nat (QueueSize cfg)) else None),
      gate_limiter =
        (if RequestsPerSecond cfg > 0
         then let burst = (if Burst cfg \<le> 0 then (let b = floor (RequestsPerSecond cfg) in if b < 1 then 1 else b) else Burst cfg)
              in Some (RequestsPerSecond cfg, burst)
         else None)\<rparr>"

definition throttling_error :: "HTTPRequestThrottling \<Rightarrow> string option" where
  "throttling_error cfg =
     (if MaxConcurrentRequests cfg \<le> 0 \<and> RequestsPerSecond cfg \<le> 0
      then Some ''managed-service.http.request-throttling must define at least one of max-concurrent-requests or requests-per-second''
      else if MaxConcurrentRequests cfg < 0
      then Some ''managed-service.http.request-throttling.max-concurrent-requests must be greater than zero when set''
      else if QueueSize cfg < 0
      then Some ''managed-service.http.request-throttling.queue-size must be greater than or equal to zero''
      else if QueueSize cfg > 0 \<and> MaxConcurrentRequests cfg \<le> 0
      then Some ''managed-service.http.request-throttling.queue-size requires max-concurrent-requests''
      else if RequestsPerSecond cfg < 0
      then Some ''managed-service.http.request-throttling.requests-per-second must be greater than zero when set''
      else if Burst cfg < 0
      then Some ''managed-service.http.request-throttling.burst must be greater than zero when set''
      else if Burst cfg > 0 \<and> RequestsPerSecond cfg \<le> 0
      then Some ''managed-service.http.request-throttling.burst requires requests-per-second''
      else None)"

text \<open>The result is a reference, or none for no configuration.\<close>

definition new_gate :: "HTTPRequestThrottling \<Rightarrow> throttle_registry \<Rightarrow> nat \<times> throttle_registry" where
  "new_gate cfg reg = (length (gates reg), reg\<lparr>gates := gates reg @ [newRequestThrottleGate cfg]\<rparr>)"

definition buildRequestThrottle ::
  "(rat \<Rightarrow> string) \<Rightarrow> HTTPRequestThrottling option \<Rightarrow> throttle_registry \<Rightarrow> nat option result \<times> throttle_registry" where
  "buildRequestThrottle print_f config reg =
     (case config of
        None \<Rightarrow> (Ok None, reg)
      | Some cfg \<Rightarrow>
          (case throttling_error cfg of
             Some m \<Rightarrow> (Err (Invalid (msg m) None), reg)
           | None \<Rightarrow>
               (let key = requestThrottleKey print_f cfg; (gate, reg') = new_gate cfg reg in
                if key = [] then (Ok (Some gate), reg')
                else case map_get (sharedRequestThrottles reg) key of
                       Some existing \<Rightarrow> (Ok (Some existing), reg)
                     | None \<Rightarrow> (Ok (Some gate), reg'\<lparr>sharedRequestThrottles := map_put key gate (sharedRequestThrottles reg')\<rparr>))))"

definition gate_ok :: "requestThrottleGate \<Rightarrow> bool" where
  "gate_ok g \<longleftrightarrow> (\<forall>m. gate_inFlight g = Some m \<longrightarrow> 0 < m) \<and> (gate_queue g \<noteq> None \<longrightarrow> gate_inFlight g \<noteq> None)
     \<and> (\<forall>r b. gate_limiter g = Some (r, b) \<longrightarrow> 0 < r \<and> 1 \<le> b)
     \<and> (gate_inFlight g \<noteq> None \<or> gate_limiter g \<noteq> None)"

definition registry_ok :: "throttle_registry \<Rightarrow> bool" where
  "registry_ok reg \<longleftrightarrow> list_all gate_ok (gates reg)
     \<and> (\<forall>k i. map_get (sharedRequestThrottles reg) k = Some i \<longrightarrow> i < length (gates reg))"

lemma newRequestThrottleGate_ok: "throttling_error cfg = None \<Longrightarrow> gate_ok (newRequestThrottleGate cfg)"
  by (auto simp: throttling_error_def gate_ok_def newRequestThrottleGate_def Let_def split: if_splits)

lemma buildRequestThrottle_ok:
  assumes "registry_ok reg" "buildRequestThrottle print_f config reg = (r, reg')"
  shows "registry_ok reg' \<and> (\<forall>i. r = Ok (Some i) \<longrightarrow> i < length (gates reg'))"
  using assms newRequestThrottleGate_ok
  by (auto simp: buildRequestThrottle_def registry_ok_def new_gate_def Let_def less_Suc_eq
      split: option.splits if_splits)

text \<open>Configurations with the same scope and the same limits share one gate, whatever was built in between.\<close>

lemma buildRequestThrottle_shares:
  assumes "ScopeKey cfg \<noteq> []" "requestThrottleKey print_f cfg = requestThrottleKey print_f cfg'"
    and "buildRequestThrottle print_f (Some cfg) reg = (Ok i, reg1)" "throttling_error cfg' = None"
  shows "buildRequestThrottle print_f (Some cfg') reg1 = (Ok i, reg1)"
proof -
  have "requestThrottleKey print_f cfg \<noteq> []" using assms(1) by (simp add: requestThrottleKey_def)
  then show ?thesis using assms
    by (auto simp: buildRequestThrottle_def new_gate_def Let_def split: option.splits) metis
qed

section \<open>Requests at a gate\<close>

datatype answer = Rejected | Canceled | LimitRefused | Invoked

text \<open>The flags say whether the request holds an element of the queue and of the semaphore.\<close>

datatype request_phase =
    Starting
  | Waiting (in_queue: bool)
  | Admitted (in_queue: bool) (in_flight: bool)
  | Canceling (in_queue: bool)
  | Limited (in_flight: bool)
  | Invoking (in_flight: bool)
  | Releasing (in_flight: bool) answer
  | Answered answer

record gate_state =
  inFlight :: nat
  queue :: nat
  requests :: "request_phase list"

definition to_phase :: "nat \<Rightarrow> request_phase \<Rightarrow> gate_state \<Rightarrow> gate_state" where
  "to_phase r ph s = s\<lparr>requests := (requests s)[r := ph]\<rparr>"

definition in_phase :: "gate_state \<Rightarrow> nat \<Rightarrow> request_phase \<Rightarrow> bool" where
  "in_phase s r ph \<longleftrightarrow> r < length (requests s) \<and> requests s ! r = ph"

text \<open>The flag of the relation says whether a context may be cancelled.\<close>

inductive gate_step :: "requestThrottleGate \<Rightarrow> bool \<Rightarrow> gate_state \<Rightarrow> gate_state \<Rightarrow> bool" for g canceled where
  enqueue: "in_phase s r Starting \<Longrightarrow> gate_queue g = Some q \<Longrightarrow> queue s < q
     \<Longrightarrow> gate_step g canceled s (to_phase r (Waiting True) (s\<lparr>queue := queue s + 1\<rparr>))"
| reject: "in_phase s r Starting \<Longrightarrow> gate_queue g = Some q \<Longrightarrow> \<not> queue s < q
     \<Longrightarrow> gate_step g canceled s (to_phase r (Answered Rejected) s)"
| no_queue: "in_phase s r Starting \<Longrightarrow> gate_queue g = None
     \<Longrightarrow> gate_step g canceled s (to_phase r (Waiting False) s)"
| admit: "in_phase s r (Waiting b) \<Longrightarrow> gate_inFlight g = Some m \<Longrightarrow> inFlight s < m
     \<Longrightarrow> gate_step g canceled s (to_phase r (Admitted b True) (s\<lparr>inFlight := inFlight s + 1\<rparr>))"
| cancel: "canceled \<Longrightarrow> in_phase s r (Waiting b) \<Longrightarrow> gate_inFlight g = Some m
     \<Longrightarrow> gate_step g canceled s (to_phase r (Canceling b) s)"
| unlimited: "in_phase s r (Waiting b) \<Longrightarrow> gate_inFlight g = None
     \<Longrightarrow> gate_step g canceled s (to_phase r (Admitted b False) s)"
| leave_queue: "in_phase s r (Admitted True h) \<Longrightarrow> 0 < queue s
     \<Longrightarrow> gate_step g canceled s (to_phase r (Limited h) (s\<lparr>queue := queue s - 1\<rparr>))"
| was_not_queued: "in_phase s r (Admitted False h)
     \<Longrightarrow> gate_step g canceled s (to_phase r (Limited h) s)"
| cancel_queued: "in_phase s r (Canceling True) \<Longrightarrow> 0 < queue s
     \<Longrightarrow> gate_step g canceled s (to_phase r (Answered Canceled) (s\<lparr>queue := queue s - 1\<rparr>))"
| cancel_unqueued: "in_phase s r (Canceling False)
     \<Longrightarrow> gate_step g canceled s (to_phase r (Answered Canceled) s)"
| proceed: "in_phase s r (Limited h)
     \<Longrightarrow> gate_step g canceled s (to_phase r (Invoking h) s)"
| refuse: "in_phase s r (Limited h) \<Longrightarrow> gate_limiter g = Some l
     \<Longrightarrow> gate_step g canceled s (to_phase r (Releasing h LimitRefused) s)"
| invoke: "in_phase s r (Invoking h)
     \<Longrightarrow> gate_step g canceled s (to_phase r (Releasing h Invoked) s)"
| release: "in_phase s r (Releasing True a) \<Longrightarrow> 0 < inFlight s
     \<Longrightarrow> gate_step g canceled s (to_phase r (Answered a) (s\<lparr>inFlight := inFlight s - 1\<rparr>))"
| nothing_to_release: "in_phase s r (Releasing False a)
     \<Longrightarrow> gate_step g canceled s (to_phase r (Answered a) s)"

definition idle_gate :: "nat \<Rightarrow> gate_state" where
  "idle_gate n = \<lparr>inFlight = 0, queue = 0, requests = replicate n Starting\<rparr>"

inductive gate_reachable :: "requestThrottleGate \<Rightarrow> nat \<Rightarrow> gate_state \<Rightarrow> bool" for g n where
  idle: "gate_reachable g n (idle_gate n)"
| step: "gate_reachable g n s \<Longrightarrow> gate_step g canceled s s' \<Longrightarrow> gate_reachable g n s'"

section \<open>The channels count their holders\<close>

fun holds_queue :: "request_phase \<Rightarrow> bool" where
  "holds_queue (Waiting b) = b"
| "holds_queue (Admitted b h) = b"
| "holds_queue (Canceling b) = b"
| "holds_queue _ = False"

fun holds_slot :: "request_phase \<Rightarrow> bool" where
  "holds_slot (Admitted b h) = h"
| "holds_slot (Limited h) = h"
| "holds_slot (Invoking h) = h"
| "holds_slot (Releasing h a) = h"
| "holds_slot _ = False"

fun invoking :: "request_phase \<Rightarrow> bool" where
  "invoking (Invoking h) = True"
| "invoking _ = False"

definition count_phase :: "(request_phase \<Rightarrow> bool) \<Rightarrow> gate_state \<Rightarrow> nat" where
  "count_phase P s = length (filter P (requests s))"

lemma count_filter_update:
  assumes "r < length xs"
  shows "length (filter P (xs[r := x])) + (if P (xs ! r) then 1 else 0) = length (filter P xs) + (if P x then 1 else 0)"
  using assms
proof (induction xs arbitrary: r)
  case (Cons y ys)
  then show ?case by (cases r) auto
qed simp

lemma count_to_phase:
  assumes "in_phase s r ph" "requests t = requests s"
  shows "count_phase P (to_phase r ph' t) + (if P ph then 1 else 0) = count_phase P s + (if P ph' then 1 else 0)"
  using assms count_filter_update[of r "requests s" P ph'] by (auto simp: count_phase_def to_phase_def in_phase_def)

text \<open>A request that holds a slot passed a gate that has a semaphore, and one without a slot one that has none.\<close>

fun fits_gate :: "requestThrottleGate \<Rightarrow> request_phase \<Rightarrow> bool" where
  "fits_gate g (Admitted b h) \<longleftrightarrow> h = (gate_inFlight g \<noteq> None)"
| "fits_gate g (Limited h) \<longleftrightarrow> h = (gate_inFlight g \<noteq> None)"
| "fits_gate g (Invoking h) \<longleftrightarrow> h = (gate_inFlight g \<noteq> None)"
| "fits_gate g (Releasing h a) \<longleftrightarrow> h = (gate_inFlight g \<noteq> None)"
| "fits_gate g _ \<longleftrightarrow> True"

definition in_limit :: "nat \<Rightarrow> nat option \<Rightarrow> bool" where
  "in_limit k limit = (case limit of None \<Rightarrow> k = 0 | Some m \<Rightarrow> k \<le> m)"

definition gate_invariant :: "requestThrottleGate \<Rightarrow> nat \<Rightarrow> gate_state \<Rightarrow> bool" where
  "gate_invariant g n s \<longleftrightarrow> length (requests s) = n
     \<and> queue s = count_phase holds_queue s \<and> inFlight s = count_phase holds_slot s
     \<and> in_limit (queue s) (gate_queue g) \<and> in_limit (inFlight s) (gate_inFlight g)
     \<and> list_all (fits_gate g) (requests s)"

lemma list_all_update: "list_all P xs \<Longrightarrow> P x \<Longrightarrow> list_all P (xs[r := x])"
  by (induction xs arbitrary: r) (auto split: nat.splits)

lemma in_phase_fits: "list_all (fits_gate g) (requests s) \<Longrightarrow> in_phase s r ph \<Longrightarrow> fits_gate g ph"
  by (auto simp: in_phase_def list_all_length)

lemma to_phase_simps [simp]:
  "inFlight (to_phase r ph s) = inFlight s" "queue (to_phase r ph s) = queue s"
  "requests (to_phase r ph s) = (requests s)[r := ph]"
  by (simp_all add: to_phase_def)

text \<open>One step of one request: the counters follow the flags of its phases.\<close>

lemma gate_invariant_move:
  assumes inv: "gate_invariant g n s" and ph: "in_phase s r ph" and same: "requests t = requests s"
    and fits: "fits_gate g ph \<Longrightarrow> fits_gate g ph'"
    and q: "queue t + (if holds_queue ph then 1 else 0) = queue s + (if holds_queue ph' then 1 else 0)" "in_limit (queue t) (gate_queue g)"
    and f: "inFlight t + (if holds_slot ph then 1 else 0) = inFlight s + (if holds_slot ph' then 1 else 0)" "in_limit (inFlight t) (gate_inFlight g)"
  shows "gate_invariant g n (to_phase r ph' t)"
proof -
  have "fits_gate g ph'" using fits inv ph in_phase_fits by (auto simp: gate_invariant_def)
  then show ?thesis
    using inv same q f count_to_phase[OF ph same, of holds_queue ph'] count_to_phase[OF ph same, of holds_slot ph']
    by (auto simp: gate_invariant_def list_all_update)
qed

lemma gate_invariant_step:
  assumes "gate_step g canceled s s'" and inv: "gate_invariant g n s"
  shows "gate_invariant g n s'"
proof -
  have lim: "in_limit (queue s) (gate_queue g)" "in_limit (inFlight s) (gate_inFlight g)"
    using inv unfolding gate_invariant_def by blast+
  show ?thesis using assms(1)
    by (cases rule: gate_step.cases)
      (hypsubst, erule gate_invariant_move[OF inv]; use lim in \<open>auto simp: in_limit_def split: option.splits\<close>)+
qed

lemma gate_invariant_idle: "gate_invariant g n (idle_gate n)"
  by (simp add: gate_invariant_def idle_gate_def count_phase_def in_limit_def list_all_length split: option.split)

lemma gate_invariant_reachable: "gate_reachable g n s \<Longrightarrow> gate_invariant g n s"
  by (induction rule: gate_reachable.induct) (simp_all add: gate_invariant_idle gate_invariant_step)

section \<open>Every request is answered\<close>

fun answered :: "request_phase \<Rightarrow> bool" where
  "answered (Answered a) = True"
| "answered _ = False"

fun steps_left :: "request_phase \<Rightarrow> nat" where
  "steps_left Starting = 6"
| "steps_left (Waiting b) = 5"
| "steps_left (Admitted b h) = 4"
| "steps_left (Canceling b) = 1"
| "steps_left (Limited h) = 3"
| "steps_left (Invoking h) = 2"
| "steps_left (Releasing h a) = 1"
| "steps_left (Answered a) = 0"

definition work_left :: "gate_state \<Rightarrow> nat" where
  "work_left s = sum_list (map steps_left (requests s))"

lemma work_left_to_phase:
  assumes "in_phase s r ph" "requests t = requests s" "steps_left ph' < steps_left ph"
  shows "work_left (to_phase r ph' t) < work_left s"
proof -
  have r: "r < length (map steps_left (requests s))" using assms(1) by (simp add: in_phase_def)
  have "(map steps_left (requests s)) ! r \<le> sum_list (map steps_left (requests s))"
    using r by (intro elem_le_sum_list) simp
  then show ?thesis using assms r
    by (simp add: work_left_def map_update sum_list_update in_phase_def)
qed

lemma gate_step_decreases: "gate_step g c s s' \<Longrightarrow> work_left s' < work_left s"
  by (cases rule: gate_step.cases, assumption) (hypsubst, erule work_left_to_phase; simp)+

lemma gate_run_bounded: "(gate_step g c ^^ k) s s' \<Longrightarrow> k + work_left s' \<le> work_left s"
  by (induction k arbitrary: s') (auto dest!: gate_step_decreases, fastforce)

lemma holder_exists: "0 < count_phase P s \<Longrightarrow> \<exists>r ph. in_phase s r ph \<and> P ph"
  by (auto simp: count_phase_def in_phase_def filter_empty_conv in_set_conv_nth)

lemma holder_counts: "in_phase s r ph \<Longrightarrow> P ph \<Longrightarrow> 0 < count_phase P s"
  using nth_mem by (fastforce simp: count_phase_def in_phase_def filter_empty_conv)

lemma no_holder: "list_all answered (requests s) \<Longrightarrow> count_phase holds_queue s = 0 \<and> count_phase holds_slot s = 0"
proof -
  have "answered ph \<Longrightarrow> \<not> holds_queue ph \<and> \<not> holds_slot ph" for ph by (cases ph) auto
  then show "list_all answered (requests s) \<Longrightarrow> ?thesis" by (auto simp: count_phase_def list_all_iff filter_empty_conv)
qed

text \<open>A request that holds a slot is never blocked, one that holds or awaits nothing neither.\<close>

lemma running_not_blocked:
  assumes inv: "gate_invariant g n s" and r: "in_phase s r ph" and run: "\<not> answered ph" "\<And>b. ph \<noteq> Waiting b"
  shows "\<exists>s'. gate_step g c s s'"
proof -
  have q: "holds_queue ph \<Longrightarrow> 0 < queue s" and f: "holds_slot ph \<Longrightarrow> 0 < inFlight s"
    using inv holder_counts[OF r] unfolding gate_invariant_def by metis+
  show ?thesis
  proof (cases ph)
    case Starting
    show ?thesis
    proof (cases "gate_queue g")
      case None
      then show ?thesis using r Starting gate_step.no_queue by blast
    next
      case (Some k)
      then show ?thesis using r Starting gate_step.enqueue gate_step.reject by metis
    qed
  next
    case (Admitted b h)
    then show ?thesis using r q gate_step.leave_queue gate_step.was_not_queued by (cases b) (simp_all, metis+)
  next
    case (Canceling b)
    then show ?thesis using r q gate_step.cancel_queued gate_step.cancel_unqueued by (cases b) (simp_all, metis+)
  next
    case (Releasing h a)
    then show ?thesis using r f gate_step.release gate_step.nothing_to_release by (cases h) (simp_all, metis+)
  next
    case (Limited h)
    then show ?thesis using r gate_step.proceed by blast
  next
    case (Invoking h)
    then show ?thesis using r gate_step.invoke by blast
  qed (use run in auto)
qed

lemma gate_progress:
  assumes inv: "gate_invariant g n s" and g: "gate_ok g" and todo: "\<not> list_all answered (requests s)"
  shows "\<exists>s'. gate_step g c s s'"
proof -
  obtain r ph where r: "in_phase s r ph" "\<not> answered ph" using todo by (auto simp: list_all_length in_phase_def)
  show ?thesis
  proof (cases "\<exists>b. ph = Waiting b")
    case False
    then show ?thesis using running_not_blocked[OF inv r] by blast
  next
    case True
    then obtain b where ph: "ph = Waiting b" by blast
    show ?thesis
    proof (cases "gate_inFlight g")
      case None
      then show ?thesis using r ph gate_step.unlimited by blast
    next
      case (Some m)
      show ?thesis
      proof (cases "inFlight s < m")
        case True
        then show ?thesis using r ph Some gate_step.admit by blast
      next
        case False
        then have "0 < count_phase holds_slot s" using g Some inv by (auto simp: gate_ok_def gate_invariant_def)
        then obtain r' ph' where h: "in_phase s r' ph'" "holds_slot ph'" using holder_exists by blast
        then have "\<not> answered ph'" "\<And>b. ph' \<noteq> Waiting b" by (cases ph'; simp)+
        then show ?thesis using running_not_blocked[OF inv h(1)] by blast
      qed
    qed
  qed
qed

text \<open>From every state some run answers every request.\<close>

lemma gate_completes:
  assumes "gate_invariant g n s" "gate_ok g"
  shows "\<exists>s'. (gate_step g c)\<^sup>*\<^sup>* s s' \<and> list_all answered (requests s') \<and> gate_invariant g n s'"
  using assms(1)
proof (induction "work_left s" arbitrary: s rule: less_induct)
  case less
  show ?case
  proof (cases "list_all answered (requests s)")
    case False
    then obtain s' where s': "gate_step g c s s'" using gate_progress[OF less.prems assms(2)] by blast
    from less.hyps[OF gate_step_decreases[OF s'] gate_invariant_step[OF s' less.prems]] s'
    show ?thesis by (meson converse_rtranclp_into_rtranclp)
  qed (use less.prems in blast)
qed

section \<open>Properties\<close>

text \<open>C5: in every reachable state, whatever requests were cancelled or refused, the elements of the queue and the
  semaphore are exactly those of the requests that hold one; so no more requests call the service at once than
  configured, no more wait than the queue allows, and once every request is answered both channels are empty.\<close>

theorem throttle_limits:
  assumes "gate_reachable g n s"
  shows "queue s = count_phase holds_queue s \<and> inFlight s = count_phase holds_slot s
     \<and> (\<forall>m. gate_inFlight g = Some m \<longrightarrow> count_phase invoking s \<le> m)
     \<and> (\<forall>q. gate_queue g = Some q \<longrightarrow> count_phase holds_queue s \<le> q)
     \<and> (list_all answered (requests s) \<longrightarrow> inFlight s = 0 \<and> queue s = 0)"
proof -
  have inv: "gate_invariant g n s" using assms by (rule gate_invariant_reachable)
  have "count_phase invoking s \<le> count_phase holds_slot s" if "gate_inFlight g = Some m" for m
  proof -
    have "ph \<in> set (requests s) \<Longrightarrow> invoking ph \<Longrightarrow> holds_slot ph" for ph
      using inv that by (cases ph) (auto simp: gate_invariant_def list_all_iff)
    then have "filter invoking (requests s) = filter invoking (filter holds_slot (requests s))"
      by (auto simp: filter_filter intro!: filter_cong)
    then show ?thesis unfolding count_phase_def by (metis length_filter_le)
  qed
  then show ?thesis using inv no_holder by (fastforce simp: gate_invariant_def in_limit_def)
qed

text \<open>C6: requests never block each other for ever at a gate that \<open>buildRequestThrottle\<close> built: from every reachable
  state, even if no context is cancelled, requests can proceed until all are answered and the channels are
  empty, some step is possible as long as one is not answered, and no run of n requests has more than 6 n steps.\<close>

theorem throttle_answers_every_request:
  assumes "gate_reachable g n s" "gate_ok g"
  shows "(\<exists>s'. (gate_step g False)\<^sup>*\<^sup>* s s' \<and> list_all answered (requests s') \<and> inFlight s' = 0 \<and> queue s' = 0)
     \<and> (list_all answered (requests s) \<or> (\<exists>s'. gate_step g False s s'))
     \<and> (\<forall>k s' c. (gate_step g c ^^ k) s s' \<longrightarrow> k \<le> 6 * n)"
proof -
  have inv: "gate_invariant g n s" using assms(1) by (rule gate_invariant_reachable)
  have "steps_left ph \<le> 6" for ph by (cases ph) auto
  then have "work_left s \<le> sum_list (map (\<lambda>ph. 6) (requests s))" unfolding work_left_def by (intro sum_list_mono)
  then have "work_left s \<le> 6 * n" using inv by (simp add: gate_invariant_def sum_list_triv)
  then have "(gate_step g c ^^ k) s s' \<Longrightarrow> k \<le> 6 * n" for k s' c using gate_run_bounded by fastforce
  moreover obtain s' where "(gate_step g False)\<^sup>*\<^sup>* s s'" "list_all answered (requests s')" "gate_invariant g n s'"
    using gate_completes[OF inv assms(2)] by blast
  ultimately show ?thesis using gate_progress[OF inv assms(2)] no_holder unfolding gate_invariant_def by metis
qed

text \<open>A gate with two slots and a queue of one, and two requests that arrive together: the second is rejected
  before the first has left the queue, although no slot is taken.\<close>

definition small_gate :: requestThrottleGate where
  "small_gate = newRequestThrottleGate \<lparr>MaxConcurrentRequests = 2, QueueSize = 1, RequestsPerSecond = 0, Burst = 0, ScopeKey = []\<rparr>"

lemma small_gate_simps: "gate_queue small_gate = Some 1" "gate_inFlight small_gate = Some 2" "gate_ok small_gate"
  by (simp_all add: small_gate_def newRequestThrottleGate_def gate_ok_def)

lemma burst_rejected:
  "gate_reachable small_gate 2 \<lparr>inFlight = 0, queue = 1, requests = [Waiting True, Answered Rejected]\<rparr>"
proof -
  let ?s = "\<lparr>inFlight = 0, queue = 1, requests = [Waiting True, Starting]\<rparr>"
  have "gate_step small_gate False (idle_gate 2) (to_phase 0 (Waiting True) ((idle_gate 2)\<lparr>queue := queue (idle_gate 2) + 1\<rparr>))"
    by (rule gate_step.enqueue[where q = 1]) (simp_all add: in_phase_def idle_gate_def small_gate_simps)
  then have "gate_step small_gate False (idle_gate 2) ?s" by (simp add: to_phase_def idle_gate_def numeral_2_eq_2)
  then have s: "gate_reachable small_gate 2 ?s" using gate_reachable.idle gate_reachable.step by blast
  have "gate_step small_gate False ?s (to_phase 1 (Answered Rejected) ?s)"
    by (rule gate_step.reject[where q = 1]) (simp_all add: in_phase_def small_gate_simps)
  then show ?thesis using gate_reachable.step[OF s] by (simp add: to_phase_def)
qed

theorem throttle_limits_witness:
  "gate_reachable small_gate 2 \<lparr>inFlight = 0, queue = 1, requests = [Waiting True, Answered Rejected]\<rparr>
   \<and> count_phase holds_queue \<lparr>inFlight = 0, queue = 1, requests = [Waiting True, Answered Rejected]\<rparr> = 1
   \<and> count_phase invoking \<lparr>inFlight = 0, queue = 1, requests = [Waiting True, Answered Rejected]\<rparr> \<le> 2"
  using throttle_limits[OF burst_rejected] burst_rejected small_gate_simps by simp

theorem throttle_answers_every_request_witness:
  "\<exists>s'. (gate_step small_gate False)\<^sup>*\<^sup>* \<lparr>inFlight = 0, queue = 1, requests = [Waiting True, Answered Rejected]\<rparr> s'
     \<and> list_all answered (requests s') \<and> inFlight s' = 0 \<and> queue s' = 0"
  using throttle_answers_every_request[OF burst_rejected small_gate_simps(3)] by blast

end
