(* ===== verification/Env_Ref.thy ===== *)
theory Env_Ref
  imports Go_Lib
begin

text \<open>
  Environment placeholders (src/envref/expand.go): a string that is \<open>${NAME}\<close> up to surrounding space stands for the
  value of a variable of the environment.  The walk over a value by reflection is given where the type of the value is.
\<close>

section \<open>Environment placeholders\<close>

definition ident_start :: "char \<Rightarrow> bool" where
  "ident_start c = (let n = of_char c :: nat in 65 \<le> n \<and> n \<le> 90 \<or> 97 \<le> n \<and> n \<le> 122 \<or> c = CHR ''_'')"

definition ident_char :: "char \<Rightarrow> bool" where
  "ident_char c = (ident_start c \<or> is_digit_byte c)"

text \<open>The regular expression \<open>^\$\{([A-Za-z_][A-Za-z0-9_]*)\}$\<close> and its group.\<close>

definition exactPlaceholderPattern :: "string \<Rightarrow> string option" where
  "exactPlaceholderPattern s =
     (if prefix ''${'' s \<and> suffix ''}'' s
      then let name = butlast (drop 2 s) in
           if name \<noteq> [] \<and> ident_start (hd name) \<and> list_all ident_char name then Some name else None
      else None)"

definition resolvePlaceholder :: "(string \<Rightarrow> string) \<Rightarrow> string \<Rightarrow> string option" where
  "resolvePlaceholder getenv s = map_option getenv (exactPlaceholderPattern (trim_space s))"

definition expand_string :: "(string \<Rightarrow> string) \<Rightarrow> string \<Rightarrow> string" where
  "expand_string getenv s = (case resolvePlaceholder getenv s of None \<Rightarrow> s | Some resolved \<Rightarrow> resolved)"

end
