(* ===== verification/Context_Config.thy ===== *)
theory Context_Config
  imports Throttle Env_Ref Go_Path Go_Unicode
begin

text \<open>
  The configuration of contexts (src/config, src/internal/providers/config/file, src/internal/proxy): repository, managed
  service, secret store, metadata and reusable credentials, with their normalisation, proxy inheritance, overrides,
  validation and compaction.  Pointers of the source are options.  \<open>config_env\<close> has the environment, \<open>url.Parse\<close> and \<open>URL.String\<close>,
  and the Unicode table of \<open>strings.ToLower\<close>.  Texts of errors are kept; the error a validation returns is the first one found.
\<close>

section \<open>Types\<close>

record CredentialPrompt =
  cp_Prompt :: bool
  cp_PersistInSession :: bool

record CredentialValue =
  cv_Value :: string
  cv_Prompt :: "CredentialPrompt option"

record Credential =
  cred_Name :: string
  cred_Username :: CredentialValue
  cred_Password :: CredentialValue

record CredentialsRef =
  cref_Name :: string

record BasicAuth =
  ba_CredentialsRef :: "CredentialsRef option"
  ba_Username :: CredentialValue
  ba_Password :: CredentialValue

record ProxyAuth =
  pa_Basic :: "BasicAuth option"

record HTTPProxy =
  HTTPURL :: string
  HTTPSURL :: string
  NoProxy :: string
  px_Auth :: "ProxyAuth option"

record ConfigTLS =
  CACertFile :: string
  ClientCertFile :: string
  ClientKeyFile :: string
  InsecureSkipVerify :: bool

record SSHAuth =
  ssh_User :: string
  ssh_PrivateKeyFile :: string
  ssh_Passphrase :: string
  ssh_KnownHostsFile :: string
  ssh_InsecureIgnoreHostKey :: bool

record AccessKeyAuth =
  ak_Token :: string

record GitAuth =
  ga_Basic :: "BasicAuth option"
  ga_SSH :: "SSHAuth option"
  ga_AccessKey :: "AccessKeyAuth option"

record GitLocal =
  gl_BaseDir :: string
  gl_AutoInit :: "bool option"

record GitRemote =
  gr_URL :: string
  gr_Branch :: string
  gr_Provider :: string
  gr_AutoSync :: "bool option"
  gr_Auth :: "GitAuth option"
  gr_TLS :: "ConfigTLS option"
  gr_Proxy :: "HTTPProxy option"

record GitRepository =
  git_Local :: GitLocal
  git_Remote :: "GitRemote option"

record FilesystemRepository =
  fs_BaseDir :: string

record ConfigRepository =
  repo_Git :: "GitRepository option"
  repo_Filesystem :: "FilesystemRepository option"

record OAuth2 =
  oa_TokenURL :: string
  oa_GrantType :: string
  oa_ClientID :: string
  oa_ClientSecret :: string
  oa_Username :: string
  oa_Password :: string
  oa_Scope :: string
  oa_Audience :: string

record HeaderTokenAuth =
  ht_Header :: string
  ht_Prefix :: string
  ht_Value :: string

record HTTPAuth =
  ha_OAuth2 :: "OAuth2 option"
  ha_Basic :: "BasicAuth option"
  ha_CustomHeaders :: "HeaderTokenAuth list"

record HTTPServer =
  BaseURL :: string
  HealthCheck :: string
  OpenAPI :: string
  DefaultHeaders :: "(string, string) gomap"
  hs_Auth :: "HTTPAuth option"
  hs_Proxy :: "HTTPProxy option"
  hs_TLS :: "ConfigTLS option"
  RequestThrottling :: "HTTPRequestThrottling option"

record ConfigManagedService =
  ms_HTTP :: "HTTPServer option"

record ConfigKDF =
  kdf_Time :: int
  kdf_Memory :: int
  kdf_Threads :: int

record ConfigFileSecretStore =
  fss_Path :: string
  fss_Key :: string
  fss_KeyFile :: string
  fss_Passphrase :: string
  fss_PassphraseFile :: string
  fss_KDF :: "ConfigKDF option"

record VaultUserPasswordAuth =
  vu_CredentialsRef :: "CredentialsRef option"
  vu_Mount :: string
  vu_Username :: CredentialValue
  vu_Password :: CredentialValue

record VaultAppRoleAuth =
  ar_RoleID :: string
  ar_SecretID :: string
  ar_Mount :: string

record VaultAuth =
  va_Token :: string
  va_Password :: "VaultUserPasswordAuth option"
  va_AppRole :: "VaultAppRoleAuth option"

record VaultSecretStore =
  vs_Address :: string
  vs_Mount :: string
  vs_PathPrefix :: string
  vs_KVVersion :: int
  vs_Auth :: "VaultAuth option"
  vs_TLS :: "ConfigTLS option"
  vs_Proxy :: "HTTPProxy option"

record ConfigSecretStore =
  ss_File :: "ConfigFileSecretStore option"
  ss_Vault :: "VaultSecretStore option"

record ConfigMetadata =
  md_BaseDir :: string
  md_Bundle :: string
  md_BundleFile :: string
  md_Proxy :: "HTTPProxy option"

record Context =
  ctx_Name :: string
  ctx_Repository :: ConfigRepository
  ctx_ManagedService :: "ConfigManagedService option"
  ctx_SecretStore :: "ConfigSecretStore option"
  ctx_Metadata :: ConfigMetadata
  ctx_Preferences :: "(string, string) gomap"
  ctx_Credentials :: "(string, Credential) gomap"

record ContextCatalog =
  Contexts :: "Context list"
  CurrentContext :: string
  DefaultEditor :: string
  Credentials :: "Credential list"

definition AutoInitEnabled :: "GitLocal \<Rightarrow> bool" where
  "AutoInitEnabled g = (case gl_AutoInit g of None \<Rightarrow> True | Some b \<Rightarrow> b)"

definition AutoSyncEnabled :: "GitRemote \<Rightarrow> bool" where
  "AutoSyncEnabled g = (case gr_AutoSync g of None \<Rightarrow> True | Some b \<Rightarrow> b)"

definition LiteralCredential :: "string \<Rightarrow> CredentialValue" where
  "LiteralCredential v = \<lparr>cv_Value = trim_space v, cv_Prompt = None\<rparr>"

definition IsPrompt :: "CredentialValue \<Rightarrow> bool" where
  "IsPrompt v = (case cv_Prompt v of None \<Rightarrow> False | Some p \<Rightarrow> cp_Prompt p)"

definition PersistInSession :: "CredentialValue \<Rightarrow> bool" where
  "PersistInSession v = (case cv_Prompt v of None \<Rightarrow> False | Some p \<Rightarrow> cp_PersistInSession p)"

definition Literal :: "CredentialValue \<Rightarrow> string" where
  "Literal v = trim_space (cv_Value v)"

definition ref_name :: "CredentialsRef option \<Rightarrow> string" where
  "ref_name r = (case r of None \<Rightarrow> [] | Some c \<Rightarrow> trim_space (cref_Name c))"

definition CredentialName :: "BasicAuth \<Rightarrow> string" where
  "CredentialName a = ref_name (ba_CredentialsRef a)"

definition UsesPrompt :: "BasicAuth \<Rightarrow> bool" where
  "UsesPrompt a = (IsPrompt (ba_Username a) \<or> IsPrompt (ba_Password a))"

definition HasResolvedCredentials :: "BasicAuth \<Rightarrow> bool" where
  "HasResolvedCredentials a = (Literal (ba_Username a) \<noteq> [] \<and> Literal (ba_Password a) \<noteq> [])"

section \<open>Environment\<close>

record URL =
  url_Scheme :: string
  url_User :: "(string \<times> string) option"
  url_Host :: string
  url_Path :: string
  url_RawQuery :: string

record config_env =
  Getenv :: "string \<Rightarrow> string"
  url_Parse :: "string \<Rightarrow> go_error + URL"
  url_String :: "URL \<Rightarrow> string"
  unicode_lower :: "string \<Rightarrow> string"

text \<open>\<open>envref.ExpandExactEnvPlaceholders\<close> on a catalogue: \<open>f\<close> on every string that reflection reaches, but no map key.\<close>

definition expand_value :: "(string \<Rightarrow> string) \<Rightarrow> CredentialValue \<Rightarrow> CredentialValue" where
  "expand_value f v = v\<lparr>cv_Value := f (cv_Value v)\<rparr>"

definition expand_credential :: "(string \<Rightarrow> string) \<Rightarrow> Credential \<Rightarrow> Credential" where
  "expand_credential f c =
     \<lparr>cred_Name = f (cred_Name c), cred_Username = expand_value f (cred_Username c), cred_Password = expand_value f (cred_Password c)\<rparr>"

definition expand_ref :: "(string \<Rightarrow> string) \<Rightarrow> CredentialsRef \<Rightarrow> CredentialsRef" where
  "expand_ref f r = \<lparr>cref_Name = f (cref_Name r)\<rparr>"

definition expand_basic :: "(string \<Rightarrow> string) \<Rightarrow> BasicAuth \<Rightarrow> BasicAuth" where
  "expand_basic f a =
     \<lparr>ba_CredentialsRef = map_option (expand_ref f) (ba_CredentialsRef a), ba_Username = expand_value f (ba_Username a),
      ba_Password = expand_value f (ba_Password a)\<rparr>"

definition expand_proxy :: "(string \<Rightarrow> string) \<Rightarrow> HTTPProxy \<Rightarrow> HTTPProxy" where
  "expand_proxy f p =
     \<lparr>HTTPURL = f (HTTPURL p), HTTPSURL = f (HTTPSURL p), NoProxy = f (NoProxy p),
      px_Auth = map_option (\<lambda>a. \<lparr>pa_Basic = map_option (expand_basic f) (pa_Basic a)\<rparr>) (px_Auth p)\<rparr>"

definition expand_tls :: "(string \<Rightarrow> string) \<Rightarrow> ConfigTLS \<Rightarrow> ConfigTLS" where
  "expand_tls f t =
     t\<lparr>CACertFile := f (CACertFile t), ClientCertFile := f (ClientCertFile t), ClientKeyFile := f (ClientKeyFile t)\<rparr>"

definition expand_ssh :: "(string \<Rightarrow> string) \<Rightarrow> SSHAuth \<Rightarrow> SSHAuth" where
  "expand_ssh f s =
     s\<lparr>ssh_User := f (ssh_User s), ssh_PrivateKeyFile := f (ssh_PrivateKeyFile s), ssh_Passphrase := f (ssh_Passphrase s),
       ssh_KnownHostsFile := f (ssh_KnownHostsFile s)\<rparr>"

definition expand_git_auth :: "(string \<Rightarrow> string) \<Rightarrow> GitAuth \<Rightarrow> GitAuth" where
  "expand_git_auth f a =
     \<lparr>ga_Basic = map_option (expand_basic f) (ga_Basic a), ga_SSH = map_option (expand_ssh f) (ga_SSH a),
      ga_AccessKey = map_option (\<lambda>k. \<lparr>ak_Token = f (ak_Token k)\<rparr>) (ga_AccessKey a)\<rparr>"

definition expand_remote :: "(string \<Rightarrow> string) \<Rightarrow> GitRemote \<Rightarrow> GitRemote" where
  "expand_remote f r =
     r\<lparr>gr_URL := f (gr_URL r), gr_Branch := f (gr_Branch r), gr_Provider := f (gr_Provider r),
       gr_Auth := map_option (expand_git_auth f) (gr_Auth r), gr_TLS := map_option (expand_tls f) (gr_TLS r),
       gr_Proxy := map_option (expand_proxy f) (gr_Proxy r)\<rparr>"

definition expand_repository :: "(string \<Rightarrow> string) \<Rightarrow> ConfigRepository \<Rightarrow> ConfigRepository" where
  "expand_repository f r =
     \<lparr>repo_Git = map_option (\<lambda>g. \<lparr>git_Local = (git_Local g)\<lparr>gl_BaseDir := f (gl_BaseDir (git_Local g))\<rparr>,
                                    git_Remote = map_option (expand_remote f) (git_Remote g)\<rparr>) (repo_Git r),
      repo_Filesystem = map_option (\<lambda>s. \<lparr>fs_BaseDir = f (fs_BaseDir s)\<rparr>) (repo_Filesystem r)\<rparr>"

definition expand_oauth2 :: "(string \<Rightarrow> string) \<Rightarrow> OAuth2 \<Rightarrow> OAuth2" where
  "expand_oauth2 f a =
     \<lparr>oa_TokenURL = f (oa_TokenURL a), oa_GrantType = f (oa_GrantType a), oa_ClientID = f (oa_ClientID a),
      oa_ClientSecret = f (oa_ClientSecret a), oa_Username = f (oa_Username a), oa_Password = f (oa_Password a),
      oa_Scope = f (oa_Scope a), oa_Audience = f (oa_Audience a)\<rparr>"

definition expand_http_auth :: "(string \<Rightarrow> string) \<Rightarrow> HTTPAuth \<Rightarrow> HTTPAuth" where
  "expand_http_auth f a =
     \<lparr>ha_OAuth2 = map_option (expand_oauth2 f) (ha_OAuth2 a), ha_Basic = map_option (expand_basic f) (ha_Basic a),
      ha_CustomHeaders = map (\<lambda>h. \<lparr>ht_Header = f (ht_Header h), ht_Prefix = f (ht_Prefix h), ht_Value = f (ht_Value h)\<rparr>) (ha_CustomHeaders a)\<rparr>"

definition expand_http :: "(string \<Rightarrow> string) \<Rightarrow> HTTPServer \<Rightarrow> HTTPServer" where
  "expand_http f h =
     \<lparr>BaseURL = f (BaseURL h), HealthCheck = f (HealthCheck h), OpenAPI = f (OpenAPI h),
      DefaultHeaders = map (\<lambda>(k, v). (k, f v)) (DefaultHeaders h), hs_Auth = map_option (expand_http_auth f) (hs_Auth h),
      hs_Proxy = map_option (expand_proxy f) (hs_Proxy h), hs_TLS = map_option (expand_tls f) (hs_TLS h),
      RequestThrottling = map_option (\<lambda>t. t\<lparr>ScopeKey := f (ScopeKey t)\<rparr>) (RequestThrottling h)\<rparr>"

definition expand_vault_auth :: "(string \<Rightarrow> string) \<Rightarrow> VaultAuth \<Rightarrow> VaultAuth" where
  "expand_vault_auth f a =
     \<lparr>va_Token = f (va_Token a),
      va_Password = map_option (\<lambda>p. \<lparr>vu_CredentialsRef = map_option (expand_ref f) (vu_CredentialsRef p), vu_Mount = f (vu_Mount p),
          vu_Username = expand_value f (vu_Username p), vu_Password = expand_value f (vu_Password p)\<rparr>) (va_Password a),
      va_AppRole = map_option (\<lambda>p. \<lparr>ar_RoleID = f (ar_RoleID p), ar_SecretID = f (ar_SecretID p), ar_Mount = f (ar_Mount p)\<rparr>) (va_AppRole a)\<rparr>"

definition expand_secret_store :: "(string \<Rightarrow> string) \<Rightarrow> ConfigSecretStore \<Rightarrow> ConfigSecretStore" where
  "expand_secret_store f s =
     \<lparr>ss_File = map_option (\<lambda>t. t\<lparr>fss_Path := f (fss_Path t), fss_Key := f (fss_Key t), fss_KeyFile := f (fss_KeyFile t),
          fss_Passphrase := f (fss_Passphrase t), fss_PassphraseFile := f (fss_PassphraseFile t)\<rparr>) (ss_File s),
      ss_Vault = map_option (\<lambda>v. v\<lparr>vs_Address := f (vs_Address v), vs_Mount := f (vs_Mount v), vs_PathPrefix := f (vs_PathPrefix v),
          vs_Auth := map_option (expand_vault_auth f) (vs_Auth v), vs_TLS := map_option (expand_tls f) (vs_TLS v),
          vs_Proxy := map_option (expand_proxy f) (vs_Proxy v)\<rparr>) (ss_Vault s)\<rparr>"

definition expand_metadata :: "(string \<Rightarrow> string) \<Rightarrow> ConfigMetadata \<Rightarrow> ConfigMetadata" where
  "expand_metadata f m =
     \<lparr>md_BaseDir = f (md_BaseDir m), md_Bundle = f (md_Bundle m), md_BundleFile = f (md_BundleFile m),
      md_Proxy = map_option (expand_proxy f) (md_Proxy m)\<rparr>"

definition expand_context :: "(string \<Rightarrow> string) \<Rightarrow> Context \<Rightarrow> Context" where
  "expand_context f c =
     \<lparr>ctx_Name = f (ctx_Name c), ctx_Repository = expand_repository f (ctx_Repository c),
      ctx_ManagedService = map_option (\<lambda>m. \<lparr>ms_HTTP = map_option (expand_http f) (ms_HTTP m)\<rparr>) (ctx_ManagedService c),
      ctx_SecretStore = map_option (expand_secret_store f) (ctx_SecretStore c), ctx_Metadata = expand_metadata f (ctx_Metadata c),
      ctx_Preferences = map (\<lambda>(k, v). (k, f v)) (ctx_Preferences c),
      ctx_Credentials = map (\<lambda>(k, v). (k, expand_credential f v)) (ctx_Credentials c)\<rparr>"

definition expand_catalog :: "(string \<Rightarrow> string) \<Rightarrow> ContextCatalog \<Rightarrow> ContextCatalog" where
  "expand_catalog f c =
     \<lparr>Contexts = map (expand_context f) (Contexts c), CurrentContext = f (CurrentContext c), DefaultEditor = f (DefaultEditor c),
      Credentials = map (expand_credential f) (Credentials c)\<rparr>"

section \<open>Proxy blocks\<close>

definition empty_proxy :: HTTPProxy where
  "empty_proxy = \<lparr>HTTPURL = [], HTTPSURL = [], NoProxy = [], px_Auth = None\<rparr>"

definition HasURLs :: "HTTPProxy option \<Rightarrow> bool" where
  "HasURLs proxy = (case proxy of None \<Rightarrow> False | Some p \<Rightarrow> trim_space (HTTPURL p) \<noteq> [] \<or> trim_space (HTTPSURL p) \<noteq> [])"

definition IsExplicitDisable :: "HTTPProxy option \<Rightarrow> bool" where
  "IsExplicitDisable proxy =
     (case proxy of
        None \<Rightarrow> False
      | Some p \<Rightarrow>
          \<not> HasURLs proxy \<and> trim_space (NoProxy p) = []
          \<and> (case px_Auth p of None \<Rightarrow> True | Some a \<Rightarrow> pa_Basic a = None))"

fun firstEnvValue :: "config_env \<Rightarrow> string list \<Rightarrow> string option" where
  "firstEnvValue env [] = None"
| "firstEnvValue env (key # keys) =
     (let v = trim_space (Getenv env key) in if v = [] then firstEnvValue env keys else Some v)"

definition or_empty :: "string option \<Rightarrow> string" where
  "or_empty v = (case v of None \<Rightarrow> [] | Some s \<Rightarrow> s)"

definition FromEnvironment :: "config_env \<Rightarrow> HTTPProxy option" where
  "FromEnvironment env =
     (let httpURL = firstEnvValue env [''HTTP_PROXY'', ''http_proxy''];
          httpsURL = firstEnvValue env [''HTTPS_PROXY'', ''https_proxy''];
          noProxy = firstEnvValue env [''NO_PROXY'', ''no_proxy'']
      in if httpURL = None \<and> httpsURL = None \<and> noProxy = None then None
         else
           let proxy = Some \<lparr>HTTPURL = or_empty httpURL, HTTPSURL = or_empty httpsURL, NoProxy = or_empty noProxy, px_Auth = None\<rparr>
           in if IsExplicitDisable proxy then None else proxy)"

definition stripProxyURLUserInfo :: "config_env \<Rightarrow> string \<Rightarrow> string" where
  "stripProxyURLUserInfo env raw =
     (let v = trim_space raw in
      if v = [] then []
      else case url_Parse env v of
        Inl err \<Rightarrow> v
      | Inr parsed \<Rightarrow> if url_User parsed = None then v else url_String env (parsed\<lparr>url_User := None\<rparr>))"

text \<open>\<open>Merge\<close>; cloning is the identity on values.\<close>

definition merge_proxy_auth :: "config_env \<Rightarrow> HTTPProxy \<Rightarrow> HTTPProxy \<Rightarrow> HTTPProxy" where
  "merge_proxy_auth env p merged =
     (case px_Auth p of
        None \<Rightarrow> merged
      | Some a \<Rightarrow>
          let m1 = (if trim_space (HTTPURL p) = [] then merged\<lparr>HTTPURL := stripProxyURLUserInfo env (HTTPURL merged)\<rparr> else merged);
              m2 = (if trim_space (HTTPSURL p) = [] then m1\<lparr>HTTPSURL := stripProxyURLUserInfo env (HTTPSURL m1)\<rparr> else m1)
          in m2\<lparr>px_Auth := Some \<lparr>pa_Basic = pa_Basic a\<rparr>\<rparr>)"

definition MergeProxy :: "config_env \<Rightarrow> HTTPProxy option \<Rightarrow> HTTPProxy option \<Rightarrow> HTTPProxy option" where
  "MergeProxy env base over =
     (if IsExplicitDisable over then Some empty_proxy
      else if base = None \<and> over = None then None
      else
        let merged = (case base of None \<Rightarrow> empty_proxy | Some b \<Rightarrow> b) in
        case over of
          None \<Rightarrow> Some merged
        | Some p \<Rightarrow>
            let m1 = (if trim_space (HTTPURL p) \<noteq> [] then merged\<lparr>HTTPURL := trim_space (HTTPURL p)\<rparr> else merged);
                m2 = (if trim_space (HTTPSURL p) \<noteq> [] then m1\<lparr>HTTPSURL := trim_space (HTTPSURL p)\<rparr> else m1);
                m3 = (if trim_space (NoProxy p) \<noteq> [] then m2\<lparr>NoProxy := trim_space (NoProxy p)\<rparr> else m2)
            in Some (merge_proxy_auth env p m3))"

definition EqualProxy :: "HTTPProxy option \<Rightarrow> HTTPProxy option \<Rightarrow> bool" where
  "EqualProxy a b =
     (case (a, b) of
        (None, None) \<Rightarrow> True
      | (Some p, Some q) \<Rightarrow>
          trim_space (HTTPURL p) = trim_space (HTTPURL q) \<and> trim_space (HTTPSURL p) = trim_space (HTTPSURL q)
          \<and> trim_space (NoProxy p) = trim_space (NoProxy q)
          \<and> (case (px_Auth p, px_Auth q) of
               (None, None) \<Rightarrow> True
             | (Some x, Some y) \<Rightarrow>
                 (case (pa_Basic x, pa_Basic y) of
                    (None, None) \<Rightarrow> True
                  | (Some u, Some v) \<Rightarrow> CredentialName u = CredentialName v
                  | _ \<Rightarrow> False)
             | _ \<Rightarrow> False)
      | _ \<Rightarrow> False)"

definition count_set :: "bool list \<Rightarrow> nat" where
  "count_set bs = length (filter (\<lambda>b. b) bs)"

definition invalid :: "string \<Rightarrow> go_error" where
  "invalid s = Invalid (msg s) None"

definition parseProxyURL :: "config_env \<Rightarrow> string \<Rightarrow> string \<Rightarrow> go_error + URL option" where
  "parseProxyURL env field raw =
     (let v = trim_space raw in
      if v = [] then Inr None
      else case url_Parse env v of
        Inl err \<Rightarrow> Inl (Invalid (msg (field @ '' is invalid'')) (Some err))
      | Inr parsed \<Rightarrow>
          let scheme = to_lower (unicode_lower env) (url_Scheme parsed) in
          if scheme \<noteq> ''http'' \<and> scheme \<noteq> ''https'' then Inl (invalid (field @ '' must use http or https''))
          else if url_Host parsed = [] then Inl (invalid (field @ '' host is required''))
          else Inr (Some parsed))"

definition cloneProxyAuth :: "ProxyAuth option \<Rightarrow> go_error + BasicAuth option" where
  "cloneProxyAuth auth =
     (case auth of
        None \<Rightarrow> Inr None
      | Some a \<Rightarrow>
          (case pa_Basic a of
             None \<Rightarrow> Inl (invalid ''proxy auth must define basic'')
           | Some basic \<Rightarrow>
               if CredentialName basic = [] \<and> \<not> HasResolvedCredentials basic
               then Inl (invalid ''proxy auth basic.credentialsRef is required'') else Inr (Some basic)))"

text \<open>\<open>proxy.Config\<close> without its run time: the two URLs, the exceptions and credentials that are asked for later.\<close>

record ProxyConfig =
  pc_HTTP :: "URL option"
  pc_HTTPS :: "URL option"
  pc_NoProxy :: string
  pc_auth :: "BasicAuth option"

definition applyProxyAuth :: "string \<Rightarrow> URL option \<Rightarrow> string \<Rightarrow> string \<Rightarrow> go_error + URL option" where
  "applyProxyAuth fieldPrefix proxyURL username password =
     (case proxyURL of
        None \<Rightarrow> Inr None
      | Some u \<Rightarrow>
          if url_User u \<noteq> None then Inl (invalid (fieldPrefix @ '' cannot be combined with credentials embedded in proxy URL''))
          else Inr (Some (u\<lparr>url_User := Some (username, password)\<rparr>)))"

definition has_user :: "URL option \<Rightarrow> bool" where
  "has_user u = (case u of None \<Rightarrow> False | Some x \<Rightarrow> url_User x \<noteq> None)"

definition BuildProxy :: "config_env \<Rightarrow> string \<Rightarrow> HTTPProxy option \<Rightarrow> go_error + ProxyConfig" where
  "BuildProxy env fieldPrefix proxy =
     (case proxy of
        None \<Rightarrow> Inr \<lparr>pc_HTTP = None, pc_HTTPS = None, pc_NoProxy = [], pc_auth = None\<rparr>
      | Some p \<Rightarrow>
      (case parseProxyURL env (fieldPrefix @ ''.http-url'') (HTTPURL p) of
        Inl e \<Rightarrow> Inl e
      | Inr httpURL \<Rightarrow>
      (case parseProxyURL env (fieldPrefix @ ''.https-url'') (HTTPSURL p) of
        Inl e \<Rightarrow> Inl e
      | Inr httpsURL \<Rightarrow>
      (case cloneProxyAuth (px_Auth p) of
        Inl e \<Rightarrow> Inl e
      | Inr None \<Rightarrow> Inr \<lparr>pc_HTTP = httpURL, pc_HTTPS = httpsURL, pc_NoProxy = trim_space (NoProxy p), pc_auth = None\<rparr>
      | Inr (Some basic) \<Rightarrow>
          if has_user httpURL \<or> has_user httpsURL
          then Inl (invalid (fieldPrefix @ ''.auth cannot be combined with credentials embedded in proxy URL''))
          else if UsesPrompt basic
          then Inr \<lparr>pc_HTTP = httpURL, pc_HTTPS = httpsURL, pc_NoProxy = trim_space (NoProxy p), pc_auth = Some basic\<rparr>
          else
            (case applyProxyAuth (fieldPrefix @ ''.auth'') httpURL (Literal (ba_Username basic)) (Literal (ba_Password basic)) of
               Inl e \<Rightarrow> Inl e
             | Inr u \<Rightarrow>
                 (case applyProxyAuth (fieldPrefix @ ''.auth'') httpsURL (Literal (ba_Username basic)) (Literal (ba_Password basic)) of
                    Inl e \<Rightarrow> Inl e
                  | Inr us \<Rightarrow> Inr \<lparr>pc_HTTP = u, pc_HTTPS = us, pc_NoProxy = trim_space (NoProxy p), pc_auth = None\<rparr>))))))"

section \<open>Normalisation\<close>

definition normalizeCredentialsRef :: "CredentialsRef option \<Rightarrow> CredentialsRef option" where
  "normalizeCredentialsRef ref = map_option (\<lambda>r. r\<lparr>cref_Name := trim_space (cref_Name r)\<rparr>) ref"

definition no_value :: CredentialValue where
  "no_value = \<lparr>cv_Value = [], cv_Prompt = None\<rparr>"

definition normalizeProxy :: "HTTPProxy option \<Rightarrow> HTTPProxy option" where
  "normalizeProxy proxy =
     map_option (\<lambda>p. \<lparr>HTTPURL = trim_space (HTTPURL p), HTTPSURL = trim_space (HTTPSURL p), NoProxy = trim_space (NoProxy p),
       px_Auth = map_option (\<lambda>a. \<lparr>pa_Basic = map_option (\<lambda>b. \<lparr>ba_CredentialsRef = normalizeCredentialsRef (ba_CredentialsRef b),
           ba_Username = no_value, ba_Password = no_value\<rparr>) (pa_Basic a)\<rparr>) (px_Auth p)\<rparr>) proxy"

definition normalize_basic :: "BasicAuth \<Rightarrow> BasicAuth" where
  "normalize_basic b = b\<lparr>ba_CredentialsRef := normalizeCredentialsRef (ba_CredentialsRef b)\<rparr>"

definition normalize_remote :: "GitRemote \<Rightarrow> GitRemote" where
  "normalize_remote r =
     r\<lparr>gr_Auth := map_option (\<lambda>a. a\<lparr>ga_Basic := map_option normalize_basic (ga_Basic a)\<rparr>) (gr_Auth r),
       gr_Proxy := normalizeProxy (gr_Proxy r)\<rparr>"

definition normalize_http :: "HTTPServer \<Rightarrow> HTTPServer" where
  "normalize_http h =
     h\<lparr>HealthCheck := trim_space (HealthCheck h),
       hs_Auth := map_option (\<lambda>a. a\<lparr>ha_Basic := map_option normalize_basic (ha_Basic a)\<rparr>) (hs_Auth h),
       hs_Proxy := normalizeProxy (hs_Proxy h)\<rparr>"

definition normalize_vault :: "VaultSecretStore \<Rightarrow> VaultSecretStore" where
  "normalize_vault v =
     v\<lparr>vs_Auth := map_option (\<lambda>a. a\<lparr>va_Password := map_option (\<lambda>p. p\<lparr>vu_CredentialsRef := normalizeCredentialsRef (vu_CredentialsRef p)\<rparr>)
         (va_Password a)\<rparr>) (vs_Auth v),
       vs_Proxy := normalizeProxy (vs_Proxy v)\<rparr>"

definition on_remote :: "(GitRemote \<Rightarrow> GitRemote) \<Rightarrow> Context \<Rightarrow> Context" where
  "on_remote f cfg =
     cfg\<lparr>ctx_Repository := (ctx_Repository cfg)\<lparr>repo_Git :=
       map_option (\<lambda>g. g\<lparr>git_Remote := map_option f (git_Remote g)\<rparr>) (repo_Git (ctx_Repository cfg))\<rparr>\<rparr>"

definition on_http :: "(HTTPServer \<Rightarrow> HTTPServer) \<Rightarrow> Context \<Rightarrow> Context" where
  "on_http f cfg =
     cfg\<lparr>ctx_ManagedService := map_option (\<lambda>m. m\<lparr>ms_HTTP := map_option f (ms_HTTP m)\<rparr>) (ctx_ManagedService cfg)\<rparr>"

definition on_vault :: "(VaultSecretStore \<Rightarrow> VaultSecretStore) \<Rightarrow> Context \<Rightarrow> Context" where
  "on_vault f cfg =
     cfg\<lparr>ctx_SecretStore := map_option (\<lambda>s. s\<lparr>ss_Vault := map_option f (ss_Vault s)\<rparr>) (ctx_SecretStore cfg)\<rparr>"

definition on_metadata :: "(ConfigMetadata \<Rightarrow> ConfigMetadata) \<Rightarrow> Context \<Rightarrow> Context" where
  "on_metadata f cfg = cfg\<lparr>ctx_Metadata := f (ctx_Metadata cfg)\<rparr>"

definition normalizeConfig :: "Context \<Rightarrow> Context" where
  "normalizeConfig cfg =
     on_metadata (\<lambda>m. m\<lparr>md_Proxy := normalizeProxy (md_Proxy m)\<rparr>)
       (on_vault normalize_vault (on_http normalize_http (on_remote normalize_remote cfg)))"

section \<open>Proxy inheritance\<close>

text \<open>The places of a context that have a proxy, in the order of \<open>buildProxyTargets\<close>.\<close>

datatype proxy_target = ServiceProxy | RemoteProxy | VaultProxy | MetadataProxy

definition config_remote :: "Context \<Rightarrow> GitRemote option" where
  "config_remote cfg = (case repo_Git (ctx_Repository cfg) of None \<Rightarrow> None | Some g \<Rightarrow> git_Remote g)"

definition config_http :: "Context \<Rightarrow> HTTPServer option" where
  "config_http cfg = (case ctx_ManagedService cfg of None \<Rightarrow> None | Some m \<Rightarrow> ms_HTTP m)"

definition config_vault :: "Context \<Rightarrow> VaultSecretStore option" where
  "config_vault cfg = (case ctx_SecretStore cfg of None \<Rightarrow> None | Some s \<Rightarrow> ss_Vault s)"

definition buildProxyTargets :: "Context \<Rightarrow> proxy_target list" where
  "buildProxyTargets cfg =
     (if config_http cfg \<noteq> None then [ServiceProxy] else [])
     @ (if config_remote cfg \<noteq> None then [RemoteProxy] else [])
     @ (if config_vault cfg \<noteq> None then [VaultProxy] else [])
     @ [MetadataProxy]"

fun get_proxy :: "proxy_target \<Rightarrow> Context \<Rightarrow> HTTPProxy option" where
  "get_proxy ServiceProxy cfg = (case config_http cfg of None \<Rightarrow> None | Some h \<Rightarrow> hs_Proxy h)"
| "get_proxy RemoteProxy cfg = (case config_remote cfg of None \<Rightarrow> None | Some r \<Rightarrow> gr_Proxy r)"
| "get_proxy VaultProxy cfg = (case config_vault cfg of None \<Rightarrow> None | Some v \<Rightarrow> vs_Proxy v)"
| "get_proxy MetadataProxy cfg = md_Proxy (ctx_Metadata cfg)"

fun set_proxy :: "proxy_target \<Rightarrow> HTTPProxy option \<Rightarrow> Context \<Rightarrow> Context" where
  "set_proxy ServiceProxy p cfg = on_http (\<lambda>h. h\<lparr>hs_Proxy := p\<rparr>) cfg"
| "set_proxy RemoteProxy p cfg = on_remote (\<lambda>r. r\<lparr>gr_Proxy := p\<rparr>) cfg"
| "set_proxy VaultProxy p cfg = on_vault (\<lambda>v. v\<lparr>vs_Proxy := p\<rparr>) cfg"
| "set_proxy MetadataProxy p cfg = on_metadata (\<lambda>m. m\<lparr>md_Proxy := p\<rparr>) cfg"

text \<open>The first loop of \<open>applyProxyDefaults\<close> merges the environment into configured blocks and finds the block to inherit.\<close>

fun merge_targets ::
  "config_env \<Rightarrow> HTTPProxy option \<Rightarrow> proxy_target list \<Rightarrow> HTTPProxy option \<times> bool \<Rightarrow> Context \<Rightarrow> HTTPProxy option \<times> Context" where
  "merge_targets env envProxy [] (canonical, found) cfg = (canonical, cfg)"
| "merge_targets env envProxy (t # ts) (canonical, found) cfg =
     (let current = get_proxy t cfg in
      if current = None \<or> IsExplicitDisable current then merge_targets env envProxy ts (canonical, found) cfg
      else
        let merged = MergeProxy env envProxy current in
        merge_targets env envProxy ts
          (if \<not> found \<and> HasURLs merged then (merged, True) else (canonical, found)) (set_proxy t merged cfg))"

fun inherit_targets :: "HTTPProxy option \<Rightarrow> proxy_target list \<Rightarrow> Context \<Rightarrow> Context" where
  "inherit_targets canonical [] cfg = cfg"
| "inherit_targets canonical (t # ts) cfg =
     inherit_targets canonical ts (if get_proxy t cfg = None then set_proxy t canonical cfg else cfg)"

definition applyProxyDefaults :: "config_env \<Rightarrow> Context \<Rightarrow> Context" where
  "applyProxyDefaults env cfg =
     (let envProxy = FromEnvironment env; targets = buildProxyTargets cfg;
          canonical0 = (if envProxy \<noteq> None \<and> HasURLs envProxy then envProxy else None) in
      case merge_targets env envProxy targets (canonical0, False) cfg of
        (canonical, cfg1) \<Rightarrow> if canonical = None then cfg1 else inherit_targets canonical targets cfg1)"

fun first_with_urls :: "proxy_target list \<Rightarrow> Context \<Rightarrow> HTTPProxy option" where
  "first_with_urls [] cfg = None"
| "first_with_urls (t # ts) cfg =
     (let current = get_proxy t cfg in if current \<noteq> None \<and> HasURLs current then current else first_with_urls ts cfg)"

fun omit_targets :: "HTTPProxy option \<Rightarrow> Context \<Rightarrow> proxy_target list \<Rightarrow> Context \<Rightarrow> Context" where
  "omit_targets canonical baseline [] cfg = cfg"
| "omit_targets canonical baseline (t # ts) cfg =
     (let current = get_proxy t cfg in
      omit_targets canonical baseline ts
        (if current = None \<or> IsExplicitDisable current then cfg
         else if t \<notin> set (buildProxyTargets baseline) \<or> get_proxy t baseline \<noteq> None then cfg
         else if EqualProxy current canonical then set_proxy t None cfg
         else cfg))"

definition preserveProxyOmissions :: "Context \<Rightarrow> Context \<Rightarrow> Context" where
  "preserveProxyOmissions cfg baseline =
     (let targets = buildProxyTargets cfg; canonical = first_with_urls targets cfg in
      if canonical = None then cfg else omit_targets canonical baseline targets cfg)"

section \<open>Defaults, compaction and overrides\<close>

definition ContextRepositoryBaseDir :: "Context \<Rightarrow> string" where
  "ContextRepositoryBaseDir cfg =
     (case repo_Git (ctx_Repository cfg) of
        Some g \<Rightarrow> gl_BaseDir (git_Local g)
      | None \<Rightarrow> (case repo_Filesystem (ctx_Repository cfg) of Some f \<Rightarrow> fs_BaseDir f | None \<Rightarrow> []))"

definition normalizeContextBaseDir :: "string \<Rightarrow> string" where
  "normalizeContextBaseDir p = (if p = [] then [] else path_clean p)"

definition metadataUsesDefaultBaseDir :: "Context \<Rightarrow> bool" where
  "metadataUsesDefaultBaseDir cfg =
     (let repoBaseDir = normalizeContextBaseDir (ContextRepositoryBaseDir cfg);
          metadataBaseDir = normalizeContextBaseDir (md_BaseDir (ctx_Metadata cfg))
      in repoBaseDir \<noteq> [] \<and> metadataBaseDir \<noteq> [] \<and> repoBaseDir = metadataBaseDir)"

definition CompactContext :: "Context \<Rightarrow> Context" where
  "CompactContext cfg =
     (let m = ctx_Metadata cfg in
      if trim_space (md_Bundle m) \<noteq> [] \<or> trim_space (md_BundleFile m) \<noteq> [] then on_metadata (\<lambda>m. m\<lparr>md_BaseDir := []\<rparr>) cfg
      else if metadataUsesDefaultBaseDir cfg then on_metadata (\<lambda>m. m\<lparr>md_BaseDir := []\<rparr>) cfg
      else cfg)"

definition compactContextCatalogForPersistence :: "ContextCatalog \<Rightarrow> ContextCatalog" where
  "compactContextCatalogForPersistence c =
     (let c1 = c\<lparr>DefaultEditor := trim_space (DefaultEditor c)\<rparr> in
      if length (Contexts c1) = 0 then c1 else c1\<lparr>Contexts := map CompactContext (Contexts c1)\<rparr>)"

definition applyConfigDefaults :: "config_env \<Rightarrow> Context \<Rightarrow> Context" where
  "applyConfigDefaults env cfg0 =
     (let cfg = normalizeConfig cfg0; m = ctx_Metadata cfg;
          cfg1 = (if trim_space (md_Bundle m) = [] \<and> trim_space (md_BundleFile m) = [] \<and> md_BaseDir m = []
                  then on_metadata (\<lambda>m. m\<lparr>md_BaseDir := ContextRepositoryBaseDir cfg\<rparr>) cfg else cfg)
      in applyProxyDefaults env cfg1)"

definition override_service :: "string \<Rightarrow> (HTTPServer \<Rightarrow> HTTPServer) \<Rightarrow> Context \<Rightarrow> Context result" where
  "override_service key f cfg =
     (if config_http cfg = None then Err (invalid (''override '' @ key @ '' requires managedService.http to be configured''))
      else Ok (on_http f cfg))"

definition override_proxy :: "(HTTPProxy \<Rightarrow> HTTPProxy) \<Rightarrow> HTTPServer \<Rightarrow> HTTPServer" where
  "override_proxy f h = h\<lparr>hs_Proxy := Some (f (case hs_Proxy h of None \<Rightarrow> empty_proxy | Some p \<Rightarrow> p))\<rparr>"

definition apply_override :: "string \<Rightarrow> string \<Rightarrow> Context \<Rightarrow> Context result" where
  "apply_override key v cfg =
     (let repo = ctx_Repository cfg in
      if key = ''repository.git.local.baseDir'' then
        (case repo_Git repo of
           None \<Rightarrow> Err (invalid ''override repository.git.local.baseDir requires repository.git to be configured'')
         | Some g \<Rightarrow> Ok (cfg\<lparr>ctx_Repository := repo\<lparr>repo_Git := Some (g\<lparr>git_Local := (git_Local g)\<lparr>gl_BaseDir := v\<rparr>\<rparr>)\<rparr>\<rparr>))
      else if key = ''repository.filesystem.baseDir'' then
        (case repo_Filesystem repo of
           None \<Rightarrow> Err (invalid ''override repository.filesystem.baseDir requires repository.filesystem to be configured'')
         | Some f \<Rightarrow> Ok (cfg\<lparr>ctx_Repository := repo\<lparr>repo_Filesystem := Some (f\<lparr>fs_BaseDir := v\<rparr>)\<rparr>\<rparr>))
      else if key = ''managedService.http.url'' then override_service key (\<lambda>h. h\<lparr>BaseURL := v\<rparr>) cfg
      else if key = ''managedService.http.healthCheck'' then override_service key (\<lambda>h. h\<lparr>HealthCheck := v\<rparr>) cfg
      else if key = ''managedService.http.proxy.http'' then override_service key (override_proxy (\<lambda>p. p\<lparr>HTTPURL := v\<rparr>)) cfg
      else if key = ''managedService.http.proxy.https'' then override_service key (override_proxy (\<lambda>p. p\<lparr>HTTPSURL := v\<rparr>)) cfg
      else if key = ''managedService.http.proxy.noProxy'' then override_service key (override_proxy (\<lambda>p. p\<lparr>NoProxy := v\<rparr>)) cfg
      else if key = ''metadata.baseDir'' then
        Ok (on_metadata (\<lambda>m. if trim_space v \<noteq> [] then m\<lparr>md_BaseDir := v, md_Bundle := [], md_BundleFile := []\<rparr> else m\<lparr>md_BaseDir := v\<rparr>) cfg)
      else if key = ''metadata.bundle'' then
        Ok (on_metadata (\<lambda>m. if trim_space v \<noteq> [] then m\<lparr>md_Bundle := v, md_BaseDir := [], md_BundleFile := []\<rparr> else m\<lparr>md_Bundle := v\<rparr>) cfg)
      else if key = ''metadata.bundleFile'' then
        Ok (on_metadata (\<lambda>m. if trim_space v \<noteq> [] then m\<lparr>md_BundleFile := v, md_BaseDir := [], md_Bundle := []\<rparr> else m\<lparr>md_BundleFile := v\<rparr>) cfg)
      else Err (Invalid (''unknown override key %q'', [key]) None))"

text \<open>The overrides are a map, visited with sorted keys: the order of the list.\<close>

fun applyOverrides :: "(string, string) gomap \<Rightarrow> Context \<Rightarrow> Context result" where
  "applyOverrides [] cfg = Ok cfg"
| "applyOverrides ((key, v) # overrides) cfg =
     (case apply_override key v cfg of Err e \<Rightarrow> Err e | Ok cfg' \<Rightarrow> applyOverrides overrides cfg')"

section \<open>Validation\<close>

text \<open>The first error of a sequence of checks, as successive \<open>if err != nil\<close> return it.\<close>

fun first_error :: "go_error option list \<Rightarrow> go_error option" where
  "first_error [] = None"
| "first_error (c # cs) = (case c of Some e \<Rightarrow> Some e | None \<Rightarrow> first_error cs)"

definition ensure :: "bool \<Rightarrow> string \<Rightarrow> go_error option" where
  "ensure b s = (if b then None else Some (invalid s))"

definition validateCredentialValue :: "string \<Rightarrow> CredentialValue \<Rightarrow> go_error option" where
  "validateCredentialValue field v =
     (case cv_Prompt v of
        None \<Rightarrow> ensure (Literal v \<noteq> []) (field @ '' is required'')
      | Some p \<Rightarrow> ensure (cp_Prompt p) (field @ ''.prompt must be true when prompt configuration is used''))"

fun validate_credentials_from :: "nat \<Rightarrow> (string, Credential) gomap \<Rightarrow> Credential list \<Rightarrow> (string, Credential) gomap result" where
  "validate_credentials_from idx index [] = Ok index"
| "validate_credentials_from idx index (item # items) =
     (let name = trim_space (cred_Name item); at_idx = ''credentials['' @ itoa (int idx) @ '']'' in
      if name = [] then Err (invalid (at_idx @ ''.name is required''))
      else if map_get index name \<noteq> None then Err (Invalid (''duplicate credential name %q'', [name]) None)
      else case first_error [validateCredentialValue (at_idx @ ''.username'') (cred_Username item),
                             validateCredentialValue (at_idx @ ''.password'') (cred_Password item)] of
        Some e \<Rightarrow> Err e
      | None \<Rightarrow> validate_credentials_from (Suc idx) (map_put name (item\<lparr>cred_Name := name\<rparr>) index) items)"

definition validateCredentials :: "Credential list \<Rightarrow> (string, Credential) gomap result" where
  "validateCredentials items = validate_credentials_from 0 [] items"

definition validateCredentialRef :: "string \<Rightarrow> CredentialsRef option \<Rightarrow> (string, Credential) gomap \<Rightarrow> bool \<Rightarrow> go_error option" where
  "validateCredentialRef field ref credentials strict =
     (if ref_name ref = [] then Some (invalid (field @ '' is required''))
      else if strict \<and> map_get credentials (ref_name ref) = None
      then Some (Invalid (field @ '' references undefined credential %q'', [ref_name ref]) None)
      else None)"

definition validateProxyAuth :: "string \<Rightarrow> ProxyAuth \<Rightarrow> (string, Credential) gomap \<Rightarrow> bool \<Rightarrow> go_error option" where
  "validateProxyAuth field auth credentials strict =
     (case pa_Basic auth of
        None \<Rightarrow> Some (invalid (field @ '' must define basic''))
      | Some basic \<Rightarrow> validateCredentialRef (field @ ''.basic.credentialsRef'') (ba_CredentialsRef basic) credentials strict)"

definition validateProxy :: "config_env \<Rightarrow> string \<Rightarrow> HTTPProxy option \<Rightarrow> (string, Credential) gomap \<Rightarrow> bool \<Rightarrow> go_error option" where
  "validateProxy env field proxy credentials strict =
     (case proxy of
        None \<Rightarrow> None
      | Some p \<Rightarrow>
          if IsExplicitDisable proxy then None
          else first_error
            [case px_Auth p of None \<Rightarrow> None | Some a \<Rightarrow> validateProxyAuth (field @ ''.auth'') a credentials strict,
             case BuildProxy env field proxy of Inl e \<Rightarrow> Some e | Inr pc \<Rightarrow> None])"

definition validate_git_auth :: "GitAuth \<Rightarrow> (string, Credential) gomap \<Rightarrow> bool \<Rightarrow> go_error option" where
  "validate_git_auth a credentials strict =
     first_error
       [ensure (count_set [ga_Basic a \<noteq> None, ga_SSH a \<noteq> None, ga_AccessKey a \<noteq> None] = 1)
          ''repository.git.remote.auth must define exactly one of basic, ssh, accessKey'',
        case ga_Basic a of None \<Rightarrow> None
        | Some b \<Rightarrow> validateCredentialRef ''repository.git.remote.auth.basic.credentialsRef'' (ba_CredentialsRef b) credentials strict]"

definition validate_git :: "config_env \<Rightarrow> GitRepository \<Rightarrow> (string, Credential) gomap \<Rightarrow> bool \<Rightarrow> go_error option" where
  "validate_git env g credentials strict =
     first_error
       [ensure (gl_BaseDir (git_Local g) \<noteq> []) ''repository.git.local.baseDir is required'',
        case git_Remote g of None \<Rightarrow> None
        | Some r \<Rightarrow> first_error
            [ensure (gr_URL r \<noteq> []) ''repository.git.remote.url is required'',
             case gr_Auth r of None \<Rightarrow> None | Some a \<Rightarrow> validate_git_auth a credentials strict,
             validateProxy env ''repository.git.remote.proxy'' (gr_Proxy r) credentials strict]]"

definition validateRepository :: "config_env \<Rightarrow> ConfigRepository \<Rightarrow> (string, Credential) gomap \<Rightarrow> bool \<Rightarrow> go_error option" where
  "validateRepository env repo credentials strict =
     (if repo_Git repo = None \<and> repo_Filesystem repo = None then None
      else first_error
        [ensure (count_set [repo_Git repo \<noteq> None, repo_Filesystem repo \<noteq> None] = 1) ''repository must define exactly one of git or filesystem'',
         case repo_Git repo of None \<Rightarrow> None | Some g \<Rightarrow> validate_git env g credentials strict,
         case repo_Filesystem repo of None \<Rightarrow> None | Some f \<Rightarrow> ensure (fs_BaseDir f \<noteq> []) ''repository.filesystem.baseDir is required''])"

definition validateManagedServiceRequestThrottling :: "HTTPRequestThrottling option \<Rightarrow> go_error option" where
  "validateManagedServiceRequestThrottling throttling =
     (case throttling of
        None \<Rightarrow> None
      | Some t \<Rightarrow> first_error
          [ensure (\<not> (MaxConcurrentRequests t \<le> 0 \<and> RequestsPerSecond t \<le> 0))
             ''managedService.http.requestThrottling must define at least one of maxConcurrentRequests or requestsPerSecond'',
           ensure (\<not> MaxConcurrentRequests t < 0) ''managedService.http.requestThrottling.maxConcurrentRequests must be greater than zero when set'',
           ensure (\<not> QueueSize t < 0) ''managedService.http.requestThrottling.queueSize must be greater than or equal to zero'',
           ensure (\<not> (0 < QueueSize t \<and> MaxConcurrentRequests t \<le> 0)) ''managedService.http.requestThrottling.queueSize requires maxConcurrentRequests'',
           ensure (\<not> RequestsPerSecond t < 0) ''managedService.http.requestThrottling.requestsPerSecond must be greater than zero when set'',
           ensure (\<not> Burst t < 0) ''managedService.http.requestThrottling.burst must be greater than zero when set'',
           ensure (\<not> (0 < Burst t \<and> RequestsPerSecond t \<le> 0)) ''managedService.http.requestThrottling.burst requires requestsPerSecond''])"

text \<open>\<open>filepath.Rel("/", p)\<close> fails exactly when the cleaned path is not rooted.\<close>

definition validateManagedServiceHealthCheck :: "config_env \<Rightarrow> string \<Rightarrow> go_error option" where
  "validateManagedServiceHealthCheck env v =
     (let healthCheck = trim_space v in
      if healthCheck = [] then None
      else case url_Parse env healthCheck of
        Inl err \<Rightarrow> Some (Invalid (msg ''managedService.http.healthCheck is invalid'') (Some err))
      | Inr parsed \<Rightarrow>
          if trim_space (url_RawQuery parsed) \<noteq> [] then Some (invalid ''managedService.http.healthCheck must not include query parameters'')
          else if url_Scheme parsed = [] \<and> url_Host parsed = [] then
            ensure (trim_space (url_Path parsed) \<noteq> []) ''managedService.http.healthCheck is invalid''
          else if url_Scheme parsed \<noteq> ''http'' \<and> url_Scheme parsed \<noteq> ''https''
          then Some (invalid ''managedService.http.healthCheck URL must use http or https'')
          else if url_Host parsed = [] then Some (invalid ''managedService.http.healthCheck URL host is required'')
          else ensure (prefix ''/'' (path_clean (url_Path parsed))) ''managedService.http.healthCheck URL path is invalid'')"

definition validate_headers :: "HeaderTokenAuth list \<Rightarrow> go_error option" where
  "validate_headers heads =
     first_error (map (\<lambda>(idx, head). ensure (ht_Header head \<noteq> [] \<and> ht_Value head \<noteq> [])
         (''managedService.http.auth.customHeaders['' @ itoa (int idx) @ ''] requires header and value''))
       (zip [0..<length heads] heads))"

definition validate_http_auth :: "HTTPAuth \<Rightarrow> (string, Credential) gomap \<Rightarrow> bool \<Rightarrow> go_error option" where
  "validate_http_auth a credentials strict =
     first_error
       [ensure (count_set [ha_OAuth2 a \<noteq> None, ha_Basic a \<noteq> None, 0 < length (ha_CustomHeaders a)] = 1)
          ''managedService.http.auth must define exactly one of oauth2, basic, customHeaders'',
        case ha_OAuth2 a of None \<Rightarrow> None
        | Some oa \<Rightarrow> ensure (\<not> (oa_TokenURL oa = [] \<or> oa_GrantType oa = [] \<or> oa_ClientID oa = [] \<or> oa_ClientSecret oa = []))
            ''managedService.http.auth.oauth2 requires tokenURL, grantType, clientID, clientSecret'',
        case ha_Basic a of None \<Rightarrow> None
        | Some b \<Rightarrow> validateCredentialRef ''managedService.http.auth.basic.credentialsRef'' (ba_CredentialsRef b) credentials strict,
        validate_headers (ha_CustomHeaders a)]"

definition validateManagedService :: "config_env \<Rightarrow> ConfigManagedService option \<Rightarrow> (string, Credential) gomap \<Rightarrow> bool \<Rightarrow> go_error option" where
  "validateManagedService env service credentials strict =
     (case service of
        None \<Rightarrow> None
      | Some m \<Rightarrow>
      (case ms_HTTP m of
        None \<Rightarrow> Some (invalid ''managedService must define http'')
      | Some h \<Rightarrow>
          if BaseURL h = [] then Some (invalid ''managedService.http.url is required'')
          else case hs_Auth h of
            None \<Rightarrow> Some (invalid ''managedService.http.auth is required'')
          | Some a \<Rightarrow> first_error
              [validate_http_auth a credentials strict,
               validateProxy env ''managedService.http.proxy'' (hs_Proxy h) credentials strict,
               validateManagedServiceRequestThrottling (RequestThrottling h),
               validateManagedServiceHealthCheck env (HealthCheck h)]))"

definition validate_vault :: "config_env \<Rightarrow> VaultSecretStore \<Rightarrow> (string, Credential) gomap \<Rightarrow> bool \<Rightarrow> go_error option" where
  "validate_vault env v credentials strict =
     (if vs_Address v = [] then Some (invalid ''secretStore.vault.address is required'')
      else case vs_Auth v of
        None \<Rightarrow> Some (invalid ''secretStore.vault.auth is required'')
      | Some a \<Rightarrow> first_error
          [ensure (count_set [va_Token a \<noteq> [], va_Password a \<noteq> None, va_AppRole a \<noteq> None] = 1)
             ''secretStore.vault.auth must define exactly one of token, password, appRole'',
           case va_Password a of None \<Rightarrow> None
           | Some p \<Rightarrow> validateCredentialRef ''secretStore.vault.auth.password.credentialsRef'' (vu_CredentialsRef p) credentials strict,
           validateProxy env ''secretStore.vault.proxy'' (vs_Proxy v) credentials strict])"

definition validateSecretStore :: "config_env \<Rightarrow> ConfigSecretStore option \<Rightarrow> (string, Credential) gomap \<Rightarrow> bool \<Rightarrow> go_error option" where
  "validateSecretStore env store credentials strict =
     (case store of
        None \<Rightarrow> None
      | Some s \<Rightarrow> first_error
          [ensure (count_set [ss_File s \<noteq> None, ss_Vault s \<noteq> None] = 1) ''secretStore must define exactly one of file or vault'',
           case ss_File s of None \<Rightarrow> None
           | Some t \<Rightarrow> first_error
               [ensure (fss_Path t \<noteq> []) ''secretStore.file.path is required'',
                ensure (count_set [fss_Key t \<noteq> [], fss_KeyFile t \<noteq> [], fss_Passphrase t \<noteq> [], fss_PassphraseFile t \<noteq> []] = 1)
                  ''secretStore.file must define exactly one of key, keyFile, passphrase, passphraseFile''],
           case ss_Vault s of None \<Rightarrow> None | Some v \<Rightarrow> validate_vault env v credentials strict])"

definition validateMetadata :: "config_env \<Rightarrow> ConfigMetadata \<Rightarrow> go_error option" where
  "validateMetadata env m =
     first_error
       [ensure (\<not> 1 < count_set [trim_space (md_BaseDir m) \<noteq> [], trim_space (md_Bundle m) \<noteq> [], trim_space (md_BundleFile m) \<noteq> []])
          ''metadata must define at most one of baseDir, bundle, or bundleFile'',
        validateProxy env ''metadata.proxy'' (md_Proxy m) [] False]"

definition validateConfig :: "config_env \<Rightarrow> Context \<Rightarrow> (string, Credential) gomap \<Rightarrow> bool \<Rightarrow> go_error option" where
  "validateConfig env cfg0 credentials strict =
     (let cfg = normalizeConfig cfg0 in
      first_error
        [ensure (ctx_Name cfg \<noteq> []) ''context name must not be empty'',
         ensure (\<not> (repo_Git (ctx_Repository cfg) = None \<and> repo_Filesystem (ctx_Repository cfg) = None \<and> ctx_ManagedService cfg = None))
           ''context must define at least one of repository or managedService'',
         validateRepository env (ctx_Repository cfg) credentials strict,
         validateManagedService env (ctx_ManagedService cfg) credentials strict,
         validateSecretStore env (ctx_SecretStore cfg) credentials strict,
         validateMetadata env (ctx_Metadata cfg)])"

fun validate_contexts :: "config_env \<Rightarrow> (string, Credential) gomap \<Rightarrow> string list \<Rightarrow> Context list \<Rightarrow> go_error option" where
  "validate_contexts env credentials seen [] = None"
| "validate_contexts env credentials seen (item # items) =
     (if ctx_Name item = [] then Some (invalid ''context name must not be empty'')
      else if ctx_Name item \<in> set seen then Some (Invalid (''duplicate context name %q'', [ctx_Name item]) None)
      else case validateConfig env item credentials True of
        Some e \<Rightarrow> Some e
      | None \<Rightarrow> validate_contexts env credentials (ctx_Name item # seen) items)"

definition validateCatalog :: "config_env \<Rightarrow> ContextCatalog \<Rightarrow> go_error option" where
  "validateCatalog env c =
     (case validateCredentials (Credentials c) of
        Err e \<Rightarrow> Some e
      | Ok credentials \<Rightarrow>
          if length (Contexts c) = 0 then
            ensure (CurrentContext c = []) ''currentContext must be empty when contexts list is empty''
          else case validate_contexts env credentials [] (Contexts c) of
            Some e \<Rightarrow> Some e
          | None \<Rightarrow>
              if CurrentContext c = [] then Some (invalid ''currentContext must be set when contexts are defined'')
              else if CurrentContext c \<notin> ctx_Name ` set (Contexts c)
              then Some (Invalid (''currentContext %q does not match any context'', [CurrentContext c]) None)
              else None)"

definition expand_env :: "config_env \<Rightarrow> string \<Rightarrow> string" where
  "expand_env env = expand_string (Getenv env)"

definition validateResolvedCatalog :: "config_env \<Rightarrow> ContextCatalog \<Rightarrow> go_error option" where
  "validateResolvedCatalog env c = validateCatalog env (expand_catalog (expand_env env) c)"

definition validateResolvedConfig :: "config_env \<Rightarrow> Context \<Rightarrow> go_error option" where
  "validateResolvedConfig env cfg = validateConfig env (expand_context (expand_env env) cfg) (ctx_Credentials cfg) False"

section \<open>Credentials\<close>

definition referencedCredential :: "string \<Rightarrow> CredentialsRef option \<Rightarrow> (string, Credential) gomap \<Rightarrow> Credential result" where
  "referencedCredential field ref credentials =
     (if ref_name ref = [] then Err (invalid (field @ '' is required''))
      else case map_get credentials (ref_name ref) of
        None \<Rightarrow> Err (Invalid (''%s references undefined credential %q'', [field, ref_name ref]) None)
      | Some item \<Rightarrow> Ok item)"

definition injectBasicCredentials :: "string \<Rightarrow> (string, Credential) gomap \<Rightarrow> BasicAuth \<Rightarrow> BasicAuth result" where
  "injectBasicCredentials field credentials target =
     (case referencedCredential field (ba_CredentialsRef target) credentials of
        Err e \<Rightarrow> Err e
      | Ok item \<Rightarrow> Ok (target\<lparr>ba_Username := cred_Username item, ba_Password := cred_Password item\<rparr>))"

definition injectVaultUserPasswordCredentials ::
  "string \<Rightarrow> (string, Credential) gomap \<Rightarrow> VaultUserPasswordAuth \<Rightarrow> VaultUserPasswordAuth result" where
  "injectVaultUserPasswordCredentials field credentials target =
     (case referencedCredential field (vu_CredentialsRef target) credentials of
        Err e \<Rightarrow> Err e
      | Ok item \<Rightarrow> Ok (target\<lparr>vu_Username := cred_Username item, vu_Password := cred_Password item\<rparr>))"

text \<open>An operation below a pointer: nothing to do when it is \<open>nil\<close>.\<close>

definition on_option :: "('a \<Rightarrow> 'a result) \<Rightarrow> 'a option \<Rightarrow> 'a option result" where
  "on_option f x = (case x of None \<Rightarrow> Ok None | Some a \<Rightarrow> (case f a of Err e \<Rightarrow> Err e | Ok b \<Rightarrow> Ok (Some b)))"

definition bind_result :: "'a result \<Rightarrow> ('a \<Rightarrow> 'b result) \<Rightarrow> 'b result" where
  "bind_result r f = (case r of Err e \<Rightarrow> Err e | Ok x \<Rightarrow> f x)"

definition injectProxyCredentials :: "string \<Rightarrow> (string, Credential) gomap \<Rightarrow> HTTPProxy option \<Rightarrow> HTTPProxy option result" where
  "injectProxyCredentials field credentials =
     on_option (\<lambda>p. bind_result
       (on_option (\<lambda>a. bind_result (on_option (injectBasicCredentials field credentials) (pa_Basic a)) (\<lambda>b. Ok (a\<lparr>pa_Basic := b\<rparr>))) (px_Auth p))
       (\<lambda>a. Ok (p\<lparr>px_Auth := a\<rparr>)))"

definition inject_remote :: "(string, Credential) gomap \<Rightarrow> GitRemote \<Rightarrow> GitRemote result" where
  "inject_remote credentials r =
     bind_result (on_option (\<lambda>a. bind_result
         (on_option (injectBasicCredentials ''repository.git.remote.auth.basic.credentialsRef'' credentials) (ga_Basic a))
         (\<lambda>b. Ok (a\<lparr>ga_Basic := b\<rparr>))) (gr_Auth r))
       (\<lambda>a. bind_result (injectProxyCredentials ''repository.git.remote.proxy.auth.basic.credentialsRef'' credentials (gr_Proxy r))
         (\<lambda>p. Ok (r\<lparr>gr_Auth := a, gr_Proxy := p\<rparr>)))"

definition inject_http :: "(string, Credential) gomap \<Rightarrow> HTTPServer \<Rightarrow> HTTPServer result" where
  "inject_http credentials h =
     bind_result (on_option (\<lambda>a. bind_result
         (on_option (injectBasicCredentials ''managedService.http.auth.basic.credentialsRef'' credentials) (ha_Basic a))
         (\<lambda>b. Ok (a\<lparr>ha_Basic := b\<rparr>))) (hs_Auth h))
       (\<lambda>a. bind_result (injectProxyCredentials ''managedService.http.proxy.auth.basic.credentialsRef'' credentials (hs_Proxy h))
         (\<lambda>p. Ok (h\<lparr>hs_Auth := a, hs_Proxy := p\<rparr>)))"

definition inject_vault :: "(string, Credential) gomap \<Rightarrow> VaultSecretStore \<Rightarrow> VaultSecretStore result" where
  "inject_vault credentials v =
     bind_result (on_option (\<lambda>a. bind_result
         (on_option (injectVaultUserPasswordCredentials ''secretStore.vault.auth.password.credentialsRef'' credentials) (va_Password a))
         (\<lambda>b. Ok (a\<lparr>va_Password := b\<rparr>))) (vs_Auth v))
       (\<lambda>a. bind_result (injectProxyCredentials ''secretStore.vault.proxy.auth.basic.credentialsRef'' credentials (vs_Proxy v))
         (\<lambda>p. Ok (v\<lparr>vs_Auth := a, vs_Proxy := p\<rparr>)))"

definition injectContextCredentials :: "Context \<Rightarrow> (string, Credential) gomap \<Rightarrow> Context result" where
  "injectContextCredentials cfg credentials =
     bind_result (on_option (\<lambda>g. bind_result (on_option (inject_remote credentials) (git_Remote g)) (\<lambda>r. Ok (g\<lparr>git_Remote := r\<rparr>)))
         (repo_Git (ctx_Repository cfg)))
       (\<lambda>git. bind_result (on_option (\<lambda>m. bind_result (on_option (inject_http credentials) (ms_HTTP m)) (\<lambda>h. Ok (m\<lparr>ms_HTTP := h\<rparr>)))
           (ctx_ManagedService cfg))
         (\<lambda>service. bind_result (on_option (\<lambda>s. bind_result (on_option (inject_vault credentials) (ss_Vault s)) (\<lambda>v. Ok (s\<lparr>ss_Vault := v\<rparr>)))
             (ctx_SecretStore cfg))
           (\<lambda>store. bind_result (injectProxyCredentials ''metadata.proxy.auth.basic.credentialsRef'' credentials (md_Proxy (ctx_Metadata cfg)))
             (\<lambda>p. Ok (cfg\<lparr>ctx_Repository := (ctx_Repository cfg)\<lparr>repo_Git := git\<rparr>, ctx_ManagedService := service,
                ctx_SecretStore := store, ctx_Metadata := (ctx_Metadata cfg)\<lparr>md_Proxy := p\<rparr>\<rparr>)))))"

definition credentialsEqual :: "Credential \<Rightarrow> Credential \<Rightarrow> bool" where
  "credentialsEqual a b \<longleftrightarrow>
     trim_space (cred_Name a) = trim_space (cred_Name b)
     \<and> Literal (cred_Username a) = Literal (cred_Username b) \<and> IsPrompt (cred_Username a) = IsPrompt (cred_Username b)
     \<and> PersistInSession (cred_Username a) = PersistInSession (cred_Username b)
     \<and> Literal (cred_Password a) = Literal (cred_Password b) \<and> IsPrompt (cred_Password a) = IsPrompt (cred_Password b)
     \<and> PersistInSession (cred_Password a) = PersistInSession (cred_Password b)"

fun merge_credentials ::
  "(string, Credential) gomap \<Rightarrow> (string, Credential) gomap \<Rightarrow> ContextCatalog \<Rightarrow> ContextCatalog result" where
  "merge_credentials [] index catalog = Ok catalog"
| "merge_credentials ((key, item0) # items) index catalog =
     (let item = (if trim_space (cred_Name item0) = [] then item0\<lparr>cred_Name := key\<rparr> else item0) in
      case validateCredentials [item] of
        Err e \<Rightarrow> Err e
      | Ok single \<Rightarrow>
          (let name = trim_space (cred_Name item); normalized = item\<lparr>cred_Name := name\<rparr> in
           case map_get index name of
             Some existing \<Rightarrow>
               if \<not> credentialsEqual existing normalized
               then Err (Invalid (''credential %q already exists with different content'', [name]) None)
               else merge_credentials items index catalog
           | None \<Rightarrow>
               merge_credentials items (map_put name normalized index)
                 (catalog\<lparr>Credentials := Credentials catalog @ [normalized]\<rparr>)))"

definition mergeContextCredentials :: "ContextCatalog \<Rightarrow> (string, Credential) gomap \<Rightarrow> ContextCatalog result" where
  "mergeContextCredentials catalog credentials =
     (if length credentials = 0 then Ok catalog
      else case validateCredentials (Credentials catalog) of
        Err e \<Rightarrow> Err e
      | Ok index \<Rightarrow> merge_credentials credentials index catalog)"

end
