(* ===== verification/Http_Client.thy ===== *)
theory Http_Client
  imports Openapi_Schema Context_Config
begin

text \<open>
  The HTTP client of the managed service: src/internal/providers/managedservice/http without its debug output,
  TLS and proxy settings and the conversion of Swagger 2 documents.  The throttle of its requests is \<open>Throttle\<close>.

  A client is its settings; its caches of the OAuth2 token and of the OpenAPI document are a state, beside the network.
  Sending a request, the library functions on URLs, forms and JSON, prompting for credentials, and gojq with the function
  \<open>resource()\<close> are parameters.  A URL stays structured: \<open>URL.String\<close> prints it when the request is sent.
\<close>

section \<open>Requests, responses and settings\<close>

type_synonym url_values = "(string, string list) gomap"

record http_request =
  hr_Method :: string
  hr_URL :: URL
  hr_Query :: url_values
  hr_Headers :: string_map
  hr_Body :: string

record http_response =
  rs_Status :: int
  rs_Headers :: string_map
  rs_Body :: string
  rs_ReadError :: "go_error option"

datatype authConfig = AuthUnknown | AuthOAuth2 OAuth2 | AuthBasic BasicAuth | AuthCustomHeaders "HeaderTokenAuth list"

record 'n client_state =
  oauthAccessToken :: string
  oauthExpiresAt :: int
  openapiDoc :: "fields option"
  network :: 'n

datatype jq_outcome = Not_Compiled go_error | Failed go_error | Results "gval list"

record 'n http_env =
  he_codecs :: codecs
  he_identity :: identity_env
  he_templates :: template_engine
  he_overrides :: string_map
  he_parse_url :: "string \<Rightarrow> URL result"
  he_query :: "URL \<Rightarrow> url_values"
  he_hostname :: "URL \<Rightarrow> string"
  he_port :: "URL \<Rightarrow> string"
  he_equal_fold :: "string \<Rightarrow> string \<Rightarrow> bool"
  he_new_request :: "http_request \<Rightarrow> go_error option"
  he_send :: "string \<Rightarrow> http_request \<Rightarrow> ('n, http_response result) state"
  he_read_file :: "'n \<Rightarrow> string \<Rightarrow> string result"
  he_now :: "'n \<Rightarrow> int"
  he_credentials :: "string \<Rightarrow> CredentialValue \<Rightarrow> CredentialValue \<Rightarrow> ('n, (string \<times> string) result) state"
  he_base64 :: "string \<Rightarrow> string"
  he_form :: "string_map \<Rightarrow> string"
  he_token_response :: "string \<Rightarrow> (string \<times> int) result"
  he_json :: "string \<Rightarrow> gval result"
  he_yaml :: "string \<Rightarrow> gval result"
  he_swagger2 :: "fields \<Rightarrow> fields"
  he_jq :: "'n client_state resolver option \<Rightarrow> string \<Rightarrow> gval \<Rightarrow> ('n client_state, jq_outcome) state"

record 'n Client =
  cl_env :: "'n http_env"
  cl_baseURL :: URL
  cl_defaultHeaders :: "string_map option"
  cl_auth :: authConfig
  cl_openAPISource :: string
  cl_renderer :: "('n \<Rightarrow> ResourceOperationSpecInput \<Rightarrow> string \<Rightarrow> OperationSpec result) option"

abbreviation cl_lower :: "'n Client \<Rightarrow> string \<Rightarrow> string" where
  "cl_lower g \<equiv> codecs.unicode_lower (he_codecs (cl_env g))"

abbreviation cl_upper :: "'n Client \<Rightarrow> string \<Rightarrow> string" where
  "cl_upper g \<equiv> to_upper (id_upper (he_identity (cl_env g)))"

definition on_network :: "('n, 'a) state \<Rightarrow> ('n client_state, 'a) state" where
  "on_network m = State (\<lambda>w. case run_state m (network w) of (x, n) \<Rightarrow> (x, w\<lparr>network := n\<rparr>))"

text \<open>\<open>textproto.CanonicalMIMEHeaderKey\<close>, and \<open>Header.Set\<close> on it.\<close>

definition token_byte :: "char \<Rightarrow> bool" where
  "token_byte c = (lower_byte c \<in> set ''abcdefghijklmnopqrstuvwxyz'' \<or> is_digit_byte c \<or> c \<in> set ''!#$%&*+-.^_`|~'' \<or> c = CHR 0x27)"

fun canonical_bytes :: "bool \<Rightarrow> string \<Rightarrow> string" where
  "canonical_bytes up [] = []"
| "canonical_bytes up (c # cs) = (if up then upper_byte c else lower_byte c) # canonical_bytes (c = CHR ''-'') cs"

definition canonical_header :: "string \<Rightarrow> string" where
  "canonical_header key = (if list_all token_byte key then canonical_bytes True key else key)"

definition set_header :: "string \<Rightarrow> string \<Rightarrow> string_map \<Rightarrow> string_map" where
  "set_header key v headers = map_put (canonical_header key) v headers"

section \<open>Building a client\<close>

definition parseBaseURL :: "(string \<Rightarrow> URL result) \<Rightarrow> string \<Rightarrow> URL result" where
  "parseBaseURL parse raw =
     (let v = trim_space raw in
      if v = [] then Err (Invalid (msg ''managed-service.http.base-url is required'') None)
      else case parse v of
             Err e \<Rightarrow> Err (Invalid (msg ''managed-service.http.base-url is invalid'') (Some e))
           | Ok u \<Rightarrow>
               if url_Scheme u \<noteq> ''http'' \<and> url_Scheme u \<noteq> ''https''
               then Err (Invalid (msg ''managed-service.http.base-url must use http or https'') None)
               else if url_Host u = [] then Err (Invalid (msg ''managed-service.http.base-url host is required'') None)
               else Ok (if url_Path u = [] then u\<lparr>url_Path := ''/''\<rparr> else u))"

definition validateOpenAPISource :: "(string \<Rightarrow> URL result) \<Rightarrow> string \<Rightarrow> go_error option" where
  "validateOpenAPISource parse source =
     (let v = trim_space source in
      if v = [] then None
      else case parse v of
             Err e \<Rightarrow> Some (Invalid (msg ''managed-service.http.openapi is invalid'') (Some e))
           | Ok u \<Rightarrow>
               if url_Scheme u = [] then None
               else if url_Scheme u \<noteq> ''https''
               then Some (Invalid (msg ''managed-service.http.openapi must use https when configured as URL'') None)
               else if url_Host u = [] then Some (Invalid (msg ''managed-service.http.openapi URL host is required'') None)
               else None)"

fun custom_headers :: "nat \<Rightarrow> HeaderTokenAuth list \<Rightarrow> HeaderTokenAuth list result" where
  "custom_headers idx [] = Ok []"
| "custom_headers idx (custom # rest) =
     (let trimmed = \<lparr>ht_Header = trim_space (ht_Header custom), ht_Prefix = trim_space (ht_Prefix custom), ht_Value = trim_space (ht_Value custom)\<rparr> in
      if ht_Header trimmed = [] \<or> ht_Value trimmed = []
      then Err (Invalid (''managed-service.http.auth.custom-headers[%d] requires header and value'', [itoa (int idx)]) None)
      else case custom_headers (Suc idx) rest of Err e \<Rightarrow> Err e | Ok hs \<Rightarrow> Ok (trimmed # hs))"

definition buildAuthConfig :: "(string \<Rightarrow> URL result) \<Rightarrow> HTTPAuth option \<Rightarrow> authConfig result" where
  "buildAuthConfig parse cfg =
     (case cfg of
        None \<Rightarrow> Err (Invalid (msg ''managed-service.http.auth is required'') None)
      | Some a \<Rightarrow>
          if count_set [ha_OAuth2 a \<noteq> None, ha_Basic a \<noteq> None, ha_CustomHeaders a \<noteq> []] \<noteq> 1
          then Err (Invalid (msg ''managed-service.http.auth must define exactly one auth mode'') None)
          else case ha_OAuth2 a of
            Some oauth \<Rightarrow>
              if trim_space (oa_TokenURL oauth) = [] \<or> trim_space (oa_GrantType oauth) = []
                 \<or> trim_space (oa_ClientID oauth) = [] \<or> trim_space (oa_ClientSecret oauth) = []
              then Err (Invalid (msg ''managed-service.http.auth.oauth2 requires token-url, grant-type, client-id, client-secret'') None)
              else if trim_space (oa_GrantType oauth) \<noteq> ''client_credentials''
              then Err (Invalid (msg ''managed-service.http.auth.oauth2.grant-type supports only client_credentials'') None)
              else (case parse (oa_TokenURL oauth) of
                      Err e \<Rightarrow> Err (Invalid (msg ''managed-service.http.auth.oauth2.token-url is invalid'') (Some e))
                    | Ok u \<Rightarrow>
                        if url_Scheme u = [] \<or> url_Host u = []
                        then Err (Invalid (msg ''managed-service.http.auth.oauth2.token-url is invalid'') None)
                        else Ok (AuthOAuth2 oauth))
          | None \<Rightarrow>
              (case ha_Basic a of
                 Some basic \<Rightarrow>
                   if CredentialName basic = [] \<and> \<not> HasResolvedCredentials basic
                   then Err (Invalid (msg ''managed-service.http.auth.basic.credentials-ref is required'') None)
                   else Ok (AuthBasic basic)
               | None \<Rightarrow> (case custom_headers 0 (ha_CustomHeaders a) of Err e \<Rightarrow> Err e | Ok hs \<Rightarrow> Ok (AuthCustomHeaders hs))))"

section \<open>Sending\<close>

definition response_limit :: nat where
  "response_limit = 2 ^ 20"

text \<open>\<open>io.ReadAll\<close> of an \<open>io.LimitReader\<close>: a connection that breaks after \<open>rs_Body\<close> is an error only below the limit.\<close>

definition read_body :: "nat \<Rightarrow> http_response \<Rightarrow> string result" where
  "read_body limit response =
     (case rs_ReadError response of
        Some e \<Rightarrow> if length (rs_Body response) < limit then Err e else Ok (take limit (rs_Body response))
      | None \<Rightarrow> Ok (take limit (rs_Body response)))"

definition summarizeBody :: "string \<Rightarrow> string" where
  "summarizeBody body =
     (let trimmed = trim_space body in
      if trimmed = [] then ''<empty>'' else if length trimmed > 256 then take 256 trimmed @ ''...'' else trimmed)"

definition status_message :: "string \<Rightarrow> int \<Rightarrow> string \<Rightarrow> message" where
  "status_message what statusCode body = (what @ '' failed with status %d: %s'', [itoa statusCode, summarizeBody body])"

definition classifyStatusError :: "int \<Rightarrow> string \<Rightarrow> go_error" where
  "classifyStatusError statusCode body =
     (let m = status_message ''remote request'' statusCode body in
      if statusCode = 401 \<or> statusCode = 403 then Auth m None
      else if statusCode = 404 then NotFound m None
      else if statusCode = 409 then Conflict m None
      else if 400 \<le> statusCode \<and> statusCode < 500 then Invalid m None
      else Transport m None)"

definition token_form :: "OAuth2 \<Rightarrow> string_map" where
  "token_form oauth =
     fold (\<lambda>(key, v). if trim_space v \<noteq> [] then map_put key v else (\<lambda>m. m))
       [(''scope'', oa_Scope oauth), (''audience'', oa_Audience oauth)]
       (map_put ''client_secret'' (oa_ClientSecret oauth)
         (map_put ''client_id'' (oa_ClientID oauth) (map_put ''grant_type'' (oa_GrantType oauth) [])))"

definition seconds :: "int \<Rightarrow> int" where
  "seconds n = n * 1000000000"

text \<open>The lifetime of a token: an hour, or \<open>time.Duration(expires_in) * time.Second\<close>, which wraps around.\<close>

definition token_lifetime :: "int \<Rightarrow> int" where
  "token_lifetime expiresIn = (if expiresIn > 0 then wrap64 (seconds expiresIn) else seconds 3600)"

definition token_request :: "'n Client \<Rightarrow> OAuth2 \<Rightarrow> http_request result" where
  "token_request g oauth =
     (case he_parse_url (cl_env g) (oa_TokenURL oauth) of
        Err e \<Rightarrow> Err (Internal (msg ''failed to create oauth2 token request'') (Some e))
      | Ok u \<Rightarrow>
          (let request = \<lparr>hr_Method = ''POST'', hr_URL = u, hr_Query = he_query (cl_env g) u,
                          hr_Headers = [(''Accept'', ''application/json''), (''Content-Type'', ''application/x-www-form-urlencoded'')],
                          hr_Body = he_form (cl_env g) (token_form oauth)\<rparr> in
           case he_new_request (cl_env g) request of
             Some e \<Rightarrow> Err (Internal (msg ''failed to create oauth2 token request'') (Some e))
           | None \<Rightarrow> Ok request))"

definition token_from_response :: "'n Client \<Rightarrow> http_response \<Rightarrow> (string \<times> int) result" where
  "token_from_response g response =
     (case read_body response_limit response of
        Err e \<Rightarrow> Err (Transport (msg ''failed to read oauth2 token response'') (Some e))
      | Ok body \<Rightarrow>
      if rs_Status response \<ge> 400 then Err (Auth (status_message ''oauth2 token request'' (rs_Status response) body) None)
      else case he_token_response (cl_env g) body of
             Err e \<Rightarrow> Err (Auth (msg ''oauth2 token response is not valid JSON'') (Some e))
           | Ok (token, expiresIn) \<Rightarrow>
               if trim_space token = [] then Err (Auth (msg ''oauth2 token response does not include access_token'') None)
               else Ok (token, expiresIn))"

definition oauthToken :: "'n Client \<Rightarrow> OAuth2 \<Rightarrow> ('n client_state, string result) state" where
  "oauthToken g oauth = do {
     cached \<leftarrow> reads (\<lambda>w. if oauthAccessToken w \<noteq> [] \<and> he_now (cl_env g) (network w) < oauthExpiresAt w - seconds 30
                           then Some (oauthAccessToken w) else None);
     case cached of
       Some token \<Rightarrow> ret (Ok token)
     | None \<Rightarrow>
         (case token_request g oauth of
            Err e \<Rightarrow> ret (Err e)
          | Ok request \<Rightarrow> do {
              answer \<leftarrow> on_network (he_send (cl_env g) ''oauth2-token'' request);
              case answer of
                Err e \<Rightarrow> ret (Err (Transport (msg ''oauth2 token request failed'') (Some e)))
              | Ok response \<Rightarrow>
                  (case token_from_response g response of
                     Err e \<Rightarrow> ret (Err e)
                   | Ok (token, expiresIn) \<Rightarrow>
                       State (\<lambda>w. (Ok token, w\<lparr>oauthAccessToken := token,
                                                oauthExpiresAt := he_now (cl_env g) (network w) + token_lifetime expiresIn\<rparr>))) }) }"

definition InvalidateAuthCache :: "('n client_state, unit) state" where
  "InvalidateAuthCache = State (\<lambda>w. ((), w\<lparr>oauthAccessToken := [], oauthExpiresAt := 0\<rparr>))"

definition GetAccessToken :: "'n Client \<Rightarrow> ('n client_state, string result) state" where
  "GetAccessToken g =
     (case cl_auth g of
        AuthOAuth2 oauth \<Rightarrow> oauthToken g oauth
      | _ \<Rightarrow> ret (Err (Invalid (msg ''managed-service.http.auth.oauth2 is not configured'') None)))"

definition header_token :: "HeaderTokenAuth \<Rightarrow> string" where
  "header_token h = (if ht_Prefix h \<noteq> [] then ht_Prefix h @ '' '' @ ht_Value h else ht_Value h)"

definition applyAuth :: "'n Client \<Rightarrow> http_request \<Rightarrow> ('n client_state, http_request result) state" where
  "applyAuth g request =
     (case cl_auth g of
        AuthOAuth2 oauth \<Rightarrow>
          and_then (oauthToken g oauth) (\<lambda>token.
            ret (Ok (request\<lparr>hr_Headers := set_header ''Authorization'' (''Bearer '' @ token) (hr_Headers request)\<rparr>)))
      | AuthBasic basic \<Rightarrow>
          and_then (on_network (he_credentials (cl_env g) (CredentialName basic) (ba_Username basic) (ba_Password basic))) (\<lambda>(user, password).
            ret (Ok (request\<lparr>hr_Headers := set_header ''Authorization'' (''Basic '' @ he_base64 (cl_env g) (user @ '':'' @ password)) (hr_Headers request)\<rparr>)))
      | AuthCustomHeaders hs \<Rightarrow>
          ret (Ok (request\<lparr>hr_Headers := fold (\<lambda>h. set_header (ht_Header h) (header_token h)) hs (hr_Headers request)\<rparr>))
      | AuthUnknown \<Rightarrow> ret (Err (Invalid (msg ''managed-service.http.auth mode is not configured'') None)))"

definition joinBaseAndRequestPath :: "string \<Rightarrow> string \<Rightarrow> string" where
  "joinBaseAndRequestPath basePath requestPath =
     (let normalizedBase = (if NormalizeRequestPath basePath = [] then ''/'' else NormalizeRequestPath basePath);
          normalizedRequest = NormalizeRequestPath requestPath in
      if normalizedRequest = [] \<or> normalizedRequest = ''/'' then normalizedBase
      else let joined = path_join normalizedBase (trim_prefix normalizedRequest ''/'')
           in if prefix ''/'' joined then joined else ''/'' @ joined)"

definition resolveRequestURL :: "'n Client \<Rightarrow> string \<Rightarrow> string_map option \<Rightarrow> (URL \<times> url_values) result" where
  "resolveRequestURL g requestPath query =
     (if (case he_parse_url (cl_env g) requestPath of Ok u \<Rightarrow> url_Scheme u \<noteq> [] | Err e \<Rightarrow> False)
      then Err (Invalid (msg ''operation path must be relative to managed-service.http.base-url'') None)
      else Ok ((cl_baseURL g)\<lparr>url_Path := joinBaseAndRequestPath (url_Path (cl_baseURL g)) requestPath\<rparr>,
               fold (\<lambda>(key, v). map_put key [v]) (or_else query []) (he_query (cl_env g) (cl_baseURL g))))"

section \<open>Bodies\<close>

text \<open>The body of a specification: a value of the metadata, or a content that the client built.\<close>

datatype wire_body = Raw gval | Wrapped Content

fun unwrapContentValue :: "wire_body \<Rightarrow> gval" where
  "unwrapContentValue (Raw v) = v"
| "unwrapContentValue (Wrapped content) = Value content"

fun unwrapContentDescriptor :: "wire_body \<Rightarrow> PayloadDescriptor" where
  "unwrapContentDescriptor (Raw v) = empty_descriptor"
| "unwrapContentDescriptor (Wrapped content) = Descriptor content"

definition encodeRequestBody :: "codecs \<Rightarrow> string \<Rightarrow> wire_body \<Rightarrow> string result" where
  "encodeRequestBody C contentType body =
     (if body = Raw VNil then Ok []
      else
        let v = unwrapContentValue body; d = unwrapContentDescriptor body;
            descriptor = (if trim_space contentType \<noteq> []
                          then NormalizePayloadDescriptor (codecs.unicode_lower C) (descriptor_of (PayloadType d) contentType (Extension d))
                          else if IsPayloadDescriptorExplicit d then d
                          else if IsBinaryValue v then DefaultOctetStreamDescriptor
                          else descriptor_of_type (codecs.unicode_lower C) ''json'') in
        EncodeContent C \<lparr>Value = v, Descriptor = descriptor\<rparr>)"

definition newRequest :: "'n Client \<Rightarrow> OperationSpec \<Rightarrow> wire_body \<Rightarrow> ('n client_state, http_request result) state" where
  "newRequest g spec body =
     (case resolveRequestURL g (op_Path spec) (op_Query spec) of
        Err e \<Rightarrow> ret (Err e)
      | Ok (u, query) \<Rightarrow>
     (case encodeRequestBody (he_codecs (cl_env g)) (op_ContentType spec) body of
        Err e \<Rightarrow> ret (Err e)
      | Ok requestBody \<Rightarrow>
          (let accept = (if trim_space (op_Accept spec) \<noteq> [] then set_header ''Accept'' (op_Accept spec) [] else []);
               contentType = (if requestBody \<noteq> [] \<and> trim_space (op_ContentType spec) \<noteq> []
                              then set_header ''Content-Type'' (op_ContentType spec) accept else accept);
               headers = fold (\<lambda>(key, v). set_header key v) (or_else (op_Headers spec) []) contentType;
               request = \<lparr>hr_Method = op_Method spec, hr_URL = u, hr_Query = query, hr_Headers = headers, hr_Body = requestBody\<rparr> in
           case he_new_request (cl_env g) request of
             Some e \<Rightarrow> ret (Err (Internal (msg ''failed to create remote request'') (Some e)))
           | None \<Rightarrow> applyAuth g request)))"

text \<open>No more than a mebibyte of the response is read.\<close>

definition execute :: "'n Client \<Rightarrow> OperationSpec \<Rightarrow> wire_body \<Rightarrow> ('n client_state, (string \<times> string_map) result) state" where
  "execute g spec body =
     and_then (newRequest g spec body) (\<lambda>request. do {
       answer \<leftarrow> on_network (he_send (cl_env g) ''resource'' request);
       ret (case answer of
              Err e \<Rightarrow> Err (Transport (msg ''remote request failed'') (Some e))
            | Ok response \<Rightarrow>
                (case read_body response_limit response of
                   Err e \<Rightarrow> Err (Transport (msg ''failed to read remote response body'') (Some e))
                 | Ok received \<Rightarrow>
                     if rs_Status response \<ge> 400 then Err (classifyStatusError (rs_Status response) received)
                     else Ok (received, rs_Headers response))) })"

section \<open>Responses\<close>

definition responseHeaderDescriptor :: "(string \<Rightarrow> string) \<Rightarrow> string_map \<Rightarrow> PayloadDescriptor option" where
  "responseHeaderDescriptor ul headers =
     (let contentType = trim_space (or_else (map_get headers ''Content-Type'') []) in
      if contentType = [] then None else Some (NormalizePayloadDescriptor ul (descriptor_of [] contentType [])))"

definition normalizeResponseFallbackDescriptor :: "(string \<Rightarrow> string) \<Rightarrow> PayloadDescriptor \<Rightarrow> string \<Rightarrow> PayloadDescriptor" where
  "normalizeResponseFallbackDescriptor ul fallback body =
     (if IsPayloadDescriptorExplicit fallback then NormalizePayloadDescriptor ul fallback
      else if StructuredLookingPayload body then descriptor_of_type ul ''json''
      else DefaultOctetStreamDescriptor)"

definition responseDecodeCandidates :: "(string \<Rightarrow> string) \<Rightarrow> string \<Rightarrow> string \<Rightarrow> string list" where
  "responseDecodeCandidates ul headerType fallbackType =
     (let order = (if headerType = ''text'' \<and> IsStructuredPayloadType ul fallbackType then [fallbackType, headerType]
                   else [headerType, fallbackType]) in
      fold (\<lambda>v found. let trimmed = trim_space v in if trimmed = [] \<or> trimmed \<in> set found then found else found @ [trimmed]) order [])"

definition descriptorForDecodedCandidate ::
  "(string \<Rightarrow> string) \<Rightarrow> PayloadDescriptor option \<Rightarrow> PayloadDescriptor \<Rightarrow> bool \<Rightarrow> string \<Rightarrow> PayloadDescriptor" where
  "descriptorForDecodedCandidate ul header fallback fallbackExplicit candidate =
     (case header of
        Some d \<Rightarrow> if PayloadType d = candidate then d
                  else if fallbackExplicit \<and> PayloadType fallback = candidate then fallback else descriptor_of_type ul candidate
      | None \<Rightarrow> if fallbackExplicit \<and> PayloadType fallback = candidate then fallback else descriptor_of_type ul candidate)"

fun decode_candidates :: "(string \<Rightarrow> gval result) \<Rightarrow> (string \<Rightarrow> PayloadDescriptor) \<Rightarrow> go_error \<Rightarrow> string list \<Rightarrow> Content result" where
  "decode_candidates decode descriptor lastErr [] = Err lastErr"
| "decode_candidates decode descriptor lastErr (candidate # candidates) =
     (case decode candidate of
        Ok decoded \<Rightarrow> Ok \<lparr>Value = decoded, Descriptor = descriptor candidate\<rparr>
      | Err e \<Rightarrow> decode_candidates decode descriptor e candidates)"

definition decodeResponseBody :: "codecs \<Rightarrow> string \<Rightarrow> string_map \<Rightarrow> PayloadDescriptor \<Rightarrow> Content result" where
  "decodeResponseBody C body headers fallback =
     (let ul = codecs.unicode_lower C; fallbackDescriptor = normalizeResponseFallbackDescriptor ul fallback body in
      if body = [] then Ok \<lparr>Value = VNil, Descriptor = fallbackDescriptor\<rparr>
      else
        let header = responseHeaderDescriptor ul headers;
            found = responseDecodeCandidates ul (case header of None \<Rightarrow> [] | Some d \<Rightarrow> PayloadType d) (PayloadType fallbackDescriptor);
            candidates = (if found = [] then [''json''] else found) in
        if IsStructuredPayloadType ul (hd candidates) \<and> trim_space body = [] then Ok \<lparr>Value = VNil, Descriptor = fallbackDescriptor\<rparr>
        else decode_candidates (DecodePayload C body)
               (descriptorForDecodedCandidate ul header fallbackDescriptor (IsPayloadDescriptorExplicit fallback))
               (PlainError (msg ''no candidates'') None) candidates)"

end
