(* ===== verification/Http_Operations.thy ===== *)
theory Http_Operations
  imports Http_Client
begin

text \<open>
  The operations of the HTTP client: how a request is built from the metadata (request_builder.go,
  request_spec_helpers.go, openapi_fallback.go), the payload transformed (operation_payload_transform.go) and validated
  (payload_validation.go, payload_assertion.go, schema_validation.go), a list decoded (list_decode.go), the OpenAPI document
  loaded (openapi_source.go), and the operations themselves (http_managed_service_client.go, request_execute.go), all under
  src/internal/providers/managedservice/http.  \<open>http_server\<close> is the client as the managed service of the orchestrator.
\<close>

section \<open>The OpenAPI document\<close>

definition effectiveURLPort :: "'n http_env \<Rightarrow> URL \<Rightarrow> string" where
  "effectiveURLPort env u =
     (if he_port env u \<noteq> [] then he_port env u
      else let scheme = to_lower (codecs.unicode_lower (he_codecs env)) (url_Scheme u) in
        if scheme = ''http'' then ''80'' else if scheme = ''https'' then ''443'' else [])"

definition sameURLOffsetOrigin :: "'n http_env \<Rightarrow> URL \<Rightarrow> URL \<Rightarrow> bool" where
  "sameURLOffsetOrigin env a b =
     (he_equal_fold env (url_Scheme a) (url_Scheme b) \<and> he_equal_fold env (he_hostname env a) (he_hostname env b)
      \<and> effectiveURLPort env a = effectiveURLPort env b)"

definition document_status_error :: "int \<Rightarrow> string \<Rightarrow> go_error" where
  "document_status_error status content =
     (let m = status_message ''OpenAPI request'' status content in
      if status = 401 \<or> status = 403 then Auth m None else if status = 404 then NotFound m None else Transport m None)"

definition document_limit :: nat where
  "document_limit = 2 ^ 22"

definition fetch_document :: "'n Client \<Rightarrow> URL \<Rightarrow> ('n client_state, string result) state" where
  "fetch_document g u =
     (let request = \<lparr>hr_Method = ''GET'', hr_URL = u, hr_Query = he_query (cl_env g) u, hr_Headers = [], hr_Body = []\<rparr> in
      case he_new_request (cl_env g) request of
        Some e \<Rightarrow> ret (Err (Internal (msg ''failed to create OpenAPI request'') (Some e)))
      | None \<Rightarrow>
          and_then (if sameURLOffsetOrigin (cl_env g) (cl_baseURL g) u then applyAuth g request else ret (Ok request)) (\<lambda>authorized. do {
            answer \<leftarrow> on_network (he_send (cl_env g) ''openapi'' authorized);
            ret (case answer of
                   Err e \<Rightarrow> Err (Transport (msg ''failed to fetch OpenAPI document'') (Some e))
                 | Ok response \<Rightarrow>
                     (case read_body document_limit response of
                        Err e \<Rightarrow> Err (Transport (msg ''failed to read OpenAPI response body'') (Some e))
                      | Ok content \<Rightarrow>
                          if rs_Status response \<ge> 400 then Err (document_status_error (rs_Status response) content)
                          else Ok content)) }))"

definition parse_document :: "'n http_env \<Rightarrow> string \<Rightarrow> fields result" where
  "parse_document env content =
     (case (case he_json env content of
              Ok root' \<Rightarrow> Ok root'
            | Err jsonErr \<Rightarrow>
                (case he_yaml env content of
                   Ok root' \<Rightarrow> Ok root'
                 | Err yamlErr \<Rightarrow> Err (Invalid (msg ''OpenAPI document must be valid JSON or YAML'') (Some yamlErr)))) of
        Err e \<Rightarrow> Err e
      | Ok root' \<Rightarrow>
          (case dynamic_object root' of
             None \<Rightarrow> Err (Invalid (msg ''OpenAPI document root must be an object'') None)
           | Some document \<Rightarrow> Ok (he_swagger2 env document)))"

definition loadOpenAPIDocument :: "'n Client \<Rightarrow> ('n client_state, fields result) state" where
  "loadOpenAPIDocument g =
     (let source = trim_space (cl_openAPISource g) in
      case he_parse_url (cl_env g) source of
        Err e \<Rightarrow> ret (Err (Invalid (msg ''managed-service.http.openapi is invalid'') (Some e)))
      | Ok u \<Rightarrow>
          and_then
            (if url_Scheme u = []
             then reads (\<lambda>w. case he_read_file (cl_env g) (network w) source of
                               Err e \<Rightarrow> Err (NotFound (msg ''managed-service.http.openapi file could not be read'') (Some e))
                             | Ok content \<Rightarrow> Ok content)
             else if url_Scheme u = ''https'' then fetch_document g u
             else ret (Err (Invalid (msg ''managed-service.http.openapi must be a local file path or https URL'') None)))
            (\<lambda>content. ret (parse_document (cl_env g) content)))"

definition openAPIDocument :: "'n Client \<Rightarrow> ('n client_state, fields result) state" where
  "openAPIDocument g =
     (if trim_space (cl_openAPISource g) = [] then ret (Err (Invalid (msg ''managed-service.http.openapi is not configured'') None))
      else do {
        cached \<leftarrow> reads openapiDoc;
        case cached of
          Some document \<Rightarrow> ret (Ok document)
        | None \<Rightarrow>
            and_then (loadOpenAPIDocument g) (\<lambda>document. State (\<lambda>w. (Ok document, w\<lparr>openapiDoc := Some document\<rparr>))) })"

definition openAPISourceDescriptor :: "'n Client \<Rightarrow> PayloadDescriptor" where
  "openAPISourceDescriptor g =
     (case PayloadDescriptorForFileName (cl_lower g) (trim_space (cl_openAPISource g)) of
        Some d \<Rightarrow> d | None \<Rightarrow> descriptor_of_type (cl_lower g) ''json'')"

definition clone_document :: "'n http_env \<Rightarrow> gval \<Rightarrow> gval" where
  "clone_document env v =
     (case json_marshal (he_codecs env) v of
        Err e \<Rightarrow> v
      | Ok encoded \<Rightarrow> (case he_json env encoded of Err e \<Rightarrow> v | Ok cloned \<Rightarrow> cloned))"

definition Client_GetOpenAPISpec :: "'n Client \<Rightarrow> ('n client_state, Content result) state" where
  "Client_GetOpenAPISpec g =
     and_then (openAPIDocument g) (\<lambda>doc.
       ret (Ok \<lparr>Value = clone_document (cl_env g) (VMap doc), Descriptor = openAPISourceDescriptor g\<rparr>))"

section \<open>Payload transforms\<close>

fun select_loop :: "gval \<Rightarrow> gval \<Rightarrow> string list \<Rightarrow> gval result" where
  "select_loop v filtered [] = Ok filtered"
| "select_loop v filtered (pointer # pointers) =
     (if pointer = [] then Ok (DeepCopyValue v)
      else case LookupJSONPointer v pointer of
        Err e \<Rightarrow> Err e
      | Ok None \<Rightarrow> select_loop v filtered pointers
      | Ok (Some item) \<Rightarrow>
          (case SetJSONPointerValue filtered pointer item of Err e \<Rightarrow> Err e | Ok next' \<Rightarrow> select_loop v next' pointers))"

definition applyPayloadSelectAttributes :: "gval \<Rightarrow> string list \<Rightarrow> gval result" where
  "applyPayloadSelectAttributes v attributes =
     (case NormalizeAttributePointers ''selectAttributes'' attributes of
        Err e \<Rightarrow> Err e
      | Ok pointers \<Rightarrow>
          if v = VNil then Ok VNil
          else case select_loop v VNil pointers of
                 Err e \<Rightarrow> Err e
               | Ok VNil \<Rightarrow> Ok (case v of VSlice xs \<Rightarrow> VSlice [] | VMap m \<Rightarrow> VMap [] | _ \<Rightarrow> VNil)
               | Ok filtered \<Rightarrow> Ok filtered)"

fun exclude_loop :: "gval \<Rightarrow> string list \<Rightarrow> gval result" where
  "exclude_loop filtered [] = Ok filtered"
| "exclude_loop filtered (pointer # pointers) =
     (if pointer = [] then Ok VNil
      else case DeleteJSONPointerValue filtered pointer of Err e \<Rightarrow> Err e | Ok next' \<Rightarrow> exclude_loop next' pointers)"

definition applyPayloadExcludeAttributes :: "gval \<Rightarrow> string list \<Rightarrow> gval result" where
  "applyPayloadExcludeAttributes v attributes =
     (case NormalizeAttributePointers ''excludeAttributes'' attributes of
        Err e \<Rightarrow> Err e
      | Ok pointers \<Rightarrow> if v = VNil then Ok VNil else exclude_loop (DeepCopyValue v) pointers)"

definition applyPayloadJQ :: "'n Client \<Rightarrow> 'n client_state resolver option \<Rightarrow> gval \<Rightarrow> string \<Rightarrow> ('n client_state, gval result) state" where
  "applyPayloadJQ g resolve payload expression =
     (let trimmedExpression = trim_space expression in
      if trimmedExpression = [] then ret (Ok payload)
      else do {
        outcome \<leftarrow> he_jq (cl_env g) resolve trimmedExpression payload;
        ret (case outcome of
               Not_Compiled e \<Rightarrow> Err (Invalid (msg ''invalid payload jq expression'') (Some e))
             | Failed e \<Rightarrow> Err (Invalid (msg ''failed to evaluate payload jq expression'') (Some e))
             | Results [] \<Rightarrow> Ok VNil
             | Results [r] \<Rightarrow> Normalize r
             | Results results \<Rightarrow> Normalize (VSlice results)) })"

fun payload_transform_loop ::
  "'n Client \<Rightarrow> 'n client_state resolver option \<Rightarrow> TransformStep list \<Rightarrow> gval \<Rightarrow> ('n client_state, gval result) state" where
  "payload_transform_loop g resolve [] current = ret (Normalize current)"
| "payload_transform_loop g resolve (step # steps) current =
     (let kind = transformStepType step in
      and_then
        (if kind = ''selectAttributes'' then ret (applyPayloadSelectAttributes current (or_else (SelectAttributes step) []))
         else if kind = ''excludeAttributes'' then ret (applyPayloadExcludeAttributes current (or_else (ExcludeAttributes step) []))
         else if kind = ''jqExpression'' then applyPayloadJQ g resolve current (JQExpression step)
         else ret (Ok current))
        (payload_transform_loop g resolve steps))"

definition applyOperationPayloadTransforms ::
  "'n Client \<Rightarrow> 'n client_state resolver option \<Rightarrow> gval \<Rightarrow> OperationSpec \<Rightarrow> ('n client_state, gval result) state" where
  "applyOperationPayloadTransforms g resolve payload spec =
     (let steps = CloneTransformSteps (or_else (op_Transforms spec) []) in
      if steps = [] then ret (Ok payload)
      else and_then (ret (Normalize payload)) (payload_transform_loop g resolve steps))"

section \<open>Descriptors and specifications\<close>

definition metadataPayloadDescriptor :: "'n Client \<Rightarrow> ResourceMetadata \<Rightarrow> PayloadDescriptor" where
  "metadataPayloadDescriptor g md =
     (case concrete_format (cl_lower g) md of None \<Rightarrow> empty_descriptor | Some format \<Rightarrow> descriptor_of_type (cl_lower g) format)"

definition defaultResourceMediaType :: "'n Client \<Rightarrow> PayloadDescriptor \<Rightarrow> string result" where
  "defaultResourceMediaType g descriptor =
     (if \<not> IsPayloadDescriptorExplicit descriptor then Err (Invalid (msg ''payload descriptor is not concrete'') None)
      else let mediaType = MediaType (NormalizePayloadDescriptor (cl_lower g) descriptor) in
        if trim_space mediaType = [] then Err (Invalid (msg ''invalid payload media type'') None) else Ok mediaType)"

definition operationRequiresBody :: "string \<Rightarrow> bool" where
  "operationRequiresBody operation = (operation = ''create'' \<or> operation = ''update'')"

definition defaultOperationMethod :: "string \<Rightarrow> string" where
  "defaultOperationMethod operation =
     (if operation = ''create'' then ''POST'' else if operation = ''update'' then ''PUT''
      else if operation = ''delete'' then ''DELETE'' else ''GET'')"

definition requestMethodOperation :: "'n Client \<Rightarrow> string \<Rightarrow> string option" where
  "requestMethodOperation g method = requestMetadataOperation (cl_upper g (trim_space method))"

definition requestBodyDescriptor :: "'n Client \<Rightarrow> Resource \<Rightarrow> ResourceMetadata \<Rightarrow> PayloadDescriptor" where
  "requestBodyDescriptor g res md = ResolveTemplatePayloadDescriptor (cl_lower g) md (Payload res) (PayloadDesc res)"

definition requestAcceptDescriptor ::
  "'n Client \<Rightarrow> string \<Rightarrow> Resource \<Rightarrow> ResourceMetadata \<Rightarrow> PayloadDescriptor \<Rightarrow> PayloadDescriptor" where
  "requestAcceptDescriptor g operation res md bodyDescriptor =
     (if IsPayloadDescriptorExplicit (PayloadDesc res) then NormalizePayloadDescriptor (cl_lower g) (PayloadDesc res)
      else if IsPayloadDescriptorExplicit (metadataPayloadDescriptor g md) then metadataPayloadDescriptor g md
      else if operationRequiresBody operation \<and> IsPayloadDescriptorExplicit bodyDescriptor
      then NormalizePayloadDescriptor (cl_lower g) bodyDescriptor
      else empty_descriptor)"

definition genericRequestBodyDescriptor :: "'n Client \<Rightarrow> RequestSpec \<Rightarrow> PayloadDescriptor" where
  "genericRequestBodyDescriptor g requestSpec =
     (let body = req_Body requestSpec in
      if IsPayloadDescriptorExplicit (Descriptor body) then NormalizePayloadDescriptor (cl_lower g) (Descriptor body)
      else if trim_space (req_ContentType requestSpec) \<noteq> []
      then NormalizePayloadDescriptor (cl_lower g) (descriptor_of [] (req_ContentType requestSpec) [])
      else if IsBinaryValue (Value body) then DefaultOctetStreamDescriptor
      else InferPayloadDescriptor (cl_lower g) (Value body))"

text \<open>The first of the content types that names a payload type; then the descriptor of the body, which \<open>Request\<close> always sets.\<close>

definition requestFallbackDescriptor ::
  "'n Client \<Rightarrow> request_validation \<Rightarrow> RequestSpec \<Rightarrow> OperationSpec \<Rightarrow> Content \<Rightarrow> PayloadDescriptor" where
  "requestFallbackDescriptor g validation requestSpec spec body =
     (case validation of
        Some (_, input, _) \<Rightarrow> metadataPayloadDescriptor g (in_Metadata input)
      | None \<Rightarrow>
          (case List.map_filter (PayloadDescriptorForContentType (cl_lower g))
                  [req_Accept requestSpec, op_Accept spec, req_ContentType requestSpec, op_ContentType spec] of
             d # _ \<Rightarrow> d
           | [] \<Rightarrow>
               if IsPayloadDescriptorExplicit (Descriptor (req_Body requestSpec))
               then NormalizePayloadDescriptor (cl_lower g) (Descriptor (req_Body requestSpec))
               else if IsBinaryValue (Value (req_Body requestSpec)) then DefaultOctetStreamDescriptor
               else if IsPayloadDescriptorExplicit (Descriptor body) then NormalizePayloadDescriptor (cl_lower g) (Descriptor body)
               else InferPayloadDescriptor (cl_lower g) (Value body)))"

definition operationSpecFromMetadata :: "ResourceMetadata \<Rightarrow> string \<Rightarrow> OperationSpec" where
  "operationSpecFromMetadata md operation = or_else (map_get (or_else (md_Operations md) []) operation) no_operation"

definition mergeHeaders :: "string_map option \<Rightarrow> string_map option \<Rightarrow> string_map option" where
  "mergeHeaders defaultHeaders operationHeaders =
     (if or_else defaultHeaders [] = [] \<and> or_else operationHeaders [] = [] then None
      else Some (fold (\<lambda>(k, v). map_put k v) (or_else operationHeaders []) (or_else defaultHeaders [])))"

definition resolveOperationSpecTemplates ::
  "'n Client \<Rightarrow> ResourceMetadata \<Rightarrow> string \<Rightarrow> OperationSpec \<Rightarrow> Resource \<Rightarrow> PayloadDescriptor \<Rightarrow> OperationSpec result" where
  "resolveOperationSpecTemplates g md operation spec res descriptor =
     (case BuildResourceScope (cl_lower g) res md of
        Err e \<Rightarrow> Err e
      | Ok scope \<Rightarrow>
          ResolveOperationSpecWithScope (he_templates (cl_env g))
            (no_metadata\<lparr>md_RemoteCollectionPath := md_RemoteCollectionPath md, md_Format := md_Format md,
                         md_Operations := Some [(operation, spec)], md_Transforms := map_option CloneTransformSteps (md_Transforms md)\<rparr>)
            operation (ApplyPayloadTemplateScope (cl_lower g) md (Payload res) descriptor scope))"

definition override_method :: "'n Client \<Rightarrow> string \<Rightarrow> string option" where
  "override_method g operation =
     (if operation \<notin> set operation_names then None
      else let v = cl_upper g (trim_space (or_else (map_get (he_overrides (cl_env g)) operation) []))
           in if v = [] then None else Some v)"

section \<open>The OpenAPI document in requests\<close>

definition unsupported_method :: "string \<Rightarrow> string \<Rightarrow> go_error" where
  "unsupported_method requestPath method = Invalid (''OpenAPI path %q does not support method %s'', [requestPath, method]) None"

definition openapi_defaults ::
  "'n Client \<Rightarrow> fields \<Rightarrow> string \<Rightarrow> string \<Rightarrow> OperationSpec \<Rightarrow> bool \<Rightarrow> bool \<Rightarrow> bool \<Rightarrow> OperationSpec result" where
  "openapi_defaults g pathItem requestPath operation spec explicitMethod explicitAccept explicitContentType =
     (let spec1 = (if \<not> explicitMethod \<and> trim_space (op_Method spec) = []
                   then spec\<lparr>op_Method := inferMethodFromPathItem (cl_lower g) pathItem operation\<rparr> else spec);
          method = cl_upper g (trim_space (op_Method spec1)) in
      if method = [] then Ok spec1
      else case openAPIPathMethod (cl_lower g) pathItem method of
             None \<Rightarrow> Err (unsupported_method requestPath method)
           | Some operationItem \<Rightarrow>
               (let accept = inferAcceptContentType operationItem; contentType = inferRequestContentType operationItem;
                    spec2 = (if \<not> explicitAccept \<and> trim_space (op_Accept spec1) = [] \<and> accept \<noteq> [] then spec1\<lparr>op_Accept := accept\<rparr> else spec1) in
                Ok (if \<not> explicitContentType \<and> trim_space (op_ContentType spec2) = [] \<and> contentType \<noteq> []
                    then spec2\<lparr>op_ContentType := contentType\<rparr> else spec2)))"

definition applyOpenAPIFallback ::
  "'n Client \<Rightarrow> string \<Rightarrow> string \<Rightarrow> OperationSpec \<Rightarrow> bool \<Rightarrow> bool \<Rightarrow> bool \<Rightarrow> ('n client_state, OperationSpec result) state" where
  "applyOpenAPIFallback g requestPath operation spec explicitMethod explicitAccept explicitContentType =
     (if trim_space (cl_openAPISource g) = [] then ret (Ok spec)
      else and_then (openAPIDocument g) (\<lambda>document.
        ret (case findOpenAPIPathItem document requestPath of
               None \<Rightarrow> Ok spec
             | Some (_, pathItem) \<Rightarrow>
                 openapi_defaults g pathItem requestPath operation spec explicitMethod explicitAccept explicitContentType)))"

definition validateOpenAPIMethodSupport :: "'n Client \<Rightarrow> string \<Rightarrow> string \<Rightarrow> ('n client_state, unit result) state" where
  "validateOpenAPIMethodSupport g requestPath method =
     (if trim_space (cl_openAPISource g) = [] then ret (Ok ())
      else and_then (openAPIDocument g) (\<lambda>document.
        ret (case findOpenAPIPathItem document requestPath of
               None \<Rightarrow> Ok ()
             | Some (_, pathItem) \<Rightarrow>
                 if openAPIPathMethod (cl_lower g) pathItem method = None
                 then Err (unsupported_method requestPath (cl_upper g method)) else Ok ())))"

section \<open>Validation\<close>

definition jqValueTruthy :: "gval \<Rightarrow> bool" where
  "jqValueTruthy v = (v \<noteq> VNil \<and> v \<noteq> VBool False)"

definition assertion_error :: "nat \<Rightarrow> ValidationAssertion \<Rightarrow> jq_outcome \<Rightarrow> go_error option" where
  "assertion_error idx assertion outcome =
     (case outcome of
        Not_Compiled e \<Rightarrow> Some (Invalid (''invalid payload validation assertion[%d] jq expression'', [itoa (int idx)]) (Some e))
      | Failed e \<Rightarrow> Some (Invalid (''failed to evaluate payload validation assertion[%d]'', [itoa (int idx)]) (Some e))
      | Results results \<Rightarrow>
          if list_ex jqValueTruthy results then None
          else Some (Invalid (if trim_space (assertion_Message assertion) \<noteq> [] then msg (trim_space (assertion_Message assertion))
                              else (''payload validation assertion[%d] failed'', [itoa (int idx)])) None))"

fun validate_assertions ::
  "'n Client \<Rightarrow> 'n client_state resolver option \<Rightarrow> gval \<Rightarrow> nat \<Rightarrow> ValidationAssertion list \<Rightarrow> ('n client_state, unit result) state" where
  "validate_assertions g resolve payload idx [] = ret (Ok ())"
| "validate_assertions g resolve payload idx (assertion # assertions) =
     (let expression = trim_space (assertion_JQ assertion) in
      if expression = [] then validate_assertions g resolve payload (Suc idx) assertions
      else do {
        outcome \<leftarrow> he_jq (cl_env g) resolve expression payload;
        case assertion_error idx assertion outcome of
          Some e \<Rightarrow> ret (Err e)
        | None \<Rightarrow> validate_assertions g resolve payload (Suc idx) assertions })"

definition validateOperationAssertions ::
  "'n Client \<Rightarrow> 'n client_state resolver option \<Rightarrow> gval \<Rightarrow> ValidationAssertion list \<Rightarrow> ('n client_state, unit result) state" where
  "validateOperationAssertions g resolve payload assertions = validate_assertions g resolve payload 0 assertions"

definition validate_with_schema :: "'n Client \<Rightarrow> gval \<Rightarrow> string_map \<Rightarrow> string \<Rightarrow> gval \<Rightarrow> fields \<Rightarrow> unit result" where
  "validate_with_schema g payload derivedFields schemaRef schema document =
     (case (if derivedFields = [] then Ok payload else augmentSchemaValidationPayload payload derivedFields schema document) of
        Err e \<Rightarrow> Err e
      | Ok schemaPayload \<Rightarrow>
          (case validateValueAgainstOpenAPISchema (cl_lower g) schemaPayload schema document ''$'' [] [] 0 of
             None \<Rightarrow> Ok ()
           | Some e \<Rightarrow> Err (Invalid (''operation payload validation failed for schemaRef %q: %v'', [schemaRef]) None)))"

definition validateOperationSchemaRef ::
  "'n Client \<Rightarrow> gval \<Rightarrow> string_map \<Rightarrow> string \<Rightarrow> string \<Rightarrow> string \<Rightarrow> ('n client_state, unit result) state" where
  "validateOperationSchemaRef g payload derivedFields requestPath requestMethod schemaRef =
     (let trimmedSchemaRef = trim_space schemaRef in
      if trimmedSchemaRef = [] then ret (Ok ())
      else if trim_space (cl_openAPISource g) = []
      then ret (Err (Invalid (msg ''validate.schemaRef requires managed-service.http.openapi to be configured'') None))
      else and_then (openAPIDocument g) (\<lambda>document.
        ret (case schema_for_validation (cl_lower g) (id_upper (he_identity (cl_env g))) document requestPath requestMethod trimmedSchemaRef of
               Err e \<Rightarrow> Err e
             | Ok schema \<Rightarrow> validate_with_schema g payload derivedFields trimmedSchemaRef schema document)))"

definition validation_payload_type :: "'n Client \<Rightarrow> ResourceMetadata \<Rightarrow> OperationSpec \<Rightarrow> wire_body \<Rightarrow> string" where
  "validation_payload_type g md spec body =
     (let fromBody = unwrapContentDescriptor body;
          payloadType = (if IsPayloadDescriptorExplicit fromBody then PayloadType (NormalizePayloadDescriptor (cl_lower g) fromBody)
                         else PayloadType (metadataPayloadDescriptor g md)) in
      if trim_space (md_Format md) = [] \<or> ResourceFormatAllowsMixedItems (cl_lower g) (md_Format md)
      then or_else (PayloadTypeForMediaType (cl_lower g) (op_ContentType spec)) payloadType
      else payloadType)"

definition validateOperationPayload ::
  "'n Client \<Rightarrow> 'n client_state resolver option \<Rightarrow> Resource \<Rightarrow> ResourceMetadata \<Rightarrow> OperationSpec \<Rightarrow> wire_body \<Rightarrow> ('n client_state, unit result) state" where
  "validateOperationPayload g resolve res md spec body =
     (case op_Validate spec of
        None \<Rightarrow> ret (Ok ())
      | Some validate \<Rightarrow>
          (let payloadType = validation_payload_type g md spec body in
           if \<not> IsStructuredPayloadType (cl_lower g) payloadType
           then ret (Err (Invalid (''operation payload validation requires structured payloads, got %q'', [payloadType]) None))
           else
             let derivedFields = DerivePathFields res md in
             and_then (ret (Normalize (unwrapContentValue body))) (\<lambda>normalizedBody.
             and_then (ret (if derivedFields = [] then Ok normalizedBody else MergePayloadFields normalizedBody derivedFields)) (\<lambda>payloadView.
               case ValidateRequiredAttributes payloadView ''validate.requiredAttributes'' (or_else (val_RequiredAttributes validate) [])
                      ''operation payload validation'' of
                 Some e \<Rightarrow> ret (Err e)
               | None \<Rightarrow>
                   and_then (validateOperationAssertions g resolve payloadView (or_else (val_Assertions validate) [])) (\<lambda>_.
                     validateOperationSchemaRef g normalizedBody derivedFields (op_Path spec) (op_Method spec) (val_SchemaRef validate))))))"

definition validateResourceMutationPayload :: "'n Client \<Rightarrow> string \<Rightarrow> Resource \<Rightarrow> ResourceMetadata \<Rightarrow> PayloadDescriptor \<Rightarrow> go_error option" where
  "validateResourceMutationPayload g operation res md descriptor =
     (if EffectiveResourceRequiredAttributesForOperation md operation = [] then None
      else if \<not> IsStructuredPayloadType (cl_lower g) (PayloadType (NormalizePayloadDescriptor (cl_lower g) descriptor)) then None
      else ValidateResourceRequiredAttributesForOperation (Payload res) md operation)"

section \<open>Building a request\<close>

definition client_spec_input :: "Resource \<Rightarrow> ResourceMetadata \<Rightarrow> ResourceOperationSpecInput" where
  "client_spec_input res md =
     \<lparr>in_LogicalPath = LogicalPath res, in_CollectionPath = CollectionPath res, in_LocalAlias = LocalAlias res, in_RemoteID = RemoteID res,
      in_PayloadDescriptor = PayloadDesc res, in_Metadata = md, in_Payload = Payload res\<rparr>"

text \<open>The specification with its templates rendered, its path and its method override.\<close>

definition rendered_spec :: "'n Client \<Rightarrow> Resource \<Rightarrow> ResourceMetadata \<Rightarrow> string \<Rightarrow> ('n client_state, OperationSpec result) state" where
  "rendered_spec g res md operation =
     (let spec0 = operationSpecFromMetadata md operation in
      and_then
        (case cl_renderer g of
           Some render \<Rightarrow> reads (\<lambda>w. render (network w) (client_spec_input res md) operation)
         | None \<Rightarrow> ret (resolveOperationSpecTemplates g md operation spec0 res (requestBodyDescriptor g res md)))
        (\<lambda>spec.
          let located = (if trim_space (op_Path spec0) = [] \<and> trim_space (ResolvedRemotePath res) \<noteq> []
                         then spec\<lparr>op_Path := ResolvedRemotePath res\<rparr> else spec);
              overridden = (case override_method g operation of None \<Rightarrow> located | Some method \<Rightarrow> located\<lparr>op_Method := method\<rparr>);
              requestPath = NormalizeRequestPath (op_Path overridden) in
          if requestPath = [] then ret (Err (Invalid (msg ''resolved operation path is empty'') None))
          else ret (Ok (overridden\<lparr>op_Path := requestPath, op_Headers := mergeHeaders (cl_defaultHeaders g) (op_Headers overridden)\<rparr>))))"

definition with_method :: "'n Client \<Rightarrow> string \<Rightarrow> OperationSpec \<Rightarrow> OperationSpec result" where
  "with_method g operation spec =
     (let method = cl_upper g (trim_space (if trim_space (op_Method spec) = [] then defaultOperationMethod operation else op_Method spec)) in
      if method = [] then Err (Invalid (''operation %q has no HTTP method'', [operation]) None) else Ok (spec\<lparr>op_Method := method\<rparr>))"

definition media_type_or :: "string \<Rightarrow> string result \<Rightarrow> string" where
  "media_type_or given fallback = (if trim_space given = [] then (case fallback of Ok mediaType \<Rightarrow> mediaType | Err e \<Rightarrow> given) else given)"

definition with_body ::
  "'n Client \<Rightarrow> 'n client_state resolver option \<Rightarrow> Resource \<Rightarrow> ResourceMetadata \<Rightarrow> string \<Rightarrow> OperationSpec
    \<Rightarrow> ('n client_state, (OperationSpec \<times> wire_body) result) state" where
  "with_body g resolve res md operation spec =
     (let bodyDescriptor = requestBodyDescriptor g res md in
      if \<not> operationRequiresBody operation then ret (Ok (spec, Raw (op_Body spec)))
      else case validateResourceMutationPayload g operation res md bodyDescriptor of
             Some e \<Rightarrow> ret (Err e)
           | None \<Rightarrow>
               (let spec1 = spec\<lparr>op_ContentType := media_type_or (op_ContentType spec) (defaultResourceMediaType g bodyDescriptor)\<rparr>;
                    body = (if op_Body spec = VNil then Payload res else op_Body spec) in
                and_then (if IsStructuredPayloadType (cl_lower g) (PayloadType bodyDescriptor)
                          then applyOperationPayloadTransforms g resolve body spec1 else ret (Ok body)) (\<lambda>transformed.
                  ret (Ok (spec1, Wrapped \<lparr>Value = transformed, Descriptor = bodyDescriptor\<rparr>)))))"

definition BuildRequestFromMetadata ::
  "'n Client \<Rightarrow> 'n client_state resolver option \<Rightarrow> Resource \<Rightarrow> ResourceMetadata \<Rightarrow> string
    \<Rightarrow> ('n client_state, (OperationSpec \<times> wire_body) result) state" where
  "BuildRequestFromMetadata g resolve res md operation =
     (let spec0 = operationSpecFromMetadata md operation;
          explicitMethod = (trim_space (op_Method spec0) \<noteq> [] \<or> override_method g operation \<noteq> None) in
      and_then (rendered_spec g res md operation) (\<lambda>spec.
      and_then (applyOpenAPIFallback g (op_Path spec) operation spec explicitMethod
                 (trim_space (op_Accept spec0) \<noteq> []) (trim_space (op_ContentType spec0) \<noteq> [])) (\<lambda>spec1.
      and_then (ret (with_method g operation spec1)) (\<lambda>spec2.
        let accept = media_type_or (op_Accept spec2)
              (defaultResourceMediaType g (requestAcceptDescriptor g operation res md (requestBodyDescriptor g res md))) in
        and_then (with_body g resolve res md operation (spec2\<lparr>op_Accept := accept\<rparr>)) (\<lambda>(spec3, body).
        and_then (validateOpenAPIMethodSupport g (op_Path spec3) (op_Method spec3)) (\<lambda>_.
        and_then (validateOperationPayload g resolve res md spec3 body) (\<lambda>_.
          ret (Ok (spec3, body)))))))))"

section \<open>Lists\<close>

definition extractListItems :: "gval \<Rightarrow> gval list result" where
  "extractListItems payload =
     (case payload of
        VSlice items \<Rightarrow> Ok items
      | VMap m \<Rightarrow>
          (case map_get m ''items'' of
             Some (VSlice items) \<Rightarrow> Ok items
           | Some _ \<Rightarrow> Err (NewListPayloadShapeError (msg ''list response \"items\" must be an array'') None)
           | None \<Rightarrow>
               (case filter (\<lambda>(key, v). schemaSlice v \<noteq> None) m of
                  [] \<Rightarrow> Err (NewListPayloadShapeError (msg ''list response object must include an \"items\" array'') None)
                | [(key, VSlice items)] \<Rightarrow> Ok items
                | arrays \<Rightarrow> Err (NewListPayloadShapeError
                    (''list response object is ambiguous: expected an \"items\" array or a single array field, found array fields [%s]'',
                     [join_with '', '' (map fst arrays)]) None)))
      | _ \<Rightarrow> Err (NewListPayloadShapeError (msg ''list response must be an array or an object with an \"items\" array'') None))"

fun list_resources ::
  "identity_env \<Rightarrow> ResourceMetadata \<Rightarrow> string \<Rightarrow> PayloadDescriptor \<Rightarrow> string list \<Rightarrow> gval list \<Rightarrow> Resource list result" where
  "list_resources env md collectionPath descriptor seen [] = Ok []"
| "list_resources env md collectionPath descriptor seen (item # items) =
     (case item of
        VMap itemMap \<Rightarrow>
          (case Normalize (VMap itemMap) of
             Err e \<Rightarrow> Err e
           | Ok (VMap payloadMap) \<Rightarrow>
               (case ResolveAliasAndRemoteIDForListItem env payloadMap md of
                  Err e \<Rightarrow> Err e
                | Ok (alias, remoteID) \<Rightarrow>
                    if alias \<in> set seen then Err (Conflict (''remote list contains duplicate alias %q'', [alias]) None)
                    else case JoinLogicalPath collectionPath alias of
                           Err e \<Rightarrow> Err e
                         | Ok logicalPath \<Rightarrow>
                             (case list_resources env md collectionPath descriptor (alias # seen) items of
                                Err e \<Rightarrow> Err e
                              | Ok rest \<Rightarrow>
                                  Ok (\<lparr>LogicalPath = logicalPath, CollectionPath = collectionPath, LocalAlias = alias, RemoteID = remoteID,
                                       ResolvedRemotePath = [], Payload = VMap payloadMap, PayloadDesc = descriptor\<rparr> # rest)))
           | Ok _ \<Rightarrow> Err (NewListPayloadShapeError (msg ''list payload entry normalization failed'') None))
      | _ \<Rightarrow> Err (NewListPayloadShapeError (msg ''list payload entries must be JSON objects'') None))"

definition list_from_payload ::
  "identity_env \<Rightarrow> ResourceMetadata \<Rightarrow> string \<Rightarrow> PayloadDescriptor \<Rightarrow> gval \<Rightarrow> Resource list result" where
  "list_from_payload env md collectionPath descriptor payload =
     (case extractListItems payload of
        Err e \<Rightarrow> Err e
      | Ok items \<Rightarrow>
          (case NormalizeLogicalPath collectionPath of
             Err e \<Rightarrow> Err e
           | Ok normalizedCollectionPath \<Rightarrow>
               (case list_resources env md normalizedCollectionPath descriptor [] items of
                  Err e \<Rightarrow> Err e | Ok found \<Rightarrow> Ok (sort_key LogicalPath found))))"

definition decodeListResponse ::
  "'n Client \<Rightarrow> 'n client_state resolver option \<Rightarrow> string \<Rightarrow> ResourceMetadata \<Rightarrow> OperationSpec \<Rightarrow> string \<Rightarrow> string_map
    \<Rightarrow> ('n client_state, Resource list result) state" where
  "decodeListResponse g resolve collectionPath md spec body headers =
     and_then (ret (decodeResponseBody (he_codecs (cl_env g)) body headers (metadataPayloadDescriptor g md))) (\<lambda>content.
     and_then (applyOperationPayloadTransforms g resolve (Value content) spec) (\<lambda>payload.
       ret (list_from_payload (he_identity (cl_env g)) md collectionPath (Descriptor content) payload)))"

section \<open>The operations\<close>

definition Client_Get :: "'n Client \<Rightarrow> 'n client_state resolver option \<Rightarrow> Resource \<Rightarrow> ResourceMetadata \<Rightarrow> ('n client_state, Content result) state" where
  "Client_Get g resolve res md =
     and_then (BuildRequestFromMetadata g resolve res md ''get'') (\<lambda>(spec, body).
     and_then (execute g spec body) (\<lambda>(received, headers).
     and_then (ret (decodeResponseBody (he_codecs (cl_env g)) received headers (requestBodyDescriptor g res md))) (\<lambda>content.
     and_then (applyOperationPayloadTransforms g resolve (Value content) spec) (\<lambda>v.
       ret (Ok (content\<lparr>Value := v\<rparr>))))))"

definition client_mutation ::
  "string \<Rightarrow> 'n Client \<Rightarrow> 'n client_state resolver option \<Rightarrow> Resource \<Rightarrow> ResourceMetadata \<Rightarrow> ('n client_state, Content result) state" where
  "client_mutation operation g resolve res md =
     and_then (BuildRequestFromMetadata g resolve res md operation) (\<lambda>(spec, body).
     and_then (execute g spec body) (\<lambda>(received, headers).
       ret (decodeResponseBody (he_codecs (cl_env g)) received headers (requestBodyDescriptor g res md))))"

definition Client_Create :: "'n Client \<Rightarrow> 'n client_state resolver option \<Rightarrow> Resource \<Rightarrow> ResourceMetadata \<Rightarrow> ('n client_state, Content result) state" where
  "Client_Create = client_mutation ''create''"

definition Client_Update :: "'n Client \<Rightarrow> 'n client_state resolver option \<Rightarrow> Resource \<Rightarrow> ResourceMetadata \<Rightarrow> ('n client_state, Content result) state" where
  "Client_Update = client_mutation ''update''"

definition Client_Delete :: "'n Client \<Rightarrow> 'n client_state resolver option \<Rightarrow> Resource \<Rightarrow> ResourceMetadata \<Rightarrow> ('n client_state, go_error option) state" where
  "Client_Delete g resolve res md = do {
     done' \<leftarrow> and_then (BuildRequestFromMetadata g resolve res md ''delete'') (\<lambda>(spec, body). execute g spec body);
     ret (case done' of Err e \<Rightarrow> Some e | Ok _ \<Rightarrow> None) }"

definition Client_List :: "'n Client \<Rightarrow> 'n client_state resolver option \<Rightarrow> string \<Rightarrow> ResourceMetadata \<Rightarrow> ('n client_state, Resource list result) state" where
  "Client_List g resolve collectionPath md =
     (let res = \<lparr>LogicalPath = collectionPath, CollectionPath = collectionPath, LocalAlias = [], RemoteID = [], ResolvedRemotePath = [],
                 Payload = VNil, PayloadDesc = empty_descriptor\<rparr> in
      and_then (BuildRequestFromMetadata g resolve res md ''list'') (\<lambda>(spec, body).
      and_then (execute g spec body) (\<lambda>(received, headers).
        decodeListResponse g resolve collectionPath md spec received headers)))"

definition Client_Exists :: "'n Client \<Rightarrow> 'n client_state resolver option \<Rightarrow> Resource \<Rightarrow> ResourceMetadata \<Rightarrow> ('n client_state, bool result) state" where
  "Client_Exists g resolve res md =
     and_then (BuildRequestFromMetadata g resolve res md ''get'') (\<lambda>(spec, body). do {
       answer \<leftarrow> execute g spec body;
       ret (case answer of
              Ok _ \<Rightarrow> Ok True
            | Err e \<Rightarrow> if IsCategory (Some e) NotFoundError then Ok False else Err e) })"

definition request_operation_spec :: "'n Client \<Rightarrow> RequestSpec \<Rightarrow> string \<Rightarrow> string \<Rightarrow> PayloadDescriptor \<Rightarrow> OperationSpec" where
  "request_operation_spec g requestSpec method requestPath bodyDescriptor =
     no_operation\<lparr>op_Method := method, op_Path := requestPath, op_Query := req_Query requestSpec, op_Headers := req_Headers requestSpec,
       op_Accept := (if trim_space (req_Accept requestSpec) = [] then MediaType bodyDescriptor else req_Accept requestSpec),
       op_ContentType := (if Value (req_Body requestSpec) \<noteq> VNil \<and> trim_space (req_ContentType requestSpec) = []
                          then MediaType bodyDescriptor else req_ContentType requestSpec)\<rparr>"

definition validation_resource :: "request_validation \<Rightarrow> RequestSpec \<Rightarrow> PayloadDescriptor \<Rightarrow> Resource" where
  "validation_resource validation requestSpec bodyDescriptor =
     (let res = (case validation of
                   None \<Rightarrow> \<lparr>LogicalPath = [], CollectionPath = [], LocalAlias = [], RemoteID = [], ResolvedRemotePath = [],
                           Payload = VNil, PayloadDesc = empty_descriptor\<rparr>
                 | Some (_, input, _) \<Rightarrow>
                     \<lparr>LogicalPath = in_LogicalPath input, CollectionPath = in_CollectionPath input, LocalAlias = in_LocalAlias input,
                      RemoteID = in_RemoteID input, ResolvedRemotePath = [], Payload = in_Payload input, PayloadDesc = bodyDescriptor\<rparr>) in
      if Payload res = VNil \<and> Value (req_Body requestSpec) \<noteq> VNil
      then res\<lparr>Payload := Value (req_Body requestSpec), PayloadDesc := bodyDescriptor\<rparr> else res)"

definition Client_Request :: "'n Client \<Rightarrow> request_validation \<Rightarrow> RequestSpec \<Rightarrow> ('n client_state, Content result) state" where
  "Client_Request g validation requestSpec =
     (let method = cl_upper g (trim_space (req_Method requestSpec)); requestPath = NormalizeRequestPath (req_Path requestSpec) in
      if method = [] then ret (Err (Invalid (msg ''request method is required'') None))
      else if requestPath = [] then ret (Err (Invalid (msg ''request path is required'') None))
      else
        let bodyDescriptor = genericRequestBodyDescriptor g requestSpec;
            body = \<lparr>Value = Value (req_Body requestSpec), Descriptor = bodyDescriptor\<rparr>;
            operation = (case validation of Some (operation, _, _) \<Rightarrow> Some operation | None \<Rightarrow> requestMethodOperation g method);
            md = (case validation of Some (_, input, _) \<Rightarrow> in_Metadata input | None \<Rightarrow> no_metadata);
            spec = (request_operation_spec g requestSpec method requestPath bodyDescriptor)
                     \<lparr>op_Validate := (case validation of Some (_, _, validate) \<Rightarrow> Some validate | None \<Rightarrow> None)\<rparr>;
            res = validation_resource validation requestSpec bodyDescriptor in
        case (case operation of
                Some name \<Rightarrow> if operationRequiresBody name then validateResourceMutationPayload g name res md bodyDescriptor else None
              | None \<Rightarrow> None) of
          Some e \<Rightarrow> ret (Err e)
        | None \<Rightarrow>
            and_then (if operation \<noteq> None then validateOperationPayload g None res md spec (Wrapped body) else ret (Ok ())) (\<lambda>_.
            and_then (execute g spec (Wrapped body)) (\<lambda>(received, headers).
              ret (decodeResponseBody (he_codecs (cl_env g)) received headers (requestFallbackDescriptor g validation requestSpec spec body)))))"

text \<open>The client as the managed service of the orchestrator; only a list may call the orchestrator back.\<close>

definition http_server :: "'n Client \<Rightarrow> 'n client_state server" where
  "http_server g =
     \<lparr>srv_Get = Client_Get g None, srv_Create = Client_Create g None, srv_Update = Client_Update g None, srv_Delete = Client_Delete g None,
      srv_List = (\<lambda>resolve. Client_List g (Some resolve)), srv_Request = Client_Request g, srv_OpenAPI = Client_GetOpenAPISpec g\<rparr>"

end
