(* ===== verification/Orchestrator_Laws.thy ===== *)
theory Orchestrator_Laws
  imports Orchestrator_Request
begin

text \<open>
  What the orchestrator's commands do to the world.  \<open>keeps obs m\<close> says that a call leaves an
  observation of the world as it is; the rules for the state monad carry it through every command
  that is built from calls which only read.
\<close>

section \<open>Running calls\<close>

named_theorems keeps_intros

abbreviation keeps :: "('w \<Rightarrow> 'o) \<Rightarrow> ('w, 'a) state \<Rightarrow> bool" where
  "keeps obs \<equiv> state_io_rel (\<lambda>w w'. obs w' = obs w)"

lemma run_reads [simp]: "run_state (reads f) w = (f w, w)"
  by (simp add: reads_def)

lemma run_and_then:
  "run_state (and_then m f) w =
     (case run_state m w of (Err e, w') \<Rightarrow> (Err e, w') | (Ok v, w') \<Rightarrow> run_state (f v) w')"
  by (auto simp: and_then_def split: prod.split result.split)

lemma keeps_ret [keeps_intros]: "keeps obs (ret x)"
  by (simp add: state_io_rel_def)

lemma keeps_reads [keeps_intros]: "keeps obs (reads f)"
  by (simp add: state_io_rel_def)

lemma keeps_bind [keeps_intros]: "keeps obs m \<Longrightarrow> (\<And>x. keeps obs (f x)) \<Longrightarrow> keeps obs (State_Monad.bind m f)"
  by (simp add: state_io_rel_def split_beta)

lemma keeps_and_then [keeps_intros]: "keeps obs m \<Longrightarrow> (\<And>x. keeps obs (f x)) \<Longrightarrow> keeps obs (and_then m f)"
  unfolding and_then_def by (auto intro!: keeps_intros split: result.split)

lemma keeps_sameD: "keeps obs m \<Longrightarrow> run_state m w = (x, w') \<Longrightarrow> obs w' = obs w"
  by (auto dest: state_io_relD)

section \<open>Calls that only read\<close>

definition service_reads :: "('w \<Rightarrow> 'o) \<Rightarrow> 'w server \<Rightarrow> bool" where
  "service_reads obs s =
     ((\<forall>res md. keeps obs (srv_Get s res md)) \<and> keeps obs (srv_OpenAPI s)
      \<and> (\<forall>resolve p md. (\<forall>q. keeps obs (resolve q)) \<longrightarrow> keeps obs (srv_List s resolve p md)))"

definition secrets_read :: "('w \<Rightarrow> 'o) \<Rightarrow> ('w, string) get_fn \<Rightarrow> bool" where
  "secrets_read obs get = (\<forall>w key. obs (fst (get w key)) = obs w)"

definition reads_keep :: "('w \<Rightarrow> 'o) \<Rightarrow> 'w Orchestrator \<Rightarrow> bool" where
  "reads_keep obs r =
     ((\<forall>s. orc_server r = Some s \<longrightarrow> service_reads obs s) \<and> (\<forall>p. keeps obs (orc_resolver r p))
      \<and> (\<forall>get. orc_secrets r = Some get \<longrightarrow> secrets_read obs get))"

lemma requireServer_Ok: "requireServer r = Ok s \<longleftrightarrow> orc_server r = Some s"
  by (simp add: requireServer_def split: option.split)

lemma keeps_server:
  assumes "reads_keep obs r" "orc_server r = Some s"
  shows "keeps obs (srv_Get s res md)" "keeps obs (srv_OpenAPI s)" "keeps obs (listRemoteResources r s p md)"
  using assms by (simp_all add: reads_keep_def service_reads_def listRemoteResources_def)

lemmas handled_splits = result.split option.split handled.split prod.split list.split probe.split bool.split

lemma keeps_ambiguity:
  assumes "reads_keep obs r" "orc_server r = Some s"
  shows "keeps obs (detectRemoteIdentityAmbiguityAfterDirectGet r s res md)"
  unfolding detectRemoteIdentityAmbiguityAfterDirectGet_def
  by (auto intro!: keeps_intros keeps_server[OF assms])

lemma keeps_candidate:
  assumes "reads_keep obs r" "orc_server r = Some s"
  shows "keeps obs (resolveRemoteCollectionCandidate r s res md)" "keeps obs (fetchRemoteValueForCandidate r s res md c)"
    "keeps obs (fetchRemoteValueFromCollectionCandidate r s res md)"
  unfolding fetchRemoteValueFromCollectionCandidate_def resolveRemoteCollectionCandidate_def fetchRemoteValueForCandidate_def Let_def
  by (auto intro!: keeps_intros keeps_server[OF assms] keeps_ambiguity[OF assms] split: handled_splits)

lemma keeps_next_paths:
  assumes "reads_keep obs r" "orc_server r = Some s"
  shows "keeps obs (next_paths_from r s p segments indices)"
  by (induction indices)
    (auto intro!: keeps_intros keeps_server[OF assms] simp: Let_def split: handled_splits)

lemma keeps_fallback_loop:
  assumes "reads_keep obs r" "orc_server r = Some s"
  shows "keeps obs (fallback_loop rounds r s start visited queue)"
proof (induction rounds arbitrary: visited queue)
  case 0
  show ?case by (cases queue) (auto intro!: keeps_intros)
next
  case (Suc rounds)
  have p: "keeps obs (probe_path r s p)" for p
    unfolding probe_path_def by (auto intro!: keeps_intros keeps_server[OF assms] split: handled_splits)
  show ?case
    by (cases queue)
      (auto intro!: keeps_intros p Suc keeps_next_paths[OF assms]
        simp: resolveNextRemoteMetadataFallbackPaths_def Let_def split: handled_splits)
qed

lemma keeps_collection:
  assumes "reads_keep obs r" "orc_server r = Some s"
  shows "keeps obs (fetchRemoteCollectionValue r s res md)"
proof -
  have m: "keeps obs (isMissingParentForCollectionNotFound r s res)"
    unfolding isMissingParentForCollectionNotFound_def Let_def
    by (auto intro!: keeps_intros keeps_server[OF assms] split: handled_splits)
  show ?thesis
    unfolding fetchRemoteCollectionValue_def shouldTreatRemotePathAsCollection_def collectionHintFromOpenAPI_def
    by (auto intro!: keeps_intros m keeps_server[OF assms] split: handled_splits)
qed

lemma keeps_fetchRemoteValue:
  assumes "reads_keep obs r"
  shows "keeps obs (fetchRemoteValue r res md)"
proof (cases "orc_server r")
  case None
  then show ?thesis by (simp add: fetchRemoteValue_def requireServer_def keeps_ret)
next
  case (Some s)
  note k = keeps_server[OF assms Some] keeps_ambiguity[OF assms Some] keeps_candidate[OF assms Some]
    keeps_fallback_loop[OF assms Some] keeps_collection[OF assms Some]
  show ?thesis
    unfolding fetchRemoteValue_def fetchRemoteMetadataPathFallbackValue_def fetch_from_collection_def
    using Some by (auto intro!: keeps_intros k simp: requireServer_def split: handled_splits)
qed

lemma keeps_GetRemote: "reads_keep obs r \<Longrightarrow> keeps obs (GetRemote r p)"
  unfolding GetRemote_def by (auto intro!: keeps_intros keeps_fetchRemoteValue split: prod.split)

lemma reads_keep_linked: "reads_keep obs r \<Longrightarrow> reads_keep obs (linked depth r)"
proof (induction depth)
  case (Suc depth)
  then have "keeps obs (resolveListJQResource (linked depth r) p)" for p
    unfolding resolveListJQResource_def by (auto intro!: keeps_intros keeps_GetRemote)
  then show ?case using Suc.prems by (simp add: reads_keep_def)
qed simp

section \<open>Secrets are read\<close>

lemma resolve_string_reads:
  "secrets_read obs get \<Longrightarrow> obs (fst (fst (resolve_string L s p q get st))) = obs (fst st)"
  by (auto simp: resolve_string_def secrets_read_def split: result.split option.split prod.split)
    (metis fst_conv)+

lemma resolvePayload_reads:
  shows "secrets_read obs get \<Longrightarrow> obs (fst (fst (resolvePayloadValue L v p q get d st))) = obs (fst st)"
    and "secrets_read obs get \<Longrightarrow> obs (fst (fst (resolve_entries L m p q get d st))) = obs (fst st)"
    and "secrets_read obs get \<Longrightarrow> obs (fst (fst (resolve_items L xs i p q get d st))) = obs (fst st)"
proof (induction L v p q get d st and L m p q get d st and L xs i p q get d st
    rule: resolvePayloadValue_resolve_entries_resolve_items.induct)
  case (1 L v p q getFn d st)
  show ?case
  proof (cases v)
    case (VMap m)
    then show ?thesis using 1(2)[of m] 1(3)
      by (subst resolvePayloadValue.simps) (auto split: prod.splits result.splits)
  next
    case (VSlice xs)
    then show ?thesis using 1(1)[of xs] 1(3)
      by (subst resolvePayloadValue.simps) (auto split: prod.splits result.splits)
  qed (subst resolvePayloadValue.simps, simp add: resolve_string_reads[OF 1(3)])+
next
  case (3 L p m cp q getFn d st)
  show ?case
    using 3(1)[OF 3(3)] 3(2)[OF _ _ 3(3)] by (auto split: prod.splits result.splits)
next
  case (5 L x xs i cp q getFn d st)
  show ?case
    using 5(1)[OF 5(3)] 5(2)[OF _ _ 5(3)] by (auto split: prod.splits result.splits)
qed simp_all

lemma whole_resource_reads:
  "secrets_read obs get \<Longrightarrow> obs (fst (ResolveWholeResourcePlaceholderForResource L C B v p d get w)) = obs w"
  by (auto simp: ResolveWholeResourcePlaceholderForResource_def secrets_read_def
      split: option.split result.split placeholder.split prod.split) (metis fst_conv)+

lemma directives_read:
  assumes "\<And>g. get = Some g \<Longrightarrow> secrets_read obs g"
  shows "obs (fst (ResolvePayloadDirectivesForResource L C B v p d get w)) = obs w"
proof (cases get)
  case None
  then show ?thesis by (auto simp: ResolvePayloadDirectivesForResource_def Let_def split: result.split)
next
  case (Some g)
  have k: "secrets_read obs g" using assms Some by blast
  have e: "obs a = obs w" if "ResolveWholeResourcePlaceholderForResource L C B x p y g w = (a, z)" for a x y z
    using whole_resource_reads[OF k, of L C B x p y w] that by simp
  have f: "obs c = obs a" if "resolvePayloadValue L x [] q g 0 (a, []) = ((c, ca), z)" for a c ca x z q
    using resolvePayload_reads(1)[OF k, of L x "[]" q 0 "(a, [])"] that by simp
  show ?thesis
    using Some by (auto simp: ResolvePayloadDirectivesForResource_def Let_def dest!: e f split: result.split option.split prod.split)
qed

lemma keeps_resolvePayload: "reads_keep obs r \<Longrightarrow> keeps obs (resolvePayloadForRemote r p c)"
  unfolding resolvePayloadForRemote_def
  by (auto intro!: keeps_intros simp: state_io_rel_def run_and_then split_beta directives_read reads_keep_def
      split: result.split)

lemma keeps_prepare: "reads_keep obs r \<Longrightarrow> keeps obs (prepareResourceForRemote r p c)"
  unfolding prepareResourceForRemote_def by (auto intro!: keeps_intros keeps_resolvePayload split: prod.split)

lemma keeps_Diff: "reads_keep obs r \<Longrightarrow> keeps obs (DiffDocument_of r p)"
  unfolding DiffDocument_of_def Let_def
  by (auto intro!: keeps_intros keeps_resolvePayload keeps_fetchRemoteValue split: prod.split result.split)

lemma keeps_ListRemote: "reads_keep obs r \<Longrightarrow> keeps obs (ListRemote r p recursive)"
  unfolding ListRemote_def Let_def
  by (auto intro!: keeps_intros keeps_server(3) simp: requireServer_Ok split: result.split)

section \<open>What applying calls\<close>

datatype remote_call = Created Resource | Updated Resource | Deleted Resource

text \<open>An observation of the world that lists the mutating calls the service has received.\<close>

definition logs_calls :: "('w \<Rightarrow> remote_call list) \<Rightarrow> 'w Orchestrator \<Rightarrow> bool" where
  "logs_calls calls r =
     (reads_keep calls r
      \<and> (\<forall>s res md w. orc_server r = Some s \<longrightarrow>
            calls (snd (run_state (srv_Create s res md) w)) = calls w @ [Created res]
            \<and> calls (snd (run_state (srv_Update s res md) w)) = calls w @ [Updated res]
            \<and> calls (snd (run_state (srv_Delete s res md) w)) = calls w @ [Deleted res]))"

lemma logs_reads: "logs_calls calls r \<Longrightarrow> reads_keep calls r"
  by (simp add: logs_calls_def)

lemma mutation_calls:
  assumes "logs_calls calls r" "run_state (executeRemoteMutation r res md operation) w = (out, w')"
  shows "calls w' = calls w \<and> \<not> is_ok out
    \<or> (operation = ''create'' \<and> calls w' = calls w @ [Created res])
    \<or> (operation = ''update'' \<and> calls w' = calls w @ [Updated res])"
proof (cases "orc_server r")
  case None
  then show ?thesis using assms(2) by (auto simp: executeRemoteMutation_def requireServer_def)
next
  case (Some s)
  note l = assms(1)[unfolded logs_calls_def, THEN conjunct2, rule_format, OF Some]
  show ?thesis
    using assms(2) Some l[of res md w]
    by (auto simp: executeRemoteMutation_def requireServer_def run_and_then split: if_splits prod.splits result.splits)
qed

lemma create_or_update_calls:
  assumes "logs_calls calls r" "run_state (create_or_update r res md) w = (out, w')"
  shows "calls w' = calls w \<or> calls w' = calls w @ [Created res] \<or> calls w' = calls w @ [Created res, Updated res]
    \<or> calls w' = calls w @ [Updated res]"
proof -
  obtain first w1 where f: "run_state (executeRemoteMutation r res md ''create'') w = (first, w1)" by fastforce
  note a = mutation_calls[OF assms(1) f]
  show ?thesis
  proof (cases first)
    case (Ok x)
    then show ?thesis using assms(2) f a by (auto simp: create_or_update_def)
  next
    case (Err e)
    show ?thesis
    proof (cases "IsCategory (Some e) ConflictError")
      case True
      then have "run_state (executeRemoteMutation r res md ''update'') w1 = (out, w')"
        using assms(2) f Err by (simp add: create_or_update_def)
      from mutation_calls[OF assms(1) this] a show ?thesis by auto
    next
      case False
      then show ?thesis using assms(2) f Err a by (auto simp: create_or_update_def)
    qed
  qed
qed

lemma update_if_changed_calls:
  assumes "logs_calls calls r" "run_state (update_if_changed r force res md remoteValue) w = (out, w')"
  shows "calls w' = calls w \<or> (\<exists>remoteID. calls w' = calls w @ [Updated (res\<lparr>RemoteID := remoteID\<rparr>)])"
proof -
  have same: "res\<lparr>RemoteID := RemoteID res\<rparr> = res" by simp
  have m: "calls w2 = calls w1 \<or> (\<exists>remoteID. calls w2 = calls w1 @ [Updated (res\<lparr>RemoteID := remoteID\<rparr>)])"
    if "run_state (executeRemoteMutation r (res\<lparr>RemoteID := i\<rparr>) md ''update'') w1 = (x, w2)" for i x w1 w2
    using mutation_calls[OF assms(1) that] by auto
  show ?thesis
    using assms(2) m[of "RemoteID res"] m
    by (auto simp: update_if_changed_def run_and_then same Let_def split: result.splits prod.splits option.splits if_splits)
qed

lemma buildResourceInfo_path:
  "buildResourceInfo r w p c = Ok (res, md) \<Longrightarrow> NormalizeLogicalPath p = Ok (LogicalPath res)"
  by (auto simp: buildResourceInfo_def split: result.splits prod.splits)

lemma buildRemoteRead_path:
  "buildResourceInfoForRemoteRead r w p = Ok (res, md) \<Longrightarrow> NormalizeLogicalPath p = Ok (LogicalPath res)"
  by (auto simp: buildResourceInfoForRemoteRead_def Let_def split: result.splits gval.splits)

lemma prepare_path:
  "run_state (prepareResourceForRemote r p c) w = (Ok (res, md), w') \<Longrightarrow> NormalizeLogicalPath p = Ok (LogicalPath res)"
  by (auto simp: prepareResourceForRemote_def run_and_then dest!: buildResourceInfo_path split: result.splits prod.splits)

definition checks_keep :: "('w \<Rightarrow> 'o) \<Rightarrow> 'w ApplyPolicy \<Rightarrow> bool" where
  "checks_keep obs policy = (\<forall>check c. policy_Conflict policy = Some check \<longrightarrow> keeps obs (check c))"

text \<open>An apply that gets past the preparation, step by step.\<close>

lemma apply_steps:
  assumes "run_state (applyDesiredState r p content policy) w = (out, w')"
  obtains e where "run_state (prepareResourceForRemote r p content) w = (Err e, w')" "out = Err e"
  | res md w1 w2 where "run_state (prepareResourceForRemote r p content) w = (Ok (res, md), w1)"
      "run_state (case policy_Conflict policy of None \<Rightarrow> ret False | Some check \<Rightarrow> check (conflict_check res)) w1 = (True, w2)"
      "out = Ok res" "w' = w2"
  | res md w1 w2 where "run_state (prepareResourceForRemote r p content) w = (Ok (res, md), w1)"
      "run_state (case policy_Conflict policy of None \<Rightarrow> ret False | Some check \<Rightarrow> check (conflict_check res)) w1 = (False, w2)"
      "run_state (apply_to_remote r (policy_Force policy) res md) w2 = (out, w')"
  using assms by (auto simp: applyDesiredState_def run_and_then split: prod.splits result.splits if_splits)

lemma apply_to_remote_calls:
  assumes "logs_calls calls r" "run_state (apply_to_remote r force res md) w = (out, w')"
  shows "calls w' = calls w
    \<or> (\<exists>x. LogicalPath x = LogicalPath res
          \<and> (calls w' = calls w @ [Created x] \<or> calls w' = calls w @ [Created x, Updated x] \<or> calls w' = calls w @ [Updated x]))"
proof -
  obtain remote w1 where f: "run_state (fetchRemoteValue r res md) w = (remote, w1)" by fastforce
  have k: "calls w1 = calls w"
    using keeps_sameD[OF keeps_fetchRemoteValue[OF logs_reads[OF assms(1)]] f] .
  show ?thesis
  proof (cases remote)
    case (Err e)
    then show ?thesis
      using assms(2) f k create_or_update_calls[OF assms(1), of res md w1 out w']
      by (auto simp: apply_to_remote_def split: if_splits)
  next
    case (Ok v)
    then have u: "run_state (update_if_changed r force res md v) w1 = (out, w')"
      using assms(2) f by (simp add: apply_to_remote_def)
    from update_if_changed_calls[OF assms(1) u] show ?thesis using k by fastforce
  qed
qed

lemma skip_keeps:
  assumes "checks_keep obs policy"
  shows "keeps obs (case policy_Conflict policy of None \<Rightarrow> ret False | Some check \<Rightarrow> check c)"
  using assms by (auto intro: keeps_ret simp: checks_keep_def split: option.split)


section \<open>Applying again\<close>

text \<open>A service that answers a get with what the last create or update of the path sent, and whose
  reads leave it as it is.\<close>

definition remembers :: "'w server \<Rightarrow> ResourceMetadata \<Rightarrow> bool" where
  "remembers s md =
     (\<forall>res w v w' res'. run_state (srv_Create s res md) w = (Ok v, w') \<or> run_state (srv_Update s res md) w = (Ok v, w') \<longrightarrow>
        LogicalPath res' = LogicalPath res \<longrightarrow> run_state (srv_Get s res' md) w' = (Ok (contentFromResource res), w'))"

lemma mutation_remembered:
  assumes "orc_server r = Some s" "remembers s md"
    and "run_state (executeRemoteMutation r res md operation) w = (Ok out, w')" "LogicalPath res' = LogicalPath res"
  shows "run_state (srv_Get s res' md) w' = (Ok (contentFromResource res), w')"
  using assms
  by (auto simp: executeRemoteMutation_def requireServer_def run_and_then remembers_def
      split: if_splits prod.splits result.splits)

text \<open>The payloads are compared as structured values.\<close>

definition compared_structured :: "'w Orchestrator \<Rightarrow> Resource \<Rightarrow> ResourceMetadata \<Rightarrow> bool" where
  "compared_structured r res md =
     (case ValidateConcreteResourceFormat (orc_lower r) (compare_payload_type (orc_lower r) res md (contentFromResource res)) of
        Err e \<Rightarrow> True
      | Ok payloadType \<Rightarrow> IsStructuredPayloadType (orc_lower r) payloadType)"

lemma compared_same:
  assumes "resolveComparedPayloads r w res md (contentFromResource res) (contentFromResource res) = Ok (a, b)"
    and "compared_structured r res md"
  shows "a = b"
  using assms
  by (auto simp: resolveComparedPayloads_def compared_structured_def pair_result_def Let_def split: result.splits)

lemma settled_get:
  assumes "orc_server r = Some s" "\<not> shouldCheckRemoteIdentityAmbiguity res md" "\<not> force" "compared_structured r res md"
    and "run_state (srv_Get s res md) w = (Ok (contentFromResource res), w)"
  shows "snd (run_state (apply_to_remote r force res md) w) = w"
proof -
  have "run_state (fetchRemoteValue r res md) w = (Ok (contentFromResource res), w)"
    using assms(1,2,5) by (simp add: fetchRemoteValue_def requireServer_def detectRemoteIdentityAmbiguityAfterDirectGet_def)
  then show ?thesis
    using compared_same[OF _ assms(4), of w] assms(3)
    by (auto simp: apply_to_remote_def update_if_changed_def run_and_then Let_def split: result.splits option.splits prod.splits)
qed

lemma apply_to_remote_settles:
  assumes "orc_server r = Some s" "\<not> shouldCheckRemoteIdentityAmbiguity res md" "\<not> force" "compared_structured r res md"
    and "reads_keep id r" "remembers s md" "run_state (apply_to_remote r force res md) w = (Ok out, w')"
  shows "snd (run_state (apply_to_remote r force res md) w') = w'"
proof -
  obtain remote w1 where f: "run_state (fetchRemoteValue r res md) w = (remote, w1)" by fastforce
  have w1: "w1 = w" using keeps_sameD[OF keeps_fetchRemoteValue[OF assms(5)] f] by simp
  note got = settled_get[OF assms(1-4)]
  have m: ?thesis if "run_state (executeRemoteMutation r x md operation) v = (Ok y, w')" "contentFromResource x = contentFromResource res"
      "LogicalPath x = LogicalPath res" for x v y operation
    using mutation_remembered[OF assms(1,6) that(1), of res] got[of w'] that(2,3) by simp
  show ?thesis
  proof (cases remote)
    case (Err e)
    then have "run_state (create_or_update r res md) w = (Ok out, w')"
      using assms(7) f w1 by (auto simp: apply_to_remote_def split: if_splits)
    then show ?thesis
      using m[of res] by (auto simp: create_or_update_def split: prod.splits result.splits if_splits)
  next
    case (Ok v)
    then have "run_state (update_if_changed r force res md v) w = (Ok out, w')"
      using assms(7) f w1 by (simp add: apply_to_remote_def)
    then consider "w' = w" | x y where "run_state (executeRemoteMutation r x md ''update'') w = (Ok y, w')"
        "contentFromResource x = contentFromResource res" "LogicalPath x = LogicalPath res"
      by (auto simp: update_if_changed_def run_and_then Let_def contentFromResource_def
          split: result.splits option.splits prod.splits if_splits)
    then show ?thesis
    proof cases
      case 1
      then show ?thesis using assms(7) by simp
    next
      case 2
      then show ?thesis using m by blast
    qed
  qed
qed


section \<open>Ambiguous identities\<close>

text \<open>C11: a resource whose identity two items of its collection share is not applied: the service is only
  read, and the error is a conflict.\<close>

theorem ambiguous_identity_not_applied:
  assumes "orc_server r = Some s" "shouldCheckRemoteIdentityAmbiguity res md"
    and "run_state (prepareResourceForRemote r p content) w0 = (Ok (res, md), w)" "policy_Conflict policy = None"
    and "run_state (srv_Get s res md) w = (Ok v, w1)"
    and "run_state (srv_List s (orc_resolver r) (CollectionPath res) md) w1 = (Ok candidates, w2)"
    and "length (filter (matchesResolvedIdentityCandidate res) candidates) > 1"
  shows "run_state (applyDesiredState r p content policy) w0 = (Err (ambiguous_error ''remote'' (LogicalPath res)), w2)
    \<and> IsCategory (Some (ambiguous_error ''remote'' (LogicalPath res))) ConflictError"
proof
  have "run_state (fetchRemoteValue r res md) w = (Err (ambiguous_error ''remote'' (LogicalPath res)), w2)"
    using assms by (simp add: fetchRemoteValue_def requireServer_def detectRemoteIdentityAmbiguityAfterDirectGet_def listRemoteResources_def)
  then show "run_state (applyDesiredState r p content policy) w0 = (Err (ambiguous_error ''remote'' (LogicalPath res)), w2)"
    using assms(3,4)
    by (simp add: applyDesiredState_def run_and_then apply_to_remote_def ambiguous_error_def NewTypedError_def IsCategory_def)
qed (simp add: ambiguous_error_def NewTypedError_def IsCategory_def)

section \<open>What deleting calls\<close>

text \<open>\<open>deletes calls res n m\<close>: all that the call \<open>m\<close> asks the service to change is at most \<open>n\<close> deletions of
  the path of \<open>res\<close>.\<close>

definition deletes :: "('w \<Rightarrow> remote_call list) \<Rightarrow> Resource \<Rightarrow> nat \<Rightarrow> ('w, 'a) state \<Rightarrow> bool" where
  "deletes calls res n m =
     (\<forall>w. \<exists>ds. calls (snd (run_state m w)) = calls w @ map Deleted ds \<and> length ds \<le> n \<and> (\<forall>d\<in>set ds. LogicalPath d = LogicalPath res))"

lemma deletes_keeps: "keeps calls m \<Longrightarrow> deletes calls res n m"
  unfolding deletes_def state_io_rel_def by (auto intro!: exI[of _ "[]"])

lemma deletes_bind:
  assumes "deletes calls res n m" "\<And>x. deletes calls res k (f x)"
  shows "deletes calls res (n + k) (State_Monad.bind m f)"
  unfolding deletes_def
proof
  fix w
  obtain x w1 where m: "run_state m w = (x, w1)" by fastforce
  obtain ds where ds: "calls w1 = calls w @ map Deleted ds" "length ds \<le> n" "\<forall>d\<in>set ds. LogicalPath d = LogicalPath res"
    using assms(1) m unfolding deletes_def by (metis snd_conv)
  obtain es where es: "calls (snd (run_state (f x) w1)) = calls w1 @ map Deleted es" "length es \<le> k" "\<forall>d\<in>set es. LogicalPath d = LogicalPath res"
    using assms(2)[of x] unfolding deletes_def by blast
  show "\<exists>ds. calls (snd (run_state (State_Monad.bind m f) w)) = calls w @ map Deleted ds \<and> length ds \<le> n + k
      \<and> (\<forall>d\<in>set ds. LogicalPath d = LogicalPath res)"
    using m ds es by (intro exI[of _ "ds @ es"]) auto
qed

lemma deletes_mono: "deletes calls res n m \<Longrightarrow> n \<le> k \<Longrightarrow> deletes calls res k m"
  unfolding deletes_def by (meson order_trans)

lemma deletes_delete:
  assumes "logs_calls calls r" "orc_server r = Some s" "LogicalPath d = LogicalPath res"
  shows "deletes calls res 1 (srv_Delete s d md)"
  using assms unfolding deletes_def logs_calls_def by (auto intro!: exI[of _ "[d]"])

lemma deletes_same_path: "LogicalPath a = LogicalPath b \<Longrightarrow> deletes calls a n m \<longleftrightarrow> deletes calls b n m"
  by (simp add: deletes_def)

lemma candidate_path [simp]: "LogicalPath (remoteReadResourceFromFallbackCandidate env res c) = LogicalPath res"
  by (simp add: remoteReadResourceFromFallbackCandidate_def Let_def)

lemma deletes_after:
  assumes "logs_calls calls r" "orc_server r = Some s"
  shows "deletes calls res 1 (after_delete r s res md e)"
proof -
  have "deletes calls res (0 + 1) (delete_fetched r s res md)"
    unfolding delete_fetched_def
    by (rule deletes_bind)
      (auto intro!: deletes_keeps keeps_fetchRemoteValue keeps_ret deletes_delete[OF assms, simplified] logs_reads[OF assms(1)]
        split: result.split)
  then show ?thesis by (simp add: after_delete_def deletes_keeps keeps_ret)
qed

lemma deletes_candidate:
  assumes "logs_calls calls r" "orc_server r = Some s"
  shows "deletes calls res 2 (delete_candidate r s res md e)"
proof -
  let ?x = "\<lambda>c. remoteReadResourceFromFallbackCandidate (orc_identity r) res c"
  have after: "deletes calls res 1 (after_delete r s (?x c) md e')" for c e'
    using deletes_after[OF assms, of "?x c" md e'] deletes_same_path[OF candidate_path] by blast
  have again: "deletes calls res (1 + 1) (do { a \<leftarrow> srv_Delete s (?x c) md; case a of None \<Rightarrow> ret None | Some e' \<Rightarrow> after_delete r s (?x c) md e' })" for c
    by (rule deletes_bind[OF deletes_delete[OF assms candidate_path]]) (simp add: deletes_keeps keeps_ret after[simplified] split: option.split)
  note more = deletes_mono[OF deletes_after[OF assms], of 2, simplified]
  have "deletes calls res (0 + 2) (delete_candidate r s res md e)"
    unfolding delete_candidate_def Let_def
    by (rule deletes_bind)
      (auto intro: deletes_keeps keeps_candidate logs_reads assms keeps_ret more again[unfolded one_add_one]
        split: handled.split option.split result.split)
  then show ?thesis by (rule deletes_mono) simp
qed


end
