(* ===== verification/Http_Laws.thy ===== *)
theory Http_Laws
  imports Http_Operations Orchestrator_Laws
begin

text \<open>
  What the HTTP client sends and what it returns: where its requests go, how long it uses a token, what the status of a response
  becomes, which resources a list gives; and inputs on which it goes wrong.
\<close>

section \<open>Status codes\<close>

lemma classify_categories:
  "IsCategory (Some (classifyStatusError status body)) NotFoundError \<longleftrightarrow> status = 404"
  "IsCategory (Some (classifyStatusError status body)) ConflictError \<longleftrightarrow> status = 409"
  "IsCategory (Some (classifyStatusError status body)) AuthError \<longleftrightarrow> status = 401 \<or> status = 403"
  by (auto simp: classifyStatusError_def Let_def IsCategory_def Auth_def NotFound_def Conflict_def Invalid_def Transport_def NewTypedError_def)

section \<open>Where requests go\<close>

lemma clean_path_rooted: "clean_path p \<longleftrightarrow> (\<exists>segs. list_all plain_segment segs \<and> p = rooted_path segs)"
proof
  assume "clean_path p"
  then show "\<exists>segs. list_all plain_segment segs \<and> p = rooted_path segs"
    using path_clean_rooted[of p] path_clean_rooted_plain[of p] unfolding clean_path_def by metis
qed (auto simp: clean_path_def path_clean_rooted_path)

lemma NormalizeRequestPath_clean:
  assumes "clean_path p" "trim_space p = p"
  shows "NormalizeRequestPath p = p"
proof -
  obtain segs where s: "list_all plain_segment segs" "p = rooted_path segs" using assms(1) by (auto simp: clean_path_rooted)
  then show ?thesis
    using assms(2) trim_suffix_rooted[OF s(1)] by (cases "segs = []") (auto simp: NormalizeRequestPath_def Let_def rooted_path_def)
qed

lemma path_join_rooted:
  assumes "list_all plain_segment bs" "list_all plain_segment qs" "qs \<noteq> []"
  shows "path_join (rooted_path bs) (join_with ''/'' qs) = rooted_path (bs @ qs)"
proof -
  have ne: "join_with ''/'' qs \<noteq> []" using assms(2,3) by (cases qs; cases "tl qs") (auto simp: plain_segment_def)
  have "path_join (rooted_path bs) (join_with ''/'' qs) = path_clean (rooted_path bs @ ''/'' @ join_with ''/'' qs)"
    using ne by (simp add: path_join_def)
  also have "\<dots> = rooted_path (bs @ qs)"
  proof (cases "bs = []")
    case True
    then have "rooted_path bs @ ''/'' @ join_with ''/'' qs = rooted_path ([] # qs)" using assms(3) by (simp add: rooted_path_def join_with_Cons)
    moreover have "split_on slash (rooted_path ([] # qs)) = [] # [] # qs"
      using plain_segments_no_slash[OF assms(2)] by (simp add: rooted_path_def split_join)
    ultimately show ?thesis using True assms(2) by (simp add: path_clean_rooted clean_segments_plain)
  next
    case False
    then have "rooted_path bs @ ''/'' @ join_with ''/'' qs = rooted_path (bs @ qs)" using assms(3) by (simp add: rooted_path_def join_with_append)
    then show ?thesis using path_clean_rooted_path[of "bs @ qs"] assms by simp
  qed
  finally show ?thesis .
qed

lemma joinBase_rooted:
  assumes "list_all plain_segment bs" "trim_space (rooted_path bs) = rooted_path bs"
    and "list_all plain_segment qs" "trim_space (rooted_path qs) = rooted_path qs"
  shows "joinBaseAndRequestPath (rooted_path bs) (rooted_path qs) = rooted_path (bs @ qs)"
proof -
  have n: "NormalizeRequestPath (rooted_path bs) = rooted_path bs" "NormalizeRequestPath (rooted_path qs) = rooted_path qs"
    using assms by (auto intro!: NormalizeRequestPath_clean simp: clean_path_rooted)
  have "trim_prefix (rooted_path qs) ''/'' = join_with ''/'' qs" by (simp add: trim_prefix_def rooted_path_def)
  then show ?thesis
    using path_join_rooted[OF assms(1,3)] rooted_path_root[OF assms(3)] n by (cases "qs = []") (auto simp: joinBaseAndRequestPath_def Let_def)
qed

lemma run_and_then_Ok:
  "run_state (and_then m f) w = (Ok y, w') \<longleftrightarrow> (\<exists>x v. run_state m w = (Ok x, v) \<and> run_state (f x) v = (Ok y, w'))"
  by (auto simp: and_then_def split: prod.splits result.splits)

lemma applyAuth_target:
  "run_state (applyAuth g request) w = (Ok authorized, w') \<Longrightarrow> hr_URL authorized = hr_URL request"
  by (auto simp: applyAuth_def run_and_then_Ok split: authConfig.splits)

text \<open>C13: a request goes to the scheme and host of the base URL, and to a clean path that is the base path or below it,
  whatever the metadata, the payload and the service gave, if the path of the operation is clean; the path of a resolved
  operation is, where it was written as absolute or relative to the collection.\<close>

theorem requests_below_base:
  assumes "run_state (newRequest g spec body) w = (Ok request, w')"
    and "clean_path (op_Path spec)" "trim_space (op_Path spec) = op_Path spec"
    and "clean_path (url_Path (cl_baseURL g))" "trim_space (url_Path (cl_baseURL g)) = url_Path (cl_baseURL g)"
  shows "\<exists>p. hr_URL request = (cl_baseURL g)\<lparr>url_Path := p\<rparr> \<and> clean_path p
    \<and> (p = url_Path (cl_baseURL g) \<or> url_Path (cl_baseURL g) = ''/'' \<or> prefix (url_Path (cl_baseURL g) @ ''/'') p)"
proof -
  obtain bs qs where s: "list_all plain_segment bs" "url_Path (cl_baseURL g) = rooted_path bs"
    "list_all plain_segment qs" "op_Path spec = rooted_path qs"
    using assms(2,4) by (auto simp: clean_path_rooted)
  have j: "joinBaseAndRequestPath (url_Path (cl_baseURL g)) (op_Path spec) = rooted_path (bs @ qs)"
    using joinBase_rooted[OF s(1) _ s(3)] assms(3,5) s by simp
  have "hr_URL request = (cl_baseURL g)\<lparr>url_Path := rooted_path (bs @ qs)\<rparr>"
    using assms(1) by (auto simp: newRequest_def resolveRequestURL_def j Let_def dest!: applyAuth_target split: result.splits if_splits option.splits)
  moreover have "clean_path (rooted_path (bs @ qs))" using s by (auto simp: clean_path_rooted intro!: exI[of _ "bs @ qs"])
  moreover have "rooted_path (bs @ qs) = rooted_path bs \<or> rooted_path bs = ''/'' \<or> prefix (rooted_path bs @ ''/'') (rooted_path (bs @ qs))"
    using rooted_path_append[of bs qs] by (cases "bs = []"; cases "qs = []") (auto simp: rooted_path_def)
  ultimately show ?thesis unfolding s(2) by blast
qed

section \<open>Tokens\<close>

lemma token_reused:
  assumes "oauthAccessToken w \<noteq> []" "he_now (cl_env g) (network w) < oauthExpiresAt w - seconds 30"
  shows "run_state (oauthToken g oauth) w = (Ok (oauthAccessToken w), w)"
  using assms by (simp add: oauthToken_def)

text \<open>A token that expires within half a minute is not used: a new one is requested, and kept on success only.\<close>

lemma token_requested:
  assumes "oauthAccessToken w = [] \<or> oauthExpiresAt w - seconds 30 \<le> he_now (cl_env g) (network w)"
    and "run_state (oauthToken g oauth) w = (out, w')"
  shows "(\<exists>e. token_request g oauth = Err e \<and> out = Err e \<and> w' = w)
    \<or> (\<exists>request answer n. token_request g oauth = Ok request
        \<and> run_state (he_send (cl_env g) ''oauth2-token'' request) (network w) = (answer, n) \<and> network w' = n
        \<and> (case out of Ok token \<Rightarrow> oauthAccessToken w' = token | Err e \<Rightarrow> oauthAccessToken w' = oauthAccessToken w))"
  using assms by (auto simp: oauthToken_def on_network_def split: result.splits prod.splits)

text \<open>A lifetime of more than 292 years wraps around: the token has expired before it is used.\<close>

lemma token_lifetime_wraps: "token_lifetime 9223372036 > 0" "token_lifetime 9223372037 < 0"
  by code_simp+

section \<open>Lists\<close>

text \<open>A list that is decoded has one resource for each item, with distinct aliases, each under the path that its alias
  gives in the collection.\<close>

lemma list_resources_aliases:
  "list_resources env md collectionPath descriptor seen items = Ok found
   \<Longrightarrow> length found = length items \<and> distinct (map LocalAlias found) \<and> set (map LocalAlias found) \<inter> set seen = {}
     \<and> (\<forall>res\<in>set found. CollectionPath res = collectionPath \<and> JoinLogicalPath collectionPath (LocalAlias res) = Ok (LogicalPath res))"
proof (induction items arbitrary: seen found)
  case (Cons item items)
  from Cons.prems obtain res rest where r: "found = res # rest" "LocalAlias res \<notin> set seen" "CollectionPath res = collectionPath"
    "JoinLogicalPath collectionPath (LocalAlias res) = Ok (LogicalPath res)"
    "list_resources env md collectionPath descriptor (LocalAlias res # seen) items = Ok rest"
    by (auto split: gval.splits result.splits prod.splits if_splits)
  then show ?case using Cons.IH[OF r(5)] by auto
qed simp

text \<open>The alias of an item is not checked to be one segment of a path, and the item is placed outside of the collection.\<close>

lemma list_item_escapes:
  "map_result (map LogicalPath) (list_from_payload ascii_identity (no_metadata\<lparr>md_ID := ''/id''\<rparr>) ''/tenants/a'' empty_descriptor
     (VSlice [VMap [(''id'', VString ''../b'')]])) = Ok [''/tenants/b'']"
  by code_simp

section \<open>A client on a network that always answers the same\<close>

definition plain_codecs :: codecs where
  "plain_codecs =
     (let none = (\<lambda>x. Err (PlainError (msg ''not used'') None)) in
      \<lparr>yaml_unmarshal = none, yaml_marshal = (\<lambda>v. Err (PlainError (msg ''not used'') None)), json_decode = none,
       json_marshal = (\<lambda>v. Err (PlainError (msg ''not used'') None)), json_marshal_indent = (\<lambda>v. Err (PlainError (msg ''not used'') None)),
       format_float = (\<lambda>bits x. []), unicode_lower = (\<lambda>s. s)\<rparr>)"

definition tenant_url :: URL where
  "tenant_url = \<lparr>url_Scheme = ''https'', url_User = None, url_Host = ''api'', url_Path = ''/tenants/a'', url_RawQuery = []\<rparr>"

definition answering_env :: "http_response \<Rightarrow> http_request list http_env" where
  "answering_env response =
     \<lparr>he_codecs = plain_codecs, he_identity = ascii_identity, he_templates = plain_engine, he_overrides = [],
      he_parse_url = (\<lambda>s. Ok \<lparr>url_Scheme = [], url_User = None, url_Host = [], url_Path = s, url_RawQuery = []\<rparr>),
      he_query = (\<lambda>u. []), he_hostname = url_Host, he_port = (\<lambda>u. []), he_equal_fold = (=), he_new_request = (\<lambda>r. None),
      he_send = (\<lambda>purpose r. State (\<lambda>sent. (Ok response, sent @ [r]))),
      he_read_file = (\<lambda>n p. Err (PlainError (msg ''not used'') None)), he_now = (\<lambda>n. 0),
      he_credentials = (\<lambda>name user password. ret (Ok (''user'', ''secret''))),
      he_base64 = (\<lambda>s. s), he_form = (\<lambda>m. []), he_token_response = (\<lambda>s. Ok (''token'', 60)),
      he_json = (\<lambda>s. Err (PlainError (msg ''not used'') None)), he_yaml = (\<lambda>s. Err (PlainError (msg ''not used'') None)),
      he_swagger2 = (\<lambda>d. d), he_jq = (\<lambda>resolve expression v. ret (Results [v]))\<rparr>"

definition answering :: "http_response \<Rightarrow> http_request list Client" where
  "answering response =
     \<lparr>cl_env = answering_env response, cl_baseURL = tenant_url, cl_defaultHeaders = None,
      cl_auth = AuthCustomHeaders [\<lparr>ht_Header = ''x-api-key'', ht_Prefix = [], ht_Value = ''k''\<rparr>],
      cl_openAPISource = [], cl_renderer = None\<rparr>"

definition idle :: "http_request list client_state" where
  "idle = \<lparr>oauthAccessToken = [], oauthExpiresAt = 0, openapiDoc = None, network = []\<rparr>"

definition octets :: "string \<Rightarrow> http_response" where
  "octets b = \<lparr>rs_Status = 200, rs_Headers = [(''Content-Type'', ''application/octet-stream'')], rs_Body = b, rs_ReadError = None\<rparr>"

definition blob :: Resource where
  "blob = \<lparr>LogicalPath = ''/blobs/x'', CollectionPath = ''/blobs'', LocalAlias = ''x'', RemoteID = ''x'', ResolvedRemotePath = [],
           Payload = VNil, PayloadDesc = empty_descriptor\<rparr>"

definition blob_md :: ResourceMetadata where
  "blob_md = no_metadata\<lparr>md_Operations := Some [(''get'', no_operation\<lparr>op_Path := ''/blobs/x''\<rparr>)]\<rparr>"

definition blob_spec :: OperationSpec where
  "blob_spec = no_operation\<lparr>op_Method := ''GET'', op_Path := ''/blobs/x''\<rparr>"

definition blob_request :: http_request where
  "blob_request =
     \<lparr>hr_Method = ''GET'', hr_URL = tenant_url\<lparr>url_Path := ''/tenants/a/blobs/x''\<rparr>, hr_Query = [],
      hr_Headers = [(''X-Api-Key'', ''k'')], hr_Body = []\<rparr>"

lemma blob_built: "run_state (BuildRequestFromMetadata (answering response) None blob blob_md ''get'') idle = (Ok (blob_spec, Raw VNil), idle)"
  by code_simp

lemma blob_authorized: "run_state (newRequest (answering response) blob_spec (Raw VNil)) idle = (Ok blob_request, idle)"
  by code_simp

theorem requests_below_base_witness:
  "\<exists>p. hr_URL blob_request = tenant_url\<lparr>url_Path := p\<rparr> \<and> clean_path p
    \<and> (p = ''/tenants/a'' \<or> ''/tenants/a'' = ''/'' \<or> prefix (''/tenants/a'' @ ''/'') p)"
proof -
  have base: "cl_baseURL (answering (octets [])) = tenant_url" "url_Path tenant_url = ''/tenants/a''" "op_Path blob_spec = ''/blobs/x''"
    by (simp_all add: answering_def tenant_url_def blob_spec_def)
  have clean: "clean_path ''/blobs/x''" "trim_space ''/blobs/x'' = ''/blobs/x''" "clean_path ''/tenants/a''" "trim_space ''/tenants/a'' = ''/tenants/a''"
    by code_simp+
  show ?thesis using requests_below_base[OF blob_authorized[of "octets []"]] unfolding base using clean by blast
qed

lemma blob_decoded:
  assumes "b \<noteq> []"
  shows "decodeResponseBody plain_codecs b [(''Content-Type'', ''application/octet-stream'')] (requestBodyDescriptor (answering r) blob blob_md)
    = Ok \<lparr>Value = VBinary b, Descriptor = DefaultOctetStreamDescriptor\<rparr>"
proof -
  have d: "requestBodyDescriptor (answering r) blob blob_md = descriptor_of_type (\<lambda>s. s) ''json''"
    "normalizeResponseFallbackDescriptor (\<lambda>s. s) (descriptor_of_type (\<lambda>s. s) ''json'') body = descriptor_of_type (\<lambda>s. s) ''json''"
    "codecs.unicode_lower plain_codecs = (\<lambda>s. s)" for body
  proof -
    have "IsPayloadDescriptorExplicit (descriptor_of_type (\<lambda>s. s) ''json'')"
      "NormalizePayloadDescriptor (\<lambda>s. s) (descriptor_of_type (\<lambda>s. s) ''json'') = descriptor_of_type (\<lambda>s. s) ''json''"
      by code_simp+
    then show "normalizeResponseFallbackDescriptor (\<lambda>s. s) (descriptor_of_type (\<lambda>s. s) ''json'') body = descriptor_of_type (\<lambda>s. s) ''json''"
      by (simp add: normalizeResponseFallbackDescriptor_def)
    show "requestBodyDescriptor (answering r) blob blob_md = descriptor_of_type (\<lambda>s. s) ''json''" by code_simp
  qed (simp add: plain_codecs_def Let_def)
  have h: "responseHeaderDescriptor (\<lambda>s. s) [(''Content-Type'', ''application/octet-stream'')] = Some DefaultOctetStreamDescriptor"
    "responseDecodeCandidates (\<lambda>s. s) ''octet-stream'' (PayloadType (descriptor_of_type (\<lambda>s. s) ''json''))
       = [''octet-stream'', ''json'']"
    "\<not> IsStructuredPayloadType (\<lambda>s. s) ''octet-stream''"
    "PayloadType DefaultOctetStreamDescriptor = ''octet-stream''"
    by code_simp+
  have "PayloadCodecForType (\<lambda>s. s) ''octet-stream''
      = Ok \<lparr>CodecType = ''octet-stream'', CodecExtension = ''.bin'', CodecMediaType = ''application/octet-stream'', Structured = False, Text = False, Binary = True\<rparr>"
    by code_simp
  then have "DecodePayload plain_codecs b ''octet-stream'' = Ok (VBinary b)" by (simp add: DecodePayload_def d)
  then show ?thesis using assms by (simp add: decodeResponseBody_def Let_def d h descriptorForDecodedCandidate_def)
qed

lemma response_limit_pos: "response_limit \<noteq> 0"
  by (simp add: response_limit_def)


definition missing_response :: http_response where
  "missing_response = \<lparr>rs_Status = 404, rs_Headers = [], rs_Body = [], rs_ReadError = None\<rparr>"

definition escaping :: "http_request list Client" where
  "escaping = (answering missing_response)\<lparr>cl_env := (answering_env missing_response)
     \<lparr>he_templates := plain_engine\<lparr>te_execute := (\<lambda>funcs text' scope. Ok ''items/../../b'')\<rparr>\<rparr>\<rparr>"

definition bare_md :: ResourceMetadata where
  "bare_md = no_metadata\<lparr>md_Operations := Some [(''get'', no_operation\<lparr>op_Path := ''items/{{/id}}''\<rparr>)]\<rparr>"

lemma escaping_built:
  "run_state (BuildRequestFromMetadata escaping None blob bare_md ''get'') idle = (Ok (blob_spec\<lparr>op_Path := ''/../b''\<rparr>, Raw VNil), idle)"
  by code_simp

lemma escaping_authorized:
  "run_state (newRequest escaping (blob_spec\<lparr>op_Path := ''/../b''\<rparr>) (Raw VNil)) idle
    = (Ok (blob_request\<lparr>hr_URL := tenant_url\<lparr>url_Path := ''/tenants/b''\<rparr>\<rparr>), idle)"
  by code_simp


end
