(* ===== verification/Orchestrator_Fallback.thy ===== *)
theory Orchestrator_Fallback
  imports Orchestrator_Laws
begin

text \<open>
  The search of \<open>fetchRemoteMetadataPathFallbackValue\<close>: it replaces a segment of the logical path by the
  identifier an item of the collection has, and starts again with the path it gets.  Where the
  identifiers are single segments, the paths have one length and the search is bounded; an identifier
  with a slash in it lengthens the path and the search need not end.
\<close>

section \<open>Rounds of the search\<close>

lemma enqueue_new_simps:
  "enqueue_new [] state = state"
  "enqueue_new (p # ps) (visited, queue) =
     (if p \<in> set visited then enqueue_new ps (visited, queue) else enqueue_new ps (p # visited, queue @ [p]))"
  by (simp_all add: enqueue_new_def)

lemma enqueue_new_inv:
  "enqueue_new paths (visited, queue) = (visited', queue') \<Longrightarrow> distinct visited \<Longrightarrow> distinct queue \<Longrightarrow> set queue \<subseteq> set visited
   \<Longrightarrow> distinct visited' \<and> distinct queue' \<and> set queue' \<subseteq> set visited' \<and> set visited' = set visited \<union> set paths
     \<and> length visited' + length queue = length visited + length queue'"
proof (induction paths arbitrary: visited queue)
  case (Cons p ps)
  show ?case
  proof (cases "p \<in> set visited")
    case True
    then show ?thesis using Cons.IH[of visited queue] Cons.prems by (auto simp: enqueue_new_simps)
  next
    case False
    then have "p \<notin> set queue" using Cons.prems by auto
    then show ?thesis using False Cons.IH[of "p # visited" "queue @ [p]"] Cons.prems by (auto simp: enqueue_new_simps)
  qed
qed (simp add: enqueue_new_simps)

lemma fallback_loop_enough:
  assumes "finite P" and closed: "\<And>p w paths w'. p \<in> P \<Longrightarrow> run_state (resolveNextRemoteMetadataFallbackPaths r s p) w = (Ok paths, w')
      \<Longrightarrow> set paths \<subseteq> P"
  shows "distinct visited \<Longrightarrow> set visited \<subseteq> P \<Longrightarrow> distinct queue \<Longrightarrow> set queue \<subseteq> set visited
    \<Longrightarrow> card P + length queue \<le> rounds + length visited
    \<Longrightarrow> \<exists>out w'. \<forall>extra. run_state (fallback_loop (rounds + extra) r s start visited queue) w = (Some out, w')"
proof (induction rounds arbitrary: visited queue w)
  case 0
  have "length visited \<le> card P" using 0(1,2) \<open>finite P\<close> by (metis card_mono distinct_card)
  then have "queue = []" using 0(5) by (cases queue) auto
  then show ?case by simp
next
  case (Suc rounds)
  show ?case
  proof (cases queue)
    case (Cons p q)
    have p: "p \<in> P" using Suc.prems Cons by auto
    have skip: "\<exists>out w'. \<forall>extra. run_state (fallback_loop (rounds + extra) r s start visited q) v = (Some out, w')" for v
      by (rule Suc.IH) (use Suc.prems Cons in auto)
    have more: "\<exists>out w'. \<forall>extra. run_state (fallback_loop (rounds + extra) r s start visited' queue') v = (Some out, w')"
      if "run_state (resolveNextRemoteMetadataFallbackPaths r s p) u = (Ok paths, v)" "enqueue_new paths (visited, q) = (visited', queue')"
      for u v paths visited' queue'
    proof -
      have q: "distinct q" "set q \<subseteq> set visited" "card P + length q \<le> rounds + length visited" using Suc.prems Cons by auto
      note inv = enqueue_new_inv[OF that(2) Suc.prems(1) q(1,2)]
      show ?thesis by (rule Suc.IH) (use inv q(3) closed[OF p that(1)] Suc.prems(2) in auto)
    qed
    obtain probed v where probed: "run_state (if p \<noteq> start then probe_path r s p else ret Expand_From) w = (probed, v)" by fastforce
    have step: "run_state (fallback_loop (Suc rounds + extra) r s start visited queue) w =
        run_state (case probed of Found res \<Rightarrow> ret (Some (Handled res))
          | Skip \<Rightarrow> fallback_loop (rounds + extra) r s start visited q
          | Expand_From \<Rightarrow> bind (resolveNextRemoteMetadataFallbackPaths r s p) (\<lambda>nextPaths.
              case nextPaths of Err e \<Rightarrow> ret (Some (Handled (Err e)))
              | Ok paths \<Rightarrow> (case enqueue_new paths (visited, q) of
                    (visited', queue') \<Rightarrow> fallback_loop (rounds + extra) r s start visited' queue'))) v" for extra
      using Cons probed by (simp only: add_Suc fallback_loop.simps run_state_bind prod.case)
    show ?thesis
    proof (cases probed)
      case Expand_From
      obtain out u where "run_state (resolveNextRemoteMetadataFallbackPaths r s p) v = (out, u)" by fastforce
      moreover have "\<exists>visited' queue'. enqueue_new paths (visited, q) = (visited', queue')" for paths by fastforce
      ultimately show ?thesis unfolding step using Expand_From more[of v _ u] by (cases out) fastforce+
    qed (use skip[of v] in \<open>simp_all only: step probe.case run_state_return, blast+\<close>)
  qed simp
qed

section \<open>Segments of a path\<close>

lemma path_base_rooted:
  assumes "list_all plain_segment segs" "segs \<noteq> []"
  shows "path_base (rooted_path segs) = last segs"
proof -
  have "dropWhile (\<lambda>x. x = slash) (rev (rooted_path segs)) = rev (rooted_path segs)"
    using suffix_slash_rooted[OF assms] by (cases "rooted_path segs" rule: rev_cases) (auto simp: suffix_def)
  moreover have "last segs \<noteq> []" using assms by (auto simp: list_all_iff plain_segment_def)
  ultimately show ?thesis
    using assms by (simp add: path_base_def strip_trailing_slashes_def split_rooted_path)
qed

definition one_segment :: "string \<Rightarrow> bool" where
  "one_segment b = (normalizeLogicalPathSegment b = Ok b \<and> CHR ''{'' \<notin> set b)"

lemma one_segmentD:
  assumes "one_segment b"
  shows "plain_segment b" "trim_space b = b" "b \<noteq> ''_''" "backslash \<notin> set b" "CHR ''{'' \<notin> set b"
  using assms by (auto simp: one_segment_def normalizeLogicalPathSegment_def plain_segment_def Let_def split: if_splits)

lemma split_raw_plain:
  "CHR ''{'' \<notin> set s \<Longrightarrow> split_on slash s = y # ys \<Longrightarrow>
   split_raw_loop 0 current acc s =
     acc @ (let segs = (current @ y) # ys in if last segs = [] then butlast segs else segs)"
proof (induction s arbitrary: current acc y ys)
  case (Cons c s)
  obtain z zs where z: "split_on slash s = z # zs" by (cases "split_on slash s") auto
  show ?case
  proof (cases "c = slash")
    case True
    then have "y = []" "ys = z # zs" using Cons.prems z by simp_all
    then show ?thesis using True Cons.IH[of z zs "[]" "acc @ [current]"] Cons.prems(1) z by (simp add: Let_def)
  next
    case False
    then have "y = c # z" "ys = zs" using Cons.prems z by simp_all
    then show ?thesis using False Cons.IH[of z zs "current @ [c]" acc] Cons.prems(1) z by (auto simp: Let_def)
  qed
qed (auto simp: Let_def)

lemma trailing_space_rooted:
  assumes "trailing_space b = None" "slash \<notin> set b"
  shows "trailing_space (x @ slash # b) = None"
proof -
  have False if w: "w \<in> set space_encodings" "suffix w (x @ slash # b)" for w
  proof -
    have "suffix w b \<or> suffix (slash # b) w"
      using w(2) suffix_same_cases[of w "x @ slash # b" "slash # b"] by (auto simp: suffix_Cons suffixI)
    moreover have "slash \<notin> set w" using w(1) by (auto simp: space_encodings_def)
    ultimately show False using assms(1) w(1) by (auto simp: trailing_space_None dest: set_mono_suffix)
  qed
  then show ?thesis by (auto simp: trailing_space_None)
qed

text \<open>A path ends in its last segment.\<close>

lemma rooted_path_last:
  assumes "segs \<noteq> []"
  obtains x where "rooted_path segs = x @ slash # last segs" "x = [] \<longleftrightarrow> tl segs = []"
proof (cases "butlast segs")
  case Nil
  then have "segs = [last segs]" using assms append_butlast_last_id by fastforce
  then have "rooted_path segs = [] @ slash # last segs" "tl segs = []" by (metis append_Nil append_Cons join_with.simps(2) rooted_path_def, metis list.sel(3))
  then show ?thesis using that by blast
next
  case (Cons y ys)
  have "segs = butlast segs @ [last segs]" using assms by simp
  then have "rooted_path segs = rooted_path (butlast segs) @ rooted_path [last segs]"
    using rooted_path_append[of "butlast segs" "[last segs]"] Cons by simp
  moreover have "tl segs \<noteq> []" using Cons by (cases segs; cases "tl segs") auto
  ultimately show ?thesis using that[of "rooted_path (butlast segs)"] by (simp add: rooted_path_def)
qed

lemma trim_space_rooted:
  assumes "\<forall>b\<in>set segs. one_segment b"
  shows "trim_space (rooted_path segs) = rooted_path segs"
proof (cases "segs = []")
  case True
  then show ?thesis by (simp add: rooted_path_def trim_space_visible)
next
  case False
  obtain x where x: "rooted_path segs = x @ slash # last segs" using rooted_path_last[OF False] by blast
  have "one_segment (last segs)" using assms False by simp
  then have "trailing_space (last segs) = None" "slash \<notin> set (last segs)"
    using one_segmentD(2) plain_segmentD(4)[OF one_segmentD(1)] trim_space_id_iff by blast+
  then have "trailing_space (rooted_path segs) = None" using x trailing_space_rooted by simp
  moreover have "leading_space (rooted_path segs) = None"
    using leading_space_visible[of slash] by (simp add: rooted_path_def)
  ultimately show ?thesis by (rule trim_space_id[rotated])
qed

lemma split_raw_rooted:
  assumes "\<forall>b\<in>set segs. one_segment b"
  shows "SplitRawPathSegments (rooted_path segs) = segs"
proof (cases "segs = []")
  case True
  then show ?thesis using assms trim_space_rooted[OF assms] by (simp add: SplitRawPathSegments_def rooted_path_def trim_char_def)
next
  case False
  have plain: "list_all plain_segment segs" using assms one_segmentD(1) by (auto simp: list_all_iff)
  let ?j = "join_with ''/'' segs"
  have ne: "last segs \<noteq> []" "slash \<notin> set (last segs)" "hd segs \<noteq> []" "slash \<notin> set (hd segs)"
    using plain False by (auto simp: list_all_iff plain_segment_def)
  obtain x where x: "slash # ?j = x @ slash # last segs" using rooted_path_last[OF False] by (auto simp: rooted_path_def)
  have "?j \<noteq> []" using join_with_eq_Nil[of segs] plain False by (auto simp: list_all_iff plain_segment_def)
  moreover have "last ?j \<noteq> slash"
    using x ne calculation by (metis last.simps last_ConsR last_appendR last_in_set list.distinct(1))
  moreover have "hd ?j \<noteq> slash"
    using False ne(3,4) by (cases segs; cases "tl segs") (auto dest: hd_in_set)
  ultimately have ends: "?j \<noteq> []" "hd ?j \<noteq> slash" "last ?j \<noteq> slash" by simp_all
  then have "trim_char (rooted_path segs) slash = ?j"
    using dropWhile_eq_self_iff[of "\<lambda>x. x = slash" ?j] dropWhile_eq_self_iff[of "\<lambda>x. x = slash" "rev ?j"]
    by (simp add: trim_char_def rooted_path_def hd_rev)
  moreover have "split_on slash ?j = segs"
    using split_join False plain_segments_no_slash[OF plain] by blast
  moreover have "CHR ''{'' \<notin> set ?j"
    using assms one_segmentD(5) set_join_with[of "''/''" segs] by fastforce
  moreover obtain y ys where "segs = y # ys" using False by (cases segs) auto
  ultimately show ?thesis
    using split_raw_plain[of ?j y ys "[]" "[]"] trim_space_rooted[OF assms] ends(1) plain
    by (auto simp: SplitRawPathSegments_def Let_def list_all_iff plain_segment_def split: if_splits)
qed

lemma normalize_rooted:
  assumes "\<forall>b\<in>set segs. one_segment b"
  shows "NormalizeLogicalPath (rooted_path segs) = Ok (rooted_path segs)"
proof -
  have "normal_path segs" using assms one_segmentD(1,4) by (auto simp: normal_path_def list_all_iff)
  moreover have "\<not> list_ex (\<lambda>segment. segment = ''_'') segs" using assms one_segmentD(3) by (auto simp: list_ex_iff)
  ultimately show ?thesis by (simp add: NormalizeLogicalPath_def CleanRawPath_rooted split_raw_rooted[OF assms])
qed

section \<open>A bounded search\<close>

text \<open>Every identifier the items of a list offer is in \<open>A\<close>.\<close>

definition offers :: "identity_env \<Rightarrow> 'w server \<Rightarrow> string set \<Rightarrow> bool" where
  "offers env s A =
     (\<forall>resolve p md w cs w'. run_state (srv_List s resolve p md) w = (Ok cs, w') \<longrightarrow> (\<forall>c\<in>set cs. fallbackSegmentValue env c \<in> A))"

lemma segment_replacement_offered:
  assumes "segment_replacement env p segs i info md q cs = Ok (Some next')" "\<forall>c\<in>set cs. fallbackSegmentValue env c \<in> A"
  obtains a where "a \<in> A" "replaceLogicalPathSegment segs i a = Ok (Some next')"
proof (cases "filter (matchesFallbackCandidate env info) cs")
  case Nil
  then have "allowsSingletonListIdentityFallback q md cs" "replaceLogicalPathSegment segs i (fallbackSegmentValue env (hd cs)) = Ok (Some next')"
    using assms(1) by (auto simp: segment_replacement_def split: if_splits)
  moreover have "hd cs \<in> set cs" using calculation(1) by (cases cs) (auto simp: allowsSingletonListIdentityFallback_def)
  ultimately show ?thesis using that assms(2) by blast
next
  case (Cons c rest)
  then have "rest = []" "replaceLogicalPathSegment segs i (fallbackSegmentValue env c) = Ok (Some next')"
    using assms(1) by (auto simp: segment_replacement_def split: list.splits)
  moreover have "c \<in> set cs" using Cons by (auto simp: filter_eq_Cons_iff)
  ultimately show ?thesis using that assms(2) by blast
qed

lemma next_paths_offered:
  assumes "offers (orc_identity r) s A"
  shows "run_state (next_paths_from r s p segs indices) w = (Ok paths, w') \<Longrightarrow> set indices \<subseteq> {..<length segs}
    \<Longrightarrow> next' \<in> set paths \<Longrightarrow> \<exists>i a. i < length segs \<and> a \<in> A \<and> replaceLogicalPathSegment segs i a = Ok (Some next')"
proof (induction indices arbitrary: w)
  case (Cons i indices)
  have hit: "\<exists>i a. i < length segs \<and> a \<in> A \<and> replaceLogicalPathSegment segs i a = Ok (Some x)"
    if "run_state (srv_List s (orc_resolver r) c md) v = (Ok cs, v')"
      "segment_replacement (orc_identity r) p segs i info md q cs = Ok (Some x)" for c md v cs v' info q x
    using segment_replacement_offered[OF that(2), of A] assms that(1) Cons.prems(2) unfolding offers_def by fastforce
  show ?case
    using Cons.prems Cons.IH hit
    by (auto simp: Let_def listRemoteResources_def split: prod.splits result.splits option.splits if_splits)
qed simp

definition paths_over :: "nat \<Rightarrow> string set \<Rightarrow> string set" where
  "paths_over n B = rooted_path ` {segs. set segs \<subseteq> B \<and> length segs = n}"

lemma next_paths_over:
  assumes "offers (orc_identity r) s A" "A \<subseteq> B" "\<forall>b\<in>B. one_segment b" "p \<in> paths_over n B"
    and "run_state (resolveNextRemoteMetadataFallbackPaths r s p) w = (Ok paths, w')"
  shows "set paths \<subseteq> paths_over n B"
proof
  fix next' assume n: "next' \<in> set paths"
  obtain segs where segs: "p = rooted_path segs" "set segs \<subseteq> B" "length segs = n"
    using assms(4) by (auto simp: paths_over_def)
  have split: "SplitRawPathSegments p = segs" using split_raw_rooted segs assms(3) by blast
  have "run_state (next_paths_from r s p segs (rev [0..<length segs])) w = (Ok paths, w')"
    using assms(5) by (simp add: resolveNextRemoteMetadataFallbackPaths_def split Let_def)
  from next_paths_offered[OF assms(1) this _ n] obtain i a where i: "i < length segs" "a \<in> A"
      "replaceLogicalPathSegment segs i a = Ok (Some next')" by force
  let ?new = "segs[i := a]"
  have new: "set ?new \<subseteq> B" using set_update_subset_insert[of segs i a] i(2) segs(2) assms(2) by blast
  have "trim_space a = a" using i(2) assms(2,3) one_segmentD(2) by blast
  then have "NormalizeLogicalPath (rooted_path ?new) = Ok next'"
    using i(3) by (auto simp: replaceLogicalPathSegment_def rooted_path_def Let_def split: if_splits result.splits)
  then have "next' = rooted_path ?new" using normalize_rooted[of ?new] new assms(3) by auto
  then show "next' \<in> paths_over n B" using new segs(3) by (auto simp: paths_over_def)
qed

lemma finite_paths_over: "finite B \<Longrightarrow> finite (paths_over n B) \<and> card (paths_over n B) \<le> card B ^ n"
  unfolding paths_over_def
  using finite_lists_length_eq[of B n] card_lists_length_eq[of B n] card_image_le[of "{segs. set segs \<subseteq> B \<and> length segs = n}" rooted_path]
  by simp

text \<open>C12: the search for a resource under other identifiers ends where the identifiers are single path
  segments: with \<open>n\<close> segments in the path and \<open>k\<close> identifiers and segments in all it has a result within
  \<open>k ^ n\<close> rounds, and more rounds give the same result and leave the same world.\<close>

theorem fallback_bounded:
  assumes "offers (orc_identity r) s A" "finite A" "\<forall>b\<in>A \<union> set segs. one_segment b"
    and "card (A \<union> set segs) ^ length segs \<le> rounds"
  shows "\<exists>out w'. \<forall>extra. run_state (fallback_loop (rounds + extra) r s (rooted_path segs) [rooted_path segs] [rooted_path segs]) w
    = (Some out, w')"
proof -
  let ?P = "paths_over (length segs) (A \<union> set segs)"
  have P: "finite ?P" "card ?P \<le> rounds" using finite_paths_over[of "A \<union> set segs" "length segs"] assms(2,4) by auto
  have start: "rooted_path segs \<in> ?P" by (auto simp: paths_over_def)
  show ?thesis
    by (rule fallback_loop_enough[OF P(1)])
      (use next_paths_over[OF assms(1) _ assms(3)] start P(2) in auto)
qed

end
