(* ===== verification/Orchestrator_Examples.thy ===== *)
theory Orchestrator_Examples
  imports Orchestrator_Fallback
begin

text \<open>
  The laws of the orchestrator at concrete services, and two services on which its search goes wrong.
\<close>

section \<open>A service that keeps a ledger\<close>

definition bare_codecs :: codecs where
  "bare_codecs =
     (let none = (\<lambda>x. Err (PlainError (msg ''not used'') None)) in
      \<lparr>yaml_unmarshal = none, yaml_marshal = (\<lambda>v. Err (PlainError (msg ''not used'') None)), json_decode = none,
       json_marshal = (\<lambda>v. Err (PlainError (msg ''not used'') None)), json_marshal_indent = (\<lambda>v. Err (PlainError (msg ''not used'') None)),
       format_float = (\<lambda>bits x. []), unicode_lower = (\<lambda>s. s)\<rparr>)"

definition bare_env :: orchestrator_env where
  "bare_env =
     \<lparr>env_codecs = bare_codecs,
      env_base64 = \<lparr>base64_encode = (\<lambda>s. s), base64_decode = (\<lambda>s. Ok s)\<rparr>,
      env_text = \<lparr>table_letter = (\<lambda>s. False), table_digit = (\<lambda>s. False), table_upper = (\<lambda>s. False), table_lower = (\<lambda>s. False),
                  table_to_lower = (\<lambda>s. s), quote = (\<lambda>s. s), unquote = (\<lambda>s. Ok s)\<rparr>,
      env_identity = ascii_identity,
      env_templates = \<lparr>te_quote = (\<lambda>s. s), te_parse = (\<lambda>s. None), te_execute = (\<lambda>funcs text' scope. Ok ''rendered''),
                       te_lower = (\<lambda>s. s), te_float = (\<lambda>bits x. [])\<rparr>,
      env_jq = (\<lambda>expression. Err (PlainError (msg ''not used'') None)),
      env_sprintf = (\<lambda>f a. f),
      env_has_openapi_path = (\<lambda>p spec. Ok False), env_infer_openapi = (\<lambda>p spec. Err (PlainError (msg ''not used'') None)),
      env_overrides = [], env_rounds = 8\<rparr>"

fun call_target :: "remote_call \<Rightarrow> Resource" where
  "call_target (Created x) = x"
| "call_target (Updated x) = x"
| "call_target (Deleted x) = x"

definition ledger_get :: "remote_call list \<Rightarrow> Resource \<Rightarrow> Content result" where
  "ledger_get w res =
     (case find (\<lambda>c. LogicalPath (call_target c) = LogicalPath res) (rev w) of
        Some (Created x) \<Rightarrow> Ok (contentFromResource x)
      | Some (Updated x) \<Rightarrow> Ok (contentFromResource x)
      | _ \<Rightarrow> Err (NotFound (msg ''no such resource'') None))"

definition ledger_server :: "remote_call list server" where
  "ledger_server =
     \<lparr>srv_Get = (\<lambda>res md. reads (\<lambda>w. ledger_get w res)),
      srv_Create = (\<lambda>res md. State (\<lambda>w. (Ok empty_content, w @ [Created res]))),
      srv_Update = (\<lambda>res md. State (\<lambda>w. (Ok empty_content, w @ [Updated res]))),
      srv_Delete = (\<lambda>res md. State (\<lambda>w. (case ledger_get w res of Err e \<Rightarrow> Some e | Ok c \<Rightarrow> None, w @ [Deleted res]))),
      srv_List = (\<lambda>resolve p md. ret (Ok [])),
      srv_Request = (\<lambda>validation spec. ret (Err (NotFound (msg ''no such resource'') None))),
      srv_OpenAPI = ret (Err (NotFound (msg ''no specification'') None))\<rparr>"

definition ledger :: "remote_call list Orchestrator" where
  "ledger =
     \<lparr>orc_repository = None,
      orc_metadata = Some \<lparr>meta_Resolve = (\<lambda>w p. Ok no_metadata), meta_Render = None\<rparr>,
      orc_server = Some ledger_server, orc_secrets = None, orc_env = bare_env, orc_resolver = (\<lambda>p. ret (Ok VNil))\<rparr>"

definition ledger_content :: Content where
  "ledger_content = \<lparr>Value = VMap [(''id'', VString ''a'')], Descriptor = descriptor_of ''json'' [] []\<rparr>"

definition ledger_policy :: "remote_call list ApplyPolicy" where
  "ledger_policy = \<lparr>policy_Force = False, policy_Conflict = None\<rparr>"

definition ledger_item :: Resource where
  "ledger_item =
     \<lparr>LogicalPath = ''/items/a'', CollectionPath = ''/items'', LocalAlias = ''a'', RemoteID = ''a'', ResolvedRemotePath = [],
      Payload = VMap [(''id'', VString ''a'')], PayloadDesc = descriptor_of ''json'' [] []\<rparr>"

lemma ledger_prepared: "run_state (prepareResourceForRemote ledger ''/items/a'' ledger_content) w = (Ok (ledger_item, no_metadata), w)"
  by code_simp

lemma ledger_first: "run_state (apply_to_remote ledger False ledger_item no_metadata) [] = (Ok ledger_item, [Created ledger_item])"
  by code_simp

lemma ledger_applied: "run_state (applyDesiredState ledger ''/items/a'' ledger_content ledger_policy) [] = (Ok ledger_item, [Created ledger_item])"
  using ledger_first by (simp add: applyDesiredState_def run_and_then ledger_prepared ledger_policy_def)

lemma ledger_reads: "reads_keep id ledger"
  by (simp add: reads_keep_def service_reads_def ledger_def ledger_server_def keeps_intros)

lemma ledger_logs: "logs_calls id ledger"
  unfolding logs_calls_def by (simp add: ledger_reads) (simp add: ledger_def ledger_server_def)

lemma ledger_remembers: "remembers ledger_server md"
  by (auto simp: remembers_def ledger_server_def ledger_get_def)

lemma ledger_plain: "\<not> shouldCheckRemoteIdentityAmbiguity ledger_item no_metadata" "compared_structured ledger ledger_item no_metadata"
  by code_simp+



lemma ledger_deleted: "run_state (Delete ledger ''/items/a'') [Created ledger_item] =
    (None, [Created ledger_item, Deleted (ledger_item\<lparr>Payload := VMap [], PayloadDesc := empty_descriptor\<rparr>)])"
  by code_simp


section \<open>Two items with one alias\<close>

definition named_md :: ResourceMetadata where
  "named_md = no_metadata\<lparr>md_ID := ''/id'', md_Alias := ''/name''\<rparr>"

definition twin :: "string \<Rightarrow> Resource" where
  "twin remoteID =
     \<lparr>LogicalPath = ''/items/a'', CollectionPath = ''/items'', LocalAlias = ''a'', RemoteID = remoteID, ResolvedRemotePath = [],
      Payload = VMap [(''id'', VString remoteID), (''name'', VString ''a'')], PayloadDesc = descriptor_of ''json'' [] []\<rparr>"

definition twin_server :: "remote_call list server" where
  "twin_server = ledger_server\<lparr>srv_Get := (\<lambda>res md. ret (Ok (contentFromResource (twin ''1'')))),
                                srv_List := (\<lambda>resolve p md. ret (Ok [twin ''1'', twin ''2'']))\<rparr>"

definition twins :: "remote_call list Orchestrator" where
  "twins = ledger\<lparr>orc_metadata := Some \<lparr>meta_Resolve = (\<lambda>w p. Ok named_md), meta_Render = None\<rparr>, orc_server := Some twin_server\<rparr>"

lemma twins_prepared: "run_state (prepareResourceForRemote twins ''/items/a'' (contentFromResource (twin ''1''))) w = (Ok (twin ''1'', named_md), w)"
  by code_simp

lemma twins_ambiguous: "shouldCheckRemoteIdentityAmbiguity (twin ''1'') named_md"
  "length (filter (matchesResolvedIdentityCandidate (twin ''1'')) [twin ''1'', twin ''2'']) > 1"
  by code_simp+

theorem ambiguous_identity_not_applied_witness:
  "run_state (applyDesiredState twins ''/items/a'' (contentFromResource (twin ''1'')) ledger_policy) []
    = (Err (ambiguous_error ''remote'' ''/items/a''), [])"
proof -
  have s: "orc_server twins = Some twin_server" by (simp add: twins_def)
  have g: "run_state (srv_Get twin_server (twin ''1'') named_md) [] = (Ok (contentFromResource (twin ''1'')), [])"
    "run_state (srv_List twin_server (orc_resolver twins) (CollectionPath (twin ''1'')) named_md) [] = (Ok [twin ''1'', twin ''2''], [])"
    by (simp_all add: twin_server_def)
  have p: "policy_Conflict ledger_policy = None" by (simp add: ledger_policy_def)
  show ?thesis
    using ambiguous_identity_not_applied[OF s twins_ambiguous(1) twins_prepared p g twins_ambiguous(2)] by (simp add: twin_def)
qed

section \<open>The only item of a collection\<close>

definition filtered_md :: ResourceMetadata where
  "filtered_md = no_metadata\<lparr>md_ID := ''/id'',
     md_Transforms := Some [\<lparr>SelectAttributes = None, ExcludeAttributes = None, JQExpression = ''.items''\<rparr>]\<rparr>"

definition sole_item :: Resource where
  "sole_item =
     \<lparr>LogicalPath = ''/items/a'', CollectionPath = ''/items'', LocalAlias = ''a'', RemoteID = ''a'', ResolvedRemotePath = [],
      Payload = VMap [(''id'', VString ''a'')], PayloadDesc = descriptor_of ''json'' [] []\<rparr>"

text \<open>It has the item \<open>a\<close> and nothing else.\<close>

definition sole_server :: "remote_call list server" where
  "sole_server = ledger_server\<lparr>
     srv_Get := (\<lambda>res md. ret (if RemoteID res = ''a'' then Ok (contentFromResource sole_item) else Err (NotFound (msg ''no such resource'') None))),
     srv_Delete := (\<lambda>res md. State (\<lambda>w. (if RemoteID res = ''a'' then None else Some (NotFound (msg ''no such resource'') None), w @ [Deleted res]))),
     srv_List := (\<lambda>resolve p md. ret (Ok [sole_item]))\<rparr>"

definition sole :: "remote_call list Orchestrator" where
  "sole = ledger\<lparr>orc_metadata := Some \<lparr>meta_Resolve = (\<lambda>w p. Ok filtered_md), meta_Render = None\<rparr>, orc_server := Some sole_server\<rparr>"


section \<open>Searches that end and searches that do not\<close>

lemma sole_offers: "offers (orc_identity sole) sole_server {''a''}"
proof -
  have "fallbackSegmentValue (orc_identity sole) sole_item = ''a''" by code_simp
  then show ?thesis unfolding offers_def by (auto simp: sole_server_def)
qed

theorem fallback_bounded_witness:
  "\<exists>out w'. \<forall>extra. run_state (fallback_loop (9 + extra) sole sole_server (rooted_path [''items'', ''b'']) [rooted_path [''items'', ''b'']]
      [rooted_path [''items'', ''b'']]) [] = (Some out, w')"
proof (rule fallback_bounded[OF sole_offers])
  show "\<forall>b\<in>{''a''} \<union> set [''items'', ''b'']. one_segment b" by code_simp
qed simp_all

definition spiral_md :: ResourceMetadata where
  "spiral_md = no_metadata\<lparr>md_ID := ''/id'', md_Alias := ''/name'', md_RemoteCollectionPath := ''/c''\<rparr>"

definition spiral_item :: Resource where
  "spiral_item =
     \<lparr>LogicalPath = ''/c/x/x'', CollectionPath = ''/c'', LocalAlias = ''x'', RemoteID = ''x/x'', ResolvedRemotePath = [],
      Payload = VMap [(''id'', VString ''x/x''), (''name'', VString ''x'')], PayloadDesc = descriptor_of ''json'' [] []\<rparr>"

text \<open>It lists an item with the name \<open>x\<close> and the identifier \<open>x/x\<close>, and does not find any resource.\<close>

definition spiral_server :: "remote_call list server" where
  "spiral_server = ledger_server\<lparr>srv_Get := (\<lambda>res md. ret (Err (NotFound (msg ''no such resource'') None))),
                                  srv_List := (\<lambda>resolve p md. ret (Ok [spiral_item]))\<rparr>"

definition spiral :: "remote_call list Orchestrator" where
  "spiral = ledger\<lparr>orc_metadata := Some \<lparr>meta_Resolve = (\<lambda>w p. Ok spiral_md), meta_Render = None\<rparr>, orc_server := Some spiral_server\<rparr>"

definition spiral_path :: "nat \<Rightarrow> string" where
  "spiral_path k = rooted_path (''c'' # replicate (Suc k) ''x'')"

definition spiral_info :: "nat \<Rightarrow> Resource" where
  "spiral_info k =
     \<lparr>LogicalPath = spiral_path k, CollectionPath = collectionPathFor (spiral_path k), LocalAlias = ''x'', RemoteID = ''x'', ResolvedRemotePath = [],
      Payload = VMap [(''id'', VString ''x''), (''name'', VString ''x'')], PayloadDesc = empty_descriptor\<rparr>"

lemma spiral_segments: "\<forall>b\<in>set (''c'' # replicate k ''x''). one_segment b"
proof -
  have "one_segment ''c''" "one_segment ''x''" by code_simp+
  then show ?thesis by auto
qed

lemma spiral_normal: "NormalizeLogicalPath (spiral_path k) = Ok (spiral_path k)" "SplitRawPathSegments (spiral_path k) = ''c'' # replicate (Suc k) ''x''"
  unfolding spiral_path_def by (rule normalize_rooted split_raw_rooted, rule spiral_segments)+

lemma spiral_plain: "list_all plain_segment (''c'' # replicate k ''x'')"
  by (simp add: plain_segment_def list_all_iff)

lemma spiral_base: "path_base (spiral_path k) = ''x''" "spiral_path k \<noteq> ''/''"
  using path_base_rooted[OF spiral_plain[of "Suc k"]] rooted_path_root[OF spiral_plain[of "Suc k"]] by (simp_all add: spiral_path_def)

lemma spiral_path_inject: "spiral_path j = spiral_path k \<longleftrightarrow> j = k"
  using rooted_path_inject[OF spiral_plain[of "Suc j"] spiral_plain[of "Suc k"]]
  by (auto simp: spiral_path_def dest: arg_cong[where f = length])

lemma spiral_derived: "DerivePathTemplateFields p spiral_md = []"
proof -
  have c: "trim_space ''/c'' = ''/c''" "\<not> sublist ''{{'' ''/c''" by code_simp+
  then have "deriveTemplateFieldsFromPathTemplate ''/c'' p = []" by (simp add: deriveTemplateFieldsFromPathTemplate_def)
  then show ?thesis
    by (simp add: DerivePathTemplateFields_def spiral_md_def no_metadata_def deriveTemplateFieldsFromTransforms_def mergeTemplateFields_def
        or_else_def c)
qed

lemma spiral_remote_info: "buildResourceInfoForRemoteRead spiral w (spiral_path k) = Ok (spiral_info k, spiral_md)"
proof -
  have md: "resolveMetadataForPath spiral w (spiral_path k) True = Ok spiral_md"
    by (simp add: resolveMetadataForPath_def spiral_def ledger_def)
  have ptr: "SimpleAliasPointer spiral_md = Ok (Some ''/name'')" "SimpleIDPointer spiral_md = Ok (Some ''/id'')" by code_simp+
  have tx: "trim_space ''x'' = ''x''" by code_simp
  have fields: "put_absent ''/id'' ''x'' (put_absent ''/name'' ''x'' []) = [(''/id'', ''x''), (''/name'', ''x'')]" by code_simp
  have merged: "MergePayloadFields (VMap []) [(''/id'', ''x''), (''/name'', ''x'')] = Ok (VMap [(''id'', VString ''x''), (''name'', VString ''x'')])"
    "Normalize (VMap [(''id'', VString ''x''), (''name'', VString ''x'')]) = Ok (VMap [(''id'', VString ''x''), (''name'', VString ''x'')])"
    "concrete_format (orc_lower spiral) spiral_md = None"
    by code_simp+
  show ?thesis
    by (simp add: buildResourceInfoForRemoteRead_def spiral_normal md spiral_base DerivePathFields_def spiral_derived trimmed_fields_def
        ptr tx fields merged spiral_info_def Let_def)
qed

lemma spiral_longer: "''/'' @ join_with ''/'' ((''c'' # replicate (Suc k) ''x'')[Suc k := ''x/x'']) = spiral_path (Suc k)"
proof -
  have a: "(''c'' # replicate (Suc k) ''x'')[Suc k := ''x/x''] = (''c'' # replicate k ''x'') @ [''x/x'']"
    by (induction k) simp_all
  have b: "''c'' # replicate (Suc (Suc k)) ''x'' = (''c'' # replicate k ''x'') @ [''x'', ''x'']"
    by (induction k) simp_all
  show ?thesis unfolding spiral_path_def rooted_path_def a b by (subst (1 2) join_with_append) simp_all
qed

lemma spiral_next: "run_state (resolveNextRemoteMetadataFallbackPaths spiral spiral_server (spiral_path k)) w = (Ok [spiral_path (Suc k)], w)"
proof -
  have id: "hasRemoteFallbackIdentityMetadata spiral_md" by code_simp
  have item: "trim_space ''x'' = ''x''" "trim_space ''x/x'' = ''x/x''" "fallbackSegmentValue (orc_identity spiral) spiral_item = ''x/x''"
    by code_simp+
  have matches: "matchesFallbackCandidate (orc_identity spiral) (spiral_info k) spiral_item"
    using item by (simp add: matchesFallbackCandidate_def matchesFallbackIdentity_def requestedFallbackSegment_def spiral_info_def spiral_item_def)
  have listed: "run_state (listRemoteResources spiral spiral_server p md) w = (Ok [spiral_item], w)" for p md
    by (simp add: listRemoteResources_def spiral_server_def)
  have replaced: "replaceLogicalPathSegment (''c'' # replicate (Suc k) ''x'') (Suc k) ''x/x'' = Ok (Some (spiral_path (Suc k)))"
    unfolding replaceLogicalPathSegment_def Let_def spiral_longer item(2) spiral_normal by (simp add: nth_Cons' del: replicate_Suc)
  define segs where "segs = ''c'' # replicate (Suc k) ''x''"
  have path: "slash # join_with ''/'' segs = spiral_path k" by (simp add: segs_def spiral_path_def rooted_path_def)
  have split: "SplitRawPathSegments (spiral_path k) = segs" "length segs = Suc (Suc k)" using spiral_normal(2) by (simp_all add: segs_def)
  show ?thesis
    by (simp add: resolveNextRemoteMetadataFallbackPaths_def split Let_def path spiral_remote_info id listed
        segment_replacement_def matches item replaced[folded segs_def, simplified])
qed

lemma spiral_probe: "run_state (probe_path spiral spiral_server (spiral_path k)) w = (Expand_From, w)"
  by (simp add: probe_path_def spiral_remote_info spiral_server_def NotFound_def NewTypedError_def IsCategory_def)

lemma spiral_rounds:
  "run_state (fallback_loop rounds spiral spiral_server (spiral_path 0) (map spiral_path (rev [0..<Suc k])) [spiral_path k]) w = (None, w)"
proof (induction rounds arbitrary: k)
  case (Suc rounds)
  have "enqueue_new [spiral_path (Suc k)] (map spiral_path (rev [0..<Suc k]), []) = (map spiral_path (rev [0..<Suc (Suc k)]), [spiral_path (Suc k)])"
    by (auto simp: enqueue_new_simps spiral_path_inject)
  then show ?case using Suc[of "Suc k"] by (cases "k = 0") (simp_all add: spiral_probe spiral_next spiral_path_inject del: upt_Suc)
qed simp

text \<open>C36: an identifier with a slash makes the search for a resource go on for ever: whatever the number of
  rounds, it has no result, and each round asks the service for a longer path.\<close>

theorem fallback_unbounded:
  "\<forall>rounds. run_state (fallback_loop rounds spiral spiral_server ''/c/x'' [''/c/x''] [''/c/x'']) [] = (None, [])"
proof -
  have "spiral_path 0 = ''/c/x''" by code_simp
  then show ?thesis using spiral_rounds[of _ 0 "[]"] by simp
qed

end
