(* ===== verification/Webhook_Events.thy ===== *)
theory Webhook_Events
  imports Go_Glob Go_Map
begin

text \<open>
  Deliveries of git webhooks (src/internal/operator/webhookreceiver, src/api/v1alpha1/repositorywebhook_types.go): the
  adapters of the four providers, the branch filter, the cache of delivery identifiers and the checks of a
  \<open>RepositoryWebhook\<close>.  HMAC-SHA256 and the JSON decoder are arguments: \<open>hmac secret body\<close>, and \<open>unmarshal body\<close>, which
  gives the member \<open>ref\<close> or the decoder's error.  The locale \<open>webhook_provider\<close> is the interface \<open>WebhookProvider\<close>.
\<close>

section \<open>Standard library: header, hexadecimal digits, case folding\<close>

text \<open>\<open>Header.Get\<close> looks a name up in its canonical form: upper case at the start and after hyphens.\<close>

fun canonical_from :: "bool \<Rightarrow> string \<Rightarrow> string" where
  "canonical_from up [] = []"
| "canonical_from up (c # s) = (if up then upper_byte c else lower_byte c) # canonical_from (c = CHR ''-'') s"

definition CanonicalMIMEHeaderKey :: "string \<Rightarrow> string" where
  "CanonicalMIMEHeaderKey s = canonical_from True s"

type_synonym Header = "(string, string list) gomap"

definition Header_Get :: "Header \<Rightarrow> string \<Rightarrow> string" where
  "Header_Get h key = (case map_get h (CanonicalMIMEHeaderKey key) of Some (v # vs) \<Rightarrow> v | _ \<Rightarrow> [])"

text \<open>\<open>hex.DecodeString\<close>; \<open>None\<close> for a byte that is no digit or an odd length.\<close>

definition hex_digit :: "char \<Rightarrow> nat option" where
  "hex_digit c =
     (if CHR ''0'' \<le> c \<and> c \<le> CHR ''9'' then Some (byte c - 48)
      else if CHR ''a'' \<le> c \<and> c \<le> CHR ''f'' then Some (byte c - 87)
      else if CHR ''A'' \<le> c \<and> c \<le> CHR ''F'' then Some (byte c - 55)
      else None)"

fun hex_decode :: "string \<Rightarrow> string option" where
  "hex_decode [] = Some []"
| "hex_decode [c] = None"
| "hex_decode (c # d # s) =
     (case (hex_digit c, hex_digit d, hex_decode s) of
        (Some a, Some b, Some bs) \<Rightarrow> Some (char_of (16 * a + b) # bs)
      | _ \<Rightarrow> None)"

text \<open>
  \<open>strings.EqualFold\<close> against an ASCII text.  A letter has two forms; the long s (U+017F) folds to \<open>s\<close> and the Kelvin
  sign (U+212A) to \<open>k\<close>.
\<close>

definition fold_variants :: "char \<Rightarrow> string list" where
  "fold_variants c =
     [[lower_byte c], [upper_byte c]]
     @ (if lower_byte c = CHR ''s'' then [[CHR 0xC5, CHR 0xBF]] else [])
     @ (if lower_byte c = CHR ''k'' then [[CHR 0xE2, CHR 0x84, CHR 0xAA]] else [])"

fun EqualFold :: "string \<Rightarrow> string \<Rightarrow> bool" where
  "EqualFold s [] = (s = [])"
| "EqualFold s (c # t) = list_ex (\<lambda>v. prefix v s \<and> EqualFold (drop (length v) s) t) (fold_variants c)"

section \<open>Requests and events\<close>

record Request =
  Method :: string
  URL_Path :: string
  req_Header :: Header
  Body :: string
  Body_fails :: bool

record WebhookEvent =
  evt_Provider :: string
  EventType :: string
  DeliveryID :: string
  Ref :: string
  IsPush :: bool
  IsPing :: bool

record WebhookProvider =
  Name :: string
  VerifySignature :: "Request \<Rightarrow> string \<Rightarrow> string \<Rightarrow> string option"
  ParseEvent :: "Request \<Rightarrow> string \<Rightarrow> string + WebhookEvent"

definition header_value :: "Request \<Rightarrow> string \<Rightarrow> string" where
  "header_value req key = trim_space (Header_Get (req_Header req) key)"

text \<open>The end of a verification that the providers with an HMAC share: \<open>None\<close> is success.\<close>

definition verify_hmac :: "(string \<Rightarrow> string \<Rightarrow> string) \<Rightarrow> string \<Rightarrow> string \<Rightarrow> string \<Rightarrow> string option" where
  "verify_hmac hmac sigHex body secret =
     (let expected = hmac secret body in
      case hex_decode sigHex of
        None \<Rightarrow> Some ''invalid signature encoding''
      | Some provided \<Rightarrow> if provided = expected then None else Some ''invalid signature'')"

text \<open>The end of every \<open>ParseEvent\<close>: only a push reads the body.\<close>

definition parse_ref :: "(string \<Rightarrow> string + string) \<Rightarrow> WebhookEvent \<Rightarrow> string \<Rightarrow> string + WebhookEvent" where
  "parse_ref unmarshal evt body =
     (if IsPush evt
      then (case unmarshal body of
              Inl err \<Rightarrow> Inl (''invalid payload: '' @ err)
            | Inr r \<Rightarrow> Inr (evt\<lparr>Ref := trim_space r\<rparr>))
      else Inr evt)"

definition GitHub_VerifySignature :: "(string \<Rightarrow> string \<Rightarrow> string) \<Rightarrow> Request \<Rightarrow> string \<Rightarrow> string \<Rightarrow> string option" where
  "GitHub_VerifySignature hmac req body secret =
     (let signature = header_value req ''X-Hub-Signature-256'' in
      if signature = [] then Some ''missing X-Hub-Signature-256 header''
      else if \<not> prefix ''sha256='' signature then Some ''invalid signature format: missing sha256= prefix''
      else verify_hmac hmac (trim_prefix signature ''sha256='') body secret)"

definition GitHub_ParseEvent :: "(string \<Rightarrow> string + string) \<Rightarrow> Request \<Rightarrow> string \<Rightarrow> string + WebhookEvent" where
  "GitHub_ParseEvent unmarshal req body =
     (let eventType = header_value req ''X-GitHub-Event''; deliveryID = header_value req ''X-GitHub-Delivery'' in
      parse_ref unmarshal
        \<lparr>evt_Provider = ''github'', EventType = eventType, DeliveryID = deliveryID, Ref = [],
         IsPush = EqualFold eventType ''push'', IsPing = EqualFold eventType ''ping''\<rparr> body)"

definition GitLab_VerifySignature :: "Request \<Rightarrow> string \<Rightarrow> string \<Rightarrow> string option" where
  "GitLab_VerifySignature req body secret =
     (let token = header_value req ''X-Gitlab-Token'' in
      if token = [] then Some ''missing X-Gitlab-Token header''
      else if token = secret then None else Some ''invalid token'')"

definition GitLab_ParseEvent :: "(string \<Rightarrow> string + string) \<Rightarrow> Request \<Rightarrow> string \<Rightarrow> string + WebhookEvent" where
  "GitLab_ParseEvent unmarshal req body =
     (let eventType = header_value req ''X-Gitlab-Event''; deliveryID = header_value req ''X-Gitlab-Event-UUID'' in
      parse_ref unmarshal
        \<lparr>evt_Provider = ''gitlab'', EventType = eventType, DeliveryID = deliveryID, Ref = [],
         IsPush = EqualFold eventType ''Push Hook'', IsPing = False\<rparr> body)"

definition Gitea_VerifySignature :: "(string \<Rightarrow> string \<Rightarrow> string) \<Rightarrow> Request \<Rightarrow> string \<Rightarrow> string \<Rightarrow> string option" where
  "Gitea_VerifySignature hmac req body secret =
     (let signature = header_value req ''X-Gitea-Signature'' in
      if signature = [] then Some ''missing X-Gitea-Signature header''
      else verify_hmac hmac signature body secret)"

definition Gitea_ParseEvent :: "(string \<Rightarrow> string + string) \<Rightarrow> Request \<Rightarrow> string \<Rightarrow> string + WebhookEvent" where
  "Gitea_ParseEvent unmarshal req body =
     (let eventType = header_value req ''X-Gitea-Event''; deliveryID = header_value req ''X-Gitea-Delivery'' in
      parse_ref unmarshal
        \<lparr>evt_Provider = ''gitea'', EventType = eventType, DeliveryID = deliveryID, Ref = [],
         IsPush = EqualFold eventType ''push'', IsPing = False\<rparr> body)"

definition GenericHMAC_VerifySignature :: "(string \<Rightarrow> string \<Rightarrow> string) \<Rightarrow> Request \<Rightarrow> string \<Rightarrow> string \<Rightarrow> string option" where
  "GenericHMAC_VerifySignature hmac req body secret =
     (let signature = header_value req ''X-Signature'' in
      if signature = [] then Some ''missing X-Signature header''
      else verify_hmac hmac signature body secret)"

definition GenericHMAC_ParseEvent :: "(string \<Rightarrow> string + string) \<Rightarrow> Request \<Rightarrow> string \<Rightarrow> string + WebhookEvent" where
  "GenericHMAC_ParseEvent unmarshal req body =
     (let eventType = header_value req ''X-Event-Type''; deliveryID = header_value req ''X-Delivery-ID'' in
      parse_ref unmarshal
        \<lparr>evt_Provider = ''generic-hmac'', EventType = eventType, DeliveryID = deliveryID, Ref = [],
         IsPush = EqualFold eventType ''push'', IsPing = EqualFold eventType ''ping''\<rparr> body)"

definition GitHubProvider :: "(string \<Rightarrow> string \<Rightarrow> string) \<Rightarrow> (string \<Rightarrow> string + string) \<Rightarrow> WebhookProvider" where
  "GitHubProvider hmac unmarshal =
     \<lparr>Name = ''github'', VerifySignature = GitHub_VerifySignature hmac, ParseEvent = GitHub_ParseEvent unmarshal\<rparr>"

definition GitLabProvider :: "(string \<Rightarrow> string + string) \<Rightarrow> WebhookProvider" where
  "GitLabProvider unmarshal =
     \<lparr>Name = ''gitlab'', VerifySignature = GitLab_VerifySignature, ParseEvent = GitLab_ParseEvent unmarshal\<rparr>"

definition GiteaProvider :: "(string \<Rightarrow> string \<Rightarrow> string) \<Rightarrow> (string \<Rightarrow> string + string) \<Rightarrow> WebhookProvider" where
  "GiteaProvider hmac unmarshal =
     \<lparr>Name = ''gitea'', VerifySignature = Gitea_VerifySignature hmac, ParseEvent = Gitea_ParseEvent unmarshal\<rparr>"

definition GenericHMACProvider :: "(string \<Rightarrow> string \<Rightarrow> string) \<Rightarrow> (string \<Rightarrow> string + string) \<Rightarrow> WebhookProvider" where
  "GenericHMACProvider hmac unmarshal =
     \<lparr>Name = ''generic-hmac'', VerifySignature = GenericHMAC_VerifySignature hmac,
      ParseEvent = GenericHMAC_ParseEvent unmarshal\<rparr>"

definition NewWebhookProviderRegistry ::
  "(string \<Rightarrow> string \<Rightarrow> string) \<Rightarrow> (string \<Rightarrow> string + string) \<Rightarrow> string \<Rightarrow> WebhookProvider option" where
  "NewWebhookProviderRegistry hmac unmarshal =
     map_of [(''github'', GitHubProvider hmac unmarshal), (''gitlab'', GitLabProvider unmarshal),
             (''gitea'', GiteaProvider hmac unmarshal), (''generic-hmac'', GenericHMACProvider hmac unmarshal)]"

section \<open>The provider interface\<close>

locale webhook_provider =
  fixes p :: WebhookProvider
  assumes event_names_provider: "ParseEvent p req body = Inr evt \<Longrightarrow> evt_Provider evt = Name p"
    and push_is_no_ping: "ParseEvent p req body = Inr evt \<Longrightarrow> \<not> (IsPush evt \<and> IsPing evt)"
    and event_trimmed: "ParseEvent p req body = Inr evt \<Longrightarrow> trim_space (DeliveryID evt) = DeliveryID evt \<and> trim_space (Ref evt) = Ref evt"
    and only_push_has_ref: "ParseEvent p req body = Inr evt \<Longrightarrow> \<not> IsPush evt \<Longrightarrow> Ref evt = []"
    and verified_has_header: "VerifySignature p req body secret = None \<Longrightarrow> req_Header req \<noteq> []"
begin

lemma ping_has_no_ref: "ParseEvent p req body = Inr evt \<Longrightarrow> IsPing evt \<Longrightarrow> Ref evt = []"
  using push_is_no_ping only_push_has_ref by blast

lemma bare_request_refused:
  assumes "req_Header req = []"
  shows "\<exists>err. VerifySignature p req body secret = Some err"
  using assms verified_has_header by blast

end

lemma parse_ref_Inr:
  assumes "parse_ref unmarshal evt body = Inr e" and "Ref evt = []"
  shows "evt_Provider e = evt_Provider evt" and "IsPush e = IsPush evt" and "IsPing e = IsPing evt"
    and "DeliveryID e = DeliveryID evt" and "trim_space (Ref e) = Ref e" and "\<not> IsPush e \<Longrightarrow> Ref e = []"
  using assms by (auto simp: parse_ref_def split: if_splits sum.splits)

declare EqualFold.simps(2) [simp del]

lemma EqualFold_plain:
  assumes "lower_byte c \<noteq> CHR ''s''" and "lower_byte c \<noteq> CHR ''k''"
  shows "EqualFold s (c # t) \<longleftrightarrow> (\<exists>x r. s = x # r \<and> (x = lower_byte c \<or> x = upper_byte c) \<and> EqualFold r t)"
  using assms by (cases s) (auto simp: EqualFold.simps(2) fold_variants_def)

lemma letter_forms:
  "lower_byte CHR ''p'' = CHR ''p''" "lower_byte CHR ''u'' = CHR ''u''" "lower_byte CHR ''i'' = CHR ''i''"
  "upper_byte CHR ''u'' = CHR ''U''" "upper_byte CHR ''i'' = CHR ''I''"
  by code_simp+

lemma push_ping_differ: "EqualFold s ''push'' \<Longrightarrow> \<not> EqualFold s ''ping''"
proof
  assume push: "EqualFold s ''push''" and ping: "EqualFold s ''ping''"
  obtain a x r where s: "s = a # x # r" and x: "x = CHR ''u'' \<or> x = CHR ''U''"
    using push by (auto simp: EqualFold_plain letter_forms)
  from ping have "x = CHR ''i'' \<or> x = CHR ''I''"
    by (auto simp: EqualFold_plain letter_forms s)
  with x show False by auto
qed

lemma header_value_empty [simp]: "req_Header req = [] \<Longrightarrow> header_value req key = []"
  by (simp add: header_value_def Header_Get_def)

lemma header_value_trimmed [simp]: "trim_space (header_value req key) = header_value req key"
  by (simp add: header_value_def)

lemmas provider_defs =
  GitHubProvider_def GitLabProvider_def GiteaProvider_def GenericHMACProvider_def
  GitHub_VerifySignature_def GitLab_VerifySignature_def Gitea_VerifySignature_def GenericHMAC_VerifySignature_def
  GitHub_ParseEvent_def GitLab_ParseEvent_def Gitea_ParseEvent_def GenericHMAC_ParseEvent_def

text \<open>What the adapters share: an event built from the headers, completed from the body.\<close>

lemma provider_laws:
  assumes parse: "\<And>req body. ParseEvent p req body = parse_ref unmarshal (evt0 req) body"
    and built: "\<And>req. evt_Provider (evt0 req) = Name p" "\<And>req. Ref (evt0 req) = []"
      "\<And>req. trim_space (DeliveryID (evt0 req)) = DeliveryID (evt0 req)"
      "\<And>req. \<not> (IsPush (evt0 req) \<and> IsPing (evt0 req))"
    and verify: "\<And>req body secret. req_Header req = [] \<Longrightarrow> VerifySignature p req body secret \<noteq> None"
  shows "webhook_provider p"
proof
  fix req body evt
  assume "ParseEvent p req body = Inr evt"
  then have e: "parse_ref unmarshal (evt0 req) body = Inr evt" by (simp add: parse)
  note r = parse_ref_Inr[OF e built(2)]
  show "evt_Provider evt = Name p" by (simp add: r built)
  show "\<not> (IsPush evt \<and> IsPing evt)" using built(4)[of req] by (simp add: r)
  show "trim_space (DeliveryID evt) = DeliveryID evt \<and> trim_space (Ref evt) = Ref evt" by (simp add: r built)
  show "\<not> IsPush evt \<Longrightarrow> Ref evt = []" by (rule r)
qed (use verify in blast)

interpretation github: webhook_provider "GitHubProvider hmac unmarshal"
  by (rule provider_laws) (auto simp: provider_defs Let_def intro: refl dest: push_ping_differ)

interpretation gitlab: webhook_provider "GitLabProvider unmarshal"
  by (rule provider_laws) (auto simp: provider_defs Let_def)

interpretation gitea: webhook_provider "GiteaProvider hmac unmarshal"
  by (rule provider_laws) (auto simp: provider_defs Let_def)

interpretation generic: webhook_provider "GenericHMACProvider hmac unmarshal"
  by (rule provider_laws) (auto simp: provider_defs Let_def dest: push_ping_differ)

lemma registry_provider:
  assumes "NewWebhookProviderRegistry hmac unmarshal name = Some p"
  shows "webhook_provider p \<and> Name p = name"
  using assms github.webhook_provider_axioms gitlab.webhook_provider_axioms gitea.webhook_provider_axioms
    generic.webhook_provider_axioms
  by (auto simp: NewWebhookProviderRegistry_def GitHubProvider_def GitLabProvider_def GiteaProvider_def
      GenericHMACProvider_def split: if_splits)

section \<open>Branch filter\<close>

record RepositoryWebhookBranchFilter =
  Include :: "string list"
  Exclude :: "string list"

definition RefToBranch :: "string \<Rightarrow> string" where
  "RefToBranch ref = (if prefix ''refs/heads/'' ref then trim_prefix ref ''refs/heads/'' else ref)"

definition matchGlob :: "string \<Rightarrow> string \<Rightarrow> bool" where
  "matchGlob name pattern = (case path_match pattern name of Some matched \<Rightarrow> matched | None \<Rightarrow> False)"

definition MatchBranchFilter :: "string \<Rightarrow> RepositoryWebhookBranchFilter option \<Rightarrow> bool" where
  "MatchBranchFilter branch filt =
     (case filt of
        None \<Rightarrow> True
      | Some f \<Rightarrow>
          if list_ex (matchGlob branch) (Exclude f) then False
          else if length (Include f) = 0 then True
          else list_ex (matchGlob branch) (Include f))"

section \<open>The object and its validation\<close>

type_synonym object_key = "string \<times> string"

record RepositoryWebhookSecretRef =
  ref_Name :: string
  ref_Key :: string

record RepositoryWebhookSpec =
  RepositoryRef_Name :: string
  spec_Provider :: string
  SecretRef :: RepositoryWebhookSecretRef
  Events :: "string list"
  BranchFilter :: "RepositoryWebhookBranchFilter option"
  Suspend :: bool

record RepositoryWebhookStatus =
  LastEventTime :: "int option"
  LastDeliveryID :: string

record RepositoryWebhook =
  rwh_Key :: object_key
  Spec :: RepositoryWebhookSpec
  Status :: RepositoryWebhookStatus

definition Default :: "RepositoryWebhook \<Rightarrow> RepositoryWebhook" where
  "Default r = (if length (Events (Spec r)) = 0 then r\<lparr>Spec := (Spec r)\<lparr>Events := [''push'']\<rparr>\<rparr> else r)"

definition validateBranchPattern :: "string \<Rightarrow> bool" where
  "validateBranchPattern pattern =
     (let value = trim_space pattern in value \<noteq> [] \<and> path_match value ''main'' \<noteq> None)"

fun valid_events :: "string list \<Rightarrow> string list \<Rightarrow> bool" where
  "valid_events seenEvents [] = True"
| "valid_events seenEvents (event # events) =
     ((event = ''push'' \<or> event = ''ping'') \<and> event \<notin> set seenEvents \<and> valid_events (event # seenEvents) events)"

text \<open>\<open>ValidateSpec\<close>, with the error texts left out: true when it returns \<open>nil\<close>.\<close>

definition Webhook_ValidateSpec :: "RepositoryWebhook \<Rightarrow> bool" where
  "Webhook_ValidateSpec r =
     (let s = Spec r in
      trim_space (RepositoryRef_Name s) \<noteq> []
      \<and> spec_Provider s \<in> {''github'', ''gitlab'', ''gitea'', ''generic-hmac''}
      \<and> trim_space (ref_Name (SecretRef s)) \<noteq> []
      \<and> trim_space (ref_Key (SecretRef s)) \<noteq> []
      \<and> valid_events [] (Events s)
      \<and> (case BranchFilter s of
           None \<Rightarrow> True
         | Some f \<Rightarrow> list_all validateBranchPattern (Include f) \<and> list_all validateBranchPattern (Exclude f)))"

lemma valid_events_iff: "valid_events seenEvents es \<longleftrightarrow> set es \<subseteq> {''push'', ''ping''} - set seenEvents \<and> distinct es"
  by (induction seenEvents es rule: valid_events.induct) auto

text \<open>A validated webhook has at most two events and names a provider of the registry.\<close>

lemma ValidateSpec_provider:
  assumes "Webhook_ValidateSpec r"
  shows "\<exists>p. NewWebhookProviderRegistry hmac unmarshal (spec_Provider (Spec r)) = Some p"
    and "length (Events (Spec r)) \<le> 2"
proof -
  show "\<exists>p. NewWebhookProviderRegistry hmac unmarshal (spec_Provider (Spec r)) = Some p"
    using assms by (auto simp: Webhook_ValidateSpec_def Let_def NewWebhookProviderRegistry_def)
  have "set (Events (Spec r)) \<subseteq> {''push'', ''ping''}" "distinct (Events (Spec r))"
    using assms by (auto simp: Webhook_ValidateSpec_def Let_def valid_events_iff)
  then show "length (Events (Spec r)) \<le> 2"
    using card_mono[of "{''push'', ''ping''}" "set (Events (Spec r))"] by (simp add: distinct_card)
qed

text \<open>Excluding wins over including, and every branch has the form the filter sees.\<close>

lemma excluded_branch:
  "pattern \<in> set (Exclude f) \<Longrightarrow> matchGlob branch pattern \<Longrightarrow> \<not> MatchBranchFilter branch (Some f)"
  by (auto simp: MatchBranchFilter_def list_ex_iff)

lemma RefToBranch_heads [simp]: "RefToBranch (''refs/heads/'' @ b) = b"
  by (simp add: RefToBranch_def trim_prefix_def)

section \<open>The cache of deliveries\<close>

text \<open>
  Times are nanoseconds.  \<open>order\<close> is the order in which \<open>range\<close> visits a map, which Go leaves open and may change
  between two visits.
\<close>

definition time_sub :: "int \<Rightarrow> int \<Rightarrow> int" where
  "time_sub t u = max int64_min (min int64_max (t - u))"

record DedupeCache =
  entries :: "(string, int) gomap"
  ttl :: int
  maxEntries :: int

definition defaultDedupeMaxEntries :: int where
  "defaultDedupeMaxEntries = 4096"

definition NewDedupeCache :: "int \<Rightarrow> DedupeCache" where
  "NewDedupeCache d = \<lparr>entries = [], ttl = d, maxEntries = defaultDedupeMaxEntries\<rparr>"

type_synonym range_order = "(string \<times> int) list \<Rightarrow> (string \<times> int) list"

fun oldest :: "(string \<times> int) list \<Rightarrow> string \<times> int \<Rightarrow> string \<times> int" where
  "oldest [] acc = acc"
| "oldest ((key, v) # es) (oldestKey, oldestTime) =
     oldest es (if oldestKey = [] \<or> v < oldestTime then (key, v) else (oldestKey, oldestTime))"

definition evictOldest :: "range_order \<Rightarrow> DedupeCache \<Rightarrow> DedupeCache" where
  "evictOldest order c =
     (let oldestKey = fst (oldest (order (entries c)) ([], 0)) in
      if oldestKey \<noteq> [] then c\<lparr>entries := map_del oldestKey (entries c)\<rparr> else c)"

definition IsDuplicate :: "range_order \<Rightarrow> int \<Rightarrow> string \<Rightarrow> DedupeCache \<Rightarrow> bool \<times> DedupeCache" where
  "IsDuplicate order now deliveryID c =
     (if deliveryID = [] then (False, c)
      else
        let c1 = c\<lparr>entries := filter (\<lambda>(k, v). \<not> ttl c < time_sub now v) (entries c)\<rparr> in
        if map_get (entries c1) deliveryID \<noteq> None
        then (True, c1\<lparr>entries := map_put deliveryID now (entries c1)\<rparr>)
        else
          let c2 = (if maxEntries c1 < 1 then c1\<lparr>maxEntries := defaultDedupeMaxEntries\<rparr> else c1);
              c3 = (if maxEntries c2 \<le> int (length (entries c2)) then evictOldest order c2 else c2)
          in (False, c3\<lparr>entries := map_put deliveryID now (entries c3)\<rparr>))"

definition deliver :: "range_order \<Rightarrow> (int \<times> string) list \<Rightarrow> DedupeCache \<Rightarrow> DedupeCache" where
  "deliver order ds c = fold (\<lambda>(t, d) c. snd (IsDuplicate order t d c)) ds c"

definition capacity :: "DedupeCache \<Rightarrow> int" where
  "capacity c = (if maxEntries c < 1 then defaultDedupeMaxEntries else maxEntries c)"

definition dedupe_ok :: "DedupeCache \<Rightarrow> bool" where
  "dedupe_ok c \<longleftrightarrow> sorted_map (entries c) \<and> [] \<notin> set (map_keys (entries c)) \<and> int (length (entries c)) \<le> capacity c"

text \<open>The loop of \<open>evictOldest\<close> finds an entry of least time.\<close>

lemma oldest_least:
  assumes "oldest es (k, t) = (k', t')" and "k \<noteq> []" and "[] \<notin> fst ` set es"
  shows "(k', t') \<in> insert (k, t) (set es) \<and> t' \<le> t \<and> (\<forall>(key, v) \<in> set es. t' \<le> v)"
  using assms
proof (induction es arbitrary: k t)
  case (Cons e es)
  obtain key v where e: "e = (key, v)" by fastforce
  define acc where "acc = (if v < t then (key, v) else (k, t))"
  have "oldest es (fst acc, snd acc) = (k', t')" "fst acc \<noteq> []"
    using Cons.prems by (auto simp: e acc_def)
  from Cons.IH[OF this] Cons.prems(3) show ?case by (auto simp: e acc_def split: if_splits)
qed simp

lemma oldest_spec:
  assumes "es \<noteq> []" and "[] \<notin> fst ` set es"
  shows "oldest es ([], 0) \<in> set es \<and> (\<forall>(key, v) \<in> set es. snd (oldest es ([], 0)) \<le> v)"
proof -
  obtain key v r where es: "es = (key, v) # r" using assms(1) by (cases es) auto
  obtain k' t' where o: "oldest r (key, v) = (k', t')" by fastforce
  show ?thesis using oldest_least[OF o] assms(2) o by (auto simp: es)
qed

lemma map_get_filter:
  "sorted_map m \<Longrightarrow> map_get (filter P m) k = (case map_get m k of Some v \<Rightarrow> if P (k, v) then Some v else None | None \<Rightarrow> None)"
proof (induction m)
  case (Cons p m)
  then show ?case
    by (cases p) (auto simp: sorted_map_Cons map_of_eq_None_iff split: option.splits dest!: map_of_SomeD)
qed simp

lemma length_map_put:
  "sorted_map m \<Longrightarrow> length (map_put k v m) = (if k \<in> set (map_keys m) then length m else Suc (length m))"
  by (induction k v m rule: map_put.induct) (auto simp: sorted_map_Cons)

lemma length_map_del: "k \<in> set (map_keys m) \<Longrightarrow> length (map_del k m) < length m"
  by (auto simp: map_del_def length_filter_less)

lemma evictOldest_removes:
  assumes ord: "\<And>m. set (order m) = set m" and ne: "entries c \<noteq> []" and keys: "[] \<notin> set (map_keys (entries c))"
  obtains k v where "(k, v) \<in> set (entries c)" "\<forall>(key, u) \<in> set (entries c). v \<le> u"
    "evictOldest order c = c\<lparr>entries := map_del k (entries c)\<rparr>"
proof -
  let ?o = "oldest (order (entries c)) ([], 0)"
  have nz: "order (entries c) \<noteq> []" using ord[of "entries c"] ne by (metis set_empty)
  have o: "?o \<in> set (entries c)" "\<forall>(key, u) \<in> set (entries c). snd ?o \<le> u"
    using oldest_spec[OF nz] keys by (auto simp: ord)
  then have "fst ?o \<noteq> []" using keys by force
  then have "evictOldest order c = c\<lparr>entries := map_del (fst ?o) (entries c)\<rparr>"
    by (simp add: evictOldest_def Let_def)
  then show ?thesis using that[of "fst ?o" "snd ?o"] o by simp
qed

text \<open>The entries that a call at time \<open>now\<close> still sees, and the entries it leaves room among.\<close>

definition live :: "int \<Rightarrow> DedupeCache \<Rightarrow> (string, int) gomap" where
  "live now c = filter (\<lambda>(k, v). \<not> ttl c < time_sub now v) (entries c)"

definition room :: "DedupeCache \<Rightarrow> (string, int) gomap \<Rightarrow> (string, int) gomap \<Rightarrow> bool" where
  "room c es es' \<longleftrightarrow>
     es' = es \<and> int (length es) < capacity c
     \<or> (\<exists>k v. capacity c \<le> int (length es) \<and> (k, v) \<in> set es \<and> (\<forall>(key, u) \<in> set es. v \<le> u) \<and> es' = map_del k es)"

lemma capacity_pos: "1 \<le> capacity c"
  by (simp add: capacity_def defaultDedupeMaxEntries_def)

lemma IsDuplicate_seen:
  assumes "d \<noteq> []" and "map_get (live now c) d \<noteq> None"
  shows "IsDuplicate order now d c = (True, c\<lparr>entries := map_put d now (live now c)\<rparr>)"
  using assms by (simp add: IsDuplicate_def Let_def live_def)

lemma IsDuplicate_fresh:
  assumes ord: "\<And>m. set (order m) = set m" and ok: "dedupe_ok c" and d: "d \<noteq> []" "map_get (live now c) d = None"
  obtains es where "IsDuplicate order now d c = (False, c\<lparr>entries := map_put d now es, maxEntries := capacity c\<rparr>)"
    and "room c (live now c) es"
proof -
  define c2 where "c2 = c\<lparr>entries := live now c, maxEntries := capacity c\<rparr>"
  have dup: "IsDuplicate order now d c =
      (let c3 = (if capacity c \<le> int (length (live now c)) then evictOldest order c2 else c2)
       in (False, c3\<lparr>entries := map_put d now (entries c3)\<rparr>))"
    using d by (auto simp: IsDuplicate_def Let_def live_def c2_def capacity_def)
  show ?thesis
  proof (cases "capacity c \<le> int (length (live now c))")
    case True
    then have ne: "entries c2 \<noteq> []" using capacity_pos[of c] by (auto simp: c2_def)
    have "[] \<notin> set (map_keys (entries c2))" using ok by (auto simp: c2_def dedupe_ok_def live_def)
    from evictOldest_removes[where order=order, OF ord ne this] obtain k v where
      kv: "(k, v) \<in> set (live now c)" "\<forall>(key, u) \<in> set (live now c). v \<le> u"
        "evictOldest order c2 = c2\<lparr>entries := map_del k (live now c)\<rparr>"
      by (auto simp: c2_def)
    have "room c (live now c) (map_del k (live now c))"
      unfolding room_def using True kv(1,2) by blast
    moreover have "IsDuplicate order now d c = (False, c\<lparr>entries := map_put d now (map_del k (live now c)), maxEntries := capacity c\<rparr>)"
      using True kv(3) by (simp add: dup c2_def)
    ultimately show ?thesis using that by blast
  next
    case False
    then show ?thesis using that[of "live now c"] by (simp add: dup c2_def room_def)
  qed
qed

lemma live_sorted: "dedupe_ok c \<Longrightarrow> sorted_map (live now c)"
  by (simp add: dedupe_ok_def live_def)

lemma live_subset: "set (live now c) \<subseteq> set (entries c)" "length (live now c) \<le> length (entries c)"
  by (auto simp: live_def)

lemma room_props:
  assumes "room c es es'" and "sorted_map es"
  shows "sorted_map es'" and "set es' \<subseteq> set es" and "int (length es') < capacity c \<or> int (length es') < int (length es)"
proof -
  show "sorted_map es'" "set es' \<subseteq> set es" using assms by (auto simp: room_def map_del_def)
  have "length (map_del k es) < length es" if "(k, v) \<in> set es" for k v
    using that by (intro length_map_del) force
  then show "int (length es') < capacity c \<or> int (length es') < int (length es)"
    using assms by (auto simp: room_def)
qed

text \<open>Every call keeps the keys sorted and nonempty and the number of entries within the limit.\<close>

lemma capacity_kept: "capacity (c\<lparr>entries := es\<rparr>) = capacity c" "capacity (c\<lparr>entries := es, maxEntries := capacity c\<rparr>) = capacity c"
  by (simp_all add: capacity_def defaultDedupeMaxEntries_def)

lemma IsDuplicate_ok:
  assumes ord: "\<And>m. set (order m) = set m" and ok: "dedupe_ok c"
  shows "dedupe_ok (snd (IsDuplicate order now d c)) \<and> capacity (snd (IsDuplicate order now d c)) = capacity c
    \<and> ttl (snd (IsDuplicate order now d c)) = ttl c"
proof (cases "d = []")
  case False
  note srt = live_sorted[OF ok, of now] and sub = live_subset[where now=now and c=c]
  have len: "int (length (entries c)) \<le> capacity c" and keys: "[] \<notin> fst ` set (entries c)"
    using ok by (auto simp: dedupe_ok_def)
  show ?thesis
  proof (cases "map_get (live now c) d = None")
    case True
    obtain es where es: "IsDuplicate order now d c = (False, c\<lparr>entries := map_put d now es, maxEntries := capacity c\<rparr>)"
      "room c (live now c) es"
      using IsDuplicate_fresh[where order=order, OF ord ok False True] by blast
    note r = room_props[OF es(2) srt]
    have "int (length (map_put d now es)) \<le> capacity c"
      using r(3) sub(2) len by (auto simp: length_map_put[OF r(1)])
    moreover have "[] \<notin> fst ` set (map_put d now es)"
      using r(2) sub(1) keys False by (auto simp: keys_put)
    ultimately show ?thesis using r(1) by (simp add: es(1) dedupe_ok_def capacity_kept)
  next
    case seen: False
    then have "d \<in> fst ` set (live now c)" by (auto simp: map_of_eq_None_iff)
    then have "int (length (map_put d now (live now c))) \<le> capacity c"
      using sub(2) len by (simp add: length_map_put[OF srt])
    moreover have "[] \<notin> fst ` set (map_put d now (live now c))"
      using sub(1) keys False by (auto simp: keys_put)
    ultimately show ?thesis
      using srt by (simp add: IsDuplicate_seen[OF False seen] dedupe_ok_def capacity_kept)
  qed
qed (use ok in \<open>simp add: IsDuplicate_def\<close>)

section \<open>How long a delivery is remembered\<close>

text \<open>The identifiers recorded after \<open>t0\<close>, and a map that still knows \<open>d\<close> with at most \<open>n\<close> of them.\<close>

definition newer :: "string \<Rightarrow> int \<Rightarrow> (string \<rightharpoonup> int) \<Rightarrow> string set" where
  "newer d t0 m = {key. key \<noteq> d \<and> (\<exists>v. m key = Some v \<and> t0 < v)}"

definition recalled :: "string \<Rightarrow> int \<Rightarrow> nat \<Rightarrow> (string \<rightharpoonup> int) \<Rightarrow> bool" where
  "recalled d t0 n m \<longleftrightarrow>
     finite (dom m) \<and> (\<exists>t. m d = Some t \<and> t0 \<le> t) \<and> (\<forall>key v. m key = Some v \<and> key \<noteq> d \<longrightarrow> v \<noteq> t0) \<and> card (newer d t0 m) \<le> n"

lemma finite_newer: "finite (dom m) \<Longrightarrow> finite (newer d t0 m)"
  by (rule finite_subset[of _ "dom m"]) (auto simp: newer_def)

lemma card_insert_newer:
  assumes "finite (dom m)" and "card (newer d t0 m) \<le> n"
  shows "card (insert key (newer d t0 m)) \<le> Suc n"
  using assms finite_newer[OF assms(1), of d t0] by (simp add: card_insert_if)

lemma recalled_sub:
  assumes r: "recalled d t0 n m" and sub: "m' \<subseteq>\<^sub>m m" and d: "m' d = m d"
  shows "recalled d t0 n m'"
proof -
  have "newer d t0 m' \<subseteq> newer d t0 m" using sub by (auto simp: newer_def map_le_def) (metis domI)
  then have "card (newer d t0 m') \<le> n"
    using r by (meson card_mono finite_newer le_trans recalled_def)
  moreover have "finite (dom m')" using r map_le_implies_dom_le[OF sub] by (auto simp: recalled_def intro: finite_subset)
  ultimately show ?thesis using r d sub unfolding recalled_def map_le_def by (metis domI)
qed

lemma recalled_upd:
  assumes r: "recalled d t0 n m" and t: "t0 < t"
  shows "recalled d t0 (Suc n) (m(key \<mapsto> t))"
proof -
  have "newer d t0 (m(key \<mapsto> t)) \<subseteq> insert key (newer d t0 m)" by (auto simp: newer_def split: if_splits)
  then have "card (newer d t0 (m(key \<mapsto> t))) \<le> Suc n"
    using r card_insert_newer[of m d t0 n key] by (meson card_mono finite.insertI finite_newer le_trans recalled_def)
  then show ?thesis using r t by (auto simp: recalled_def)
qed

lemma recalled_mono: "recalled d t0 n m \<Longrightarrow> n \<le> n' \<Longrightarrow> recalled d t0 n' m"
  by (auto simp: recalled_def)

lemma evicted_is_older:
  assumes r: "recalled d t0 n (map_get es)" and srt: "sorted_map es" and len: "n + 2 \<le> length es"
    and least: "(k, v) \<in> set es" "\<forall>(key, u) \<in> set es. v \<le> u"
  shows "k \<noteq> d"
proof
  assume k: "k = d"
  let ?m = "map_get es"
  have dom: "dom ?m = fst ` set es" by (simp add: dom_map_of_conv_image_fst)
  have "card (dom ?m) = length es" using sorted_map_distinct[OF srt] distinct_card by (fastforce simp: dom)
  moreover have "card (insert d (newer d t0 ?m)) \<le> Suc n"
    using r by (intro card_insert_newer) (simp_all add: recalled_def)
  ultimately have "\<not> dom ?m \<subseteq> insert d (newer d t0 ?m)"
    using len r card_mono[of "insert d (newer d t0 ?m)" "dom ?m"] by (auto simp: recalled_def finite_newer)
  then obtain key u where u: "?m key = Some u" "key \<noteq> d" "\<not> t0 < u" by (auto simp: newer_def)
  then have "u < t0" using r by (fastforce simp: recalled_def)
  moreover have "v \<le> u" using least(2) u(1) map_of_SomeD by fastforce
  moreover have "?m d = Some v" using least(1) srt by (simp add: sorted_map_get k)
  ultimately show False using r by (auto simp: recalled_def)
qed

lemma map_get_live:
  assumes "dedupe_ok c"
  shows "map_get (live now c) k = (case map_get (entries c) k of Some v \<Rightarrow> if ttl c < time_sub now v then None else Some v | None \<Rightarrow> None)"
  using assms by (auto simp: live_def dedupe_ok_def map_get_filter split: option.split)

lemma time_sub_le: "in_int64 d \<Longrightarrow> t - u \<le> d \<Longrightarrow> time_sub t u \<le> d"
  by (auto simp: time_sub_def in_int64_def)

lemma recalled_live:
  assumes ok: "dedupe_ok c" and r: "recalled d t0 n (map_get (entries c))" and ttl: "in_int64 (ttl c)" "t - t0 \<le> ttl c"
  shows "recalled d t0 n (map_get (live t c))"
proof (rule recalled_sub[OF r])
  show "map_get (live t c) \<subseteq>\<^sub>m map_get (entries c)"
    by (auto simp: map_le_def map_get_live[OF ok] split: option.splits if_splits)
  obtain t' where "map_get (entries c) d = Some t'" "t0 \<le> t'" using r by (auto simp: recalled_def)
  moreover have "time_sub t t' \<le> ttl c" using calculation ttl by (intro time_sub_le) auto
  ultimately show "map_get (live t c) d = map_get (entries c) d" by (simp add: map_get_live[OF ok])
qed

lemma recalled_step:
  assumes ord: "\<And>m. set (order m) = set m" and ok: "dedupe_ok c" and r: "recalled d t0 n (map_get (entries c))"
    and t: "t0 < t" "in_int64 (ttl c)" "t - t0 \<le> ttl c" and n: "int n + 2 \<le> capacity c"
  shows "recalled d t0 (Suc n) (map_get (entries (snd (IsDuplicate order t e c))))"
proof (cases "e = []")
  case True
  then show ?thesis using r by (auto simp: IsDuplicate_def intro: recalled_mono)
next
  case False
  note rl = recalled_live[OF ok r t(2,3)] and srt = live_sorted[OF ok, of t]
  show ?thesis
  proof (cases "map_get (live t c) e = None")
    case True
    obtain es where es: "IsDuplicate order t e c = (False, c\<lparr>entries := map_put e t es, maxEntries := capacity c\<rparr>)"
      "room c (live t c) es"
      using IsDuplicate_fresh[where order=order, OF ord ok False True] by blast
    have "recalled d t0 n (map_get es)" using es(2) unfolding room_def
    proof (elim disjE exE conjE)
      fix k v assume "capacity c \<le> int (length (live t c))" "(k, v) \<in> set (live t c)" "\<forall>(key, u)\<in>set (live t c). v \<le> u"
        and del: "es = map_del k (live t c)"
      then have "k \<noteq> d" using n by (intro evicted_is_older[OF rl srt]) auto
      then show ?thesis by (intro recalled_sub[OF rl]) (auto simp: del map_le_def)
    qed (use rl in simp)
    then show ?thesis using recalled_upd[OF _ t(1)] by (simp add: es(1))
  next
    case seen: False
    then show ?thesis using recalled_upd[OF rl t(1), of e] by (simp add: IsDuplicate_seen[OF False])
  qed
qed

lemma deliver_recalled:
  assumes ord: "\<And>m. set (order m) = set m"
  shows "dedupe_ok c \<Longrightarrow> recalled d t0 n (map_get (entries c)) \<Longrightarrow> in_int64 (ttl c) \<Longrightarrow>
    (\<forall>(t, e) \<in> set ds. t0 < t \<and> t - t0 \<le> ttl c) \<Longrightarrow> int n + int (length ds) < capacity c \<Longrightarrow>
    dedupe_ok (deliver order ds c) \<and> ttl (deliver order ds c) = ttl c
    \<and> recalled d t0 (n + length ds) (map_get (entries (deliver order ds c)))"
proof (induction ds arbitrary: c n)
  case (Cons x ds)
  obtain t e where x: "x = (t, e)" by fastforce
  let ?c = "snd (IsDuplicate order t e c)"
  note ok = IsDuplicate_ok[where order=order, OF ord Cons.prems(1), of t e]
  have "recalled d t0 (Suc n) (map_get (entries ?c))"
    using Cons.prems by (intro recalled_step[where order=order, OF ord]) (auto simp: x)
  from Cons.IH[OF _ this] ok Cons.prems show ?case by (auto simp: x deliver_def)
qed (auto simp: deliver_def)

lemma first_recalled:
  assumes ord: "\<And>m. set (order m) = set m" and ok: "dedupe_ok c" and d: "d \<noteq> []" and old: "\<forall>(key, v) \<in> set (entries c). v < t0"
  shows "recalled d t0 0 (map_get (entries (snd (IsDuplicate order t0 d c))))"
proof -
  have *: "recalled d t0 0 (map_get (map_put d t0 es))" if "set es \<subseteq> set (entries c)" for es
  proof -
    have lt: "v < t0" if "map_get es key = Some v" for key v
      using map_of_SomeD[OF that] old \<open>set es \<subseteq> _\<close> by auto
    then have "newer d t0 ((map_get es)(d \<mapsto> t0)) = {}" by (force simp: newer_def)
    then show ?thesis using lt by (fastforce simp: recalled_def finite_dom_map_of)
  qed
  show ?thesis
  proof (cases "map_get (live t0 c) d = None")
    case True
    obtain es where es: "IsDuplicate order t0 d c = (False, c\<lparr>entries := map_put d t0 es, maxEntries := capacity c\<rparr>)"
      "room c (live t0 c) es"
      using IsDuplicate_fresh[where order=order, OF ord ok d True] by blast
    then show ?thesis
      using *[of es] room_props(2)[OF es(2) live_sorted[OF ok]] live_subset(1)[of t0 c] by auto
  next
    case False
    then show ?thesis using *[OF live_subset(1)] by (simp add: IsDuplicate_seen[OF d])
  qed
qed

text \<open>A delivery is reported as a duplicate for the whole TTL window while fewer other deliveries than the cache holds
  have arrived since, whatever the order in which the runtime visits the map.
\<close>

theorem delivery_remembered:
  assumes ord: "\<And>m. set (order m) = set m"
    and ok: "dedupe_ok c" and ttl: "in_int64 (ttl c)" and old: "\<forall>(key, v) \<in> set (entries c). v < t0" and d: "d \<noteq> []"
    and ds: "\<forall>(t, e) \<in> set ds. t0 < t \<and> t - t0 \<le> ttl c" "int (length ds) < capacity c" and t1: "t1 - t0 \<le> ttl c"
  shows "fst (IsDuplicate order t1 d (deliver order ((t0, d) # ds) c))"
proof -
  let ?first = "snd (IsDuplicate order t0 d c)"
  let ?c = "deliver order ds ?first"
  note c0 = IsDuplicate_ok[where order=order, OF ord ok, of t0 d]
  have "dedupe_ok ?c \<and> ttl ?c = ttl ?first \<and> recalled d t0 (0 + length ds) (map_get (entries ?c))"
    using c0 ds ttl first_recalled[where order=order, OF ord ok d old]
    by (intro deliver_recalled[where order=order, OF ord]) auto
  then have "recalled d t0 (length ds) (map_get (live t1 ?c))" "dedupe_ok ?c"
    using recalled_live[of ?c d t0 "length ds" t1] c0 ttl t1 by auto
  then have "map_get (live t1 ?c) d \<noteq> None" by (auto simp: recalled_def)
  then show ?thesis using IsDuplicate_seen[OF d, of t1 ?c] by (simp add: deliver_def)
qed

theorem delivery_remembered_witness:
  "fst (IsDuplicate rev 590 ''a1'' (deliver rev [(10, ''a1''), (20, ''b2''), (30, ''c3'')]
     \<lparr>entries = [(''old'', 1)], ttl = 600, maxEntries = 3\<rparr>))"
  using delivery_remembered[of rev "\<lparr>entries = [(''old'', 1)], ttl = 600, maxEntries = 3\<rparr>" 10 "''a1''" "[(20, ''b2''), (30, ''c3'')]" 590]
  by (simp add: dedupe_ok_def capacity_def sorted_map_def in_int64_def int64_max_def int64_min_def)

text \<open>The size of the cache: whatever is delivered and in whatever order the map is visited, it never holds more than
  the configured number of entries, nor an empty identifier.
\<close>

theorem dedupe_bounded:
  assumes ord: "\<And>m. set (order m) = set m" and ok: "dedupe_ok c"
  shows "dedupe_ok (deliver order ds c) \<and> capacity (deliver order ds c) = capacity c"
  using ok
proof (induction ds arbitrary: c)
  case (Cons x ds)
  then show ?case
    using IsDuplicate_ok[where order=order, OF ord, of c "fst x" "snd x"] by (auto simp: deliver_def split: prod.splits)
qed (simp add: deliver_def)

theorem dedupe_bounded_witness:
  "dedupe_ok (deliver rev [(10, ''a1''), (20, ''b2''), (30, ''c3'')] \<lparr>entries = [], ttl = 600, maxEntries = 2\<rparr>)"
  using dedupe_bounded[of rev "\<lparr>entries = [], ttl = 600, maxEntries = 2\<rparr>" "[(10, ''a1''), (20, ''b2''), (30, ''c3'')]"]
  by (simp add: dedupe_ok_def capacity_def)

text \<open>The validation trims a branch pattern, the filter does not: an exclusion written with a space after the name is
  accepted and excludes nothing.
\<close>

theorem padded_exclusion_is_void:
  "validateBranchPattern ''release '' \<and> MatchBranchFilter ''release'' (Some \<lparr>Include = [], Exclude = [''release '']\<rparr>)
   \<and> \<not> MatchBranchFilter ''release'' (Some \<lparr>Include = [], Exclude = [''release'']\<rparr>)"
proof -
  have "trim_space ''release '' = ''release''" by code_simp
  then show ?thesis
    by (auto simp: validateBranchPattern_def MatchBranchFilter_def matchGlob_def path_match_literal literal_byte_def)
qed

end
