(* ===== verification/Webhook_Receiver.thy ===== *)
theory Webhook_Receiver
  imports Webhook_Events
begin

text \<open>
  The HTTP handlers of the operator's webhook server: \<open>Handler.ServeHTTP\<close> for \<open>RepositoryWebhook\<close> objects
  (src/internal/operator/webhookreceiver/handler.go) and the older \<open>handleRepositoryWebhook\<close>
  (src/internal/operator/controllers/repository_webhook_server.go).  The Kubernetes client is a record of functions over
  the state \<open>'c\<close> of the cluster, its errors values; validation of names, the text of a time and the visiting order of maps are the
  record \<open>platform\<close>.  A handler returns its response and the new states of the cluster and of the delivery cache.
\<close>

section \<open>Client, platform and responses\<close>

datatype kube_error = KubeNotFound | KubeError

record SecretKeySelector =
  selector_Name :: string
  selector_Key :: string

record GitWebhook =
  hook_Provider :: string
  hook_SecretRef :: "SecretKeySelector option"

record GitSpec =
  Branch :: string
  git_Webhook :: "GitWebhook option"

record HookedRepository =
  hooked_Git :: "GitSpec option"

record 'c kube_client =
  kc_webhook :: "'c \<Rightarrow> object_key \<Rightarrow> kube_error + RepositoryWebhook"
  kc_secret :: "'c \<Rightarrow> object_key \<Rightarrow> kube_error + (string, string) gomap"
  kc_repository :: "'c \<Rightarrow> object_key \<Rightarrow> kube_error + HookedRepository"
  kc_patch :: "'c \<Rightarrow> object_key \<Rightarrow> (string, string) gomap \<Rightarrow> kube_error option \<times> 'c"
  kc_update_status :: "'c \<Rightarrow> RepositoryWebhook \<Rightarrow> kube_error option \<times> 'c"

record platform =
  IsDNS1123Label :: "string \<Rightarrow> string list"
  IsDNS1123Subdomain :: "string \<Rightarrow> string list"
  FormatRFC3339Nano :: "int \<Rightarrow> string"
  visit :: range_order

record clock =
  dedupe_at :: int
  patch_at :: int
  status_at :: int

type_synonym response = "nat \<times> string"

definition http_Error :: "string \<Rightarrow> nat \<Rightarrow> response" where
  "http_Error err status = (status, err @ [CHR 0x0A])"

text \<open>\<open>io.ReadAll(io.LimitReader(body, limit+1))\<close>: an error of the body counts only if it comes before the limit.\<close>

definition read_limited :: "int \<Rightarrow> Request \<Rightarrow> string option" where
  "read_limited limit req =
     (if Body_fails req \<and> int (length (Body req)) \<le> limit then None else Some (take (nat (limit + 1)) (Body req)))"

section \<open>RepositoryWebhook deliveries\<close>

definition hookPathPrefix :: string where
  "hookPathPrefix = ''/hooks/v1/repositorywebhooks/''"

definition maxPayloadBytes :: int where
  "maxPayloadBytes = 1048576"

text \<open>\<open>strings.SplitN\<close> with a one-byte separator.\<close>

definition split_n :: "char \<Rightarrow> nat \<Rightarrow> string \<Rightarrow> string list" where
  "split_n c n s =
     (let parts = split_on c s in
      if length parts \<le> n then parts else take (n - 1) parts @ [join_with [c] (drop (n - 1) parts)])"

definition parsePath :: "platform \<Rightarrow> string \<Rightarrow> string + object_key" where
  "parsePath pf rawPath =
     (if \<not> prefix hookPathPrefix rawPath then Inl ''invalid webhook path''
      else
        let trimmed = trim_char (trim_prefix rawPath hookPathPrefix) (CHR ''/'') in
        if trimmed = [] then Inl ''webhook path must include namespace and name''
        else
          let parts = split_n (CHR ''/'') 3 trimmed in
          if length parts \<noteq> 2 then Inl (''webhook path must be '' @ hookPathPrefix @ ''<namespace>/<name>'')
          else
            let namespace = trim_space (parts ! 0); name = trim_space (parts ! 1) in
            if namespace = [] \<or> name = [] then Inl ''namespace and name are required''
            else if IsDNS1123Label pf namespace \<noteq> []
              then Inl (''namespace is invalid: '' @ join_with ''; '' (IsDNS1123Label pf namespace))
            else if IsDNS1123Subdomain pf name \<noteq> []
              then Inl (''name is invalid: '' @ join_with ''; '' (IsDNS1123Subdomain pf name))
            else Inr (namespace, name))"

definition repositoryWebhookEventAllowed :: "string list \<Rightarrow> string \<Rightarrow> bool" where
  "repositoryWebhookEventAllowed events target =
     (if length events = 0 then target = ''push'' else list_ex (\<lambda>event. event = target) events)"

definition updateWebhookStatus :: "'c kube_client \<Rightarrow> int \<Rightarrow> RepositoryWebhook \<Rightarrow> WebhookEvent \<Rightarrow> 'c \<Rightarrow> 'c" where
  "updateWebhookStatus cl now rwh evt c =
     (let st = (Status rwh)\<lparr>LastEventTime := Some now\<rparr>;
          st' = (if DeliveryID evt \<noteq> [] then st\<lparr>LastDeliveryID := DeliveryID evt\<rparr> else st)
      in snd (kc_update_status cl c (rwh\<lparr>Status := st'\<rparr>)))"

text \<open>The annotations of a patch, in a function that both servers have.\<close>

definition receipt_annotations :: "platform \<Rightarrow> int \<Rightarrow> string \<Rightarrow> (string, string) gomap" where
  "receipt_annotations pf now eventID =
     (let annotations = [(''declarest.io/webhook-last-received-at'', FormatRFC3339Nano pf now)] in
      if eventID \<noteq> [] then map_put ''declarest.io/webhook-last-event-id'' eventID annotations else annotations)"

text \<open>The first half of \<open>ServeHTTP\<close>: from the request to a verified event, without any effect.\<close>

definition receive_event ::
  "platform \<Rightarrow> 'c kube_client \<Rightarrow> (string \<Rightarrow> WebhookProvider option) \<Rightarrow> Request \<Rightarrow> 'c \<Rightarrow>
   response + string \<times> RepositoryWebhook \<times> WebhookEvent" where
  "receive_event pf cl providers r c =
     (if Method r \<noteq> ''POST'' then Inl (http_Error ''method not allowed'' 405)
      else case parsePath pf (URL_Path r) of
        Inl err \<Rightarrow> Inl (http_Error err 400)
      | Inr (namespace, name) \<Rightarrow>
      (case kc_webhook cl c (namespace, name) of
        Inl KubeNotFound \<Rightarrow> Inl (http_Error ''webhook not found'' 404)
      | Inl KubeError \<Rightarrow> Inl (http_Error ''internal error'' 500)
      | Inr rwh0 \<Rightarrow>
      (let rwh = Default rwh0 in
       if Suspend (Spec rwh) then Inl (202, ''suspended'')
       else case providers (spec_Provider (Spec rwh)) of
         None \<Rightarrow> Inl (http_Error ''unsupported provider'' 400)
       | Some provider \<Rightarrow>
       (case read_limited maxPayloadBytes r of
          None \<Rightarrow> Inl (http_Error ''failed to read payload'' 400)
        | Some body \<Rightarrow>
        if maxPayloadBytes < int (length body) then Inl (http_Error ''payload too large'' 413)
        else case kc_secret cl c (namespace, ref_Name (SecretRef (Spec rwh))) of
          Inl err \<Rightarrow> Inl (http_Error ''failed to resolve webhook secret'' 500)
        | Inr data \<Rightarrow>
        (let secretValue = (case map_get data (ref_Key (SecretRef (Spec rwh))) of Some v \<Rightarrow> v | None \<Rightarrow> []) in
         if secretValue = [] then Inl (http_Error ''webhook secret is empty'' 500)
         else if VerifySignature provider r body secretValue \<noteq> None then Inl (http_Error ''unauthorized'' 401)
         else case ParseEvent provider r body of
           Inl err \<Rightarrow> Inl (http_Error err 400)
         | Inr evt \<Rightarrow> Inr (namespace, rwh, evt))))))"

text \<open>The last part: a push of an allowed branch is recorded on the repository, then on the webhook.\<close>

definition enqueue_push ::
  "platform \<Rightarrow> clock \<Rightarrow> 'c kube_client \<Rightarrow> string \<Rightarrow> RepositoryWebhook \<Rightarrow> WebhookEvent \<Rightarrow> 'c \<Rightarrow> response \<times> 'c" where
  "enqueue_push pf ck cl namespace rwh evt c =
     (if \<not> MatchBranchFilter (RefToBranch (Ref evt)) (BranchFilter (Spec rwh)) then ((202, ''filtered''), c)
      else
        let repoKey = (namespace, RepositoryRef_Name (Spec rwh)) in
        case kc_repository cl c repoKey of
          Inl KubeNotFound \<Rightarrow> (http_Error ''repository not found'' 404, c)
        | Inl KubeError \<Rightarrow>
            if \<not> repositoryWebhookEventAllowed (Events (Spec rwh)) ''push'' then ((202, ''ignored''), c)
            else (http_Error ''internal error'' 500, c)
        | Inr repo \<Rightarrow>
            (case kc_patch cl c repoKey (receipt_annotations pf (patch_at ck) (DeliveryID evt)) of
               (Some err, c1) \<Rightarrow> (http_Error ''failed to enqueue reconciliation'' 500, c1)
             | (None, c1) \<Rightarrow> ((202, ''accepted''), updateWebhookStatus cl (status_at ck) rwh evt c1)))"

definition check_duplicate :: "platform \<Rightarrow> int \<Rightarrow> string \<Rightarrow> DedupeCache option \<Rightarrow> bool \<times> DedupeCache option" where
  "check_duplicate pf now deliveryID d =
     (case d of
        None \<Rightarrow> (False, None)
      | Some cache \<Rightarrow> (case IsDuplicate (visit pf) now deliveryID cache of (dup, cache') \<Rightarrow> (dup, Some cache')))"

definition ServeHTTP ::
  "platform \<Rightarrow> clock \<Rightarrow> 'c kube_client \<Rightarrow> (string \<Rightarrow> WebhookProvider option) \<Rightarrow> Request \<Rightarrow> 'c \<times> DedupeCache option \<Rightarrow>
   response \<times> 'c \<times> DedupeCache option" where
  "ServeHTTP pf ck cl providers r st =
     (case st of (c, d) \<Rightarrow>
      case receive_event pf cl providers r c of
        Inl resp \<Rightarrow> (resp, c, d)
      | Inr (namespace, rwh, evt) \<Rightarrow>
      (case check_duplicate pf (dedupe_at ck) (DeliveryID evt) d of
         (True, d') \<Rightarrow> ((202, ''duplicate''), c, d')
       | (False, d') \<Rightarrow>
           if IsPing evt then
             if \<not> repositoryWebhookEventAllowed (Events (Spec rwh)) ''ping'' then ((202, ''ignored''), c, d')
             else ((202, ''pong''), updateWebhookStatus cl (status_at ck) rwh evt c, d')
           else if \<not> IsPush evt then ((202, ''ignored''), c, d')
           else if \<not> repositoryWebhookEventAllowed (Events (Spec rwh)) ''push'' then ((202, ''ignored''), c, d')
           else case enqueue_push pf ck cl namespace rwh evt c of (resp, c') \<Rightarrow> (resp, c', d')))"

section \<open>Webhooks embedded in a repository\<close>

definition repositoryWebhookPathPrefix :: string where
  "repositoryWebhookPathPrefix = ''/webhooks/repository/''"

definition defaultWebhookBodyLimit :: int where
  "defaultWebhookBodyLimit = 1048576"

definition body_limit :: "int \<Rightarrow> int" where
  "body_limit maxBodyBytes = (if maxBodyBytes \<le> 0 then defaultWebhookBodyLimit else maxBodyBytes)"

definition parseRepositoryWebhookTarget :: "platform \<Rightarrow> string \<Rightarrow> string \<Rightarrow> string + object_key" where
  "parseRepositoryWebhookTarget pf watchNamespace rawPath =
     (if \<not> prefix repositoryWebhookPathPrefix rawPath then Inl ''invalid webhook path''
      else
        let trimmed = trim_char (trim_prefix rawPath repositoryWebhookPathPrefix) (CHR ''/''); watch = trim_space watchNamespace in
        if trimmed = [] then Inl ''repository webhook path must include namespace and repository name''
        else case split_on (CHR ''/'') trimmed of
          [part] \<Rightarrow>
            if watch = [] then Inl ''repository webhook path must include namespace''
            else if IsDNS1123Subdomain pf (trim_space part) \<noteq> [] then Inl ''invalid repository name''
            else Inr (watch, trim_space part)
        | [part0, part1] \<Rightarrow>
            (let namespace = trim_space part0; repoName = trim_space part1 in
             if namespace = [] \<or> repoName = [] then Inl ''repository webhook path must include namespace and repository name''
             else if IsDNS1123Label pf namespace \<noteq> [] then Inl ''invalid namespace''
             else if IsDNS1123Subdomain pf repoName \<noteq> [] then Inl ''invalid repository name''
             else if watch \<noteq> [] \<and> namespace \<noteq> watch then Inl ''repository namespace is not watched by this operator''
             else Inr (namespace, repoName))
        | _ \<Rightarrow> Inl ''repository webhook path must be /webhooks/repository/<namespace>/<name>'')"

definition validateRepositoryWebhookAuth ::
  "(string \<Rightarrow> string \<Rightarrow> string) \<Rightarrow> Request \<Rightarrow> string \<Rightarrow> string \<Rightarrow> string \<Rightarrow> string option" where
  "validateRepositoryWebhookAuth hmac req provider secret body =
     (if provider = ''gitea'' then
        (let signature = header_value req ''X-Gitea-Signature'' in
         if signature = [] then Some ''missing gitea signature header''
         else case hex_decode signature of
           None \<Rightarrow> Some ''invalid gitea signature format''
         | Some provided \<Rightarrow> if provided = hmac secret body then None else Some ''invalid gitea signature'')
      else if provider = ''gitlab'' then
        (let token = header_value req ''X-Gitlab-Token'' in
         if token = [] then Some ''missing gitlab token header''
         else if token = secret then None else Some ''invalid gitlab token'')
      else Some ''unsupported webhook provider'')"

definition isPushWebhookEvent :: "Request \<Rightarrow> string \<Rightarrow> bool" where
  "isPushWebhookEvent req provider =
     (if provider = ''gitea'' then EqualFold (header_value req ''X-Gitea-Event'') ''push''
      else if provider = ''gitlab'' then EqualFold (header_value req ''X-Gitlab-Event'') ''Push Hook''
      else False)"

definition webhookEventID :: "Request \<Rightarrow> string \<Rightarrow> string" where
  "webhookEventID req provider =
     (if provider = ''gitea'' then header_value req ''X-Gitea-Delivery''
      else if provider = ''gitlab'' then header_value req ''X-Gitlab-Event-UUID''
      else [])"

definition webhookBranchMatches :: "(string \<Rightarrow> string + string) \<Rightarrow> string \<Rightarrow> string \<Rightarrow> string + bool" where
  "webhookBranchMatches unmarshal body branch =
     (if trim_space branch = [] then Inr True
      else case unmarshal body of
        Inl err \<Rightarrow> Inl ''invalid webhook payload''
      | Inr payloadRef \<Rightarrow>
          if trim_space payloadRef = [] then Inr False
          else
            let ref = trim_space payloadRef in
            Inr (ref = ''refs/heads/'' @ trim_space branch \<or> ref = branch))"

datatype secret_read_error = RefIsNil | SecretMissing | SecretUnreadable | KeyMissing | ValueEmpty

definition readSecretValueFromClient ::
  "'c kube_client \<Rightarrow> 'c \<Rightarrow> string \<Rightarrow> SecretKeySelector option \<Rightarrow> secret_read_error + string" where
  "readSecretValueFromClient cl c namespace ref =
     (case ref of
        None \<Rightarrow> Inl RefIsNil
      | Some s \<Rightarrow>
          (case kc_secret cl c (namespace, trim_space (selector_Name s)) of
             Inl KubeNotFound \<Rightarrow> Inl SecretMissing
           | Inl KubeError \<Rightarrow> Inl SecretUnreadable
           | Inr data \<Rightarrow>
               (case map_get data (trim_space (selector_Key s)) of
                  None \<Rightarrow> Inl KeyMissing
                | Some v \<Rightarrow> if length v = 0 then Inl ValueEmpty else Inr v)))"

definition patchRepositoryWebhookReceipt ::
  "platform \<Rightarrow> int \<Rightarrow> 'c kube_client \<Rightarrow> object_key \<Rightarrow> string \<Rightarrow> 'c \<Rightarrow> kube_error option \<times> 'c" where
  "patchRepositoryWebhookReceipt pf now cl key eventID c = kc_patch cl c key (receipt_annotations pf now eventID)"

text \<open>The event recorder is left out: its events do not return to the operator.\<close>

definition handleRepositoryWebhook ::
  "platform \<Rightarrow> int \<Rightarrow> 'c kube_client \<Rightarrow> (string \<Rightarrow> string \<Rightarrow> string) \<Rightarrow> (string \<Rightarrow> string + string) \<Rightarrow> string \<Rightarrow> int \<Rightarrow>
   Request \<Rightarrow> 'c \<Rightarrow> response \<times> 'c" where
  "handleRepositoryWebhook pf now cl hmac unmarshal watchNamespace maxBodyBytes r c =
     (if Method r \<noteq> ''POST'' then (http_Error ''method not allowed'' 405, c)
      else case parseRepositoryWebhookTarget pf watchNamespace (URL_Path r) of
        Inl err \<Rightarrow> (http_Error err 400, c)
      | Inr (namespace, repositoryName) \<Rightarrow>
      (case kc_repository cl c (namespace, repositoryName) of
        Inl KubeNotFound \<Rightarrow> (http_Error ''repository not found'' 404, c)
      | Inl KubeError \<Rightarrow> (http_Error ''failed to resolve repository'' 500, c)
      | Inr repo \<Rightarrow>
      (case hooked_Git repo of
        None \<Rightarrow> (http_Error ''repository webhook is not configured'' 404, c)
      | Some git \<Rightarrow>
      (case git_Webhook git of
        None \<Rightarrow> (http_Error ''repository webhook is not configured'' 404, c)
      | Some hook \<Rightarrow>
      (let maxBody = body_limit maxBodyBytes in
       case read_limited maxBody r of
         None \<Rightarrow> (http_Error ''failed to read webhook payload'' 400, c)
       | Some body \<Rightarrow>
       if maxBody < int (length body) then (http_Error ''webhook payload is too large'' 413, c)
       else case readSecretValueFromClient cl c namespace (hook_SecretRef hook) of
         Inl err \<Rightarrow> (http_Error ''failed to resolve webhook secret'' 500, c)
       | Inr secret \<Rightarrow>
       (case validateRepositoryWebhookAuth hmac r (hook_Provider hook) secret body of
         Some err \<Rightarrow> (http_Error err 401, c)
       | None \<Rightarrow>
       if \<not> isPushWebhookEvent r (hook_Provider hook) then ((202, ''ignored non-push event''), c)
       else case webhookBranchMatches unmarshal body (trim_space (Branch git)) of
         Inl err \<Rightarrow> (http_Error err 400, c)
       | Inr False \<Rightarrow> ((202, ''ignored branch''), c)
       | Inr True \<Rightarrow>
           (case patchRepositoryWebhookReceipt pf now cl (namespace, repositoryName) (webhookEventID r (hook_Provider hook)) c of
              (Some err, c1) \<Rightarrow> (http_Error ''failed to record webhook event'' 500, c1)
            | (None, c1) \<Rightarrow> ((202, ''accepted''), c1))))))))"

section \<open>Only verified events act\<close>

lemma read_limited_whole:
  assumes "read_limited limit r = Some body" and "int (length body) \<le> limit"
  shows "body = Body r"
proof -
  have b: "body = take (nat (limit + 1)) (Body r)" using assms(1) by (simp add: read_limited_def split: if_splits)
  have "length (Body r) \<le> nat (limit + 1)"
  proof (rule ccontr)
    assume "\<not> length (Body r) \<le> nat (limit + 1)"
    then have "length body = nat (limit + 1)" by (simp add: b)
    then show False using assms(2) by (simp split: if_splits)
  qed
  then show ?thesis by (simp add: b)
qed

text \<open>What must hold of a request for its event to be taken as sent by the holder of the webhook's secret.\<close>

definition authentic ::
  "platform \<Rightarrow> 'c kube_client \<Rightarrow> (string \<Rightarrow> WebhookProvider option) \<Rightarrow> Request \<Rightarrow> 'c \<Rightarrow>
   object_key \<Rightarrow> RepositoryWebhook \<Rightarrow> WebhookEvent \<Rightarrow> bool" where
  "authentic pf cl providers r c key rwh evt \<longleftrightarrow>
     Method r = ''POST'' \<and> parsePath pf (URL_Path r) = Inr key \<and> kc_webhook cl c key = Inr rwh \<and> \<not> Suspend (Spec rwh)
     \<and> int (length (Body r)) \<le> maxPayloadBytes \<and> \<not> Body_fails r
     \<and> (\<exists>p data secret.
          providers (spec_Provider (Spec rwh)) = Some p
          \<and> kc_secret cl c (fst key, ref_Name (SecretRef (Spec rwh))) = Inr data
          \<and> map_get data (ref_Key (SecretRef (Spec rwh))) = Some secret \<and> secret \<noteq> []
          \<and> VerifySignature p r (Body r) secret = None \<and> ParseEvent p r (Body r) = Inr evt)"

lemma Default_Spec [simp]:
  "Suspend (Spec (Default r)) = Suspend (Spec r)" "spec_Provider (Spec (Default r)) = spec_Provider (Spec r)"
  "SecretRef (Spec (Default r)) = SecretRef (Spec r)" "BranchFilter (Spec (Default r)) = BranchFilter (Spec r)"
  "RepositoryRef_Name (Spec (Default r)) = RepositoryRef_Name (Spec r)"
  by (simp_all add: Default_def)

lemma receive_event_authentic:
  assumes "receive_event pf cl providers r c = Inr (namespace, rwh', evt)"
  shows "\<exists>key rwh. namespace = fst key \<and> rwh' = Default rwh \<and> authentic pf cl providers r c key rwh evt"
proof -
  from assms obtain key rwh where k: "Method r = ''POST''" "parsePath pf (URL_Path r) = Inr key" "kc_webhook cl c key = Inr rwh"
    "\<not> Suspend (Spec rwh)" "namespace = fst key" "rwh' = Default rwh"
    by (auto simp: receive_event_def Let_def split: if_splits sum.splits kube_error.splits option.splits)
  from assms k obtain p body where p: "providers (spec_Provider (Spec rwh)) = Some p"
    "read_limited maxPayloadBytes r = Some body" "\<not> maxPayloadBytes < int (length body)"
    by (auto simp: receive_event_def Let_def split: if_splits sum.splits option.splits prod.splits)
  have body: "body = Body r" using read_limited_whole[OF p(2)] p(3) by simp
  then have "\<not> Body_fails r" using p(2,3) by (auto simp: read_limited_def split: if_splits)
  moreover from assms k p body obtain data secret where
    "kc_secret cl c (fst key, ref_Name (SecretRef (Spec rwh))) = Inr data"
    "map_get data (ref_Key (SecretRef (Spec rwh))) = Some secret" "secret \<noteq> []"
    "VerifySignature p r (Body r) secret = None" "ParseEvent p r (Body r) = Inr evt"
    by (auto simp: receive_event_def Let_def split: if_splits sum.splits option.splits prod.splits)
  ultimately have "authentic pf cl providers r c key rwh evt" using k p body by (auto simp: authentic_def)
  then show ?thesis using k by blast
qed

lemma authentic_receive_event:
  assumes "authentic pf cl providers r c key rwh evt"
  shows "receive_event pf cl providers r c = Inr (fst key, Default rwh, evt)"
proof -
  have "read_limited maxPayloadBytes r = Some (Body r)"
    using assms by (simp add: authentic_def read_limited_def maxPayloadBytes_def)
  then show ?thesis using assms
    by (cases key) (auto simp: authentic_def receive_event_def Let_def)
qed

lemma receive_event_iff:
  "receive_event pf cl providers r c = Inr x \<longleftrightarrow> (\<exists>key rwh evt. x = (fst key, Default rwh, evt) \<and> authentic pf cl providers r c key rwh evt)"
  using receive_event_authentic[of pf cl providers r c] authentic_receive_event[of pf cl providers r c]
  by (cases x) fastforce

text \<open>C15: A request changes the cluster or the delivery cache only if its signature was verified with the nonempty secret of
  an existing webhook that is not suspended; the cluster only if moreover the event is no duplicate and is enabled, and a
  push only if the filter admits its branch.
\<close>

theorem webhook_acts_only_when_verified:
  assumes "ServeHTTP pf ck cl providers r (c, d) = (resp, c', d')" and "c' \<noteq> c \<or> d' \<noteq> d"
  shows "\<exists>key rwh evt. authentic pf cl providers r c key rwh evt
    \<and> (c' \<noteq> c \<longrightarrow> \<not> fst (check_duplicate pf (dedupe_at ck) (DeliveryID evt) d)
         \<and> (IsPing evt \<and> repositoryWebhookEventAllowed (Events (Spec (Default rwh))) ''ping''
            \<or> IsPush evt \<and> repositoryWebhookEventAllowed (Events (Spec (Default rwh))) ''push''
              \<and> MatchBranchFilter (RefToBranch (Ref evt)) (BranchFilter (Spec rwh))))"
proof (cases "receive_event pf cl providers r c")
  case (Inr x)
  then obtain key rwh evt where x: "x = (fst key, Default rwh, evt)" and a: "authentic pf cl providers r c key rwh evt"
    by (auto simp: receive_event_iff)
  have "c' = c" if "fst (check_duplicate pf (dedupe_at ck) (DeliveryID evt) d)
      \<or> \<not> (IsPing evt \<and> repositoryWebhookEventAllowed (Events (Spec (Default rwh))) ''ping''
            \<or> IsPush evt \<and> repositoryWebhookEventAllowed (Events (Spec (Default rwh))) ''push''
              \<and> MatchBranchFilter (RefToBranch (Ref evt)) (BranchFilter (Spec rwh)))"
    using assms(1) that
    by (auto simp: ServeHTTP_def Inr x enqueue_push_def split: prod.splits bool.splits if_splits)
  then show ?thesis using a by blast
qed (use assms in \<open>simp add: ServeHTTP_def\<close>)

text \<open>The older handler has the same guard: it patches the repository only for a verified push.\<close>

theorem embedded_webhook_verified:
  assumes "handleRepositoryWebhook pf now cl hmac unmarshal watch maxBody r c = (resp, c')" and "c' \<noteq> c"
  shows "\<exists>key repo git hook secret. parseRepositoryWebhookTarget pf watch (URL_Path r) = Inr key
    \<and> (trim_space watch = [] \<or> fst key = trim_space watch)
    \<and> kc_repository cl c key = Inr repo \<and> hooked_Git repo = Some git \<and> git_Webhook git = Some hook
    \<and> readSecretValueFromClient cl c (fst key) (hook_SecretRef hook) = Inr secret \<and> secret \<noteq> []
    \<and> validateRepositoryWebhookAuth hmac r (hook_Provider hook) secret (Body r) = None
    \<and> isPushWebhookEvent r (hook_Provider hook) \<and> webhookBranchMatches unmarshal (Body r) (trim_space (Branch git)) = Inr True"
proof -
  from assms obtain key repo git hook where k: "parseRepositoryWebhookTarget pf watch (URL_Path r) = Inr key"
    "kc_repository cl c key = Inr repo" "hooked_Git repo = Some git" "git_Webhook git = Some hook" "Method r = ''POST''"
    by (auto simp: handleRepositoryWebhook_def split: if_splits sum.splits kube_error.splits option.splits)
  from assms k obtain body secret where b: "read_limited (body_limit maxBody) r = Some body" "\<not> body_limit maxBody < int (length body)"
    "readSecretValueFromClient cl c (fst key) (hook_SecretRef hook) = Inr secret"
    by (auto simp: handleRepositoryWebhook_def Let_def split: if_splits sum.splits option.splits prod.splits)
  have body: "body = Body r" using read_limited_whole[OF b(1)] b(2) by simp
  from assms k b have "validateRepositoryWebhookAuth hmac r (hook_Provider hook) secret body = None"
    "isPushWebhookEvent r (hook_Provider hook)" "webhookBranchMatches unmarshal body (trim_space (Branch git)) = Inr True"
    by (auto simp: handleRepositoryWebhook_def Let_def split: if_splits sum.splits option.splits prod.splits bool.splits)
  moreover have "secret \<noteq> []"
    using b(3) by (auto simp: readSecretValueFromClient_def split: option.splits sum.splits kube_error.splits if_splits)
  moreover have "trim_space watch = [] \<or> fst key = trim_space watch"
    using k(1) by (auto simp: parseRepositoryWebhookTarget_def Let_def split: if_splits list.splits)
  ultimately show ?thesis using k b body by blast
qed

section \<open>What an accepted delivery does\<close>

text \<open>An authentic push that is new, enabled and on an admitted branch of an existing repository is answered with
  202; the repository gets the annotations of this delivery, then the webhook its status.
\<close>

theorem push_is_enqueued:
  assumes a: "authentic pf cl providers r c key rwh evt"
    and new: "\<not> fst (check_duplicate pf (dedupe_at ck) (DeliveryID evt) d)"
    and push: "IsPush evt" "\<not> IsPing evt" "repositoryWebhookEventAllowed (Events (Spec (Default rwh))) ''push''"
    and branch: "MatchBranchFilter (RefToBranch (Ref evt)) (BranchFilter (Spec rwh))"
    and repo: "kc_repository cl c (fst key, RepositoryRef_Name (Spec rwh)) = Inr repo"
    and patch: "kc_patch cl c (fst key, RepositoryRef_Name (Spec rwh)) (receipt_annotations pf (patch_at ck) (DeliveryID evt)) = (None, c1)"
  shows "ServeHTTP pf ck cl providers r (c, d) =
    ((202, ''accepted''), updateWebhookStatus cl (status_at ck) (Default rwh) evt c1, snd (check_duplicate pf (dedupe_at ck) (DeliveryID evt) d))"
  using assms authentic_receive_event[OF a]
  by (auto simp: ServeHTTP_def enqueue_push_def split: prod.splits bool.splits)


section \<open>An example\<close>

definition example_platform :: platform where
  "example_platform = \<lparr>IsDNS1123Label = (\<lambda>_. []), IsDNS1123Subdomain = (\<lambda>_. []), FormatRFC3339Nano = (\<lambda>_. ''now''), visit = rev\<rparr>"

definition example_webhook :: RepositoryWebhook where
  "example_webhook =
     \<lparr>rwh_Key = (''ops'', ''hook''),
      Spec = \<lparr>RepositoryRef_Name = ''repo'', spec_Provider = ''gitlab'', SecretRef = \<lparr>ref_Name = ''s'', ref_Key = ''token''\<rparr>,
              Events = [], BranchFilter = None, Suspend = False\<rparr>,
      Status = \<lparr>LastEventTime = None, LastDeliveryID = []\<rparr>\<rparr>"

text \<open>A cluster: the annotations of the repository, and whether the API server accepts patches.\<close>

definition example_client :: "((string, string) gomap \<times> bool) kube_client" where
  "example_client =
     \<lparr>kc_webhook = (\<lambda>c key. if key = (''ops'', ''hook'') then Inr example_webhook else Inl KubeNotFound),
      kc_secret = (\<lambda>c key. Inr [(''token'', ''s3cret'')]),
      kc_repository = (\<lambda>c key. Inr \<lparr>hooked_Git = Some \<lparr>Branch = ''main'', git_Webhook = Some \<lparr>hook_Provider = ''gitlab'',
          hook_SecretRef = Some \<lparr>selector_Name = ''s'', selector_Key = ''token''\<rparr>\<rparr>\<rparr>\<rparr>),
      kc_patch = (\<lambda>(ann, up) key patch. if up then (None, (patch, up)) else (Some KubeError, (ann, up))),
      kc_update_status = (\<lambda>c rwh. (None, c))\<rparr>"

definition example_providers :: "string \<Rightarrow> WebhookProvider option" where
  "example_providers = NewWebhookProviderRegistry (\<lambda>_ _. []) (\<lambda>_. Inr ''refs/heads/main'')"

definition example_request :: "string \<Rightarrow> Request" where
  "example_request p =
     \<lparr>Method = ''POST'', URL_Path = p,
      req_Header = [(''X-Gitlab-Event'', [''Push Hook'']), (''X-Gitlab-Event-Uuid'', [''d-1'']), (''X-Gitlab-Token'', [''s3cret''])],
      Body = ''{}'', Body_fails = False\<rparr>"

definition example_event :: WebhookEvent where
  "example_event = \<lparr>evt_Provider = ''gitlab'', EventType = ''Push Hook'', DeliveryID = ''d-1'', Ref = ''refs/heads/main'', IsPush = True, IsPing = False\<rparr>"

definition clock_at :: "int \<Rightarrow> clock" where
  "clock_at t = \<lparr>dedupe_at = t, patch_at = t, status_at = t\<rparr>"

lemma example_provider:
  "example_providers ''gitlab'' = Some (GitLabProvider (\<lambda>_. Inr ''refs/heads/main''))"
  by (simp add: example_providers_def NewWebhookProviderRegistry_def)

lemma example_headers:
  "header_value (example_request p) ''X-Gitlab-Token'' = ''s3cret''" "header_value (example_request p) ''X-Gitlab-Event'' = ''Push Hook''"
  "header_value (example_request p) ''X-Gitlab-Event-UUID'' = ''d-1''" "EqualFold ''Push Hook'' ''Push Hook''"
  "trim_space ''refs/heads/main'' = ''refs/heads/main''"
  by code_simp+

lemma example_authentic:
  "authentic example_platform example_client example_providers (example_request ''/hooks/v1/repositorywebhooks/ops/hook'') c (''ops'', ''hook'') example_webhook example_event"
proof -
  have "parsePath example_platform ''/hooks/v1/repositorywebhooks/ops/hook'' = Inr (''ops'', ''hook'')" by code_simp
  then show ?thesis
    using example_headers
    by (simp add: authentic_def example_provider GitLabProvider_def GitLab_VerifySignature_def GitLab_ParseEvent_def parse_ref_def Let_def
        example_event_def example_webhook_def example_client_def maxPayloadBytes_def)
      (simp add: example_request_def)
qed

abbreviation hook_request :: Request where
  "hook_request \<equiv> example_request ''/hooks/v1/repositorywebhooks/ops/hook''"

abbreviation example_cache :: DedupeCache where
  "example_cache \<equiv> NewDedupeCache 600000000000"

lemma example_cache_ok: "dedupe_ok example_cache" "in_int64 (ttl example_cache)" "entries example_cache = []"
  by (simp_all add: NewDedupeCache_def dedupe_ok_def capacity_def defaultDedupeMaxEntries_def in_int64_def int64_max_def int64_min_def)

lemma example_first: "\<not> fst (check_duplicate example_platform t ''d-1'' (Some example_cache))"
  by (simp add: check_duplicate_def IsDuplicate_def NewDedupeCache_def defaultDedupeMaxEntries_def Let_def example_platform_def)

lemma example_allowed:
  "repositoryWebhookEventAllowed (Events (Spec (Default example_webhook))) ''push''"
  "MatchBranchFilter b (BranchFilter (Spec example_webhook))" "Ref example_event = ''refs/heads/main''"
  by (simp_all add: repositoryWebhookEventAllowed_def Default_def example_webhook_def MatchBranchFilter_def example_event_def)

text \<open>The answer to the example with an API server that accepts patches, and with one that does not.\<close>

lemma example_answer:
  "fst (ServeHTTP example_platform (clock_at t) example_client example_providers hook_request ((ann, up), Some example_cache)) =
     (if up then (202, ''accepted'') else http_Error ''failed to enqueue reconciliation'' 500)"
  "fst (snd (ServeHTTP example_platform (clock_at t) example_client example_providers hook_request ((ann, up), Some example_cache))) =
     (if up then receipt_annotations example_platform t ''d-1'' else ann, up)"
  using example_first[of t] example_allowed authentic_receive_event[OF example_authentic, of "(ann, up)"]
  by (auto simp: ServeHTTP_def enqueue_push_def example_event_def clock_at_def example_client_def updateWebhookStatus_def Let_def
      split: prod.splits bool.splits)

theorem push_is_enqueued_witness:
  "fst (ServeHTTP example_platform (clock_at 5) example_client example_providers hook_request (([], True), Some example_cache))
   = (202, ''accepted'')"
  using push_is_enqueued[of example_platform example_client example_providers hook_request "([], True)" "(''ops'', ''hook'')"
      example_webhook example_event "clock_at 5" "Some example_cache" _ "(receipt_annotations example_platform 5 ''d-1'', True)"]
    example_authentic example_first[of 5] example_allowed
  by (simp add: example_event_def clock_at_def example_client_def)

theorem webhook_acts_only_when_verified_witness:
  "\<exists>key rwh evt. authentic example_platform example_client example_providers hook_request ([], True) key rwh evt"
proof -
  obtain resp c' d' where s: "ServeHTTP example_platform (clock_at 5) example_client example_providers hook_request (([], True), Some example_cache) = (resp, c', d')"
    by (rule prod_cases3)
  have "c' \<noteq> ([], True)"
    using example_answer(2)[of 5 "[]" True] by (auto simp: s receipt_annotations_def Let_def)
  then show ?thesis using webhook_acts_only_when_verified[OF s] by blast
qed


text \<open>The delivery is recorded before it is carried out.  A push that is answered with 500, because the API server refuses the
  patch, is answered as a duplicate when the provider sends it again: the repository is never reconciled for it.
\<close>

theorem failed_delivery_is_not_retried:
  "\<exists>d' d2. ServeHTTP example_platform (clock_at 5) example_client example_providers hook_request (([], False), Some example_cache)
       = (http_Error ''failed to enqueue reconciliation'' 500, ([], False), d')
     \<and> ServeHTTP example_platform (clock_at 60) example_client example_providers hook_request (([], True), d')
       = ((202, ''duplicate''), ([], True), d2)"
proof -
  let ?r = "ServeHTTP example_platform (clock_at 5) example_client example_providers hook_request (([], False), Some example_cache)"
  have s: "?r = (http_Error ''failed to enqueue reconciliation'' 500, ([], False), snd (snd ?r))"
    using example_answer[of 5 "[]" False] by (simp add: prod_eq_iff)
  let ?d = "snd (IsDuplicate rev 5 ''d-1'' example_cache)"
  have d': "snd (snd ?r) = Some ?d"
    using authentic_receive_event[OF example_authentic, of "([], False)"]
    by (auto simp: ServeHTTP_def check_duplicate_def example_event_def clock_at_def example_platform_def split: prod.splits bool.splits if_splits)
  have "fst (IsDuplicate rev 60 ''d-1'' ?d)"
    by (simp add: IsDuplicate_def NewDedupeCache_def defaultDedupeMaxEntries_def Let_def time_sub_def int64_max_def int64_min_def)
  then have "\<exists>d2. ServeHTTP example_platform (clock_at 60) example_client example_providers hook_request (([], True), Some ?d) = ((202, ''duplicate''), ([], True), d2)"
    using authentic_receive_event[OF example_authentic, of "([], True)"]
    by (auto simp: ServeHTTP_def check_duplicate_def example_event_def clock_at_def example_platform_def split: prod.splits bool.splits if_splits)
  then show ?thesis using s d' by metis
qed

theorem embedded_webhook_verified_witness:
  "\<exists>key. parseRepositoryWebhookTarget example_platform ''ops'' ''/webhooks/repository/ops/repo'' = Inr key \<and> fst key = ''ops''"
proof -
  let ?r = "example_request ''/webhooks/repository/ops/repo''"
  let ?c = "(receipt_annotations example_platform 5 ''d-1'', True)"
  have t: "parseRepositoryWebhookTarget example_platform ''ops'' ''/webhooks/repository/ops/repo'' = Inr (''ops'', ''repo'')"
    "trim_space ''ops'' = ''ops''" "trim_space ''s'' = ''s''" "trim_space ''token'' = ''token''" "trim_space ''main'' = ''main''" by code_simp+
  have "Method ?r = ''POST''" "URL_Path ?r = ''/webhooks/repository/ops/repo''" "read_limited (body_limit 0) ?r = Some ''{}''"
    by (simp_all add: example_request_def read_limited_def body_limit_def defaultWebhookBodyLimit_def)
  then have "handleRepositoryWebhook example_platform 5 example_client (\<lambda>_ _. []) (\<lambda>_. Inr ''refs/heads/main'') ''ops'' 0 ?r ([], True) = ((202, ''accepted''), ?c)"
    using example_headers t
    by (simp add: handleRepositoryWebhook_def example_client_def readSecretValueFromClient_def validateRepositoryWebhookAuth_def
        isPushWebhookEvent_def webhookBranchMatches_def webhookEventID_def patchRepositoryWebhookReceipt_def Let_def
        body_limit_def defaultWebhookBodyLimit_def)
  from embedded_webhook_verified[OF this] show ?thesis
    by (auto simp: t receipt_annotations_def Let_def)
qed

end
