(* ===== verification/Context_Service.thy ===== *)
theory Context_Service
  imports Context_Config Contracts
begin

text \<open>
  The catalogue of contexts in a file (src/internal/providers/config/file/context_service.go, catalog_codec.go): loading and
  saving, the operations of the service, and the resolution of a context.  A file has its content and its permission bits;
  each system call may fail.  The YAML library is a pair of functions, with what a theorem needs of it as a
  hypothesis: decoding what was encoded gives the catalogue without the fields that are not written.
\<close>

section \<open>Files\<close>

type_synonym catalog_files = "string \<rightharpoonup> string \<times> nat"

datatype catalog_op =
    CatHome | CatRead | CatStat | CatChmod | CatMkdir | CatTemp | CatWrite | CatTempChmod | CatClose | CatRename | CatRemove

record catalog_env =
  ce_config :: config_env
  ce_path :: string
  ce_home :: string
  ce_fault :: "catalog_op \<Rightarrow> go_error option"
  ce_temp :: string
  ce_encode :: "ContextCatalog \<Rightarrow> go_error + string"
  ce_decode :: "string \<Rightarrow> go_error + ContextCatalog"

definition owner_only :: nat where
  "owner_only = 384"

definition empty_catalog :: ContextCatalog where
  "empty_catalog = \<lparr>Contexts = [], CurrentContext = [], DefaultEditor = [], Credentials = []\<rparr>"

definition resolveCatalogPath :: "catalog_env \<Rightarrow> string result" where
  "resolveCatalogPath svc =
     (let env = ce_config svc;
          p0 = (if ce_path svc = [] then Getenv env ''DECLAREST_CONTEXTS_FILE'' else ce_path svc);
          p1 = (if p0 = [] then ''~/.declarest/configs/contexts.yaml'' else p0)
      in case ce_fault svc CatHome of
           Some e \<Rightarrow> Err (Internal (msg ''failed to resolve user home directory'') (Some e))
         | None \<Rightarrow>
             let p = (if p1 = ''~'' then ce_home svc
                      else if prefix ''~/'' p1 then path_join (ce_home svc) (trim_prefix p1 ''~/'') else p1)
             in if p = [] then Err (invalid ''context catalog path is empty'')
                else
                  let cleanPath = path_clean p in
                  if cleanPath = ''.''
                  then Err (Invalid (msg ''context catalog path is invalid'') (Some (PlainError (msg ''resolved to current directory'') None)))
                  else Ok (if \<not> prefix ''/'' cleanPath then path_join (ce_home svc) cleanPath else cleanPath))"

definition ensureUserOnlyReadWriteFile :: "catalog_env \<Rightarrow> string \<Rightarrow> catalog_files \<Rightarrow> go_error option \<times> catalog_files" where
  "ensureUserOnlyReadWriteFile svc p fs =
     (case fs p of
        None \<Rightarrow> (None, fs)
      | Some (data, perm) \<Rightarrow>
          (case ce_fault svc CatStat of
             Some e \<Rightarrow> (Some (Internal (msg ''failed to inspect context catalog permissions'') (Some e)), fs)
           | None \<Rightarrow>
               if perm = owner_only then (None, fs)
               else case ce_fault svc CatChmod of
                 Some e \<Rightarrow> (Some (Internal (msg ''failed to update context catalog permissions'') (Some e)), fs)
               | None \<Rightarrow> (None, fs(p \<mapsto> (data, owner_only)))))"

definition decodeCatalog :: "catalog_env \<Rightarrow> string \<Rightarrow> ContextCatalog result" where
  "decodeCatalog svc data =
     (case ce_decode svc data of
        Inl e \<Rightarrow> Err (Invalid (msg ''invalid context catalog yaml'') (Some e))
      | Inr c \<Rightarrow> Ok c)"

definition loadCatalog :: "catalog_env \<Rightarrow> catalog_files \<Rightarrow> ContextCatalog result \<times> catalog_files" where
  "loadCatalog svc fs =
     (case resolveCatalogPath svc of
        Err e \<Rightarrow> (Err e, fs)
      | Ok p \<Rightarrow>
      (case fs p of
        None \<Rightarrow> (Ok empty_catalog, fs)
      | Some (data, perm) \<Rightarrow>
      (case ce_fault svc CatRead of
        Some e \<Rightarrow> (Err e, fs)
      | None \<Rightarrow>
      (case decodeCatalog svc data of
        Err e \<Rightarrow> (Err e, fs)
      | Ok c \<Rightarrow>
      (case ensureUserOnlyReadWriteFile svc p fs of
        (Some e, fs1) \<Rightarrow> (Err e, fs1)
      | (None, fs1) \<Rightarrow>
      (case validateCatalog (ce_config svc) c of
        Some e \<Rightarrow> (Err e, fs1)
      | None \<Rightarrow> (Ok c, fs1)))))))"

text \<open>Removing the temporary file after a failure; its own failure is ignored.\<close>

definition drop_temp :: "catalog_env \<Rightarrow> catalog_files \<Rightarrow> catalog_files" where
  "drop_temp svc fs = (if ce_fault svc CatRemove = None then fs(ce_temp svc := None) else fs)"

definition replace_catalog_file :: "catalog_env \<Rightarrow> string \<Rightarrow> string \<Rightarrow> catalog_files \<Rightarrow> go_error option \<times> catalog_files" where
  "replace_catalog_file svc p encoded fs =
     (case ce_fault svc CatMkdir of
        Some e \<Rightarrow> (Some (Internal (msg ''failed to create context config directory'') (Some e)), fs)
      | None \<Rightarrow>
      (case ce_fault svc CatTemp of
        Some e \<Rightarrow> (Some (Internal (msg ''failed to create temporary context catalog file'') (Some e)), fs)
      | None \<Rightarrow>
      (let fs1 = fs(ce_temp svc \<mapsto> ([], owner_only)) in
       case ce_fault svc CatWrite of
        Some e \<Rightarrow> (Some (Internal (msg ''failed to write context catalog'') (Some e)), drop_temp svc fs1)
      | None \<Rightarrow>
      (let fs2 = fs(ce_temp svc \<mapsto> (encoded, owner_only)) in
       case ce_fault svc CatTempChmod of
        Some e \<Rightarrow> (Some (Internal (msg ''failed to set context catalog permissions'') (Some e)), drop_temp svc fs2)
      | None \<Rightarrow>
      (case ce_fault svc CatClose of
        Some e \<Rightarrow> (Some (Internal (msg ''failed to finalize context catalog'') (Some e)), drop_temp svc fs2)
      | None \<Rightarrow>
      (case ce_fault svc CatRename of
        Some e \<Rightarrow> (Some (Internal (msg ''failed to replace context catalog'') (Some e)), drop_temp svc fs2)
      | None \<Rightarrow> ensureUserOnlyReadWriteFile svc p (fs2(ce_temp svc := None, p \<mapsto> (encoded, owner_only)))))))))"

definition saveCatalog :: "catalog_env \<Rightarrow> ContextCatalog \<Rightarrow> catalog_files \<Rightarrow> go_error option \<times> catalog_files" where
  "saveCatalog svc c0 fs =
     (let c = compactContextCatalogForPersistence c0 in
      case validateResolvedCatalog (ce_config svc) c of
        Some e \<Rightarrow> (Some e, fs)
      | None \<Rightarrow>
      (case resolveCatalogPath svc of
        Err e \<Rightarrow> (Some e, fs)
      | Ok p \<Rightarrow>
      (case ce_encode svc c of
        Inl e \<Rightarrow> (Some (Internal (msg ''failed to encode context catalog'') (Some e)), fs)
      | Inr encoded \<Rightarrow> replace_catalog_file svc p encoded fs)))"

section \<open>Operations\<close>

fun findContextIndex :: "Context list \<Rightarrow> string \<Rightarrow> nat option" where
  "findContextIndex [] name = None"
| "findContextIndex (item # items) name =
     (if ctx_Name item = name then Some 0 else map_option Suc (findContextIndex items name))"

text \<open>Every changing operation loads the catalogue, computes the new one and saves it.\<close>

definition edit_catalog ::
  "catalog_env \<Rightarrow> (ContextCatalog \<Rightarrow> ContextCatalog result) \<Rightarrow> catalog_files \<Rightarrow> go_error option \<times> catalog_files" where
  "edit_catalog svc step fs =
     (case loadCatalog svc fs of
        (Err e, fs1) \<Rightarrow> (Some e, fs1)
      | (Ok c, fs1) \<Rightarrow> (case step c of Err e \<Rightarrow> (Some e, fs1) | Ok c' \<Rightarrow> saveCatalog svc c' fs1))"

definition create_step :: "Context \<Rightarrow> ContextCatalog \<Rightarrow> ContextCatalog result" where
  "create_step cfg c =
     (if findContextIndex (Contexts c) (ctx_Name cfg) \<noteq> None then Err (Invalid (''context %q already exists'', [ctx_Name cfg]) None)
      else bind_result (mergeContextCredentials c (ctx_Credentials cfg))
        (\<lambda>c1. let c2 = c1\<lparr>Contexts := Contexts c1 @ [cfg]\<rparr> in
               Ok (if CurrentContext c2 = [] then c2\<lparr>CurrentContext := ctx_Name cfg\<rparr> else c2)))"

definition Create :: "catalog_env \<Rightarrow> Context \<Rightarrow> catalog_files \<Rightarrow> go_error option \<times> catalog_files" where
  "Create svc cfg0 fs =
     (let cfg = normalizeConfig cfg0 in
      case validateResolvedConfig (ce_config svc) cfg of
        Some e \<Rightarrow> (Some e, fs)
      | None \<Rightarrow> edit_catalog svc (create_step cfg) fs)"

definition update_step :: "config_env \<Rightarrow> Context \<Rightarrow> ContextCatalog \<Rightarrow> ContextCatalog result" where
  "update_step env cfg0 c =
     (case findContextIndex (Contexts c) (ctx_Name cfg0) of
        None \<Rightarrow> Err (NotFound (''context %q not found'', [ctx_Name cfg0]) None)
      | Some idx \<Rightarrow>
          let cfg = preserveProxyOmissions cfg0 (normalizeConfig (Contexts c ! idx)) in
          case validateResolvedConfig env cfg of
            Some e \<Rightarrow> Err e
          | None \<Rightarrow> bind_result (mergeContextCredentials c (ctx_Credentials cfg)) (\<lambda>c1. Ok (c1\<lparr>Contexts := (Contexts c1)[idx := cfg]\<rparr>)))"

definition Update :: "catalog_env \<Rightarrow> Context \<Rightarrow> catalog_files \<Rightarrow> go_error option \<times> catalog_files" where
  "Update svc cfg fs = edit_catalog svc (update_step (ce_config svc) (normalizeConfig cfg)) fs"

definition delete_step :: "string \<Rightarrow> ContextCatalog \<Rightarrow> ContextCatalog result" where
  "delete_step name c =
     (case findContextIndex (Contexts c) name of
        None \<Rightarrow> Err (NotFound (''context %q not found'', [name]) None)
      | Some idx \<Rightarrow>
          let c1 = c\<lparr>Contexts := take idx (Contexts c) @ drop (Suc idx) (Contexts c)\<rparr> in
          Ok (if CurrentContext c1 = name
              then c1\<lparr>CurrentContext := (if length (Contexts c1) = 0 then [] else ctx_Name (Contexts c1 ! 0))\<rparr> else c1))"

definition Delete :: "catalog_env \<Rightarrow> string \<Rightarrow> catalog_files \<Rightarrow> go_error option \<times> catalog_files" where
  "Delete svc name fs = edit_catalog svc (delete_step name) fs"

definition rename_step :: "string \<Rightarrow> string \<Rightarrow> ContextCatalog \<Rightarrow> ContextCatalog result" where
  "rename_step fromName toName c =
     (case findContextIndex (Contexts c) fromName of
        None \<Rightarrow> Err (NotFound (''context %q not found'', [fromName]) None)
      | Some fromIdx \<Rightarrow>
          if findContextIndex (Contexts c) toName \<noteq> None then Err (Invalid (''context %q already exists'', [toName]) None)
          else
            let c1 = c\<lparr>Contexts := (Contexts c)[fromIdx := (Contexts c ! fromIdx)\<lparr>ctx_Name := toName\<rparr>]\<rparr> in
            Ok (if CurrentContext c1 = fromName then c1\<lparr>CurrentContext := toName\<rparr> else c1))"

definition Rename :: "catalog_env \<Rightarrow> string \<Rightarrow> string \<Rightarrow> catalog_files \<Rightarrow> go_error option \<times> catalog_files" where
  "Rename svc fromName toName fs =
     (if toName = [] then (Some (invalid ''context name must not be empty''), fs) else edit_catalog svc (rename_step fromName toName) fs)"

definition set_current_step :: "string \<Rightarrow> ContextCatalog \<Rightarrow> ContextCatalog result" where
  "set_current_step name c =
     (if findContextIndex (Contexts c) name = None then Err (NotFound (''context %q not found'', [name]) None)
      else Ok (c\<lparr>CurrentContext := name\<rparr>))"

definition SetCurrent :: "catalog_env \<Rightarrow> string \<Rightarrow> catalog_files \<Rightarrow> go_error option \<times> catalog_files" where
  "SetCurrent svc name fs = edit_catalog svc (set_current_step name) fs"

definition ListContexts :: "catalog_env \<Rightarrow> catalog_files \<Rightarrow> Context list result \<times> catalog_files" where
  "ListContexts svc fs = (case loadCatalog svc fs of (r, fs1) \<Rightarrow> (bind_result r (\<lambda>c. Ok (Contexts c)), fs1))"

definition GetCurrent :: "catalog_env \<Rightarrow> catalog_files \<Rightarrow> Context result \<times> catalog_files" where
  "GetCurrent svc fs =
     (case loadCatalog svc fs of (r, fs1) \<Rightarrow>
      (bind_result r (\<lambda>c.
         if CurrentContext c = [] then Err (NotFound (msg ''current context not set'') None)
         else case findContextIndex (Contexts c) (CurrentContext c) of
           None \<Rightarrow> Err (NotFound (''current context %q not found'', [CurrentContext c]) None)
         | Some idx \<Rightarrow> Ok (Contexts c ! idx)), fs1))"

definition resolve_in :: "config_env \<Rightarrow> ContextCatalog \<Rightarrow> string \<Rightarrow> (string, string) gomap \<Rightarrow> Context result" where
  "resolve_in env catalog selected overrides =
     (let resolved = expand_catalog (expand_env env) catalog in
      bind_result (validateCredentials (Credentials resolved)) (\<lambda>credentials.
        let effectiveName = (if selected = [] then CurrentContext resolved else selected) in
        if effectiveName = [] then Err (NotFound (msg ''current context not set'') None)
        else case findContextIndex (Contexts resolved) effectiveName of
          None \<Rightarrow> Err (NotFound (''context %q not found'', [effectiveName]) None)
        | Some idx \<Rightarrow>
            bind_result (applyOverrides overrides (normalizeConfig (Contexts resolved ! idx))) (\<lambda>cfg0.
              let cfg = applyConfigDefaults env cfg0 in
              case validateConfig env cfg credentials True of
                Some e \<Rightarrow> Err e
              | None \<Rightarrow> injectContextCredentials cfg credentials)))"

definition ResolveContext :: "catalog_env \<Rightarrow> string \<Rightarrow> (string, string) gomap \<Rightarrow> catalog_files \<Rightarrow> Context result \<times> catalog_files" where
  "ResolveContext svc selected overrides fs =
     (case loadCatalog svc fs of (r, fs1) \<Rightarrow> (bind_result r (\<lambda>c. resolve_in (ce_config svc) c selected overrides), fs1))"

definition Validate :: "catalog_env \<Rightarrow> Context \<Rightarrow> go_error option" where
  "Validate svc cfg = validateResolvedConfig (ce_config svc) (normalizeConfig cfg)"

definition GetCatalog :: "catalog_env \<Rightarrow> catalog_files \<Rightarrow> ContextCatalog result \<times> catalog_files" where
  "GetCatalog svc fs = loadCatalog svc fs"

definition ReplaceCatalog :: "catalog_env \<Rightarrow> ContextCatalog \<Rightarrow> catalog_files \<Rightarrow> go_error option \<times> catalog_files" where
  "ReplaceCatalog svc c fs = saveCatalog svc c fs"

section \<open>What is written\<close>

text \<open>The fields with the tag \<open>yaml:"-"\<close> are not written.\<close>

definition persisted_basic :: "BasicAuth \<Rightarrow> BasicAuth" where
  "persisted_basic b = b\<lparr>ba_Username := no_value, ba_Password := no_value\<rparr>"

definition persisted_proxy :: "HTTPProxy option \<Rightarrow> HTTPProxy option" where
  "persisted_proxy = map_option (\<lambda>p. p\<lparr>px_Auth := map_option (\<lambda>a. a\<lparr>pa_Basic := map_option persisted_basic (pa_Basic a)\<rparr>) (px_Auth p)\<rparr>)"

definition persisted_remote :: "GitRemote \<Rightarrow> GitRemote" where
  "persisted_remote r =
     r\<lparr>gr_Auth := map_option (\<lambda>a. a\<lparr>ga_Basic := map_option persisted_basic (ga_Basic a)\<rparr>) (gr_Auth r), gr_Proxy := persisted_proxy (gr_Proxy r)\<rparr>"

definition persisted_http :: "HTTPServer \<Rightarrow> HTTPServer" where
  "persisted_http h =
     h\<lparr>hs_Auth := map_option (\<lambda>a. a\<lparr>ha_Basic := map_option persisted_basic (ha_Basic a)\<rparr>) (hs_Auth h), hs_Proxy := persisted_proxy (hs_Proxy h),
       RequestThrottling := map_option (\<lambda>t. t\<lparr>ScopeKey := []\<rparr>) (RequestThrottling h)\<rparr>"

definition persisted_vault :: "VaultSecretStore \<Rightarrow> VaultSecretStore" where
  "persisted_vault v =
     v\<lparr>vs_Auth := map_option (\<lambda>a. a\<lparr>va_Password := map_option (\<lambda>p. p\<lparr>vu_Username := no_value, vu_Password := no_value\<rparr>) (va_Password a)\<rparr>) (vs_Auth v),
       vs_Proxy := persisted_proxy (vs_Proxy v)\<rparr>"

definition persisted_context :: "Context \<Rightarrow> Context" where
  "persisted_context cfg =
     (on_metadata (\<lambda>m. m\<lparr>md_Proxy := persisted_proxy (md_Proxy m)\<rparr>)
       (on_vault persisted_vault (on_http persisted_http (on_remote persisted_remote cfg))))\<lparr>ctx_Credentials := []\<rparr>"

definition persisted_catalog :: "ContextCatalog \<Rightarrow> ContextCatalog" where
  "persisted_catalog c = c\<lparr>Contexts := map persisted_context (Contexts c)\<rparr>"

lemma on_select [simp]:
  "ctx_Name (on_remote f cfg) = ctx_Name cfg" "ctx_Name (on_http g cfg) = ctx_Name cfg" "ctx_Name (on_vault h cfg) = ctx_Name cfg" "ctx_Name (on_metadata k cfg) = ctx_Name cfg"
  "ctx_Repository (on_remote f cfg) = (ctx_Repository cfg)\<lparr>repo_Git := map_option (\<lambda>x. x\<lparr>git_Remote := map_option f (git_Remote x)\<rparr>) (repo_Git (ctx_Repository cfg))\<rparr>"
  "ctx_Repository (on_http g cfg) = ctx_Repository cfg" "ctx_Repository (on_vault h cfg) = ctx_Repository cfg" "ctx_Repository (on_metadata k cfg) = ctx_Repository cfg"
  "ctx_ManagedService (on_remote f cfg) = ctx_ManagedService cfg" "ctx_ManagedService (on_vault h cfg) = ctx_ManagedService cfg" "ctx_ManagedService (on_metadata k cfg) = ctx_ManagedService cfg"
  "ctx_ManagedService (on_http g cfg) = map_option (\<lambda>m. m\<lparr>ms_HTTP := map_option g (ms_HTTP m)\<rparr>) (ctx_ManagedService cfg)"
  "ctx_SecretStore (on_remote f cfg) = ctx_SecretStore cfg" "ctx_SecretStore (on_http g cfg) = ctx_SecretStore cfg" "ctx_SecretStore (on_metadata k cfg) = ctx_SecretStore cfg"
  "ctx_SecretStore (on_vault h cfg) = map_option (\<lambda>s. s\<lparr>ss_Vault := map_option h (ss_Vault s)\<rparr>) (ctx_SecretStore cfg)"
  "ctx_Metadata (on_remote f cfg) = ctx_Metadata cfg" "ctx_Metadata (on_http g cfg) = ctx_Metadata cfg" "ctx_Metadata (on_vault h cfg) = ctx_Metadata cfg"
  "ctx_Metadata (on_metadata k cfg) = k (ctx_Metadata cfg)"
  by (simp_all add: on_remote_def on_http_def on_vault_def on_metadata_def)

lemma normalizeProxy_persisted [simp]: "normalizeProxy (persisted_proxy p) = normalizeProxy p"
  by (cases p) (auto simp: normalizeProxy_def persisted_proxy_def persisted_basic_def option.map_comp comp_def)

lemma validateRepository_persisted:
  "validateRepository env (ctx_Repository (normalizeConfig (persisted_context cfg))) cr strict = validateRepository env (ctx_Repository (normalizeConfig cfg)) cr strict"
  by (cases "repo_Git (ctx_Repository cfg)")
    (auto simp: normalizeConfig_def persisted_context_def validateRepository_def validate_git_def validate_git_auth_def normalize_remote_def
      persisted_remote_def persisted_basic_def normalize_basic_def option.map_comp comp_def split: option.splits)

lemma validate_http_auth_persisted:
  "validate_http_auth (a\<lparr>ha_Basic := map_option (\<lambda>x. normalize_basic (persisted_basic x)) b\<rparr>) cr strict = validate_http_auth (a\<lparr>ha_Basic := map_option normalize_basic b\<rparr>) cr strict"
  by (cases b) (simp_all add: validate_http_auth_def normalize_basic_def persisted_basic_def)

lemma validateManagedService_persisted:
  "validateManagedService env (ctx_ManagedService (normalizeConfig (persisted_context cfg))) cr strict = validateManagedService env (ctx_ManagedService (normalizeConfig cfg)) cr strict"
proof (cases "ctx_ManagedService cfg")
  case (Some m)
  show ?thesis
  proof (cases "ms_HTTP m")
    case h: (Some h)
    have "validateManagedServiceRequestThrottling (RequestThrottling (persisted_http h)) = validateManagedServiceRequestThrottling (RequestThrottling h)"
      by (cases "RequestThrottling h") (simp_all add: persisted_http_def validateManagedServiceRequestThrottling_def)
    then show ?thesis
      by (cases "hs_Auth h")
        (simp_all add: normalizeConfig_def persisted_context_def validateManagedService_def Some h normalize_http_def persisted_http_def
          validate_http_auth_persisted option.map_comp comp_def)
  qed (simp add: normalizeConfig_def persisted_context_def validateManagedService_def Some)
qed (simp add: normalizeConfig_def persisted_context_def)

lemma validateSecretStore_persisted:
  "validateSecretStore env (ctx_SecretStore (normalizeConfig (persisted_context cfg))) cr strict = validateSecretStore env (ctx_SecretStore (normalizeConfig cfg)) cr strict"
  by (cases "ctx_SecretStore cfg")
    (auto simp: normalizeConfig_def persisted_context_def validateSecretStore_def validate_vault_def normalize_vault_def
      persisted_vault_def option.map_comp comp_def split: option.splits)

lemma validateMetadata_persisted:
  "validateMetadata env (ctx_Metadata (normalizeConfig (persisted_context cfg))) = validateMetadata env (ctx_Metadata (normalizeConfig cfg))"
  by (simp add: normalizeConfig_def persisted_context_def validateMetadata_def)

text \<open>No check reads a field that is not written.\<close>

lemma validateConfig_persisted [simp]: "validateConfig env (persisted_context cfg) cr strict = validateConfig env cfg cr strict"
proof -
  have "ctx_Name (normalizeConfig (persisted_context cfg)) = ctx_Name (normalizeConfig cfg)"
    "(repo_Git (ctx_Repository (normalizeConfig (persisted_context cfg))) = None) = (repo_Git (ctx_Repository (normalizeConfig cfg)) = None)"
    "repo_Filesystem (ctx_Repository (normalizeConfig (persisted_context cfg))) = repo_Filesystem (ctx_Repository (normalizeConfig cfg))"
    "(ctx_ManagedService (normalizeConfig (persisted_context cfg)) = None) = (ctx_ManagedService (normalizeConfig cfg) = None)"
    by (simp_all add: normalizeConfig_def persisted_context_def)
  then show ?thesis
    by (simp only: validateConfig_def Let_def validateRepository_persisted validateManagedService_persisted
        validateSecretStore_persisted validateMetadata_persisted)
qed

lemma persisted_name [simp]: "ctx_Name (persisted_context cfg) = ctx_Name cfg"
  by (simp add: persisted_context_def)

lemma validateCatalog_persisted [simp]: "validateCatalog env (persisted_catalog c) = validateCatalog env c"
proof -
  have "validate_contexts env cr seen (map persisted_context cs) = validate_contexts env cr seen cs" for cr seen cs
    by (induction env cr seen cs rule: validate_contexts.induct) (auto split: option.splits)
  moreover have "ctx_Name ` set (map persisted_context cs) = ctx_Name ` set cs" for cs by (simp add: image_image)
  ultimately show ?thesis
    by (auto simp: validateCatalog_def persisted_catalog_def split: result.splits option.splits)
qed

section \<open>The file holds the catalogue\<close>

lemma ensure_owner_only [simp]:
  assumes "fs p = Some (data, owner_only)"
  shows "snd (ensureUserOnlyReadWriteFile svc p fs) = fs"
  using assms by (auto simp: ensureUserOnlyReadWriteFile_def split: option.splits)

lemma replace_catalog_file_effect:
  assumes r: "replace_catalog_file svc p encoded fs = (r, fs')" and temp: "ce_temp svc \<noteq> p"
  shows "(\<forall>q. q \<noteq> p \<and> q \<noteq> ce_temp svc \<longrightarrow> fs' q = fs q) \<and> (fs' p = Some (encoded, owner_only) \<or> r \<noteq> None \<and> fs' p = fs p)
    \<and> (ce_fault svc CatStat = None \<and> r \<noteq> None \<longrightarrow> fs' p = fs p)"
proof -
  let ?fs = "fs(ce_temp svc := None, p \<mapsto> (encoded, owner_only))"
  have e: "ensureUserOnlyReadWriteFile svc p ?fs = (r', fs'') \<Longrightarrow> fs'' = ?fs \<and> (ce_fault svc CatStat = None \<longrightarrow> r' = None)" for r' fs''
    by (auto simp: ensureUserOnlyReadWriteFile_def split: option.splits)
  show ?thesis
    using r temp
    by (auto simp: replace_catalog_file_def drop_temp_def Let_def dest!: e split: option.splits if_splits)
qed

text \<open>
  Whatever calls fail, saving leaves all files alone but the catalogue and the temporary file, and the catalogue either as
  it was or replaced as a whole by a catalogue that passed validation.
\<close>

theorem saveCatalog_atomic:
  assumes "saveCatalog svc c fs = (r, fs')" and "resolveCatalogPath svc = Ok p" and "ce_temp svc \<noteq> p"
  shows "(\<forall>q. q \<noteq> p \<and> q \<noteq> ce_temp svc \<longrightarrow> fs' q = fs q)
    \<and> (r \<noteq> None \<and> fs' p = fs p
       \<or> (\<exists>encoded. ce_encode svc (compactContextCatalogForPersistence c) = Inr encoded \<and> fs' p = Some (encoded, owner_only)
           \<and> validateResolvedCatalog (ce_config svc) (compactContextCatalogForPersistence c) = None))"
  using assms replace_catalog_file_effect[of svc p _ fs r fs']
  by (auto simp: saveCatalog_def Let_def split: option.splits sum.splits)

lemma loadCatalog_after:
  assumes "resolveCatalogPath svc = Ok p" and "\<forall>x\<in>{CatRead, CatStat, CatChmod}. ce_fault svc x = None"
  shows "fst (loadCatalog svc fs) =
    (case fs p of
       None \<Rightarrow> Ok empty_catalog
     | Some (data, perm) \<Rightarrow>
         bind_result (decodeCatalog svc data) (\<lambda>c. case validateCatalog (ce_config svc) c of Some e \<Rightarrow> Err e | None \<Rightarrow> Ok c))"
  using assms
  by (auto simp: loadCatalog_def bind_result_def ensureUserOnlyReadWriteFile_def split: option.splits result.splits)

lemma loadCatalog_keeps:
  assumes "loadCatalog svc fs = (r, fs1)" and "resolveCatalogPath svc = Ok p"
  shows "map_option fst (fs1 q) = map_option fst (fs q)"
  using assms by (auto simp: loadCatalog_def ensureUserOnlyReadWriteFile_def split: option.splits result.splits if_splits)

section \<open>Commands\<close>

datatype catalog_command =
    DoCreate Context | DoUpdate Context | DoDelete string | DoRename string string | DoSetCurrent string

fun run_command :: "catalog_env \<Rightarrow> catalog_command \<Rightarrow> catalog_files \<Rightarrow> go_error option \<times> catalog_files" where
  "run_command svc (DoCreate cfg) fs = Create svc cfg fs"
| "run_command svc (DoUpdate cfg) fs = Update svc cfg fs"
| "run_command svc (DoDelete name) fs = Delete svc name fs"
| "run_command svc (DoRename fromName toName) fs = Rename svc fromName toName fs"
| "run_command svc (DoSetCurrent name) fs = SetCurrent svc name fs"

text \<open>The commands on catalogues, without files.\<close>

fun catalog_step :: "config_env \<Rightarrow> catalog_command \<Rightarrow> ContextCatalog \<Rightarrow> ContextCatalog result" where
  "catalog_step env (DoCreate cfg) c =
     (case validateResolvedConfig env (normalizeConfig cfg) of Some e \<Rightarrow> Err e | None \<Rightarrow> create_step (normalizeConfig cfg) c)"
| "catalog_step env (DoUpdate cfg) c = update_step env (normalizeConfig cfg) c"
| "catalog_step env (DoDelete name) c = delete_step name c"
| "catalog_step env (DoRename fromName toName) c =
     (if toName = [] then Err (invalid ''context name must not be empty'') else rename_step fromName toName c)"
| "catalog_step env (DoSetCurrent name) c = set_current_step name c"

lemmas command_defs = Create_def Update_def Delete_def Rename_def SetCurrent_def edit_catalog_def Let_def

lemma run_command_Ok:
  assumes "loadCatalog svc fs = (Ok c, fs1)" and "catalog_step (ce_config svc) cmd c = Ok c'"
  shows "run_command svc cmd fs = saveCatalog svc c' fs1"
  using assms by (cases cmd) (auto simp: command_defs split: option.splits if_splits)

lemma run_command_Err:
  assumes "loadCatalog svc fs = (Ok c, fs1)" and "catalog_step (ce_config svc) cmd c = Err e"
  shows "run_command svc cmd fs \<in> {(Some e, fs), (Some e, fs1)}"
  using assms by (cases cmd) (auto simp: command_defs split: option.splits if_splits)

text \<open>C20: A command is carried out as a whole or not at all: if it returns no error, the catalogue that is read afterwards is the
  result of the command on the catalogue before, compacted; and if it returns an error, it is the catalogue before.
\<close>

theorem service_refines_catalog:
  assumes path: "resolveCatalogPath svc = Ok p" "ce_temp svc \<noteq> p"
    and reads: "\<forall>x\<in>{CatRead, CatStat, CatChmod}. ce_fault svc x = None"
    and before: "fst (loadCatalog svc fs) = Ok c"
    and run: "run_command svc cmd fs = (r, fs')"
    and codec: "\<And>c' encoded. catalog_step (ce_config svc) cmd c = Ok c' \<Longrightarrow> ce_encode svc (compactContextCatalogForPersistence c') = Inr encoded \<Longrightarrow>
      ce_decode svc encoded = Inr (persisted_catalog (compactContextCatalogForPersistence c'))"
    and plain: "\<And>c'. catalog_step (ce_config svc) cmd c = Ok c' \<Longrightarrow>
      expand_catalog (expand_env (ce_config svc)) (compactContextCatalogForPersistence c') = compactContextCatalogForPersistence c'"
  shows "case r of
      None \<Rightarrow> \<exists>c'. catalog_step (ce_config svc) cmd c = Ok c'
        \<and> fst (loadCatalog svc fs') = Ok (persisted_catalog (compactContextCatalogForPersistence c'))
    | Some e \<Rightarrow> fst (loadCatalog svc fs') = Ok c"
proof -
  obtain fs1 where l: "loadCatalog svc fs = (Ok c, fs1)" using before by (metis prod.collapse)
  have same: "fst (loadCatalog svc fs'') = Ok c" if "map_option fst (fs'' p) = map_option fst (fs p)" for fs''
    using that before by (auto simp: loadCatalog_after[OF path(1) reads] split: option.splits)
  have keep: "map_option fst (fs1 p) = map_option fst (fs p)" by (rule loadCatalog_keeps[OF l path(1)])
  show ?thesis
  proof (cases "catalog_step (ce_config svc) cmd c")
    case (Err e)
    then have "r = Some e" "fs' = fs \<or> fs' = fs1"
      using run run_command_Err[OF l Err] by auto
    then show ?thesis using same[of fs] same[of fs1, OF keep] by auto
  next
    case (Ok c')
    then have save: "saveCatalog svc c' fs1 = (r, fs')" using run run_command_Ok[OF l] by simp
    let ?c = "compactContextCatalogForPersistence c'"
    show ?thesis
    proof (cases r)
      case None
      obtain encoded where e: "ce_encode svc ?c = Inr encoded" "fs' p = Some (encoded, owner_only)"
        "validateResolvedCatalog (ce_config svc) ?c = None"
        using saveCatalog_atomic[OF save path] None by auto
      have "validateCatalog (ce_config svc) ?c = None" using e(3) plain[OF Ok] by (simp add: validateResolvedCatalog_def)
      then have "fst (loadCatalog svc fs') = Ok (persisted_catalog ?c)"
        by (simp add: loadCatalog_after[OF path(1) reads] e(2) decodeCatalog_def codec[OF Ok e(1)] bind_result_def)
      then show ?thesis using Ok None by simp
    next
      case (Some e)
      have "fs' p = fs1 p"
        using save Some reads replace_catalog_file_effect[of svc p _ fs1 "Some e" fs', OF _ path(2)]
        by (auto simp: saveCatalog_def Let_def path(1) split: option.splits sum.splits)
      then show ?thesis using same[of fs'] keep Some by simp
    qed
  qed
qed

section \<open>What the commands do to a catalogue\<close>

definition catalog_ok :: "ContextCatalog \<Rightarrow> bool" where
  "catalog_ok c \<longleftrightarrow>
     distinct (map ctx_Name (Contexts c)) \<and> [] \<notin> set (map ctx_Name (Contexts c))
     \<and> (if Contexts c = [] then CurrentContext c = [] else CurrentContext c \<in> set (map ctx_Name (Contexts c)))"

definition context_named :: "ContextCatalog \<Rightarrow> string \<Rightarrow> Context option" where
  "context_named c name = find (\<lambda>x. ctx_Name x = name) (Contexts c)"

fun touched :: "catalog_command \<Rightarrow> string set" where
  "touched (DoCreate cfg) = {ctx_Name cfg}"
| "touched (DoUpdate cfg) = {ctx_Name cfg}"
| "touched (DoDelete name) = {name}"
| "touched (DoRename fromName toName) = {fromName, toName}"
| "touched (DoSetCurrent name) = {}"

lemma validate_contexts_names:
  "validate_contexts env cr seen cs = None \<Longrightarrow> distinct (map ctx_Name cs) \<and> [] \<notin> ctx_Name ` set cs \<and> set seen \<inter> ctx_Name ` set cs = {}"
  by (induction env cr seen cs rule: validate_contexts.induct) (auto split: if_splits option.splits)

lemma validateCatalog_ok: "validateCatalog env c = None \<Longrightarrow> catalog_ok c"
  by (auto simp: validateCatalog_def catalog_ok_def ensure_def split: result.splits option.splits if_splits dest: validate_contexts_names)

lemma findContextIndex_None: "findContextIndex cs name = None \<longleftrightarrow> name \<notin> ctx_Name ` set cs"
  by (induction cs) auto

lemma findContextIndex_Some:
  "findContextIndex cs name = Some i \<Longrightarrow> i < length cs \<and> ctx_Name (cs ! i) = name \<and> name \<notin> ctx_Name ` set (take i cs)"
proof (induction cs arbitrary: i)
  case (Cons c cs)
  then show ?case by (cases i) (auto split: if_splits)
qed simp

lemma find_update_other:
  "i < length cs \<Longrightarrow> ctx_Name (cs ! i) \<noteq> n \<Longrightarrow> ctx_Name x \<noteq> n \<Longrightarrow>
    find (\<lambda>y. ctx_Name y = n) (cs[i := x]) = find (\<lambda>y. ctx_Name y = n) cs"
proof (induction cs arbitrary: i)
  case (Cons c cs)
  then show ?case by (cases i) auto
qed simp

lemma find_drop_other:
  "i < length cs \<Longrightarrow> ctx_Name (cs ! i) \<noteq> n \<Longrightarrow>
    find (\<lambda>y. ctx_Name y = n) (take i cs @ drop (Suc i) cs) = find (\<lambda>y. ctx_Name y = n) cs"
proof (induction cs arbitrary: i)
  case (Cons c cs)
  then show ?case by (cases i) auto
qed simp

lemma find_append: "find P (xs @ ys) = (case find P xs of Some x \<Rightarrow> Some x | None \<Rightarrow> find P ys)"
  by (induction xs) auto

lemma mergeContextCredentials_keeps:
  assumes "mergeContextCredentials c cr = Ok c'"
  shows "Contexts c' = Contexts c \<and> CurrentContext c' = CurrentContext c"
proof -
  have "merge_credentials items index c = Ok c' \<Longrightarrow> Contexts c' = Contexts c \<and> CurrentContext c' = CurrentContext c" for items index c
    by (induction items index c rule: merge_credentials.induct) (auto simp: Let_def split: result.splits option.splits if_splits)
  then show ?thesis using assms by (auto simp: mergeContextCredentials_def split: if_splits result.splits)
qed

lemma set_proxy_name [simp]: "ctx_Name (set_proxy t p cfg) = ctx_Name cfg"
  by (cases t) auto

lemma normalizeConfig_name [simp]: "ctx_Name (normalizeConfig cfg) = ctx_Name cfg"
  by (simp add: normalizeConfig_def)

lemma preserveProxyOmissions_name [simp]: "ctx_Name (preserveProxyOmissions cfg baseline) = ctx_Name cfg"
proof -
  have "ctx_Name (omit_targets canonical baseline ts cfg) = ctx_Name cfg" for canonical ts cfg
    by (induction canonical baseline ts cfg rule: omit_targets.induct) (simp add: Let_def)+
  then show ?thesis by (simp add: preserveProxyOmissions_def Let_def)
qed

lemma names_update: "i < length cs \<Longrightarrow> ctx_Name x = ctx_Name (cs ! i) \<Longrightarrow> map ctx_Name (cs[i := x]) = map ctx_Name cs"
  by (metis list_update_id map_update nth_map)

lemma create_step_sound:
  assumes ok: "catalog_ok c" and name: "ctx_Name cfg \<noteq> []" and step: "create_step cfg c = Ok c'"
  shows "catalog_ok c' \<and> (\<forall>n. n \<noteq> ctx_Name cfg \<longrightarrow> context_named c' n = context_named c n) \<and> context_named c' (ctx_Name cfg) = Some cfg"
proof -
  have new: "ctx_Name cfg \<notin> ctx_Name ` set (Contexts c)"
    using step by (auto simp: create_step_def findContextIndex_None split: if_splits)
  obtain c1 where m: "mergeContextCredentials c (ctx_Credentials cfg) = Ok c1"
    "c' = (if CurrentContext c1 = [] then c1\<lparr>Contexts := Contexts c1 @ [cfg], CurrentContext := ctx_Name cfg\<rparr> else c1\<lparr>Contexts := Contexts c1 @ [cfg]\<rparr>)"
    using step by (auto simp: create_step_def bind_result_def Let_def split: if_splits result.splits)
  note k = mergeContextCredentials_keeps[OF m(1)]
  have "find (\<lambda>x. ctx_Name x = ctx_Name cfg) (Contexts c) = None" using new unfolding find_None_iff by (metis image_eqI)
  then show ?thesis
    using ok new name k by (auto simp: m(2) catalog_ok_def context_named_def find_append split: if_splits option.splits)
qed

lemma update_step_sound:
  assumes ok: "catalog_ok c" and step: "update_step env cfg c = Ok c'"
  shows "catalog_ok c' \<and> (\<forall>n. n \<noteq> ctx_Name cfg \<longrightarrow> context_named c' n = context_named c n)"
proof -
  obtain i where u1: "findContextIndex (Contexts c) (ctx_Name cfg) = Some i"
    using step by (auto simp: update_step_def split: option.splits)
  define cfg' where "cfg' = preserveProxyOmissions cfg (normalizeConfig (Contexts c ! i))"
  obtain c1 where u: "findContextIndex (Contexts c) (ctx_Name cfg) = Some i" "ctx_Name cfg' = ctx_Name cfg"
    "mergeContextCredentials c (ctx_Credentials cfg') = Ok c1" "c' = c1\<lparr>Contexts := (Contexts c1)[i := cfg']\<rparr>"
    using step by (auto simp: update_step_def bind_result_def Let_def u1 cfg'_def split: option.splits result.splits)
  note k = mergeContextCredentials_keeps[OF u(3)] and i = findContextIndex_Some[OF u(1)]
  have "map ctx_Name (Contexts c') = map ctx_Name (Contexts c)" using names_update[of i "Contexts c" cfg'] i u(2) by (simp add: u(4) k)
  moreover have "(Contexts c' = []) = (Contexts c = [])" "CurrentContext c' = CurrentContext c" by (simp_all add: u(4) k)
  ultimately have "catalog_ok c'" using ok unfolding catalog_ok_def by metis
  then show ?thesis using i u(2) by (auto simp: u(4) k context_named_def find_update_other)
qed

lemma delete_step_sound:
  assumes ok: "catalog_ok c" and step: "delete_step name c = Ok c'"
  shows "catalog_ok c' \<and> (\<forall>n. n \<noteq> name \<longrightarrow> context_named c' n = context_named c n) \<and> context_named c' name = None"
proof -
  obtain i where i: "findContextIndex (Contexts c) name = Some i" using step by (auto simp: delete_step_def split: option.splits)
  note s = findContextIndex_Some[OF i]
  define rest where "rest = take i (Contexts c) @ drop (Suc i) (Contexts c)"
  have cs: "Contexts c = take i (Contexts c) @ Contexts c ! i # drop (Suc i) (Contexts c)" using s by (simp add: id_take_nth_drop)
  have c': "Contexts c' = rest" "CurrentContext c' = (if CurrentContext c = name then if length rest = 0 then [] else ctx_Name (rest ! 0) else CurrentContext c)"
    using step by (auto simp: delete_step_def i Let_def rest_def[symmetric] split: if_splits)
  have d: "distinct (map ctx_Name (take i (Contexts c) @ Contexts c ! i # drop (Suc i) (Contexts c)))" using ok cs by (metis catalog_ok_def)
  then have dn: "distinct (map ctx_Name rest)" "name \<notin> ctx_Name ` set rest" using s by (auto simp: rest_def)
  have sub: "ctx_Name ` set (Contexts c) = insert name (ctx_Name ` set rest)" using s by (subst cs) (auto simp: rest_def)
  have "catalog_ok c'"
  proof (cases "rest = []")
    case True
    have "Contexts c \<noteq> []" using s by auto
    then have "CurrentContext c \<in> ctx_Name ` set (Contexts c)" using ok by (simp add: catalog_ok_def)
    then have "CurrentContext c = name" using True unfolding sub by simp
    then show ?thesis using True by (simp add: catalog_ok_def c')
  next
    case False
    have "ctx_Name (rest ! 0) \<in> ctx_Name ` set rest" using False by (intro imageI nth_mem) simp
    moreover have "Contexts c \<noteq> []" using s by auto
    then have "CurrentContext c \<in> insert name (ctx_Name ` set rest)" "[] \<notin> ctx_Name ` set rest" using ok sub by (auto simp: catalog_ok_def)
    ultimately show ?thesis using dn(1) False by (auto simp: catalog_ok_def c')
  qed
  moreover have "context_named c' name = None" using dn(2) unfolding context_named_def c' find_None_iff by (metis image_eqI)
  ultimately show ?thesis using s by (auto simp: context_named_def c' find_drop_other rest_def)
qed

lemma rename_step_sound:
  assumes ok: "catalog_ok c" and new: "toName \<noteq> []" and step: "rename_step fromName toName c = Ok c'"
  shows "catalog_ok c' \<and> (\<forall>n. n \<notin> {fromName, toName} \<longrightarrow> context_named c' n = context_named c n)"
proof -
  obtain i where i: "findContextIndex (Contexts c) fromName = Some i" using step by (auto simp: rename_step_def split: option.splits)
  note s = findContextIndex_Some[OF i]
  have fresh: "toName \<notin> ctx_Name ` set (Contexts c)"
    using step i by (auto simp: rename_step_def findContextIndex_None split: if_splits)
  define cs where "cs = (Contexts c)[i := (Contexts c ! i)\<lparr>ctx_Name := toName\<rparr>]"
  have c': "Contexts c' = cs" "CurrentContext c' = (if CurrentContext c = fromName then toName else CurrentContext c)"
    using step by (auto simp: rename_step_def i Let_def cs_def[symmetric] split: if_splits)
  have names: "map ctx_Name cs = (map ctx_Name (Contexts c))[i := toName]" by (simp add: cs_def map_update)
  let ?ns = "map ctx_Name (Contexts c)"
  have d: "distinct ?ns" "[] \<notin> set ?ns" "toName \<notin> set ?ns" "i < length ?ns" "?ns ! i = fromName" using ok fresh s by (auto simp: catalog_ok_def)
  have nd: "distinct (?ns[i := toName])" using d by (simp add: distinct_list_update)
  have st: "set (?ns[i := toName]) = insert toName (set ?ns - {fromName})" using d by (metis set_update_distinct)
  have "Contexts c \<noteq> []" using s by auto
  then have "catalog_ok c'"
    using ok nd st d(2) new names by (auto simp: catalog_ok_def c' simp flip: set_map)
  then show ?thesis using s by (auto simp: context_named_def c' cs_def find_update_other)
qed

text \<open>C34: Every command keeps the names of the catalogue distinct and nonempty and the current context among them, and leaves all
  contexts alone but those it names.
\<close>

theorem commands_keep_catalog:
  assumes "catalog_ok c" and "catalog_step env cmd c = Ok c'"
  shows "catalog_ok c' \<and> (\<forall>n. n \<notin> touched cmd \<longrightarrow> context_named c' n = context_named c n)"
proof (cases cmd)
  case (DoCreate cfg)
  then have v: "validateResolvedConfig env (normalizeConfig cfg) = None" "create_step (normalizeConfig cfg) c = Ok c'"
    using assms(2) by (auto split: option.splits)
  show ?thesis
  proof (cases "ctx_Name cfg = []")
    case True
    have "expand_env env [] = []" by (simp add: expand_env_def expand_string_def resolvePlaceholder_def exactPlaceholderPattern_def)
    then have "validateResolvedConfig env (normalizeConfig cfg) \<noteq> None"
      using True by (simp add: validateResolvedConfig_def validateConfig_def Let_def ensure_def expand_context_def)
    then show ?thesis using v by simp
  qed (use create_step_sound[OF assms(1) _ v(2)] DoCreate in auto)
next
  case (DoUpdate cfg)
  then show ?thesis using update_step_sound[OF assms(1)] assms(2) by auto
next
  case (DoDelete name)
  then show ?thesis using delete_step_sound[OF assms(1)] assms(2) by auto
next
  case (DoRename fromName toName)
  then show ?thesis using rename_step_sound[OF assms(1)] assms(2) by (auto split: if_splits)
next
  case (DoSetCurrent name)
  then show ?thesis
    using assms by (auto simp: set_current_step_def findContextIndex_None catalog_ok_def context_named_def split: if_splits)
qed

section \<open>Credentials of a resolved context\<close>

definition proxy_basics :: "HTTPProxy option \<Rightarrow> BasicAuth list" where
  "proxy_basics proxy = (case proxy of None \<Rightarrow> [] | Some p \<Rightarrow> (case px_Auth p of None \<Rightarrow> [] | Some a \<Rightarrow> (case pa_Basic a of None \<Rightarrow> [] | Some b \<Rightarrow> [b])))"

definition remote_basics :: "GitRemote \<Rightarrow> BasicAuth list" where
  "remote_basics r = (case gr_Auth r of None \<Rightarrow> [] | Some a \<Rightarrow> (case ga_Basic a of None \<Rightarrow> [] | Some b \<Rightarrow> [b])) @ proxy_basics (gr_Proxy r)"

definition http_basics :: "HTTPServer \<Rightarrow> BasicAuth list" where
  "http_basics h = (case hs_Auth h of None \<Rightarrow> [] | Some a \<Rightarrow> (case ha_Basic a of None \<Rightarrow> [] | Some b \<Rightarrow> [b])) @ proxy_basics (hs_Proxy h)"

text \<open>All user names and passwords of a context with the credentials they are taken from; a vault's as well.\<close>

definition vault_basics :: "VaultSecretStore \<Rightarrow> BasicAuth list" where
  "vault_basics v =
     (case vs_Auth v of None \<Rightarrow> [] | Some a \<Rightarrow> (case va_Password a of None \<Rightarrow> []
        | Some p \<Rightarrow> [\<lparr>ba_CredentialsRef = vu_CredentialsRef p, ba_Username = vu_Username p, ba_Password = vu_Password p\<rparr>]))
     @ proxy_basics (vs_Proxy v)"

definition option_list :: "('a \<Rightarrow> 'b list) \<Rightarrow> 'a option \<Rightarrow> 'b list" where
  "option_list f x = (case x of None \<Rightarrow> [] | Some a \<Rightarrow> f a)"

definition context_basics :: "Context \<Rightarrow> BasicAuth list" where
  "context_basics cfg =
     option_list remote_basics (config_remote cfg) @ option_list http_basics (config_http cfg)
     @ option_list vault_basics (config_vault cfg) @ proxy_basics (md_Proxy (ctx_Metadata cfg))"

definition taken_from :: "(string, Credential) gomap \<Rightarrow> BasicAuth \<Rightarrow> bool" where
  "taken_from cr b \<longleftrightarrow> (\<exists>item. map_get cr (CredentialName b) = Some item \<and> ba_Username b = cred_Username item \<and> ba_Password b = cred_Password item)"

lemma on_option_Ok: "on_option f x = Ok y \<longleftrightarrow> (case x of None \<Rightarrow> y = None | Some a \<Rightarrow> (\<exists>b. f a = Ok b \<and> y = Some b))"
  by (auto simp: on_option_def split: option.splits result.splits)

lemma bind_result_Ok: "bind_result r f = Ok y \<longleftrightarrow> (\<exists>x. r = Ok x \<and> f x = Ok y)"
  by (auto simp: bind_result_def split: result.splits)

lemma injectBasicCredentials_taken: "injectBasicCredentials field cr b = Ok b' \<Longrightarrow> taken_from cr b'"
  by (auto simp: injectBasicCredentials_def referencedCredential_def taken_from_def CredentialName_def split: result.splits if_splits option.splits)

lemma injectProxyCredentials_taken: "injectProxyCredentials field cr p = Ok p' \<Longrightarrow> \<forall>b\<in>set (proxy_basics p'). taken_from cr b"
  by (auto simp: injectProxyCredentials_def on_option_Ok bind_result_Ok proxy_basics_def injectBasicCredentials_taken split: option.splits)

lemma inject_remote_taken: "inject_remote cr r = Ok r' \<Longrightarrow> \<forall>b\<in>set (remote_basics r'). taken_from cr b"
  by (auto simp: inject_remote_def on_option_Ok bind_result_Ok remote_basics_def injectBasicCredentials_taken injectProxyCredentials_taken split: option.splits)

lemma inject_http_taken: "inject_http cr h = Ok h' \<Longrightarrow> \<forall>b\<in>set (http_basics h'). taken_from cr b"
  by (auto simp: inject_http_def on_option_Ok bind_result_Ok http_basics_def injectBasicCredentials_taken injectProxyCredentials_taken split: option.splits)

lemma injectVault_taken:
  "injectVaultUserPasswordCredentials field cr p = Ok p' \<Longrightarrow>
    taken_from cr \<lparr>ba_CredentialsRef = vu_CredentialsRef p', ba_Username = vu_Username p', ba_Password = vu_Password p'\<rparr>"
  by (auto simp: injectVaultUserPasswordCredentials_def referencedCredential_def taken_from_def CredentialName_def split: result.splits if_splits option.splits)

lemma inject_vault_taken: "inject_vault cr v = Ok v' \<Longrightarrow> \<forall>b\<in>set (vault_basics v'). taken_from cr b"
  by (auto simp: inject_vault_def on_option_Ok bind_result_Ok vault_basics_def injectVault_taken injectProxyCredentials_taken split: option.splits)

lemma injectContextCredentials_taken:
  assumes "injectContextCredentials cfg cr = Ok cfg'"
  shows "\<forall>b\<in>set (context_basics cfg'). taken_from cr b"
proof -
  from assms obtain git service store p where i:
    "on_option (\<lambda>g. bind_result (on_option (inject_remote cr) (git_Remote g)) (\<lambda>r. Ok (g\<lparr>git_Remote := r\<rparr>))) (repo_Git (ctx_Repository cfg)) = Ok git"
    "on_option (\<lambda>m. bind_result (on_option (inject_http cr) (ms_HTTP m)) (\<lambda>h. Ok (m\<lparr>ms_HTTP := h\<rparr>))) (ctx_ManagedService cfg) = Ok service"
    "on_option (\<lambda>s. bind_result (on_option (inject_vault cr) (ss_Vault s)) (\<lambda>v. Ok (s\<lparr>ss_Vault := v\<rparr>))) (ctx_SecretStore cfg) = Ok store"
    "injectProxyCredentials ''metadata.proxy.auth.basic.credentialsRef'' cr (md_Proxy (ctx_Metadata cfg)) = Ok p"
    and cfg': "cfg' = cfg\<lparr>ctx_Repository := (ctx_Repository cfg)\<lparr>repo_Git := git\<rparr>, ctx_ManagedService := service,
      ctx_SecretStore := store, ctx_Metadata := (ctx_Metadata cfg)\<lparr>md_Proxy := p\<rparr>\<rparr>"
    unfolding injectContextCredentials_def bind_result_Ok by blast
  have "\<forall>b\<in>set (option_list remote_basics (config_remote cfg')). taken_from cr b"
    using i(1) by (auto simp: cfg' config_remote_def option_list_def on_option_Ok bind_result_Ok inject_remote_taken split: option.splits)
  moreover have "\<forall>b\<in>set (option_list http_basics (config_http cfg')). taken_from cr b"
    using i(2) by (auto simp: cfg' config_http_def option_list_def on_option_Ok bind_result_Ok inject_http_taken split: option.splits)
  moreover have "\<forall>b\<in>set (option_list vault_basics (config_vault cfg')). taken_from cr b"
    using i(3) by (auto simp: cfg' config_vault_def option_list_def on_option_Ok bind_result_Ok inject_vault_taken split: option.splits)
  moreover have "\<forall>b\<in>set (proxy_basics (md_Proxy (ctx_Metadata cfg'))). taken_from cr b"
    using injectProxyCredentials_taken[OF i(4)] by (simp add: cfg')
  ultimately show ?thesis by (auto simp: context_basics_def)
qed

definition usable :: "CredentialValue \<Rightarrow> bool" where
  "usable v = (case cv_Prompt v of None \<Rightarrow> Literal v \<noteq> [] | Some p \<Rightarrow> cp_Prompt p)"

lemma validateCredentialValue_usable: "validateCredentialValue field v = None \<longleftrightarrow> usable v"
  by (auto simp: validateCredentialValue_def usable_def ensure_def split: option.splits)

lemma validate_credentials_from_entries:
  assumes "validate_credentials_from idx index items = Ok index'"
    and "\<forall>n x. map_get index n = Some x \<longrightarrow> P n x"
    and "\<forall>x\<in>set items. usable (cred_Username x) \<and> usable (cred_Password x) \<longrightarrow> P (trim_space (cred_Name x)) (x\<lparr>cred_Name := trim_space (cred_Name x)\<rparr>)"
  shows "\<forall>n x. map_get index' n = Some x \<longrightarrow> P n x"
  using assms
proof (induction idx index items rule: validate_credentials_from.induct)
  case (2 idx index item items)
  let ?n = "trim_space (cred_Name item)"
  from "2.prems"(1) have ok: "?n \<noteq> []" "map_get index ?n = None" "usable (cred_Username item)" "usable (cred_Password item)"
    "validate_credentials_from (Suc idx) (map_put ?n (item\<lparr>cred_Name := ?n\<rparr>) index) items = Ok index'"
    by (auto simp: Let_def validateCredentialValue_usable split: if_splits option.splits)
  show ?case
    using "2.prems" ok by (intro "2.IH"[OF refl refl]) (auto simp: validateCredentialValue_usable split: option.splits)
qed simp

text \<open>In a resolved context every user name and password is that of the credential it refers to, and is usable: a
  nonempty text or a prompt.
\<close>

theorem resolved_credentials_usable:
  assumes "resolve_in env catalog selected overrides = Ok cfg" and "b \<in> set (context_basics cfg)"
  shows "usable (ba_Username b) \<and> usable (ba_Password b)
    \<and> (\<exists>item\<in>set (Credentials (expand_catalog (expand_env env) catalog)).
         trim_space (cred_Name item) = CredentialName b \<and> ba_Username b = cred_Username item \<and> ba_Password b = cred_Password item)"
proof -
  let ?items = "Credentials (expand_catalog (expand_env env) catalog)"
  obtain cr cfg0 where cr: "validateCredentials ?items = Ok cr" "injectContextCredentials cfg0 cr = Ok cfg"
    using assms(1) by (auto simp: resolve_in_def bind_result_Ok Let_def split: if_splits option.splits)
  then obtain item where item: "map_get cr (CredentialName b) = Some item" "ba_Username b = cred_Username item" "ba_Password b = cred_Password item"
    using injectContextCredentials_taken[OF cr(2)] assms(2) by (auto simp: taken_from_def)
  have "\<forall>n x. map_get cr n = Some x \<longrightarrow> usable (cred_Username x) \<and> usable (cred_Password x)
      \<and> (\<exists>y\<in>set ?items. trim_space (cred_Name y) = n \<and> cred_Username x = cred_Username y \<and> cred_Password x = cred_Password y)"
    by (rule validate_credentials_from_entries[OF cr(1)[unfolded validateCredentials_def]]) auto
  then show ?thesis using item by auto
qed

section \<open>Compaction\<close>

definition with_base_dir :: "string \<Rightarrow> Context \<Rightarrow> Context" where
  "with_base_dir d cfg = on_metadata (\<lambda>m. m\<lparr>md_BaseDir := d\<rparr>) cfg"

lemma get_proxy_base [simp]: "get_proxy t (with_base_dir d cfg) = get_proxy t cfg"
  by (cases t) (auto simp: with_base_dir_def config_http_def config_remote_def config_vault_def)

lemma set_proxy_base [simp]: "set_proxy t p (with_base_dir d cfg) = with_base_dir d (set_proxy t p cfg)"
  by (cases t) (auto simp: with_base_dir_def on_remote_def on_http_def on_vault_def on_metadata_def)

lemma buildProxyTargets_base [simp]: "buildProxyTargets (with_base_dir d cfg) = buildProxyTargets cfg"
  by (simp add: buildProxyTargets_def with_base_dir_def config_http_def config_remote_def config_vault_def)

lemma merge_targets_base:
  "merge_targets env e ts acc (with_base_dir d cfg) = apsnd (with_base_dir d) (merge_targets env e ts acc cfg)"
proof (induction ts arbitrary: acc cfg)
  case Nil
  then show ?case by (cases acc) simp
next
  case (Cons t ts)
  then show ?case by (cases acc) (simp add: Let_def)
qed

lemma inherit_targets_base: "inherit_targets p ts (with_base_dir d cfg) = with_base_dir d (inherit_targets p ts cfg)"
  by (induction ts arbitrary: cfg) auto

lemma applyProxyDefaults_base: "applyProxyDefaults env (with_base_dir d cfg) = with_base_dir d (applyProxyDefaults env cfg)"
  by (simp add: applyProxyDefaults_def Let_def merge_targets_base inherit_targets_base apsnd_def split: prod.splits)

lemma normalizeConfig_base: "normalizeConfig (with_base_dir d cfg) = with_base_dir d (normalizeConfig cfg)"
  by (simp add: normalizeConfig_def with_base_dir_def on_remote_def on_http_def on_vault_def on_metadata_def)

lemma base_dir_of [simp]:
  "md_BaseDir (ctx_Metadata (with_base_dir d cfg)) = d" "md_Bundle (ctx_Metadata (with_base_dir d cfg)) = md_Bundle (ctx_Metadata cfg)"
  "md_BundleFile (ctx_Metadata (with_base_dir d cfg)) = md_BundleFile (ctx_Metadata cfg)" "with_base_dir x (with_base_dir d cfg) = with_base_dir x cfg"
  "ContextRepositoryBaseDir (with_base_dir d cfg) = ContextRepositoryBaseDir cfg"
  by (simp_all add: with_base_dir_def on_metadata_def ContextRepositoryBaseDir_def split: option.split)

lemma normalizeConfig_parts [simp]:
  "md_BaseDir (ctx_Metadata (normalizeConfig cfg)) = md_BaseDir (ctx_Metadata cfg)" "md_Bundle (ctx_Metadata (normalizeConfig cfg)) = md_Bundle (ctx_Metadata cfg)"
  "md_BundleFile (ctx_Metadata (normalizeConfig cfg)) = md_BundleFile (ctx_Metadata cfg)"
  "ContextRepositoryBaseDir (normalizeConfig cfg) = ContextRepositoryBaseDir cfg"
  by (auto simp: normalizeConfig_def ContextRepositoryBaseDir_def split: option.splits)

lemma with_own_base: "with_base_dir (md_BaseDir (ctx_Metadata cfg)) cfg = cfg"
  by (simp add: with_base_dir_def on_metadata_def)

lemma set_proxy_base_dir [simp]: "md_BaseDir (ctx_Metadata (set_proxy t p cfg)) = md_BaseDir (ctx_Metadata cfg)"
  by (cases t) (auto simp: on_remote_def on_http_def on_vault_def on_metadata_def)

lemma applyProxyDefaults_base_dir [simp]: "md_BaseDir (ctx_Metadata (applyProxyDefaults env cfg)) = md_BaseDir (ctx_Metadata cfg)"
  by (metis applyProxyDefaults_base base_dir_of(1) with_own_base)

text \<open>The directory that the metadata of a context comes from once the defaults are applied.\<close>

definition effective_base_dir :: "Context \<Rightarrow> string" where
  "effective_base_dir cfg =
     (let m = ctx_Metadata cfg in
      if trim_space (md_Bundle m) = [] \<and> trim_space (md_BundleFile m) = [] \<and> md_BaseDir m = [] then ContextRepositoryBaseDir cfg else md_BaseDir m)"

lemma applyConfigDefaults_base: "applyConfigDefaults env cfg = with_base_dir (effective_base_dir cfg) (applyProxyDefaults env (normalizeConfig cfg))"
proof -
  have "applyConfigDefaults env cfg = applyProxyDefaults env (with_base_dir (effective_base_dir cfg) (normalizeConfig cfg))"
    using with_own_base[of "normalizeConfig cfg"]
    by (auto simp: applyConfigDefaults_def effective_base_dir_def Let_def simp flip: with_base_dir_def)
  then show ?thesis by (simp add: applyProxyDefaults_base)
qed

text \<open>Compacting loses nothing that the defaults do not bring back: the resolved context is the same but for the spelling of
  the directory of its metadata, which stays the same directory.
\<close>

theorem compaction_lossless:
  assumes "validateMetadata env (ctx_Metadata cfg) = None"
  shows "\<exists>d d'. applyConfigDefaults env (CompactContext cfg) = with_base_dir d' (applyConfigDefaults env cfg)
    \<and> d = md_BaseDir (ctx_Metadata (applyConfigDefaults env cfg))
    \<and> (normalizeContextBaseDir d' = normalizeContextBaseDir d \<or> trim_space d = [] \<and> d' = [])"
proof -
  let ?m = "ctx_Metadata cfg"
  let ?c = "CompactContext cfg"
  obtain x where c: "?c = with_base_dir x cfg" "x = md_BaseDir ?m \<or> x = []"
    unfolding CompactContext_def Let_def with_base_dir_def[symmetric] using with_own_base[of cfg] by metis
  have "applyConfigDefaults env ?c = with_base_dir (effective_base_dir ?c) (applyConfigDefaults env cfg)"
    by (simp add: applyConfigDefaults_base c normalizeConfig_base applyProxyDefaults_base)
  moreover have "md_BaseDir (ctx_Metadata (applyConfigDefaults env cfg)) = effective_base_dir cfg" by (simp add: applyConfigDefaults_base)
  moreover have "normalizeContextBaseDir (effective_base_dir ?c) = normalizeContextBaseDir (effective_base_dir cfg)
      \<or> trim_space (effective_base_dir cfg) = [] \<and> effective_base_dir ?c = []"
  proof (cases "trim_space (md_Bundle ?m) = [] \<and> trim_space (md_BundleFile ?m) = []")
    case True
    then show ?thesis
      by (auto simp: effective_base_dir_def CompactContext_def Let_def metadataUsesDefaultBaseDir_def simp flip: with_base_dir_def)
  next
    case False
    then have "trim_space (md_BaseDir ?m) = []"
      using assms by (auto simp: validateMetadata_def count_set_def ensure_def split: if_splits option.splits)
    then show ?thesis using False by (auto simp: effective_base_dir_def CompactContext_def Let_def simp flip: with_base_dir_def)
  qed
  ultimately show ?thesis by metis
qed

section \<open>Examples\<close>

definition plain_config_env :: config_env where
  "plain_config_env =
     \<lparr>Getenv = (\<lambda>v. if v = ''CTX'' then ''dev'' else []), url_Parse = (\<lambda>s. Inl (PlainError (msg ''no url'') None)),
      url_String = (\<lambda>u. []), unicode_lower = (\<lambda>s. s)\<rparr>"

definition no_metadata :: ConfigMetadata where
  "no_metadata = \<lparr>md_BaseDir = [], md_Bundle = [], md_BundleFile = [], md_Proxy = None\<rparr>"

definition files_context :: "string \<Rightarrow> ConfigMetadata \<Rightarrow> Context" where
  "files_context name m =
     \<lparr>ctx_Name = name, ctx_Repository = \<lparr>repo_Git = None, repo_Filesystem = Some \<lparr>fs_BaseDir = ''/work''\<rparr>\<rparr>, ctx_ManagedService = None,
      ctx_SecretStore = None, ctx_Metadata = m, ctx_Preferences = [], ctx_Credentials = []\<rparr>"

definition example_catalog :: "string list \<Rightarrow> string \<Rightarrow> ContextCatalog" where
  "example_catalog names current =
     \<lparr>Contexts = map (\<lambda>n. files_context n no_metadata) names, CurrentContext = current, DefaultEditor = [], Credentials = []\<rparr>"

text \<open>A service that decodes \<open>A\<close> and \<open>B\<close> to two given catalogues and encodes everything as \<open>B\<close>.\<close>

definition example_service :: "ContextCatalog \<Rightarrow> ContextCatalog \<Rightarrow> catalog_env" where
  "example_service a b =
     \<lparr>ce_config = plain_config_env, ce_path = ''/c'', ce_home = ''/h'', ce_fault = (\<lambda>x. None), ce_temp = ''/t'',
      ce_encode = (\<lambda>c. Inr ''B''), ce_decode = (\<lambda>s. Inr (if s = ''A'' then a else b))\<rparr>"

lemma example_catalog_path: "resolveCatalogPath (example_service a b) = Ok ''/c''"
proof -
  have "path_clean ''/c'' = ''/c''" by code_simp
  then show ?thesis by (simp add: resolveCatalogPath_def example_service_def Let_def)
qed

lemma example_service_parts [simp]:
  "ce_temp (example_service a b) = ''/t''" "ce_fault (example_service a b) x = None" "ce_config (example_service a b) = plain_config_env"
  "ce_encode (example_service a b) c = Inr ''B''" "ce_decode (example_service a b) ''A'' = Inr a" "ce_decode (example_service a b) ''B'' = Inr b"
  by (simp_all add: example_service_def)

lemma example_catalog_facts:
  "validateCatalog plain_config_env (example_catalog [''a'', ''b''] ''a'') = None"
  "catalog_step plain_config_env (DoDelete ''a'') (example_catalog [''a'', ''b''] ''a'') = Ok (example_catalog [''b''] ''b'')"
  "compactContextCatalogForPersistence (example_catalog [''b''] ''b'') = example_catalog [''b''] ''b''"
  "persisted_catalog (example_catalog [''b''] ''b'') = example_catalog [''b''] ''b''"
  "expand_catalog (expand_env plain_config_env) (example_catalog [''b''] ''b'') = example_catalog [''b''] ''b''"
  by code_simp+

lemma example_catalog_save: "validateResolvedCatalog plain_config_env (example_catalog [''b''] ''b'') = None"
  by code_simp

theorem service_refines_catalog_witness:
  "fst (loadCatalog (example_service (example_catalog [''a'', ''b''] ''a'') (example_catalog [''b''] ''b''))
     (snd (run_command (example_service (example_catalog [''a'', ''b''] ''a'') (example_catalog [''b''] ''b'')) (DoDelete ''a'') [''/c'' \<mapsto> (''A'', 420)])))
   = Ok (example_catalog [''b''] ''b'')"
proof -
  let ?svc = "example_service (example_catalog [''a'', ''b''] ''a'') (example_catalog [''b''] ''b'')"
  let ?fs = "[''/c'' \<mapsto> (''A'', 420)]"
  have before: "fst (loadCatalog ?svc ?fs) = Ok (example_catalog [''a'', ''b''] ''a'')"
    by (simp add: loadCatalog_after[OF example_catalog_path] decodeCatalog_def bind_result_def example_catalog_facts)
  obtain fs1 where "loadCatalog ?svc ?fs = (Ok (example_catalog [''a'', ''b''] ''a''), fs1)" using before by (metis prod.collapse)
  then have "run_command ?svc (DoDelete ''a'') ?fs = saveCatalog ?svc (example_catalog [''b''] ''b'') fs1"
    by (rule run_command_Ok) (simp add: example_catalog_facts del: catalog_step.simps)
  then have "fst (run_command ?svc (DoDelete ''a'') ?fs) = None"
    by (simp add: saveCatalog_def example_catalog_facts example_catalog_save example_catalog_path replace_catalog_file_def ensureUserOnlyReadWriteFile_def)
  moreover obtain r fs' where run: "run_command ?svc (DoDelete ''a'') ?fs = (r, fs')" by fastforce
  ultimately have r: "run_command ?svc (DoDelete ''a'') ?fs = (None, fs')" by simp
  have "case (None :: go_error option) of
      None \<Rightarrow> \<exists>c'. catalog_step (ce_config ?svc) (DoDelete ''a'') (example_catalog [''a'', ''b''] ''a'') = Ok c'
        \<and> fst (loadCatalog ?svc fs') = Ok (persisted_catalog (compactContextCatalogForPersistence c'))
    | Some e \<Rightarrow> fst (loadCatalog ?svc fs') = Ok (example_catalog [''a'', ''b''] ''a'')"
    by (rule service_refines_catalog[OF example_catalog_path _ _ before r])
      (auto simp: example_catalog_facts simp del: catalog_step.simps)
  then show ?thesis using r example_catalog_facts by (auto simp del: run_command.simps catalog_step.simps)
qed

theorem commands_keep_catalog_witness:
  "catalog_ok (example_catalog [''b''] ''b'') \<and> context_named (example_catalog [''b''] ''b'') ''b'' = context_named (example_catalog [''a'', ''b''] ''a'') ''b''"
  using commands_keep_catalog[OF validateCatalog_ok[OF example_catalog_facts(1)] example_catalog_facts(2)] by simp

definition login :: Credential where
  "login = \<lparr>cred_Name = ''main'', cred_Username = LiteralCredential ''u'', cred_Password = LiteralCredential ''p''\<rparr>"

text \<open>A context whose metadata is fetched through a proxy with the credential of a given name.\<close>

definition proxied_catalog :: "string \<Rightarrow> ContextCatalog" where
  "proxied_catalog name =
     \<lparr>Contexts = [files_context ''dev'' (no_metadata\<lparr>md_Proxy := Some \<lparr>HTTPURL = [], HTTPSURL = [], NoProxy = ''localhost'',
          px_Auth = Some \<lparr>pa_Basic = Some \<lparr>ba_CredentialsRef = Some \<lparr>cref_Name = name\<rparr>, ba_Username = no_value, ba_Password = no_value\<rparr>\<rparr>\<rparr>\<rparr>)],
      CurrentContext = ''dev'', DefaultEditor = [], Credentials = [login]\<rparr>"

lemma proxied_expand:
  "expand_catalog (expand_env plain_config_env) (proxied_catalog ''main'') = proxied_catalog ''main''"
  "expand_catalog (expand_env plain_config_env) (proxied_catalog ''ghost'') = proxied_catalog ''ghost''"
  by code_simp+

lemma proxied_credentials: "validateCredentials [login] = Ok [(''main'', login)]"
  by code_simp

definition proxied_context :: "string \<Rightarrow> Context" where
  "proxied_context name = applyConfigDefaults plain_config_env (normalizeConfig (hd (Contexts (proxied_catalog name))))"

lemma proxied_valid:
  "validateConfig plain_config_env (proxied_context ''main'') [(''main'', login)] True = None"
  "validateConfig plain_config_env (proxied_context ''ghost'') [(''main'', login)] True = None"
  by code_simp+

lemma proxied_resolve:
  assumes "expand_catalog (expand_env plain_config_env) (proxied_catalog name) = proxied_catalog name"
    and "validateConfig plain_config_env (proxied_context name) [(''main'', login)] True = None"
  shows "resolve_in plain_config_env (proxied_catalog name) [] [] = injectContextCredentials (proxied_context name) [(''main'', login)]"
proof -
  have "findContextIndex (Contexts (proxied_catalog name)) ''dev'' = Some 0" "Contexts (proxied_catalog name) ! 0 = hd (Contexts (proxied_catalog name))"
    "CurrentContext (proxied_catalog name) = ''dev''" "Credentials (proxied_catalog name) = [login]"
    by (simp_all add: proxied_catalog_def files_context_def)
  then show ?thesis using assms proxied_credentials by (simp add: resolve_in_def bind_result_def proxied_context_def)
qed

theorem resolved_credentials_usable_witness:
  "\<exists>cfg b. resolve_in plain_config_env (proxied_catalog ''main'') [] [] = Ok cfg \<and> b \<in> set (context_basics cfg) \<and> usable (ba_Password b)"
proof -
  have "case injectContextCredentials (proxied_context ''main'') [(''main'', login)] of Ok cfg \<Rightarrow> context_basics cfg \<noteq> [] | Err e \<Rightarrow> False"
    by code_simp
  then obtain cfg where cfg: "resolve_in plain_config_env (proxied_catalog ''main'') [] [] = Ok cfg" "context_basics cfg \<noteq> []"
    using proxied_resolve[OF proxied_expand(1) proxied_valid(1)] by (auto split: result.splits)
  then obtain b where "b \<in> set (context_basics cfg)" by (cases "context_basics cfg") auto
  then show ?thesis using resolved_credentials_usable[OF cfg(1)] cfg(1) by blast
qed

theorem compaction_lossless_witness:
  "\<exists>d'. applyConfigDefaults plain_config_env (CompactContext (files_context ''dev'' (no_metadata\<lparr>md_BaseDir := ''/work/''\<rparr>)))
     = with_base_dir d' (applyConfigDefaults plain_config_env (files_context ''dev'' (no_metadata\<lparr>md_BaseDir := ''/work/''\<rparr>)))"
proof -
  have "validateMetadata plain_config_env (ctx_Metadata (files_context ''dev'' (no_metadata\<lparr>md_BaseDir := ''/work/''\<rparr>))) = None" by code_simp
  from compaction_lossless[OF this] show ?thesis by blast
qed

text \<open>
  The reference of the metadata proxy is not looked up when a catalogue is checked: a catalogue with an undefined
  credential there is accepted, and its context can never be resolved.
\<close>

theorem metadata_credential_unchecked:
  "validateResolvedCatalog plain_config_env (proxied_catalog ''ghost'') = None
   \<and> resolve_in plain_config_env (proxied_catalog ''ghost'') [] []
     = Err (Invalid (''%s references undefined credential %q'', [''metadata.proxy.auth.basic.credentialsRef'', ''ghost'']) None)"
proof -
  have "validateResolvedCatalog plain_config_env (proxied_catalog ''ghost'') = None" by code_simp
  moreover have "injectContextCredentials (proxied_context ''ghost'') [(''main'', login)]
     = Err (Invalid (''%s references undefined credential %q'', [''metadata.proxy.auth.basic.credentialsRef'', ''ghost'']) None)" by code_simp
  ultimately show ?thesis using proxied_resolve[OF proxied_expand(2) proxied_valid(2)] by simp
qed

text \<open>A catalogue is checked with placeholders expanded when it is saved, and without when it is read: with a placeholder for
  the current context it is written, and no operation can read it again.
\<close>

theorem placeholder_locks_catalog:
  "\<exists>fs. ReplaceCatalog (example_service (example_catalog [''dev''] ''${CTX}'') (example_catalog [''dev''] ''${CTX}'')) (example_catalog [''dev''] ''${CTX}'') Map.empty
       = (None, fs)
     \<and> fst (GetCatalog (example_service (example_catalog [''dev''] ''${CTX}'') (example_catalog [''dev''] ''${CTX}'')) fs)
       = Err (Invalid (''currentContext %q does not match any context'', [''${CTX}'']) None)"
proof -
  let ?c = "example_catalog [''dev''] ''${CTX}''"
  have c: "validateResolvedCatalog plain_config_env ?c = None" "compactContextCatalogForPersistence ?c = ?c"
    "validateCatalog plain_config_env ?c = Some (Invalid (''currentContext %q does not match any context'', [''${CTX}'']) None)"
    by code_simp+
  have "ReplaceCatalog (example_service ?c ?c) ?c Map.empty = (None, [''/c'' \<mapsto> (''B'', owner_only)])"
    by (auto simp: ReplaceCatalog_def saveCatalog_def c example_catalog_path replace_catalog_file_def ensureUserOnlyReadWriteFile_def)
  moreover have "fst (GetCatalog (example_service ?c ?c) [''/c'' \<mapsto> (''B'', owner_only)])
      = Err (Invalid (''currentContext %q does not match any context'', [''${CTX}'']) None)"
    by (simp add: GetCatalog_def loadCatalog_after[OF example_catalog_path] decodeCatalog_def bind_result_def c)
  ultimately show ?thesis by blast
qed

text \<open>A health check that names only a host is refused: the empty path of its URL does not start with a slash.\<close>

lemma host_only_health_check_refused:
  assumes "trim_space v \<noteq> []" and "url_Parse env (trim_space v) = Inr u" and "url_RawQuery u = []" and "url_Scheme u = ''https''" and "url_Host u \<noteq> []" and "url_Path u = []"
  shows "validateManagedServiceHealthCheck env v = Some (invalid ''managedService.http.healthCheck URL path is invalid'')"
proof -
  have "trim_space [] = []" "\<not> prefix ''/'' (path_clean [])" by code_simp+
  then show ?thesis using assms by (simp add: validateManagedServiceHealthCheck_def Let_def ensure_def)
qed

end
