(* ===== verification/Skip_Items.thy ===== *)
theory Skip_Items
  imports Resource_Paths Resource_Values
begin

text \<open>
  Excluding items from a collection by name (src/resource/skip_items.go).  A Go set of strings is
  the list of its members.
\<close>

definition skipItemSet :: "string list \<Rightarrow> string list" where
  "skipItemSet excluded = filter (\<lambda>s. s \<noteq> []) (map trim_space excluded)"

definition skipSetContains :: "string list \<Rightarrow> string \<Rightarrow> bool" where
  "skipSetContains st v = (let trimmed = trim_space v in trimmed \<noteq> [] \<and> trimmed \<in> set st)"

definition skip_collection_item :: "string \<Rightarrow> Resource \<Rightarrow> string list \<Rightarrow> bool" where
  "skip_collection_item collectionPath item st =
     (if st = [] then False
      else if skipSetContains st (LogicalPath item) \<or> skipSetContains st (LocalAlias item)
              \<or> skipSetContains st (RemoteID item) then True
      else if (case ChildSegment collectionPath (LogicalPath item) of
                 None \<Rightarrow> False | Some childSegment \<Rightarrow> skipSetContains st childSegment) then True
      else (case NormalizeLogicalPath (LogicalPath item) of
              Err e \<Rightarrow> False | Ok normalizedPath \<Rightarrow> skipSetContains st (path_base normalizedPath)))"

definition ShouldSkipCollectionItem :: "string \<Rightarrow> Resource \<Rightarrow> string list \<Rightarrow> bool" where
  "ShouldSkipCollectionItem collectionPath item excluded =
     skip_collection_item collectionPath item (skipItemSet excluded)"

definition FilterCollectionItems :: "string \<Rightarrow> Resource list \<Rightarrow> string list \<Rightarrow> Resource list" where
  "FilterCollectionItems collectionPath items excluded =
     (if items = [] \<or> excluded = [] then items
      else let st = skipItemSet excluded in
           if st = [] then items
           else filter (\<lambda>item. \<not> skip_collection_item collectionPath item st) items)"

lemma skipSetContains_iff: "skipSetContains (skipItemSet excluded) v \<longleftrightarrow>
    trim_space v \<noteq> [] \<and> (\<exists>x\<in>set excluded. trim_space x = trim_space v)"
  by (simp add: skipSetContains_def skipItemSet_def Let_def image_iff) metis

lemma has_any:
  "(\<exists>v\<in>N. trim_space v \<noteq> [] \<and> (\<exists>x\<in>set excluded. trim_space x = trim_space v)) \<longleftrightarrow>
   (\<exists>x\<in>set excluded. trim_space x \<noteq> [] \<and> trim_space x \<in> trim_space ` N)"
  by (auto simp: image_iff) metis+

text \<open>Filtering a collection keeps, in order, exactly the items for which
  \<open>ShouldSkipCollectionItem\<close> says no, and it skips an item precisely if some excluded name, both
  trimmed, is its logical path, its local alias, its remote identifier, its name below the
  collection or the last segment of its path.\<close>

theorem FilterCollectionItems_spec:
  "FilterCollectionItems c items excluded = filter (\<lambda>item. \<not> ShouldSkipCollectionItem c item excluded) items
   \<and> (ShouldSkipCollectionItem c item excluded \<longleftrightarrow>
        (\<exists>x\<in>set excluded. trim_space x \<noteq> [] \<and>
           trim_space x \<in> trim_space ` ({LogicalPath item, LocalAlias item, RemoteID item}
             \<union> set_option (ChildSegment c (LogicalPath item))
             \<union> (case NormalizeLogicalPath (LogicalPath item) of Err e \<Rightarrow> {} | Ok p \<Rightarrow> {path_base p}))))"
proof
  have empty: "skipItemSet excluded = [] \<Longrightarrow> \<not> ShouldSkipCollectionItem c i excluded" for i
    by (simp add: ShouldSkipCollectionItem_def skip_collection_item_def)
  show "FilterCollectionItems c items excluded = filter (\<lambda>item. \<not> ShouldSkipCollectionItem c item excluded) items"
  proof (cases "items = [] \<or> skipItemSet excluded = []")
    case True
    then show ?thesis using empty by (auto simp: FilterCollectionItems_def Let_def)
  next
    case False
    then have "excluded \<noteq> []" by (auto simp: skipItemSet_def)
    with False show ?thesis by (simp add: FilterCollectionItems_def ShouldSkipCollectionItem_def Let_def)
  qed
  let ?has = "\<lambda>v. trim_space v \<noteq> [] \<and> (\<exists>x\<in>set excluded. trim_space x = trim_space v)"
  have "ShouldSkipCollectionItem c item excluded \<longleftrightarrow>
      ?has (LogicalPath item) \<or> ?has (LocalAlias item) \<or> ?has (RemoteID item)
      \<or> (\<exists>s\<in>set_option (ChildSegment c (LogicalPath item)). ?has s)
      \<or> (\<exists>p\<in>(case NormalizeLogicalPath (LogicalPath item) of Err e \<Rightarrow> {} | Ok p \<Rightarrow> {path_base p}). ?has p)"
  proof (cases "skipItemSet excluded = []")
    case True
    then have "\<not> ?has v" for v using skipSetContains_iff[of excluded v] by (auto simp: skipSetContains_def)
    then show ?thesis using empty[OF True] by blast
  next
    case False
    then show ?thesis
      by (auto simp: ShouldSkipCollectionItem_def skip_collection_item_def skipSetContains_iff
          split: option.splits result.splits)
  qed
  then show "ShouldSkipCollectionItem c item excluded \<longleftrightarrow>
        (\<exists>x\<in>set excluded. trim_space x \<noteq> [] \<and>
           trim_space x \<in> trim_space ` ({LogicalPath item, LocalAlias item, RemoteID item}
             \<union> set_option (ChildSegment c (LogicalPath item))
             \<union> (case NormalizeLogicalPath (LogicalPath item) of Err e \<Rightarrow> {} | Ok p \<Rightarrow> {path_base p})))"
    unfolding has_any[symmetric] by (simp only: bex_Un Set.bex_simps(5) Set.bex_simps(6) bex_empty disj_assoc) simp
qed

end
