(* ===== verification/Secret_Roundtrip.thy ===== *)
theory Secret_Roundtrip
  imports Secret_Masking
begin

text \<open>
  What masking and resolving secrets guarantee together: a masked payload has no detectable
  secrets, and resolving it from the store it was masked into restores the payload.
\<close>

section \<open>Attribute paths\<close>

text \<open>Keys that the attribute path represents faithfully: not empty, no white space around them.\<close>

definition plain_attribute :: "string \<Rightarrow> bool" where
  "plain_attribute k = (k \<noteq> [] \<and> trim_space k = k)"

lemma pointer_inject: "JSONPointerFromTokens ts = JSONPointerFromTokens us \<longleftrightarrow> ts = us"
proof
  assume eq: "JSONPointerFromTokens ts = JSONPointerFromTokens us"
  show "ts = us"
  proof (cases "ts = [] \<or> us = []")
    case True
    then show ?thesis using eq by (cases ts; cases us) auto
  next
    case False
    then have "join_with ''/'' (map EscapeJSONPointerToken ts) = join_with ''/'' (map EscapeJSONPointerToken us)"
      using eq by (simp add: pointer_from_tokens_join)
    moreover have "split_on (CHR ''/'') (join_with ''/'' (map EscapeJSONPointerToken xs)) = map EscapeJSONPointerToken xs"
      if "xs \<noteq> []" for xs using that by (intro split_join) (auto simp: escape_no_slash)
    ultimately have "map EscapeJSONPointerToken ts = map EscapeJSONPointerToken us" using False by metis
    then have "map (unescapeJSONPointerToken \<circ> EscapeJSONPointerToken) ts = map (unescapeJSONPointerToken \<circ> EscapeJSONPointerToken) us"
      by (metis map_map)
    then have "map Ok ts = map Ok us" by (simp add: comp_def)
    then show ?thesis by (metis inj_onI inj_map_eq_map injI result.inject(2))
  qed
qed simp

lemma slash_trim_right: "CHR ''/'' \<in> set s \<Longrightarrow> CHR ''/'' \<in> set (trim_right_space s)"
proof (induction s rule: trim_right_space.induct)
  case (1 s)
  show ?case
  proof (cases "trailing_space s")
    case None
    then show ?thesis using 1(2) by (simp add: trim_right_space_id)
  next
    case (Some w)
    then obtain t where t: "s = t @ w" "w \<in> set space_encodings"
      using trailing_space_Some by (auto simp: suffix_def)
    then have "CHR ''/'' \<in> set t" using 1(2) space_encodings_bytes[OF t(2)] by auto
    then show ?thesis using 1(1)[OF Some] Some t(1) by (subst trim_right_space.simps) simp
  qed
qed

lemma trim_pointer_nonempty: "trim_space (CHR ''/'' # s) \<noteq> []"
  using slash_trim_right[of "CHR ''/'' # s"]
  by (auto simp: trim_space_def trim_left_space_id leading_space_visible)

lemma join_attribute_pointer:
  assumes "plain_attribute k"
  shows "joinAttributePath (JSONPointerFromTokens ts) k = JSONPointerFromTokens (ts @ [k])"
proof (cases ts)
  case Nil
  then show ?thesis using assms by (simp add: joinAttributePath_def plain_attribute_def)
next
  case (Cons t ts')
  then have "trim_space (JSONPointerFromTokens ts) \<noteq> []" using trim_pointer_nonempty by simp
  then show ?thesis using assms by (simp add: joinAttributePath_def plain_attribute_def pointer_snoc)
qed

lemma digit_visible: "is_digit_byte c \<Longrightarrow> visible_byte c"
  by (auto simp: is_digit_byte_def visible_byte_def space_encodings_def)

lemma itoa_plain: "plain_attribute (itoa (int i))"
proof -
  have "list_all is_digit_byte (nat_digits i)" by (rule list_all_nat_digits)
  then have "visible_byte (hd (nat_digits i))" "visible_byte (last (nat_digits i))"
    by (auto simp: list_all_iff intro!: digit_visible)
  then show ?thesis by (simp add: plain_attribute_def itoa_def trim_space_visible)
qed

lemma pointer_trimmed: "plain_attribute k \<Longrightarrow> trim_space (JSONPointerFromTokens (ts @ [k])) = JSONPointerFromTokens (ts @ [k])"
  by (intro trim_space_pointer) (auto simp: plain_attribute_def trim_space_id_iff)

section \<open>Masked payloads have no detectable secret\<close>

lemma parse_current_scope [simp]: "parseSecretPlaceholder L currentScopeSecretPlaceholder = Ok CurrentScope"
proof -
  have "trim_space currentScopeSecretPlaceholder = ''{{secret .}}''" by code_simp
  moreover have "trim_space (trim_suffix (trim_prefix ''{{secret .}}'' ''{{'') ''}}'') = ''secret .''" by code_simp
  moreover have "trim_space (trim_prefix ''secret .'' ''secret'') = ''.''" by code_simp
  moreover have "latin1_space (''secret .'' ! 6)" by code_simp
  moreover have "suffix ''}}'' ''{{secret .}}''" by code_simp
  ultimately show ?thesis by (simp add: parseSecretPlaceholder_def)
qed

lemma add_candidate_le:
  "add_candidate k p s ms = Ok ms' \<Longrightarrow> map_get (fst ms) \<subseteq>\<^sub>m map_get (fst ms') \<and> map_get (fst ms') p = Some s"
  by (auto simp: add_candidate_def map_le_def split: prod.splits if_splits)

lemma mask_field_le: "mask_field L k f p ms = Ok ms' \<Longrightarrow> map_get (fst ms) \<subseteq>\<^sub>m map_get (fst ms')"
  by (cases f) (auto simp: mask_field_def dest: add_candidate_le split: if_splits result.splits)

lemma collect_le:
  "collectMaskCandidates L v p d ms = Ok ms' \<Longrightarrow> map_get (fst ms) \<subseteq>\<^sub>m map_get (fst ms')"
  "mask_entries L m p d ms = Ok ms' \<Longrightarrow> map_get (fst ms) \<subseteq>\<^sub>m map_get (fst ms')"
  "mask_items L xs i p d ms = Ok ms' \<Longrightarrow> map_get (fst ms) \<subseteq>\<^sub>m map_get (fst ms')"
proof (induction L v p d ms and L m p d ms and L xs i p d ms arbitrary: ms' and ms' and ms'
    rule: collectMaskCandidates_mask_entries_mask_items.induct)
  case (1 L v p d ms)
  then show ?case by (subst (asm) collectMaskCandidates.simps) (auto split: if_splits gval.splits)
next
  case (3 L q m p d ms)
  from 3(3) obtain ms1 ms2 where s: "mask_field L (fst q) (snd q) (joinAttributePath p (fst q)) ms = Ok ms1"
    "collectMaskCandidates L (snd q) (joinAttributePath p (fst q)) d ms1 = Ok ms2" "mask_entries L m p d ms2 = Ok ms'"
    by (auto simp: Let_def split: result.splits)
  have "map_get (fst ms) \<subseteq>\<^sub>m map_get (fst ms1)" using mask_field_le[OF s(1)] .
  also have "\<dots> \<subseteq>\<^sub>m map_get (fst ms2)" using 3(1)[OF refl s(1,2)] .
  also have "\<dots> \<subseteq>\<^sub>m map_get (fst ms')" using 3(2)[OF refl s(1,2,3)] .
  finally show ?case .
next
  case (5 L x xs i p d ms)
  from 5(3) obtain ms1 where s: "collectMaskCandidates L x (joinAttributePath p (itoa (int i))) d ms = Ok ms1"
    "mask_items L xs (i + 1) p d ms1 = Ok ms'" by (auto split: result.splits)
  show ?case using 5(1)[OF s(1)] 5(2)[OF s] by (rule map_le_trans)
qed simp_all

text \<open>The traversals on values that contain no others.\<close>

definition is_leaf :: "gval \<Rightarrow> bool" where
  "is_leaf v = (case v of VMap m \<Rightarrow> False | VSlice xs \<Rightarrow> False | _ \<Rightarrow> True)"

lemma value_cases [case_names VMap VSlice leaf]:
  obtains m where "v = VMap m" | xs where "v = VSlice xs" | "is_leaf v"
  by (cases v) (auto simp: is_leaf_def)

lemma leaf_apply: "is_leaf v \<Longrightarrow> d \<le> maxPayloadDepth \<Longrightarrow> applyMask L v p cs d = Ok v"
  by (subst applyMask.simps) (cases v; simp add: is_leaf_def)

lemma leaf_detect: "is_leaf v \<Longrightarrow> d \<le> maxPayloadDepth \<Longrightarrow> collectDetectedCandidates L v p d = Ok []"
  by (subst collectDetectedCandidates.simps) (cases v; simp add: is_leaf_def)

lemma leaf_collect: "is_leaf v \<Longrightarrow> d \<le> maxPayloadDepth \<Longrightarrow> collectMaskCandidates L v p d ms = Ok ms"
  by (subst collectMaskCandidates.simps) (cases v; simp add: is_leaf_def)

lemma leaf_resolve:
  "is_leaf v \<Longrightarrow> d \<le> maxPayloadDepth \<Longrightarrow> \<forall>s. v \<noteq> VString s \<Longrightarrow>
   resolvePayloadValue L v p r g d st = (st, Ok v)"
  by (subst resolvePayloadValue.simps) (cases v; simp add: is_leaf_def)

lemmas leaf_steps = leaf_apply leaf_detect leaf_collect leaf_resolve

text \<open>The payload after masking, compared with the collection of its candidates.\<close>

lemma detect_placeholder: "detect_field L k (VString currentScopeSecretPlaceholder) p = Ok []"
  by (simp add: detect_field_def)

lemma detect_string: "d \<le> maxPayloadDepth \<Longrightarrow> collectDetectedCandidates L (VString s) p d = Ok []"
  by (subst collectDetectedCandidates.simps) simp

lemma collect_depth: "collectMaskCandidates L v p d ms = Ok ms' \<Longrightarrow> d \<le> maxPayloadDepth"
  by (subst (asm) collectMaskCandidates.simps) (auto split: if_splits)

lemma masked_field_detects_nothing:
  assumes "mask_field L k f p ms = Ok ms1" and "map_get (fst ms1) \<subseteq>\<^sub>m C"
    and "masks_field L f p cs = Ok False" and "map_get cs = C"
    and "\<And>s. f = VString s \<Longrightarrow> f' = f" and "\<And>s. f' = VString s \<Longrightarrow> f = VString s"
  shows "detect_field L k f' p = Ok []"
proof (cases "isLikelySecretKey L k \<and> (\<exists>s. f' = VString s)")
  case True
  then obtain s where f: "f = VString s" "f' = VString s" using assms(6) by blast
  then obtain ph where ph: "parseSecretPlaceholder L s = Ok ph"
    using assms(1) True by (auto simp: mask_field_def split: result.splits)
  have "ph \<noteq> NoPlaceholder"
  proof
    assume "ph = NoPlaceholder"
    then have "add_candidate k p s ms = Ok ms1" using assms(1) True ph f by (simp add: mask_field_def)
    then have "map_get (fst ms1) p = Some s" using add_candidate_le by blast
    then have "C p = Some s" using assms(2) unfolding map_le_def by (metis domI)
    then show False using assms(3,4) ph f \<open>ph = NoPlaceholder\<close> by (simp add: masks_field_def)
  qed
  then show ?thesis using f ph by (simp add: detect_field_def)
next
  case False
  then show ?thesis by (cases f') (auto simp: detect_field_def)
qed

lemma applyMask_string: "applyMask L (VString s) p cs d = Ok w \<Longrightarrow> w = VString s"
  by (subst (asm) applyMask.simps) (auto split: if_splits)

lemma applyMask_to_string: "applyMask L v p cs d = Ok (VString s) \<Longrightarrow> v = VString s"
  by (subst (asm) applyMask.simps) (auto split: if_splits gval.splits result.splits)

lemma masked_no_secret:
  "collectMaskCandidates L v p d ms = Ok ms' \<Longrightarrow> map_get (fst ms') \<subseteq>\<^sub>m map_get cs \<Longrightarrow>
     applyMask L v p cs d = Ok w \<Longrightarrow> collectDetectedCandidates L w p d = Ok []"
  "mask_entries L m p d ms = Ok ms' \<Longrightarrow> map_get (fst ms') \<subseteq>\<^sub>m map_get cs \<Longrightarrow>
     apply_entries L m p cs d = Ok n \<Longrightarrow> detect_entries L n p d = Ok []"
  "mask_items L xs i p d ms = Ok ms' \<Longrightarrow> map_get (fst ms') \<subseteq>\<^sub>m map_get cs \<Longrightarrow>
     apply_items L xs i p cs d = Ok ys \<Longrightarrow> detect_items L ys i p d = Ok []"
proof (induction L v p d ms and L m p d ms and L xs i p d ms arbitrary: ms' w and ms' n and ms' ys
    rule: collectMaskCandidates_mask_entries_mask_items.induct)
  case (1 L v p d ms)
  have d: "\<not> maxPayloadDepth < d" using collect_depth[OF 1(3)] by simp
  show ?case
  proof (cases v rule: value_cases)
    case (VMap m)
    then have "mask_entries L m p (d + 1) ms = Ok ms'"
      using 1(3) d by (subst (asm) collectMaskCandidates.simps) simp
    moreover obtain n where "apply_entries L m p cs (d + 1) = Ok n" "w = VMap n"
      using 1(5) d VMap by (subst (asm) applyMask.simps) (auto split: result.splits)
    ultimately show ?thesis
      using 1(2)[OF d VMap _ 1(4)] d by (subst collectDetectedCandidates.simps) simp
  next
    case (VSlice xs)
    then have "mask_items L xs 0 p (d + 1) ms = Ok ms'"
      using 1(3) d by (subst (asm) collectMaskCandidates.simps) simp
    moreover obtain n where "apply_items L xs 0 p cs (d + 1) = Ok n" "w = VSlice n"
      using 1(5) d VSlice by (subst (asm) applyMask.simps) (auto split: result.splits)
    ultimately show ?thesis
      using 1(1)[OF d VSlice _ 1(4)] d by (subst collectDetectedCandidates.simps) simp
  next
    case leaf
    then show ?thesis using 1(5) d by (simp add: leaf_steps)
  qed
next
  case (3 L q m p d ms)
  let ?path = "joinAttributePath p (fst q)"
  from 3(3) obtain ms1 ms2 where s: "mask_field L (fst q) (snd q) ?path ms = Ok ms1"
    "collectMaskCandidates L (snd q) ?path d ms1 = Ok ms2" "mask_entries L m p d ms2 = Ok ms'"
    by (auto simp: Let_def split: result.splits)
  have le2: "map_get (fst ms2) \<subseteq>\<^sub>m map_get cs" using collect_le(2)[OF s(3)] 3(4) by (rule map_le_trans)
  have le1: "map_get (fst ms1) \<subseteq>\<^sub>m map_get cs" using collect_le(1)[OF s(2)] le2 by (rule map_le_trans)
  have d: "d \<le> maxPayloadDepth" using collect_depth[OF s(2)] .
  obtain b where b: "masks_field L (snd q) ?path cs = Ok b" using 3(5) by (auto simp: Let_def split: result.splits)
  show ?case
  proof (cases b)
    case True
    then obtain r where "apply_entries L m p cs d = Ok r" "n = (fst q, VString currentScopeSecretPlaceholder) # r"
      using 3(5) b by (auto simp: Let_def split: result.splits)
    then show ?thesis
      using 3(2)[OF refl s(1,2,3) 3(4)] d by (simp add: detect_placeholder detect_string)
  next
    case False
    then obtain c r where c: "applyMask L (snd q) ?path cs d = Ok c" and "apply_entries L m p cs d = Ok r" "n = (fst q, c) # r"
      using 3(5) b by (auto simp: Let_def split: result.splits)
    moreover have "detect_field L (fst q) c ?path = Ok []"
      using masked_field_detects_nothing[OF s(1) le1 _ refl, of c] b False applyMask_string applyMask_to_string c by metis
    ultimately show ?thesis
      using 3(1)[OF refl s(1,2) le2 c] 3(2)[OF refl s(1,2,3) 3(4)] by simp
  qed
next
  case (5 L x xs i p d ms)
  from 5(3) obtain ms1 where s: "collectMaskCandidates L x (joinAttributePath p (itoa (int i))) d ms = Ok ms1"
    "mask_items L xs (i + 1) p d ms1 = Ok ms'" by (auto split: result.splits)
  have "map_get (fst ms1) \<subseteq>\<^sub>m map_get cs" using collect_le(3)[OF s(2)] 5(4) by (rule map_le_trans)
  note le = this
  obtain c r where c: "applyMask L x (joinAttributePath p (itoa (int i))) cs d = Ok c"
    and r: "apply_items L xs (i + 1) p cs d = Ok r" and ys: "ys = c # r"
    using 5(5) by (auto split: result.splits)
  show ?case using 5(1)[OF s(1) le c] 5(2)[OF s 5(4) r] ys by simp
qed auto

text \<open>Masking changes strings to strings, so the masked payload is normal as well.\<close>

lemma masked_normal:
  "normal_value v \<Longrightarrow> applyMask L v p cs d = Ok w \<Longrightarrow> normal_value w"
  "list_all (\<lambda>q. normal_value (snd q)) m \<Longrightarrow> apply_entries L m p cs d = Ok n \<Longrightarrow>
     list_all (\<lambda>q. normal_value (snd q)) n \<and> map fst n = map fst m"
  "list_all normal_value xs \<Longrightarrow> apply_items L xs i p cs d = Ok ys \<Longrightarrow> list_all normal_value ys"
proof (induction L v p cs d and L m p cs d and L xs i p cs d arbitrary: w and n and ys
    rule: applyMask_apply_entries_apply_items.induct)
  case (1 L v p cs d)
  have d: "\<not> maxPayloadDepth < d" using 1(4) by (subst (asm) applyMask.simps) (auto split: if_splits)
  show ?case
  proof (cases v rule: value_cases)
    case (VMap m)
    then obtain n where n: "apply_entries L m p cs (d + 1) = Ok n" "w = VMap n"
      using 1(4) d by (subst (asm) applyMask.simps) (auto split: result.splits)
    then show ?thesis using 1(2)[OF d VMap _ n(1)] 1(3) VMap by (auto simp: sorted_map_def)
  next
    case (VSlice xs)
    then obtain n where n: "apply_items L xs 0 p cs (d + 1) = Ok n" "w = VSlice n"
      using 1(4) d by (subst (asm) applyMask.simps) (auto split: result.splits)
    then show ?thesis using 1(1)[OF d VSlice _ n(1)] 1(3) VSlice by simp
  next
    case leaf
    then show ?thesis using 1(3,4) d by (simp add: leaf_steps)
  qed
next
  case (3 L q m p cs d)
  let ?path = "joinAttributePath p (fst q)"
  obtain b where b: "masks_field L (snd q) ?path cs = Ok b" using 3(5) by (auto simp: Let_def split: result.splits)
  show ?case
  proof (cases b)
    case True
    then obtain r where r: "apply_entries L m p cs d = Ok r" "n = (fst q, VString currentScopeSecretPlaceholder) # r"
      using 3(5) b by (auto simp: Let_def split: result.splits)
    then show ?thesis using 3(1)[OF refl b] True 3(4) by simp
  next
    case False
    then obtain c r where c: "applyMask L (snd q) ?path cs d = Ok c" and r: "apply_entries L m p cs d = Ok r" "n = (fst q, c) # r"
      using 3(5) b by (auto simp: Let_def split: result.splits)
    then show ?thesis using 3(2)[OF refl b _ _ c] 3(3)[OF refl b _ c _ r(1)] False 3(4) by simp
  qed
next
  case (5 L x xs i p cs d)
  then obtain c r where c: "applyMask L x (joinAttributePath p (itoa (int i))) cs d = Ok c"
    and r: "apply_items L xs (i + 1) p cs d = Ok r" and ys: "ys = c # r"
    by (auto split: result.splits)
  show ?case using 5(1)[OF _ c] 5(2)[OF c _ r] 5(3) ys by simp
qed auto

section \<open>Where the candidates come from\<close>

text \<open>Payloads that masking represents faithfully: plain object keys, arrays within the index range,
  and no string that is already a placeholder.\<close>

fun plain_payload :: "text_lib \<Rightarrow> gval \<Rightarrow> bool" where
  "plain_payload L (VMap m) = list_all (\<lambda>p. plain_attribute (fst p) \<and> plain_payload L (snd p)) m"
| "plain_payload L (VSlice xs) = (int (length xs) \<le> int64_max \<and> list_all (plain_payload L) xs)"
| "plain_payload L (VString s) = (parseSecretPlaceholder L s = Ok NoPlaceholder)"
| "plain_payload L v = True"

definition stands_at :: "gval \<Rightarrow> string list \<Rightarrow> gval \<Rightarrow> bool" where
  "stands_at v0 ps v = (\<forall>ts. lookup_tokens v0 (ps @ ts) = lookup_tokens v ts)"

definition entries_at :: "gval \<Rightarrow> string list \<Rightarrow> (string \<times> gval) list \<Rightarrow> bool" where
  "entries_at v0 ps m = list_all (\<lambda>q. stands_at v0 (ps @ [fst q]) (snd q)) m"

fun items_at :: "gval \<Rightarrow> string list \<Rightarrow> nat \<Rightarrow> gval list \<Rightarrow> bool" where
  "items_at v0 ps i [] = True"
| "items_at v0 ps i (x # xs) = (stands_at v0 (ps @ [itoa (int i)]) x \<and> items_at v0 ps (i + 1) xs)"

lemma at_self: "stands_at v [] v"
  by (simp add: stands_at_def)

lemma at_map:
  assumes "stands_at v0 ps (VMap m)" "sorted_map m"
  shows "entries_at v0 ps m"
proof -
  have "stands_at v0 (ps @ [fst q]) (snd q)" if "q \<in> set m" for q
  proof -
    have "map_get m (fst q) = Some (snd q)" using assms(2) that by (simp add: sorted_map_get)
    then show ?thesis using assms(1) by (simp add: stands_at_def)
  qed
  then show ?thesis by (simp add: entries_at_def list_all_iff)
qed

lemma items_at_nth:
  "\<forall>j<length xs. stands_at v0 (ps @ [itoa (int (i + j))]) (xs ! j) \<Longrightarrow> items_at v0 ps i xs"
proof (induction xs arbitrary: i)
  case (Cons x xs)
  have "stands_at v0 (ps @ [itoa (int i)]) x" using Cons.prems[rule_format, of 0] by simp
  moreover have "\<forall>j<length xs. stands_at v0 (ps @ [itoa (int (i + 1 + j))]) (xs ! j)"
    using Cons.prems[rule_format, of "Suc j" for j] by auto
  ultimately show ?case using Cons.IH[of "i + 1"] by simp
qed simp

lemma at_slice: "stands_at v0 ps (VSlice xs) \<Longrightarrow> int (length xs) \<le> int64_max \<Longrightarrow> items_at v0 ps 0 xs"
  by (intro items_at_nth) (auto simp: stands_at_def parse_index_itoa)

definition located :: "gval \<Rightarrow> candidates \<Rightarrow> bool" where
  "located v0 cs = (sorted_map cs \<and> (\<forall>q x. map_get cs q = Some x \<longrightarrow>
     (\<exists>ts. q = JSONPointerFromTokens ts \<and> ts \<noteq> [] \<and> list_all plain_attribute ts \<and> lookup_tokens v0 ts = Some (VString x))))"

lemma located_unique:
  "located v0 cs \<Longrightarrow> map_get cs (JSONPointerFromTokens ts) = Some x \<Longrightarrow> stands_at v0 ts (VString s) \<Longrightarrow> x = s"
proof -
  assume l: "located v0 cs" "map_get cs (JSONPointerFromTokens ts) = Some x" "stands_at v0 ts (VString s)"
  then have "lookup_tokens v0 ts = Some (VString x)" unfolding located_def by (metis pointer_inject)
  moreover have "lookup_tokens v0 ts = Some (VString s)" using l(3) unfolding stands_at_def by (metis append_Nil2 lookup_tokens.simps(1))
  ultimately show ?thesis by simp
qed

lemma mask_field_located:
  assumes "mask_field L k f (JSONPointerFromTokens (ps @ [k])) ms = Ok ms'" "stands_at v0 (ps @ [k]) f" "list_all plain_attribute (ps @ [k])"
    "located v0 (fst ms)"
  shows "located v0 (fst ms')"
proof (cases "ms' = ms")
  case False
  then obtain s where f: "f = VString s" and a: "add_candidate k (JSONPointerFromTokens (ps @ [k])) s ms = Ok ms'"
    using assms(1) by (cases f) (auto simp: mask_field_def split: if_splits result.splits)
  have "lookup_tokens v0 (ps @ [k]) = Some (VString s)"
    using assms(2) f unfolding stands_at_def by (metis append_Nil2 lookup_tokens.simps(1))
  moreover have "map_get (fst ms') = (map_get (fst ms))(JSONPointerFromTokens (ps @ [k]) \<mapsto> s)"
    using a by (auto simp: add_candidate_def split: prod.splits if_splits)
  moreover have "sorted_map (fst ms')"
    using a assms(4) by (auto simp: add_candidate_def located_def split: prod.splits if_splits)
  ultimately show ?thesis
    using assms(3,4) unfolding located_def by (metis fun_upd_apply option.inject snoc_eq_iff_butlast)
qed (use assms(4) in simp)

lemma collect_located:
  "collectMaskCandidates L v p d ms = Ok ms' \<Longrightarrow> p = JSONPointerFromTokens ps \<Longrightarrow> list_all plain_attribute ps \<Longrightarrow> stands_at v0 ps v \<Longrightarrow> normal_value v \<Longrightarrow>
     plain_payload L v \<Longrightarrow> located v0 (fst ms) \<Longrightarrow> located v0 (fst ms')"
  "mask_entries L m p d ms = Ok ms' \<Longrightarrow> p = JSONPointerFromTokens ps \<Longrightarrow> list_all plain_attribute ps \<Longrightarrow> entries_at v0 ps m \<Longrightarrow>
     list_all (\<lambda>q. normal_value (snd q)) m \<Longrightarrow> plain_payload L (VMap m) \<Longrightarrow> located v0 (fst ms) \<Longrightarrow> located v0 (fst ms')"
  "mask_items L xs i p d ms = Ok ms' \<Longrightarrow> p = JSONPointerFromTokens ps \<Longrightarrow> list_all plain_attribute ps \<Longrightarrow> items_at v0 ps i xs \<Longrightarrow>
     list_all normal_value xs \<Longrightarrow> list_all (plain_payload L) xs \<Longrightarrow> located v0 (fst ms) \<Longrightarrow> located v0 (fst ms')"
proof (induction L v p d ms and L m p d ms and L xs i p d ms arbitrary: ms' ps and ms' ps and ms' ps
    rule: collectMaskCandidates_mask_entries_mask_items.induct)
  case (1 L v p d ms)
  have d: "\<not> maxPayloadDepth < d" using collect_depth[OF 1(3)] by simp
  show ?case
  proof (cases v rule: value_cases)
    case (VMap m)
    then have "mask_entries L m p (d + 1) ms = Ok ms'" using 1(3) d by (subst (asm) collectMaskCandidates.simps) simp
    then show ?thesis using 1(2)[OF d VMap _ 1(4,5)] 1(4-9) VMap at_map by simp
  next
    case (VSlice xs)
    then have "mask_items L xs 0 p (d + 1) ms = Ok ms'" using 1(3) d by (subst (asm) collectMaskCandidates.simps) simp
    then show ?thesis using 1(1)[OF d VSlice _ 1(4,5)] 1(4-9) VSlice at_slice by simp
  next
    case leaf
    then show ?thesis using 1(3,9) d by (simp add: leaf_steps)
  qed
next
  case (3 L q m p d ms)
  have k: "plain_attribute (fst q)" using 3(8) by simp
  have ks: "list_all plain_attribute (ps @ [fst q])" using k 3(5) by simp
  have path: "joinAttributePath p (fst q) = JSONPointerFromTokens (ps @ [fst q])"
    using join_attribute_pointer[OF k] 3(4) by simp
  from 3(3) obtain ms1 ms2 where s: "mask_field L (fst q) (snd q) (joinAttributePath p (fst q)) ms = Ok ms1"
    "collectMaskCandidates L (snd q) (joinAttributePath p (fst q)) d ms1 = Ok ms2" "mask_entries L m p d ms2 = Ok ms'"
    by (auto simp: Let_def split: result.splits)
  have a: "stands_at v0 (ps @ [fst q]) (snd q)" "entries_at v0 ps m" using 3(6) by (simp_all add: entries_at_def)
  have "located v0 (fst ms1)" using mask_field_located[OF s(1)[unfolded path] a(1) ks 3(9)] .
  then have "located v0 (fst ms2)" using 3(1)[OF refl s(1,2) path ks a(1)] 3(7,8) by simp
  then show ?case using 3(2)[OF refl s 3(4,5) a(2)] 3(7,8) by simp
next
  case (5 L x xs i p d ms)
  from 5(3) obtain ms1 where s: "collectMaskCandidates L x (joinAttributePath p (itoa (int i))) d ms = Ok ms1"
    "mask_items L xs (i + 1) p d ms1 = Ok ms'" by (auto split: result.splits)
  have path: "joinAttributePath p (itoa (int i)) = JSONPointerFromTokens (ps @ [itoa (int i)])"
    using join_attribute_pointer[OF itoa_plain] 5(4) by simp
  have a: "stands_at v0 (ps @ [itoa (int i)]) x" "items_at v0 ps (i + 1) xs" using 5(6) by simp_all
  have ks: "list_all plain_attribute (ps @ [itoa (int i)])" using itoa_plain 5(5) by simp
  have "located v0 (fst ms1)" using 5(1)[OF s(1) path ks a(1)] 5(7-9) by simp
  then show ?case using 5(2)[OF s 5(4,5) a(2)] 5(7-9) by simp
qed auto

section \<open>Resolving what was masked\<close>

lemma resolve_string_plain:
  "parseSecretPlaceholder L s = Ok NoPlaceholder \<Longrightarrow> resolve_string L s p r g st = (st, Ok (VString s))"
  by (simp add: resolve_string_def)

lemma resolve_of_string:
  "d \<le> maxPayloadDepth \<Longrightarrow> resolvePayloadValue L (VString s) p r g d st = resolve_string L s p r g st"
  by (subst resolvePayloadValue.simps) simp

lemma current_scope_key:
  "list_all plain_attribute ts \<Longrightarrow> ts \<noteq> [] \<Longrightarrow>
   resolvePlaceholderStoreKey CurrentScope (JSONPointerFromTokens ts) [] = Ok (JSONPointerFromTokens ts)"
proof -
  assume ts: "list_all plain_attribute ts" "ts \<noteq> []"
  then obtain us k where "ts = us @ [k]" "plain_attribute k" by (cases ts rule: rev_cases) auto
  moreover have "JSONPointerFromTokens ts \<noteq> []" using ts(2) by (cases ts) auto
  ultimately show ?thesis
    by (simp add: resolvePlaceholderStoreKey_def resolvePlaceholderAttribute_def pointer_trimmed)
qed

text \<open>Distinct attribute paths are filed under distinct keys.\<close>

lemma trim_char_id: "s \<noteq> [] \<Longrightarrow> hd s \<noteq> c \<Longrightarrow> last s \<noteq> c \<Longrightarrow> trim_char s c = s"
  by (simp add: trim_char_def dropWhile_eq_self_iff[THEN iffD2] hd_rev)

lemma escape_plain: "plain_attribute x \<Longrightarrow> EscapeJSONPointerToken x \<noteq> [] \<and> CHR ''/'' \<notin> set (EscapeJSONPointerToken x)"
  by (cases x) (auto simp: plain_attribute_def escape_no_slash escape_bytes)

lemma trim_pointer:
  assumes "list_all plain_attribute ts" "ts \<noteq> []"
  shows "trim_char (trim_space (JSONPointerFromTokens ts)) (CHR ''/'') = tl (JSONPointerFromTokens ts)"
proof -
  obtain us k where us: "ts = us @ [k]" "plain_attribute k" using assms(1,2) by (cases ts rule: rev_cases) auto
  obtain h hs where h: "ts = h # hs" "plain_attribute h" using assms(1,2) by (cases ts) auto
  let ?j = "join_with ''/'' (map EscapeJSONPointerToken ts)"
  have p: "JSONPointerFromTokens ts = CHR ''/'' # ?j" using assms(2) by (simp add: pointer_from_tokens_join)
  have "\<exists>x. ?j = EscapeJSONPointerToken h @ x" using h(1) by (cases hs) (auto simp: join_with_Cons)
  then have hd: "?j \<noteq> []" "hd ?j \<noteq> CHR ''/''" using escape_plain[OF h(2)] by (metis append_is_Nil_conv, metis hd_append2 hd_in_set)
  have "\<exists>x. ?j = x @ EscapeJSONPointerToken k"
    using us(1) by (cases "us = []") (auto simp: join_with_append)
  then have "last ?j \<noteq> CHR ''/''" using escape_plain[OF us(2)] by (metis last_appendR last_in_set)
  then have "trim_char ?j (CHR ''/'') = ?j" using hd trim_char_id by blast
  moreover have "trim_char (CHR ''/'' # ?j) (CHR ''/'') = trim_char ?j (CHR ''/'')" by (simp add: trim_char_def)
  moreover have "trim_space (JSONPointerFromTokens ts) = CHR ''/'' # ?j" using pointer_trimmed[OF us(2)] us(1) p by metis
  ultimately show ?thesis using p by simp
qed

lemma NormalizeKey_pointer:
  assumes "list_all plain_attribute ts" "ts \<noteq> []" "NormalizeKey (JSONPointerFromTokens ts) = Ok k"
  shows "JSONPointerFromTokens ts = CHR ''/'' # k"
proof -
  have "k = tl (JSONPointerFromTokens ts)"
    using assms(3) by (auto simp: NormalizeKey_def Let_def trim_pointer[OF assms(1,2)] split: if_splits)
  then show ?thesis using assms(2) by (cases ts) auto
qed

lemma located_keys_distinct:
  assumes "located v0 cs" and "\<forall>(k, v)\<in>set cs. is_ok (NormalizeKey k)"
  shows "distinct (map (NormalizeKey \<circ> fst) cs)"
proof -
  have "k = k'" if m: "(k, v) \<in> set cs" "(k', v') \<in> set cs" and eq: "NormalizeKey k = NormalizeKey k'" for k k' v v'
  proof -
    have s: "sorted_map cs" using assms(1) by (simp add: located_def)
    obtain ts ts' where "k = JSONPointerFromTokens ts" "k' = JSONPointerFromTokens ts'"
      "list_all plain_attribute ts" "list_all plain_attribute ts'" "ts \<noteq> []" "ts' \<noteq> []"
      using assms(1) m sorted_map_get[OF s] unfolding located_def by metis
    moreover obtain n where "NormalizeKey k = Ok n" using assms(2) m(1) by (fastforce simp: is_ok_iff)
    ultimately show ?thesis using NormalizeKey_pointer eq by metis
  qed
  moreover have "distinct (map fst cs)" using assms(1) by (simp add: located_def sorted_map_distinct)
  ultimately show ?thesis unfolding distinct_map comp_def inj_on_def by (metis prod.collapse)
qed

text \<open>A store that files secrets under their normalised keys.\<close>

locale secret_store = kv_store invar put get NormalizeKey
  for invar :: "'s \<Rightarrow> bool" and put :: "('s, string) put_fn" and get :: "('s, string) get_fn"
begin

definition readable :: "(string, string) gomap \<Rightarrow> 's \<Rightarrow> bool" where
  "readable cs s = (\<forall>q x. map_get cs q = Some x \<longrightarrow> snd (get s q) = Ok x)"

definition sound :: "candidates \<Rightarrow> 's \<times> secret_cache \<Rightarrow> bool" where
  "sound cs st = (invar (fst st) \<and> readable cs (fst st) \<and> readable (snd st) (fst st))"

lemma get_readable: "invar s \<Longrightarrow> readable cs s \<Longrightarrow> readable cs (fst (get s k))"
  by (simp add: readable_def get_get)

lemma resolve_current_scope:
  assumes "sound cs st" and "map_get cs (JSONPointerFromTokens ts) = Some x"
    and "list_all plain_attribute ts" and "ts \<noteq> []"
  shows "\<exists>st'. resolve_string L currentScopeSecretPlaceholder (JSONPointerFromTokens ts) [] get st = (st', Ok (VString x)) \<and> sound cs st'"
proof -
  let ?k = "JSONPointerFromTokens ts"
  obtain s cache where st: "st = (s, cache)" by fastforce
  have r: "invar s" "readable cs s" "readable cache s" using assms(1) st by (simp_all add: sound_def)
  then have x: "snd (get s ?k) = Ok x" using assms(2) by (simp add: readable_def)
  obtain s' where g: "get s ?k = (s', Ok x)" using x by (metis prod.collapse)
  then have r': "invar s'" "readable cs s'" "readable cache s'" "snd (get s' ?k) = Ok x"
    using get_invar[OF r(1), of ?k] get_readable[OF r(1,2), of ?k] get_readable[OF r(1,3), of ?k] get_get[OF r(1) x, of ?k]
    by simp_all
  show ?thesis
  proof (cases "map_get cache ?k")
    case None
    then show ?thesis
      using st g r' current_scope_key[OF assms(3,4)] by (simp add: resolve_string_def sound_def readable_def)
  next
    case (Some y)
    then have "y = x" using r(3) x by (simp add: readable_def)
    then show ?thesis using Some st assms(1) current_scope_key[OF assms(3,4)] by (simp add: resolve_string_def)
  qed
qed

lemma resolve_masked:
  "applyMask L v p cs d = Ok w \<Longrightarrow> collectMaskCandidates L v p d ms = Ok ms' \<Longrightarrow> p = JSONPointerFromTokens ps \<Longrightarrow>
     list_all plain_attribute ps \<Longrightarrow> stands_at v0 ps v \<Longrightarrow> normal_value v \<Longrightarrow> plain_payload L v \<Longrightarrow> located v0 cs \<Longrightarrow> sound cs st \<Longrightarrow>
     \<exists>st'. resolvePayloadValue L w p [] get d st = (st', Ok v) \<and> sound cs st'"
  "apply_entries L m p cs d = Ok n \<Longrightarrow> mask_entries L m p d ms = Ok ms' \<Longrightarrow> p = JSONPointerFromTokens ps \<Longrightarrow>
     list_all plain_attribute ps \<Longrightarrow> entries_at v0 ps m \<Longrightarrow> list_all (\<lambda>q. normal_value (snd q)) m \<Longrightarrow> plain_payload L (VMap m) \<Longrightarrow>
     located v0 cs \<Longrightarrow> sound cs st \<Longrightarrow> \<exists>st'. resolve_entries L n p [] get d st = (st', Ok m) \<and> sound cs st'"
  "apply_items L xs i p cs d = Ok ys \<Longrightarrow> mask_items L xs i p d ms = Ok ms' \<Longrightarrow> p = JSONPointerFromTokens ps \<Longrightarrow>
     list_all plain_attribute ps \<Longrightarrow> items_at v0 ps i xs \<Longrightarrow> list_all normal_value xs \<Longrightarrow> list_all (plain_payload L) xs \<Longrightarrow>
     located v0 cs \<Longrightarrow> sound cs st \<Longrightarrow> \<exists>st'. resolve_items L ys i p [] get d st = (st', Ok xs) \<and> sound cs st'"
proof (induction L v p cs d and L m p cs d and L xs i p cs d arbitrary: w ms ms' ps st and n ms ms' ps st and ys ms ms' ps st
    rule: applyMask_apply_entries_apply_items.induct)
  case (1 L v p cs d)
  have d: "\<not> maxPayloadDepth < d" using collect_depth[OF 1(4)] by simp
  show ?case
  proof (cases v rule: value_cases)
    case (VMap m)
    then obtain n where n: "apply_entries L m p cs (d + 1) = Ok n" "w = VMap n"
      using 1(3) d by (subst (asm) applyMask.simps) (auto split: result.splits)
    have c: "mask_entries L m p (d + 1) ms = Ok ms'" using 1(4) d VMap by (subst (asm) collectMaskCandidates.simps) simp
    have "list_all (\<lambda>q. normal_value (snd q)) m" "entries_at v0 ps m" using 1(7,8) VMap at_map by simp_all
    with 1(2)[OF d VMap n(1) c 1(5,6) _ _ _ 1(10,11)] 1(9) VMap
    obtain st' where "resolve_entries L n p [] get (d + 1) st = (st', Ok m) \<and> sound cs st'" by blast
    then show ?thesis using VMap n(2) d by (subst resolvePayloadValue.simps) simp
  next
    case (VSlice xs)
    then obtain n where n: "apply_items L xs 0 p cs (d + 1) = Ok n" "w = VSlice n"
      using 1(3) d by (subst (asm) applyMask.simps) (auto split: result.splits)
    have c: "mask_items L xs 0 p (d + 1) ms = Ok ms'" using 1(4) d VSlice by (subst (asm) collectMaskCandidates.simps) simp
    have "list_all normal_value xs" "items_at v0 ps 0 xs" "list_all (plain_payload L) xs"
      using 1(7-9) VSlice at_slice by simp_all
    with 1(1)[OF d VSlice n(1) c 1(5,6) _ _ _ 1(10,11)]
    obtain st' where "resolve_items L n 0 p [] get (d + 1) st = (st', Ok xs) \<and> sound cs st'" by blast
    then show ?thesis using VSlice n(2) d by (subst resolvePayloadValue.simps) simp
  next
    case leaf
    then have w: "w = v" using 1(3) d by (simp add: leaf_steps)
    show ?thesis
    proof (cases "\<exists>s. v = VString s")
      case True
      then obtain s where s: "v = VString s" by blast
      then have "resolvePayloadValue L w p [] get d st = (st, Ok v)"
        using 1(9) w d by (simp add: resolve_of_string resolve_string_plain)
      then show ?thesis using 1(11) by blast
    next
      case False
      then show ?thesis using leaf w d 1(11) by (simp add: leaf_steps)
    qed
  qed
next
  case (3 L q m p cs d)
  let ?path = "joinAttributePath p (fst q)"
  have k: "list_all plain_attribute (ps @ [fst q])" using 3(7,10) by simp
  then have path: "?path = JSONPointerFromTokens (ps @ [fst q])" using join_attribute_pointer 3(6) by simp
  from 3(5) obtain ms1 ms2 where s: "collectMaskCandidates L (snd q) ?path d ms1 = Ok ms2" "mask_entries L m p d ms2 = Ok ms'"
    by (auto simp: Let_def split: result.splits)
  have a: "stands_at v0 (ps @ [fst q]) (snd q)" "entries_at v0 ps m" using 3(8) by (simp_all add: entries_at_def)
  have nf: "normal_value (snd q)" "list_all (\<lambda>q. normal_value (snd q)) m" "plain_payload L (snd q)" "plain_payload L (VMap m)"
    using 3(9,10) by simp_all
  have d: "d \<le> maxPayloadDepth" using collect_depth[OF s(1)] .
  obtain b where b: "masks_field L (snd q) ?path cs = Ok b" using 3(4) by (auto simp: Let_def split: result.splits)
  show ?case
  proof (cases b)
    case True
    then obtain r where r: "apply_entries L m p cs d = Ok r" "n = (fst q, VString currentScopeSecretPlaceholder) # r"
      using 3(4) b by (auto simp: Let_def split: result.splits)
    obtain t x where t: "snd q = VString t" "map_get cs ?path = Some x"
      using b True by (auto simp: masks_field_def split: if_splits gval.splits result.splits)
    then have "x = t" using located_unique[OF 3(11)] a(1) path by metis
    then have "map_get cs (JSONPointerFromTokens (ps @ [fst q])) = Some t" using t(2) path by simp
    from resolve_current_scope[OF 3(12) this k, of L]
    obtain st1 where st1: "resolvePayloadValue L (VString currentScopeSecretPlaceholder) ?path [] get d st = (st1, Ok (snd q))" "sound cs st1"
      unfolding resolve_of_string[OF d] path t(1) by blast
    obtain st2 where "resolve_entries L r p [] get d st1 = (st2, Ok m)" "sound cs st2"
      using 3(1)[OF refl b _ r(1) s(2) 3(6,7) a(2) nf(2,4) 3(11) st1(2)] True by blast
    then show ?thesis using r(2) st1 by simp
  next
    case False
    then obtain c r where c: "applyMask L (snd q) ?path cs d = Ok c" and r: "apply_entries L m p cs d = Ok r" "n = (fst q, c) # r"
      using 3(4) b by (auto simp: Let_def split: result.splits)
    obtain st1 where st1: "resolvePayloadValue L c ?path [] get d st = (st1, Ok (snd q))" "sound cs st1"
      using 3(2)[OF refl b _ c s(1) path k a(1) nf(1,3) 3(11,12)] False by blast
    obtain st2 where "resolve_entries L r p [] get d st1 = (st2, Ok m)" "sound cs st2"
      using 3(3)[OF refl b _ c r(1) s(2) 3(6,7) a(2) nf(2,4) 3(11) st1(2)] False by blast
    then show ?thesis using r(2) st1 by simp
  qed
next
  case (5 L x xs i p cs d)
  let ?path = "joinAttributePath p (itoa (int i))"
  have k: "list_all plain_attribute (ps @ [itoa (int i)])" using itoa_plain 5(6) by simp
  have path: "?path = JSONPointerFromTokens (ps @ [itoa (int i)])" using join_attribute_pointer[OF itoa_plain] 5(5) by simp
  from 5(4) obtain ms1 where s: "collectMaskCandidates L x ?path d ms = Ok ms1" "mask_items L xs (i + 1) p d ms1 = Ok ms'"
    by (auto split: result.splits)
  obtain c r where c: "applyMask L x ?path cs d = Ok c" and r: "apply_items L xs (i + 1) p cs d = Ok r" and ys: "ys = c # r"
    using 5(3) by (auto split: result.splits)
  have a: "stands_at v0 (ps @ [itoa (int i)]) x" "items_at v0 ps (i + 1) xs" "normal_value x" "list_all normal_value xs"
    "plain_payload L x" "list_all (plain_payload L) xs" using 5(7-9) by simp_all
  obtain st1 where st1: "resolvePayloadValue L c ?path [] get d st = (st1, Ok x)" "sound cs st1"
    using 5(1)[OF c s(1) path k a(1,3,5) 5(10,11)] by blast
  obtain st2 where "resolve_items L r (i + 1) p [] get d st1 = (st2, Ok xs)" "sound cs st2"
    using 5(2)[OF c r s(2) 5(5,6) a(2,4,6) 5(10) st1(2)] by blast
  then show ?case using ys st1 by simp
qed auto

text \<open>Resolving a masked payload from the store that it was masked into restores it.\<close>

lemma resolve_mask:
  assumes "invar s" and "go_value v" and "Normalize v = Ok n" and "plain_payload L n"
    and "MaskPayload L put s v = (s', Ok m)"
  shows "snd (ResolvePayload L m get s') = Ok n"
proof -
  have n: "normal_value n" using assms(2,3) normalize_sound by (simp add: Normalize_eq)
  from assms(3,5) obtain cs sk where c: "collectMaskCandidates L n [] 0 ([], []) = Ok (cs, sk)"
    and st: "store_candidates put cs s = (s', None)" and a: "applyMask L n [] cs 0 = Ok m"
    by (auto simp: MaskPayload_def split: result.splits prod.splits option.splits)
  have l: "located n cs"
    using collect_located(1)[OF c, of "[]" n] n assms(4) at_self by (simp add: located_def)
  have "distinct (map (NormalizeKey \<circ> fst) cs)"
    using located_keys_distinct[OF l] store_all_keys[OF assms(1) st] by blast
  then have "readable cs s'"
    using store_all_get[OF assms(1) st] by (simp add: readable_def map_of_SomeD)
  moreover have "invar s'" using store_all_invar[OF assms(1) st] .
  ultimately have "sound cs (s', [])" by (simp add: sound_def readable_def)
  then obtain st' where "resolvePayloadValue L m [] [] get 0 (s', []) = (st', Ok n)"
    using resolve_masked(1)[OF a c _ _ at_self n assms(4) l] by fastforce
  moreover have "Normalize m = Ok m" using masked_normal(1)[OF n a] by simp
  ultimately show ?thesis
    by (simp add: ResolvePayload_def resolvePayloadWithResourceScope_def split: prod.splits)
qed

end

section \<open>Properties\<close>

text \<open>C4: a payload that \<open>MaskPayload\<close> returned has no secret left that \<open>DetectSecretCandidates\<close> would report,
  whatever store the secrets went to.\<close>

theorem MaskPayload_leaves_no_secret:
  assumes "go_value v" and "MaskPayload L storeFn s v = (s', Ok m)"
  shows "DetectSecretCandidates L m = Ok []"
proof -
  from assms(2) obtain n cs sk where n: "Normalize v = Ok n" and c: "collectMaskCandidates L n [] 0 ([], []) = Ok (cs, sk)"
    and a: "applyMask L n [] cs 0 = Ok m"
    by (auto simp: MaskPayload_def split: result.splits prod.splits option.splits)
  have "normal_value m"
    using normalize_sound assms(1) n masked_normal(1)[OF _ a] by (simp add: Normalize_eq)
  moreover have "collectDetectedCandidates L m [] 0 = Ok []" using masked_no_secret(1)[OF c _ a] by simp
  ultimately show ?thesis by (simp add: DetectSecretCandidates_def)
qed

text \<open>A library whose tables know no letters or digits outside ASCII, and a store that keeps a list.\<close>

definition ascii_text :: text_lib where
  "ascii_text = \<lparr>table_letter = (\<lambda>_. False), table_digit = (\<lambda>_. False), table_upper = (\<lambda>_. False),
     table_lower = (\<lambda>_. False), table_to_lower = map lower_byte,
     quote = (\<lambda>s. [CHR 0x22] @ s @ [CHR 0x22]), unquote = (\<lambda>s. Ok (butlast (tl s)))\<rparr>"

definition append_store :: "((string \<times> string) list, string) put_fn" where
  "append_store s k v = (s @ [(k, v)], None)"

theorem MaskPayload_leaves_no_secret_witness:
  "DetectSecretCandidates ascii_text (VMap [(''clientSecret'', VString ''s3cr3t''), (''user'', VString ''bob'')]) = Ok [''/clientSecret'']
   \<and> MaskPayload ascii_text append_store [] (VMap [(''clientSecret'', VString ''s3cr3t''), (''user'', VString ''bob'')]) =
       ([(''/clientSecret'', ''s3cr3t'')], Ok (VMap [(''clientSecret'', VString ''{{secret .}}''), (''user'', VString ''bob'')]))
   \<and> DetectSecretCandidates ascii_text (VMap [(''clientSecret'', VString ''{{secret .}}''), (''user'', VString ''bob'')]) = Ok []"
proof -
  have m: "MaskPayload ascii_text append_store [] (VMap [(''clientSecret'', VString ''s3cr3t''), (''user'', VString ''bob'')]) =
       ([(''/clientSecret'', ''s3cr3t'')], Ok (VMap [(''clientSecret'', VString ''{{secret .}}''), (''user'', VString ''bob'')]))"
    by code_simp
  have "go_value (VMap [(''clientSecret'', VString ''s3cr3t''), (''user'', VString ''bob'')])" by code_simp
  moreover have "DetectSecretCandidates ascii_text (VMap [(''clientSecret'', VString ''s3cr3t''), (''user'', VString ''bob'')]) = Ok [''/clientSecret'']"
    by code_simp
  ultimately show ?thesis using MaskPayload_leaves_no_secret[OF _ m] m by blast
qed

end
