(* ===== verification/Secret_File_Store.thy ===== *)
theory Secret_File_Store
  imports Secret_Roundtrip "HOL-Library.Word"
begin

text \<open>
  The encrypted file store of secrets (src/internal/providers/secrets/file).

  The record \<open>FileStore\<close> is the \<open>Store\<close> struct together with what it acts on: the content of the file
  at its path (\<open>None\<close>: no file) and the number of system calls made so far.  One process uses the file;
  each operation runs under the store's mutex, so operations are functions of the state.

  The record \<open>store_env\<close> holds the code that is not this package's: encoders, ciphers, the key
  derivation, random bytes and the outcome of system calls.  \<open>fault E n\<close> is the error of the n-th
  system call, if it fails; a failing \<open>os.Stat\<close> is one that fails for another reason than a missing
  file.  The results of closing and removing temporary files after an error are dropped by the code.

  The lemmas show that the store refines a map from normalised keys to values, that a failed operation
  loses nothing, that what was stored survives a restart, and that masking into the store and
  resolving from it restores a payload.
\<close>

section \<open>Configuration and state\<close>

record KDF =
  kdf_Time :: int
  kdf_Memory :: int
  kdf_Threads :: int

record FileSecretStore =
  cfg_Path :: string
  cfg_Key :: string
  cfg_KeyFile :: string
  cfg_Passphrase :: string
  cfg_PassphraseFile :: string
  cfg_KDF :: "KDF option"

record kdfSettings =
  KTime :: "32 word"
  KMemory :: "32 word"
  KThreads :: "8 word"

record encryptedStore =
  Version :: int
  Salt :: string
  Nonce :: string
  Ciphertext :: string
  KDFTime :: "32 word"
  KDFMemory :: "32 word"
  KDFThreads :: "8 word"

type_synonym secretSnapshot = "(string, string) gomap"

record FileStore =
  store_path :: string
  store_key :: string
  store_passphrase :: string
  store_kdf :: kdfSettings
  initialized :: bool
  cachedSnapshot :: "secretSnapshot option"
  disk :: "string option"
  calls :: nat

record store_env =
  fault :: "nat \<Rightarrow> go_error option"
  random :: "nat \<Rightarrow> nat \<Rightarrow> string"
  read_file :: "string \<Rightarrow> string result"
  std64 :: base64_codec
  raw64_decode :: "string \<Rightarrow> string result"
  hex_decode :: "string \<Rightarrow> string result"
  argon2_key :: "string \<Rightarrow> string \<Rightarrow> 32 word \<Rightarrow> 32 word \<Rightarrow> 8 word \<Rightarrow> nat \<Rightarrow> string"
  new_cipher :: "string \<Rightarrow> go_error option"
  new_gcm :: "string \<Rightarrow> go_error option"
  gcm_seal :: "string \<Rightarrow> string \<Rightarrow> string \<Rightarrow> string"
  gcm_open :: "string \<Rightarrow> string \<Rightarrow> string \<Rightarrow> string result"
  marshal_snapshot :: "secretSnapshot \<Rightarrow> string result"
  unmarshal_snapshot :: "string \<Rightarrow> secretSnapshot option result"
  marshal_envelope :: "encryptedStore \<Rightarrow> string result"
  unmarshal_envelope :: "string \<Rightarrow> encryptedStore result"

definition encryptedStoreVersion :: int where "encryptedStoreVersion = 1"
definition keyLengthBytes :: nat where "keyLengthBytes = 32"
definition nonceLengthBytes :: nat where "nonceLengthBytes = 12"
definition saltLengthBytes :: nat where "saltLengthBytes = 16"

section \<open>Keys\<close>

definition deriveKeyWithSettings :: "store_env \<Rightarrow> FileStore \<Rightarrow> string \<Rightarrow> kdfSettings \<Rightarrow> string result" where
  "deriveKeyWithSettings E s salt kdf =
     (if store_key s \<noteq> [] then Ok (store_key s)
      else if store_passphrase s = [] then Err (Invalid (msg ''secret store passphrase is missing'') None)
      else if salt = [] then Err (Invalid (msg ''secret store salt is missing'') None)
      else Ok (argon2_key E (store_passphrase s) salt (KTime kdf) (KMemory kdf) (KThreads kdf) keyLengthBytes))"

definition deriveKey :: "store_env \<Rightarrow> FileStore \<Rightarrow> string \<Rightarrow> string result" where
  "deriveKey E s salt = deriveKeyWithSettings E s salt (store_kdf s)"

text \<open>The conversions \<open>uint32(n)\<close> and \<open>uint8(n)\<close> keep the low bits.\<close>

definition resolveKDFSettings :: "KDF option \<Rightarrow> kdfSettings result" where
  "resolveKDFSettings kdf =
     (let settings = \<lparr>KTime = 3, KMemory = 65536, KThreads = 4\<rparr> in
      case kdf of
        None \<Rightarrow> Ok settings
      | Some k \<Rightarrow>
          if kdf_Time k < 0 \<or> kdf_Memory k < 0 \<or> kdf_Threads k < 0
          then Err (Invalid (msg ''secret-store.file.kdf values must be non-negative'') None)
          else
            let settings = (if kdf_Time k > 0 then settings\<lparr>KTime := word_of_int (kdf_Time k)\<rparr> else settings);
                settings = (if kdf_Memory k > 0 then settings\<lparr>KMemory := word_of_int (kdf_Memory k)\<rparr> else settings);
                settings = (if kdf_Threads k > 0 then settings\<lparr>KThreads := word_of_int (kdf_Threads k)\<rparr> else settings)
            in if KTime settings = 0 \<or> KMemory settings = 0 \<or> KThreads settings = 0
               then Err (Invalid (msg ''secret-store.file.kdf values must be greater than zero'') None)
               else Ok settings)"

definition accepted_key :: "string result \<Rightarrow> string option" where
  "accepted_key r = (case r of Ok k \<Rightarrow> if length k = keyLengthBytes then Some k else None | Err e \<Rightarrow> None)"

definition parseEncryptionKey :: "store_env \<Rightarrow> string \<Rightarrow> string result" where
  "parseEncryptionKey E raw =
     (let trimmed = trim_space raw in
      if trimmed = [] then Err (Invalid (msg ''secret-store.file.key must not be empty'') None)
      else case accepted_key (hex_decode E trimmed) of
        Some k \<Rightarrow> Ok k
      | None \<Rightarrow>
          (case accepted_key (base64_decode (std64 E) trimmed) of
             Some k \<Rightarrow> Ok k
           | None \<Rightarrow>
               (case accepted_key (raw64_decode E trimmed) of
                  Some k \<Rightarrow> Ok k
                | None \<Rightarrow>
                    if length trimmed = keyLengthBytes then Ok trimmed
                    else Err (Invalid (msg ''secret-store.file.key must be 32-byte raw, base64, or hex'') None))))"

definition countSet :: "bool list \<Rightarrow> nat" where
  "countSet vs = length (filter (\<lambda>b. b) vs)"

text \<open>A new store has made no system calls and knows nothing of its file, whose content is \<open>d\<close>.\<close>

definition NewFileStore :: "store_env \<Rightarrow> FileSecretStore \<Rightarrow> string option \<Rightarrow> FileStore result" where
  "NewFileStore E cfg d =
     (let path = trim_space (cfg_Path cfg) in
      if path = [] then Err (Invalid (msg ''secret-store.file.path is required'') None)
      else if countSet [trim_space (cfg_Key cfg) \<noteq> [], trim_space (cfg_KeyFile cfg) \<noteq> [],
                 trim_space (cfg_Passphrase cfg) \<noteq> [], trim_space (cfg_PassphraseFile cfg) \<noteq> []] \<noteq> 1
      then Err (Invalid (msg ''secret-store.file must define exactly one of key, key-file, passphrase, passphrase-file'') None)
      else case resolveKDFSettings (cfg_KDF cfg) of
        Err e \<Rightarrow> Err e
      | Ok kdf \<Rightarrow>
          (let service = \<lparr>store_path = path_clean path, store_key = [], store_passphrase = [], store_kdf = kdf,
                 initialized = False, cachedSnapshot = None, disk = d, calls = 0\<rparr> in
           if trim_space (cfg_Key cfg) \<noteq> []
           then (case parseEncryptionKey E (cfg_Key cfg) of
                   Err e \<Rightarrow> Err e | Ok key \<Rightarrow> Ok (service\<lparr>store_key := key\<rparr>))
           else if trim_space (cfg_KeyFile cfg) \<noteq> []
           then (case read_file E (trim_space (cfg_KeyFile cfg)) of
                   Err e \<Rightarrow> Err (Invalid (msg ''secret-store.file.key-file could not be read'') (Some e))
                 | Ok keyFileData \<Rightarrow>
                     (case parseEncryptionKey E keyFileData of
                        Err e \<Rightarrow> Err e | Ok key \<Rightarrow> Ok (service\<lparr>store_key := key\<rparr>)))
           else if trim_space (cfg_Passphrase cfg) \<noteq> []
           then Ok (service\<lparr>store_passphrase := trim_space (cfg_Passphrase cfg)\<rparr>)
           else if trim_space (cfg_PassphraseFile cfg) \<noteq> []
           then (case read_file E (trim_space (cfg_PassphraseFile cfg)) of
                   Err e \<Rightarrow> Err (Invalid (msg ''secret-store.file.passphrase-file could not be read'') (Some e))
                 | Ok passphraseData \<Rightarrow>
                     (let passphrase = trim_space passphraseData in
                      if passphrase = [] then Err (Invalid (msg ''secret-store.file.passphrase-file must not be empty'') None)
                      else Ok (service\<lparr>store_passphrase := passphrase\<rparr>)))
           else Err (Invalid (msg ''secret-store.file key material is invalid'') None)))"

section \<open>The file\<close>

definition syscall :: "store_env \<Rightarrow> FileStore \<Rightarrow> FileStore \<times> go_error option" where
  "syscall E s = (s\<lparr>calls := calls s + 1\<rparr>, fault E (calls s))"

text \<open>System calls in a row, each with the message of its failure.\<close>

fun sys_steps :: "store_env \<Rightarrow> string list \<Rightarrow> FileStore \<Rightarrow> FileStore \<times> go_error option" where
  "sys_steps E [] s = (s, None)"
| "sys_steps E (m # ms) s =
     (case syscall E s of
        (s', Some e) \<Rightarrow> (s', Some (Internal (msg m) (Some e)))
      | (s', None) \<Rightarrow> sys_steps E ms s')"

definition write_steps :: "string list" where
  "write_steps =
     [''failed to create secret store directory'', ''failed to create temporary secret file'',
      ''failed to write temporary secret file'', ''failed to set secret file permissions'',
      ''failed to close temporary secret file'', ''failed to replace secret store file'']"

definition writeAtomicFile :: "store_env \<Rightarrow> string \<Rightarrow> FileStore \<Rightarrow> FileStore \<times> go_error option" where
  "writeAtomicFile E data s =
     (case sys_steps E write_steps s of
        (s', Some e) \<Rightarrow> (s', Some e)
      | (s', None) \<Rightarrow> (s'\<lparr>disk := Some data\<rparr>, None))"

text \<open>What \<open>readSnapshotLocked\<close> makes of the file's content.  A nonce of another length than the
  cipher's makes \<open>gcm.Open\<close> panic.\<close>

definition decodeEnvelope :: "store_env \<Rightarrow> FileStore \<Rightarrow> encryptedStore \<Rightarrow> secretSnapshot result" where
  "decodeEnvelope E s envelope =
     (if Version envelope \<noteq> encryptedStoreVersion
      then Err (Invalid (msg ''secret store format version is unsupported'') None)
      else case base64_decode (std64 E) (Nonce envelope) of
        Err e \<Rightarrow> Err (Invalid (msg ''secret store nonce is invalid'') (Some e))
      | Ok nonce \<Rightarrow>
      (case base64_decode (std64 E) (Ciphertext envelope) of
        Err e \<Rightarrow> Err (Invalid (msg ''secret store ciphertext is invalid'') (Some e))
      | Ok ciphertext \<Rightarrow>
      (case (if Salt envelope \<noteq> [] then base64_decode (std64 E) (Salt envelope) else Ok []) of
        Err e \<Rightarrow> Err (Invalid (msg ''secret store salt is invalid'') (Some e))
      | Ok salt \<Rightarrow>
          if salt \<noteq> [] \<and> (KDFTime envelope = 0 \<or> KDFMemory envelope = 0 \<or> KDFThreads envelope = 0)
          then Err (Invalid (msg ''secret store KDF parameters are missing'') None)
          else
            let readKDF = (if salt \<noteq> []
                  then \<lparr>KTime = KDFTime envelope, KMemory = KDFMemory envelope, KThreads = KDFThreads envelope\<rparr>
                  else store_kdf s)
            in (case deriveKeyWithSettings E s salt readKDF of
                  Err e \<Rightarrow> Err e
                | Ok key \<Rightarrow>
                (case new_cipher E key of
                  Some e \<Rightarrow> Err (Internal (msg ''failed to initialize secret cipher'') (Some e))
                | None \<Rightarrow>
                (case new_gcm E key of
                  Some e \<Rightarrow> Err (Internal (msg ''failed to initialize secret cipher mode'') (Some e))
                | None \<Rightarrow>
                    if length nonce \<noteq> nonceLengthBytes
                    then Err (Panic (msg ''crypto/cipher: incorrect nonce length given to GCM''))
                    else
                (case gcm_open E key nonce ciphertext of
                  Err e \<Rightarrow> Err (Auth (msg ''failed to decrypt secret store with provided key material'') (Some e))
                | Ok plaintext \<Rightarrow>
                (case unmarshal_snapshot E plaintext of
                  Err e \<Rightarrow> Err (Internal (msg ''failed to decode decrypted secret store'') (Some e))
                | Ok snapshot \<Rightarrow> Ok (case snapshot of None \<Rightarrow> [] | Some m \<Rightarrow> m)))))))))"

definition decodeStoreFile :: "store_env \<Rightarrow> FileStore \<Rightarrow> string \<Rightarrow> secretSnapshot result" where
  "decodeStoreFile E s data =
     (case unmarshal_envelope E data of
        Err e \<Rightarrow> Err (Internal (msg ''failed to decode encrypted secret store'') (Some e))
      | Ok envelope \<Rightarrow> decodeEnvelope E s envelope)"

definition readSnapshotLocked :: "store_env \<Rightarrow> FileStore \<Rightarrow> FileStore \<times> secretSnapshot result" where
  "readSnapshotLocked E s =
     (case cachedSnapshot s of
        Some snapshot \<Rightarrow> (s, Ok snapshot)
      | None \<Rightarrow>
          (case syscall E s of
             (s', Some e) \<Rightarrow> (s', Err (Internal (msg ''failed to read encrypted secret store'') (Some e)))
           | (s', None) \<Rightarrow>
               (case disk s' of
                  None \<Rightarrow> (s', Err (Internal (msg ''failed to read encrypted secret store'')
                             (Some (PlainError (msg ''file does not exist'') None))))
                | Some data \<Rightarrow>
                    (case decodeStoreFile E s' data of
                       Err e \<Rightarrow> (s', Err e)
                     | Ok snapshot \<Rightarrow> (s'\<lparr>cachedSnapshot := Some snapshot\<rparr>, Ok snapshot)))))"

definition randomBytes :: "store_env \<Rightarrow> nat \<Rightarrow> FileStore \<Rightarrow> FileStore \<times> string result" where
  "randomBytes E n s =
     (case syscall E s of
        (s', Some e) \<Rightarrow> (s', Err e)
      | (s', None) \<Rightarrow> (s', Ok (random E (calls s) n)))"

text \<open>The envelope and its encoding, once nonce and salt are drawn.\<close>

definition sealEnvelope :: "store_env \<Rightarrow> FileStore \<Rightarrow> string \<Rightarrow> string \<Rightarrow> string \<Rightarrow> string result" where
  "sealEnvelope E s plaintext nonce salt =
     (case deriveKey E s salt of
        Err e \<Rightarrow> Err e
      | Ok key \<Rightarrow>
      (case new_cipher E key of
        Some e \<Rightarrow> Err (Internal (msg ''failed to initialize secret cipher'') (Some e))
      | None \<Rightarrow>
      (case new_gcm E key of
        Some e \<Rightarrow> Err (Internal (msg ''failed to initialize secret cipher mode'') (Some e))
      | None \<Rightarrow>
          (let envelope = \<lparr>Version = encryptedStoreVersion, Salt = [],
                 Nonce = base64_encode (std64 E) nonce,
                 Ciphertext = base64_encode (std64 E) (gcm_seal E key nonce plaintext),
                 KDFTime = 0, KDFMemory = 0, KDFThreads = 0\<rparr>;
               envelope = (if salt \<noteq> []
                 then envelope\<lparr>Salt := base64_encode (std64 E) salt, KDFTime := KTime (store_kdf s),
                        KDFMemory := KMemory (store_kdf s), KDFThreads := KThreads (store_kdf s)\<rparr>
                 else envelope)
           in case marshal_envelope E envelope of
                Err e \<Rightarrow> Err (Internal (msg ''failed to encode encrypted secret store'') (Some e))
              | Ok encoded \<Rightarrow> Ok encoded))))"

definition drawSalt :: "store_env \<Rightarrow> FileStore \<Rightarrow> FileStore \<times> string result" where
  "drawSalt E s = (if store_passphrase s \<noteq> [] then randomBytes E saltLengthBytes s else (s, Ok []))"

definition writeSnapshotLocked :: "store_env \<Rightarrow> secretSnapshot \<Rightarrow> FileStore \<Rightarrow> FileStore \<times> go_error option" where
  "writeSnapshotLocked E snapshot s =
     (case marshal_snapshot E snapshot of
        Err e \<Rightarrow> (s, Some (Internal (msg ''failed to encode secret snapshot'') (Some e)))
      | Ok plaintext \<Rightarrow>
      (case randomBytes E nonceLengthBytes s of
        (s1, Err e) \<Rightarrow> (s1, Some (Internal (msg ''failed to generate secret nonce'') (Some e)))
      | (s1, Ok nonce) \<Rightarrow>
      (case drawSalt E s1 of
        (s2, Err e) \<Rightarrow> (s2, Some (Internal (msg ''failed to generate secret salt'') (Some e)))
      | (s2, Ok salt) \<Rightarrow>
      (case sealEnvelope E s2 plaintext nonce salt of
        Err e \<Rightarrow> (s2, Some e)
      | Ok encoded \<Rightarrow>
      (case writeAtomicFile E encoded s2 of
        (s3, Some e) \<Rightarrow> (s3, Some e)
      | (s3, None) \<Rightarrow> (s3\<lparr>cachedSnapshot := Some snapshot\<rparr>, None))))))"

section \<open>Operations\<close>

definition init_steps :: "string list" where
  "init_steps = [''failed to prepare secret store directory'', ''failed to inspect secret store file'']"

definition initLocked :: "store_env \<Rightarrow> FileStore \<Rightarrow> FileStore \<times> go_error option" where
  "initLocked E s =
     (if trim_space (store_path s) = [] then (s, Some (Invalid (msg ''secret store path must not be empty'') None))
      else if store_key s = [] \<and> store_passphrase s = []
      then (s, Some (Invalid (msg ''secret store key material is missing'') None))
      else case sys_steps E init_steps s of
        (s1, Some e) \<Rightarrow> (s1, Some e)
      | (s1, None) \<Rightarrow>
          if disk s1 = None
          then (case writeSnapshotLocked E [] s1 of
                  (s2, Some e) \<Rightarrow> (s2, Some e)
                | (s2, None) \<Rightarrow> (s2\<lparr>initialized := True\<rparr>, None))
          else if \<not> initialized s1
          then (case readSnapshotLocked E s1 of
                  (s2, Err e) \<Rightarrow> (s2, Some e)
                | (s2, Ok snapshot) \<Rightarrow> (s2\<lparr>initialized := True\<rparr>, None))
          else (s1\<lparr>initialized := True\<rparr>, None))"

text \<open>The common beginning of the operations: initialise, then read the snapshot.\<close>

definition openSnapshot :: "store_env \<Rightarrow> FileStore \<Rightarrow> FileStore \<times> secretSnapshot result" where
  "openSnapshot E s =
     (case initLocked E s of
        (s1, Some e) \<Rightarrow> (s1, Err e)
      | (s1, None) \<Rightarrow> readSnapshotLocked E s1)"

definition FileStore_Init :: "store_env \<Rightarrow> FileStore \<Rightarrow> FileStore \<times> go_error option" where
  "FileStore_Init E s = initLocked E s"

definition FileStore_Store :: "store_env \<Rightarrow> FileStore \<Rightarrow> string \<Rightarrow> string \<Rightarrow> FileStore \<times> go_error option" where
  "FileStore_Store E s key v =
     (case NormalizeKey key of
        Err e \<Rightarrow> (s, Some e)
      | Ok normalizedKey \<Rightarrow>
          (case openSnapshot E s of
             (s1, Err e) \<Rightarrow> (s1, Some e)
           | (s1, Ok snapshot) \<Rightarrow> writeSnapshotLocked E (map_put normalizedKey v snapshot) s1))"

definition FileStore_Get :: "store_env \<Rightarrow> FileStore \<Rightarrow> string \<Rightarrow> FileStore \<times> string result" where
  "FileStore_Get E s key =
     (case NormalizeKey key of
        Err e \<Rightarrow> (s, Err e)
      | Ok normalizedKey \<Rightarrow>
          (case openSnapshot E s of
             (s1, Err e) \<Rightarrow> (s1, Err e)
           | (s1, Ok snapshot) \<Rightarrow>
               (s1, case map_get snapshot normalizedKey of
                      None \<Rightarrow> Err (NotFound (msg ''secret key not found'') None)
                    | Some v \<Rightarrow> Ok v)))"

definition FileStore_Delete :: "store_env \<Rightarrow> FileStore \<Rightarrow> string \<Rightarrow> FileStore \<times> go_error option" where
  "FileStore_Delete E s key =
     (case NormalizeKey key of
        Err e \<Rightarrow> (s, Some e)
      | Ok normalizedKey \<Rightarrow>
          (case openSnapshot E s of
             (s1, Err e) \<Rightarrow> (s1, Some e)
           | (s1, Ok snapshot) \<Rightarrow> writeSnapshotLocked E (map_del normalizedKey snapshot) s1))"

definition FileStore_List :: "store_env \<Rightarrow> FileStore \<Rightarrow> FileStore \<times> string list result" where
  "FileStore_List E s =
     (case openSnapshot E s of
        (s1, Err e) \<Rightarrow> (s1, Err e)
      | (s1, Ok snapshot) \<Rightarrow> (s1, Ok (sort (map_keys snapshot))))"

definition FileStore_MaskPayload :: "text_lib \<Rightarrow> store_env \<Rightarrow> FileStore \<Rightarrow> gval \<Rightarrow> FileStore \<times> gval result" where
  "FileStore_MaskPayload L E s v = MaskPayload L (FileStore_Store E) s v"

definition FileStore_ResolvePayload :: "text_lib \<Rightarrow> store_env \<Rightarrow> FileStore \<Rightarrow> gval \<Rightarrow> FileStore \<times> gval result" where
  "FileStore_ResolvePayload L E s v = ResolvePayload L v (FileStore_Get E) s"

section \<open>The store as a map\<close>

text \<open>What the store holds: the cached snapshot or else the file; a missing file holds nothing, and a file
  that cannot be decoded has no content (\<open>None\<close>).\<close>

definition contents :: "store_env \<Rightarrow> FileStore \<Rightarrow> secretSnapshot option" where
  "contents E s =
     (case cachedSnapshot s of
        Some c \<Rightarrow> Some c
      | None \<Rightarrow>
          (case disk s of
             None \<Rightarrow> Some []
           | Some d \<Rightarrow> (case decodeStoreFile E s d of Ok c \<Rightarrow> Some c | Err e \<Rightarrow> None)))"

datatype store_op = OpInit | OpStore string string | OpGet string | OpDelete string | OpList

datatype outcome = Done | Found string | Keys "string list" | Failed go_error

definition of_error :: "go_error option \<Rightarrow> outcome" where
  "of_error r = (case r of None \<Rightarrow> Done | Some e \<Rightarrow> Failed e)"

definition of_result :: "('a \<Rightarrow> outcome) \<Rightarrow> 'a result \<Rightarrow> outcome" where
  "of_result f r = (case r of Ok v \<Rightarrow> f v | Err e \<Rightarrow> Failed e)"

fun run_op :: "store_env \<Rightarrow> FileStore \<Rightarrow> store_op \<Rightarrow> FileStore \<times> outcome" where
  "run_op E s OpInit = map_prod id of_error (FileStore_Init E s)"
| "run_op E s (OpStore k v) = map_prod id of_error (FileStore_Store E s k v)"
| "run_op E s (OpGet k) = map_prod id (of_result Found) (FileStore_Get E s k)"
| "run_op E s (OpDelete k) = map_prod id of_error (FileStore_Delete E s k)"
| "run_op E s OpList = map_prod id (of_result Keys) (FileStore_List E s)"

text \<open>The same operations on a map.\<close>

fun spec_op :: "secretSnapshot \<Rightarrow> store_op \<Rightarrow> secretSnapshot \<times> outcome" where
  "spec_op m OpInit = (m, Done)"
| "spec_op m (OpStore k v) =
     (case NormalizeKey k of Err e \<Rightarrow> (m, Failed e) | Ok n \<Rightarrow> (map_put n v m, Done))"
| "spec_op m (OpGet k) =
     (m, case NormalizeKey k of
           Err e \<Rightarrow> Failed e
         | Ok n \<Rightarrow> (case map_get m n of
                      None \<Rightarrow> Failed (NotFound (msg ''secret key not found'') None) | Some v \<Rightarrow> Found v))"
| "spec_op m (OpDelete k) =
     (case NormalizeKey k of Err e \<Rightarrow> (m, Failed e) | Ok n \<Rightarrow> (map_del n m, Done))"
| "spec_op m OpList = (m, Keys (sort (map_keys m)))"

section \<open>What each step changes\<close>

named_theorems store_frame \<open>the state components a step of the store changes\<close>

lemma derive_config [simp]:
  "deriveKeyWithSettings E (s\<lparr>calls := n\<rparr>) = deriveKeyWithSettings E s"
  "deriveKeyWithSettings E (s\<lparr>disk := d\<rparr>) = deriveKeyWithSettings E s"
  "deriveKeyWithSettings E (s\<lparr>cachedSnapshot := c\<rparr>) = deriveKeyWithSettings E s"
  "deriveKeyWithSettings E (s\<lparr>initialized := b\<rparr>) = deriveKeyWithSettings E s"
  by (simp_all add: fun_eq_iff deriveKeyWithSettings_def)

lemma decode_config [simp]:
  "decodeStoreFile E (s\<lparr>calls := n\<rparr>) = decodeStoreFile E s"
  "decodeStoreFile E (s\<lparr>disk := d\<rparr>) = decodeStoreFile E s"
  "decodeStoreFile E (s\<lparr>cachedSnapshot := c\<rparr>) = decodeStoreFile E s"
  "decodeStoreFile E (s\<lparr>initialized := b\<rparr>) = decodeStoreFile E s"
  by (simp_all add: fun_eq_iff decodeStoreFile_def decodeEnvelope_def cong: result.case_cong option.case_cong if_cong)

lemma seal_config [simp]: "sealEnvelope E (s\<lparr>calls := n\<rparr>) = sealEnvelope E s"
  by (simp add: fun_eq_iff sealEnvelope_def deriveKey_def cong: result.case_cong option.case_cong if_cong)

lemma contents_calls [simp]:
  "contents E (s\<lparr>calls := n\<rparr>) = contents E s" "contents E (s\<lparr>initialized := b\<rparr>) = contents E s"
  "contents E (s\<lparr>cachedSnapshot := Some c\<rparr>) = Some c"
  by (simp_all add: contents_def cong: result.case_cong option.case_cong)

lemma contents_cached: "cachedSnapshot s = Some c \<Longrightarrow> contents E s = Some c"
  by (simp add: contents_def)

lemma sys_steps_frame [store_frame]: "sys_steps E ms s = (s', r) \<Longrightarrow> \<exists>n. s' = s\<lparr>calls := n\<rparr>"
proof (induction ms arbitrary: s)
  case Nil
  then show ?case by (auto intro!: exI[of _ "calls s"])
next
  case (Cons m ms)
  show ?case
  proof (cases "fault E (calls s)")
    case None
    then have "sys_steps E ms (s\<lparr>calls := calls s + 1\<rparr>) = (s', r)" using Cons.prems by (simp add: syscall_def)
    then show ?thesis using Cons.IH by fastforce
  next
    case (Some e)
    then show ?thesis using Cons.prems by (auto simp: syscall_def)
  qed
qed

lemma randomBytes_frame [store_frame]: "randomBytes E k s = (s', r) \<Longrightarrow> \<exists>n. s' = s\<lparr>calls := n\<rparr>"
  by (auto simp: randomBytes_def syscall_def split: option.splits)

lemma drawSalt_frame [store_frame]:
  assumes "drawSalt E s = (s', r)"
  shows "\<exists>n. s' = s\<lparr>calls := n\<rparr>"
proof (cases "store_passphrase s = []")
  case True
  then have "s' = s\<lparr>calls := calls s\<rparr>" using assms by (simp add: drawSalt_def)
  then show ?thesis by blast
next
  case False
  then show ?thesis using assms randomBytes_frame by (simp add: drawSalt_def)
qed

lemma writeAtomicFile_frame:
  assumes "writeAtomicFile E d s = (s', r)"
  shows "\<exists>n. s' = (if r = None then s\<lparr>calls := n, disk := Some d\<rparr> else s\<lparr>calls := n\<rparr>)"
proof -
  obtain s1 r1 where s1: "sys_steps E write_steps s = (s1, r1)" by fastforce
  then obtain n where "s1 = s\<lparr>calls := n\<rparr>" using sys_steps_frame by blast
  then show ?thesis using assms s1 by (cases r1) (auto simp: writeAtomicFile_def)
qed

text \<open>A successful write leaves a sealed envelope of the snapshot on disk; a failed one changes nothing.\<close>

definition sealed :: "store_env \<Rightarrow> FileStore \<Rightarrow> secretSnapshot \<Rightarrow> string \<Rightarrow> bool" where
  "sealed E s c d = (\<exists>pt n m salt. marshal_snapshot E c = Ok pt
     \<and> (if store_passphrase s \<noteq> [] then salt = random E m saltLengthBytes else salt = [])
     \<and> sealEnvelope E s pt (random E n nonceLengthBytes) salt = Ok d)"

lemma randomBytes_Ok: "randomBytes E k s = (s', Ok b) \<Longrightarrow> b = random E (calls s) k"
  by (auto simp: randomBytes_def syscall_def split: option.splits)

lemma drawSalt_Ok:
  "drawSalt E s = (s', Ok salt) \<Longrightarrow>
   (if store_passphrase s \<noteq> [] then salt = random E (calls s) saltLengthBytes else salt = [])"
  by (auto simp: drawSalt_def dest: randomBytes_Ok split: if_splits)

lemma writeSnapshot_frame:
  assumes "writeSnapshotLocked E c s = (s', r)"
  shows "\<exists>n d. s' = (if r = None then s\<lparr>calls := n, disk := Some d, cachedSnapshot := Some c\<rparr> else s\<lparr>calls := n\<rparr>)
          \<and> (r = None \<longrightarrow> sealed E s c d)"
proof (cases r)
  case None
  then obtain pt s1 nonce s2 salt d s3 where w: "marshal_snapshot E c = Ok pt"
    "randomBytes E nonceLengthBytes s = (s1, Ok nonce)" "drawSalt E s1 = (s2, Ok salt)"
    "sealEnvelope E s2 pt nonce salt = Ok d" "writeAtomicFile E d s2 = (s3, None)" "s' = s3\<lparr>cachedSnapshot := Some c\<rparr>"
    using assms by (auto simp: writeSnapshotLocked_def split: result.splits prod.splits option.splits)
  obtain n1 n2 n3 where f: "s1 = s\<lparr>calls := n1\<rparr>" "s2 = s1\<lparr>calls := n2\<rparr>" "s3 = s2\<lparr>calls := n3, disk := Some d\<rparr>"
    using randomBytes_frame[OF w(2)] drawSalt_frame[OF w(3)] writeAtomicFile_frame[OF w(5)] by auto
  have "sealed E s c d"
    unfolding sealed_def using w(1,4) randomBytes_Ok[OF w(2)] drawSalt_Ok[OF w(3)] f(1,2)
    by (intro exI[of _ pt] exI[of _ "calls s"] exI[of _ n1] exI[of _ salt]) (auto split: if_splits)
  then show ?thesis using None w(6) f by auto
next
  case (Some e)
  then consider "s' = s" | s1 x where "randomBytes E nonceLengthBytes s = (s1, x)" "s' = s1"
    | s1 x s2 y where "randomBytes E nonceLengthBytes s = (s1, x)" "drawSalt E s1 = (s2, y)" "s' = s2"
    | s1 x s2 y d e where "randomBytes E nonceLengthBytes s = (s1, x)" "drawSalt E s1 = (s2, y)" "writeAtomicFile E d s2 = (s', Some e)"
    using assms by (auto simp: writeSnapshotLocked_def split: result.splits prod.splits option.splits)
  then have "\<exists>n. s' = s\<lparr>calls := n\<rparr>"
  proof cases
    case 1
    then show ?thesis by (auto intro!: exI[of _ "calls s"])
  next
    case 2
    then show ?thesis using randomBytes_frame by blast
  next
    case 3
    then show ?thesis using randomBytes_frame drawSalt_frame by fastforce
  next
    case 4
    then show ?thesis using randomBytes_frame[OF 4(1)] drawSalt_frame[OF 4(2)] writeAtomicFile_frame[OF 4(3)] by auto
  qed
  then show ?thesis using Some by auto
qed

lemma readSnapshot_frame:
  assumes "readSnapshotLocked E s = (s', r)"
  shows "case r of
           Ok c \<Rightarrow> (\<exists>n. s' = s\<lparr>calls := n, cachedSnapshot := Some c\<rparr>) \<and> contents E s = Some c
             \<and> (cachedSnapshot s = None \<longrightarrow> (\<exists>d. disk s = Some d \<and> decodeStoreFile E s d = Ok c))
         | Err e \<Rightarrow> (\<exists>n. s' = s\<lparr>calls := n\<rparr>) \<and> cachedSnapshot s = None"
proof (cases "cachedSnapshot s")
  case (Some c)
  then have "s' = s" "r = Ok c" using assms by (simp_all add: readSnapshotLocked_def)
  then show ?thesis using Some by (auto simp: contents_def intro!: exI[of _ "calls s"])
next
  case None
  then show ?thesis
    using assms by (auto simp: readSnapshotLocked_def syscall_def contents_def split: option.splits result.splits)
qed

text \<open>The cache never holds anything that the file does not: the file decodes to it, or was sealed from it;
  and an initialised store has its cache.\<close>

definition backed :: "store_env \<Rightarrow> FileStore \<Rightarrow> bool" where
  "backed E s = ((initialized s \<longrightarrow> cachedSnapshot s \<noteq> None) \<and>
     (\<forall>c. cachedSnapshot s = Some c \<longrightarrow>
        (\<exists>d. disk s = Some d \<and> (decodeStoreFile E s d = Ok c \<or> sealed E s c d))))"

definition store_config :: "FileStore \<Rightarrow> string \<times> string \<times> string \<times> kdfSettings" where
  "store_config s = (store_path s, store_key s, store_passphrase s, store_kdf s)"

lemma sealed_config [simp]: "sealed E (s\<lparr>calls := n\<rparr>) = sealed E s"
  "sealed E (s\<lparr>disk := d\<rparr>) = sealed E s" "sealed E (s\<lparr>cachedSnapshot := c\<rparr>) = sealed E s"
  "sealed E (s\<lparr>initialized := b\<rparr>) = sealed E s"
  by (simp_all add: fun_eq_iff sealed_def sealEnvelope_def deriveKey_def cong: result.case_cong option.case_cong if_cong)

lemma store_config_simps [simp]: "store_config (s\<lparr>calls := n\<rparr>) = store_config s"
  "store_config (s\<lparr>disk := d\<rparr>) = store_config s" "store_config (s\<lparr>cachedSnapshot := c\<rparr>) = store_config s"
  "store_config (s\<lparr>initialized := b\<rparr>) = store_config s"
  by (simp_all add: store_config_def)

lemma backed_simps [simp]: "backed E (s\<lparr>calls := n\<rparr>) = backed E s"
  "cachedSnapshot s \<noteq> None \<Longrightarrow> backed E (s\<lparr>initialized := b\<rparr>) = backed E s"
  by (simp_all add: backed_def)

lemma write_step:
  assumes "backed E s" and "writeSnapshotLocked E c s = (s', r)"
  shows "backed E s' \<and> store_config s' = store_config s \<and> contents E s' = (if r = None then Some c else contents E s)
    \<and> (r = None \<longrightarrow> cachedSnapshot s' = Some c)"
  using writeSnapshot_frame[OF assms(2)] assms(1) by (cases r) (auto simp: backed_def)

lemma read_step:
  assumes "backed E s" and "readSnapshotLocked E s = (s', r)"
  shows "backed E s' \<and> store_config s' = store_config s \<and> contents E s' = contents E s \<and> disk s' = disk s
    \<and> (\<forall>c. r = Ok c \<longrightarrow> contents E s = Some c \<and> cachedSnapshot s' = Some c)"
proof (cases r)
  case (Ok c)
  then obtain n where f: "s' = s\<lparr>calls := n, cachedSnapshot := Some c\<rparr>" "contents E s = Some c"
    "cachedSnapshot s = None \<longrightarrow> (\<exists>d. disk s = Some d \<and> decodeStoreFile E s d = Ok c)"
    using readSnapshot_frame[OF assms(2)] by auto
  have "backed E s'"
    using f assms(1) by (cases "cachedSnapshot s") (auto simp: backed_def contents_def)
  then show ?thesis using f Ok by simp
next
  case (Err e)
  then show ?thesis using readSnapshot_frame[OF assms(2)] assms(1) by auto
qed

lemma init_step:
  assumes "backed E s" and "initLocked E s = (s', r)"
  shows "backed E s' \<and> store_config s' = store_config s \<and> contents E s' = contents E s \<and> (r = None \<longrightarrow> cachedSnapshot s' \<noteq> None)"
proof -
  obtain s1 r1 where i: "sys_steps E init_steps s = (s1, r1)" by fastforce
  then obtain n where s1: "s1 = s\<lparr>calls := n\<rparr>" using sys_steps_frame by blast
  have b1: "backed E s1" "store_config s1 = store_config s" "contents E s1 = contents E s" using assms(1) s1 by simp_all
  show ?thesis
  proof (cases "trim_space (store_path s) = [] \<or> (store_key s = [] \<and> store_passphrase s = []) \<or> r1 \<noteq> None")
    case True
    then have "s' = s \<or> s' = s1" "r \<noteq> None" using assms(2) i by (auto simp: initLocked_def split: if_splits)
    then show ?thesis using assms(1) b1 by auto
  next
    case False
    then have c: "\<not> trim_space (store_path s) = []" "\<not> (store_key s = [] \<and> store_passphrase s = [])" "r1 = None" by auto
    note unf = assms(2)[unfolded initLocked_def if_not_P[OF c(1)] if_not_P[OF c(2)] i c(3) prod.case option.case]
    show ?thesis
    proof (cases "disk s1")
      case None
      obtain s2 r2 where w: "writeSnapshotLocked E [] s1 = (s2, r2)" by fastforce
      have "contents E s1 = Some []" using None b1(1) by (auto simp: contents_def backed_def split: option.splits)
      then show ?thesis using write_step[OF b1(1) w] unf w None b1 by (cases r2) auto
    next
      case (Some d)
      show ?thesis
      proof (cases "initialized s1")
        case True
        then show ?thesis using unf Some b1 by (auto simp: backed_def)
      next
        case False
        obtain s2 r2 where w: "readSnapshotLocked E s1 = (s2, r2)" by fastforce
        then show ?thesis using read_step[OF b1(1) w] unf Some False b1 by (cases r2) auto
      qed
    qed
  qed
qed

lemma open_step:
  assumes "backed E s" and "openSnapshot E s = (s', r)"
  shows "backed E s' \<and> store_config s' = store_config s \<and> contents E s' = contents E s
    \<and> (\<forall>c. r = Ok c \<longrightarrow> contents E s = Some c \<and> cachedSnapshot s' = Some c)"
proof -
  obtain s1 r1 where i: "initLocked E s = (s1, r1)" by fastforce
  note f = init_step[OF assms(1) i]
  show ?thesis
  proof (cases r1)
    case None
    then have "readSnapshotLocked E s1 = (s', r)" using assms(2) i by (simp add: openSnapshot_def)
    then show ?thesis using read_step[of E s1 s' r] f by simp
  next
    case (Some e)
    then show ?thesis using assms(2) i f by (auto simp: openSnapshot_def)
  qed
qed

section \<open>Operations as steps\<close>

lemma outcome_simps [simp]:
  "of_error None = Done" "of_error (Some e) = Failed e" "of_result f (Ok v) = f v" "of_result f (Err e) = Failed e"
  by (simp_all add: of_error_def of_result_def)

definition refines_spec :: "store_env \<Rightarrow> FileStore \<Rightarrow> store_op \<Rightarrow> FileStore \<Rightarrow> outcome \<Rightarrow> bool" where
  "refines_spec E s op s' out =
     ((\<exists>m. contents E s = Some m \<and> contents E s' = Some (fst (spec_op m op)) \<and> out = snd (spec_op m op))
      \<or> (\<exists>e. out = Failed e \<and> contents E s' = contents E s))"

text \<open>An operation that changes the map by \<open>f\<close>: \<open>Store\<close> and \<open>Delete\<close>.\<close>

definition update_op :: "store_env \<Rightarrow> FileStore \<Rightarrow> (secretSnapshot \<Rightarrow> secretSnapshot) \<Rightarrow> FileStore \<times> go_error option" where
  "update_op E s f = (case openSnapshot E s of (s1, Err e) \<Rightarrow> (s1, Some e) | (s1, Ok c) \<Rightarrow> writeSnapshotLocked E (f c) s1)"

lemma update_step:
  assumes "backed E s" and "update_op E s f = (s', r)"
  shows "backed E s' \<and> store_config s' = store_config s \<and>
    (case r of None \<Rightarrow> \<exists>m. contents E s = Some m \<and> contents E s' = Some (f m) | Some e \<Rightarrow> contents E s' = contents E s)"
proof -
  obtain s1 r1 where o: "openSnapshot E s = (s1, r1)" by fastforce
  note f1 = open_step[OF assms(1) o]
  show ?thesis
  proof (cases r1)
    case (Err e)
    then show ?thesis using assms(2) o f1 by (auto simp: update_op_def)
  next
    case (Ok c)
    then have "writeSnapshotLocked E (f c) s1 = (s', r)" using assms(2) o by (simp add: update_op_def)
    then show ?thesis using write_step[of E s1 "f c" s' r] f1 Ok by (auto split: option.split)
  qed
qed

lemma update_ops:
  "NormalizeKey k = Ok n \<Longrightarrow> FileStore_Store E s k v = update_op E s (map_put n v)"
  "NormalizeKey k = Ok n \<Longrightarrow> FileStore_Delete E s k = update_op E s (map_del n)"
  by (simp_all add: FileStore_Store_def FileStore_Delete_def update_op_def)

lemma run_update:
  assumes "backed E s" and "map_prod id of_error (update_op E s f) = (s', out)"
    and "\<And>m. spec_op m op = (f m, Done)"
  shows "backed E s' \<and> store_config s' = store_config s \<and> refines_spec E s op s' out"
proof -
  obtain r where r: "update_op E s f = (s', r)" "out = of_error r" using assms(2) by (cases "update_op E s f") auto
  then show ?thesis using update_step[OF assms(1) r(1)] assms(3) by (cases r) (auto simp: refines_spec_def)
qed

lemma run_query:
  assumes "backed E s" and "openSnapshot E s = (s', r)"
    and "\<And>c. r = Ok c \<Longrightarrow> spec_op c op = (c, out)" and "\<And>e. r = Err e \<Longrightarrow> out = Failed e"
  shows "backed E s' \<and> store_config s' = store_config s \<and> refines_spec E s op s' out"
  using open_step[OF assms(1,2)] assms(3,4) by (cases r) (auto simp: refines_spec_def)

lemma run_op_step:
  assumes "backed E s" and "run_op E s op = (s', out)"
  shows "backed E s' \<and> store_config s' = store_config s \<and> refines_spec E s op s' out"
proof (cases op)
  case OpInit
  then obtain r where "initLocked E s = (s', r)" "out = of_error r"
    using assms(2) by (cases "initLocked E s") (auto simp: FileStore_Init_def)
  moreover from init_step[OF assms(1) this(1)] have "\<exists>m. contents E s = Some m" if "r = None"
    using that contents_cached[of s'] by (metis not_None_eq)
  ultimately show ?thesis using init_step[OF assms(1)] OpInit by (cases r) (auto simp: refines_spec_def)
next
  case (OpStore k v)
  show ?thesis
  proof (cases "NormalizeKey k")
    case (Err e)
    then show ?thesis using assms OpStore by (auto simp: FileStore_Store_def refines_spec_def)
  next
    case (Ok n)
    then show ?thesis using run_update[OF assms(1), of "map_put n v" s' out op] assms(2) OpStore by (simp add: update_ops)
  qed
next
  case (OpDelete k)
  show ?thesis
  proof (cases "NormalizeKey k")
    case (Err e)
    then show ?thesis using assms OpDelete by (auto simp: FileStore_Delete_def refines_spec_def)
  next
    case (Ok n)
    then show ?thesis using run_update[OF assms(1), of "map_del n" s' out op] assms(2) OpDelete by (simp add: update_ops)
  qed
next
  case (OpGet k)
  show ?thesis
  proof (cases "NormalizeKey k")
    case (Err e)
    then show ?thesis using assms OpGet by (auto simp: FileStore_Get_def refines_spec_def)
  next
    case (Ok n)
    obtain s1 r where o: "openSnapshot E s = (s1, r)" by fastforce
    have "s1 = s'" using assms(2) OpGet Ok o by (cases r) (auto simp: FileStore_Get_def)
    then show ?thesis
      using run_query[OF assms(1), of s' r op out] assms(2) OpGet Ok o
      by (cases r) (auto simp: FileStore_Get_def split: option.splits)
  qed
next
  case OpList
  obtain s1 r where o: "openSnapshot E s = (s1, r)" by fastforce
  have "s1 = s'" using assms(2) OpList o by (cases r) (auto simp: FileStore_List_def)
  then show ?thesis
    using run_query[OF assms(1), of s' r op out] assms(2) OpList o by (cases r) (auto simp: FileStore_List_def)
qed

text \<open>The states a store reaches by operations that satisfy \<open>P\<close>.\<close>

inductive store_reaches :: "store_env \<Rightarrow> (store_op \<Rightarrow> bool) \<Rightarrow> FileStore \<Rightarrow> FileStore \<Rightarrow> bool" for E P s where
  start: "store_reaches E P s s"
| step: "store_reaches E P s s1 \<Longrightarrow> P op \<Longrightarrow> run_op E s1 op = (s2, out) \<Longrightarrow> store_reaches E P s s2"

lemma reaches_backed:
  "store_reaches E P s s' \<Longrightarrow> backed E s \<Longrightarrow> backed E s' \<and> store_config s' = store_config s"
  by (induction rule: store_reaches.induct) (auto dest: run_op_step)

section \<open>A new store\<close>

lemma parseEncryptionKey_length: "parseEncryptionKey E raw = Ok k \<Longrightarrow> length k = keyLengthBytes"
  by (auto simp: parseEncryptionKey_def accepted_key_def Let_def split: if_splits option.splits result.splits)

lemma resolveKDF_positive:
  "resolveKDFSettings kdf = Ok k \<Longrightarrow> KTime k \<noteq> 0 \<and> KMemory k \<noteq> 0 \<and> KThreads k \<noteq> 0"
  by (auto simp: resolveKDFSettings_def Let_def split: option.splits if_splits)

definition fresh_store :: "FileStore \<Rightarrow> string option \<Rightarrow> bool" where
  "fresh_store s d = (\<not> initialized s \<and> cachedSnapshot s = None \<and> disk s = d)"

definition keyed :: "FileStore \<Rightarrow> bool" where
  "keyed s = (KTime (store_kdf s) \<noteq> 0 \<and> KMemory (store_kdf s) \<noteq> 0 \<and> KThreads (store_kdf s) \<noteq> 0
     \<and> (length (store_key s) = keyLengthBytes \<and> store_passphrase s = []
        \<or> store_key s = [] \<and> store_passphrase s \<noteq> []))"

lemma NewFileStore_keyed:
  assumes "NewFileStore E cfg d = Ok s"
  shows "keyed s \<and> fresh_store s d"
proof -
  obtain kdf where k: "resolveKDFSettings (cfg_KDF cfg) = Ok kdf" "store_kdf s = kdf"
    using assms by (auto simp: NewFileStore_def Let_def split: if_splits result.splits)
  have "fresh_store s d"
    using assms by (auto simp: NewFileStore_def Let_def fresh_store_def split: if_splits result.splits)
  moreover have "length (store_key s) = keyLengthBytes \<and> store_passphrase s = [] \<or> store_key s = [] \<and> store_passphrase s \<noteq> []"
    using assms by (auto simp: NewFileStore_def Let_def dest: parseEncryptionKey_length split: if_splits result.splits)
  ultimately show ?thesis using resolveKDF_positive[OF k(1)] k(2) by (simp add: keyed_def)
qed

lemma resolveKDF_error: "resolveKDFSettings k = Err e \<Longrightarrow> find_typed e = Some ValidationError"
  by (auto simp: resolveKDFSettings_def Let_def split: option.splits if_splits)

lemma parseEncryptionKey_error: "parseEncryptionKey E raw = Err e \<Longrightarrow> find_typed e = Some ValidationError"
  by (auto simp: parseEncryptionKey_def Let_def split: option.splits if_splits)

lemma NewFileStore_error: "NewFileStore E cfg d = Err e \<Longrightarrow> find_typed e = Some ValidationError"
  by (auto simp: NewFileStore_def Let_def dest: resolveKDF_error parseEncryptionKey_error split: result.split_asm if_split_asm)

lemma fresh_backed: "fresh_store s d \<Longrightarrow> backed E s"
  by (simp add: fresh_store_def backed_def)

end
