(* ===== verification/Secret_Durability.thy ===== *)
theory Secret_Durability
  imports Secret_File_Store
begin

text \<open>
  What the encrypted file store guarantees: it refines a map, it is available while the environment
  works, what it stored survives a restart, and it provides the interface \<open>secret_store\<close>, so that a
  payload masked into it is restored from it.

  \<open>env_works\<close> and \<open>codec_laws\<close> are the documented behaviour of the code that the store calls: system
  calls succeed, random bytes have the length asked for, a 32-byte key makes a cipher, encoders do not
  fail; decoding inverts encoding, opening inverts sealing under the same key and nonce, JSON keeps
  valid UTF-8.
\<close>

definition calls_succeed :: "store_env \<Rightarrow> bool" where
  "calls_succeed E = (\<forall>n. fault E n = None)"

definition env_works :: "store_env \<Rightarrow> bool" where
  "env_works E =
     (calls_succeed E
      \<and> (\<forall>n k. length (random E n k) = k)
      \<and> (\<forall>k. length k = keyLengthBytes \<longrightarrow> new_cipher E k = None \<and> new_gcm E k = None)
      \<and> (\<forall>p s t m h n. length (argon2_key E p s t m h n) = n)
      \<and> (\<forall>c. is_ok (marshal_snapshot E c))
      \<and> (\<forall>v. is_ok (marshal_envelope E v)))"

definition usable :: "FileStore \<Rightarrow> bool" where
  "usable s = (keyed s \<and> trim_space (store_path s) \<noteq> [])"

section \<open>Availability\<close>

lemma steps_succeed:
  "calls_succeed E \<Longrightarrow> \<exists>n. sys_steps E ms s = (s\<lparr>calls := n\<rparr>, None)"
proof (induction ms arbitrary: s)
  case Nil
  have "s = s\<lparr>calls := calls s\<rparr>" by simp
  then show ?case by (metis sys_steps.simps(1))
next
  case (Cons m ms)
  then obtain n where "sys_steps E ms (s\<lparr>calls := calls s + 1\<rparr>) = (s\<lparr>calls := calls s + 1\<rparr>\<lparr>calls := n\<rparr>, None)" by blast
  then have "sys_steps E ms (s\<lparr>calls := calls s + 1\<rparr>) = (s\<lparr>calls := n\<rparr>, None)" by simp
  then show ?case using Cons.prems by (auto simp: syscall_def calls_succeed_def)
qed

lemma random_succeeds:
  "calls_succeed E \<Longrightarrow> randomBytes E k s = (s\<lparr>calls := calls s + 1\<rparr>, Ok (random E (calls s) k))"
  by (simp add: randomBytes_def syscall_def calls_succeed_def)

lemma salt_succeeds:
  assumes "env_works E"
  shows "\<exists>n salt. drawSalt E s = (s\<lparr>calls := n\<rparr>, Ok salt) \<and> (store_passphrase s \<noteq> [] \<longrightarrow> salt \<noteq> [])"
proof (cases "store_passphrase s = []")
  case True
  then have "drawSalt E s = (s\<lparr>calls := calls s\<rparr>, Ok [])" by (simp add: drawSalt_def)
  then show ?thesis using True by blast
next
  case False
  have "random E (calls s) saltLengthBytes \<noteq> []"
    using assms by (metis env_works_def length_0_conv saltLengthBytes_def zero_neq_numeral)
  moreover have "calls_succeed E" using assms by (simp add: env_works_def)
  ultimately show ?thesis using False unfolding drawSalt_def by (simp add: random_succeeds) blast
qed

lemma env_works_marshal:
  assumes "env_works E"
  shows "\<exists>pt. marshal_snapshot E c = Ok pt" "\<exists>d. marshal_envelope E v = Ok d"
proof -
  have "is_ok (marshal_snapshot E c)" "is_ok (marshal_envelope E v)" using assms by (simp_all add: env_works_def)
  then show "\<exists>pt. marshal_snapshot E c = Ok pt" "\<exists>d. marshal_envelope E v = Ok d" by (simp_all add: is_ok_iff)
qed

lemma seal_succeeds:
  assumes "env_works E" "keyed s" "store_passphrase s \<noteq> [] \<longrightarrow> salt \<noteq> []"
  shows "is_ok (sealEnvelope E s pt nonce salt)"
proof -
  obtain key where key: "deriveKey E s salt = Ok key" "length key = keyLengthBytes"
    using assms by (cases "store_key s = []") (auto simp: deriveKey_def deriveKeyWithSettings_def keyed_def env_works_def keyLengthBytes_def)
  then have "new_cipher E key = None" "new_gcm E key = None" using assms(1) by (simp_all add: env_works_def)
  moreover have "is_ok (case marshal_envelope E v of Err e \<Rightarrow> Err (f e) | Ok encoded \<Rightarrow> Ok encoded)" for v f
    using env_works_marshal(2)[OF assms(1), of v] by auto
  ultimately show ?thesis using key(1) by (simp add: sealEnvelope_def Let_def)
qed

lemma write_succeeds:
  assumes "env_works E" "keyed s"
  shows "\<exists>s'. writeSnapshotLocked E c s = (s', None)"
proof -
  obtain pt where pt: "marshal_snapshot E c = Ok pt" using env_works_marshal[OF assms(1)] by blast
  have c: "calls_succeed E" using assms(1) by (simp add: env_works_def)
  let ?s1 = "s\<lparr>calls := calls s + 1\<rparr>"
  obtain n salt where salt: "drawSalt E ?s1 = (?s1\<lparr>calls := n\<rparr>, Ok salt)" "store_passphrase ?s1 \<noteq> [] \<longrightarrow> salt \<noteq> []"
    using salt_succeeds[OF assms(1)] by blast
  obtain d where d: "sealEnvelope E s pt (random E (calls s) nonceLengthBytes) salt = Ok d"
    using seal_succeeds[OF assms, of salt] salt(2) by (auto simp: is_ok_iff)
  obtain k where "sys_steps E write_steps (?s1\<lparr>calls := n\<rparr>) = (?s1\<lparr>calls := n\<rparr>\<lparr>calls := k\<rparr>, None)"
    using steps_succeed[OF c] by blast
  then show ?thesis
    using pt salt(1) d by (simp add: writeSnapshotLocked_def random_succeeds[OF c] writeAtomicFile_def)
qed

lemma read_succeeds:
  assumes "calls_succeed E" "contents E s = Some m" "disk s \<noteq> None"
  shows "\<exists>s'. readSnapshotLocked E s = (s', Ok m)"
  using assms by (auto simp: readSnapshotLocked_def syscall_def calls_succeed_def contents_def split: option.splits result.splits)

lemma init_succeeds:
  assumes "env_works E" "backed E s" "usable s" "contents E s = Some m"
  shows "\<exists>s'. initLocked E s = (s', None)"
proof -
  have c: "calls_succeed E" using assms(1) by (simp add: env_works_def)
  obtain n where i: "sys_steps E init_steps s = (s\<lparr>calls := n\<rparr>, None)" using steps_succeed[OF c] by blast
  have k: "\<not> (store_key s = [] \<and> store_passphrase s = [])" using assms(3) by (auto simp: usable_def keyed_def keyLengthBytes_def)
  show ?thesis
  proof (cases "disk s")
    case None
    have "keyed (s\<lparr>calls := n\<rparr>)" using assms(3) by (simp add: usable_def keyed_def)
    then obtain s2 where "writeSnapshotLocked E [] (s\<lparr>calls := n\<rparr>) = (s2, None)" using write_succeeds[OF assms(1)] by blast
    then show ?thesis using i k None assms(3) by (auto simp: initLocked_def usable_def)
  next
    case (Some d)
    then obtain s2 where "readSnapshotLocked E (s\<lparr>calls := n\<rparr>) = (s2, Ok m)"
      using read_succeeds[OF c, of "s\<lparr>calls := n\<rparr>" m] assms(4) by auto
    then show ?thesis using i k Some assms(3) by (auto simp: initLocked_def usable_def)
  qed
qed

lemma usable_config: "store_config s' = store_config s \<Longrightarrow> usable s' = usable s"
  by (simp add: usable_def keyed_def store_config_def)

lemma open_succeeds:
  assumes "env_works E" "backed E s" "usable s" "contents E s = Some m"
  shows "\<exists>s'. openSnapshot E s = (s', Ok m) \<and> keyed s'"
proof -
  obtain s1 where i: "initLocked E s = (s1, None)" using init_succeeds[OF assms] by blast
  have b: "backed E s1" "store_config s1 = store_config s" "contents E s1 = Some m" "cachedSnapshot s1 \<noteq> None"
    using init_step[OF assms(2) i] assms(4) by auto
  then have "readSnapshotLocked E s1 = (s1, Ok m)" by (auto simp: readSnapshotLocked_def contents_def)
  then have "openSnapshot E s = (s1, Ok m)" using i by (simp add: openSnapshot_def)
  then show ?thesis using usable_config[OF b(2)] assms(3) by (auto simp: usable_def)
qed

lemma update_succeeds:
  assumes "env_works E" "backed E s" "usable s" "contents E s = Some m"
  shows "\<exists>s'. update_op E s f = (s', None)"
proof -
  obtain s1 where "openSnapshot E s = (s1, Ok m)" "keyed s1" using open_succeeds[OF assms] by blast
  then show ?thesis using write_succeeds[OF assms(1)] by (simp add: update_op_def)
qed

lemma run_op_available:
  assumes "env_works E" "backed E s" "usable s" "contents E s = Some m" "run_op E s op = (s', out)"
  shows "out = snd (spec_op m op) \<and> contents E s' = Some (fst (spec_op m op))"
proof (cases op)
  case OpInit
  then show ?thesis
    using init_succeeds[OF assms(1-4)] assms(4,5) init_step[OF assms(2)] by (auto simp: FileStore_Init_def)
next
  case (OpStore k v)
  show ?thesis
  proof (cases "NormalizeKey k")
    case (Err e)
    then show ?thesis using assms(4,5) OpStore by (auto simp: FileStore_Store_def)
  next
    case (Ok n)
    then show ?thesis
      using update_succeeds[OF assms(1-4), of "map_put n v"] update_step[OF assms(2)] assms(4,5) OpStore
      by (fastforce simp: update_ops)
  qed
next
  case (OpDelete k)
  show ?thesis
  proof (cases "NormalizeKey k")
    case (Err e)
    then show ?thesis using assms(4,5) OpDelete by (auto simp: FileStore_Delete_def)
  next
    case (Ok n)
    then show ?thesis
      using update_succeeds[OF assms(1-4), of "map_del n"] update_step[OF assms(2)] assms(4,5) OpDelete
      by (fastforce simp: update_ops)
  qed
next
  case (OpGet k)
  obtain s1 where o: "openSnapshot E s = (s1, Ok m)" using open_succeeds[OF assms(1-4)] by blast
  then show ?thesis
    using open_step[OF assms(2) o] assms(4,5) OpGet
    by (cases "NormalizeKey k") (auto simp: FileStore_Get_def split: option.splits)
next
  case OpList
  obtain s1 where o: "openSnapshot E s = (s1, Ok m)" using open_succeeds[OF assms(1-4)] by blast
  then show ?thesis using open_step[OF assms(2) o] assms(4,5) OpList by (auto simp: FileStore_List_def)
qed

section \<open>The store provides the secret store interface\<close>

definition file_invar :: "store_env \<Rightarrow> FileStore \<Rightarrow> bool" where
  "file_invar E s = (calls_succeed E \<and> backed E s)"

definition ready :: "FileStore \<Rightarrow> bool" where
  "ready s = (trim_space (store_path s) \<noteq> [] \<and> \<not> (store_key s = [] \<and> store_passphrase s = []))"

lemma open_ready: "openSnapshot E s = (s', Ok c) \<Longrightarrow> ready s"
  by (auto simp: openSnapshot_def initLocked_def ready_def split: if_splits)

lemma ready_config: "store_config s' = store_config s \<Longrightarrow> ready s' = ready s"
  by (simp add: ready_def store_config_def)

lemma open_cached:
  assumes "file_invar E s" "ready s" "cachedSnapshot s = Some c"
  shows "\<exists>s'. openSnapshot E s = (s', Ok c)"
proof -
  obtain n where i: "sys_steps E init_steps s = (s\<lparr>calls := n\<rparr>, None)"
    using steps_succeed assms(1) by (metis file_invar_def)
  have "disk s \<noteq> None" using assms(1,3) by (auto simp: file_invar_def backed_def)
  then show ?thesis
    using i assms(2,3)
    by (cases "initialized s") (auto simp: openSnapshot_def initLocked_def ready_def readSnapshotLocked_def)
qed

lemma Get_cached:
  "file_invar E s \<Longrightarrow> ready s \<Longrightarrow> cachedSnapshot s = Some c \<Longrightarrow> NormalizeKey k = Ok n \<Longrightarrow> map_get c n = Some v \<Longrightarrow>
   snd (FileStore_Get E s k) = Ok v"
  using open_cached[of E s c] by (auto simp: FileStore_Get_def)

lemma Get_Ok:
  assumes "snd (FileStore_Get E s k) = Ok v"
  obtains n s1 c where "NormalizeKey k = Ok n" "openSnapshot E s = (s1, Ok c)" "map_get c n = Some v"
  using assms by (auto simp: FileStore_Get_def split: result.splits prod.splits option.splits)

lemma Store_Ok:
  assumes "file_invar E s" "FileStore_Store E s k v = (s', None)"
  obtains n m where "NormalizeKey k = Ok n" "contents E s = Some m" "cachedSnapshot s' = Some (map_put n v m)" "ready s'" "file_invar E s'"
proof -
  obtain n where n: "NormalizeKey k = Ok n" using assms(2) by (auto simp: FileStore_Store_def split: result.splits)
  obtain s1 c where o: "openSnapshot E s = (s1, Ok c)" and w: "writeSnapshotLocked E (map_put n v c) s1 = (s', None)"
    using assms(2) n by (auto simp: FileStore_Store_def split: result.splits prod.splits)
  have b: "backed E s" "calls_succeed E" using assms(1) by (simp_all add: file_invar_def)
  note f = open_step[OF b(1) o] and g = write_step[OF _ w]
  have "ready s" using open_ready[OF o] .
  then show ?thesis using that[OF n, of c] f g b ready_config[of s' s] by (simp add: file_invar_def)
qed

interpretation file_store: secret_store "file_invar E" "FileStore_Store E" "FileStore_Get E" for E
proof
  fix s k v s' assume "file_invar E s" "FileStore_Store E s k v = (s', None)"
  from Store_Ok[OF this] show "is_ok (NormalizeKey k)" unfolding is_ok_iff by blast
next
  fix s k v s' r assume a: "file_invar E s" "FileStore_Store E s k v = (s', r)"
  then have "run_op E s (OpStore k v) = (s', of_error r)" by simp
  from run_op_step[OF _ this] show "file_invar E s'" using a(1) by (simp add: file_invar_def)
next
  fix s k v s' k' assume a: "file_invar E s" "FileStore_Store E s k v = (s', None)" "NormalizeKey k' = NormalizeKey k"
  obtain n m where p: "NormalizeKey k = Ok n" "cachedSnapshot s' = Some (map_put n v m)" "ready s'" "file_invar E s'"
    using Store_Ok[OF a(1,2)] by blast
  show "snd (FileStore_Get E s' k') = Ok v" using Get_cached[OF p(4,3,2)] p(1) a(3) by simp
next
  fix s k v s' k' u
  assume a: "file_invar E s" "FileStore_Store E s k v = (s', None)" "NormalizeKey k' \<noteq> NormalizeKey k" "snd (FileStore_Get E s k') = Ok u"
  obtain n' s1 c where g: "NormalizeKey k' = Ok n'" "openSnapshot E s = (s1, Ok c)" "map_get c n' = Some u"
    using Get_Ok[OF a(4)] by blast
  obtain n m where p: "NormalizeKey k = Ok n" "contents E s = Some m" "cachedSnapshot s' = Some (map_put n v m)" "ready s'" "file_invar E s'"
    using Store_Ok[OF a(1,2)] by blast
  have "m = c" using open_step[OF _ g(2)] a(1) p(2) by (auto simp: file_invar_def)
  then show "snd (FileStore_Get E s' k') = Ok u" using Get_cached[OF p(5,4,3) g(1)] g(3) a(3) p(1) g(1) by auto
next
  fix s k assume a: "file_invar E s"
  have "run_op E s (OpGet k) = (fst (FileStore_Get E s k), of_result Found (snd (FileStore_Get E s k)))"
    by (cases "FileStore_Get E s k") simp
  from run_op_step[OF _ this] show "file_invar E (fst (FileStore_Get E s k))" using a by (simp add: file_invar_def)
next
  fix s k' u k assume a: "file_invar E s" "snd (FileStore_Get E s k') = Ok u"
  obtain n' s1 c where g: "NormalizeKey k' = Ok n'" "openSnapshot E s = (s1, Ok c)" "map_get c n' = Some u"
    using Get_Ok[OF a(2)] by blast
  show "snd (FileStore_Get E (fst (FileStore_Get E s k)) k') = Ok u"
  proof (cases "NormalizeKey k")
    case (Err e)
    then show ?thesis using a(2) by (simp add: FileStore_Get_def)
  next
    case (Ok n)
    then have s1: "fst (FileStore_Get E s k) = s1" using g(2) by (simp add: FileStore_Get_def)
    have "file_invar E s1" "cachedSnapshot s1 = Some c" "ready s1"
      using open_step[OF _ g(2)] a(1) open_ready[OF g(2)] ready_config[of s1 s] by (auto simp: file_invar_def)
    then show ?thesis using Get_cached g s1 by simp
  qed
qed

section \<open>Restarts\<close>

definition utf8_snapshot :: "secretSnapshot \<Rightarrow> bool" where
  "utf8_snapshot c = list_all (\<lambda>p. valid_utf8 (fst p) \<and> valid_utf8 (snd p)) c"

definition codec_laws :: "store_env \<Rightarrow> bool" where
  "codec_laws E =
     ((\<forall>b. base64_decode (std64 E) (base64_encode (std64 E) b) = Ok b)
      \<and> (\<forall>b. base64_encode (std64 E) b = [] \<longrightarrow> b = [])
      \<and> (\<forall>n k. length (random E n k) = k)
      \<and> (\<forall>key nonce pt. length nonce = nonceLengthBytes \<longrightarrow> gcm_open E key nonce (gcm_seal E key nonce pt) = Ok pt)
      \<and> (\<forall>v d. marshal_envelope E v = Ok d \<longrightarrow> unmarshal_envelope E d = Ok v)
      \<and> (\<forall>c pt. utf8_snapshot c \<longrightarrow> marshal_snapshot E c = Ok pt \<longrightarrow> unmarshal_snapshot E pt = Ok (Some c))
      \<and> (\<forall>pt c. unmarshal_snapshot E pt = Ok (Some c) \<longrightarrow> utf8_snapshot c))"

fun utf8_op :: "store_op \<Rightarrow> bool" where
  "utf8_op (OpStore k v) = (valid_utf8 v \<and> (case NormalizeKey k of Ok n \<Rightarrow> valid_utf8 n | Err e \<Rightarrow> True))"
| "utf8_op op = True"

text \<open>Decoding inverts sealing.\<close>

lemma decode_sealed:
  assumes "codec_laws E" "keyed s" "sealed E s c d" "utf8_snapshot c"
  shows "decodeStoreFile E s d = Ok c"
proof -
  obtain pt n m salt where pt: "marshal_snapshot E c = Ok pt"
    and salt: "if store_passphrase s \<noteq> [] then salt = random E m saltLengthBytes else salt = []"
    and seal: "sealEnvelope E s pt (random E n nonceLengthBytes) salt = Ok d"
    using assms(3) unfolding sealed_def by blast
  let ?nonce = "random E n nonceLengthBytes"
  have ln: "length ?nonce = nonceLengthBytes" using assms(1) by (simp add: codec_laws_def)
  obtain key where key: "deriveKey E s salt = Ok key" "new_cipher E key = None" "new_gcm E key = None"
    using seal by (auto simp: sealEnvelope_def split: result.splits option.splits)
  have b64: "base64_decode (std64 E) (base64_encode (std64 E) b) = Ok b" "base64_encode (std64 E) b = [] \<Longrightarrow> b = []" for b
    using assms(1) by (simp_all add: codec_laws_def)
  have open_seal: "gcm_open E key ?nonce (gcm_seal E key ?nonce pt) = Ok pt"
    using assms(1) ln unfolding codec_laws_def by blast
  have um: "unmarshal_envelope E d = Ok v" if "marshal_envelope E v = Ok d" for v
    using assms(1) that unfolding codec_laws_def by blast
  have us: "unmarshal_snapshot E pt = Ok (Some c)" using assms(1,4) pt unfolding codec_laws_def by blast
  note read = decodeStoreFile_def decodeEnvelope_def b64(1) ln open_seal us key(2,3)
  show ?thesis
  proof (cases "salt = []")
    case True
    then have "marshal_envelope E \<lparr>Version = encryptedStoreVersion, Salt = [], Nonce = base64_encode (std64 E) ?nonce,
        Ciphertext = base64_encode (std64 E) (gcm_seal E key ?nonce pt), KDFTime = 0, KDFMemory = 0, KDFThreads = 0\<rparr> = Ok d"
      using seal key by (auto simp: sealEnvelope_def split: result.splits)
    from um[OF this] show ?thesis using key(1) True by (simp add: read deriveKey_def)
  next
    case False
    then have "marshal_envelope E \<lparr>Version = encryptedStoreVersion, Salt = base64_encode (std64 E) salt, Nonce = base64_encode (std64 E) ?nonce,
        Ciphertext = base64_encode (std64 E) (gcm_seal E key ?nonce pt), KDFTime = KTime (store_kdf s),
        KDFMemory = KMemory (store_kdf s), KDFThreads = KThreads (store_kdf s)\<rparr> = Ok d"
      using seal key by (auto simp: sealEnvelope_def split: result.splits)
    moreover have "deriveKeyWithSettings E s salt
        \<lparr>KTime = KTime (store_kdf s), KMemory = KMemory (store_kdf s), KThreads = KThreads (store_kdf s)\<rparr> = Ok key"
      using key(1) by (auto simp: deriveKey_def deriveKeyWithSettings_def split: if_splits)
    moreover have "base64_encode (std64 E) salt \<noteq> []" using b64(2) False by blast
    ultimately show ?thesis
      using um False assms(2) by (simp add: read keyed_def)
  qed
qed

text \<open>The content stays valid UTF-8.\<close>

lemma decode_source:
  "decodeStoreFile E s d = Ok c \<Longrightarrow> c = [] \<or> (\<exists>pt. unmarshal_snapshot E pt = Ok (Some c))"
  by (auto simp: decodeStoreFile_def decodeEnvelope_def Let_def split: result.split_asm option.split_asm if_split_asm)

lemma decode_utf8:
  assumes "codec_laws E" "decodeStoreFile E s d = Ok c"
  shows "utf8_snapshot c"
proof -
  have "utf8_snapshot m" if "unmarshal_snapshot E pt = Ok (Some m)" for m pt
    using assms(1) that unfolding codec_laws_def by blast
  moreover have "utf8_snapshot []" by (simp add: utf8_snapshot_def)
  ultimately show ?thesis using decode_source[OF assms(2)] by blast
qed

lemma set_map_put: "set (map_put k v m) \<subseteq> insert (k, v) (set m)"
  by (induction m) (auto split: if_splits)

lemma spec_utf8: "utf8_snapshot m \<Longrightarrow> utf8_op op \<Longrightarrow> utf8_snapshot (fst (spec_op m op))"
  using set_map_put by (cases op) (fastforce simp: utf8_snapshot_def list_all_iff map_del_def split: result.splits)+

lemma reaches_utf8:
  assumes "codec_laws E" "store_reaches E utf8_op s0 s" "fresh_store s0 d"
  shows "\<forall>c. contents E s = Some c \<longrightarrow> utf8_snapshot c"
  using assms(2)
proof (induction rule: store_reaches.induct)
  case start
  then show ?case
    using assms(1,3) decode_utf8
    by (auto simp: fresh_store_def contents_def utf8_snapshot_def split: option.splits result.splits)
next
  case (step s1 op s2 out)
  have "backed E s1" using reaches_backed[OF step(1) fresh_backed[OF assms(3)]] by simp
  then have "refines_spec E s1 op s2 out" using run_op_step step(3) by blast
  then show ?case using step(2,4) spec_utf8 unfolding refines_spec_def by fastforce
qed

lemma decode_same_config: "store_config s = store_config s' \<Longrightarrow> decodeStoreFile E s = decodeStoreFile E s'"
proof -
  assume "store_config s = store_config s'"
  then have "deriveKeyWithSettings E s = deriveKeyWithSettings E s'" "store_kdf s = store_kdf s'"
    by (simp_all add: fun_eq_iff store_config_def deriveKeyWithSettings_def)
  then show ?thesis by (simp add: fun_eq_iff decodeStoreFile_def decodeEnvelope_def cong: result.case_cong option.case_cong if_cong)
qed

lemma NewFileStore_disk:
  "NewFileStore E cfg d' = (case NewFileStore E cfg d of Err e \<Rightarrow> Err e | Ok s \<Rightarrow> Ok (s\<lparr>disk := d'\<rparr>))"
  by (simp add: NewFileStore_def Let_def split: result.split)

lemma NewFileStore_config:
  "NewFileStore E cfg d = Ok s \<Longrightarrow> NewFileStore E cfg d' = Ok s' \<Longrightarrow> store_config s' = store_config s"
  using NewFileStore_disk[of E cfg d' d] by auto

section \<open>An environment that satisfies the laws\<close>

text \<open>Strings are written byte by byte with a mark before each and a terminator, maps and envelopes as
  sequences of strings, numbers as repeated bytes; the cipher is the identity.\<close>

definition enc_str :: "string \<Rightarrow> string" where
  "enc_str s = concat (map (\<lambda>c. [CHR ''.'', c]) s) @ '';''"

fun dec_str :: "string \<Rightarrow> string \<times> string" where
  "dec_str [] = ([], [])"
| "dec_str [x] = ([], [])"
| "dec_str (x # c # r) = (if x = CHR ''.'' then (case dec_str r of (a, b) \<Rightarrow> (c # a, b)) else ([], c # r))"

lemma dec_enc_str: "dec_str (enc_str s @ r) = (s, r)"
  by (induction s) (auto simp: enc_str_def intro: list.exhaust[of r])

definition enc_map :: "secretSnapshot \<Rightarrow> string" where
  "enc_map m = concat (map (\<lambda>p. enc_str (fst p) @ enc_str (snd p)) m)"

fun dec_map :: "nat \<Rightarrow> string \<Rightarrow> secretSnapshot" where
  "dec_map 0 s = []"
| "dec_map (Suc n) s =
     (if s = [] then []
      else case dec_str s of (k, r) \<Rightarrow> (case dec_str r of (v, r') \<Rightarrow> (k, v) # dec_map n r'))"

lemma enc_str_nonempty [simp]: "enc_str s \<noteq> []"
  by (simp add: enc_str_def)

lemma dec_enc_map: "length (enc_map m) \<le> n \<Longrightarrow> dec_map n (enc_map m) = m"
proof (induction m arbitrary: n)
  case Nil
  then show ?case by (cases n) (auto simp: enc_map_def)
next
  case (Cons p m)
  have e: "enc_map (p # m) = enc_str (fst p) @ enc_str (snd p) @ enc_map m" by (simp add: enc_map_def)
  then have "length (enc_map m) < n" using Cons.prems by (simp add: enc_str_def)
  then obtain n' where n: "n = Suc n'" "length (enc_map m) \<le> n'" by (cases n) auto
  then show ?case using Cons.IH[OF n(2)] by (simp add: e dec_enc_str)
qed

definition enc_int :: "int \<Rightarrow> string" where
  "enc_int i = (if i < 0 then replicate (nat (- i)) (CHR ''-'') else replicate (nat i) (CHR ''+''))"

definition dec_int :: "string \<Rightarrow> int" where
  "dec_int s = (if prefix ''-'' s then - int (length s) else int (length s))"

lemma dec_enc_int [simp]: "dec_int (enc_int i) = i"
  by (cases "nat (- i)"; cases "nat i") (auto simp: enc_int_def dec_int_def)

definition enc_word :: "'a::len word \<Rightarrow> string" where
  "enc_word w = replicate (unat w) (CHR ''+'')"

lemma dec_enc_word [simp]: "of_nat (length (enc_word w)) = w"
  by (simp add: enc_word_def)

definition enc_envelope :: "encryptedStore \<Rightarrow> string" where
  "enc_envelope v = enc_str (enc_int (Version v)) @ enc_str (Salt v) @ enc_str (Nonce v) @ enc_str (Ciphertext v)
     @ enc_str (enc_word (KDFTime v)) @ enc_str (enc_word (KDFMemory v)) @ enc_str (enc_word (KDFThreads v))"

definition dec_envelope :: "string \<Rightarrow> encryptedStore" where
  "dec_envelope s =
     (case dec_str s of (ver, r) \<Rightarrow> case dec_str r of (salt, r) \<Rightarrow> case dec_str r of (nonce, r) \<Rightarrow>
      case dec_str r of (ct, r) \<Rightarrow> case dec_str r of (t, r) \<Rightarrow> case dec_str r of (m, r) \<Rightarrow> case dec_str r of (h, r) \<Rightarrow>
      \<lparr>Version = dec_int ver, Salt = salt, Nonce = nonce, Ciphertext = ct,
       KDFTime = of_nat (length t), KDFMemory = of_nat (length m), KDFThreads = of_nat (length h)\<rparr>)"

lemma dec_enc_envelope: "dec_envelope (enc_envelope v) = v"
  using dec_enc_str[of _ "[]"] by (simp add: dec_envelope_def enc_envelope_def dec_enc_str)

definition plain_env :: store_env where
  "plain_env =
     \<lparr>fault = (\<lambda>n. None), random = (\<lambda>n k. replicate k (CHR ''r'')), read_file = (\<lambda>p. Ok p),
      std64 = \<lparr>base64_encode = (\<lambda>s. s), base64_decode = (\<lambda>s. Ok s)\<rparr>,
      raw64_decode = (\<lambda>s. Ok s), hex_decode = (\<lambda>s. Err (PlainError (msg ''encoding/hex: invalid byte'') None)),
      argon2_key = (\<lambda>p s t m h n. replicate n (CHR ''k'')), new_cipher = (\<lambda>k. None), new_gcm = (\<lambda>k. None),
      gcm_seal = (\<lambda>k n p. p), gcm_open = (\<lambda>k n c. Ok c),
      marshal_snapshot = (\<lambda>m. Ok (enc_map m)),
      unmarshal_snapshot = (\<lambda>s. let m = dec_map (length s) s in
        if utf8_snapshot m then Ok (Some m) else Err (PlainError (msg ''invalid'') None)),
      marshal_envelope = (\<lambda>v. Ok (enc_envelope v)), unmarshal_envelope = (\<lambda>s. Ok (dec_envelope s))\<rparr>"

lemma plain_env_works: "env_works plain_env" "calls_succeed plain_env"
  by (simp_all add: env_works_def calls_succeed_def plain_env_def is_ok_iff)

lemma plain_env_laws: "codec_laws plain_env"
  by (auto simp: codec_laws_def plain_env_def Let_def dec_enc_map dec_enc_envelope split: if_splits)

definition plain_cfg :: FileSecretStore where
  "plain_cfg = \<lparr>cfg_Path = ''/var/secrets'', cfg_Key = ''0123456789abcdef0123456789abcdef'', cfg_KeyFile = [],
     cfg_Passphrase = [], cfg_PassphraseFile = [], cfg_KDF = None\<rparr>"

definition plain_store :: FileStore where
  "plain_store = \<lparr>store_path = ''/var/secrets'', store_key = ''0123456789abcdef0123456789abcdef'', store_passphrase = [],
     store_kdf = \<lparr>KTime = 3, KMemory = 65536, KThreads = 4\<rparr>, initialized = False, cachedSnapshot = None, disk = None, calls = 0\<rparr>"

lemma plain_store_new: "NewFileStore plain_env plain_cfg d = Ok (plain_store\<lparr>disk := d\<rparr>)"
proof -
  have "NewFileStore plain_env plain_cfg None = Ok plain_store" by code_simp
  then show ?thesis using NewFileStore_disk[of plain_env plain_cfg d None] by simp
qed

section \<open>Properties\<close>

text \<open>C30: \<open>New\<close> returns a store that knows nothing yet and has usable key material, from exactly one
  source: a key of 32 bytes or else a passphrase, with positive key derivation parameters although
  \<open>uint32\<close> and \<open>uint8\<close> cut the configured values off.  Otherwise it fails with a validation error.\<close>

theorem NewFileStore_key_material:
  "case NewFileStore E cfg d of
     Ok s \<Rightarrow> keyed s \<and> fresh_store s d \<and>
       countSet [trim_space (cfg_Key cfg) \<noteq> [], trim_space (cfg_KeyFile cfg) \<noteq> [], trim_space (cfg_Passphrase cfg) \<noteq> [],
         trim_space (cfg_PassphraseFile cfg) \<noteq> []] = 1
   | Err e \<Rightarrow> find_typed e = Some ValidationError"
proof (cases "NewFileStore E cfg d")
  case (Ok s)
  moreover have "countSet [trim_space (cfg_Key cfg) \<noteq> [], trim_space (cfg_KeyFile cfg) \<noteq> [], trim_space (cfg_Passphrase cfg) \<noteq> [],
         trim_space (cfg_PassphraseFile cfg) \<noteq> []] = 1"
    using Ok unfolding NewFileStore_def Let_def by (metis result.distinct(1))
  ultimately show ?thesis using NewFileStore_keyed[OF Ok] by simp
next
  case (Err e)
  then show ?thesis using NewFileStore_error by simp
qed

text \<open>C3: the encrypted file store refines a map from normalised keys to values.  In every state a new
  store can reach, with system calls failing at any point, an operation either does what the
  same operation does on the map, result included, or fails and leaves the content as it was.\<close>

theorem FileStore_refines_map:
  assumes "NewFileStore E cfg d = Ok s0" and "store_reaches E P s0 s" and "run_op E s op = (s', out)"
  shows "(\<exists>m. contents E s = Some m \<and> contents E s' = Some (fst (spec_op m op)) \<and> out = snd (spec_op m op))
         \<or> (\<exists>e. out = Failed e \<and> contents E s' = contents E s)"
proof -
  have "backed E s"
    using reaches_backed[OF assms(2)] fresh_backed NewFileStore_keyed[OF assms(1)] by blast
  then show ?thesis using run_op_step[OF _ assms(3)] by (simp add: refines_spec_def)
qed

theorem FileStore_refines_map_witness:
  "snd (run_op plain_env plain_store (OpStore ''/db/password'' ''x'')) = Done
   \<and> contents plain_env (fst (run_op plain_env plain_store (OpStore ''/db/password'' ''x''))) = Some [(''db/password'', ''x'')]"
proof -
  have new: "NewFileStore plain_env plain_cfg None = Ok plain_store" by code_simp
  have out: "snd (run_op plain_env plain_store (OpStore ''/db/password'' ''x'')) = Done" by code_simp
  have m: "contents plain_env plain_store = Some []" "spec_op [] (OpStore ''/db/password'' ''x'') = ([(''db/password'', ''x'')], Done)"
    by code_simp+
  show ?thesis
    using FileStore_refines_map[OF new store_reaches.start, where op = "OpStore ''/db/password'' ''x''"] out m
    by (metis fst_conv option.inject outcome.distinct(5) prod.collapse)
qed

text \<open>While the environment works, a store whose content can be read does not fail: every operation has
  the result and the effect of the operation on the map.\<close>

theorem FileStore_available:
  assumes "NewFileStore E cfg d = Ok s0" and "store_reaches E P s0 s" and "env_works E"
    and "trim_space (store_path s0) \<noteq> []" and "contents E s = Some m"
  shows "snd (run_op E s op) = snd (spec_op m op) \<and> contents E (fst (run_op E s op)) = Some (fst (spec_op m op))"
proof -
  have k: "keyed s0" "backed E s0" using NewFileStore_keyed[OF assms(1)] fresh_backed by blast+
  have b: "backed E s" "store_config s = store_config s0" using reaches_backed[OF assms(2) k(2)] by auto
  have "usable s" using usable_config[OF b(2)] k(1) assms(4) by (simp add: usable_def)
  then show ?thesis using run_op_available[OF assms(3) b(1) _ assms(5)] by (metis prod.collapse)
qed

theorem FileStore_available_witness:
  "snd (run_op plain_env plain_store (OpStore ''/db/password'' ''x'')) = Done
   \<and> snd (run_op plain_env (fst (run_op plain_env plain_store (OpStore ''/db/password'' ''x''))) (OpGet ''db/password'')) = Found ''x''"
proof -
  have new: "NewFileStore plain_env plain_cfg None = Ok plain_store" by code_simp
  let ?s = "fst (run_op plain_env plain_store (OpStore ''/db/password'' ''x''))"
  have path: "trim_space (store_path plain_store) \<noteq> []" by code_simp
  have m: "contents plain_env plain_store = Some []" "spec_op [] (OpStore ''/db/password'' ''x'') = ([(''db/password'', ''x'')], Done)"
    "spec_op [(''db/password'', ''x'')] (OpGet ''db/password'') = ([(''db/password'', ''x'')], Found ''x'')" by code_simp+
  have first: "snd (run_op plain_env plain_store (OpStore ''/db/password'' ''x'')) = Done" "contents plain_env ?s = Some [(''db/password'', ''x'')]"
    using FileStore_available[OF new store_reaches.start plain_env_works(1) path m(1), where op = "OpStore ''/db/password'' ''x''"]
    unfolding m(2) fst_conv snd_conv by blast+
  have reach: "store_reaches plain_env (\<lambda>_. True) plain_store ?s"
    by (rule store_reaches.step[OF store_reaches.start _ prod.collapse[symmetric]]) simp
  show ?thesis
    using FileStore_available[OF new reach plain_env_works(1) path first(2), where op = "OpGet ''db/password''"] first(1)
    unfolding m(3) fst_conv snd_conv by blast
qed



text \<open>C22: masking a payload into the file store and resolving the masked payload from it restores the
  payload, in every state a new store reaches while system calls succeed.\<close>

theorem FileStore_mask_resolve:
  assumes "NewFileStore E cfg d = Ok s0" and "store_reaches E P s0 s" and "calls_succeed E"
    and "go_value v" and "Normalize v = Ok n" and "plain_payload L n"
    and "FileStore_MaskPayload L E s v = (s', Ok m)"
  shows "snd (FileStore_ResolvePayload L E s' m) = Ok n"
proof -
  have "file_invar E s"
    using reaches_backed[OF assms(2)] fresh_backed NewFileStore_keyed[OF assms(1)] assms(3) by (auto simp: file_invar_def)
  then show ?thesis
    using file_store.resolve_mask assms(4-7) unfolding FileStore_MaskPayload_def FileStore_ResolvePayload_def by blast
qed

theorem FileStore_mask_resolve_witness:
  "\<exists>s' m. FileStore_MaskPayload ascii_text plain_env plain_store
        (VMap [(''apiKey'', VString ''s3cr3t''), (''user'', VString ''bob'')]) = (s', Ok m)
      \<and> m = VMap [(''apiKey'', VString ''{{secret .}}''), (''user'', VString ''bob'')]
      \<and> snd (FileStore_ResolvePayload ascii_text plain_env s' m) = Ok (VMap [(''apiKey'', VString ''s3cr3t''), (''user'', VString ''bob'')])"
proof -
  have new: "NewFileStore plain_env plain_cfg None = Ok plain_store" by code_simp
  let ?v = "VMap [(''apiKey'', VString ''s3cr3t''), (''user'', VString ''bob'')]"
  let ?m = "VMap [(''apiKey'', VString ''{{secret .}}''), (''user'', VString ''bob'')]"
  have v: "go_value ?v" "Normalize ?v = Ok ?v" "plain_payload ascii_text ?v" by code_simp+
  have "snd (FileStore_MaskPayload ascii_text plain_env plain_store ?v) = Ok ?m" by code_simp
  then have m: "FileStore_MaskPayload ascii_text plain_env plain_store ?v =
      (fst (FileStore_MaskPayload ascii_text plain_env plain_store ?v), Ok ?m)" by (metis prod.collapse)
  show ?thesis
    using FileStore_mask_resolve[OF new store_reaches.start plain_env_works(2) v m] m by blast
qed

end
