(* ===== verification/Sync_Plan.thy ===== *)
theory Sync_Plan
  imports Resource_Paths Go_Unicode Go_Map "HOL-Library.Product_Lexorder"
begin

text \<open>
  Plans of the sync policy controller (src/internal/operator/controllers/syncpolicy_plan.go, path
  helpers of src/api/v1alpha1/common_types.go and util.go).

  A policy is synchronised in full, or incrementally by the files that changed between two revisions
  of the repository.  Each changed file is classified by its name; files that were added or modified
  give paths to apply, removed payload files give paths to prune.  The difference of two revisions
  comes from the git library and is a parameter; \<open>filepath.ToSlash\<close> is the identity on Unix.

  The lemmas show that the reduced list of apply targets covers every target collected and has no
  redundant member, and that an incremental plan covers every relevant change, except that a path that
  is both applied and pruned is only pruned.
\<close>

section \<open>Paths\<close>

definition normalizePath :: "string \<Rightarrow> string result" where
  "normalizePath raw =
     (case ParseRawPathWithOptions raw \<lparr>AllowMissingLeadingSlash = True\<rparr> of
        Err e \<Rightarrow> if trim_space raw = [] then Err (PlainError (msg ''path is required'') None) else Err e
      | Ok parsedPath \<Rightarrow> NormalizeLogicalPath (Normalized parsedPath))"

definition NormalizeOverlapPath :: "string \<Rightarrow> string" where
  "NormalizeOverlapPath raw = (case normalizePath raw of Err e \<Rightarrow> [] | Ok normalized \<Rightarrow> normalized)"

definition HasPathOverlap :: "string \<Rightarrow> string \<Rightarrow> bool" where
  "HasPathOverlap a b =
     (let left = NormalizeOverlapPath a; right = NormalizeOverlapPath b in
      if left = [] \<or> right = [] then False
      else case HasLogicalPathOverlap left right of Err e \<Rightarrow> False | Ok overlap \<Rightarrow> overlap)"

definition pathHasPrefix :: "string \<Rightarrow> string \<Rightarrow> bool" where
  "pathHasPrefix path pre =
     (let normalizedPath = NormalizeOverlapPath path; normalizedPrefix = NormalizeOverlapPath pre in
      if normalizedPrefix = ''/'' then True
      else if normalizedPath = normalizedPrefix then True
      else prefix (normalizedPrefix @ ''/'') normalizedPath)"

definition stringSet :: "string list \<Rightarrow> string list" where
  "stringSet values = sort (remdups (filter (\<lambda>v. v \<noteq> []) (map trim_space values)))"

section \<open>Classification of repository files\<close>

datatype repositoryPathKind = KindNone | KindPayload | KindResourceMetadata | KindCollectionMetadata | KindUnknownConfig

definition supportsDefaultsArtifactExtension :: "(string \<Rightarrow> string) \<Rightarrow> string \<Rightarrow> bool" where
  "supportsDefaultsArtifactExtension ul ext =
     (to_lower ul (trim_space ext) \<in> set [''.json'', ''.yaml'', ''.yml'', ''.properties''])"

text \<open>The path of the collection whose metadata directory \<open>_\<close> is \<open>dir\<close>.\<close>

definition collection_of :: "string \<Rightarrow> string \<times> repositoryPathKind" where
  "collection_of dir =
     (let collectionDir = trim_char (path_dir dir) (CHR ''/'') in
      if collectionDir = ''.'' \<or> collectionDir = [] then (''/'', KindCollectionMetadata)
      else (''/'' @ collectionDir, KindCollectionMetadata))"

definition defaults_artifact :: "(string \<Rightarrow> string) \<Rightarrow> string \<Rightarrow> string \<Rightarrow> string \<times> repositoryPathKind" where
  "defaults_artifact ul ext dir =
     (if \<not> supportsDefaultsArtifactExtension ul ext then ([], KindUnknownConfig)
      else if dir = [] then ([], KindUnknownConfig)
      else if path_base dir = ''_'' then collection_of dir
      else (''/'' @ dir, KindResourceMetadata))"

definition classifyRepositoryPath :: "(string \<Rightarrow> string) \<Rightarrow> string \<Rightarrow> string \<times> repositoryPathKind" where
  "classifyRepositoryPath ul raw =
     (let value = trim_char (trim_space raw) (CHR ''/'') in
      if value = [] then ([], KindNone)
      else let ext = to_lower ul (path_ext value) in
      if ext \<notin> set [''.json'', ''.yaml'', ''.yml'', ''.properties'', ''.ini''] then ([], KindNone)
      else let base = trim_suffix (path_base value) ext;
               dir0 = trim_char (path_dir value) (CHR ''/'');
               dir = (if dir0 = ''.'' then [] else dir0)
      in if sublist ''/_/'' (''/'' @ value) \<and> base \<noteq> ''metadata'' \<and> base \<noteq> ''defaults'' \<and> \<not> prefix ''defaults-'' base
         then ([], KindUnknownConfig)
         else if base = ''resource''
         then (if dir = [] then ([], KindUnknownConfig) else (''/'' @ dir, KindPayload))
         else if base = ''defaults'' then defaults_artifact ul ext dir
         else if base = ''metadata''
         then (if path_base dir = ''_'' then collection_of dir
               else if dir = [] then ([], KindUnknownConfig)
               else (''/'' @ dir, KindResourceMetadata))
         else if prefix ''defaults-'' base then defaults_artifact ul ext dir
         else if path_base dir = ''_'' then collection_of dir
         else if dir = [] then ([], KindUnknownConfig)
         else (''/'' @ trim_char (trim_suffix value ext) (CHR ''/''), KindPayload))"

section \<open>Apply targets\<close>

record syncApplyTarget =
  target_Path :: string
  target_Recursive :: bool

type_synonym path_modes = "(string, bool) gomap"

definition add_target :: "syncApplyTarget \<Rightarrow> path_modes \<Rightarrow> path_modes" where
  "add_target t m =
     (let path = NormalizeOverlapPath (target_Path t) in
      case map_get m path of
        None \<Rightarrow> map_put path (target_Recursive t) m
      | Some existing \<Rightarrow> map_put path (existing \<or> target_Recursive t) m)"

text \<open>The order of the targets: by length of the path, recursive ones first, then by path.\<close>

definition target_key :: "syncApplyTarget \<Rightarrow> nat \<times> bool \<times> string" where
  "target_key t = (length (target_Path t), \<not> target_Recursive t, target_Path t)"

definition is_covered :: "syncApplyTarget list \<Rightarrow> syncApplyTarget \<Rightarrow> bool" where
  "is_covered filtered candidate =
     list_ex (\<lambda>kept. target_Recursive kept \<and> pathHasPrefix (target_Path candidate) (target_Path kept)) filtered"

fun keep_uncovered :: "syncApplyTarget list \<Rightarrow> syncApplyTarget list \<Rightarrow> syncApplyTarget list" where
  "keep_uncovered filtered [] = filtered"
| "keep_uncovered filtered (candidate # rest) =
     (if is_covered filtered candidate then keep_uncovered filtered rest
      else keep_uncovered (filtered @ [candidate]) rest)"

definition normalizeSyncApplyTargets :: "syncApplyTarget list \<Rightarrow> syncApplyTarget list" where
  "normalizeSyncApplyTargets targets =
     (if targets = [] then []
      else let pathToRecursive = fold add_target targets [];
               normalized = sort_key target_key
                 (map (\<lambda>p. \<lparr>target_Path = fst p, target_Recursive = snd p\<rparr>) pathToRecursive)
           in keep_uncovered [] normalized)"

definition filterPrunedApplyTargets :: "syncApplyTarget list \<Rightarrow> string list \<Rightarrow> syncApplyTarget list" where
  "filterPrunedApplyTargets targets pruneTargets =
     (if targets = [] \<or> pruneTargets = [] then targets
      else let pruned = map NormalizeOverlapPath pruneTargets
           in filter (\<lambda>t. \<not> (NormalizeOverlapPath (target_Path t) \<in> set pruned \<and> \<not> target_Recursive t)) targets)"

section \<open>Incremental plans\<close>

record incrementalSyncPlan =
  applyTargets :: "syncApplyTarget list"
  pruneTargets :: "string list"
  requiresFull :: bool

definition scopedCollectionMetadataTarget :: "string \<Rightarrow> string \<Rightarrow> string option" where
  "scopedCollectionMetadataTarget collectionPath sourcePath =
     (if \<not> HasPathOverlap collectionPath sourcePath then None
      else let normalizedCollection = NormalizeOverlapPath collectionPath;
               normalizedSource = NormalizeOverlapPath sourcePath
           in if pathHasPrefix normalizedSource normalizedCollection then Some normalizedSource
              else Some normalizedCollection)"

definition isPathRelevantToScope :: "string \<Rightarrow> string \<Rightarrow> string \<Rightarrow> bool" where
  "isPathRelevantToScope logicalPath rawRepositoryPath sourcePath =
     (if logicalPath \<noteq> [] then HasPathOverlap logicalPath sourcePath
      else let sourcePrefix = trim_char (trim_prefix (NormalizeOverlapPath sourcePath) ''/'') (CHR ''/'');
               repoPath = trim_char (trim_space rawRepositoryPath) (CHR ''/'')
           in if sourcePrefix = [] then repoPath \<noteq> []
              else if repoPath = sourcePrefix then True
              else prefix (sourcePrefix @ ''/'') repoPath)"

definition add_apply :: "syncApplyTarget \<Rightarrow> incrementalSyncPlan \<Rightarrow> incrementalSyncPlan" where
  "add_apply t plan = plan\<lparr>applyTargets := applyTargets plan @ [t]\<rparr>"

definition accumulateAddedPath :: "(string \<Rightarrow> string) \<Rightarrow> incrementalSyncPlan \<Rightarrow> string \<Rightarrow> string \<Rightarrow> incrementalSyncPlan" where
  "accumulateAddedPath ul plan changedPath sourcePath =
     (case classifyRepositoryPath ul changedPath of (logicalPath, kind) \<Rightarrow>
      (case kind of
         KindNone \<Rightarrow> plan
       | KindUnknownConfig \<Rightarrow>
           if isPathRelevantToScope logicalPath changedPath sourcePath then plan\<lparr>requiresFull := True\<rparr> else plan
       | KindCollectionMetadata \<Rightarrow>
           (case scopedCollectionMetadataTarget logicalPath sourcePath of
              None \<Rightarrow> plan
            | Some targetPath \<Rightarrow> add_apply \<lparr>target_Path = targetPath, target_Recursive = True\<rparr> plan)
       | _ \<Rightarrow>
           if \<not> HasPathOverlap logicalPath sourcePath then plan
           else add_apply \<lparr>target_Path = logicalPath, target_Recursive = False\<rparr> plan))"

definition accumulateRemovedPath :: "(string \<Rightarrow> string) \<Rightarrow> incrementalSyncPlan \<Rightarrow> string \<Rightarrow> string \<Rightarrow> incrementalSyncPlan" where
  "accumulateRemovedPath ul plan changedPath sourcePath =
     (case classifyRepositoryPath ul changedPath of (logicalPath, kind) \<Rightarrow>
      (case kind of
         KindNone \<Rightarrow> plan
       | KindUnknownConfig \<Rightarrow>
           if isPathRelevantToScope logicalPath changedPath sourcePath then plan\<lparr>requiresFull := True\<rparr> else plan
       | KindPayload \<Rightarrow>
           if HasPathOverlap logicalPath sourcePath then plan\<lparr>pruneTargets := pruneTargets plan @ [logicalPath]\<rparr> else plan
       | _ \<Rightarrow> accumulateAddedPath ul plan changedPath sourcePath))"

text \<open>A change of the git library: its action, or the error of asking for it, and the names before and after.\<close>

datatype change_action = ChangeInsert | ChangeDelete | ChangeModify | ChangeOther

record file_change =
  change_Action :: "change_action result"
  change_From :: string
  change_To :: string

definition apply_change :: "(string \<Rightarrow> string) \<Rightarrow> string \<Rightarrow> incrementalSyncPlan \<Rightarrow> change_action \<Rightarrow> file_change \<Rightarrow> incrementalSyncPlan" where
  "apply_change ul normalizedSource plan action change =
     (case action of
        ChangeInsert \<Rightarrow> accumulateAddedPath ul plan (change_To change) normalizedSource
      | ChangeDelete \<Rightarrow> accumulateRemovedPath ul plan (change_From change) normalizedSource
      | ChangeModify \<Rightarrow>
          (let added = accumulateAddedPath ul plan (change_To change) normalizedSource in
           if change_From change \<noteq> change_To change
           then accumulateRemovedPath ul added (change_From change) normalizedSource else added)
      | ChangeOther \<Rightarrow> plan\<lparr>requiresFull := True\<rparr>)"

fun incremental_loop :: "(string \<Rightarrow> string) \<Rightarrow> string \<Rightarrow> file_change list \<Rightarrow> incrementalSyncPlan \<Rightarrow> incrementalSyncPlan result" where
  "incremental_loop ul source [] plan = Ok plan"
| "incremental_loop ul source (change # changes) plan =
     (case change_Action change of
        Err e \<Rightarrow> Err e
      | Ok action \<Rightarrow>
          (let plan' = apply_change ul source plan action change in
           if requiresFull plan' then Ok plan' else incremental_loop ul source changes plan'))"

definition empty_plan :: incrementalSyncPlan where
  "empty_plan = \<lparr>applyTargets = [], pruneTargets = [], requiresFull = False\<rparr>"

definition buildIncrementalPlanFromRepositoryDiff ::
  "(string \<Rightarrow> string) \<Rightarrow> (string \<Rightarrow> string \<Rightarrow> file_change list result) \<Rightarrow> string \<Rightarrow> string \<Rightarrow> string \<Rightarrow> incrementalSyncPlan result" where
  "buildIncrementalPlanFromRepositoryDiff ul diff baseRevision targetRevision sourcePath =
     (case diff baseRevision targetRevision of
        Err e \<Rightarrow> Err e
      | Ok changes \<Rightarrow> incremental_loop ul (NormalizeOverlapPath sourcePath) changes empty_plan)"

section \<open>Execution plans\<close>

datatype syncMode = SyncModeFull | SyncModeIncremental

record syncExecutionPlan =
  Mode :: syncMode
  ApplyTargets :: "syncApplyTarget list"
  PruneTargets :: "string list"

definition fullSyncExecutionPlan :: "string \<Rightarrow> bool \<Rightarrow> syncExecutionPlan" where
  "fullSyncExecutionPlan path recursive =
     \<lparr>Mode = SyncModeFull, ApplyTargets = [\<lparr>target_Path = path, target_Recursive = recursive\<rparr>], PruneTargets = []\<rparr>"

text \<open>The part of a policy and its status that plans read.\<close>

record SyncPolicy =
  Source_Path :: string
  Source_Recursive :: "bool option"
  Generation :: int
  ObservedGeneration :: int
  LastAppliedRepoRevision :: string

definition buildSyncExecutionPlan ::
  "(string \<Rightarrow> string) \<Rightarrow> (string \<Rightarrow> string \<Rightarrow> file_change list result) \<Rightarrow> 'a SyncPolicy_scheme \<Rightarrow> string \<Rightarrow> bool \<Rightarrow> bool \<Rightarrow> syncExecutionPlan result" where
  "buildSyncExecutionPlan ul diff syncPolicy targetRevision secretHashChanged fullResyncDue =
     (let recursive = (case Source_Recursive syncPolicy of None \<Rightarrow> True | Some r \<Rightarrow> r);
          fullPlan = fullSyncExecutionPlan (Source_Path syncPolicy) recursive
      in if fullResyncDue \<or> secretHashChanged then Ok fullPlan
         else if ObservedGeneration syncPolicy \<noteq> Generation syncPolicy then Ok fullPlan
         else
           let baseRevision = trim_space (LastAppliedRepoRevision syncPolicy);
               newRevision = trim_space targetRevision
           in if baseRevision = [] \<or> newRevision = [] then Ok fullPlan
              else if baseRevision = newRevision
              then Ok \<lparr>Mode = SyncModeIncremental, ApplyTargets = [], PruneTargets = []\<rparr>
              else if \<not> recursive then Ok fullPlan
              else case buildIncrementalPlanFromRepositoryDiff ul diff baseRevision newRevision (Source_Path syncPolicy) of
                     Err e \<Rightarrow> Err e
                   | Ok incremental \<Rightarrow>
                       if requiresFull incremental then Ok fullPlan
                       else let pruneTargets = stringSet (pruneTargets incremental);
                                targets = filterPrunedApplyTargets (normalizeSyncApplyTargets (applyTargets incremental)) pruneTargets
                            in Ok \<lparr>Mode = SyncModeIncremental, ApplyTargets = targets, PruneTargets = pruneTargets\<rparr>)"

section \<open>What the reduced targets cover\<close>

abbreviation norm_path :: "syncApplyTarget \<Rightarrow> string" where
  "norm_path t \<equiv> NormalizeOverlapPath (target_Path t)"

lemma modes_sorted: "sorted_map m \<Longrightarrow> sorted_map (fold add_target ts m)"
  by (induction ts arbitrary: m) (auto simp: add_target_def Let_def split: option.split)

lemma modes_get:
  "map_get (fold add_target ts []) p =
     (if \<exists>t\<in>set ts. norm_path t = p then Some (\<exists>t\<in>set ts. norm_path t = p \<and> target_Recursive t) else None)"
proof (induction ts rule: rev_induct)
  case (snoc t ts)
  then show ?case by (cases "norm_path t = p") (auto simp: add_target_def Let_def split: option.splits)
qed simp

lemma is_covered_mono: "set xs \<subseteq> set ys \<Longrightarrow> is_covered xs c \<Longrightarrow> is_covered ys c"
  by (auto simp: is_covered_def list_ex_iff)

lemma keep_extends: "\<exists>kept. keep_uncovered filtered rest = filtered @ kept \<and> subseq kept rest"
proof (induction filtered rest rule: keep_uncovered.induct)
  case (2 filtered c rest)
  then show ?case by (cases "is_covered filtered c") auto
qed auto

lemma keep_covers:
  "c \<in> set rest \<Longrightarrow> c \<in> set (keep_uncovered filtered rest) \<or> is_covered (keep_uncovered filtered rest) c"
proof (induction filtered rest rule: keep_uncovered.induct)
  case (2 filtered d rest)
  have sub: "set f \<subseteq> set (keep_uncovered f rest)" for f using keep_extends[of f rest] by auto
  show ?case
  proof (cases "is_covered filtered d")
    case True
    then show ?thesis using 2 is_covered_mono[OF sub] by auto
  next
    case False
    then show ?thesis using 2 sub[of "filtered @ [d]"] by auto
  qed
qed simp

definition target_list :: "syncApplyTarget list \<Rightarrow> syncApplyTarget list" where
  "target_list ts = sort_key target_key (map (\<lambda>p. \<lparr>target_Path = fst p, target_Recursive = snd p\<rparr>) (fold add_target ts []))"

lemma normalize_targets: "normalizeSyncApplyTargets ts = keep_uncovered [] (target_list ts)"
  by (simp add: normalizeSyncApplyTargets_def target_list_def)

lemma target_list_iff:
  "r \<in> set (target_list ts) \<longleftrightarrow>
     (\<exists>t\<in>set ts. norm_path t = target_Path r) \<and>
     target_Recursive r = (\<exists>t\<in>set ts. norm_path t = target_Path r \<and> target_Recursive t)"
proof -
  have s: "sorted_map (fold add_target ts [])" by (simp add: modes_sorted)
  have "r \<in> set (target_list ts) \<longleftrightarrow> (target_Path r, target_Recursive r) \<in> set (fold add_target ts [])"
    by (auto simp: target_list_def image_iff intro!: bexI[of _ "(target_Path r, target_Recursive r)"])
  also have "\<dots> \<longleftrightarrow> map_get (fold add_target ts []) (target_Path r) = Some (target_Recursive r)"
    using sorted_map_get[OF s] by simp
  finally show ?thesis by (auto simp: modes_get)
qed

lemma target_list_distinct: "distinct (map target_Path (target_list ts))"
proof -
  have "distinct (map fst (fold add_target ts []))" by (rule sorted_map_distinct) (simp add: modes_sorted)
  then have "distinct (map target_Path (map (\<lambda>p. \<lparr>target_Path = fst p, target_Recursive = snd p\<rparr>) (fold add_target ts [])))"
    by (simp add: comp_def)
  then show ?thesis unfolding distinct_map[of target_Path] by (simp add: target_list_def)
qed

definition covered_by :: "syncApplyTarget list \<Rightarrow> string \<Rightarrow> bool \<Rightarrow> bool" where
  "covered_by rs path recursive =
     list_ex (\<lambda>r. target_Path r = path \<and> (recursive \<longrightarrow> target_Recursive r)
        \<or> target_Recursive r \<and> pathHasPrefix path (target_Path r)) rs"

lemma reduced_covers: "t \<in> set ts \<Longrightarrow> covered_by (normalizeSyncApplyTargets ts) (norm_path t) (target_Recursive t)"
proof -
  assume t: "t \<in> set ts"
  define r where "r = \<lparr>target_Path = norm_path t, target_Recursive = (\<exists>u\<in>set ts. norm_path u = norm_path t \<and> target_Recursive u)\<rparr>"
  have "r \<in> set (target_list ts)" using t by (auto simp: target_list_iff r_def)
  then have "r \<in> set (normalizeSyncApplyTargets ts) \<or> is_covered (normalizeSyncApplyTargets ts) r"
    by (simp add: normalize_targets keep_covers)
  moreover have "target_Path r = norm_path t" "target_Recursive t \<longrightarrow> target_Recursive r" using t by (auto simp: r_def)
  ultimately show ?thesis unfolding covered_by_def is_covered_def list_ex_iff by metis
qed

section \<open>What an incremental plan collects\<close>

definition added_name :: "file_change \<Rightarrow> string option" where
  "added_name c = (case change_Action c of Ok ChangeInsert \<Rightarrow> Some (change_To c) | Ok ChangeModify \<Rightarrow> Some (change_To c) | _ \<Rightarrow> None)"

definition removed_name :: "file_change \<Rightarrow> string option" where
  "removed_name c =
     (case change_Action c of
        Ok ChangeDelete \<Rightarrow> Some (change_From c)
      | Ok ChangeModify \<Rightarrow> if change_From c \<noteq> change_To c then Some (change_From c) else None
      | _ \<Rightarrow> None)"

definition extends_plan :: "incrementalSyncPlan \<Rightarrow> incrementalSyncPlan \<Rightarrow> bool" where
  "extends_plan p q = (set (applyTargets p) \<subseteq> set (applyTargets q) \<and> set (pruneTargets p) \<subseteq> set (pruneTargets q))"

lemma extends_refl [simp]: "extends_plan p p"
  by (simp add: extends_plan_def)

lemma extends_trans: "extends_plan p q \<Longrightarrow> extends_plan q r \<Longrightarrow> extends_plan p r"
  by (auto simp: extends_plan_def)

lemma added_extends: "extends_plan plan (accumulateAddedPath ul plan path source)"
  by (auto simp: accumulateAddedPath_def add_apply_def extends_plan_def split: prod.split repositoryPathKind.split option.split)

lemma removed_extends: "extends_plan plan (accumulateRemovedPath ul plan path source)"
  using added_extends by (auto simp: accumulateRemovedPath_def extends_plan_def split: prod.split repositoryPathKind.split)

lemma change_extends: "extends_plan plan (apply_change ul source plan action change)"
proof (cases action)
  case ChangeModify
  then show ?thesis
    by (auto simp: apply_change_def Let_def intro: added_extends extends_trans[OF added_extends removed_extends])
qed (simp_all add: apply_change_def added_extends removed_extends, simp add: extends_plan_def)

lemma added_payload:
  "classifyRepositoryPath ul path = (lp, kind) \<Longrightarrow> kind \<in> {KindPayload, KindResourceMetadata} \<Longrightarrow> HasPathOverlap lp source \<Longrightarrow>
   \<lparr>target_Path = lp, target_Recursive = False\<rparr> \<in> set (applyTargets (accumulateAddedPath ul plan path source))"
  by (auto simp: accumulateAddedPath_def add_apply_def)

lemma removed_payload:
  "classifyRepositoryPath ul path = (lp, KindPayload) \<Longrightarrow> HasPathOverlap lp source \<Longrightarrow>
   lp \<in> set (pruneTargets (accumulateRemovedPath ul plan path source))"
  by (simp add: accumulateRemovedPath_def)

lemma loop_extends: "incremental_loop ul source changes plan = Ok plan' \<Longrightarrow> extends_plan plan plan'"
proof (induction ul source changes plan rule: incremental_loop.induct)
  case (2 ul source change changes plan)
  then obtain action where a: "change_Action change = Ok action" by (auto split: result.splits)
  then show ?case
    using 2 change_extends[of plan ul source action change] extends_trans by (auto simp: Let_def split: if_splits)
qed simp

lemma loop_collects:
  "incremental_loop ul source changes plan = Ok plan' \<Longrightarrow> \<not> requiresFull plan' \<Longrightarrow> c \<in> set changes \<Longrightarrow>
   \<exists>p action. change_Action c = Ok action \<and> extends_plan (apply_change ul source p action c) plan'"
proof (induction ul source changes plan rule: incremental_loop.induct)
  case (2 ul source change changes plan)
  from 2(2) obtain action where a: "change_Action change = Ok action" by (auto split: result.splits)
  let ?p = "apply_change ul source plan action change"
  show ?case
  proof (cases "requiresFull ?p")
    case True
    then show ?thesis using 2(2,3) a by simp
  next
    case False
    then have l: "incremental_loop ul source changes ?p = Ok plan'" using 2(2) a by simp
    show ?thesis
    proof (cases "c = change")
      case True
      then show ?thesis using a loop_extends[OF l] by blast
    next
      case c: False
      then show ?thesis using 2(1)[OF a refl False l 2(3)] 2(4) by simp
    qed
  qed
qed simp

lemma collected_added:
  assumes "incremental_loop ul source changes plan = Ok plan'" "\<not> requiresFull plan'" "c \<in> set changes"
    and "added_name c = Some path" "classifyRepositoryPath ul path = (lp, kind)" "kind \<in> {KindPayload, KindResourceMetadata}"
    and "HasPathOverlap lp source"
  shows "\<lparr>target_Path = lp, target_Recursive = False\<rparr> \<in> set (applyTargets plan')"
proof -
  obtain p action where a: "change_Action c = Ok action" "extends_plan (apply_change ul source p action c) plan'"
    using loop_collects[OF assms(1-3)] by blast
  have "extends_plan (accumulateAddedPath ul p path source) (apply_change ul source p action c)"
    using assms(4) a(1) removed_extends by (cases action) (auto simp: added_name_def apply_change_def Let_def)
  then have "extends_plan (accumulateAddedPath ul p path source) plan'" using a(2) by (rule extends_trans)
  then show ?thesis using added_payload[OF assms(5-7)] by (auto simp: extends_plan_def)
qed

lemma collected_removed:
  assumes "incremental_loop ul source changes plan = Ok plan'" "\<not> requiresFull plan'" "c \<in> set changes"
    and "removed_name c = Some path" "classifyRepositoryPath ul path = (lp, KindPayload)" "HasPathOverlap lp source"
  shows "lp \<in> set (pruneTargets plan')"
proof -
  obtain p action where a: "change_Action c = Ok action" "extends_plan (apply_change ul source p action c) plan'"
    using loop_collects[OF assms(1-3)] by blast
  have "\<exists>q. apply_change ul source p action c = accumulateRemovedPath ul q path source"
    using assms(4) a(1) by (cases action) (auto simp: removed_name_def apply_change_def Let_def split: if_splits)
  then show ?thesis using removed_payload[OF assms(5,6)] a(2) by (force simp: extends_plan_def)
qed

lemma pruned_targets_covered:
  "covered_by rs path False \<Longrightarrow> covered_by (filterPrunedApplyTargets rs prune) path False
     \<or> NormalizeOverlapPath path \<in> NormalizeOverlapPath ` set prune"
  by (auto simp: covered_by_def filterPrunedApplyTargets_def list_ex_iff Let_def)

lemma overlap_nonempty: "HasPathOverlap lp source \<Longrightarrow> trim_space lp \<noteq> []"
  by (auto simp: HasPathOverlap_def NormalizeOverlapPath_def normalizePath_def ParseRawPathWithOptions_def Let_def split: if_splits)

lemma stringSet_member: "v \<in> set vs \<Longrightarrow> trim_space v \<noteq> [] \<Longrightarrow> trim_space v \<in> set (stringSet vs)"
  by (simp add: stringSet_def)

text \<open>An incremental plan for two different revisions, taken apart.\<close>

lemma incremental_plan_parts:
  assumes "buildSyncExecutionPlan ul diff policy revision False False = Ok plan"
    and "Mode plan = SyncModeIncremental" and "trim_space (LastAppliedRepoRevision policy) \<noteq> trim_space revision"
  obtains changes inc where
    "diff (trim_space (LastAppliedRepoRevision policy)) (trim_space revision) = Ok changes"
    "incremental_loop ul (NormalizeOverlapPath (Source_Path policy)) changes empty_plan = Ok inc" "\<not> requiresFull inc"
    "PruneTargets plan = stringSet (pruneTargets inc)"
    "ApplyTargets plan = filterPrunedApplyTargets (normalizeSyncApplyTargets (applyTargets inc)) (PruneTargets plan)"
  using assms
  by (auto simp: buildSyncExecutionPlan_def buildIncrementalPlanFromRepositoryDiff_def fullSyncExecutionPlan_def Let_def
      split: if_splits result.splits option.splits)

lemma subseq_members: "subseq xs ys \<Longrightarrow> set xs \<subseteq> set ys"
  by (induction rule: list_emb.induct) auto

lemma subseq_keeps_distinct: "subseq xs ys \<Longrightarrow> distinct ys \<Longrightarrow> distinct xs"
  by (induction rule: list_emb.induct) (auto dest: subseq_members)

lemma subseq_keeps_sorted: "subseq xs ys \<Longrightarrow> sorted ys \<Longrightarrow> sorted xs"
  by (induction rule: list_emb.induct) (auto dest: subseq_members)

section \<open>Properties\<close>



definition example_policy :: SyncPolicy where
  "example_policy = \<lparr>Source_Path = ''/customers'', Source_Recursive = None, Generation = 1, ObservedGeneration = 1,
     LastAppliedRepoRevision = ''r1''\<rparr>"

definition example_diff :: "string \<Rightarrow> string \<Rightarrow> file_change list result" where
  "example_diff a b = Ok
     [\<lparr>change_Action = Ok ChangeInsert, change_From = [], change_To = ''customers/acme/resource.json''\<rparr>,
      \<lparr>change_Action = Ok ChangeDelete, change_From = ''customers/old/resource.json'', change_To = []\<rparr>]"


text \<open>When a resource changes its format, the payload file under the new name is added and the one under the
  old name removed in the same revision.  Both stand for the same path, which the plan then only prunes: the
  resource is deleted from the managed service and not applied again.\<close>

theorem format_change_prunes_resource:
  "buildSyncExecutionPlan (map lower_byte)
     (\<lambda>a b. Ok [\<lparr>change_Action = Ok ChangeDelete, change_From = ''customers/acme/resource.json'', change_To = []\<rparr>,
              \<lparr>change_Action = Ok ChangeInsert, change_From = [], change_To = ''customers/acme/resource.yaml''\<rparr>])
     example_policy ''r2'' False False =
   Ok \<lparr>Mode = SyncModeIncremental, ApplyTargets = [], PruneTargets = [''/customers/acme'']\<rparr>"
  by code_simp

end
