(* ===== verification/Conflict_Index.thy ===== *)
theory Conflict_Index
  imports Sync_Plan "HOL-Library.AList"
begin

text \<open>
  Ownership of remote resources (src/internal/operator/controllers/conflict_index.go): an index by
  logical path and one by remote identifier, filled by generated resources and read by sync policies.

  The index is a pair of association lists with distinct keys; the order in which Go's map iteration
  visits the entries is the order of the list.  Each operation holds the index's lock.

  The lemmas show what a lookup returns after a registration and after its removal.
\<close>

record ConflictSource =
  CRDGeneratorNamespace :: string
  CRDGeneratorName :: string
  GeneratedKind :: string
  source_LogicalPath :: string
  source_RemoteID :: string

record conflictKey =
  ManagedServiceNamespace :: string
  ManagedServiceName :: string
  CollectionPath :: string
  Identifier :: string

record ConflictIndex =
  tier1 :: "(conflictKey \<times> ConflictSource) list"
  tier2 :: "(conflictKey \<times> ConflictSource) list"

datatype ConflictTier = ConflictTierName | ConflictTierRemoteID

definition NewConflictIndex :: ConflictIndex where
  "NewConflictIndex = \<lparr>tier1 = [], tier2 = []\<rparr>"

definition with_root :: "string \<Rightarrow> string" where
  "with_root value = (if \<not> prefix ''/'' value then ''/'' @ value else value)"

definition normalizeCollectionPath :: "string \<Rightarrow> string" where
  "normalizeCollectionPath raw =
     (let value = trim_space raw in if value = [] then [] else path_clean (with_root value))"

definition normalizeLogicalPath :: "string \<Rightarrow> string" where
  "normalizeLogicalPath raw =
     (let value = trim_space raw in
      if value = [] then []
      else let normalized = NormalizeOverlapPath value in
        if normalized \<noteq> [] then normalized else path_clean (with_root value))"

definition conflict_key :: "string \<Rightarrow> string \<Rightarrow> string \<Rightarrow> string \<Rightarrow> conflictKey" where
  "conflict_key namespace name collectionPath identifier =
     \<lparr>ManagedServiceNamespace = trim_space namespace, ManagedServiceName = trim_space name,
      CollectionPath = normalizeCollectionPath collectionPath, Identifier = identifier\<rparr>"

definition Register ::
  "ConflictIndex \<Rightarrow> string \<Rightarrow> string \<Rightarrow> string \<Rightarrow> string \<Rightarrow> string \<Rightarrow> ConflictSource \<Rightarrow> ConflictIndex" where
  "Register c namespace name collectionPath logicalPath remoteID source =
     (let tier1Key = conflict_key namespace name collectionPath (normalizeLogicalPath logicalPath);
          c1 = c\<lparr>tier1 := AList.update tier1Key source (tier1 c)\<rparr>;
          remoteID = trim_space remoteID
      in if remoteID \<noteq> [] then c1\<lparr>tier2 := AList.update (tier1Key\<lparr>Identifier := remoteID\<rparr>) source (tier2 c1)\<rparr> else c1)"

definition owned_by :: "string \<Rightarrow> string \<Rightarrow> ConflictSource \<Rightarrow> bool" where
  "owned_by namespace name source = (CRDGeneratorNamespace source = namespace \<and> CRDGeneratorName source = name)"

definition purge :: "string \<Rightarrow> string \<Rightarrow> string \<Rightarrow> (conflictKey \<times> ConflictSource) list \<Rightarrow> (conflictKey \<times> ConflictSource) list" where
  "purge namespace name normalizedPath bucket =
     filter (\<lambda>(key, source). \<not> owned_by namespace name source
        \<or> (normalizedPath \<noteq> [] \<and> source_LogicalPath source \<noteq> normalizedPath)) bucket"

definition Unregister :: "ConflictIndex \<Rightarrow> string \<Rightarrow> string \<Rightarrow> string \<Rightarrow> ConflictIndex" where
  "Unregister c namespace name logicalPath =
     (let normalizedPath = normalizeLogicalPath logicalPath in
      c\<lparr>tier1 := purge namespace name normalizedPath (tier1 c),
        tier2 := purge namespace name normalizedPath (tier2 c)\<rparr>)"

definition Lookup :: "ConflictIndex \<Rightarrow> string \<Rightarrow> string \<Rightarrow> string \<Rightarrow> string \<Rightarrow> ConflictTier \<Rightarrow> ConflictSource option" where
  "Lookup c namespace name collectionPath identifier tier =
     (case tier of
        ConflictTierName \<Rightarrow> map_of (tier1 c) (conflict_key namespace name collectionPath (normalizeLogicalPath identifier))
      | ConflictTierRemoteID \<Rightarrow> map_of (tier2 c) (conflict_key namespace name collectionPath (trim_space identifier)))"

definition CollectionPathsForGenerator :: "ConflictIndex \<Rightarrow> string \<Rightarrow> string \<Rightarrow> string list" where
  "CollectionPathsForGenerator c namespace name =
     fold (\<lambda>(key, source) out. if owned_by namespace name source \<and> CollectionPath key \<notin> set out
        then out @ [CollectionPath key] else out) (tier1 c) []"

section \<open>Lookups\<close>

definition index_ok :: "ConflictIndex \<Rightarrow> bool" where
  "index_ok c = (distinct (map fst (tier1 c)) \<and> distinct (map fst (tier2 c)))"

lemma index_ok_ops:
  "index_ok NewConflictIndex" "index_ok c \<Longrightarrow> index_ok (Register c ns n coll lp rid src)"
  "index_ok c \<Longrightarrow> index_ok (Unregister c ns n lp)"
  by (auto simp: index_ok_def NewConflictIndex_def Register_def Unregister_def purge_def Let_def
      distinct_update distinct_map_filter)

lemma Lookup_Register:
  "Lookup (Register c ns n coll lp rid src) ns' n' coll' ident ConflictTierName =
     (if conflict_key ns' n' coll' (normalizeLogicalPath ident) = conflict_key ns n coll (normalizeLogicalPath lp)
      then Some src else Lookup c ns' n' coll' ident ConflictTierName)"
  "Lookup (Register c ns n coll lp rid src) ns' n' coll' ident ConflictTierRemoteID =
     (if trim_space rid \<noteq> [] \<and> conflict_key ns' n' coll' (trim_space ident) = conflict_key ns n coll (trim_space rid)
      then Some src else Lookup c ns' n' coll' ident ConflictTierRemoteID)"
  by (auto simp: Lookup_def Register_def Let_def update_conv' conflict_key_def)

lemma map_of_purge:
  "distinct (map fst b) \<Longrightarrow> map_of (purge ns n p b) k =
     (case map_of b k of
        None \<Rightarrow> None
      | Some s \<Rightarrow> if owned_by ns n s \<and> (p = [] \<or> source_LogicalPath s = p) then None else Some s)"
proof (induction b)
  case (Cons e b)
  obtain k' s where e: "e = (k', s)" by fastforce
  have "k' = k \<Longrightarrow> map_of b k = None" using Cons.prems by (auto simp: e map_of_eq_None_iff)
  then show ?case using Cons by (auto simp: purge_def e split: option.splits if_splits)
qed (simp add: purge_def)

lemma Lookup_Unregister:
  "index_ok c \<Longrightarrow> Lookup (Unregister c ns n lp) ns' n' coll ident tier =
     (case Lookup c ns' n' coll ident tier of
        None \<Rightarrow> None
      | Some s \<Rightarrow> if owned_by ns n s \<and> (normalizeLogicalPath lp = [] \<or> source_LogicalPath s = normalizeLogicalPath lp) then None else Some s)"
  by (cases tier) (simp_all add: Lookup_def Unregister_def Let_def map_of_purge index_ok_def)

end
