(* ===== verification/Cron.thy ===== *)
theory Cron
  imports Faults
begin

text \<open>
  Cron expressions (src/cronexpr/cronexpr.go) and the resynchronisation schedule of sync policies
  (src/internal/operator/controllers/syncpolicy_schedule.go).

  Instants are \<open>int\<close>: nanoseconds since 1970-01-01 00:00 UTC, from which minute, hour, day, month and
  weekday follow by the proleptic Gregorian calendar, as package \<open>time\<close> computes them.  Integers
  are Go's 64-bit \<open>int\<close>; the step of a field is added with wrap-around, and indexing the table of
  allowed values outside its bounds is the run-time panic it is in Go.

  The lemmas show which values a parsed field allows, that \<open>Next\<close> returns the first matching minute
  after an instant, and that a large step makes \<open>Parse\<close> panic.
\<close>

text \<open>Numbers are evaluated as integers.\<close>

lemma digits_value_int: "int (digits_value s) = foldl (\<lambda>acc c. 10 * acc + int (digit_value c)) 0 s"
proof -
  have "int (foldl (\<lambda>acc c. 10 * acc + digit_value c) n s) = foldl (\<lambda>acc c. 10 * acc + int (digit_value c)) (int n) s" for n
    by (induction s arbitrary: n) simp_all
  from this[of 0] show ?thesis by (simp add: digits_value_def)
qed

lemmas atoi_syntax_int [code] = atoi_syntax_def[unfolded digits_value_int]

section \<open>Calendar\<close>

definition nanos_per_minute :: int where "nanos_per_minute = 60000000000"

definition days_from_civil :: "int \<Rightarrow> int \<Rightarrow> int \<Rightarrow> int" where
  "days_from_civil year month day =
     (let y = (if month \<le> 2 then year - 1 else year);
          era = y div 400;
          yoe = y mod 400;
          doy = (153 * (if month > 2 then month - 3 else month + 9) + 2) div 5 + day - 1;
          doe = yoe * 365 + yoe div 4 - yoe div 100 + doy
      in era * 146097 + doe - 719468)"

definition civil_from_days :: "int \<Rightarrow> int \<times> int \<times> int" where
  "civil_from_days days =
     (let z = days + 719468;
          era = z div 146097;
          doe = z mod 146097;
          yoe = (doe - doe div 1460 + doe div 36524 - doe div 146096) div 365;
          doy = doe - (365 * yoe + yoe div 4 - yoe div 100);
          mp = (5 * doy + 2) div 153;
          d = doy - (153 * mp + 2) div 5 + 1;
          m = (if mp < 10 then mp + 3 else mp - 9)
      in (yoe + era * 400 + (if m \<le> 2 then 1 else 0), m, d))"

text \<open>The parts of a time given in whole minutes.\<close>

definition time_minute :: "int \<Rightarrow> int" where "time_minute t = t mod 60"
definition time_hour :: "int \<Rightarrow> int" where "time_hour t = t div 60 mod 24"
definition time_days :: "int \<Rightarrow> int" where "time_days t = t div 1440"
definition time_month :: "int \<Rightarrow> int" where "time_month t = (case civil_from_days (time_days t) of (y, m, d) \<Rightarrow> m)"
definition time_day :: "int \<Rightarrow> int" where "time_day t = (case civil_from_days (time_days t) of (y, m, d) \<Rightarrow> d)"
definition time_weekday :: "int \<Rightarrow> int" where "time_weekday t = (time_days t + 4) mod 7"

text \<open>\<open>AddDate(years, 0, 0)\<close>: a day that the month does not have runs over into the next.\<close>

definition add_years :: "int \<Rightarrow> int \<Rightarrow> int" where
  "add_years t n =
     (case civil_from_days (time_days t) of (y, m, d) \<Rightarrow> days_from_civil (y + n) m d * 1440 + t mod 1440)"

text \<open>Days around leap years, with the number of days since the epoch and the weekday.\<close>

lemma calendar_examples:
  "civil_from_days 0 = (1970, 1, 1)" "days_from_civil 1970 1 1 = 0" "time_weekday (0 * 1440) = 4"
  "civil_from_days 11016 = (2000, 2, 29)" "days_from_civil 2000 2 29 = 11016" "time_weekday (11016 * 1440) = 2"
  "civil_from_days 19782 = (2024, 2, 29)" "days_from_civil 2024 2 29 = 19782" "time_weekday (19782 * 1440) = 4"
  "civil_from_days 20818 = (2026, 12, 31)" "days_from_civil 2026 12 31 = 20818" "time_weekday (20818 * 1440) = 4"
  "civil_from_days 47541 = (2100, 3, 1)" "days_from_civil 2100 3 1 = 47541" "time_weekday (47541 * 1440) = 1"
  "civil_from_days (- 1) = (1969, 12, 31)" "days_from_civil 1969 12 31 = - 1" "time_weekday (- 1 * 1440) = 3"
  by code_simp+

section \<open>Fields\<close>

record field =
  field_min :: int
  field_max :: int
  allowed :: "bool list"
  wildcard :: bool

definition field_has :: "field \<Rightarrow> int \<Rightarrow> bool" where
  "field_has f v = (if v < field_min f \<or> v > field_max f then False else allowed f ! nat v)"

record Schedule =
  sched_minute :: field
  sched_hour :: field
  sched_dayOfMonth :: field
  sched_month :: field
  sched_dayOfWeek :: field

definition parseFieldValue :: "string \<Rightarrow> int \<Rightarrow> int \<Rightarrow> bool \<Rightarrow> int result" where
  "parseFieldValue raw lo hi allowSundaySeven =
     (case atoi (trim_space raw) of
        None \<Rightarrow> Err (PlainError (''invalid number %q'', [raw]) None)
      | Some parsed \<Rightarrow>
          (let parsed = (if allowSundaySeven \<and> parsed = 7 then 0 else parsed) in
           if parsed < lo \<or> parsed > hi then Err (PlainError (msg ''value %d out of range [%d,%d]'') None)
           else Ok parsed))"

text \<open>The step of a list item: the part before the slash and the step.\<close>

definition part_step :: "string \<Rightarrow> (string \<times> int) result" where
  "part_step raw =
     (if CHR ''/'' \<in> set raw
      then (case split_on (CHR ''/'') raw of
              [a, b] \<Rightarrow>
                (let stepRaw = trim_space b in
                 case atoi stepRaw of
                   None \<Rightarrow> Err (PlainError (''invalid step value %q'', [stepRaw]) None)
                 | Some parsedStep \<Rightarrow>
                     if parsedStep \<le> 0 then Err (PlainError (''invalid step value %q'', [stepRaw]) None)
                     else Ok (trim_space a, parsedStep))
            | _ \<Rightarrow> Err (PlainError (''invalid step syntax %q'', [raw]) None))
      else Ok (raw, 1))"

definition part_bounds :: "string \<Rightarrow> int \<Rightarrow> int \<Rightarrow> bool \<Rightarrow> (int \<times> int) result" where
  "part_bounds base lo hi allowSundaySeven =
     (if base = ''*'' then Ok (lo, hi)
      else if CHR ''-'' \<in> set base
      then (case split_on (CHR ''-'') base of
              [l, r] \<Rightarrow>
                (let left = trim_space l; right = trim_space r in
                 if allowSundaySeven \<and> (left = ''7'' \<or> right = ''7'')
                 then Err (PlainError (msg ''use 0 for sunday in ranges'') None)
                 else case parseFieldValue left lo hi allowSundaySeven of
                        Err e \<Rightarrow> Err e
                      | Ok start \<Rightarrow>
                          (case parseFieldValue right lo hi allowSundaySeven of
                             Err e \<Rightarrow> Err e
                           | Ok final \<Rightarrow>
                               if start > final then Err (PlainError (msg ''range start must be <= end'') None)
                               else Ok (start, final)))
            | _ \<Rightarrow> Err (PlainError (''invalid range syntax %q'', [base]) None))
      else case parseFieldValue base lo hi allowSundaySeven of
             Err e \<Rightarrow> Err e
           | Ok single \<Rightarrow> Ok (single, single))"

definition part_range :: "string \<Rightarrow> int \<Rightarrow> int \<Rightarrow> bool \<Rightarrow> (int \<times> int \<times> int) result" where
  "part_range raw lo hi allowSundaySeven =
     (if raw = [] then Err (PlainError (msg ''invalid empty list item'') None)
      else case part_step raw of
             Err e \<Rightarrow> Err e
           | Ok (base, step) \<Rightarrow>
               (case part_bounds base lo hi allowSundaySeven of
                  Err e \<Rightarrow> Err e
                | Ok (start, final) \<Rightarrow> Ok (start, final, step)))"

text \<open>The loop that marks the values adds a positive \<open>int\<close> step, which may wrap around.\<close>

lemma mod_once: "(n::int) \<le> x \<Longrightarrow> x < 2 * n \<Longrightarrow> x mod n = x - n"
  by (metis add_diff_cancel_left' diff_add_cancel diff_ge_0_iff_ge diff_less_eq minus_mod_self2 mod_pos_pos_trivial mult_2)

lemma wrap64_add:
  assumes "0 \<le> v" "v \<le> int64_max" "0 < step" "step \<le> int64_max"
  shows "wrap64 (v + step) = (if v + step \<le> int64_max then v + step else v + step - 2 ^ 64)"
proof (cases "v + step \<le> int64_max")
  case True
  then have "(v + step - int64_min) mod 2 ^ 64 = v + step - int64_min"
    using assms by (intro mod_pos_pos_trivial) (auto simp: int64_min_def int64_max_def)
  then show ?thesis using True by (simp add: wrap64_def)
next
  case False
  then have "(v + step - int64_min) mod 2 ^ 64 = v + step - int64_min - 2 ^ 64"
    using assms by (intro mod_once) (auto simp: int64_min_def int64_max_def)
  then show ?thesis using False by (simp add: wrap64_def)
qed

lemma wrap64_overflow:
  "0 \<le> v \<Longrightarrow> v \<le> int64_max \<Longrightarrow> 0 < step \<Longrightarrow> step \<le> int64_max \<Longrightarrow> int64_max < v + step \<Longrightarrow> wrap64 (v + step) < 0"
  by (simp add: wrap64_add) (simp add: int64_max_def)

function mark_values :: "int \<Rightarrow> int \<Rightarrow> int \<Rightarrow> bool list \<Rightarrow> bool list result" where
  "mark_values v final step xs =
     (if v > final then Ok xs
      else if v < 0 \<or> v \<ge> int (length xs) then Err (Panic (msg ''runtime error: index out of range''))
      else if \<not> (0 < step \<and> step \<le> int64_max \<and> v \<le> int64_max) then Err (Panic (msg ''not a 64-bit step''))
      else mark_values (wrap64 (v + step)) final step (xs[nat v := True]))"
  by pat_completeness auto
termination
proof (relation "measure (\<lambda>(v, final, step, xs). if v < 0 then 0 else nat (final + 1 - v))", goal_cases)
  case (2 v final step xs)
  then show ?case using wrap64_overflow[of v step] by (auto simp: wrap64_add split: if_splits)
qed simp

declare mark_values.simps [simp del]

definition addFieldPart :: "string \<Rightarrow> int \<Rightarrow> int \<Rightarrow> bool \<Rightarrow> bool list \<Rightarrow> bool list result" where
  "addFieldPart raw lo hi allowSundaySeven xs =
     (case part_range raw lo hi allowSundaySeven of
        Err e \<Rightarrow> Err e
      | Ok (start, final, step) \<Rightarrow> mark_values start final step xs)"

fun add_parts :: "string list \<Rightarrow> int \<Rightarrow> int \<Rightarrow> bool \<Rightarrow> bool list \<Rightarrow> bool list result" where
  "add_parts [] lo hi seven xs = Ok xs"
| "add_parts (part # parts) lo hi seven xs =
     (case addFieldPart (trim_space part) lo hi seven xs of
        Err e \<Rightarrow> Err e
      | Ok xs' \<Rightarrow> add_parts parts lo hi seven xs')"

definition parseField :: "string \<Rightarrow> int \<Rightarrow> int \<Rightarrow> bool \<Rightarrow> field result" where
  "parseField raw lo hi allowSundaySeven =
     (let v = trim_space raw in
      if v = [] then Err (PlainError (msg ''field is empty'') None)
      else case add_parts (split_on (CHR '','') v) lo hi allowSundaySeven (replicate (nat (hi + 1)) False) of
             Err e \<Rightarrow> Err e
           | Ok xs \<Rightarrow>
               if \<not> list_ex (\<lambda>idx. xs ! nat idx) [lo..hi] then Err (PlainError (msg ''field has no valid values'') None)
               else Ok \<lparr>field_min = lo, field_max = hi, allowed = xs, wildcard = (v = ''*'')\<rparr>)"

section \<open>Schedules\<close>

text \<open>\<open>strings.Fields\<close>.\<close>

function fields_loop :: "string \<Rightarrow> string \<Rightarrow> string list" where
  "fields_loop current s =
     (case s of
        [] \<Rightarrow> (if current = [] then [] else [current])
      | c # rest \<Rightarrow>
          (case leading_space s of
             Some w \<Rightarrow> (if current = [] then [] else [current]) @ fields_loop [] (drop (length w) s)
           | None \<Rightarrow> fields_loop (current @ [c]) rest))"
  by pat_completeness auto
termination
  by (relation "measure (\<lambda>(current, s). length s)") (auto dest: leading_space_shrinks)

declare fields_loop.simps [simp del]

definition string_fields :: "string \<Rightarrow> string list" where
  "string_fields s = fields_loop [] s"

definition in_field :: "string \<Rightarrow> 'a result \<Rightarrow> 'a result" where
  "in_field name r = (case r of Err (Panic m) \<Rightarrow> Err (Panic m) | Err e \<Rightarrow> Err (PlainError (msg (name @ '': %w'')) (Some e)) | Ok v \<Rightarrow> Ok v)"

definition Parse :: "string \<Rightarrow> Schedule result" where
  "Parse raw =
     (case string_fields (trim_space raw) of
        [p0, p1, p2, p3, p4] \<Rightarrow>
          (case in_field ''minute'' (parseField p0 0 59 False) of
             Err e \<Rightarrow> Err e
           | Ok minute \<Rightarrow>
          (case in_field ''hour'' (parseField p1 0 23 False) of
             Err e \<Rightarrow> Err e
           | Ok hour \<Rightarrow>
          (case in_field ''day-of-month'' (parseField p2 1 31 False) of
             Err e \<Rightarrow> Err e
           | Ok dayOfMonth \<Rightarrow>
          (case in_field ''month'' (parseField p3 1 12 False) of
             Err e \<Rightarrow> Err e
           | Ok month \<Rightarrow>
          (case in_field ''day-of-week'' (parseField p4 0 6 True) of
             Err e \<Rightarrow> Err e
           | Ok dayOfWeek \<Rightarrow>
               Ok \<lparr>sched_minute = minute, sched_hour = hour, sched_dayOfMonth = dayOfMonth,
                   sched_month = month, sched_dayOfWeek = dayOfWeek\<rparr>)))))
      | parts \<Rightarrow> Err (PlainError (''expected 5 cron fields, got %d'', [itoa (int (length parts))]) None))"

text \<open>\<open>Matches\<close> of an instant that is a whole number of minutes \<open>t\<close>; seconds play no part.\<close>

definition Matches :: "Schedule \<Rightarrow> int \<Rightarrow> bool" where
  "Matches s t =
     (if \<not> field_has (sched_minute s) (time_minute t) then False
      else if \<not> field_has (sched_hour s) (time_hour t) then False
      else if \<not> field_has (sched_month s) (time_month t) then False
      else
        let dayOfMonthMatch = field_has (sched_dayOfMonth s) (time_day t);
            dayOfWeekMatch = field_has (sched_dayOfWeek s) (time_weekday t)
        in if wildcard (sched_dayOfMonth s) \<and> wildcard (sched_dayOfWeek s) then True
           else if wildcard (sched_dayOfMonth s) then dayOfWeekMatch
           else if wildcard (sched_dayOfWeek s) then dayOfMonthMatch
           else dayOfMonthMatch \<or> dayOfWeekMatch)"

function next_loop :: "Schedule \<Rightarrow> int \<Rightarrow> int \<Rightarrow> int option" where
  "next_loop s candidate limit =
     (if candidate > limit then None
      else if Matches s candidate then Some candidate
      else next_loop s (candidate + 1) limit)"
  by pat_completeness auto
termination
  by (relation "measure (\<lambda>(s, candidate, limit). nat (limit + 1 - candidate))") auto

declare next_loop.simps [simp del]

text \<open>\<open>Next\<close> of an instant in nanoseconds: the instant of the first match, if one lies within five years.\<close>

definition Next :: "Schedule \<Rightarrow> int \<Rightarrow> int option" where
  "Next s after =
     (let candidate = after div nanos_per_minute + 1
      in map_option (\<lambda>t. t * nanos_per_minute) (next_loop s candidate (add_years candidate 5)))"

section \<open>Sync policy schedule\<close>

definition defaultSyncPolicyRequeueInterval :: int where
  "defaultSyncPolicyRequeueInterval = 5 * nanos_per_minute"

definition shouldRunFullResync :: "string \<Rightarrow> int option \<Rightarrow> int \<Rightarrow> bool result" where
  "shouldRunFullResync cronRaw lastFullResyncTime currentTime =
     (let v = trim_space cronRaw in
      if v = [] then Ok False
      else case Parse v of
             Err e \<Rightarrow> Err e
           | Ok schedule \<Rightarrow>
               (case lastFullResyncTime of
                  None \<Rightarrow> Ok True
                | Some lastTime \<Rightarrow>
                    (case Next schedule lastTime of
                       None \<Rightarrow> Ok False
                     | Some t \<Rightarrow> Ok (\<not> currentTime < t))))"

text \<open>The policy is present; its interval and cron expression are passed.  An expression that does not
  parse leaves the interval, a panic is passed on.\<close>

definition syncPolicyRequeueAfter :: "int option \<Rightarrow> string \<Rightarrow> int \<Rightarrow> int result" where
  "syncPolicyRequeueAfter syncInterval fullResyncCron currentTime =
     (let interval = (case syncInterval of Some d \<Rightarrow> if d > 0 then d else defaultSyncPolicyRequeueInterval
                      | None \<Rightarrow> defaultSyncPolicyRequeueInterval);
          cronRaw = trim_space fullResyncCron
      in if cronRaw = [] then Ok interval
         else case Parse cronRaw of
                Err (Panic m) \<Rightarrow> Err (Panic m)
              | Err e \<Rightarrow> Ok interval
              | Ok schedule \<Rightarrow>
                  (case Next schedule currentTime of
                     None \<Rightarrow> Ok interval
                   | Some t \<Rightarrow>
                       (let cronInterval = (if t - currentTime \<le> 0 then 1000000000 else t - currentTime)
                        in Ok (if cronInterval < interval then cronInterval else interval))))"

section \<open>What a field allows\<close>

lemma mark_values_allows:
  "mark_values v final step xs = Ok ys \<Longrightarrow> 0 \<le> v \<Longrightarrow>
   length ys = length xs \<and> (\<forall>i<length xs. ys ! i \<longleftrightarrow> xs ! i \<or> (v \<le> int i \<and> int i \<le> final \<and> step dvd (int i - v)))"
proof (induction v final step xs rule: mark_values.induct)
  case (1 v final step xs)
  show ?case
  proof (cases "v > final")
    case True
    then show ?thesis using 1(2) by (subst (asm) mark_values.simps) auto
  next
    case False
    then have r: "mark_values (wrap64 (v + step)) final step (xs[nat v := True]) = Ok ys"
      and c: "\<not> (v < 0 \<or> int (length xs) \<le> v)" "0 < step" "step \<le> int64_max" "v \<le> int64_max"
      using 1(2) by (subst (asm) mark_values.simps, auto split: if_splits)+
    have "0 \<le> wrap64 (v + step)"
    proof (rule ccontr)
      assume n: "\<not> 0 \<le> wrap64 (v + step)"
      then have "mark_values (wrap64 (v + step)) final step (xs[nat v := True]) = Err (Panic (msg ''runtime error: index out of range''))"
        using False 1(3) by (subst mark_values.simps) simp
      then show False using r by simp
    qed
    then have w: "wrap64 (v + step) = v + step"
      using wrap64_add[of v step] wrap64_overflow[of v step] c 1(3) by (auto split: if_splits)
    have ih: "length ys = length xs" "\<forall>i<length xs. ys ! i \<longleftrightarrow> xs[nat v := True] ! i \<or> (v + step \<le> int i \<and> int i \<le> final \<and> step dvd (int i - (v + step)))"
      using 1(1)[OF False c(1) _ r] c 1(3) w by simp_all
    have "(v + step \<le> int i \<and> step dvd (int i - (v + step))) \<or> int i = v \<longleftrightarrow> v \<le> int i \<and> step dvd (int i - v)" for i
    proof
      assume "v + step \<le> int i \<and> step dvd (int i - (v + step)) \<or> int i = v"
      moreover have "step dvd (int i - (v + step)) \<longleftrightarrow> step dvd (int i - v)"
        by (metis diff_diff_eq dvd_diff_commute dvd_diff_right_iff dvd_refl)
      ultimately show "v \<le> int i \<and> step dvd (int i - v)" using c(2) by auto
    next
      assume a: "v \<le> int i \<and> step dvd (int i - v)"
      then obtain k where k: "int i - v = step * k" by (auto elim: dvdE)
      show "v + step \<le> int i \<and> step dvd (int i - (v + step)) \<or> int i = v"
      proof (cases "k \<le> 0")
        case True
        then have "step * k \<le> 0" using c(2) by (simp add: mult_nonneg_nonpos)
        then show ?thesis using a k by simp
      next
        case False
        then have "step * 1 \<le> step * k" using c(2) by (intro mult_left_mono) auto
        then have "v + step \<le> int i" unfolding k[symmetric] by simp
        moreover have "int i - (v + step) = step * (k - 1)" using k by (simp add: algebra_simps)
        then have "step dvd (int i - (v + step))" by (rule dvdI)
        ultimately show ?thesis by blast
      qed
    qed
    note eq = this
    have "ys ! i \<longleftrightarrow> xs ! i \<or> (v \<le> int i \<and> int i \<le> final \<and> step dvd (int i - v))" if i: "i < length xs" for i
    proof -
      have "nat v = i \<longleftrightarrow> int i = v" using 1(3) by auto
      then have "xs[nat v := True] ! i \<longleftrightarrow> int i = v \<or> xs ! i" using i by (cases "nat v = i") simp_all
      moreover have "int i = v \<Longrightarrow> int i \<le> final" using False by simp
      ultimately show ?thesis using ih(2)[rule_format, OF i] eq[of i] by blast
    qed
    then show ?thesis using ih(1) by blast
  qed
qed

lemma parseFieldValue_bounds: "parseFieldValue raw lo hi seven = Ok v \<Longrightarrow> lo \<le> v \<and> v \<le> hi"
  by (auto simp: parseFieldValue_def Let_def split: option.splits if_splits)

lemma part_step_bounds: "part_step raw = Ok (base, step) \<Longrightarrow> 0 < step \<and> step \<le> int64_max"
  by (auto simp: part_step_def atoi_def in_int64_def int64_max_def Let_def split: if_splits list.splits option.splits)

lemma part_bounds_bounds: "part_bounds base lo hi seven = Ok (s, e) \<Longrightarrow> lo \<le> hi \<Longrightarrow> lo \<le> s \<and> s \<le> e \<and> e \<le> hi"
  by (auto simp: part_bounds_def Let_def dest!: parseFieldValue_bounds split: if_splits list.splits result.splits)

lemma part_range_bounds:
  "part_range raw lo hi seven = Ok (s, e, step) \<Longrightarrow> lo \<le> hi \<Longrightarrow> lo \<le> s \<and> s \<le> e \<and> e \<le> hi \<and> 0 < step \<and> step \<le> int64_max"
  by (auto simp: part_range_def dest!: part_step_bounds part_bounds_bounds split: if_splits result.splits)

text \<open>The values that a list item of a field stands for.\<close>

definition part_allows :: "string \<Rightarrow> int \<Rightarrow> int \<Rightarrow> bool \<Rightarrow> int \<Rightarrow> bool" where
  "part_allows part lo hi seven v =
     (case part_range part lo hi seven of
        Ok (start, final, step) \<Rightarrow> start \<le> v \<and> v \<le> final \<and> step dvd (v - start)
      | Err e \<Rightarrow> False)"

lemma add_parts_allows:
  assumes "add_parts parts lo hi seven xs = Ok ys" "0 \<le> lo" "lo \<le> hi"
  shows "length ys = length xs \<and>
    (\<forall>i<length xs. ys ! i \<longleftrightarrow> xs ! i \<or> (\<exists>part\<in>set parts. part_allows (trim_space part) lo hi seven (int i)))"
  using assms(1)
proof (induction parts arbitrary: xs)
  case (Cons part parts)
  obtain s e step xs' where r: "part_range (trim_space part) lo hi seven = Ok (s, e, step)"
    and m: "mark_values s e step xs = Ok xs'" and a: "add_parts parts lo hi seven xs' = Ok ys"
    using Cons.prems by (auto simp: addFieldPart_def split: result.splits)
  have "0 \<le> s" using part_range_bounds[OF r assms(3)] assms(2) by simp
  then have "length xs' = length xs" "\<forall>i<length xs. xs' ! i \<longleftrightarrow> xs ! i \<or> part_allows (trim_space part) lo hi seven (int i)"
    using mark_values_allows[OF m] r by (simp_all add: part_allows_def)
  then show ?case using Cons.IH[OF a] by auto
qed simp

section \<open>The next match\<close>

lemma next_loop_spec:
  "case next_loop s candidate limit of
     Some m \<Rightarrow> candidate \<le> m \<and> m \<le> limit \<and> Matches s m \<and> (\<forall>k. candidate \<le> k \<and> k < m \<longrightarrow> \<not> Matches s k)
   | None \<Rightarrow> \<forall>k. candidate \<le> k \<and> k \<le> limit \<longrightarrow> \<not> Matches s k"
proof (induction s candidate limit rule: next_loop.induct)
  case (1 s candidate limit)
  show ?case
  proof (cases "candidate > limit \<or> Matches s candidate")
    case True
    then show ?thesis by (subst next_loop.simps) auto
  next
    case False
    have step: "candidate \<le> k \<longleftrightarrow> k = candidate \<or> candidate + 1 \<le> k" for k by auto
    show ?thesis
      using 1 False by (subst next_loop.simps) (auto simp: step split: option.splits)
  qed
qed

section \<open>Properties\<close>

text \<open>A parsed cron field allows exactly the values of its list items: a value is allowed when some item
  denotes a range from \<open>start\<close> to \<open>final\<close> and the value is reached from \<open>start\<close> in whole steps.  Values
  outside the bounds of the field are never allowed.\<close>

theorem parseField_allows:
  assumes "parseField raw lo hi seven = Ok f" and "0 \<le> lo" and "lo \<le> hi"
  shows "field_has f v \<longleftrightarrow> lo \<le> v \<and> v \<le> hi \<and>
           (\<exists>part\<in>set (split_on (CHR '','') (trim_space raw)). part_allows (trim_space part) lo hi seven v)"
proof -
  obtain xs where a: "add_parts (split_on (CHR '','') (trim_space raw)) lo hi seven (replicate (nat (hi + 1)) False) = Ok xs"
    and f: "f = \<lparr>field_min = lo, field_max = hi, allowed = xs, wildcard = (trim_space raw = ''*'')\<rparr>"
    using assms(1) by (auto simp: parseField_def Let_def split: if_splits result.splits)
  have "xs ! nat v \<longleftrightarrow> (\<exists>part\<in>set (split_on (CHR '','') (trim_space raw)). part_allows (trim_space part) lo hi seven v)"
    if "lo \<le> v" "v \<le> hi"
  proof -
    have "nat v < nat (hi + 1)" "int (nat v) = v" using that assms(2) by auto
    then show ?thesis using add_parts_allows[OF a assms(2,3)] by auto
  qed
  then show ?thesis using f by (auto simp: field_has_def)
qed

theorem parseField_allows_witness:
  "(\<exists>f. parseField ''10-20/5,3'' 0 59 False = Ok f \<and> field_has f 15 \<and> field_has f 3 \<and> \<not> field_has f 12)"
proof -
  obtain f where f: "parseField ''10-20/5,3'' 0 59 False = Ok f"
  proof -
    have "is_ok (parseField ''10-20/5,3'' 0 59 False)" by code_simp
    then show ?thesis using that by (auto simp: is_ok_iff)
  qed
  have "\<exists>part\<in>set (split_on (CHR '','') (trim_space ''10-20/5,3'')). part_allows (trim_space part) 0 59 False 15"
    "\<exists>part\<in>set (split_on (CHR '','') (trim_space ''10-20/5,3'')). part_allows (trim_space part) 0 59 False 3"
    "\<not> (\<exists>part\<in>set (split_on (CHR '','') (trim_space ''10-20/5,3'')). part_allows (trim_space part) 0 59 False 12)" by code_simp+
  then show ?thesis
    using parseField_allows[OF f, of 15] parseField_allows[OF f, of 3] parseField_allows[OF f, of 12] f by simp
qed

text \<open>C28: \<open>Next\<close> terminates and returns the first matching minute strictly after the instant; it returns none only
  when no minute of the following five years matches.\<close>

theorem Next_first_match:
  "case Next s after of
     Some t \<Rightarrow> after < t \<and> (\<exists>m. t = m * nanos_per_minute \<and> Matches s m
        \<and> (\<forall>k. after < k * nanos_per_minute \<and> k < m \<longrightarrow> \<not> Matches s k))
   | None \<Rightarrow> \<forall>k. after < k * nanos_per_minute \<and> k \<le> add_years (after div nanos_per_minute + 1) 5 \<longrightarrow> \<not> Matches s k"
proof -
  let ?c = "after div nanos_per_minute + 1"
  have minute: "after < k * nanos_per_minute \<longleftrightarrow> ?c \<le> k" for k
    by (simp add: nanos_per_minute_def) linarith
  show ?thesis
  proof (cases "next_loop s ?c (add_years ?c 5)")
    case None
    then show ?thesis using next_loop_spec[where s = s and candidate = ?c and limit = "add_years ?c 5"] by (auto simp: Next_def Let_def minute)
  next
    case (Some m)
    have "after < m * nanos_per_minute" using next_loop_spec[where s = s and candidate = ?c and limit = "add_years ?c 5"] Some by (simp add: minute)
    then show ?thesis
      using next_loop_spec[where s = s and candidate = ?c and limit = "add_years ?c 5"] Some
      by (auto simp: Next_def Let_def minute intro!: exI[of _ m])
  qed
qed

theorem Next_first_match_witness:
  "\<exists>s. Parse ''*/15 * * * *'' = Ok s \<and> Next s 0 = Some (15 * nanos_per_minute) \<and> \<not> Matches s 7"
proof -
  have "(case Parse ''*/15 * * * *'' of Ok s \<Rightarrow> Next s 0 | Err e \<Rightarrow> None) = Some (15 * nanos_per_minute)" by code_simp
  then obtain s where s: "Parse ''*/15 * * * *'' = Ok s" "Next s 0 = Some (15 * nanos_per_minute)"
    by (auto split: result.splits)
  moreover have "\<not> Matches s 7"
    using Next_first_match[where s = s and after = 0] s(2) by (auto simp: nanos_per_minute_def)
  ultimately show ?thesis by blast
qed

text \<open>A step close to the largest \<open>int\<close> makes \<open>Parse\<close> panic: the loop over the values of the item adds the
  step once more, the sum wraps around to a negative number, which is below the end of the range, and the
  table is indexed with it.\<close>

theorem Parse_large_step_panics:
  "Parse ''0 0 1/9223372036854775807 * *'' = Err (Panic (msg ''runtime error: index out of range''))"
  by code_simp

end
