(* ===== verification/Sync_Policy.thy ===== *)
theory Sync_Policy
  imports Operator_Secrets Conflict_Index Cron
begin

text \<open>
  Sync policies and the parts of their controller that apply and prune
  (src/api/v1alpha1/syncpolicy_types.go, \<open>ListLocalTargets\<close> of
  src/internal/app/resource/mutate/service.go, and the methods \<open>applyChanges\<close>, \<open>pruneChanges\<close> and
  below of src/internal/operator/controllers/syncpolicy_controller.go).

  The orchestrator is an interface value and so a record of functions on a state of any type, the
  managed service and the working copy behind it.  \<open>Apply\<close> also returns the checks at which it asked
  the conflict callback.  Events, metrics and log lines are not modelled.  Counters are \<open>int32\<close> and wrap.
  \<open>sort.Slice\<close> is modelled by a stable sort.

  The lemmas frame both: what holds of the state is kept by a run if it is kept by applying local resources that no
  generated resource owns, or by deleting remote resources that are not local and that none owns.
\<close>

section \<open>Policies\<close>

record SyncPolicyResourceStats =
  Targeted :: int
  Applied :: int
  Pruned :: int
  Failed :: int

text \<open>Metadata, specification and status of a policy beside the fields that plans read.\<close>

record SyncPolicyObject = SyncPolicy +
  Namespace :: string
  Name :: string
  Finalizers :: "string list"
  Deleting :: bool
  ResourceRepositoryRef :: string
  ManagedServiceRef :: string
  SecretStoreRef :: string
  Prune :: bool
  Force :: bool
  SyncInterval :: "int option"
  FullResyncCron :: string
  Suspend :: bool
  LastAttemptTime :: "int option"
  LastSuccessfulSyncTime :: "int option"
  LastFullResyncTime :: "int option"
  LastAttemptedRepoRevision :: string
  LastSyncMode :: string
  LastSecretResourceVersionHash :: string
  ResourceStats :: SyncPolicyResourceStats
  Conditions :: "Condition list"

definition defaultSyncInterval :: int where
  "defaultSyncInterval = 5 * nanos_per_minute"

definition SyncPolicy_Default :: "SyncPolicyObject \<Rightarrow> SyncPolicyObject" where
  "SyncPolicy_Default s =
     s\<lparr>Source_Recursive := (case Source_Recursive s of None \<Rightarrow> Some True | Some r \<Rightarrow> Some r),
       SyncInterval := (case SyncInterval s of None \<Rightarrow> Some defaultSyncInterval | Some d \<Rightarrow> Some d)\<rparr>"

text \<open>\<open>ValidateSpec\<close> also normalises the source path; a panic of the cron parser is passed on.\<close>

definition check_cron :: "string \<Rightarrow> go_error option" where
  "check_cron cron =
     (if trim_space cron \<noteq> []
      then (case Parse cron of
              Err (Panic m) \<Rightarrow> Some (Panic m)
            | Err e \<Rightarrow> Some (PlainError (msg ''spec.fullResyncCron is invalid: %w'') (Some e))
            | Ok schedule \<Rightarrow> None)
      else None)"

definition ValidateSpec :: "SyncPolicyObject \<Rightarrow> SyncPolicyObject result" where
  "ValidateSpec s =
     (if trim_space (ResourceRepositoryRef s) = []
      then Err (PlainError (msg ''spec.resourceRepositoryRef.name is required'') None)
      else if trim_space (ManagedServiceRef s) = []
      then Err (PlainError (msg ''spec.managedServiceRef.name is required'') None)
      else if trim_space (SecretStoreRef s) = []
      then Err (PlainError (msg ''spec.secretStoreRef.name is required'') None)
      else case check_cron (FullResyncCron s) of
        Some e \<Rightarrow> Err e
      | None \<Rightarrow>
          (case normalizePath (Source_Path s) of
             Err e \<Rightarrow> Err (PlainError (msg ''spec.source.path is invalid: %w'') (Some e))
           | Ok normalizedPath \<Rightarrow>
               Ok (s\<lparr>Source_Path := normalizedPath,
                     Source_Recursive := (case Source_Recursive s of None \<Rightarrow> Some True | Some r \<Rightarrow> Some r)\<rparr>)))"

definition expandRuntimeSyncPolicy :: "(string \<Rightarrow> string) \<Rightarrow> SyncPolicyObject \<Rightarrow> SyncPolicyObject" where
  "expandRuntimeSyncPolicy getenv s =
     s\<lparr>ResourceRepositoryRef := expand_string getenv (ResourceRepositoryRef s),
       ManagedServiceRef := expand_string getenv (ManagedServiceRef s),
       SecretStoreRef := expand_string getenv (SecretStoreRef s),
       Source_Path := expand_string getenv (Source_Path s),
       FullResyncCron := expand_string getenv (FullResyncCron s)\<rparr>"

definition recursive_source :: "'a SyncPolicy_scheme \<Rightarrow> bool" where
  "recursive_source s = (case Source_Recursive s of None \<Rightarrow> True | Some r \<Rightarrow> r)"

section \<open>The orchestrator\<close>

record resource_item =
  item_LogicalPath :: string
  item_CollectionPath :: string
  item_RemoteID :: string

record ConflictCheck =
  check_LogicalPath :: string
  check_CollectionPath :: string
  check_RemoteID :: string

record 's Orchestrator =
  ListLocal :: "'s \<Rightarrow> string \<Rightarrow> bool \<Rightarrow> resource_item list result"
  GetLocal :: "'s \<Rightarrow> string \<Rightarrow> unit result"
  ListRemote :: "'s \<Rightarrow> string \<Rightarrow> bool \<Rightarrow> resource_item list result"
  Apply :: "string \<Rightarrow> bool \<Rightarrow> (ConflictCheck \<Rightarrow> bool) \<Rightarrow> 's \<Rightarrow> ConflictCheck list \<times> unit result \<times> 's"
  orch_Delete :: "string \<Rightarrow> 's \<Rightarrow> unit result \<times> 's"

definition logicalPathDepth :: "string \<Rightarrow> nat" where
  "logicalPathDepth logicalPath =
     (let trimmed = trim_char (trim_space logicalPath) (CHR ''/'') in
      if trimmed = [] then 0 else length (split_on (CHR ''/'') trimmed))"

definition no_local_resources :: "string \<Rightarrow> go_error" where
  "no_local_resources logicalPath = TypedError NotFoundError (''no local resources found under %q'', [logicalPath]) None"

text \<open>The item that stands for a path whose resource is not listed but can be read.\<close>

definition path_item :: "string \<Rightarrow> resource_item" where
  "path_item logicalPath = \<lparr>item_LogicalPath = logicalPath, item_CollectionPath = [], item_RemoteID = []\<rparr>"

definition single_target :: "'s Orchestrator \<Rightarrow> 's \<Rightarrow> string \<Rightarrow> resource_item list result" where
  "single_target orch s logicalPath =
     (case GetLocal orch s logicalPath of
        Ok u \<Rightarrow> Ok [path_item logicalPath]
      | Err e \<Rightarrow> if \<not> IsCategory (Some e) NotFoundError then Err e else Ok [])"

definition ListLocalTargets :: "'s Orchestrator \<Rightarrow> 's \<Rightarrow> string \<Rightarrow> bool \<Rightarrow> resource_item list result" where
  "ListLocalTargets orch s logicalPath recursive =
     (case ListLocal orch s logicalPath recursive of
        Err e \<Rightarrow> Err e
      | Ok listed \<Rightarrow>
          (case (if listed = [] \<and> \<not> recursive \<and> logicalPathDepth logicalPath > 1
                 then single_target orch s logicalPath else Ok listed) of
             Err e \<Rightarrow> Err e
           | Ok items \<Rightarrow>
               if items = [] then Err (no_local_resources logicalPath)
               else Ok (sort_key item_LogicalPath items)))"

section \<open>Conflicts with generated resources\<close>

definition lookupConflict ::
  "ConflictIndex option \<Rightarrow> SyncPolicyObject \<Rightarrow> string \<Rightarrow> string \<Rightarrow> string \<Rightarrow> (ConflictSource \<times> ConflictTier) option" where
  "lookupConflict conflicts policy collectionPath logicalPath remoteID =
     (case conflicts of
        None \<Rightarrow> None
      | Some index \<Rightarrow>
          (let byName = (if trim_space logicalPath \<noteq> []
                 then Lookup index (Namespace policy) (ManagedServiceRef policy) collectionPath logicalPath ConflictTierName
                 else None);
               byID = (if trim_space remoteID \<noteq> []
                 then Lookup index (Namespace policy) (ManagedServiceRef policy) collectionPath remoteID ConflictTierRemoteID
                 else None)
           in case byName of
                Some source \<Rightarrow> Some (source, ConflictTierName)
              | None \<Rightarrow> map_option (\<lambda>source. (source, ConflictTierRemoteID)) byID))"

text \<open>\<open>skipApplyOnConflict\<close> and \<open>skipPruneOnConflict\<close> differ in the event they record only.\<close>

definition skipOnConflict :: "ConflictIndex option \<Rightarrow> SyncPolicyObject \<Rightarrow> string \<Rightarrow> string \<Rightarrow> string \<Rightarrow> bool" where
  "skipOnConflict conflicts policy collectionPath logicalPath remoteID =
     (lookupConflict conflicts policy collectionPath logicalPath remoteID \<noteq> None)"

definition skip_check :: "ConflictIndex option \<Rightarrow> SyncPolicyObject \<Rightarrow> ConflictCheck \<Rightarrow> bool" where
  "skip_check conflicts policy check =
     skipOnConflict conflicts policy (check_CollectionPath check) (check_LogicalPath check) (check_RemoteID check)"

section \<open>Applying\<close>

definition wrap32 :: "int \<Rightarrow> int" where
  "wrap32 n = (n + 2147483648) mod 4294967296 - 2147483648"

record apply_count =
  targetedCount :: int
  appliedCount :: int
  conflicting :: bool

fun apply_resources ::
  "'s Orchestrator \<Rightarrow> ConflictIndex option \<Rightarrow> SyncPolicyObject \<Rightarrow> resource_item list \<Rightarrow> apply_count \<Rightarrow> 's \<Rightarrow> apply_count result \<times> 's" where
  "apply_resources orch conflicts policy [] n s = (Ok n, s)"
| "apply_resources orch conflicts policy (item # items) n s =
     (if skipOnConflict conflicts policy (item_CollectionPath item) (item_LogicalPath item) []
      then apply_resources orch conflicts policy items (n\<lparr>conflicting := True\<rparr>) s
      else case Apply orch (item_LogicalPath item) (Force policy) (skip_check conflicts policy) s of
             (checks, Err e, s') \<Rightarrow> (Err e, s')
           | (checks, Ok u, s') \<Rightarrow>
               if list_ex (skip_check conflicts policy) checks
               then apply_resources orch conflicts policy items (n\<lparr>conflicting := True\<rparr>) s'
               else apply_resources orch conflicts policy items (n\<lparr>appliedCount := wrap32 (appliedCount n + 1)\<rparr>) s')"

fun apply_targets ::
  "'s Orchestrator \<Rightarrow> ConflictIndex option \<Rightarrow> SyncPolicyObject \<Rightarrow> syncApplyTarget list \<Rightarrow> apply_count \<Rightarrow> 's \<Rightarrow> apply_count result \<times> 's" where
  "apply_targets orch conflicts policy [] n s = (Ok n, s)"
| "apply_targets orch conflicts policy (target # targets) n s =
     (case ListLocalTargets orch s (target_Path target) (target_Recursive target) of
        Err e \<Rightarrow> (Err e, s)
      | Ok items \<Rightarrow>
          (case apply_resources orch conflicts policy items
                  (n\<lparr>targetedCount := wrap32 (targetedCount n + wrap32 (int (length items)))\<rparr>) s of
             (Err e, s') \<Rightarrow> (Err e, s')
           | (Ok n', s') \<Rightarrow> apply_targets orch conflicts policy targets n' s'))"

definition applyChanges ::
  "'s Orchestrator \<Rightarrow> ConflictIndex option \<Rightarrow> SyncPolicyObject \<Rightarrow> syncExecutionPlan \<Rightarrow> 's \<Rightarrow> apply_count result \<times> 's" where
  "applyChanges orch conflicts policy plan s =
     apply_targets orch conflicts policy (ApplyTargets plan) \<lparr>targetedCount = 0, appliedCount = 0, conflicting = False\<rparr> s"

section \<open>Pruning\<close>

definition collectionPathForSyncPath :: "string \<Rightarrow> string" where
  "collectionPathForSyncPath logicalPath =
     (let value = trim_space logicalPath in
      if value = [] \<or> value = ''/'' then ''/''
      else let parent = path_dir (with_root value)
           in if parent = ''.'' \<or> parent = [] then ''/'' else parent)"

text \<open>The loop of \<open>deletePruneCandidates\<close>: the number of deleted resources and the errors.\<close>

fun delete_candidates ::
  "'s Orchestrator \<Rightarrow> ConflictIndex option \<Rightarrow> SyncPolicyObject \<Rightarrow> resource_item list \<Rightarrow> int \<Rightarrow> go_error list \<Rightarrow> 's
    \<Rightarrow> (int \<times> go_error list) \<times> 's" where
  "delete_candidates orch conflicts policy [] deleted errs s = ((deleted, errs), s)"
| "delete_candidates orch conflicts policy (c # candidates) deleted errs s =
     (if skipOnConflict conflicts policy (item_CollectionPath c) (item_LogicalPath c) (item_RemoteID c)
      then delete_candidates orch conflicts policy candidates deleted errs s
      else case orch_Delete orch (item_LogicalPath c) s of
             (Ok u, s') \<Rightarrow> delete_candidates orch conflicts policy candidates (deleted + 1) errs s'
           | (Err e, s') \<Rightarrow>
               if IsCategory (Some e) NotFoundError
               then delete_candidates orch conflicts policy candidates deleted errs s'
               else delete_candidates orch conflicts policy candidates deleted
                      (errs @ [PlainError (''prune %q: %w'', [item_LogicalPath c]) (Some e)]) s')"

definition deletePruneCandidates ::
  "(go_error \<Rightarrow> string) \<Rightarrow> 's Orchestrator \<Rightarrow> ConflictIndex option \<Rightarrow> SyncPolicyObject \<Rightarrow> resource_item list \<Rightarrow> 's \<Rightarrow> int result \<times> 's" where
  "deletePruneCandidates error_text orch conflicts policy candidates s =
     (case delete_candidates orch conflicts policy candidates 0 [] s of
        ((deleted, errs), s') \<Rightarrow>
          if errs \<noteq> []
          then (Err (PlainError (''prune completed with %d errors (deleted=%d): %s'',
                  [itoa (int (length errs)), itoa deleted, join_with ''; '' (map error_text errs)]) None), s')
          else (Ok deleted, s'))"

definition pruneRemovedPaths ::
  "(go_error \<Rightarrow> string) \<Rightarrow> 's Orchestrator \<Rightarrow> ConflictIndex option \<Rightarrow> SyncPolicyObject \<Rightarrow> string list \<Rightarrow> 's \<Rightarrow> int result \<times> 's" where
  "pruneRemovedPaths error_text orch conflicts policy logicalPaths s =
     (let paths = stringSet logicalPaths in
      if paths = [] then (Ok 0, s)
      else deletePruneCandidates error_text orch conflicts policy
             (map (\<lambda>p. \<lparr>item_LogicalPath = p, item_CollectionPath = collectionPathForSyncPath p, item_RemoteID = []\<rparr>) paths) s)"

definition prune_candidates :: "resource_item list \<Rightarrow> resource_item list \<Rightarrow> resource_item list" where
  "prune_candidates localResources remoteResources =
     sort_key item_LogicalPath
       (filter (\<lambda>r. item_LogicalPath r \<notin> set (map item_LogicalPath localResources)) remoteResources)"

definition pruneRemote ::
  "(go_error \<Rightarrow> string) \<Rightarrow> 's Orchestrator \<Rightarrow> ConflictIndex option \<Rightarrow> SyncPolicyObject \<Rightarrow> string \<Rightarrow> bool \<Rightarrow> 's \<Rightarrow> int result \<times> 's" where
  "pruneRemote error_text orch conflicts policy logicalPath recursive s =
     (case ListLocal orch s logicalPath recursive of
        Err e \<Rightarrow> (Err (PlainError (msg ''list local resources for prune: %w'') (Some e)), s)
      | Ok localResources \<Rightarrow>
          (case ListRemote orch s logicalPath recursive of
             Err e \<Rightarrow> (Err (PlainError (msg ''list remote resources for prune: %w'') (Some e)), s)
           | Ok remoteResources \<Rightarrow>
               deletePruneCandidates error_text orch conflicts policy (prune_candidates localResources remoteResources) s))"

definition pruneChanges ::
  "(go_error \<Rightarrow> string) \<Rightarrow> 's Orchestrator \<Rightarrow> ConflictIndex option \<Rightarrow> SyncPolicyObject \<Rightarrow> syncExecutionPlan \<Rightarrow> 's \<Rightarrow> int result \<times> 's" where
  "pruneChanges error_text orch conflicts policy plan s =
     (if \<not> Prune policy then (Ok 0, s)
      else case (if Mode plan = SyncModeIncremental
                 then pruneRemovedPaths error_text orch conflicts policy (PruneTargets plan) s
                 else pruneRemote error_text orch conflicts policy (Source_Path policy) (recursive_source policy) s) of
             (Err e, s') \<Rightarrow> (Err e, s')
           | (Ok deleted, s') \<Rightarrow> (Ok (wrap32 deleted), s'))"

section \<open>What a run touches\<close>

lemma ListLocalTargets_Ok:
  "ListLocalTargets orch s path recursive = Ok items \<Longrightarrow> items \<noteq> [] \<and> sorted (map item_LogicalPath items)"
  by (auto simp: ListLocalTargets_def split: result.splits if_splits dest: arg_cong[where f = set])

lemma apply_resources_frame:
  assumes "\<And>item s. item \<in> set items \<Longrightarrow> \<not> skipOnConflict conflicts policy (item_CollectionPath item) (item_LogicalPath item) []
      \<Longrightarrow> I s \<Longrightarrow> I (snd (snd (Apply orch (item_LogicalPath item) (Force policy) (skip_check conflicts policy) s)))"
    and "I s"
  shows "I (snd (apply_resources orch conflicts policy items n s))"
  using assms
proof (induction items arbitrary: n s)
  case (Cons item items)
  obtain checks r s' where a: "Apply orch (item_LogicalPath item) (Force policy) (skip_check conflicts policy) s = (checks, r, s')"
    by (metis prod_cases3)
  show ?case
  proof (cases "skipOnConflict conflicts policy (item_CollectionPath item) (item_LogicalPath item) []")
    case True
    then show ?thesis using Cons by simp
  next
    case False
    then have "I s'" using Cons.prems(1)[of item s] Cons.prems(2) a by simp
    then show ?thesis using Cons.IH[of s'] Cons.prems(1) False a by (cases r) simp_all
  qed
qed simp

lemma delete_candidates_frame:
  assumes "\<And>c s. c \<in> set candidates \<Longrightarrow> \<not> skipOnConflict conflicts policy (item_CollectionPath c) (item_LogicalPath c) (item_RemoteID c)
      \<Longrightarrow> I s \<Longrightarrow> I (snd (orch_Delete orch (item_LogicalPath c) s))"
    and "I s"
  shows "I (snd (delete_candidates orch conflicts policy candidates deleted errs s))"
  using assms
proof (induction candidates arbitrary: deleted errs s)
  case (Cons c candidates)
  obtain r s' where d: "orch_Delete orch (item_LogicalPath c) s = (r, s')" by fastforce
  show ?case
  proof (cases "skipOnConflict conflicts policy (item_CollectionPath c) (item_LogicalPath c) (item_RemoteID c)")
    case True
    then show ?thesis using Cons by simp
  next
    case False
    then have "I s'" using Cons.prems(1)[of c s] Cons.prems(2) d by simp
    then show ?thesis using Cons.IH[of s'] Cons.prems(1) False d by (cases r) simp_all
  qed
qed simp

lemma deletePruneCandidates_state:
  "snd (deletePruneCandidates error_text orch conflicts policy candidates s)
     = snd (delete_candidates orch conflicts policy candidates 0 [] s)"
  by (auto simp: deletePruneCandidates_def split: prod.split)

lemma pruneRemote_frame:
  assumes "ListLocal orch s path recursive = Ok localResources" "ListRemote orch s path recursive = Ok remoteResources"
    and "\<And>c s. c \<in> set remoteResources \<Longrightarrow> item_LogicalPath c \<notin> item_LogicalPath ` set localResources
      \<Longrightarrow> \<not> skipOnConflict conflicts policy (item_CollectionPath c) (item_LogicalPath c) (item_RemoteID c)
      \<Longrightarrow> I s \<Longrightarrow> I (snd (orch_Delete orch (item_LogicalPath c) s))"
    and "I s"
  shows "I (snd (pruneRemote error_text orch conflicts policy path recursive s))"
  using assms(1,2) delete_candidates_frame[of "prune_candidates localResources remoteResources" conflicts policy I orch s] assms(3,4)
  by (simp add: pruneRemote_def deletePruneCandidates_state prune_candidates_def)

end
