(* ===== verification/Sync_Reconcile.thy ===== *)
theory Sync_Reconcile
  imports Sync_Policy
begin

text \<open>
  The reconciliation of a sync policy (\<open>Reconcile\<close> to \<open>updateSuccessStatus\<close>, \<open>validateNoOverlap\<close>,
  \<open>setNotReady\<close> and \<open>failWithStatus\<close> of src/internal/operator/controllers/syncpolicy_controller.go,
  with \<open>setStatusCondition\<close> and \<open>returnAfterSetNotReady\<close> of util.go).

  The world holds the policy in the API server, the state behind the orchestrator and the cache of
  secret references.  The environment holds what the controller asks of the cluster and the libraries:
  the clock, the outcome of each API call and the versions of the secrets may differ at each place of the
  code that asks, which a \<open>call_site\<close> names; each place is passed at most once in a reconciliation.  The
  loaders of the three dependencies, \<open>buildRuntimeContext\<close> and the construction of the session are given by
  their results.  \<open>now()\<close> is truncated to seconds, as the API server stores it.

  A successful status update writes the status and refreshes the policy in memory with the object that
  the server returns, as the client documents; optional fields that the server omits keep their value.

  A reconciliation returns \<open>Ok d\<close> for a result that requeues after \<open>d\<close> (0: not at all), or an error or panic.

  The theorems show that the managed service is touched only under the guards of the code, that a
  revision is recorded as applied only after it was applied and pruned without error, and three cases
  in which the controller does not do what its specification asks.
\<close>

section \<open>World and environment\<close>

datatype call_site = AtAddFinalizer | AtDeletion | AtSuspend | AtCheck | AtAttempt | AtPlan | AtSuccess | AtRequeue | AtFailure

record 's sync_env =
  getenv :: "string \<Rightarrow> string"
  clock :: "call_site \<Rightarrow> int"
  get_fault :: "go_error option"
  update_fault :: "call_site \<Rightarrow> go_error option"
  policy_list :: "SyncPolicyObject list result"
  load_repository :: "string \<Rightarrow> ResourceRepository result"
  load_service :: "string \<Rightarrow> ManagedService result"
  load_secret_store :: "string \<Rightarrow> SecretStore result"
  secret_version :: "call_site \<Rightarrow> string \<Rightarrow> string result"
  sha256_hex :: "string \<Rightarrow> string"
  error_text :: "go_error \<Rightarrow> string"
  runtime_context :: "unit result"
  new_session :: "'s Orchestrator result"
  lower_table :: "string \<Rightarrow> string"
  repository_diff :: "string \<Rightarrow> string \<Rightarrow> file_change list result"
  conflict_index :: "ConflictIndex option"

record 's world =
  stored :: "SyncPolicyObject option"
  service :: 's
  secret_refs :: secretRefCache

definition now :: "'s sync_env \<Rightarrow> call_site \<Rightarrow> int" where
  "now env site = clock env site div 1000000000 * 1000000000"

definition finalizerName :: string where
  "finalizerName = ''declarest.io/cleanup''"

definition setStatusCondition :: "Condition list \<Rightarrow> string \<Rightarrow> ConditionStatus \<Rightarrow> string \<Rightarrow> string \<Rightarrow> int \<Rightarrow> Condition list" where
  "setStatusCondition conditions conditionType status reason message time =
     SetCondition conditions \<lparr>cond_Type = conditionType, cond_Status = status, cond_Reason = trim_space reason,
       cond_Message = trim_space message, cond_Time = time\<rparr>"

section \<open>The API server\<close>

definition with_status :: "SyncPolicyObject \<Rightarrow> SyncPolicyObject \<Rightarrow> SyncPolicyObject" where
  "with_status policy server =
     server\<lparr>ObservedGeneration := ObservedGeneration policy,
       LastAppliedRepoRevision := LastAppliedRepoRevision policy,
       LastAttemptTime := LastAttemptTime policy,
       LastSuccessfulSyncTime := LastSuccessfulSyncTime policy,
       LastFullResyncTime := LastFullResyncTime policy,
       LastAttemptedRepoRevision := LastAttemptedRepoRevision policy,
       LastSyncMode := LastSyncMode policy,
       LastSecretResourceVersionHash := LastSecretResourceVersionHash policy,
       ResourceStats := ResourceStats policy,
       Conditions := Conditions policy\<rparr>"

definition refresh :: "SyncPolicyObject \<Rightarrow> SyncPolicyObject \<Rightarrow> SyncPolicyObject" where
  "refresh policy server =
     server\<lparr>Source_Recursive := (case Source_Recursive server of None \<Rightarrow> Source_Recursive policy | Some r \<Rightarrow> Some r),
       SyncInterval := (case SyncInterval server of None \<Rightarrow> SyncInterval policy | Some d \<Rightarrow> Some d)\<rparr>"

definition status_update ::
  "'s sync_env \<Rightarrow> call_site \<Rightarrow> SyncPolicyObject \<Rightarrow> 's world \<Rightarrow> (SyncPolicyObject \<times> 's world) result" where
  "status_update env site policy w =
     (case update_fault env site of
        Some e \<Rightarrow> Err e
      | None \<Rightarrow>
          (case stored w of
             None \<Rightarrow> Err (PlainError (msg ''not found'') None)
           | Some server \<Rightarrow>
               (let server' = with_status policy server
                in Ok (refresh policy server', w\<lparr>stored := Some server'\<rparr>))))"

text \<open>An update of the whole object; the server removes an object under deletion with its last finalizer.\<close>

definition object_update ::
  "'s sync_env \<Rightarrow> call_site \<Rightarrow> SyncPolicyObject \<Rightarrow> 's world \<Rightarrow> 's world result" where
  "object_update env site policy w =
     (case update_fault env site of
        Some e \<Rightarrow> Err e
      | None \<Rightarrow> Ok (w\<lparr>stored := (if Deleting policy \<and> Finalizers policy = [] then None else Some policy)\<rparr>))"

section \<open>Failures\<close>

definition setNotReady ::
  "'s sync_env \<Rightarrow> SyncPolicyObject \<Rightarrow> string \<Rightarrow> string \<Rightarrow> 's world \<Rightarrow> (SyncPolicyObject \<times> 's world) result" where
  "setNotReady env policy reason message w =
     (let t = now env AtFailure;
          c1 = setStatusCondition (Conditions policy) ''Reconciling'' ConditionFalse reason [] t;
          c2 = setStatusCondition c1 ''Ready'' ConditionFalse reason message t;
          c3 = setStatusCondition c2 ''Stalled'' ConditionTrue reason message t
      in status_update env AtFailure
           (policy\<lparr>ObservedGeneration := Generation policy, LastAttemptTime := Some t, Conditions := c3\<rparr>) w)"

definition returnAfterSetNotReady :: "string \<Rightarrow> string \<Rightarrow> int \<Rightarrow> (SyncPolicyObject \<times> 's world) result \<Rightarrow> 's world \<Rightarrow> int result \<times> 's world" where
  "returnAfterSetNotReady reason message requeueAfter updated w =
     (case updated of
        Err e \<Rightarrow> (Err e, w)
      | Ok (policy, w') \<Rightarrow>
          if reason = ''SpecInvalid'' \<or> reason = ''OverlappingPolicy'' then (Ok 0, w')
          else if requeueAfter > 0 then (Ok requeueAfter, w')
          else (Err (PlainError (''%s: %s'', [reason, message]) None), w'))"

definition failWithStatus ::
  "'s sync_env \<Rightarrow> SyncPolicyObject \<Rightarrow> string \<Rightarrow> string \<Rightarrow> int \<Rightarrow> 's world \<Rightarrow> int result \<times> 's world" where
  "failWithStatus env policy reason message requeueAfter w =
     returnAfterSetNotReady reason message requeueAfter (setNotReady env policy reason message w) w"

definition defaultTransientRequeueInterval :: int where
  "defaultTransientRequeueInterval = 30000000000"

section \<open>Phases before the synchronisation\<close>

text \<open>A phase ends the reconciliation (\<open>Inl\<close>) or passes a value to the next one.\<close>

type_synonym ('a, 's) phase = "((int result \<times> 's world) + ('a \<times> 's world))"

definition handleFinalizer ::
  "'s sync_env \<Rightarrow> policy_name \<Rightarrow> SyncPolicyObject \<Rightarrow> 's world \<Rightarrow> (SyncPolicyObject, 's) phase" where
  "handleFinalizer env key policy w =
     (let added = policy\<lparr>Finalizers := Finalizers policy @ [finalizerName]\<rparr> in
      case (if finalizerName \<notin> set (Finalizers policy)
            then (case object_update env AtAddFinalizer added w of Err e \<Rightarrow> Err e | Ok w' \<Rightarrow> Ok (added, w'))
            else Ok (policy, w)) of
        Err e \<Rightarrow> Inl (Err e, w)
      | Ok (policy1, w1) \<Rightarrow>
          if Deleting policy1
          then let w2 = w1\<lparr>secret_refs := cache_remove (secret_refs w1) key\<rparr>;
                   removed = policy1\<lparr>Finalizers := filter (\<lambda>f. f \<noteq> finalizerName) (Finalizers policy1)\<rparr>
               in (case object_update env AtDeletion removed w2 of
                     Err e \<Rightarrow> Inl (Err e, w2)
                   | Ok w3 \<Rightarrow> Inl (Ok 0, w3))
          else Inr (policy1, w1))"

definition overlaps_policy :: "'s sync_env \<Rightarrow> SyncPolicyObject \<Rightarrow> SyncPolicyObject \<Rightarrow> bool" where
  "overlaps_policy env policy item =
     (Name item \<noteq> Name policy \<and> \<not> Deleting item
      \<and> HasPathOverlap (Source_Path (expandRuntimeSyncPolicy (getenv env) item)) (Source_Path policy))"

definition validateNoOverlap :: "'s sync_env \<Rightarrow> SyncPolicyObject \<Rightarrow> go_error option" where
  "validateNoOverlap env policy =
     (case policy_list env of
        Err e \<Rightarrow> Some e
      | Ok items \<Rightarrow>
          map_option (\<lambda>item. PlainError (''sync policy scope overlaps with %s/%s (%q)'',
              [Namespace item, Name item, NormalizeOverlapPath (Source_Path (expandRuntimeSyncPolicy (getenv env) item))]) None)
            (find (overlaps_policy env policy) items))"

definition suspended_policy :: "'s sync_env \<Rightarrow> SyncPolicyObject \<Rightarrow> SyncPolicyObject" where
  "suspended_policy env policy =
     (let t = now env AtSuspend;
          c1 = setStatusCondition (Conditions policy) ''Ready'' ConditionFalse ''Suspended'' ''sync policy is suspended'' t;
          c2 = setStatusCondition c1 ''Stalled'' ConditionFalse ''Suspended'' [] t;
          c3 = setStatusCondition c2 ''Reconciling'' ConditionFalse ''Suspended'' [] t
      in policy\<lparr>ObservedGeneration := Generation policy, LastAttemptTime := Some t, Conditions := c3\<rparr>)"

definition validatePrerequisites ::
  "'s sync_env \<Rightarrow> SyncPolicyObject \<Rightarrow> 's world \<Rightarrow> (SyncPolicyObject, 's) phase" where
  "validatePrerequisites env policy0 w =
     (case ValidateSpec policy0 of
        Err (Panic m) \<Rightarrow> Inl (Err (Panic m), w)
      | Err e \<Rightarrow> Inl (failWithStatus env policy0 ''SpecInvalid'' (error_text env e) 0 w)
      | Ok policy \<Rightarrow>
          if Suspend policy
          then (case status_update env AtSuspend (suspended_policy env policy) w of
                  Err e \<Rightarrow> Inl (Err e, w)
                | Ok (policy', w') \<Rightarrow> Inl (Ok 0, w'))
          else (case validateNoOverlap env policy of
                  Some e \<Rightarrow> Inl (failWithStatus env policy ''OverlappingPolicy'' (error_text env e) 0 w)
                | None \<Rightarrow> Inr (policy, w)))"

definition load_dependency ::
  "'s sync_env \<Rightarrow> SyncPolicyObject \<Rightarrow> string \<Rightarrow> string \<Rightarrow> ('a \<Rightarrow> string) \<Rightarrow> ('a \<Rightarrow> Condition list) \<Rightarrow> 'a result \<Rightarrow> 's world \<Rightarrow> ('a, 's) phase" where
  "load_dependency env policy what kind name_of conditions_of loaded w =
     (case loaded of
        Err e \<Rightarrow> Inl (failWithStatus env policy ''DependencyInvalid'' (''resolve '' @ what @ '': '' @ error_text env e) 0 w)
      | Ok dep \<Rightarrow>
          if \<not> isDependencyReady (conditions_of dep)
          then Inl (failWithStatus env policy ''DependencyNotReady''
                 (kind @ '' \"'' @ name_of dep @ ''\" is not ready'') defaultTransientRequeueInterval w)
          else Inr (dep, w))"

record dependencies =
  dep_repo :: ResourceRepository
  dep_server :: ManagedService
  dep_secret :: SecretStore

definition loadDependencies ::
  "'s sync_env \<Rightarrow> policy_name \<Rightarrow> SyncPolicyObject \<Rightarrow> 's world \<Rightarrow> (dependencies, 's) phase" where
  "loadDependencies env key policy w =
     (case load_dependency env policy ''resource repository'' ''ResourceRepository'' repo_Name repo_Conditions
             (load_repository env (ResourceRepositoryRef policy)) w of
        Inl r \<Rightarrow> Inl r
      | Inr (repo, w) \<Rightarrow>
     (case load_dependency env policy ''managed service'' ''ManagedService'' server_Name server_Conditions
             (load_service env (ManagedServiceRef policy)) w of
        Inl r \<Rightarrow> Inl r
      | Inr (server, w) \<Rightarrow>
     (case load_dependency env policy ''secret store'' ''SecretStore'' secret_Name secret_Conditions
             (load_secret_store env (SecretStoreRef policy)) w of
        Inl r \<Rightarrow> Inl r
      | Inr (secret, w) \<Rightarrow>
          Inr (\<lparr>dep_repo = repo, dep_server = server, dep_secret = secret\<rparr>,
               w\<lparr>secret_refs := cache_update (secret_refs w) key (collectSecretNames repo server secret)\<rparr>))))"

definition secret_hash :: "'s sync_env \<Rightarrow> call_site \<Rightarrow> dependencies \<Rightarrow> string" where
  "secret_hash env site deps =
     computeSecretVersionHash (sha256_hex env) (secret_version env site) (error_text env)
       (dep_repo deps) (dep_server deps) (dep_secret deps)"

definition checkSyncStatus ::
  "'s sync_env \<Rightarrow> SyncPolicyObject \<Rightarrow> dependencies \<Rightarrow> 's world \<Rightarrow> (unit, 's) phase" where
  "checkSyncStatus env policy deps w =
     (let repoRevision = trim_space (repo_LastFetchedRevision (dep_repo deps)) in
      if repoRevision = []
      then Inl (failWithStatus env policy ''DependencyInvalid'' ''resource repository has no fetched revision yet''
             (repo_PollInterval (dep_repo deps)) w)
      else
        let secretHashChanged = LastSecretResourceVersionHash policy \<noteq> secret_hash env AtCheck deps;
            currentTime = clock env AtCheck
        in case shouldRunFullResync (FullResyncCron policy) (LastFullResyncTime policy) currentTime of
             Err (Panic m) \<Rightarrow> Inl (Err (Panic m), w)
           | Err e \<Rightarrow> Inl (failWithStatus env policy ''SpecInvalid'' (''invalid full resync cron: '' @ error_text env e) 0 w)
           | Ok fullResyncDue \<Rightarrow>
               if ObservedGeneration policy = Generation policy \<and> LastAppliedRepoRevision policy = repoRevision
                  \<and> \<not> secretHashChanged \<and> \<not> fullResyncDue
               then Inl (syncPolicyRequeueAfter (SyncInterval policy) (FullResyncCron policy) currentTime, w)
               else Inr ((), w))"

section \<open>The synchronisation\<close>

definition buildExecutionPlan :: "'s sync_env \<Rightarrow> SyncPolicyObject \<Rightarrow> dependencies \<Rightarrow> syncExecutionPlan result" where
  "buildExecutionPlan env policy deps =
     (let secretHashChanged = LastSecretResourceVersionHash policy \<noteq> secret_hash env AtPlan deps in
      case shouldRunFullResync (FullResyncCron policy) (LastFullResyncTime policy) (clock env AtPlan) of
        Err e \<Rightarrow> Err e
      | Ok fullResyncDue \<Rightarrow>
          buildSyncExecutionPlan (lower_table env) (repository_diff env) policy
            (repo_LastFetchedRevision (dep_repo deps)) secretHashChanged fullResyncDue)"

text \<open>The plan of \<open>performSync\<close>: an error of the incremental plan falls back to the full one.\<close>

definition execution_plan :: "'s sync_env \<Rightarrow> SyncPolicyObject \<Rightarrow> dependencies \<Rightarrow> syncExecutionPlan result" where
  "execution_plan env policy deps =
     (case buildExecutionPlan env policy deps of
        Err (Panic m) \<Rightarrow> Err (Panic m)
      | Err e \<Rightarrow> Ok (fullSyncExecutionPlan (Source_Path policy) (recursive_source policy))
      | Ok plan \<Rightarrow> Ok plan)"

definition updateConflictingCondition :: "'s sync_env \<Rightarrow> bool \<Rightarrow> SyncPolicyObject \<Rightarrow> SyncPolicyObject" where
  "updateConflictingCondition env active policy =
     policy\<lparr>Conditions := setStatusCondition (Conditions policy) ''Conflicting''
       (if active then ConditionTrue else ConditionFalse) ''CRDGeneratorOverride''
       (if active then ''one or more resources are shadowed by a CRDGenerator-owned CR'' else []) (now env AtPlan)\<rparr>"

definition syncMode_text :: "syncMode \<Rightarrow> string" where
  "syncMode_text mode = (case mode of SyncModeFull \<Rightarrow> ''full'' | SyncModeIncremental \<Rightarrow> ''incremental'')"

definition successful_policy ::
  "'s sync_env \<Rightarrow> SyncPolicyObject \<Rightarrow> dependencies \<Rightarrow> syncExecutionPlan \<Rightarrow> apply_count \<Rightarrow> int \<Rightarrow> SyncPolicyObject" where
  "successful_policy env policy deps plan counts pruned =
     (let t = now env AtSuccess;
          c1 = setStatusCondition (Conditions policy) ''Reconciling'' ConditionFalse ''Ready'' [] t;
          c2 = setStatusCondition c1 ''Ready'' ConditionTrue ''Ready'' ''sync successful'' t;
          c3 = setStatusCondition c2 ''Stalled'' ConditionFalse ''Ready'' [] t
      in policy\<lparr>LastAppliedRepoRevision := repo_LastFetchedRevision (dep_repo deps),
           LastSecretResourceVersionHash := secret_hash env AtSuccess deps,
           LastSuccessfulSyncTime := Some t,
           LastFullResyncTime := (if Mode plan = SyncModeFull then Some t else LastFullResyncTime policy),
           LastSyncMode := syncMode_text (Mode plan),
           ResourceStats := \<lparr>Targeted = targetedCount counts, Applied = appliedCount counts, Pruned = pruned,
                             Failed = wrap32 (targetedCount counts - appliedCount counts)\<rparr>,
           Conditions := c3\<rparr>)"

definition updateSuccessStatus ::
  "'s sync_env \<Rightarrow> SyncPolicyObject \<Rightarrow> dependencies \<Rightarrow> syncExecutionPlan \<Rightarrow> apply_count \<Rightarrow> int \<Rightarrow> 's world \<Rightarrow> int result \<times> 's world" where
  "updateSuccessStatus env policy deps plan counts pruned w =
     (case status_update env AtSuccess (successful_policy env policy deps plan counts pruned) w of
        Err e \<Rightarrow> (Err e, w)
      | Ok (policy', w') \<Rightarrow>
          (syncPolicyRequeueAfter (SyncInterval policy') (FullResyncCron policy') (clock env AtRequeue), w'))"

definition attempted_policy :: "'s sync_env \<Rightarrow> SyncPolicyObject \<Rightarrow> dependencies \<Rightarrow> SyncPolicyObject" where
  "attempted_policy env policy deps =
     policy\<lparr>ObservedGeneration := Generation policy, LastAttemptTime := Some (now env AtAttempt),
       LastAttemptedRepoRevision := repo_LastFetchedRevision (dep_repo deps),
       Conditions := setStatusCondition (Conditions policy) ''Reconciling'' ConditionTrue ''Reconciling''
         ''applying repository state'' (now env AtAttempt)\<rparr>"

definition execute_plan ::
  "'s sync_env \<Rightarrow> 's Orchestrator \<Rightarrow> SyncPolicyObject \<Rightarrow> dependencies \<Rightarrow> syncExecutionPlan \<Rightarrow> 's world \<Rightarrow> int result \<times> 's world" where
  "execute_plan env orch policy deps plan w =
     (case applyChanges orch (conflict_index env) policy plan (service w) of
        (Err e, s) \<Rightarrow> failWithStatus env policy ''ReconcileFailed'' (error_text env e) 0 (w\<lparr>service := s\<rparr>)
      | (Ok counts, s) \<Rightarrow>
          (let policy1 = updateConflictingCondition env (conflicting counts) policy in
           case pruneChanges (error_text env) orch (conflict_index env) policy1 plan s of
             (Err e, s') \<Rightarrow> failWithStatus env policy1 ''ReconcileFailed'' (error_text env e) 0 (w\<lparr>service := s'\<rparr>)
           | (Ok pruned, s') \<Rightarrow> updateSuccessStatus env policy1 deps plan counts pruned (w\<lparr>service := s'\<rparr>)))"

definition performSync ::
  "'s sync_env \<Rightarrow> SyncPolicyObject \<Rightarrow> dependencies \<Rightarrow> 's world \<Rightarrow> int result \<times> 's world" where
  "performSync env policy deps w =
     (case runtime_context env of
        Err e \<Rightarrow> failWithStatus env policy ''RepositoryUnavailable'' (error_text env e) 0 w
      | Ok u \<Rightarrow>
     (case new_session env of
        Err e \<Rightarrow> failWithStatus env policy ''SessionBootstrapFailed'' (error_text env e) 0 w
      | Ok orch \<Rightarrow>
     (case status_update env AtAttempt (attempted_policy env policy deps) w of
        Err e \<Rightarrow> (Err e, w)
      | Ok (policy1, w1) \<Rightarrow>
     (case execution_plan env policy1 deps of
        Err e \<Rightarrow> (Err e, w1)
      | Ok plan \<Rightarrow> execute_plan env orch policy1 deps plan w1))))"

definition reconcile :: "'s sync_env \<Rightarrow> policy_name \<Rightarrow> 's world \<Rightarrow> int result \<times> 's world" where
  "reconcile env key w =
     (case get_fault env of
        Some e \<Rightarrow> (Err e, w)
      | None \<Rightarrow>
     (case stored w of
        None \<Rightarrow> (Ok 0, w)
      | Some found \<Rightarrow>
     (case handleFinalizer env key found w of
        Inl r \<Rightarrow> r
      | Inr (policy1, w1) \<Rightarrow>
     (case validatePrerequisites env (SyncPolicy_Default (expandRuntimeSyncPolicy (getenv env) policy1)) w1 of
        Inl r \<Rightarrow> r
      | Inr (policy2, w2) \<Rightarrow>
     (case loadDependencies env key policy2 w2 of
        Inl r \<Rightarrow> r
      | Inr (deps, w3) \<Rightarrow>
     (case checkSyncStatus env policy2 deps w3 of
        Inl r \<Rightarrow> r
      | Inr (u, w4) \<Rightarrow> performSync env policy2 deps w4))))))"

section \<open>What the phases keep\<close>

lemma now_update_simps [simp]:
  "ObservedGeneration (with_status p s) = ObservedGeneration p"
  "LastAppliedRepoRevision (with_status p s) = LastAppliedRepoRevision p"
  "LastFullResyncTime (with_status p s) = LastFullResyncTime p"
  "LastSecretResourceVersionHash (with_status p s) = LastSecretResourceVersionHash p"
  "Conditions (with_status p s) = Conditions p"
  "Generation (with_status p s) = Generation s"
  "Source_Path (with_status p s) = Source_Path s"
  "FullResyncCron (with_status p s) = FullResyncCron s"
  "ObservedGeneration (refresh p s) = ObservedGeneration s"
  "LastAppliedRepoRevision (refresh p s) = LastAppliedRepoRevision s"
  "LastFullResyncTime (refresh p s) = LastFullResyncTime s"
  "LastSecretResourceVersionHash (refresh p s) = LastSecretResourceVersionHash s"
  "Conditions (refresh p s) = Conditions s"
  "Generation (refresh p s) = Generation s"
  "Source_Path (refresh p s) = Source_Path s"
  "FullResyncCron (refresh p s) = FullResyncCron s"
  by (simp_all add: with_status_def refresh_def)

text \<open>A step that leaves the service alone and the recorded revision as it was.\<close>

definition keeps :: "string \<Rightarrow> 's world \<Rightarrow> 's world \<Rightarrow> bool" where
  "keeps rv w w' \<longleftrightarrow> service w' = service w \<and>
     ((\<forall>p. stored w = Some p \<longrightarrow> LastAppliedRepoRevision p = rv) \<longrightarrow> (\<forall>p. stored w' = Some p \<longrightarrow> LastAppliedRepoRevision p = rv))"

lemma keeps_refl [simp]: "keeps rv w w"
  by (simp add: keeps_def)

lemma keeps_trans: "keeps rv w w1 \<Longrightarrow> keeps rv w1 w2 \<Longrightarrow> keeps rv w w2"
  unfolding keeps_def by metis

lemma keepsD:
  "keeps rv w w' \<Longrightarrow> stored w = Some p \<Longrightarrow> LastAppliedRepoRevision p = rv \<Longrightarrow> stored w' = Some p' \<Longrightarrow> LastAppliedRepoRevision p' = rv"
  unfolding keeps_def by (metis option.inject)

lemma keeps_secret_refs [simp]:
  "keeps rv w (w'\<lparr>secret_refs := c\<rparr>) = keeps rv w w'" "keeps rv (w\<lparr>secret_refs := c\<rparr>) w' = keeps rv w w'"
  by (simp_all add: keeps_def)

lemma status_update_Ok:
  assumes "status_update env site p w = Ok (p', w')"
  obtains server where "stored w = Some server" "p' = refresh p (with_status p server)"
    "w' = w\<lparr>stored := Some (with_status p server)\<rparr>"
  using assms by (auto simp: status_update_def Let_def split: option.splits)

lemma status_update_keeps:
  "status_update env site p w = Ok (p', w') \<Longrightarrow> LastAppliedRepoRevision p = rv \<Longrightarrow> keeps rv w w'"
  by (elim status_update_Ok) (simp add: keeps_def)

lemma object_update_keeps:
  "object_update env site p w = Ok w' \<Longrightarrow> LastAppliedRepoRevision p = rv \<Longrightarrow> keeps rv w w'"
  by (auto simp: object_update_def keeps_def split: option.splits if_splits)

lemma failWithStatus_keeps:
  "failWithStatus env p reason message d w = (r, w') \<Longrightarrow> LastAppliedRepoRevision p = rv \<Longrightarrow> keeps rv w w'"
  by (auto simp: failWithStatus_def returnAfterSetNotReady_def setNotReady_def Let_def
      split: result.splits if_splits dest: status_update_keeps)

definition ensure_finalizer :: "SyncPolicyObject \<Rightarrow> SyncPolicyObject" where
  "ensure_finalizer p =
     (if finalizerName \<notin> set (Finalizers p) then p\<lparr>Finalizers := Finalizers p @ [finalizerName]\<rparr> else p)"

lemma ensure_finalizer_simps [simp]:
  "Deleting (ensure_finalizer p) = Deleting p"
  "LastAppliedRepoRevision (ensure_finalizer p) = LastAppliedRepoRevision p"
  "Source_Path (ensure_finalizer p) = Source_Path p"
  by (simp_all add: ensure_finalizer_def)

lemma handleFinalizer_Inl:
  "handleFinalizer env key p w = Inl (r, w') \<Longrightarrow> LastAppliedRepoRevision p = rv \<Longrightarrow> keeps rv w w'"
  by (auto simp: handleFinalizer_def Let_def split: result.splits if_splits
      dest!: object_update_keeps[where rv = rv])
    (metis keeps_trans)

lemma handleFinalizer_Inr:
  assumes "handleFinalizer env key p w = Inr (p1, w1)" "stored w = Some p"
  shows "\<not> Deleting p" "p1 = ensure_finalizer p" "stored w1 = Some p1" "service w1 = service w"
  using assms by (auto simp: handleFinalizer_def object_update_def ensure_finalizer_def Let_def
      split: result.splits if_splits option.splits)

lemma prepared_simps [simp]:
  "LastAppliedRepoRevision (SyncPolicy_Default p) = LastAppliedRepoRevision p"
  "LastAppliedRepoRevision (expandRuntimeSyncPolicy g p) = LastAppliedRepoRevision p"
  "LastAppliedRepoRevision (attempted_policy env p deps) = LastAppliedRepoRevision p"
  "LastAppliedRepoRevision (updateConflictingCondition env b p) = LastAppliedRepoRevision p"
  "LastAppliedRepoRevision (suspended_policy env p) = LastAppliedRepoRevision p"
  "LastAppliedRepoRevision (successful_policy env p deps plan n d) = repo_LastFetchedRevision (dep_repo deps)"
  by (simp_all add: SyncPolicy_Default_def expandRuntimeSyncPolicy_def attempted_policy_def
      updateConflictingCondition_def suspended_policy_def successful_policy_def Let_def)

lemma ValidateSpec_keeps: "ValidateSpec p = Ok q \<Longrightarrow> LastAppliedRepoRevision q = LastAppliedRepoRevision p"
  by (auto simp: ValidateSpec_def split: if_splits option.splits result.splits)

lemma validatePrerequisites_Inl:
  "validatePrerequisites env p w = Inl (r, w') \<Longrightarrow> LastAppliedRepoRevision p = rv \<Longrightarrow> keeps rv w w'"
  by (auto simp: validatePrerequisites_def split: result.splits go_error.splits if_splits option.splits
      dest!: ValidateSpec_keeps dest: failWithStatus_keeps status_update_keeps)

lemma validatePrerequisites_Inr:
  "validatePrerequisites env p w = Inr (q, w') \<Longrightarrow>
     ValidateSpec p = Ok q \<and> \<not> Suspend q \<and> validateNoOverlap env q = None \<and> w' = w"
  by (auto simp: validatePrerequisites_def split: result.splits go_error.splits if_splits option.splits)

lemma load_dependency_Inl:
  "load_dependency env p a b n c l w = Inl (r, w') \<Longrightarrow> LastAppliedRepoRevision p = rv \<Longrightarrow> keeps rv w w'"
  by (auto simp: load_dependency_def split: result.splits if_splits dest: failWithStatus_keeps)

lemma load_dependency_Inr:
  "load_dependency env p a b n c l w = Inr (d, w') \<longleftrightarrow> l = Ok d \<and> isDependencyReady (c d) \<and> w' = w"
  by (auto simp: load_dependency_def split: result.splits)

definition dependencies_ready :: "'s sync_env \<Rightarrow> SyncPolicyObject \<Rightarrow> dependencies \<Rightarrow> bool" where
  "dependencies_ready env policy deps \<longleftrightarrow>
     load_repository env (ResourceRepositoryRef policy) = Ok (dep_repo deps) \<and> isDependencyReady (repo_Conditions (dep_repo deps))
     \<and> load_service env (ManagedServiceRef policy) = Ok (dep_server deps) \<and> isDependencyReady (server_Conditions (dep_server deps))
     \<and> load_secret_store env (SecretStoreRef policy) = Ok (dep_secret deps) \<and> isDependencyReady (secret_Conditions (dep_secret deps))"

lemma loadDependencies_Inl:
  "loadDependencies env key p w = Inl (r, w') \<Longrightarrow> LastAppliedRepoRevision p = rv \<Longrightarrow> keeps rv w w'"
  by (auto simp: loadDependencies_def load_dependency_Inr split: sum.splits dest!: load_dependency_Inl[OF _ refl])

lemma loadDependencies_Inr:
  "loadDependencies env key p w = Inr (deps, w') \<longleftrightarrow> dependencies_ready env p deps
     \<and> w' = w\<lparr>secret_refs := cache_update (secret_refs w) key (collectSecretNames (dep_repo deps) (dep_server deps) (dep_secret deps))\<rparr>"
proof -
  obtain repo server secret where deps: "deps = \<lparr>dep_repo = repo, dep_server = server, dep_secret = secret\<rparr>"
    by (cases deps)
  show ?thesis
    by (auto simp: loadDependencies_def dependencies_ready_def deps load_dependency_def
        split: sum.splits result.splits if_splits)
qed

definition sync_due :: "'s sync_env \<Rightarrow> SyncPolicyObject \<Rightarrow> dependencies \<Rightarrow> bool" where
  "sync_due env policy deps \<longleftrightarrow>
     ObservedGeneration policy \<noteq> Generation policy
     \<or> LastAppliedRepoRevision policy \<noteq> trim_space (repo_LastFetchedRevision (dep_repo deps))
     \<or> LastSecretResourceVersionHash policy \<noteq> secret_hash env AtCheck deps
     \<or> shouldRunFullResync (FullResyncCron policy) (LastFullResyncTime policy) (clock env AtCheck) = Ok True"

lemma checkSyncStatus_Inl:
  "checkSyncStatus env p deps w = Inl (r, w') \<Longrightarrow> LastAppliedRepoRevision p = rv \<Longrightarrow> keeps rv w w'"
  by (auto simp: checkSyncStatus_def Let_def split: result.splits go_error.splits if_splits dest: failWithStatus_keeps)

lemma checkSyncStatus_Inr:
  "checkSyncStatus env p deps w = Inr (u, w') \<Longrightarrow>
     trim_space (repo_LastFetchedRevision (dep_repo deps)) \<noteq> [] \<and> sync_due env p deps \<and> w' = w"
  by (auto simp: checkSyncStatus_def sync_due_def Let_def split: result.splits go_error.splits if_splits)

section \<open>The cases of a reconciliation\<close>

text \<open>The policy that the phases after the finalizer see.\<close>

abbreviation prepared :: "'s sync_env \<Rightarrow> SyncPolicyObject \<Rightarrow> SyncPolicyObject" where
  "prepared env p \<equiv> SyncPolicy_Default (expandRuntimeSyncPolicy (getenv env) (ensure_finalizer p))"

text \<open>The guards that the code passes before it synchronises.\<close>

definition may_sync :: "'s sync_env \<Rightarrow> SyncPolicyObject \<Rightarrow> SyncPolicyObject \<Rightarrow> dependencies \<Rightarrow> bool" where
  "may_sync env p policy deps \<longleftrightarrow>
     \<not> Deleting p \<and> ValidateSpec (prepared env p) = Ok policy \<and> \<not> Suspend policy \<and> validateNoOverlap env policy = None
     \<and> dependencies_ready env policy deps \<and> trim_space (repo_LastFetchedRevision (dep_repo deps)) \<noteq> [] \<and> sync_due env policy deps"

lemma reconcile_cases:
  assumes rec: "reconcile env key w = (r, w')" and p: "stored w = Some p"
  obtains (idle) "keeps (LastAppliedRepoRevision p) w w'"
  | (sync) policy deps w1 where "may_sync env p policy deps" "LastAppliedRepoRevision policy = LastAppliedRepoRevision p"
      "performSync env policy deps w1 = (r, w')" "stored w1 = Some (ensure_finalizer p)" "service w1 = service w"
proof (cases "get_fault env = None")
  case False
  then show ?thesis using rec idle by (auto simp: reconcile_def split: option.splits)
next
  case get: True
  show ?thesis
  proof (cases "handleFinalizer env key p w")
    case (Inl a)
    then show ?thesis using rec p get idle handleFinalizer_Inl[of env key p w] by (cases a) (simp add: reconcile_def)
  next
    case (Inr a)
    then obtain p1 w1 where fin: "handleFinalizer env key p w = Inr (p1, w1)" by (cases a) simp
    note f = handleFinalizer_Inr[OF fin p]
    have k1: "keeps (LastAppliedRepoRevision p) w w1" using f p by (simp add: keeps_def)
    show ?thesis
    proof (cases "validatePrerequisites env (prepared env p) w1")
      case (Inl a)
      then show ?thesis using rec p get fin f(2) idle keeps_trans[OF k1] validatePrerequisites_Inl[of env "prepared env p" w1]
        by (cases a) (simp add: reconcile_def)
    next
      case (Inr a)
      then obtain q where val: "validatePrerequisites env (prepared env p) w1 = Inr (q, w1)"
        using validatePrerequisites_Inr by (cases a) fastforce
      note v = validatePrerequisites_Inr[OF val]
      have q: "LastAppliedRepoRevision q = LastAppliedRepoRevision p" using v ValidateSpec_keeps by force
      show ?thesis
      proof (cases "loadDependencies env key q w1")
        case (Inl a)
        then show ?thesis using rec p get fin f(2) val idle keeps_trans[OF k1] loadDependencies_Inl[of env key q w1] q
          by (cases a) (simp add: reconcile_def)
      next
        case (Inr a)
        then obtain deps w2 where dep: "loadDependencies env key q w1 = Inr (deps, w2)" by (cases a) simp
        note d = iffD1[OF loadDependencies_Inr dep]
        have w2: "keeps (LastAppliedRepoRevision p) w w2" "stored w2 = stored w1" "service w2 = service w1" using d k1 by simp_all
        show ?thesis
        proof (cases "checkSyncStatus env q deps w2")
          case (Inl a)
          then show ?thesis using rec p get fin f(2) val dep idle keeps_trans[OF w2(1)] checkSyncStatus_Inl[of env q deps w2] q
            by (cases a) (simp add: reconcile_def)
        next
          case (Inr a)
          obtain u where chk: "checkSyncStatus env q deps w2 = Inr (u, w2)"
            using Inr checkSyncStatus_Inr by (cases a) fastforce
          have "may_sync env p q deps" using f(1) v d checkSyncStatus_Inr[OF chk] by (simp add: may_sync_def)
          moreover have "performSync env q deps w2 = (r, w')"
            using rec p get fin f(2) val dep chk by (simp add: reconcile_def)
          ultimately show ?thesis using sync q w2 f by simp
        qed
      qed
    qed
  qed
qed

lemma performSync_cases:
  assumes sync: "performSync env policy deps w = (r, w')" and server: "stored w = Some server"
  obtains (idle) "keeps (LastAppliedRepoRevision policy) w w'"
  | (run) orch plan policy1 w1 where "new_session env = Ok orch"
      "policy1 = refresh (attempted_policy env policy deps) (with_status (attempted_policy env policy deps) server)"
      "execution_plan env policy1 deps = Ok plan" "execute_plan env orch policy1 deps plan w1 = (r, w')"
      "w1 = w\<lparr>stored := Some (with_status (attempted_policy env policy deps) server)\<rparr>"
proof (cases "runtime_context env")
  case (Err e)
  then show ?thesis using sync idle by (simp add: performSync_def failWithStatus_keeps)
next
  case ctx: (Ok u)
  show ?thesis
  proof (cases "new_session env")
    case (Err e)
    then show ?thesis using sync idle ctx by (simp add: performSync_def failWithStatus_keeps)
  next
    case orch: (Ok orch)
    let ?a = "attempted_policy env policy deps"
    show ?thesis
    proof (cases "status_update env AtAttempt ?a w")
      case (Err e)
      then show ?thesis using sync idle ctx orch by (simp add: performSync_def)
    next
      case (Ok a)
      then obtain p1 w1 where upd: "status_update env AtAttempt ?a w = Ok (p1, w1)" by (cases a) simp
      have p1: "p1 = refresh ?a (with_status ?a server)" "w1 = w\<lparr>stored := Some (with_status ?a server)\<rparr>"
        using status_update_Ok[OF upd] server by (metis option.inject)+
      show ?thesis
      proof (cases "execution_plan env p1 deps")
        case (Err e)
        then show ?thesis using sync idle ctx orch upd status_update_keeps[OF upd] by (simp add: performSync_def)
      next
        case (Ok plan)
        then show ?thesis using sync run ctx orch upd p1 by (simp add: performSync_def)
      qed
    qed
  qed
qed

lemma updateSuccessStatus_cases:
  assumes "updateSuccessStatus env policy deps plan counts pruned w = (r, w')" "stored w = Some server"
  shows "w' = w \<or> w' = w\<lparr>stored := Some (with_status (successful_policy env policy deps plan counts pruned) server)\<rparr>"
  using assms by (auto simp: updateSuccessStatus_def split: result.splits elim!: status_update_Ok)

lemma successful_policy_ready: "isDependencyReady (Conditions (successful_policy env policy deps plan counts pruned))"
  by (simp add: successful_policy_def setStatusCondition_def isDependencyReady_iff Let_def)

lemma execute_plan_cases:
  assumes ex: "execute_plan env orch policy deps plan w = (r, w')" and server: "stored w = Some server"
    and rv: "LastAppliedRepoRevision server = LastAppliedRepoRevision policy"
  obtains (failed) "\<forall>p'. stored w' = Some p' \<longrightarrow> LastAppliedRepoRevision p' = LastAppliedRepoRevision policy"
  | (succeeded) counts s pruned p' where "applyChanges orch (conflict_index env) policy plan (service w) = (Ok counts, s)"
      "pruneChanges (error_text env) orch (conflict_index env) (updateConflictingCondition env (conflicting counts) policy) plan s
         = (Ok pruned, service w')"
      "stored w' = Some p'" "LastAppliedRepoRevision p' = repo_LastFetchedRevision (dep_repo deps)"
      "isDependencyReady (Conditions p')"
proof -
  have fail: "\<forall>p'. stored w' = Some p' \<longrightarrow> LastAppliedRepoRevision p' = LastAppliedRepoRevision policy"
    if f: "failWithStatus env q reason m d (w\<lparr>service := s\<rparr>) = (r, w')"
      and q: "LastAppliedRepoRevision q = LastAppliedRepoRevision policy" for q reason m d s
  proof (intro allI impI)
    fix p' assume "stored w' = Some p'"
    then show "LastAppliedRepoRevision p' = LastAppliedRepoRevision policy"
      using keepsD[OF failWithStatus_keeps[OF f q] _ rv] server by simp
  qed
  obtain a s where a: "applyChanges orch (conflict_index env) policy plan (service w) = (a, s)" by fastforce
  show ?thesis
  proof (cases a)
    case (Err e)
    with ex a have f: "failWithStatus env policy ''ReconcileFailed'' (error_text env e) 0 (w\<lparr>service := s\<rparr>) = (r, w')"
      by (simp add: execute_plan_def)
    show ?thesis by (rule failed[OF fail[OF f refl]])
  next
    case counts: (Ok counts)
    let ?p1 = "updateConflictingCondition env (conflicting counts) policy"
    obtain b s' where b: "pruneChanges (error_text env) orch (conflict_index env) ?p1 plan s = (b, s')" by fastforce
    show ?thesis
    proof (cases b)
      case (Err e)
      with ex a b counts have f: "failWithStatus env ?p1 ''ReconcileFailed'' (error_text env e) 0 (w\<lparr>service := s'\<rparr>) = (r, w')"
        by (simp add: execute_plan_def Let_def)
      show ?thesis by (rule failed[OF fail[OF f]]) simp
    next
      case (Ok pruned)
      have "updateSuccessStatus env ?p1 deps plan counts pruned (w\<lparr>service := s'\<rparr>) = (r, w')"
        using ex a b counts Ok by (simp add: execute_plan_def Let_def)
      from updateSuccessStatus_cases[OF this, of server] server
      consider "w' = w\<lparr>service := s'\<rparr>"
        | "w' = w\<lparr>service := s', stored := Some (with_status (successful_policy env ?p1 deps plan counts pruned) server)\<rparr>"
        by auto
      then show ?thesis
      proof cases
        case 1
        then show ?thesis using failed server rv by simp
      next
        case 2
        then show ?thesis using succeeded[of counts s pruned] a b counts Ok by (simp add: successful_policy_ready)
      qed
    qed
  qed
qed

section \<open>Guards of the synchronisation\<close>

text \<open>C2: a reconciliation touches the managed service only if the policy is not being deleted, its expanded
  specification is valid, it is not suspended, no other policy of the namespace overlaps with it, its three
  dependencies load and are ready, the repository has a revision, and the policy is out of date.\<close>

theorem service_touched_only_when_due:
  assumes "reconcile env key w = (r, w')" "service w' \<noteq> service w"
  shows "\<exists>p policy deps. stored w = Some p \<and> may_sync env p policy deps"
proof (cases "stored w")
  case None
  then show ?thesis using assms by (auto simp: reconcile_def split: option.splits)
next
  case (Some p)
  with assms(1) show ?thesis by (rule reconcile_cases) (use assms(2) Some in \<open>auto simp: keeps_def\<close>)
qed


section \<open>A change of the specification\<close>

lemma expand_empty [simp]: "expand_string g [] = []"
  by (simp add: expand_string_def resolvePlaceholder_def exactPlaceholderPattern_def)

lemma ValidateSpec_fields:
  "ValidateSpec p = Ok q \<Longrightarrow> FullResyncCron q = FullResyncCron p \<and> Generation q = Generation p
     \<and> LastFullResyncTime q = LastFullResyncTime p \<and> LastSecretResourceVersionHash q = LastSecretResourceVersionHash p"
  by (auto simp: ValidateSpec_def split: if_splits option.splits result.splits)

lemma prepared_fields:
  "FullResyncCron (prepared env p) = expand_string (getenv env) (FullResyncCron p)" "Generation (prepared env p) = Generation p"
  "LastSecretResourceVersionHash (prepared env p) = LastSecretResourceVersionHash p"
  by (simp_all add: SyncPolicy_Default_def expandRuntimeSyncPolicy_def ensure_finalizer_def)

lemma no_cron: "shouldRunFullResync [] t c = Ok False"
  by (simp add: shouldRunFullResync_def)

lemma reconcile_reaches_sync:
  assumes "get_fault env = None" "stored w = Some p" "finalizerName \<in> set (Finalizers p)"
    "may_sync env p policy deps" "FullResyncCron p = []"
  shows "reconcile env key w = performSync env policy deps
     (w\<lparr>secret_refs := cache_update (secret_refs w) key (collectSecretNames (dep_repo deps) (dep_server deps) (dep_secret deps))\<rparr>)"
proof -
  let ?w = "w\<lparr>secret_refs := cache_update (secret_refs w) key (collectSecretNames (dep_repo deps) (dep_server deps) (dep_secret deps))\<rparr>"
  have fin: "handleFinalizer env key p w = Inr (ensure_finalizer p, w)"
    using assms by (simp add: handleFinalizer_def ensure_finalizer_def may_sync_def)
  have val: "validatePrerequisites env (prepared env p) w = Inr (policy, w)"
    using assms(4) by (simp add: validatePrerequisites_def may_sync_def)
  have dep: "loadDependencies env key policy w = Inr (deps, ?w)"
    using assms(4) by (simp add: loadDependencies_Inr may_sync_def)
  have "FullResyncCron policy = []"
    using assms(4,5) ValidateSpec_fields[of "prepared env p" policy] by (simp add: may_sync_def prepared_fields)
  then have chk: "checkSyncStatus env policy deps ?w = Inr ((), ?w)"
    using assms(4) by (auto simp: checkSyncStatus_def may_sync_def sync_due_def no_cron Let_def)
  show ?thesis using assms(1,2) fin val dep chk by (simp add: reconcile_def)
qed

lemma unchanged_revision_plan:
  assumes "FullResyncCron policy = []" "ObservedGeneration policy = Generation policy"
    "secret_hash env AtPlan deps = LastSecretResourceVersionHash policy"
    "trim_space (LastAppliedRepoRevision policy) = trim_space (repo_LastFetchedRevision (dep_repo deps))"
    "trim_space (repo_LastFetchedRevision (dep_repo deps)) \<noteq> []"
  shows "execution_plan env policy deps = Ok \<lparr>Mode = SyncModeIncremental, ApplyTargets = [], PruneTargets = []\<rparr>"
  using assms by (simp add: execution_plan_def buildExecutionPlan_def buildSyncExecutionPlan_def no_cron Let_def)

lemma execute_empty_plan:
  assumes "update_fault env AtSuccess = None" "stored w = Some server" "FullResyncCron server = []"
  shows "\<exists>d counts policy1. execute_plan env orch policy deps \<lparr>Mode = SyncModeIncremental, ApplyTargets = [], PruneTargets = []\<rparr> w
     = (Ok d, w\<lparr>stored := Some (with_status (successful_policy env policy1 deps
          \<lparr>Mode = SyncModeIncremental, ApplyTargets = [], PruneTargets = []\<rparr> counts 0) server)\<rparr>)
     \<and> ObservedGeneration policy1 = ObservedGeneration policy"
  using assms by (simp add: execute_plan_def applyChanges_def pruneChanges_def pruneRemovedPaths_def stringSet_def
      wrap32_def updateSuccessStatus_def status_update_def syncPolicyRequeueAfter_def updateConflictingCondition_def Let_def) force

text \<open>C29: if the specification of a policy changes while the repository stays at the applied revision and no
  credential changed, the reconciliation does nothing to the managed service and still records the new
  generation as synchronised: the generation is marked as observed before the plan is built, which would
  otherwise be a full one.\<close>

theorem spec_change_not_applied:
  assumes "get_fault env = None" "update_fault env = (\<lambda>site. None)" "runtime_context env = Ok ()" "new_session env = Ok orch"
    and p: "stored w = Some p" and "finalizerName \<in> set (Finalizers p)" and cron: "FullResyncCron p = []"
    and may: "may_sync env p policy deps"
    and "trim_space (LastAppliedRepoRevision p) = trim_space (repo_LastFetchedRevision (dep_repo deps))"
    and "\<And>site. secret_hash env site deps = LastSecretResourceVersionHash p"
  shows "\<exists>d w' p'. reconcile env key w = (Ok d, w') \<and> service w' = service w \<and> stored w' = Some p'
     \<and> ObservedGeneration p' = Generation p \<and> isDependencyReady (Conditions p')
     \<and> LastAppliedRepoRevision p' = repo_LastFetchedRevision (dep_repo deps)"
proof -
  let ?a = "attempted_policy env policy deps"
  let ?p1 = "refresh ?a (with_status ?a p)"
  let ?plan = "\<lparr>Mode = SyncModeIncremental, ApplyTargets = [], PruneTargets = []\<rparr>"
  let ?w = "w\<lparr>secret_refs := cache_update (secret_refs w) key (collectSecretNames (dep_repo deps) (dep_server deps) (dep_secret deps))\<rparr>"
  have v: "Generation policy = Generation p" "LastSecretResourceVersionHash policy = LastSecretResourceVersionHash p"
    "LastAppliedRepoRevision policy = LastAppliedRepoRevision p"
    using may ValidateSpec_fields[of "prepared env p" policy] ValidateSpec_keeps[of "prepared env p" policy]
    by (simp_all add: may_sync_def prepared_fields)
  then have a: "ObservedGeneration ?a = Generation p" "LastSecretResourceVersionHash ?a = LastSecretResourceVersionHash p"
    by (simp_all add: attempted_policy_def)
  have plan: "execution_plan env ?p1 deps = Ok ?plan"
    by (rule unchanged_revision_plan) (use assms a v in \<open>simp_all add: may_sync_def\<close>)
  obtain d counts q where run: "execute_plan env orch ?p1 deps ?plan (?w\<lparr>stored := Some (with_status ?a p)\<rparr>)
      = (Ok d, ?w\<lparr>stored := Some (with_status (successful_policy env q deps ?plan counts 0) (with_status ?a p))\<rparr>)"
    and q: "ObservedGeneration q = Generation p"
    using execute_empty_plan[of env "?w\<lparr>stored := Some (with_status ?a p)\<rparr>" "with_status ?a p" orch ?p1 deps] assms a cron by auto
  have upd: "status_update env AtAttempt ?a ?w = Ok (?p1, ?w\<lparr>stored := Some (with_status ?a p)\<rparr>)"
    using assms(2) p by (simp add: status_update_def Let_def)
  have obs: "ObservedGeneration (successful_policy env q deps ?plan counts 0) = Generation p"
    using q by (simp add: successful_policy_def Let_def)
  have "reconcile env key w = performSync env policy deps ?w" by (rule reconcile_reaches_sync) (use assms in auto)
  also have "\<dots> = (Ok d, ?w\<lparr>stored := Some (with_status (successful_policy env q deps ?plan counts 0) (with_status ?a p))\<rparr>)"
    using assms(3,4) upd plan run by (simp add: performSync_def)
  finally show ?thesis using obs by (simp add: successful_policy_ready)
qed

section \<open>Examples\<close>

text \<open>A cluster in which every call succeeds.  The service is the list of the paths applied to it.\<close>

definition ready :: "Condition list" where
  "ready = [\<lparr>cond_Type = ''Ready'', cond_Status = ConditionTrue, cond_Reason = ''Ready'', cond_Message = [], cond_Time = 0\<rparr>]"

definition working_copy :: "string list \<Rightarrow> string list Orchestrator" where
  "working_copy paths =
     \<lparr>ListLocal = (\<lambda>s path recursive. Ok (map path_item (filter (\<lambda>p. prefix path p) paths))),
      GetLocal = (\<lambda>s path. if path \<in> set paths then Ok () else Err (NotFound (msg ''not found'') None)),
      ListRemote = (\<lambda>s path recursive. Ok (map path_item (filter (\<lambda>p. prefix path p) s))),
      Apply = (\<lambda>path force skip s. ([], Ok (), s @ [path])),
      orch_Delete = (\<lambda>path s. (Ok (), filter (\<lambda>p. p \<noteq> path) s))\<rparr>"

definition calm_cluster :: "string \<Rightarrow> string list \<Rightarrow> file_change list \<Rightarrow> string list sync_env" where
  "calm_cluster revision paths changes =
     \<lparr>getenv = (\<lambda>name. if name = ''SCOPE'' then ''/customers'' else []), clock = (\<lambda>site. 1000000000), get_fault = None,
      update_fault = (\<lambda>site. None), policy_list = Ok [],
      load_repository = (\<lambda>name. Ok \<lparr>repo_Name = name, repo_Git = None, repo_PollInterval = 0,
          repo_LastFetchedRevision = revision, repo_Conditions = ready\<rparr>),
      load_service = (\<lambda>name. Ok \<lparr>server_Name = name, server_OAuth2 = None, server_BasicAuth = None, server_CustomHeaders = [],
          server_TLS = None, server_Proxy = None, server_Conditions = ready\<rparr>),
      load_secret_store = (\<lambda>name. Ok \<lparr>secret_Name = name, secret_Vault = None, secret_File = None, secret_Conditions = ready\<rparr>),
      secret_version = (\<lambda>site name. Ok []), sha256_hex = (\<lambda>s. s), error_text = (\<lambda>e. []),
      runtime_context = Ok (), new_session = Ok (working_copy paths), lower_table = (\<lambda>s. s),
      repository_diff = (\<lambda>a b. Ok changes), conflict_index = None\<rparr>"

definition example_policy_object :: "string \<Rightarrow> int \<Rightarrow> SyncPolicyObject" where
  "example_policy_object path generation =
     \<lparr>Source_Path = path, Source_Recursive = Some True, Generation = generation, ObservedGeneration = 1, LastAppliedRepoRevision = ''r1'',
      Namespace = ''ns'', Name = ''sync'', Finalizers = [finalizerName], Deleting = False, ResourceRepositoryRef = ''repo'',
      ManagedServiceRef = ''server'', SecretStoreRef = ''secrets'', Prune = True, Force = False, SyncInterval = None,
      FullResyncCron = [], Suspend = False, LastAttemptTime = None, LastSuccessfulSyncTime = None, LastFullResyncTime = None,
      LastAttemptedRepoRevision = ''r1'', LastSyncMode = [], LastSecretResourceVersionHash = [],
      ResourceStats = \<lparr>Targeted = 0, Applied = 0, Pruned = 0, Failed = 0\<rparr>, Conditions = []\<rparr>"

definition example_world :: "string \<Rightarrow> int \<Rightarrow> string list \<Rightarrow> string list world" where
  "example_world path generation paths =
     \<lparr>stored = Some (example_policy_object path generation), service = paths, secret_refs = []\<rparr>"

text \<open>One resource is added in the second revision, or the whole collection with its metadata is removed.\<close>

definition customer_added :: "string list sync_env" where
  "customer_added = calm_cluster ''r2'' [''/customers/acme'', ''/customers/zoo'']
     [\<lparr>change_Action = Ok ChangeInsert, change_From = [], change_To = ''customers/zoo/resource.json''\<rparr>]"

definition collection_removed :: "string list sync_env" where
  "collection_removed = calm_cluster ''r2'' []
     [\<lparr>change_Action = Ok ChangeDelete, change_From = ''customers/_/metadata.json'', change_To = []\<rparr>,
      \<lparr>change_Action = Ok ChangeDelete, change_From = ''customers/acme/resource.json'', change_To = []\<rparr>]"

definition sync_key :: policy_name where
  "sync_key = (''ns'', ''sync'')"

lemma customer_added_outcome:
  "(let w = snd (reconcile customer_added sync_key (example_world ''/customers'' 1 [''/customers/acme'']))
    in (service w, map_option LastAppliedRepoRevision (stored w))) = ([''/customers/acme'', ''/customers/zoo''], Some ''r2'')"
  by code_simp

lemma customer_added_applied:
  "service (snd (reconcile customer_added sync_key (example_world ''/customers'' 1 [''/customers/acme''])))
     = [''/customers/acme'', ''/customers/zoo'']"
  and customer_added_recorded:
  "map_option LastAppliedRepoRevision (stored (snd (reconcile customer_added sync_key (example_world ''/customers'' 1 [''/customers/acme'']))))
     = Some ''r2''"
  using customer_added_outcome by (simp_all add: Let_def)

theorem service_touched_only_when_due_witness:
  "service (snd (reconcile customer_added sync_key (example_world ''/customers'' 1 [''/customers/acme''])))
     = [''/customers/acme'', ''/customers/zoo'']
   \<and> (\<exists>policy deps. may_sync customer_added (example_policy_object ''/customers'' 1) policy deps)"
proof -
  let ?w = "example_world ''/customers'' 1 [''/customers/acme'']"
  have "reconcile customer_added sync_key ?w
      = (fst (reconcile customer_added sync_key ?w), snd (reconcile customer_added sync_key ?w))" by simp
  from service_touched_only_when_due[OF this] customer_added_applied show ?thesis by (auto simp: example_world_def)
qed


lemma unchanged_cluster_may_sync:
  "\<exists>policy deps. may_sync (calm_cluster ''r1'' [''/customers/acme''] []) (example_policy_object ''/customers'' 2) policy deps
     \<and> repo_LastFetchedRevision (dep_repo deps) = ''r1''
     \<and> (\<forall>site. secret_hash (calm_cluster ''r1'' [''/customers/acme''] []) site deps = [])"
proof -
  let ?env = "calm_cluster ''r1'' [''/customers/acme''] []"
  let ?p = "example_policy_object ''/customers'' 2"
  have "is_ok (ValidateSpec (prepared ?env ?p))" by code_simp
  then obtain policy where v: "ValidateSpec (prepared ?env ?p) = Ok policy" by (auto simp: is_ok_iff)
  have "(case ValidateSpec (prepared ?env ?p) of Ok q \<Rightarrow> \<not> Suspend q \<and> validateNoOverlap ?env q = None
      \<and> ObservedGeneration q \<noteq> Generation q | Err e \<Rightarrow> False)" by code_simp
  with v have q: "\<not> Suspend policy" "validateNoOverlap ?env policy = None" "ObservedGeneration policy \<noteq> Generation policy" by simp_all
  obtain repo server secret where l: "load_repository ?env (ResourceRepositoryRef policy) = Ok repo"
    "load_service ?env (ManagedServiceRef policy) = Ok server" "load_secret_store ?env (SecretStoreRef policy) = Ok secret"
    by (simp add: calm_cluster_def)
  have r: "repo_LastFetchedRevision repo = ''r1''" "repo_Conditions repo = ready" "repo_Git repo = None"
    "server_Conditions server = ready" "managed_service_refs server = []" "secret_Conditions secret = ready" "secret_store_refs secret = []"
    using l by (auto simp: calm_cluster_def managed_service_refs_def secret_store_refs_def user_password_refs_def tls_refs_def proxy_refs_def)
  let ?deps = "\<lparr>dep_repo = repo, dep_server = server, dep_secret = secret\<rparr>"
  have "isDependencyReady ready" by code_simp
  moreover have "trim_space ''r1'' \<noteq> []" by code_simp
  ultimately have "may_sync ?env ?p policy ?deps"
    using v q l r by (simp add: may_sync_def dependencies_ready_def sync_due_def example_policy_object_def)
  moreover have "secret_hash ?env site ?deps = []" for site
    using r by (simp add: secret_hash_def computeSecretVersionHash_def collectSecretNames_def repository_refs_def)
  ultimately show ?thesis using r(1) by (intro exI[of _ policy] exI[of _ ?deps]) simp
qed

theorem spec_change_not_applied_witness:
  "\<exists>d w' p'. reconcile (calm_cluster ''r1'' [''/customers/acme''] []) sync_key (example_world ''/customers'' 2 []) = (Ok d, w')
     \<and> service w' = [] \<and> stored w' = Some p' \<and> ObservedGeneration p' = 2 \<and> isDependencyReady (Conditions p')"
proof -
  let ?env = "calm_cluster ''r1'' [''/customers/acme''] []"
  let ?p = "example_policy_object ''/customers'' 2"
  obtain policy deps where m: "may_sync ?env ?p policy deps" "repo_LastFetchedRevision (dep_repo deps) = ''r1''"
    "\<And>site. secret_hash ?env site deps = []" using unchanged_cluster_may_sync by blast
  have "\<exists>d w' p'. reconcile ?env sync_key (example_world ''/customers'' 2 []) = (Ok d, w') \<and> service w' = service (example_world ''/customers'' 2 [])
     \<and> stored w' = Some p' \<and> ObservedGeneration p' = Generation ?p \<and> isDependencyReady (Conditions p')
     \<and> LastAppliedRepoRevision p' = repo_LastFetchedRevision (dep_repo deps)"
    by (rule spec_change_not_applied[OF _ _ _ _ _ _ _ m(1), where orch = "working_copy [''/customers/acme'']"])
      (use m(2,3) in \<open>simp_all add: example_world_def example_policy_object_def calm_cluster_def\<close>)
  then show ?thesis by (auto simp: example_world_def example_policy_object_def)
qed

section \<open>Revisions that are never applied\<close>

text \<open>The world after some reconciliations.\<close>

definition after_reconciles :: "string list sync_env \<Rightarrow> nat \<Rightarrow> string list world \<Rightarrow> string list world" where
  "after_reconciles env n w = ((\<lambda>w. snd (reconcile env sync_key w)) ^^ n) w"

lemma after_reconciles_fixpoint:
  assumes "snd (reconcile env sync_key w) = w'" "snd (reconcile env sync_key w') = w'"
  shows "after_reconciles env n w \<in> {w, w'}"
  using assms by (induction n) (auto simp: after_reconciles_def)

definition blocked_condition :: "string \<Rightarrow> ConditionStatus \<Rightarrow> Condition" where
  "blocked_condition type status = \<lparr>cond_Type = type, cond_Status = status, cond_Reason = ''ReconcileFailed'',
     cond_Message = [], cond_Time = 1000000000\<rparr>"

definition blocked_world :: "string list world" where
  "blocked_world = \<lparr>stored = Some ((example_policy_object ''/'' 1)\<lparr>LastAttemptTime := Some 1000000000, LastAttemptedRepoRevision := ''r2'',
       Conditions := [blocked_condition ''Reconciling'' ConditionFalse, blocked_condition ''Ready'' ConditionFalse,
         blocked_condition ''Stalled'' ConditionTrue]\<rparr>), service = [''/customers/acme''], secret_refs = []\<rparr>"

lemma collection_removed_outcome:
  "reconcile collection_removed sync_key (example_world ''/'' 1 [''/customers/acme''])
     = (Err (PlainError (''%s: %s'', [''ReconcileFailed'', []]) None), blocked_world)"
  "reconcile collection_removed sync_key blocked_world
     = (Err (PlainError (''%s: %s'', [''ReconcileFailed'', []]) None), blocked_world)"
  by code_simp+

text \<open>Removing a collection together with its metadata blocks the policy: the removed metadata file makes the
  collection a target to apply, no local resource is found below it, and every reconciliation fails before
  anything is pruned, so the removed resource stays in the service and the revision is never applied.\<close>

theorem removed_collection_blocks_policy:
  "let w = after_reconciles collection_removed n (example_world ''/'' 1 [''/customers/acme''])
   in \<not> is_ok (fst (reconcile collection_removed sync_key w)) \<and> service w = [''/customers/acme'']
      \<and> map_option LastAppliedRepoRevision (stored w) = Some ''r1''"
  using after_reconciles_fixpoint[of collection_removed "example_world ''/'' 1 [''/customers/acme'']" blocked_world n]
  by (auto simp: Let_def collection_removed_outcome) (simp_all add: blocked_world_def example_world_def example_policy_object_def)

text \<open>A source path that is an environment placeholder is expanded for validation only: the status update before
  the plan brings the stored path back, against which no changed file lies in scope, and the new revision is
  recorded as applied although nothing of it was.\<close>

theorem placeholder_path_not_applied:
  "let (r, w) = reconcile customer_added sync_key (example_world ''${SCOPE}'' 1 [''/customers/acme''])
   in is_ok r \<and> service w = [''/customers/acme''] \<and> map_option LastAppliedRepoRevision (stored w) = Some ''r2''
      \<and> map_option (\<lambda>p. isDependencyReady (Conditions p)) (stored w) = Some True"
  by code_simp

end
