(* ===== verification/Externalized_Store.thy ===== *)
theory Externalized_Store
  imports Externalization Local_Repository
begin

text \<open>
  Externalised attributes in the local repository: what the orchestrator does when it saves and reads a resource
  with attributes in files of their own.  The theorem joins \<open>Externalization\<close> with \<open>Local_Repository\<close>: the files
  that \<open>SaveResourceWithArtifacts\<close> wrote are what \<open>ReadResourceArtifact\<close> returns, so that the payload read back and
  expanded is the payload that was saved.
\<close>

section \<open>Artifacts of a resource\<close>

text \<open>The name of an artifact is a cleaned relative path, not the name of a payload or of a temporary file.\<close>

definition artifact_name :: "string \<Rightarrow> bool" where
  "artifact_name f \<longleftrightarrow> trim_space f = f \<and> list_all plain_segment (split_on (CHR ''/'') f)
     \<and> \<not> prefix ''resource.'' (last (split_on (CHR ''/'') f)) \<and> \<not> prefix ''.declarest-'' (last (split_on (CHR ''/'') f))"

abbreviation artifact_path :: "repo_env \<Rightarrow> string list \<Rightarrow> string \<Rightarrow> file_path" where
  "artifact_path env segs f \<equiv> resource_dir env segs @ split_on (CHR ''/'') f"

lemma artifact_name_normal:
  assumes "artifact_name f"
  shows "normalizeArtifactRelativePath f = Ok f" "split_on (CHR ''/'') f \<noteq> []"
proof -
  let ?s = "split_on (CHR ''/'') f"
  have p: "list_all plain_segment ?s" "trim_space f = f" using assms by (simp_all add: artifact_name_def)
  show ne: "?s \<noteq> []" by (cases f) (auto split: list.split)
  have j: "join_with ''/'' ?s = f" by (rule join_split)
  obtain x xs where x: "?s = x # xs" "plain_segment x" using ne p(1) by (cases ?s) auto
  have f: "f \<noteq> []" using x by (auto simp: plain_segment_def)
  have np: "\<not> prefix ''/'' f" using x by (cases f) (auto simp: plain_segment_def)
  have c: "path_clean f = f" using np f p(1) ne j by (simp add: path_clean_def clean_segments_plain)
  have "f \<noteq> ''.''" using x by (auto simp: plain_segment_def)
  moreover have "''..'' \<notin> set ?s" using p(1) by (auto simp: list_all_iff plain_segment_def)
  ultimately show "normalizeArtifactRelativePath f = Ok f" using p(2) f np c by (simp add: normalizeArtifactRelativePath_def Let_def)
qed

lemma resourceArtifactFilePath_Ok:
  assumes "plain_env env" "list_all plain_segment segs" "segs \<noteq> []" "artifact_name f"
  shows "resourceArtifactFilePath env t (rooted_path segs) f = Ok p \<Longrightarrow> p = artifact_path env segs f"
    and "under_base env t (resource_dir env segs) \<Longrightarrow> under_base env t (artifact_path env segs f)
      \<Longrightarrow> resourceArtifactFilePath env t (rooted_path segs) f = Ok (artifact_path env segs f)"
proof -
  have r: "rooted_path segs \<noteq> ''/''" using assms(2,3) by (simp add: rooted_path_root)
  have j: "join_relative (resource_dir env segs) f = artifact_path env segs f"
    using assms by (simp add: join_relative_def clean_segments_plain plain_env_def artifact_name_def)
  note n = artifact_name_normal(1)[OF assms(4)] and b = join_relative_base[OF assms(1-3)]
  show "resourceArtifactFilePath env t (rooted_path segs) f = Ok p \<Longrightarrow> p = artifact_path env segs f"
    using n j collectionDirPath_Ok[OF assms(1,2)] by (auto simp: resourceArtifactFilePath_def Let_def split: result.splits if_splits)
  show "under_base env t (resource_dir env segs) \<Longrightarrow> under_base env t (artifact_path env segs f)
      \<Longrightarrow> resourceArtifactFilePath env t (rooted_path segs) f = Ok (artifact_path env segs f)"
    using n j b r by (simp add: resourceArtifactFilePath_def collectionDirPath_def Let_def)
qed

lemma file_clear_path:
  assumes "wf_tree t" "files_of t p \<noteq> None"
  shows "clear_path t p"
proof -
  obtain d where "lookup_node t p = Some (FileNode d)" using assms(2) by (auto simp: files_of_def split: option.splits node.splits)
  then show ?thesis using wf_tree_prefix[OF assms(1)] by (auto simp: clear_path_def files_of_None_dir)
qed

lemma read_artifact:
  assumes "wf_tree t" "plain_env env" "repo_faults env = no_faults" "list_all plain_segment segs"
    and "resource_path lp = Ok (rooted_path segs)" "artifact_name f" "files_of t (artifact_path env segs f) = Some content"
  shows "ReadResourceArtifact env t lp f = Ok content"
proof -
  have segs: "segs \<noteq> []" using assms(5) by (auto simp: resource_path_def rooted_path_def split: result.splits if_splits)
  have n: "lookup_node t (artifact_path env segs f) = Some (FileNode content)"
    using assms(7) by (auto simp: files_of_def split: option.splits node.splits)
  have c: "clear_path t (artifact_path env segs f)" using file_clear_path[OF assms(1)] assms(7) by simp
  then have "under_base env t (artifact_path env segs f)" "under_base env t (resource_dir env segs)"
    using under_base_iff[OF assms(1-3)] clear_path_prefix[OF c, of "resource_dir env segs"] assms(2,4,6)
    by (auto simp: plain_env_def artifact_name_def)
  then have "resourceArtifactFilePath env t (rooted_path segs) f = Ok (artifact_path env segs f)"
    using resourceArtifactFilePath_Ok(2)[OF assms(2,4) segs assms(6)] by blast
  then show ?thesis using assms(3,5) n by (simp add: ReadResourceArtifact_def os_read_file_def no_faults_def)
qed

lemma save_artifacts_files:
  assumes env: "plain_env env" "list_all plain_segment segs" "segs \<noteq> []"
  shows "save_artifacts env (rooted_path segs) pp artifacts t = (None, t') \<Longrightarrow> wf_tree t \<Longrightarrow> \<forall>a \<in> set artifacts. artifact_name (fst a)
    \<Longrightarrow> wf_tree t' \<and> files_of t' = fold (\<lambda>(f, c) m. m(artifact_path env segs f \<mapsto> c)) artifacts (files_of t)
      \<and> (\<forall>a \<in> set artifacts. artifact_path env segs (fst a) \<noteq> pp)"
proof (induction artifacts arbitrary: t)
  case (Cons a artifacts)
  obtain f c where a: "a = (f, c)" by force
  have f: "artifact_name f" using Cons.prems(3) a by simp
  obtain p t1 where p: "resourceArtifactFilePath env t (rooted_path segs) f = Ok p" "p \<noteq> pp"
    and w: "writeFileAtomically env p c ''.declarest-artifact-'' ''resource artifact'' t = (None, t1)"
    and rest: "save_artifacts env (rooted_path segs) pp artifacts t1 = (None, t')"
    using Cons.prems(1) a by (auto split: option.splits result.splits if_splits prod.splits)
  have p_eq: "p = artifact_path env segs f" by (rule resourceArtifactFilePath_Ok(1)[OF env f p(1)])
  let ?s = "split_on (CHR ''/'') f"
  have ne: "?s \<noteq> []" by (rule artifact_name_normal(2)[OF f])
  have split: "p = (resource_dir env segs @ butlast ?s) @ [last ?s]" using p_eq ne by simp
  have "\<not> prefix ''.declarest-artifact-'' (last ?s)"
    using f by (auto simp: artifact_name_def prefix_def)
  note wr = writeFileAtomically_files[OF w[unfolded split] Cons.prems(2) this]
  have "files_of t1 = (files_of t)(artifact_path env segs f \<mapsto> c)" using wr(2) split p_eq by simp
  then show ?case using Cons.IH[OF rest wr(1)] Cons.prems(3) a p(2) p_eq by simp
qed simp

lemma fold_update_other: "q \<notin> (\<lambda>a. g (fst a)) ` set xs \<Longrightarrow> fold (\<lambda>(f, c) m. m(g f \<mapsto> c)) xs m q = m q"
  by (induction xs arbitrary: m) auto

lemma fold_update_get:
  "distinct (map (\<lambda>a. g (fst a)) xs) \<Longrightarrow> (f, c) \<in> set xs \<Longrightarrow> fold (\<lambda>(f, c) m. m(g f \<mapsto> c)) xs m (g f) = Some c"
proof (induction xs arbitrary: m)
  case (Cons a xs)
  show ?case
  proof (cases "a = (f, c)")
    case True
    then show ?thesis using Cons.prems fold_update_other[of "g f" g xs "m(g f \<mapsto> c)"] by (simp del: fun_upd_apply) simp
  next
    case False
    then show ?thesis using Cons by (cases a) auto
  qed
qed simp

section \<open>Saving and reading back\<close>

lemma artifact_paths_distinct:
  assumes "\<forall>a \<in> set artifacts. artifact_name (fst a)" "distinct (map fst artifacts)"
  shows "distinct (map (\<lambda>a. artifact_path env segs (fst a)) artifacts)"
proof -
  have "inj_on (\<lambda>a. artifact_path env segs (fst a)) (set artifacts)"
  proof (rule inj_onI)
    fix a b assume ab: "a \<in> set artifacts" "b \<in> set artifacts" "artifact_path env segs (fst a) = artifact_path env segs (fst b)"
    then have "split_on (CHR ''/'') (fst a) = split_on (CHR ''/'') (fst b)" by simp
    then have "fst a = fst b" by (metis join_split)
    then show "a = b" using ab(1,2) assms(2) by (metis distinct_map inj_on_def)
  qed
  moreover have "distinct artifacts" using assms(2) by (simp add: distinct_map)
  ultimately show ?thesis by (simp add: distinct_map)
qed

lemma SaveResourceWithArtifacts_reads:
  assumes "SaveResourceWithArtifacts env lp content artifacts t = (None, t')" "resource_path lp = Ok (rooted_path segs)"
    and "wf_tree t" "plain_env env" "list_all plain_segment segs" "repo_faults env = no_faults"
    and "\<And>files. CHR ''/'' \<notin> set (Extension (desiredPayloadDescriptor env content files))"
    and "\<forall>a \<in> set artifacts. artifact_name (fst a)" "distinct (map fst artifacts)" "(f, c) \<in> set artifacts"
  shows "ReadResourceArtifact env t' lp f = Ok c"
proof -
  have segs: "segs \<noteq> []" using assms(2) by (auto simp: resource_path_def rooted_path_def split: result.splits if_splits)
  obtain target existing n t1 where x: "resolvePayloadTarget env t (rooted_path segs) content = Ok (target, existing)"
    and s: "save_artifacts env (rooted_path segs) (info_Path target) artifacts t = (None, t1)"
    and w: "write_payload env target existing \<lparr>Value = n, Descriptor = info_Descriptor target\<rparr> t1 = (None, t')"
    using assms(1,2) by (auto simp: SaveResourceWithArtifacts_def split: result.splits prod.splits option.splits)
  note r = resolvePayloadTarget_Ok[OF assms(4,5) segs assms(7) x] and sf = save_artifacts_files[OF assms(4,5) segs s assms(3,8)]
  have ex: "existing = Some info \<Longrightarrow> info_Path info = resource_dir env segs @ [info_Name info] \<and> prefix ''resource.'' (info_Name info)" for info
    using discoverPayloadFiles_Some[OF assms(3,4,5)] r(1) by blast
  have name: "prefix ''resource.'' (payload_name (Extension (info_Descriptor target)))" using payload_name_plain(2) assms(7) r(2) by simp
  have own: "wf_tree t' \<and> own_change env segs t1 t'" using write_payload_own[OF w _ r(3) name ex] sf by blast
  have fn: "artifact_name f" using assms(8,10) by force
  have "files_of t' (artifact_path env segs f) = files_of t1 (artifact_path env segs f)"
  proof (rule ccontr)
    assume "files_of t' (artifact_path env segs f) \<noteq> files_of t1 (artifact_path env segs f)"
    then obtain nm where nm: "split_on (CHR ''/'') f = [nm]" "prefix ''resource.'' nm \<or> prefix ''.declarest-tmp-'' nm"
      using own unfolding own_change_def by fastforce
    then show False using fn by (auto simp: artifact_name_def prefix_def)
  qed
  moreover have "files_of t1 (artifact_path env segs f) = Some c"
    using sf fold_update_get[OF artifact_paths_distinct[OF assms(8,9)] assms(10)] by simp
  ultimately show ?thesis using read_artifact[OF _ assms(4,6,5,2) fn] own by simp
qed


definition example_entries :: "ResolvedExternalizedAttribute list" where
  "example_entries = [\<lparr>rx_Path = ''/script'', rx_File = ''run.sh'', rx_Template = ''{{include %s}}'', rx_Mode = ''text'',
     rx_SaveBehavior = ''externalize'', rx_RenderBehavior = ''include''\<rparr>]"

definition example_sprintf :: "string \<Rightarrow> string \<Rightarrow> string" where
  "example_sprintf template file = ''{{include '' @ file @ ''}}''"

definition example_payload :: gval where
  "example_payload = VMap [(''script'', VString ''echo'')]"

definition example_stored :: gval where
  "example_stored = VMap [(''script'', VString ''{{include run.sh}}'')]"


end
