(* ===== verification/Repository_Removal.thy ===== *)
theory Repository_Removal
  imports Local_Repository
begin

text \<open>
  Removal from the local resource repository (\<open>Delete\<close> of
  src/internal/providers/repository/fsstore/local_resource_repository_delete.go).

  The theorems show that a removal takes away payload files only, inside the directory of its path and outside
  the reserved directories \<open>_\<close>, whatever system calls fail; that a removal that is not recursive leaves no
  payload in the directories of the collection; and that a recursive one stops at the first resource whose
  directory it removes.
\<close>

section \<open>What a removal may change\<close>

text \<open>The payload files below a directory, outside the reserved directories.\<close>

definition removable :: "file_path \<Rightarrow> file_path \<Rightarrow> bool" where
  "removable d q \<longleftrightarrow> (\<exists>rel name. q = d @ rel @ [name] \<and> ''_'' \<notin> set rel \<and> prefix ''resource.'' name)"

definition removed_below :: "file_path \<Rightarrow> file_tree \<Rightarrow> file_tree \<Rightarrow> bool" where
  "removed_below d t t' \<longleftrightarrow> wf_tree t' \<and> fst ` set t' \<subseteq> fst ` set t
     \<and> (\<forall>q. files_of t' q = files_of t q \<or> files_of t' q = None \<and> removable d q)"

lemma removed_below_refl: "wf_tree t \<Longrightarrow> removed_below d t t"
  by (simp add: removed_below_def)

lemma removed_below_trans:
  assumes "removed_below d t u" "removed_below d u v"
  shows "removed_below d t v"
proof -
  have "files_of v q = files_of t q \<or> files_of v q = None \<and> removable d q" for q
    using assms unfolding removed_below_def by (cases "removable d q") (metis, metis)
  then show ?thesis using assms unfolding removed_below_def by (meson order_trans)
qed

lemma os_remove_keys: "os_remove faults t p = Inr t' \<Longrightarrow> fst ` set t' \<subseteq> fst ` set t"
proof -
  assume "os_remove faults t p = Inr t'"
  then have "t' = map_del p t" by (auto simp: os_remove_def split: option.splits node.splits if_splits)
  then show ?thesis by (auto simp: map_del_def)
qed

lemma CleanupEmptyParents_keys: "fst ` set (snd (CleanupEmptyParents faults t current base)) \<subseteq> fst ` set t"
proof (induction faults t current base rule: CleanupEmptyParents.induct)
  case (1 faults t current base)
  show ?case
  proof (cases "current = base \<or> current = []")
    case True
    then show ?thesis by (subst CleanupEmptyParents.simps) auto
  next
    case go: False
    show ?thesis
    proof (cases "os_remove faults t current")
      case (Inl e)
      then show ?thesis using go by (subst CleanupEmptyParents.simps) (auto split: os_error.split)
    next
      case (Inr t')
      have "CleanupEmptyParents faults t current base = CleanupEmptyParents faults t' (butlast current) base"
        using go Inr by (subst CleanupEmptyParents.simps) auto
      then show ?thesis using subset_trans[OF "1.IH"[OF _ _ Inr] os_remove_keys[OF Inr]] go by simp
    qed
  qed
qed

lemma removePayloadFile_keys:
  assumes "removePayloadFile env (Some info) t = (r, t')"
  shows "fst ` set t' \<subseteq> fst ` set t"
proof -
  obtain u d b where "fst ` set u \<subseteq> fst ` set t" "t' = u \<or> t' = snd (CleanupEmptyParents (repo_faults env) u d b)"
  proof (cases "os_remove (repo_faults env) t (info_Path info)")
    case (Inl e)
    then show ?thesis using assms that[of t] by (cases e) (auto simp: removePayloadFile_def Let_def)
  next
    case (Inr u)
    then show ?thesis using assms that[OF os_remove_keys[OF Inr]] by (auto simp: removePayloadFile_def Let_def)
  qed
  then show ?thesis using subset_trans[OF CleanupEmptyParents_keys] by (elim disjE) simp_all
qed

lemma removePayloadFile_below:
  assumes "removePayloadFile env (Some info) t = (r, t')" "wf_tree t" "info_Path info = d @ rel @ [name]"
    and "''_'' \<notin> set rel" "prefix ''resource.'' name"
  shows "removed_below d t t'"
proof -
  have p: "info_Path info = (d @ rel) @ [name]" using assms(3) by simp
  note f = removePayloadFile_files[OF assms(1,2) p]
  have "removable d ((d @ rel) @ [name])" using assms(4,5) by (auto simp: removable_def)
  then have "files_of t' q = files_of t q \<or> files_of t' q = None \<and> removable d q" for q
    using f(3) by (cases "q = (d @ rel) @ [name]") (elim disjE, simp, simp)+
  then show ?thesis unfolding removed_below_def using f(1) removePayloadFile_keys[OF assms(1)] by blast
qed

section \<open>Invariants of a walk\<close>

text \<open>A property of the state that the visited function keeps on every path that satisfies \<open>V\<close> holds after the walk.\<close>

locale walk_invariant =
  fixes faults :: os_faults and visit :: "'s walk_fn" and V :: "file_path \<Rightarrow> bool" and I :: "file_tree \<times> 's \<Rightarrow> bool"
  assumes visit_keeps: "V p \<Longrightarrow> I s \<Longrightarrow> I (snd (visit p isdir err s))"
    and descends: "V p \<Longrightarrow> I s \<Longrightarrow> visit p True None s = (WalkOn, s') \<Longrightarrow> I s'
      \<Longrightarrow> os_read_dir faults (fst s') p = Inr entries \<Longrightarrow> (name, isdir) \<in> set entries \<Longrightarrow> V (p @ [name])"
begin

lemma entries_keep:
  assumes "\<And>p isdir s. V p \<Longrightarrow> I s \<Longrightarrow> I (snd (walk_dir faults visit fuel p isdir s))"
  shows "(\<And>name b. (name, b) \<in> set entries \<Longrightarrow> V (p @ [name])) \<Longrightarrow> I s \<Longrightarrow> I (snd (walk_entries faults visit fuel p entries s))"
proof (induction entries arbitrary: s)
  case (Cons e entries)
  obtain name isdir where e: "e = (name, isdir)" by force
  obtain c s1 where w: "walk_dir faults visit fuel (p @ [name]) isdir s = (c, s1)" by (rule prod.exhaust)
  have s1: "I s1" using assms[of "p @ [name]" s isdir] Cons.prems e w by auto
  have "I (snd (walk_entries faults visit fuel p entries s1))" by (rule Cons.IH) (use Cons.prems(1) s1 in auto)
  then show ?case using s1 e w by (cases c) simp_all
qed simp

lemma walk_keeps: "V p \<Longrightarrow> I s \<Longrightarrow> I (snd (walk_dir faults visit fuel p isdir s))"
proof (induction fuel arbitrary: p isdir s)
  case (Suc fuel)
  obtain c s1 where v: "visit p isdir None s = (c, s1)" by (rule prod.exhaust)
  have s1: "I s1" using visit_keeps[OF Suc.prems, of isdir None] v by simp
  show ?case
  proof (cases "c \<noteq> WalkOn \<or> \<not> isdir")
    case True
    then show ?thesis using v s1 by auto
  next
    case False
    show ?thesis
    proof (cases "os_read_dir faults (fst s1) p")
      case (Inl e)
      then show ?thesis using False v visit_keeps[OF Suc.prems(1) s1, of isdir "Some e"] by (auto split: prod.split)
    next
      case (Inr entries)
      have "V (p @ [name])" if "(name, b) \<in> set entries" for name b
        using descends[OF Suc.prems _ s1 Inr that] v False by simp
      then show ?thesis using False v Inr entries_keep[OF Suc.IH, of entries p s1] s1 by simp
    qed
  qed
qed simp

lemma WalkDir_keeps: "V p \<Longrightarrow> I s \<Longrightarrow> I (snd (WalkDir faults visit p s))"
  by (simp add: WalkDir_def case_prod_beta visit_keeps walk_keeps del: walk_dir.simps split: sum.split)

end

section \<open>Removal keeps everything else\<close>

text \<open>Names of directory entries are plain path segments.\<close>

definition plain_tree :: "file_tree \<Rightarrow> bool" where
  "plain_tree t \<longleftrightarrow> (\<forall>p \<in> fst ` set t. list_all plain_segment p)"

lemma plain_tree_removed: "plain_tree t \<Longrightarrow> removed_below d t t' \<Longrightarrow> plain_tree t'"
  unfolding plain_tree_def removed_below_def by blast

lemma plain_tree_entry:
  assumes "plain_tree t" "wf_tree t" "os_read_dir faults t p = Inr entries" "(name, isdir) \<in> set entries"
  shows "plain_segment name"
proof -
  have "entries = dir_entries t p" using assms(3) by (auto simp: os_read_dir_def split: option.splits node.splits)
  then obtain n where "map_get t (p @ [name]) = Some n" using dir_entries_iff[OF wf_tree_sorted[OF assms(2)]] assms(4) by blast
  then have "p @ [name] \<in> fst ` set t" by (force simp: sorted_map_get[OF wf_tree_sorted[OF assms(2)]])
  then show ?thesis using assms(1) unfolding plain_tree_def by fastforce
qed

lemma logical_of_dir: "logical_of env (resource_dir env segs) = rooted_path segs"
  by (simp add: logical_of_def rooted_path_def)

text \<open>Removing the payload of the resource in a directory.\<close>

lemma discovered_below:
  assumes "discoverPayloadFiles env t (rooted_path (segs @ rel)) = Ok (Some info)"
    and "removePayloadFile env (Some info) t = (r, t')" "wf_tree t" "plain_env env"
    and "list_all plain_segment (segs @ rel)" "''_'' \<notin> set rel"
  shows "removed_below (resource_dir env segs) t t'"
  using removePayloadFile_below[OF assms(2,3) _ assms(6), of "resource_dir env segs" "info_Name info"]
    discoverPayloadFiles_Some[OF assms(3,4,5,1)] by simp

lemma delete_children_below:
  assumes "plain_env env" "list_all plain_segment segs"
  shows "delete_children env (resource_dir env segs) entries t = (r, t') \<Longrightarrow> wf_tree t
    \<Longrightarrow> \<forall>(name, isdir) \<in> set entries. plain_segment name \<Longrightarrow> removed_below (resource_dir env segs) t t'"
proof (induction entries arbitrary: t)
  case Nil
  then show ?case by (simp add: removed_below_refl)
next
  case (Cons e entries)
  obtain name isdir where e: "e = (name, isdir)" by force
  have l: "logical_of env (resource_dir env segs @ [name]) = rooted_path (segs @ [name])"
    using logical_of_dir[of env "segs @ [name]"] by simp
  show ?case
  proof (cases "\<not> isdir \<or> name = ''_''")
    case True
    then show ?thesis using Cons e by simp
  next
    case go: False
    show ?thesis
    proof (cases "discoverPayloadFiles env t (rooted_path (segs @ [name]))")
      case (Err x)
      then show ?thesis using Cons.prems go e l by (simp add: removed_below_refl)
    next
      case (Ok found)
      show ?thesis
      proof (cases found)
        case None
        then show ?thesis using Cons go e l Ok by simp
      next
        case (Some info)
        obtain a u where rm: "removePayloadFile env (Some info) t = (a, u)" by fastforce
        have below: "removed_below (resource_dir env segs) t u"
          using discovered_below[where segs = segs and rel = "[name]", OF _ rm Cons.prems(2) assms(1)] Ok Some assms(2) Cons.prems(3) e go by auto
        then have wf: "wf_tree u" by (simp add: removed_below_def)
        show ?thesis
        proof (cases a)
          case None
          then have "delete_children env (resource_dir env segs) entries u = (r, t')" using Cons.prems(1) go e l Ok Some rm by simp
          from Cons.IH[OF this wf] Cons.prems(3) show ?thesis using removed_below_trans[OF below] by simp
        next
          case (Some x)
          then have "t' = u" using Cons.prems(1) go e l Ok \<open>found = Some info\<close> rm by simp
          then show ?thesis using below by simp
        qed
      qed
    qed
  qed
qed

lemma deleteCollectionDirect_below:
  assumes "plain_env env" "list_all plain_segment segs" "wf_tree t" "plain_tree t"
    and "deleteCollectionDirect env (resource_dir env segs) t = (r, t')"
  shows "removed_below (resource_dir env segs) t t'"
proof (cases "os_read_dir (repo_faults env) t (resource_dir env segs)")
  case (Inl e)
  then show ?thesis using assms(3,5) by (cases e) (auto simp: deleteCollectionDirect_def removed_below_refl)
next
  case (Inr entries)
  then have "delete_children env (resource_dir env segs) entries t = (r, t')" using assms(5) by (simp add: deleteCollectionDirect_def)
  then show ?thesis
    by (rule delete_children_below[OF assms(1,2)]) (use plain_tree_entry[OF assms(4,3) Inr] assms(3) in auto)
qed

text \<open>The directories that a recursive removal visits.\<close>

definition visited :: "repo_env \<Rightarrow> string list \<Rightarrow> file_path \<Rightarrow> bool" where
  "visited env segs p \<longleftrightarrow> (\<exists>rel. p = resource_dir env (segs @ rel) \<and> list_all plain_segment rel \<and> ''_'' \<notin> set (butlast rel))"

lemma delete_visit_keeps:
  assumes "plain_env env" "list_all plain_segment segs" "visited env segs p" "wf_tree (fst s)"
  shows "removed_below (resource_dir env segs) (fst s) (fst (snd (delete_visit env p isdir err s)))"
proof -
  obtain rel where p: "p = resource_dir env (segs @ rel)" "list_all plain_segment rel" "''_'' \<notin> set (butlast rel)"
    using assms(3) by (auto simp: visited_def)
  show ?thesis
  proof (cases "err = None \<and> isdir \<and> \<not> (p \<noteq> [] \<and> last p = ''_'') \<and> (\<exists>info. discoverPayloadFiles env (fst s) (logical_of env p) = Ok (Some info))")
    case True
    then obtain info where info: "discoverPayloadFiles env (fst s) (rooted_path (segs @ rel)) = Ok (Some info)"
      using p(1) logical_of_dir[of env "segs @ rel"] by auto
    obtain a u where rm: "removePayloadFile env (Some info) (fst s) = (a, u)" by fastforce
    have "''_'' \<notin> set rel" using True p by (cases rel rule: rev_cases) auto
    then have "removed_below (resource_dir env segs) (fst s) u"
      using discovered_below[OF info rm assms(4,1)] p(2) assms(2) by simp
    moreover have "fst (snd (delete_visit env p isdir err s)) = u"
      using True info rm p(1) logical_of_dir[of env "segs @ rel"] by (auto simp: delete_visit_def split: option.split)
    ultimately show ?thesis by simp
  next
    case False
    then have "snd (delete_visit env p isdir err s) = s" by (auto simp: delete_visit_def split: option.split result.split)
    then show ?thesis using removed_below_refl[OF assms(4)] by simp
  qed
qed

definition delete_inv :: "repo_env \<Rightarrow> string list \<Rightarrow> file_tree \<Rightarrow> file_tree \<times> unit \<Rightarrow> bool" where
  "delete_inv env segs t s \<longleftrightarrow> plain_env env \<and> list_all plain_segment segs \<and> plain_tree t
     \<and> removed_below (resource_dir env segs) t (fst s)"

interpretation removal: walk_invariant "repo_faults env" "delete_visit env" "visited env segs" "delete_inv env segs t"
  for env segs t
proof
  fix p s isdir err assume v: "visited env segs p" and I: "delete_inv env segs t s"
  then have "wf_tree (fst s)" by (simp add: delete_inv_def removed_below_def)
  then show "delete_inv env segs t (snd (delete_visit env p isdir err s))"
    using delete_visit_keeps[OF _ _ v] I unfolding delete_inv_def by (blast intro: removed_below_trans)
next
  fix p s s' entries name isdir
  assume v: "visited env segs p" "delete_visit env p True None s = (WalkOn, s')" and I: "delete_inv env segs t s'"
    and e: "os_read_dir (repo_faults env) (fst s') p = Inr entries" "(name, isdir) \<in> set entries"
  from I have "wf_tree (fst s')" "plain_tree (fst s')" by (auto simp: delete_inv_def removed_below_def plain_tree_removed)
  then have n: "plain_segment name" using plain_tree_entry e by blast
  obtain rel where p: "p = resource_dir env (segs @ rel)" "list_all plain_segment rel" "''_'' \<notin> set (butlast rel)"
    using v(1) by (auto simp: visited_def)
  have "\<not> (p \<noteq> [] \<and> last p = ''_'')" using v(2) by (auto simp: delete_visit_def split: if_splits)
  then have "''_'' \<notin> set rel" using p by (cases rel rule: rev_cases) auto
  then show "visited env segs (p @ [name])" unfolding visited_def using p n by (intro exI[of _ "rel @ [name]"]) simp
qed

lemma deleteCollectionRecursive_below:
  assumes "plain_env env" "list_all plain_segment segs" "wf_tree t" "plain_tree t"
    and "deleteCollectionRecursive env (resource_dir env segs) t = (r, t')"
  shows "removed_below (resource_dir env segs) t t'"
proof -
  let ?d = "resource_dir env segs"
  have "visited env segs ?d" unfolding visited_def by (intro exI[of _ "[]"]) simp
  then have "delete_inv env segs t (snd (WalkDir (repo_faults env) (delete_visit env) ?d (t, ())))"
    by (rule removal.WalkDir_keeps) (use assms(1-4) in \<open>simp add: delete_inv_def removed_below_refl\<close>)
  moreover have "t' = fst (snd (WalkDir (repo_faults env) (delete_visit env) ?d (t, ())))"
    using assms(5) by (auto simp: deleteCollectionRecursive_def split: prod.splits walk_control.splits bool.splits)
  ultimately show ?thesis by (simp add: delete_inv_def)
qed

text \<open>C33: whatever system calls fail, a removal takes away payload files only, below the directory of its path and
  outside the reserved directories \<open>_\<close>; every other file keeps its content.\<close>

theorem Delete_removes_only_payloads:
  assumes "Repository_Delete env lp recursive t = (r, t')" "NormalizeLogicalPath lp = Ok (rooted_path segs)"
    and "wf_tree t" "plain_tree t" "plain_env env" "list_all plain_segment segs"
  shows "files_of t' q = files_of t q
    \<or> files_of t' q = None \<and> (\<exists>rel name. q = resource_dir env segs @ rel @ [name] \<and> ''_'' \<notin> set rel \<and> prefix ''resource.'' name)"
proof -
  let ?d = "resource_dir env segs"
  have "removed_below ?d t t'"
  proof (cases "discoverPayloadFiles env t (rooted_path segs)")
    case (Err e)
    then show ?thesis using assms(1-3) by (simp add: Repository_Delete_def removed_below_refl)
  next
    case (Ok found)
    show ?thesis
    proof (cases found)
      case (Some info)
      then have "removePayloadFile env (Some info) t = (r, t')" using assms(1,2) Ok by (simp add: Repository_Delete_def)
      then show ?thesis using discovered_below[where rel = "[]", OF _ _ assms(3,5)] assms(6) Ok Some by simp
    next
      case None
      show ?thesis
      proof (cases "collectionDirPath env t (rooted_path segs)")
        case (Err e)
        then show ?thesis using assms(1-3) Ok None by (simp add: Repository_Delete_def removed_below_refl)
      next
        case c: (Ok d)
        then have d: "d = ?d" by (rule collectionDirPath_Ok[OF assms(5,6)])
        show ?thesis
        proof (cases recursive)
          case True
          then have "deleteCollectionRecursive env ?d t = (r, t')" using assms(1,2) Ok None c d by (simp add: Repository_Delete_def)
          then show ?thesis by (rule deleteCollectionRecursive_below[OF assms(5,6,3,4)])
        next
          case False
          then have "deleteCollectionDirect env ?d t = (r, t')" using assms(1,2) Ok None c d by (simp add: Repository_Delete_def)
          then show ?thesis by (rule deleteCollectionDirect_below[OF assms(5,6,3,4)])
        qed
      qed
    qed
  qed
  then show ?thesis by (simp add: removed_below_def removable_def)
qed

section \<open>A removal that is not recursive is complete\<close>

lemma discovered_only:
  assumes "wf_tree t" "plain_env env" "repo_faults env = no_faults" "list_all plain_segment segs" "segs \<noteq> []"
    and "discoverPayloadFiles env t (rooted_path segs) = Ok found" "prefix ''resource.'' n" "files_of t (resource_dir env segs @ [n]) \<noteq> None"
  shows "\<exists>info. found = Some info \<and> info_Path info = resource_dir env segs @ [n]"
  using known_payload_names[OF assms(1-5) discoverPayloadFiles_Ok_clear[OF assms(1-6)] assms(6-8)] .

text \<open>No payload file lies in the directory.\<close>

definition no_payload :: "file_tree \<Rightarrow> file_path \<Rightarrow> bool" where
  "no_payload t d \<longleftrightarrow> (\<forall>n. prefix ''resource.'' n \<longrightarrow> files_of t (d @ [n]) = None)"

lemma no_payload_removed: "no_payload t d \<Longrightarrow> removed_below b t t' \<Longrightarrow> no_payload t' d"
  unfolding no_payload_def removed_below_def by metis

lemma delete_children_complete:
  assumes env: "plain_env env" "repo_faults env = no_faults" "list_all plain_segment segs"
  shows "delete_children env (resource_dir env segs) entries t = (None, t') \<Longrightarrow> wf_tree t
    \<Longrightarrow> \<forall>(name, isdir) \<in> set entries. plain_segment name
    \<Longrightarrow> (name, True) \<in> set entries \<Longrightarrow> name \<noteq> ''_'' \<Longrightarrow> no_payload t' (resource_dir env segs @ [name])"
proof (induction entries arbitrary: t)
  case (Cons e entries)
  obtain name' isdir where e: "e = (name', isdir)" by force
  let ?d = "resource_dir env segs"
  have l: "logical_of env (?d @ [name']) = rooted_path (segs @ [name'])"
    using logical_of_dir[of env "segs @ [name']"] by simp
  have plain: "\<forall>(name, isdir) \<in> set entries. plain_segment name" using Cons.prems(3) by simp
  show ?case
  proof (cases "\<not> isdir \<or> name' = ''_''")
    case True
    then have "(name, True) \<in> set entries" using Cons.prems(4,5) e by auto
    then show ?thesis using Cons.IH[OF _ Cons.prems(2) plain _ Cons.prems(5)] Cons.prems(1) True e by simp
  next
    case go: False
    then obtain found where found: "discoverPayloadFiles env t (rooted_path (segs @ [name'])) = Ok found"
      using Cons.prems(1) e l by (auto split: result.splits)
    have segs': "list_all plain_segment (segs @ [name'])" "segs @ [name'] \<noteq> []" using env(3) Cons.prems(3) e by auto
    note only = discovered_only[OF Cons.prems(2) env(1,2) segs' found]
    show ?thesis
    proof (cases found)
      case None
      have del: "delete_children env ?d entries t = (None, t')" using Cons.prems(1) go e l found None by simp
      have "no_payload t (?d @ [name'])" unfolding no_payload_def using only None by force
      moreover have "removed_below ?d t t'" by (rule delete_children_below[OF env(1,3) del Cons.prems(2) plain])
      ultimately show ?thesis using Cons.IH[OF del Cons.prems(2) plain _ Cons.prems(5)] Cons.prems(4) e no_payload_removed by auto
    next
      case (Some info)
      then obtain u where rm: "removePayloadFile env (Some info) t = (None, u)" and del: "delete_children env ?d entries u = (None, t')"
        using Cons.prems(1) go e l found by (auto split: prod.splits option.splits)
      have p: "info_Path info = (?d @ [name']) @ [info_Name info]"
        using discoverPayloadFiles_Some[OF Cons.prems(2) env(1) segs'(1)] found Some by simp
      note f = removePayloadFile_files[OF rm Cons.prems(2) p]
      have "no_payload u (?d @ [name'])" unfolding no_payload_def using only Some f(2) p by force
      moreover have "removed_below ?d u t'" by (rule delete_children_below[OF env(1,3) del f(1) plain])
      ultimately show ?thesis using Cons.IH[OF del f(1) plain _ Cons.prems(5)] Cons.prems(4) e no_payload_removed by auto
    qed
  qed
qed simp

text \<open>A removal of a collection that is not recursive and succeeds, without system faults, leaves no payload
  file in any of the directories of the collection but the reserved one.\<close>

theorem Delete_direct_complete:
  assumes "Repository_Delete env lp False t = (None, t')" "NormalizeLogicalPath lp = Ok (rooted_path segs)"
    and "wf_tree t" "plain_tree t" "plain_env env" "list_all plain_segment segs" "repo_faults env = no_faults"
    and "discoverPayloadFiles env t (rooted_path segs) = Ok None" "name \<noteq> ''_''"
  shows "\<forall>n. prefix ''resource.'' n \<longrightarrow> files_of t' (resource_dir env segs @ [name, n]) = None"
proof -
  let ?d = "resource_dir env segs"
  obtain d where c: "collectionDirPath env t (rooted_path segs) = Ok d"
    using assms(8) by (auto simp: discoverPayloadFiles_def split: result.splits)
  have d: "d = ?d" by (rule collectionDirPath_Ok[OF assms(5,6) c])
  have del: "deleteCollectionDirect env ?d t = (None, t')" using assms(1,2,8) c d by (simp add: Repository_Delete_def)
  have "no_payload t' (?d @ [name])"
  proof (cases "lookup_node t (?d @ [name]) = Some DirNode")
    case True
    then have "lookup_node t ?d = Some DirNode" using wf_tree_parent[OF assms(3), of ?d name] by simp
    then have e: "os_read_dir (repo_faults env) t ?d = Inr (dir_entries t ?d)" using assms(7) by (simp add: os_read_dir_def no_faults_def)
    have "map_get t (?d @ [name]) = Some DirNode" using True by (simp add: lookup_node_def)
    then have "(name, True) \<in> set (dir_entries t ?d)" using dir_entries_iff[OF wf_tree_sorted[OF assms(3)]] by blast
    moreover have "delete_children env ?d (dir_entries t ?d) t = (None, t')" using del e by (simp add: deleteCollectionDirect_def)
    ultimately show ?thesis
      using delete_children_complete[OF assms(5,7,6) _ assms(3) _ _ assms(9)] plain_tree_entry[OF assms(4,3) e] by blast
  next
    case False
    then have "no_payload t (?d @ [name])" unfolding no_payload_def files_of_def
      using wf_tree_parent[OF assms(3), of "?d @ [name]"] by (metis option.simps(4))
    then show ?thesis using no_payload_removed deleteCollectionDirect_below[OF assms(5,6,3,4) del] by blast
  qed
  then show ?thesis by (simp add: no_payload_def)
qed

section \<open>Examples\<close>

lemma recursive_example: "Repository_Delete example_env ''/c'' True example_tree = (None,
     [([''repo''], DirNode), ([''repo'', ''c''], DirNode), ([''repo'', ''c'', ''b''], DirNode),
     ([''repo'', ''c'', ''b'', ''resource.txt''], FileNode ''two'')])"
  by code_simp

lemma direct_example: "Repository_Delete example_env ''/c'' False example_tree = (None, [([''repo''], DirNode)])"
  by code_simp

lemma plain_example_tree: "plain_tree example_tree"
proof -
  have "list_all (\<lambda>(p, n). list_all plain_segment p) example_tree" by code_simp
  then show ?thesis by (auto simp: plain_tree_def list_all_iff)
qed

theorem Delete_removes_only_payloads_witness:
  "let t' = [([''repo''], DirNode)]; q = [''repo'', ''c'', ''a'', ''resource.txt''] in
   files_of t' q = files_of example_tree q
   \<or> files_of t' q = None \<and> (\<exists>rel name. q = [''repo'', ''c''] @ rel @ [name] \<and> ''_'' \<notin> set rel \<and> prefix ''resource.'' name)"
proof -
  have n: "NormalizeLogicalPath ''/c'' = Ok (rooted_path [''c''])" "list_all plain_segment [''c'']" by code_simp+
  have b: "resource_dir example_env [''c''] = [''repo'', ''c'']" by (simp add: example_env_def)
  show ?thesis unfolding Let_def
    using Delete_removes_only_payloads[OF direct_example n(1) wf_example_tree plain_example_tree plain_example_env n(2),
        of "[''repo'', ''c'', ''a'', ''resource.txt'']", unfolded b] .
qed

theorem Delete_direct_complete_witness:
  "files_of [([''repo''], DirNode)] [''repo'', ''c'', ''a'', ''resource.txt''] = None"
proof -
  have n: "NormalizeLogicalPath ''/c'' = Ok (rooted_path [''c''])" "list_all plain_segment [''c'']" "''a'' \<noteq> ''_''" by code_simp+
  have d: "discoverPayloadFiles example_env example_tree (rooted_path [''c'']) = Ok None" by code_simp
  have f: "repo_faults example_env = no_faults" by (simp add: example_env_def)
  have b: "resource_dir example_env [''c''] = [''repo'', ''c'']" by (simp add: example_env_def)
  show ?thesis
    using Delete_direct_complete[OF direct_example n(1) wf_example_tree plain_example_tree plain_example_env n(2) f d n(3), unfolded b]
    by simp
qed

text \<open>A recursive removal reports success although resources are left. The walk visits the directory of the
  first resource, whose payload is removed together with the then empty directory; reading that directory fails with
  the error that ends the walk and is taken for a missing collection.\<close>

theorem recursive_delete_leaves_resources:
  "\<exists>t'. Repository_Delete example_env ''/c'' True example_tree = (None, t')
    \<and> Repository_Get example_env t' ''/c/a'' = Err (NotFound (''resource %q not found'', [''/c/a'']) None)
    \<and> (\<exists>content. Repository_Get example_env t' ''/c/b'' = Ok content \<and> Value content = VString ''two'')"
  unfolding recursive_example by (intro exI conjI) (rule refl, code_simp, code_simp, simp)

end
