(* ===== verification/Metadata_Resolution.thy ===== *)
theory Metadata_Resolution
  imports Metadata_Store Repository_Removal
begin

text \<open>
  How the metadata of a path is found (fs_metadata_service_resolve.go and fs_metadata_service_layered.go of
  src/internal/providers/metadata/fs): the directories of the store whose names match the segments of the path, literally,
  as a wildcard or as \<open>_\<close>, give the documents that are merged; a layered service merges a shared and a local store.

  The theorems show that a path finds exactly the selectors that match it segment by segment, and that the metadata of a
  path is the merge of their documents, from the root down and literal names after wildcards.
\<close>

section \<open>Resolution\<close>

record resolvedPathTarget =
  rt_path :: string
  rt_collection :: bool

record selectorMatch =
  sm_selector :: string
  sm_matchedCollection :: string

record resolvedMetadataResult =
  res_metadata :: ResourceMetadata
  res_descendant :: "string option"

definition normalizeResolvePath :: "string \<Rightarrow> resolvedPathTarget result" where
  "normalizeResolvePath logicalPath =
     (case ParsePathDescriptor logicalPath of
        Err e \<Rightarrow> Err e
      | Ok d \<Rightarrow> Ok \<lparr>rt_path = pd_Selector d, rt_collection = pd_Collection d\<rparr>)"

definition splitPathSegments :: "string \<Rightarrow> string list" where
  "splitPathSegments v =
     (let trimmed = trim_char (trim_space v) (CHR ''/'') in if trimmed = [] then [] else split_on (CHR ''/'') trimmed)"

definition joinSelector :: "string \<Rightarrow> string \<Rightarrow> string" where
  "joinSelector parent child = (if parent = ''/'' then ''/'' @ child else parent @ ''/'' @ child)"

definition joinConcreteCollectionPath :: "string \<Rightarrow> string \<Rightarrow> string" where
  "joinConcreteCollectionPath parent segment = (if parent = ''/'' then ''/'' @ segment else parent @ ''/'' @ segment)"

definition collectionPathForLogicalPath :: "string \<Rightarrow> string" where
  "collectionPathForLogicalPath logicalPath =
     (if logicalPath = ''/'' then ''/''
      else let collectionPath = path_dir logicalPath in if collectionPath = ''.'' \<or> collectionPath = [] then ''/'' else collectionPath)"

definition isDescendantCollectionPath :: "string \<Rightarrow> string \<Rightarrow> bool" where
  "isDescendantCollectionPath ancestor candidate =
     (if ancestor = ''/'' then candidate \<noteq> ''/'' else prefix (ancestor @ ''/'') candidate)"

definition collectionMetadataAppliesToTarget :: "resolvedPathTarget \<Rightarrow> string \<Rightarrow> SelectorSpec option \<Rightarrow> bool" where
  "collectionMetadataAppliesToTarget target matchedCollection selector =
     (let targetCollection = (if rt_collection target then rt_path target else collectionPathForLogicalPath (rt_path target)) in
      matchedCollection = ''/'' \<or> rt_path target = matchedCollection \<or> targetCollection = matchedCollection
      \<or> AllowsDescendants selector \<and> isDescendantCollectionPath matchedCollection targetCollection)"

definition selectorDepth :: "string \<Rightarrow> nat" where
  "selectorDepth v = length (splitPathSegments v)"

definition preferDescendantContext :: "string option \<Rightarrow> string option \<Rightarrow> string option" where
  "preferDescendantContext current nxt =
     (case nxt of
        None \<Rightarrow> current
      | Some n \<Rightarrow>
          (case current of
             None \<Rightarrow> Some n
           | Some c \<Rightarrow> if selectorDepth n \<ge> selectorDepth c then Some n else Some c))"

definition selectorMatchKey :: "selectorMatch \<Rightarrow> string" where
  "selectorMatchKey v = sm_selector v @ [CHR 0x00] @ sm_matchedCollection v"

text \<open>A map of matches keeps its keys in order, so that \<open>sortedSelectorMatches\<close> lists its values.\<close>

type_synonym match_map = "(string, selectorMatch) gomap"

definition sortedSelectorMatches :: "match_map \<Rightarrow> selectorMatch list" where
  "sortedSelectorMatches values = map snd values"

fun match_entries :: "string \<Rightarrow> string \<Rightarrow> (string \<times> bool) list \<Rightarrow> (string list \<times> string list) result" where
  "match_entries parentSelector segment [] = Ok ([], [])"
| "match_entries parentSelector segment ((childName, isdir) # entries) =
     (if \<not> isdir then match_entries parentSelector segment entries
      else
        let childSelector = joinSelector parentSelector childName;
            wildcard = (\<lambda>r. case r of Err e \<Rightarrow> Err e | Ok (ws, ls) \<Rightarrow> Ok (childSelector # ws, ls));
            literal = (\<lambda>r. case r of Err e \<Rightarrow> Err e | Ok (ws, ls) \<Rightarrow> Ok (ws, childSelector # ls))
        in if childName = ''_'' then wildcard (match_entries parentSelector segment entries)
           else if hasWildcardPattern childName then
             (case path_match childName segment of
                None \<Rightarrow> Err (Invalid (''invalid wildcard selector %q'', [childSelector]) (Some (PlainError (msg ''syntax error in pattern'') None)))
              | Some True \<Rightarrow> wildcard (match_entries parentSelector segment entries)
              | Some False \<Rightarrow> match_entries parentSelector segment entries)
           else if childName = segment then literal (match_entries parentSelector segment entries)
           else match_entries parentSelector segment entries)"

definition matchingCollectionCandidates :: "metadata_env \<Rightarrow> file_tree \<Rightarrow> string \<Rightarrow> string \<Rightarrow> (string list \<times> string list) result" where
  "matchingCollectionCandidates env t parentSelector segment =
     (case selectorDirPath env t parentSelector of
        Err e \<Rightarrow> Err e
      | Ok parentDir \<Rightarrow>
          (case os_read_dir (env_faults env) t parentDir of
             Inl ErrNotExist \<Rightarrow> Ok ([], [])
           | Inl e \<Rightarrow> Err (Internal (msg ''failed to list metadata selectors'') (Some (os_cause e)))
           | Inr entries \<Rightarrow> match_entries parentSelector segment entries))"

definition apply_match ::
  "metadata_env \<Rightarrow> file_tree \<Rightarrow> resolvedPathTarget \<Rightarrow> metadataPathKind \<Rightarrow> selectorMatch \<Rightarrow> resolvedMetadataResult \<Rightarrow> resolvedMetadataResult result" where
  "apply_match env t target kind m result =
     (case metadataFilePath env t (sm_selector m) kind of
        Err e \<Rightarrow> Err e
      | Ok targetMetadataPath \<Rightarrow>
     (case tryReadMetadata env t (sm_selector m) kind of
        Err e \<Rightarrow> Err e
      | Ok None \<Rightarrow> Ok result
      | Ok (Some item) \<Rightarrow>
     (case resolveMetadataDefaults env t (sm_selector m) kind item of
        Err e \<Rightarrow> Err e
      | Ok resolvedItem \<Rightarrow>
          if kind = metadataPathCollection \<and> \<not> collectionMetadataAppliesToTarget target (sm_matchedCollection m) (md_Selector resolvedItem)
          then Ok result
          else Ok \<lparr>res_metadata = MergeResourceMetadata (res_metadata result) resolvedItem,
                   res_descendant =
                     (if kind = metadataPathCollection \<and> AllowsDescendants (md_Selector resolvedItem)
                      then preferDescendantContext (res_descendant result) (Some (sm_matchedCollection m)) else res_descendant result)\<rparr>)))"

fun apply_matches ::
  "metadata_env \<Rightarrow> file_tree \<Rightarrow> resolvedPathTarget \<Rightarrow> selectorMatch list \<Rightarrow> resolvedMetadataResult \<Rightarrow> resolvedMetadataResult result" where
  "apply_matches env t target [] result = Ok result"
| "apply_matches env t target (m # ms) result =
     (case apply_match env t target metadataPathCollection m result of
        Err e \<Rightarrow> Err e
      | Ok result' \<Rightarrow> apply_matches env t target ms result')"

text \<open>The candidates of one segment under all parents: wildcards, literals, and both as the parents of the next segment.\<close>

definition put_match :: "string \<Rightarrow> string \<Rightarrow> string \<Rightarrow> match_map \<Rightarrow> match_map" where
  "put_match parentCollection segment selector values =
     (let m = \<lparr>sm_selector = selector, sm_matchedCollection = joinConcreteCollectionPath parentCollection segment\<rparr>
      in map_put (selectorMatchKey m) m values)"

fun collect_matches ::
  "metadata_env \<Rightarrow> file_tree \<Rightarrow> string \<Rightarrow> selectorMatch list \<Rightarrow> match_map \<times> match_map \<times> match_map \<Rightarrow> (match_map \<times> match_map \<times> match_map) result" where
  "collect_matches env t segment [] acc = Ok acc"
| "collect_matches env t segment (parentMatch # parents) (wildcardCandidates, literalCandidates, nextParents) =
     (case matchingCollectionCandidates env t (sm_selector parentMatch) segment of
        Err e \<Rightarrow> Err e
      | Ok (wildcards, literals) \<Rightarrow>
          (let put = put_match (sm_matchedCollection parentMatch) segment in
           collect_matches env t segment parents
             (fold put wildcards wildcardCandidates, fold put literals literalCandidates, fold put literals (fold put wildcards nextParents))))"

fun resolve_segments ::
  "metadata_env \<Rightarrow> file_tree \<Rightarrow> resolvedPathTarget \<Rightarrow> string list \<Rightarrow> selectorMatch list \<Rightarrow> resolvedMetadataResult \<Rightarrow> resolvedMetadataResult result" where
  "resolve_segments env t target [] parentMatches result = Ok result"
| "resolve_segments env t target (segment # segments) parentMatches result =
     (case collect_matches env t segment parentMatches ([], [], []) of
        Err e \<Rightarrow> Err e
      | Ok (wildcardCandidates, literalCandidates, nextParents) \<Rightarrow>
     (case apply_matches env t target (sortedSelectorMatches wildcardCandidates) result of
        Err e \<Rightarrow> Err e
      | Ok result1 \<Rightarrow>
     (case apply_matches env t target (sortedSelectorMatches literalCandidates) result1 of
        Err e \<Rightarrow> Err e
      | Ok result2 \<Rightarrow>
          if sortedSelectorMatches nextParents = [] then Ok result2
          else resolve_segments env t target segments (sortedSelectorMatches nextParents) result2)))"

definition root_match :: selectorMatch where
  "root_match = \<lparr>sm_selector = ''/'', sm_matchedCollection = ''/''\<rparr>"

definition resolveForPathWithContext :: "metadata_env \<Rightarrow> file_tree \<Rightarrow> string \<Rightarrow> resolvedMetadataResult result" where
  "resolveForPathWithContext env t logicalPath =
     (case normalizeResolvePath logicalPath of
        Err e \<Rightarrow> Err e
      | Ok target \<Rightarrow>
     (case apply_match env t target metadataPathCollection root_match \<lparr>res_metadata = no_metadata, res_descendant = None\<rparr> of
        Err e \<Rightarrow> Err e
      | Ok result0 \<Rightarrow>
     (case resolve_segments env t target (splitPathSegments (rt_path target)) [root_match] result0 of
        Err e \<Rightarrow> Err e
      | Ok result1 \<Rightarrow>
     (case (if \<not> rt_collection target \<and> rt_path target \<noteq> ''/''
            then apply_match env t target metadataPathResource
                   \<lparr>sm_selector = rt_path target, sm_matchedCollection = collectionPathForLogicalPath (rt_path target)\<rparr> result1
            else Ok result1) of
        Err e \<Rightarrow> Err e
      | Ok result2 \<Rightarrow>
          (case ResolveEffectiveDefaults (md_Defaults (res_metadata result2)) of Err e \<Rightarrow> Err e | Ok v \<Rightarrow> Ok result2)))))"

definition ResolveForPath :: "metadata_env \<Rightarrow> file_tree \<Rightarrow> string \<Rightarrow> ResourceMetadata result" where
  "ResolveForPath env t logicalPath =
     (case resolveForPathWithContext env t logicalPath of Err e \<Rightarrow> Err e | Ok r \<Rightarrow> Ok (res_metadata r))"

section \<open>Children of a collection\<close>

text \<open>A set of strings with its elements in order.\<close>

definition put_key :: "string \<Rightarrow> (string, unit) gomap \<Rightarrow> (string, unit) gomap" where
  "put_key k values = map_put k () values"

definition sortedSelectorKeys :: "(string, unit) gomap \<Rightarrow> string list" where
  "sortedSelectorKeys values = map fst values"

fun next_parents :: "metadata_env \<Rightarrow> file_tree \<Rightarrow> string \<Rightarrow> string list \<Rightarrow> (string, unit) gomap \<Rightarrow> (string, unit) gomap result" where
  "next_parents env t segment [] acc = Ok acc"
| "next_parents env t segment (parentSelector # parents) acc =
     (case matchingCollectionCandidates env t parentSelector segment of
        Err e \<Rightarrow> Err e
      | Ok (wildcards, literals) \<Rightarrow> next_parents env t segment parents (fold put_key literals (fold put_key wildcards acc)))"

fun parent_selectors :: "metadata_env \<Rightarrow> file_tree \<Rightarrow> string list \<Rightarrow> string list \<Rightarrow> string list result" where
  "parent_selectors env t [] parents = Ok parents"
| "parent_selectors env t (segment # segments) parents =
     (case next_parents env t segment parents [] of
        Err e \<Rightarrow> Err e
      | Ok nxt \<Rightarrow> if sortedSelectorKeys nxt = [] then Ok [] else parent_selectors env t segments (sortedSelectorKeys nxt))"

definition matchingParentSelectors :: "metadata_env \<Rightarrow> file_tree \<Rightarrow> string \<Rightarrow> string list result" where
  "matchingParentSelectors env t logicalPath = parent_selectors env t (splitPathSegments logicalPath) [''/'']"

text \<open>The visitor of \<open>walkChildSelectors\<close> passes a state and says whether to stop.\<close>

fun visit_children :: "(string \<Rightarrow> 's \<Rightarrow> bool \<times> 's) \<Rightarrow> (string \<times> bool) list \<Rightarrow> 's \<Rightarrow> bool \<times> 's" where
  "visit_children visitor [] s = (False, s)"
| "visit_children visitor ((name, isdir) # entries) s =
     (if \<not> isdir \<or> trim_space name = [] then visit_children visitor entries s
      else case visitor (trim_space name) s of
             (True, s') \<Rightarrow> (True, s')
           | (False, s') \<Rightarrow> visit_children visitor entries s')"

fun walk_parents :: "metadata_env \<Rightarrow> file_tree \<Rightarrow> (string \<Rightarrow> 's \<Rightarrow> bool \<times> 's) \<Rightarrow> string list \<Rightarrow> 's \<Rightarrow> 's result" where
  "walk_parents env t visitor [] s = Ok s"
| "walk_parents env t visitor (parentSelector # parents) s =
     (case selectorDirPath env t parentSelector of
        Err e \<Rightarrow> Err e
      | Ok parentDir \<Rightarrow>
          (case os_read_dir (env_faults env) t parentDir of
             Inl ErrNotExist \<Rightarrow> walk_parents env t visitor parents s
           | Inl e \<Rightarrow> Err (Internal (msg ''failed to list metadata selector children'') (Some (os_cause e)))
           | Inr entries \<Rightarrow>
               (case visit_children visitor entries s of
                  (True, s') \<Rightarrow> Ok s'
                | (False, s') \<Rightarrow> walk_parents env t visitor parents s')))"

definition walkChildSelectors :: "metadata_env \<Rightarrow> file_tree \<Rightarrow> string \<Rightarrow> (string \<Rightarrow> 's \<Rightarrow> bool \<times> 's) \<Rightarrow> 's \<Rightarrow> 's result" where
  "walkChildSelectors env t logicalPath visitor s =
     (case normalizeResolvePath logicalPath of
        Err e \<Rightarrow> Err e
      | Ok target \<Rightarrow>
          (case matchingParentSelectors env t (rt_path target) of
             Err e \<Rightarrow> Err e
           | Ok parentSelectors \<Rightarrow> walk_parents env t visitor parentSelectors s))"

definition collect_child :: "string \<Rightarrow> (string, unit) gomap \<Rightarrow> bool \<times> (string, unit) gomap" where
  "collect_child childName children =
     (False, if childName \<noteq> ''_'' \<and> \<not> hasWildcardPattern childName then put_key childName children else children)"

definition ResolveCollectionChildren :: "metadata_env \<Rightarrow> file_tree \<Rightarrow> string \<Rightarrow> string list result" where
  "ResolveCollectionChildren env t logicalPath =
     (case walkChildSelectors env t logicalPath collect_child [] of Err e \<Rightarrow> Err e | Ok children \<Rightarrow> Ok (sortedSelectorKeys children))"

definition find_wildcard :: "string \<Rightarrow> bool \<Rightarrow> bool \<times> bool" where
  "find_wildcard childName found = (if childName = ''_'' \<or> hasWildcardPattern childName then (True, True) else (False, found))"

definition HasCollectionWildcardChild :: "metadata_env \<Rightarrow> file_tree \<Rightarrow> string \<Rightarrow> bool result" where
  "HasCollectionWildcardChild env t logicalPath = walkChildSelectors env t logicalPath find_wildcard False"

section \<open>Shared and local store\<close>

text \<open>The two services have their own base directories on one tree of files.\<close>

record LayeredMetadataService =
  shared :: "metadata_env option"
  local_store :: "metadata_env option"
  writable :: "metadata_env option"

text \<open>A blank directory gives no service.\<close>

definition NewLayeredFSMetadataService :: "metadata_env option \<Rightarrow> metadata_env option \<Rightarrow> string \<Rightarrow> LayeredMetadataService" where
  "NewLayeredFSMetadataService sharedService localService writeTarget =
     \<lparr>shared = sharedService, local_store = localService,
      writable = (if writeTarget = ''shared'' then (if sharedService = None then localService else sharedService)
                  else if localService = None then sharedService else localService)\<rparr>"

definition Layered_Get :: "LayeredMetadataService \<Rightarrow> file_tree \<Rightarrow> string \<Rightarrow> ResourceMetadata result" where
  "Layered_Get s t logicalPath =
     (case writable s of
        None \<Rightarrow> Err (NotFound (msg ''metadata service is not configured'') None)
      | Some env \<Rightarrow> Metadata_Get env t logicalPath)"

definition Layered_Set :: "LayeredMetadataService \<Rightarrow> string \<Rightarrow> ResourceMetadata \<Rightarrow> file_tree \<Rightarrow> go_error option \<times> file_tree" where
  "Layered_Set s logicalPath m t =
     (case writable s of
        None \<Rightarrow> (Some (Invalid (msg ''metadata service is not configured'') None), t)
      | Some env \<Rightarrow> Metadata_Set env logicalPath m t)"

definition Layered_Unset :: "LayeredMetadataService \<Rightarrow> string \<Rightarrow> file_tree \<Rightarrow> go_error option \<times> file_tree" where
  "Layered_Unset s logicalPath t = (case writable s of None \<Rightarrow> (None, t) | Some env \<Rightarrow> Metadata_Unset env logicalPath t)"

definition Layered_ReadDefaultsArtifact :: "LayeredMetadataService \<Rightarrow> file_tree \<Rightarrow> string \<Rightarrow> string \<Rightarrow> Content result" where
  "Layered_ReadDefaultsArtifact s t logicalPath file =
     (case writable s of
        None \<Rightarrow> Err (NotFound (msg ''resource defaults artifacts are not configured'') None)
      | Some env \<Rightarrow> ReadDefaultsArtifact env t logicalPath file)"

definition Layered_WriteDefaultsArtifact ::
  "LayeredMetadataService \<Rightarrow> string \<Rightarrow> string \<Rightarrow> Content \<Rightarrow> file_tree \<Rightarrow> go_error option \<times> file_tree" where
  "Layered_WriteDefaultsArtifact s logicalPath file content t =
     (case writable s of
        None \<Rightarrow> (Some (Invalid (msg ''resource defaults artifacts are not configured'') None), t)
      | Some env \<Rightarrow> WriteDefaultsArtifact env logicalPath file content t)"

definition Layered_DeleteDefaultsArtifact :: "LayeredMetadataService \<Rightarrow> string \<Rightarrow> string \<Rightarrow> file_tree \<Rightarrow> go_error option \<times> file_tree" where
  "Layered_DeleteDefaultsArtifact s logicalPath file t =
     (case writable s of None \<Rightarrow> (None, t) | Some env \<Rightarrow> DeleteDefaultsArtifact env logicalPath file t)"

definition merge_layer :: "file_tree \<Rightarrow> string \<Rightarrow> metadata_env option \<Rightarrow> resolvedMetadataResult \<Rightarrow> resolvedMetadataResult result" where
  "merge_layer t logicalPath service merged =
     (case service of
        None \<Rightarrow> Ok merged
      | Some env \<Rightarrow>
          (case resolveForPathWithContext env t logicalPath of
             Err e \<Rightarrow> Err e
           | Ok resolved \<Rightarrow>
               Ok \<lparr>res_metadata = MergeResourceMetadata (res_metadata merged) (res_metadata resolved),
                   res_descendant = preferDescendantContext (res_descendant merged) (res_descendant resolved)\<rparr>))"

definition Layered_resolveForPathWithContext :: "LayeredMetadataService \<Rightarrow> file_tree \<Rightarrow> string \<Rightarrow> resolvedMetadataResult result" where
  "Layered_resolveForPathWithContext s t logicalPath =
     (case merge_layer t logicalPath (shared s) \<lparr>res_metadata = no_metadata, res_descendant = None\<rparr> of
        Err e \<Rightarrow> Err e
      | Ok merged \<Rightarrow> merge_layer t logicalPath (local_store s) merged)"

definition Layered_ResolveForPath :: "LayeredMetadataService \<Rightarrow> file_tree \<Rightarrow> string \<Rightarrow> ResourceMetadata result" where
  "Layered_ResolveForPath s t logicalPath =
     (case Layered_resolveForPathWithContext s t logicalPath of Err e \<Rightarrow> Err e | Ok r \<Rightarrow> Ok (res_metadata r))"

definition add_children :: "file_tree \<Rightarrow> string \<Rightarrow> metadata_env option \<Rightarrow> (string, unit) gomap \<Rightarrow> (string, unit) gomap result" where
  "add_children t logicalPath service children =
     (case service of
        None \<Rightarrow> Ok children
      | Some env \<Rightarrow>
          (case ResolveCollectionChildren env t logicalPath of Err e \<Rightarrow> Err e | Ok values \<Rightarrow> Ok (fold put_key values children)))"

definition Layered_ResolveCollectionChildren :: "LayeredMetadataService \<Rightarrow> file_tree \<Rightarrow> string \<Rightarrow> string list result" where
  "Layered_ResolveCollectionChildren s t logicalPath =
     (case add_children t logicalPath (shared s) [] of
        Err e \<Rightarrow> Err e
      | Ok children \<Rightarrow>
          (case add_children t logicalPath (local_store s) children of Err e \<Rightarrow> Err e | Ok all \<Rightarrow> Ok (sortedSelectorKeys all)))"

definition Layered_HasCollectionWildcardChild :: "LayeredMetadataService \<Rightarrow> file_tree \<Rightarrow> string \<Rightarrow> bool result" where
  "Layered_HasCollectionWildcardChild s t logicalPath =
     (case (case local_store s of None \<Rightarrow> Ok False | Some env \<Rightarrow> HasCollectionWildcardChild env t logicalPath) of
        Err e \<Rightarrow> Err e
      | Ok True \<Rightarrow> Ok True
      | Ok False \<Rightarrow> (case shared s of None \<Rightarrow> Ok False | Some env \<Rightarrow> HasCollectionWildcardChild env t logicalPath))"

section \<open>Directories that match\<close>

definition wild_name :: "string \<Rightarrow> bool" where
  "wild_name name \<longleftrightarrow> name = ''_'' \<or> hasWildcardPattern name"

definition name_matches :: "string \<Rightarrow> string \<Rightarrow> bool" where
  "name_matches name segment \<longleftrightarrow>
     (if name = ''_'' then True else if hasWildcardPattern name then path_match name segment = Some True else name = segment)"

lemma match_entries_Ok:
  "match_entries parent segment entries = Ok (ws, ls) \<Longrightarrow>
    ws = map (\<lambda>e. joinSelector parent (fst e)) (filter (\<lambda>e. snd e \<and> wild_name (fst e) \<and> name_matches (fst e) segment) entries)
    \<and> ls = map (\<lambda>e. joinSelector parent (fst e)) (filter (\<lambda>e. snd e \<and> \<not> wild_name (fst e) \<and> name_matches (fst e) segment) entries)"
proof (induction entries arbitrary: ws ls)
  case (Cons e entries)
  obtain n d where e: "e = (n, d)" by fastforce
  show ?case
    using Cons e
    by (cases "match_entries parent segment entries"; cases "path_match n segment")
      (auto simp: Let_def wild_name_def name_matches_def split: if_splits bool.splits)
qed simp

lemma joinSelector_rooted: "list_all plain_segment s \<Longrightarrow> joinSelector (rooted_path s) n = rooted_path (s @ [n])"
proof (cases "s = []")
  case False
  assume "list_all plain_segment s"
  then have "rooted_path s \<noteq> ''/''" using False rooted_path_root by blast
  then show ?thesis using rooted_path_append[OF False, of "[n]"] by (simp add: joinSelector_def rooted_path_def)
qed (simp add: joinSelector_def rooted_path_def)

lemma joinConcrete_eq: "joinConcreteCollectionPath = joinSelector"
  by (simp add: joinConcreteCollectionPath_def joinSelector_def fun_eq_iff)

text \<open>The directories of the store, by their names below the base directory.\<close>

definition store_dir :: "metadata_env \<Rightarrow> file_tree \<Rightarrow> string list \<Rightarrow> bool" where
  "store_dir env t s \<longleftrightarrow> lookup_node t (baseDir (store env) @ s) = Some DirNode"

lemma selectorDirPath_Ok:
  assumes "plain_store env" "list_all plain_segment s" "selectorDirPath env t (rooted_path s) = Ok d"
  shows "d = baseDir (store env) @ s"
  using assms by (auto simp: selectorDirPath_def relative_segments_rooted Let_def plain_store_def plain_env_def clean_segments_plain split: if_splits)

lemma matchingCollectionCandidates_Ok:
  assumes "plain_store env" "list_all plain_segment s" "wf_tree t"
    and "matchingCollectionCandidates env t (rooted_path s) segment = Ok (ws, ls)"
  shows "set ws = {rooted_path (s @ [n]) |n. store_dir env t (s @ [n]) \<and> name_matches n segment \<and> wild_name n}"
    "set ls = {rooted_path (s @ [n]) |n. store_dir env t (s @ [n]) \<and> name_matches n segment \<and> \<not> wild_name n}"
proof -
  let ?d = "baseDir (store env) @ s"
  obtain d where sd: "selectorDirPath env t (rooted_path s) = Ok d"
    using assms(4) by (cases "selectorDirPath env t (rooted_path s)") (simp_all add: matchingCollectionCandidates_def)
  have d: "d = ?d" using selectorDirPath_Ok[OF assms(1,2) sd] .
  have dir: "store_dir env t (s @ [n]) \<longleftrightarrow> (n, True) \<in> set (dir_entries t ?d)" for n
    using dir_entries_iff[OF wf_tree_sorted[OF assms(3)], of n True ?d] by (auto simp: store_dir_def lookup_node_def)
  have "set ws = {rooted_path (s @ [n]) |n. store_dir env t (s @ [n]) \<and> name_matches n segment \<and> wild_name n}
    \<and> set ls = {rooted_path (s @ [n]) |n. store_dir env t (s @ [n]) \<and> name_matches n segment \<and> \<not> wild_name n}"
  proof (cases "os_read_dir (env_faults env) t ?d")
    case (Inl e)
    then have e: "e = ErrNotExist" "ws = []" "ls = []"
      using assms(4) sd d by (cases e; simp add: matchingCollectionCandidates_def)+
    have "lookup_node t ?d = None" using Inl e(1) by (auto simp: os_read_dir_def split: option.splits node.splits)
    then have "\<not> store_dir env t (s @ [n])" for n using wf_tree_parent[OF assms(3), of ?d n] by (auto simp: store_dir_def)
    then show ?thesis using e by simp
  next
    case (Inr entries)
    then have en: "entries = dir_entries t ?d" by (auto simp: os_read_dir_def split: option.splits node.splits)
    have m: "match_entries (rooted_path s) segment entries = Ok (ws, ls)" using assms(4) sd d Inr by (simp add: matchingCollectionCandidates_def)
    have sel: "set (map (\<lambda>e. joinSelector (rooted_path s) (fst e)) (filter (\<lambda>e. snd e \<and> P (fst e) \<and> name_matches (fst e) segment) entries))
      = {rooted_path (s @ [n]) |n. store_dir env t (s @ [n]) \<and> name_matches n segment \<and> P n}" for P
      unfolding set_map set_filter dir en joinSelector_rooted[OF assms(2)] by (auto simp: image_iff) (metis fst_conv snd_conv)
    show ?thesis using match_entries_Ok[OF m] sel[of wild_name] sel[of "\<lambda>n. \<not> wild_name n"] by simp
  qed
  then show "set ws = {rooted_path (s @ [n]) |n. store_dir env t (s @ [n]) \<and> name_matches n segment \<and> wild_name n}"
    "set ls = {rooted_path (s @ [n]) |n. store_dir env t (s @ [n]) \<and> name_matches n segment \<and> \<not> wild_name n}" by blast+
qed

section \<open>Maps of matches\<close>

definition indexed :: "string \<Rightarrow> match_map \<Rightarrow> bool" where
  "indexed mc M \<longleftrightarrow> sorted_map M \<and> (\<forall>p \<in> set M. fst p = selectorMatchKey (snd p) \<and> sm_matchedCollection (snd p) = mc)"

definition selectors_of :: "match_map \<Rightarrow> string set" where
  "selectors_of M = sm_selector ` snd ` set M"

lemma indexed_Nil [simp]: "indexed mc []" "selectors_of [] = {}"
  by (simp_all add: indexed_def selectors_of_def)

lemma match_key_inject: "selectorMatchKey \<lparr>sm_selector = a, sm_matchedCollection = mc\<rparr> = selectorMatchKey \<lparr>sm_selector = b, sm_matchedCollection = mc\<rparr> \<longleftrightarrow> a = b"
  by (simp add: selectorMatchKey_def)

lemma match_eta: "sm_matchedCollection m = mc \<Longrightarrow> m = \<lparr>sm_selector = sm_selector m, sm_matchedCollection = mc\<rparr>"
  by (cases m) simp

lemma put_match_indexed:
  assumes "indexed mc M" "joinConcreteCollectionPath pc seg = mc"
  shows "indexed mc (put_match pc seg sel M) \<and> selectors_of (put_match pc seg sel M) = insert sel (selectors_of M)"
proof -
  let ?m = "\<lparr>sm_selector = sel, sm_matchedCollection = mc\<rparr>" and ?M = "put_match pc seg sel M"
  have eq: "?M = map_put (selectorMatchKey ?m) ?m M" using assms(2) by (simp add: put_match_def Let_def)
  have sm: "sorted_map M" "sorted_map ?M" using assms(1) eq by (simp_all add: indexed_def)
  have mem: "(k, v) \<in> set ?M \<longleftrightarrow> (if k = selectorMatchKey ?m then v = ?m else (k, v) \<in> set M)" for k v
    using sorted_map_get[OF sm(2), of k v] sorted_map_get[OF sm(1), of k v] eq by auto
  have keys: "(k, v) \<in> set M \<Longrightarrow> k = selectorMatchKey v \<and> sm_matchedCollection v = mc" for k v using assms(1) by (auto simp: indexed_def)
  have "indexed mc ?M" unfolding indexed_def using sm(2) mem keys by (auto split: if_splits)
  moreover have "selectors_of ?M = insert sel (selectors_of M)"
  proof
    show "selectors_of ?M \<subseteq> insert sel (selectors_of M)"
    proof
      fix x assume "x \<in> selectors_of ?M"
      then obtain k v where v: "(k, v) \<in> set ?M" "x = sm_selector v" by (auto simp: selectors_of_def)
      show "x \<in> insert sel (selectors_of M)"
      proof (cases "k = selectorMatchKey ?m")
        case True
        then show ?thesis using v mem[of k v] by simp
      next
        case False
        then have "v \<in> snd ` set M" using v(1) mem[of k v] by force
        then show ?thesis using v(2) by (simp add: selectors_of_def)
      qed
    qed
    show "insert sel (selectors_of M) \<subseteq> selectors_of ?M"
    proof
      fix x assume "x \<in> insert sel (selectors_of M)"
      then consider "x = sel" | k v where "(k, v) \<in> set M" "x = sm_selector v" by (auto simp: selectors_of_def)
      then show "x \<in> selectors_of ?M"
      proof cases
        case 1
        have "?m \<in> snd ` set ?M" using mem[of "selectorMatchKey ?m" ?m] by force
        then show ?thesis unfolding selectors_of_def using 1 by (intro image_eqI[of _ _ ?m]) simp_all
      next
        case 2
        show ?thesis
        proof (cases "k = selectorMatchKey ?m")
          case True
          have "v = \<lparr>sm_selector = sm_selector v, sm_matchedCollection = mc\<rparr>" using keys[OF 2(1)] match_eta by blast
          then have "sm_selector v = sel" using keys[OF 2(1)] True match_key_inject[of "sm_selector v" mc sel] by metis
          moreover have "?m \<in> snd ` set ?M" using mem[of "selectorMatchKey ?m" ?m] by force
          ultimately show ?thesis unfolding selectors_of_def using 2(2) by (intro image_eqI[of _ _ ?m]) simp_all
        next
          case False
          then have "v \<in> snd ` set ?M" using mem[of k v] 2(1) by force
          then show ?thesis unfolding selectors_of_def using 2(2) by blast
        qed
      qed
    qed
  qed
  ultimately show ?thesis by blast
qed

lemma fold_put_match:
  assumes "indexed mc M" "joinConcreteCollectionPath pc seg = mc"
  shows "indexed mc (fold (put_match pc seg) sels M) \<and> selectors_of (fold (put_match pc seg) sels M) = set sels \<union> selectors_of M"
  using assms(1)
proof (induction sels arbitrary: M)
  case (Cons sel sels)
  note p = put_match_indexed[OF Cons.prems assms(2), of sel]
  show ?case using Cons.IH[of "put_match pc seg sel M"] p by auto
qed simp

text \<open>The matches of a segment below a set of parents.\<close>

definition children_of :: "metadata_env \<Rightarrow> file_tree \<Rightarrow> string \<Rightarrow> string list set \<Rightarrow> (string \<Rightarrow> bool) \<Rightarrow> string set" where
  "children_of env t segment S P = {rooted_path (s @ [n]) |s n. s \<in> S \<and> store_dir env t (s @ [n]) \<and> name_matches n segment \<and> P n}"

lemma children_of_Un: "children_of env t segment (S \<union> T) P = children_of env t segment S P \<union> children_of env t segment T P"
  by (auto simp: children_of_def)

lemma collect_matches_Ok:
  assumes pl: "plain_store env" "wf_tree t" and mc: "joinConcreteCollectionPath pc segment = mc"
  shows "collect_matches env t segment (map (\<lambda>s. \<lparr>sm_selector = rooted_path s, sm_matchedCollection = pc\<rparr>) ss) (W, L, N) = Ok (W', L', N') \<Longrightarrow>
    \<forall>s \<in> set ss. list_all plain_segment s \<Longrightarrow> indexed mc W \<Longrightarrow> indexed mc L \<Longrightarrow> indexed mc N \<Longrightarrow>
    indexed mc W' \<and> indexed mc L' \<and> indexed mc N'
    \<and> selectors_of W' = selectors_of W \<union> children_of env t segment (set ss) wild_name
    \<and> selectors_of L' = selectors_of L \<union> children_of env t segment (set ss) (\<lambda>n. \<not> wild_name n)
    \<and> selectors_of N' = selectors_of N \<union> children_of env t segment (set ss) wild_name \<union> children_of env t segment (set ss) (\<lambda>n. \<not> wild_name n)"
proof (induction ss arbitrary: W L N)
  case Nil
  then show ?case by (simp add: children_of_def)
next
  case (Cons s ss)
  let ?put = "put_match pc segment"
  obtain ws ls where m: "matchingCollectionCandidates env t (rooted_path s) segment = Ok (ws, ls)"
    using Cons.prems(1) by (cases "matchingCollectionCandidates env t (rooted_path s) segment") auto
  have c: "collect_matches env t segment (map (\<lambda>s. \<lparr>sm_selector = rooted_path s, sm_matchedCollection = pc\<rparr>) ss)
      (fold ?put ws W, fold ?put ls L, fold ?put ls (fold ?put ws N)) = Ok (W', L', N')"
    using Cons.prems(1) m by (simp add: Let_def)
  have "list_all plain_segment s" using Cons.prems(2) by simp
  note sets = matchingCollectionCandidates_Ok[OF pl(1) this pl(2) m]
  have ch: "set ws = children_of env t segment {s} wild_name" "set ls = children_of env t segment {s} (\<lambda>n. \<not> wild_name n)"
    using sets by (simp_all add: children_of_def)
  note fw = fold_put_match[OF Cons.prems(3) mc, of ws] and fl = fold_put_match[OF Cons.prems(4) mc, of ls] and fn = fold_put_match[OF Cons.prems(5) mc, of ws]
  note fn2 = fold_put_match[OF conjunct1[OF fn] mc, of ls]
  have "set (s # ss) = {s} \<union> set ss" by simp
  then show ?case
    using Cons.IH[OF c _ conjunct1[OF fw] conjunct1[OF fl] conjunct1[OF fn2]] Cons.prems(2) fw fl fn fn2 ch
    by (simp only: children_of_Un) (simp add: Un_ac)
qed

section \<open>Levels\<close>

text \<open>The directories below the base directory whose names match a list of segments, and the matches of a level in the order
  in which their documents are merged: those that end in a wildcard, or those that end in a literal name.\<close>

definition level_dirs :: "metadata_env \<Rightarrow> file_tree \<Rightarrow> string list \<Rightarrow> string list list" where
  "level_dirs env t segs =
     (let dir = baseDir (store env) in
      map (drop (length dir)) (filter (\<lambda>p. prefix dir p \<and> list_all2 name_matches (drop (length dir) p) segs) (map fst (filter (\<lambda>e. snd e = DirNode) t))))"

definition level :: "metadata_env \<Rightarrow> file_tree \<Rightarrow> string list \<Rightarrow> bool \<Rightarrow> selectorMatch list" where
  "level env t segs wild =
     sort_key selectorMatchKey (map (\<lambda>s. \<lparr>sm_selector = rooted_path s, sm_matchedCollection = rooted_path segs\<rparr>)
       (filter (\<lambda>s. wild_name (last s) = wild) (level_dirs env t segs)))"

fun levels :: "metadata_env \<Rightarrow> file_tree \<Rightarrow> string list \<Rightarrow> string list \<Rightarrow> selectorMatch list" where
  "levels env t passed [] = []"
| "levels env t passed (segment # segments) =
     level env t (passed @ [segment]) True @ level env t (passed @ [segment]) False @ levels env t (passed @ [segment]) segments"

definition dirs_at :: "metadata_env \<Rightarrow> file_tree \<Rightarrow> string list \<Rightarrow> string list set" where
  "dirs_at env t segs = {s. list_all2 name_matches s segs \<and> (segs = [] \<or> store_dir env t s)}"

lemma dirs_at_Nil [simp]: "dirs_at env t [] = {[]}"
  by (auto simp: dirs_at_def)

lemma level_dirs_set:
  assumes "wf_tree t" "segs \<noteq> []"
  shows "set (level_dirs env t segs) = dirs_at env t segs" "distinct (level_dirs env t segs)"
proof -
  let ?b = "baseDir (store env)"
  have d: "distinct (map fst t)" using wf_tree_sorted[OF assms(1)] by (rule sorted_map_distinct)
  have inj: "inj_on (drop (length ?b)) {p. prefix ?b p}" by (auto simp: inj_on_def prefix_def)
  have "distinct (map fst (filter (\<lambda>e. snd e = DirNode) t))" using d by (rule distinct_map_filter)
  then show "distinct (level_dirs env t segs)"
    unfolding level_dirs_def Let_def by (auto simp: distinct_map intro: inj_on_subset[OF inj])
  have get: "(p, n) \<in> set t \<longleftrightarrow> map_get t p = Some n" for p n using sorted_map_get[OF wf_tree_sorted[OF assms(1)]] by simp
  have dir: "store_dir env t s \<longleftrightarrow> (?b @ s, DirNode) \<in> set t" if "s \<noteq> []" for s using that get by (auto simp: store_dir_def lookup_node_def)
  have ne: "list_all2 name_matches s segs \<Longrightarrow> s \<noteq> []" for s using assms(2) by auto
  show "set (level_dirs env t segs) = dirs_at env t segs"
  proof (intro equalityI subsetI)
    fix s assume "s \<in> set (level_dirs env t segs)"
    then obtain p where "(p, DirNode) \<in> set t" "prefix ?b p" "s = drop (length ?b) p" "list_all2 name_matches s segs"
      by (auto simp: level_dirs_def Let_def)
    then show "s \<in> dirs_at env t segs" using dir[OF ne] by (auto simp: dirs_at_def prefix_def)
  next
    fix s assume s: "s \<in> dirs_at env t segs"
    then have "(?b @ s, DirNode) \<in> set t" "list_all2 name_matches s segs" using dir[OF ne] assms(2) by (auto simp: dirs_at_def)
    then have "?b @ s \<in> set (filter (\<lambda>p. prefix ?b p \<and> list_all2 name_matches (drop (length ?b) p) segs) (map fst (filter (\<lambda>e. snd e = DirNode) t)))"
      by force
    then show "s \<in> set (level_dirs env t segs)" unfolding level_dirs_def Let_def set_map[of "drop _"] by (rule rev_image_eqI) simp
  qed
qed

lemma dirs_plain:
  assumes "plain_tree t" "s \<in> dirs_at env t segs"
  shows "list_all plain_segment s"
proof (cases "s = []")
  case False
  then have "map_get t (baseDir (store env) @ s) = Some DirNode" using assms(2) by (auto simp: dirs_at_def store_dir_def lookup_node_def)
  then have "baseDir (store env) @ s \<in> fst ` set t" by (force dest: map_of_SomeD)
  then show ?thesis using assms(1) unfolding plain_tree_def by fastforce
qed simp

lemma indexed_level:
  assumes "wf_tree t" "plain_tree t" "segs \<noteq> []" "indexed (rooted_path segs) M"
    and "selectors_of M = rooted_path ` {s \<in> dirs_at env t segs. wild_name (last s) = b}"
  shows "sortedSelectorMatches M = level env t segs b"
proof -
  let ?mk = "\<lambda>s. \<lparr>sm_selector = rooted_path s, sm_matchedCollection = rooted_path segs\<rparr>"
  let ?ds = "filter (\<lambda>s. wild_name (last s) = b) (level_dirs env t segs)"
  have ds: "set ?ds = {s \<in> dirs_at env t segs. wild_name (last s) = b}" "distinct ?ds" using level_dirs_set[OF assms(1,3), of env] by auto
  have inj: "inj_on (\<lambda>s. selectorMatchKey (?mk s)) (set ?ds)"
    using ds(1) dirs_plain[OF assms(2)] by (auto simp: inj_on_def match_key_inject rooted_path_inject)
  have keys: "map selectorMatchKey (map snd M) = map fst M" using assms(4) by (auto simp: indexed_def)
  have "sorted (map fst M)" "distinct (map fst M)"
    using assms(4) sorted_map_distinct by (auto simp: indexed_def sorted_map_def strict_sorted_imp_sorted)
  then have sorted: "sorted (map selectorMatchKey (map snd M))" "distinct (map selectorMatchKey (map snd M))" unfolding keys .
  have sel: "sm_selector ` set (map snd M) = rooted_path ` set ?ds" using assms(5) ds(1) by (simp add: selectors_of_def)
  have mk: "m = \<lparr>sm_selector = sm_selector m, sm_matchedCollection = rooted_path segs\<rparr>" if "m \<in> set (map snd M)" for m
    using that assms(4) match_eta by (auto simp: indexed_def)
  have "set (map snd M) = (\<lambda>x. \<lparr>sm_selector = x, sm_matchedCollection = rooted_path segs\<rparr>) ` sm_selector ` set (map snd M)"
    unfolding image_image using mk by (metis (no_types, lifting) image_cong image_ident)
  then have set_eq: "set (map snd M) = set (map ?mk ?ds)" unfolding sel by (simp add: image_image)
  have d2: "distinct (map selectorMatchKey (map ?mk ?ds))" using inj ds(2) by (simp add: distinct_map o_def)
  have "map snd M = sort_key selectorMatchKey (map ?mk ?ds)"
  proof (rule map_sorted_distinct_set_unique[where f = selectorMatchKey])
    show "inj_on selectorMatchKey (set (map snd M) \<union> set (sort_key selectorMatchKey (map ?mk ?ds)))"
      unfolding set_eq set_sort Un_absorb using d2 by (simp only: distinct_map)
    show "distinct (map selectorMatchKey (sort_key selectorMatchKey (map ?mk ?ds)))"
      using d2 by (simp only: distinct_map distinct_sort set_sort) 
    show "sorted (map selectorMatchKey (map snd M))" "distinct (map selectorMatchKey (map snd M))" by (rule sorted)+
  qed (use set_eq in simp_all)
  then show ?thesis by (simp add: sortedSelectorMatches_def level_def)
qed

section \<open>The metadata of a path\<close>

text \<open>The document of a match, if there is one and it applies to the target.\<close>

definition documents_of ::
  "metadata_env \<Rightarrow> file_tree \<Rightarrow> resolvedPathTarget \<Rightarrow> metadataPathKind \<Rightarrow> selectorMatch \<Rightarrow> ResourceMetadata list" where
  "documents_of env t target kind m =
     (case tryReadMetadata env t (sm_selector m) kind of
        Ok (Some item) \<Rightarrow>
          (case resolveMetadataDefaults env t (sm_selector m) kind item of
             Ok resolved \<Rightarrow>
               if kind = metadataPathCollection \<and> \<not> collectionMetadataAppliesToTarget target (sm_matchedCollection m) (md_Selector resolved)
               then [] else [resolved]
           | Err e \<Rightarrow> [])
      | _ \<Rightarrow> [])"

abbreviation merge_onto :: "ResourceMetadata \<Rightarrow> ResourceMetadata list \<Rightarrow> ResourceMetadata" where
  "merge_onto \<equiv> foldl MergeResourceMetadata"

lemma apply_match_Ok:
  "apply_match env t target kind m result = Ok r \<Longrightarrow> res_metadata r = merge_onto (res_metadata result) (documents_of env t target kind m)"
  by (auto simp: apply_match_def documents_of_def split: result.splits option.splits if_splits)

lemma apply_matches_Ok:
  "apply_matches env t target ms result = Ok r \<Longrightarrow>
    res_metadata r = merge_onto (res_metadata result) (concat (map (documents_of env t target metadataPathCollection) ms))"
proof (induction ms arbitrary: result)
  case (Cons m ms)
  then obtain r1 where "apply_match env t target metadataPathCollection m result = Ok r1" "apply_matches env t target ms r1 = Ok r"
    by (auto split: result.splits)
  then show ?case using Cons.IH apply_match_Ok by simp
qed simp

lemma dirs_at_snoc:
  assumes "wf_tree t"
  shows "dirs_at env t (segs @ [segment]) = {s @ [n] |s n. s \<in> dirs_at env t segs \<and> store_dir env t (s @ [n]) \<and> name_matches n segment}"
proof -
  have up: "store_dir env t s" if "store_dir env t (s @ [n])" for s n
    using that wf_tree_parent[OF assms, of "baseDir (store env) @ s" n] by (simp add: store_dir_def)
  show ?thesis
  proof (intro equalityI subsetI)
    fix x assume x: "x \<in> dirs_at env t (segs @ [segment])"
    then obtain s n where "x = s @ [n]" "list_all2 name_matches s segs" "name_matches n segment" "store_dir env t (s @ [n])"
      by (auto simp: dirs_at_def list_all2_append2 list_all2_Cons2)
    then show "x \<in> {s @ [n] |s n. s \<in> dirs_at env t segs \<and> store_dir env t (s @ [n]) \<and> name_matches n segment}"
      using up by (auto simp: dirs_at_def)
  qed (auto simp: dirs_at_def list_all2_appendI)
qed

lemma children_of_level:
  assumes "wf_tree t"
  shows "children_of env t segment (dirs_at env t segs) P = rooted_path ` {s \<in> dirs_at env t (segs @ [segment]). P (last s)}"
  unfolding dirs_at_snoc[OF assms] children_of_def by auto blast

lemma levels_empty: "wf_tree t \<Longrightarrow> dirs_at env t segs = {} \<Longrightarrow> levels env t segs segments = []"
proof (induction segments arbitrary: segs)
  case (Cons segment segments)
  have none: "dirs_at env t (segs @ [segment]) = {}" using dirs_at_snoc[OF Cons.prems(1)] Cons.prems(2) by simp
  then have "level env t (segs @ [segment]) b = []" for b
    using level_dirs_set(1)[OF Cons.prems(1), of "segs @ [segment]" env] by (simp add: level_def)
  then show ?case using Cons.IH[OF Cons.prems(1) none] by simp
qed simp

lemma resolve_segments_Ok:
  assumes pl: "plain_store env" "wf_tree t" "plain_tree t"
  shows "resolve_segments env t target segments (map (\<lambda>s. \<lparr>sm_selector = rooted_path s, sm_matchedCollection = rooted_path passed\<rparr>) ss) result = Ok r
    \<Longrightarrow> set ss = dirs_at env t passed \<Longrightarrow> list_all plain_segment (passed @ segments)
    \<Longrightarrow> res_metadata r = merge_onto (res_metadata result) (concat (map (documents_of env t target metadataPathCollection) (levels env t passed segments)))"
proof (induction segments arbitrary: passed ss result)
  case (Cons segment segments)
  let ?parents = "map (\<lambda>s. \<lparr>sm_selector = rooted_path s, sm_matchedCollection = rooted_path passed\<rparr>) ss" and ?now = "passed @ [segment]"
  obtain W L N r1 r2 where c: "collect_matches env t segment ?parents ([], [], []) = Ok (W, L, N)"
    and a: "apply_matches env t target (sortedSelectorMatches W) result = Ok r1" "apply_matches env t target (sortedSelectorMatches L) r1 = Ok r2"
    and rest: "(if sortedSelectorMatches N = [] then Ok r2 else resolve_segments env t target segments (sortedSelectorMatches N) r2) = Ok r"
    using Cons.prems(1) by (auto split: result.splits)
  have mc: "joinConcreteCollectionPath (rooted_path passed) segment = rooted_path ?now"
    using Cons.prems(3) by (simp add: joinConcrete_eq joinSelector_rooted)
  have plain: "\<forall>s \<in> set ss. list_all plain_segment s" using dirs_plain[OF pl(3)] Cons.prems(2) by blast
  have m: "indexed (rooted_path ?now) W" "indexed (rooted_path ?now) L" "indexed (rooted_path ?now) N"
    "selectors_of W = rooted_path ` {s \<in> dirs_at env t ?now. wild_name (last s) = True}"
    "selectors_of L = rooted_path ` {s \<in> dirs_at env t ?now. wild_name (last s) = False}"
    "selectors_of N = rooted_path ` dirs_at env t ?now"
    using collect_matches_Ok[OF pl(1,2) mc c plain] unfolding Cons.prems(2) children_of_level[OF pl(2)] by auto
  have lv: "sortedSelectorMatches W = level env t ?now True" "sortedSelectorMatches L = level env t ?now False"
    using indexed_level[OF pl(2,3) _ m(1,4)] indexed_level[OF pl(2,3) _ m(2,5)] by simp_all
  have r2: "res_metadata r2 = merge_onto (res_metadata result)
      (concat (map (documents_of env t target metadataPathCollection) (level env t ?now True @ level env t ?now False)))"
    using apply_matches_Ok[OF a(1)] apply_matches_Ok[OF a(2)] lv by simp
  show ?case
  proof (cases "sortedSelectorMatches N = []")
    case True
    then have "dirs_at env t ?now = {}" using m(6) by (simp add: sortedSelectorMatches_def selectors_of_def)
    then show ?thesis using rest True r2 levels_empty[OF pl(2), of env ?now segments] by simp
  next
    case False
    have "sm_selector ` set (map snd N) = rooted_path ` dirs_at env t ?now" using m(6) by (simp add: selectors_of_def)
    then have "\<forall>x \<in> set (map snd N). \<exists>s \<in> dirs_at env t ?now. x = \<lparr>sm_selector = rooted_path s, sm_matchedCollection = rooted_path ?now\<rparr>"
      using m(3) match_eta unfolding indexed_def by (metis (no_types, lifting) imageE image_eqI list.set_map)
    then obtain f where f: "\<And>x. x \<in> set (map snd N) \<Longrightarrow> f x \<in> dirs_at env t ?now \<and> x = \<lparr>sm_selector = rooted_path (f x), sm_matchedCollection = rooted_path ?now\<rparr>"
      by metis
    let ?ss = "map f (map snd N)"
    have N: "sortedSelectorMatches N = map (\<lambda>s. \<lparr>sm_selector = rooted_path s, sm_matchedCollection = rooted_path ?now\<rparr>) ?ss"
      unfolding sortedSelectorMatches_def using f by (intro nth_equalityI) simp_all
    have "set ?ss = dirs_at env t ?now"
    proof (intro equalityI subsetI)
      fix s assume s: "s \<in> dirs_at env t ?now"
      then obtain x where x: "x \<in> set (map snd N)" "sm_selector x = rooted_path s"
        using \<open>sm_selector ` set (map snd N) = rooted_path ` dirs_at env t ?now\<close> by (metis (no_types, lifting) imageE image_eqI)
      then have "rooted_path (f x) = rooted_path s" using f[OF x(1)] by (metis selectorMatch.select_convs(1))
      then have "f x = s" using rooted_path_inject dirs_plain[OF pl(3)] s f[OF x(1)] by metis
      then show "s \<in> set ?ss" using x(1) by force
    qed (use f in auto)
    then show ?thesis using Cons.IH[of ?now ?ss r2] rest False N r2 Cons.prems(3) by simp
  qed
qed simp

text \<open>A selector matches a path if it is a directory whose names match the first segments of the path.\<close>

definition selector_matches :: "metadata_env \<Rightarrow> file_tree \<Rightarrow> string list \<Rightarrow> string list \<Rightarrow> bool" where
  "selector_matches env t segs s \<longleftrightarrow>
     s \<noteq> [] \<and> length s \<le> length segs \<and> list_all2 name_matches s (take (length s) segs) \<and> store_dir env t s"

lemma level_selectors:
  assumes "wf_tree t" "segs \<noteq> []"
  shows "sm_selector ` set (level env t segs True @ level env t segs False) = rooted_path ` dirs_at env t segs"
proof -
  have "sm_selector ` set (level env t segs b) = rooted_path ` {s \<in> dirs_at env t segs. wild_name (last s) = b}" for b
    using level_dirs_set(1)[OF assms, of env] by (auto simp: level_def image_image image_iff)
  then show ?thesis by (simp add: image_Un) blast
qed

lemma levels_selectors:
  assumes "wf_tree t"
  shows "sm_selector ` set (levels env t passed segments) = rooted_path ` (\<Union>k \<in> {1..length segments}. dirs_at env t (passed @ take k segments))"
proof (induction segments arbitrary: passed)
  case (Cons segment segments)
  have e1: "{1..length (segment # segments)} = insert 1 (Suc ` {1..length segments})" by (auto simp: image_iff)
  have e2: "(\<Union>k \<in> insert 1 (Suc ` A). f k) = f 1 \<union> (\<Union>k \<in> A. f (Suc k))" for A and f :: "nat \<Rightarrow> string list set" by auto
  have "(\<Union>k \<in> {1..length (segment # segments)}. dirs_at env t (passed @ take k (segment # segments)))
      = dirs_at env t (passed @ [segment]) \<union> (\<Union>k \<in> {1..length segments}. dirs_at env t ((passed @ [segment]) @ take k segments))"
    unfolding e1 e2 by simp
  moreover have "sm_selector ` set (levels env t passed (segment # segments))
      = sm_selector ` set (level env t (passed @ [segment]) True @ level env t (passed @ [segment]) False) \<union> sm_selector ` set (levels env t (passed @ [segment]) segments)"
    by (simp add: image_Un Un_assoc)
  ultimately show ?case using Cons.IH[of "passed @ [segment]"] level_selectors[OF assms, of "passed @ [segment]" env] by (simp only: image_Un) simp
qed simp

lemma levels_match: "wf_tree t \<Longrightarrow> sm_selector ` set (levels env t [] segs) = rooted_path ` Collect (selector_matches env t segs)"
proof -
  assume wf: "wf_tree t"
  have "(\<Union>k \<in> {1..length segs}. dirs_at env t (take k segs)) = Collect (selector_matches env t segs)"
  proof (intro equalityI subsetI)
    fix s assume "s \<in> (\<Union>k \<in> {1..length segs}. dirs_at env t (take k segs))"
    then obtain k where k: "1 \<le> k" "k \<le> length segs" "list_all2 name_matches s (take k segs)" "store_dir env t s"
      by (auto simp: dirs_at_def)
    then have "length s = k" by (auto dest: list_all2_lengthD)
    then show "s \<in> Collect (selector_matches env t segs)" using k by (auto simp: selector_matches_def)
  next
    fix s assume "s \<in> Collect (selector_matches env t segs)"
    then show "s \<in> (\<Union>k \<in> {1..length segs}. dirs_at env t (take k segs))"
      by (auto simp: selector_matches_def dirs_at_def Suc_le_eq intro!: bexI[of _ "length s"])
  qed
  then show ?thesis using levels_selectors[OF wf, of env "[]" segs] by simp
qed

text \<open>C17: the metadata of a path is the merge of the documents that apply to it, from the root collection over the
  selectors, shorter before longer ones and wildcards before literal names, to the document of the resource; these
  selectors are exactly the directories of the store whose names match the segments of the path one by one.\<close>

theorem ResolveForPath_merges_matching:
  assumes "ResolveForPath env t lp = Ok m" "normalizeResolvePath lp = Ok target"
    and "splitPathSegments (rt_path target) = segs" "list_all plain_segment segs" "plain_store env" "wf_tree t" "plain_tree t"
  shows "m = merge_layers
      (concat (map (documents_of env t target metadataPathCollection) (root_match # levels env t [] segs))
       @ (if rt_collection target \<or> rt_path target = ''/'' then []
          else documents_of env t target metadataPathResource
                 \<lparr>sm_selector = rt_path target, sm_matchedCollection = collectionPathForLogicalPath (rt_path target)\<rparr>))
    \<and> sm_selector ` set (levels env t [] segs) = rooted_path ` Collect (selector_matches env t segs)"
proof -
  let ?zero = "\<lparr>res_metadata = no_metadata, res_descendant = None\<rparr>"
  let ?own = "\<lparr>sm_selector = rt_path target, sm_matchedCollection = collectionPathForLogicalPath (rt_path target)\<rparr>"
  let ?docs = "documents_of env t target metadataPathCollection"
  obtain r r0 r1 where m: "m = res_metadata r"
    and a0: "apply_match env t target metadataPathCollection root_match ?zero = Ok r0"
    and a1: "resolve_segments env t target segs [root_match] r0 = Ok r1"
    and a2: "(if \<not> rt_collection target \<and> rt_path target \<noteq> ''/'' then apply_match env t target metadataPathResource ?own r1 else Ok r1) = Ok r"
    using assms(1-3) by (auto simp: ResolveForPath_def resolveForPathWithContext_def split: result.splits)
  have root: "[root_match] = map (\<lambda>s. \<lparr>sm_selector = rooted_path s, sm_matchedCollection = rooted_path []\<rparr>) [[]]"
    by (simp add: root_match_def rooted_path_def)
  have "res_metadata r1 = merge_onto (res_metadata r0) (concat (map ?docs (levels env t [] segs)))"
    using resolve_segments_Ok[OF assms(5-7), of target segs "[]" "[[]]" r0 r1] a1 assms(4) unfolding root by simp
  then have r1: "res_metadata r1 = merge_layers (concat (map ?docs (root_match # levels env t [] segs)))"
    using apply_match_Ok[OF a0] by (simp add: merge_layers_def)
  have "res_metadata r = merge_onto (res_metadata r1) (if rt_collection target \<or> rt_path target = ''/'' then [] else documents_of env t target metadataPathResource ?own)"
    using a2 apply_match_Ok[of env t target metadataPathResource ?own r1 r] by (auto split: if_splits)
  then show ?thesis using m r1 levels_match[OF assms(6), of env segs] by (simp add: merge_layers_def)
qed

definition example_selectors :: file_tree where
  "example_selectors = [([''repo''], DirNode), ([''repo'', ''*''], DirNode), ([''repo'', ''*'', ''_''], DirNode),
     ([''repo'', ''*'', ''_'', ''metadata.yaml''], FileNode (''/id'' @ [CHR 0x0A])), ([''repo'', ''c''], DirNode), ([''repo'', ''c'', ''_''], DirNode),
     ([''repo'', ''c'', ''_'', ''metadata.yaml''], FileNode (''/name'' @ [CHR 0x0A])), ([''repo'', ''d''], DirNode)]"

lemma example_resolution: "ResolveForPath example_metadata example_selectors ''/c/a'' = Ok (no_metadata\<lparr>md_ID := ''/name''\<rparr>)"
  by code_simp

theorem ResolveForPath_merges_matching_witness:
  "\<exists>layers. no_metadata\<lparr>md_ID := ''/name''\<rparr> = merge_layers layers \<and> map md_ID layers = [''/id'', ''/name'']
   \<and> {''/*'', ''/c'', ''/*/_'', ''/c/_''} = rooted_path ` Collect (selector_matches example_metadata example_selectors [''c'', ''a''])"
proof -
  let ?target = "\<lparr>rt_path = ''/c/a'', rt_collection = False\<rparr>"
  let ?layers = "concat (map (documents_of example_metadata example_selectors ?target metadataPathCollection)
      (root_match # levels example_metadata example_selectors [] [''c'', ''a'']))
    @ documents_of example_metadata example_selectors ?target metadataPathResource \<lparr>sm_selector = ''/c/a'', sm_matchedCollection = collectionPathForLogicalPath ''/c/a''\<rparr>"
  have p: "normalizeResolvePath ''/c/a'' = Ok ?target" "splitPathSegments (rt_path ?target) = [''c'', ''a'']" "list_all plain_segment [''c'', ''a'']"
    "plain_tree example_selectors" by code_simp+
  have wf: "wf_tree example_selectors" by (rule wf_tree_check) code_simp+
  have ids: "map md_ID ?layers = [''/id'', ''/name'']" by code_simp
  have sel: "map sm_selector (levels example_metadata example_selectors [] [''c'', ''a'']) = [''/*'', ''/c'', ''/*/_'', ''/c/_'']" by code_simp
  note main = ResolveForPath_merges_matching[OF example_resolution p(1-3) example_metadata_plain(1) wf p(4)]
  have "{''/*'', ''/c'', ''/*/_'', ''/c/_''} = sm_selector ` set (levels example_metadata example_selectors [] [''c'', ''a''])"
    using arg_cong[OF sel, of set] by (simp only: set_map) simp
  then show ?thesis using main ids by (intro exI[of _ ?layers]) simp
qed

end
