(* ===== verification/Spec2Isabelle.thy ===== *)
theory Spec2Isabelle
  imports Http_Laws Orchestrator_Examples Webhook_Receiver Context_Service Skip_Items Defaults_Overlay Resource_Diff Secret_Durability Sync_Reconcile Throttle Externalized_Store Metadata_Resolution
begin

text \<open>
  Verification library of DeclaREST (src/): resources of REST services are described as files in a git
  repository and kept in step with a managed service, from the command line or by a Kubernetes operator.

  \<^bold>\<open>The program and its model.\<close>  The lower layer names and reads resources: logical paths, payload values,
  payload formats, JSON pointers, defaults.  On it stand the comparison of a local with a remote payload,
  the masking of secrets into a secret store, and the operator, which plans which paths of a revision to apply
  and prune and calls the managed service through a throttle.  One theory models one part.

  Shared library:
  \<^item> \<open>Go_Lib\<close>, \<open>Go_Path\<close>, \<open>Go_Map\<close>, \<open>Go_Unicode\<close>, \<open>Go_Glob\<close>: what the source uses of Go's \<open>strings\<close>, \<open>strconv\<close>,
    \<open>path\<close>, \<open>unicode/utf8\<close> and of maps.  A string is its list of bytes; a map with ordered keys is a sorted
    association list, so that iteration after sorting the keys is the order of the list.
  \<^item> \<open>Faults\<close> (src/faults): error categories, wrapped errors, exit codes; the type \<open>result\<close> in which every error,
    early return and panic of the source is a value.
  \<^item> \<open>Contracts\<close>: the interfaces between components as locales (normalising functions, key-value stores),
    with the lemmas their clients use.  Each is interpreted on the model of the code that provides it.

  Resources (src/resource, src/internal/orchestrator):
  \<^item> \<open>Resource_Paths\<close> (paths.go), \<open>Resource_Values\<close> (normalize.go and payload values), \<open>Json_Pointer\<close>
    (jsonpointer.go), \<open>Payload_KV\<close> (INI and properties codecs), \<open>Payload_Types\<close> (payload_codec.go,
    payload_descriptor.go), \<open>Defaults_Overlay\<close> (defaults_overlay.go), \<open>Skip_Items\<close> (skip_items.go).
  \<^item> \<open>Resource_Diff\<close> (orchestrator/diff.go, json_pointer.go, metadata/payload_mutation.go).

  Repository (src/internal/providers/repository/fsstore, src/internal/providers/fsutil):
  \<^item> \<open>File_Tree\<close>: files and directories with system calls that may fail, and the path guards;
    \<open>Local_Repository\<close>: the local store of resources; \<open>Repository_Removal\<close>: what its removals take away, with
    the locale \<open>walk_invariant\<close> of what a walk over directories keeps.

  Metadata (src/metadata, src/internal/providers/metadata/fs, src/internal/resourceexternalization):
  \<^item> \<open>Metadata_Model\<close>: documents and the merging of layers; \<open>Identity_Template\<close>: templates for the identifier and the
    alias of a resource; \<open>Externalization\<close>: attributes kept in files of their own, and \<open>Externalized_Store\<close>: such
    resources in the local repository.
  \<^item> \<open>Metadata_Store\<close>: documents and defaults on files, with their validation;
    \<open>Metadata_Resolution\<close>: which documents a path finds, children of collections, and the layered service.
  \<^item> \<open>Resource_Identity\<close> (resource/identity, metadata/validation/runtime.go): the alias and identifier of a resource and the
    attributes its operations require; \<open>Template_Scope\<close> (template_syntax.go, templatescope): placeholders and the values
    templates see; \<open>Operation_Spec\<close> (operation_spec.go, resource_format.go, render): the specification of an operation.

  Orchestrator (src/internal/orchestrator), as a state monad over a world that the repository, the metadata service, the
  managed service and the secret provider share:
  \<^item> \<open>Orchestrator_Base\<close>: those interfaces as records, local reads and saving; \<open>Orchestrator_Remote\<close>: remote reads
    with their fallbacks, lists, create, update, apply, delete, diff and template; \<open>Orchestrator_Request\<close>: raw requests.
  \<^item> \<open>Orchestrator_Laws\<close>: what a command keeps of the world and what it asks the service to change;
    \<open>Orchestrator_Fallback\<close>: when the search for a resource under other identifiers ends;
    \<open>Orchestrator_Examples\<close>: the laws on concrete services, and services on which the search goes wrong.

  Secrets (src/secrets, src/internal/providers/secrets/file):
  \<^item> \<open>Secret_Placeholders\<close>, \<open>Secret_Masking\<close>: keys, placeholders, detection, masking and resolution;
    the store is a pair of functions that pass a state.
  \<^item> \<open>Secret_Roundtrip\<close>: the locale \<open>secret_store\<close> and what masking followed by resolution gives in it.
  \<^item> \<open>Secret_File_Store\<close>: the encrypted file store with its cache, file and random source as a state;
    \<open>Secret_Durability\<close> proves it a refinement of a map and interprets \<open>secret_store\<close> on it.

  Operator (src/cronexpr, src/api/v1alpha1, src/internal/operator/controllers):
  \<^item> \<open>Cron\<close>: cron expressions and the resynchronisation schedule.
  \<^item> \<open>Sync_Plan\<close>: classification of repository files and execution plans; \<open>Conflict_Index\<close>: ownership of
    resources; \<open>Operator_Secrets\<close>: conditions and versions of referenced secrets.
  \<^item> \<open>Sync_Policy\<close>: the specification, applying and pruning over the orchestrator interface;
    \<open>Sync_Reconcile\<close>: the reconciliation as a function from an environment and a world to a result and a world.

  \<^item> \<open>Webhook_Events\<close>, \<open>Webhook_Receiver\<close> (src/internal/operator/webhookreceiver): the adapters of the git providers, with the
    locale \<open>webhook_provider\<close>, branch filters, the cache of deliveries, and the HTTP handlers over a Kubernetes client.

  Configuration (src/config, src/internal/providers/config/file, src/internal/proxy, src/envref):
  \<^item> \<open>Env_Ref\<close>: placeholders for environment variables; \<open>Context_Config\<close>: contexts, their normalisation, proxy settings, overrides,
    validation and credentials; \<open>Context_Service\<close>: the catalogue of contexts in a file and the resolution of a context.

  Managed service (src/internal/providers/managedservice/http):
  \<^item> \<open>Throttle\<close>: gates, their registry, and requests that pass a gate as an interleaving of channel operations.
  \<^item> \<open>Openapi_Schema\<close>: OpenAPI documents, their references and the validation of payloads with schemas; \<open>Http_Client\<close>: settings,
    tokens, URLs, sending and decoding; \<open>Http_Operations\<close>: building of requests, transforms, validation, lists and the operations,
    with \<open>http_server\<close>, the client as the service the orchestrator calls; \<open>Http_Laws\<close>: where requests go and what is returned.

  \<^bold>\<open>What is shown.\<close>
  \<^item> Forms and functions: accepted paths and descriptors are normal forms; \<open>ChildSegment\<close>, filters, JSON
    pointer assignment and removal, cron fields behave as described on every branch.
  \<^item> Equivalence: path overlap is segment-wise prefix; an empty diff is equality up to number comparison; the
    reduced apply targets cover what the collected ones cover; merged metadata has each directive as the deepest layer
    sets it, and the metadata of a path is the merge of exactly the documents whose selectors match it.
  \<^item> Round trips: JSON pointers, properties files, unstructured payloads, defaults, masked secrets, saved resources with
    and without externalised attributes, stored metadata documents, and the content of the file store over a restart.
  \<^item> Refinement: with system calls that fail at any point the file store acts as a map or fails without effect, and a
    command on the catalogue of contexts is carried out as a whole or not at all.
  \<^item> Safety: no detected secret survives masking; the service is touched only under the controller's guards; a
    revision is recorded only after it was applied and pruned; saving and removing a resource or a metadata document
    leave all other files alone, whatever system calls fail; a webhook acts only on a verified, new and enabled event; the
    credentials of a resolved context are those it refers to; a gate keeps its limits and loses no slot; an apply sends
    at most one creation and one update and nothing when repeated, a delete sends deletions of its own path only; the path
    of an operation is absolute, and clean unless it was written without a leading slash or dot; with a clean path the
    request of the client stays below its base URL.
  \<^item> Liveness and termination: the file store is available while its environment works; the search for the next
    cron time ends with the first match; requests at a gate cannot block each other for ever; the search for a
    remote resource ends when every identifier is one path segment, and need not end otherwise.
  \<^item> Errors and bounds: theorems on concrete inputs in which the code departs from what it documents, such as a change of
    a policy's specification that is recorded as applied without being applied, the deletion of an item in place of one
    that does not exist, a response that is cut off at its limit, or a request that leaves the base URL.

  \<^bold>\<open>Parameters.\<close>  Code outside src/ is an argument of the definitions: Unicode tables, JSON and YAML
  libraries, printing of floats, quoting, base64, AES-GCM, Argon2, SHA-256, random bytes, HMAC, the parsing of URLs, the visiting order of maps where it matters, the outcome of system
  calls and of calls to the Kubernetes API, the difference of two git revisions, the jq engine, sending a request
  over the network, prompting for credentials, the environment and the clock.  What a theorem needs of them is a hypothesis of it, with a witness on concrete functions.
  The orchestrator that the operator calls is an interface value in the source and a record of functions here; so are the
  repository, the metadata service, the managed service and the secret provider that the orchestrator calls.  The engine of Go
  templates is a parameter of the operation specifications.  Four parts of src/ that are not modelled are functions too: the
  JSON and YAML forms of a metadata document, the check of the Go templates of an operation, the inference of metadata from
  OpenAPI documents, and the conversion of Swagger 2 documents.

  \<^bold>\<open>Bounds.\<close>  Integers of the source are \<open>int\<close> with the wrap-around written out where it can occur: \<open>int64\<close> in the
  cron parser, in the lifetime of tokens, in identity templates and in payload numbers, \<open>int32\<close> in the counters of a synchronisation.  A finite \<open>float64\<close> is the
  rational number it denotes.  Payloads nest at most 256 deep and schemas 96, the limits of the source.  The loop over media type
  parameters has the length of the text as fuel, and each round consumes a character.  A walk over directories has
  the length of the longest path as fuel, which no walk exceeds.  The search of \<open>Next\<close> ends
  after five years, as in the source.  The search for a remote resource under other identifiers has a number of rounds as
  fuel and no result when it runs out; \<open>fallback_bounded\<close> gives the number that is enough.  A list may call the orchestrator
  back through its jq filter; \<open>linked\<close> allows that to a chosen depth, and the laws hold for every depth.  Every other loop is a
  total function.

  \<^bold>\<open>Not modelled.\<close>  The command line and the application services above the orchestrator, the inference,
  description and serialisation of metadata and its bundles, the git repository, the TLS and proxy settings, debug output and
  jq caches of the HTTP client, the Vault store, the other controllers; rendering of error texts, events,
  metrics and logs.  Of the operator's reconciliation the loaders of the dependencies, the construction of the
  session and the watches are given by their results.  Concurrency is modelled where the code relies on it, in
  the throttle; the other components hold a lock over each operation or belong to one request.
\<close>

end
